(* ===== verification/Prelude.thy ===== *)
theory Prelude
  imports "HOL-Library.Word" "HOL-Library.Multiset"
begin

text \<open>
  Shared vocabulary of the development: the C++ integer types as words, the byte buffer,
  the collections of facts the component theories share, and generic lemmas on lists,
  spliced byte runs and single bits. Nothing here models a part of the program by itself.
\<close>

unbundle bit_operations_syntax

section \<open>Types and fact collections\<close>

type_synonym u8 = "8 word"
type_synonym u16 = "16 word"
type_synonym u32 = "32 word"
type_synonym u64 = "64 word"
type_synonym i32 = "32 word"

text \<open>\<open>protocol::ByteBuffer\<close>, a \<open>std::vector\<close> of \<open>std::uint8_t\<close>.\<close>

type_synonym byte_buffer = "u8 list"

named_theorems wire_layout \<open>reading and writing fixed-width fields of a byte buffer\<close>
named_theorems preserves \<open>operations that keep an invariant\<close>

section \<open>Lists\<close>

text \<open>
  \<open>queue.erase(std::find_if(...))\<close>: the first element with the property is removed, and
  nothing changes where there is none.
\<close>

fun erase_first :: "('a \<Rightarrow> bool) \<Rightarrow> 'a list \<Rightarrow> 'a list" where
  "erase_first p [] = []"
| "erase_first p (x # xs) = (if p x then xs else x # erase_first p xs)"

lemma erase_first_id [simp]: "find p xs = None \<Longrightarrow> erase_first p xs = xs"
  by (induction xs) (auto split: if_splits)

lemma mset_erase_first:
  "find p xs = Some x \<Longrightarrow> mset xs = add_mset x (mset (erase_first p xs))"
  by (induction xs) (auto split: if_splits)

lemma set_erase_first_subset: "set (erase_first p xs) \<subseteq> set xs"
  by (induction xs) auto

lemma filter_erase_first_other:
  "(\<And>x. p x \<Longrightarrow> \<not> q x) \<Longrightarrow> filter q (erase_first p xs) = filter q xs"
  by (induction xs) auto

lemma find_Some_holds: "find p xs = Some x \<Longrightarrow> p x \<and> x \<in> set xs"
  by (induction xs) (auto split: if_splits)

lemma find_None_all: "find p xs = None \<longleftrightarrow> (\<forall>x \<in> set xs. \<not> p x)"
  by (induction xs) auto

lemma length_filter_erase_first:
  "find p xs = Some x \<Longrightarrow> q x \<Longrightarrow>
     length (filter q xs) = Suc (length (filter q (erase_first p xs)))"
  by (induction xs) (auto split: if_splits)

lemma sum_list_update_nat:
  "i < length xs \<Longrightarrow> sum_list (xs[i := (y::nat)]) + xs ! i = sum_list xs + y"
proof (induction xs arbitrary: i)
  case (Cons a xs)
  then show ?case by (cases i) (auto simp: add.commute add.left_commute)
qed simp

section \<open>Numbers as text\<close>

text \<open>The decimal digits, as \<open>std::to_string\<close> and an output stream print an unsigned number.\<close>

fun decimal :: "nat \<Rightarrow> string" where
  "decimal n = (if n < 10 then [char_of (48 + n)] else decimal (n div 10) @ [char_of (48 + n mod 10)])"

declare decimal.simps [simp del]

section \<open>Guard chains\<close>

text \<open>
  A function that returns early on the first failing check is a list of checks in the
  code's order, each with the value returned where its condition holds.
\<close>

fun first_failure :: "(bool \<times> 'e) list \<Rightarrow> 'e option" where
  "first_failure [] = None"
| "first_failure ((fails, e) # checks) = (if fails then Some e else first_failure checks)"

lemma first_failure_None: "first_failure checks = None \<longleftrightarrow> (\<forall>(fails, e) \<in> set checks. \<not> fails)"
  by (induction checks rule: first_failure.induct) auto

lemma first_failure_Some: "first_failure checks = Some e \<Longrightarrow> (True, e) \<in> set checks"
  by (induction checks rule: first_failure.induct) (auto split: if_splits)

section \<open>Fixed-width fields of a byte buffer\<close>

text \<open>
  The common shape of \<open>readU*At\<close> and \<open>writeU*At\<close>: a field of \<open>w\<close> bytes is read at an
  offset if it fits, and written in place of the bytes that were there. Byte_IO shows that
  the functions of \<open>byte_io.h\<close> are instances.
\<close>

definition read_at :: "nat \<Rightarrow> (byte_buffer \<Rightarrow> 'a) \<Rightarrow> byte_buffer \<Rightarrow> nat \<Rightarrow> 'a option" where
  "read_at w dec bs off =
     (if off + w \<le> length bs then Some (dec (take w (drop off bs))) else None)"

definition splice_at :: "byte_buffer \<Rightarrow> nat \<Rightarrow> byte_buffer \<Rightarrow> byte_buffer" where
  "splice_at bs off xs =
     (if off + length xs \<le> length bs then take off bs @ xs @ drop (off + length xs) bs else bs)"

lemma length_splice_at [simp]: "length (splice_at bs off xs) = length bs"
  by (simp add: splice_at_def)

lemma splice_at_skip [wire_layout]:
  "length xs \<le> off \<Longrightarrow> splice_at (xs @ ys) off v = xs @ splice_at ys (off - length xs) v"
  by (auto simp: splice_at_def)

lemma splice_at_here [wire_layout]:
  "length v = length xs \<Longrightarrow> splice_at (xs @ ys) 0 v = v @ ys"
  by (simp add: splice_at_def)

lemma splice_at_Cons [wire_layout]:
  "0 < off \<Longrightarrow> splice_at (x # ys) off v = x # splice_at ys (off - 1) v"
  by (cases off) (auto simp: splice_at_def)

lemma splice_at_byte [wire_layout]: "splice_at (x # ys) 0 [v] = v # ys"
  by (simp add: splice_at_def)

lemma read_at_Cons [wire_layout]:
  "0 < off \<Longrightarrow> read_at w dec (x # ys) off = read_at w dec ys (off - 1)"
  by (cases off) (auto simp: read_at_def)

lemma read_at_byte [wire_layout]: "read_at (Suc 0) (\<lambda>bs. bs ! 0) (x # ys) 0 = Some x"
  by (simp add: read_at_def)

lemma splice_at_all [wire_layout]: "length v = length xs \<Longrightarrow> splice_at xs 0 v = v"
  by (simp add: splice_at_def)

lemma read_at_skip [wire_layout]:
  "length xs \<le> off \<Longrightarrow> read_at w dec (xs @ ys) off = read_at w dec ys (off - length xs)"
  by (auto simp: read_at_def)

lemma read_at_None_iff: "read_at w dec bs off = None \<longleftrightarrow> length bs < off + w"
  by (auto simp: read_at_def)

lemma splice_at_nth:
  assumes "i < length bs"
  shows "splice_at bs off xs ! i =
    (if off + length xs \<le> length bs \<and> off \<le> i \<and> i < off + length xs
     then xs ! (i - off) else bs ! i)"
  using assms by (auto simp: splice_at_def nth_append)

lemma read_at_cong:
  assumes "length bs = length cs" and "\<And>i. off \<le> i \<Longrightarrow> i < off + w \<Longrightarrow> bs ! i = cs ! i"
  shows "read_at w dec bs off = read_at w dec cs off"
proof -
  have "take w (drop off bs) = take w (drop off cs)" if "off + w \<le> length bs"
    by (rule nth_equalityI) (use assms that in auto)
  then show ?thesis using assms(1) by (simp add: read_at_def)
qed

text \<open>A write leaves every field it does not overlap as it was.\<close>

lemma read_at_splice_other:
  assumes "off' + w \<le> off \<or> off + length xs \<le> off'"
  shows "read_at w dec (splice_at bs off xs) off' = read_at w dec bs off'"
proof (cases "off' + w \<le> length bs")
  case True
  show ?thesis
    by (rule read_at_cong) (use assms True in \<open>auto simp: splice_at_nth\<close>)
next
  case False
  then show ?thesis by (simp add: read_at_def)
qed

lemma read_at_update_other:
  "i < off \<or> off + w \<le> i \<Longrightarrow> read_at w dec (bs[i := b]) off = read_at w dec bs off"
  by (rule read_at_cong) auto

lemma splice_at_update_inside:
  "off \<le> i \<Longrightarrow> i < off + length xs \<Longrightarrow> off + length xs \<le> length bs \<Longrightarrow>
     splice_at (bs[i := b]) off xs = splice_at bs off xs"
  by (rule nth_equalityI) (auto simp: splice_at_nth)

lemma splice_at_update_outside:
  assumes "i < off \<or> off + length xs \<le> i"
  shows "splice_at (bs[i := b]) off xs = (splice_at bs off xs)[i := b]"
proof (rule nth_equalityI)
  fix j
  assume "j < length (splice_at (bs[i := b]) off xs)"
  then show "splice_at (bs[i := b]) off xs ! j = (splice_at bs off xs)[i := b] ! j"
    using assms by (cases "j = i") (auto simp: splice_at_nth)
qed simp

section \<open>The contract of a fixed-width field\<close>

text \<open>
  What every integer field of the wire formats promises: a value is written as exactly
  \<open>width\<close> bytes, reading those bytes gives the value back, and every run of \<open>width\<close>
  bytes is the image of the value read from it (so no two encodings denote one value).
\<close>

locale byte_field =
  fixes width :: nat
    and enc :: "'a \<Rightarrow> byte_buffer"
    and dec :: "byte_buffer \<Rightarrow> 'a"
  assumes length_enc: "length (enc v) = width"
    and dec_enc: "dec (enc v) = v"
    and enc_dec: "length bs = width \<Longrightarrow> enc (dec bs) = bs"
begin

lemma read_here: "read_at width dec (enc v @ ys) 0 = Some v"
  by (simp add: read_at_def length_enc dec_enc)

lemma read_after: "read_at width dec (xs @ enc v @ ys) (length xs) = Some v"
  by (simp add: read_at_def length_enc dec_enc)

lemma read_spliced:
  "off + width \<le> length bs \<Longrightarrow> read_at width dec (splice_at bs off (enc v)) off = Some v"
  by (simp add: read_at_def splice_at_def length_enc dec_enc)

lemma read_dropped:
  assumes rest: "drop off bs = enc v @ ys" and pos: "0 < width"
  shows "read_at width dec bs off = Some v"
proof -
  have "length bs - off = width + length ys"
    using arg_cong [OF rest, of length] by (simp add: length_enc)
  then have "off + width \<le> length bs" using pos by linarith
  then show ?thesis using rest by (simp add: read_at_def length_enc dec_enc)
qed

lemma enc_inject: "enc v = enc v' \<longleftrightarrow> v = v'"
  by (metis dec_enc)

lemma read_Some_splits:
  assumes "read_at width dec bs off = Some v"
  shows "bs = take off bs @ enc v @ drop (off + width) bs"
proof -
  from assms have fit: "off + width \<le> length bs" and v: "v = dec (take width (drop off bs))"
    by (auto simp: read_at_def split: if_splits)
  have "enc v = take width (drop off bs)"
    unfolding v by (rule enc_dec) (use fit in simp)
  moreover have "drop off bs = take width (drop off bs) @ drop (off + width) bs"
    by (metis add.commute append_take_drop_id drop_drop)
  ultimately show ?thesis by (metis append_take_drop_id)
qed

lemma read_at_update_inside:
  assumes "off + width \<le> length bs" and "off \<le> i" "i < off + width" and "b \<noteq> bs ! i"
  shows "read_at width dec (bs[i := b]) off \<noteq> read_at width dec bs off"
proof
  assume eq: "read_at width dec (bs[i := b]) off = read_at width dec bs off"
  obtain v where v: "read_at width dec bs off = Some v"
    using assms(1) by (auto simp: read_at_def)
  have "bs[i := b] = take off (bs[i := b]) @ enc v @ drop (off + width) (bs[i := b])"
    using v eq by (intro read_Some_splits) simp
  also have "\<dots> = take off bs @ enc v @ drop (off + width) bs"
    using assms(2,3) by simp
  also have "\<dots> = bs" using read_Some_splits [OF v] by simp
  finally have "(bs[i := b]) ! i = bs ! i" by simp
  then show False using assms by simp
qed

end

section \<open>Invariants of operation sequences\<close>

text \<open>
  A component with state is a step function; what every step keeps holds after every
  sequence of operations; \<open>run_total\<close> sums a measure of each step. The components instantiate
  this contract with their own
  operation types.
\<close>

fun run_total :: "('op \<Rightarrow> 's \<Rightarrow> nat) \<Rightarrow> ('op \<Rightarrow> 's \<Rightarrow> 's) \<Rightarrow> 'op list \<Rightarrow> 's \<Rightarrow> nat" where
  "run_total measured step [] s = 0"
| "run_total measured step (op # ops) s = measured op s + run_total measured step ops (step op s)"

locale kept_by_steps =
  fixes step :: "'op \<Rightarrow> 's \<Rightarrow> 's"
    and inv :: "'s \<Rightarrow> bool"
  assumes step_keeps: "inv s \<Longrightarrow> inv (step op s)"
begin

lemma run_keeps: "inv s \<Longrightarrow> inv (fold step ops s)"
  by (induction ops arbitrary: s) (auto intro: step_keeps)

lemma prefix_keeps: "inv s \<Longrightarrow> inv (fold step (take n ops) s)"
  by (rule run_keeps)

text \<open>What every step gives out is what it takes in less what it holds more.\<close>

lemma run_account:
  assumes "\<And>op s. inv s \<Longrightarrow> given op s + held (step op s) = held s + taken op s" and "inv s"
  shows "run_total given step ops s + held (fold step ops s) = held s + run_total taken step ops s"
  using assms(2)
proof (induction ops arbitrary: s)
  case (Cons op ops)
  from Cons.IH [OF step_keeps [OF Cons.prems, of op]] assms(1) [OF Cons.prems, of op] show ?case by simp
qed simp

end

end
