(* ===== verification/Byte_IO.thy ===== *)
theory Byte_IO
  imports Prelude
begin

text \<open>
  \<open>include/fusiondesk/core/protocol/byte_io.h\<close>: big-endian integers written to and read
  from a byte buffer, at an offset (\<open>writeU*At\<close>, \<open>readU*At\<close>), appended (\<open>ByteWriter\<close>) and
  read in sequence (\<open>ByteReader\<close>). A read that fails returns \<open>None\<close>; a write at an offset
  returns the C++ success flag and the buffer, unchanged on failure. Offsets and sizes are
  \<open>nat\<close>: a \<open>std::vector\<close> is shorter than \<open>2 ^ 63\<close>, so \<open>offset + 8\<close> does not wrap for the
  offsets a reader reaches; only \<open>skip\<close> takes an arbitrary \<open>std::size_t\<close> and there the
  64-bit wrap-around is written out.
\<close>

section \<open>Bytes of an integer, most significant first\<close>

definition be16 :: "u16 \<Rightarrow> byte_buffer" where
  "be16 v = [ucast (drop_bit 8 v AND 0xff), ucast (v AND 0xff)]"

definition be32 :: "u32 \<Rightarrow> byte_buffer" where
  "be32 v = [ucast (drop_bit 24 v AND 0xff), ucast (drop_bit 16 v AND 0xff),
             ucast (drop_bit 8 v AND 0xff), ucast (v AND 0xff)]"

definition be64 :: "u64 \<Rightarrow> byte_buffer" where
  "be64 v = map (\<lambda>index. ucast (drop_bit ((7 - index) * 8) v AND 0xff)) [0..<8]"

definition of16 :: "byte_buffer \<Rightarrow> u16" where
  "of16 bs = (push_bit 8 (ucast (bs ! 0))) OR ucast (bs ! 1)"

definition of32 :: "byte_buffer \<Rightarrow> u32" where
  "of32 bs = push_bit 24 (ucast (bs ! 0)) OR push_bit 16 (ucast (bs ! 1)) OR
             push_bit 8 (ucast (bs ! 2)) OR ucast (bs ! 3)"

definition of64 :: "byte_buffer \<Rightarrow> u64" where
  "of64 bs = fold (\<lambda>index value. push_bit 8 value OR ucast (bs ! index)) [0..<8] 0"

section \<open>Fields at an offset\<close>

definition writeU8At :: "byte_buffer \<Rightarrow> nat \<Rightarrow> u8 \<Rightarrow> bool \<times> byte_buffer" where
  "writeU8At output offset v =
     (if offset \<ge> length output then (False, output) else (True, output[offset := v]))"

definition writeU16At :: "byte_buffer \<Rightarrow> nat \<Rightarrow> u16 \<Rightarrow> bool \<times> byte_buffer" where
  "writeU16At output offset v =
     (if offset + 2 > length output then (False, output)
      else (True, output[offset := ucast (drop_bit 8 v AND 0xff),
                         offset + 1 := ucast (v AND 0xff)]))"

definition writeU32At :: "byte_buffer \<Rightarrow> nat \<Rightarrow> u32 \<Rightarrow> bool \<times> byte_buffer" where
  "writeU32At output offset v =
     (if offset + 4 > length output then (False, output)
      else (True, output[offset := ucast (drop_bit 24 v AND 0xff),
                         offset + 1 := ucast (drop_bit 16 v AND 0xff),
                         offset + 2 := ucast (drop_bit 8 v AND 0xff),
                         offset + 3 := ucast (v AND 0xff)]))"

definition writeU64At :: "byte_buffer \<Rightarrow> nat \<Rightarrow> u64 \<Rightarrow> bool \<times> byte_buffer" where
  "writeU64At output offset v =
     (if offset + 8 > length output then (False, output)
      else (True, fold (\<lambda>index out.
                          out[offset + index := ucast (drop_bit ((7 - index) * 8) v AND 0xff)])
                       [0..<8] output))"

definition readU8At :: "byte_buffer \<Rightarrow> nat \<Rightarrow> u8 option" where
  "readU8At input offset = (if offset \<ge> length input then None else Some (input ! offset))"

definition readU16At :: "byte_buffer \<Rightarrow> nat \<Rightarrow> u16 option" where
  "readU16At input offset =
     (if offset + 2 > length input then None
      else Some (push_bit 8 (ucast (input ! offset)) OR ucast (input ! (offset + 1))))"

definition readU32At :: "byte_buffer \<Rightarrow> nat \<Rightarrow> u32 option" where
  "readU32At input offset =
     (if offset + 4 > length input then None
      else Some (push_bit 24 (ucast (input ! offset)) OR
                 push_bit 16 (ucast (input ! (offset + 1))) OR
                 push_bit 8 (ucast (input ! (offset + 2))) OR
                 ucast (input ! (offset + 3))))"

definition readU64At :: "byte_buffer \<Rightarrow> nat \<Rightarrow> u64 option" where
  "readU64At input offset =
     (if offset + 8 > length input then None
      else Some (fold (\<lambda>index value. push_bit 8 value OR ucast (input ! (offset + index)))
                      [0..<8] 0))"

section \<open>ByteWriter\<close>

text \<open>
  The writer's only state is the buffer; each operation appends. The length-prefixed
  writers refuse a value too long for the prefix and then leave the buffer alone.
\<close>

definition bw_u8 :: "u8 \<Rightarrow> byte_buffer \<Rightarrow> byte_buffer" where
  "bw_u8 v bytes = bytes @ [v]"

definition bw_u16 :: "u16 \<Rightarrow> byte_buffer \<Rightarrow> byte_buffer" where
  "bw_u16 v bytes = bytes @ be16 v"

definition bw_u32 :: "u32 \<Rightarrow> byte_buffer \<Rightarrow> byte_buffer" where
  "bw_u32 v bytes = bytes @ be32 v"

definition bw_u64 :: "u64 \<Rightarrow> byte_buffer \<Rightarrow> byte_buffer" where
  "bw_u64 v bytes = bytes @ be64 v"

definition bw_i32 :: "i32 \<Rightarrow> byte_buffer \<Rightarrow> byte_buffer" where
  "bw_i32 v = bw_u32 (ucast v)"

definition bw_raw :: "byte_buffer \<Rightarrow> byte_buffer \<Rightarrow> byte_buffer" where
  "bw_raw v bytes = bytes @ v"

text \<open>A \<open>std::string\<close> on the wire is its bytes.\<close>

definition bw_string16 :: "byte_buffer \<Rightarrow> byte_buffer \<Rightarrow> bool \<times> byte_buffer" where
  "bw_string16 v bytes =
     (if length v > 65535 then (False, bytes)
      else (True, bw_raw v (bw_u16 (of_nat (length v)) bytes)))"

definition bw_string32 :: "byte_buffer \<Rightarrow> byte_buffer \<Rightarrow> bool \<times> byte_buffer" where
  "bw_string32 v bytes =
     (if length v > 4294967295 then (False, bytes)
      else (True, bw_raw v (bw_u32 (of_nat (length v)) bytes)))"

definition bw_bytes32 :: "byte_buffer \<Rightarrow> byte_buffer \<Rightarrow> bool \<times> byte_buffer" where
  "bw_bytes32 v bytes =
     (if length v > 4294967295 then (False, bytes)
      else (True, bw_raw v (bw_u32 (of_nat (length v)) bytes)))"

section \<open>ByteReader\<close>

record byte_reader =
  rd_bytes :: byte_buffer
  rd_offset :: nat

text \<open>
  Every operation returns the value, if it could be read, and the reader. On failure the
  offset stays where the code leaves it: the length-prefixed reads have consumed their
  prefix when the body is too long.
\<close>

definition br_u8 :: "byte_reader \<Rightarrow> u8 option \<times> byte_reader" where
  "br_u8 r = (case readU8At (rd_bytes r) (rd_offset r) of
       None \<Rightarrow> (None, r)
     | Some v \<Rightarrow> (Some v, r\<lparr>rd_offset := rd_offset r + 1\<rparr>))"

definition br_u16 :: "byte_reader \<Rightarrow> u16 option \<times> byte_reader" where
  "br_u16 r = (case readU16At (rd_bytes r) (rd_offset r) of
       None \<Rightarrow> (None, r)
     | Some v \<Rightarrow> (Some v, r\<lparr>rd_offset := rd_offset r + 2\<rparr>))"

definition br_u32 :: "byte_reader \<Rightarrow> u32 option \<times> byte_reader" where
  "br_u32 r = (case readU32At (rd_bytes r) (rd_offset r) of
       None \<Rightarrow> (None, r)
     | Some v \<Rightarrow> (Some v, r\<lparr>rd_offset := rd_offset r + 4\<rparr>))"

definition br_u64 :: "byte_reader \<Rightarrow> u64 option \<times> byte_reader" where
  "br_u64 r = (case readU64At (rd_bytes r) (rd_offset r) of
       None \<Rightarrow> (None, r)
     | Some v \<Rightarrow> (Some v, r\<lparr>rd_offset := rd_offset r + 8\<rparr>))"

definition br_i32 :: "byte_reader \<Rightarrow> i32 option \<times> byte_reader" where
  "br_i32 r = (case br_u32 r of
       (None, r') \<Rightarrow> (None, r')
     | (Some raw, r') \<Rightarrow> (Some (ucast raw), r'))"

definition br_take :: "nat \<Rightarrow> nat \<Rightarrow> byte_reader \<Rightarrow> byte_buffer option \<times> byte_reader" where
  "br_take n maxBytes r =
     (if n > maxBytes \<or> rd_offset r + n > length (rd_bytes r) then (None, r)
      else (Some (take n (drop (rd_offset r) (rd_bytes r))),
            r\<lparr>rd_offset := rd_offset r + n\<rparr>))"

definition br_string16 :: "nat \<Rightarrow> byte_reader \<Rightarrow> byte_buffer option \<times> byte_reader" where
  "br_string16 maxBytes r = (case br_u16 r of
       (None, r') \<Rightarrow> (None, r')
     | (Some n, r') \<Rightarrow> br_take (unat n) maxBytes r')"

definition br_string32 :: "nat \<Rightarrow> byte_reader \<Rightarrow> byte_buffer option \<times> byte_reader" where
  "br_string32 maxBytes r = (case br_u32 r of
       (None, r') \<Rightarrow> (None, r')
     | (Some n, r') \<Rightarrow> br_take (unat n) maxBytes r')"

definition br_bytes32 :: "nat \<Rightarrow> byte_reader \<Rightarrow> byte_buffer option \<times> byte_reader" where
  "br_bytes32 maxBytes r = (case br_u32 r of
       (None, r') \<Rightarrow> (None, r')
     | (Some n, r') \<Rightarrow> br_take (unat n) maxBytes r')"

text \<open>\<open>skip\<close> adds in \<open>std::size_t\<close>: the sum wraps at \<open>2 ^ 64\<close>.\<close>

definition br_skip :: "u64 \<Rightarrow> byte_reader \<Rightarrow> bool \<times> byte_reader" where
  "br_skip bytes r =
     (let target = (rd_offset r + unat bytes) mod 2 ^ 64
      in if target > length (rd_bytes r) then (False, r)
         else (True, r\<lparr>rd_offset := target\<rparr>))"

definition br_remaining :: "byte_reader \<Rightarrow> nat" where
  "br_remaining r =
     (if rd_offset r \<le> length (rd_bytes r) then length (rd_bytes r) - rd_offset r else 0)"

definition br_atEnd :: "byte_reader \<Rightarrow> bool" where
  "br_atEnd r = (rd_offset r = length (rd_bytes r))"

section \<open>The integers are byte fields\<close>

lemma length_be [simp]: "length (be16 a) = 2" "length (be32 b) = 4" "length (be64 c) = 8"
  by (simp_all add: be16_def be32_def be64_def)

lemma list_of_length_2: "length bs = 2 \<Longrightarrow> \<exists>a b. bs = [a, b]"
  by (auto simp: length_Suc_conv eval_nat_numeral)

lemma list_of_length_4: "length bs = 4 \<Longrightarrow> \<exists>a b c d. bs = [a, b, c, d]"
  by (auto simp: length_Suc_conv eval_nat_numeral)

lemma list_of_length_8:
  "length bs = 8 \<Longrightarrow> \<exists>a b c d e f g h. bs = [a, b, c, d, e, f, g, h]"
  by (auto simp: length_Suc_conv eval_nat_numeral)

lemma ucast_byte_mask [simp]: "ucast (x AND 255) = (ucast x :: u8)" for x :: "'a::len word"
proof -
  have "x AND 255 = take_bit 8 x"
    by (simp add: take_bit_eq_mask mask_eq_exp_minus_1)
  then show ?thesis
    by (auto intro!: bit_word_eqI simp: bit_simps dest: bit_imp_le_length)
qed

lemma no_high_byte_bit [simp]: "8 \<le> n \<Longrightarrow> \<not> bit (b :: u8) n"
  by (auto dest: bit_imp_le_length)

lemma of16_be16: "of16 (be16 v) = v"
  by (rule bit_word_eqI) (auto simp: of16_def be16_def bit_simps)

lemma be16_of16: "length bs = 2 \<Longrightarrow> be16 (of16 bs) = bs"
  by (drule list_of_length_2)
    (auto simp: of16_def be16_def bit_simps intro!: bit_word_eqI)

lemma of32_be32: "of32 (be32 v) = v"
proof (rule bit_word_eqI)
  fix n :: nat
  assume "n < LENGTH(32)"
  then show "bit (of32 (be32 v)) n = bit v n"
    by (cases "n < 8"; cases "n < 16"; cases "n < 24")
      (auto simp: of32_def be32_def bit_simps)
qed

lemma be32_of32: "length bs = 4 \<Longrightarrow> be32 (of32 bs) = bs"
  by (drule list_of_length_4)
    (auto simp: of32_def be32_def bit_simps intro!: bit_word_eqI)

text \<open>The 64-bit loops accumulate byte by byte; bit \<open>n\<close> comes from byte \<open>n div 8\<close> from the end.\<close>

lemma bit_accumulate:
  "length bs \<le> 8 \<Longrightarrow>
   bit (foldl (\<lambda>value b. push_bit 8 value OR ucast b) (0 :: u64) bs) n \<longleftrightarrow>
     n div 8 < length bs \<and> bit (rev (bs :: byte_buffer) ! (n div 8)) (n mod 8)"
proof (induction bs arbitrary: n rule: rev_induct)
  case (snoc b bs)
  show ?case
  proof (cases "n < 8")
    case True
    then show ?thesis by (simp add: bit_simps)
  next
    case False
    then obtain m where n: "n = m + 8" by (metis add.commute le_Suc_ex not_less)
    have len: "length bs \<le> 7" using snoc.prems by simp
    have "bit (foldl (\<lambda>value b. push_bit 8 value OR ucast b) (0 :: u64) (bs @ [b])) n \<longleftrightarrow>
          n < 64 \<and> bit (foldl (\<lambda>value b. push_bit 8 value OR ucast b) (0 :: u64) bs) m"
      using no_high_byte_bit [of "m + 8" b]
      by (auto simp: n bit_or_iff bit_push_bit_iff bit_ucast_iff)
    also have "\<dots> \<longleftrightarrow> n < 64 \<and> m div 8 < length bs \<and> bit (rev bs ! (m div 8)) (m mod 8)"
      using snoc.IH len by simp
    finally have eq: "bit (foldl (\<lambda>value b. push_bit 8 value OR ucast b) (0 :: u64) (bs @ [b])) n
      \<longleftrightarrow> n < 64 \<and> m div 8 < length bs \<and> bit (rev bs ! (m div 8)) (m mod 8)" .
    have "(m + 8) div 8 = Suc (m div 8)" by simp
    then show ?thesis unfolding eq using len by (auto simp: n)
  qed
qed simp

lemma fold_index_nth:
  "fold (\<lambda>index value. f value (bs ! index)) [0..<length bs] z = foldl f z bs"
proof (induction bs rule: rev_induct)
  case (snoc b bs)
  have "fold (\<lambda>index value. f value ((bs @ [b]) ! index)) [0..<length bs] z =
        fold (\<lambda>index value. f value (bs ! index)) [0..<length bs] z"
    by (rule fold_cong) (auto simp: nth_append)
  with snoc show ?case by simp
qed simp

lemma of64_accumulate:
  "length bs = 8 \<Longrightarrow> of64 bs = foldl (\<lambda>value b. push_bit 8 value OR ucast b) 0 bs"
  using fold_index_nth [of "\<lambda>value b. push_bit 8 value OR ucast b" bs 0]
  by (simp add: of64_def)

lemma be64_nth_bit:
  "i < 8 \<Longrightarrow> m < 8 \<Longrightarrow> bit (be64 v ! i) m \<longleftrightarrow> bit v ((7 - i) * 8 + m)"
  by (simp add: be64_def bit_simps)

lemma of64_bit:
  "length bs = 8 \<Longrightarrow> bit (of64 bs) n \<longleftrightarrow> n < 64 \<and> bit (bs ! (7 - n div 8)) (n mod 8)"
  by (auto simp: of64_accumulate bit_accumulate rev_nth)

lemma of64_be64: "of64 (be64 v) = v"
proof (rule bit_word_eqI)
  fix n :: nat
  assume n: "n < LENGTH(64)"
  then have "n div 8 < 8" by simp
  then have "7 - (7 - n div 8) = n div 8" "7 - n div 8 < 8" by simp_all
  then show "bit (of64 (be64 v)) n = bit v n"
    using n by (simp add: of64_bit be64_nth_bit)
qed

lemma be64_of64:
  assumes "length bs = 8"
  shows "be64 (of64 bs) = bs"
proof (rule nth_equalityI)
  fix i
  assume "i < length (be64 (of64 bs))"
  then have i: "i < 8" "7 - (7 - i) = i" "\<And>n. n < 8 \<Longrightarrow> (7 - i) * 8 + n < 64"
    by (simp_all add: assms)
  show "be64 (of64 bs) ! i = bs ! i"
    by (rule bit_word_eqI) (use i assms in \<open>simp add: be64_nth_bit of64_bit\<close>)
qed (simp add: assms)

interpretation f8: byte_field 1 "\<lambda>v. [v]" "\<lambda>bs. bs ! 0"
  by unfold_locales (auto simp: length_Suc_conv)

interpretation f16: byte_field 2 be16 of16
  by unfold_locales (simp_all add: of16_be16 be16_of16)

interpretation f32: byte_field 4 be32 of32
  by unfold_locales (simp_all add: of32_be32 be32_of32)

interpretation f64: byte_field 8 be64 of64
  by unfold_locales (simp_all add: of64_be64 be64_of64)

text \<open>The functions at an offset are the generic field reads and splices.\<close>

lemma readU8At_eq [wire_layout]: "readU8At bs off = read_at 1 (\<lambda>bs. bs ! 0) bs off"
  by (auto simp: readU8At_def read_at_def)

lemma readU16At_eq [wire_layout]: "readU16At bs off = read_at 2 of16 bs off"
  by (auto simp: readU16At_def read_at_def of16_def)

lemma readU32At_eq [wire_layout]: "readU32At bs off = read_at 4 of32 bs off"
  by (auto simp: readU32At_def read_at_def of32_def)

lemma readU64At_eq [wire_layout]: "readU64At bs off = read_at 8 of64 bs off"
proof (cases "off + 8 \<le> length bs")
  case True
  have "of64 (take 8 (drop off bs)) =
        fold (\<lambda>index value. push_bit 8 value OR ucast (bs ! (off + index))) [0..<8] 0"
    unfolding of64_def by (rule fold_cong) (use True in auto)
  with True show ?thesis by (simp add: readU64At_def read_at_def)
qed (simp add: readU64At_def read_at_def)

lemma splice_at_2:
  "off + 2 \<le> length bs \<Longrightarrow> splice_at bs off [a, b] = bs[off := a, off + 1 := b]"
  by (rule nth_equalityI) (auto simp: splice_at_nth nth_list_update nth_Cons' less_Suc_eq)

lemma splice_at_4:
  "off + 4 \<le> length bs \<Longrightarrow>
     splice_at bs off [a, b, c, d] = bs[off := a, off + 1 := b, off + 2 := c, off + 3 := d]"
  by (rule nth_equalityI) (auto simp: splice_at_nth nth_list_update nth_Cons')

lemma splice_at_map:
  "off + n \<le> length bs \<Longrightarrow>
     fold (\<lambda>index out. out[off + index := f index]) [0..<n] bs = splice_at bs off (map f [0..<n])"
proof (induction n)
  case (Suc n)
  then show ?case
    by (auto intro!: nth_equalityI simp: splice_at_nth nth_list_update nth_append)
qed (simp add: splice_at_def)

lemma writeU8At_eq [wire_layout]: "snd (writeU8At bs off v) = splice_at bs off [v]"
  by (auto simp: writeU8At_def splice_at_def upd_conv_take_nth_drop)

lemma writeU16At_eq [wire_layout]: "snd (writeU16At bs off v) = splice_at bs off (be16 v)"
  by (auto simp: writeU16At_def be16_def splice_at_2) (auto simp: splice_at_def)

lemma writeU32At_eq [wire_layout]: "snd (writeU32At bs off v) = splice_at bs off (be32 v)"
  by (auto simp: writeU32At_def be32_def splice_at_4) (auto simp: splice_at_def)

lemma writeU64At_eq [wire_layout]: "snd (writeU64At bs off v) = splice_at bs off (be64 v)"
  by (auto simp: writeU64At_def be64_def splice_at_map) (auto simp: splice_at_def)

section \<open>What a reader sees\<close>

definition rd_rest :: "byte_reader \<Rightarrow> byte_buffer" where
  "rd_rest r = drop (rd_offset r) (rd_bytes r)"

text \<open>The reader stays inside its buffer.\<close>

definition rd_inside :: "byte_reader \<Rightarrow> bool" where
  "rd_inside r \<longleftrightarrow> rd_offset r \<le> length (rd_bytes r)"

lemma rd_rest_advance:
  "rd_rest r = xs @ ys \<Longrightarrow> rd_rest (r\<lparr>rd_offset := rd_offset r + length xs\<rparr>) = ys"
  by (simp add: rd_rest_def) (metis add.commute append_eq_conv_conj drop_drop)

lemma br_u16_rest:
  "rd_rest r = be16 v @ ys \<Longrightarrow> br_u16 r = (Some v, r\<lparr>rd_offset := rd_offset r + 2\<rparr>)"
  using f16.read_dropped [of "rd_offset r" "rd_bytes r" v ys]
  by (simp add: br_u16_def readU16At_eq rd_rest_def)

lemma br_u32_rest:
  "rd_rest r = be32 v @ ys \<Longrightarrow> br_u32 r = (Some v, r\<lparr>rd_offset := rd_offset r + 4\<rparr>)"
  using f32.read_dropped [of "rd_offset r" "rd_bytes r" v ys]
  by (simp add: br_u32_def readU32At_eq rd_rest_def)

lemma br_u64_rest:
  "rd_rest r = be64 v @ ys \<Longrightarrow> br_u64 r = (Some v, r\<lparr>rd_offset := rd_offset r + 8\<rparr>)"
  using f64.read_dropped [of "rd_offset r" "rd_bytes r" v ys]
  by (simp add: br_u64_def readU64At_eq rd_rest_def)

lemma br_take_rest:
  assumes "rd_inside r" and rest: "rd_rest r = xs @ ys" and "length xs \<le> maxBytes"
  shows "br_take (length xs) maxBytes r =
    (Some xs, r\<lparr>rd_offset := rd_offset r + length xs\<rparr>)"
proof -
  have "length (rd_bytes r) - rd_offset r = length xs + length ys"
    using arg_cong [OF rest, of length] by (simp add: rd_rest_def)
  with assms show ?thesis
    by (auto simp: br_take_def rd_rest_def rd_inside_def)
qed

section \<open>Sequences of reads\<close>

text \<open>The operations of a reader, and the reader after one of them whatever its outcome.\<close>

datatype reader_op = RdU8 | RdU16 | RdU32 | RdU64 | RdI32
  | RdString16 nat | RdString32 nat | RdBytes32 nat | RdSkip u64

fun reader_step :: "reader_op \<Rightarrow> byte_reader \<Rightarrow> byte_reader" where
  "reader_step RdU8 r = snd (br_u8 r)"
| "reader_step RdU16 r = snd (br_u16 r)"
| "reader_step RdU32 r = snd (br_u32 r)"
| "reader_step RdU64 r = snd (br_u64 r)"
| "reader_step RdI32 r = snd (br_i32 r)"
| "reader_step (RdString16 m) r = snd (br_string16 m r)"
| "reader_step (RdString32 m) r = snd (br_string32 m r)"
| "reader_step (RdBytes32 m) r = snd (br_bytes32 m r)"
| "reader_step (RdSkip n) r = snd (br_skip n r)"

lemma br_words_inside [preserves]:
  assumes "rd_inside r"
  shows "rd_inside (snd (br_u8 r))" "rd_inside (snd (br_u16 r))" "rd_inside (snd (br_u32 r))"
    "rd_inside (snd (br_u64 r))" "rd_inside (snd (br_i32 r))"
  using assms
  by (auto simp: rd_inside_def br_u8_def br_u16_def br_u32_def br_u64_def br_i32_def
      readU8At_def readU16At_def readU32At_def readU64At_def)

lemma br_take_inside [preserves]: "rd_inside r \<Longrightarrow> rd_inside (snd (br_take n m r))"
  by (auto simp: br_take_def rd_inside_def)

lemma br_prefixed_inside [preserves]:
  assumes "rd_inside r"
  shows "rd_inside (snd (br_string16 m r))" "rd_inside (snd (br_string32 m r))"
    "rd_inside (snd (br_bytes32 m r))"
  using br_words_inside [OF assms]
  by (auto simp: br_string16_def br_string32_def br_bytes32_def
      split: prod.splits option.splits intro: br_take_inside)

lemma br_skip_inside [preserves]: "rd_inside r \<Longrightarrow> rd_inside (snd (br_skip n r))"
  by (auto simp: br_skip_def rd_inside_def Let_def)

lemma reader_step_inside: "rd_inside r \<Longrightarrow> rd_inside (reader_step op r)"
  by (cases op) (simp_all add: preserves)

interpretation reader: kept_by_steps reader_step rd_inside
  by unfold_locales (rule reader_step_inside)

lemma reader_step_bytes: "rd_bytes (reader_step op r) = rd_bytes r"
  by (cases op)
    (auto simp: br_u8_def br_u16_def br_u32_def br_u64_def br_i32_def br_string16_def
      br_string32_def br_bytes32_def br_take_def br_skip_def Let_def split: option.splits)

lemma reader_run_bytes: "rd_bytes (fold reader_step ops r) = rd_bytes r"
  by (induction ops arbitrary: r) (auto simp: reader_step_bytes)

section \<open>What is written in sequence is read in sequence\<close>

text \<open>
  A message body is a sequence of fields, written by one peer with a \<open>ByteWriter\<close> and read by
  the other with the reads of the same shapes.
\<close>

datatype wire_field = WU8 u8 | WU16 u16 | WU32 u32 | WU64 u64 | WI32 i32
  | WString16 byte_buffer | WString32 byte_buffer | WBytes32 byte_buffer

fun write_field :: "wire_field \<Rightarrow> byte_buffer \<Rightarrow> bool \<times> byte_buffer" where
  "write_field (WU8 v) bytes = (True, bw_u8 v bytes)"
| "write_field (WU16 v) bytes = (True, bw_u16 v bytes)"
| "write_field (WU32 v) bytes = (True, bw_u32 v bytes)"
| "write_field (WU64 v) bytes = (True, bw_u64 v bytes)"
| "write_field (WI32 v) bytes = (True, bw_i32 v bytes)"
| "write_field (WString16 v) bytes = bw_string16 v bytes"
| "write_field (WString32 v) bytes = bw_string32 v bytes"
| "write_field (WBytes32 v) bytes = bw_bytes32 v bytes"

fun read_field :: "nat \<Rightarrow> wire_field \<Rightarrow> byte_reader \<Rightarrow> wire_field option \<times> byte_reader" where
  "read_field m (WU8 _) r = map_prod (map_option WU8) id (br_u8 r)"
| "read_field m (WU16 _) r = map_prod (map_option WU16) id (br_u16 r)"
| "read_field m (WU32 _) r = map_prod (map_option WU32) id (br_u32 r)"
| "read_field m (WU64 _) r = map_prod (map_option WU64) id (br_u64 r)"
| "read_field m (WI32 _) r = map_prod (map_option WI32) id (br_i32 r)"
| "read_field m (WString16 _) r = map_prod (map_option WString16) id (br_string16 m r)"
| "read_field m (WString32 _) r = map_prod (map_option WString32) id (br_string32 m r)"
| "read_field m (WBytes32 _) r = map_prod (map_option WBytes32) id (br_bytes32 m r)"

fun field_payload :: "wire_field \<Rightarrow> byte_buffer" where
  "field_payload (WString16 v) = v"
| "field_payload (WString32 v) = v"
| "field_payload (WBytes32 v) = v"
| "field_payload _ = []"

fun write_fields :: "wire_field list \<Rightarrow> byte_buffer \<Rightarrow> bool \<times> byte_buffer" where
  "write_fields [] bytes = (True, bytes)"
| "write_fields (f # fs) bytes =
     (case write_field f bytes of (ok, bytes') \<Rightarrow> if ok then write_fields fs bytes' else (False, bytes'))"

fun read_fields :: "nat \<Rightarrow> wire_field list \<Rightarrow> byte_reader \<Rightarrow> wire_field list option \<times> byte_reader" where
  "read_fields m [] r = (Some [], r)"
| "read_fields m (f # fs) r =
     (case read_field m f r of
        (None, r') \<Rightarrow> (None, r')
      | (Some v, r') \<Rightarrow> map_prod (map_option (Cons v)) id (read_fields m fs r'))"

lemma br_u8_rest: "rd_rest r = v # ys \<Longrightarrow> br_u8 r = (Some v, r\<lparr>rd_offset := rd_offset r + 1\<rparr>)"
  using f8.read_dropped [of "rd_offset r" "rd_bytes r" v ys]
  by (simp add: br_u8_def readU8At_eq rd_rest_def)

lemma rd_rest_inside: "rd_rest r = y # ys \<Longrightarrow> rd_inside r"
  by (auto simp: rd_rest_def rd_inside_def dest: arg_cong [where f = length])

text \<open>A length prefix of \<open>w\<close> bytes followed by the bytes it counts.\<close>

lemma br_prefixed_rest:
  assumes "length v \<le> m" and "rd_inside r"
  shows "length v \<le> 65535 \<Longrightarrow> rd_rest r = be16 (of_nat (length v)) @ v @ ys \<Longrightarrow>
      br_string16 m r = (Some v, r\<lparr>rd_offset := rd_offset r + 2 + length v\<rparr>)"
    and "length v \<le> 4294967295 \<Longrightarrow> rd_rest r = be32 (of_nat (length v)) @ v @ ys \<Longrightarrow>
      br_string32 m r = (Some v, r\<lparr>rd_offset := rd_offset r + 4 + length v\<rparr>) \<and>
      br_bytes32 m r = (Some v, r\<lparr>rd_offset := rd_offset r + 4 + length v\<rparr>)"
proof -
  assume len: "length v \<le> 65535" and rest: "rd_rest r = be16 (of_nat (length v)) @ v @ ys"
  let ?r = "r\<lparr>rd_offset := rd_offset r + 2\<rparr>"
  have "rd_rest ?r = v @ ys" using rd_rest_advance [OF rest] by simp
  moreover have "rd_inside ?r"
    using br_words_inside(2) [OF assms(2)] br_u16_rest [OF rest] by simp
  ultimately have "br_take (length v) m ?r = (Some v, ?r\<lparr>rd_offset := rd_offset ?r + length v\<rparr>)"
    using assms(1) by (intro br_take_rest)
  then show "br_string16 m r = (Some v, r\<lparr>rd_offset := rd_offset r + 2 + length v\<rparr>)"
    using len by (simp add: br_string16_def br_u16_rest [OF rest] unat_of_nat)
next
  assume len: "length v \<le> 4294967295" and rest: "rd_rest r = be32 (of_nat (length v)) @ v @ ys"
  let ?r = "r\<lparr>rd_offset := rd_offset r + 4\<rparr>"
  have "rd_rest ?r = v @ ys" using rd_rest_advance [OF rest] by simp
  moreover have "rd_inside ?r"
    using br_words_inside(3) [OF assms(2)] br_u32_rest [OF rest] by simp
  ultimately have "br_take (length v) m ?r = (Some v, ?r\<lparr>rd_offset := rd_offset ?r + length v\<rparr>)"
    using assms(1) by (intro br_take_rest)
  then show "br_string32 m r = (Some v, r\<lparr>rd_offset := rd_offset r + 4 + length v\<rparr>) \<and>
      br_bytes32 m r = (Some v, r\<lparr>rd_offset := rd_offset r + 4 + length v\<rparr>)"
    using len by (simp add: br_string32_def br_bytes32_def br_u32_rest [OF rest] unat_of_nat)
qed

lemma ucast_same [simp]: "(ucast :: i32 \<Rightarrow> u32) v = v"
  by (simp add: ucast_eq)

text \<open>Each field appends one image, and reading its shape at that image gives it back.\<close>

lemma field_round_trip:
  assumes "write_field f bytes = (True, out)" and "length (field_payload f) \<le> m"
  obtains image where "out = bytes @ image"
    and "\<And>r ys. rd_inside r \<Longrightarrow> rd_rest r = image @ ys \<Longrightarrow>
      read_field m f r = (Some f, r\<lparr>rd_offset := rd_offset r + length image\<rparr>)"
  using assms
  by (cases f)
    (auto simp: bw_u8_def bw_u16_def bw_u32_def bw_u64_def bw_i32_def bw_string16_def
      bw_string32_def bw_bytes32_def bw_raw_def br_u8_rest br_u16_rest br_u32_rest br_u64_rest
      br_i32_def br_prefixed_rest split: if_splits)

lemma fields_round_trip:
  "write_fields fs bytes = (True, out) \<Longrightarrow> \<forall>f \<in> set fs. length (field_payload f) \<le> m \<Longrightarrow>
   \<exists>image. out = bytes @ image \<and> (\<forall>r ys. rd_inside r \<longrightarrow> rd_rest r = image @ ys \<longrightarrow>
     read_fields m fs r = (Some fs, r\<lparr>rd_offset := rd_offset r + length image\<rparr>))"
proof (induction fs arbitrary: bytes)
  case (Cons f fs)
  from Cons.prems(1) obtain mid where mid: "write_field f bytes = (True, mid)"
    and rest: "write_fields fs mid = (True, out)"
    by (auto split: prod.splits if_splits)
  obtain head where head: "mid = bytes @ head"
    "\<And>r ys. rd_inside r \<Longrightarrow> rd_rest r = head @ ys \<Longrightarrow>
      read_field m f r = (Some f, r\<lparr>rd_offset := rd_offset r + length head\<rparr>)"
    using field_round_trip [OF mid] Cons.prems(2) by auto
  obtain tail where tail: "out = mid @ tail"
    "\<And>r ys. rd_inside r \<Longrightarrow> rd_rest r = tail @ ys \<Longrightarrow>
      read_fields m fs r = (Some fs, r\<lparr>rd_offset := rd_offset r + length tail\<rparr>)"
    using Cons.IH [OF rest] Cons.prems(2) by auto
  have "read_fields m (f # fs) r =
      (Some (f # fs), r\<lparr>rd_offset := rd_offset r + length (head @ tail)\<rparr>)"
    if r: "rd_inside r" "rd_rest r = (head @ tail) @ ys" for r ys
  proof -
    let ?r = "r\<lparr>rd_offset := rd_offset r + length head\<rparr>"
    have next_rest: "rd_rest ?r = tail @ ys" using r(2) by (intro rd_rest_advance) simp
    have "length (rd_bytes r) - rd_offset r = length head + length tail + length ys"
      using arg_cong [OF r(2), of length] by (simp add: rd_rest_def)
    then have "rd_inside ?r" using r(1) by (simp add: rd_inside_def)
    then show ?thesis
      using head(2) [of r "tail @ ys"] tail(2) [OF _ next_rest] r by simp
  qed
  then show ?case using head(1) tail(1) by auto
qed simp

section \<open>Properties\<close>

text \<open>
  A \<open>ByteReader\<close> over any bytes stays inside its buffer and never changes it, whatever
  sequence of reads and skips, successful or not, it is asked to perform (a skip by a huge
  count included, whose sum wraps around).
\<close>

theorem reader_stays_inside:
  "rd_offset (fold reader_step ops \<lparr>rd_bytes = bytes, rd_offset = 0\<rparr>) \<le> length bytes \<and>
   rd_bytes (fold reader_step ops \<lparr>rd_bytes = bytes, rd_offset = 0\<rparr>) = bytes"
  using reader.run_keeps [of "\<lparr>rd_bytes = bytes, rd_offset = 0\<rparr>" ops]
  by (simp add: rd_inside_def reader_run_bytes)

text \<open>
  Fields written in sequence by a \<open>ByteWriter\<close> (integers, and strings and byte runs with
  a 16- or 32-bit length) are read back in sequence by a \<open>ByteReader\<close> as the same values, and
  the reader then stands exactly behind them, whatever follows.
\<close>

theorem fields_written_are_read:
  assumes "write_fields fs bytes = (True, out)"
    and "\<forall>f \<in> set fs. length (field_payload f) \<le> maxBytes"
  shows "read_fields maxBytes fs \<lparr>rd_bytes = out @ rest, rd_offset = length bytes\<rparr> =
    (Some fs, \<lparr>rd_bytes = out @ rest, rd_offset = length out\<rparr>)"
proof -
  obtain image where out: "out = bytes @ image"
    and "\<And>r ys. rd_inside r \<Longrightarrow> rd_rest r = image @ ys \<Longrightarrow>
      read_fields maxBytes fs r = (Some fs, r\<lparr>rd_offset := rd_offset r + length image\<rparr>)"
    using fields_round_trip [OF assms] by auto
  from this(2) [of "\<lparr>rd_bytes = out @ rest, rd_offset = length bytes\<rparr>" rest]
  show ?thesis by (simp add: out rd_inside_def rd_rest_def)
qed

theorem fields_written_are_read_witness:
  "read_fields 10 [WU16 515, WString16 [7, 8], WI32 9]
     \<lparr>rd_bytes = [1, 2, 3, 0, 2, 7, 8, 0, 0, 0, 9, 42], rd_offset = 1\<rparr> =
   (Some [WU16 515, WString16 [7, 8], WI32 9],
    \<lparr>rd_bytes = [1, 2, 3, 0, 2, 7, 8, 0, 0, 0, 9, 42], rd_offset = 11\<rparr>)"
  using fields_written_are_read [of "[WU16 515, WString16 [7, 8], WI32 9]" "[1]"
      "[1, 2, 3, 0, 2, 7, 8, 0, 0, 0, 9]" 10 "[42]"]
  by (simp add: bw_u16_def bw_string16_def bw_raw_def bw_i32_def bw_u32_def be16_def be32_def)

text \<open>
  \<open>skip\<close> is not monotone: a count just below \<open>2 ^ 64\<close> is accepted and moves the reader
  backwards.
\<close>

lemma skip_backwards:
  assumes "rd_inside r" and "k \<le> rd_offset r" and "0 < k" and "rd_offset r < 2 ^ 63"
  shows "br_skip (- of_nat k) r = (True, r\<lparr>rd_offset := rd_offset r - k\<rparr>)"
proof -
  have "(- of_nat k :: u64) = of_nat (2 ^ 64 - k)"
    using assms by (subst of_nat_diff) auto
  then have "unat (- of_nat k :: u64) = 2 ^ 64 - k"
    using assms by (simp only: unat_of_nat) simp
  then have "(rd_offset r + unat (- of_nat k :: u64)) mod 2 ^ 64 = rd_offset r - k"
    using assms by (simp add: mod_if)
  then show ?thesis using assms by (simp add: br_skip_def rd_inside_def Let_def)
qed

end
