(* ===== verification/Protocol_Types.thy ===== *)
theory Protocol_Types
  imports Prelude
begin

text \<open>
  \<open>protocol_types.h\<close>, \<open>packet_envelope.h\<close> and \<open>feature_flags.h\<close>: the wire enumerations, the
  packet flags, the packet envelope and feature sets. An \<open>enum class\<close> with an underlying
  integer type may hold any value of that type (the decoder casts raw integers to it, and
  the validator exists to reject the unknown ones), so a wire enumeration is its word type
  and each enumerator a constant of it.
\<close>

section \<open>Identifiers and flags\<close>

type_synonym channel_id = u16
type_synonym session_id = u64
type_synonym trace_id = u64
type_synonym message_id = u64
type_synonym packet_flags = u32

abbreviation (input) CurrentProtocolMajor :: u16 where "CurrentProtocolMajor \<equiv> 1"
abbreviation (input) CurrentProtocolMinor :: u16 where "CurrentProtocolMinor \<equiv> 0"

abbreviation (input) PacketFlagNone :: packet_flags where "PacketFlagNone \<equiv> 0x00000000"
abbreviation (input) PacketFlagResponseRequired :: packet_flags where "PacketFlagResponseRequired \<equiv> 0x00000001"
abbreviation (input) PacketFlagNoResponseRequired :: packet_flags where "PacketFlagNoResponseRequired \<equiv> 0x00000002"
abbreviation (input) PacketFlagCoalescable :: packet_flags where "PacketFlagCoalescable \<equiv> 0x00000004"
abbreviation (input) PacketFlagEndOfStream :: packet_flags where "PacketFlagEndOfStream \<equiv> 0x00000008"
abbreviation (input) PacketFlagKeyFrame :: packet_flags where "PacketFlagKeyFrame \<equiv> 0x00000010"

section \<open>Wire enumerations\<close>

type_synonym channel_type = u16

abbreviation (input) CT_Standard :: channel_type where "CT_Standard \<equiv> 0"
abbreviation (input) CT_Video :: channel_type where "CT_Video \<equiv> 1"
abbreviation (input) CT_Audio :: channel_type where "CT_Audio \<equiv> 2"
abbreviation (input) CT_Bulk :: channel_type where "CT_Bulk \<equiv> 3"
abbreviation (input) CT_Control :: channel_type where "CT_Control \<equiv> 4"
abbreviation (input) CT_Input :: channel_type where "CT_Input \<equiv> 5"

type_synonym message_kind = u16

abbreviation (input) MK_Event :: message_kind where "MK_Event \<equiv> 0"
abbreviation (input) MK_Request :: message_kind where "MK_Request \<equiv> 1"
abbreviation (input) MK_Response :: message_kind where "MK_Response \<equiv> 2"
abbreviation (input) MK_Ack :: message_kind where "MK_Ack \<equiv> 3"
abbreviation (input) MK_Error :: message_kind where "MK_Error \<equiv> 4"
abbreviation (input) MK_Progress :: message_kind where "MK_Progress \<equiv> 5"
abbreviation (input) MK_StreamStart :: message_kind where "MK_StreamStart \<equiv> 6"
abbreviation (input) MK_StreamChunk :: message_kind where "MK_StreamChunk \<equiv> 7"
abbreviation (input) MK_StreamEnd :: message_kind where "MK_StreamEnd \<equiv> 8"
abbreviation (input) MK_Cancel :: message_kind where "MK_Cancel \<equiv> 9"

type_synonym packet_priority = u8

abbreviation (input) PP_Critical :: packet_priority where "PP_Critical \<equiv> 0"
abbreviation (input) PP_Realtime :: packet_priority where "PP_Realtime \<equiv> 1"
abbreviation (input) PP_Interactive :: packet_priority where "PP_Interactive \<equiv> 2"
abbreviation (input) PP_Normal :: packet_priority where "PP_Normal \<equiv> 3"
abbreviation (input) PP_Bulk :: packet_priority where "PP_Bulk \<equiv> 4"
abbreviation (input) PP_Background :: packet_priority where "PP_Background \<equiv> 5"

type_synonym response_status = u16

abbreviation (input) RS_Ok :: response_status where "RS_Ok \<equiv> 0"
abbreviation (input) RS_Accepted :: response_status where "RS_Accepted \<equiv> 1"
abbreviation (input) RS_Progress :: response_status where "RS_Progress \<equiv> 2"
abbreviation (input) RS_InvalidArgument :: response_status where "RS_InvalidArgument \<equiv> 100"
abbreviation (input) RS_Unauthorized :: response_status where "RS_Unauthorized \<equiv> 101"
abbreviation (input) RS_DeniedByPolicy :: response_status where "RS_DeniedByPolicy \<equiv> 102"
abbreviation (input) RS_Unsupported :: response_status where "RS_Unsupported \<equiv> 103"
abbreviation (input) RS_NotFound :: response_status where "RS_NotFound \<equiv> 104"
abbreviation (input) RS_Conflict :: response_status where "RS_Conflict \<equiv> 105"
abbreviation (input) RS_Busy :: response_status where "RS_Busy \<equiv> 106"
abbreviation (input) RS_Timeout :: response_status where "RS_Timeout \<equiv> 107"
abbreviation (input) RS_Cancelled :: response_status where "RS_Cancelled \<equiv> 108"
abbreviation (input) RS_TooLarge :: response_status where "RS_TooLarge \<equiv> 109"
abbreviation (input) RS_BackPressure :: response_status where "RS_BackPressure \<equiv> 110"
abbreviation (input) RS_ChannelUnavailable :: response_status where "RS_ChannelUnavailable \<equiv> 111"
abbreviation (input) RS_Failed :: response_status where "RS_Failed \<equiv> 200"
abbreviation (input) RS_InternalError :: response_status where "RS_InternalError \<equiv> 201"
abbreviation (input) RS_ProtocolError :: response_status where "RS_ProtocolError \<equiv> 202"

type_synonym channel_id_value = u16

abbreviation (input) CID_UserAuthMain :: channel_id_value where "CID_UserAuthMain \<equiv> 0x0001"
abbreviation (input) CID_SmallData :: channel_id_value where "CID_SmallData \<equiv> 0x1001"
abbreviation (input) CID_DesktopAudio :: channel_id_value where "CID_DesktopAudio \<equiv> 0x1002"
abbreviation (input) CID_DesktopScreen :: channel_id_value where "CID_DesktopScreen \<equiv> 0x1003"
abbreviation (input) CID_LargeData :: channel_id_value where "CID_LargeData \<equiv> 0x1004"
abbreviation (input) CID_Microphone :: channel_id_value where "CID_Microphone \<equiv> 0x1005"
abbreviation (input) CID_Camera :: channel_id_value where "CID_Camera \<equiv> 0x1006"
abbreviation (input) CID_Filesystem :: channel_id_value where "CID_Filesystem \<equiv> 0x1007"
abbreviation (input) CID_Printer :: channel_id_value where "CID_Printer \<equiv> 0x1008"
abbreviation (input) CID_DesktopSecondScreen :: channel_id_value where "CID_DesktopSecondScreen \<equiv> 0x1009"
abbreviation (input) CID_Gamepad :: channel_id_value where "CID_Gamepad \<equiv> 0x100a"

type_synonym packet_type = u16

abbreviation (input) PT_ChannelInit :: packet_type where "PT_ChannelInit \<equiv> 0x0001"
abbreviation (input) PT_Heartbeat :: packet_type where "PT_Heartbeat \<equiv> 0x0002"
abbreviation (input) PT_Login :: packet_type where "PT_Login \<equiv> 0x0010"
abbreviation (input) PT_Mouse :: packet_type where "PT_Mouse \<equiv> 0x0011"
abbreviation (input) PT_Keyboard :: packet_type where "PT_Keyboard \<equiv> 0x0012"
abbreviation (input) PT_Audio :: packet_type where "PT_Audio \<equiv> 0x0013"
abbreviation (input) PT_Video :: packet_type where "PT_Video \<equiv> 0x0014"
abbreviation (input) PT_ClientDisconnect :: packet_type where "PT_ClientDisconnect \<equiv> 0x0015"
abbreviation (input) PT_ServerDisconnect :: packet_type where "PT_ServerDisconnect \<equiv> 0x0016"
abbreviation (input) PT_Control :: packet_type where "PT_Control \<equiv> 0x0017"
abbreviation (input) PT_PayloadAck :: packet_type where "PT_PayloadAck \<equiv> 0x0018"
abbreviation (input) PT_CursorChange :: packet_type where "PT_CursorChange \<equiv> 0x0019"
abbreviation (input) PT_Exchange :: packet_type where "PT_Exchange \<equiv> 0x001a"
abbreviation (input) PT_Clipboard :: packet_type where "PT_Clipboard \<equiv> 0x001b"
abbreviation (input) PT_Microphone :: packet_type where "PT_Microphone \<equiv> 0x001c"
abbreviation (input) PT_Filesystem :: packet_type where "PT_Filesystem \<equiv> 0x001d"
abbreviation (input) PT_Printer :: packet_type where "PT_Printer \<equiv> 0x001e"
abbreviation (input) PT_FilesystemControl :: packet_type where "PT_FilesystemControl \<equiv> 0x001f"
abbreviation (input) PT_FilesystemIrp :: packet_type where "PT_FilesystemIrp \<equiv> 0x0020"
abbreviation (input) PT_UdpInit :: packet_type where "PT_UdpInit \<equiv> 0x0021"
abbreviation (input) PT_CheckLicense :: packet_type where "PT_CheckLicense \<equiv> 0x0022"
abbreviation (input) PT_Touchscreen :: packet_type where "PT_Touchscreen \<equiv> 0x0023"
abbreviation (input) PT_Gamepad :: packet_type where "PT_Gamepad \<equiv> 0x0024"
abbreviation (input) PT_Watermark :: packet_type where "PT_Watermark \<equiv> 0x0025"

section \<open>The packet envelope\<close>

record packet_envelope =
  pk_protocolMajor :: u16
  pk_protocolMinor :: u16
  pk_sessionId :: session_id
  pk_traceId :: trace_id
  pk_messageId :: message_id
  pk_correlationId :: message_id
  pk_responseTo :: message_id
  pk_channelId :: channel_id
  pk_channelType :: channel_type
  pk_packetType :: packet_type
  pk_messageKind :: message_kind
  pk_priority :: packet_priority
  pk_responseStatus :: response_status
  pk_sequence :: u64
  pk_monotonicTimestampUsec :: u64
  pk_timeoutMs :: u32
  pk_flags :: packet_flags
  pk_payload :: byte_buffer

text \<open>The envelope with the member initialisers of the struct.\<close>

definition default_packet :: packet_envelope where
  "default_packet = \<lparr>
     pk_protocolMajor = CurrentProtocolMajor, pk_protocolMinor = CurrentProtocolMinor,
     pk_sessionId = 0, pk_traceId = 0, pk_messageId = 0, pk_correlationId = 0,
     pk_responseTo = 0, pk_channelId = 0, pk_channelType = CT_Standard,
     pk_packetType = PT_Heartbeat, pk_messageKind = MK_Event, pk_priority = PP_Normal,
     pk_responseStatus = RS_Ok, pk_sequence = 0, pk_monotonicTimestampUsec = 0,
     pk_timeoutMs = 0, pk_flags = PacketFlagNone, pk_payload = []\<rparr>"

section \<open>Feature sets\<close>

type_synonym feature_mask = u64

abbreviation (input) Feature_Mouse :: feature_mask where "Feature_Mouse \<equiv> 0x0000000000000001"
abbreviation (input) Feature_Keyboard :: feature_mask where "Feature_Keyboard \<equiv> 0x0000000000000002"
abbreviation (input) Feature_Display :: feature_mask where "Feature_Display \<equiv> 0x0000000000000004"
abbreviation (input) Feature_Audio :: feature_mask where "Feature_Audio \<equiv> 0x0000000000000008"
abbreviation (input) Feature_Clipboard :: feature_mask where "Feature_Clipboard \<equiv> 0x0000000000000010"
abbreviation (input) Feature_Microphone :: feature_mask where "Feature_Microphone \<equiv> 0x0000000000000020"
abbreviation (input) Feature_Camera :: feature_mask where "Feature_Camera \<equiv> 0x0000000000000040"
abbreviation (input) Feature_SecondDisplay :: feature_mask where "Feature_SecondDisplay \<equiv> 0x0000000000000080"
abbreviation (input) Feature_Filesystem :: feature_mask where "Feature_Filesystem \<equiv> 0x0000000000000100"
abbreviation (input) Feature_Screen :: feature_mask where "Feature_Screen \<equiv> 0x0000000000000200"
abbreviation (input) Feature_Printer :: feature_mask where "Feature_Printer \<equiv> 0x0000000000000400"
abbreviation (input) Feature_Touch :: feature_mask where "Feature_Touch \<equiv> 0x0000000000000800"
abbreviation (input) Feature_Gamepad :: feature_mask where "Feature_Gamepad \<equiv> 0x0000000000001000"
abbreviation (input) Feature_PeripheralUsb :: feature_mask where "Feature_PeripheralUsb \<equiv> 0x0000000100000000"

definition Feature_RemoteDesktopBase :: feature_mask where
  "Feature_RemoteDesktopBase = Feature_Screen OR Feature_Display OR Feature_Mouse OR Feature_Keyboard"

definition Feature_RedirectionSuite :: feature_mask where
  "Feature_RedirectionSuite = Feature_Clipboard OR Feature_Filesystem OR Feature_Printer OR
     Feature_Camera OR Feature_Audio OR Feature_Microphone"

definition Feature_EnterpriseSuite :: feature_mask where
  "Feature_EnterpriseSuite = Feature_RemoteDesktopBase OR Feature_RedirectionSuite OR
     Feature_SecondDisplay OR Feature_Touch OR Feature_Gamepad OR Feature_PeripheralUsb"

text \<open>\<open>FeatureSet\<close> has the mask as its only member.\<close>

type_synonym feature_set = feature_mask

definition feature_has :: "feature_set \<Rightarrow> feature_mask \<Rightarrow> bool" where
  "feature_has bits feature \<longleftrightarrow> bits AND feature = feature"

definition feature_enable :: "feature_set \<Rightarrow> feature_mask \<Rightarrow> feature_set" where
  "feature_enable bits feature = bits OR feature"

definition feature_disable :: "feature_set \<Rightarrow> feature_mask \<Rightarrow> feature_set" where
  "feature_disable bits feature = bits AND NOT feature"

lemma feature_has_iff: "feature_has bits f \<longleftrightarrow> (\<forall>n. bit f n \<longrightarrow> bit bits n)"
proof
  assume "feature_has bits f"
  then have "bit (bits AND f) n = bit f n" for n
    by (simp add: feature_has_def)
  then show "\<forall>n. bit f n \<longrightarrow> bit bits n"
    by (auto simp: bit_and_iff)
next
  assume "\<forall>n. bit f n \<longrightarrow> bit bits n"
  then show "feature_has bits f"
    by (auto simp: feature_has_def bit_and_iff intro!: bit_word_eqI)
qed

lemma feature_has_enable [simp]: "feature_has (feature_enable bits f) f"
  by (simp add: feature_has_iff feature_enable_def bit_or_iff)

lemma feature_has_and:
  "feature_has (a AND b) f \<longleftrightarrow> feature_has a f \<and> feature_has b f"
  by (auto simp: feature_has_iff bit_and_iff)

lemma feature_has_trans: "feature_has a b \<Longrightarrow> feature_has b c \<Longrightarrow> feature_has a c"
  by (auto simp: feature_has_iff)

lemma feature_has_refl [simp]: "feature_has a a"
  by (simp add: feature_has_def)

end
