(* ===== verification/Capability_Negotiation.thy ===== *)
theory Capability_Negotiation
  imports Byte_IO Protocol_Types
begin

text \<open>
  \<open>src/core/protocol/capability_negotiation.cpp\<close>: the payload that carries a peer's
  capabilities (encoder and decoder) and the negotiation of two peers' capabilities. The
  list-valued capabilities are lists of raw 16-bit enumeration values, as on the wire.
\<close>

section \<open>Capabilities\<close>

abbreviation (input) CapabilityPayloadMagic :: u32 where "CapabilityPayloadMagic \<equiv> 0x46443243"
abbreviation (input) CapabilityPayloadVersion :: u16 where "CapabilityPayloadVersion \<equiv> 1"
abbreviation (input) kMinimumPayloadSize :: nat where "kMinimumPayloadSize \<equiv> 52"
abbreviation (input) kCapabilityFlagDirectTunnel :: u16 where
  "kCapabilityFlagDirectTunnel \<equiv> 0x0001"

record protocol_limits =
  lim_maxPayloadBytes :: u32
  lim_maxStreamChunkBytes :: u32
  lim_minRequestTimeoutMs :: u32
  lim_defaultRequestTimeoutMs :: u32
  lim_maxRequestTimeoutMs :: u32
  lim_maxChannels :: u16
  lim_maxPendingRequests :: u32

definition default_limits :: protocol_limits where
  "default_limits = \<lparr>
     lim_maxPayloadBytes = 16 * 1024 * 1024, lim_maxStreamChunkBytes = 1024 * 1024,
     lim_minRequestTimeoutMs = 100, lim_defaultRequestTimeoutMs = 5000,
     lim_maxRequestTimeoutMs = 30000, lim_maxChannels = 16, lim_maxPendingRequests = 4096\<rparr>"

record protocol_capabilities =
  cap_protocolMajor :: u16
  cap_protocolMinor :: u16
  cap_features :: feature_set
  cap_channelTypes :: "channel_type list"
  cap_packetTypes :: "packet_type list"
  cap_messageKinds :: "message_kind list"
  cap_limits :: protocol_limits
  cap_directTunnelSupported :: bool

definition default_capabilities :: protocol_capabilities where
  "default_capabilities = \<lparr>
     cap_protocolMajor = CurrentProtocolMajor, cap_protocolMinor = CurrentProtocolMinor,
     cap_features = 0, cap_channelTypes = [], cap_packetTypes = [], cap_messageKinds = [],
     cap_limits = default_limits, cap_directTunnelSupported = False\<rparr>"

section \<open>The payload codec\<close>

definition cap_writeU16 :: "byte_buffer \<Rightarrow> u16 \<Rightarrow> byte_buffer" where
  "cap_writeU16 bytes v = bytes @ be16 v"

definition cap_writeU32 :: "byte_buffer \<Rightarrow> u32 \<Rightarrow> byte_buffer" where
  "cap_writeU32 bytes v = bytes @ be32 v"

definition cap_writeU64 :: "byte_buffer \<Rightarrow> u64 \<Rightarrow> byte_buffer" where
  "cap_writeU64 bytes v = bytes @ be64 v"

text \<open>
  The reads index the buffer without a check; every call below is at an offset whose
  field the preceding checks have shown to lie inside (\<open>cap_read_eq\<close>).
\<close>

definition cap_readU16 :: "byte_buffer \<Rightarrow> nat \<Rightarrow> u16" where
  "cap_readU16 bytes offset =
     push_bit 8 (ucast (bytes ! offset)) OR ucast (bytes ! (offset + 1))"

definition cap_readU32 :: "byte_buffer \<Rightarrow> nat \<Rightarrow> u32" where
  "cap_readU32 bytes offset =
     push_bit 24 (ucast (bytes ! offset)) OR push_bit 16 (ucast (bytes ! (offset + 1))) OR
     push_bit 8 (ucast (bytes ! (offset + 2))) OR ucast (bytes ! (offset + 3))"

definition cap_readU64 :: "byte_buffer \<Rightarrow> nat \<Rightarrow> u64" where
  "cap_readU64 bytes offset =
     fold (\<lambda>index v. push_bit 8 v OR ucast (bytes ! (offset + index))) [0..<8] 0"

definition writeEnumList :: "byte_buffer \<Rightarrow> u16 list \<Rightarrow> byte_buffer" where
  "writeEnumList bytes vs = fold (\<lambda>v bytes. cap_writeU16 bytes v) vs
     (cap_writeU16 bytes (of_nat (length vs)))"

text \<open>The loop of \<open>readEnumList\<close>: \<open>count\<close> values from \<open>offset\<close> on, in order.\<close>

fun readEnumValues :: "byte_buffer \<Rightarrow> nat \<Rightarrow> nat \<Rightarrow> u16 list \<times> nat" where
  "readEnumValues bytes 0 offset = ([], offset)"
| "readEnumValues bytes (Suc n) offset =
     (let (vs, end) = readEnumValues bytes n (offset + 2)
      in (cap_readU16 bytes offset # vs, end))"

definition readEnumList :: "byte_buffer \<Rightarrow> nat \<Rightarrow> nat \<Rightarrow> string + u16 list \<times> nat" where
  "readEnumList bytes maxListItems offset =
    (if offset > length bytes \<or> length bytes - offset < 2 then
       Inl ''missing capability list length''
     else let count = unat (cap_readU16 bytes offset); offset = offset + 2 in
       if count > maxListItems then Inl ''capability list exceeds decoder limit''
       else if (length bytes - offset) div 2 < count then Inl ''capability list is truncated''
       else Inr (readEnumValues bytes count offset))"

record payload_options =
  po_maxPayloadBytes :: nat
  po_maxListItems :: nat

definition default_payload_options :: payload_options where
  "default_payload_options = \<lparr>po_maxPayloadBytes = 64 * 1024, po_maxListItems = 256\<rparr>"

datatype capability_decode_status =
  CD_Ok | CD_Incomplete | CD_InvalidMagic | CD_UnsupportedPayloadVersion | CD_PayloadTooLarge
  | CD_Malformed

record capability_decode_result =
  cd_status :: capability_decode_status
  cd_capabilities :: protocol_capabilities
  cd_message :: string

definition decodeFail :: "capability_decode_status \<Rightarrow> string \<Rightarrow> capability_decode_result" where
  "decodeFail status message =
     \<lparr>cd_status = status, cd_capabilities = default_capabilities, cd_message = message\<rparr>"

definition encodeCapabilities :: "protocol_capabilities \<Rightarrow> byte_buffer" where
  "encodeCapabilities c =
    (let limits = cap_limits c;
         bytes = [];
         bytes = cap_writeU32 bytes CapabilityPayloadMagic;
         bytes = cap_writeU16 bytes CapabilityPayloadVersion;
         bytes = cap_writeU16 bytes (cap_protocolMajor c);
         bytes = cap_writeU16 bytes (cap_protocolMinor c);
         bytes = cap_writeU16 bytes
           (if cap_directTunnelSupported c then kCapabilityFlagDirectTunnel else 0);
         bytes = cap_writeU64 bytes (cap_features c);
         bytes = cap_writeU32 bytes (lim_maxPayloadBytes limits);
         bytes = cap_writeU32 bytes (lim_maxStreamChunkBytes limits);
         bytes = cap_writeU32 bytes (lim_minRequestTimeoutMs limits);
         bytes = cap_writeU32 bytes (lim_defaultRequestTimeoutMs limits);
         bytes = cap_writeU32 bytes (lim_maxRequestTimeoutMs limits);
         bytes = cap_writeU16 bytes (lim_maxChannels limits);
         bytes = cap_writeU32 bytes (lim_maxPendingRequests limits);
         bytes = writeEnumList bytes (cap_channelTypes c);
         bytes = writeEnumList bytes (cap_packetTypes c)
     in writeEnumList bytes (cap_messageKinds c))"

text \<open>
  The fixed part ends at offset 46, where the three lists start. Decoding reads it only
  after the size, magic and version checks.
\<close>

definition decodeFixedPart :: "byte_buffer \<Rightarrow> protocol_capabilities" where
  "decodeFixedPart payload = default_capabilities\<lparr>
     cap_protocolMajor := cap_readU16 payload 6,
     cap_protocolMinor := cap_readU16 payload 8,
     cap_directTunnelSupported :=
       (cap_readU16 payload 10 AND kCapabilityFlagDirectTunnel = kCapabilityFlagDirectTunnel),
     cap_features := cap_readU64 payload 12,
     cap_limits := \<lparr>
       lim_maxPayloadBytes = cap_readU32 payload 20,
       lim_maxStreamChunkBytes = cap_readU32 payload 24,
       lim_minRequestTimeoutMs = cap_readU32 payload 28,
       lim_defaultRequestTimeoutMs = cap_readU32 payload 32,
       lim_maxRequestTimeoutMs = cap_readU32 payload 36,
       lim_maxChannels = cap_readU16 payload 40,
       lim_maxPendingRequests = cap_readU32 payload 42\<rparr>\<rparr>"

definition decodeLists ::
    "payload_options \<Rightarrow> byte_buffer \<Rightarrow> string + (u16 list \<times> u16 list \<times> u16 list) \<times> nat" where
  "decodeLists options payload =
    (case readEnumList payload (po_maxListItems options) 46 of
       Inl error \<Rightarrow> Inl error
     | Inr (channelTypes, offset) \<Rightarrow>
    (case readEnumList payload (po_maxListItems options) offset of
       Inl error \<Rightarrow> Inl error
     | Inr (packetTypes, offset) \<Rightarrow>
    (case readEnumList payload (po_maxListItems options) offset of
       Inl error \<Rightarrow> Inl error
     | Inr (messageKinds, offset) \<Rightarrow> Inr ((channelTypes, packetTypes, messageKinds), offset))))"

definition decodeCapabilities ::
    "payload_options \<Rightarrow> byte_buffer \<Rightarrow> capability_decode_result" where
  "decodeCapabilities options payload =
    (if length payload > po_maxPayloadBytes options then
       decodeFail CD_PayloadTooLarge ''capability payload exceeds decoder limit''
     else if length payload < kMinimumPayloadSize then
       decodeFail CD_Incomplete ''capability payload is shorter than fixed header''
     else if cap_readU32 payload 0 \<noteq> CapabilityPayloadMagic then
       decodeFail CD_InvalidMagic ''capability payload magic mismatch''
     else if cap_readU16 payload 4 \<noteq> CapabilityPayloadVersion then
       decodeFail CD_UnsupportedPayloadVersion ''unsupported capability payload version''
     else case decodeLists options payload of
       Inl error \<Rightarrow> decodeFail CD_Malformed error
     | Inr ((channelTypes, packetTypes, messageKinds), offset) \<Rightarrow>
         if offset \<noteq> length payload then
           decodeFail CD_Malformed ''capability payload has trailing bytes''
         else \<lparr>cd_status = CD_Ok,
               cd_capabilities = (decodeFixedPart payload)\<lparr>
                 cap_channelTypes := channelTypes, cap_packetTypes := packetTypes,
                 cap_messageKinds := messageKinds\<rparr>,
               cd_message = []\<rparr>)"

section \<open>Decoding inverts encoding\<close>

lemma cap_read_eq:
  "off + 2 \<le> length bs \<Longrightarrow> read_at 2 of16 bs off = Some (cap_readU16 bs off)"
  "off + 4 \<le> length bs \<Longrightarrow> read_at 4 of32 bs off = Some (cap_readU32 bs off)"
  "off + 8 \<le> length bs \<Longrightarrow> read_at 8 of64 bs off = Some (cap_readU64 bs off)"
  by (simp_all add: cap_readU16_def cap_readU32_def cap_readU64_def readU16At_def readU32At_def
      readU64At_def flip: readU16At_eq readU32At_eq readU64At_eq)

lemma writeEnumList_eq:
  "writeEnumList bytes vs = bytes @ be16 (of_nat (length vs)) @ concat (map be16 vs)"
proof -
  have "fold (\<lambda>v bytes. cap_writeU16 bytes v) vs bs = bs @ concat (map be16 vs)" for bs
    by (induction vs arbitrary: bs) (simp_all add: cap_writeU16_def)
  then show ?thesis by (simp add: writeEnumList_def cap_writeU16_def)
qed

lemma length_concat_be16 [simp]: "length (concat (map be16 vs)) = 2 * length vs"
  by (induction vs) simp_all

lemma read_at_prefix:
  "off = length xs \<Longrightarrow> read_at w dec (xs @ ys) off = read_at w dec ys 0"
  by (simp add: read_at_skip)

lemma cap_readU16_at:
  assumes "off = length xs"
  shows "cap_readU16 (xs @ be16 v @ ys) off = v"
  using f16.read_after [of xs v ys] cap_read_eq(1) [of off "xs @ be16 v @ ys"] assms by simp

lemma readEnumValues_concat:
  "off = length xs \<Longrightarrow>
     readEnumValues (xs @ concat (map be16 vs) @ ys) (length vs) off = (vs, off + 2 * length vs)"
proof (induction vs arbitrary: xs off)
  case (Cons v vs)
  then show ?case
    using Cons.IH [of "off + 2" "xs @ be16 v"] cap_readU16_at [of off xs v "concat (map be16 vs) @ ys"]
    by simp
qed simp

lemma readEnumList_written:
  assumes "off = length xs" and "length vs \<le> maxListItems" and "length vs < 2 ^ 16"
  shows "readEnumList (xs @ be16 (of_nat (length vs)) @ concat (map be16 vs) @ ys) maxListItems off =
    Inr (vs, off + 2 + 2 * length vs)"
proof -
  have "cap_readU16 (xs @ be16 (of_nat (length vs)) @ concat (map be16 vs) @ ys) off =
        of_nat (length vs)"
    using assms(1) by (rule cap_readU16_at)
  moreover have "unat (of_nat (length vs) :: u16) = length vs"
    using assms(3) by (simp add: unat_of_nat)
  ultimately show ?thesis
    using assms(1,2) readEnumValues_concat [of "off + 2" "xs @ be16 (of_nat (length vs))" vs ys]
    by (simp add: readEnumList_def Let_def)
qed

text \<open>The fixed part of the payload, in wire order.\<close>

definition fixed_part :: "protocol_capabilities \<Rightarrow> byte_buffer" where
  "fixed_part c = be32 CapabilityPayloadMagic @ be16 CapabilityPayloadVersion @
     be16 (cap_protocolMajor c) @ be16 (cap_protocolMinor c) @
     be16 (if cap_directTunnelSupported c then 1 else 0) @ be64 (cap_features c) @
     be32 (lim_maxPayloadBytes (cap_limits c)) @ be32 (lim_maxStreamChunkBytes (cap_limits c)) @
     be32 (lim_minRequestTimeoutMs (cap_limits c)) @
     be32 (lim_defaultRequestTimeoutMs (cap_limits c)) @
     be32 (lim_maxRequestTimeoutMs (cap_limits c)) @ be16 (lim_maxChannels (cap_limits c)) @
     be32 (lim_maxPendingRequests (cap_limits c))"

definition list_part :: "u16 list \<Rightarrow> byte_buffer" where
  "list_part vs = be16 (of_nat (length vs)) @ concat (map be16 vs)"

lemma length_parts [simp]:
  "length (fixed_part c) = 46" "length (list_part vs) = 2 + 2 * length vs"
  by (simp_all add: fixed_part_def list_part_def)

lemma encodeCapabilities_layout:
  "encodeCapabilities c = fixed_part c @ list_part (cap_channelTypes c) @
     list_part (cap_packetTypes c) @ list_part (cap_messageKinds c)"
  by (simp add: encodeCapabilities_def Let_def writeEnumList_eq cap_writeU16_def
      cap_writeU32_def cap_writeU64_def fixed_part_def list_part_def)

lemma cap_read_the:
  "off + 2 \<le> length bs \<Longrightarrow> cap_readU16 bs off = the (read_at 2 of16 bs off)"
  "off + 4 \<le> length bs \<Longrightarrow> cap_readU32 bs off = the (read_at 4 of32 bs off)"
  "off + 8 \<le> length bs \<Longrightarrow> cap_readU64 bs off = the (read_at 8 of64 bs off)"
  by (simp_all add: cap_read_eq)

lemma decode_fixed_part:
  "cap_readU32 (fixed_part c @ rest) 0 = CapabilityPayloadMagic"
  "cap_readU16 (fixed_part c @ rest) 4 = CapabilityPayloadVersion"
  "decodeFixedPart (fixed_part c @ rest) =
     c\<lparr>cap_channelTypes := [], cap_packetTypes := [], cap_messageKinds := []\<rparr>"
  by (simp_all add: decodeFixedPart_def default_capabilities_def cap_read_the)
    (simp_all add: fixed_part_def wire_layout f16.read_here f32.read_here f64.read_here)

lemma readEnumList_list_part:
  "off = length xs \<Longrightarrow> length vs \<le> maxListItems \<Longrightarrow> length vs < 2 ^ 16 \<Longrightarrow>
   readEnumList (xs @ list_part vs @ ys) maxListItems off = Inr (vs, off + length (list_part vs))"
  using readEnumList_written [of off xs vs maxListItems ys] by (simp add: list_part_def)

definition lists_fit :: "payload_options \<Rightarrow> protocol_capabilities \<Rightarrow> bool" where
  "lists_fit options c \<longleftrightarrow>
     (\<forall>vs \<in> {cap_channelTypes c, cap_packetTypes c, cap_messageKinds c}.
        length vs \<le> po_maxListItems options \<and> length vs < 2 ^ 16) \<and>
     length (encodeCapabilities c) \<le> po_maxPayloadBytes options"

lemma decodeLists_encoded:
  assumes "lists_fit options c"
  shows "decodeLists options (encodeCapabilities c @ rest) =
    Inr ((cap_channelTypes c, cap_packetTypes c, cap_messageKinds c),
         length (encodeCapabilities c))"
proof -
  let ?m = "po_maxListItems options"
  let ?f = "fixed_part c" and ?a = "list_part (cap_channelTypes c)"
  let ?b = "list_part (cap_packetTypes c)" and ?d = "list_part (cap_messageKinds c)"
  from assms have fit: "length vs \<le> ?m \<and> length vs < 2 ^ 16"
    if "vs \<in> {cap_channelTypes c, cap_packetTypes c, cap_messageKinds c}" for vs
    using that unfolding lists_fit_def by blast
  have "readEnumList (?f @ ?a @ ?b @ ?d @ rest) ?m 46 = Inr (cap_channelTypes c, 46 + length ?a)"
    using fit by (intro readEnumList_list_part) auto
  moreover have "readEnumList ((?f @ ?a) @ ?b @ ?d @ rest) ?m (46 + length ?a) =
      Inr (cap_packetTypes c, 46 + length ?a + length ?b)"
    using fit by (intro readEnumList_list_part) auto
  moreover have "readEnumList ((?f @ ?a @ ?b) @ ?d @ rest) ?m (46 + length ?a + length ?b) =
      Inr (cap_messageKinds c, 46 + length ?a + length ?b + length ?d)"
    using fit by (intro readEnumList_list_part) auto
  ultimately show ?thesis
    by (simp add: decodeLists_def encodeCapabilities_layout)
qed

lemma decodeCapabilities_extended:
  assumes "lists_fit options c"
    and "length (encodeCapabilities c) + length rest \<le> po_maxPayloadBytes options"
  shows "decodeCapabilities options (encodeCapabilities c @ rest) =
    (if rest = [] then \<lparr>cd_status = CD_Ok, cd_capabilities = c, cd_message = []\<rparr>
     else decodeFail CD_Malformed ''capability payload has trailing bytes'')"
proof -
  have "52 \<le> length (encodeCapabilities c)"
    by (simp add: encodeCapabilities_layout)
  moreover have "cap_readU32 (encodeCapabilities c @ rest) 0 = CapabilityPayloadMagic"
    "cap_readU16 (encodeCapabilities c @ rest) 4 = CapabilityPayloadVersion"
    "decodeFixedPart (encodeCapabilities c @ rest) =
       c\<lparr>cap_channelTypes := [], cap_packetTypes := [], cap_messageKinds := []\<rparr>"
    by (simp_all add: encodeCapabilities_layout decode_fixed_part)
  ultimately show ?thesis
    using assms(2) by (auto simp: decodeCapabilities_def decodeLists_encoded [OF assms(1)])
qed

lemma decodeCapabilities_encoded:
  assumes "lists_fit options c"
  shows "decodeCapabilities options (encodeCapabilities c) =
    \<lparr>cd_status = CD_Ok, cd_capabilities = c, cd_message = []\<rparr>"
  using decodeCapabilities_extended [OF assms, of "[]"] assms by (simp add: lists_fit_def)

text \<open>
  Every accepted payload is exactly as long as its lists say, and no list is longer than
  the decoder's limit.
\<close>

lemma readEnumValues_sizes:
  "length (fst (readEnumValues bytes n off)) = n \<and> snd (readEnumValues bytes n off) = off + 2 * n"
  by (induction n arbitrary: off) (simp_all add: Let_def split_beta)

lemma readEnumValues_end: "readEnumValues bytes n off = (vs, e) \<Longrightarrow> length vs = n \<and> e = off + 2 * n"
  using readEnumValues_sizes [of bytes n off] by simp

lemma readEnumList_Inr:
  "readEnumList bytes m off = Inr (vs, e) \<Longrightarrow>
     length vs \<le> m \<and> e = off + 2 + 2 * length vs \<and> e \<le> length bytes"
  by (auto simp: readEnumList_def Let_def split: if_splits dest!: readEnumValues_end)

lemma decodeLists_Inr:
  "decodeLists options payload = Inr ((cs, ps, ms), e) \<Longrightarrow>
     length cs \<le> po_maxListItems options \<and> length ps \<le> po_maxListItems options \<and>
     length ms \<le> po_maxListItems options \<and>
     e = 52 + 2 * (length cs + length ps + length ms)"
  by (auto simp: decodeLists_def split: sum.splits dest!: readEnumList_Inr)

lemma decodeCapabilities_ok_size:
  assumes "cd_status (decodeCapabilities options payload) = CD_Ok"
  defines "c \<equiv> cd_capabilities (decodeCapabilities options payload)"
  shows "length payload =
      52 + 2 * (length (cap_channelTypes c) + length (cap_packetTypes c) + length (cap_messageKinds c))"
    and "length payload \<le> po_maxPayloadBytes options"
    and "\<forall>vs \<in> {cap_channelTypes c, cap_packetTypes c, cap_messageKinds c}.
      length vs \<le> po_maxListItems options"
  using assms
  by (auto simp: decodeCapabilities_def decodeFail_def split: if_splits sum.splits
      dest!: decodeLists_Inr)

section \<open>Properties\<close>

definition sample_capabilities :: protocol_capabilities where
  "sample_capabilities = default_capabilities\<lparr>
     cap_features := Feature_Mouse, cap_channelTypes := [CT_Control, CT_Standard],
     cap_packetTypes := [PT_Exchange], cap_messageKinds := [MK_Request, MK_Response],
     cap_directTunnelSupported := True\<rparr>"

lemma sample_capabilities_fit [simp]: "lists_fit default_payload_options sample_capabilities"
  by (simp add: lists_fit_def sample_capabilities_def default_capabilities_def
      default_payload_options_def encodeCapabilities_layout)

text \<open>
  Capability round trip: the payload encoded from any capabilities whose lists fit the
  decoder's limits decodes to exactly those capabilities, every limit, list and flag included;
  the same payload with anything appended is refused as malformed.
\<close>

theorem capabilities_round_trip:
  assumes "lists_fit options c"
    and "length (encodeCapabilities c) + length rest \<le> po_maxPayloadBytes options" and "rest \<noteq> []"
  shows "decodeCapabilities options (encodeCapabilities c) =
      \<lparr>cd_status = CD_Ok, cd_capabilities = c, cd_message = []\<rparr> \<and>
    cd_status (decodeCapabilities options (encodeCapabilities c @ rest)) = CD_Malformed"
  using decodeCapabilities_extended [OF assms(1,2)] assms
  by (simp add: decodeCapabilities_encoded decodeFail_def)

theorem capabilities_round_trip_witness:
  "cd_status (decodeCapabilities default_payload_options
     (encodeCapabilities sample_capabilities @ [0])) = CD_Malformed"
  by (rule capabilities_round_trip [THEN conjunct2])
    (simp_all add: encodeCapabilities_layout sample_capabilities_def default_capabilities_def
      default_payload_options_def lists_fit_def)

text \<open>
  A capability payload the decoder accepts has no byte too few or too many: its length is
  the fixed part plus two bytes for each list item, it is within the decoder's size limit, and
  no list is longer than the decoder's item limit.
\<close>

theorem accepted_payload_is_exact:
  assumes "cd_status (decodeCapabilities options payload) = CD_Ok"
  shows "length payload = 52 +
      2 * (length (cap_channelTypes (cd_capabilities (decodeCapabilities options payload))) +
           length (cap_packetTypes (cd_capabilities (decodeCapabilities options payload))) +
           length (cap_messageKinds (cd_capabilities (decodeCapabilities options payload)))) \<and>
    length payload \<le> po_maxPayloadBytes options \<and>
    length (cap_channelTypes (cd_capabilities (decodeCapabilities options payload))) \<le>
      po_maxListItems options \<and>
    length (cap_packetTypes (cd_capabilities (decodeCapabilities options payload))) \<le>
      po_maxListItems options \<and>
    length (cap_messageKinds (cd_capabilities (decodeCapabilities options payload))) \<le>
      po_maxListItems options"
  using decodeCapabilities_ok_size [OF assms] by simp

theorem accepted_payload_is_exact_witness:
  "length (encodeCapabilities sample_capabilities) = 62"
proof -
  have "cd_status (decodeCapabilities default_payload_options
      (encodeCapabilities sample_capabilities)) = CD_Ok"
    by (simp add: decodeCapabilities_encoded)
  from accepted_payload_is_exact [OF this] show ?thesis
    by (simp add: decodeCapabilities_encoded)
      (simp add: sample_capabilities_def)
qed

end
