(* ===== verification/Capability_Negotiator.thy ===== *)
theory Capability_Negotiator
  imports Capability_Negotiation
begin

text \<open>
  The negotiation half of \<open>src/core/protocol/capability_negotiation.cpp\<close>: from the
  capabilities of the local and the remote peer to the negotiated set, with a denial for
  everything one side offers and the other does not.
\<close>

section \<open>Results\<close>

datatype capability_kind =
  CK_ProtocolVersion | CK_Feature | CK_ChannelType | CK_PacketType | CK_MessageKind | CK_Limit
  | CK_DirectTunnel

datatype denial_reason =
  UnsupportedByLocal | UnsupportedByRemote | IncompatibleProtocol | NoCommonValue | LimitConflict

record capability_denial =
  den_kind :: capability_kind
  den_value :: u64
  den_reason :: denial_reason
  den_message :: string

record negotiated_capabilities =
  nc_protocolMajor :: u16
  nc_protocolMinor :: u16
  nc_features :: feature_set
  nc_channelTypes :: "channel_type list"
  nc_packetTypes :: "packet_type list"
  nc_messageKinds :: "message_kind list"
  nc_limits :: protocol_limits
  nc_directTunnelEnabled :: bool

definition default_negotiated :: negotiated_capabilities where
  "default_negotiated = \<lparr>
     nc_protocolMajor = CurrentProtocolMajor, nc_protocolMinor = CurrentProtocolMinor,
     nc_features = 0, nc_channelTypes = [], nc_packetTypes = [], nc_messageKinds = [],
     nc_limits = default_limits, nc_directTunnelEnabled = False\<rparr>"

record negotiation_result =
  ng_compatible :: bool
  ng_negotiated :: negotiated_capabilities
  ng_denials :: "capability_denial list"
  ng_message :: string

section \<open>Helpers\<close>

text \<open>\<open>intersectValues\<close>: the values of \<open>local\<close>, in order, each once, that \<open>remote\<close> has too.\<close>

fun intersect_loop :: "u16 list \<Rightarrow> u16 list \<Rightarrow> u16 list \<Rightarrow> u16 list" where
  "intersect_loop remote result [] = result"
| "intersect_loop remote result (v # vs) =
     intersect_loop remote
       (if v \<notin> set result \<and> v \<in> set remote then result @ [v] else result) vs"

definition intersectValues :: "u16 list \<Rightarrow> u16 list \<Rightarrow> u16 list" where
  "intersectValues local_values remote_values = intersect_loop remote_values [] local_values"

definition addDenial ::
    "capability_denial list \<Rightarrow> capability_kind \<Rightarrow> u64 \<Rightarrow> denial_reason \<Rightarrow> string \<Rightarrow>
     capability_denial list" where
  "addDenial denials kind v reason message = denials @
     [\<lparr>den_kind = kind, den_value = v, den_reason = reason, den_message = message\<rparr>]"

fun addUnsupportedValues ::
    "capability_denial list \<Rightarrow> capability_kind \<Rightarrow> u16 list \<Rightarrow> u16 list \<Rightarrow> denial_reason \<Rightarrow> string \<Rightarrow>
     capability_denial list" where
  "addUnsupportedValues denials kind [] supported reason message = denials"
| "addUnsupportedValues denials kind (v # offered) supported reason message =
     addUnsupportedValues
       (if v \<notin> set supported then addDenial denials kind (ucast v) reason message else denials)
       kind offered supported reason message"

definition negotiateLimits :: "protocol_limits \<Rightarrow> protocol_limits \<Rightarrow> protocol_limits" where
  "negotiateLimits a b =
    (let lo = max (lim_minRequestTimeoutMs a) (lim_minRequestTimeoutMs b);
         hi = min (lim_maxRequestTimeoutMs a) (lim_maxRequestTimeoutMs b);
         preferredDefault = min (lim_defaultRequestTimeoutMs a) (lim_defaultRequestTimeoutMs b)
     in \<lparr>lim_maxPayloadBytes = min (lim_maxPayloadBytes a) (lim_maxPayloadBytes b),
         lim_maxStreamChunkBytes = min (lim_maxStreamChunkBytes a) (lim_maxStreamChunkBytes b),
         lim_minRequestTimeoutMs = lo,
         lim_defaultRequestTimeoutMs =
           (if lo \<le> hi then min (max preferredDefault lo) hi else preferredDefault),
         lim_maxRequestTimeoutMs = hi,
         lim_maxChannels = min (lim_maxChannels a) (lim_maxChannels b),
         lim_maxPendingRequests =
           min (lim_maxPendingRequests a) (lim_maxPendingRequests b)\<rparr>)"

definition limit_check ::
    "bool \<Rightarrow> string \<Rightarrow> bool \<times> capability_denial list \<Rightarrow> bool \<times> capability_denial list" where
  "limit_check conflict message state =
     (if conflict then (False, addDenial (snd state) CK_Limit 0 LimitConflict message) else state)"

definition validateLimits ::
    "protocol_limits \<Rightarrow> capability_denial list \<Rightarrow> bool \<times> capability_denial list" where
  "validateLimits limits denials =
    (let s = (True, denials);
         s = limit_check (lim_maxPayloadBytes limits = 0)
               ''negotiated max payload size is zero'' s;
         s = limit_check (lim_maxStreamChunkBytes limits = 0)
               ''negotiated max stream chunk size is zero'' s;
         s = limit_check (lim_minRequestTimeoutMs limits > lim_maxRequestTimeoutMs limits)
               ''request timeout ranges do not overlap'' s;
         s = limit_check (lim_maxChannels limits = 0)
               ''negotiated max channel count is zero'' s
     in limit_check (lim_maxPendingRequests limits = 0)
          ''negotiated max pending request count is zero'' s)"

text \<open>A denial for an empty intersection, which also makes the peers incompatible.\<close>

definition require_common ::
    "u16 list \<Rightarrow> capability_kind \<Rightarrow> string \<Rightarrow> bool \<times> capability_denial list \<Rightarrow>
     bool \<times> capability_denial list" where
  "require_common common kind message state =
     (if common = [] then (False, addDenial (snd state) kind 0 NoCommonValue message) else state)"

section \<open>negotiate\<close>

definition negotiate ::
    "protocol_capabilities \<Rightarrow> protocol_capabilities \<Rightarrow> negotiation_result" where
  "negotiate local_caps remote_caps =
    (let negotiated = default_negotiated\<lparr>
           nc_protocolMajor := cap_protocolMajor local_caps,
           nc_protocolMinor := min (cap_protocolMinor local_caps) (cap_protocolMinor remote_caps)\<rparr>
     in if cap_protocolMajor local_caps \<noteq> cap_protocolMajor remote_caps then
       \<lparr>ng_compatible = False, ng_negotiated = negotiated,
        ng_denials = addDenial [] CK_ProtocolVersion (ucast (cap_protocolMajor remote_caps))
          IncompatibleProtocol ''protocol major versions do not match'',
        ng_message = ''capability negotiation failed''\<rparr>
     else
       let localOnly = cap_features local_caps AND NOT (cap_features remote_caps);
           remoteOnly = cap_features remote_caps AND NOT (cap_features local_caps);
           d = [];
           d = (if localOnly \<noteq> 0 then addDenial d CK_Feature localOnly UnsupportedByRemote
                  ''local features are not supported by remote'' else d);
           d = (if remoteOnly \<noteq> 0 then addDenial d CK_Feature remoteOnly UnsupportedByLocal
                  ''remote features are not supported by local'' else d);
           channelTypes = intersectValues (cap_channelTypes local_caps) (cap_channelTypes remote_caps);
           packetTypes = intersectValues (cap_packetTypes local_caps) (cap_packetTypes remote_caps);
           messageKinds = intersectValues (cap_messageKinds local_caps) (cap_messageKinds remote_caps);
           d = addUnsupportedValues d CK_ChannelType (cap_channelTypes local_caps)
             (cap_channelTypes remote_caps) UnsupportedByRemote
             ''local channel type is not supported by remote'';
           d = addUnsupportedValues d CK_ChannelType (cap_channelTypes remote_caps)
             (cap_channelTypes local_caps) UnsupportedByLocal
             ''remote channel type is not supported by local'';
           d = addUnsupportedValues d CK_PacketType (cap_packetTypes local_caps)
             (cap_packetTypes remote_caps) UnsupportedByRemote
             ''local packet type is not supported by remote'';
           d = addUnsupportedValues d CK_PacketType (cap_packetTypes remote_caps)
             (cap_packetTypes local_caps) UnsupportedByLocal
             ''remote packet type is not supported by local'';
           d = addUnsupportedValues d CK_MessageKind (cap_messageKinds local_caps)
             (cap_messageKinds remote_caps) UnsupportedByRemote
             ''local message kind is not supported by remote'';
           d = addUnsupportedValues d CK_MessageKind (cap_messageKinds remote_caps)
             (cap_messageKinds local_caps) UnsupportedByLocal
             ''remote message kind is not supported by local'';
           s = (True, d);
           s = require_common channelTypes CK_ChannelType ''no common channel type'' s;
           s = require_common packetTypes CK_PacketType ''no common packet type'' s;
           s = require_common messageKinds CK_MessageKind ''no common message kind'' s;
           limits = negotiateLimits (cap_limits local_caps) (cap_limits remote_caps);
           (limits_valid, d) = validateLimits limits (snd s);
           compatible = (limits_valid \<and> fst s);
           local_tunnel = cap_directTunnelSupported local_caps;
           remote_tunnel = cap_directTunnelSupported remote_caps;
           d = (if local_tunnel \<and> \<not> remote_tunnel then
                  addDenial d CK_DirectTunnel 1 UnsupportedByRemote
                    ''direct tunnel is not supported by remote'' else d);
           d = (if \<not> local_tunnel \<and> remote_tunnel then
                  addDenial d CK_DirectTunnel 1 UnsupportedByLocal
                    ''direct tunnel is not supported by local'' else d)
       in \<lparr>ng_compatible = compatible,
           ng_negotiated = negotiated\<lparr>
             nc_features := cap_features local_caps AND cap_features remote_caps,
             nc_channelTypes := channelTypes, nc_packetTypes := packetTypes,
             nc_messageKinds := messageKinds, nc_limits := limits,
             nc_directTunnelEnabled := local_tunnel \<and> remote_tunnel\<rparr>,
           ng_denials = d,
           ng_message = (if compatible then ''capabilities negotiated''
                         else ''capability negotiation failed'')\<rparr>)"

section \<open>What the helpers compute\<close>

lemma intersect_loop_set:
  "set (intersect_loop remote result vs) = set result \<union> (set vs \<inter> set remote)"
  by (induction vs arbitrary: result) auto

lemma intersect_loop_distinct: "distinct result \<Longrightarrow> distinct (intersect_loop remote result vs)"
  by (induction vs arbitrary: result) auto

lemma set_intersectValues [simp]: "set (intersectValues a b) = set a \<inter> set b"
  by (simp add: intersectValues_def intersect_loop_set)

lemma distinct_intersectValues [simp]: "distinct (intersectValues a b)"
  by (simp add: intersectValues_def intersect_loop_distinct)

lemma intersectValues_empty: "intersectValues a b = [] \<longleftrightarrow> set a \<inter> set b = {}"
  by (metis set_empty set_intersectValues)

lemma intersect_loop_self:
  "set vs \<subseteq> set remote \<Longrightarrow> distinct (result @ vs) \<Longrightarrow> intersect_loop remote result vs = result @ vs"
  by (induction vs arbitrary: result) auto

definition limits_usable :: "protocol_limits \<Rightarrow> bool" where
  "limits_usable limits \<longleftrightarrow> lim_maxPayloadBytes limits \<noteq> 0 \<and> lim_maxStreamChunkBytes limits \<noteq> 0 \<and>
     lim_minRequestTimeoutMs limits \<le> lim_maxRequestTimeoutMs limits \<and>
     lim_maxChannels limits \<noteq> 0 \<and> lim_maxPendingRequests limits \<noteq> 0"

lemma limit_check_fst [simp]: "fst (limit_check conflict m s) \<longleftrightarrow> \<not> conflict \<and> fst s"
  by (simp add: limit_check_def)

lemma require_common_fst [simp]: "fst (require_common common k m s) \<longleftrightarrow> common \<noteq> [] \<and> fst s"
  by (simp add: require_common_def)

lemma validateLimits_fst [simp]: "fst (validateLimits limits d) \<longleftrightarrow> limits_usable limits"
  by (auto simp: validateLimits_def Let_def limits_usable_def)

lemma negotiate_major_mismatch:
  "cap_protocolMajor a \<noteq> cap_protocolMajor b \<Longrightarrow> \<not> ng_compatible (negotiate a b)"
  by (simp add: negotiate_def)

lemma negotiate_fields:
  assumes "cap_protocolMajor a = cap_protocolMajor b"
  shows "ng_compatible (negotiate a b) \<longleftrightarrow>
      intersectValues (cap_channelTypes a) (cap_channelTypes b) \<noteq> [] \<and>
      intersectValues (cap_packetTypes a) (cap_packetTypes b) \<noteq> [] \<and>
      intersectValues (cap_messageKinds a) (cap_messageKinds b) \<noteq> [] \<and>
      limits_usable (negotiateLimits (cap_limits a) (cap_limits b))"
    and "ng_negotiated (negotiate a b) = \<lparr>
      nc_protocolMajor = cap_protocolMajor a,
      nc_protocolMinor = min (cap_protocolMinor a) (cap_protocolMinor b),
      nc_features = cap_features a AND cap_features b,
      nc_channelTypes = intersectValues (cap_channelTypes a) (cap_channelTypes b),
      nc_packetTypes = intersectValues (cap_packetTypes a) (cap_packetTypes b),
      nc_messageKinds = intersectValues (cap_messageKinds a) (cap_messageKinds b),
      nc_limits = negotiateLimits (cap_limits a) (cap_limits b),
      nc_directTunnelEnabled = (cap_directTunnelSupported a \<and> cap_directTunnelSupported b)\<rparr>"
  using assms
  by (auto simp: negotiate_def Let_def split_beta default_negotiated_def)

lemma limits_usable_negotiated:
  "limits_usable (negotiateLimits a b) \<Longrightarrow>
     lim_minRequestTimeoutMs (negotiateLimits a b) \<le> lim_defaultRequestTimeoutMs (negotiateLimits a b) \<and>
     lim_defaultRequestTimeoutMs (negotiateLimits a b) \<le> lim_maxRequestTimeoutMs (negotiateLimits a b)"
  by (simp add: limits_usable_def negotiateLimits_def Let_def min_le_iff_disj)

lemma negotiateLimits_commute: "negotiateLimits a b = negotiateLimits b a"
  by (simp add: negotiateLimits_def Let_def min.commute max.commute)

lemma negotiate_commute:
  "(ng_compatible (negotiate a b) \<longleftrightarrow> ng_compatible (negotiate b a)) \<and>
   nc_protocolMinor (ng_negotiated (negotiate a b)) = nc_protocolMinor (ng_negotiated (negotiate b a)) \<and>
   nc_features (ng_negotiated (negotiate a b)) = nc_features (ng_negotiated (negotiate b a)) \<and>
   nc_limits (ng_negotiated (negotiate a b)) = nc_limits (ng_negotiated (negotiate b a)) \<and>
   nc_directTunnelEnabled (ng_negotiated (negotiate a b)) =
     nc_directTunnelEnabled (ng_negotiated (negotiate b a)) \<and>
   set (nc_channelTypes (ng_negotiated (negotiate a b))) =
     set (nc_channelTypes (ng_negotiated (negotiate b a))) \<and>
   set (nc_packetTypes (ng_negotiated (negotiate a b))) =
     set (nc_packetTypes (ng_negotiated (negotiate b a))) \<and>
   set (nc_messageKinds (ng_negotiated (negotiate a b))) =
     set (nc_messageKinds (ng_negotiated (negotiate b a)))"
proof (cases "cap_protocolMajor a = cap_protocolMajor b")
  case True
  then show ?thesis
    by (simp add: negotiate_fields intersectValues_empty negotiateLimits_commute Int_commute
        and.commute min.commute conj_commute)
next
  case False
  then show ?thesis
    by (simp add: negotiate_def Let_def default_negotiated_def min.commute)
qed

section \<open>Properties\<close>

lemma min_nonzero: "min x y = 0 \<longleftrightarrow> x = 0 \<or> y = 0" for x y :: "'w::len word"
  by (cases "x = 0"; cases "y = 0") (auto simp: min_def)

text \<open>
  The negotiation succeeds exactly if the peers speak the same major version, share at
  least one channel type, packet type and message kind, and the tighter of their limits are
  usable: no limit is zero and the request timeout ranges overlap.
\<close>

theorem negotiation_outcome:
  "ng_compatible (negotiate a b) \<longleftrightarrow>
     cap_protocolMajor a = cap_protocolMajor b \<and>
     set (cap_channelTypes a) \<inter> set (cap_channelTypes b) \<noteq> {} \<and>
     set (cap_packetTypes a) \<inter> set (cap_packetTypes b) \<noteq> {} \<and>
     set (cap_messageKinds a) \<inter> set (cap_messageKinds b) \<noteq> {} \<and>
     lim_maxPayloadBytes (cap_limits a) \<noteq> 0 \<and> lim_maxPayloadBytes (cap_limits b) \<noteq> 0 \<and>
     lim_maxStreamChunkBytes (cap_limits a) \<noteq> 0 \<and> lim_maxStreamChunkBytes (cap_limits b) \<noteq> 0 \<and>
     max (lim_minRequestTimeoutMs (cap_limits a)) (lim_minRequestTimeoutMs (cap_limits b)) \<le>
       min (lim_maxRequestTimeoutMs (cap_limits a)) (lim_maxRequestTimeoutMs (cap_limits b)) \<and>
     lim_maxChannels (cap_limits a) \<noteq> 0 \<and> lim_maxChannels (cap_limits b) \<noteq> 0 \<and>
     lim_maxPendingRequests (cap_limits a) \<noteq> 0 \<and> lim_maxPendingRequests (cap_limits b) \<noteq> 0"
proof (cases "cap_protocolMajor a = cap_protocolMajor b")
  case True
  then show ?thesis
    by (simp add: negotiate_fields intersectValues_empty limits_usable_def negotiateLimits_def Let_def
        min_nonzero conj_assoc del: max.bounded_iff min.bounded_iff)
qed (simp add: negotiate_major_mismatch)

text \<open>
  What a successful negotiation grants is supported by both peers: every negotiated
  channel type, packet type and message kind is in both offers and listed once, a feature is
  granted exactly if both have it, the direct tunnel exactly if both support it, the limits are
  those of neither peer exceeded, and the default request timeout lies in the negotiated range.
\<close>

theorem negotiated_is_common:
  assumes "ng_compatible (negotiate a b)"
  defines "n \<equiv> ng_negotiated (negotiate a b)"
  shows "set (nc_channelTypes n) = set (cap_channelTypes a) \<inter> set (cap_channelTypes b) \<and>
    set (nc_packetTypes n) = set (cap_packetTypes a) \<inter> set (cap_packetTypes b) \<and>
    set (nc_messageKinds n) = set (cap_messageKinds a) \<inter> set (cap_messageKinds b) \<and>
    distinct (nc_channelTypes n) \<and> distinct (nc_packetTypes n) \<and> distinct (nc_messageKinds n) \<and>
    (feature_has (nc_features n) f \<longleftrightarrow>
      feature_has (cap_features a) f \<and> feature_has (cap_features b) f) \<and>
    (nc_directTunnelEnabled n \<longleftrightarrow> cap_directTunnelSupported a \<and> cap_directTunnelSupported b) \<and>
    nc_protocolMinor n = min (cap_protocolMinor a) (cap_protocolMinor b) \<and>
    lim_maxPayloadBytes (nc_limits n) =
      min (lim_maxPayloadBytes (cap_limits a)) (lim_maxPayloadBytes (cap_limits b)) \<and>
    lim_minRequestTimeoutMs (nc_limits n) \<le> lim_defaultRequestTimeoutMs (nc_limits n) \<and>
    lim_defaultRequestTimeoutMs (nc_limits n) \<le> lim_maxRequestTimeoutMs (nc_limits n)"
proof -
  have major: "cap_protocolMajor a = cap_protocolMajor b"
    using assms negotiate_major_mismatch by blast
  have limits: "limits_usable (negotiateLimits (cap_limits a) (cap_limits b))"
    using assms by (simp add: negotiate_fields [OF major])
  have "lim_maxPayloadBytes (negotiateLimits (cap_limits a) (cap_limits b)) =
      min (lim_maxPayloadBytes (cap_limits a)) (lim_maxPayloadBytes (cap_limits b))"
    by (simp add: negotiateLimits_def Let_def)
  then show ?thesis
    using limits_usable_negotiated [OF limits]
    by (simp add: n_def negotiate_fields [OF major] feature_has_and)
qed

lemma negotiate_sample [simp]: "ng_compatible (negotiate sample_capabilities sample_capabilities)"
  by (simp add: negotiate_fields intersectValues_empty sample_capabilities_def
      default_capabilities_def limits_usable_def negotiateLimits_def default_limits_def Let_def)

theorem negotiated_is_common_witness:
  "set (nc_channelTypes (ng_negotiated (negotiate sample_capabilities sample_capabilities))) =
   {CT_Control, CT_Standard}"
  using negotiated_is_common [OF negotiate_sample] by (simp add: sample_capabilities_def)

text \<open>
  Negotiation is symmetric: both peers reach the same verdict, and where the major versions
  agree they compute the same minor version, features, limits and tunnel flag, and the same sets
  of channel types, packet types and message kinds (each in its own order).
\<close>

theorem negotiation_symmetric:
  "(ng_compatible (negotiate a b) \<longleftrightarrow> ng_compatible (negotiate b a)) \<and>
   nc_protocolMinor (ng_negotiated (negotiate a b)) = nc_protocolMinor (ng_negotiated (negotiate b a)) \<and>
   nc_features (ng_negotiated (negotiate a b)) = nc_features (ng_negotiated (negotiate b a)) \<and>
   nc_limits (ng_negotiated (negotiate a b)) = nc_limits (ng_negotiated (negotiate b a)) \<and>
   nc_directTunnelEnabled (ng_negotiated (negotiate a b)) =
     nc_directTunnelEnabled (ng_negotiated (negotiate b a)) \<and>
   set (nc_channelTypes (ng_negotiated (negotiate a b))) =
     set (nc_channelTypes (ng_negotiated (negotiate b a))) \<and>
   set (nc_packetTypes (ng_negotiated (negotiate a b))) =
     set (nc_packetTypes (ng_negotiated (negotiate b a))) \<and>
   set (nc_messageKinds (ng_negotiated (negotiate a b))) =
     set (nc_messageKinds (ng_negotiated (negotiate b a)))"
  by (rule negotiate_commute)

end
