(* ===== verification/Protocol_Validator.thy ===== *)
theory Protocol_Validator
  imports Protocol_Types
begin

text \<open>
  \<open>src/core/protocol/protocol_validator.cpp\<close>: the checks every packet passes before it is
  accepted. \<open>validate\<close> follows the C++ function guard by guard, with its status and message;
  \<open>packet_rules\<close> states what an accepted packet satisfies, independently of the order of
  the guards.
\<close>

section \<open>Options and results\<close>

record validation_options =
  vo_expectedMajor :: u16
  vo_minimumMinor :: u16
  vo_maxPayloadBytes :: nat
  vo_requireSessionId :: bool
  vo_requireKnownChannel :: bool

definition default_validation_options :: validation_options where
  "default_validation_options = \<lparr>
     vo_expectedMajor = CurrentProtocolMajor, vo_minimumMinor = 0,
     vo_maxPayloadBytes = 16 * 1024 * 1024, vo_requireSessionId = True,
     vo_requireKnownChannel = True\<rparr>"

lemma default_validation_fields:
  "vo_expectedMajor default_validation_options = CurrentProtocolMajor"
  "vo_minimumMinor default_validation_options = 0"
  "vo_maxPayloadBytes default_validation_options = 16777216"
  "vo_requireSessionId default_validation_options" "vo_requireKnownChannel default_validation_options"
  by (simp_all add: default_validation_options_def)

record validation_result =
  vr_valid :: bool
  vr_status :: response_status
  vr_message :: string

definition validation_ok :: validation_result where
  "validation_ok = \<lparr>vr_valid = True, vr_status = RS_Ok, vr_message = []\<rparr>"

definition validation_error :: "response_status \<Rightarrow> string \<Rightarrow> validation_result" where
  "validation_error status message =
     \<lparr>vr_valid = False, vr_status = status, vr_message = message\<rparr>"

section \<open>Known values\<close>

definition isKnownChannelType :: "channel_type \<Rightarrow> bool" where
  "isKnownChannelType v \<longleftrightarrow> v \<in> set
     [CT_Standard, CT_Video, CT_Audio, CT_Bulk, CT_Control, CT_Input]"

definition isKnownPacketType :: "packet_type \<Rightarrow> bool" where
  "isKnownPacketType v \<longleftrightarrow> v \<in> set
     [PT_ChannelInit, PT_Heartbeat, PT_Login, PT_Mouse, PT_Keyboard, PT_Audio,
      PT_Video, PT_ClientDisconnect, PT_ServerDisconnect, PT_Control, PT_PayloadAck,
      PT_CursorChange, PT_Exchange, PT_Clipboard, PT_Microphone, PT_Filesystem,
      PT_Printer, PT_FilesystemControl, PT_FilesystemIrp, PT_UdpInit,
      PT_CheckLicense, PT_Touchscreen, PT_Gamepad, PT_Watermark]"

definition isKnownMessageKind :: "message_kind \<Rightarrow> bool" where
  "isKnownMessageKind v \<longleftrightarrow> v \<in> set
     [MK_Event, MK_Request, MK_Response, MK_Ack, MK_Error, MK_Progress,
      MK_StreamStart, MK_StreamChunk, MK_StreamEnd, MK_Cancel]"

definition isKnownPriority :: "packet_priority \<Rightarrow> bool" where
  "isKnownPriority v \<longleftrightarrow> v \<in> set
     [PP_Critical, PP_Realtime, PP_Interactive, PP_Normal, PP_Bulk, PP_Background]"

definition isKnownStatus :: "response_status \<Rightarrow> bool" where
  "isKnownStatus v \<longleftrightarrow> v \<in> set
     [RS_Ok, RS_Accepted, RS_Progress, RS_InvalidArgument, RS_Unauthorized,
      RS_DeniedByPolicy, RS_Unsupported, RS_NotFound, RS_Conflict, RS_Busy,
      RS_Timeout, RS_Cancelled, RS_TooLarge, RS_BackPressure, RS_ChannelUnavailable,
      RS_Failed, RS_InternalError, RS_ProtocolError]"

definition isKnownChannelId :: "channel_id \<Rightarrow> bool" where
  "isKnownChannelId v \<longleftrightarrow> v \<in> set
     [CID_UserAuthMain, CID_SmallData, CID_DesktopAudio, CID_DesktopScreen,
      CID_LargeData, CID_Microphone, CID_Camera, CID_Filesystem, CID_Printer,
      CID_DesktopSecondScreen, CID_Gamepad]"

text \<open>The validator's own \<open>hasFlag\<close>: all bits of the flag are set.\<close>

definition hasFlag :: "packet_flags \<Rightarrow> packet_flags \<Rightarrow> bool" where
  "hasFlag flags flag \<longleftrightarrow> flags AND flag = flag"

definition isRequestLike :: "message_kind \<Rightarrow> bool" where
  "isRequestLike v \<longleftrightarrow> v = MK_Request \<or> v = MK_Cancel"

definition isResponseLike :: "message_kind \<Rightarrow> bool" where
  "isResponseLike v \<longleftrightarrow> v = MK_Response \<or> v = MK_Ack \<or> v = MK_Error \<or> v = MK_Progress"

definition isStreamMessage :: "message_kind \<Rightarrow> bool" where
  "isStreamMessage v \<longleftrightarrow> v = MK_StreamStart \<or> v = MK_StreamChunk \<or> v = MK_StreamEnd"

section \<open>validate\<close>

definition validation_checks ::
    "validation_options \<Rightarrow> packet_envelope \<Rightarrow> (bool \<times> response_status \<times> string) list" where
  "validation_checks options packet =
      [(pk_protocolMajor packet \<noteq> vo_expectedMajor options,
          (RS_Unsupported, ''unsupported protocol major version'')),
       (pk_protocolMinor packet < vo_minimumMinor options,
          (RS_Unsupported, ''unsupported protocol minor version'')),
       (vo_requireSessionId options \<and> pk_sessionId packet = 0,
          (RS_InvalidArgument, ''session id is required'')),
       (vo_requireKnownChannel options \<and> \<not> isKnownChannelId (pk_channelId packet),
          (RS_InvalidArgument, ''unknown channel id'')),
       (\<not> isKnownChannelType (pk_channelType packet),
          (RS_InvalidArgument, ''unknown channel type'')),
       (\<not> isKnownPacketType (pk_packetType packet),
          (RS_InvalidArgument, ''unknown packet type'')),
       (\<not> isKnownMessageKind (pk_messageKind packet),
          (RS_InvalidArgument, ''unknown message kind'')),
       (\<not> isKnownPriority (pk_priority packet),
          (RS_InvalidArgument, ''unknown packet priority'')),
       (\<not> isKnownStatus (pk_responseStatus packet),
          (RS_InvalidArgument, ''unknown response status'')),
       (length (pk_payload packet) > vo_maxPayloadBytes options,
          (RS_TooLarge, ''payload exceeds negotiated limit'')),
       (isRequestLike (pk_messageKind packet) \<and> pk_messageId packet = 0,
          (RS_InvalidArgument, ''request message id is required'')),
       (isRequestLike (pk_messageKind packet) \<and> pk_correlationId packet = 0,
          (RS_InvalidArgument, ''request correlation id is required'')),
       (isRequestLike (pk_messageKind packet) \<and> pk_timeoutMs packet = 0,
          (RS_InvalidArgument, ''request timeout is required'')),
       ((pk_messageKind packet = MK_Event \<and> hasFlag (pk_flags packet) PacketFlagResponseRequired) \<and>
         (pk_messageId packet = 0 \<or> pk_correlationId packet = 0 \<or> pk_timeoutMs packet = 0),
          (RS_InvalidArgument, ''response-required event needs message id, correlation id, and timeout'')),
       (isResponseLike (pk_messageKind packet) \<and> pk_responseTo packet = 0,
          (RS_InvalidArgument, ''responseTo is required'')),
       (isStreamMessage (pk_messageKind packet) \<and> pk_correlationId packet = 0,
          (RS_InvalidArgument, ''stream correlation id is required'')),
       (hasFlag (pk_flags packet) PacketFlagResponseRequired \<and>
         hasFlag (pk_flags packet) PacketFlagNoResponseRequired,
          (RS_InvalidArgument, ''response flags are mutually exclusive'')),
       (pk_messageKind packet = MK_Event \<and>
         \<not> hasFlag (pk_flags packet) PacketFlagNoResponseRequired \<and>
         pk_responseStatus packet \<noteq> RS_Ok,
          (RS_InvalidArgument, ''event status must be Ok unless it is a response''))]"

definition validate :: "validation_options \<Rightarrow> packet_envelope \<Rightarrow> validation_result" where
  "validate options packet =
     (case first_failure (validation_checks options packet) of
        Some (status, message) \<Rightarrow> validation_error status message
      | None \<Rightarrow> validation_ok)"

section \<open>The rules of an accepted packet\<close>

text \<open>
  The lifecycle rules of the protocol by themselves: what is known, what fits, and which
  identifiers a message of each kind carries.
\<close>

definition packet_fields_known :: "validation_options \<Rightarrow> packet_envelope \<Rightarrow> bool" where
  "packet_fields_known options packet \<longleftrightarrow>
     (vo_requireKnownChannel options \<longrightarrow> isKnownChannelId (pk_channelId packet)) \<and>
     isKnownChannelType (pk_channelType packet) \<and> isKnownPacketType (pk_packetType packet) \<and>
     isKnownMessageKind (pk_messageKind packet) \<and> isKnownPriority (pk_priority packet) \<and>
     isKnownStatus (pk_responseStatus packet)"

definition awaits_response :: "packet_envelope \<Rightarrow> bool" where
  "awaits_response packet \<longleftrightarrow> isRequestLike (pk_messageKind packet) \<or>
     pk_messageKind packet = MK_Event \<and> hasFlag (pk_flags packet) PacketFlagResponseRequired"

definition packet_rules :: "validation_options \<Rightarrow> packet_envelope \<Rightarrow> bool" where
  "packet_rules options packet \<longleftrightarrow>
     pk_protocolMajor packet = vo_expectedMajor options \<and>
     vo_minimumMinor options \<le> pk_protocolMinor packet \<and>
     (vo_requireSessionId options \<longrightarrow> pk_sessionId packet \<noteq> 0) \<and>
     packet_fields_known options packet \<and>
     length (pk_payload packet) \<le> vo_maxPayloadBytes options \<and>
     (awaits_response packet \<longrightarrow>
        pk_messageId packet \<noteq> 0 \<and> pk_correlationId packet \<noteq> 0 \<and> pk_timeoutMs packet \<noteq> 0) \<and>
     (isResponseLike (pk_messageKind packet) \<longrightarrow> pk_responseTo packet \<noteq> 0) \<and>
     (isStreamMessage (pk_messageKind packet) \<longrightarrow> pk_correlationId packet \<noteq> 0) \<and>
     \<not> (hasFlag (pk_flags packet) PacketFlagResponseRequired \<and>
        hasFlag (pk_flags packet) PacketFlagNoResponseRequired) \<and>
     (pk_messageKind packet = MK_Event \<longrightarrow>
        hasFlag (pk_flags packet) PacketFlagNoResponseRequired \<or> pk_responseStatus packet = RS_Ok)"

lemma validation_result_simps [simp]:
  "vr_valid validation_ok" "\<not> vr_valid (validation_error status message)"
  "vr_status validation_ok = RS_Ok" "vr_status (validation_error status message) = status"
  by (simp_all add: validation_ok_def validation_error_def)

lemma validate_valid_iff:
  "vr_valid (validate options packet) \<longleftrightarrow> first_failure (validation_checks options packet) = None"
  by (auto simp: validate_def split: option.splits)

lemma validate_iff_rules: "vr_valid (validate options packet) \<longleftrightarrow> packet_rules options packet"
  unfolding validate_valid_iff first_failure_None validation_checks_def packet_rules_def
    packet_fields_known_def awaits_response_def
  by (simp add: not_less) argo

lemma validate_valid_eq: "vr_valid (validate options packet) \<Longrightarrow> validate options packet = validation_ok"
  by (simp add: validate_valid_iff) (simp add: validate_def)

text \<open>A refusal names one of three statuses.\<close>

lemma validate_refusal:
  assumes "\<not> vr_valid (validate options packet)"
  obtains status message where "validate options packet = validation_error status message"
    and "(True, status, message) \<in> set (validation_checks options packet)"
  using assms
  by (cases "first_failure (validation_checks options packet)")
    (auto simp: validate_def dest: first_failure_Some)

lemma validate_refusal_status:
  assumes "\<not> vr_valid (validate options packet)"
  shows "vr_status (validate options packet) \<in> {RS_Unsupported, RS_InvalidArgument, RS_TooLarge}"
  by (rule validate_refusal [OF assms]) (auto simp: validation_checks_def)

section \<open>Properties\<close>

text \<open>
  C30. The validator accepts a packet (with the status \<open>Ok\<close>) exactly if it satisfies the
  lifecycle rules of the protocol; it answers \<open>Unsupported\<close> exactly if the protocol version
  is not the expected one, and \<open>TooLarge\<close> exactly if the version, the session id and every
  enumerated field are in order and the payload is longer than the limit. Every other
  refusal is \<open>InvalidArgument\<close>.
\<close>

theorem validate_classifies:
  "(validate options packet = validation_ok \<longleftrightarrow> packet_rules options packet) \<and>
   (vr_status (validate options packet) = RS_Unsupported \<longleftrightarrow>
      \<not> (pk_protocolMajor packet = vo_expectedMajor options \<and>
         vo_minimumMinor options \<le> pk_protocolMinor packet)) \<and>
   (vr_status (validate options packet) = RS_TooLarge \<longleftrightarrow>
      pk_protocolMajor packet = vo_expectedMajor options \<and>
      vo_minimumMinor options \<le> pk_protocolMinor packet \<and>
      \<not> (vo_requireSessionId options \<and> pk_sessionId packet = 0) \<and>
      packet_fields_known options packet \<and>
      vo_maxPayloadBytes options < length (pk_payload packet)) \<and>
   vr_status (validate options packet) \<in>
     {RS_Ok, RS_Unsupported, RS_InvalidArgument, RS_TooLarge}"
proof (intro conjI)
  show "validate options packet = validation_ok \<longleftrightarrow> packet_rules options packet"
    using validate_valid_eq by (auto simp: validate_iff_rules [symmetric])
  show "vr_status (validate options packet) = RS_Unsupported \<longleftrightarrow>
      \<not> (pk_protocolMajor packet = vo_expectedMajor options \<and>
         vo_minimumMinor options \<le> pk_protocolMinor packet)"
    by (simp add: validate_def validation_checks_def not_le)
  show "vr_status (validate options packet) = RS_TooLarge \<longleftrightarrow>
      pk_protocolMajor packet = vo_expectedMajor options \<and>
      vo_minimumMinor options \<le> pk_protocolMinor packet \<and>
      \<not> (vo_requireSessionId options \<and> pk_sessionId packet = 0) \<and>
      packet_fields_known options packet \<and>
      vo_maxPayloadBytes options < length (pk_payload packet)"
    by (simp add: validate_def validation_checks_def packet_fields_known_def not_le [symmetric])
  show "vr_status (validate options packet) \<in>
     {RS_Ok, RS_Unsupported, RS_InvalidArgument, RS_TooLarge}"
    using validate_refusal_status [of options packet] validate_valid_eq [of options packet]
    by (cases "vr_valid (validate options packet)") auto
qed

end
