(* ===== verification/Message_Lifecycle.thy ===== *)
theory Message_Lifecycle
  imports Protocol_Validator
begin

text \<open>
  \<open>include/fusiondesk/core/protocol/message_lifecycle.h\<close>: packet flags, the message kind of a
  response, and the envelopes of requests, responses, acknowledgements and errors.
\<close>

section \<open>Flags\<close>

text \<open>
  Unlike the validator's \<open>hasFlag\<close>, this test asks for any bit of the flag. The two agree
  on single-bit flags (\<open>hasPacketFlag_single_bit\<close>).
\<close>

definition hasPacketFlag :: "packet_flags \<Rightarrow> packet_flags \<Rightarrow> bool" where
  "hasPacketFlag flags flag \<longleftrightarrow> flags AND flag \<noteq> 0"

definition withPacketFlag :: "packet_flags \<Rightarrow> packet_flags \<Rightarrow> packet_flags" where
  "withPacketFlag flags flag = flags OR flag"

definition withoutPacketFlag :: "packet_flags \<Rightarrow> packet_flags \<Rightarrow> packet_flags" where
  "withoutPacketFlag flags flag = flags AND NOT flag"

section \<open>Responses\<close>

definition responseCorrelationId :: "packet_envelope \<Rightarrow> message_id" where
  "responseCorrelationId request =
     (if pk_correlationId request \<noteq> 0 then pk_correlationId request else pk_messageId request)"

text \<open>The \<open>switch\<close> names every error status and returns \<open>Error\<close> for any other value too.\<close>

definition responseMessageKindForStatus :: "response_status \<Rightarrow> message_kind" where
  "responseMessageKindForStatus status =
     (if status = RS_Ok then MK_Response
      else if status = RS_Accepted then MK_Ack
      else if status = RS_Progress then MK_Progress
      else MK_Error)"

record request_envelope_options =
  rq_sessionId :: session_id
  rq_traceId :: trace_id
  rq_messageId :: message_id
  rq_correlationId :: message_id
  rq_channelId :: channel_id
  rq_channelType :: channel_type
  rq_packetType :: packet_type
  rq_priority :: packet_priority
  rq_sequence :: u64
  rq_monotonicTimestampUsec :: u64
  rq_timeoutMs :: u32
  rq_flags :: packet_flags
  rq_payload :: byte_buffer

record response_envelope_options =
  rs_messageId :: message_id
  rs_status :: response_status
  rs_priority :: packet_priority
  rs_sequence :: u64
  rs_monotonicTimestampUsec :: u64
  rs_flags :: packet_flags
  rs_payload :: byte_buffer

definition default_response_options :: response_envelope_options where
  "default_response_options = \<lparr>
     rs_messageId = 0, rs_status = RS_Ok, rs_priority = PP_Normal, rs_sequence = 0,
     rs_monotonicTimestampUsec = 0, rs_flags = PacketFlagNone, rs_payload = []\<rparr>"

definition makeRequestEnvelope :: "request_envelope_options \<Rightarrow> packet_envelope" where
  "makeRequestEnvelope options = default_packet\<lparr>
     pk_sessionId := rq_sessionId options,
     pk_traceId := rq_traceId options,
     pk_messageId := rq_messageId options,
     pk_correlationId :=
       (if rq_correlationId options \<noteq> 0 then rq_correlationId options else rq_messageId options),
     pk_channelId := rq_channelId options,
     pk_channelType := rq_channelType options,
     pk_packetType := rq_packetType options,
     pk_messageKind := MK_Request,
     pk_priority := rq_priority options,
     pk_sequence := rq_sequence options,
     pk_monotonicTimestampUsec := rq_monotonicTimestampUsec options,
     pk_timeoutMs := rq_timeoutMs options,
     pk_flags := rq_flags options,
     pk_payload := rq_payload options\<rparr>"

definition defaultResponseMessageId :: "packet_envelope \<Rightarrow> message_id" where
  "defaultResponseMessageId request =
     (if pk_messageId request \<noteq> 0 \<and> pk_messageId request \<noteq> - 1
      then pk_messageId request + 1 else 1)"

definition makeResponseEnvelope ::
    "packet_envelope \<Rightarrow> response_envelope_options \<Rightarrow> packet_envelope" where
  "makeResponseEnvelope request options = default_packet\<lparr>
     pk_sessionId := pk_sessionId request,
     pk_traceId := pk_traceId request,
     pk_messageId := (if rs_messageId options \<noteq> 0 then rs_messageId options
                      else defaultResponseMessageId request),
     pk_correlationId := responseCorrelationId request,
     pk_responseTo := pk_messageId request,
     pk_channelId := pk_channelId request,
     pk_channelType := pk_channelType request,
     pk_packetType := pk_packetType request,
     pk_messageKind := responseMessageKindForStatus (rs_status options),
     pk_priority := rs_priority options,
     pk_responseStatus := rs_status options,
     pk_sequence := rs_sequence options,
     pk_monotonicTimestampUsec := rs_monotonicTimestampUsec options,
     pk_flags := rs_flags options,
     pk_payload := rs_payload options\<rparr>"

definition makeAckEnvelope ::
    "packet_envelope \<Rightarrow> response_envelope_options \<Rightarrow> packet_envelope" where
  "makeAckEnvelope request options = makeResponseEnvelope request (options\<lparr>rs_status := RS_Accepted\<rparr>)"

definition makeErrorEnvelope ::
    "packet_envelope \<Rightarrow> response_status \<Rightarrow> response_envelope_options \<Rightarrow> packet_envelope" where
  "makeErrorEnvelope request status options =
     makeResponseEnvelope request
       (options\<lparr>rs_status := (if status = RS_Ok then RS_Failed else status)\<rparr>)"

section \<open>Lemmas\<close>

lemma responseKind_response_like [simp]: "isResponseLike (responseMessageKindForStatus status)"
  by (simp add: responseMessageKindForStatus_def isResponseLike_def)

lemma response_like_kinds:
  assumes "isResponseLike kind"
  shows "\<not> isRequestLike kind" "kind \<noteq> MK_Event" "\<not> isStreamMessage kind" "isKnownMessageKind kind"
  using assms
  by (auto simp: isResponseLike_def isRequestLike_def isStreamMessage_def isKnownMessageKind_def)

text \<open>A flag of one bit is set for one test exactly if it is for the other.\<close>

lemma hasPacketFlag_single_bit:
  assumes "n < 32"
  shows "hasPacketFlag flags (push_bit n 1) = hasFlag flags (push_bit n 1)"
proof -
  have "push_bit n 1 \<noteq> (0 :: packet_flags)"
    using assms by (auto dest!: arg_cong [where f = "\<lambda>w. bit w n"] simp: bit_simps)
  moreover
  have "flags AND push_bit n 1 = (if bit flags n then push_bit n 1 else 0)"
    by (rule bit_word_eqI) (auto simp: bit_simps)
  ultimately show ?thesis
    by (auto simp: hasPacketFlag_def hasFlag_def split: if_splits)
qed

text \<open>A response is never given the id 0, which the tracker would take for "no id".\<close>

lemma defaultResponseMessageId_nonzero: "defaultResponseMessageId request \<noteq> 0"
proof (cases "pk_messageId request \<noteq> - 1")
  case True
  then have "pk_messageId request + 1 \<noteq> 0"
    by (metis add_diff_cancel_right' diff_0)
  then show ?thesis by (simp add: defaultResponseMessageId_def)
qed (simp add: defaultResponseMessageId_def)

lemma makeResponse_id_nonzero: "pk_messageId (makeResponseEnvelope request options) \<noteq> 0"
  by (simp add: makeResponseEnvelope_def defaultResponseMessageId_nonzero)

section \<open>Properties\<close>

text \<open>
  A request that passed validation is answered with a packet that passes validation:
  the response built for it, with any known status, is accepted under the same rules, answers
  that request, carries the request's correlation id, channel and session, and has a message
  id of its own that is not 0.
\<close>

theorem response_to_valid_request:
  assumes "packet_rules vo request" and "awaits_response request"
    and "vo_expectedMajor vo = CurrentProtocolMajor" and "vo_minimumMinor vo = CurrentProtocolMinor"
    and "isKnownStatus (rs_status options)" and "isKnownPriority (rs_priority options)"
    and "length (rs_payload options) \<le> vo_maxPayloadBytes vo"
    and "\<not> (hasFlag (rs_flags options) PacketFlagResponseRequired \<and>
            hasFlag (rs_flags options) PacketFlagNoResponseRequired)"
  defines "response \<equiv> makeResponseEnvelope request options"
  shows "validate vo response = validation_ok \<and>
    pk_responseTo response = pk_messageId request \<and>
    pk_correlationId response = pk_correlationId request \<and>
    pk_sessionId response = pk_sessionId request \<and>
    pk_channelId response = pk_channelId request \<and>
    pk_channelType response = pk_channelType request \<and> pk_messageId response \<noteq> 0"
proof -
  let ?kind = "responseMessageKindForStatus (rs_status options)"
  note kinds = response_like_kinds [OF responseKind_response_like [of "rs_status options"]]
  from assms(1,2) have ids: "pk_messageId request \<noteq> 0" "pk_correlationId request \<noteq> 0"
    by (simp_all add: packet_rules_def)
  with assms(1-8) kinds have "packet_rules vo (makeResponseEnvelope request options)"
    by (simp add: packet_rules_def packet_fields_known_def awaits_response_def
        makeResponseEnvelope_def default_packet_def)
  then have "validate vo (makeResponseEnvelope request options) = validation_ok"
    using validate_iff_rules validate_valid_eq by blast
  then show ?thesis
    using ids makeResponse_id_nonzero [of request options]
    by (simp add: response_def makeResponseEnvelope_def responseCorrelationId_def)
qed

definition sample_request :: packet_envelope where
  "sample_request = default_packet\<lparr>
     pk_sessionId := 7, pk_messageId := 41, pk_correlationId := 40, pk_channelId := CID_SmallData,
     pk_packetType := PT_Clipboard, pk_messageKind := MK_Request, pk_timeoutMs := 5000,
     pk_flags := PacketFlagResponseRequired, pk_payload := [1, 2, 3]\<rparr>"

lemma sample_request_rules [simp]:
  "packet_rules default_validation_options sample_request" "awaits_response sample_request"
  by (simp_all add: sample_request_def default_packet_def packet_rules_def packet_fields_known_def
      awaits_response_def isRequestLike_def isResponseLike_def isStreamMessage_def hasFlag_def
      isKnownChannelId_def isKnownChannelType_def isKnownPacketType_def isKnownMessageKind_def
      isKnownPriority_def isKnownStatus_def default_validation_options_def)

theorem response_to_valid_request_witness:
  "validate default_validation_options
     (makeResponseEnvelope sample_request (default_response_options\<lparr>rs_status := RS_Busy\<rparr>)) =
   validation_ok"
  by (rule response_to_valid_request [THEN conjunct1])
    (simp_all add: default_validation_fields default_response_options_def
      isKnownStatus_def isKnownPriority_def hasFlag_def)

end
