(* ===== verification/Packet_Codec.thy ===== *)
theory Packet_Codec
  imports Byte_IO Message_Lifecycle
begin

text \<open>
  \<open>src/core/protocol/packet_codec.cpp\<close>: the 100-byte packet header, the two checksums, frame
  inspection and decoding. The codec writes and reads fields at fixed offsets; the lemmas
  show the byte layout that results, that decoding inverts encoding, how a receiver finds
  the frame boundary, and that the checksums catch every single corrupted byte.
\<close>

section \<open>Header offsets\<close>

abbreviation (input) PacketWireMagic :: u32 where "PacketWireMagic \<equiv> 0x46443250"
abbreviation (input) PacketWireHeaderLength :: nat where "PacketWireHeaderLength \<equiv> 100"

abbreviation (input) kOffsetMagic :: nat where "kOffsetMagic \<equiv> 0"
abbreviation (input) kOffsetHeaderLength :: nat where "kOffsetHeaderLength \<equiv> 4"
abbreviation (input) kOffsetProtocolMajor :: nat where "kOffsetProtocolMajor \<equiv> 6"
abbreviation (input) kOffsetProtocolMinor :: nat where "kOffsetProtocolMinor \<equiv> 8"
abbreviation (input) kOffsetChannelId :: nat where "kOffsetChannelId \<equiv> 10"
abbreviation (input) kOffsetChannelType :: nat where "kOffsetChannelType \<equiv> 12"
abbreviation (input) kOffsetPacketType :: nat where "kOffsetPacketType \<equiv> 14"
abbreviation (input) kOffsetMessageKind :: nat where "kOffsetMessageKind \<equiv> 16"
abbreviation (input) kOffsetPriority :: nat where "kOffsetPriority \<equiv> 18"
abbreviation (input) kOffsetResponseStatus :: nat where "kOffsetResponseStatus \<equiv> 20"
abbreviation (input) kOffsetFlags :: nat where "kOffsetFlags \<equiv> 24"
abbreviation (input) kOffsetSessionId :: nat where "kOffsetSessionId \<equiv> 28"
abbreviation (input) kOffsetTraceId :: nat where "kOffsetTraceId \<equiv> 36"
abbreviation (input) kOffsetMessageId :: nat where "kOffsetMessageId \<equiv> 44"
abbreviation (input) kOffsetCorrelationId :: nat where "kOffsetCorrelationId \<equiv> 52"
abbreviation (input) kOffsetResponseTo :: nat where "kOffsetResponseTo \<equiv> 60"
abbreviation (input) kOffsetSequence :: nat where "kOffsetSequence \<equiv> 68"
abbreviation (input) kOffsetTimestamp :: nat where "kOffsetTimestamp \<equiv> 76"
abbreviation (input) kOffsetTimeout :: nat where "kOffsetTimeout \<equiv> 84"
abbreviation (input) kOffsetPayloadLength :: nat where "kOffsetPayloadLength \<equiv> 88"
abbreviation (input) kOffsetHeaderCrc :: nat where "kOffsetHeaderCrc \<equiv> 92"
abbreviation (input) kOffsetPayloadCrc :: nat where "kOffsetPayloadCrc \<equiv> 96"

section \<open>Helpers of the codec\<close>

text \<open>A field that lies outside the buffer reads as 0.\<close>

definition readU8 :: "byte_buffer \<Rightarrow> nat \<Rightarrow> u8" where
  "readU8 bytes offset = (case readU8At bytes offset of None \<Rightarrow> 0 | Some v \<Rightarrow> v)"

definition readU16 :: "byte_buffer \<Rightarrow> nat \<Rightarrow> u16" where
  "readU16 bytes offset = (case readU16At bytes offset of None \<Rightarrow> 0 | Some v \<Rightarrow> v)"

definition readU32 :: "byte_buffer \<Rightarrow> nat \<Rightarrow> u32" where
  "readU32 bytes offset = (case readU32At bytes offset of None \<Rightarrow> 0 | Some v \<Rightarrow> v)"

definition readU64 :: "byte_buffer \<Rightarrow> nat \<Rightarrow> u64" where
  "readU64 bytes offset = (case readU64At bytes offset of None \<Rightarrow> 0 | Some v \<Rightarrow> v)"

definition headerForChecksum :: "byte_buffer \<Rightarrow> byte_buffer" where
  "headerForChecksum bytes = splice_at bytes kOffsetHeaderCrc (replicate 4 0)"

section \<open>crc32\<close>

definition crc_bit :: "u32 \<Rightarrow> u32" where
  "crc_bit crc = (let mask = 0 - (crc AND 1) in drop_bit 1 crc XOR (0xedb88320 AND mask))"

definition crc_byte :: "u32 \<Rightarrow> u8 \<Rightarrow> u32" where
  "crc_byte crc byte = (crc_bit ^^ 8) (crc XOR ucast byte)"

definition crc32 :: "byte_buffer \<Rightarrow> u32" where
  "crc32 data = NOT (foldl crc_byte 0xffffffff data)"

section \<open>encode\<close>

definition encode :: "packet_envelope \<Rightarrow> byte_buffer" where
  "encode packet =
    (let payload = pk_payload packet;
         payloadLength = of_nat (length payload) :: u32;
         bytes = replicate (PacketWireHeaderLength + length payload) 0;
         bytes = snd (writeU32At bytes kOffsetMagic PacketWireMagic);
         bytes = snd (writeU16At bytes kOffsetHeaderLength (of_nat PacketWireHeaderLength));
         bytes = snd (writeU16At bytes kOffsetProtocolMajor (pk_protocolMajor packet));
         bytes = snd (writeU16At bytes kOffsetProtocolMinor (pk_protocolMinor packet));
         bytes = snd (writeU16At bytes kOffsetChannelId (pk_channelId packet));
         bytes = snd (writeU16At bytes kOffsetChannelType (pk_channelType packet));
         bytes = snd (writeU16At bytes kOffsetPacketType (pk_packetType packet));
         bytes = snd (writeU16At bytes kOffsetMessageKind (pk_messageKind packet));
         bytes = snd (writeU8At bytes kOffsetPriority (pk_priority packet));
         bytes = snd (writeU16At bytes kOffsetResponseStatus (pk_responseStatus packet));
         bytes = snd (writeU32At bytes kOffsetFlags (pk_flags packet));
         bytes = snd (writeU64At bytes kOffsetSessionId (pk_sessionId packet));
         bytes = snd (writeU64At bytes kOffsetTraceId (pk_traceId packet));
         bytes = snd (writeU64At bytes kOffsetMessageId (pk_messageId packet));
         bytes = snd (writeU64At bytes kOffsetCorrelationId (pk_correlationId packet));
         bytes = snd (writeU64At bytes kOffsetResponseTo (pk_responseTo packet));
         bytes = snd (writeU64At bytes kOffsetSequence (pk_sequence packet));
         bytes = snd (writeU64At bytes kOffsetTimestamp (pk_monotonicTimestampUsec packet));
         bytes = snd (writeU32At bytes kOffsetTimeout (pk_timeoutMs packet));
         bytes = snd (writeU32At bytes kOffsetPayloadLength payloadLength);
         bytes = splice_at bytes PacketWireHeaderLength payload;
         bytes = snd (writeU32At bytes kOffsetPayloadCrc (crc32 payload));
         header = headerForChecksum (take PacketWireHeaderLength bytes)
     in snd (writeU32At bytes kOffsetHeaderCrc (crc32 header)))"

section \<open>inspectFrame and decode\<close>

record codec_options =
  co_maxPayloadBytes :: nat
  co_validatePayloadCrc :: bool
  co_validateHeaderCrc :: bool

definition default_codec_options :: codec_options where
  "default_codec_options = \<lparr>co_maxPayloadBytes = 16 * 1024 * 1024,
     co_validatePayloadCrc = True, co_validateHeaderCrc = True\<rparr>"

datatype packet_decode_status =
    PD_Ok | PD_Incomplete | PD_InvalidMagic | PD_InvalidHeaderLength | PD_UnsupportedVersion
  | PD_PayloadTooLarge | PD_LengthMismatch | PD_HeaderChecksumMismatch
  | PD_PayloadChecksumMismatch | PD_ValidationFailed

record frame_inspection =
  fi_status :: packet_decode_status
  fi_frameSize :: nat
  fi_complete :: bool
  fi_message :: string

definition header_checks ::
    "codec_options \<Rightarrow> byte_buffer \<Rightarrow> (bool \<times> packet_decode_status \<times> string) list" where
  "header_checks options bytes =
    [(length bytes < PacketWireHeaderLength,
        (PD_Incomplete, ''packet is shorter than header'')),
     (readU32 bytes kOffsetMagic \<noteq> PacketWireMagic,
        (PD_InvalidMagic, ''packet magic mismatch'')),
     (unat (readU16 bytes kOffsetHeaderLength) \<noteq> PacketWireHeaderLength,
        (PD_InvalidHeaderLength, ''unsupported packet header length'')),
     (readU16 bytes kOffsetProtocolMajor \<noteq> CurrentProtocolMajor,
        (PD_UnsupportedVersion, ''unsupported protocol major version'')),
     (unat (readU32 bytes kOffsetPayloadLength) > co_maxPayloadBytes options,
        (PD_PayloadTooLarge, ''payload exceeds codec limit''))]"

definition frame_size :: "byte_buffer \<Rightarrow> nat" where
  "frame_size bytes =
     unat (readU16 bytes kOffsetHeaderLength) + unat (readU32 bytes kOffsetPayloadLength)"

definition inspectFrame :: "codec_options \<Rightarrow> byte_buffer \<Rightarrow> frame_inspection" where
  "inspectFrame options bytes =
    (case first_failure (header_checks options bytes) of
       Some (status, message) \<Rightarrow>
         \<lparr>fi_status = status, fi_frameSize = 0, fi_complete = False, fi_message = message\<rparr>
     | None \<Rightarrow>
         (let frameSize = frame_size bytes;
              complete = (length bytes \<ge> frameSize)
          in \<lparr>fi_status = (if complete then PD_Ok else PD_Incomplete),
              fi_frameSize = frameSize, fi_complete = complete,
              fi_message = (if complete then [] else ''packet payload is incomplete'')\<rparr>))"

record packet_decode_result =
  dr_status :: packet_decode_status
  dr_packet :: packet_envelope
  dr_message :: string

definition decode_fail :: "packet_decode_status \<Rightarrow> string \<Rightarrow> packet_decode_result" where
  "decode_fail status message =
     \<lparr>dr_status = status, dr_packet = default_packet, dr_message = message\<rparr>"

definition header_crc_ok :: "byte_buffer \<Rightarrow> bool" where
  "header_crc_ok bytes \<longleftrightarrow>
     (let header = take PacketWireHeaderLength bytes
      in crc32 (headerForChecksum header) = readU32 header kOffsetHeaderCrc)"

definition payload_crc_ok :: "byte_buffer \<Rightarrow> bool" where
  "payload_crc_ok bytes \<longleftrightarrow>
     crc32 (drop PacketWireHeaderLength bytes) = readU32 bytes kOffsetPayloadCrc"

definition decoded_packet :: "byte_buffer \<Rightarrow> packet_envelope" where
  "decoded_packet bytes = \<lparr>
     pk_protocolMajor = readU16 bytes kOffsetProtocolMajor,
     pk_protocolMinor = readU16 bytes kOffsetProtocolMinor,
     pk_sessionId = readU64 bytes kOffsetSessionId,
     pk_traceId = readU64 bytes kOffsetTraceId,
     pk_messageId = readU64 bytes kOffsetMessageId,
     pk_correlationId = readU64 bytes kOffsetCorrelationId,
     pk_responseTo = readU64 bytes kOffsetResponseTo,
     pk_channelId = readU16 bytes kOffsetChannelId,
     pk_channelType = readU16 bytes kOffsetChannelType,
     pk_packetType = readU16 bytes kOffsetPacketType,
     pk_messageKind = readU16 bytes kOffsetMessageKind,
     pk_priority = readU8 bytes kOffsetPriority,
     pk_responseStatus = readU16 bytes kOffsetResponseStatus,
     pk_sequence = readU64 bytes kOffsetSequence,
     pk_monotonicTimestampUsec = readU64 bytes kOffsetTimestamp,
     pk_timeoutMs = readU32 bytes kOffsetTimeout,
     pk_flags = readU32 bytes kOffsetFlags,
     pk_payload = drop PacketWireHeaderLength bytes\<rparr>"

definition decode_validation_options :: "codec_options \<Rightarrow> validation_options" where
  "decode_validation_options options =
     default_validation_options\<lparr>vo_maxPayloadBytes := co_maxPayloadBytes options\<rparr>"

definition decode_checks ::
    "codec_options \<Rightarrow> byte_buffer \<Rightarrow> (bool \<times> packet_decode_status \<times> string) list" where
  "decode_checks options bytes =
    (let validation = validate (decode_validation_options options) (decoded_packet bytes)
     in header_checks options bytes @
       [(length bytes \<noteq> frame_size bytes,
           (PD_LengthMismatch, ''packet length does not match payload length'')),
        (co_validateHeaderCrc options \<and> \<not> header_crc_ok bytes,
           (PD_HeaderChecksumMismatch, ''header crc mismatch'')),
        (co_validatePayloadCrc options \<and> \<not> payload_crc_ok bytes,
           (PD_PayloadChecksumMismatch, ''payload crc mismatch'')),
        (\<not> vr_valid validation, (PD_ValidationFailed, vr_message validation))])"

definition decode :: "codec_options \<Rightarrow> byte_buffer \<Rightarrow> packet_decode_result" where
  "decode options bytes =
    (case first_failure (decode_checks options bytes) of
       Some (status, message) \<Rightarrow> decode_fail status message
     | None \<Rightarrow> \<lparr>dr_status = PD_Ok, dr_packet = decoded_packet bytes, dr_message = []\<rparr>)"

section \<open>The byte layout of an encoded packet\<close>

text \<open>
  The header as the concatenation of its fields, in wire order, with the given header
  checksum: one byte of padding after the priority and two after the response status.
\<close>

definition packet_header :: "packet_envelope \<Rightarrow> u32 \<Rightarrow> byte_buffer" where
  "packet_header packet headerCrc =
     be32 PacketWireMagic @ be16 100 @ be16 (pk_protocolMajor packet) @
     be16 (pk_protocolMinor packet) @ be16 (pk_channelId packet) @ be16 (pk_channelType packet) @
     be16 (pk_packetType packet) @ be16 (pk_messageKind packet) @ [pk_priority packet] @ [0] @
     be16 (pk_responseStatus packet) @ [0, 0] @ be32 (pk_flags packet) @
     be64 (pk_sessionId packet) @ be64 (pk_traceId packet) @ be64 (pk_messageId packet) @
     be64 (pk_correlationId packet) @ be64 (pk_responseTo packet) @ be64 (pk_sequence packet) @
     be64 (pk_monotonicTimestampUsec packet) @ be32 (pk_timeoutMs packet) @
     be32 (of_nat (length (pk_payload packet))) @ be32 headerCrc @
     be32 (crc32 (pk_payload packet))"

lemma length_packet_header [simp]: "length (packet_header packet c) = 100"
  by (simp add: packet_header_def)

lemma zero_header:
  "replicate (100 + n) (0 :: u8) =
     replicate 4 0 @ replicate 2 0 @ replicate 2 0 @ replicate 2 0 @ replicate 2 0 @
     replicate 2 0 @ replicate 2 0 @ replicate 2 0 @ replicate 1 0 @ replicate 1 0 @
     replicate 2 0 @ [0, 0] @ replicate 4 0 @ replicate 8 0 @ replicate 8 0 @
     replicate 8 0 @ replicate 8 0 @ replicate 8 0 @ replicate 8 0 @ replicate 8 0 @
     replicate 4 0 @ replicate 4 0 @ replicate 4 0 @ replicate 4 0 @ replicate n 0"
  using replicate_add [of 80 n "0 :: u8"]
  by (simp add: numeral_eq_Suc)

lemma zero_bytes: "replicate 2 (0 :: u8) = [0, 0]" "replicate 4 (0 :: u8) = be32 0"
  by (simp_all add: be32_def eval_nat_numeral)

lemma headerForChecksum_packet_header:
  "headerForChecksum (packet_header packet c) = packet_header packet 0"
  by (simp add: headerForChecksum_def packet_header_def wire_layout)
    (simp add: be32_def eval_nat_numeral)

lemma encode_layout:
  "encode packet =
     packet_header packet (crc32 (packet_header packet 0)) @ pk_payload packet"
  using headerForChecksum_packet_header [of packet 0]
  unfolding encode_def Let_def zero_header
  by (simp add: wire_layout zero_bytes(2) packet_header_def)

lemma length_encode: "length (encode packet) = 100 + length (pk_payload packet)"
  by (simp add: encode_layout)

text \<open>Reading the fields of an encoded header back.\<close>

lemma encoded_fields:
  fixes packet :: packet_envelope and c :: u32 and rest :: byte_buffer
  defines "bytes \<equiv> packet_header packet c @ rest"
  shows "readU32 bytes kOffsetMagic = PacketWireMagic"
    and "readU16 bytes kOffsetHeaderLength = 100"
    and "readU16 bytes kOffsetProtocolMajor = pk_protocolMajor packet"
    and "readU16 bytes kOffsetProtocolMinor = pk_protocolMinor packet"
    and "readU16 bytes kOffsetChannelId = pk_channelId packet"
    and "readU16 bytes kOffsetChannelType = pk_channelType packet"
    and "readU16 bytes kOffsetPacketType = pk_packetType packet"
    and "readU16 bytes kOffsetMessageKind = pk_messageKind packet"
    and "readU8 bytes kOffsetPriority = pk_priority packet"
    and "readU16 bytes kOffsetResponseStatus = pk_responseStatus packet"
    and "readU32 bytes kOffsetFlags = pk_flags packet"
    and "readU64 bytes kOffsetSessionId = pk_sessionId packet"
    and "readU64 bytes kOffsetTraceId = pk_traceId packet"
    and "readU64 bytes kOffsetMessageId = pk_messageId packet"
    and "readU64 bytes kOffsetCorrelationId = pk_correlationId packet"
    and "readU64 bytes kOffsetResponseTo = pk_responseTo packet"
    and "readU64 bytes kOffsetSequence = pk_sequence packet"
    and "readU64 bytes kOffsetTimestamp = pk_monotonicTimestampUsec packet"
    and "readU32 bytes kOffsetTimeout = pk_timeoutMs packet"
    and "readU32 bytes kOffsetPayloadLength = of_nat (length (pk_payload packet))"
    and "readU32 bytes kOffsetHeaderCrc = c"
    and "readU32 bytes kOffsetPayloadCrc = crc32 (pk_payload packet)"
  by (simp_all add: bytes_def packet_header_def readU8_def readU16_def readU32_def readU64_def
      wire_layout f16.read_here f32.read_here f64.read_here)

lemma take_drop_header [simp]:
  "take 100 (packet_header packet c @ rest) = packet_header packet c"
  "drop 100 (packet_header packet c @ rest) = rest"
  by simp_all

lemma decoded_packet_encode: "decoded_packet (encode packet) = packet"
  by (simp add: decoded_packet_def encode_layout encoded_fields)

lemma header_crc_encode: "header_crc_ok (encode packet)"
  using encoded_fields(21) [of packet _ "[]"]
  by (simp add: header_crc_ok_def encode_layout headerForChecksum_packet_header)

lemma payload_crc_encode: "payload_crc_ok (encode packet)"
  by (simp add: payload_crc_ok_def encode_layout encoded_fields)

lemma frame_size_encode:
  "length (pk_payload packet) < 2 ^ 32 \<Longrightarrow>
     frame_size (encode packet @ rest) = length (encode packet)"
  by (simp add: frame_size_def encode_layout encoded_fields unat_of_nat)

lemma header_checks_encode:
  assumes "packet_rules (decode_validation_options options) packet"
    and "length (pk_payload packet) < 2 ^ 32"
  shows "first_failure (header_checks options (encode packet @ rest)) = None"
  using assms
  by (simp add: header_checks_def encode_layout encoded_fields unat_of_nat packet_rules_def
      decode_validation_options_def default_validation_options_def)

lemma decode_encode:
  assumes "packet_rules (decode_validation_options options) packet"
    and "length (pk_payload packet) < 2 ^ 32"
  shows "decode options (encode packet) = \<lparr>dr_status = PD_Ok, dr_packet = packet, dr_message = []\<rparr>"
proof -
  have "first_failure (decode_checks options (encode packet)) = None"
    using header_checks_encode [OF assms, of "[]"] frame_size_encode [OF assms(2), of "[]"] assms(1)
    by (auto simp: decode_checks_def Let_def first_failure_None decoded_packet_encode
        header_crc_encode payload_crc_encode validate_iff_rules)
  then show ?thesis by (simp add: decode_def decoded_packet_encode)
qed

section \<open>The checksum tells buffers apart that differ in one byte\<close>

text \<open>
  The polynomial's top bit is set, so the top bit of a step's result is the bit that was
  shifted out: the step can be undone.
\<close>

lemma crc_mask: "0 - (crc AND 1 :: u32) = (if bit crc 0 then - 1 else 0)"
proof -
  have "crc AND 1 = (if bit crc 0 then 1 else 0)"
    by (rule bit_word_eqI) (auto simp: bit_simps bit_1_iff intro: gr0I)
  then show ?thesis by simp
qed

lemma crc_bit_eq:
  "crc_bit crc = drop_bit 1 crc XOR (if bit crc 0 then 0xedb88320 else 0)"
  unfolding crc_bit_def Let_def crc_mask by simp

lemma crc_bit_top: "bit (crc_bit crc) 31 = bit crc 0"
proof -
  have "bit (0xedb88320 :: u32) 31" by simp
  moreover have "\<not> bit crc 32" by (auto dest: bit_imp_le_length)
  ultimately show ?thesis by (simp add: crc_bit_eq bit_simps)
qed

lemma xor_cancel_right: "a XOR c = b XOR c \<longleftrightarrow> a = b" for a b c :: u32
  by (metis xor.assoc xor_self_eq xor.right_neutral)

lemma xor_cancel_left: "c XOR a = c XOR b \<longleftrightarrow> a = b" for a b c :: u32
  by (metis xor.assoc xor_self_eq xor.left_neutral)

lemma crc_bit_inject: "crc_bit x = crc_bit y \<longleftrightarrow> x = y"
proof
  assume eq: "crc_bit x = crc_bit y"
  then have low: "bit x 0 = bit y 0"
    using crc_bit_top [of x] crc_bit_top [of y] by simp
  with eq have shifted: "drop_bit 1 x = drop_bit 1 y"
    by (simp add: crc_bit_eq xor_cancel_right)
  show "x = y"
  proof (rule bit_word_eqI)
    fix n
    show "bit x n = bit y n"
    proof (cases n)
      case (Suc m)
      then show ?thesis
        using arg_cong [OF shifted, of "\<lambda>w. bit w m"] by (simp add: bit_simps)
    qed (simp add: low)
  qed
qed simp

lemma crc_bits_inject: "(crc_bit ^^ n) x = (crc_bit ^^ n) y \<longleftrightarrow> x = y"
  by (induction n arbitrary: x y) (simp_all add: crc_bit_inject)

lemma crc_byte_inject_state: "crc_byte x b = crc_byte y b \<longleftrightarrow> x = y"
  by (simp add: crc_byte_def crc_bits_inject xor_cancel_right)

lemma crc_byte_inject_byte: "crc_byte x a = crc_byte x b \<longleftrightarrow> a = b"
proof -
  have "ucast (ucast c :: u32) = c" for c :: u8
    by (rule bit_word_eqI) (simp add: bit_simps)
  then have "ucast a = (ucast b :: u32) \<longleftrightarrow> a = b"
    by metis
  then show ?thesis
    by (simp add: crc_byte_def crc_bits_inject xor_cancel_left)
qed

lemma crc_run_inject: "foldl crc_byte x bs = foldl crc_byte y bs \<longleftrightarrow> x = y"
  by (induction bs arbitrary: x y) (simp_all add: crc_byte_inject_state)

lemma crc32_one_byte: "crc32 (xs @ a # ys) = crc32 (xs @ b # ys) \<longleftrightarrow> a = b"
  by (simp add: crc32_def crc_run_inject crc_byte_inject_byte)

lemma crc32_update:
  assumes "i < length bs" and "b \<noteq> bs ! i"
  shows "crc32 (bs[i := b]) \<noteq> crc32 bs"
  using assms crc32_one_byte [of "take i bs" b "drop (Suc i) bs" "bs ! i"]
  by (simp add: upd_conv_take_nth_drop id_take_nth_drop [symmetric])

section \<open>Corrupted frames\<close>

lemma decode_ok_iff:
  "dr_status (decode options bytes) = PD_Ok \<longleftrightarrow>
     first_failure (decode_checks options bytes) = None"
  by (auto simp: decode_def decode_checks_def header_checks_def Let_def decode_fail_def
      split: option.splits if_splits dest!: first_failure_Some)

lemma decode_ok_facts:
  assumes "dr_status (decode options bytes) = PD_Ok"
  shows "first_failure (header_checks options bytes) = None" "length bytes = frame_size bytes"
    "co_validateHeaderCrc options \<Longrightarrow> header_crc_ok bytes"
    "co_validatePayloadCrc options \<Longrightarrow> payload_crc_ok bytes"
    "packet_rules (decode_validation_options options) (dr_packet (decode options bytes))"
proof -
  have none: "first_failure (decode_checks options bytes) = None"
    using assms by (simp add: decode_ok_iff)
  then have packet: "dr_packet (decode options bytes) = decoded_packet bytes"
    by (simp add: decode_def)
  show "first_failure (header_checks options bytes) = None" "length bytes = frame_size bytes"
    "co_validateHeaderCrc options \<Longrightarrow> header_crc_ok bytes"
    "co_validatePayloadCrc options \<Longrightarrow> payload_crc_ok bytes"
    "packet_rules (decode_validation_options options) (dr_packet (decode options bytes))"
    using none unfolding packet
    by (auto simp: decode_checks_def Let_def first_failure_None validate_iff_rules)
qed

lemma payload_corruption:
  assumes "payload_crc_ok bytes" and "100 \<le> i" "i < length bytes" and "b \<noteq> bytes ! i"
  shows "\<not> payload_crc_ok (bytes[i := b])"
proof -
  have "drop 100 (bytes[i := b]) = (drop 100 bytes)[i - 100 := b]"
    using assms(2) by (simp add: drop_update_swap)
  moreover have "crc32 ((drop 100 bytes)[i - 100 := b]) \<noteq> crc32 (drop 100 bytes)"
    using assms by (intro crc32_update) auto
  moreover have "readU32 (bytes[i := b]) kOffsetPayloadCrc = readU32 bytes kOffsetPayloadCrc"
    using assms(2) by (simp add: readU32_def readU32At_eq read_at_update_other)
  ultimately show ?thesis using assms(1) by (simp add: payload_crc_ok_def)
qed

lemma header_corruption:
  assumes ok: "header_crc_ok bytes" and i: "i < 100" "100 \<le> length bytes" and b: "b \<noteq> bytes ! i"
  shows "\<not> header_crc_ok (bytes[i := b])"
proof -
  let ?header = "take 100 bytes"
  have header: "take 100 (bytes[i := b]) = ?header[i := b]"
    using i by (simp add: take_update_swap)
  have len: "length ?header = 100" using i by simp
  have b': "b \<noteq> ?header ! i" using i b by simp
  show ?thesis
  proof (cases "92 \<le> i \<and> i < 96")
    case True
    have "headerForChecksum (?header[i := b]) = headerForChecksum ?header"
      unfolding headerForChecksum_def by (rule splice_at_update_inside) (use True len in auto)
    moreover have "readU32 (?header[i := b]) kOffsetHeaderCrc \<noteq> readU32 ?header kOffsetHeaderCrc"
      using f32.read_at_update_inside [of 92 ?header i b] True b' len
      by (auto simp: readU32_def readU32At_eq read_at_def)
    ultimately show ?thesis using ok by (simp add: header_crc_ok_def header Let_def)
  next
    case False
    have fill: "headerForChecksum (?header[i := b]) = (headerForChecksum ?header)[i := b]"
      unfolding headerForChecksum_def by (rule splice_at_update_outside) (use False in auto)
    have "headerForChecksum ?header ! i = ?header ! i"
      unfolding headerForChecksum_def using False i by (auto simp: splice_at_nth)
    then have "crc32 (headerForChecksum (?header[i := b])) \<noteq> crc32 (headerForChecksum ?header)"
      unfolding fill using b' i by (intro crc32_update) (auto simp: headerForChecksum_def)
    moreover have "readU32 (?header[i := b]) kOffsetHeaderCrc = readU32 ?header kOffsetHeaderCrc"
      using False by (auto simp: readU32_def readU32At_eq read_at_update_other)
    ultimately show ?thesis using ok by (simp add: header_crc_ok_def header Let_def)
  qed
qed

lemma readU_append:
  assumes "100 \<le> length bytes"
  shows "off + 2 \<le> 100 \<Longrightarrow> readU16 (bytes @ rest) off = readU16 bytes off"
    and "off + 4 \<le> 100 \<Longrightarrow> readU32 (bytes @ rest) off = readU32 bytes off"
  using assms
  by (auto simp: readU16_def readU32_def readU16At_eq readU32At_eq read_at_def)

lemma decode_then_inspect:
  assumes "dr_status (decode options bytes) = PD_Ok"
  shows "inspectFrame options (bytes @ rest) =
    \<lparr>fi_status = PD_Ok, fi_frameSize = length bytes, fi_complete = True, fi_message = []\<rparr>"
proof -
  note ok = decode_ok_facts [OF assms]
  have len: "100 \<le> length bytes"
    using ok(1) by (auto simp: header_checks_def split: if_splits)
  have "first_failure (header_checks options (bytes @ rest)) = None"
    using ok(1) len by (simp add: header_checks_def readU_append [OF len] split: if_splits)
  moreover have "frame_size (bytes @ rest) = length bytes"
    using ok(2) by (simp add: frame_size_def readU_append [OF len])
  ultimately show ?thesis by (simp add: inspectFrame_def Let_def)
qed

lemma inspect_prefix:
  assumes "packet_rules (decode_validation_options options) packet"
    and "length (pk_payload packet) < 2 ^ 32" and "n < length (encode packet)"
  shows "fi_status (inspectFrame options (take n (encode packet))) = PD_Incomplete"
proof (cases "n < 100")
  case True
  then show ?thesis by (simp add: inspectFrame_def header_checks_def length_encode)
next
  case False
  let ?header = "packet_header packet (crc32 (packet_header packet 0))"
  have take: "take n (encode packet) = ?header @ take (n - 100) (pk_payload packet)"
    using False by (simp add: encode_layout)
  have "first_failure (header_checks options (take n (encode packet))) = None"
    unfolding take using assms False
    by (simp add: header_checks_def encoded_fields unat_of_nat packet_rules_def
      decode_validation_options_def default_validation_options_def)
  moreover have "frame_size (take n (encode packet)) = 100 + length (pk_payload packet)"
    unfolding take using assms by (simp add: frame_size_def encoded_fields unat_of_nat)
  ultimately show ?thesis
    using assms by (simp add: inspectFrame_def Let_def length_encode)
qed

section \<open>Properties\<close>

text \<open>
  C1. The packet codec round trip on a byte stream: of the bytes of an encoded packet followed
  by anything, \<open>inspectFrame\<close> reports a complete frame of exactly the packet's bytes, and
  decoding those bytes gives the packet back in every field, for every packet that passes
  validation under the codec's limits.
\<close>

theorem packet_round_trip:
  assumes "packet_rules (decode_validation_options options) packet"
    and "length (pk_payload packet) < 2 ^ 32"
  shows "inspectFrame options (encode packet @ rest) =
      \<lparr>fi_status = PD_Ok, fi_frameSize = 100 + length (pk_payload packet), fi_complete = True,
       fi_message = []\<rparr> \<and>
    decode options (take (100 + length (pk_payload packet)) (encode packet @ rest)) =
      \<lparr>dr_status = PD_Ok, dr_packet = packet, dr_message = []\<rparr>"
  using decode_encode [OF assms] decode_then_inspect [of options "encode packet" rest]
  by (simp add: length_encode)

theorem packet_round_trip_witness:
  "dr_packet (decode default_codec_options (take 103 (encode sample_request @ [9, 9]))) =
   sample_request"
proof -
  have "decode_validation_options default_codec_options = default_validation_options"
    by (simp add: decode_validation_options_def default_codec_options_def
        default_validation_options_def)
  then show ?thesis
    using packet_round_trip [of default_codec_options sample_request "[9, 9]"]
    by (simp add: sample_request_def [THEN arg_cong [of _ _ pk_payload]])
qed

text \<open>
  Incremental receipt: of a frame of which only a proper prefix has arrived, \<open>inspectFrame\<close>
  answers \<open>Incomplete\<close>, never that the frame is malformed, so a receiver that waits for more
  bytes on \<open>Incomplete\<close> never gives up on a valid packet.
\<close>

theorem prefix_is_incomplete:
  assumes "packet_rules (decode_validation_options options) packet"
    and "length (pk_payload packet) < 2 ^ 32" and "n < length (encode packet)"
  shows "fi_status (inspectFrame options (take n (encode packet))) = PD_Incomplete \<and>
    \<not> fi_complete (inspectFrame options (take n (encode packet)))"
  using inspect_prefix [OF assms]
  by (auto simp: inspectFrame_def Let_def split: option.splits)

theorem prefix_is_incomplete_witness:
  "fi_status (inspectFrame default_codec_options (take 101 (encode sample_request))) = PD_Incomplete"
proof -
  have "decode_validation_options default_codec_options = default_validation_options"
    by (simp add: decode_validation_options_def default_codec_options_def
        default_validation_options_def)
  then show ?thesis
    using prefix_is_incomplete [of default_codec_options sample_request 101]
    by (simp add: length_encode sample_request_def [THEN arg_cong [of _ _ pk_payload]])
qed

text \<open>
  C3. What the decoder accepts is sound: the packet passes validation under the codec's limits,
  the bytes are exactly its header and its payload, and \<open>inspectFrame\<close> finds the same frame
  boundary whatever bytes of a next frame follow.
\<close>

theorem decode_sound:
  assumes "dr_status (decode options bytes) = PD_Ok"
  shows "validate (decode_validation_options options) (dr_packet (decode options bytes)) =
      validation_ok \<and>
    length bytes = 100 + length (pk_payload (dr_packet (decode options bytes))) \<and>
    pk_payload (dr_packet (decode options bytes)) = drop 100 bytes \<and>
    inspectFrame options (bytes @ rest) =
      \<lparr>fi_status = PD_Ok, fi_frameSize = length bytes, fi_complete = True, fi_message = []\<rparr>"
proof -
  note ok = decode_ok_facts [OF assms]
  have "100 \<le> length bytes"
    using ok(1) by (auto simp: header_checks_def split: if_splits)
  moreover have "dr_packet (decode options bytes) = decoded_packet bytes"
    using assms by (simp add: decode_ok_iff) (simp add: decode_def)
  ultimately show ?thesis
    using ok(5) decode_then_inspect [OF assms] validate_iff_rules validate_valid_eq
    by (auto simp: decoded_packet_def)
qed

theorem decode_sound_witness:
  "fi_frameSize (inspectFrame default_codec_options (encode sample_request @ [70, 68])) = 103"
proof -
  have "decode_validation_options default_codec_options = default_validation_options"
    by (simp add: decode_validation_options_def default_codec_options_def
        default_validation_options_def)
  then have "dr_status (decode default_codec_options (encode sample_request)) = PD_Ok"
    by (simp add: decode_encode sample_request_def [THEN arg_cong [of _ _ pk_payload]])
  from decode_sound [OF this, of "[70, 68]"] show ?thesis
    by (simp add: length_encode sample_request_def [THEN arg_cong [of _ _ pk_payload]])
qed

text \<open>
  C2. The two checksums catch every corruption of a single byte: a frame that decodes is
  rejected after any one of its bytes, in the header, in the payload or in a checksum itself,
  is replaced by a different one.
\<close>

theorem one_corrupted_byte_is_rejected:
  assumes "co_validateHeaderCrc options" "co_validatePayloadCrc options"
    and "dr_status (decode options bytes) = PD_Ok"
    and "i < length bytes" and "b \<noteq> bytes ! i"
  shows "dr_status (decode options (bytes[i := b])) \<noteq> PD_Ok"
proof
  assume ok': "dr_status (decode options (bytes[i := b])) = PD_Ok"
  note ok = decode_ok_facts [OF assms(3)] and ok' = decode_ok_facts [OF ok']
  have "100 \<le> length bytes"
    using ok(1) by (auto simp: header_checks_def split: if_splits)
  then show False
    using ok ok' assms header_corruption [of bytes i b] payload_corruption [of bytes i b]
    by (cases "i < 100") auto
qed

theorem one_corrupted_byte_is_rejected_witness:
  "dr_status (decode default_codec_options ((encode sample_request)[102 := 77])) \<noteq> PD_Ok"
proof -
  have "decode_validation_options default_codec_options = default_validation_options"
    by (simp add: decode_validation_options_def default_codec_options_def
        default_validation_options_def)
  then have "dr_status (decode default_codec_options (encode sample_request)) = PD_Ok"
    by (simp add: decode_encode sample_request_def [THEN arg_cong [of _ _ pk_payload]])
  moreover have "encode sample_request ! 102 = 3"
    by (simp add: encode_layout nth_append sample_request_def [THEN arg_cong [of _ _ pk_payload]])
  ultimately show ?thesis
    by (intro one_corrupted_byte_is_rejected)
      (simp_all add: default_codec_options_def length_encode
        sample_request_def [THEN arg_cong [of _ _ pk_payload]])
qed

end
