(* ===== verification/Capability_Exchange.thy ===== *)
theory Capability_Exchange
  imports Capability_Negotiator Packet_Codec
begin

text \<open>
  \<open>src/core/protocol/capability_exchange.cpp\<close>: the packets that carry capabilities, and the
  validator, codec and payload limits that follow from a negotiated set.
\<close>

section \<open>Options and results\<close>

record exchange_request_options =
  xq_sessionId :: session_id
  xq_traceId :: trace_id
  xq_messageId :: message_id
  xq_correlationId :: message_id
  xq_sequence :: u64
  xq_monotonicTimestampUsec :: u64
  xq_timeoutMs :: u32
  xq_channelId :: channel_id
  xq_channelType :: channel_type
  xq_priority :: packet_priority

definition default_exchange_request_options :: exchange_request_options where
  "default_exchange_request_options = \<lparr>
     xq_sessionId = 0, xq_traceId = 0, xq_messageId = 0, xq_correlationId = 0, xq_sequence = 0,
     xq_monotonicTimestampUsec = 0, xq_timeoutMs = 5000, xq_channelId = CID_UserAuthMain,
     xq_channelType = CT_Control, xq_priority = PP_Critical\<rparr>"

record exchange_response_options =
  xs_messageId :: message_id
  xs_sequence :: u64
  xs_monotonicTimestampUsec :: u64
  xs_status :: response_status

record packet_limit_result =
  pl_allowed :: bool
  pl_status :: response_status
  pl_message :: string

definition limit_ok :: packet_limit_result where
  "limit_ok = \<lparr>pl_allowed = True, pl_status = RS_Ok, pl_message = []\<rparr>"

definition limit_denied :: "response_status \<Rightarrow> string \<Rightarrow> packet_limit_result" where
  "limit_denied status message = \<lparr>pl_allowed = False, pl_status = status, pl_message = message\<rparr>"

section \<open>The exchange packets\<close>

text \<open>The file's own copy of \<open>responseCorrelationId\<close>.\<close>

definition exchange_responseCorrelationId :: "packet_envelope \<Rightarrow> message_id" where
  "exchange_responseCorrelationId request =
     (if pk_correlationId request \<noteq> 0 then pk_correlationId request else pk_messageId request)"

definition makeBaseResponse ::
    "packet_envelope \<Rightarrow> exchange_response_options \<Rightarrow> packet_envelope" where
  "makeBaseResponse request options = default_packet\<lparr>
     pk_protocolMajor := pk_protocolMajor request,
     pk_protocolMinor := pk_protocolMinor request,
     pk_sessionId := pk_sessionId request,
     pk_traceId := pk_traceId request,
     pk_messageId := xs_messageId options,
     pk_correlationId := exchange_responseCorrelationId request,
     pk_responseTo := pk_messageId request,
     pk_channelId := pk_channelId request,
     pk_channelType := pk_channelType request,
     pk_packetType := PT_Exchange,
     pk_priority := PP_Critical,
     pk_responseStatus := xs_status options,
     pk_sequence := xs_sequence options,
     pk_monotonicTimestampUsec := xs_monotonicTimestampUsec options\<rparr>"

definition isStreamChunk :: "packet_envelope \<Rightarrow> bool" where
  "isStreamChunk packet \<longleftrightarrow> pk_messageKind packet = MK_StreamChunk"

definition exchange_makeRequest ::
    "protocol_capabilities \<Rightarrow> exchange_request_options \<Rightarrow> packet_envelope" where
  "exchange_makeRequest capabilities options = default_packet\<lparr>
     pk_protocolMajor := cap_protocolMajor capabilities,
     pk_protocolMinor := cap_protocolMinor capabilities,
     pk_sessionId := xq_sessionId options,
     pk_traceId := xq_traceId options,
     pk_messageId := xq_messageId options,
     pk_correlationId :=
       (if xq_correlationId options \<noteq> 0 then xq_correlationId options else xq_messageId options),
     pk_channelId := xq_channelId options,
     pk_channelType := xq_channelType options,
     pk_packetType := PT_Exchange,
     pk_messageKind := MK_Request,
     pk_priority := xq_priority options,
     pk_sequence := xq_sequence options,
     pk_monotonicTimestampUsec := xq_monotonicTimestampUsec options,
     pk_timeoutMs := xq_timeoutMs options,
     pk_flags := PacketFlagResponseRequired,
     pk_payload := encodeCapabilities capabilities\<rparr>"

definition exchange_makeResponse ::
    "packet_envelope \<Rightarrow> protocol_capabilities \<Rightarrow> exchange_response_options \<Rightarrow> packet_envelope" where
  "exchange_makeResponse request capabilities options = (makeBaseResponse request options)\<lparr>
     pk_messageKind := (if xs_status options = RS_Ok then MK_Response else MK_Error),
     pk_payload :=
       (if xs_status options = RS_Ok then encodeCapabilities capabilities else [])\<rparr>"

definition exchange_makeError ::
    "packet_envelope \<Rightarrow> exchange_response_options \<Rightarrow> packet_envelope" where
  "exchange_makeError request options =
    (let errorOptions = (if xs_status options = RS_Ok
                         then options\<lparr>xs_status := RS_ProtocolError\<rparr> else options)
     in (makeBaseResponse request errorOptions)\<lparr>pk_messageKind := MK_Error\<rparr>)"

definition exchange_decodePayload ::
    "payload_options \<Rightarrow> packet_envelope \<Rightarrow> capability_decode_result" where
  "exchange_decodePayload payloadOptions packet =
     decodeCapabilities payloadOptions (pk_payload packet)"

section \<open>What the negotiated set imposes\<close>

definition exchange_validationOptions :: "negotiated_capabilities \<Rightarrow> validation_options" where
  "exchange_validationOptions capabilities = default_validation_options\<lparr>
     vo_expectedMajor := nc_protocolMajor capabilities,
     vo_minimumMinor := nc_protocolMinor capabilities,
     vo_maxPayloadBytes := unat (lim_maxPayloadBytes (nc_limits capabilities))\<rparr>"

definition exchange_codecOptions :: "negotiated_capabilities \<Rightarrow> codec_options" where
  "exchange_codecOptions capabilities = default_codec_options\<lparr>
     co_maxPayloadBytes := unat (lim_maxPayloadBytes (nc_limits capabilities))\<rparr>"

definition validatePayloadLimits ::
    "packet_envelope \<Rightarrow> negotiated_capabilities \<Rightarrow> packet_limit_result" where
  "validatePayloadLimits packet capabilities =
    (if length (pk_payload packet) > unat (lim_maxPayloadBytes (nc_limits capabilities)) then
       limit_denied RS_TooLarge ''payload exceeds negotiated max payload size''
     else if isStreamChunk packet \<and>
         length (pk_payload packet) > unat (lim_maxStreamChunkBytes (nc_limits capabilities)) then
       limit_denied RS_TooLarge ''stream chunk exceeds negotiated max stream chunk size''
     else limit_ok)"

section \<open>Lemmas\<close>

text \<open>The identifiers and the address a well-formed exchange request needs.\<close>

definition exchange_request_ready :: "exchange_request_options \<Rightarrow> bool" where
  "exchange_request_ready options \<longleftrightarrow>
     xq_sessionId options \<noteq> 0 \<and> xq_messageId options \<noteq> 0 \<and> xq_timeoutMs options \<noteq> 0 \<and>
     isKnownChannelId (xq_channelId options) \<and> isKnownChannelType (xq_channelType options) \<and>
     isKnownPriority (xq_priority options)"

lemmas exchange_known = isKnownPacketType_def isKnownMessageKind_def isKnownStatus_def
  isKnownPriority_def

lemma flags_exclusive [simp]:
  "hasFlag PacketFlagResponseRequired PacketFlagResponseRequired"
  "\<not> hasFlag PacketFlagResponseRequired PacketFlagNoResponseRequired"
  "\<not> hasFlag PacketFlagNone PacketFlagResponseRequired"
  "\<not> hasFlag PacketFlagNone PacketFlagNoResponseRequired"
  by (simp_all add: hasFlag_def)

lemma exchange_request_rules:
  assumes "exchange_request_ready options"
    and "cap_protocolMajor capabilities = CurrentProtocolMajor"
    and "length (encodeCapabilities capabilities) \<le> co_maxPayloadBytes co"
  shows "packet_rules (decode_validation_options co) (exchange_makeRequest capabilities options)"
  using assms
  by (simp add: packet_rules_def packet_fields_known_def awaits_response_def exchange_known
      isRequestLike_def isResponseLike_def isStreamMessage_def exchange_makeRequest_def
      default_packet_def decode_validation_options_def default_validation_options_def
      exchange_request_ready_def)

lemma encodeCapabilities_short:
  assumes "lists_fit options c"
  shows "length (encodeCapabilities c) < 2 ^ 32"
  using assms by (auto simp: lists_fit_def encodeCapabilities_layout list_part_def)

lemma exchange_response_rules:
  assumes request: "packet_rules vo request" "isRequestLike (pk_messageKind request)"
    and "isKnownStatus (xs_status options)"
    and "length (encodeCapabilities capabilities) \<le> vo_maxPayloadBytes vo"
  shows "packet_rules vo (exchange_makeResponse request capabilities options)"
proof -
  from request have "pk_messageId request \<noteq> 0"
    by (simp add: packet_rules_def awaits_response_def)
  then show ?thesis
    using assms
    by (simp add: packet_rules_def packet_fields_known_def awaits_response_def
        isKnownPacketType_def isKnownMessageKind_def isKnownPriority_def
        isRequestLike_def isResponseLike_def isStreamMessage_def exchange_makeResponse_def
        makeBaseResponse_def default_packet_def)
qed

lemma unat_min: "unat (min v w) = min (unat v) (unat w)"
  by (simp add: min_def word_le_nat_alt)

lemma validatePayloadLimits_iff:
  "pl_allowed (validatePayloadLimits packet nc) \<longleftrightarrow>
     length (pk_payload packet) \<le> unat (lim_maxPayloadBytes (nc_limits nc)) \<and>
     (pk_messageKind packet = MK_StreamChunk \<longrightarrow>
        length (pk_payload packet) \<le> unat (lim_maxStreamChunkBytes (nc_limits nc)))"
  by (auto simp: validatePayloadLimits_def limit_ok_def limit_denied_def isStreamChunk_def)

section \<open>Properties\<close>

text \<open>
  C7. The capability exchange over the wire: the request made from one peer's capabilities,
  encoded as a packet, is accepted by the other's packet decoder; the response it makes is
  accepted by the requester's decoder and answers that request; each peer decodes from the
  payload exactly the capabilities the other sent; and negotiating with what they received, both
  reach the same verdict and the same limits.
\<close>

theorem exchange_over_the_wire:
  assumes "exchange_request_ready options" and "cap_protocolMajor a = CurrentProtocolMajor"
    and "lists_fit po a" "lists_fit po b"
    and "length (encodeCapabilities a) \<le> co_maxPayloadBytes co"
    and "length (encodeCapabilities b) \<le> co_maxPayloadBytes co"
    and "xs_status answer = RS_Ok"
  defines "received \<equiv> decode co (encode (exchange_makeRequest a options))"
  defines "returned \<equiv> decode co (encode (exchange_makeResponse (dr_packet received) b answer))"
  defines "seen \<equiv> cd_capabilities (exchange_decodePayload po (dr_packet received))"
  defines "heard \<equiv> cd_capabilities (exchange_decodePayload po (dr_packet returned))"
  shows "dr_status received = PD_Ok \<and> dr_status returned = PD_Ok \<and>
    pk_messageKind (dr_packet returned) = MK_Response \<and>
    pk_responseTo (dr_packet returned) = xq_messageId options \<and>
    seen = a \<and> heard = b \<and>
    ng_compatible (negotiate a heard) = ng_compatible (negotiate b seen) \<and>
    nc_limits (ng_negotiated (negotiate a heard)) = nc_limits (ng_negotiated (negotiate b seen))"
proof -
  let ?request = "exchange_makeRequest a options" and ?vo = "decode_validation_options co"
  let ?response = "exchange_makeResponse ?request b answer"
  have request: "packet_rules ?vo ?request" by (rule exchange_request_rules [OF assms(1,2,5)])
  have payload: "pk_payload ?request = encodeCapabilities a" "pk_messageKind ?request = MK_Request"
    "pk_messageId ?request = xq_messageId options"
    by (simp_all add: exchange_makeRequest_def)
  have received: "received = \<lparr>dr_status = PD_Ok, dr_packet = ?request, dr_message = []\<rparr>"
    unfolding received_def using request encodeCapabilities_short [OF assms(3)]
    by (intro decode_encode) (simp_all add: payload)
  have "packet_rules ?vo ?response"
    using assms(6,7) by (intro exchange_response_rules [OF request])
      (simp_all add: payload isRequestLike_def isKnownStatus_def decode_validation_options_def)
  moreover have answer: "pk_payload ?response = encodeCapabilities b"
      "pk_messageKind ?response = MK_Response" "pk_responseTo ?response = xq_messageId options"
    using assms(7) by (simp_all add: exchange_makeResponse_def makeBaseResponse_def payload)
  ultimately have returned: "returned = \<lparr>dr_status = PD_Ok, dr_packet = ?response, dr_message = []\<rparr>"
    unfolding returned_def received using encodeCapabilities_short [OF assms(4)]
    by (simp add: decode_encode)
  have "seen = a" "heard = b"
    by (simp_all add: seen_def heard_def received returned exchange_decodePayload_def payload answer
        decodeCapabilities_encoded [OF assms(3)] decodeCapabilities_encoded [OF assms(4)])
  then show ?thesis
    using negotiate_commute [of a b] by (simp add: received returned answer)
qed

theorem exchange_over_the_wire_witness:
  "pk_responseTo (dr_packet (decode default_codec_options (encode (exchange_makeResponse
     (dr_packet (decode default_codec_options (encode (exchange_makeRequest sample_capabilities
        (default_exchange_request_options\<lparr>xq_sessionId := 3, xq_messageId := 9\<rparr>)))))
     sample_capabilities \<lparr>xs_messageId = 2, xs_sequence = 0, xs_monotonicTimestampUsec = 0,
       xs_status = RS_Ok\<rparr>)))) = 9"
proof -
  have "exchange_request_ready (default_exchange_request_options\<lparr>xq_sessionId := 3, xq_messageId := 9\<rparr>)"
    by (simp add: exchange_request_ready_def default_exchange_request_options_def
        isKnownChannelId_def isKnownChannelType_def isKnownPriority_def)
  moreover have "cap_protocolMajor sample_capabilities = CurrentProtocolMajor"
    by (simp add: sample_capabilities_def default_capabilities_def)
  moreover have "length (encodeCapabilities sample_capabilities) \<le> co_maxPayloadBytes default_codec_options"
    by (simp add: encodeCapabilities_layout sample_capabilities_def default_codec_options_def)
  ultimately show ?thesis
    using exchange_over_the_wire [OF _ _ sample_capabilities_fit sample_capabilities_fit] by simp
qed

text \<open>
  The answer to a valid capability request is itself valid under the same rules, for any
  known status, and answers that request; its payload decodes to the responder's capabilities
  if the status is \<open>Ok\<close>, and is empty, in an error message, otherwise.
\<close>

theorem exchange_response_is_valid:
  assumes "packet_rules vo request" "isRequestLike (pk_messageKind request)"
    and "isKnownStatus (xs_status options)" and "lists_fit po capabilities"
    and "length (encodeCapabilities capabilities) \<le> vo_maxPayloadBytes vo"
  defines "response \<equiv> exchange_makeResponse request capabilities options"
  shows "validate vo response = validation_ok \<and>
    pk_responseTo response = pk_messageId request \<and>
    (if xs_status options = RS_Ok
     then pk_messageKind response = MK_Response \<and>
       cd_capabilities (exchange_decodePayload po response) = capabilities
     else pk_messageKind response = MK_Error \<and> pk_payload response = [])"
proof -
  have "validate vo response = validation_ok"
    unfolding response_def
    using exchange_response_rules [OF assms(1,2,3,5)] validate_iff_rules validate_valid_eq by blast
  then show ?thesis
    using decodeCapabilities_encoded [OF assms(4)]
    by (simp add: response_def exchange_makeResponse_def makeBaseResponse_def
        exchange_decodePayload_def)
qed

theorem exchange_response_is_valid_witness:
  "validate default_validation_options (exchange_makeResponse sample_request sample_capabilities
     \<lparr>xs_messageId = 2, xs_sequence = 0, xs_monotonicTimestampUsec = 0, xs_status = RS_Ok\<rparr>) =
   validation_ok"
  by (rule exchange_response_is_valid [THEN conjunct1, of _ _ _ default_payload_options])
    (simp_all add: sample_request_rules, simp_all add: sample_request_def isRequestLike_def
      isKnownStatus_def encodeCapabilities_layout sample_capabilities_def default_validation_fields)

text \<open>
  C31. The limits both peers announced are enforced: a packet that passes validation with the
  options of the negotiation of two peers of the same major version carries no more payload than
  either announced, and the limit check refuses it, with \<open>TooLarge\<close>, exactly if it is a stream
  chunk longer than the smaller of the two announced chunk sizes.
\<close>

theorem negotiated_limits_enforced:
  fixes a b :: protocol_capabilities
  assumes "cap_protocolMajor a = cap_protocolMajor b"
    and "validate (exchange_validationOptions (ng_negotiated (negotiate a b))) packet = validation_ok"
  shows "length (pk_payload packet) \<le> unat (lim_maxPayloadBytes (cap_limits a)) \<and>
    length (pk_payload packet) \<le> unat (lim_maxPayloadBytes (cap_limits b)) \<and>
    pl_status (validatePayloadLimits packet (ng_negotiated (negotiate a b))) =
      (if pk_messageKind packet = MK_StreamChunk \<and>
          min (unat (lim_maxStreamChunkBytes (cap_limits a)))
            (unat (lim_maxStreamChunkBytes (cap_limits b))) < length (pk_payload packet)
       then RS_TooLarge else RS_Ok)"
proof -
  have limits: "nc_limits (ng_negotiated (negotiate a b)) = negotiateLimits (cap_limits a) (cap_limits b)"
    using assms(1) by (simp add: negotiate_fields)
  have "vr_valid (validate (exchange_validationOptions (ng_negotiated (negotiate a b))) packet)"
    using assms(2) by simp
  then have "length (pk_payload packet) \<le>
      min (unat (lim_maxPayloadBytes (cap_limits a))) (unat (lim_maxPayloadBytes (cap_limits b)))"
    by (simp add: validate_iff_rules packet_rules_def exchange_validationOptions_def limits
        negotiateLimits_def Let_def unat_min)
  then show ?thesis
    by (auto simp: validatePayloadLimits_def isStreamChunk_def limit_ok_def limit_denied_def limits
        negotiateLimits_def Let_def unat_min)
qed

theorem negotiated_limits_enforced_witness:
  "pl_status (validatePayloadLimits sample_request
     (ng_negotiated (negotiate sample_capabilities sample_capabilities))) = RS_Ok"
proof -
  have "packet_rules (exchange_validationOptions
      (ng_negotiated (negotiate sample_capabilities sample_capabilities))) sample_request"
    by (simp add: sample_request_def default_packet_def packet_rules_def packet_fields_known_def
      awaits_response_def isRequestLike_def isResponseLike_def isStreamMessage_def hasFlag_def
      isKnownChannelId_def isKnownChannelType_def isKnownPacketType_def isKnownMessageKind_def
      isKnownPriority_def isKnownStatus_def default_validation_options_def
      exchange_validationOptions_def negotiate_fields sample_capabilities_def default_capabilities_def
      negotiateLimits_def default_limits_def Let_def)
  then have "validate (exchange_validationOptions
      (ng_negotiated (negotiate sample_capabilities sample_capabilities))) sample_request = validation_ok"
    using validate_iff_rules validate_valid_eq by blast
  from negotiated_limits_enforced [OF refl this] show ?thesis
    by (simp add: sample_request_def)
qed

end
