(* ===== verification/Std_Map.thy ===== *)
theory Std_Map
  imports Prelude
begin

text \<open>
  \<open>std::map\<close> as the components use it: look up, insert or assign at a key, erase a key, and
  iterate in ascending key order. The model is an association list kept strictly sorted by
  key, so that iteration is the list itself; the locale \<open>ordered_map\<close> is the contract the
  component proofs rest on.
\<close>

section \<open>The contract\<close>

locale ordered_map =
  fixes find_in :: "'m \<Rightarrow> 'k :: linorder \<Rightarrow> 'v option"
    and put :: "'k \<Rightarrow> 'v \<Rightarrow> 'm \<Rightarrow> 'm"
    and erase :: "'k \<Rightarrow> 'm \<Rightarrow> 'm"
    and keys :: "'m \<Rightarrow> 'k list"
    and ok :: "'m \<Rightarrow> bool"
  assumes find_put: "find_in (put k v m) k' = (if k' = k then Some v else find_in m k')"
    and find_erase: "find_in (erase k m) k' = (if k' = k then None else find_in m k')"
    and ok_put: "ok m \<Longrightarrow> ok (put k v m)"
    and ok_erase: "ok m \<Longrightarrow> ok (erase k m)"
    and keys_find: "k \<in> set (keys m) \<longleftrightarrow> find_in m k \<noteq> None"
    and keys_ascending: "ok m \<Longrightarrow> sorted_wrt (<) (keys m)"
begin

lemma find_erase_all: "find_in (fold erase ks m) k = (if k \<in> set ks then None else find_in m k)"
  by (induction ks arbitrary: m) (auto simp: find_erase)

lemma ok_erase_all: "ok m \<Longrightarrow> ok (fold erase ks m)"
  by (induction ks arbitrary: m) (auto intro: ok_erase)

lemma keys_put: "set (keys (put k v m)) = insert k (set (keys m))"
  by (auto simp: keys_find find_put split: if_splits)

lemma keys_erase: "set (keys (erase k m)) = set (keys m) - {k}"
  by (auto simp: keys_find find_erase split: if_splits)

lemma keys_erase_all: "set (keys (fold erase ks m)) = set (keys m) - set ks"
  by (auto simp: keys_find find_erase_all split: if_splits)

lemma keys_distinct: "ok m \<Longrightarrow> distinct (keys m)"
  by (auto dest: keys_ascending simp: strict_sorted_iff)

lemma put_erased: "find_in (put k v (erase k m)) k' = find_in (put k v m) k'"
  by (simp add: find_put find_erase)

lemma length_keys_put:
  assumes "ok m" and "find_in m k = None"
  shows "length (keys (put k v m)) = Suc (length (keys m))"
proof -
  have "k \<notin> set (keys m)" using assms(2) by (simp add: keys_find)
  moreover have "card (set (keys (put k v m))) = card (insert k (set (keys m)))"
    by (simp add: keys_put)
  ultimately show ?thesis
    using assms(1) by (simp add: distinct_card keys_distinct ok_put)
qed

end

section \<open>The sorted association list\<close>

type_synonym ('k, 'v) std_map = "('k \<times> 'v) list"

abbreviation map_find :: "('k, 'v) std_map \<Rightarrow> 'k \<Rightarrow> 'v option" where
  "map_find \<equiv> map_of"

fun map_put :: "'k :: linorder \<Rightarrow> 'v \<Rightarrow> ('k, 'v) std_map \<Rightarrow> ('k, 'v) std_map" where
  "map_put k v [] = [(k, v)]"
| "map_put k v ((k', v') # m) =
    (if k < k' then (k, v) # (k', v') # m
     else if k = k' then (k, v) # m
     else (k', v') # map_put k v m)"

definition map_erase :: "'k \<Rightarrow> ('k, 'v) std_map \<Rightarrow> ('k, 'v) std_map" where
  "map_erase k m = filter (\<lambda>e. fst e \<noteq> k) m"

definition map_keys :: "('k, 'v) std_map \<Rightarrow> 'k list" where
  "map_keys m = map fst m"

definition map_ok :: "('k :: linorder, 'v) std_map \<Rightarrow> bool" where
  "map_ok m \<longleftrightarrow> sorted_wrt (<) (map fst m)"

lemma map_find_put: "map_find (map_put k v m) k' = (if k' = k then Some v else map_find m k')"
  by (induction k v m rule: map_put.induct) auto

lemma map_find_erase: "map_find (map_erase k m) k' = (if k' = k then None else map_find m k')"
  by (induction m) (auto simp: map_erase_def)

lemma map_put_keys: "set (map fst (map_put k v m)) = insert k (set (map fst m))"
  by (induction k v m rule: map_put.induct) auto

lemma map_ok_put: "map_ok m \<Longrightarrow> map_ok (map_put k v m)"
proof (induction k v m rule: map_put.induct)
  case (2 k v k' v' m)
  then show ?case
    using map_put_keys [of k v m] by (force simp: map_ok_def)
qed (simp add: map_ok_def)

lemma map_ok_filter: "map_ok m \<Longrightarrow> map_ok (filter p m)"
  by (induction m) (auto simp: map_ok_def)

lemma map_ok_Nil [simp]: "map_ok []"
  by (simp add: map_ok_def)

interpretation smap: ordered_map map_find map_put map_erase map_keys map_ok
proof unfold_locales
  fix k :: "'k :: linorder" and m :: "('k, 'v) std_map"
  show "map_ok m \<Longrightarrow> map_ok (map_erase k m)"
    by (simp add: map_erase_def map_ok_filter)
  show "k \<in> set (map_keys m) \<longleftrightarrow> map_find m k \<noteq> None"
    by (simp add: map_keys_def map_of_eq_None_iff)
  show "map_ok m \<Longrightarrow> sorted_wrt (<) (map_keys m)"
    by (simp add: map_ok_def map_keys_def)
qed (simp_all add: map_find_put map_find_erase map_ok_put)

lemmas map_lookup [simp] = smap.find_put smap.find_erase smap.find_erase_all

text \<open>
  A \<open>for\<close> loop over the map visits its entries by ascending key; an entry is visited exactly
  if its key finds it.
\<close>

lemma map_entry_iff: "map_ok m \<Longrightarrow> (k, v) \<in> set m \<longleftrightarrow> map_find m k = Some v"
  using smap.keys_distinct [of m] by (simp add: map_keys_def)

lemma map_put_same: "map_ok m \<Longrightarrow> map_find m k = Some v \<Longrightarrow> map_put k v m = m"
  by (induction m) (auto simp: map_ok_def split: if_splits dest!: map_of_SomeD)

lemma map_put_append:
  "\<forall>k' \<in> set (map fst m). k' < k \<Longrightarrow> map_put k v m = m @ [(k, v)]"
  by (induction m) auto

lemma length_map_put_absent: "map_find m k = None \<Longrightarrow> length (map_put k v m) = Suc (length m)"
  by (induction k v m rule: map_put.induct) (auto split: if_splits)

lemma map_erase_absent: "map_find m k = None \<Longrightarrow> map_erase k m = m"
  by (induction m) (auto simp: map_erase_def split: if_splits)

lemma map_erase_put: "map_find m k = None \<Longrightarrow> map_erase k (map_put k v m) = m"
  by (induction k v m rule: map_put.induct)
    (auto simp: map_erase_def filter_id_conv split: if_splits dest!: weak_map_of_SomeI)

lemma erase_all_eq_filter: "fold map_erase ks m = filter (\<lambda>e. fst e \<notin> set ks) m"
  by (induction ks arbitrary: m) (auto simp: map_erase_def intro: filter_cong)

end
