(* ===== verification/Channel.thy ===== *)
theory Channel
  imports Std_Map Protocol_Types
begin

text \<open>
  \<open>include/fusiondesk/core/network/channel.h\<close>: channel keys with their order, the channel
  enumerations, pressure and send results, and the \<open>IChannel\<close> interface. Channels are
  shared objects outside the network layer: a \<open>shared_ptr\<close> to one is a reference of an
  arbitrary type, and its virtual methods are the fields of \<open>channel_interface\<close>, which read
  and change an arbitrary world (the sockets behind the channels).
\<close>

section \<open>Channel keys\<close>

datatype channel_key = ChannelKey (key_channelId: channel_id) (key_channelType: channel_type)

text \<open>\<open>operator<\<close>\<close>

definition channel_key_before :: "channel_key \<Rightarrow> channel_key \<Rightarrow> bool" where
  "channel_key_before a b =
    (if key_channelId a \<noteq> key_channelId b then key_channelId a < key_channelId b
     else key_channelType a < key_channelType b)"

instantiation channel_key :: linorder
begin

definition less_channel_key :: "channel_key \<Rightarrow> channel_key \<Rightarrow> bool" where
  "less_channel_key = channel_key_before"

definition less_eq_channel_key :: "channel_key \<Rightarrow> channel_key \<Rightarrow> bool" where
  "less_eq_channel_key a b \<longleftrightarrow> a < b \<or> a = b"

instance
  by standard
    (auto simp: less_eq_channel_key_def less_channel_key_def channel_key_before_def not_less le_less
      intro: channel_key.expand split: if_splits)

end

definition packet_key :: "packet_envelope \<Rightarrow> channel_key" where
  "packet_key packet = ChannelKey (pk_channelId packet) (pk_channelType packet)"

section \<open>Enumerations\<close>

datatype socket_class = SC_Control | SC_Realtime | SC_Bulk | SC_Auxiliary

fun socket_class_value :: "socket_class \<Rightarrow> nat" where
  "socket_class_value SC_Control = 0"
| "socket_class_value SC_Realtime = 1"
| "socket_class_value SC_Bulk = 2"
| "socket_class_value SC_Auxiliary = 3"

lemma socket_class_value_inject: "socket_class_value a = socket_class_value b \<longleftrightarrow> a = b"
  by (cases a; cases b) simp_all

instantiation socket_class :: linorder
begin

definition less_socket_class :: "socket_class \<Rightarrow> socket_class \<Rightarrow> bool" where
  "less_socket_class a b \<longleftrightarrow> socket_class_value a < socket_class_value b"

definition less_eq_socket_class :: "socket_class \<Rightarrow> socket_class \<Rightarrow> bool" where
  "less_eq_socket_class a b \<longleftrightarrow> socket_class_value a \<le> socket_class_value b"

instance
  by standard
    (auto simp: less_eq_socket_class_def less_socket_class_def
      simp flip: socket_class_value_inject)

end

datatype reliability_mode = RM_Reliable | RM_BestEffort
datatype ordering_mode = OM_Ordered | OM_LatestOnly | OM_Unordered
datatype flow_control_mode = FC_None | FC_Credit | FC_Pressure
datatype queue_policy = QP_Bounded | QP_DropNewest | QP_DropOldest | QP_KeepLatest

datatype channel_state = CS_Registered | CS_Bound | CS_Ready | CS_Degraded | CS_Closed | CS_Failed

datatype pressure_level =
  PL_Healthy | PL_BuildingQueue | PL_Congested | PL_Draining | PL_Closed | PL_Failed

record channel_pressure =
  pr_level :: pressure_level
  pr_queuedPackets :: nat
  pr_queuedBytes :: nat

definition default_pressure :: channel_pressure where
  "default_pressure = \<lparr>pr_level = PL_Healthy, pr_queuedPackets = 0, pr_queuedBytes = 0\<rparr>"

section \<open>Channels\<close>

datatype send_status = SS_Sent | SS_ChannelClosed | SS_ChannelNotFound | SS_BackPressure | SS_Failed

record send_result =
  sr_status :: send_status
  sr_message :: string

definition send_sent :: send_result where
  "send_sent = \<lparr>sr_status = SS_Sent, sr_message = []\<rparr>"

record ('c, 'w) channel_interface =
  ch_id :: "'c \<Rightarrow> 'w \<Rightarrow> channel_id"
  ch_type :: "'c \<Rightarrow> 'w \<Rightarrow> channel_type"
  ch_isOpen :: "'c \<Rightarrow> 'w \<Rightarrow> bool"
  ch_send :: "'c \<Rightarrow> packet_envelope \<Rightarrow> 'w \<Rightarrow> send_result \<times> 'w"

end
