(* ===== verification/Session_Context.thy ===== *)
theory Session_Context
  imports Capability_Negotiator Channel
begin

text \<open>
  \<open>include/fusiondesk/core/session/session_context.h\<close>, the data a session is authorised and
  run with, and \<open>src/core/diagnostics/diagnostics_sink.cpp\<close>, the event log all sessions
  publish to.
\<close>

section \<open>Session context\<close>

datatype session_role = SR_Client | SR_Agent | SR_Auth | SR_Relay | SR_Standalone

datatype transport_mode = TM_Unknown | TM_Lan | TM_Relay | TM_DirectTunnel

datatype security_mode = SM_Unknown | SM_None | SM_Tls | SM_Enterprise

record session_context =
  cx_sessionId :: session_id
  cx_traceId :: trace_id
  cx_tenantId :: string
  cx_userId :: string
  cx_deviceId :: string
  cx_clientDeviceId :: string
  cx_agentDeviceId :: string
  cx_localPeerId :: string
  cx_remotePeerId :: string
  cx_localPlatform :: string
  cx_remotePlatform :: string
  cx_localCpuArch :: string
  cx_remoteCpuArch :: string
  cx_role :: session_role
  cx_transportMode :: transport_mode
  cx_securityMode :: security_mode
  cx_requestedFeatures :: feature_set
  cx_licensedFeatures :: feature_set
  cx_policyFeatures :: feature_set
  cx_allowedFeatures :: feature_set
  cx_negotiatedCapabilities :: negotiated_capabilities
  cx_policyVersion :: string
  cx_protocolMajor :: u16
  cx_protocolMinor :: u16
  cx_createdMonotonicTimestampUsec :: u64
  cx_reconnectCount :: u32

definition default_context :: session_context where
  "default_context = \<lparr>
     cx_sessionId = 0, cx_traceId = 0, cx_tenantId = [], cx_userId = [], cx_deviceId = [],
     cx_clientDeviceId = [], cx_agentDeviceId = [], cx_localPeerId = [], cx_remotePeerId = [],
     cx_localPlatform = [], cx_remotePlatform = [], cx_localCpuArch = [], cx_remoteCpuArch = [],
     cx_role = SR_Standalone, cx_transportMode = TM_Unknown, cx_securityMode = SM_Unknown,
     cx_requestedFeatures = 0, cx_licensedFeatures = 0, cx_policyFeatures = 0,
     cx_allowedFeatures = 0, cx_negotiatedCapabilities = default_negotiated,
     cx_policyVersion = [], cx_protocolMajor = CurrentProtocolMajor,
     cx_protocolMinor = CurrentProtocolMinor, cx_createdMonotonicTimestampUsec = 0,
     cx_reconnectCount = 0\<rparr>"

section \<open>Diagnostics\<close>

datatype diagnostic_severity = DS_Debug | DS_Info | DS_Warning | DS_Error

record diagnostic_event =
  ev_sessionId :: session_id
  ev_traceId :: trace_id
  ev_moduleId :: string
  ev_channel :: channel_key
  ev_severity :: diagnostic_severity
  ev_code :: string
  ev_message :: string
  ev_monotonicTimestampUsec :: u64
  ev_policyVersion :: string

definition default_event :: diagnostic_event where
  "default_event = \<lparr>
     ev_sessionId = 0, ev_traceId = 0, ev_moduleId = [], ev_channel = ChannelKey 0 CT_Standard,
     ev_severity = DS_Info, ev_code = [], ev_message = [], ev_monotonicTimestampUsec = 0,
     ev_policyVersion = []\<rparr>"

text \<open>The sink is its vector of events.\<close>

type_synonym diagnostics_sink = "diagnostic_event list"

definition sink_publish :: "diagnostic_event \<Rightarrow> diagnostics_sink \<Rightarrow> diagnostics_sink" where
  "sink_publish event events = events @ [event]"

fun eventsForSession :: "session_id \<Rightarrow> diagnostics_sink \<Rightarrow> diagnostic_event list" where
  "eventsForSession sessionId [] = []"
| "eventsForSession sessionId (event # events) =
    (if ev_sessionId event = sessionId then event # eventsForSession sessionId events
     else eventsForSession sessionId events)"

definition sink_clear :: "diagnostics_sink \<Rightarrow> diagnostics_sink" where
  "sink_clear events = []"

lemma eventsForSession_append [simp]:
  "eventsForSession sessionId (xs @ ys) = eventsForSession sessionId xs @ eventsForSession sessionId ys"
  by (induction xs) auto

lemma eventsForSession_publish [simp]:
  "eventsForSession sessionId (sink_publish event events) = eventsForSession sessionId events @
     (if ev_sessionId event = sessionId then [event] else [])"
  by (simp add: sink_publish_def)

end
