(* ===== verification/Module_Manifest.thy ===== *)
theory Module_Manifest
  imports Channel Session_Context
begin

text \<open>
  \<open>include/fusiondesk/core/module/module_manifest.h\<close> and
  \<open>src/core/module/module_compatibility.cpp\<close>: what a module declares about itself, and
  whether a peer's module version is compatible with it.
\<close>

section \<open>Manifests\<close>

abbreviation (input) ModuleRoleClient :: u32 where "ModuleRoleClient \<equiv> 0x01"
abbreviation (input) ModuleRoleAgent :: u32 where "ModuleRoleAgent \<equiv> 0x02"
abbreviation (input) ModuleRoleAuth :: u32 where "ModuleRoleAuth \<equiv> 0x04"
abbreviation (input) ModuleRoleBridge :: u32 where "ModuleRoleBridge \<equiv> 0x08"
abbreviation (input) ModuleRoleTool :: u32 where "ModuleRoleTool \<equiv> 0x10"

abbreviation (input) ModuleRunModeInProcess :: u32 where "ModuleRunModeInProcess \<equiv> 0x01"
abbreviation (input) ModuleRunModeHosted :: u32 where "ModuleRunModeHosted \<equiv> 0x02"
abbreviation (input) ModuleRunModeStandalone :: u32 where "ModuleRunModeStandalone \<equiv> 0x04"
abbreviation (input) ModuleRunModeProcessOut :: u32 where "ModuleRunModeProcessOut \<equiv> 0x08"

record channel_binding =
  cb_name :: string
  cb_channelId :: channel_id
  cb_channelType :: channel_type
  cb_required :: bool
  cb_shared :: bool
  cb_consumes :: "packet_type list"
  cb_produces :: "packet_type list"

record module_version =
  mv_major :: u16
  mv_minor :: u16
  mv_patch :: u16

record peer_compatibility =
  pc_peerModuleId :: string
  pc_minPeerVersion :: module_version
  pc_maxPeerVersion :: module_version
  pc_compatibilityMode :: string

record peer_version =
  pv_moduleId :: string
  pv_version :: module_version
  pv_compatible :: bool
  pv_compatibilityMode :: string

record version_constraint =
  vc_moduleId :: string
  vc_minVersion :: module_version
  vc_maxVersion :: module_version

record module_manifest =
  mf_moduleId :: string
  mf_displayName :: string
  mf_sku :: string
  mf_version :: module_version
  mf_feature :: feature_mask
  mf_roleFlags :: u32
  mf_runModeFlags :: u32
  mf_standaloneSaleUnit :: bool
  mf_disableAtRuntime :: bool
  mf_supportedPlatforms :: "string list"
  mf_requiredModules :: "string list"
  mf_optionalModules :: "string list"
  mf_compatiblePeers :: "peer_compatibility list"
  mf_channels :: "channel_binding list"

definition default_version :: module_version where
  "default_version = \<lparr>mv_major = 1, mv_minor = 0, mv_patch = 0\<rparr>"

definition default_manifest :: module_manifest where
  "default_manifest = \<lparr>
     mf_moduleId = [], mf_displayName = [], mf_sku = [], mf_version = default_version,
     mf_feature = 0, mf_roleFlags = 0, mf_runModeFlags = 0, mf_standaloneSaleUnit = False,
     mf_disableAtRuntime = True, mf_supportedPlatforms = [], mf_requiredModules = [],
     mf_optionalModules = [], mf_compatiblePeers = [], mf_channels = []\<rparr>"

section \<open>Versions and compatibility\<close>

definition compareModuleVersion :: "module_version \<Rightarrow> module_version \<Rightarrow> int" where
  "compareModuleVersion lhs rhs =
    (if mv_major lhs \<noteq> mv_major rhs then (if mv_major lhs < mv_major rhs then - 1 else 1)
     else if mv_minor lhs \<noteq> mv_minor rhs then (if mv_minor lhs < mv_minor rhs then - 1 else 1)
     else if mv_patch lhs \<noteq> mv_patch rhs then (if mv_patch lhs < mv_patch rhs then - 1 else 1)
     else 0)"

definition moduleVersionInRange :: "module_version \<Rightarrow> module_version \<Rightarrow> module_version \<Rightarrow> bool" where
  "moduleVersionInRange version minimum maximum \<longleftrightarrow>
     compareModuleVersion minimum version \<le> 0 \<and> compareModuleVersion version maximum \<le> 0"

record compatibility_check =
  cc_compatible :: bool
  cc_localModuleId :: string
  cc_localVersion :: module_version
  cc_peerModuleId :: string
  cc_peerVersion :: module_version
  cc_compatibilityMode :: string
  cc_message :: string

definition default_check :: compatibility_check where
  "default_check = \<lparr>
     cc_compatible = False, cc_localModuleId = [], cc_localVersion = default_version,
     cc_peerModuleId = [], cc_peerVersion = default_version, cc_compatibilityMode = [],
     cc_message = []\<rparr>"

definition checkModuleCompatibility ::
    "module_manifest \<Rightarrow> string \<Rightarrow> module_version \<Rightarrow> compatibility_check" where
  "checkModuleCompatibility local_manifest peerModuleId peerVersion =
    (let result = default_check\<lparr>
           cc_localModuleId := mf_moduleId local_manifest, cc_localVersion := mf_version local_manifest,
           cc_peerModuleId := peerModuleId, cc_peerVersion := peerVersion\<rparr>
     in if mf_moduleId local_manifest = [] then
          result\<lparr>cc_message := ''local module id is empty''\<rparr>
        else if peerModuleId = [] then
          result\<lparr>cc_message := ''peer module id is empty''\<rparr>
        else case find (\<lambda>c. pc_peerModuleId c = peerModuleId) (mf_compatiblePeers local_manifest) of
          None \<Rightarrow> result\<lparr>cc_message := ''peer module is not declared as compatible''\<rparr>
        | Some c \<Rightarrow>
            let result = result\<lparr>cc_compatibilityMode := pc_compatibilityMode c\<rparr> in
            if \<not> moduleVersionInRange peerVersion (pc_minPeerVersion c) (pc_maxPeerVersion c) then
              result\<lparr>cc_message := ''peer module version is outside declared range''\<rparr>
            else result\<lparr>cc_compatible := True,
              cc_message := ''peer module version is compatible''\<rparr>)"

section \<open>Lemmas\<close>

text \<open>The comparison is the lexicographic order of the three numbers.\<close>

definition version_le :: "module_version \<Rightarrow> module_version \<Rightarrow> bool" where
  "version_le a b \<longleftrightarrow>
     mv_major a < mv_major b \<or>
     mv_major a = mv_major b \<and>
       (mv_minor a < mv_minor b \<or>
        mv_minor a = mv_minor b \<and> mv_patch a \<le> mv_patch b)"

lemma compareModuleVersion_le [simp]: "compareModuleVersion a b \<le> 0 \<longleftrightarrow> version_le a b"
  by (auto simp: compareModuleVersion_def version_le_def)

lemma compareModuleVersion_antisym: "compareModuleVersion a b = - compareModuleVersion b a"
  by (auto simp: compareModuleVersion_def)

lemma compareModuleVersion_eq_0: "compareModuleVersion a b = 0 \<longleftrightarrow> a = b"
  by (auto simp: compareModuleVersion_def split: if_splits)

lemma version_le_trans: "version_le a b \<Longrightarrow> version_le b c \<Longrightarrow> version_le a c"
  by (auto simp: version_le_def)

lemma version_le_linear: "version_le a b \<or> version_le b a"
  by (auto simp: version_le_def)

lemma checkModuleCompatibility_compatible:
  "cc_compatible (checkModuleCompatibility m peer v) \<longleftrightarrow>
     mf_moduleId m \<noteq> [] \<and> peer \<noteq> [] \<and>
     (\<exists>c. find (\<lambda>c. pc_peerModuleId c = peer) (mf_compatiblePeers m) = Some c \<and>
        version_le (pc_minPeerVersion c) v \<and> version_le v (pc_maxPeerVersion c))"
  by (auto simp: checkModuleCompatibility_def Let_def default_check_def moduleVersionInRange_def
      split: option.split)

end
