(* ===== verification/Network_Router.thy ===== *)
theory Network_Router
  imports Channel
begin

text \<open>
  \<open>src/core/network/network_router.cpp\<close>: outgoing packets go to the channel registered under
  their key, incoming packets to the handlers of the subscriptions they match. The locale
  \<open>subscription_router\<close> is what \<open>INetworkRouter\<close> promises a client that subscribes and
  unsubscribes; it is proved for the router model at the end.
\<close>

section \<open>State\<close>

type_synonym subscription_token = u64

record route_match =
  rm_channelId :: "channel_id option"
  rm_channelType :: "channel_type option"
  rm_messageKind :: "message_kind option"
  rm_packetType :: packet_type

record 'h subscription =
  sub_route :: route_match
  sub_handler :: "'h option"

record ('c, 'h) router =
  ro_channels :: "(channel_key, 'c) std_map"
  ro_subscriptions :: "(subscription_token, 'h subscription) std_map"
  ro_nextToken :: subscription_token

definition new_router :: "('c, 'h) router" where
  "new_router = \<lparr>ro_channels = [], ro_subscriptions = [], ro_nextToken = 1\<rparr>"

section \<open>Operations\<close>

definition registerChannel ::
    "('c, 'w) channel_interface \<Rightarrow> 'w \<Rightarrow> 'c option \<Rightarrow> ('c, 'h) router \<Rightarrow> bool \<times> ('c, 'h) router" where
  "registerChannel iface w channel r =
    (case channel of
       None \<Rightarrow> (False, r)
     | Some c \<Rightarrow> (True, r\<lparr>ro_channels :=
         map_put (ChannelKey (ch_id iface c w) (ch_type iface c w)) c (ro_channels r)\<rparr>))"

definition unregisterChannel ::
    "channel_id \<Rightarrow> channel_type \<Rightarrow> ('c, 'h) router \<Rightarrow> ('c, 'h) router" where
  "unregisterChannel channelId channelType r =
     r\<lparr>ro_channels := map_erase (ChannelKey channelId channelType) (ro_channels r)\<rparr>"

definition send ::
    "('c, 'w) channel_interface \<Rightarrow> packet_envelope \<Rightarrow> ('c, 'h) router \<Rightarrow> 'w \<Rightarrow> send_result \<times> 'w" where
  "send iface packet r w =
    (case map_find (ro_channels r) (ChannelKey (pk_channelId packet) (pk_channelType packet)) of
       None \<Rightarrow> (\<lparr>sr_status = SS_ChannelNotFound, sr_message = ''channel not found''\<rparr>, w)
     | Some channel \<Rightarrow>
         if \<not> ch_isOpen iface channel w then
           (\<lparr>sr_status = SS_ChannelClosed, sr_message = ''channel is closed''\<rparr>, w)
         else ch_send iface channel packet w)"

definition subscribe ::
    "route_match \<Rightarrow> 'h option \<Rightarrow> ('c, 'h) router \<Rightarrow> subscription_token \<times> ('c, 'h) router" where
  "subscribe route handler r =
    (if handler = None then (0, r)
     else let token = ro_nextToken r in
       (token, r\<lparr>ro_nextToken := token + 1,
          ro_subscriptions := map_put token \<lparr>sub_route = route, sub_handler = handler\<rparr>
            (ro_subscriptions r)\<rparr>))"

definition unsubscribe :: "subscription_token \<Rightarrow> ('c, 'h) router \<Rightarrow> ('c, 'h) router" where
  "unsubscribe token r = r\<lparr>ro_subscriptions := map_erase token (ro_subscriptions r)\<rparr>"

definition routeMatches :: "route_match \<Rightarrow> packet_envelope \<Rightarrow> bool" where
  "routeMatches route packet =
    (if rm_channelId route \<noteq> None \<and> rm_channelId route \<noteq> Some (pk_channelId packet) then False
     else if rm_channelType route \<noteq> None \<and> rm_channelType route \<noteq> Some (pk_channelType packet)
     then False
     else if rm_messageKind route \<noteq> None \<and> rm_messageKind route \<noteq> Some (pk_messageKind packet)
     then False
     else rm_packetType route = pk_packetType packet)"

text \<open>
  The handlers are copied before the first one is called, so the calls made are those listed
  here even if a handler subscribes or unsubscribes.
\<close>

definition submitIncoming :: "packet_envelope \<Rightarrow> ('c, 'h) router \<Rightarrow> ('h \<times> packet_envelope) list" where
  "submitIncoming packet r =
    (let handlers = map (\<lambda>item. sub_handler (snd item))
           (filter (\<lambda>item. routeMatches (sub_route (snd item)) packet) (ro_subscriptions r))
     in concat (map (\<lambda>handler. case handler of None \<Rightarrow> [] | Some h \<Rightarrow> [(h, packet)]) handlers))"

section \<open>The router invariant\<close>

text \<open>Tokens are handed out in ascending order from 1 on, until the 64-bit counter wraps.\<close>

definition router_ok :: "('c, 'h) router \<Rightarrow> bool" where
  "router_ok r \<longleftrightarrow> map_ok (ro_channels r) \<and> map_ok (ro_subscriptions r) \<and> ro_nextToken r \<noteq> 0 \<and>
     (\<forall>token s. map_find (ro_subscriptions r) token = Some s \<longrightarrow>
        token \<noteq> 0 \<and> token < ro_nextToken r \<and> sub_handler s \<noteq> None)"

definition router_room :: "nat \<Rightarrow> ('c, 'h) router \<Rightarrow> bool" where
  "router_room n r \<longleftrightarrow> router_ok r \<and> unat (ro_nextToken r) + n < 2 ^ 64"

definition router_lookup ::
    "('c, 'h) router \<Rightarrow> subscription_token \<Rightarrow> (route_match \<times> 'h) option" where
  "router_lookup r token =
    (case map_find (ro_subscriptions r) token of
       None \<Rightarrow> None
     | Some s \<Rightarrow> map_option (Pair (sub_route s)) (sub_handler s))"

lemma new_router_room [simp]: "n < 2 ^ 64 - 1 \<Longrightarrow> router_room n new_router"
  by (simp add: router_room_def router_ok_def new_router_def)

lemma token_increment:
  assumes "unat (t :: u64) + Suc n < 2 ^ 64"
  shows "unat (t + 1) = Suc (unat t)" "t + 1 \<noteq> 0" "t < t + 1"
proof -
  have "unat t + unat (1 :: u64) < 2 ^ 64" using assms by simp
  then show *: "unat (t + 1) = Suc (unat t)"
    by (simp add: unat_add_lem [where 'a = 64, THEN iffD1])
  then show "t < t + 1" by (simp add: word_less_nat_alt)
  show "t + 1 \<noteq> 0" using * by (metis nat.distinct(1) unat_0)
qed

lemma subscribe_room:
  assumes room: "router_room (Suc n) r" and h: "handler \<noteq> None"
    and sub: "subscribe route handler r = (token, r')"
  shows "router_room n r'" "token \<noteq> 0" "map_find (ro_subscriptions r) token = None"
    "router_lookup r' = (router_lookup r)(token := Some (route, the handler))"
proof -
  note inc = token_increment [of "ro_nextToken r" n]
  from room have next_token: "unat (ro_nextToken r) + Suc n < 2 ^ 64" and ok: "router_ok r"
    by (simp_all add: router_room_def)
  have token: "token = ro_nextToken r" and r': "r' = r\<lparr>ro_nextToken := ro_nextToken r + 1,
      ro_subscriptions := map_put (ro_nextToken r) \<lparr>sub_route = route, sub_handler = handler\<rparr>
        (ro_subscriptions r)\<rparr>"
    using h sub by (auto simp: subscribe_def Let_def)
  show "token \<noteq> 0" using ok by (simp add: token router_ok_def)
  show "map_find (ro_subscriptions r) token = None"
    using ok by (cases "map_find (ro_subscriptions r) token") (auto simp: token router_ok_def)
  show "router_lookup r' = (router_lookup r)(token := Some (route, the handler))"
    using h by (auto simp: fun_eq_iff router_lookup_def r' token)
  show "router_room n r'"
    using ok h inc [OF next_token] next_token
    by (auto simp: router_room_def router_ok_def r' smap.ok_put intro: less_trans)
qed

lemma unsubscribe_room:
  "router_room n r \<Longrightarrow> router_room n (unsubscribe token r)"
  by (auto simp: router_room_def router_ok_def unsubscribe_def smap.ok_erase split: if_splits)

lemma unsubscribe_lookup: "router_lookup (unsubscribe token r) = (router_lookup r)(token := None)"
  by (auto simp: fun_eq_iff router_lookup_def unsubscribe_def)

section \<open>The contract of a subscription router\<close>

locale subscription_router =
  fixes subscribe_at :: "route_match \<Rightarrow> 'h option \<Rightarrow> 'r \<Rightarrow> subscription_token \<times> 'r"
    and unsubscribe_at :: "subscription_token \<Rightarrow> 'r \<Rightarrow> 'r"
    and lookup_at :: "'r \<Rightarrow> subscription_token \<Rightarrow> (route_match \<times> 'h) option"
    and room_at :: "nat \<Rightarrow> 'r \<Rightarrow> bool"
  assumes subscribe_grants: "room_at (Suc n) r \<Longrightarrow> subscribe_at route (Some h) r = (token, r') \<Longrightarrow>
      token \<noteq> 0 \<and> lookup_at r token = None \<and>
      lookup_at r' = (lookup_at r)(token := Some (route, h)) \<and> room_at n r'"
    and unsubscribe_drops: "room_at n r \<Longrightarrow>
      lookup_at (unsubscribe_at token r) = (lookup_at r)(token := None) \<and>
      room_at n (unsubscribe_at token r)"
begin

lemma unsubscribe_all_room: "room_at n r \<Longrightarrow> room_at n (fold unsubscribe_at tokens r)"
  by (induction tokens arbitrary: r) (auto dest: unsubscribe_drops)

lemma unsubscribe_all_lookup:
  "room_at n r \<Longrightarrow> lookup_at (fold unsubscribe_at tokens r) token =
     (if token \<in> set tokens then None else lookup_at r token)"
proof (induction tokens arbitrary: r)
  case (Cons t tokens)
  then show ?case using unsubscribe_drops [OF Cons.prems, of t] by (auto simp: fun_upd_apply)
qed simp

end

interpretation network_router: subscription_router subscribe unsubscribe router_lookup router_room
proof unfold_locales
  fix n r route h token and r' :: "('c, 'h) router"
  assume "router_room (Suc n) r" and "subscribe route (Some h) r = (token, r')"
  then show "token \<noteq> 0 \<and> router_lookup r token = None \<and>
      router_lookup r' = (router_lookup r)(token := Some (route, h)) \<and> router_room n r'"
    using subscribe_room [of n r "Some h" route token r'] by (simp add: router_lookup_def)
qed (simp add: unsubscribe_room unsubscribe_lookup)

section \<open>Delivery\<close>

text \<open>The reading of a route as a set of packets: what it names has to agree.\<close>

lemma routeMatches_iff:
  "routeMatches route packet \<longleftrightarrow> rm_packetType route = pk_packetType packet \<and>
     rm_channelId route \<in> {None, Some (pk_channelId packet)} \<and>
     rm_channelType route \<in> {None, Some (pk_channelType packet)} \<and>
     rm_messageKind route \<in> {None, Some (pk_messageKind packet)}"
  by (auto simp: routeMatches_def)

lemma submitIncoming_calls:
  assumes "router_ok r"
  shows "submitIncoming packet r = map (\<lambda>item. (the (sub_handler (snd item)), packet))
    (filter (\<lambda>item. routeMatches (sub_route (snd item)) packet) (ro_subscriptions r))"
proof -
  have *: "concat (map (\<lambda>handler. case handler of None \<Rightarrow> [] | Some h \<Rightarrow> [(h, packet)])
      (map (\<lambda>item. sub_handler (snd item)) items)) =
    map (\<lambda>item. (the (sub_handler (snd item)), packet)) items"
    if "\<forall>item \<in> set items. sub_handler (snd item) \<noteq> None"
    for items :: "(subscription_token \<times> 'b subscription) list"
    using that by (induction items) auto
  have "\<forall>item \<in> set (ro_subscriptions r). sub_handler (snd item) \<noteq> None"
  proof
    fix item
    assume "item \<in> set (ro_subscriptions r)"
    moreover have "map_ok (ro_subscriptions r)" using assms by (simp add: router_ok_def)
    ultimately have "map_find (ro_subscriptions r) (fst item) = Some (snd item)"
      by (metis map_entry_iff prod.collapse)
    then show "sub_handler (snd item) \<noteq> None" using assms by (auto simp: router_ok_def)
  qed
  then show ?thesis unfolding submitIncoming_def Let_def by (intro *) simp
qed

lemma submitIncoming_iff:
  assumes "router_ok r"
  shows "(h, packet') \<in> set (submitIncoming packet r) \<longleftrightarrow> packet' = packet \<and>
    (\<exists>token route. router_lookup r token = Some (route, h) \<and> routeMatches route packet)"
proof -
  have ok: "map_ok (ro_subscriptions r)" using assms by (simp add: router_ok_def)
  have "(h, packet') \<in> set (submitIncoming packet r) \<longleftrightarrow> packet' = packet \<and>
    (\<exists>token s. map_find (ro_subscriptions r) token = Some s \<and> the (sub_handler s) = h \<and>
       routeMatches (sub_route s) packet)"
    unfolding submitIncoming_calls [OF assms] using map_entry_iff [OF ok] by force
  moreover have "(map_find (ro_subscriptions r) token = Some s \<and> the (sub_handler s) = h) =
      (map_find (ro_subscriptions r) token = Some s \<and> sub_handler s = Some h)" for token s
    using assms by (auto simp: router_ok_def)
  ultimately show ?thesis
    by (fastforce simp: router_lookup_def split: option.splits)
qed

section \<open>The subscriptions as a map\<close>

text \<open>
  The specification of the subscription table: tokens are counted from 1, a subscription with a
  handler is entered under the next number, and an unsubscription deletes its entry.
\<close>

datatype 'h router_op = Subscribe route_match "'h option" | Unsubscribe subscription_token

type_synonym 'h subscription_spec = "nat \<times> (nat \<Rightarrow> (route_match \<times> 'h) option)"

fun router_step :: "'h router_op \<Rightarrow> ('c, 'h) router \<Rightarrow> ('c, 'h) router" where
  "router_step (Subscribe route handler) r = snd (subscribe route handler r)"
| "router_step (Unsubscribe token) r = unsubscribe token r"

fun spec_step :: "'h router_op \<Rightarrow> 'h subscription_spec \<Rightarrow> 'h subscription_spec" where
  "spec_step (Subscribe route None) (n, f) = (n, f)"
| "spec_step (Subscribe route (Some h)) (n, f) = (Suc n, f(n := Some (route, h)))"
| "spec_step (Unsubscribe token) (n, f) = (n, f(unat token := None))"

definition abs_router :: "('c, 'h) router \<Rightarrow> 'h subscription_spec" where
  "abs_router r = (unat (ro_nextToken r),
     \<lambda>k. if k < 2 ^ 64 then router_lookup r (of_nat k) else None)"

lemma of_nat_token: "k < 2 ^ 64 \<Longrightarrow> of_nat k = (token :: u64) \<longleftrightarrow> k = unat token"
  by (auto simp: unat_of_nat)

lemma router_step_refines:
  assumes room: "router_room (Suc n) r"
  shows "abs_router (router_step op r) = spec_step op (abs_router r) \<and> router_room n (router_step op r)"
proof (cases op)
  case (Unsubscribe token)
  have "router_room n (unsubscribe token r)"
    using unsubscribe_room [OF room, of token] by (simp add: router_room_def)
  moreover have "abs_router (unsubscribe token r) = spec_step op (abs_router r)"
    unfolding Unsubscribe
    using unsigned_less [of token]
    by (auto simp: abs_router_def unsubscribe_lookup fun_eq_iff of_nat_token)
      (auto simp: unsubscribe_def)
  ultimately show ?thesis using Unsubscribe by simp
next
  case (Subscribe route handler)
  show ?thesis
  proof (cases handler)
    case None
    then show ?thesis using room Subscribe by (simp add: subscribe_def abs_router_def router_room_def)
  next
    case (Some h)
    obtain token r' where sub: "subscribe route (Some h) r = (token, r')" by force
    note facts = subscribe_room [OF room _ sub]
    have token: "token = ro_nextToken r" "ro_nextToken r' = token + 1"
      using sub by (auto simp: subscribe_def Let_def)
    have "unat (ro_nextToken r') = Suc (unat (ro_nextToken r))"
      using room token token_increment(1) [of "ro_nextToken r" n] by (simp add: router_room_def)
    moreover have "unat token < 2 ^ 64" using room token by (simp add: router_room_def)
    ultimately show ?thesis
      using facts(1,4) sub token
      by (auto simp: Subscribe Some abs_router_def fun_eq_iff of_nat_token)
  qed
qed

lemma router_run_refines:
  "router_room (n + length ops) r \<Longrightarrow>
     abs_router (fold router_step ops r) = fold spec_step ops (abs_router r) \<and>
     router_room n (fold router_step ops r)"
proof (induction ops arbitrary: r)
  case (Cons op ops)
  then have "router_room (Suc (n + length ops)) r" by simp
  from router_step_refines [OF this, of op] Cons.IH [of "router_step op r"] show ?case by simp
qed simp

lemma abs_new_router: "abs_router new_router = (1, Map.empty)"
  by (auto simp: abs_router_def new_router_def router_lookup_def)

section \<open>Properties\<close>

text \<open>
  C29. The router delivers to exactly the live subscriptions: after any sequence of
  subscriptions and unsubscriptions (fewer than there are tokens), the table is the one of the
  specification, in which tokens are counted from 1 and none is reused, and an incoming packet
  is handed to a handler exactly if some live subscription with that handler has a route that
  matches the packet.
\<close>

theorem delivery_refines_the_subscription_map:
  fixes ops :: "'h router_op list" and h :: 'h
  assumes "length ops < 2 ^ 64 - 1"
  defines "r \<equiv> fold router_step ops (new_router :: ('c, 'h) router)"
  shows "abs_router r = fold spec_step ops (1, Map.empty) \<and>
    ((h, packet') \<in> set (submitIncoming packet r) \<longleftrightarrow>
      packet' = packet \<and> (\<exists>k route. snd (fold spec_step ops (1, Map.empty)) k = Some (route, h) \<and>
        routeMatches route packet))"
proof -
  let ?r = r
  have "router_room (0 + length ops) (new_router :: ('c, 'h) router)"
    using assms(1) by simp
  from router_run_refines [OF this]
  have run: "abs_router ?r = fold spec_step ops (1, Map.empty)" "router_room 0 ?r"
    by (simp_all add: r_def abs_new_router)
  have live: "(\<exists>token. router_lookup ?r token = Some (route, h)) \<longleftrightarrow>
      (\<exists>k. snd (abs_router ?r) k = Some (route, h))" for route
  proof
    assume "\<exists>token. router_lookup ?r token = Some (route, h)"
    then obtain token where "router_lookup ?r token = Some (route, h)" ..
    then have "snd (abs_router ?r) (unat token) = Some (route, h)"
      using unsigned_less [of token] by (simp add: abs_router_def)
    then show "\<exists>k. snd (abs_router ?r) k = Some (route, h)" ..
  qed (auto simp: abs_router_def split: if_splits)
  have "router_ok ?r" using run(2) by (simp add: router_room_def)
  from submitIncoming_iff [OF this, of h packet' packet] live show ?thesis
    unfolding run(1) by metis
qed

definition heartbeat_route :: route_match where
  "heartbeat_route = \<lparr>rm_channelId = None, rm_channelType = None, rm_messageKind = None,
     rm_packetType = PT_Heartbeat\<rparr>"

definition sample_subscriptions :: "bool router_op list" where
  "sample_subscriptions = [Subscribe heartbeat_route (Some True),
     Subscribe heartbeat_route (Some False), Unsubscribe 2]"

theorem delivery_refines_the_subscription_map_witness:
  "(True, default_packet) \<in> set (submitIncoming default_packet
     (fold router_step sample_subscriptions (new_router :: (unit, bool) router))) \<and>
   (False, default_packet) \<notin> set (submitIncoming default_packet
     (fold router_step sample_subscriptions (new_router :: (unit, bool) router)))"
proof -
  have len: "length sample_subscriptions < 2 ^ 64 - 1" by (simp add: sample_subscriptions_def)
  have "routeMatches heartbeat_route default_packet"
    by (simp add: routeMatches_def heartbeat_route_def default_packet_def)
  moreover have "snd (fold spec_step sample_subscriptions (1, Map.empty)) =
      [1 \<mapsto> (heartbeat_route, True)]"
    by (auto simp: sample_subscriptions_def fun_eq_iff)
  ultimately show ?thesis
    by (simp add: delivery_refines_the_subscription_map [OF len, THEN conjunct2] split: if_splits)
qed

end
