(* ===== verification/Module_Ingress.thy ===== *)
theory Module_Ingress
  imports Module_Manifest Network_Router "HOL-Library.List_Lexorder" "HOL-Library.Char_ord"
begin

text \<open>
  \<open>src/core/module/module_ingress.cpp\<close>: a module's consumed packet types become subscriptions
  of the network router, and are taken back together. The registry reaches the router
  through \<open>INetworkRouter\<close>, here a record of functions over a world; its lemmas are proved
  for every router that keeps the contract \<open>subscription_router\<close> and hold for the model of
  \<open>NetworkRouter\<close> by interpretation. The closure handed to the router is the pair of the
  module id and the module packet handler. Strings are ordered by their bytes, as in
  \<open>std::map<std::string, ...>\<close>.
\<close>

section \<open>State and operations\<close>

record ('h, 'w) network_interface =
  ni_subscribe :: "route_match \<Rightarrow> 'h option \<Rightarrow> 'w \<Rightarrow> subscription_token \<times> 'w"
  ni_unsubscribe :: "subscription_token \<Rightarrow> 'w \<Rightarrow> 'w"

record registered_ingress =
  ig_moduleId :: string
  ig_tokens :: "subscription_token list"

text \<open>\<open>tokensByModule_\<close>; the router pointer is a parameter of the operations.\<close>

type_synonym ingress = "(string, subscription_token list) std_map"

text \<open>The nested loops over the channels and the packet types they consume.\<close>

definition consumed_routes :: "module_manifest \<Rightarrow> route_match list" where
  "consumed_routes manifest = concat (map (\<lambda>channel.
     map (\<lambda>packetType. \<lparr>rm_channelId = Some (cb_channelId channel),
       rm_channelType = Some (cb_channelType channel), rm_messageKind = None,
       rm_packetType = packetType\<rparr>) (cb_consumes channel)) (mf_channels manifest))"

fun subscribe_all ::
    "(route_match \<Rightarrow> 'h option \<Rightarrow> 'w \<Rightarrow> subscription_token \<times> 'w) \<Rightarrow> 'h \<Rightarrow> route_match list \<Rightarrow> 'w \<Rightarrow>
     subscription_token list \<times> 'w" where
  "subscribe_all sub handler [] w = ([], w)"
| "subscribe_all sub handler (route # routes) w =
    (let (token, w1) = sub route (Some handler) w;
         (tokens, w2) = subscribe_all sub handler routes w1
     in (if token \<noteq> 0 then token # tokens else tokens, w2))"

definition unregisterModule ::
    "('h, 'w) network_interface option \<Rightarrow> string \<Rightarrow> ingress \<Rightarrow> 'w \<Rightarrow> ingress \<times> 'w" where
  "unregisterModule network moduleId g w =
    (case network of
       None \<Rightarrow> (g, w)
     | Some net \<Rightarrow>
        (case map_find g moduleId of
           None \<Rightarrow> (g, w)
         | Some tokens \<Rightarrow> (map_erase moduleId g, fold (ni_unsubscribe net) tokens w)))"

definition registerManifest ::
    "(string \<times> 'mh, 'w) network_interface option \<Rightarrow> module_manifest \<Rightarrow> 'mh option \<Rightarrow> ingress \<Rightarrow> 'w \<Rightarrow>
     registered_ingress \<times> ingress \<times> 'w" where
  "registerManifest network manifest handler g w =
    (let moduleId = mf_moduleId manifest;
         nothing = (\<lparr>ig_moduleId = moduleId, ig_tokens = []\<rparr>, g, w)
     in case network of
          None \<Rightarrow> nothing
        | Some net \<Rightarrow>
            if moduleId = [] then nothing
            else (case handler of
              None \<Rightarrow> nothing
            | Some h \<Rightarrow>
                let (g1, w1) = unregisterModule network moduleId g w;
                    (tokens, w2) =
                      subscribe_all (ni_subscribe net) (moduleId, h) (consumed_routes manifest) w1;
                    g2 = (if tokens \<noteq> [] then map_put moduleId tokens g1 else g1)
                in (\<lparr>ig_moduleId = moduleId, ig_tokens = tokens\<rparr>, g2, w2)))"

section \<open>Subscribing under the router's contract\<close>

text \<open>
  What a registration adds to the router: fresh distinct non-zero tokens, one per consumed
  packet type, each with its route and the module's handler.
\<close>

context subscription_router
begin

lemma subscribe_all_grants:
  assumes "room_at (length routes + n) r" and "subscribe_all subscribe_at h routes r = (tokens, r')"
  shows "length tokens = length routes \<and> distinct tokens \<and> 0 \<notin> set tokens \<and>
    (\<forall>token \<in> set tokens. lookup_at r token = None) \<and>
    (\<forall>token. lookup_at r' token =
       (case map_of (zip tokens routes) token of
          None \<Rightarrow> lookup_at r token | Some route \<Rightarrow> Some (route, h))) \<and>
    room_at n r'"
  using assms
proof (induction routes arbitrary: r tokens)
  case (Cons route routes)
  obtain token r1 where sub: "subscribe_at route (Some h) r = (token, r1)" by fastforce
  obtain ts where rest: "subscribe_all subscribe_at h routes r1 = (ts, r')"
    using Cons.prems(2) sub
    by (cases "subscribe_all subscribe_at h routes r1") (auto simp: Let_def)
  have grant: "token \<noteq> 0 \<and> lookup_at r token = None \<and>
      lookup_at r1 = (lookup_at r)(token := Some (route, h)) \<and> room_at (length routes + n) r1"
    by (rule subscribe_grants [OF _ sub]) (use Cons.prems(1) in simp)
  have tokens: "tokens = token # ts"
    using Cons.prems(2) sub rest grant by simp
  from grant have "room_at (length routes + n) r1" by blast
  note ih = Cons.IH [OF this rest]
  have fresh: "token \<notin> set ts" using ih grant by force
  have new: "\<forall>t \<in> set ts. lookup_at r t = None"
    using ih grant by (metis fun_upd_other fresh)
  have lookup: "lookup_at r' x = (case map_of (zip ts routes) x of
      None \<Rightarrow> lookup_at r1 x | Some route \<Rightarrow> Some (route, h))" for x
    using ih by blast
  have "lookup_at r' x =
      (case map_of (zip (token # ts) (route # routes)) x of
         None \<Rightarrow> lookup_at r x | Some route \<Rightarrow> Some (route, h))" for x
  proof (cases "x = token")
    case True
    have none: "map_of (zip ts routes) token = None"
      using fresh ih by (simp add: map_of_zip_is_None)
    show ?thesis unfolding True lookup none using grant by simp
  next
    case False
    then show ?thesis unfolding lookup using grant by (simp cong: option.case_cong)
  qed
  then show ?case
    using ih grant fresh new by (simp add: tokens)
qed auto

lemma reregistered:
  assumes room: "room_at (length routes + n) r"
    and sub: "subscribe_all subscribe_at h routes (fold unsubscribe_at old r) = (tokens, r')"
  shows "lookup_at r' token =
    (case map_of (zip tokens routes) token of
       Some route \<Rightarrow> Some (route, h)
     | None \<Rightarrow> if token \<in> set old then None else lookup_at r token)"
proof -
  have "lookup_at r' token = (case map_of (zip tokens routes) token of
      None \<Rightarrow> lookup_at (fold unsubscribe_at old r) token | Some route \<Rightarrow> Some (route, h))"
    using subscribe_all_grants [OF unsubscribe_all_room [OF room] sub] by blast
  then show ?thesis unfolding unsubscribe_all_lookup [OF room] .
qed

end

section \<open>The registry on the network router\<close>

definition router_interface :: "('h, ('c, 'h) router) network_interface" where
  "router_interface = \<lparr>ni_subscribe = subscribe, ni_unsubscribe = unsubscribe\<rparr>"

lemma registerManifest_registers:
  assumes "mf_moduleId manifest \<noteq> []"
    and "router_room (length (consumed_routes manifest)) r"
    and "registerManifest (Some router_interface) manifest (Some h) g r = (result, g', r')"
  defines "old \<equiv> (case map_find g (mf_moduleId manifest) of None \<Rightarrow> [] | Some tokens \<Rightarrow> tokens)"
  shows "length (ig_tokens result) = length (consumed_routes manifest) \<and>
    router_lookup r' token =
      (case map_of (zip (ig_tokens result) (consumed_routes manifest)) token of
         Some route \<Rightarrow> Some (route, (mf_moduleId manifest, h))
       | None \<Rightarrow> if token \<in> set old then None else router_lookup r token)"
proof -
  let ?id = "mf_moduleId manifest" and ?routes = "consumed_routes manifest"
  have sub: "subscribe_all subscribe (?id, h) ?routes (fold unsubscribe old r) =
      (ig_tokens result, r')"
    using assms(1,3) unfolding old_def
    by (auto simp: registerManifest_def unregisterModule_def router_interface_def Let_def split_beta
        split: option.splits)
  have room: "router_room (length ?routes + 0) r" using assms(2) by simp
  show ?thesis
    using network_router.reregistered [OF room sub]
      network_router.subscribe_all_grants [OF network_router.unsubscribe_all_room [OF room] sub]
    by blast
qed

lemma registerManifest_tokens:
  assumes "registerManifest (Some net) manifest (Some h) g w = (result, g', w')"
    and "mf_moduleId manifest \<noteq> []"
  shows "map_find g' (mf_moduleId manifest) =
    (if ig_tokens result = [] then None else Some (ig_tokens result))"
    and "\<And>moduleId. moduleId \<noteq> mf_moduleId manifest \<Longrightarrow> map_find g' moduleId = map_find g moduleId"
  using assms
  by (auto simp: registerManifest_def unregisterModule_def Let_def split_beta split: option.splits)

lemma unregisterModule_removes:
  assumes "router_room n r" and "map_find g moduleId = Some tokens"
    and "unregisterModule (Some router_interface) moduleId g r = (g', r')"
  shows "map_find g' moduleId = None \<and>
    router_lookup r' token = (if token \<in> set tokens then None else router_lookup r token)"
proof -
  have "r' = fold unsubscribe tokens r" "g' = map_erase moduleId g"
    using assms(2,3) by (auto simp: unregisterModule_def router_interface_def)
  then show ?thesis
    using network_router.unsubscribe_all_lookup [OF assms(1)] by simp
qed

lemma unregisterModule_ok: "map_ok g \<Longrightarrow> map_ok (fst (unregisterModule network moduleId g w))"
  by (auto simp: unregisterModule_def smap.ok_erase split: option.splits)

lemma registerManifest_ok:
  "map_ok g \<Longrightarrow> map_ok (fst (snd (registerManifest network manifest handler g w)))"
  using unregisterModule_ok [of g network "mf_moduleId manifest" w]
  by (auto simp: registerManifest_def Let_def split_beta smap.ok_put split: option.splits)

section \<open>Properties\<close>

text \<open>
  Registering a module replaces its routes: as long as the router has tokens to give, one
  token per consumed packet type is granted, afterwards the subscriptions of the router are the
  new ones (each delivering to this module) together with the earlier ones of other owners, the
  tokens of an earlier registration of the module are gone, and the ingress remembers exactly the
  new tokens.
\<close>

theorem registration_replaces_the_routes:
  assumes "mf_moduleId manifest \<noteq> []"
    and "router_room (length (consumed_routes manifest)) r"
    and "registerManifest (Some router_interface) manifest (Some h) g r = (result, g', r')"
  shows "length (ig_tokens result) = length (consumed_routes manifest) \<and>
    router_lookup r' token =
      (case map_of (zip (ig_tokens result) (consumed_routes manifest)) token of
         Some route \<Rightarrow> Some (route, (mf_moduleId manifest, h))
       | None \<Rightarrow>
           if token \<in> set (case map_find g (mf_moduleId manifest) of None \<Rightarrow> [] | Some tokens \<Rightarrow> tokens)
           then None else router_lookup r token) \<and>
    map_find g' (mf_moduleId manifest) =
      (if ig_tokens result = [] then None else Some (ig_tokens result))"
  using registerManifest_registers [OF assms] registerManifest_tokens(1) [OF assms(3,1)] by simp

definition sample_consumer :: module_manifest where
  "sample_consumer = default_manifest\<lparr>mf_moduleId := ''m'', mf_channels := [
     \<lparr>cb_name = ''small_data'', cb_channelId = CID_SmallData, cb_channelType = CT_Standard,
      cb_required = True, cb_shared = True, cb_consumes = [PT_Keyboard, PT_Mouse],
      cb_produces = []\<rparr>]\<rparr>"

theorem registration_replaces_the_routes_witness:
  "length (ig_tokens (fst (registerManifest (Some router_interface) sample_consumer (Some ()) []
     (new_router :: (unit, string \<times> unit) router)))) = 2"
proof -
  define run where "run = registerManifest (Some router_interface) sample_consumer (Some ()) []
     (new_router :: (unit, string \<times> unit) router)"
  have "length (consumed_routes sample_consumer) = 2"
    by (simp add: consumed_routes_def sample_consumer_def default_manifest_def)
  moreover have "run = (fst run, fst (snd run), snd (snd run))" by simp
  ultimately show ?thesis
    using registration_replaces_the_routes [of sample_consumer "new_router" "()" "[]" "fst run"
        "fst (snd run)" "snd (snd run)"]
    by (simp add: run_def sample_consumer_def default_manifest_def)
qed

end
