(* ===== verification/Policy_Engine.thy ===== *)
theory Policy_Engine
  imports Module_Manifest
begin

text \<open>
  \<open>policy_types.h\<close> and \<open>src/core/policy/policy_engine.cpp\<close>. The locale \<open>policy_engine\<close> is what
  the sessions and the module host rely on from an \<open>IPolicyEngine\<close>; the static engine is
  shown to provide it.
\<close>

section \<open>Contexts and decisions\<close>

record principal =
  pn_userId :: string
  pn_tenantId :: string
  pn_roles :: "string list"

record device_context =
  dv_deviceId :: string
  dv_platform :: string
  dv_trusted :: bool

datatype deny_reason =
  DR_None | DR_FeatureNotLicensed | DR_FeatureDisabledByPolicy | DR_UnsupportedPlatform
  | DR_MissingDependency | DR_ModuleVersionMismatch | DR_TransportNotAllowed
  | DR_RuntimeHealthBlocked

record policy_decision =
  dc_allowed :: bool
  dc_reason :: deny_reason
  dc_message :: string
  dc_effectiveFeatures :: feature_set

definition default_decision :: policy_decision where
  "default_decision = \<lparr>dc_allowed = False, dc_reason = DR_FeatureDisabledByPolicy,
     dc_message = [], dc_effectiveFeatures = 0\<rparr>"

record policy_context =
  px_principal :: principal
  px_localDevice :: device_context
  px_remoteDevice :: device_context
  px_session :: session_context

definition default_device :: device_context where
  "default_device = \<lparr>dv_deviceId = [], dv_platform = [], dv_trusted = False\<rparr>"

definition default_policy_context :: policy_context where
  "default_policy_context = \<lparr>
     px_principal = \<lparr>pn_userId = [], pn_tenantId = [], pn_roles = []\<rparr>,
     px_localDevice = default_device, px_remoteDevice = default_device,
     px_session = default_context\<rparr>"

text \<open>The virtual methods of \<open>IPolicyEngine\<close>.\<close>

record policy_interface =
  pi_authorizeFeatures :: "policy_context \<Rightarrow> feature_set \<Rightarrow> feature_set"
  pi_authorizeModule :: "policy_context \<Rightarrow> module_manifest \<Rightarrow> policy_decision"

section \<open>StaticPolicyEngine\<close>

record static_policy =
  st_licensedFeatures :: feature_set
  st_policyFeatures :: feature_set

definition new_static_policy :: "feature_set \<Rightarrow> static_policy" where
  "new_static_policy licensedFeatures =
     \<lparr>st_licensedFeatures = licensedFeatures, st_policyFeatures = licensedFeatures\<rparr>"

definition setPolicyFeatures :: "feature_set \<Rightarrow> static_policy \<Rightarrow> static_policy" where
  "setPolicyFeatures policyFeatures p = p\<lparr>st_policyFeatures := policyFeatures\<rparr>"

definition authorizeFeatures :: "static_policy \<Rightarrow> policy_context \<Rightarrow> feature_set \<Rightarrow> feature_set" where
  "authorizeFeatures p ctx requested =
     requested AND st_licensedFeatures p AND st_policyFeatures p"

definition authorizeModule ::
    "static_policy \<Rightarrow> policy_context \<Rightarrow> module_manifest \<Rightarrow> policy_decision" where
  "authorizeModule p ctx manifest =
    (let requested = feature_enable 0 (mf_feature manifest);
         effective = authorizeFeatures p ctx requested
     in if \<not> feature_has (st_licensedFeatures p) (mf_feature manifest) then
          \<lparr>dc_allowed = False, dc_reason = DR_FeatureNotLicensed,
           dc_message = ''feature is not licensed'', dc_effectiveFeatures = effective\<rparr>
        else if \<not> feature_has (st_policyFeatures p) (mf_feature manifest) then
          \<lparr>dc_allowed = False, dc_reason = DR_FeatureDisabledByPolicy,
           dc_message = ''feature is disabled by policy'', dc_effectiveFeatures = effective\<rparr>
        else if \<not> feature_has effective (mf_feature manifest) then
          \<lparr>dc_allowed = False, dc_reason = DR_FeatureDisabledByPolicy,
           dc_message = ''feature is not effective in this session'',
           dc_effectiveFeatures = effective\<rparr>
        else \<lparr>dc_allowed = True, dc_reason = DR_None, dc_message = ''allowed'',
              dc_effectiveFeatures = effective\<rparr>)"

definition static_policy_interface :: "static_policy \<Rightarrow> policy_interface" where
  "static_policy_interface p =
     \<lparr>pi_authorizeFeatures = authorizeFeatures p, pi_authorizeModule = authorizeModule p\<rparr>"

section \<open>The contract of a policy engine\<close>

locale policy_engine =
  fixes engine :: policy_interface
  assumes features_subset: "feature_has requested (pi_authorizeFeatures engine ctx requested)"
    and features_monotone: "feature_has larger requested \<Longrightarrow>
      feature_has (pi_authorizeFeatures engine ctx larger)
        (pi_authorizeFeatures engine ctx requested)"
    and module_allowed: "dc_allowed (pi_authorizeModule engine ctx manifest) \<Longrightarrow>
      pi_authorizeFeatures engine ctx (mf_feature manifest) = mf_feature manifest \<and>
      dc_effectiveFeatures (pi_authorizeModule engine ctx manifest) = mf_feature manifest"
begin

text \<open>The feature of an allowed module is in the authorised set of every request for it.\<close>

lemma allowed_in_session:
  assumes "dc_allowed (pi_authorizeModule engine ctx manifest)"
    and "feature_has requested (mf_feature manifest)"
  shows "feature_has (pi_authorizeFeatures engine ctx requested) (mf_feature manifest)"
  using features_monotone [OF assms(2), of ctx] module_allowed [OF assms(1)] by simp

lemma refused_in_session:
  assumes "\<not> feature_has (pi_authorizeFeatures engine ctx (mf_feature manifest)) (mf_feature manifest)"
  shows "\<not> dc_allowed (pi_authorizeModule engine ctx manifest)"
  using assms module_allowed by (metis feature_has_refl)

end

lemma feature_and_eq: "feature_has s f \<Longrightarrow> f AND s = f"
  by (simp add: feature_has_def and.commute)

lemma authorizeModule_allowed:
  "dc_allowed (authorizeModule p ctx manifest) \<longleftrightarrow>
     feature_has (st_licensedFeatures p) (mf_feature manifest) \<and>
     feature_has (st_policyFeatures p) (mf_feature manifest)"
  by (auto simp: authorizeModule_def Let_def authorizeFeatures_def feature_has_and
      feature_enable_def)

interpretation static_policy: policy_engine "static_policy_interface p" for p
proof unfold_locales
  fix ctx requested larger manifest
  show "feature_has requested
      (pi_authorizeFeatures (static_policy_interface p) ctx requested)"
    by (simp add: static_policy_interface_def authorizeFeatures_def feature_has_iff bit_and_iff)
  show "feature_has larger requested \<Longrightarrow>
      feature_has (pi_authorizeFeatures (static_policy_interface p) ctx larger)
        (pi_authorizeFeatures (static_policy_interface p) ctx requested)"
    by (simp add: static_policy_interface_def authorizeFeatures_def feature_has_iff bit_and_iff)
  assume *: "dc_allowed (pi_authorizeModule (static_policy_interface p) ctx manifest)"
  then have has: "feature_has (st_licensedFeatures p) (mf_feature manifest)"
    "feature_has (st_policyFeatures p) (mf_feature manifest)"
    by (simp_all add: static_policy_interface_def authorizeModule_allowed)
  have "mf_feature manifest AND st_licensedFeatures p AND st_policyFeatures p = mf_feature manifest"
    using has by (simp add: feature_and_eq and.assoc [symmetric])
  then show "pi_authorizeFeatures (static_policy_interface p) ctx (mf_feature manifest) =
        mf_feature manifest \<and>
      dc_effectiveFeatures (pi_authorizeModule (static_policy_interface p) ctx manifest) =
        mf_feature manifest"
    using has by (simp add: static_policy_interface_def authorizeModule_def Let_def
        authorizeFeatures_def feature_enable_def)
qed

section \<open>Properties\<close>

text \<open>
  The static engine's verdict on a module agrees with its verdict on features: a module is
  allowed exactly if its feature survives the authorisation of a request for that feature, the
  reason names the first of licence and policy that refuses it (so the branch for a feature that
  is licensed and enabled but "not effective" is never taken), and no authorisation ever grants
  a feature that was not requested.
\<close>

theorem module_verdict_agrees_with_features:
  "dc_allowed (authorizeModule p ctx manifest) =
     feature_has (authorizeFeatures p ctx (mf_feature manifest)) (mf_feature manifest) \<and>
   dc_reason (authorizeModule p ctx manifest) =
     (if \<not> feature_has (st_licensedFeatures p) (mf_feature manifest) then DR_FeatureNotLicensed
      else if \<not> feature_has (st_policyFeatures p) (mf_feature manifest) then DR_FeatureDisabledByPolicy
      else DR_None) \<and>
   feature_has requested (authorizeFeatures p ctx requested)"
proof -
  have "feature_has requested (authorizeFeatures p ctx requested)"
    using static_policy.features_subset [of requested p ctx]
    by (simp add: static_policy_interface_def)
  then show ?thesis
    by (auto simp: authorizeModule_def Let_def authorizeFeatures_def feature_has_and
        feature_enable_def)
qed

end
