(* ===== verification/Channel_Registry.thy ===== *)
theory Channel_Registry
  imports Channel Capability_Negotiator
begin

text \<open>
  \<open>src/core/network/channel_allowlist.cpp\<close> and \<open>src/core/network/channel_registry.cpp\<close>: the
  negotiated allowlist, and the registry of channel specifications with the lifecycle state
  of each channel. The invariant ties a channel that is reported ready to the channel object
  it was bound to; \<open>validatePacket\<close> accepts exactly the packets of ready channels that both
  the negotiation and the channel's own specification allow.
\<close>

section \<open>The allowlist\<close>

datatype allowlist_status =
  AL_Allowed | AL_ChannelTypeNotNegotiated | AL_PacketTypeNotNegotiated
  | AL_MessageKindNotNegotiated

record allowlist_result =
  ar_allowed :: bool
  ar_status :: allowlist_status
  ar_responseStatus :: response_status
  ar_message :: string

definition allowlist_ok :: allowlist_result where
  "allowlist_ok = \<lparr>ar_allowed = True, ar_status = AL_Allowed, ar_responseStatus = RS_Ok,
     ar_message = []\<rparr>"

definition allowlist_denied ::
    "allowlist_status \<Rightarrow> response_status \<Rightarrow> string \<Rightarrow> allowlist_result" where
  "allowlist_denied status responseStatus message =
     \<lparr>ar_allowed = False, ar_status = status, ar_responseStatus = responseStatus,
      ar_message = message\<rparr>"

definition allowlist_validate :: "negotiated_capabilities \<Rightarrow> packet_envelope \<Rightarrow> allowlist_result" where
  "allowlist_validate capabilities packet =
    (if pk_channelType packet \<notin> set (nc_channelTypes capabilities) then
       allowlist_denied AL_ChannelTypeNotNegotiated RS_Unsupported
         ''channel type is not negotiated''
     else if pk_packetType packet \<notin> set (nc_packetTypes capabilities) then
       allowlist_denied AL_PacketTypeNotNegotiated RS_Unsupported
         ''packet type is not negotiated''
     else if pk_messageKind packet \<notin> set (nc_messageKinds capabilities) then
       allowlist_denied AL_MessageKindNotNegotiated RS_Unsupported
         ''message kind is not negotiated''
     else allowlist_ok)"

section \<open>The registry\<close>

record channel_spec =
  sp_key :: channel_key
  sp_name :: string
  sp_socketClass :: socket_class
  sp_defaultPriority :: packet_priority
  sp_reliability :: reliability_mode
  sp_ordering :: ordering_mode
  sp_flowControl :: flow_control_mode
  sp_queuePolicy :: queue_policy
  sp_allowlist :: "packet_type list"
  sp_ownerModuleId :: string
  sp_required :: bool

definition default_spec :: channel_spec where
  "default_spec = \<lparr>
     sp_key = ChannelKey 0 CT_Standard, sp_name = [], sp_socketClass = SC_Control,
     sp_defaultPriority = PP_Normal, sp_reliability = RM_Reliable, sp_ordering = OM_Ordered,
     sp_flowControl = FC_Pressure, sp_queuePolicy = QP_Bounded, sp_allowlist = [],
     sp_ownerModuleId = [], sp_required = False\<rparr>"

record channel_ready_info =
  ri_monotonicTimestampUsec :: u64
  ri_endpoint :: string

record channel_snapshot =
  cs_spec :: channel_spec
  cs_state :: channel_state
  cs_bound :: bool
  cs_ready :: bool
  cs_readyInfo :: channel_ready_info
  cs_pressure :: channel_pressure
  cs_message :: string

definition default_snapshot :: channel_snapshot where
  "default_snapshot = \<lparr>
     cs_spec = default_spec, cs_state = CS_Registered, cs_bound = False, cs_ready = False,
     cs_readyInfo = \<lparr>ri_monotonicTimestampUsec = 0, ri_endpoint = []\<rparr>,
     cs_pressure = default_pressure, cs_message = []\<rparr>"

datatype registry_status =
  RG_Ok | RG_AlreadyRegistered | RG_NotFound | RG_NotReady | RG_NotNegotiated
  | RG_PacketTypeNotAllowed | RG_InvalidArgument

record registry_result =
  rr_ok :: bool
  rr_status :: registry_status
  rr_responseStatus :: response_status
  rr_message :: string

definition registry_success :: registry_result where
  "registry_success = \<lparr>rr_ok = True, rr_status = RG_Ok, rr_responseStatus = RS_Ok, rr_message = []\<rparr>"

definition registry_failed ::
    "registry_status \<Rightarrow> response_status \<Rightarrow> string \<Rightarrow> registry_result" where
  "registry_failed status responseStatus message =
     \<lparr>rr_ok = False, rr_status = status, rr_responseStatus = responseStatus, rr_message = message\<rparr>"

record 'c registry_entry =
  en_snapshot :: channel_snapshot
  en_channel :: "'c option"

record 'c channel_registry =
  rg_allowlist :: negotiated_capabilities
  rg_entries :: "(channel_key, 'c registry_entry) std_map"

definition new_registry :: "negotiated_capabilities \<Rightarrow> 'c channel_registry" where
  "new_registry capabilities = \<lparr>rg_allowlist = capabilities, rg_entries = []\<rparr>"

section \<open>Operations\<close>

text \<open>
  The operations that look an entry up and change it in place through the pointer \<open>find\<close>
  returns: the changed entry is stored back under its key.
\<close>

definition registry_find :: "'c channel_registry \<Rightarrow> channel_key \<Rightarrow> 'c registry_entry option" where
  "registry_find reg key = map_find (rg_entries reg) key"

definition store_entry ::
    "channel_key \<Rightarrow> 'c registry_entry \<Rightarrow> 'c channel_registry \<Rightarrow> 'c channel_registry" where
  "store_entry key entry reg = reg\<lparr>rg_entries := map_put key entry (rg_entries reg)\<rparr>"

definition channel_not_found :: registry_result where
  "channel_not_found = registry_failed RG_NotFound RS_ChannelUnavailable ''channel spec not found''"

definition registerSpec ::
    "channel_spec \<Rightarrow> 'c channel_registry \<Rightarrow> registry_result \<times> 'c channel_registry" where
  "registerSpec spec reg =
    (if key_channelId (sp_key spec) = 0 then
       (registry_failed RG_InvalidArgument RS_InvalidArgument ''channel id is required'', reg)
     else if registry_find reg (sp_key spec) \<noteq> None then
       (registry_failed RG_AlreadyRegistered RS_Conflict ''channel spec already registered'', reg)
     else (registry_success, store_entry (sp_key spec)
       \<lparr>en_snapshot = default_snapshot\<lparr>cs_spec := spec, cs_state := CS_Registered\<rparr>,
        en_channel = None\<rparr> reg))"

definition bind ::
    "channel_key \<Rightarrow> 'c option \<Rightarrow> 'c channel_registry \<Rightarrow> registry_result \<times> 'c channel_registry" where
  "bind key channel reg =
    (case registry_find reg key of
       None \<Rightarrow> (channel_not_found, reg)
     | Some entry \<Rightarrow>
         if channel = None then
           (registry_failed RG_InvalidArgument RS_InvalidArgument ''channel instance is required'', reg)
         else (registry_success, store_entry key (entry\<lparr>en_channel := channel,
           en_snapshot := (en_snapshot entry)\<lparr>cs_bound := True, cs_state := CS_Bound,
             cs_message := []\<rparr>\<rparr>) reg))"

definition unbind :: "channel_key \<Rightarrow> string \<Rightarrow> 'c channel_registry \<Rightarrow> 'c channel_registry" where
  "unbind key reason reg =
    (case registry_find reg key of
       None \<Rightarrow> reg
     | Some entry \<Rightarrow> store_entry key (entry\<lparr>en_channel := None,
         en_snapshot := (en_snapshot entry)\<lparr>cs_bound := False, cs_ready := False,
           cs_state := CS_Closed, cs_message := reason\<rparr>\<rparr>) reg)"

definition markReady ::
    "('c, 'w) channel_interface \<Rightarrow> 'w \<Rightarrow> channel_key \<Rightarrow> channel_ready_info \<Rightarrow> 'c channel_registry \<Rightarrow>
     registry_result \<times> 'c channel_registry" where
  "markReady iface w key ready reg =
    (case registry_find reg key of
       None \<Rightarrow> (channel_not_found, reg)
     | Some entry \<Rightarrow>
         if (case en_channel entry of None \<Rightarrow> True | Some channel \<Rightarrow> \<not> ch_isOpen iface channel w) then
           (registry_failed RG_NotReady RS_ChannelUnavailable ''channel is not bound or open'', reg)
         else (registry_success, store_entry key (entry\<lparr>
           en_snapshot := (en_snapshot entry)\<lparr>cs_ready := True, cs_readyInfo := ready,
             cs_state := CS_Ready, cs_message := []\<rparr>\<rparr>) reg))"

definition markDegraded ::
    "channel_key \<Rightarrow> string \<Rightarrow> 'c channel_registry \<Rightarrow> registry_result \<times> 'c channel_registry" where
  "markDegraded key reason reg =
    (case registry_find reg key of
       None \<Rightarrow> (channel_not_found, reg)
     | Some entry \<Rightarrow> (registry_success, store_entry key (entry\<lparr>
         en_snapshot := (en_snapshot entry)\<lparr>cs_ready := False, cs_state := CS_Degraded,
           cs_message := reason\<rparr>\<rparr>) reg))"

definition markFailed ::
    "channel_key \<Rightarrow> string \<Rightarrow> 'c channel_registry \<Rightarrow> registry_result \<times> 'c channel_registry" where
  "markFailed key reason reg =
    (case registry_find reg key of
       None \<Rightarrow> (channel_not_found, reg)
     | Some entry \<Rightarrow> (registry_success, store_entry key (entry\<lparr>
         en_snapshot := (en_snapshot entry)\<lparr>cs_ready := False, cs_state := CS_Failed,
           cs_message := reason\<rparr>\<rparr>) reg))"

definition updatePressure ::
    "channel_key \<Rightarrow> channel_pressure \<Rightarrow> 'c channel_registry \<Rightarrow>
     registry_result \<times> 'c channel_registry" where
  "updatePressure key pressure reg =
    (case registry_find reg key of
       None \<Rightarrow> (channel_not_found, reg)
     | Some entry \<Rightarrow> (registry_success, store_entry key (entry\<lparr>
         en_snapshot := (en_snapshot entry)\<lparr>cs_pressure := pressure\<rparr>\<rparr>) reg))"

definition isReady :: "'c channel_registry \<Rightarrow> channel_key \<Rightarrow> bool" where
  "isReady reg key =
    (case registry_find reg key of
       None \<Rightarrow> False
     | Some entry \<Rightarrow> cs_ready (en_snapshot entry) \<and> cs_state (en_snapshot entry) = CS_Ready)"

definition registry_snapshot :: "'c channel_registry \<Rightarrow> channel_key \<Rightarrow> channel_snapshot" where
  "registry_snapshot reg key =
    (case registry_find reg key of None \<Rightarrow> default_snapshot | Some entry \<Rightarrow> en_snapshot entry)"

definition registry_snapshots :: "'c channel_registry \<Rightarrow> channel_snapshot list" where
  "registry_snapshots reg = map (\<lambda>item. en_snapshot (snd item)) (rg_entries reg)"

definition packetTypeAllowed :: "channel_spec \<Rightarrow> packet_type \<Rightarrow> bool" where
  "packetTypeAllowed spec packetType =
    (if sp_allowlist spec = [] then True else packetType \<in> set (sp_allowlist spec))"

definition validatePacket :: "'c channel_registry \<Rightarrow> packet_envelope \<Rightarrow> registry_result" where
  "validatePacket reg packet =
    (case registry_find reg (packet_key packet) of
       None \<Rightarrow> registry_failed RG_NotFound RS_ChannelUnavailable ''channel is not registered''
     | Some entry \<Rightarrow>
         let negotiated = allowlist_validate (rg_allowlist reg) packet in
         if \<not> ar_allowed negotiated then
           registry_failed RG_NotNegotiated (ar_responseStatus negotiated) (ar_message negotiated)
         else if \<not> packetTypeAllowed (cs_spec (en_snapshot entry)) (pk_packetType packet) then
           registry_failed RG_PacketTypeNotAllowed RS_Unsupported
             ''packet type is not allowed on channel''
         else if \<not> isReady reg (packet_key packet) then
           registry_failed RG_NotReady RS_ChannelUnavailable ''channel is not ready''
         else registry_success)"

section \<open>The registry invariant\<close>

definition entry_ok :: "channel_key \<Rightarrow> 'c registry_entry \<Rightarrow> bool" where
  "entry_ok key entry \<longleftrightarrow>
    (let s = en_snapshot entry in
     sp_key (cs_spec s) = key \<and> key_channelId key \<noteq> 0 \<and>
     (cs_bound s \<longleftrightarrow> en_channel entry \<noteq> None) \<and>
     (cs_ready s \<longrightarrow> cs_bound s \<and> cs_state s \<in> {CS_Ready, CS_Bound}) \<and>
     (cs_state s = CS_Ready \<longrightarrow> cs_ready s) \<and>
     (cs_state s = CS_Bound \<longrightarrow> cs_bound s) \<and>
     (cs_state s \<in> {CS_Registered, CS_Closed} \<longrightarrow> \<not> cs_bound s))"

definition registry_ok :: "'c channel_registry \<Rightarrow> bool" where
  "registry_ok reg \<longleftrightarrow> map_ok (rg_entries reg) \<and>
     (\<forall>key entry. registry_find reg key = Some entry \<longrightarrow> entry_ok key entry)"

lemma find_store_entry [simp]:
  "registry_find (store_entry key entry reg) key' =
     (if key' = key then Some entry else registry_find reg key')"
  by (simp add: registry_find_def store_entry_def)

lemma allowlist_store_entry [simp]: "rg_allowlist (store_entry key entry reg) = rg_allowlist reg"
  by (simp add: store_entry_def)

lemma new_registry_ok [simp]: "registry_ok (new_registry capabilities)"
  by (simp add: registry_ok_def new_registry_def registry_find_def)

lemma registry_ok_find: "registry_ok reg \<Longrightarrow> registry_find reg key = Some entry \<Longrightarrow> entry_ok key entry"
  by (simp add: registry_ok_def)

lemma registry_ok_store:
  "registry_ok reg \<Longrightarrow> entry_ok key entry \<Longrightarrow> registry_ok (store_entry key entry reg)"
  by (auto simp: registry_ok_def) (simp add: store_entry_def smap.ok_put)

lemma registry_ok_change:
  "registry_find reg key = Some entry \<Longrightarrow> registry_ok reg \<Longrightarrow>
     (entry_ok key entry \<Longrightarrow> entry_ok key entry') \<Longrightarrow> registry_ok (store_entry key entry' reg)"
  by (blast intro: registry_ok_store dest: registry_ok_find)

lemma registerSpec_ok [preserves]: "registry_ok reg \<Longrightarrow> registry_ok (snd (registerSpec spec reg))"
  by (auto simp: registerSpec_def entry_ok_def default_snapshot_def intro!: registry_ok_store)

lemma bind_ok [preserves]: "registry_ok reg \<Longrightarrow> registry_ok (snd (bind key channel reg))"
  by (auto simp: bind_def entry_ok_def Let_def split: option.splits
      elim!: registry_ok_change)

lemma unbind_ok [preserves]: "registry_ok reg \<Longrightarrow> registry_ok (unbind key reason reg)"
  by (auto simp: unbind_def entry_ok_def Let_def split: option.splits
      elim!: registry_ok_change)

lemma markReady_ok [preserves]:
  "registry_ok reg \<Longrightarrow> registry_ok (snd (markReady iface w key ready reg))"
  by (auto simp: markReady_def entry_ok_def Let_def split: option.splits
      elim!: registry_ok_change)

lemma markDegraded_ok [preserves]:
  "registry_ok reg \<Longrightarrow> registry_ok (snd (markDegraded key reason reg))"
  by (auto simp: markDegraded_def entry_ok_def Let_def split: option.splits
      elim!: registry_ok_change)

lemma markFailed_ok [preserves]:
  "registry_ok reg \<Longrightarrow> registry_ok (snd (markFailed key reason reg))"
  by (auto simp: markFailed_def entry_ok_def Let_def split: option.splits
      elim!: registry_ok_change)

lemma updatePressure_ok [preserves]:
  "registry_ok reg \<Longrightarrow> registry_ok (snd (updatePressure key pressure reg))"
  by (auto simp: updatePressure_def entry_ok_def Let_def split: option.splits
      elim!: registry_ok_change)

text \<open>The registry's mutating operations as one step function; a call of \<open>markReady\<close> sees the
  world of its moment.\<close>

datatype ('c, 'w) registry_op =
    RegisterSpec channel_spec
  | Bind channel_key "'c option"
  | Unbind channel_key string
  | MarkReady 'w channel_key channel_ready_info
  | MarkDegraded channel_key string
  | MarkFailed channel_key string
  | UpdatePressure channel_key channel_pressure

fun registry_step ::
    "('c, 'w) channel_interface \<Rightarrow> ('c, 'w) registry_op \<Rightarrow> 'c channel_registry \<Rightarrow>
     'c channel_registry" where
  "registry_step iface (RegisterSpec spec) reg = snd (registerSpec spec reg)"
| "registry_step iface (Bind key channel) reg = snd (bind key channel reg)"
| "registry_step iface (Unbind key reason) reg = unbind key reason reg"
| "registry_step iface (MarkReady w key ready) reg = snd (markReady iface w key ready reg)"
| "registry_step iface (MarkDegraded key reason) reg = snd (markDegraded key reason reg)"
| "registry_step iface (MarkFailed key reason) reg = snd (markFailed key reason reg)"
| "registry_step iface (UpdatePressure key pressure) reg = snd (updatePressure key pressure reg)"

lemma registry_step_ok: "registry_ok reg \<Longrightarrow> registry_ok (registry_step iface op reg)"
  by (cases op) (auto intro: preserves)

interpretation registry: kept_by_steps "registry_step iface" registry_ok for iface
  by unfold_locales (rule registry_step_ok)

section \<open>What the queries answer\<close>

lemma isReady_bound:
  assumes "registry_ok reg" and "isReady reg key"
  obtains entry channel where "registry_find reg key = Some entry"
    and "en_channel entry = Some channel" and "cs_bound (en_snapshot entry)"
  using assms by (auto simp: isReady_def entry_ok_def Let_def split: option.splits
      dest!: registry_ok_find)

text \<open>Only \<open>markReady\<close> makes a channel ready, and only one that is bound and open.\<close>

lemma becomes_ready:
  assumes "\<not> isReady reg key" and "isReady (registry_step iface op reg) key"
  shows "\<exists>w ready entry channel. op = MarkReady w key ready \<and>
    registry_find reg key = Some entry \<and> en_channel entry = Some channel \<and>
    ch_isOpen iface channel w"
  using assms
  by (cases op)
    (auto simp: isReady_def registerSpec_def bind_def unbind_def markReady_def markDegraded_def
      markFailed_def updatePressure_def default_snapshot_def split: option.splits if_splits)

lemma allowlist_validate_allowed:
  "ar_allowed (allowlist_validate nc packet) \<longleftrightarrow>
     pk_channelType packet \<in> set (nc_channelTypes nc) \<and>
     pk_packetType packet \<in> set (nc_packetTypes nc) \<and>
     pk_messageKind packet \<in> set (nc_messageKinds nc)"
  by (simp add: allowlist_validate_def allowlist_ok_def allowlist_denied_def)

definition packet_admitted :: "'c channel_registry \<Rightarrow> packet_envelope \<Rightarrow> bool" where
  "packet_admitted reg packet \<longleftrightarrow>
     pk_channelType packet \<in> set (nc_channelTypes (rg_allowlist reg)) \<and>
     pk_packetType packet \<in> set (nc_packetTypes (rg_allowlist reg)) \<and>
     pk_messageKind packet \<in> set (nc_messageKinds (rg_allowlist reg)) \<and>
     isReady reg (packet_key packet) \<and>
     packetTypeAllowed (cs_spec (registry_snapshot reg (packet_key packet))) (pk_packetType packet)"

lemma validatePacket_ok_iff: "rr_ok (validatePacket reg packet) \<longleftrightarrow> packet_admitted reg packet"
  by (auto simp: validatePacket_def packet_admitted_def Let_def registry_failed_def
      registry_success_def allowlist_validate_allowed registry_snapshot_def isReady_def
      split: option.splits)

lemma updatePressure_isReady [simp]: "isReady (snd (updatePressure key pressure reg)) = isReady reg"
  by (auto simp: fun_eq_iff isReady_def updatePressure_def split: option.splits)

section \<open>Readiness over the life of a registry\<close>

text \<open>The operations that take a channel's readiness away.\<close>

fun revokes :: "channel_key \<Rightarrow> ('c, 'w) registry_op \<Rightarrow> bool" where
  "revokes key (Bind k channel) \<longleftrightarrow> k = key \<and> channel \<noteq> None"
| "revokes key (Unbind k reason) \<longleftrightarrow> k = key"
| "revokes key (MarkDegraded k reason) \<longleftrightarrow> k = key"
| "revokes key (MarkFailed k reason) \<longleftrightarrow> k = key"
| "revokes key _ \<longleftrightarrow> False"

lemma revoked_not_ready: "revokes key op \<Longrightarrow> \<not> isReady (registry_step iface op reg) key"
  by (cases op)
    (auto simp: isReady_def bind_def unbind_def markDegraded_def markFailed_def split: option.splits)

lemma ready_since_mark:
  assumes "isReady (fold (registry_step iface) ops (new_registry nc)) key"
  shows "\<exists>before w ready after entry channel. ops = before @ MarkReady w key ready # after \<and>
    registry_find (fold (registry_step iface) before (new_registry nc)) key = Some entry \<and>
    en_channel entry = Some channel \<and> ch_isOpen iface channel w \<and> list_all (Not \<circ> revokes key) after"
  using assms
proof (induction ops rule: rev_induct)
  case Nil
  then show ?case by (simp add: isReady_def new_registry_def registry_find_def)
next
  case (snoc op ops)
  let ?reg = "fold (registry_step iface) ops (new_registry nc)"
  show ?case
  proof (cases "isReady ?reg key")
    case True
    from snoc.IH [OF this] obtain before w ready after entry channel where
      split: "ops = before @ MarkReady w key ready # after" and
      marked: "registry_find (fold (registry_step iface) before (new_registry nc)) key = Some entry"
        "en_channel entry = Some channel" "ch_isOpen iface channel w" and
      kept: "list_all (Not \<circ> revokes key) after" by blast
    have "\<not> revokes key op" using snoc.prems revoked_not_ready [of key op iface ?reg] by auto
    then have "list_all (Not \<circ> revokes key) (after @ [op])" using kept by simp
    moreover have "ops @ [op] = before @ MarkReady w key ready # (after @ [op])" using split by simp
    ultimately show ?thesis using marked by blast
  next
    case False
    have "isReady (registry_step iface op ?reg) key" using snoc.prems by simp
    from becomes_ready [OF False this] obtain w ready entry channel where
      "op = MarkReady w key ready" "registry_find ?reg key = Some entry"
      "en_channel entry = Some channel" "ch_isOpen iface channel w" by blast
    moreover have "ops @ [op] = ops @ op # []" "list_all (Not \<circ> revokes key) []" by simp_all
    ultimately show ?thesis by blast
  qed
qed

section \<open>Properties\<close>

text \<open>
  In every registry that operations can lead to, a channel that is reported ready is
  registered under its own non-zero key, has a channel object bound, and its snapshot says bound,
  ready and in state \<open>Ready\<close>.
\<close>

theorem ready_channels_are_bound:
  assumes "isReady (fold (registry_step iface) ops (new_registry nc)) key"
  shows "\<exists>entry channel.
    registry_find (fold (registry_step iface) ops (new_registry nc)) key = Some entry \<and>
    en_channel entry = Some channel \<and> cs_bound (en_snapshot entry) \<and>
    cs_ready (en_snapshot entry) \<and> cs_state (en_snapshot entry) = CS_Ready \<and>
    sp_key (cs_spec (en_snapshot entry)) = key \<and> key_channelId key \<noteq> 0"
proof -
  let ?reg = "fold (registry_step iface) ops (new_registry nc)"
  have ok: "registry_ok ?reg" by (rule registry.run_keeps) simp
  obtain entry where entry: "registry_find ?reg key = Some entry"
    and ready: "cs_ready (en_snapshot entry)" "cs_state (en_snapshot entry) = CS_Ready"
    using assms by (auto simp: isReady_def split: option.splits)
  from registry_ok_find [OF ok entry] ready entry show ?thesis
    by (auto simp: entry_ok_def Let_def)
qed

definition sample_key :: channel_key where
  "sample_key = ChannelKey CID_SmallData CT_Standard"

definition open_channels :: "(unit, unit) channel_interface" where
  "open_channels = \<lparr>ch_id = (\<lambda>_ _. CID_SmallData), ch_type = (\<lambda>_ _. CT_Standard),
     ch_isOpen = (\<lambda>_ _. True), ch_send = (\<lambda>_ _ w. (send_sent, w))\<rparr>"

definition sample_ops :: "(unit, unit) registry_op list" where
  "sample_ops = [RegisterSpec (default_spec\<lparr>sp_key := sample_key\<rparr>), Bind sample_key (Some ()),
     MarkReady () sample_key \<lparr>ri_monotonicTimestampUsec = 5, ri_endpoint = []\<rparr>,
     UpdatePressure sample_key default_pressure]"

lemma sample_registry_ready:
  "isReady (fold (registry_step open_channels) sample_ops (new_registry default_negotiated)) sample_key"
  by (simp add: sample_ops_def registerSpec_def bind_def markReady_def updatePressure_def
      isReady_def open_channels_def default_spec_def default_snapshot_def new_registry_def
      registry_find_def store_entry_def sample_key_def registry_success_def)

theorem ready_channels_are_bound_witness:
  "\<exists>entry. registry_find (fold (registry_step open_channels) sample_ops
     (new_registry default_negotiated)) sample_key = Some entry \<and> en_channel entry = Some ()"
  using ready_channels_are_bound [OF sample_registry_ready] by auto

text \<open>
  Readiness has a cause and no later revocation: a channel that is ready after any sequence
  of operations was marked ready by some call, at a moment when a channel object was bound to it
  and reported itself open, and since then it was not rebound, unbound, degraded or failed.
\<close>

theorem readiness_has_a_cause:
  assumes "isReady (fold (registry_step iface) ops (new_registry nc)) key"
  shows "\<exists>before w ready after entry channel. ops = before @ MarkReady w key ready # after \<and>
    registry_find (fold (registry_step iface) before (new_registry nc)) key = Some entry \<and>
    en_channel entry = Some channel \<and> ch_isOpen iface channel w \<and>
    list_all (\<lambda>op. \<not> revokes key op) after"
  using ready_since_mark [OF assms] by (simp add: comp_def)

theorem readiness_has_a_cause_witness:
  "\<exists>before w ready after. sample_ops = before @ MarkReady w sample_key ready # after"
  using readiness_has_a_cause [OF sample_registry_ready] by blast

text \<open>
  The registry admits a packet exactly if its channel type, packet type and message kind
  were negotiated, its channel is registered and ready, and the channel's own allowlist has the
  packet type or is empty; a packet on an unregistered channel is answered \<open>NotFound\<close> whatever
  else holds of it.
\<close>

theorem admission_of_packets:
  "(rr_ok (validatePacket reg packet) \<longleftrightarrow>
     pk_channelType packet \<in> set (nc_channelTypes (rg_allowlist reg)) \<and>
     pk_packetType packet \<in> set (nc_packetTypes (rg_allowlist reg)) \<and>
     pk_messageKind packet \<in> set (nc_messageKinds (rg_allowlist reg)) \<and>
     isReady reg (ChannelKey (pk_channelId packet) (pk_channelType packet)) \<and>
     (sp_allowlist (cs_spec (registry_snapshot reg
         (ChannelKey (pk_channelId packet) (pk_channelType packet)))) = [] \<or>
      pk_packetType packet \<in> set (sp_allowlist (cs_spec (registry_snapshot reg
         (ChannelKey (pk_channelId packet) (pk_channelType packet))))))) \<and>
   (rr_status (validatePacket reg packet) = RG_NotFound \<longleftrightarrow>
     registry_find reg (ChannelKey (pk_channelId packet) (pk_channelType packet)) = None)"
proof
  show "rr_ok (validatePacket reg packet) \<longleftrightarrow>
     pk_channelType packet \<in> set (nc_channelTypes (rg_allowlist reg)) \<and>
     pk_packetType packet \<in> set (nc_packetTypes (rg_allowlist reg)) \<and>
     pk_messageKind packet \<in> set (nc_messageKinds (rg_allowlist reg)) \<and>
     isReady reg (ChannelKey (pk_channelId packet) (pk_channelType packet)) \<and>
     (sp_allowlist (cs_spec (registry_snapshot reg
         (ChannelKey (pk_channelId packet) (pk_channelType packet)))) = [] \<or>
      pk_packetType packet \<in> set (sp_allowlist (cs_spec (registry_snapshot reg
         (ChannelKey (pk_channelId packet) (pk_channelType packet))))))"
    by (auto simp: validatePacket_ok_iff packet_admitted_def packetTypeAllowed_def packet_key_def)
qed (auto simp: validatePacket_def packet_key_def registry_failed_def registry_success_def Let_def
    split: option.splits)

text \<open>
  Rebinding a channel takes it out of service until it is marked ready again, although the
  snapshot of the channel goes on saying \<open>ready\<close>: after a successful \<open>bind\<close> of a ready channel
  \<open>isReady\<close> is false while the snapshot's flag is still set.
\<close>

theorem rebinding_leaves_a_stale_flag:
  assumes "isReady reg key"
  shows "rr_ok (fst (bind key (Some channel) reg)) \<and>
    \<not> isReady (snd (bind key (Some channel) reg)) key \<and>
    cs_ready (registry_snapshot (snd (bind key (Some channel) reg)) key)"
  using assms
  by (auto simp: isReady_def bind_def registry_snapshot_def registry_success_def split: option.splits)

theorem rebinding_leaves_a_stale_flag_witness:
  "\<exists>reg :: unit channel_registry. isReady reg sample_key \<and>
     cs_ready (registry_snapshot (snd (bind sample_key (Some ()) reg)) sample_key) \<and>
     \<not> isReady (snd (bind sample_key (Some ()) reg)) sample_key"
  using rebinding_leaves_a_stale_flag [OF sample_registry_ready] sample_registry_ready by blast

end
