(* ===== verification/Module_Host.thy ===== *)
theory Module_Host
  imports Module_Ingress Policy_Engine Channel_Registry
begin

text \<open>
  \<open>include/fusiondesk/core/module/module.h\<close> and \<open>src/core/module/module_host.cpp\<close>: the host
  that owns a session's modules. Modules, the router and the channel registry are shared
  objects: the virtual methods of \<open>IModule\<close> are functions that act on a world, and the host
  sees the router and the registry through that world, since a module may use both. The
  closure a host registers for a module's packets is \<open>()\<close>: it looks the module up by its id
  when a packet arrives (\<open>host_receive\<close>).
\<close>

section \<open>The module interface\<close>

datatype module_state =
  MS_Created | MS_Attached | MS_Starting | MS_Running | MS_Stopping | MS_Stopped | MS_Detached
  | MS_Failed

record start_options =
  op_allowPartialStart :: bool
  op_peerVersions :: "peer_version list"

definition default_start_options :: start_options where
  "default_start_options = \<lparr>op_allowPartialStart = False, op_peerVersions = []\<rparr>"

record stop_options =
  op_force :: bool
  op_reason :: string

definition default_stop_options :: stop_options where
  "default_stop_options = \<lparr>op_force = False, op_reason = []\<rparr>"

record reconnect_options =
  ro_reason :: string
  ro_affectedChannels :: "channel_key list"
  ro_reconnectCount :: u32
  ro_requestFreshState :: bool

record reconnect_module_report =
  rmr_moduleId :: string
  rmr_notified :: bool
  rmr_diagnostics :: string

record ingress_replay_report =
  irr_moduleId :: string
  irr_replayed :: bool
  irr_tokenCount :: nat
  irr_diagnostics :: string
  irr_message :: string

text \<open>
  \<open>IModule\<close> and, where \<open>mi_reconnectAware\<close> holds (the \<open>dynamic_cast\<close>), \<open>IReconnectAwareModule\<close>.
  Of the runtime passed to \<open>attach\<close> the model keeps the session context; the pointers in it
  are part of the world.
\<close>

record ('m, 'w) module_interface =
  mi_manifest :: "'m \<Rightarrow> 'w \<Rightarrow> module_manifest"
  mi_state :: "'m \<Rightarrow> 'w \<Rightarrow> module_state"
  mi_attach :: "'m \<Rightarrow> session_context \<Rightarrow> 'w \<Rightarrow> bool \<times> 'w"
  mi_start :: "'m \<Rightarrow> start_options \<Rightarrow> 'w \<Rightarrow> bool \<times> 'w"
  mi_stop :: "'m \<Rightarrow> stop_options \<Rightarrow> 'w \<Rightarrow> 'w"
  mi_handlePacket :: "'m \<Rightarrow> packet_envelope \<Rightarrow> 'w \<Rightarrow> 'w"
  mi_diagnostics :: "'m \<Rightarrow> 'w \<Rightarrow> string"
  mi_reconnectAware :: "'m \<Rightarrow> bool"
  mi_pause :: "'m \<Rightarrow> reconnect_options \<Rightarrow> 'w \<Rightarrow> 'w"
  mi_resume :: "'m \<Rightarrow> reconnect_options \<Rightarrow> 'w \<Rightarrow> 'w"

text \<open>The objects a host is constructed with.\<close>

record ('m, 'c, 'w) host_env =
  he_modules :: "('m, 'w) module_interface"
  he_network :: "(string \<times> unit, 'w) network_interface option"
  he_channels :: "('w \<Rightarrow> 'c channel_registry) option"
  he_policy :: "policy_interface option"

record 'm module_host =
  mh_session :: session_context
  mh_ingress :: ingress
  mh_modules :: "(string, 'm) std_map"
  mh_order :: "string list"

definition new_host :: "session_context \<Rightarrow> 'm module_host" where
  "new_host session = \<lparr>mh_session = session, mh_ingress = [], mh_modules = [], mh_order = []\<rparr>"

record start_report =
  mr_moduleId :: string
  mr_started :: bool
  mr_decision :: policy_decision
  mr_diagnostics :: string

record module_snapshot =
  ms_moduleId :: string
  ms_state :: module_state
  ms_manifest :: module_manifest
  ms_diagnostics :: string

section \<open>Helpers\<close>

fun roleFlag :: "session_role \<Rightarrow> u32" where
  "roleFlag SR_Client = ModuleRoleClient"
| "roleFlag SR_Agent = ModuleRoleAgent"
| "roleFlag SR_Auth = ModuleRoleAuth"
| "roleFlag SR_Relay = ModuleRoleBridge"
| "roleFlag SR_Standalone = ModuleRoleTool"

definition supportsRole :: "module_manifest \<Rightarrow> session_role \<Rightarrow> bool" where
  "supportsRole manifest role =
    (if mf_roleFlags manifest = 0 then True else mf_roleFlags manifest AND roleFlag role \<noteq> 0)"

definition supportsPlatform :: "module_manifest \<Rightarrow> string \<Rightarrow> bool" where
  "supportsPlatform manifest platform =
    (if mf_supportedPlatforms manifest = [] then True
     else platform \<in> set (mf_supportedPlatforms manifest))"

definition hasConsumedPackets :: "module_manifest \<Rightarrow> bool" where
  "hasConsumedPackets manifest \<longleftrightarrow> list_ex (\<lambda>binding. cb_consumes binding \<noteq> []) (mf_channels manifest)"

definition channelMatches :: "channel_binding \<Rightarrow> channel_key \<Rightarrow> bool" where
  "channelMatches binding key \<longleftrightarrow>
     cb_channelId binding = key_channelId key \<and> cb_channelType binding = key_channelType key"

definition affectedByReconnect :: "module_manifest \<Rightarrow> channel_key list \<Rightarrow> bool" where
  "affectedByReconnect manifest channels =
    (if channels = [] then True
     else list_ex (\<lambda>binding. list_ex (channelMatches binding) channels) (mf_channels manifest))"

record peer_evaluation =
  pev_peerVersions :: "peer_version list"
  pev_blocked :: bool
  pev_message :: string

text \<open>The inner loop over the peers: whether one had the id, the last check, and the first
  compatible peer, at which the loop breaks.\<close>

fun scan_peers ::
    "module_manifest \<Rightarrow> string \<Rightarrow> peer_version list \<Rightarrow> bool \<times> compatibility_check \<Rightarrow>
     bool \<times> compatibility_check \<times> peer_version option" where
  "scan_peers manifest peerId [] (found, lastCheck) = (found, lastCheck, None)"
| "scan_peers manifest peerId (peer # peers) (found, lastCheck) =
    (if pv_moduleId peer \<noteq> peerId then scan_peers manifest peerId peers (found, lastCheck)
     else
       let check = checkModuleCompatibility manifest (pv_moduleId peer) (pv_version peer) in
       if cc_compatible check then
         (True, check, Some \<lparr>pv_moduleId = pv_moduleId peer, pv_version = pv_version peer,
            pv_compatible = True, pv_compatibilityMode = cc_compatibilityMode check\<rparr>)
       else scan_peers manifest peerId peers (True, check))"

fun expected_loop ::
    "module_manifest \<Rightarrow> peer_version list \<Rightarrow> peer_compatibility list \<Rightarrow> peer_version list \<Rightarrow>
     peer_evaluation" where
  "expected_loop manifest peers [] accepted =
     \<lparr>pev_peerVersions = accepted, pev_blocked = False, pev_message = []\<rparr>"
| "expected_loop manifest peers (expected # rest) accepted =
    (let (found, lastCheck, hit) =
           scan_peers manifest (pc_peerModuleId expected) peers (False, default_check);
         accepted = (case hit of None \<Rightarrow> accepted | Some peer \<Rightarrow> accepted @ [peer])
     in if \<not> found then
          \<lparr>pev_peerVersions = accepted, pev_blocked = True,
           pev_message = ''required peer module version is missing: '' @ pc_peerModuleId expected\<rparr>
        else if \<not> cc_compatible lastCheck then
          \<lparr>pev_peerVersions = accepted, pev_blocked = True, pev_message = cc_message lastCheck\<rparr>
        else expected_loop manifest peers rest accepted)"

definition evaluatePeerVersions :: "module_manifest \<Rightarrow> peer_version list \<Rightarrow> peer_evaluation" where
  "evaluatePeerVersions manifest peers =
    (if peers = [] \<or> mf_compatiblePeers manifest = [] then
       \<lparr>pev_peerVersions = [], pev_blocked = False, pev_message = []\<rparr>
     else expected_loop manifest peers (mf_compatiblePeers manifest) [])"

section \<open>addModule\<close>

definition addModule ::
    "('m, 'c, 'w) host_env \<Rightarrow> 'm option \<Rightarrow> 'm module_host \<Rightarrow> 'w \<Rightarrow> bool \<times> 'm module_host \<times> 'w" where
  "addModule env candidate h w =
    (case candidate of
       None \<Rightarrow> (False, h, w)
     | Some m \<Rightarrow>
         let manifest = mi_manifest (he_modules env) m w; moduleId = mf_moduleId manifest in
         if moduleId = [] \<or> map_find (mh_modules h) moduleId \<noteq> None then (False, h, w)
         else if \<not> supportsRole manifest (cx_role (mh_session h)) then (False, h, w)
         else if \<not> supportsPlatform manifest (cx_localPlatform (mh_session h)) then (False, h, w)
         else
           let (attached, w') = mi_attach (he_modules env) m (mh_session h) w in
           if \<not> attached then (False, h, w')
           else (True, h\<lparr>mh_modules := map_put moduleId m (mh_modules h),
                         mh_order := mh_order h @ [moduleId]\<rparr>, w'))"

section \<open>startAllowedModules\<close>

record 'm start_candidate =
  sc_target :: 'm
  sc_options :: start_options
  sc_report :: start_report

definition deny ::
    "('m, 'c, 'w) host_env \<Rightarrow> 'w \<Rightarrow> 'm \<Rightarrow> deny_reason \<Rightarrow> string \<Rightarrow> start_report \<Rightarrow> start_report" where
  "deny env w m reason message report = report\<lparr>
     mr_decision := (mr_decision report)\<lparr>dc_allowed := False, dc_reason := reason,
       dc_message := message\<rparr>,
     mr_diagnostics := mi_diagnostics (he_modules env) m w\<rparr>"

definition dependency_missing :: "'m module_host \<Rightarrow> module_manifest \<Rightarrow> bool" where
  "dependency_missing h manifest \<longleftrightarrow>
     list_ex (\<lambda>required. map_find (mh_modules h) required = None) (mf_requiredModules manifest)"

definition channel_not_ready :: "('m, 'c, 'w) host_env \<Rightarrow> 'w \<Rightarrow> module_manifest \<Rightarrow> bool" where
  "channel_not_ready env w manifest \<longleftrightarrow>
    (case he_channels env of
       None \<Rightarrow> False
     | Some channels \<Rightarrow> list_ex (\<lambda>binding. cb_required binding \<and>
         \<not> isReady (channels w) (ChannelKey (cb_channelId binding) (cb_channelType binding)))
         (mf_channels manifest))"

definition policy_decision_for ::
    "('m, 'c, 'w) host_env \<Rightarrow> 'm module_host \<Rightarrow> module_manifest \<Rightarrow> policy_decision" where
  "policy_decision_for env h manifest =
    (case he_policy env of
       Some engine \<Rightarrow> pi_authorizeModule engine
         (default_policy_context\<lparr>px_session := mh_session h\<rparr>) manifest
     | None \<Rightarrow> default_decision\<lparr>dc_allowed := True, dc_reason := DR_None,
         dc_effectiveFeatures := cx_allowedFeatures (mh_session h)\<rparr>)"

text \<open>The body of the preflight loop: the candidate; the preflight fails where it is denied.\<close>

definition preflight ::
    "('m, 'c, 'w) host_env \<Rightarrow> start_options \<Rightarrow> 'm module_host \<Rightarrow> 'w \<Rightarrow> 'm \<Rightarrow> 'm start_candidate" where
  "preflight env options h w m =
    (let manifest = mi_manifest (he_modules env) m w;
         report = \<lparr>mr_moduleId = mf_moduleId manifest, mr_started = False,
                   mr_decision = default_decision, mr_diagnostics = []\<rparr>;
         denied = (\<lambda>reason message. \<lparr>sc_target = m, sc_options = options,
                     sc_report = deny env w m reason message report\<rparr>)
     in if dependency_missing h manifest then
          denied DR_MissingDependency ''required module dependency is missing''
        else if channel_not_ready env w manifest then
          denied DR_MissingDependency ''required channel is not ready''
        else
          let peers = evaluatePeerVersions manifest (op_peerVersions options) in
          if pev_blocked peers then denied DR_ModuleVersionMismatch (pev_message peers)
          else \<lparr>sc_target = m, sc_options = options\<lparr>op_peerVersions := pev_peerVersions peers\<rparr>,
            sc_report = report\<lparr>mr_decision := policy_decision_for env h manifest,
              mr_diagnostics := mi_diagnostics (he_modules env) m w\<rparr>\<rparr>)"

text \<open>The modules in the order they were added: \<open>moduleOrder_\<close> looked up in \<open>modules_\<close>.\<close>

definition ordered_modules :: "'m module_host \<Rightarrow> 'm list" where
  "ordered_modules h = List.map_filter (map_find (mh_modules h)) (mh_order h)"

definition candidate_allowed :: "'m start_candidate \<Rightarrow> bool" where
  "candidate_allowed c \<longleftrightarrow> dc_allowed (mr_decision (sc_report c))"

definition markSkippedByBatch ::
    "('m, 'c, 'w) host_env \<Rightarrow> 'w \<Rightarrow> 'm start_candidate \<Rightarrow> start_report" where
  "markSkippedByBatch env w c =
    (let report = sc_report c;
         report = (if dc_allowed (mr_decision report) then
             report\<lparr>mr_decision := (mr_decision report)\<lparr>dc_allowed := False,
               dc_reason := DR_RuntimeHealthBlocked,
               dc_message := ''module start skipped because partial start is disabled''\<rparr>\<rparr>
           else report)
     in report\<lparr>mr_diagnostics := mi_diagnostics (he_modules env) (sc_target c) w\<rparr>)"

definition block_report :: "string \<Rightarrow> start_report \<Rightarrow> start_report" where
  "block_report message report = report\<lparr>mr_started := False,
     mr_decision := (mr_decision report)\<lparr>dc_allowed := False,
       dc_reason := DR_RuntimeHealthBlocked, dc_message := message\<rparr>\<rparr>"

text \<open>Starting one candidate and registering its packets.\<close>

definition start_candidate_module ::
    "('m, 'c, 'w) host_env \<Rightarrow> 'm start_candidate \<Rightarrow> ingress \<Rightarrow> 'w \<Rightarrow> start_report \<times> ingress \<times> 'w" where
  "start_candidate_module env c g w =
    (let m = sc_target c; report = sc_report c;
         (report, w) =
           (if dc_allowed (mr_decision report) then
              (let (started, w') = mi_start (he_modules env) m (sc_options c) w
               in if started then (report\<lparr>mr_started := True\<rparr>, w')
                  else (block_report ''module start failed'' report, w'))
            else (report, w));
         manifest = mi_manifest (he_modules env) m w
     in if mr_started report \<and> hasConsumedPackets manifest then
          let (registered, g', w') = registerManifest (he_network env) manifest (Some ()) g w in
          if ig_tokens registered = [] then
            (block_report ''module ingress registration failed'' report, g',
             mi_stop (he_modules env) m default_stop_options w')
          else (report, g', w')
        else (report, g, w))"

definition rollback_options :: stop_options where
  "rollback_options =
     \<lparr>op_force = True, op_reason = ''rolling back failed module batch start''\<rparr>"

text \<open>The rollback loop, over the started modules in reverse order.\<close>

fun rollback :: "('m, 'c, 'w) host_env \<Rightarrow> 'm list \<Rightarrow> ingress \<Rightarrow> 'w \<Rightarrow> ingress \<times> 'w" where
  "rollback env [] g w = (g, w)"
| "rollback env (m # started) g w =
    (let (g', w') =
           unregisterModule (he_network env) (mf_moduleId (mi_manifest (he_modules env) m w)) g w
     in rollback env started g' (mi_stop (he_modules env) m rollback_options w'))"

definition roll_back_report :: "start_report \<Rightarrow> start_report" where
  "roll_back_report previous =
    (if mr_started previous then
       block_report ''module start rolled back because batch start failed'' previous
     else previous)"

definition with_diagnostics ::
    "('m, 'c, 'w) host_env \<Rightarrow> 'w \<Rightarrow> 'm \<Rightarrow> start_report \<Rightarrow> start_report" where
  "with_diagnostics env w m report =
     report\<lparr>mr_diagnostics := mi_diagnostics (he_modules env) m w\<rparr>"

text \<open>The start loop: \<open>reports\<close> and \<open>started\<close> are the reports so far and \<open>startedModules\<close>.\<close>

fun start_loop ::
    "('m, 'c, 'w) host_env \<Rightarrow> start_options \<Rightarrow> 'm start_candidate list \<Rightarrow> start_report list \<Rightarrow> 'm list \<Rightarrow>
     ingress \<Rightarrow> 'w \<Rightarrow> start_report list \<times> ingress \<times> 'w" where
  "start_loop env options [] reports started g w = (reports, g, w)"
| "start_loop env options (c # candidates) reports started g w =
    (let (report, g1, w1) = start_candidate_module env c g w in
     if mr_started report then
       start_loop env options candidates
         (reports @ [with_diagnostics env w1 (sc_target c) report]) (started @ [sc_target c]) g1 w1
     else if \<not> op_allowPartialStart options then
       let (g2, w2) = rollback env (rev started) g1 w1 in
       (map roll_back_report reports @ [with_diagnostics env w2 (sc_target c) report] @
          map (markSkippedByBatch env w2) candidates, g2, w2)
     else
       start_loop env options candidates
         (reports @ [with_diagnostics env w1 (sc_target c) report]) started g1 w1)"

definition startAllowedModules ::
    "('m, 'c, 'w) host_env \<Rightarrow> start_options \<Rightarrow> 'm module_host \<Rightarrow> 'w \<Rightarrow>
     start_report list \<times> 'm module_host \<times> 'w" where
  "startAllowedModules env options h w =
    (let candidates = map (preflight env options h w) (ordered_modules h);
         preflightFailed = list_ex (\<lambda>c. \<not> candidate_allowed c) candidates
     in if preflightFailed \<and> \<not> op_allowPartialStart options then
          (map (markSkippedByBatch env w) candidates, h, w)
        else
          let (reports, g, w') = start_loop env options candidates [] [] (mh_ingress h) w
          in (reports, h\<lparr>mh_ingress := g\<rparr>, w'))"

section \<open>Reconnect\<close>

definition notifyPause ::
    "('m, 'c, 'w) host_env \<Rightarrow> reconnect_options \<Rightarrow> 'm \<Rightarrow> 'w \<Rightarrow> reconnect_module_report \<times> 'w" where
  "notifyPause env options m w =
    (let moduleId = mf_moduleId (mi_manifest (he_modules env) m w);
         (notified, w') =
           (if mi_reconnectAware (he_modules env) m
            then (True, mi_pause (he_modules env) m options w) else (False, w))
     in (\<lparr>rmr_moduleId = moduleId, rmr_notified = notified,
          rmr_diagnostics = mi_diagnostics (he_modules env) m w'\<rparr>, w'))"

definition notifyResume ::
    "('m, 'c, 'w) host_env \<Rightarrow> reconnect_options \<Rightarrow> 'm \<Rightarrow> 'w \<Rightarrow> reconnect_module_report \<times> 'w" where
  "notifyResume env options m w =
    (let moduleId = mf_moduleId (mi_manifest (he_modules env) m w);
         (notified, w') =
           (if mi_reconnectAware (he_modules env) m
            then (True, mi_resume (he_modules env) m options w) else (False, w))
     in (\<lparr>rmr_moduleId = moduleId, rmr_notified = notified,
          rmr_diagnostics = mi_diagnostics (he_modules env) m w'\<rparr>, w'))"

definition replayIngress ::
    "('m, 'c, 'w) host_env \<Rightarrow> 'm \<Rightarrow> ingress \<Rightarrow> 'w \<Rightarrow> ingress_replay_report \<times> ingress \<times> 'w" where
  "replayIngress env m g w =
    (let manifest = mi_manifest (he_modules env) m w;
         (registered, g', w') = registerManifest (he_network env) manifest (Some ()) g w;
         replayed = ig_tokens registered \<noteq> []
     in (\<lparr>irr_moduleId = mf_moduleId manifest, irr_replayed = replayed,
          irr_tokenCount = length (ig_tokens registered),
          irr_diagnostics = mi_diagnostics (he_modules env) m w,
          irr_message = (if replayed then ''module ingress replayed''
                         else ''module ingress replay failed'')\<rparr>, g', w'))"

definition reconnect_target ::
    "('m, 'c, 'w) host_env \<Rightarrow> reconnect_options \<Rightarrow> 'm \<Rightarrow> 'w \<Rightarrow> bool" where
  "reconnect_target env options m w \<longleftrightarrow>
     mi_state (he_modules env) m w = MS_Running \<and>
     affectedByReconnect (mi_manifest (he_modules env) m w) (ro_affectedChannels options)"

fun notify_loop ::
    "('m, 'c, 'w) host_env \<Rightarrow> reconnect_options \<Rightarrow>
     ('m \<Rightarrow> 'w \<Rightarrow> reconnect_module_report \<times> 'w) \<Rightarrow> 'm list \<Rightarrow> 'w \<Rightarrow>
     reconnect_module_report list \<times> 'w" where
  "notify_loop env options notify [] w = ([], w)"
| "notify_loop env options notify (m # ms) w =
    (if reconnect_target env options m w then
       let (report, w1) = notify m w; (reports, w2) = notify_loop env options notify ms w1
       in (report # reports, w2)
     else notify_loop env options notify ms w)"

definition pauseRunningModulesForReconnect ::
    "('m, 'c, 'w) host_env \<Rightarrow> reconnect_options \<Rightarrow> 'm module_host \<Rightarrow> 'w \<Rightarrow>
     reconnect_module_report list \<times> 'w" where
  "pauseRunningModulesForReconnect env options h w =
     notify_loop env options (notifyPause env options) (rev (ordered_modules h)) w"

definition resumeRunningModulesAfterReconnect ::
    "('m, 'c, 'w) host_env \<Rightarrow> reconnect_options \<Rightarrow> 'm module_host \<Rightarrow> 'w \<Rightarrow>
     reconnect_module_report list \<times> 'w" where
  "resumeRunningModulesAfterReconnect env options h w =
     notify_loop env options (notifyResume env options) (ordered_modules h) w"

fun replay_loop ::
    "('m, 'c, 'w) host_env \<Rightarrow> reconnect_options \<Rightarrow> 'm list \<Rightarrow> ingress \<Rightarrow> 'w \<Rightarrow>
     ingress_replay_report list \<times> ingress \<times> 'w" where
  "replay_loop env options [] g w = ([], g, w)"
| "replay_loop env options (m # ms) g w =
    (if mi_state (he_modules env) m w = MS_Running \<and>
        hasConsumedPackets (mi_manifest (he_modules env) m w) \<and>
        affectedByReconnect (mi_manifest (he_modules env) m w) (ro_affectedChannels options) then
       let (report, g1, w1) = replayIngress env m g w;
           (reports, g2, w2) = replay_loop env options ms g1 w1
       in (report # reports, g2, w2)
     else replay_loop env options ms g w)"

definition replayRunningModuleIngressForReconnect ::
    "('m, 'c, 'w) host_env \<Rightarrow> reconnect_options \<Rightarrow> 'm module_host \<Rightarrow> 'w \<Rightarrow>
     ingress_replay_report list \<times> 'm module_host \<times> 'w" where
  "replayRunningModuleIngressForReconnect env options h w =
    (let (reports, g, w') = replay_loop env options (ordered_modules h) (mh_ingress h) w
     in (reports, h\<lparr>mh_ingress := g\<rparr>, w'))"

section \<open>stopAll and the queries\<close>

fun stop_loop ::
    "('m, 'c, 'w) host_env \<Rightarrow> stop_options \<Rightarrow> 'm list \<Rightarrow> ingress \<Rightarrow> 'w \<Rightarrow> ingress \<times> 'w" where
  "stop_loop env options [] g w = (g, w)"
| "stop_loop env options (m # ms) g w =
    (let (g', w') =
           unregisterModule (he_network env) (mf_moduleId (mi_manifest (he_modules env) m w)) g w
     in stop_loop env options ms g' (mi_stop (he_modules env) m options w'))"

definition stopAll ::
    "('m, 'c, 'w) host_env \<Rightarrow> stop_options \<Rightarrow> 'm module_host \<Rightarrow> 'w \<Rightarrow> 'm module_host \<times> 'w" where
  "stopAll env options h w =
    (let (g, w') = stop_loop env options (rev (ordered_modules h)) (mh_ingress h) w
     in (h\<lparr>mh_ingress := g\<rparr>, w'))"

definition host_module :: "'m module_host \<Rightarrow> string \<Rightarrow> 'm option" where
  "host_module h moduleId = map_find (mh_modules h) moduleId"

definition host_receive ::
    "('m, 'c, 'w) host_env \<Rightarrow> 'm module_host \<Rightarrow> string \<Rightarrow> packet_envelope \<Rightarrow> 'w \<Rightarrow> 'w" where
  "host_receive env h moduleId packet w =
    (case host_module h moduleId of
       None \<Rightarrow> w
     | Some m \<Rightarrow> mi_handlePacket (he_modules env) m packet w)"

definition host_manifests :: "('m, 'c, 'w) host_env \<Rightarrow> 'w \<Rightarrow> 'm module_host \<Rightarrow> module_manifest list" where
  "host_manifests env w h = map (\<lambda>m. mi_manifest (he_modules env) m w) (ordered_modules h)"

definition host_snapshots :: "('m, 'c, 'w) host_env \<Rightarrow> 'w \<Rightarrow> 'm module_host \<Rightarrow> module_snapshot list" where
  "host_snapshots env w h = map (\<lambda>m.
     \<lparr>ms_moduleId = mf_moduleId (mi_manifest (he_modules env) m w),
      ms_state = mi_state (he_modules env) m w, ms_manifest = mi_manifest (he_modules env) m w,
      ms_diagnostics = mi_diagnostics (he_modules env) m w\<rparr>) (ordered_modules h)"

section \<open>The host invariant\<close>

definition host_ok :: "'m module_host \<Rightarrow> bool" where
  "host_ok h \<longleftrightarrow> map_ok (mh_modules h) \<and> map_ok (mh_ingress h) \<and> distinct (mh_order h) \<and>
     [] \<notin> set (mh_order h) \<and> (\<forall>k. k \<in> set (mh_order h) \<longleftrightarrow> map_find (mh_modules h) k \<noteq> None)"

lemma new_host_ok [simp]: "host_ok (new_host session)"
  by (simp add: host_ok_def new_host_def)

lemma addModule_ok [preserves]: "host_ok h \<Longrightarrow> host_ok (fst (snd (addModule env m h w)))"
  by (auto simp: addModule_def Let_def split_beta host_ok_def smap.ok_put split: option.splits)

lemma addModule_added:
  assumes "host_ok h" and "fst (addModule env (Some m) h w)"
  shows "mh_order (fst (snd (addModule env (Some m) h w))) =
      mh_order h @ [mf_moduleId (mi_manifest (he_modules env) m w)] \<and>
    host_module (fst (snd (addModule env (Some m) h w)))
      (mf_moduleId (mi_manifest (he_modules env) m w)) = Some m \<and>
    supportsRole (mi_manifest (he_modules env) m w) (cx_role (mh_session h)) \<and>
    supportsPlatform (mi_manifest (he_modules env) m w) (cx_localPlatform (mh_session h))"
  using assms
  by (auto simp: addModule_def Let_def split_beta host_module_def split: if_splits)

lemma length_ordered_modules: "host_ok h \<Longrightarrow> length (ordered_modules h) = length (mh_order h)"
  by (simp add: ordered_modules_def List.map_filter_def host_ok_def filter_id_conv)

section \<open>What startAllowedModules reports\<close>

lemma preflight_target [simp]:
  "sc_target (preflight env options h w m) = m"
  "\<not> mr_started (sc_report (preflight env options h w m))"
  "mr_moduleId (sc_report (preflight env options h w m)) =
     mf_moduleId (mi_manifest (he_modules env) m w)"
  by (simp_all add: preflight_def Let_def deny_def)

definition module_startable ::
    "('m, 'c, 'w) host_env \<Rightarrow> start_options \<Rightarrow> 'm module_host \<Rightarrow> 'w \<Rightarrow> 'm \<Rightarrow> bool" where
  "module_startable env options h w m \<longleftrightarrow>
    (let manifest = mi_manifest (he_modules env) m w in
     (\<forall>required \<in> set (mf_requiredModules manifest). map_find (mh_modules h) required \<noteq> None) \<and>
     (\<forall>channels. he_channels env = Some channels \<longrightarrow>
        (\<forall>binding \<in> set (mf_channels manifest). cb_required binding \<longrightarrow>
           isReady (channels w) (ChannelKey (cb_channelId binding) (cb_channelType binding)))) \<and>
     \<not> pev_blocked (evaluatePeerVersions manifest (op_peerVersions options)) \<and>
     dc_allowed (policy_decision_for env h manifest))"

lemma preflight_allowed_iff:
  "candidate_allowed (preflight env options h w m) \<longleftrightarrow> module_startable env options h w m"
  by (auto simp: candidate_allowed_def preflight_def Let_def deny_def module_startable_def
      dependency_missing_def channel_not_ready_def list_ex_iff split: option.split)

text \<open>How a final report relates to its candidate, whatever happened in the batch.\<close>

definition report_of :: "'m start_candidate \<Rightarrow> start_report \<Rightarrow> bool" where
  "report_of c report \<longleftrightarrow> mr_moduleId report = mr_moduleId (sc_report c) \<and>
     (mr_started report \<longrightarrow> candidate_allowed c \<and> dc_allowed (mr_decision report))"

lemma markSkipped_simps [simp]:
  "mr_started (markSkippedByBatch env w c) = mr_started (sc_report c)"
  "mr_moduleId (markSkippedByBatch env w c) = mr_moduleId (sc_report c)"
  by (simp_all add: markSkippedByBatch_def Let_def)

lemma block_report_simps [simp]:
  "mr_moduleId (block_report message report) = mr_moduleId report"
  "\<not> mr_started (block_report message report)"
  by (simp_all add: block_report_def)

lemma with_diagnostics_simps [simp]:
  "mr_moduleId (with_diagnostics env w m report) = mr_moduleId report"
  "mr_started (with_diagnostics env w m report) = mr_started report"
  "mr_decision (with_diagnostics env w m report) = mr_decision report"
  by (simp_all add: with_diagnostics_def)

lemma report_of_rolled_back:
  "report_of c report \<Longrightarrow> report_of c (roll_back_report report) \<and> \<not> mr_started (roll_back_report report)"
  by (simp add: report_of_def roll_back_report_def)

lemma report_of_started:
  assumes "\<not> mr_started (sc_report c)"
  shows "report_of c (fst (start_candidate_module env c g w))"
  using assms
  by (auto simp: start_candidate_module_def Let_def split_beta report_of_def candidate_allowed_def)

lemma report_of_diagnostics [simp]:
  "report_of c (with_diagnostics env w m report) = report_of c report"
  by (simp add: report_of_def)

lemma reports_of_skipped:
  "\<forall>c \<in> set candidates. \<not> mr_started (sc_report c) \<Longrightarrow>
     list_all2 report_of candidates (map (markSkippedByBatch env w) candidates)"
  by (auto simp: list.rel_map report_of_def intro!: list.rel_refl_strong)

lemma reports_of_rolled_back:
  "list_all2 report_of candidates reports \<Longrightarrow>
     list_all2 report_of candidates (map roll_back_report reports)"
  unfolding list.rel_map by (erule list_all2_mono) (simp add: report_of_rolled_back)

lemma start_loop_reports:
  assumes "\<forall>c \<in> set candidates. \<not> mr_started (sc_report c)"
    and "list_all2 report_of finished reports"
  shows "list_all2 report_of (finished @ candidates)
    (fst (start_loop env options candidates reports started g w))"
  using assms
proof (induction candidates arbitrary: finished reports started g w)
  case (Cons c candidates)
  obtain report g1 w1 where start: "start_candidate_module env c g w = (report, g1, w1)"
    by (cases "start_candidate_module env c g w")
  have report: "report_of c report"
    using report_of_started [of c env g w] Cons.prems(1) start by simp
  have next_loop: "list_all2 report_of ((finished @ [c]) @ candidates) (fst (start_loop env options
      candidates (reports @ [with_diagnostics env w1 (sc_target c) report]) started' g1 w1))"
    for started'
    by (rule Cons.IH) (use Cons.prems report in \<open>auto intro: list_all2_appendI\<close>)
  show ?case
    using start report next_loop reports_of_rolled_back [OF Cons.prems(2)]
      reports_of_skipped [of candidates] Cons.prems(1)
    by (auto simp: split_beta intro!: list_all2_appendI)
qed simp

definition start_candidates ::
    "('m, 'c, 'w) host_env \<Rightarrow> start_options \<Rightarrow> 'm module_host \<Rightarrow> 'w \<Rightarrow> 'm start_candidate list" where
  "start_candidates env options h w = map (preflight env options h w) (ordered_modules h)"

lemma start_candidates_fresh: "\<forall>c \<in> set (start_candidates env options h w). \<not> mr_started (sc_report c)"
  by (simp add: start_candidates_def)

text \<open>One report per module, in the order the modules were added, and a module is reported as
  started only if every precondition held.\<close>

lemma startAllowedModules_reports:
  "list_all2 (\<lambda>m report. mr_moduleId report = mf_moduleId (mi_manifest (he_modules env) m w) \<and>
     (mr_started report \<longrightarrow> module_startable env options h w m \<and> dc_allowed (mr_decision report)))
   (ordered_modules h) (fst (startAllowedModules env options h w))"
proof -
  have "list_all2 report_of (start_candidates env options h w)
      (fst (startAllowedModules env options h w))"
    using start_loop_reports [OF start_candidates_fresh [of env options h w], of "[]" "[]"
        env options "[]" "mh_ingress h" w]
      reports_of_skipped [OF start_candidates_fresh [of env options h w], of env w]
    by (simp add: startAllowedModules_def Let_def split_beta start_candidates_def [symmetric])
  then show ?thesis
    by (auto simp: start_candidates_def list_all2_conv_all_nth report_of_def preflight_allowed_iff)
qed

section \<open>All or nothing\<close>

definition all_or_none :: "start_report list \<Rightarrow> bool" where
  "all_or_none reports \<longleftrightarrow>
     (\<forall>r \<in> set reports. mr_started r) \<or> (\<forall>r \<in> set reports. \<not> mr_started r)"

lemma start_loop_all_or_none:
  assumes "\<not> op_allowPartialStart options"
    and "\<forall>c \<in> set candidates. \<not> mr_started (sc_report c)"
    and "\<forall>r \<in> set reports. mr_started r"
  shows "all_or_none (fst (start_loop env options candidates reports started g w))"
  using assms(2,3)
proof (induction candidates arbitrary: reports started g w)
  case (Cons c candidates)
  then show ?case
    using assms(1)
    by (auto simp: split_beta all_or_none_def roll_back_report_def split: prod.splits)
qed (simp add: all_or_none_def)

lemma startAllowedModules_all_or_none:
  assumes "\<not> op_allowPartialStart options"
  shows "all_or_none (fst (startAllowedModules env options h w))"
proof -
  have "all_or_none (map (markSkippedByBatch env w) (start_candidates env options h w))"
    using start_candidates_fresh [of env options h w] by (auto simp: all_or_none_def)
  then show ?thesis
    using start_loop_all_or_none [OF assms start_candidates_fresh [of env options h w], of "[]"
        env "[]" "mh_ingress h" w]
    by (simp add: startAllowedModules_def Let_def split_beta start_candidates_def [symmetric])
qed

section \<open>Which modules are left running\<close>

text \<open>
  An instrumented world: the same modules and router, with a log of the calls of \<open>start\<close>
  that returned true and of the calls of \<open>stop\<close>. A module is left running by a batch if it
  was started and not stopped after.
\<close>

datatype 'm lifecycle_event = Started 'm | Stopped 'm

definition logged_modules ::
    "('m, 'w) module_interface \<Rightarrow> ('m, 'w \<times> 'm lifecycle_event list) module_interface" where
  "logged_modules mi = \<lparr>
     mi_manifest = (\<lambda>m x. mi_manifest mi m (fst x)),
     mi_state = (\<lambda>m x. mi_state mi m (fst x)),
     mi_attach = (\<lambda>m session x.
       (fst (mi_attach mi m session (fst x)), (snd (mi_attach mi m session (fst x)), snd x))),
     mi_start = (\<lambda>m options x. let (started, w) = mi_start mi m options (fst x)
       in (started, (w, if started then snd x @ [Started m] else snd x))),
     mi_stop = (\<lambda>m options x. (mi_stop mi m options (fst x), snd x @ [Stopped m])),
     mi_handlePacket = (\<lambda>m packet x. (mi_handlePacket mi m packet (fst x), snd x)),
     mi_diagnostics = (\<lambda>m x. mi_diagnostics mi m (fst x)),
     mi_reconnectAware = mi_reconnectAware mi,
     mi_pause = (\<lambda>m options x. (mi_pause mi m options (fst x), snd x)),
     mi_resume = (\<lambda>m options x. (mi_resume mi m options (fst x), snd x))\<rparr>"

definition logged_network ::
    "('h, 'w) network_interface \<Rightarrow> ('h, 'w \<times> 'l) network_interface" where
  "logged_network net = \<lparr>
     ni_subscribe = (\<lambda>route handler x. let (token, w) = ni_subscribe net route handler (fst x)
       in (token, (w, snd x))),
     ni_unsubscribe = (\<lambda>token x. (ni_unsubscribe net token (fst x), snd x))\<rparr>"

definition logged ::
    "('m, 'c, 'w) host_env \<Rightarrow> ('m, 'c, 'w \<times> 'm lifecycle_event list) host_env" where
  "logged env = \<lparr>
     he_modules = logged_modules (he_modules env),
     he_network = map_option logged_network (he_network env),
     he_channels = map_option (\<lambda>channels x. channels (fst x)) (he_channels env),
     he_policy = he_policy env\<rparr>"

fun left_running :: "'m lifecycle_event list \<Rightarrow> 'm set \<Rightarrow> 'm set" where
  "left_running [] running = running"
| "left_running (Started m # log) running = left_running log (insert m running)"
| "left_running (Stopped m # log) running = left_running log (running - {m})"

lemma left_running_append [simp]:
  "left_running (xs @ ys) running = left_running ys (left_running xs running)"
  by (induction xs running rule: left_running.induct) auto

lemma logged_subscribe_all [simp]:
  "snd (snd (subscribe_all (ni_subscribe (logged_network net)) h routes x)) = snd x"
  by (induction routes arbitrary: x) (auto simp: logged_network_def Let_def split_beta)

lemma logged_unsubscribe_all [simp]:
  "snd (fold (ni_unsubscribe (logged_network net)) tokens x) = snd x"
  by (induction tokens arbitrary: x) (auto simp: logged_network_def)

lemma logged_unregister [simp]:
  "snd (snd (unregisterModule (he_network (logged env)) moduleId g x)) = snd x"
  by (auto simp: unregisterModule_def logged_def split: option.split)

lemma logged_register [simp]:
  "snd (snd (snd (registerManifest (he_network (logged env)) manifest handler g x))) = snd x"
proof (cases "he_network env")
  case (Some net)
  then have "he_network (logged env) = Some (logged_network net)" by (simp add: logged_def)
  then show ?thesis
    using logged_unregister [of env "mf_moduleId manifest" g x]
    by (auto simp: registerManifest_def Let_def split_beta split: option.split)
qed (simp add: registerManifest_def logged_def Let_def)

lemma logged_start_stop [simp]:
  "left_running (snd (snd (mi_start (he_modules (logged env)) m options x))) running =
     (if fst (mi_start (he_modules (logged env)) m options x)
      then insert m (left_running (snd x) running) else left_running (snd x) running)"
  "left_running (snd (mi_stop (he_modules (logged env)) m stop_opts x)) running =
     left_running (snd x) running - {m}"
  by (auto simp: logged_def logged_modules_def Let_def split_beta)

lemma rollback_running:
  "left_running (snd (snd (rollback (logged env) started g x))) {} =
     left_running (snd x) {} - set started"
  by (induction started arbitrary: g x) (auto simp: Let_def split_beta)

lemma start_candidate_running:
  assumes "\<not> mr_started (sc_report c)"
    and "start_candidate_module (logged env) c g x = (report, g', x')"
  shows "mr_started report \<Longrightarrow>
      left_running (snd x') {} = insert (sc_target c) (left_running (snd x) {})"
    and "\<not> mr_started report \<Longrightarrow> left_running (snd x') {} \<subseteq> left_running (snd x) {}"
proof -
  have "report = fst (start_candidate_module (logged env) c g x)"
    "x' = snd (snd (start_candidate_module (logged env) c g x))"
    using assms(2) by simp_all
  then show "mr_started report \<Longrightarrow>
      left_running (snd x') {} = insert (sc_target c) (left_running (snd x) {})"
    and "\<not> mr_started report \<Longrightarrow> left_running (snd x') {} \<subseteq> left_running (snd x) {}"
    using assms(1) by (auto simp: start_candidate_module_def Let_def split_beta split: if_splits)
qed

lemma start_loop_running:
  assumes "\<not> op_allowPartialStart options"
    and "\<forall>c \<in> set candidates. \<not> mr_started (sc_report c)"
    and "left_running (snd x) {} = set started"
    and "\<forall>r \<in> set reports. mr_started r"
    and "start_loop (logged env) options candidates reports started g x = (result, g', x')"
  shows "left_running (snd x') {} =
    (if \<forall>r \<in> set result. mr_started r then set started \<union> set (map sc_target candidates) else {})"
  using assms(2-)
proof (induction candidates arbitrary: reports started g x)
  case (Cons c candidates)
  obtain report g1 x1 where start: "start_candidate_module (logged env) c g x = (report, g1, x1)"
    by (cases "start_candidate_module (logged env) c g x")
  have fresh: "\<not> mr_started (sc_report c)" using Cons.prems(1) by simp
  note running = start_candidate_running [OF fresh start]
  show ?case
  proof (cases "mr_started report")
    case True
    let ?report = "with_diagnostics (logged env) x1 (sc_target c) report"
    have "left_running (snd x') {} = (if \<forall>r \<in> set result. mr_started r
        then set (started @ [sc_target c]) \<union> set (map sc_target candidates) else {})"
    proof (rule Cons.IH)
      show "start_loop (logged env) options candidates (reports @ [?report])
          (started @ [sc_target c]) g1 x1 = (result, g', x')"
        using Cons.prems(4) start True by simp
    qed (use Cons.prems running True in auto)
    then show ?thesis by (simp add: Un_assoc insert_absorb)
  next
    case False
    let ?undone = "rollback (logged env) (rev started) g1 x1"
    have result: "result = map roll_back_report reports @
        [with_diagnostics (logged env) (snd ?undone) (sc_target c) report] @
        map (markSkippedByBatch (logged env) (snd ?undone)) candidates" and x': "x' = snd ?undone"
      using Cons.prems(4) start False assms(1) by (auto simp: split_beta)
    have "left_running (snd x') {} = {}"
      unfolding x' rollback_running using running(2) False Cons.prems(2) by auto
    moreover have "\<not> (\<forall>r \<in> set result. mr_started r)" using False by (auto simp: result)
    ultimately show ?thesis by simp
  qed
qed auto

text \<open>After a batch without partial start, either every module runs or none is left running.\<close>

lemma startAllowedModules_running:
  assumes "\<not> op_allowPartialStart options"
    and "startAllowedModules (logged env) options h (w, []) = (reports, h', x')"
  shows "left_running (snd x') {} =
    (if \<forall>r \<in> set reports. mr_started r then set (ordered_modules h) else {})"
proof -
  let ?candidates = "start_candidates (logged env) options h (w, [])"
  have targets: "set (map sc_target ?candidates) = set (ordered_modules h)"
    by (simp add: start_candidates_def image_image)
  show ?thesis
  proof (cases "list_ex (\<lambda>c. \<not> candidate_allowed c) ?candidates")
    case True
    then have "reports = map (markSkippedByBatch (logged env) (w, [])) ?candidates" "x' = (w, [])"
      and "?candidates \<noteq> []"
      using assms by (auto simp: startAllowedModules_def Let_def start_candidates_def)
    then show ?thesis
      using start_candidates_fresh [of "logged env" options h "(w, [])"] by (auto simp: neq_Nil_conv)
  next
    case False
    then obtain g where "start_loop (logged env) options ?candidates [] [] (mh_ingress h) (w, []) =
        (reports, g, x')"
      using assms
      by (cases "start_loop (logged env) options ?candidates [] [] (mh_ingress h) (w, [])")
        (auto simp: startAllowedModules_def Let_def start_candidates_def)
    from start_loop_running [OF assms(1) start_candidates_fresh _ _ this]
    show ?thesis unfolding targets by simp
  qed
qed

text \<open>Only modules whose candidates are allowed are ever started, reported or not.\<close>

definition starts_of :: "'m lifecycle_event list \<Rightarrow> 'm set" where
  "starts_of log = {m. Started m \<in> set log}"

lemma starts_of_simps [simp]:
  "starts_of [] = {}" "starts_of (xs @ ys) = starts_of xs \<union> starts_of ys"
  "starts_of [Started m] = {m}" "starts_of [Stopped m] = {}"
  by (auto simp: starts_of_def)

lemma logged_starts [simp]:
  "starts_of (snd (snd (mi_start (he_modules (logged env)) m options x))) =
     (if fst (mi_start (he_modules (logged env)) m options x) then insert m (starts_of (snd x))
      else starts_of (snd x))"
  "starts_of (snd (mi_stop (he_modules (logged env)) m stop_opts x)) = starts_of (snd x)"
  by (auto simp: logged_def logged_modules_def Let_def split_beta)

lemma rollback_starts [simp]:
  "starts_of (snd (snd (rollback (logged env) started g x))) = starts_of (snd x)"
  by (induction started arbitrary: g x) (auto simp: Let_def split_beta)

lemma start_candidate_starts:
  "starts_of (snd (snd (snd (start_candidate_module (logged env) c g x)))) \<subseteq>
     (if candidate_allowed c then insert (sc_target c) (starts_of (snd x)) else starts_of (snd x))"
  by (auto simp: start_candidate_module_def candidate_allowed_def Let_def split_beta split: if_splits)

lemma start_loop_starts:
  "starts_of (snd (snd (snd (start_loop (logged env) options candidates reports started g x)))) \<subseteq>
     starts_of (snd x) \<union> sc_target ` {c \<in> set candidates. candidate_allowed c}"
proof (induction candidates arbitrary: reports started g x)
  case (Cons c candidates)
  obtain report g1 x1 where start: "start_candidate_module (logged env) c g x = (report, g1, x1)"
    by (cases "start_candidate_module (logged env) c g x")
  define room where
    "room = starts_of (snd x) \<union> sc_target ` {d \<in> set (c # candidates). candidate_allowed d}"
  have x1: "starts_of (snd x1) \<subseteq> room"
    using start_candidate_starts [of env c g x] start by (auto simp: room_def split: if_splits)
  have rest: "starts_of (snd (snd (snd (start_loop (logged env) options candidates reports' started'
      g1 x1)))) \<subseteq> room" for reports' started'
    by (rule subset_trans [OF Cons.IH]) (use x1 in \<open>auto simp: room_def\<close>)
  show ?case
    unfolding room_def [symmetric] using x1 rest by (simp add: start split_beta)
qed simp

lemma logged_module_startable:
  "module_startable (logged env) options h (w, log) m \<longleftrightarrow> module_startable env options h w m"
  by (auto simp: module_startable_def logged_def logged_modules_def policy_decision_for_def Let_def
      split: option.splits)

lemma only_startable_modules_start:
  assumes "startAllowedModules (logged env) options h (w, []) = (reports, h', x')"
    and "Started m \<in> set (snd x')"
  shows "m \<in> set (ordered_modules h) \<and> module_startable env options h w m"
proof -
  have x': "x' = snd (snd (startAllowedModules (logged env) options h (w, [])))" using assms(1) by simp
  have "m \<in> starts_of (snd x')" using assms(2) by (simp add: starts_of_def)
  then have "m \<in> sc_target ` {c \<in> set (start_candidates (logged env) options h (w, [])).
      candidate_allowed c}"
    using start_loop_starts [of env options "start_candidates (logged env) options h (w, [])" "[]" "[]"
        "mh_ingress h" "(w, [])"]
    by (auto simp: x' startAllowedModules_def Let_def split_beta start_candidates_def split: if_splits)
  then show ?thesis
    by (auto simp: start_candidates_def preflight_allowed_iff logged_module_startable)
qed

text \<open>\<open>stopAll\<close> stops every module once, in the reverse of the order they were added in.\<close>

lemma stop_loop_log:
  "snd (snd (stop_loop (logged env) options ms g x)) = snd x @ map Stopped ms"
proof (induction ms arbitrary: g x)
  case (Cons m ms)
  have "snd (mi_stop (he_modules (logged env)) m options y) = snd y @ [Stopped m]" for y
    by (simp add: logged_def logged_modules_def)
  then show ?case by (simp add: Cons.IH split_beta Let_def)
qed simp

lemma stopAll_log:
  "snd (snd (stopAll (logged env) options h (w, log))) =
     log @ map Stopped (rev (ordered_modules h))"
  by (simp add: stopAll_def Let_def split_beta stop_loop_log)

section \<open>Properties\<close>

text \<open>
  C39. No module starts against its conditions: the reports of a batch start are one per attached
  module, in the order of attachment, and a module reported as started has its required modules
  attached, its required channels ready, its peer version accepted and the policy engine's
  permission, all at the moment the batch began.
\<close>

theorem started_modules_meet_their_conditions:
  "list_all2 (\<lambda>m report. mr_moduleId report = mf_moduleId (mi_manifest (he_modules env) m w) \<and>
     (mr_started report \<longrightarrow> module_startable env options h w m \<and> dc_allowed (mr_decision report)))
   (ordered_modules h) (fst (startAllowedModules env options h w))"
  by (rule startAllowedModules_reports)

definition calm_modules :: "(module_manifest, 'w) module_interface" where
  "calm_modules = \<lparr>
     mi_manifest = (\<lambda>m _. m), mi_state = (\<lambda>_ _. MS_Created), mi_attach = (\<lambda>_ _ w. (True, w)),
     mi_start = (\<lambda>_ _ w. (True, w)), mi_stop = (\<lambda>_ _ w. w), mi_handlePacket = (\<lambda>_ _ w. w),
     mi_diagnostics = (\<lambda>_ _. []), mi_reconnectAware = (\<lambda>_. False),
     mi_pause = (\<lambda>_ _ w. w), mi_resume = (\<lambda>_ _ w. w)\<rparr>"

definition calm_env :: "(module_manifest, unit, 'w) host_env" where
  "calm_env = \<lparr>he_modules = calm_modules, he_network = None, he_channels = None, he_policy = None\<rparr>"

definition plain_module :: module_manifest where
  "plain_module = default_manifest\<lparr>mf_moduleId := ''m''\<rparr>"

definition calm_host :: "module_manifest module_host" where
  "calm_host = (new_host default_context)\<lparr>mh_modules := [(''m'', plain_module)], mh_order := [''m'']\<rparr>"

lemma calm_started:
  "map mr_started (fst (startAllowedModules calm_env default_start_options calm_host ())) = [True]"
  by (simp add: startAllowedModules_def ordered_modules_def calm_host_def List.map_filter_def
      preflight_def calm_env_def calm_modules_def dependency_missing_def plain_module_def
      default_manifest_def channel_not_ready_def evaluatePeerVersions_def
      default_start_options_def policy_decision_for_def candidate_allowed_def Let_def
      start_candidate_module_def hasConsumedPackets_def with_diagnostics_def)

theorem started_modules_meet_their_conditions_witness:
  "module_startable calm_env default_start_options calm_host () plain_module"
  using started_modules_meet_their_conditions [of calm_env "()" default_start_options calm_host]
    calm_started
  by (auto simp: ordered_modules_def calm_host_def List.map_filter_def list_all2_Cons1)

text \<open>
  C8. A batch start without partial start is all or nothing, in its reports and in the modules:
  either every report says started and exactly the attached modules are left running, or no
  report says started and every module that was started has been stopped again.
\<close>

theorem batch_start_is_all_or_nothing:
  assumes "\<not> op_allowPartialStart options"
    and "startAllowedModules (logged env) options h (w, []) = (reports, h', x')"
  shows "all_or_none reports \<and> left_running (snd x') {} =
    (if \<forall>r \<in> set reports. mr_started r then set (ordered_modules h) else {})"
  using startAllowedModules_all_or_none [OF assms(1), of "logged env" h "(w, [])"]
    startAllowedModules_running [OF assms] assms(2) by simp

theorem batch_start_is_all_or_nothing_witness:
  "left_running (snd (snd (snd (startAllowedModules (logged calm_env) default_start_options
     calm_host ((), []))))) {} \<subseteq> {plain_module}"
proof -
  obtain reports h' x' where
    run: "startAllowedModules (logged calm_env) default_start_options calm_host ((), []) = (reports, h', x')"
    by (metis prod.exhaust)
  have "\<not> op_allowPartialStart default_start_options" by (simp add: default_start_options_def)
  moreover have "ordered_modules calm_host = [plain_module]"
    by (simp add: ordered_modules_def calm_host_def List.map_filter_def)
  ultimately show ?thesis
    using batch_start_is_all_or_nothing [OF _ run] by (simp add: run)
qed

text \<open>
  Stopping a host stops every attached module exactly once, in the reverse of the order in
  which they were attached, and does nothing else to the modules.
\<close>

theorem stop_runs_in_reverse_order:
  "snd (snd (stopAll (logged env) options h (w, log))) =
     log @ map Stopped (rev (ordered_modules h))"
  by (rule stopAll_log)

end
