(* ===== verification/Priority_Scheduler.thy ===== *)
theory Priority_Scheduler
  imports Channel
begin

text \<open>
  \<open>src/core/network/priority_scheduler.cpp\<close>: six first-in-first-out queues, one per packet
  priority, with a depth limit per channel and a drop policy. The lemmas show which packets
  are kept, dropped and handed out, and that every packet that enters the scheduler leaves
  it at most once.
\<close>

section \<open>State and results\<close>

datatype drop_policy = DP_None | DP_DropNewest | DP_DropOldest | DP_KeepLatestNonKeyFrame

record send_options =
  so_priority :: packet_priority
  so_dropPolicy :: drop_policy
  so_maxQueueDepth :: nat
  so_allowCoalesce :: bool

definition default_send_options :: send_options where
  "default_send_options = \<lparr>so_priority = PP_Normal, so_dropPolicy = DP_None,
     so_maxQueueDepth = 1024, so_allowCoalesce = False\<rparr>"

datatype enqueue_status = EQ_Queued | EQ_Dropped | EQ_Rejected

record enqueue_result =
  er_status :: enqueue_status
  er_droppedPackets :: nat
  er_pressure :: channel_pressure
  er_message :: string

definition default_enqueue_result :: enqueue_result where
  "default_enqueue_result = \<lparr>er_status = EQ_Rejected, er_droppedPackets = 0,
     er_pressure = default_pressure, er_message = []\<rparr>"

definition kPriorityCount :: nat where
  "kPriorityCount = 6"

text \<open>\<open>std::array<std::deque<PacketEnvelope>, kPriorityCount>\<close>.\<close>

type_synonym scheduler = "packet_envelope list list"

definition new_scheduler :: scheduler where
  "new_scheduler = replicate kPriorityCount []"

section \<open>Operations\<close>

definition priorityIndex :: "packet_priority \<Rightarrow> nat" where
  "priorityIndex priority =
    (let index = unat priority in if index < kPriorityCount then index else kPriorityCount - 1)"

definition scheduler_hasFlag :: "packet_flags \<Rightarrow> packet_flags \<Rightarrow> bool" where
  "scheduler_hasFlag flags flag \<longleftrightarrow> flags AND flag = flag"

fun queuedTotal :: "scheduler \<Rightarrow> nat" where
  "queuedTotal [] = 0"
| "queuedTotal (queue # queues) = length queue + queuedTotal queues"

fun queuedCount :: "scheduler \<Rightarrow> channel_key \<Rightarrow> nat" where
  "queuedCount [] key = 0"
| "queuedCount (queue # queues) key =
     length (filter (\<lambda>packet. packet_key packet = key) queue) + queuedCount queues key"

definition computePressure :: "scheduler \<Rightarrow> channel_key \<Rightarrow> nat \<Rightarrow> channel_pressure" where
  "computePressure s key maxQueueDepth =
    (let queued = queuedCount s key;
         level = PL_Healthy;
         level = (if queued > 0 then PL_BuildingQueue else level);
         level = (if maxQueueDepth > 0 \<and> queued \<ge> maxQueueDepth then PL_Congested else level)
     in default_pressure\<lparr>pr_queuedPackets := queued, pr_level := level\<rparr>)"

definition scheduler_pressure :: "scheduler \<Rightarrow> channel_key \<Rightarrow> channel_pressure" where
  "scheduler_pressure s key = computePressure s key 0"

text \<open>\<open>find_if\<close> and \<open>erase\<close> on one queue: whether an element was found, and the queues after.\<close>

definition drop_first ::
    "(packet_envelope \<Rightarrow> bool) \<Rightarrow> packet_priority \<Rightarrow> scheduler \<Rightarrow> bool \<times> scheduler" where
  "drop_first p priority s =
    (let index = priorityIndex priority; queue = s ! index
     in if find p queue = None then (False, s) else (True, s[index := erase_first p queue]))"

definition dropOldest :: "channel_key \<Rightarrow> packet_priority \<Rightarrow> scheduler \<Rightarrow> bool \<times> scheduler" where
  "dropOldest key priority s = drop_first (\<lambda>packet. packet_key packet = key) priority s"

definition dropStaleNonKeyFrame ::
    "channel_key \<Rightarrow> packet_priority \<Rightarrow> scheduler \<Rightarrow> bool \<times> scheduler" where
  "dropStaleNonKeyFrame key priority s =
     drop_first (\<lambda>packet. packet_key packet = key \<and>
       \<not> scheduler_hasFlag (pk_flags packet) PacketFlagKeyFrame) priority s"

text \<open>The \<open>switch\<close> over the drop policy when the channel is at its limit: whether the packet
  can be queued, and the queues after; \<open>DropNewest\<close> returns before.\<close>

definition make_room ::
    "drop_policy \<Rightarrow> channel_key \<Rightarrow> packet_priority \<Rightarrow> scheduler \<Rightarrow> bool \<times> scheduler" where
  "make_room dropPolicy key priority s =
    (case dropPolicy of
       DP_DropOldest \<Rightarrow> dropOldest key priority s
     | DP_KeepLatestNonKeyFrame \<Rightarrow> dropStaleNonKeyFrame key priority s
     | DP_DropNewest \<Rightarrow> (False, s)
     | DP_None \<Rightarrow> (False, s))"

definition push_back :: "packet_priority \<Rightarrow> packet_envelope \<Rightarrow> scheduler \<Rightarrow> scheduler" where
  "push_back priority packet s =
    (let index = priorityIndex priority in s[index := s ! index @ [packet]])"

definition enqueue ::
    "packet_envelope \<Rightarrow> send_options \<Rightarrow> scheduler \<Rightarrow> enqueue_result \<times> scheduler" where
  "enqueue packet options s =
    (let priority = so_priority options;
         key = packet_key packet;
         depth = so_maxQueueDepth options;
         full = (depth > 0 \<and> queuedCount s key \<ge> depth)
     in if full \<and> so_dropPolicy options = DP_DropNewest then
          (\<lparr>er_status = EQ_Dropped, er_droppedPackets = 1,
            er_pressure = computePressure s key depth,
            er_message = ''newest packet dropped''\<rparr>, s)
        else
          let (canQueue, s1) =
                (if full then make_room (so_dropPolicy options) key priority s else (True, s));
              dropped = (if full \<and> canQueue then 1 else 0)
          in if \<not> canQueue then
               (\<lparr>er_status = EQ_Rejected, er_droppedPackets = dropped,
                 er_pressure = computePressure s1 key depth,
                 er_message = ''priority queue limit reached''\<rparr>, s1)
             else
               let s2 = push_back priority packet s1
               in (\<lparr>er_status = EQ_Queued, er_droppedPackets = dropped,
                    er_pressure = computePressure s2 key depth, er_message = []\<rparr>, s2))"

fun nextPacket :: "scheduler \<Rightarrow> packet_envelope option \<times> scheduler" where
  "nextPacket [] = (None, [])"
| "nextPacket ((packet # queue) # queues) = (Some packet, queue # queues)"
| "nextPacket ([] # queues) =
     (let (packet, queues') = nextPacket queues in (packet, [] # queues'))"

text \<open>The fields \<open>takePacket\<close> identifies a packet by.\<close>

definition same_packet :: "packet_envelope \<Rightarrow> packet_envelope \<Rightarrow> bool" where
  "same_packet packet queued \<longleftrightarrow>
     pk_channelId queued = pk_channelId packet \<and>
     pk_channelType queued = pk_channelType packet \<and>
     pk_packetType queued = pk_packetType packet \<and>
     pk_messageKind queued = pk_messageKind packet \<and>
     pk_messageId queued = pk_messageId packet \<and>
     pk_correlationId queued = pk_correlationId packet \<and>
     pk_responseTo queued = pk_responseTo packet \<and>
     pk_sequence queued = pk_sequence packet"

definition takePacket ::
    "packet_envelope \<Rightarrow> scheduler \<Rightarrow> packet_envelope option \<times> scheduler" where
  "takePacket packet s =
    (let index = priorityIndex (pk_priority packet); queue = s ! index
     in case find (same_packet packet) queue of
          None \<Rightarrow> (None, s)
        | Some found \<Rightarrow> (Some found, s[index := erase_first (same_packet packet) queue]))"

definition drain :: "channel_key \<Rightarrow> scheduler \<Rightarrow> scheduler" where
  "drain key s = map (filter (\<lambda>packet. packet_key packet \<noteq> key)) s"

section \<open>Shape\<close>

definition scheduler_ok :: "scheduler \<Rightarrow> bool" where
  "scheduler_ok s \<longleftrightarrow> length s = kPriorityCount"

lemma priorityIndex_less [simp]: "priorityIndex priority < kPriorityCount"
  by (simp add: priorityIndex_def kPriorityCount_def Let_def)

lemma priorityIndex_in: "scheduler_ok s \<Longrightarrow> priorityIndex priority < length s"
  by (simp add: scheduler_ok_def)

lemma new_scheduler_ok [simp]: "scheduler_ok new_scheduler"
  by (simp add: scheduler_ok_def new_scheduler_def)

lemma drop_first_length [simp]: "length (snd (drop_first p priority s)) = length s"
  by (simp add: drop_first_def Let_def)

lemma make_room_length [simp]: "length (snd (make_room policy key priority s)) = length s"
  by (simp add: make_room_def dropOldest_def dropStaleNonKeyFrame_def split: drop_policy.split)

lemma push_back_length [simp]: "length (push_back priority packet s) = length s"
  by (simp add: push_back_def Let_def)

lemma enqueue_length [simp]: "length (snd (enqueue packet options s)) = length s"
  by (simp add: enqueue_def Let_def split_beta)

lemma nextPacket_length [simp]: "length (snd (nextPacket s)) = length s"
  by (induction s rule: nextPacket.induct) (simp_all add: split_beta)

lemma takePacket_length [simp]: "length (snd (takePacket packet s)) = length s"
  by (simp add: takePacket_def Let_def split: option.split)

lemma drain_length [simp]: "length (drain key s) = length s"
  by (simp add: drain_def)

datatype scheduler_op =
  Enqueue packet_envelope send_options | Next | Take packet_envelope | Drain channel_key

fun scheduler_step :: "scheduler_op \<Rightarrow> scheduler \<Rightarrow> scheduler" where
  "scheduler_step (Enqueue packet options) s = snd (enqueue packet options s)"
| "scheduler_step Next s = snd (nextPacket s)"
| "scheduler_step (Take packet) s = snd (takePacket packet s)"
| "scheduler_step (Drain key) s = drain key s"

lemma scheduler_step_ok: "scheduler_ok s \<Longrightarrow> scheduler_ok (scheduler_step op s)"
  by (cases op) (simp_all add: scheduler_ok_def)

interpretation sched: kept_by_steps scheduler_step scheduler_ok
  by unfold_locales (rule scheduler_step_ok)

section \<open>The queues as one send order\<close>

text \<open>
  The concatenation of the queues is the order in which packets leave: \<open>nextPacket\<close> takes
  its head, and \<open>push_back\<close> inserts behind everything of the same or a higher priority.
\<close>

lemma queuedTotal_concat: "queuedTotal s = length (concat s)"
  by (induction s) auto

lemma queuedCount_concat: "queuedCount s key = length (filter (\<lambda>p. packet_key p = key) (concat s))"
  by (induction s) auto

lemma nextPacket_concat:
  "nextPacket s = (None, s) \<and> concat s = [] \<or>
   (\<exists>packet. fst (nextPacket s) = Some packet \<and> concat s = packet # concat (snd (nextPacket s)))"
  by (induction s rule: nextPacket.induct) (auto simp: split_beta)

fun send_order :: "nat \<Rightarrow> scheduler \<Rightarrow> packet_envelope list" where
  "send_order 0 s = []"
| "send_order (Suc n) s =
     (case nextPacket s of
        (None, _) \<Rightarrow> []
      | (Some packet, s') \<Rightarrow> packet # send_order n s')"

lemma send_order_concat: "send_order n s = take n (concat s)"
proof (induction n arbitrary: s)
  case (Suc n)
  then show ?case
    using nextPacket_concat [of s] by (cases "nextPacket s") (auto split: option.splits)
qed simp

lemma concat_push_back:
  assumes "scheduler_ok s"
  shows "concat (push_back priority packet s) =
    concat (take (Suc (priorityIndex priority)) s) @
    packet # concat (drop (Suc (priorityIndex priority)) s)"
  using priorityIndex_in [OF assms, of priority]
  by (simp add: push_back_def Let_def upd_conv_take_nth_drop take_Suc_conv_app_nth)

lemma mset_concat_update:
  "i < length s \<Longrightarrow> mset (concat (s[i := q])) + mset (s ! i) = mset (concat s) + mset q"
proof (induction s arbitrary: i)
  case (Cons a s)
  then show ?case by (cases i) (auto simp: ac_simps)
qed simp

lemma drop_first_contents:
  assumes "scheduler_ok s" and "drop_first p priority s = (True, s')"
  obtains x where "mset (concat s) = add_mset x (mset (concat s'))" and "p x"
    and "x \<in> set (s ! priorityIndex priority)"
proof -
  let ?i = "priorityIndex priority"
  obtain x where x: "find p (s ! ?i) = Some x" and s': "s' = s[?i := erase_first p (s ! ?i)]"
    using assms(2) by (auto simp: drop_first_def Let_def split: if_splits)
  have "mset (concat s') + mset (s ! ?i) = mset (concat s) + mset (erase_first p (s ! ?i))"
    unfolding s' by (rule mset_concat_update) (use assms(1) in \<open>rule priorityIndex_in\<close>)
  then have "mset (concat s) = add_mset x (mset (concat s'))"
    unfolding mset_erase_first [OF x] by simp
  then show ?thesis using that find_Some_holds [OF x] by blast
qed

text \<open>What \<open>make_room\<close> gives up: one packet of the same channel, and never a key frame under
  the policy that keeps them.\<close>

lemma make_room_contents:
  assumes "scheduler_ok s" and "make_room policy key priority s = (True, s')"
  obtains x where "mset (concat s) = add_mset x (mset (concat s'))" and "packet_key x = key"
    and "policy = DP_KeepLatestNonKeyFrame \<Longrightarrow> \<not> scheduler_hasFlag (pk_flags x) PacketFlagKeyFrame"
    and "policy \<in> {DP_DropOldest, DP_KeepLatestNonKeyFrame}"
proof (cases policy)
  case DP_DropOldest
  with assms have "drop_first (\<lambda>packet. packet_key packet = key) priority s = (True, s')"
    by (simp add: make_room_def dropOldest_def)
  with assms(1) show ?thesis by (rule drop_first_contents) (use that DP_DropOldest in simp)
next
  case DP_KeepLatestNonKeyFrame
  with assms have "drop_first (\<lambda>packet. packet_key packet = key \<and>
      \<not> scheduler_hasFlag (pk_flags packet) PacketFlagKeyFrame) priority s = (True, s')"
    by (simp add: make_room_def dropStaleNonKeyFrame_def)
  with assms(1) show ?thesis
    by (rule drop_first_contents) (use that DP_KeepLatestNonKeyFrame in simp)
qed (use assms in \<open>simp_all add: make_room_def\<close>)

lemma make_room_refused: "fst (make_room policy key priority s) = False \<Longrightarrow>
    snd (make_room policy key priority s) = s"
  by (auto simp: make_room_def dropOldest_def dropStaleNonKeyFrame_def drop_first_def Let_def
      split: drop_policy.splits if_splits)

lemma push_back_contents:
  assumes "scheduler_ok s"
  shows "mset (concat (push_back priority packet s)) = add_mset packet (mset (concat s))"
proof -
  have "priorityIndex priority < length s" using assms by (rule priorityIndex_in)
  from mset_concat_update [OF this, of "s ! priorityIndex priority @ [packet]"]
  show ?thesis by (simp add: push_back_def Let_def)
qed

section \<open>enqueue\<close>

text \<open>The outcome by cases: refused with the queues unchanged, queued at once, or queued after
  one packet of the same channel was given up.\<close>

definition at_limit :: "packet_envelope \<Rightarrow> send_options \<Rightarrow> scheduler \<Rightarrow> bool" where
  "at_limit packet options s \<longleftrightarrow> so_maxQueueDepth options > 0 \<and>
     queuedCount s (packet_key packet) \<ge> so_maxQueueDepth options"

lemma enqueue_outcome:
  assumes "scheduler_ok s"
  obtains (refused) "er_status (fst (enqueue packet options s)) \<noteq> EQ_Queued"
      "snd (enqueue packet options s) = s" "at_limit packet options s"
  | (room) "er_status (fst (enqueue packet options s)) = EQ_Queued" "\<not> at_limit packet options s"
      "er_droppedPackets (fst (enqueue packet options s)) = 0"
      "snd (enqueue packet options s) = push_back (so_priority options) packet s"
  | (replaced) s1 where "er_status (fst (enqueue packet options s)) = EQ_Queued"
      "at_limit packet options s"
      "er_droppedPackets (fst (enqueue packet options s)) = 1"
      "make_room (so_dropPolicy options) (packet_key packet) (so_priority options) s = (True, s1)"
      "snd (enqueue packet options s) = push_back (so_priority options) packet s1"
proof (cases "at_limit packet options s")
  case False
  then show ?thesis
    using room by (auto simp: enqueue_def at_limit_def Let_def)
next
  case True
  note full = True
  let ?room = "make_room (so_dropPolicy options) (packet_key packet) (so_priority options) s"
  show ?thesis
  proof (cases "so_dropPolicy options = DP_DropNewest \<or> \<not> fst ?room")
    case True
    then show ?thesis
      using full refused make_room_refused
      by (auto simp: enqueue_def at_limit_def Let_def split_beta)
  next
    case False
    then show ?thesis
      using full replaced [of "snd ?room"]
      by (auto simp: enqueue_def at_limit_def Let_def split_beta prod_eq_iff)
  qed
qed

definition channel_share :: "channel_key \<Rightarrow> packet_envelope multiset \<Rightarrow> nat" where
  "channel_share key contents = size (filter_mset (\<lambda>p. packet_key p = key) contents)"

lemma queuedCount_share: "queuedCount s key = channel_share key (mset (concat s))"
  unfolding queuedCount_concat channel_share_def by (metis mset_filter size_mset)

lemma channel_share_add [simp]:
  "channel_share key (add_mset p contents) =
     (if packet_key p = key then Suc (channel_share key contents) else channel_share key contents)"
  by (simp add: channel_share_def)

lemma enqueue_contents:
  assumes "scheduler_ok s" and "er_status (fst (enqueue packet options s)) = EQ_Queued"
  shows "\<exists>lost. size lost = er_droppedPackets (fst (enqueue packet options s)) \<and>
    mset (concat (snd (enqueue packet options s))) + lost = add_mset packet (mset (concat s)) \<and>
    (\<forall>x \<in># lost. packet_key x = packet_key packet \<and>
       (so_dropPolicy options = DP_KeepLatestNonKeyFrame \<longrightarrow>
          \<not> scheduler_hasFlag (pk_flags x) PacketFlagKeyFrame))"
  using assms(1)
proof (cases rule: enqueue_outcome [where packet = packet and options = options])
  case room
  then show ?thesis using assms(1) by (simp add: push_back_contents)
next
  case (replaced s1)
  have s1: "scheduler_ok s1"
    using assms(1) make_room_length [of "so_dropPolicy options" "packet_key packet"
        "so_priority options" s] replaced(4) by (simp add: scheduler_ok_def)
  obtain x where x: "mset (concat s) = add_mset x (mset (concat s1))"
    "packet_key x = packet_key packet" "so_dropPolicy options = DP_KeepLatestNonKeyFrame \<Longrightarrow>
       \<not> scheduler_hasFlag (pk_flags x) PacketFlagKeyFrame"
    using make_room_contents [OF assms(1) replaced(4)] by blast
  show ?thesis
    by (rule exI [of _ "{#x#}"]) (use x replaced s1 in \<open>simp add: push_back_contents\<close>)
qed (use assms in simp)

lemma enqueue_count_bound:
  assumes "scheduler_ok s" and "0 < so_maxQueueDepth options"
    and "queuedCount s (packet_key packet) \<le> so_maxQueueDepth options"
  shows "queuedCount (snd (enqueue packet options s)) (packet_key packet) \<le> so_maxQueueDepth options"
  using assms(1)
proof (cases rule: enqueue_outcome [where packet = packet and options = options])
  case room
  then show ?thesis
    using assms by (simp add: queuedCount_share push_back_contents at_limit_def)
next
  case (replaced s1)
  have s1: "scheduler_ok s1"
    using assms(1) make_room_length [of "so_dropPolicy options" "packet_key packet"
        "so_priority options" s] replaced(4) by (simp add: scheduler_ok_def)
  obtain x where "mset (concat s) = add_mset x (mset (concat s1))"
    "packet_key x = packet_key packet"
    using make_room_contents [OF assms(1) replaced(4)] by blast
  then show ?thesis
    using assms replaced s1 by (simp add: queuedCount_share push_back_contents)
qed (use assms in simp)

section \<open>Runs of the scheduler\<close>

text \<open>What a run of operations hands out, and what was offered to it.\<close>

fun handed_out :: "scheduler_op list \<Rightarrow> scheduler \<Rightarrow> packet_envelope list" where
  "handed_out [] s = []"
| "handed_out (op # ops) s =
     (case op of
        Next \<Rightarrow> (case fst (nextPacket s) of None \<Rightarrow> [] | Some p \<Rightarrow> [p])
      | Take packet \<Rightarrow> (case fst (takePacket packet s) of None \<Rightarrow> [] | Some p \<Rightarrow> [p])
      | _ \<Rightarrow> []) @ handed_out ops (scheduler_step op s)"

fun offered :: "scheduler_op list \<Rightarrow> packet_envelope list" where
  "offered [] = []"
| "offered (Enqueue packet options # ops) = packet # offered ops"
| "offered (_ # ops) = offered ops"

lemma takePacket_contents:
  assumes "scheduler_ok s" and "fst (takePacket packet s) = Some found"
  shows "mset (concat s) = add_mset found (mset (concat (snd (takePacket packet s))))"
proof -
  let ?i = "priorityIndex (pk_priority packet)"
  have found: "find (same_packet packet) (s ! ?i) = Some found"
    and after: "snd (takePacket packet s) = s[?i := erase_first (same_packet packet) (s ! ?i)]"
    using assms(2) by (auto simp: takePacket_def Let_def split: option.splits)
  have "?i < length s" using assms(1) by (rule priorityIndex_in)
  from mset_concat_update [OF this, of "erase_first (same_packet packet) (s ! ?i)"]
  show ?thesis by (simp add: after mset_erase_first [OF found])
qed

lemma takePacket_misses: "fst (takePacket packet s) = None \<Longrightarrow> snd (takePacket packet s) = s"
  by (auto simp: takePacket_def Let_def split: option.splits)

lemma drain_contents: "mset (concat (drain key s)) \<subseteq># mset (concat s)"
  by (induction s) (auto simp: drain_def intro: mset_subset_eq_mono_add multiset_filter_subset)

lemma enqueue_no_more:
  assumes "scheduler_ok s"
  shows "mset (concat (snd (enqueue packet options s))) \<subseteq># add_mset packet (mset (concat s))"
proof (cases "er_status (fst (enqueue packet options s)) = EQ_Queued")
  case True
  from enqueue_contents [OF assms True] show ?thesis by (metis mset_subset_eq_add_left)
next
  case False
  with assms have "snd (enqueue packet options s) = s"
    by (cases rule: enqueue_outcome [where packet = packet and options = options]) simp_all
  then show ?thesis by simp
qed

lemma run_no_more:
  "scheduler_ok s \<Longrightarrow>
   mset (handed_out ops s) + mset (concat (fold scheduler_step ops s)) \<subseteq>#
     mset (concat s) + mset (offered ops)"
proof (induction ops arbitrary: s)
  case (Cons op ops)
  let ?now = "handed_out [op] s" and ?s = "scheduler_step op s"
  have ok: "scheduler_ok ?s" using Cons.prems by (rule scheduler_step_ok)
  have now: "mset ?now + mset (concat ?s) \<subseteq># mset (concat s) + mset (offered [op])"
  proof (cases op)
    case (Enqueue packet options)
    then show ?thesis using enqueue_no_more [OF Cons.prems, of packet options] by simp
  next
    case Next
    then show ?thesis using nextPacket_concat [of s] by (auto split: option.splits)
  next
    case (Take packet)
    then show ?thesis
      using takePacket_contents [OF Cons.prems, of packet] takePacket_misses [of packet s]
      by (auto split: option.splits)
  next
    case (Drain key)
    then show ?thesis using drain_contents by simp
  qed
  have "mset (handed_out (op # ops) s) + mset (concat (fold scheduler_step (op # ops) s)) =
      mset ?now + (mset (handed_out ops ?s) + mset (concat (fold scheduler_step ops ?s)))"
    by (simp add: ac_simps)
  also have "\<dots> \<subseteq># mset ?now + (mset (concat ?s) + mset (offered ops))"
    using Cons.IH [OF ok] by (rule subset_mset.add_left_mono)
  also have "\<dots> = (mset ?now + mset (concat ?s)) + mset (offered ops)" by (simp add: ac_simps)
  also have "\<dots> \<subseteq># mset (concat s) + mset (offered [op]) + mset (offered ops)"
    using now by (rule subset_mset.add_right_mono)
  also have "\<dots> = mset (concat s) + mset (offered (op # ops))"
    by (cases op) simp_all
  finally show ?case .
qed simp

text \<open>
  What an operation gives up: a packet \<open>enqueue\<close> refuses, one it drops to make room, and what
  \<open>drain\<close> throws away.
\<close>

fun given_up :: "scheduler_op \<Rightarrow> scheduler \<Rightarrow> nat" where
  "given_up (Enqueue packet options) s =
     (let result = fst (enqueue packet options s)
      in if er_status result = EQ_Queued then er_droppedPackets result else 1)"
| "given_up (Drain key) s = queuedCount s key"
| "given_up _ s = 0"

lemma drain_count: "queuedTotal (drain key s) + queuedCount s key = queuedTotal s"
  unfolding queuedTotal_concat queuedCount_concat
proof (induction s)
  case (Cons q s)
  then show ?case
    using sum_length_filter_compl [of "\<lambda>p. packet_key p = key" q] by (simp add: drain_def)
qed (simp add: drain_def)

lemma scheduler_step_account:
  assumes "scheduler_ok s"
  shows "length (handed_out [op] s) + given_up op s + queuedTotal (scheduler_step op s) =
    queuedTotal s + length (offered [op])"
proof (cases op)
  case (Enqueue packet options)
  from assms show ?thesis
  proof (cases rule: enqueue_outcome [where packet = packet and options = options])
    case refused
    then show ?thesis using Enqueue by (simp add: Let_def)
  next
    case room
    then show ?thesis
      using Enqueue assms arg_cong [OF push_back_contents [OF assms], of size]
      by (simp add: queuedTotal_concat flip: size_mset)
  next
    case (replaced s1)
    obtain lost where lost: "size lost = 1"
      "mset (concat (snd (enqueue packet options s))) + lost = add_mset packet (mset (concat s))"
      using enqueue_contents [OF assms replaced(1)] replaced(3) by auto
    have "length (concat (snd (enqueue packet options s))) + 1 = length (concat s) + 1"
      using arg_cong [OF lost(2), of size] lost(1) by simp
    then show ?thesis using Enqueue replaced(1,3) by (simp add: queuedTotal_concat Let_def)
  qed
next
  case Next
  then show ?thesis
    using nextPacket_concat [of s] by (auto simp: queuedTotal_concat split: option.splits)
next
  case (Take packet)
  show ?thesis
  proof (cases "fst (takePacket packet s)")
    case None
    then show ?thesis using Take takePacket_misses [OF None] by simp
  next
    case (Some found)
    from arg_cong [OF takePacket_contents [OF assms Some], of size] show ?thesis
      using Take Some by (simp add: queuedTotal_concat)
  qed
next
  case (Drain key)
  then show ?thesis using drain_count [of key s] by simp
qed

lemma length_handed_out:
  "length (handed_out ops s) = run_total (\<lambda>op s. length (handed_out [op] s)) scheduler_step ops s"
  by (induction ops arbitrary: s) simp_all

lemma length_offered: "length (offered ops) = run_total (\<lambda>op s. length (offered [op])) step ops s"
proof (induction ops arbitrary: s)
  case (Cons op ops)
  then show ?case by (cases op) auto
qed simp

lemma run_total_add: "run_total (\<lambda>op s. f op s + g op s) step ops s = run_total f step ops s + run_total g step ops s"
  by (induction ops arbitrary: s) simp_all

lemma scheduler_run_account:
  assumes "scheduler_ok s"
  shows "length (handed_out ops s) + run_total given_up scheduler_step ops s +
      queuedTotal (fold scheduler_step ops s) = queuedTotal s + length (offered ops)"
proof -
  have "run_total (\<lambda>op s. length (handed_out [op] s) + given_up op s) scheduler_step ops s +
      queuedTotal (fold scheduler_step ops s) =
    queuedTotal s + run_total (\<lambda>op s. length (offered [op])) scheduler_step ops s"
    by (rule sched.run_account [OF scheduler_step_account assms])
  then show ?thesis
    by (simp only: run_total_add length_handed_out [symmetric] length_offered [symmetric])
qed

section \<open>Lossless runs\<close>

type_synonym send_item = "packet_envelope \<times> send_options"

definition item_index :: "send_item \<Rightarrow> nat" where
  "item_index item = priorityIndex (so_priority (snd item))"

definition enqueue_item :: "send_item \<Rightarrow> scheduler \<Rightarrow> scheduler" where
  "enqueue_item item s = snd (enqueue (fst item) (snd item) s)"

text \<open>Every packet of the run was queued and cost no other packet its place.\<close>

fun lossless :: "send_item list \<Rightarrow> scheduler \<Rightarrow> bool" where
  "lossless [] s = True"
| "lossless (item # items) s =
     (er_status (fst (enqueue (fst item) (snd item) s)) = EQ_Queued \<and>
      er_droppedPackets (fst (enqueue (fst item) (snd item) s)) = 0 \<and>
      lossless items (enqueue_item item s))"

definition queues_of :: "send_item list \<Rightarrow> scheduler" where
  "queues_of items = map (\<lambda>i. map fst (filter (\<lambda>item. item_index item = i) items)) [0..<kPriorityCount]"

lemma queues_of_ok: "scheduler_ok (queues_of items)"
  by (simp add: queues_of_def scheduler_ok_def)

lemma queues_of_Nil: "queues_of [] = new_scheduler"
  by (simp add: queues_of_def new_scheduler_def map_replicate_trivial [symmetric]
      flip: map_replicate_const)

lemma push_back_queues_of:
  "push_back (so_priority options) packet (queues_of items) = queues_of (items @ [(packet, options)])"
proof (rule nth_equalityI)
  fix i
  assume "i < length (push_back (so_priority options) packet (queues_of items))"
  then have "i < kPriorityCount" by (simp add: queues_of_def)
  then show "push_back (so_priority options) packet (queues_of items) ! i =
      queues_of (items @ [(packet, options)]) ! i"
    by (simp add: push_back_def queues_of_def item_index_def Let_def nth_list_update)
qed (simp add: queues_of_def)

lemma lossless_queues:
  "lossless items (queues_of sent) \<Longrightarrow> fold enqueue_item items (queues_of sent) = queues_of (sent @ items)"
proof (induction items arbitrary: sent)
  case (Cons item items)
  from queues_of_ok [of sent] have "enqueue_item item (queues_of sent) = queues_of (sent @ [item])"
    using Cons.prems
    by (cases rule: enqueue_outcome [where packet = "fst item" and options = "snd item"])
      (simp_all add: enqueue_item_def push_back_queues_of)
  with Cons show ?case by simp
qed simp

lemma concat_filter_index:
  "filter (\<lambda>x. f x = k) (concat (map (\<lambda>i. filter (\<lambda>x. f x = i) xs) [0..<n])) =
     (if k < n then filter (\<lambda>x. f x = k) xs else [])"
  by (induction n) (auto simp: filter_empty_conv intro!: filter_cong)

lemma sorted_by_index: "sorted (map f (concat (map (\<lambda>i. filter (\<lambda>x. f x = i) xs) [0..<n])))"
proof (induction n)
  case (Suc n)
  then show ?case using sorted_map_same [of f "\<lambda>_. n" xs] by (auto simp: sorted_append)
qed simp

lemma mset_by_index:
  assumes "\<forall>x \<in> set xs. f x < n"
  shows "mset (concat (map (\<lambda>i. filter (\<lambda>x. f x = i) xs) [0..<n])) = mset xs"
proof -
  have "mset (concat (map (\<lambda>i. filter (\<lambda>x. f x = i) xs) [0..<n])) = mset (filter (\<lambda>x. f x < n) xs)"
  proof (induction n)
    case (Suc n)
    have "mset (filter (\<lambda>x. f x < Suc n) xs) =
        mset (filter (\<lambda>x. f x < n) xs) + mset (filter (\<lambda>x. f x = n) xs)"
      by (induction xs) auto
    with Suc show ?case by simp
  qed simp
  then show ?thesis using assms by (simp add: filter_id_conv)
qed

lemma concat_queues_of: "concat (queues_of items) = map fst (sort_key item_index items)"
proof -
  let ?by_index = "concat (map (\<lambda>i. filter (\<lambda>item. item_index item = i) items) [0..<kPriorityCount])"
  have bound: "\<forall>item \<in> set items. item_index item < kPriorityCount"
    by (simp add: item_index_def)
  have "sort_key item_index items = ?by_index"
  proof (rule properties_for_sort_key)
    show "mset ?by_index = mset items" using bound by (rule mset_by_index)
    show "filter (\<lambda>x. item_index k = item_index x) ?by_index =
        filter (\<lambda>x. item_index k = item_index x) items" if "k \<in> set ?by_index" for k
      using concat_filter_index [of item_index "item_index k" items kPriorityCount] bound
      by (simp add: eq_commute [of "item_index k"]) (simp add: item_index_def)
  qed (rule sorted_by_index)
  then show ?thesis by (simp add: queues_of_def map_concat comp_def)
qed

section \<open>The depth limit\<close>

text \<open>Every packet sent on a channel is sent with a depth limit of at most \<open>d\<close>.\<close>

fun limited :: "channel_key \<Rightarrow> nat \<Rightarrow> scheduler_op \<Rightarrow> bool" where
  "limited key d (Enqueue packet options) \<longleftrightarrow> packet_key packet \<noteq> key \<or>
     0 < so_maxQueueDepth options \<and> so_maxQueueDepth options \<le> d"
| "limited key d _ \<longleftrightarrow> True"

lemma channel_share_mono: "a \<subseteq># b \<Longrightarrow> channel_share key a \<le> channel_share key b"
  unfolding channel_share_def by (intro size_mset_mono multiset_filter_mono)

lemma enqueue_other_channel:
  assumes "scheduler_ok s" and "packet_key packet \<noteq> key"
  shows "queuedCount (snd (enqueue packet options s)) key \<le> queuedCount s key"
  using channel_share_mono [OF enqueue_no_more [OF assms(1), of packet options], of key] assms(2)
  by (simp add: queuedCount_share)

lemma enqueue_full_unchanged:
  assumes "scheduler_ok s" and "0 < so_maxQueueDepth options"
    and "so_maxQueueDepth options \<le> queuedCount s (packet_key packet)"
  shows "queuedCount (snd (enqueue packet options s)) (packet_key packet) \<le>
    queuedCount s (packet_key packet)"
  using assms(1)
proof (cases rule: enqueue_outcome [where packet = packet and options = options])
  case room
  then show ?thesis using assms by (simp add: at_limit_def)
next
  case (replaced s1)
  have s1: "scheduler_ok s1"
    using assms(1) make_room_length [of "so_dropPolicy options" "packet_key packet"
        "so_priority options" s] replaced(4) by (simp add: scheduler_ok_def)
  obtain x where "mset (concat s) = add_mset x (mset (concat s1))" "packet_key x = packet_key packet"
    using make_room_contents [OF assms(1) replaced(4)] by blast
  then show ?thesis using replaced s1 by (simp add: queuedCount_share push_back_contents)
qed simp

lemma limited_step:
  assumes "scheduler_ok s" and "queuedCount s key \<le> d" and "limited key d op"
  shows "queuedCount (scheduler_step op s) key \<le> d"
proof (cases op)
  case (Enqueue packet options)
  show ?thesis
  proof (cases "packet_key packet = key")
    case True
    then show ?thesis
      using assms Enqueue enqueue_count_bound [OF assms(1), of options packet]
        enqueue_full_unchanged [OF assms(1), of options packet]
      by (cases "queuedCount s key \<le> so_maxQueueDepth options") auto
  next
    case False
    then show ?thesis
      using enqueue_other_channel [OF assms(1), of packet key options] assms(2) Enqueue by simp
  qed
next
  case Next
  then show ?thesis
    using nextPacket_concat [of s] assms(2) by (auto simp: queuedCount_concat split: if_splits)
next
  case (Take packet)
  then show ?thesis
    using takePacket_contents [OF assms(1), of packet] takePacket_misses [of packet s] assms(2)
    by (cases "fst (takePacket packet s)") (auto simp: queuedCount_share split: if_splits)
next
  case (Drain k)
  have "channel_share key (mset (concat (drain k s))) \<le> channel_share key (mset (concat s))"
    by (rule channel_share_mono) (rule drain_contents)
  then show ?thesis using assms(2) Drain by (simp add: queuedCount_share)
qed

section \<open>Properties\<close>

text \<open>
  C5. The scheduler is a stable priority queue: after any run of \<open>enqueue\<close> calls that all
  succeed without a drop, the packets leave in the order of a stable sort of the run by the
  priority they were sent with, so by priority first and by arrival among equals.
\<close>

theorem sends_by_priority_then_arrival:
  assumes "lossless items new_scheduler"
  shows "send_order n (fold enqueue_item items new_scheduler) =
    take n (map fst (sort_key item_index items))"
  using lossless_queues [of items "[]"] assms
  by (simp add: queues_of_Nil send_order_concat concat_queues_of)

lemma unlimited_lossless:
  "list_all (\<lambda>item. so_maxQueueDepth (snd item) = 0) items \<Longrightarrow> lossless items s"
  by (induction items arbitrary: s) (simp_all add: enqueue_def Let_def)

definition unlimited_options :: send_options where
  "unlimited_options = default_send_options\<lparr>so_maxQueueDepth := 0\<rparr>"

definition sample_items :: "send_item list" where
  "sample_items =
     [(default_packet\<lparr>pk_sequence := 1\<rparr>, unlimited_options\<lparr>so_priority := PP_Bulk\<rparr>),
      (default_packet\<lparr>pk_sequence := 2\<rparr>, unlimited_options),
      (default_packet\<lparr>pk_sequence := 3\<rparr>, unlimited_options\<lparr>so_priority := PP_Critical\<rparr>),
      (default_packet\<lparr>pk_sequence := 4\<rparr>, unlimited_options)]"

theorem sends_by_priority_then_arrival_witness:
  "map pk_sequence (send_order 9 (fold enqueue_item sample_items new_scheduler)) = [3, 2, 4, 1]"
proof -
  have "lossless sample_items new_scheduler"
    by (rule unlimited_lossless) (simp add: sample_items_def unlimited_options_def)
  from sends_by_priority_then_arrival [OF this, of 9] show ?thesis
    by (simp add: sample_items_def item_index_def priorityIndex_def kPriorityCount_def
        unlimited_options_def default_send_options_def default_packet_def)
qed

text \<open>
  C35. No packet is lost silently, invented or duplicated: over any run of operations on a new
  scheduler, the packets handed out by \<open>nextPacket\<close> and \<open>takePacket\<close> and those still queued are
  among the packets offered to \<open>enqueue\<close>, each counted as often as it was offered, and the others
  are exactly as many as were refused, reported dropped, or drained with their channel.
\<close>

theorem packets_are_conserved:
  "mset (handed_out ops new_scheduler) + mset (concat (fold scheduler_step ops new_scheduler)) \<subseteq>#
     mset (offered ops) \<and>
   length (handed_out ops new_scheduler) + queuedTotal (fold scheduler_step ops new_scheduler) +
     run_total given_up scheduler_step ops new_scheduler = length (offered ops)"
proof -
  have new: "mset (concat new_scheduler) = {#}" "queuedTotal new_scheduler = 0"
    by (simp_all add: new_scheduler_def queuedTotal_concat)
  show ?thesis
    using run_no_more [OF new_scheduler_ok, of ops] scheduler_run_account [OF new_scheduler_ok, of ops]
    unfolding new by (simp only: add_0 ac_simps)
qed

text \<open>
  What a call of \<open>enqueue\<close> does to the queued packets: a packet that is not accepted changes
  nothing, and that only happens at the channel's depth limit; an accepted one is added, at the
  cost of at most one other packet (as many as reported dropped), which is of the same channel
  and no key frame under the policy that keeps key frames.
\<close>

theorem enqueue_accounting:
  assumes "scheduler_ok s"
  shows "if er_status (fst (enqueue packet options s)) = EQ_Queued
    then \<exists>lost. size lost = er_droppedPackets (fst (enqueue packet options s)) \<and>
      size lost \<le> 1 \<and>
      mset (concat (snd (enqueue packet options s))) + lost = add_mset packet (mset (concat s)) \<and>
      (\<forall>x \<in># lost. packet_key x = packet_key packet \<and>
         (so_dropPolicy options = DP_KeepLatestNonKeyFrame \<longrightarrow>
            \<not> scheduler_hasFlag (pk_flags x) PacketFlagKeyFrame))
    else snd (enqueue packet options s) = s \<and>
      so_maxQueueDepth options \<le> queuedCount s (packet_key packet)"
proof (cases "er_status (fst (enqueue packet options s)) = EQ_Queued")
  case True
  from assms True have "er_droppedPackets (fst (enqueue packet options s)) \<le> 1"
    by (cases rule: enqueue_outcome [where packet = packet and options = options]) simp_all
  with enqueue_contents [OF assms True] True show ?thesis by auto
next
  case False
  from assms False show ?thesis
    by (cases rule: enqueue_outcome [where packet = packet and options = options])
      (simp_all add: at_limit_def)
qed

theorem enqueue_accounting_witness:
  "snd (enqueue default_packet (default_send_options\<lparr>so_maxQueueDepth := 1\<rparr>)
     [[], [], [], [default_packet], [], []]) = [[], [], [], [default_packet], [], []]"
proof -
  have "er_status (fst (enqueue default_packet (default_send_options\<lparr>so_maxQueueDepth := 1\<rparr>)
     [[], [], [], [default_packet], [], []])) \<noteq> EQ_Queued"
    by (simp add: enqueue_def make_room_def default_send_options_def)
  then show ?thesis
    using enqueue_accounting [of "[[], [], [], [default_packet], [], []]" default_packet
        "default_send_options\<lparr>so_maxQueueDepth := 1\<rparr>"]
    by (simp add: scheduler_ok_def kPriorityCount_def)
qed

text \<open>
  The depth limit holds over every run: if every packet sent on a channel carries a limit
  between 1 and \<open>d\<close>, no sequence of operations, on this and on other channels, ever leaves more
  than \<open>d\<close> packets of that channel queued.
\<close>

theorem depth_limit_holds:
  assumes "list_all (limited key d) ops"
  shows "queuedCount (fold scheduler_step ops new_scheduler) key \<le> d"
proof -
  have "scheduler_ok s \<and> queuedCount s key \<le> d \<Longrightarrow> list_all (limited key d) ops \<Longrightarrow>
      queuedCount (fold scheduler_step ops s) key \<le> d" for s
    by (induction ops arbitrary: s) (simp_all add: scheduler_step_ok limited_step)
  moreover have "queuedCount new_scheduler key = 0"
    by (simp add: queuedCount_concat new_scheduler_def)
  ultimately show ?thesis using assms by simp
qed

theorem depth_limit_holds_witness:
  "queuedCount (fold scheduler_step
     (replicate 3 (Enqueue default_packet (default_send_options\<lparr>so_maxQueueDepth := 2\<rparr>)))
     new_scheduler) (packet_key default_packet) \<le> 2"
  by (rule depth_limit_holds) (simp add: eval_nat_numeral)

end
