(* ===== verification/Channel_Defaults.thy ===== *)
theory Channel_Defaults
  imports Channel_Registry Priority_Scheduler Protocol_Validator
begin

text \<open>
  \<open>src/core/network/channel_defaults.cpp\<close>: the channel specifications of the minimal product
  and the queueing options by packet type.
\<close>

definition makeControlSpec :: channel_spec where
  "makeControlSpec = default_spec\<lparr>
     sp_key := ChannelKey CID_UserAuthMain CT_Control,
     sp_name := ''control'',
     sp_socketClass := SC_Control,
     sp_defaultPriority := PP_Critical,
     sp_reliability := RM_Reliable,
     sp_ordering := OM_Ordered,
     sp_flowControl := FC_Pressure,
     sp_queuePolicy := QP_Bounded,
     sp_allowlist := [PT_ChannelInit, PT_Heartbeat, PT_Login, PT_Control, PT_Exchange,
                      PT_CheckLicense],
     sp_ownerModuleId := ''network.control'',
     sp_required := True\<rparr>"

definition makeSmallDataSpec :: channel_spec where
  "makeSmallDataSpec = default_spec\<lparr>
     sp_key := ChannelKey CID_SmallData CT_Standard,
     sp_name := ''small_data'',
     sp_socketClass := SC_Auxiliary,
     sp_defaultPriority := PP_Normal,
     sp_reliability := RM_Reliable,
     sp_ordering := OM_Ordered,
     sp_flowControl := FC_Pressure,
     sp_queuePolicy := QP_Bounded,
     sp_allowlist := [PT_PayloadAck, PT_Mouse, PT_Keyboard, PT_Touchscreen, PT_Gamepad,
                      PT_Clipboard, PT_FilesystemControl, PT_Printer, PT_Control],
     sp_ownerModuleId := ''network.small_data'',
     sp_required := True\<rparr>"

definition makeMainScreenSpec :: channel_spec where
  "makeMainScreenSpec = default_spec\<lparr>
     sp_key := ChannelKey CID_DesktopScreen CT_Video,
     sp_name := ''main_screen'',
     sp_socketClass := SC_Realtime,
     sp_defaultPriority := PP_Realtime,
     sp_reliability := RM_BestEffort,
     sp_ordering := OM_LatestOnly,
     sp_flowControl := FC_Pressure,
     sp_queuePolicy := QP_KeepLatest,
     sp_allowlist := [PT_Video, PT_PayloadAck, PT_CursorChange, PT_Watermark],
     sp_ownerModuleId := ''display.screen'',
     sp_required := True\<rparr>"

definition makeLargeDataSpec :: channel_spec where
  "makeLargeDataSpec = default_spec\<lparr>
     sp_key := ChannelKey CID_LargeData CT_Standard,
     sp_name := ''large_data'',
     sp_socketClass := SC_Bulk,
     sp_defaultPriority := PP_Normal,
     sp_reliability := RM_Reliable,
     sp_ordering := OM_Ordered,
     sp_flowControl := FC_Pressure,
     sp_queuePolicy := QP_Bounded,
     sp_allowlist := [PT_Filesystem, PT_FilesystemControl, PT_FilesystemIrp, PT_Printer,
                      PT_Clipboard],
     sp_ownerModuleId := ''redirection.large_data'',
     sp_required := False\<rparr>"

definition isBulkPacket :: "packet_type \<Rightarrow> bool" where
  "isBulkPacket packetType \<longleftrightarrow>
     packetType = PT_Filesystem \<or> packetType = PT_FilesystemIrp \<or> packetType = PT_Printer"

definition defaultMvpChannelSpecs :: "channel_spec list" where
  "defaultMvpChannelSpecs = [makeControlSpec, makeSmallDataSpec, makeMainScreenSpec]"

definition defaultLargeDataChannelSpec :: channel_spec where
  "defaultLargeDataChannelSpec = makeLargeDataSpec"

definition defaultSendOptions :: "packet_envelope \<Rightarrow> send_options" where
  "defaultSendOptions packet =
    (let options = default_send_options\<lparr>so_priority := pk_priority packet\<rparr>;
         t = pk_packetType packet
     in if t = PT_Heartbeat \<or> t = PT_ChannelInit \<or> t = PT_Exchange then
          options\<lparr>so_priority := PP_Critical, so_dropPolicy := DP_None, so_maxQueueDepth := 256\<rparr>
        else if t = PT_Video then
          options\<lparr>so_priority := PP_Realtime, so_dropPolicy := DP_KeepLatestNonKeyFrame,
            so_maxQueueDepth := 2\<rparr>
        else if t = PT_Clipboard \<and> pk_priority packet = PP_Bulk then
          options\<lparr>so_priority := PP_Bulk, so_dropPolicy := DP_None, so_maxQueueDepth := 512\<rparr>
        else if t = PT_PayloadAck \<or> t = PT_Mouse \<or> t = PT_Keyboard \<or> t = PT_Clipboard \<or>
            t = PT_Touchscreen \<or> t = PT_Gamepad then
          options\<lparr>so_priority := PP_Interactive, so_dropPolicy := DP_None,
            so_maxQueueDepth := 1024\<rparr>
        else if isBulkPacket t then
          options\<lparr>so_priority := PP_Bulk, so_dropPolicy := DP_None, so_maxQueueDepth := 512\<rparr>
        else
          options\<lparr>so_priority := PP_Normal, so_dropPolicy := DP_None, so_maxQueueDepth := 1024\<rparr>)"

section \<open>Lemmas\<close>

text \<open>The priority in the options does not depend on the packet's own priority, except for
  clipboard packets sent as bulk; every queue is bounded; only video may lose packets.\<close>

lemma defaultSendOptions_priority_update:
  "so_priority (defaultSendOptions (packet\<lparr>pk_priority := so_priority (defaultSendOptions packet)\<rparr>)) =
     so_priority (defaultSendOptions packet)"
  by (simp add: defaultSendOptions_def Let_def isBulkPacket_def)

lemma defaultSendOptions_bounded: "0 < so_maxQueueDepth (defaultSendOptions packet)"
  by (simp add: defaultSendOptions_def Let_def)

lemma defaultSendOptions_lossless:
  "pk_packetType packet \<noteq> PT_Video \<Longrightarrow> so_dropPolicy (defaultSendOptions packet) = DP_None"
  by (simp add: defaultSendOptions_def Let_def)

section \<open>Properties\<close>



text \<open>
  The default channel table is consistent: the channels have different keys, known ids and
  types, and every packet type on an allowlist is one the validator knows.
\<close>

theorem default_channels_consistent:
  "distinct (map sp_key (defaultLargeDataChannelSpec # defaultMvpChannelSpecs)) \<and>
   list_all (\<lambda>spec. isKnownChannelId (key_channelId (sp_key spec)) \<and>
      isKnownChannelType (key_channelType (sp_key spec)) \<and>
      list_all isKnownPacketType (sp_allowlist spec))
     (defaultLargeDataChannelSpec # defaultMvpChannelSpecs)"
  by (simp add: defaultMvpChannelSpecs_def defaultLargeDataChannelSpec_def makeControlSpec_def
      makeSmallDataSpec_def makeMainScreenSpec_def makeLargeDataSpec_def isKnownChannelId_def
      isKnownChannelType_def isKnownPacketType_def)

end
