(* ===== verification/Network_Manager.thy ===== *)
theory Network_Manager
  imports Channel_Defaults Network_Router
begin

text \<open>
  \<open>src/core/network/socket_group.cpp\<close> and \<open>src/core/network/network_manager.cpp\<close>: one
  transport socket per socket class, and the facade that owns the registry, the scheduler,
  the socket group and the router. Transport sockets, like channels, are references whose
  virtual methods act on a world.
\<close>

section \<open>Transport sockets\<close>

datatype socket_state = SK_Closed | SK_Open | SK_Failed

record socket_open_options =
  oo_socketClass :: socket_class
  oo_endpoint :: string

record ('s, 'w) socket_interface =
  sk_socketClass :: "'s \<Rightarrow> 'w \<Rightarrow> socket_class"
  sk_open :: "'s \<Rightarrow> socket_open_options \<Rightarrow> 'w \<Rightarrow> bool \<times> 'w"
  sk_close :: "'s \<Rightarrow> string \<Rightarrow> 'w \<Rightarrow> 'w"
  sk_write :: "'s \<Rightarrow> byte_buffer \<Rightarrow> 'w \<Rightarrow> send_result \<times> 'w"
  sk_state :: "'s \<Rightarrow> 'w \<Rightarrow> socket_state"

section \<open>SocketGroup\<close>

record socket_snapshot =
  ss_socketClass :: socket_class
  ss_state :: socket_state
  ss_message :: string

definition default_socket_snapshot :: socket_snapshot where
  "default_socket_snapshot =
     \<lparr>ss_socketClass = SC_Control, ss_state = SK_Closed, ss_message = []\<rparr>"

datatype socket_group_status =
  SG_Ok | SG_AlreadyRegistered | SG_NotFound | SG_InvalidArgument | SG_Failed

record socket_group_result =
  gr_ok :: bool
  gr_status :: socket_group_status
  gr_message :: string

definition group_success :: socket_group_result where
  "group_success = \<lparr>gr_ok = True, gr_status = SG_Ok, gr_message = []\<rparr>"

definition group_failed :: "socket_group_status \<Rightarrow> string \<Rightarrow> socket_group_result" where
  "group_failed status message = \<lparr>gr_ok = False, gr_status = status, gr_message = message\<rparr>"

record 's socket_entry =
  se_socket :: 's
  se_message :: string

type_synonym 's socket_group = "(socket_class, 's socket_entry) std_map"

definition registerSocket ::
    "('s, 'w) socket_interface \<Rightarrow> 'w \<Rightarrow> 's option \<Rightarrow> 's socket_group \<Rightarrow>
     socket_group_result \<times> 's socket_group" where
  "registerSocket iface w socket g =
    (case socket of
       None \<Rightarrow> (group_failed SG_InvalidArgument ''transport socket is required'', g)
     | Some s \<Rightarrow>
         let socketClass = sk_socketClass iface s w in
         if map_find g socketClass \<noteq> None then
           (group_failed SG_AlreadyRegistered ''transport socket class already registered'', g)
         else (group_success, map_put socketClass \<lparr>se_socket = s, se_message = []\<rparr> g))"

definition group_open ::
    "('s, 'w) socket_interface \<Rightarrow> socket_class \<Rightarrow> socket_open_options \<Rightarrow> 's socket_group \<Rightarrow> 'w \<Rightarrow>
     socket_group_result \<times> 's socket_group \<times> 'w" where
  "group_open iface socketClass options g w =
    (case map_find g socketClass of
       None \<Rightarrow> (group_failed SG_NotFound ''transport socket class not registered'', g, w)
     | Some entry \<Rightarrow>
         let (opened, w') = sk_open iface (se_socket entry) options w in
         if \<not> opened then
           (group_failed SG_Failed ''transport socket open failed'',
            map_put socketClass (entry\<lparr>se_message := ''transport socket open failed''\<rparr>) g, w')
         else (group_success, map_put socketClass (entry\<lparr>se_message := []\<rparr>) g, w'))"

definition group_close ::
    "('s, 'w) socket_interface \<Rightarrow> socket_class \<Rightarrow> string \<Rightarrow> 's socket_group \<Rightarrow> 'w \<Rightarrow>
     's socket_group \<times> 'w" where
  "group_close iface socketClass reason g w =
    (case map_find g socketClass of
       None \<Rightarrow> (g, w)
     | Some entry \<Rightarrow> (map_put socketClass (entry\<lparr>se_message := reason\<rparr>) g,
         sk_close iface (se_socket entry) reason w))"

definition group_write ::
    "('s, 'w) socket_interface \<Rightarrow> socket_class \<Rightarrow> byte_buffer \<Rightarrow> 's socket_group \<Rightarrow> 'w \<Rightarrow>
     socket_group_result \<times> 's socket_group \<times> 'w" where
  "group_write iface socketClass bytes g w =
    (case map_find g socketClass of
       None \<Rightarrow> (group_failed SG_NotFound ''transport socket class not registered'', g, w)
     | Some entry \<Rightarrow>
         let (result, w') = sk_write iface (se_socket entry) bytes w in
         if sr_status result \<noteq> SS_Sent then
           (group_failed SG_Failed (sr_message result),
            map_put socketClass (entry\<lparr>se_message := sr_message result\<rparr>) g, w')
         else (group_success, g, w'))"

definition group_socket :: "'s socket_group \<Rightarrow> socket_class \<Rightarrow> 's option" where
  "group_socket g socketClass = map_option se_socket (map_find g socketClass)"

definition group_snapshot ::
    "('s, 'w) socket_interface \<Rightarrow> 'w \<Rightarrow> 's socket_group \<Rightarrow> socket_class \<Rightarrow> socket_snapshot" where
  "group_snapshot iface w g socketClass =
    (case map_find g socketClass of
       None \<Rightarrow> default_socket_snapshot
     | Some entry \<Rightarrow> \<lparr>ss_socketClass = socketClass, ss_state = sk_state iface (se_socket entry) w,
         ss_message = se_message entry\<rparr>)"

definition group_snapshots ::
    "('s, 'w) socket_interface \<Rightarrow> 'w \<Rightarrow> 's socket_group \<Rightarrow> socket_snapshot list" where
  "group_snapshots iface w g = map (\<lambda>item. group_snapshot iface w g (fst item)) g"

section \<open>NetworkManager\<close>

record ('c, 's, 'h) network_manager =
  nm_registry :: "'c channel_registry"
  nm_scheduler :: scheduler
  nm_socketGroup :: "'s socket_group"
  nm_router :: "('c, 'h) router"

definition new_manager :: "negotiated_capabilities \<Rightarrow> ('c, 's, 'h) network_manager" where
  "new_manager capabilities = \<lparr>nm_registry = new_registry capabilities,
     nm_scheduler = new_scheduler, nm_socketGroup = [], nm_router = new_router\<rparr>"

text \<open>An operation of the registry, run on the manager's registry.\<close>

definition on_registry ::
    "('c channel_registry \<Rightarrow> registry_result \<times> 'c channel_registry) \<Rightarrow>
     ('c, 's, 'h) network_manager \<Rightarrow> registry_result \<times> ('c, 's, 'h) network_manager" where
  "on_registry f m = (let (result, reg) = f (nm_registry m) in (result, m\<lparr>nm_registry := reg\<rparr>))"

definition manager_registerSpec ::
    "channel_spec \<Rightarrow> ('c, 's, 'h) network_manager \<Rightarrow>
     registry_result \<times> ('c, 's, 'h) network_manager" where
  "manager_registerSpec spec = on_registry (registerSpec spec)"

fun register_specs ::
    "channel_spec list \<Rightarrow> ('c, 's, 'h) network_manager \<Rightarrow>
     registry_result list \<times> ('c, 's, 'h) network_manager" where
  "register_specs [] m = ([], m)"
| "register_specs (spec # specs) m =
    (let (result, m) = on_registry (registerSpec spec) m;
         (results, m) = register_specs specs m
     in (result # results, m))"

definition registerDefaultMvpChannels ::
    "('c, 's, 'h) network_manager \<Rightarrow> registry_result list \<times> ('c, 's, 'h) network_manager" where
  "registerDefaultMvpChannels = register_specs defaultMvpChannelSpecs"

definition registerTransportSocket ::
    "('s, 'w) socket_interface \<Rightarrow> 'w \<Rightarrow> 's option \<Rightarrow> ('c, 's, 'h) network_manager \<Rightarrow>
     socket_group_result \<times> ('c, 's, 'h) network_manager" where
  "registerTransportSocket iface w socket m =
    (let (result, g) = registerSocket iface w socket (nm_socketGroup m)
     in (result, m\<lparr>nm_socketGroup := g\<rparr>))"

definition openTransportSocket ::
    "('s, 'w) socket_interface \<Rightarrow> socket_class \<Rightarrow> socket_open_options \<Rightarrow>
     ('c, 's, 'h) network_manager \<Rightarrow> 'w \<Rightarrow>
     socket_group_result \<times> ('c, 's, 'h) network_manager \<times> 'w" where
  "openTransportSocket iface socketClass options m w =
    (let (result, g, w') = group_open iface socketClass options (nm_socketGroup m) w
     in (result, m\<lparr>nm_socketGroup := g\<rparr>, w'))"

definition closeTransportSocket ::
    "('s, 'w) socket_interface \<Rightarrow> socket_class \<Rightarrow> string \<Rightarrow> ('c, 's, 'h) network_manager \<Rightarrow> 'w \<Rightarrow>
     ('c, 's, 'h) network_manager \<times> 'w" where
  "closeTransportSocket iface socketClass reason m w =
    (let (g, w') = group_close iface socketClass reason (nm_socketGroup m) w
     in (m\<lparr>nm_socketGroup := g\<rparr>, w'))"

definition channel_required :: registry_result where
  "channel_required =
     registry_failed RG_InvalidArgument RS_InvalidArgument ''channel instance is required''"

definition bindChannel ::
    "('c, 'w) channel_interface \<Rightarrow> 'w \<Rightarrow> 'c option \<Rightarrow> ('c, 's, 'h) network_manager \<Rightarrow>
     registry_result \<times> ('c, 's, 'h) network_manager" where
  "bindChannel iface w channel m =
    (case channel of
       None \<Rightarrow> (channel_required, m)
     | Some c \<Rightarrow>
         let key = ChannelKey (ch_id iface c w) (ch_type iface c w);
             (result, m1) = on_registry (bind key channel) m
         in if \<not> rr_ok result then (result, m1)
            else (registry_success,
              m1\<lparr>nm_router := snd (registerChannel iface w channel (nm_router m1))\<rparr>))"

definition manager_markReady ::
    "('c, 'w) channel_interface \<Rightarrow> 'w \<Rightarrow> channel_key \<Rightarrow> channel_ready_info \<Rightarrow>
     ('c, 's, 'h) network_manager \<Rightarrow> registry_result \<times> ('c, 's, 'h) network_manager" where
  "manager_markReady iface w key ready = on_registry (markReady iface w key ready)"

definition manager_markDegraded ::
    "channel_key \<Rightarrow> string \<Rightarrow> ('c, 's, 'h) network_manager \<Rightarrow>
     registry_result \<times> ('c, 's, 'h) network_manager" where
  "manager_markDegraded key reason = on_registry (markDegraded key reason)"

definition rebindChannel ::
    "('c, 'w) channel_interface \<Rightarrow> 'w \<Rightarrow> 'c option \<Rightarrow> channel_ready_info \<Rightarrow>
     ('c, 's, 'h) network_manager \<Rightarrow> registry_result \<times> ('c, 's, 'h) network_manager" where
  "rebindChannel iface w channel ready m =
    (case channel of
       None \<Rightarrow> (channel_required, m)
     | Some c \<Rightarrow>
         let key = ChannelKey (ch_id iface c w) (ch_type iface c w);
             (result, m1) = on_registry (bind key channel) m
         in if \<not> rr_ok result then (result, m1)
            else on_registry (markReady iface w key ready)
              (m1\<lparr>nm_router := snd (registerChannel iface w channel (nm_router m1))\<rparr>))"

definition socketSnapshotForChannel ::
    "('s, 'w) socket_interface \<Rightarrow> 'w \<Rightarrow> channel_key \<Rightarrow> ('c, 's, 'h) network_manager \<Rightarrow>
     socket_snapshot" where
  "socketSnapshotForChannel iface w key m =
    (let channel = registry_snapshot (nm_registry m) key
     in if key_channelId (sp_key (cs_spec channel)) = 0 then default_socket_snapshot
        else group_snapshot iface w (nm_socketGroup m) (sp_socketClass (cs_spec channel)))"

definition writeTransportBytes ::
    "('s, 'w) socket_interface \<Rightarrow> packet_envelope \<Rightarrow> byte_buffer \<Rightarrow> ('c, 's, 'h) network_manager \<Rightarrow>
     'w \<Rightarrow> socket_group_result \<times> ('c, 's, 'h) network_manager \<times> 'w" where
  "writeTransportBytes iface packet bytes m w =
    (let validation = validatePacket (nm_registry m) packet in
     if \<not> rr_ok validation then (group_failed SG_Failed (rr_message validation), m, w)
     else
       let channel = registry_snapshot (nm_registry m)
             (ChannelKey (pk_channelId packet) (pk_channelType packet));
           (result, g, w') =
             group_write iface (sp_socketClass (cs_spec channel)) bytes (nm_socketGroup m) w
       in (result, m\<lparr>nm_socketGroup := g\<rparr>, w'))"

definition manager_enqueue ::
    "packet_envelope \<Rightarrow> ('c, 's, 'h) network_manager \<Rightarrow>
     enqueue_result \<times> ('c, 's, 'h) network_manager" where
  "manager_enqueue packet m =
    (let validation = validatePacket (nm_registry m) packet in
     if \<not> rr_ok validation then
       (default_enqueue_result\<lparr>er_status := EQ_Rejected, er_message := rr_message validation\<rparr>, m)
     else
       let (result, s) = enqueue packet (defaultSendOptions packet) (nm_scheduler m);
           (_, reg) = updatePressure (ChannelKey (pk_channelId packet) (pk_channelType packet))
             (er_pressure result) (nm_registry m)
       in (result, m\<lparr>nm_scheduler := s, nm_registry := reg\<rparr>))"

text \<open>What \<open>flushNext\<close> and \<open>flushPacket\<close> do with the packet they took out of the queue.\<close>

definition send_taken ::
    "('c, 'w) channel_interface \<Rightarrow> packet_envelope \<Rightarrow> ('c, 's, 'h) network_manager \<Rightarrow> 'w \<Rightarrow>
     send_result \<times> ('c, 's, 'h) network_manager \<times> 'w" where
  "send_taken iface packet m w =
    (let key = ChannelKey (pk_channelId packet) (pk_channelType packet);
         (result, w') = send iface packet (nm_router m) w;
         (_, reg) = updatePressure key (scheduler_pressure (nm_scheduler m) key) (nm_registry m)
     in (result, m\<lparr>nm_registry := reg\<rparr>, w'))"

definition flushNext ::
    "('c, 'w) channel_interface \<Rightarrow> ('c, 's, 'h) network_manager \<Rightarrow> 'w \<Rightarrow>
     send_result \<times> ('c, 's, 'h) network_manager \<times> 'w" where
  "flushNext iface m w =
    (case nextPacket (nm_scheduler m) of
       (None, s) \<Rightarrow>
         (\<lparr>sr_status = SS_Failed, sr_message = ''scheduler queue is empty''\<rparr>,
          m\<lparr>nm_scheduler := s\<rparr>, w)
     | (Some packet, s) \<Rightarrow> send_taken iface packet (m\<lparr>nm_scheduler := s\<rparr>) w)"

definition take_queued ::
    "packet_envelope \<Rightarrow> scheduler \<Rightarrow> packet_envelope option \<times> scheduler" where
  "take_queued packet s =
    (case takePacket packet s of
       (Some found, s') \<Rightarrow> (Some found, s')
     | (None, s') \<Rightarrow>
         takePacket (packet\<lparr>pk_priority := so_priority (defaultSendOptions packet)\<rparr>) s')"

definition flushPacket ::
    "('c, 'w) channel_interface \<Rightarrow> packet_envelope \<Rightarrow> ('c, 's, 'h) network_manager \<Rightarrow> 'w \<Rightarrow>
     send_result \<times> ('c, 's, 'h) network_manager \<times> 'w" where
  "flushPacket iface packet m w =
    (case take_queued packet (nm_scheduler m) of
       (None, s) \<Rightarrow>
         (\<lparr>sr_status = SS_Failed, sr_message = ''packet is not queued''\<rparr>,
          m\<lparr>nm_scheduler := s\<rparr>, w)
     | (Some queued, s) \<Rightarrow> send_taken iface queued (m\<lparr>nm_scheduler := s\<rparr>) w)"

section \<open>The manager invariant\<close>

text \<open>The channel object a registry entry holds.\<close>

definition channel_at :: "'c channel_registry \<Rightarrow> channel_key \<Rightarrow> 'c option" where
  "channel_at reg key = Option.bind (registry_find reg key) en_channel"

text \<open>
  Besides the invariants of its parts: a channel that the registry holds is the one the
  router sends to.
\<close>

definition manager_ok :: "('c, 's, 'h) network_manager \<Rightarrow> bool" where
  "manager_ok m \<longleftrightarrow> registry_ok (nm_registry m) \<and> scheduler_ok (nm_scheduler m) \<and>
     map_ok (nm_socketGroup m) \<and> map_ok (ro_channels (nm_router m)) \<and>
     (\<forall>key c. channel_at (nm_registry m) key = Some c \<longrightarrow>
        map_find (ro_channels (nm_router m)) key = Some c)"

lemma new_manager_ok [simp]: "manager_ok (new_manager capabilities)"
  by (simp add: manager_ok_def new_manager_def channel_at_def) 
    (simp add: new_registry_def registry_find_def new_router_def)

definition keeps_channels ::
    "('c channel_registry \<Rightarrow> registry_result \<times> 'c channel_registry) \<Rightarrow> bool" where
  "keeps_channels f \<longleftrightarrow> (\<forall>reg key. registry_ok reg \<longrightarrow> registry_ok (snd (f reg)) \<and>
     channel_at (snd (f reg)) key \<in> {None, channel_at reg key})"

lemmas registry_ops = registerSpec_def markReady_def markDegraded_def markFailed_def
  updatePressure_def

lemma keeps_channels_ops [intro]:
  "keeps_channels (registerSpec spec)" "keeps_channels (markReady iface w key ready)"
  "keeps_channels (markDegraded key reason)" "keeps_channels (markFailed key reason)"
  "keeps_channels (updatePressure key pressure)"
  by (auto simp: keeps_channels_def intro: preserves)
    (auto simp: channel_at_def registry_ops split: option.splits if_splits)

lemma on_registry_ok [preserves]:
  "keeps_channels f \<Longrightarrow> manager_ok m \<Longrightarrow> manager_ok (snd (on_registry f m))"
  by (auto simp: on_registry_def split_beta manager_ok_def keeps_channels_def)
    (metis insert_iff option.distinct(1) option.inject singletonD)

lemma register_specs_ok: "manager_ok m \<Longrightarrow> manager_ok (snd (register_specs specs m))"
proof (induction specs arbitrary: m)
  case (Cons spec specs)
  have "manager_ok (snd (on_registry (registerSpec spec) m))"
    using Cons.prems by (intro on_registry_ok keeps_channels_ops)
  then show ?case using Cons.IH by (simp add: split_beta)
qed simp

lemma registerSocket_ok: "map_ok g \<Longrightarrow> map_ok (snd (registerSocket iface w socket g))"
  by (auto simp: registerSocket_def Let_def smap.ok_put split: option.splits)

lemma group_ops_ok:
  assumes "map_ok g"
  shows "map_ok (fst (snd (group_open iface socketClass options g w)))"
    and "map_ok (fst (group_close iface socketClass reason g w))"
    and "map_ok (fst (snd (group_write iface socketClass bytes g w)))"
  using assms
  by (auto simp: group_open_def group_close_def group_write_def split_beta Let_def smap.ok_put
      split: option.splits)

text \<open>Binding puts one channel object into the registry and the router under one key.\<close>

lemma bind_channel_at:
  assumes "rr_ok (fst (bind key (Some c) reg))"
  shows "channel_at (snd (bind key (Some c) reg)) key' =
    (if key' = key then Some c else channel_at reg key')"
  using assms
  by (auto simp: bind_def channel_at_def channel_not_found_def registry_failed_def
      split: option.splits)

lemma bind_refused: "\<not> rr_ok (fst (bind key channel reg)) \<Longrightarrow> snd (bind key channel reg) = reg"
  by (auto simp: bind_def registry_success_def split: option.splits if_splits)

lemma bound_and_routed_ok:
  assumes "manager_ok m" and "rr_ok (fst (bind key (Some c) (nm_registry m)))"
    and "key = ChannelKey (ch_id iface c w) (ch_type iface c w)"
  shows "manager_ok (m\<lparr>nm_registry := snd (bind key (Some c) (nm_registry m)),
      nm_router := snd (registerChannel iface w (Some c) (nm_router m))\<rparr>)"
  using assms bind_channel_at [OF assms(2)]
  by (auto simp: manager_ok_def registerChannel_def smap.ok_put intro: preserves)

lemma bindChannel_ok [preserves]:
  assumes "manager_ok m"
  shows "manager_ok (snd (bindChannel iface w channel m))"
  using assms bound_and_routed_ok [OF assms, where iface = iface and w = w]
  by (auto simp: bindChannel_def on_registry_def split_beta Let_def bind_refused
      split: option.split)

lemma rebindChannel_ok [preserves]:
  assumes "manager_ok m"
  shows "manager_ok (snd (rebindChannel iface w channel ready m))"
proof (cases channel)
  case (Some c)
  let ?key = "ChannelKey (ch_id iface c w) (ch_type iface c w)"
  show ?thesis
  proof (cases "rr_ok (fst (bind ?key (Some c) (nm_registry m)))")
    case True
    from on_registry_ok [OF keeps_channels_ops(2) bound_and_routed_ok [OF assms True refl]]
    show ?thesis
      using True by (simp add: rebindChannel_def on_registry_def split_beta Let_def Some)
  next
    case False
    with assms show ?thesis
      by (simp add: rebindChannel_def on_registry_def split_beta Let_def Some bind_refused)
  qed
qed (use assms in \<open>simp add: rebindChannel_def\<close>)

lemma manager_scheduler_ok:
  "manager_ok m \<Longrightarrow> scheduler_ok s \<Longrightarrow> manager_ok (m\<lparr>nm_scheduler := s\<rparr>)"
  by (simp add: manager_ok_def)

lemma on_registry_updatePressure_ok:
  "manager_ok m \<Longrightarrow>
     manager_ok (m\<lparr>nm_registry := snd (updatePressure key pressure (nm_registry m))\<rparr>)"
  using on_registry_ok [OF keeps_channels_ops(5), of m key pressure]
  by (simp add: on_registry_def split_beta)

lemma manager_enqueue_ok [preserves]:
  assumes "manager_ok m"
  shows "manager_ok (snd (manager_enqueue packet m))"
proof -
  have "scheduler_ok (snd (enqueue packet options (nm_scheduler m)))" for options
    using assms by (simp add: manager_ok_def scheduler_ok_def)
  then show ?thesis
    using assms on_registry_updatePressure_ok [OF manager_scheduler_ok [OF assms]]
    by (simp add: manager_enqueue_def Let_def split_beta)
qed

lemma send_taken_ok: "manager_ok m \<Longrightarrow> manager_ok (fst (snd (send_taken iface packet m w)))"
  by (simp add: send_taken_def Let_def split_beta on_registry_updatePressure_ok)

lemma flushNext_ok [preserves]:
  assumes "manager_ok m"
  shows "manager_ok (fst (snd (flushNext iface m w)))"
proof -
  have "scheduler_ok (snd (nextPacket (nm_scheduler m)))"
    using assms by (simp add: manager_ok_def scheduler_ok_def)
  with assms show ?thesis
    by (auto simp: flushNext_def send_taken_ok manager_scheduler_ok split: prod.splits option.splits)
qed

lemma takePacket_None: "fst (takePacket packet s) = None \<Longrightarrow> snd (takePacket packet s) = s"
  by (auto simp: takePacket_def Let_def split: option.splits)

lemma take_queued_eq:
  "take_queued packet s =
    (if fst (takePacket packet s) \<noteq> None then takePacket packet s
     else takePacket (packet\<lparr>pk_priority := so_priority (defaultSendOptions packet)\<rparr>) s)"
  using takePacket_None [of packet s]
  by (cases "takePacket packet s") (auto simp: take_queued_def split: option.split)

lemma take_queued_length [simp]: "length (snd (take_queued packet s)) = length s"
  by (simp add: take_queued_eq)

lemma flushPacket_ok [preserves]:
  assumes "manager_ok m"
  shows "manager_ok (fst (snd (flushPacket iface packet m w)))"
proof -
  have "scheduler_ok (snd (take_queued packet (nm_scheduler m)))"
    using assms by (simp add: manager_ok_def scheduler_ok_def)
  with assms show ?thesis
    by (auto simp: flushPacket_def send_taken_ok manager_scheduler_ok
        split: prod.splits option.splits)
qed

lemma writeTransportBytes_ok [preserves]:
  "manager_ok m \<Longrightarrow> manager_ok (fst (snd (writeTransportBytes iface packet bytes m w)))"
  using group_ops_ok(3) [of "nm_socketGroup m"]
  by (auto simp: writeTransportBytes_def Let_def split_beta manager_ok_def)

section \<open>From enqueue to the channel\<close>

lemma same_packet_priority [simp]: "same_packet (p\<lparr>pk_priority := x\<rparr>) = same_packet p"
  by (simp add: fun_eq_iff same_packet_def)

lemma takePacket_finds:
  assumes "scheduler_ok s" and "queued \<in> set (s ! priorityIndex (pk_priority packet))"
    and "same_packet packet queued"
  shows "\<exists>found. fst (takePacket packet s) = Some found \<and> same_packet packet found"
proof -
  have "find (same_packet packet) (s ! priorityIndex (pk_priority packet)) \<noteq> None"
    using assms by (auto simp: find_None_all)
  then show ?thesis
    by (auto simp: takePacket_def Let_def dest: find_Some_holds split: option.split)
qed

lemma takePacket_same: "fst (takePacket packet s) = Some found \<Longrightarrow> same_packet packet found"
  by (auto simp: takePacket_def Let_def dest: find_Some_holds split: option.splits)

lemma take_queued_finds:
  assumes "scheduler_ok s"
    and "packet \<in> set (s ! priorityIndex (so_priority (defaultSendOptions packet)))"
  shows "\<exists>found. fst (take_queued packet s) = Some found \<and> same_packet packet found"
proof (cases "fst (takePacket packet s)")
  case None
  let ?p = "packet\<lparr>pk_priority := so_priority (defaultSendOptions packet)\<rparr>"
  have "same_packet ?p packet" by (simp add: same_packet_def)
  with assms obtain found where "fst (takePacket ?p s) = Some found" "same_packet ?p found"
    using takePacket_finds [of s packet ?p] by auto
  moreover have "take_queued packet s = takePacket ?p s"
    using None by (simp add: take_queued_eq)
  ultimately show ?thesis by simp
next
  case (Some found)
  then show ?thesis
    using takePacket_same [OF Some] by (simp add: take_queued_eq)
qed

lemma enqueue_queued_in:
  assumes "scheduler_ok s" and "er_status (fst (enqueue packet options s)) = EQ_Queued"
  shows "packet \<in> set (snd (enqueue packet options s) ! priorityIndex (so_priority options))"
proof -
  have push: "packet \<in> set (push_back (so_priority options) packet s' ! priorityIndex (so_priority options))"
    if "scheduler_ok s'" for s'
    using priorityIndex_in [OF that, of "so_priority options"] by (simp add: push_back_def Let_def)
  show ?thesis
    using assms(1)
  proof (cases rule: enqueue_outcome [where packet = packet and options = options])
    case (replaced s1)
    then have "scheduler_ok s1"
      using assms(1) make_room_length [of "so_dropPolicy options" "packet_key packet"
          "so_priority options" s] by (simp add: scheduler_ok_def)
    then show ?thesis using push replaced by simp
  qed (use assms push in auto)
qed

lemma manager_enqueue_queued:
  assumes "er_status (fst (manager_enqueue packet m)) = EQ_Queued"
  shows "packet_admitted (nm_registry m) packet"
    and "er_status (fst (enqueue packet (defaultSendOptions packet) (nm_scheduler m))) = EQ_Queued"
    and "nm_scheduler (snd (manager_enqueue packet m)) =
      snd (enqueue packet (defaultSendOptions packet) (nm_scheduler m))"
    and "nm_router (snd (manager_enqueue packet m)) = nm_router m"
  using assms validatePacket_ok_iff [of "nm_registry m" packet]
  by (auto simp: manager_enqueue_def Let_def split_beta default_enqueue_result_def split: if_splits)

lemma admitted_channel:
  assumes "manager_ok m" and "packet_admitted (nm_registry m) packet"
  obtains c where "channel_at (nm_registry m) (packet_key packet) = Some c"
    and "map_find (ro_channels (nm_router m)) (packet_key packet) = Some c"
proof -
  from assms have ok: "registry_ok (nm_registry m)" and "isReady (nm_registry m) (packet_key packet)"
    by (simp_all add: manager_ok_def packet_admitted_def)
  then obtain entry c where "registry_find (nm_registry m) (packet_key packet) = Some entry"
    "en_channel entry = Some c"
    by (rule isReady_bound)
  then have "channel_at (nm_registry m) (packet_key packet) = Some c"
    by (simp add: channel_at_def)
  with assms(1) that show ?thesis by (auto simp: manager_ok_def)
qed

text \<open>
  A packet that was queued is found by \<open>flushPacket\<close>, and sent to the channel the registry
  holds for it.
\<close>

lemma flush_queued:
  assumes ok: "manager_ok m" and queued: "er_status (fst (manager_enqueue packet m)) = EQ_Queued"
  shows "\<exists>found c. same_packet packet found \<and>
    channel_at (nm_registry m) (packet_key packet) = Some c \<and>
    fst (flushPacket iface packet (snd (manager_enqueue packet m)) w) =
      (if ch_isOpen iface c w then fst (ch_send iface c found w)
       else \<lparr>sr_status = SS_ChannelClosed, sr_message = ''channel is closed''\<rparr>)"
proof -
  note q = manager_enqueue_queued [OF queued]
  let ?s = "nm_scheduler (snd (manager_enqueue packet m))"
  have s_ok: "scheduler_ok (nm_scheduler m)" using ok by (simp add: manager_ok_def)
  then have "scheduler_ok ?s" using q(3) by (simp add: scheduler_ok_def)
  moreover have "packet \<in> set (?s ! priorityIndex (so_priority (defaultSendOptions packet)))"
    unfolding q(3) by (rule enqueue_queued_in [OF s_ok q(2)])
  ultimately obtain found where found: "fst (take_queued packet ?s) = Some found"
    "same_packet packet found"
    using take_queued_finds by blast
  obtain c where c: "channel_at (nm_registry m) (packet_key packet) = Some c"
    "map_find (ro_channels (nm_router m)) (packet_key packet) = Some c"
    by (rule admitted_channel [OF ok q(1)])
  have "ChannelKey (pk_channelId found) (pk_channelType found) = packet_key packet"
    using found(2) by (simp add: same_packet_def packet_key_def)
  then have "fst (flushPacket iface packet (snd (manager_enqueue packet m)) w) =
      fst (send iface found (nm_router m) w)"
    using found(1) q(4)
    by (simp add: flushPacket_def send_taken_def Let_def split_beta split: prod.splits)
  also have "\<dots> = (if ch_isOpen iface c w then fst (ch_send iface c found w)
       else \<lparr>sr_status = SS_ChannelClosed, sr_message = ''channel is closed''\<rparr>)"
    using c(2) \<open>ChannelKey (pk_channelId found) (pk_channelType found) = packet_key packet\<close>
    by (simp add: send_def)
  finally show ?thesis using found(2) c(1) by blast
qed

section \<open>Sequences of operations\<close>

text \<open>
  The manager's operations, the router's subscriptions through \<open>router()\<close>, and any change of
  the world between two of them.
\<close>

datatype ('c, 's, 'h, 'w) manager_op =
    ManagerRegisterSpec channel_spec
  | ManagerRegisterDefaults
  | ManagerRegisterSocket "'s option"
  | ManagerOpenSocket socket_class socket_open_options
  | ManagerCloseSocket socket_class string
  | ManagerBind "'c option"
  | ManagerMarkReady channel_key channel_ready_info
  | ManagerMarkDegraded channel_key string
  | ManagerRebind "'c option" channel_ready_info
  | ManagerWrite packet_envelope byte_buffer
  | ManagerEnqueue packet_envelope
  | ManagerFlushNext
  | ManagerFlushPacket packet_envelope
  | ManagerSubscribe route_match "'h option"
  | ManagerUnsubscribe subscription_token
  | ManagerWorld "'w \<Rightarrow> 'w"

fun manager_step ::
    "('c, 'w) channel_interface \<Rightarrow> ('s, 'w) socket_interface \<Rightarrow> ('c, 's, 'h, 'w) manager_op \<Rightarrow>
     ('c, 's, 'h) network_manager \<times> 'w \<Rightarrow> ('c, 's, 'h) network_manager \<times> 'w" where
  "manager_step ci si (ManagerRegisterSpec spec) (m, w) = (snd (manager_registerSpec spec m), w)"
| "manager_step ci si ManagerRegisterDefaults (m, w) = (snd (registerDefaultMvpChannels m), w)"
| "manager_step ci si (ManagerRegisterSocket socket) (m, w) =
     (snd (registerTransportSocket si w socket m), w)"
| "manager_step ci si (ManagerOpenSocket socketClass options) (m, w) =
     snd (openTransportSocket si socketClass options m w)"
| "manager_step ci si (ManagerCloseSocket socketClass reason) (m, w) =
     closeTransportSocket si socketClass reason m w"
| "manager_step ci si (ManagerBind channel) (m, w) = (snd (bindChannel ci w channel m), w)"
| "manager_step ci si (ManagerMarkReady key ready) (m, w) =
     (snd (manager_markReady ci w key ready m), w)"
| "manager_step ci si (ManagerMarkDegraded key reason) (m, w) =
     (snd (manager_markDegraded key reason m), w)"
| "manager_step ci si (ManagerRebind channel ready) (m, w) =
     (snd (rebindChannel ci w channel ready m), w)"
| "manager_step ci si (ManagerWrite packet bytes) (m, w) =
     snd (writeTransportBytes si packet bytes m w)"
| "manager_step ci si (ManagerEnqueue packet) (m, w) = (snd (manager_enqueue packet m), w)"
| "manager_step ci si ManagerFlushNext (m, w) = snd (flushNext ci m w)"
| "manager_step ci si (ManagerFlushPacket packet) (m, w) = snd (flushPacket ci packet m w)"
| "manager_step ci si (ManagerSubscribe route handler) (m, w) =
     (m\<lparr>nm_router := snd (subscribe route handler (nm_router m))\<rparr>, w)"
| "manager_step ci si (ManagerUnsubscribe token) (m, w) =
     (m\<lparr>nm_router := unsubscribe token (nm_router m)\<rparr>, w)"
| "manager_step ci si (ManagerWorld f) (m, w) = (m, f w)"

lemma manager_step_ok:
  assumes "manager_ok (fst mw)"
  shows "manager_ok (fst (manager_step ci si op mw))"
proof -
  obtain m w where mw: "mw = (m, w)" by (cases mw)
  with assms have ok: "manager_ok m" by simp
  have sockets: "manager_ok (m\<lparr>nm_socketGroup := g\<rparr>)" if "map_ok g" for g
    using ok that by (simp add: manager_ok_def)
  have routers: "manager_ok (m\<lparr>nm_router := snd (subscribe route handler (nm_router m))\<rparr>)"
    "manager_ok (m\<lparr>nm_router := unsubscribe token (nm_router m)\<rparr>)" for route handler token
    using ok by (simp_all add: manager_ok_def subscribe_def unsubscribe_def Let_def)
  have "map_ok (nm_socketGroup m)" using ok by (simp add: manager_ok_def)
  note groups = registerSocket_ok [OF this] group_ops_ok [OF this]
  show ?thesis
    using ok unfolding mw
    by (cases op)
      (auto simp: manager_registerSpec_def registerDefaultMvpChannels_def manager_markReady_def
        manager_markDegraded_def registerTransportSocket_def openTransportSocket_def
        closeTransportSocket_def split_beta sockets groups routers
        intro: preserves keeps_channels_ops register_specs_ok)
qed

interpretation manager: kept_by_steps "manager_step ci si" "\<lambda>mw. manager_ok (fst mw)" for ci si
  by unfold_locales (rule manager_step_ok)

text \<open>Which socket a class has: only registration gives it one, and nothing takes it away.\<close>

lemma group_socket_ops [simp]:
  "group_socket (fst (snd (group_open si socketClass options g w))) = group_socket g"
  "group_socket (fst (group_close si socketClass reason g w)) = group_socket g"
  "group_socket (fst (snd (group_write si socketClass bytes g w))) = group_socket g"
  by (auto simp: fun_eq_iff group_socket_def group_open_def group_close_def group_write_def split_beta
      Let_def split: option.split)

lemma group_socket_register:
  "group_socket (snd (registerSocket si w (Some socket) g)) socketClass =
    (if group_socket g socketClass = None \<and> sk_socketClass si socket w = socketClass
     then Some socket else group_socket g socketClass)"
  by (auto simp: group_socket_def registerSocket_def Let_def)

lemma register_specs_group [simp]: "nm_socketGroup (snd (register_specs specs m)) = nm_socketGroup m"
  by (induction specs arbitrary: m) (simp_all add: on_registry_def split_beta Let_def)

lemma manager_step_group:
  "group_socket (nm_socketGroup (fst (manager_step ci si op (m, w)))) socketClass =
    (case op of
       ManagerRegisterSocket (Some socket) \<Rightarrow>
         if group_socket (nm_socketGroup m) socketClass = None \<and> sk_socketClass si socket w = socketClass
         then Some socket else group_socket (nm_socketGroup m) socketClass
     | _ \<Rightarrow> group_socket (nm_socketGroup m) socketClass)"
proof (cases op)
  case (ManagerRegisterSocket socket)
  then show ?thesis
    by (cases socket)
      (simp_all add: registerTransportSocket_def split_beta group_socket_register Let_def,
       simp add: registerSocket_def)
qed (auto simp: manager_registerSpec_def registerDefaultMvpChannels_def manager_markReady_def
    manager_markDegraded_def openTransportSocket_def on_registry_def closeTransportSocket_def
    split_beta writeTransportBytes_def Let_def bindChannel_def rebindChannel_def manager_enqueue_def
    flushNext_def flushPacket_def send_taken_def split: option.split)

lemma sockets_were_registered:
  "group_socket (nm_socketGroup (fst (fold (manager_step ci si) ops mw))) socketClass = Some socket \<Longrightarrow>
     group_socket (nm_socketGroup (fst mw)) socketClass = Some socket \<or>
     ManagerRegisterSocket (Some socket) \<in> set ops"
proof (induction ops arbitrary: mw)
  case (Cons op ops)
  obtain m w where mw: "mw = (m, w)" by (cases mw)
  from Cons.IH [of "manager_step ci si op mw"] Cons.prems show ?case
    by (auto simp: mw manager_step_group split: manager_op.splits option.splits if_splits)
qed simp

text \<open>A write in full: admitted, to the socket of the channel's class, or nothing happens.\<close>

definition write_target :: "('c, 's, 'h) network_manager \<Rightarrow> packet_envelope \<Rightarrow> 's option" where
  "write_target m packet =
    (if packet_admitted (nm_registry m) packet
     then group_socket (nm_socketGroup m)
       (sp_socketClass (cs_spec (registry_snapshot (nm_registry m) (packet_key packet))))
     else None)"

lemma writeTransportBytes_cases:
  assumes "writeTransportBytes si packet bytes m w = (result, m', w')"
  shows "(case write_target m packet of
      None \<Rightarrow> \<not> gr_ok result \<and> m' = m \<and> w' = w
    | Some socket \<Rightarrow> w' = snd (sk_write si socket bytes w) \<and>
        (gr_ok result \<longleftrightarrow> sr_status (fst (sk_write si socket bytes w)) = SS_Sent))"
    and "m' = m\<lparr>nm_socketGroup := nm_socketGroup m'\<rparr>"
    and "group_socket (nm_socketGroup m') = group_socket (nm_socketGroup m)"
proof -
  have parts: "result = fst (writeTransportBytes si packet bytes m w)"
    "m' = fst (snd (writeTransportBytes si packet bytes m w))"
    "w' = snd (snd (writeTransportBytes si packet bytes m w))" using assms by simp_all
  show "m' = m\<lparr>nm_socketGroup := nm_socketGroup m'\<rparr>"
    and "group_socket (nm_socketGroup m') = group_socket (nm_socketGroup m)"
    by (simp_all add: parts writeTransportBytes_def Let_def split_beta)
  show "(case write_target m packet of
      None \<Rightarrow> \<not> gr_ok result \<and> m' = m \<and> w' = w
    | Some socket \<Rightarrow> w' = snd (sk_write si socket bytes w) \<and>
        (gr_ok result \<longleftrightarrow> sr_status (fst (sk_write si socket bytes w)) = SS_Sent))"
    using validatePacket_ok_iff [of "nm_registry m" packet]
    by (auto simp: parts write_target_def writeTransportBytes_def Let_def split_beta group_write_def
        group_failed_def group_success_def group_socket_def packet_key_def split: option.split)
qed

section \<open>Properties\<close>

text \<open>
  C4. A packet accepted for sending reaches its channel: in every manager state that operations
  (and changes of the world between them) can lead to, if \<open>enqueue\<close> reports a packet queued,
  flushing that packet finds it, or an earlier one with the same identifying fields, and its
  outcome is the answer of the channel object bound to the packet's key in the registry, or
  \<open>ChannelClosed\<close> if that channel is not open; never "not queued" or "channel not found".
\<close>

theorem queued_packet_reaches_its_channel:
  assumes "fold (manager_step ci si) ops (new_manager nc, w0) = (m, w)"
    and "er_status (fst (manager_enqueue packet m)) = EQ_Queued"
  shows "\<exists>found c. same_packet packet found \<and>
    channel_at (nm_registry m) (packet_key packet) = Some c \<and>
    fst (flushPacket ci packet (snd (manager_enqueue packet m)) w') =
      (if ch_isOpen ci c w' then fst (ch_send ci c found w')
       else \<lparr>sr_status = SS_ChannelClosed, sr_message = ''channel is closed''\<rparr>)"
proof (rule flush_queued)
  have "manager_ok (fst (fold (manager_step ci si) ops (new_manager nc, w0)))"
    by (rule manager.run_keeps) simp
  then show "manager_ok m" using assms(1) by simp
qed (rule assms(2))

definition idle_sockets :: "(unit, unit) socket_interface" where
  "idle_sockets = \<lparr>sk_socketClass = (\<lambda>_ _. SC_Control), sk_open = (\<lambda>_ _ w. (True, w)),
     sk_close = (\<lambda>_ _ w. w), sk_write = (\<lambda>_ _ w. (send_sent, w)), sk_state = (\<lambda>_ _. SK_Open)\<rparr>"

definition heartbeat_negotiated :: negotiated_capabilities where
  "heartbeat_negotiated = default_negotiated\<lparr>nc_channelTypes := [CT_Standard],
     nc_packetTypes := [PT_Heartbeat], nc_messageKinds := [MK_Event]\<rparr>"

definition heartbeat :: packet_envelope where
  "heartbeat = default_packet\<lparr>pk_channelId := CID_SmallData\<rparr>"

definition sample_manager_ops :: "(unit, unit, unit, unit) manager_op list" where
  "sample_manager_ops = [ManagerRegisterSpec (default_spec\<lparr>sp_key := sample_key\<rparr>),
     ManagerRegisterSocket (Some ()), ManagerBind (Some ()),
     ManagerMarkReady sample_key \<lparr>ri_monotonicTimestampUsec = 5, ri_endpoint = []\<rparr>]"

definition sample_manager :: "(unit, unit, unit) network_manager" where
  "sample_manager = fst (fold (manager_step open_channels idle_sockets) sample_manager_ops
     (new_manager heartbeat_negotiated, ()))"

lemma sample_manager_reached: "fold (manager_step open_channels idle_sockets) sample_manager_ops
    (new_manager heartbeat_negotiated, ()) = (sample_manager, ())"
  by (simp add: sample_manager_def prod_eq_iff)

lemma sample_manager_fields:
  "rr_ok (validatePacket (nm_registry sample_manager) heartbeat)"
  "sp_socketClass (cs_spec (registry_snapshot (nm_registry sample_manager) sample_key)) = SC_Control"
  "nm_scheduler sample_manager = new_scheduler"
  "group_socket (nm_socketGroup sample_manager) SC_Control = Some ()"
  by (simp_all add: sample_manager_def sample_manager_ops_def manager_registerSpec_def on_registry_def
      registerTransportSocket_def registerSocket_def bindChannel_def manager_markReady_def
      registerSpec_def bind_def markReady_def open_channels_def idle_sockets_def default_spec_def
      default_snapshot_def new_manager_def new_registry_def registry_find_def store_entry_def
      sample_key_def registry_success_def registerChannel_def new_router_def validatePacket_def
      packet_key_def heartbeat_def default_packet_def allowlist_validate_def heartbeat_negotiated_def
      allowlist_ok_def packetTypeAllowed_def isReady_def registry_snapshot_def group_socket_def
      group_success_def Let_def split_beta)

lemma sample_manager_allowlist:
  "nc_packetTypes (rg_allowlist (nm_registry sample_manager)) = [PT_Heartbeat]"
  by (simp add: sample_manager_def sample_manager_ops_def manager_registerSpec_def on_registry_def
      registerTransportSocket_def bindChannel_def manager_markReady_def registerSpec_def bind_def
      markReady_def open_channels_def default_spec_def default_snapshot_def new_manager_def
      new_registry_def registry_find_def store_entry_def sample_key_def registry_success_def
      heartbeat_negotiated_def Let_def split_beta)

lemma heartbeat_queued: "er_status (fst (manager_enqueue heartbeat sample_manager)) = EQ_Queued"
proof -
  have "er_status (fst (enqueue heartbeat (defaultSendOptions heartbeat) new_scheduler)) = EQ_Queued"
    using defaultSendOptions_bounded [of heartbeat]
    by (simp add: enqueue_def Let_def queuedCount_concat new_scheduler_def)
  then show ?thesis
    by (simp add: manager_enqueue_def sample_manager_fields Let_def split_beta)
qed

theorem queued_packet_reaches_its_channel_witness:
  "fst (flushPacket open_channels heartbeat (snd (manager_enqueue heartbeat sample_manager)) ()) =
   send_sent"
  using queued_packet_reaches_its_channel [OF sample_manager_reached heartbeat_queued, of "()"]
  by (simp add: open_channels_def)

text \<open>
  C37. Nothing is sent around the allowlist: in every manager state that operations can lead to, a
  call to write transport bytes for a packet either finds the packet admitted by the registry
  (negotiated, on a ready channel, of an allowed type) and a socket of the channel's class, which
  was registered earlier; then it makes exactly one write, of these bytes to this socket, and
  reports success exactly if that write was sent. Or it fails and leaves both the manager and the
  world, and so every socket, as they were. In no case does it change the registry, the scheduler,
  the router, or which socket serves which class.
\<close>

theorem transport_writes_are_admitted:
  assumes "fold (manager_step ci si) ops (new_manager nc, w0) = (m, w)"
    and "writeTransportBytes si packet bytes m w1 = (result, m', w')"
  shows "(case (if packet_admitted (nm_registry m) packet then group_socket (nm_socketGroup m)
          (sp_socketClass (cs_spec (registry_snapshot (nm_registry m) (packet_key packet))))
        else None) of
      None \<Rightarrow> \<not> gr_ok result \<and> m' = m \<and> w' = w1
    | Some socket \<Rightarrow> ManagerRegisterSocket (Some socket) \<in> set ops \<and>
        w' = snd (sk_write si socket bytes w1) \<and>
        (gr_ok result \<longleftrightarrow> sr_status (fst (sk_write si socket bytes w1)) = SS_Sent)) \<and>
    m' = m\<lparr>nm_socketGroup := nm_socketGroup m'\<rparr> \<and>
    group_socket (nm_socketGroup m') = group_socket (nm_socketGroup m)"
proof -
  have "ManagerRegisterSocket (Some socket) \<in> set ops" if "write_target m packet = Some socket" for socket
    using sockets_were_registered [of ci si ops "(new_manager nc, w0)" _ socket] that assms(1)
    by (auto simp: write_target_def new_manager_def group_socket_def split: if_splits)
  then show ?thesis
    using writeTransportBytes_cases [OF assms(2)]
    unfolding write_target_def [symmetric] by (auto split: option.splits)
qed

theorem transport_writes_are_admitted_witness:
  "gr_ok (fst (writeTransportBytes idle_sockets heartbeat [1] sample_manager ())) \<and>
   \<not> gr_ok (fst (writeTransportBytes idle_sockets (heartbeat\<lparr>pk_packetType := PT_Video\<rparr>) [1]
     sample_manager ()))"
proof -
  have key: "packet_key heartbeat = sample_key"
    by (simp add: packet_key_def heartbeat_def default_packet_def sample_key_def)
  have admitted: "packet_admitted (nm_registry sample_manager) heartbeat"
    using sample_manager_fields(1) by (simp add: validatePacket_ok_iff)
  have refused: "\<not> packet_admitted (nm_registry sample_manager) (heartbeat\<lparr>pk_packetType := PT_Video\<rparr>)"
    by (simp add: packet_admitted_def sample_manager_allowlist)
  obtain r1 m1 w1 r2 m2 w2 where
    writes: "writeTransportBytes idle_sockets heartbeat [1] sample_manager () = (r1, m1, w1)"
    "writeTransportBytes idle_sockets (heartbeat\<lparr>pk_packetType := PT_Video\<rparr>) [1] sample_manager () =
      (r2, m2, w2)"
    by (metis prod.exhaust)
  have "gr_ok r1"
    using transport_writes_are_admitted [OF sample_manager_reached writes(1)] admitted
      sample_manager_fields(2,4) by (simp add: key idle_sockets_def send_sent_def)
  moreover have "\<not> gr_ok r2"
    using transport_writes_are_admitted [OF sample_manager_reached writes(2)] refused by simp
  ultimately show ?thesis by (simp add: writes)
qed

text \<open>
  C38. Registry and router agree: in every manager state that operations can lead to, the channel
  object the registry holds for a key is the one the router sends packets of that key to, and
  every channel reported ready has one.
\<close>

theorem registry_and_router_agree:
  assumes "fold (manager_step ci si) ops (new_manager nc, w0) = (m, w)"
    and "isReady (nm_registry m) key"
  shows "\<exists>c. channel_at (nm_registry m) key = Some c \<and> map_find (ro_channels (nm_router m)) key = Some c"
proof -
  have "manager_ok (fst (fold (manager_step ci si) ops (new_manager nc, w0)))"
    by (rule manager.run_keeps) simp
  then have ok: "manager_ok m" using assms(1) by simp
  then have "registry_ok (nm_registry m)" by (simp add: manager_ok_def)
  from isReady_bound [OF this assms(2)] obtain entry channel where
    "registry_find (nm_registry m) key = Some entry" "en_channel entry = Some channel" by blast
  then have "channel_at (nm_registry m) key = Some channel" by (simp add: channel_at_def)
  with ok show ?thesis by (auto simp: manager_ok_def)
qed

theorem registry_and_router_agree_witness:
  "map_find (ro_channels (nm_router sample_manager)) sample_key = Some ()"
proof -
  have "packet_key heartbeat = sample_key"
    by (simp add: packet_key_def heartbeat_def default_packet_def sample_key_def)
  then have "isReady (nm_registry sample_manager) sample_key"
    using sample_manager_fields(1) by (simp add: validatePacket_ok_iff packet_admitted_def)
  from registry_and_router_agree [OF sample_manager_reached this] show ?thesis by simp
qed

end
