(* ===== verification/Session.thy ===== *)
theory Session
  imports Module_Host Network_Manager
begin

text \<open>
  \<open>src/core/session/session.cpp\<close>: a session's life from authorisation over reconnects to its
  end. What a session shares with its modules is the \<open>session_world\<close>: its network manager
  (the modules get pointers to it, its router and its registry), the diagnostics sink (a null
  pointer is \<open>None\<close>), and the rest of the world behind the channels and modules.
\<close>

section \<open>State\<close>

datatype session_state =
  ST_Created | ST_Authorizing | ST_Authorized | ST_Connecting | ST_NetworkReady
  | ST_MountingModules | ST_Running | ST_Reconnecting | ST_Draining | ST_Stopping | ST_Stopped
  | ST_Failed

fun stateName :: "session_state \<Rightarrow> string" where
  "stateName ST_Created = ''Created''"
| "stateName ST_Authorizing = ''Authorizing''"
| "stateName ST_Authorized = ''Authorized''"
| "stateName ST_Connecting = ''Connecting''"
| "stateName ST_NetworkReady = ''NetworkReady''"
| "stateName ST_MountingModules = ''MountingModules''"
| "stateName ST_Running = ''Running''"
| "stateName ST_Reconnecting = ''Reconnecting''"
| "stateName ST_Draining = ''Draining''"
| "stateName ST_Stopping = ''Stopping''"
| "stateName ST_Stopped = ''Stopped''"
| "stateName ST_Failed = ''Failed''"

type_synonym module_handler = "string \<times> unit"
type_synonym ('c, 's) session_network = "('c, 's, module_handler) network_manager"

record ('c, 's, 'w) session_world =
  sw_network :: "('c, 's) session_network option"
  sw_sink :: "diagnostics_sink option"
  sw_rest :: 'w

text \<open>The virtual methods of the channels and of the modules.\<close>

record ('m, 'c, 's, 'w) session_env =
  sv_channels :: "('c, 'w) channel_interface"
  sv_modules :: "('m, ('c, 's, 'w) session_world) module_interface"

record 'c channel_replacement =
  rp_channel :: "'c option"
  rp_ready :: channel_ready_info

record 'c reconnect_request =
  rc_reason :: string
  rc_degradedChannels :: "channel_key list"
  rc_replacementChannels :: "'c channel_replacement list"
  rc_requestDisplayKeyframe :: bool

datatype reconnect_operation = RO_Degrade | RO_Rebind

record reconnect_channel_report =
  rcr_key :: channel_key
  rcr_operation :: reconnect_operation
  rcr_ok :: bool
  rcr_registryStatus :: registry_status
  rcr_responseStatus :: response_status
  rcr_message :: string

record reconnect_report =
  rep_attempted :: bool
  rep_ok :: bool
  rep_reconnectCount :: u32
  rep_reason :: string
  rep_requestedFreshState :: bool
  rep_degradedChannels :: "reconnect_channel_report list"
  rep_reboundChannels :: "reconnect_channel_report list"
  rep_pausedModules :: "reconnect_module_report list"
  rep_replayedIngress :: "ingress_replay_report list"
  rep_resumedModules :: "reconnect_module_report list"

definition default_reconnect_report :: reconnect_report where
  "default_reconnect_report = \<lparr>
     rep_attempted = False, rep_ok = False, rep_reconnectCount = 0, rep_reason = [],
     rep_requestedFreshState = False, rep_degradedChannels = [], rep_reboundChannels = [],
     rep_pausedModules = [], rep_replayedIngress = [], rep_resumedModules = []\<rparr>"

record remote_inventory =
  inv_peerSessionId :: session_id
  inv_manifests :: "module_manifest list"

record session_snapshot =
  sn_context :: session_context
  sn_state :: session_state
  sn_diagnosticsCount :: nat
  sn_moduleSnapshots :: "module_snapshot list"
  sn_remoteModuleInventory :: remote_inventory
  sn_lastReconnect :: reconnect_report

record 'm session =
  se_context :: session_context
  se_state :: session_state
  se_policy :: "policy_interface option"
  se_host :: "'m module_host option"
  se_lastReconnect :: reconnect_report
  se_inventory :: remote_inventory

section \<open>Publishing and transitions\<close>

definition session_event :: "session_context \<Rightarrow> string \<Rightarrow> string \<Rightarrow> diagnostic_event" where
  "session_event ctx code message = default_event\<lparr>
     ev_sessionId := cx_sessionId ctx, ev_traceId := cx_traceId ctx, ev_code := code,
     ev_message := message, ev_policyVersion := cx_policyVersion ctx\<rparr>"

definition publish ::
    "string \<Rightarrow> string \<Rightarrow> 'm session \<Rightarrow> ('c, 's, 'w) session_world \<Rightarrow> ('c, 's, 'w) session_world" where
  "publish code message s x =
    (case sw_sink x of
       None \<Rightarrow> x
     | Some sink \<Rightarrow>
         x\<lparr>sw_sink := Some (sink_publish (session_event (se_context s) code message) sink)\<rparr>)"

definition transition ::
    "session_state \<Rightarrow> string \<Rightarrow> 'm session \<times> ('c, 's, 'w) session_world \<Rightarrow>
     'm session \<times> ('c, 's, 'w) session_world" where
  "transition next message = (\<lambda>(s, x).
     let s' = s\<lparr>se_state := next\<rparr>
     in (s', publish ''session.state_changed'' (stateName next @ '': '' @ message) s' x))"

definition publishing ::
    "string \<Rightarrow> string \<Rightarrow> 'm session \<times> ('c, 's, 'w) session_world \<Rightarrow>
     'm session \<times> ('c, 's, 'w) session_world" where
  "publishing code message = (\<lambda>(s, x). (s, publish code message s x))"

text \<open>The constructor.\<close>

definition new_session ::
    "session_context \<Rightarrow> policy_interface option \<Rightarrow> ('c, 's, 'w) session_world \<Rightarrow>
     'm session \<times> ('c, 's, 'w) session_world" where
  "new_session ctx policy x =
    publishing ''session.created'' ''session created''
      (\<lparr>se_context = ctx, se_state = ST_Created, se_policy = policy, se_host = None,
        se_lastReconnect = default_reconnect_report,
        se_inventory = \<lparr>inv_peerSessionId = 0, inv_manifests = []\<rparr>\<rparr>, x)"

section \<open>start\<close>

definition authorize ::
    "'m session \<times> ('c, 's, 'w) session_world \<Rightarrow> 'm session \<times> ('c, 's, 'w) session_world" where
  "authorize = (\<lambda>(s, x).
    let ctx = se_context s;
        allowed = (case se_policy s of
          Some engine \<Rightarrow>
            pi_authorizeFeatures engine (default_policy_context\<lparr>
              px_session := ctx,
              px_principal := \<lparr>pn_userId = cx_userId ctx, pn_tenantId = cx_tenantId ctx, pn_roles = []\<rparr>,
              px_localDevice := default_device\<lparr>dv_deviceId := cx_clientDeviceId ctx,
                dv_platform := cx_localPlatform ctx\<rparr>,
              px_remoteDevice := default_device\<lparr>dv_deviceId := cx_agentDeviceId ctx,
                dv_platform := cx_remotePlatform ctx\<rparr>\<rparr>) (cx_requestedFeatures ctx)
        | None \<Rightarrow> cx_requestedFeatures ctx)
    in publishing ''policy.features_authorized'' ''features authorized''
         (s\<lparr>se_context := ctx\<lparr>cx_allowedFeatures := allowed\<rparr>\<rparr>, x))"

definition createModuleHost ::
    "'m session \<times> ('c, 's, 'w) session_world \<Rightarrow> 'm session \<times> ('c, 's, 'w) session_world" where
  "createModuleHost = (\<lambda>(s, x).
     case sw_network x of
       None \<Rightarrow> (s, x)
     | Some _ \<Rightarrow> (s\<lparr>se_host := Some (new_host (se_context s))\<rparr>, x))"

definition session_start ::
    "'m session \<times> ('c, 's, 'w) session_world \<Rightarrow> bool \<times> 'm session \<times> ('c, 's, 'w) session_world" where
  "session_start sx =
    (if se_state (fst sx) \<noteq> ST_Created then (False, sx)
     else
       let sx = transition ST_Authorizing ''authorizing features'' sx;
           sx = authorize sx;
           sx = transition ST_Authorized ''features authorized'' sx;
           sx = transition ST_Connecting ''creating network context'' sx;
           sx = transition ST_NetworkReady ''network manager ready'' sx;
           sx = transition ST_MountingModules ''creating module host'' sx;
           sx = createModuleHost sx;
           sx = transition ST_Running ''session running'' sx
       in (True, sx))"

section \<open>The module host in the session's world\<close>

text \<open>
  The objects \<open>createModuleHost\<close> hands to the host: the router and the registry of the
  session's network manager. Where there is no network there is no host either.
\<close>

definition session_router :: "(module_handler, ('c, 's, 'w) session_world) network_interface" where
  "session_router = \<lparr>
     ni_subscribe = (\<lambda>route handler x. case sw_network x of
         None \<Rightarrow> (0, x)
       | Some m \<Rightarrow>
           let (token, r) = subscribe route handler (nm_router m)
           in (token, x\<lparr>sw_network := Some (m\<lparr>nm_router := r\<rparr>)\<rparr>)),
     ni_unsubscribe = (\<lambda>token x. case sw_network x of
         None \<Rightarrow> x
       | Some m \<Rightarrow> x\<lparr>sw_network := Some (m\<lparr>nm_router := unsubscribe token (nm_router m)\<rparr>)\<rparr>)\<rparr>"

definition session_host_env ::
    "('m, 'c, 's, 'w) session_env \<Rightarrow> policy_interface option \<Rightarrow>
     ('m, 'c, ('c, 's, 'w) session_world) host_env" where
  "session_host_env env policy = \<lparr>
     he_modules = sv_modules env,
     he_network = Some session_router,
     he_channels = Some (\<lambda>x. case sw_network x of
         None \<Rightarrow> new_registry default_negotiated
       | Some m \<Rightarrow> nm_registry m),
     he_policy = policy\<rparr>"

section \<open>reconnect\<close>

definition reason_or :: "string \<Rightarrow> string \<Rightarrow> string" where
  "reason_or fallback reason = (if reason = [] then fallback else reason)"

definition channel_key_of :: "('c, 'w) channel_interface \<Rightarrow> 'w \<Rightarrow> 'c \<Rightarrow> channel_key" where
  "channel_key_of iface w c = ChannelKey (ch_id iface c w) (ch_type iface c w)"

fun affected_loop ::
    "('c, 'w) channel_interface \<Rightarrow> 'w \<Rightarrow> 'c channel_replacement list \<Rightarrow> channel_key list \<Rightarrow>
     channel_key list" where
  "affected_loop iface w [] result = result"
| "affected_loop iface w (replacement # rest) result =
    (case rp_channel replacement of
       None \<Rightarrow> affected_loop iface w rest result
     | Some c \<Rightarrow>
         let key = channel_key_of iface w c
         in affected_loop iface w rest (if key \<in> set result then result else result @ [key]))"

definition affectedReconnectChannels ::
    "('c, 'w) channel_interface \<Rightarrow> 'w \<Rightarrow> 'c reconnect_request \<Rightarrow> channel_key list" where
  "affectedReconnectChannels iface w request =
     affected_loop iface w (rc_replacementChannels request) (rc_degradedChannels request)"

definition makeChannelReport ::
    "reconnect_operation \<Rightarrow> channel_key \<Rightarrow> registry_result \<Rightarrow> reconnect_channel_report" where
  "makeChannelReport operation key result = \<lparr>
     rcr_key = key, rcr_operation = operation, rcr_ok = rr_ok result,
     rcr_registryStatus = rr_status result, rcr_responseStatus = rr_responseStatus result,
     rcr_message = rr_message result\<rparr>"

definition update_report ::
    "(reconnect_report \<Rightarrow> reconnect_report) \<Rightarrow> 'm session \<times> ('c, 's, 'w) session_world \<Rightarrow>
     'm session \<times> ('c, 's, 'w) session_world" where
  "update_report f = (\<lambda>(s, x). (s\<lparr>se_lastReconnect := f (se_lastReconnect s)\<rparr>, x))"

text \<open>The bodies of the loops over the degraded and the replaced channels, which run only if
  there is a network.\<close>

definition degrade_one ::
    "string \<Rightarrow> channel_key \<Rightarrow> 'm session \<times> ('c, 's, 'w) session_world \<Rightarrow>
     'm session \<times> ('c, 's, 'w) session_world" where
  "degrade_one reason key = (\<lambda>(s, x).
     case sw_network x of
       None \<Rightarrow> (s, x)
     | Some m \<Rightarrow>
         let (degraded, m') = manager_markDegraded key (reason_or ''reconnecting'' reason) m;
             sx = update_report (\<lambda>r. r\<lparr>
                 rep_degradedChannels :=
                   rep_degradedChannels r @ [makeChannelReport RO_Degrade key degraded],
                 rep_ok := rep_ok r \<and> rr_ok degraded\<rparr>) (s, x\<lparr>sw_network := Some m'\<rparr>)
         in if rr_ok degraded then publishing ''network.reconnect_channel_degraded'' reason sx
            else publishing ''network.reconnect_channel_degraded_failed'' (rr_message degraded) sx)"

definition degrade_loop ::
    "string \<Rightarrow> channel_key list \<Rightarrow> 'm session \<times> ('c, 's, 'w) session_world \<Rightarrow>
     'm session \<times> ('c, 's, 'w) session_world" where
  "degrade_loop reason keys sx = fold (degrade_one reason) keys sx"

definition rebind_one ::
    "('c, 'w) channel_interface \<Rightarrow> string \<Rightarrow> 'c channel_replacement \<Rightarrow>
     'm session \<times> ('c, 's, 'w) session_world \<Rightarrow> 'm session \<times> ('c, 's, 'w) session_world" where
  "rebind_one iface reason replacement = (\<lambda>(s, x).
     case sw_network x of
       None \<Rightarrow> (s, x)
     | Some m \<Rightarrow>
         let key = (case rp_channel replacement of
               None \<Rightarrow> ChannelKey 0 CT_Standard
             | Some c \<Rightarrow> channel_key_of iface (sw_rest x) c);
             (rebound, m') =
               rebindChannel iface (sw_rest x) (rp_channel replacement) (rp_ready replacement) m;
             sx = update_report (\<lambda>r. r\<lparr>
                 rep_reboundChannels :=
                   rep_reboundChannels r @ [makeChannelReport RO_Rebind key rebound],
                 rep_ok := rep_ok r \<and> rr_ok rebound\<rparr>) (s, x\<lparr>sw_network := Some m'\<rparr>)
         in if rr_ok rebound then publishing ''network.reconnect_channel_rebound'' reason sx
            else publishing ''network.reconnect_channel_rebound_failed'' (rr_message rebound) sx)"

definition rebind_loop ::
    "('c, 'w) channel_interface \<Rightarrow> string \<Rightarrow> 'c channel_replacement list \<Rightarrow>
     'm session \<times> ('c, 's, 'w) session_world \<Rightarrow> 'm session \<times> ('c, 's, 'w) session_world" where
  "rebind_loop iface reason replacements sx = fold (rebind_one iface reason) replacements sx"

text \<open>The three calls of the module host, each with its report and its event.\<close>

definition pause_modules ::
    "('m, 'c, 's, 'w) session_env \<Rightarrow> reconnect_options \<Rightarrow> 'm session \<times> ('c, 's, 'w) session_world \<Rightarrow>
     'm session \<times> ('c, 's, 'w) session_world" where
  "pause_modules env options = (\<lambda>(s, x).
    let (paused, x') = (case se_host s of
          None \<Rightarrow> ([], x)
        | Some h \<Rightarrow> pauseRunningModulesForReconnect (session_host_env env (se_policy s)) options h x);
        sx = update_report (\<lambda>r. r\<lparr>rep_pausedModules := paused\<rparr>) (s, x')
    in publishing ''module.reconnect_paused'' (decimal (length paused) @ '' modules paused'') sx)"

definition replay_modules ::
    "('m, 'c, 's, 'w) session_env \<Rightarrow> reconnect_options \<Rightarrow> 'm session \<times> ('c, 's, 'w) session_world \<Rightarrow>
     'm session \<times> ('c, 's, 'w) session_world" where
  "replay_modules env options = (\<lambda>(s, x).
    let (replayed, host, x') = (case se_host s of
          None \<Rightarrow> ([], None, x)
        | Some h \<Rightarrow>
            let (reports, h', x') =
              replayRunningModuleIngressForReconnect (session_host_env env (se_policy s)) options h x
            in (reports, Some h', x'));
        replayOk = list_all irr_replayed replayed;
        sx = update_report (\<lambda>r. r\<lparr>rep_replayedIngress := replayed,
               rep_ok := rep_ok r \<and> replayOk\<rparr>) (s\<lparr>se_host := host\<rparr>, x')
    in publishing (if replayOk then ''module.ingress_replayed'' else ''module.ingress_replay_failed'')
         (decimal (length replayed) @ '' module ingress routes replayed'') sx)"

definition resume_modules ::
    "('m, 'c, 's, 'w) session_env \<Rightarrow> reconnect_options \<Rightarrow> 'm session \<times> ('c, 's, 'w) session_world \<Rightarrow>
     'm session \<times> ('c, 's, 'w) session_world" where
  "resume_modules env options = (\<lambda>(s, x).
    let (resumed, x') = (case se_host s of
          None \<Rightarrow> ([], x)
        | Some h \<Rightarrow> resumeRunningModulesAfterReconnect (session_host_env env (se_policy s)) options h x);
        sx = update_report (\<lambda>r. r\<lparr>rep_resumedModules := resumed\<rparr>) (s, x')
    in publishing ''module.reconnect_resumed'' (decimal (length resumed) @ '' modules resumed'') sx)"

definition begin_report :: "'c reconnect_request \<Rightarrow> 'm session \<Rightarrow> 'm session" where
  "begin_report request s =
    (let count = cx_reconnectCount (se_context s) + 1
     in s\<lparr>se_context := (se_context s)\<lparr>cx_reconnectCount := count\<rparr>,
          se_lastReconnect := default_reconnect_report\<lparr>
            rep_attempted := True, rep_ok := True, rep_reconnectCount := count,
            rep_reason := rc_reason request,
            rep_requestedFreshState := rc_requestDisplayKeyframe request\<rparr>\<rparr>)"

text \<open>\<open>reconnect\<close> after its guard.\<close>

definition reconnect_body ::
    "('m, 'c, 's, 'w) session_env \<Rightarrow> 'c reconnect_request \<Rightarrow>
     'm session \<times> ('c, 's, 'w) session_world \<Rightarrow> 'm session \<times> ('c, 's, 'w) session_world" where
  "reconnect_body env request sx =
    (let reason = rc_reason request;
         sx = (begin_report request (fst sx), snd sx);
         sx = transition ST_Reconnecting (reason_or ''reconnecting'' reason) sx;
         sx = publishing ''network.reconnect_started'' reason sx;
         sx = degrade_loop reason (rc_degradedChannels request) sx;
         options = \<lparr>ro_reason = reason,
           ro_affectedChannels =
             affectedReconnectChannels (sv_channels env) (sw_rest (snd sx)) request,
           ro_reconnectCount = cx_reconnectCount (se_context (fst sx)),
           ro_requestFreshState = rc_requestDisplayKeyframe request\<rparr>;
         sx = transition ST_Draining ''draining for reconnect'' sx;
         sx = pause_modules env options sx;
         sx = rebind_loop (sv_channels env) reason (rc_replacementChannels request) sx;
         sx = replay_modules env options sx;
         sx = (if rc_requestDisplayKeyframe request
               then publishing ''display.keyframe_requested'' (reason_or ''reconnect'' reason) sx
               else sx);
         sx = transition ST_NetworkReady ''network rebound'' sx;
         sx = resume_modules env options sx;
         sx = publishing ''network.reconnect_finished''
           (if rep_ok (se_lastReconnect (fst sx)) then ''reconnect finished''
            else ''reconnect finished with errors'') sx
     in transition ST_Running ''session resumed'' sx)"

definition session_reconnect ::
    "('m, 'c, 's, 'w) session_env \<Rightarrow> 'c reconnect_request \<Rightarrow>
     'm session \<times> ('c, 's, 'w) session_world \<Rightarrow> bool \<times> 'm session \<times> ('c, 's, 'w) session_world" where
  "session_reconnect env request sx =
    (if se_state (fst sx) \<noteq> ST_Running \<and> se_state (fst sx) \<noteq> ST_NetworkReady then (False, sx)
     else
       let sx = reconnect_body env request sx
       in (rep_ok (se_lastReconnect (fst sx)), sx))"

section \<open>stop and the rest\<close>

definition session_stop ::
    "('m, 'c, 's, 'w) session_env \<Rightarrow> string \<Rightarrow> 'm session \<times> ('c, 's, 'w) session_world \<Rightarrow>
     'm session \<times> ('c, 's, 'w) session_world" where
  "session_stop env reason = (\<lambda>(s, x).
    if se_state s = ST_Stopped then (s, x)
    else
      let (s, x) = transition ST_Stopping (reason_or ''stopping session'' reason) (s, x);
          (host, x) = (case se_host s of
              None \<Rightarrow> (None, x)
            | Some h \<Rightarrow>
                let (h', x') = stopAll (session_host_env env (se_policy s))
                      \<lparr>op_force = True, op_reason = reason\<rparr> h x
                in (Some h', x'))
      in transition ST_Stopped ''session stopped'' (s\<lparr>se_host := host\<rparr>, x))"

definition updateRemoteModuleInventory ::
    "session_id \<Rightarrow> module_manifest list \<Rightarrow> 'm session \<times> ('c, 's, 'w) session_world \<Rightarrow>
     'm session \<times> ('c, 's, 'w) session_world" where
  "updateRemoteModuleInventory peerSessionId manifests = (\<lambda>(s, x).
     publishing ''module.remote_inventory_updated''
       (decimal (length manifests) @ '' remote modules'')
       (s\<lparr>se_inventory := \<lparr>inv_peerSessionId = peerSessionId, inv_manifests = manifests\<rparr>\<rparr>, x))"

definition session_take_snapshot ::
    "('m, 'c, 's, 'w) session_env \<Rightarrow> 'm session \<Rightarrow> ('c, 's, 'w) session_world \<Rightarrow> session_snapshot" where
  "session_take_snapshot env s x = \<lparr>
     sn_context = se_context s, sn_state = se_state s,
     sn_diagnosticsCount = (case sw_sink x of None \<Rightarrow> 0
       | Some sink \<Rightarrow> length (eventsForSession (cx_sessionId (se_context s)) sink)),
     sn_moduleSnapshots = (case se_host s of None \<Rightarrow> []
       | Some h \<Rightarrow> host_snapshots (session_host_env env (se_policy s)) x h),
     sn_remoteModuleInventory = se_inventory s, sn_lastReconnect = se_lastReconnect s\<rparr>"

section \<open>The state machine\<close>

text \<open>The changes of state the calls of \<open>transition\<close> make.\<close>

inductive lifecycle :: "session_state \<Rightarrow> session_state \<Rightarrow> bool" where
  authorizing: "lifecycle ST_Created ST_Authorizing"
| authorized: "lifecycle ST_Authorizing ST_Authorized"
| connecting: "lifecycle ST_Authorized ST_Connecting"
| network_ready: "lifecycle ST_Connecting ST_NetworkReady"
| mounting: "lifecycle ST_NetworkReady ST_MountingModules"
| running: "lifecycle ST_MountingModules ST_Running"
| reconnecting: "state \<in> {ST_Running, ST_NetworkReady} \<Longrightarrow> lifecycle state ST_Reconnecting"
| draining: "lifecycle ST_Reconnecting ST_Draining"
| rebound: "lifecycle ST_Draining ST_NetworkReady"
| resumed: "lifecycle ST_NetworkReady ST_Running"
| stopping: "state \<noteq> ST_Stopped \<Longrightarrow> lifecycle state ST_Stopping"
| stopped: "lifecycle ST_Stopping ST_Stopped"

inductive_cases lifecycle_from_stopped: "lifecycle ST_Stopped state"
inductive_cases lifecycle_to_failed: "lifecycle state ST_Failed"
inductive_simps lifecycle_to_created: "lifecycle state ST_Created"

lemma lifecycle_stopped: "lifecycle\<^sup>*\<^sup>* a b \<Longrightarrow> a = ST_Stopped \<Longrightarrow> b = ST_Stopped \<or> b = ST_Stopping"
  by (induction rule: rtranclp_induct) (auto elim: lifecycle.cases)

lemma lifecycle_never_failed: "lifecycle\<^sup>*\<^sup>* a b \<Longrightarrow> a \<noteq> ST_Failed \<Longrightarrow> b \<noteq> ST_Failed"
  by (induction rule: rtranclp_induct) (auto elim: lifecycle_to_failed)

lemma lifecycle_created: "lifecycle\<^sup>*\<^sup>* a ST_Created \<Longrightarrow> a = ST_Created"
  by (erule rtranclp.cases) (auto simp: lifecycle_to_created)

section \<open>The operations as steps\<close>

text \<open>\<open>publish\<close> changes nothing but the sink.\<close>

lemma publish_world [simp]:
  "sw_network (publish code message s x) = sw_network x"
  "sw_rest (publish code message s x) = sw_rest x"
  "publish code message (s\<lparr>se_lastReconnect := report\<rparr>) x = publish code message s x"
  "publish code message (s\<lparr>se_host := host\<rparr>) x = publish code message s x"
  "publish code message (s\<lparr>se_state := st\<rparr>) x = publish code message s x"
  by (simp_all add: publish_def split: option.split)

lemma fst_publishing [simp]: "fst (publishing code message sx) = fst sx"
  by (simp add: publishing_def split_beta)

lemma fst_transition [simp]: "fst (transition st message sx) = (fst sx)\<lparr>se_state := st\<rparr>"
  by (simp add: transition_def split_beta Let_def)

lemma snd_world [simp]:
  "sw_network (snd (publishing code message sx)) = sw_network (snd sx)"
  "sw_network (snd (transition st message sx)) = sw_network (snd sx)"
  "sw_rest (snd (publishing code message sx)) = sw_rest (snd sx)"
  "sw_rest (snd (transition st message sx)) = sw_rest (snd sx)"
  by (simp_all add: publishing_def transition_def split_beta Let_def)

lemma update_report_state [simp]:
  "se_state (fst (update_report f sx)) = se_state (fst sx)"
  "se_context (fst (update_report f sx)) = se_context (fst sx)"
  "se_policy (fst (update_report f sx)) = se_policy (fst sx)"
  "se_host (fst (update_report f sx)) = se_host (fst sx)"
  "se_lastReconnect (fst (update_report f sx)) = f (se_lastReconnect (fst sx))"
  "snd (update_report f sx) = snd sx"
  by (simp_all add: update_report_def split_beta)

definition authorized_features :: "policy_interface option \<Rightarrow> session_context \<Rightarrow> feature_set" where
  "authorized_features policy ctx =
    (case policy of
       None \<Rightarrow> cx_requestedFeatures ctx
     | Some engine \<Rightarrow> pi_authorizeFeatures engine (default_policy_context\<lparr>
         px_session := ctx,
         px_principal := \<lparr>pn_userId = cx_userId ctx, pn_tenantId = cx_tenantId ctx, pn_roles = []\<rparr>,
         px_localDevice := default_device\<lparr>dv_deviceId := cx_clientDeviceId ctx,
           dv_platform := cx_localPlatform ctx\<rparr>,
         px_remoteDevice := default_device\<lparr>dv_deviceId := cx_agentDeviceId ctx,
           dv_platform := cx_remotePlatform ctx\<rparr>\<rparr>) (cx_requestedFeatures ctx))"

lemma fst_authorize [simp]:
  "fst (authorize sx) = (fst sx)\<lparr>se_context := (se_context (fst sx))\<lparr>
     cx_allowedFeatures := authorized_features (se_policy (fst sx)) (se_context (fst sx))\<rparr>\<rparr>"
  by (simp add: authorize_def split_beta Let_def authorized_features_def publishing_def
      split: option.split)

lemma world_authorize [simp]:
  "sw_network (snd (authorize sx)) = sw_network (snd sx)"
  "sw_rest (snd (authorize sx)) = sw_rest (snd sx)"
  by (simp_all add: authorize_def split_beta Let_def)

lemma fst_createModuleHost [simp]:
  "fst (createModuleHost sx) =
     (if sw_network (snd sx) = None then fst sx
      else (fst sx)\<lparr>se_host := Some (new_host (se_context (fst sx)))\<rparr>)"
  by (simp add: createModuleHost_def split_beta split: option.split)

lemma snd_createModuleHost [simp]: "snd (createModuleHost sx) = snd sx"
  by (simp add: createModuleHost_def split_beta split: option.split)

lemma session_start_refused:
  "se_state (fst sx) \<noteq> ST_Created \<Longrightarrow> session_start sx = (False, sx)"
  by (simp add: session_start_def)

lemma session_start_runs:
  assumes "se_state s = ST_Created" and "session_start (s, x) = (ok, s', x')"
  shows "ok \<and> se_state s' = ST_Running \<and> sw_network x' = sw_network x \<and> sw_rest x' = sw_rest x \<and>
    se_context s' = (se_context s)\<lparr>
      cx_allowedFeatures := authorized_features (se_policy s) (se_context s)\<rparr> \<and>
    se_host s' = (if sw_network x = None then se_host s else Some (new_host (se_context s')))"
proof -
  have "s' = fst (snd (session_start (s, x)))" "x' = snd (snd (session_start (s, x)))"
    "ok = fst (session_start (s, x))"
    using assms(2) by simp_all
  then show ?thesis using assms(1) by (simp add: session_start_def Let_def)
qed

lemma session_reconnect_refused:
  "se_state s \<notin> {ST_Running, ST_NetworkReady} \<Longrightarrow>
     session_reconnect env request (s, x) = (False, s, x)"
  by (simp add: session_reconnect_def)

lemma reconnect_body_state [simp]: "se_state (fst (reconnect_body env request sx)) = ST_Running"
  by (simp add: reconnect_body_def Let_def)

lemma session_reconnect_runs:
  "se_state s \<in> {ST_Running, ST_NetworkReady} \<Longrightarrow>
     se_state (fst (snd (session_reconnect env request (s, x)))) = ST_Running"
  by (auto simp: session_reconnect_def Let_def)

lemma session_stop_stops: "se_state (fst (session_stop env reason (s, x))) = ST_Stopped"
  by (simp add: session_stop_def Let_def split_beta)

lemma session_stop_again: "se_state s = ST_Stopped \<Longrightarrow> session_stop env reason (s, x) = (s, x)"
  by (simp add: session_stop_def)

section \<open>The reconnect report\<close>

text \<open>The verdict of a report is that every part of it succeeded.\<close>

definition report_sound :: "reconnect_report \<Rightarrow> bool" where
  "report_sound r \<longleftrightarrow>
     (rep_ok r \<longleftrightarrow> list_all rcr_ok (rep_degradedChannels r) \<and>
        list_all rcr_ok (rep_reboundChannels r) \<and> list_all irr_replayed (rep_replayedIngress r))"

text \<open>What the reconnect loops keep: the report stays sound and its replay part unchanged.\<close>

definition report_ready :: "'m session \<times> ('c, 's, 'w) session_world \<Rightarrow> bool" where
  "report_ready sx \<longleftrightarrow> report_sound (se_lastReconnect (fst sx)) \<and>
     rep_replayedIngress (se_lastReconnect (fst sx)) = []"

lemma degrade_one_ready: "report_ready sx \<Longrightarrow> report_ready (degrade_one reason key sx)"
  by (cases sx) (auto simp: degrade_one_def Let_def split_beta report_ready_def report_sound_def
      makeChannelReport_def split: option.split)

lemma rebind_one_ready: "report_ready sx \<Longrightarrow> report_ready (rebind_one iface reason r sx)"
  by (cases sx) (auto simp: rebind_one_def Let_def split_beta report_ready_def report_sound_def
      makeChannelReport_def split: option.split)

interpretation degrade: kept_by_steps "degrade_one reason" report_ready for reason
  by unfold_locales (rule degrade_one_ready)

interpretation rebind: kept_by_steps "rebind_one iface reason" report_ready for iface reason
  by unfold_locales (rule rebind_one_ready)

lemma degrade_loop_ready: "report_ready sx \<Longrightarrow> report_ready (degrade_loop reason keys sx)"
  unfolding degrade_loop_def by (rule degrade.run_keeps)

lemma rebind_loop_ready: "report_ready sx \<Longrightarrow> report_ready (rebind_loop iface reason rs sx)"
  unfolding rebind_loop_def by (rule rebind.run_keeps)

lemma pause_modules_report:
  "\<exists>paused. se_lastReconnect (fst (pause_modules env options sx)) =
     (se_lastReconnect (fst sx))\<lparr>rep_pausedModules := paused\<rparr>"
  by (auto simp: pause_modules_def split_beta Let_def split: option.split)

lemma resume_modules_report:
  "\<exists>resumed. se_lastReconnect (fst (resume_modules env options sx)) =
     (se_lastReconnect (fst sx))\<lparr>rep_resumedModules := resumed\<rparr>"
  by (auto simp: resume_modules_def split_beta Let_def split: option.split)

lemma replay_modules_sound:
  "report_ready sx \<Longrightarrow> report_sound (se_lastReconnect (fst (replay_modules env options sx)))"
  by (auto simp: replay_modules_def split_beta Let_def report_sound_def report_ready_def
      split: option.split)

lemma report_ready_steps [simp]:
  "report_ready (publishing code message sx) = report_ready sx"
  "report_ready (transition st message sx) = report_ready sx"
  by (simp_all add: report_ready_def)

lemma report_sound_updates [simp]:
  "report_sound (r\<lparr>rep_pausedModules := p\<rparr>) = report_sound r"
  "report_sound (r\<lparr>rep_resumedModules := p\<rparr>) = report_sound r"
  by (simp_all add: report_sound_def)

lemma pause_modules_ready [simp]: "report_ready (pause_modules env options sx) = report_ready sx"
  using pause_modules_report [of env options sx] by (auto simp: report_ready_def)

lemma resume_modules_sound [simp]:
  "report_sound (se_lastReconnect (fst (resume_modules env options sx))) =
     report_sound (se_lastReconnect (fst sx))"
  using resume_modules_report [of env options sx] by auto

lemma reconnect_body_report: "report_sound (se_lastReconnect (fst (reconnect_body env request sx)))"
proof -
  have ready: "report_ready (begin_report request (fst sx), snd sx)"
    by (simp add: begin_report_def Let_def report_ready_def report_sound_def
        default_reconnect_report_def)
  then show ?thesis
    by (simp add: reconnect_body_def Let_def degrade_loop_ready rebind_loop_ready
        replay_modules_sound)
qed

lemma session_reconnect_report:
  assumes "se_state s \<in> {ST_Running, ST_NetworkReady}"
    and "session_reconnect env request (s, x) = (ok, s', x')"
  shows "report_sound (se_lastReconnect s') \<and> ok = rep_ok (se_lastReconnect s')"
proof -
  have "(s', x') = reconnect_body env request (s, x)" "ok = rep_ok (se_lastReconnect s')"
    using assms by (auto simp: session_reconnect_def Let_def)
  then show ?thesis using reconnect_body_report [of env request "(s, x)"] by (metis fst_conv)
qed

section \<open>Sequences of operations\<close>

datatype ('c) session_op =
    SessionStart
  | SessionReconnect "'c reconnect_request"
  | SessionStop string
  | SessionInventory session_id "module_manifest list"

fun session_apply ::
    "('m, 'c, 's, 'w) session_env \<Rightarrow> 'c session_op \<Rightarrow> 'm session \<times> ('c, 's, 'w) session_world \<Rightarrow>
     'm session \<times> ('c, 's, 'w) session_world" where
  "session_apply env SessionStart sx = snd (session_start sx)"
| "session_apply env (SessionReconnect request) sx = snd (session_reconnect env request sx)"
| "session_apply env (SessionStop reason) sx = session_stop env reason sx"
| "session_apply env (SessionInventory peer manifests) sx =
     updateRemoteModuleInventory peer manifests sx"

text \<open>The states a caller can observe between two operations.\<close>

definition session_settled :: "'m session \<Rightarrow> bool" where
  "session_settled s \<longleftrightarrow> se_state s \<in> {ST_Created, ST_Running, ST_Stopped}"

lemma session_apply_state:
  "se_state (fst (session_apply env op sx)) =
    (case op of
       SessionStart \<Rightarrow> if se_state (fst sx) = ST_Created then ST_Running else se_state (fst sx)
     | SessionReconnect request \<Rightarrow>
         if se_state (fst sx) \<in> {ST_Running, ST_NetworkReady} then ST_Running else se_state (fst sx)
     | SessionStop reason \<Rightarrow> ST_Stopped
     | SessionInventory peer manifests \<Rightarrow> se_state (fst sx))"
proof (cases sx)
  case (Pair s x)
  have start: "se_state (fst (snd (session_start (s, x)))) = ST_Running" if "se_state s = ST_Created"
    using session_start_runs [OF that, of x] by (metis prod.collapse)
  show ?thesis
    using start session_stop_stops [of env _ s x]
    by (cases op)
      (auto simp: Pair session_start_refused session_reconnect_def updateRemoteModuleInventory_def
        Let_def)
qed

lemma session_apply_settled:
  "session_settled (fst sx) \<Longrightarrow> session_settled (fst (session_apply env op sx))"
  by (auto simp: session_settled_def session_apply_state split: session_op.splits)

lemma session_apply_stopped:
  "se_state (fst sx) = ST_Stopped \<Longrightarrow> se_state (fst (session_apply env op sx)) = ST_Stopped"
  by (auto simp: session_apply_state split: session_op.splits)

interpretation settled: kept_by_steps "session_apply env" "\<lambda>sx. session_settled (fst sx)" for env
  by unfold_locales (rule session_apply_settled)

interpretation ended: kept_by_steps "session_apply env" "\<lambda>sx. se_state (fst sx) = ST_Stopped" for env
  by unfold_locales (rule session_apply_stopped)

section \<open>The events of a start\<close>

text \<open>
  The events a start publishes: one per call of \<open>transition\<close>, with the state's name, and one
  for the authorisation.
\<close>

definition start_path :: "session_state list" where
  "start_path = [ST_Authorizing, ST_Authorized, ST_Connecting, ST_NetworkReady, ST_MountingModules,
     ST_Running]"

definition start_events :: "session_context \<Rightarrow> diagnostic_event list" where
  "start_events ctx = map (\<lambda>(code, message). session_event ctx code message)
    [(''session.state_changed'', ''Authorizing: authorizing features''),
     (''policy.features_authorized'', ''features authorized''),
     (''session.state_changed'', ''Authorized: features authorized''),
     (''session.state_changed'', ''Connecting: creating network context''),
     (''session.state_changed'', ''NetworkReady: network manager ready''),
     (''session.state_changed'', ''MountingModules: creating module host''),
     (''session.state_changed'', ''Running: session running'')]"

lemma start_path_lifecycle: "successively lifecycle (ST_Created # start_path)"
  by (simp add: start_path_def lifecycle.intros)

definition log_events :: "diagnostic_event list \<Rightarrow> ('c, 's, 'w) session_world \<Rightarrow> ('c, 's, 'w) session_world" where
  "log_events events x = x\<lparr>sw_sink := map_option (\<lambda>sink. sink @ events) (sw_sink x)\<rparr>"

lemma publish_log: "publish code message s x = log_events [session_event (se_context s) code message] x"
  by (cases x; cases "sw_sink x") (simp_all add: publish_def log_events_def sink_publish_def)

lemma log_events_log [simp]: "log_events b (log_events a x) = log_events (a @ b) x"
  by (cases "sw_sink x") (simp_all add: log_events_def)

lemma session_event_allowed [simp]:
  "session_event (ctx\<lparr>cx_allowedFeatures := f\<rparr>) = session_event ctx"
  by (simp add: fun_eq_iff session_event_def)

lemma snd_transition: "snd (transition st message sx) = log_events
    [session_event (se_context (fst sx)) ''session.state_changed'' (stateName st @ '': '' @ message)]
    (snd sx)"
  by (simp add: transition_def split_beta Let_def publish_log)

lemma snd_authorize: "snd (authorize sx) = log_events
    [session_event (se_context (fst sx)) ''policy.features_authorized'' ''features authorized'']
    (snd sx)"
  by (simp add: authorize_def split_beta Let_def publishing_def publish_log)

lemma session_start_events:
  assumes "se_state s = ST_Created"
  shows "snd (snd (session_start (s, x))) = log_events (start_events (se_context s)) x"
proof -
  have "snd (snd (session_start (s, x))) =
      snd (transition ST_Running ''session running'' (createModuleHost
        (transition ST_MountingModules ''creating module host''
        (transition ST_NetworkReady ''network manager ready''
        (transition ST_Connecting ''creating network context''
        (transition ST_Authorized ''features authorized''
        (authorize (transition ST_Authorizing ''authorizing features'' (s, x)))))))))"
    using assms by (simp add: session_start_def Let_def)
  then show ?thesis by (simp add: snd_transition snd_authorize start_events_def)
qed

lemma events_of_session:
  "sw_sink (log_events (start_events ctx) x) = Some sink \<Longrightarrow>
     \<exists>before. sw_sink x = Some before \<and>
       eventsForSession sessionId sink = eventsForSession sessionId before @
         (if cx_sessionId ctx = sessionId then start_events ctx else [])"
  by (auto simp: log_events_def start_events_def session_event_def)

section \<open>The channels a reconnect degrades\<close>

definition degraded_keys :: "'m session \<times> ('c, 's, 'w) session_world \<Rightarrow> channel_key list" where
  "degraded_keys sx = map rcr_key (rep_degradedChannels (se_lastReconnect (fst sx)))"

lemma degrade_one_keys:
  "sw_network (snd sx) \<noteq> None \<Longrightarrow>
     degraded_keys (degrade_one reason key sx) = degraded_keys sx @ [key] \<and>
     sw_network (snd (degrade_one reason key sx)) \<noteq> None"
  by (cases sx) (auto simp: degrade_one_def degraded_keys_def makeChannelReport_def Let_def split_beta)

lemma degrade_loop_keys:
  "sw_network (snd sx) \<noteq> None \<Longrightarrow>
     degraded_keys (degrade_loop reason keys sx) = degraded_keys sx @ keys"
  unfolding degrade_loop_def
proof (induction keys arbitrary: sx)
  case (Cons key keys)
  from degrade_one_keys [OF Cons.prems, of reason key] Cons.IH [of "degrade_one reason key sx"]
  show ?case by simp
qed simp

lemma rebind_one_keys: "degraded_keys (rebind_one iface reason r sx) = degraded_keys sx"
  by (cases sx) (simp add: rebind_one_def degraded_keys_def Let_def split_beta split: option.split)

lemma degraded_keys_steps [simp]:
  "degraded_keys (publishing code message sx) = degraded_keys sx"
  "degraded_keys (transition st message sx) = degraded_keys sx"
  "degraded_keys (pause_modules env options sx) = degraded_keys sx"
  "degraded_keys (resume_modules env options sx) = degraded_keys sx"
  "degraded_keys (rebind_loop iface reason rs sx) = degraded_keys sx"
  "degraded_keys (replay_modules env options sx) = degraded_keys sx"
proof -
  show "degraded_keys (rebind_loop iface reason rs sx) = degraded_keys sx"
    unfolding rebind_loop_def by (induction rs arbitrary: sx) (simp_all add: rebind_one_keys)
qed (use pause_modules_report [of env options sx] resume_modules_report [of env options sx] in
  \<open>auto simp: degraded_keys_def replay_modules_def split_beta Let_def split: option.split\<close>)

lemma reconnect_body_keys:
  assumes "sw_network x \<noteq> None"
  shows "degraded_keys (reconnect_body env request (s, x)) = rc_degradedChannels request"
proof -
  have fresh: "degraded_keys (begin_report request s, x) = []"
    by (simp add: begin_report_def Let_def degraded_keys_def default_reconnect_report_def)
  have "degraded_keys (degrade_loop reason keys (publishing code info
      (transition st msg (begin_report request s, x)))) = keys" for reason keys code info st msg
    using assms by (subst degrade_loop_keys) (simp_all add: fresh)
  then show ?thesis by (simp add: reconnect_body_def Let_def)
qed

lemma session_start_result:
  assumes "se_state s = ST_Created"
  shows "session_start (s, x) = (True, s\<lparr>se_state := ST_Running,
             se_context := (se_context s)\<lparr>cx_allowedFeatures :=
               authorized_features (se_policy s) (se_context s)\<rparr>,
             se_host := (if sw_network x = None then se_host s
               else Some (new_host ((se_context s)\<lparr>cx_allowedFeatures :=
                 authorized_features (se_policy s) (se_context s)\<rparr>)))\<rparr>,
           log_events (start_events (se_context s)) x)"
  using session_start_events [OF assms, of x] assms
  by (simp add: session_start_def Let_def prod_eq_iff)

section \<open>What a session logs and keeps\<close>

text \<open>
  The state changes of a session as a reader of its diagnostics sees them: each event
  \<open>session.state_changed\<close> begins with the name of the state entered. \<open>logs_walk\<close> says that the events
  of that code name, one for one, the states of a walk through the life cycle.
\<close>

definition names_state :: "session_state \<Rightarrow> diagnostic_event \<Rightarrow> bool" where
  "names_state st e \<longleftrightarrow>
     take (length (stateName st @ '': '')) (ev_message e) = stateName st @ '': ''"

definition state_changes :: "diagnostic_event list \<Rightarrow> diagnostic_event list" where
  "state_changes events = filter (\<lambda>e. ev_code e = ''session.state_changed'') events"

definition logs_walk :: "session_state \<Rightarrow> diagnostic_event list \<Rightarrow> session_state \<Rightarrow> bool" where
  "logs_walk a events b \<longleftrightarrow> (\<exists>states. list_all2 names_state states (state_changes events) \<and>
     successively lifecycle (a # states) \<and> last (a # states) = b)"

lemma logs_walk_Nil [simp]: "logs_walk a [] a"
  by (auto simp: logs_walk_def state_changes_def)

lemma logs_walk_append:
  assumes "logs_walk a xs b" and "logs_walk b ys c"
  shows "logs_walk a (xs @ ys) c"
proof -
  from assms(1) obtain first where first: "list_all2 names_state first (state_changes xs)"
    "successively lifecycle (a # first)" "last (a # first) = b"
    by (auto simp: logs_walk_def)
  from assms(2) obtain second where second: "list_all2 names_state second (state_changes ys)"
    "successively lifecycle (b # second)" "last (b # second) = c"
    by (auto simp: logs_walk_def)
  have "successively lifecycle ((a # first) @ second)"
    using first(2,3) second(2) unfolding successively_append_iff
    by (cases second) auto
  moreover have "last (a # first @ second) = c"
    using first(3) second(3) by (cases second) (auto split: if_splits)
  ultimately show ?thesis
    using list_all2_appendI [OF first(1) second(1)]
    by (auto simp: logs_walk_def state_changes_def intro!: exI [of _ "first @ second"])
qed

lemma logs_walk_event:
  "code \<noteq> ''session.state_changed'' \<Longrightarrow> logs_walk a [session_event ctx code message] a"
  by (auto simp: logs_walk_def state_changes_def session_event_def)

lemma logs_walk_change:
  "lifecycle a b \<Longrightarrow> logs_walk a
     [session_event ctx ''session.state_changed'' (stateName b @ '': '' @ message)] b"
  by (auto simp: logs_walk_def state_changes_def session_event_def names_state_def
      intro!: exI [of _ "[b]"])

text \<open>What a session keeps: its context but for the reconnect counter, its policy and its host.\<close>

definition session_kept :: "'m session \<Rightarrow> 'm session \<Rightarrow> bool" where
  "session_kept s s' \<longleftrightarrow>
     (se_context s')\<lparr>cx_reconnectCount := 0\<rparr> = (se_context s)\<lparr>cx_reconnectCount := 0\<rparr> \<and>
     se_policy s' = se_policy s \<and> se_host s' = se_host s"

text \<open>
  What it logs: the world differs only in the network and in the events appended to the sink, which walk
  through the life cycle from the one state to the other.
\<close>

definition session_logs ::
    "'m session \<times> ('c, 's, 'w) session_world \<Rightarrow> 'm session \<times> ('c, 's, 'w) session_world \<Rightarrow> bool" where
  "session_logs sx sx' \<longleftrightarrow>
     (\<exists>events. snd sx' = snd sx\<lparr>sw_network := sw_network (snd sx'),
        sw_sink := map_option (\<lambda>sink. sink @ events) (sw_sink (snd sx))\<rparr> \<and>
      logs_walk (se_state (fst sx)) events (se_state (fst sx')))"

lemma session_logs_trans:
  assumes "session_logs a b" and "session_logs b c"
  shows "session_logs a c"
proof -
  from assms(1) obtain first where first: "snd b = snd a\<lparr>sw_network := sw_network (snd b),
      sw_sink := map_option (\<lambda>sink. sink @ first) (sw_sink (snd a))\<rparr>"
    "logs_walk (se_state (fst a)) first (se_state (fst b))" by (auto simp: session_logs_def)
  from assms(2) obtain second where second: "snd c = snd b\<lparr>sw_network := sw_network (snd c),
      sw_sink := map_option (\<lambda>sink. sink @ second) (sw_sink (snd b))\<rparr>"
    "logs_walk (se_state (fst b)) second (se_state (fst c))" by (auto simp: session_logs_def)
  have "sw_sink (snd b) = map_option (\<lambda>sink. sink @ first) (sw_sink (snd a))"
    by (subst first(1)) simp
  then have "snd c = snd a\<lparr>sw_network := sw_network (snd c),
      sw_sink := map_option (\<lambda>sink. sink @ first @ second) (sw_sink (snd a))\<rparr>"
    by (subst second(1), subst first(1)) (simp add: option.map_comp comp_def)
  then show ?thesis
    using logs_walk_append [OF first(2) second(2)] by (auto simp: session_logs_def)
qed

lemma session_logs_sink:
  assumes "session_logs sx sx'"
  obtains events where "sw_sink (snd sx') = map_option (\<lambda>sink. sink @ events) (sw_sink (snd sx))"
    and "logs_walk (se_state (fst sx)) events (se_state (fst sx'))"
proof -
  from assms obtain events where events: "snd sx' = snd sx\<lparr>sw_network := sw_network (snd sx'),
      sw_sink := map_option (\<lambda>sink. sink @ events) (sw_sink (snd sx))\<rparr>"
    "logs_walk (se_state (fst sx)) events (se_state (fst sx'))"
    unfolding session_logs_def by blast
  have "sw_sink (snd sx') = map_option (\<lambda>sink. sink @ events) (sw_sink (snd sx))"
    by (subst events(1)) simp
  with events(2) show thesis by (rule that [rotated])
qed

lemma session_logs_events:
  assumes "snd sx' = log_events events (snd sx)"
    and "logs_walk (se_state (fst sx)) events (se_state (fst sx'))"
  shows "session_logs sx sx'"
  using assms by (auto simp: session_logs_def log_events_def intro!: exI [of _ events])

lemma session_logs_silent:
  "se_state s' = se_state (fst sx) \<Longrightarrow> session_logs sx (s', snd sx\<lparr>sw_network := network\<rparr>)"
  by (auto simp: session_logs_def option.map_id0 [unfolded id_def] intro!: exI [of _ "[]"])

definition session_moves ::
    "'m session \<times> ('c, 's, 'w) session_world \<Rightarrow> 'm session \<times> ('c, 's, 'w) session_world \<Rightarrow> bool" where
  "session_moves sx sx' \<longleftrightarrow> session_kept (fst sx) (fst sx') \<and>
     session_logs sx sx'"

lemma session_moves_refl: "session_moves sx sx"
  using session_logs_silent [of "fst sx" sx "sw_network (snd sx)"]
  by (simp add: session_moves_def session_kept_def)

lemma session_moves_trans: "session_moves a b \<Longrightarrow> session_moves b c \<Longrightarrow> session_moves a c"
  using session_logs_trans [of a b c] by (auto simp: session_moves_def session_kept_def)

lemma session_moves_publishing:
  assumes "session_moves a sx" and "code \<noteq> ''session.state_changed''"
  shows "session_moves a (publishing code message sx)"
proof (rule session_moves_trans [OF assms(1)])
  have "snd (publishing code message sx) =
      log_events [session_event (se_context (fst sx)) code message] (snd sx)"
    by (simp add: publishing_def split_beta publish_log)
  from session_logs_events [OF this] show "session_moves sx (publishing code message sx)"
    using logs_walk_event [OF assms(2)] by (simp add: session_moves_def session_kept_def)
qed

lemma session_moves_transition:
  assumes "session_moves a sx" and "lifecycle (se_state (fst sx)) st"
  shows "session_moves a (transition st message sx)"
  by (rule session_moves_trans [OF assms(1)])
    (use session_logs_events [OF snd_transition, of sx st message]
        logs_walk_change [OF assms(2), of "se_context (fst sx)" message] in
      \<open>simp add: session_moves_def session_kept_def\<close>)

text \<open>A step that changes neither the log nor the state.\<close>

lemma session_moves_silent:
  assumes "session_moves a sx" and "session_kept (fst sx) s'" and "se_state s' = se_state (fst sx)"
  shows "session_moves a (s', snd sx\<lparr>sw_network := network\<rparr>)"
  by (rule session_moves_trans [OF assms(1)])
    (simp add: session_moves_def assms(2) session_logs_silent [OF assms(3)])

lemma session_moves_report:
  assumes "session_moves a sx"
  shows "session_moves a (update_report f (fst sx, snd sx\<lparr>sw_network := network\<rparr>))"
  using session_moves_silent [OF assms, of "(fst sx)\<lparr>se_lastReconnect := f (se_lastReconnect (fst sx))\<rparr>"
      network]
  by (simp add: update_report_def session_kept_def)

lemma session_moves_degrade:
  assumes "session_moves a sx"
  shows "session_moves a (degrade_one reason key sx)"
  using assms session_moves_report [OF assms]
  by (cases sx)
    (auto simp: degrade_one_def Let_def split_beta intro!: session_moves_publishing split: option.split)

lemma session_moves_rebind:
  assumes "session_moves a sx"
  shows "session_moves a (rebind_one iface reason r sx)"
  using assms session_moves_report [OF assms]
  by (cases sx)
    (auto simp: rebind_one_def Let_def split_beta intro!: session_moves_publishing split: option.split)

interpretation degrade_moves: kept_by_steps "degrade_one reason" "session_moves a" for reason a
  by unfold_locales (rule session_moves_degrade)

interpretation rebind_moves: kept_by_steps "rebind_one iface reason" "session_moves a" for iface reason a
  by unfold_locales (rule session_moves_rebind)

text \<open>On a host without modules the calls of the module host do nothing.\<close>

definition host_empty :: "'m session \<Rightarrow> bool" where
  "host_empty s \<longleftrightarrow> (case se_host s of None \<Rightarrow> True | Some h \<Rightarrow> mh_order h = [])"

lemma host_empty_kept: "session_kept s s' \<Longrightarrow> host_empty s \<Longrightarrow> host_empty s'"
  by (simp add: host_empty_def session_kept_def)

lemma empty_host_calls [simp]:
  assumes "mh_order h = []"
  shows "pauseRunningModulesForReconnect he options h x = ([], x)"
    and "resumeRunningModulesAfterReconnect he options h x = ([], x)"
    and "replayRunningModuleIngressForReconnect he options h x = ([], h, x)"
    and "stopAll he stopping h x = (h, x)"
  using assms by (simp_all add: pauseRunningModulesForReconnect_def
      resumeRunningModulesAfterReconnect_def replayRunningModuleIngressForReconnect_def stopAll_def
      ordered_modules_def List.map_filter_simps)

lemma session_moves_modules:
  assumes "session_moves a sx" and "host_empty (fst a)"
  shows "session_moves a (pause_modules env options sx)"
    and "session_moves a (resume_modules env options sx)"
    and "session_moves a (replay_modules env options sx)"
proof -
  have empty: "host_empty (fst sx)"
    using assms host_empty_kept by (auto simp: session_moves_def)
  have same: "snd sx\<lparr>sw_network := sw_network (snd sx)\<rparr> = snd sx" by simp
  note report = session_moves_report [OF assms(1), of _ "sw_network (snd sx)", unfolded same prod.collapse]
  show "session_moves a (pause_modules env options sx)" "session_moves a (resume_modules env options sx)"
    using empty report
    by (auto simp: pause_modules_def resume_modules_def split_beta Let_def host_empty_def
        intro!: session_moves_publishing split: option.splits)
  have "(case se_host (fst sx) of
        None \<Rightarrow> ([], None, snd sx)
      | Some h \<Rightarrow> let (reports, h', x') = replayRunningModuleIngressForReconnect
            (session_host_env env (se_policy (fst sx))) options h (snd sx)
          in (reports, Some h', x')) = ([], se_host (fst sx), snd sx)"
    using empty by (auto simp: host_empty_def split: option.splits)
  then show "session_moves a (replay_modules env options sx)"
    using report by (auto simp: replay_modules_def split_beta Let_def intro!: session_moves_publishing)
qed

lemma loops_state [simp]:
  "se_state (fst (degrade_one reason key sx)) = se_state (fst sx)"
  "se_state (fst (rebind_one iface reason r sx)) = se_state (fst sx)"
  "se_state (fst (degrade_loop reason keys sx)) = se_state (fst sx)"
  "se_state (fst (rebind_loop iface reason rs sx)) = se_state (fst sx)"
  "se_state (fst (pause_modules env options sx)) = se_state (fst sx)"
  "se_state (fst (replay_modules env options sx)) = se_state (fst sx)"
  "se_state (fst (resume_modules env options sx)) = se_state (fst sx)"
proof -
  show one: "se_state (fst (degrade_one reason key sx)) = se_state (fst sx)" for key and
      sx :: "'a session \<times> ('b, 'c, 'd) session_world"
    by (cases sx) (auto simp: degrade_one_def Let_def split_beta split: option.split)
  show two: "se_state (fst (rebind_one iface reason r sx)) = se_state (fst sx)" for r and
      sx :: "'a session \<times> ('b, 'c, 'd) session_world"
    by (cases sx) (auto simp: rebind_one_def Let_def split_beta split: option.split)
  show "se_state (fst (degrade_loop reason keys sx)) = se_state (fst sx)"
    unfolding degrade_loop_def by (induction keys arbitrary: sx) (simp_all add: one)
  show "se_state (fst (rebind_loop iface reason rs sx)) = se_state (fst sx)"
    unfolding rebind_loop_def by (induction rs arbitrary: sx) (simp_all add: two)
qed (simp_all add: pause_modules_def replay_modules_def resume_modules_def split_beta Let_def)

lemma session_moves_loops:
  assumes "session_moves a sx"
  shows "session_moves a (degrade_loop reason keys sx)"
    and "session_moves a (rebind_loop iface reason rs sx)"
  unfolding degrade_loop_def rebind_loop_def
  using assms by (rule degrade_moves.run_keeps, rule rebind_moves.run_keeps)

lemma reconnect_body_moves:
  assumes "se_state (fst sx) \<in> {ST_Running, ST_NetworkReady}" and "host_empty (fst sx)"
  shows "session_moves sx (reconnect_body env request sx)"
proof -
  have begun: "session_moves sx (begin_report request (fst sx), snd sx)"
    using session_moves_silent [OF session_moves_refl, of sx "begin_report request (fst sx)"
        "sw_network (snd sx)"]
    by (simp add: begin_report_def session_kept_def Let_def)
  have state: "se_state (begin_report request (fst sx)) = se_state (fst sx)"
    by (simp add: begin_report_def Let_def)
  note moves = session_moves_publishing session_moves_transition session_moves_loops
    session_moves_modules [OF _ assms(2)] begun
  show ?thesis
    unfolding reconnect_body_def Let_def
    by (cases "rc_requestDisplayKeyframe request"; simp only: if_True if_False simp_thms)
      (intro moves; simp add: state lifecycle.intros lifecycle.reconnecting [OF assms(1)])+
qed

lemma session_stop_moves:
  assumes "host_empty (fst sx)"
  shows "session_moves sx (session_stop env reason sx)"
proof (cases "se_state (fst sx) = ST_Stopped")
  case False
  obtain s x where sx: "sx = (s, x)" by (cases sx)
  let ?stopping = "transition ST_Stopping (reason_or ''stopping session'' reason) (s, x)"
  have same: "(fst ?stopping)\<lparr>se_host := se_host s\<rparr> = fst ?stopping" by simp
  have "session_stop env reason (s, x) = transition ST_Stopped ''session stopped''
      ((fst ?stopping)\<lparr>se_host := se_host s\<rparr>, snd ?stopping)"
    using False assms
    by (cases "se_host s") (simp_all add: sx session_stop_def split_beta host_empty_def)
  then have "session_stop env reason (s, x) = transition ST_Stopped ''session stopped'' ?stopping"
    by (simp only: same prod.collapse)
  then show ?thesis
    using False by (auto simp: sx intro!: session_moves_transition session_moves_refl lifecycle.intros)
qed (cases sx, simp add: session_stop_def session_moves_refl)

lemma session_inventory_moves:
  "session_moves sx (updateRemoteModuleInventory peer manifests sx)"
proof -
  obtain s x where sx: "sx = (s, x)" by (cases sx)
  have "session_moves (s, x) (s\<lparr>se_inventory := \<lparr>inv_peerSessionId = peer, inv_manifests = manifests\<rparr>\<rparr>, x)"
    using session_moves_silent [OF session_moves_refl, of "(s, x)"
        "s\<lparr>se_inventory := \<lparr>inv_peerSessionId = peer, inv_manifests = manifests\<rparr>\<rparr>" "sw_network x"]
    by (simp add: session_kept_def)
  then show ?thesis
    by (simp add: sx updateRemoteModuleInventory_def session_moves_publishing)
qed

text \<open>Every operation but an accepted start.\<close>

lemma session_apply_moves:
  assumes "host_empty (fst sx)" and "op \<noteq> SessionStart \<or> se_state (fst sx) \<noteq> ST_Created"
  shows "session_moves sx (session_apply env op sx)"
  using assms reconnect_body_moves [of sx env] session_stop_moves [of sx env]
  by (cases op) (auto simp: session_start_refused session_reconnect_def Let_def
      session_moves_refl session_inventory_moves)

lemma session_run_moves:
  assumes "host_empty (fst sx)" and "se_state (fst sx) \<noteq> ST_Created"
  shows "session_moves sx (fold (session_apply env) ops sx)"
  using assms
proof (induction ops arbitrary: sx)
  case (Cons op ops)
  have move: "session_moves sx (session_apply env op sx)" by (rule session_apply_moves) (use Cons.prems in auto)
  moreover have "host_empty (fst (session_apply env op sx))"
    using move Cons.prems(1) host_empty_kept by (auto simp: session_moves_def)
  moreover have "se_state (fst (session_apply env op sx)) \<noteq> ST_Created"
    using Cons.prems(2) by (auto simp: session_apply_state split: session_op.split)
  ultimately show ?case using Cons.IH session_moves_trans by (metis fold_simps(2))
qed (simp add: session_moves_refl)

text \<open>The starts that are accepted, and whether a run has one: a start with no stop before it.\<close>

definition starts_accepted ::
    "('c) session_op \<Rightarrow> 'm session \<times> ('c, 's, 'w) session_world \<Rightarrow> nat" where
  "starts_accepted op sx = (if op = SessionStart \<and> fst (session_start sx) then 1 else 0)"

definition run_starts :: "'c session_op list \<Rightarrow> bool" where
  "run_starts ops \<longleftrightarrow>
     SessionStart \<in> set (takeWhile (\<lambda>op. \<forall>reason. op \<noteq> SessionStop reason) ops)"

lemma starts_accepted_simps [simp]:
  "starts_accepted SessionStart sx = (if fst (session_start sx) then 1 else 0)"
  "starts_accepted (SessionReconnect request) sx = 0"
  "starts_accepted (SessionStop reason) sx = 0"
  "starts_accepted (SessionInventory peer manifests) sx = 0"
  by (simp_all add: starts_accepted_def)

lemma no_more_starts:
  "se_state (fst sx) \<noteq> ST_Created \<Longrightarrow> run_total starts_accepted (session_apply env) ops sx = 0"
proof (induction ops arbitrary: sx)
  case (Cons op ops)
  have "se_state (fst (session_apply env op sx)) \<noteq> ST_Created"
    using Cons.prems by (auto simp: session_apply_state split: session_op.split)
  with Cons show ?case by (simp add: starts_accepted_def session_start_refused)
qed simp

text \<open>What a run makes of a session just created.\<close>

definition granted_context :: "bool \<Rightarrow> 'm session \<Rightarrow> session_context" where
  "granted_context started s = (if started
     then (se_context s)\<lparr>cx_allowedFeatures := authorized_features (se_policy s) (se_context s)\<rparr>
     else se_context s)"

definition session_outcome ::
    "bool \<Rightarrow> 'm session \<times> ('c, 's, 'w) session_world \<Rightarrow> 'm session \<times> ('c, 's, 'w) session_world \<Rightarrow>
     bool" where
  "session_outcome started sx sx' \<longleftrightarrow>
     (se_context (fst sx'))\<lparr>cx_reconnectCount := 0\<rparr> =
       (granted_context started (fst sx))\<lparr>cx_reconnectCount := 0\<rparr> \<and>
     se_host (fst sx') = (if started \<and> sw_network (snd sx) \<noteq> None
       then Some (new_host (granted_context True (fst sx))) else None) \<and>
     session_logs sx sx'"

lemma session_outcome_moves:
  "session_outcome started a b \<Longrightarrow> session_moves b c \<Longrightarrow> session_outcome started a c"
  using session_logs_trans [of a b c] by (auto simp: session_outcome_def session_moves_def session_kept_def)

lemma moves_outcome:
  assumes "session_moves a b" and "se_host (fst a) = None"
  shows "session_outcome False a b"
  using assms by (auto simp: session_moves_def session_kept_def session_outcome_def granted_context_def)

lemma session_outcome_after:
  assumes "session_moves a b" and "session_outcome started b c"
    and "se_context (fst b) = se_context (fst a)" and "se_policy (fst b) = se_policy (fst a)"
    and "sw_network (snd b) = sw_network (snd a)"
  shows "session_outcome started a c"
  using assms session_logs_trans [of a b c]
  by (auto simp: session_moves_def session_outcome_def granted_context_def)

lemma start_events_walk: "logs_walk ST_Created (start_events ctx) ST_Running"
  unfolding logs_walk_def
  by (rule exI [of _ start_path])
    (use start_path_lifecycle in \<open>simp add: start_events_def state_changes_def session_event_def
      start_path_def names_state_def\<close>)

lemma session_start_outcome:
  assumes "se_state (fst sx) = ST_Created" and "se_host (fst sx) = None"
  shows "session_outcome True sx (snd (session_start sx))"
proof -
  obtain s x where sx: "sx = (s, x)" by (cases sx)
  have "session_logs (s, x) (snd (session_start (s, x)))"
    by (rule session_logs_events)
      (use assms start_events_walk in \<open>simp_all add: sx session_start_result\<close>)
  then show ?thesis
    using assms by (simp add: sx session_start_result session_outcome_def granted_context_def)
qed

lemma session_outcome_run:
  assumes "session_outcome started a b" and "se_state (fst b) \<noteq> ST_Created"
  shows "session_outcome started a (fold (session_apply env) ops b)"
proof (rule session_outcome_moves [OF assms(1) session_run_moves])
  show "host_empty (fst b)"
    using assms(1) by (simp add: host_empty_def session_outcome_def new_host_def)
qed (rule assms(2))

lemma run_from_created:
  assumes "se_state (fst sx) = ST_Created" and "se_host (fst sx) = None"
  shows "session_outcome (run_starts ops) sx (fold (session_apply env) ops sx) \<and>
    run_total starts_accepted (session_apply env) ops sx = (if run_starts ops then 1 else 0)"
  using assms
proof (induction ops arbitrary: sx)
  case Nil
  then show ?case
    by (simp add: run_starts_def moves_outcome session_moves_refl)
next
  case (Cons op ops)
  have started: "se_state (fst (snd (session_start sx))) = ST_Running" "fst (session_start sx)"
    using session_start_result [OF Cons.prems(1), of "snd sx"] by simp_all
  show ?case
  proof (cases op)
    case SessionStart
    then show ?thesis
      using session_outcome_run [OF session_start_outcome [OF Cons.prems], of env ops] started
        no_more_starts [of "snd (session_start sx)" env ops]
      by (simp add: run_starts_def)
  next
    case (SessionStop reason)
    have stopped: "se_state (fst (session_stop env reason sx)) = ST_Stopped"
      using session_stop_stops by (metis prod.collapse)
    have "session_outcome False sx (session_stop env reason sx)"
      using Cons.prems by (intro moves_outcome session_stop_moves) (simp_all add: host_empty_def)
    then show ?thesis
      using SessionStop stopped session_outcome_run [of False sx "session_stop env reason sx" env ops]
        no_more_starts [of "session_stop env reason sx" env ops]
      by (auto simp: run_starts_def)
  next
    case (SessionReconnect request)
    then have "session_apply env op sx = sx" using Cons.prems by (simp add: session_reconnect_def)
    then show ?thesis
      using Cons.IH [OF Cons.prems] SessionReconnect by (simp add: run_starts_def)
  next
    case (SessionInventory peer manifests)
    let ?next = "updateRemoteModuleInventory peer manifests sx"
    have moved: "session_moves sx ?next" by (rule session_inventory_moves)
    have same: "se_state (fst ?next) = ST_Created" "se_host (fst ?next) = None"
      "se_context (fst ?next) = se_context (fst sx)" "se_policy (fst ?next) = se_policy (fst sx)"
      "sw_network (snd ?next) = sw_network (snd sx)"
      using Cons.prems by (simp_all add: updateRemoteModuleInventory_def split_beta)
    have "session_outcome (run_starts ops) sx (fold (session_apply env) ops ?next)"
      using Cons.IH [OF same(1,2)] moved session_outcome_after [OF moved] same by blast
    then show ?thesis
      using Cons.IH [OF same(1,2)] SessionInventory by (simp add: run_starts_def)
  qed
qed

section \<open>Properties\<close>

definition sample_session_env :: "(module_manifest, unit, unit, unit) session_env" where
  "sample_session_env = \<lparr>sv_channels = open_channels, sv_modules = calm_modules\<rparr>"

definition sample_session_world :: "(unit, unit, unit) session_world" where
  "sample_session_world = \<lparr>sw_network = Some (new_manager heartbeat_negotiated), sw_sink = Some [],
     sw_rest = ()\<rparr>"

definition sample_session :: "module_manifest session \<times> (unit, unit, unit) session_world" where
  "sample_session = new_session default_context None sample_session_world"


definition starting_ops :: "unit session_op list" where
  "starting_ops = [SessionInventory 2 [], SessionStart, SessionStart, SessionStop ''bye'', SessionStart]"

definition licensed_session :: "module_manifest session \<times> (unit, unit, unit) session_world" where
  "licensed_session = new_session (default_context\<lparr>cx_requestedFeatures := 5\<rparr>)
     (map_option static_policy_interface (Some \<lparr>st_licensedFeatures = 3, st_policyFeatures = 9\<rparr>))
     sample_session_world"


text \<open>
  Sequences of operations implement the life cycle: whatever operations run on a new session,
  it is between two operations \<open>Created\<close>, \<open>Running\<close> or \<open>Stopped\<close>, never in a transient state and
  never \<open>Failed\<close>; and once stopped it stays stopped whatever follows.
\<close>

theorem sessions_are_settled:
  assumes "fold (session_apply env) ops (new_session ctx policy x0) = (s, x)"
  shows "se_state s \<in> {ST_Created, ST_Running, ST_Stopped} \<and>
    (se_state s = ST_Stopped \<longrightarrow> se_state (fst (fold (session_apply env) later (s, x))) = ST_Stopped) \<and>
    (SessionStop reason \<in> set ops \<longrightarrow> se_state s = ST_Stopped)"
proof (intro conjI impI)
  have "session_settled (fst (fold (session_apply env) ops (new_session ctx policy x0)))"
    by (rule settled.run_keeps) (simp add: new_session_def session_settled_def)
  then show "se_state s \<in> {ST_Created, ST_Running, ST_Stopped}"
    using assms by (simp add: session_settled_def)
  show "se_state (fst (fold (session_apply env) later (s, x))) = ST_Stopped"
    if "se_state s = ST_Stopped"
    using ended.run_keeps [of "(s, x)" env later] that by simp
  assume "SessionStop reason \<in> set ops"
  then obtain before after where ops: "ops = before @ SessionStop reason # after"
    by (meson split_list)
  define mid where "mid = fold (session_apply env) before (new_session ctx policy x0)"
  have "se_state (fst (session_apply env (SessionStop reason) mid)) = ST_Stopped"
    by (simp only: session_apply_state session_op.case)
  then have "se_state (fst (fold (session_apply env) after
      (session_apply env (SessionStop reason) mid))) = ST_Stopped"
    by (rule ended.run_keeps)
  then show "se_state s = ST_Stopped" using assms by (simp add: ops mid_def)
qed

theorem sessions_are_settled_witness:
  "se_state (fst (fold (session_apply sample_session_env)
     [SessionStart, SessionStop ''bye'', SessionStart]
     sample_session)) = ST_Stopped"
  using sessions_are_settled [OF prod.collapse [symmetric],
      of sample_session_env "[SessionStart, SessionStop ''bye'', SessionStart]" default_context None
        sample_session_world "[]" "''bye''"]
  unfolding sample_session_def by (simp del: session_apply.simps fold_simps)

text \<open>
  A reconnect tells the truth: on a running session with a network it ends in \<open>Running\<close> again, it
  reports on exactly the channels it was asked to degrade, in that order, and its verdict is
  positive exactly if each of them was degraded, every replacement channel was bound, and the
  routes of every module concerned were registered again.
\<close>

theorem reconnect_verdict_is_exact:
  assumes "se_state s = ST_Running" and "sw_network x \<noteq> None"
    and "session_reconnect env request (s, x) = (ok, s', x')"
  shows "se_state s' = ST_Running \<and>
    map rcr_key (rep_degradedChannels (se_lastReconnect s')) = rc_degradedChannels request \<and>
    (ok \<longleftrightarrow> list_all rcr_ok (rep_degradedChannels (se_lastReconnect s')) \<and>
       list_all rcr_ok (rep_reboundChannels (se_lastReconnect s')) \<and>
       list_all irr_replayed (rep_replayedIngress (se_lastReconnect s')))"
proof -
  have running: "se_state s \<in> {ST_Running, ST_NetworkReady}" using assms(1) by simp
  have "(s', x') = reconnect_body env request (s, x)"
    using assms(1,3) by (simp add: session_reconnect_def Let_def)
  then have "map rcr_key (rep_degradedChannels (se_lastReconnect s')) = rc_degradedChannels request"
    using reconnect_body_keys [OF assms(2), of env request s] by (metis degraded_keys_def fst_conv)
  then show ?thesis
    using session_reconnect_report [OF running assms(3)]
      session_reconnect_runs [OF running, of env request x] assms(3) by (simp add: report_sound_def)
qed

theorem reconnect_verdict_is_exact_witness:
  "map rcr_key (rep_degradedChannels (se_lastReconnect (fst (snd (session_reconnect sample_session_env
     \<lparr>rc_reason = [], rc_degradedChannels = [sample_key], rc_replacementChannels = [],
      rc_requestDisplayKeyframe = False\<rparr>
     (snd (session_start sample_session))))))) = [sample_key]"
proof -
  obtain s x where start: "snd (session_start sample_session) = (s, x)"
    by (cases "snd (session_start sample_session)")
  have created: "se_state (fst sample_session) = ST_Created"
    by (simp add: sample_session_def new_session_def)
  obtain s0 x0 where made: "sample_session = (s0, x0)"
    by (cases "sample_session")
  have "x0 = publish ''session.created'' ''session created'' s0 sample_session_world"
    using made by (auto simp: sample_session_def new_session_def publishing_def)
  then have net: "sw_network x0 \<noteq> None" by (simp add: sample_session_world_def)
  have "se_state s0 = ST_Created" using created by (metis made fst_conv)
  from session_start_runs [OF this, of x0 True s x] have "se_state s = ST_Running" "sw_network x \<noteq> None"
    using start net by (auto simp: made session_start_def \<open>se_state s0 = ST_Created\<close> Let_def)
  then show ?thesis
    using reconnect_verdict_is_exact [of s x sample_session_env
        "\<lparr>rc_reason = [], rc_degradedChannels = [sample_key], rc_replacementChannels = [],
          rc_requestDisplayKeyframe = False\<rparr>"]
    by (simp add: start) (metis prod.collapse)
qed

end
