(* ===== verification/Session_Manager.thy ===== *)
theory Session_Manager
  imports Session
begin

text \<open>
  \<open>src/core/session/session_manager.cpp\<close>: the sessions of a process by id. Each entry keeps the
  session with the network manager it owns; the diagnostics sink and the rest of the world
  are shared by all sessions, and a call of a session's method assembles its
  \<open>session_world\<close> from them.
\<close>

section \<open>State\<close>

record ('m, 'c, 's) session_entry =
  sy_session :: "'m session"
  sy_network :: "('c, 's) session_network option"

record ('m, 'c, 's) session_manager =
  sm_diagnostics :: diagnostics_sink
  sm_sessions :: "(session_id, ('m, 'c, 's) session_entry) std_map"
  sm_nextSessionId :: session_id

definition new_session_manager :: "('m, 'c, 's) session_manager" where
  "new_session_manager = \<lparr>sm_diagnostics = [], sm_sessions = [], sm_nextSessionId = 1\<rparr>"

record session_create_options =
  sc_context :: session_context
  sc_minimumChannels :: "channel_spec list"

section \<open>Creating a session\<close>

definition features_empty :: "feature_set \<Rightarrow> bool" where
  "features_empty features \<longleftrightarrow> features = 0"

definition assign_session_id :: "session_id \<Rightarrow> session_id \<Rightarrow> session_id \<times> session_id" where
  "assign_session_id requested nextId =
    (if requested = 0 then (nextId, nextId + 1)
     else if requested \<ge> nextId then (requested, requested + 1)
     else (requested, nextId))"

definition normalizeContext ::
    "session_context \<Rightarrow> session_role \<Rightarrow> session_id \<Rightarrow> session_context \<times> session_id" where
  "normalizeContext ctx role nextSessionId =
    (let (sessionId, nextSessionId') = assign_session_id (cx_sessionId ctx) nextSessionId;
         ctx = ctx\<lparr>cx_sessionId := sessionId\<rparr>;
         ctx = (if cx_traceId ctx = 0 then ctx\<lparr>cx_traceId := cx_sessionId ctx\<rparr> else ctx);
         ctx = ctx\<lparr>cx_role := role,
           cx_protocolMajor := nc_protocolMajor (cx_negotiatedCapabilities ctx),
           cx_protocolMinor := nc_protocolMinor (cx_negotiatedCapabilities ctx)\<rparr>;
         ctx = (if features_empty (cx_licensedFeatures ctx)
                then ctx\<lparr>cx_licensedFeatures := cx_requestedFeatures ctx\<rparr> else ctx);
         ctx = (if features_empty (cx_policyFeatures ctx)
                then ctx\<lparr>cx_policyFeatures := cx_licensedFeatures ctx\<rparr> else ctx)
     in (ctx, nextSessionId'))"

definition createPolicyEngine :: "session_context \<Rightarrow> policy_interface" where
  "createPolicyEngine ctx = static_policy_interface
     (setPolicyFeatures (cx_policyFeatures ctx) (new_static_policy (cx_licensedFeatures ctx)))"

definition createNetworkManager ::
    "session_context \<Rightarrow> channel_spec list \<Rightarrow> ('c, 's) session_network" where
  "createNetworkManager ctx minimumChannels =
     fold (\<lambda>spec m. snd (manager_registerSpec spec m)) minimumChannels
       (new_manager (cx_negotiatedCapabilities ctx))"

definition createSession ::
    "session_create_options \<Rightarrow> session_role \<Rightarrow> ('m, 'c, 's) session_manager \<Rightarrow> 'w \<Rightarrow>
     session_id \<times> ('m, 'c, 's) session_manager \<times> 'w" where
  "createSession options role sm w =
    (let (ctx, nextSessionId) =
           normalizeContext (sc_context options) role (sm_nextSessionId sm);
         network = createNetworkManager ctx (sc_minimumChannels options);
         x = \<lparr>sw_network = Some network, sw_sink = Some (sm_diagnostics sm), sw_rest = w\<rparr>;
         (s, x) = new_session ctx (Some (createPolicyEngine ctx)) x
     in (cx_sessionId ctx,
         sm\<lparr>sm_diagnostics := the (sw_sink x),
            sm_sessions := map_put (cx_sessionId ctx)
              \<lparr>sy_session = s, sy_network = sw_network x\<rparr> (sm_sessions sm),
            sm_nextSessionId := nextSessionId\<rparr>, sw_rest x))"

definition createClientSession ::
    "session_create_options \<Rightarrow> ('m, 'c, 's) session_manager \<Rightarrow> 'w \<Rightarrow>
     session_id \<times> ('m, 'c, 's) session_manager \<times> 'w" where
  "createClientSession options = createSession options SR_Client"

definition createAgentSession ::
    "session_create_options \<Rightarrow> ('m, 'c, 's) session_manager \<Rightarrow> 'w \<Rightarrow>
     session_id \<times> ('m, 'c, 's) session_manager \<times> 'w" where
  "createAgentSession options = createSession options SR_Agent"

section \<open>Using the sessions\<close>

definition session_find :: "('m, 'c, 's) session_manager \<Rightarrow> session_id \<Rightarrow> 'm session option" where
  "session_find sm sessionId = map_option sy_session (map_find (sm_sessions sm) sessionId)"

text \<open>A call of a method of the session with the given id; \<open>find\<close> returned it.\<close>

definition entry_world ::
    "('m, 'c, 's) session_manager \<Rightarrow> ('m, 'c, 's) session_entry \<Rightarrow> 'w \<Rightarrow> ('c, 's, 'w) session_world" where
  "entry_world sm entry w =
     \<lparr>sw_network = sy_network entry, sw_sink = Some (sm_diagnostics sm), sw_rest = w\<rparr>"

definition sink_of :: "('c, 's, 'w) session_world \<Rightarrow> diagnostics_sink" where
  "sink_of x = (case sw_sink x of None \<Rightarrow> [] | Some sink \<Rightarrow> sink)"

definition manager_reconnect ::
    "('m, 'c, 's, 'w) session_env \<Rightarrow> session_id \<Rightarrow> 'c reconnect_request \<Rightarrow>
     ('m, 'c, 's) session_manager \<Rightarrow> 'w \<Rightarrow> bool \<times> ('m, 'c, 's) session_manager \<times> 'w" where
  "manager_reconnect env sessionId request sm w =
    (case map_find (sm_sessions sm) sessionId of
       None \<Rightarrow> (False, sm, w)
     | Some entry \<Rightarrow>
         let (ok, s, x) = session_reconnect env request (sy_session entry, entry_world sm entry w)
         in (ok, sm\<lparr>sm_diagnostics := sink_of x,
               sm_sessions := map_put sessionId \<lparr>sy_session = s, sy_network = sw_network x\<rparr>
                 (sm_sessions sm)\<rparr>, sw_rest x))"

definition manager_close ::
    "('m, 'c, 's, 'w) session_env \<Rightarrow> session_id \<Rightarrow> string \<Rightarrow>
     ('m, 'c, 's) session_manager \<Rightarrow> 'w \<Rightarrow> bool \<times> ('m, 'c, 's) session_manager \<times> 'w" where
  "manager_close env sessionId reason sm w =
    (case map_find (sm_sessions sm) sessionId of
       None \<Rightarrow> (False, sm, w)
     | Some entry \<Rightarrow>
         let (s, x) = session_stop env reason (sy_session entry, entry_world sm entry w)
         in (True, sm\<lparr>sm_diagnostics := sink_of x,
               sm_sessions := map_erase sessionId (sm_sessions sm)\<rparr>, sw_rest x))"

definition manager_snapshots ::
    "('m, 'c, 's, 'w) session_env \<Rightarrow> ('m, 'c, 's) session_manager \<Rightarrow> 'w \<Rightarrow> session_snapshot list" where
  "manager_snapshots env sm w = map (\<lambda>(_, entry).
     session_take_snapshot env (sy_session entry) (entry_world sm entry w)) (sm_sessions sm)"

section \<open>The ids\<close>

text \<open>Sessions are stored under their own id.\<close>

definition sessions_ok :: "('m, 'c, 's) session_manager \<Rightarrow> bool" where
  "sessions_ok sm \<longleftrightarrow> map_ok (sm_sessions sm) \<and>
     (\<forall>sessionId entry. map_find (sm_sessions sm) sessionId = Some entry \<longrightarrow>
        cx_sessionId (se_context (sy_session entry)) = sessionId)"

text \<open>The counter is ahead of every id in use and has room for \<open>n\<close> more.\<close>

definition ids_room :: "nat \<Rightarrow> ('m, 'c, 's) session_manager \<Rightarrow> bool" where
  "ids_room n sm \<longleftrightarrow> sessions_ok sm \<and> 0 < unat (sm_nextSessionId sm) \<and>
     unat (sm_nextSessionId sm) + n < 2 ^ 64 \<and>
     (\<forall>sessionId. map_find (sm_sessions sm) sessionId \<noteq> None \<longrightarrow>
        sessionId \<noteq> 0 \<and> sessionId < sm_nextSessionId sm)"

lemma new_session_manager_ok [simp]:
  "sessions_ok new_session_manager" "n < 2 ^ 64 - 1 \<Longrightarrow> ids_room n new_session_manager"
  by (simp_all add: sessions_ok_def ids_room_def new_session_manager_def)

lemma normalizeContext_fields:
  "cx_sessionId (fst (normalizeContext ctx role n)) = fst (assign_session_id (cx_sessionId ctx) n)"
  "snd (normalizeContext ctx role n) = snd (assign_session_id (cx_sessionId ctx) n)"
  "cx_role (fst (normalizeContext ctx role n)) = role"
  "cx_requestedFeatures (fst (normalizeContext ctx role n)) = cx_requestedFeatures ctx"
  "cx_negotiatedCapabilities (fst (normalizeContext ctx role n)) = cx_negotiatedCapabilities ctx"
  by (simp_all add: normalizeContext_def Let_def split_beta)

lemma new_session_fst [simp]: "fst (new_session ctx policy x) =
    \<lparr>se_context = ctx, se_state = ST_Created, se_policy = policy, se_host = None,
     se_lastReconnect = default_reconnect_report,
     se_inventory = \<lparr>inv_peerSessionId = 0, inv_manifests = []\<rparr>\<rparr>"
  by (simp add: new_session_def)

lemma createSession_sessions:
  assumes "createSession options role sm w = (sessionId, sm', w')"
  shows "sessionId = fst (assign_session_id (cx_sessionId (sc_context options)) (sm_nextSessionId sm))"
    and "sm_nextSessionId sm' =
      snd (assign_session_id (cx_sessionId (sc_context options)) (sm_nextSessionId sm))"
    and "\<exists>entry. sm_sessions sm' = map_put sessionId entry (sm_sessions sm) \<and>
      cx_sessionId (se_context (sy_session entry)) = sessionId \<and>
      se_state (sy_session entry) = ST_Created \<and>
      se_context (sy_session entry) =
        fst (normalizeContext (sc_context options) role (sm_nextSessionId sm)) \<and>
      se_policy (sy_session entry) = Some (createPolicyEngine (se_context (sy_session entry))) \<and>
      sy_network entry \<noteq> None"
  using assms
  by (auto simp: createSession_def Let_def split_beta normalizeContext_fields new_session_def)

lemma createSession_ok [preserves]:
  assumes "sessions_ok sm" and "createSession options role sm w = (sessionId, sm', w')"
  shows "sessions_ok sm'"
  using createSession_sessions(3) [OF assms(2)] assms(1)
  by (auto simp: sessions_ok_def smap.ok_put split: if_splits)

lemma createSession_room:
  assumes room: "ids_room (Suc n) sm"
    and create: "createSession options role sm w = (sessionId, sm', w')"
    and asked: "cx_sessionId (sc_context options) = 0"
  shows "sessionId \<noteq> 0" "session_find sm sessionId = None" "ids_room n sm'"
proof -
  let ?next = "sm_nextSessionId sm"
  note facts = createSession_sessions [OF create]
  have id: "sessionId = ?next" and succ: "sm_nextSessionId sm' = ?next + 1"
    using facts(1,2) asked by (simp_all add: assign_session_id_def)
  have inc: "unat (?next + 1) = Suc (unat ?next)" "?next < ?next + 1"
    using token_increment [of ?next n] room by (simp_all add: ids_room_def)
  show "sessionId \<noteq> 0" using room by (auto simp: id ids_room_def)
  show "session_find sm sessionId = None"
    using room by (auto simp: id ids_room_def session_find_def)
  obtain entry where "sm_sessions sm' = map_put sessionId entry (sm_sessions sm)"
    using facts(3) by blast
  then show "ids_room n sm'"
    using room inc createSession_ok [OF _ create]
    by (auto simp: ids_room_def id succ split: if_splits intro: less_trans)
qed

text \<open>The set of features a session of this manager can be authorised for.\<close>

lemma createPolicyEngine_features:
  "pi_authorizeFeatures (createPolicyEngine ctx) context_of_call requested =
     requested AND cx_licensedFeatures ctx AND cx_policyFeatures ctx"
  by (simp add: createPolicyEngine_def static_policy_interface_def authorizeFeatures_def
      setPolicyFeatures_def new_static_policy_def)

lemma manager_close_sessions:
  assumes "manager_close env sessionId reason sm w = (ok, sm', w')"
  shows "ok \<longleftrightarrow> map_find (sm_sessions sm) sessionId \<noteq> None"
    and "map_find (sm_sessions sm') other =
      (if other = sessionId then None else map_find (sm_sessions sm) other)"
  using assms by (auto simp: manager_close_def Let_def split_beta split: option.splits)

section \<open>Sequences of calls\<close>

text \<open>
  What a client does with the manager: create sessions, use one of them through the pointer it
  got, and close them. The result lists, for every creation, the id asked for and the id given.
\<close>

datatype 'c manager_call =
    CallCreate session_create_options session_role
  | CallUse session_id "'c session_op"
  | CallClose session_id string

definition manager_use ::
    "('m, 'c, 's, 'w) session_env \<Rightarrow> session_id \<Rightarrow> 'c session_op \<Rightarrow>
     ('m, 'c, 's) session_manager \<Rightarrow> 'w \<Rightarrow> ('m, 'c, 's) session_manager \<times> 'w" where
  "manager_use env sessionId op sm w =
    (case map_find (sm_sessions sm) sessionId of
       None \<Rightarrow> (sm, w)
     | Some entry \<Rightarrow>
         let (s, x) = session_apply env op (sy_session entry, entry_world sm entry w)
         in (sm\<lparr>sm_diagnostics := sink_of x,
               sm_sessions := map_put sessionId \<lparr>sy_session = s, sy_network = sw_network x\<rparr>
                 (sm_sessions sm)\<rparr>, sw_rest x))"

fun ids_given ::
    "('m, 'c, 's, 'w) session_env \<Rightarrow> 'c manager_call list \<Rightarrow> ('m, 'c, 's) session_manager \<Rightarrow> 'w \<Rightarrow>
     (session_id \<times> session_id) list" where
  "ids_given env [] sm w = []"
| "ids_given env (CallCreate options role # calls) sm w =
    (let (sessionId, sm', w') = createSession options role sm w
     in (cx_sessionId (sc_context options), sessionId) # ids_given env calls sm' w')"
| "ids_given env (CallUse sessionId op # calls) sm w =
    (let (sm', w') = manager_use env sessionId op sm w in ids_given env calls sm' w')"
| "ids_given env (CallClose sessionId reason # calls) sm w =
    (let (ok, sm', w') = manager_close env sessionId reason sm w in ids_given env calls sm' w')"

lemma manager_use_counter [simp]:
  "sm_nextSessionId (fst (manager_use env sessionId op sm w)) = sm_nextSessionId sm"
  by (simp add: manager_use_def Let_def split_beta split: option.split)

lemma manager_close_counter [simp]:
  "sm_nextSessionId (fst (snd (manager_close env sessionId reason sm w))) = sm_nextSessionId sm"
  by (simp add: manager_close_def Let_def split_beta split: option.split)

definition ids_below :: "nat \<Rightarrow> 'c manager_call list \<Rightarrow> bool" where
  "ids_below bound calls \<longleftrightarrow> list_all (\<lambda>call. case call of
     CallCreate options role \<Rightarrow> unat (cx_sessionId (sc_context options)) < bound
   | _ \<Rightarrow> True) calls"

lemma assigned_counter:
  assumes "unat requested < bound" "unat n \<le> bound + k" "bound + k + 1 < 2 ^ 64"
  shows "unat n \<le> unat (snd (assign_session_id requested n))"
    and "unat (snd (assign_session_id requested n)) \<le> bound + Suc k"
    and "unat (fst (assign_session_id requested n)) < unat (snd (assign_session_id requested n))"
    and "requested = 0 \<Longrightarrow> fst (assign_session_id requested n) = n"
proof -
  have inc: "unat (m + 1) = Suc (unat m)" if "unat m \<le> bound + k" for m :: u64
    using that assms(3) by (simp add: unat_word_ariths)
  show "unat n \<le> unat (snd (assign_session_id requested n))"
    "unat (snd (assign_session_id requested n)) \<le> bound + Suc k"
    "unat (fst (assign_session_id requested n)) < unat (snd (assign_session_id requested n))"
    "requested = 0 \<Longrightarrow> fst (assign_session_id requested n) = n"
    using assms(1,2) inc [of n] inc [of requested]
    by (auto simp: assign_session_id_def word_le_nat_alt)
qed

lemma ids_given_fresh:
  assumes "ids_below bound calls" "unat (sm_nextSessionId sm) \<le> bound + k"
    and "bound + k + length calls < 2 ^ 64"
    and "ids_given env calls sm w = before @ (0, sessionId) # after"
  shows "unat (sm_nextSessionId sm) \<le> unat sessionId \<and> sessionId \<notin> snd ` set before"
  using assms
proof (induction env calls sm w arbitrary: before k rule: ids_given.induct)
  case (2 env options role calls sm w)
  let ?asked = "cx_sessionId (sc_context options)"
  obtain given sm' w' where create: "createSession options role sm w = (given, sm', w')"
    by (metis prod.exhaust)
  have given: "given = fst (assign_session_id ?asked (sm_nextSessionId sm))"
    "sm_nextSessionId sm' = snd (assign_session_id ?asked (sm_nextSessionId sm))"
    using createSession_sessions(1,2) [OF create] by simp_all
  have asked: "unat ?asked < bound" "ids_below bound calls"
    using 2(2) by (simp_all add: ids_below_def)
  have room: "bound + k + 1 < 2 ^ 64" using 2(4) by simp
  note counter = assigned_counter [OF asked(1) 2(3) room, folded given]
  have split: "(?asked, given) # ids_given env calls sm' w' = before @ (0, sessionId) # after"
    using 2(5) by (simp add: create)
  show ?case
  proof (cases before)
    case Nil
    then show ?thesis using split counter(4) by simp
  next
    case (Cons first rest)
    then have rest: "ids_given env calls sm' w' = rest @ (0, sessionId) # after" "first = (?asked, given)"
      using split by simp_all
    have "unat (sm_nextSessionId sm') \<le> unat sessionId \<and> sessionId \<notin> snd ` set rest"
      using 2(1) [OF create [symmetric] refl refl asked(2) counter(2) _ rest(1)] 2(4) by simp
    then show ?thesis using counter(1,3) Cons rest(2) by auto
  qed
next
  case (3 env used op calls sm w)
  show ?case
    using 3(1) [OF refl prod.collapse, of k before] 3(2-) by (simp add: ids_below_def split_beta)
next
  case (4 env closed reason calls sm w)
  show ?case
    using 4(1) [OF refl prod.collapse prod.collapse, of k before] 4(2-)
    by (simp add: ids_below_def split_beta)
qed simp

section \<open>Properties\<close>

text \<open>
  Automatic session ids are never reused: in any sequence of creations, uses and closings of
  sessions on a new manager, whose explicit ids stay below a bound that leaves the counter room,
  a session created without an id gets one that is not zero and that no earlier session got,
  explicit or automatic, closed or not.
\<close>

theorem automatic_ids_are_never_reused:
  assumes "ids_below bound calls" and "0 < bound" and "bound + length calls < 2 ^ 64"
    and "ids_given env calls new_session_manager w = before @ (0, sessionId) # after"
  shows "sessionId \<noteq> 0 \<and> sessionId \<notin> snd ` set before"
proof -
  have "unat (sm_nextSessionId (new_session_manager :: ('b, 'a, 'c) session_manager)) = 1"
    by (simp add: new_session_manager_def)
  then have "1 \<le> unat sessionId \<and> sessionId \<notin> snd ` set before"
    using ids_given_fresh [OF assms(1) _ _ assms(4), of 0] assms(2,3)
    by (simp add: new_session_manager_def)
  then show ?thesis by auto
qed

definition sample_options :: "session_id \<Rightarrow> session_create_options" where
  "sample_options sessionId = \<lparr>sc_context = default_context\<lparr>cx_sessionId := sessionId\<rparr>,
     sc_minimumChannels = []\<rparr>"

definition sample_calls :: "unit manager_call list" where
  "sample_calls = [CallCreate (sample_options 0) SR_Client, CallCreate (sample_options 7) SR_Agent,
     CallClose 1 ''done'', CallCreate (sample_options 0) SR_Client]"

lemma sample_calls_given:
  "ids_given sample_session_env sample_calls new_session_manager () = [(0, 1), (7, 7), (0, 8)]"
proof -
  have fresh: "unat (0 :: u64) < 8" "unat (7 :: u64) < 8" by simp_all
  show ?thesis
    by (simp add: sample_calls_def sample_options_def split_beta createSession_def Let_def
        normalizeContext_fields assign_session_id_def new_session_manager_def manager_close_def
        default_context_def)
qed

theorem automatic_ids_are_never_reused_witness: "(8 :: session_id) \<notin> snd ` set [(0 :: session_id, 1), (7, 7)]"
  using automatic_ids_are_never_reused [of 8 sample_calls sample_session_env "()" "[(0, 1), (7, 7)]" 8 "[]"]
    sample_calls_given
  by (simp add: ids_below_def sample_calls_def sample_options_def default_context_def)

text \<open>
  Closing removes exactly one session: \<open>close\<close> succeeds exactly if the id is known, afterwards
  that id is unknown and every other session is untouched; and creating a session never removes
  another one, unless the caller asked for an id in use, whose session is then replaced without
  being stopped.
\<close>

theorem close_and_create_touch_one_session:
  "(fst (manager_close env sessionId reason sm w) \<longleftrightarrow> session_find sm sessionId \<noteq> None) \<and>
   map_find (sm_sessions (fst (snd (manager_close env sessionId reason sm w)))) =
     (map_find (sm_sessions sm))(sessionId := None) \<and>
   (\<exists>entry. map_find (sm_sessions (fst (snd (createSession options role sm w)))) =
     (map_find (sm_sessions sm))(fst (createSession options role sm w) := Some entry) \<and>
     se_state (sy_session entry) = ST_Created \<and>
     sm_diagnostics (fst (snd (createSession options role sm w))) = sm_diagnostics sm @
       [session_event (se_context (sy_session entry)) ''session.created'' ''session created''])"
proof (intro conjI)
  obtain ok sm' w' where close: "manager_close env sessionId reason sm w = (ok, sm', w')"
    by (metis prod.exhaust)
  show "fst (manager_close env sessionId reason sm w) \<longleftrightarrow> session_find sm sessionId \<noteq> None"
    using manager_close_sessions(1) [OF close] by (simp add: close session_find_def)
  show "map_find (sm_sessions (fst (snd (manager_close env sessionId reason sm w)))) =
     (map_find (sm_sessions sm))(sessionId := None)"
    using manager_close_sessions(2) [OF close] by (simp add: close fun_eq_iff)
  show "\<exists>entry. map_find (sm_sessions (fst (snd (createSession options role sm w)))) =
     (map_find (sm_sessions sm))(fst (createSession options role sm w) := Some entry) \<and>
     se_state (sy_session entry) = ST_Created \<and>
     sm_diagnostics (fst (snd (createSession options role sm w))) = sm_diagnostics sm @
       [session_event (se_context (sy_session entry)) ''session.created'' ''session created'']"
    by (rule exI [of _ "\<lparr>sy_session = fst (new_session (fst (normalizeContext (sc_context options) role
            (sm_nextSessionId sm))) (Some (createPolicyEngine (fst (normalizeContext
            (sc_context options) role (sm_nextSessionId sm))))) x0),
          sy_network = Some (createNetworkManager (fst (normalizeContext (sc_context options) role
            (sm_nextSessionId sm))) (sc_minimumChannels options))\<rparr>" for x0])
      (auto simp: createSession_def Let_def split_beta new_session_def publishing_def publish_def
        sink_publish_def fun_eq_iff)
qed

end
