(* ===== verification/Module_Composer.thy ===== *)
theory Module_Composer
  imports Module_Manifest "HOL-Library.List_Lexorder" "HOL-Library.Char_ord"
begin

text \<open>
  \<open>src/core/module/module_factory.cpp\<close>: from requested module ids to created modules in
  dependency order. A factory is the record of its virtual methods. The recursive lambda
  \<open>visit\<close> of \<open>compose\<close> has a fuel argument for its recursion depth; one more than the number
  of unvisited modules is always enough (\<open>visit_total\<close>).
\<close>

section \<open>Requests and results\<close>

record create_options =
  cr_role :: session_role
  cr_localPlatform :: string

record 'm module_factory =
  fa_supports :: "string \<Rightarrow> create_options \<Rightarrow> bool"
  fa_manifest :: "create_options \<Rightarrow> module_manifest"
  fa_create :: "create_options \<Rightarrow> 'm option"

record composition_request =
  cq_requiredModules :: "string list"
  cq_versionConstraints :: "version_constraint list"
  cq_createOptions :: create_options

record 'm composition_result =
  co_modules :: "'m list"
  co_manifests :: "module_manifest list"
  co_missingModules :: "string list"
  co_dependencyFailures :: "string list"
  co_versionFailures :: "string list"

definition composition_ok :: "'m composition_result \<Rightarrow> bool" where
  "composition_ok result \<longleftrightarrow> co_missingModules result = [] \<and> co_dependencyFailures result = [] \<and>
     co_versionFailures result = []"

record 'm pending_selection =
  ps_requestedModuleId :: string
  ps_factory :: "'m module_factory"
  ps_manifest :: module_manifest

type_synonym 'm composer = "'m module_factory option list"

definition addFactory :: "'m module_factory option \<Rightarrow> 'm composer \<Rightarrow> 'm composer" where
  "addFactory factory factories = (if factory \<noteq> None then factories @ [factory] else factories)"

section \<open>Version constraints\<close>

definition versionToString :: "module_version \<Rightarrow> string" where
  "versionToString version =
     decimal (unat (mv_major version)) @ ''.'' @ decimal (unat (mv_minor version)) @ ''.'' @
     decimal (unat (mv_patch version))"

definition matchesConstraintTarget ::
    "version_constraint \<Rightarrow> string \<Rightarrow> module_manifest \<Rightarrow> bool" where
  "matchesConstraintTarget target requestedModuleId manifest \<longleftrightarrow>
     vc_moduleId target = requestedModuleId \<or> vc_moduleId target = mf_moduleId manifest"

fun appendVersionFailures ::
    "string \<Rightarrow> module_manifest \<Rightarrow> version_constraint list \<Rightarrow> string list \<Rightarrow> string list" where
  "appendVersionFailures requestedModuleId manifest [] failures = failures"
| "appendVersionFailures requestedModuleId manifest (c # constraints) failures =
    (if \<not> matchesConstraintTarget c requestedModuleId manifest then
       appendVersionFailures requestedModuleId manifest constraints failures
     else if moduleVersionInRange (mf_version manifest) (vc_minVersion c) (vc_maxVersion c) then
       appendVersionFailures requestedModuleId manifest constraints failures
     else appendVersionFailures requestedModuleId manifest constraints (failures @
       [mf_moduleId manifest @ '' version '' @ versionToString (mf_version manifest) @
        '' outside profile range '' @ versionToString (vc_minVersion c) @ ''..'' @
        versionToString (vc_maxVersion c)]))"

section \<open>Selecting modules\<close>

definition findFactory ::
    "'m composer \<Rightarrow> string \<Rightarrow> create_options \<Rightarrow> 'm module_factory option" where
  "findFactory factories requestedModuleId options =
    (case find (\<lambda>f. case f of None \<Rightarrow> False
        | Some factory \<Rightarrow> fa_supports factory requestedModuleId options) factories of
       None \<Rightarrow> None
     | Some f \<Rightarrow> f)"

text \<open>The first loop: the pending selections and the requests no factory serves.\<close>

fun collect_pending ::
    "'m composer \<Rightarrow> create_options \<Rightarrow> string list \<Rightarrow> 'm pending_selection list \<times> string list" where
  "collect_pending factories options [] = ([], [])"
| "collect_pending factories options (requested # rest) =
    (let (pending, missing) = collect_pending factories options rest in
     case findFactory factories requested options of
       None \<Rightarrow> (pending, requested # missing)
     | Some factory \<Rightarrow>
         let manifest = fa_manifest factory options in
         if mf_moduleId manifest = [] then (pending, requested # missing)
         else (\<lparr>ps_requestedModuleId = requested, ps_factory = factory, ps_manifest = manifest\<rparr>
                 # pending, missing))"

text \<open>The second loop: the ids with a version outside a constraint, and the failures.\<close>

fun check_versions ::
    "version_constraint list \<Rightarrow> 'm pending_selection list \<Rightarrow> string list \<Rightarrow> string list \<Rightarrow>
     string list \<times> string list" where
  "check_versions constraints [] blocked failures = (blocked, failures)"
| "check_versions constraints (selection # rest) blocked failures =
    (let moduleId = mf_moduleId (ps_manifest selection) in
     if moduleId \<in> set blocked then check_versions constraints rest blocked failures
     else
       let failures' = appendVersionFailures (ps_requestedModuleId selection)
             (ps_manifest selection) constraints failures
       in check_versions constraints rest
            (if length failures' \<noteq> length failures then moduleId # blocked else blocked) failures')"

text \<open>The third loop: the selected manifests with their modules, and the ids whose factory
  made none. \<open>selected\<close> holds the selected ids.\<close>

fun create_selected ::
    "create_options \<Rightarrow> string list \<Rightarrow> 'm pending_selection list \<Rightarrow> string list \<Rightarrow>
     (module_manifest \<times> 'm) list \<times> string list" where
  "create_selected options blocked [] selected = ([], [])"
| "create_selected options blocked (selection # rest) selected =
    (let manifest = ps_manifest selection; moduleId = mf_moduleId manifest in
     if moduleId \<in> set blocked \<or> moduleId \<in> set selected then
       create_selected options blocked rest selected
     else case fa_create (ps_factory selection) options of
       None \<Rightarrow>
         let (made, missing) = create_selected options blocked rest selected
         in (made, moduleId # missing)
     | Some m \<Rightarrow>
         let (made, missing) = create_selected options blocked rest (moduleId # selected)
         in ((manifest, m) # made, missing))"

section \<open>Ordering by dependency\<close>

definition module_ids :: "module_manifest list \<Rightarrow> string list" where
  "module_ids manifests = map mf_moduleId manifests"

definition missing_dependencies :: "module_manifest list \<Rightarrow> string list" where
  "missing_dependencies manifests = concat (map (\<lambda>manifest.
     map (\<lambda>dependency. mf_moduleId manifest @ '' requires '' @ dependency)
       (filter (\<lambda>dependency. dependency \<notin> set (module_ids manifests))
         (mf_requiredModules manifest))) manifests)"

text \<open>\<open>indexByModuleId\<close>: a later manifest with the same id would replace an earlier one.\<close>

fun index_from :: "nat \<Rightarrow> module_manifest list \<Rightarrow> (string, nat) std_map \<Rightarrow> (string, nat) std_map" where
  "index_from i [] m = m"
| "index_from i (manifest # rest) m =
     index_from (Suc i) rest (map_put (mf_moduleId manifest) i m)"

definition indexByModuleId :: "module_manifest list \<Rightarrow> (string, nat) std_map" where
  "indexByModuleId manifests = index_from 0 manifests []"

definition dependency_indices :: "module_manifest list \<Rightarrow> nat \<Rightarrow> nat list" where
  "dependency_indices manifests index =
     List.map_filter (map_find (indexByModuleId manifests)) (mf_requiredModules (manifests ! index))"

text \<open>\<open>visitState\<close> (0 unvisited, 1 in progress, 2 finished), \<open>order\<close> and the failures.\<close>

record visit_state =
  vs_marks :: "nat list"
  vs_order :: "nat list"
  vs_failures :: "string list"

fun visit_each ::
    "(nat \<Rightarrow> visit_state \<Rightarrow> visit_state option) \<Rightarrow> nat list \<Rightarrow> visit_state \<Rightarrow> visit_state option" where
  "visit_each f [] s = Some s"
| "visit_each f (i # is) s = (case f i s of None \<Rightarrow> None | Some s' \<Rightarrow> visit_each f is s')"

primrec visit ::
    "nat \<Rightarrow> module_manifest list \<Rightarrow> nat \<Rightarrow> visit_state \<Rightarrow> visit_state option" where
  "visit 0 manifests index s = None"
| "visit (Suc fuel) manifests index s =
    (if vs_marks s ! index = 2 then Some s
     else if vs_marks s ! index = 1 then
       Some (s\<lparr>vs_failures :=
         vs_failures s @ [mf_moduleId (manifests ! index) @ '' has cyclic dependency'']\<rparr>)
     else
       case visit_each (visit fuel manifests) (dependency_indices manifests index)
              (s\<lparr>vs_marks := (vs_marks s)[index := 1]\<rparr>) of
         None \<Rightarrow> None
       | Some s' \<Rightarrow> Some (s'\<lparr>vs_marks := (vs_marks s')[index := 2],
                             vs_order := vs_order s' @ [index]\<rparr>))"

definition visit_all :: "module_manifest list \<Rightarrow> string list \<Rightarrow> visit_state option" where
  "visit_all manifests failures =
     visit_each (visit (Suc (length manifests)) manifests) [0 ..< length manifests]
       \<lparr>vs_marks = replicate (length manifests) 0, vs_order = [], vs_failures = failures\<rparr>"

section \<open>compose\<close>

definition compose ::
    "'m composer \<Rightarrow> composition_request \<Rightarrow> 'm composition_result option" where
  "compose factories request =
    (let options = cq_createOptions request;
         (pending, missing) = collect_pending factories options (cq_requiredModules request);
         (blocked, versionFailures) =
           check_versions (cq_versionConstraints request) pending [] [];
         (made, notMade) = create_selected options blocked pending [];
         manifests = map fst made;
         modules = map snd made
     in case visit_all manifests (missing_dependencies manifests) of
          None \<Rightarrow> None
        | Some s \<Rightarrow>
            let sort = (length (vs_order s) = length manifests) in
            Some \<lparr>co_modules = (if sort then map (\<lambda>i. modules ! i) (vs_order s) else modules),
                  co_manifests = (if sort then map (\<lambda>i. manifests ! i) (vs_order s) else manifests),
                  co_missingModules = missing @ notMade,
                  co_dependencyFailures = vs_failures s,
                  co_versionFailures = versionFailures\<rparr>)"

section \<open>The index\<close>

lemma index_from_ok: "map_ok m \<Longrightarrow> map_ok (index_from i manifests m)"
  by (induction manifests arbitrary: i m) (auto intro: smap.ok_put)

lemma index_from_Some:
  "map_find (index_from i manifests m) moduleId = Some k \<Longrightarrow>
     map_find m moduleId = Some k \<or>
     i \<le> k \<and> k < i + length manifests \<and> mf_moduleId (manifests ! (k - i)) = moduleId"
proof (induction manifests arbitrary: i m)
  case (Cons manifest rest)
  then have "map_find (map_put (mf_moduleId manifest) i m) moduleId = Some k \<or>
      Suc i \<le> k \<and> k < Suc i + length rest \<and> mf_moduleId (rest ! (k - Suc i)) = moduleId"
    using Cons.IH [of "Suc i" "map_put (mf_moduleId manifest) i m"] by (simp split: if_splits)
  then show ?case
    by (auto simp: nth_Cons' split: if_splits)
qed simp

lemma index_from_None:
  "map_find (index_from i manifests m) moduleId = None \<longleftrightarrow>
     map_find m moduleId = None \<and> moduleId \<notin> set (module_ids manifests)"
  by (induction manifests arbitrary: i m) (auto simp: module_ids_def)

lemma indexByModuleId_Some:
  "map_find (indexByModuleId manifests) moduleId = Some k \<Longrightarrow>
     k < length manifests \<and> mf_moduleId (manifests ! k) = moduleId"
  using index_from_Some [of 0 manifests "[]" moduleId k] by (simp add: indexByModuleId_def)

lemma dependency_index:
  assumes "k \<in> set (dependency_indices manifests index)"
  shows "k < length manifests"
  using assms indexByModuleId_Some
  by (fastforce simp: dependency_indices_def List.map_filter_def)

lemma dependency_indexed:
  assumes "dependency \<in> set (mf_requiredModules (manifests ! index))"
    and "dependency \<in> set (module_ids manifests)"
  shows "\<exists>k \<in> set (dependency_indices manifests index).
    k < length manifests \<and> mf_moduleId (manifests ! k) = dependency"
proof -
  have "map_find (indexByModuleId manifests) dependency \<noteq> None"
    using assms(2) by (simp add: indexByModuleId_def index_from_None)
  then obtain k where k: "map_find (indexByModuleId manifests) dependency = Some k" by blast
  then have "k \<in> set (dependency_indices manifests index)"
    using assms(1) by (force simp: dependency_indices_def List.map_filter_def)
  with indexByModuleId_Some [OF k] show ?thesis by blast
qed

section \<open>The visit\<close>

text \<open>Each dependency of an ordered module is ordered before it.\<close>

definition order_respects :: "module_manifest list \<Rightarrow> nat list \<Rightarrow> bool" where
  "order_respects manifests order \<longleftrightarrow>
     (\<forall>k < length order. set (dependency_indices manifests (order ! k)) \<subseteq> set (take k order))"

lemma order_respects_Nil [simp]: "order_respects manifests []"
  by (simp add: order_respects_def)

lemma order_respects_snoc:
  "order_respects manifests (order @ [i]) \<longleftrightarrow>
     order_respects manifests order \<and> set (dependency_indices manifests i) \<subseteq> set order"
  by (auto simp: order_respects_def nth_append less_Suc_eq)

text \<open>The shape of a visit state: the finished modules are the ordered ones.\<close>

definition visit_ok :: "module_manifest list \<Rightarrow> visit_state \<Rightarrow> bool" where
  "visit_ok manifests s \<longleftrightarrow> length (vs_marks s) = length manifests \<and>
     set (vs_marks s) \<subseteq> {0, 1, 2} \<and> distinct (vs_order s) \<and>
     (\<forall>i. i \<in> set (vs_order s) \<longleftrightarrow> i < length manifests \<and> vs_marks s ! i = 2)"

text \<open>What a call of \<open>visit\<close> may do to the state.\<close>

definition visit_extends :: "module_manifest list \<Rightarrow> visit_state \<Rightarrow> visit_state \<Rightarrow> bool" where
  "visit_extends manifests s s' \<longleftrightarrow> visit_ok manifests s' \<and>
     (\<forall>i < length manifests. vs_marks s ! i = 1 \<longleftrightarrow> vs_marks s' ! i = 1) \<and>
     (\<forall>i < length manifests. vs_marks s ! i = 2 \<longrightarrow> vs_marks s' ! i = 2) \<and>
     (\<exists>new. vs_failures s' = vs_failures s @ new \<and>
        (new = [] \<longrightarrow> order_respects manifests (vs_order s) \<longrightarrow>
           order_respects manifests (vs_order s')))"

lemma visit_extends_refl: "visit_ok manifests s \<Longrightarrow> visit_extends manifests s s"
  by (simp add: visit_extends_def)

lemma extends_ok: "visit_extends manifests s s' \<Longrightarrow> visit_ok manifests s'"
  unfolding visit_extends_def by blast

lemma extends_grey:
  "visit_extends manifests s s' \<Longrightarrow> i < length manifests \<Longrightarrow> vs_marks s ! i = 1 \<longleftrightarrow> vs_marks s' ! i = 1"
  unfolding visit_extends_def by blast

lemma extends_black:
  "visit_extends manifests s s' \<Longrightarrow> i < length manifests \<Longrightarrow> vs_marks s ! i = 2 \<Longrightarrow> vs_marks s' ! i = 2"
  unfolding visit_extends_def by blast

lemma extends_new:
  assumes "visit_extends manifests s s'"
  obtains new where "vs_failures s' = vs_failures s @ new"
    and "new = [] \<Longrightarrow> order_respects manifests (vs_order s) \<Longrightarrow> order_respects manifests (vs_order s')"
  using assms unfolding visit_extends_def by blast

lemma visit_extendsI:
  assumes "visit_ok manifests s'"
    and "\<And>i. i < length manifests \<Longrightarrow> vs_marks s ! i = 1 \<longleftrightarrow> vs_marks s' ! i = 1"
    and "\<And>i. i < length manifests \<Longrightarrow> vs_marks s ! i = 2 \<Longrightarrow> vs_marks s' ! i = 2"
    and "vs_failures s' = vs_failures s @ new"
    and "new = [] \<Longrightarrow> order_respects manifests (vs_order s) \<Longrightarrow> order_respects manifests (vs_order s')"
  shows "visit_extends manifests s s'"
  unfolding visit_extends_def
  by (intro conjI exI [of _ new]) (use assms in simp_all)

lemma visit_extends_trans:
  assumes ab: "visit_extends manifests a b" and bc: "visit_extends manifests b c"
  shows "visit_extends manifests a c"
proof -
  obtain new1 where 1: "vs_failures b = vs_failures a @ new1" "new1 = [] \<Longrightarrow>
      order_respects manifests (vs_order a) \<Longrightarrow> order_respects manifests (vs_order b)"
    using ab by (rule extends_new) blast
  obtain new2 where 2: "vs_failures c = vs_failures b @ new2" "new2 = [] \<Longrightarrow>
      order_respects manifests (vs_order b) \<Longrightarrow> order_respects manifests (vs_order c)"
    using bc by (rule extends_new) blast
  show ?thesis
  proof (rule visit_extendsI)
    show "vs_failures c = vs_failures a @ (new1 @ new2)" using 1(1) 2(1) by simp
    show "order_respects manifests (vs_order c)"
      if "new1 @ new2 = []" "order_respects manifests (vs_order a)"
      using that 1(2) 2(2) by simp
  qed (use extends_ok [OF bc] extends_grey [OF ab] extends_grey [OF bc] extends_black [OF ab]
      extends_black [OF bc] in simp_all)
qed

definition visited_well :: "module_manifest list \<Rightarrow> nat \<Rightarrow> visit_state \<Rightarrow> visit_state \<Rightarrow> bool" where
  "visited_well manifests index s s' \<longleftrightarrow> visit_extends manifests s s' \<and>
     vs_marks s' ! index \<noteq> 0 \<and> (vs_failures s' = vs_failures s \<longrightarrow> vs_marks s' ! index = 2)"

lemma mark_cases:
  assumes "visit_ok manifests s" and "i < length manifests"
  shows "vs_marks s ! i = 0 \<or> vs_marks s ! i = 1 \<or> vs_marks s ! i = 2"
proof -
  have "vs_marks s ! i \<in> set (vs_marks s)" using assms by (simp add: visit_ok_def)
  then show ?thesis using assms(1) by (auto simp: visit_ok_def)
qed

lemma extends_visited:
  assumes "visit_extends manifests s s'" and "visit_ok manifests s" and "i < length manifests"
    and "vs_marks s ! i \<noteq> 0"
  shows "vs_marks s' ! i \<noteq> 0"
  using assms(4) mark_cases [OF assms(2,3)] extends_grey [OF assms(1,3)]
    extends_black [OF assms(1,3)] by auto

lemma extends_failures:
  assumes "visit_extends manifests a b" and "visit_extends manifests b c"
    and "vs_failures c = vs_failures a"
  shows "vs_failures b = vs_failures a" "vs_failures c = vs_failures b"
  using assms(3) extends_new [OF assms(1)] extends_new [OF assms(2)]
  by (metis append_is_Nil_conv append_assoc append_self_conv)+

lemma visit_each_extends:
  assumes "visit_each f indices s = Some s'" and "visit_ok manifests s"
    and "\<And>i s s'. i \<in> set indices \<Longrightarrow> visit_ok manifests s \<Longrightarrow> f i s = Some s' \<Longrightarrow>
      visited_well manifests i s s'"
    and "\<forall>i \<in> set indices. i < length manifests"
  shows "visit_extends manifests s s' \<and> (\<forall>i \<in> set indices. vs_marks s' ! i \<noteq> 0 \<and>
    (vs_failures s' = vs_failures s \<longrightarrow> vs_marks s' ! i = 2))"
  using assms
proof (induction indices arbitrary: s)
  case (Cons i indices)
  then obtain s1 where s1: "f i s = Some s1" "visit_each f indices s1 = Some s'"
    by (auto split: option.splits)
  have well: "visited_well manifests i s s1" using Cons.prems s1(1) by simp
  then have ext1: "visit_extends manifests s s1" by (simp add: visited_well_def)
  then have ok1: "visit_ok manifests s1" by (rule extends_ok)
  have rest: "visit_extends manifests s1 s' \<and> (\<forall>i \<in> set indices. vs_marks s' ! i \<noteq> 0 \<and>
      (vs_failures s' = vs_failures s1 \<longrightarrow> vs_marks s' ! i = 2))"
    using s1(2) ok1 Cons.prems(3,4) by (intro Cons.IH) auto
  then have ext2: "visit_extends manifests s1 s'" by blast
  have i: "i < length manifests" using Cons.prems(4) by simp
  have "vs_marks s' ! i \<noteq> 0"
    using extends_visited [OF ext2 ok1 i] well by (simp add: visited_well_def)
  moreover have "vs_marks s' ! i = 2" if "vs_failures s' = vs_failures s"
    using extends_failures [OF ext1 ext2 that] well extends_black [OF ext2 i]
    by (simp add: visited_well_def)
  moreover have "vs_failures s' = vs_failures s1" if "vs_failures s' = vs_failures s"
    using extends_failures [OF ext1 ext2 that] by simp
  ultimately show ?case
    using rest visit_extends_trans [OF ext1 ext2] by simp
qed (auto intro: visit_extends_refl)

text \<open>Finishing a module whose dependencies have been visited.\<close>

lemma visit_finish:
  assumes ok: "visit_ok manifests s" and index: "index < length manifests"
    and mark: "vs_marks s ! index = 0"
    and ext: "visit_extends manifests (s\<lparr>vs_marks := (vs_marks s)[index := 1]\<rparr>) s2"
    and deps: "\<And>i. vs_failures s2 = vs_failures s \<Longrightarrow>
      i \<in> set (dependency_indices manifests index) \<Longrightarrow> vs_marks s2 ! i = 2"
  shows "visited_well manifests index s
    (s2\<lparr>vs_marks := (vs_marks s2)[index := 2], vs_order := vs_order s2 @ [index]\<rparr>)"
proof -
  from ok have len: "length (vs_marks s) = length manifests" by (simp add: visit_ok_def)
  have ok2: "visit_ok manifests s2" using ext by (rule extends_ok)
  have grey: "vs_marks s2 ! index = 1"
    using extends_grey [OF ext index] index len by simp
  have others: "i \<noteq> index \<Longrightarrow> i < length manifests \<Longrightarrow>
      (vs_marks s ! i = 1 \<longleftrightarrow> vs_marks s2 ! i = 1) \<and> (vs_marks s ! i = 2 \<longrightarrow> vs_marks s2 ! i = 2)" for i
    using extends_grey [OF ext, of i] extends_black [OF ext, of i] by simp
  obtain new where new: "vs_failures s2 = vs_failures s @ new" "new = [] \<Longrightarrow>
      order_respects manifests (vs_order s) \<Longrightarrow> order_respects manifests (vs_order s2)"
    by (rule extends_new [OF ext]) simp
  let ?s3 = "s2\<lparr>vs_marks := (vs_marks s2)[index := 2], vs_order := vs_order s2 @ [index]\<rparr>"
  have "visit_ok manifests ?s3"
    using ok2 index grey set_update_subset_insert [of "vs_marks s2" index 2]
    by (auto simp: visit_ok_def nth_list_update)
  moreover have "order_respects manifests (vs_order s2 @ [index])"
    if "new = []" "order_respects manifests (vs_order s)"
  proof -
    have "i \<in> set (vs_order s2)" if "i \<in> set (dependency_indices manifests index)" for i
      using deps [OF _ that] dependency_index [OF that] ok2 new(1) \<open>new = []\<close>
      by (simp add: visit_ok_def)
    then show ?thesis using new(2) that by (auto simp: order_respects_snoc)
  qed
  ultimately have "visit_extends manifests s ?s3"
    using others mark index new(1) ok2
    by (intro visit_extendsI [where new = new]) (auto simp: visit_ok_def nth_list_update)
  then show ?thesis
    using ok2 index by (simp add: visited_well_def visit_ok_def)
qed

lemma visit_well:
  "visit fuel manifests index s = Some s' \<Longrightarrow> visit_ok manifests s \<Longrightarrow> index < length manifests \<Longrightarrow>
     visited_well manifests index s s'"
proof (induction fuel arbitrary: index s s')
  case (Suc fuel)
  let ?s1 = "s\<lparr>vs_marks := (vs_marks s)[index := 1]\<rparr>"
  note ok = Suc.prems(2) and index = Suc.prems(3)
  from mark_cases [OF ok index] show ?case
  proof (elim disjE)
    assume "vs_marks s ! index = 2"
    then show ?thesis
      using Suc.prems by (simp add: visited_well_def visit_extends_refl)
  next
    assume "vs_marks s ! index = 1"
    then show ?thesis
      using Suc.prems
      by (auto simp: visited_well_def visit_ok_def intro!: visit_extendsI)
  next
    assume mark: "vs_marks s ! index = 0"
    then obtain s2 where s2: "visit_each (visit fuel manifests) (dependency_indices manifests index)
        ?s1 = Some s2" and s': "s' = s2\<lparr>vs_marks := (vs_marks s2)[index := 2],
        vs_order := vs_order s2 @ [index]\<rparr>"
      using Suc.prems(1) by (auto split: option.splits)
    have ok1: "visit_ok manifests ?s1"
      using ok index mark set_update_subset_insert [of "vs_marks s" index 1]
      by (auto simp: visit_ok_def nth_list_update)
    have "visit_extends manifests ?s1 s2 \<and> (\<forall>i \<in> set (dependency_indices manifests index).
        vs_marks s2 ! i \<noteq> 0 \<and> (vs_failures s2 = vs_failures ?s1 \<longrightarrow> vs_marks s2 ! i = 2))"
      using s2 ok1 Suc.IH dependency_index by (intro visit_each_extends) auto
    then have ext: "visit_extends manifests ?s1 s2" and
      deps: "vs_failures s2 = vs_failures s \<Longrightarrow> i \<in> set (dependency_indices manifests index) \<Longrightarrow>
        vs_marks s2 ! i = 2" for i
      by auto
    show ?thesis
      using visit_finish [OF ok index mark ext deps] by (simp add: s')
  qed
qed simp

section \<open>Enough fuel\<close>

definition unvisited :: "visit_state \<Rightarrow> nat" where
  "unvisited s = length (filter (\<lambda>m. m = 0) (vs_marks s))"

lemma unvisited_mark:
  assumes "i < length (vs_marks s)" and "vs_marks s ! i = 0" and "m \<noteq> 0"
  shows "Suc (unvisited (s\<lparr>vs_marks := (vs_marks s)[i := m]\<rparr>)) = unvisited s"
proof -
  have "vs_marks s = take i (vs_marks s) @ 0 # drop (Suc i) (vs_marks s)"
    using assms(1,2) by (metis id_take_nth_drop)
  then have "unvisited s = length (filter (\<lambda>m. m = 0)
      (take i (vs_marks s) @ 0 # drop (Suc i) (vs_marks s)))"
    by (metis unvisited_def)
  then show ?thesis
    using assms by (simp add: unvisited_def upd_conv_take_nth_drop)
qed

lemma unvisited_mono:
  assumes "visit_extends manifests s s'" and "visit_ok manifests s"
  shows "unvisited s' \<le> unvisited s"
proof -
  have len: "length (vs_marks s) = length manifests" "length (vs_marks s') = length manifests"
    using assms extends_ok [OF assms(1)] by (simp_all add: visit_ok_def)
  have "{i. i < length manifests \<and> vs_marks s' ! i = 0} \<subseteq>
      {i. i < length manifests \<and> vs_marks s ! i = 0}"
    using extends_visited [OF assms] by blast
  then have "card {i. i < length manifests \<and> vs_marks s' ! i = 0} \<le>
      card {i. i < length manifests \<and> vs_marks s ! i = 0}"
    by (intro card_mono) auto
  then show ?thesis by (simp add: unvisited_def length_filter_conv_card len)
qed

lemma visit_each_total:
  assumes "\<And>i s. i \<in> set indices \<Longrightarrow> visit_ok manifests s \<Longrightarrow> unvisited s \<le> n \<Longrightarrow>
      f i s \<noteq> None"
    and "\<And>i s s'. i \<in> set indices \<Longrightarrow> visit_ok manifests s \<Longrightarrow> f i s = Some s' \<Longrightarrow>
      visit_extends manifests s s'"
    and "visit_ok manifests s" "unvisited s \<le> n"
  shows "visit_each f indices s \<noteq> None"
  using assms
proof (induction indices arbitrary: s)
  case (Cons i indices)
  then obtain s1 where s1: "f i s = Some s1" by fastforce
  have ext: "visit_extends manifests s s1"
    by (rule Cons.prems(2) [OF _ Cons.prems(3) s1]) simp
  have "visit_each f indices s1 \<noteq> None"
  proof (rule Cons.IH)
    show "visit_ok manifests s1" using ext by (rule extends_ok)
    show "unvisited s1 \<le> n"
      using unvisited_mono [OF ext] Cons.prems(3,4) by simp
    show "f j t \<noteq> None"
      if "j \<in> set indices" "visit_ok manifests t" "unvisited t \<le> n" for j t
      by (rule Cons.prems(1)) (use that in simp_all)
    show "visit_extends manifests t t'"
      if "j \<in> set indices" "visit_ok manifests t" "f j t = Some t'" for j t t'
      by (rule Cons.prems(2) [OF _ that(2,3)]) (use that in simp)
  qed
  then show ?case by (simp add: s1)
qed simp

lemma visit_total:
  "unvisited s < fuel \<Longrightarrow> visit_ok manifests s \<Longrightarrow> index < length manifests \<Longrightarrow>
     visit fuel manifests index s \<noteq> None"
proof (induction fuel arbitrary: index s)
  case (Suc fuel)
  let ?s1 = "s\<lparr>vs_marks := (vs_marks s)[index := 1]\<rparr>"
  note ok = Suc.prems(2) and index = Suc.prems(3)
  show ?case
  proof (cases "vs_marks s ! index = 0")
    case True
    have len: "length (vs_marks s) = length manifests" using ok by (simp add: visit_ok_def)
    have ok1: "visit_ok manifests ?s1"
      using ok index True set_update_subset_insert [of "vs_marks s" index 1]
      by (auto simp: visit_ok_def nth_list_update)
    have less: "Suc (unvisited ?s1) \<le> fuel"
      using unvisited_mark [of index s 1] True index len Suc.prems(1) by simp
    have "visit_each (visit fuel manifests) (dependency_indices manifests index) ?s1 \<noteq> None"
    proof (rule visit_each_total [where n = "unvisited ?s1"])
      fix i s'
      assume "i \<in> set (dependency_indices manifests index)" and "visit_ok manifests s'"
        and "unvisited s' \<le> unvisited ?s1"
      then show "visit fuel manifests i s' \<noteq> None"
        using less dependency_index by (intro Suc.IH) auto
    next
      fix i s' s''
      assume "i \<in> set (dependency_indices manifests index)" and "visit_ok manifests s'"
        and "visit fuel manifests i s' = Some s''"
      then show "visit_extends manifests s' s''"
        using visit_well dependency_index by (simp add: visited_well_def)
    qed (use ok1 in simp_all)
    then show ?thesis using True by auto
  qed (use mark_cases [OF ok index] in auto)
qed simp

section \<open>The composed order\<close>

lemma visit_all_order:
  "\<exists>s. visit_all manifests failures = Some s \<and> distinct (vs_order s) \<and>
     set (vs_order s) = {..< length manifests} \<and>
     (vs_failures s = failures \<longrightarrow> order_respects manifests (vs_order s)) \<and>
     (\<exists>new. vs_failures s = failures @ new)"
proof -
  let ?n = "length manifests"
  let ?s0 = "\<lparr>vs_marks = replicate ?n 0, vs_order = [], vs_failures = failures\<rparr>"
  have ok0: "visit_ok manifests ?s0" by (auto simp: visit_ok_def)
  have fuel: "unvisited ?s0 \<le> ?n" by (simp add: unvisited_def)
  have "visit_each (visit (Suc ?n) manifests) [0 ..< ?n] ?s0 \<noteq> None"
  proof (rule visit_each_total [where n = ?n])
    show "visit (Suc ?n) manifests i s \<noteq> None"
      if "i \<in> set [0 ..< ?n]" "visit_ok manifests s" "unvisited s \<le> ?n" for i s
      using that by (intro visit_total) auto
    show "visit_extends manifests s s'"
      if "i \<in> set [0 ..< ?n]" "visit_ok manifests s" "visit (Suc ?n) manifests i s = Some s'" for i s s'
      using visit_well [OF that(3,2)] that(1) by (simp add: visited_well_def)
  qed (use ok0 fuel in simp_all)
  then obtain s where s: "visit_each (visit (Suc ?n) manifests) [0 ..< ?n] ?s0 = Some s" by blast
  have well: "visit_extends manifests ?s0 s \<and> (\<forall>i \<in> set [0 ..< ?n]. vs_marks s ! i \<noteq> 0 \<and>
      (vs_failures s = vs_failures ?s0 \<longrightarrow> vs_marks s ! i = 2))"
  proof (rule visit_each_extends [OF s ok0])
    show "visited_well manifests i t t'"
      if "i \<in> set [0 ..< ?n]" "visit_ok manifests t" "visit (Suc ?n) manifests i t = Some t'" for i t t'
      using visit_well [OF that(3,2)] that(1) by simp
  qed simp
  then have ext: "visit_extends manifests ?s0 s" by blast
  have ok: "visit_ok manifests s" using ext by (rule extends_ok)
  have "vs_marks s ! i = 2" if "i < ?n" for i
    using mark_cases [OF ok that] extends_grey [OF ext that] well that by auto
  then have "set (vs_order s) = {..< ?n}" "distinct (vs_order s)"
    using ok by (auto simp: visit_ok_def)
  moreover have "order_respects manifests (vs_order s)" if "vs_failures s = failures"
    by (rule extends_new [OF ext]) (use that in simp)
  moreover have "\<exists>new. vs_failures s = failures @ new"
    by (rule extends_new [OF ext]) simp
  moreover have "visit_all manifests failures = Some s"
    using s unfolding visit_all_def .
  ultimately show ?thesis by blast
qed

definition dependencies_first :: "module_manifest list \<Rightarrow> bool" where
  "dependencies_first manifests \<longleftrightarrow>
     (\<forall>k < length manifests. set (mf_requiredModules (manifests ! k)) \<subseteq>
        set (module_ids (take k manifests)))"

lemma missing_dependencies_Nil:
  "missing_dependencies manifests = [] \<longleftrightarrow>
     (\<forall>manifest \<in> set manifests. set (mf_requiredModules manifest) \<subseteq> set (module_ids manifests))"
  by (auto simp: missing_dependencies_def filter_empty_conv)

lemma reordered_dependencies_first:
  assumes order: "set order = {..< length manifests}" "order_respects manifests order"
    and deps: "missing_dependencies manifests = []"
  shows "dependencies_first (map (\<lambda>i. manifests ! i) order)"
  unfolding dependencies_first_def
proof (intro allI impI subsetI)
  fix k dependency
  assume k: "k < length (map (\<lambda>i. manifests ! i) order)"
    and d: "dependency \<in> set (mf_requiredModules (map (\<lambda>i. manifests ! i) order ! k))"
  then have i: "order ! k < length manifests" using order(1) nth_mem by fastforce
  then have "dependency \<in> set (module_ids manifests)"
    using deps d k by (auto simp: missing_dependencies_Nil subset_iff)
  then obtain j where j: "j \<in> set (dependency_indices manifests (order ! k))"
    "mf_moduleId (manifests ! j) = dependency"
    using dependency_indexed d k by fastforce
  then have "j \<in> set (take k order)" using order(2) k by (auto simp: order_respects_def)
  then show "dependency \<in> set (module_ids (take k (map (\<lambda>i. manifests ! i) order)))"
    using j(2) by (force simp: module_ids_def take_map)
qed

lemma create_selected_distinct:
  "distinct (map (\<lambda>e. mf_moduleId (fst e)) (fst (create_selected options blocked pending selected))) \<and>
   (\<forall>e \<in> set (fst (create_selected options blocked pending selected)).
      mf_moduleId (fst e) \<notin> set blocked \<and> mf_moduleId (fst e) \<notin> set selected)"
proof (induction pending arbitrary: selected)
  case (Cons selection pending)
  show ?case
    using Cons.IH [of selected]
      Cons.IH [of "mf_moduleId (ps_manifest selection) # selected"]
    by (auto simp: Let_def split_beta split: option.split)
qed simp

lemma mset_reordered:
  assumes "distinct order" "set order = {..< length xs}"
  shows "mset (map (\<lambda>i. xs ! i) order) = mset xs"
proof -
  have "mset order = mset [0 ..< length xs]"
    using assms by (metis atLeast_upt distinct_upt set_eq_iff_mset_eq_distinct)
  then have "mset (map (\<lambda>i. xs ! i) order) = mset (map (\<lambda>i. xs ! i) [0 ..< length xs])"
    by (metis mset_map)
  then show ?thesis by (simp add: map_nth)
qed

text \<open>The stages of \<open>compose\<close> by name.\<close>

definition pending_of :: "'m composer \<Rightarrow> composition_request \<Rightarrow> 'm pending_selection list \<times> string list" where
  "pending_of factories request =
     collect_pending factories (cq_createOptions request) (cq_requiredModules request)"

definition versions_of :: "'m composer \<Rightarrow> composition_request \<Rightarrow> string list \<times> string list" where
  "versions_of factories request =
     check_versions (cq_versionConstraints request) (fst (pending_of factories request)) [] []"

definition made_of ::
    "'m composer \<Rightarrow> composition_request \<Rightarrow> (module_manifest \<times> 'm) list \<times> string list" where
  "made_of factories request =
     create_selected (cq_createOptions request) (fst (versions_of factories request))
       (fst (pending_of factories request)) []"

lemma compose_stages:
  "compose factories request =
    (let made = fst (made_of factories request); manifests = map fst made; modules = map snd made
     in case visit_all manifests (missing_dependencies manifests) of
          None \<Rightarrow> None
        | Some s \<Rightarrow>
            let sort = (length (vs_order s) = length manifests) in
            Some \<lparr>co_modules = (if sort then map (\<lambda>i. modules ! i) (vs_order s) else modules),
                  co_manifests = (if sort then map (\<lambda>i. manifests ! i) (vs_order s) else manifests),
                  co_missingModules = snd (pending_of factories request) @ snd (made_of factories request),
                  co_dependencyFailures = vs_failures s,
                  co_versionFailures = snd (versions_of factories request)\<rparr>)"
  by (simp only: compose_def pending_of_def versions_of_def made_of_def Let_def split_beta)

text \<open>
  \<open>compose\<close> always returns, with the created modules in some order; where it reports no
  dependency failure, that order has every module's requirements before it.
\<close>

lemma compose_returns:
  obtains order failures where
    "compose factories request = Some \<lparr>
       co_modules = map (\<lambda>i. snd (fst (made_of factories request) ! i)) order,
       co_manifests = map (\<lambda>i. fst (fst (made_of factories request) ! i)) order,
       co_missingModules = snd (pending_of factories request) @ snd (made_of factories request),
       co_dependencyFailures = failures,
       co_versionFailures = snd (versions_of factories request)\<rparr>"
    and "distinct order" and "set order = {..< length (fst (made_of factories request))}"
    and "failures = [] \<Longrightarrow>
      dependencies_first (map (\<lambda>i. fst (fst (made_of factories request) ! i)) order)"
proof -
  let ?made = "fst (made_of factories request)"
  let ?missing = "missing_dependencies (map fst ?made)"
  obtain s where s: "visit_all (map fst ?made) ?missing = Some s"
    "distinct (vs_order s)" "set (vs_order s) = {..< length (map fst ?made)}"
    "vs_failures s = ?missing \<longrightarrow> order_respects (map fst ?made) (vs_order s)"
    "\<exists>new. vs_failures s = ?missing @ new"
    using visit_all_order by blast
  have len: "length (vs_order s) = length ?made"
    using s(2,3) by (metis card_lessThan distinct_card length_map)
  have nth: "map f ?made ! i = f (?made ! i)" if "i \<in> set (vs_order s)" for f i
    using s(3) that by auto
  show thesis
  proof (rule that [of "vs_order s" "vs_failures s"])
    show "compose factories request = Some \<lparr>
        co_modules = map (\<lambda>i. snd (?made ! i)) (vs_order s),
        co_manifests = map (\<lambda>i. fst (?made ! i)) (vs_order s),
        co_missingModules = snd (pending_of factories request) @ snd (made_of factories request),
        co_dependencyFailures = vs_failures s,
        co_versionFailures = snd (versions_of factories request)\<rparr>"
      unfolding compose_stages using s(1) len by (simp add: Let_def nth)
    show "dependencies_first (map (\<lambda>i. fst (?made ! i)) (vs_order s))" if "vs_failures s = []"
    proof -
      have "map (\<lambda>i. fst (?made ! i)) (vs_order s) = map (\<lambda>i. map fst ?made ! i) (vs_order s)"
        by (rule map_cong) (simp_all add: nth)
      moreover have "dependencies_first (map (\<lambda>i. map fst ?made ! i) (vs_order s))"
        by (rule reordered_dependencies_first) (use s that in simp_all)
      ultimately show ?thesis by metis
    qed
  qed (use s in simp_all)
qed

lemma compose_ok_manifests:
  assumes "compose factories request = Some result" and "composition_ok result"
  shows "dependencies_first (co_manifests result)" "distinct (module_ids (co_manifests result))"
    "length (co_modules result) = length (co_manifests result)"
proof -
  let ?made = "fst (made_of factories request)"
  obtain order failures where *: "compose factories request = Some \<lparr>
       co_modules = map (\<lambda>i. snd (?made ! i)) order,
       co_manifests = map (\<lambda>i. fst (?made ! i)) order,
       co_missingModules = snd (pending_of factories request) @ snd (made_of factories request),
       co_dependencyFailures = failures,
       co_versionFailures = snd (versions_of factories request)\<rparr>"
    "distinct order" "set order = {..< length ?made}"
    "failures = [] \<Longrightarrow> dependencies_first (map (\<lambda>i. fst (?made ! i)) order)"
    by (rule compose_returns [of factories request]) blast
  have result: "co_manifests result = map (\<lambda>i. fst (?made ! i)) order"
    "co_modules result = map (\<lambda>i. snd (?made ! i)) order" "co_dependencyFailures result = failures"
    using assms(1) *(1) by auto
  then show "length (co_modules result) = length (co_manifests result)" by simp
  show "dependencies_first (co_manifests result)"
    using *(4) assms(2) result by (simp add: composition_ok_def)
  have "mset (map (\<lambda>i. ?made ! i) order) = mset ?made"
    using *(2,3) by (rule mset_reordered)
  then have "mset (map (\<lambda>e. mf_moduleId (fst e)) (map (\<lambda>i. ?made ! i) order)) =
      mset (map (\<lambda>e. mf_moduleId (fst e)) ?made)"
    by (metis mset_map)
  then have "mset (module_ids (co_manifests result)) = mset (map (\<lambda>e. mf_moduleId (fst e)) ?made)"
    by (simp add: result module_ids_def o_def)
  moreover have "distinct (map (\<lambda>e. mf_moduleId (fst e)) ?made)"
    unfolding made_of_def using create_selected_distinct by blast
  ultimately show "distinct (module_ids (co_manifests result))"
    by (metis mset_eq_imp_distinct_iff)
qed

section \<open>Properties\<close>

text \<open>
  C40. Composing always returns, also on manifests whose dependencies form a cycle: the
  depth-first visit never runs out of the fuel it is given, which is one more than the number of
  manifests; and the result pairs every manifest with the module that was created for it, each
  pair exactly once.
\<close>

theorem compose_always_returns:
  "\<exists>result. compose factories request = Some result \<and>
     length (co_modules result) = length (co_manifests result) \<and>
     mset (zip (co_manifests result) (co_modules result)) = mset (fst (made_of factories request))"
proof -
  let ?made = "fst (made_of factories request)"
  obtain order failures where run: "compose factories request = Some \<lparr>
       co_modules = map (\<lambda>i. snd (?made ! i)) order, co_manifests = map (\<lambda>i. fst (?made ! i)) order,
       co_missingModules = snd (pending_of factories request) @ snd (made_of factories request),
       co_dependencyFailures = failures,
       co_versionFailures = snd (versions_of factories request)\<rparr>"
    and order: "distinct order" "set order = {..< length ?made}"
    by (rule compose_returns)
  have "zip (map (\<lambda>i. fst (?made ! i)) order) (map (\<lambda>i. snd (?made ! i)) order) =
      map (\<lambda>i. ?made ! i) order"
    by (simp add: zip_map_map zip_same_conv_map)
  then show ?thesis using run mset_reordered [OF order] by simp
qed

text \<open>
  C9. A composition reported as ok lists its modules so that every module comes after all the
  modules it requires, with no module id twice and one manifest per module.
\<close>

theorem composed_modules_follow_their_dependencies:
  assumes "compose factories request = Some result" and "composition_ok result"
  shows "dependencies_first (co_manifests result) \<and> distinct (module_ids (co_manifests result)) \<and>
    length (co_modules result) = length (co_manifests result)"
  using compose_ok_manifests [OF assms] by simp

definition sample_factory :: "string \<Rightarrow> string list \<Rightarrow> unit module_factory" where
  "sample_factory moduleId required = \<lparr>fa_supports = (\<lambda>wanted _. wanted = moduleId),
     fa_manifest = (\<lambda>_. default_manifest\<lparr>mf_moduleId := moduleId, mf_requiredModules := required\<rparr>),
     fa_create = (\<lambda>_. Some ())\<rparr>"

definition sample_composer :: "unit composer" where
  "sample_composer = [Some (sample_factory ''a'' [''b'']), Some (sample_factory ''b'' [])]"

definition sample_composition :: composition_request where
  "sample_composition = \<lparr>cq_requiredModules = [''a'', ''b''], cq_versionConstraints = [],
     cq_createOptions = \<lparr>cr_role = SR_Client, cr_localPlatform = []\<rparr>\<rparr>"

lemma sample_composed:
  "map_option (\<lambda>r. (module_ids (co_manifests r), composition_ok r))
     (compose sample_composer sample_composition) = Some ([''b'', ''a''], True)"
  by code_simp

theorem composed_modules_follow_their_dependencies_witness:
  "\<exists>result. compose sample_composer sample_composition = Some result \<and>
     module_ids (co_manifests result) = [''b'', ''a''] \<and> dependencies_first (co_manifests result)"
  using sample_composed composed_modules_follow_their_dependencies [of sample_composer sample_composition]
  by auto

end
