(* ===== verification/Module_Catalog.thy ===== *)
theory Module_Catalog
  imports Module_Manifest Channel_Defaults
begin

text \<open>
  \<open>src/core/module/module_catalog.cpp\<close>: the manifests of the product's modules and the suites
  they are sold in.
\<close>

section \<open>Building blocks\<close>

definition makeBase ::
    "string \<Rightarrow> string \<Rightarrow> string \<Rightarrow> feature_mask \<Rightarrow> u32 \<Rightarrow> u32 \<Rightarrow> module_manifest" where
  "makeBase moduleId displayName sku feature roleFlags runModeFlags = default_manifest\<lparr>
     mf_moduleId := moduleId,
     mf_displayName := displayName,
     mf_sku := sku,
     mf_version := \<lparr>mv_major = 1, mv_minor = 0, mv_patch = 0\<rparr>,
     mf_feature := feature,
     mf_roleFlags := roleFlags,
     mf_runModeFlags := runModeFlags,
     mf_standaloneSaleUnit := True,
     mf_disableAtRuntime := True,
     mf_supportedPlatforms := [''windows'', ''linux'', ''macos'']\<rparr>"

definition compatiblePeer :: "string \<Rightarrow> peer_compatibility" where
  "compatiblePeer peerModuleId = \<lparr>
     pc_peerModuleId = peerModuleId,
     pc_minPeerVersion = \<lparr>mv_major = 1, mv_minor = 0, mv_patch = 0\<rparr>,
     pc_maxPeerVersion = \<lparr>mv_major = 1, mv_minor = 99, mv_patch = 99\<rparr>,
     pc_compatibilityMode = ''v1-family''\<rparr>"

definition bind_channel ::
    "string \<Rightarrow> channel_id_value \<Rightarrow> channel_type \<Rightarrow> bool \<Rightarrow> bool \<Rightarrow> packet_type list \<Rightarrow>
     packet_type list \<Rightarrow> channel_binding" where
  "bind_channel name channelId channelType required shared consumes produces = \<lparr>
     cb_name = name, cb_channelId = channelId, cb_channelType = channelType,
     cb_required = required, cb_shared = shared, cb_consumes = consumes,
     cb_produces = produces\<rparr>"

abbreviation (input) clientAgent :: u32 where
  "clientAgent \<equiv> ModuleRoleClient OR ModuleRoleAgent"
abbreviation (input) inProcessHosted :: u32 where
  "inProcessHosted \<equiv> ModuleRunModeInProcess OR ModuleRunModeHosted"
abbreviation (input) inProcessHostedStandalone :: u32 where
  "inProcessHostedStandalone \<equiv>
     ModuleRunModeInProcess OR ModuleRunModeHosted OR ModuleRunModeStandalone"

section \<open>Modules\<close>

definition catalog_displayScreen :: module_manifest where
  "catalog_displayScreen =
     makeBase ''display.screen'' ''Screen projection capability''
     ''fusiondesk.module.display'' Feature_Screen clientAgent
     inProcessHosted"

definition catalog_displayScreenAgent :: module_manifest where
  "catalog_displayScreenAgent =
     (makeBase ''display.screen.agent'' ''Screen projection agent''
     ''fusiondesk.module.display'' Feature_Screen ModuleRoleAgent
     inProcessHosted)\<lparr>
     mf_compatiblePeers := [compatiblePeer ''display.screen.client''],
     mf_channels := [
       bind_channel ''main_screen'' CID_DesktopScreen CT_Video True False
         [PT_Watermark] [PT_Video, PT_CursorChange, PT_Watermark],
       bind_channel ''small_data'' CID_SmallData CT_Standard True True
         [PT_PayloadAck] [PT_PayloadAck],
       bind_channel ''second_screen'' CID_DesktopSecondScreen CT_Video False False
         [PT_Watermark] [PT_Video, PT_CursorChange, PT_Watermark]]\<rparr>"

definition catalog_displayScreenClient :: module_manifest where
  "catalog_displayScreenClient =
     (makeBase ''display.screen.client'' ''Screen projection client''
     ''fusiondesk.module.display'' Feature_Screen ModuleRoleClient
     inProcessHosted)\<lparr>
     mf_compatiblePeers := [compatiblePeer ''display.screen.agent''],
     mf_channels := [
       bind_channel ''main_screen'' CID_DesktopScreen CT_Video True False
         [PT_Video, PT_CursorChange, PT_Watermark] [],
       bind_channel ''small_data'' CID_SmallData CT_Standard True True
         [PT_PayloadAck] [PT_PayloadAck],
       bind_channel ''second_screen'' CID_DesktopSecondScreen CT_Video False False
         [PT_Video, PT_CursorChange, PT_Watermark] []]\<rparr>"

definition catalog_clipboardRedirect :: module_manifest where
  "catalog_clipboardRedirect =
     makeBase ''clipboard.redirect'' ''Clipboard redirection capability''
     ''fusiondesk.module.clipboard'' Feature_Clipboard clientAgent
     inProcessHosted"

definition catalog_clipboardRedirectAgent :: module_manifest where
  "catalog_clipboardRedirectAgent =
     (makeBase ''clipboard.redirect.agent'' ''Clipboard redirection agent''
     ''fusiondesk.module.clipboard'' Feature_Clipboard ModuleRoleAgent
     inProcessHosted)\<lparr>
     mf_compatiblePeers := [compatiblePeer ''clipboard.redirect.client''],
     mf_channels := [
       bind_channel ''small_data'' CID_SmallData CT_Standard True True
         [PT_Clipboard] [PT_Clipboard],
       bind_channel ''large_data'' CID_LargeData CT_Standard False True
         [PT_Clipboard] [PT_Clipboard]]\<rparr>"

definition catalog_clipboardRedirectClient :: module_manifest where
  "catalog_clipboardRedirectClient =
     (makeBase ''clipboard.redirect.client'' ''Clipboard redirection client''
     ''fusiondesk.module.clipboard'' Feature_Clipboard ModuleRoleClient
     inProcessHosted)\<lparr>
     mf_compatiblePeers := [compatiblePeer ''clipboard.redirect.agent''],
     mf_channels := [
       bind_channel ''small_data'' CID_SmallData CT_Standard True True
         [PT_Clipboard] [PT_Clipboard],
       bind_channel ''large_data'' CID_LargeData CT_Standard False True
         [PT_Clipboard] [PT_Clipboard]]\<rparr>"

definition catalog_desktopAudio :: module_manifest where
  "catalog_desktopAudio =
    (let types = [PT_Audio] in
     (makeBase ''audio.desktop'' ''Desktop audio redirection''
     ''fusiondesk.module.audio.desktop'' Feature_Audio clientAgent
     inProcessHosted)\<lparr>
     mf_channels := [
       bind_channel ''audio'' CID_DesktopAudio CT_Audio True False
         types types]\<rparr>)"

definition catalog_microphone :: module_manifest where
  "catalog_microphone =
    (let types = [PT_Microphone] in
     (makeBase ''audio.microphone'' ''Microphone redirection''
     ''fusiondesk.module.audio.microphone'' Feature_Microphone clientAgent
     inProcessHosted)\<lparr>
     mf_channels := [
       bind_channel ''microphone'' CID_Microphone CT_Standard True False
         types types]\<rparr>)"

definition catalog_camera :: module_manifest where
  "catalog_camera =
    (let types = [PT_Exchange] in
     (makeBase ''camera.redirect'' ''Camera redirection''
     ''fusiondesk.module.camera'' Feature_Camera clientAgent
     inProcessHosted)\<lparr>
     mf_channels := [
       bind_channel ''camera'' CID_Camera CT_Standard True False
         types types]\<rparr>)"

definition catalog_filesystem :: module_manifest where
  "catalog_filesystem =
    (let types = [PT_Filesystem, PT_FilesystemControl, PT_FilesystemIrp] in
     (makeBase ''filesystem.redirect'' ''Filesystem redirection''
     ''fusiondesk.module.filesystem'' Feature_Filesystem clientAgent
     inProcessHostedStandalone)\<lparr>
     mf_channels := [
       bind_channel ''large_data'' CID_LargeData CT_Standard True True
         types types,
       bind_channel ''filesystem'' CID_Filesystem CT_Standard False False
         types types]\<rparr>)"

definition catalog_printer :: module_manifest where
  "catalog_printer =
    (let types = [PT_Printer] in
     (makeBase ''printer.redirect'' ''Printer redirection''
     ''fusiondesk.module.printer'' Feature_Printer clientAgent
     inProcessHostedStandalone)\<lparr>
     mf_channels := [
       bind_channel ''large_data'' CID_LargeData CT_Standard True True
         types types,
       bind_channel ''printer'' CID_Printer CT_Standard False False
         types types]\<rparr>)"

definition catalog_keyboard :: module_manifest where
  "catalog_keyboard =
    (let types = [PT_Keyboard] in
     (makeBase ''input.keyboard'' ''Keyboard redirection''
     ''fusiondesk.module.input.keyboard'' Feature_Keyboard clientAgent
     inProcessHosted)\<lparr>
     mf_channels := [
       bind_channel ''small_data'' CID_SmallData CT_Standard True True
         types types]\<rparr>)"

definition catalog_mouse :: module_manifest where
  "catalog_mouse =
    (let types = [PT_Mouse, PT_CursorChange] in
     (makeBase ''input.mouse'' ''Mouse redirection''
     ''fusiondesk.module.input.mouse'' Feature_Mouse clientAgent
     inProcessHosted)\<lparr>
     mf_channels := [
       bind_channel ''small_data'' CID_SmallData CT_Standard True True
         types types]\<rparr>)"

definition catalog_touch :: module_manifest where
  "catalog_touch =
    (let types = [PT_Touchscreen] in
     (makeBase ''input.touch'' ''Touch redirection''
     ''fusiondesk.module.input.touch'' Feature_Touch clientAgent
     inProcessHosted)\<lparr>
     mf_channels := [
       bind_channel ''small_data'' CID_SmallData CT_Standard True True
         types types]\<rparr>)"

definition catalog_gamepad :: module_manifest where
  "catalog_gamepad =
    (let types = [PT_Gamepad] in
     (makeBase ''input.gamepad'' ''Gamepad redirection''
     ''fusiondesk.module.input.gamepad'' Feature_Gamepad clientAgent
     inProcessHostedStandalone)\<lparr>
     mf_channels := [
       bind_channel ''gamepad'' CID_Gamepad CT_Standard True False
         types types]\<rparr>)"

definition catalog_peripheralUsb :: module_manifest where
  "catalog_peripheralUsb =
     (makeBase ''peripheral.usb'' ''USB and peripheral redirection''
     ''fusiondesk.module.peripheral.usb'' Feature_PeripheralUsb (ModuleRoleClient OR ModuleRoleBridge)
     (ModuleRunModeProcessOut OR ModuleRunModeHosted OR ModuleRunModeStandalone))\<lparr>
     mf_requiredModules := [''peripheral.bridge'']\<rparr>"

section \<open>Suites\<close>

definition displayScreenRoleManifests :: "module_manifest list" where
  "displayScreenRoleManifests = [catalog_displayScreenAgent, catalog_displayScreenClient]"

definition clipboardRedirectRoleManifests :: "module_manifest list" where
  "clipboardRedirectRoleManifests =
     [catalog_clipboardRedirectAgent, catalog_clipboardRedirectClient]"

definition remoteDesktopSuite :: "module_manifest list" where
  "remoteDesktopSuite =
     [catalog_displayScreenAgent, catalog_displayScreenClient, catalog_clipboardRedirectAgent,
      catalog_clipboardRedirectClient, catalog_desktopAudio, catalog_microphone, catalog_camera,
      catalog_filesystem, catalog_printer, catalog_keyboard, catalog_mouse, catalog_touch,
      catalog_gamepad, catalog_peripheralUsb]"

definition remoteDesktopSuiteForRole :: "u32 \<Rightarrow> module_manifest list" where
  "remoteDesktopSuiteForRole roleFlag =
     filter (\<lambda>manifest. mf_roleFlags manifest = 0 \<or> mf_roleFlags manifest AND roleFlag \<noteq> 0)
       remoteDesktopSuite"

definition redirectionSuite :: "module_manifest list" where
  "redirectionSuite =
     [catalog_clipboardRedirect, catalog_filesystem, catalog_printer, catalog_camera,
      catalog_desktopAudio, catalog_microphone, catalog_peripheralUsb]"

definition filesystemOnly :: "module_manifest list" where
  "filesystemOnly = [catalog_filesystem]"

definition peripheralSuite :: "module_manifest list" where
  "peripheralSuite = [catalog_peripheralUsb]"

section \<open>Lemmas\<close>

lemmas catalog_defs = catalog_displayScreenAgent_def catalog_displayScreenClient_def
  catalog_clipboardRedirectAgent_def catalog_clipboardRedirectClient_def
  catalog_desktopAudio_def catalog_microphone_def catalog_camera_def catalog_filesystem_def
  catalog_printer_def catalog_keyboard_def catalog_mouse_def catalog_touch_def
  catalog_gamepad_def catalog_peripheralUsb_def makeBase_def default_manifest_def Let_def

definition suite_ids :: "module_manifest list \<Rightarrow> string list" where
  "suite_ids suite = map mf_moduleId suite"

lemma remoteDesktopSuite_ids:
  "suite_ids remoteDesktopSuite =
     [''display.screen.agent'', ''display.screen.client'', ''clipboard.redirect.agent'',
      ''clipboard.redirect.client'', ''audio.desktop'', ''audio.microphone'', ''camera.redirect'',
      ''filesystem.redirect'', ''printer.redirect'', ''input.keyboard'', ''input.mouse'',
      ''input.touch'', ''input.gamepad'', ''peripheral.usb'']"
  by (simp add: suite_ids_def remoteDesktopSuite_def catalog_defs)

text \<open>What a suite requires and does not contain.\<close>

definition unmet_dependencies :: "module_manifest list \<Rightarrow> (string \<times> string) list" where
  "unmet_dependencies suite = concat (map (\<lambda>manifest.
     map (Pair (mf_moduleId manifest))
       (filter (\<lambda>required. required \<notin> set (suite_ids suite)) (mf_requiredModules manifest))) suite)"

lemma remoteDesktopSuite_unmet:
  "unmet_dependencies remoteDesktopSuite = [(''peripheral.usb'', ''peripheral.bridge'')]"
  unfolding unmet_dependencies_def remoteDesktopSuite_ids
  by (simp add: remoteDesktopSuite_def catalog_defs)

text \<open>The bindings of a module that move a packet type over a default channel whose
  specification does not allow it.\<close>

definition binding_allowed :: "channel_spec list \<Rightarrow> channel_binding \<Rightarrow> bool" where
  "binding_allowed specs binding \<longleftrightarrow>
     list_all (\<lambda>spec. sp_key spec = ChannelKey (cb_channelId binding) (cb_channelType binding) \<longrightarrow>
       list_all (packetTypeAllowed spec) (cb_consumes binding @ cb_produces binding)) specs"

definition outside_allowlist :: "channel_spec list \<Rightarrow> module_manifest list \<Rightarrow> string list" where
  "outside_allowlist specs suite =
     map mf_moduleId (filter (\<lambda>manifest. \<not> list_all (binding_allowed specs) (mf_channels manifest)) suite)"

lemma catalog_outside_allowlist:
  "outside_allowlist (defaultLargeDataChannelSpec # defaultMvpChannelSpecs) remoteDesktopSuite =
     [''input.mouse'']"
  by code_simp

lemma role_manifests_compatible:
  "cc_compatible (checkModuleCompatibility catalog_displayScreenAgent
     (mf_moduleId catalog_displayScreenClient) (mf_version catalog_displayScreenClient))"
  "cc_compatible (checkModuleCompatibility catalog_displayScreenClient
     (mf_moduleId catalog_displayScreenAgent) (mf_version catalog_displayScreenAgent))"
  "cc_compatible (checkModuleCompatibility catalog_clipboardRedirectAgent
     (mf_moduleId catalog_clipboardRedirectClient) (mf_version catalog_clipboardRedirectClient))"
  "cc_compatible (checkModuleCompatibility catalog_clipboardRedirectClient
     (mf_moduleId catalog_clipboardRedirectAgent) (mf_version catalog_clipboardRedirectAgent))"
  by code_simp+

section \<open>Properties\<close>

text \<open>
  The remote desktop suite against the default channels: its module ids are distinct, the
  agent and client halves of the display and clipboard modules accept each other's version,
  exactly one requirement is left unmet by the suite itself (\<open>peripheral.usb\<close> asks for
  \<open>peripheral.bridge\<close>), and exactly one module (\<open>input.mouse\<close>) declares a packet type that the
  allowlist of its default channel does not have.
\<close>

theorem suite_against_default_channels:
  "distinct (suite_ids remoteDesktopSuite) \<and>
   unmet_dependencies remoteDesktopSuite = [(''peripheral.usb'', ''peripheral.bridge'')] \<and>
   outside_allowlist (defaultLargeDataChannelSpec # defaultMvpChannelSpecs) remoteDesktopSuite =
     [''input.mouse''] \<and>
   cc_compatible (checkModuleCompatibility catalog_displayScreenAgent
     (mf_moduleId catalog_displayScreenClient) (mf_version catalog_displayScreenClient)) \<and>
   cc_compatible (checkModuleCompatibility catalog_clipboardRedirectClient
     (mf_moduleId catalog_clipboardRedirectAgent) (mf_version catalog_clipboardRedirectAgent))"
  by (simp add: remoteDesktopSuite_ids remoteDesktopSuite_unmet catalog_outside_allowlist
      role_manifests_compatible)

end
