(* ===== verification/Request_Tracker.thy ===== *)
theory Request_Tracker
  imports Std_Map Protocol_Types
begin

text \<open>
  \<open>src/core/network/request_tracker.cpp\<close>: the requests that await a response, by message id.
  A response handler is an opaque value (\<open>None\<close> for an empty \<open>std::function\<close>); an operation
  returns, besides its result and the tracker after it, the handler calls it makes, in
  order. The model covers handlers that do not call back into the tracker; each operation
  erases through an iterator obtained before the handler ran, so re-entrant calls are
  outside what the code supports.
\<close>

section \<open>State\<close>

record track_result =
  tr_tracked :: bool
  tr_status :: response_status
  tr_message :: string

definition track_ok :: track_result where
  "track_ok = \<lparr>tr_tracked = True, tr_status = RS_Ok, tr_message = []\<rparr>"

definition track_error :: "response_status \<Rightarrow> string \<Rightarrow> track_result" where
  "track_error status message = \<lparr>tr_tracked = False, tr_status = status, tr_message = message\<rparr>"

record request_snapshot =
  rsn_messageId :: message_id
  rsn_correlationId :: message_id
  rsn_channelId :: channel_id
  rsn_channelType :: channel_type
  rsn_packetType :: packet_type
  rsn_deadlineUsec :: u64

record 'h pending_request =
  pe_request :: packet_envelope
  pe_handler :: "'h option"
  pe_deadlineUsec :: u64

record 'h tracker =
  tk_nextMessageId :: message_id
  tk_pending :: "(message_id, 'h pending_request) std_map"

definition new_tracker :: "message_id \<Rightarrow> 'h tracker" where
  "new_tracker firstMessageId =
     \<lparr>tk_nextMessageId = (if firstMessageId = 0 then 1 else firstMessageId), tk_pending = []\<rparr>"

section \<open>Operations\<close>

definition nextMessageId :: "'h tracker \<Rightarrow> message_id \<times> 'h tracker" where
  "nextMessageId t =
    (let current = (if tk_nextMessageId t = 0 then 1 else tk_nextMessageId t)
     in (current, t\<lparr>tk_nextMessageId := current + 1\<rparr>))"

definition isTrackableRequest :: "message_kind \<Rightarrow> bool" where
  "isTrackableRequest kind \<longleftrightarrow> kind = MK_Request \<or> kind = MK_StreamStart \<or> kind = MK_Cancel"

definition isTerminalResponse :: "message_kind \<Rightarrow> bool" where
  "isTerminalResponse kind \<longleftrightarrow> kind = MK_Response \<or> kind = MK_Error \<or> kind = MK_StreamEnd"

definition makeSyntheticResponse ::
    "'h pending_request \<Rightarrow> response_status \<Rightarrow> message_kind \<Rightarrow> packet_envelope" where
  "makeSyntheticResponse pending status kind =
    (let request = pe_request pending in default_packet\<lparr>
       pk_protocolMajor := pk_protocolMajor request,
       pk_protocolMinor := pk_protocolMinor request,
       pk_sessionId := pk_sessionId request,
       pk_traceId := pk_traceId request,
       pk_correlationId := pk_correlationId request,
       pk_responseTo := pk_messageId request,
       pk_channelId := pk_channelId request,
       pk_channelType := pk_channelType request,
       pk_packetType := pk_packetType request,
       pk_messageKind := kind,
       pk_priority := pk_priority request,
       pk_responseStatus := status\<rparr>)"

definition request_deadline :: "packet_envelope \<Rightarrow> u64" where
  "request_deadline request = pk_monotonicTimestampUsec request + ucast (pk_timeoutMs request) * 1000"

definition track_checks ::
    "packet_envelope \<Rightarrow> 'h option \<Rightarrow> 'h tracker \<Rightarrow> (bool \<times> response_status \<times> string) list" where
  "track_checks request handler t =
    [(handler = None, (RS_InvalidArgument, ''response handler is required'')),
     (\<not> isTrackableRequest (pk_messageKind request),
        (RS_InvalidArgument, ''message kind is not trackable'')),
     (pk_messageId request = 0, (RS_InvalidArgument, ''message id is required'')),
     (pk_correlationId request = 0, (RS_InvalidArgument, ''correlation id is required'')),
     (pk_timeoutMs request = 0, (RS_InvalidArgument, ''timeout is required'')),
     (map_find (tk_pending t) (pk_messageId request) \<noteq> None,
        (RS_Conflict, ''message id is already pending''))]"

definition track ::
    "packet_envelope \<Rightarrow> 'h option \<Rightarrow> 'h tracker \<Rightarrow> track_result \<times> 'h tracker" where
  "track request handler t =
    (case first_failure (track_checks request handler t) of
       Some (status, message) \<Rightarrow> (track_error status message, t)
     | None \<Rightarrow> (track_ok, t\<lparr>tk_pending := map_put (pk_messageId request)
         \<lparr>pe_request = request, pe_handler = handler,
          pe_deadlineUsec = request_deadline request\<rparr> (tk_pending t)\<rparr>))"

text \<open>\<open>if (handler) handler(response)\<close>: the call, if there is one.\<close>

definition call_handler ::
    "'h option \<Rightarrow> packet_envelope \<Rightarrow> ('h \<times> packet_envelope) list" where
  "call_handler handler packet = (case handler of None \<Rightarrow> [] | Some h \<Rightarrow> [(h, packet)])"

definition complete ::
    "packet_envelope \<Rightarrow> 'h tracker \<Rightarrow> bool \<times> ('h \<times> packet_envelope) list \<times> 'h tracker" where
  "complete response t =
    (if pk_responseTo response = 0 then (False, [], t)
     else case map_find (tk_pending t) (pk_responseTo response) of
       None \<Rightarrow> (False, [], t)
     | Some pending \<Rightarrow>
         (True, call_handler (pe_handler pending) response,
          if isTerminalResponse (pk_messageKind response)
          then t\<lparr>tk_pending := map_erase (pk_responseTo response) (tk_pending t)\<rparr> else t))"

text \<open>The second loop of \<open>cancelByChannel\<close> and \<open>expire\<close>: answer and erase each listed id.\<close>

fun answer_all ::
    "response_status \<Rightarrow> message_id list \<Rightarrow> 'h tracker \<Rightarrow>
     ('h \<times> packet_envelope) list \<times> 'h tracker" where
  "answer_all status [] t = ([], t)"
| "answer_all status (messageId # ids) t =
    (case map_find (tk_pending t) messageId of
       None \<Rightarrow> answer_all status ids t
     | Some pending \<Rightarrow>
         let response = makeSyntheticResponse pending status MK_Error;
             t' = t\<lparr>tk_pending := map_erase messageId (tk_pending t)\<rparr>;
             (calls, t'') = answer_all status ids t'
         in (call_handler (pe_handler pending) response @ calls, t''))"

definition cancelByChannel ::
    "channel_id \<Rightarrow> channel_type \<Rightarrow> response_status \<Rightarrow> 'h tracker \<Rightarrow>
     nat \<times> ('h \<times> packet_envelope) list \<times> 'h tracker" where
  "cancelByChannel channelId channelType status t =
    (let toCancel = map fst (filter (\<lambda>(messageId, pending).
           pk_channelId (pe_request pending) = channelId \<and>
           pk_channelType (pe_request pending) = channelType) (tk_pending t))
     in (length toCancel, answer_all status toCancel t))"

definition expire :: "u64 \<Rightarrow> 'h tracker \<Rightarrow> nat \<times> ('h \<times> packet_envelope) list \<times> 'h tracker" where
  "expire nowUsec t =
    (let expired = map fst (filter (\<lambda>(messageId, pending). pe_deadlineUsec pending \<le> nowUsec)
           (tk_pending t))
     in (length expired, answer_all RS_Timeout expired t))"

definition hasPending :: "'h tracker \<Rightarrow> message_id \<Rightarrow> bool" where
  "hasPending t messageId \<longleftrightarrow> map_find (tk_pending t) messageId \<noteq> None"

definition pendingCount :: "'h tracker \<Rightarrow> nat" where
  "pendingCount t = length (tk_pending t)"

definition request_snapshots :: "'h tracker \<Rightarrow> request_snapshot list" where
  "request_snapshots t = map (\<lambda>(messageId, pending).
     \<lparr>rsn_messageId = pk_messageId (pe_request pending),
      rsn_correlationId = pk_correlationId (pe_request pending),
      rsn_channelId = pk_channelId (pe_request pending),
      rsn_channelType = pk_channelType (pe_request pending),
      rsn_packetType = pk_packetType (pe_request pending),
      rsn_deadlineUsec = pe_deadlineUsec pending\<rparr>) (tk_pending t)"

section \<open>The tracker invariant\<close>

definition pending_ok :: "message_id \<Rightarrow> 'h pending_request \<Rightarrow> bool" where
  "pending_ok messageId pending \<longleftrightarrow>
     messageId \<noteq> 0 \<and> pk_messageId (pe_request pending) = messageId \<and>
     pk_correlationId (pe_request pending) \<noteq> 0 \<and> pk_timeoutMs (pe_request pending) \<noteq> 0 \<and>
     isTrackableRequest (pk_messageKind (pe_request pending)) \<and> pe_handler pending \<noteq> None \<and>
     pe_deadlineUsec pending = request_deadline (pe_request pending)"

definition tracker_ok :: "'h tracker \<Rightarrow> bool" where
  "tracker_ok t \<longleftrightarrow> map_ok (tk_pending t) \<and>
     (\<forall>messageId pending. map_find (tk_pending t) messageId = Some pending \<longrightarrow>
        pending_ok messageId pending)"

lemma new_tracker_ok [simp]: "tracker_ok (new_tracker n)"
  by (simp add: tracker_ok_def new_tracker_def)

definition trackable :: "packet_envelope \<Rightarrow> 'h option \<Rightarrow> 'h tracker \<Rightarrow> bool" where
  "trackable request handler t \<longleftrightarrow>
     handler \<noteq> None \<and> isTrackableRequest (pk_messageKind request) \<and>
     pk_messageId request \<noteq> 0 \<and> pk_correlationId request \<noteq> 0 \<and> pk_timeoutMs request \<noteq> 0 \<and>
     \<not> hasPending t (pk_messageId request)"

lemma track_checks_pass: "first_failure (track_checks request handler t) = None \<longleftrightarrow>
    trackable request handler t"
  unfolding first_failure_None by (auto simp: track_checks_def trackable_def hasPending_def)

lemma track_accepted:
  assumes "trackable request handler t"
  shows "track request handler t = (track_ok, t\<lparr>tk_pending := map_put (pk_messageId request)
         \<lparr>pe_request = request, pe_handler = handler,
          pe_deadlineUsec = request_deadline request\<rparr> (tk_pending t)\<rparr>)"
  using assms unfolding track_checks_pass [symmetric] by (simp add: track_def)

lemma track_refused:
  assumes "\<not> trackable request handler t"
  obtains status message where "track request handler t = (track_error status message, t)"
    and "(True, status, message) \<in> set (track_checks request handler t)"
  using assms unfolding track_checks_pass [symmetric]
  by (fastforce simp: track_def dest: first_failure_Some)

lemma nextMessageId_ok [preserves]: "tracker_ok t \<Longrightarrow> tracker_ok (snd (nextMessageId t))"
  by (simp add: nextMessageId_def tracker_ok_def Let_def)

lemma track_ok_inv [preserves]:
  assumes "tracker_ok t"
  shows "tracker_ok (snd (track request handler t))"
proof (cases "trackable request handler t")
  case True
  with assms show ?thesis
    by (auto simp: track_accepted tracker_ok_def smap.ok_put trackable_def pending_ok_def)
next
  case False
  then show ?thesis
    by (rule track_refused) (use assms in simp)
qed

lemma complete_ok [preserves]: "tracker_ok t \<Longrightarrow> tracker_ok (snd (snd (complete response t)))"
  by (auto simp: complete_def tracker_ok_def smap.ok_erase split: option.splits)

lemma answer_all_tracker:
  "snd (answer_all status ids t) = t\<lparr>tk_pending := fold map_erase ids (tk_pending t)\<rparr>"
  by (induction ids arbitrary: t) (auto simp: Let_def split_beta map_erase_absent split: option.splits)

lemma answer_all_ok: "tracker_ok t \<Longrightarrow> tracker_ok (snd (answer_all status ids t))"
  by (auto simp: answer_all_tracker tracker_ok_def smap.ok_erase_all split: if_splits)

lemma cancel_ok [preserves]:
  "tracker_ok t \<Longrightarrow> tracker_ok (snd (snd (cancelByChannel channelId channelType status t)))"
  by (simp add: cancelByChannel_def Let_def answer_all_ok)

lemma expire_ok [preserves]: "tracker_ok t \<Longrightarrow> tracker_ok (snd (snd (expire nowUsec t)))"
  by (simp add: expire_def Let_def answer_all_ok)


datatype 'h tracker_op =
    NextId
  | Track packet_envelope "'h option"
  | Complete packet_envelope
  | CancelByChannel channel_id channel_type response_status
  | Expire u64

fun tracker_step :: "'h tracker_op \<Rightarrow> 'h tracker \<Rightarrow> 'h tracker" where
  "tracker_step NextId t = snd (nextMessageId t)"
| "tracker_step (Track request handler) t = snd (track request handler t)"
| "tracker_step (Complete response) t = snd (snd (complete response t))"
| "tracker_step (CancelByChannel channelId channelType status) t =
     snd (snd (cancelByChannel channelId channelType status t))"
| "tracker_step (Expire nowUsec) t = snd (snd (expire nowUsec t))"

lemma tracker_step_ok: "tracker_ok t \<Longrightarrow> tracker_ok (tracker_step op t)"
  by (cases op) (auto intro: preserves)

interpretation tracker: kept_by_steps tracker_step tracker_ok
  by unfold_locales (rule tracker_step_ok)

section \<open>Who is answered\<close>

text \<open>
  \<open>answer_all\<close> over the keys of a selection of the pending requests calls the handler of each
  selected request once, in ascending id order, and leaves exactly the others pending.
\<close>

definition answers ::
    "response_status \<Rightarrow> (message_id \<times> 'h pending_request) list \<Rightarrow> ('h \<times> packet_envelope) list" where
  "answers status selected = concat (map (\<lambda>(messageId, pending).
     call_handler (pe_handler pending) (makeSyntheticResponse pending status MK_Error)) selected)"

lemma answer_all_calls:
  assumes "distinct (map fst selected)"
    and "\<forall>(k, v) \<in> set selected. map_find (tk_pending t) k = Some v"
  shows "fst (answer_all status (map fst selected) t) = answers status selected"
  using assms
proof (induction selected arbitrary: t)
  case (Cons e selected)
  obtain k v where e: "e = (k, v)" by (cases e)
  let ?t = "t\<lparr>tk_pending := map_erase k (tk_pending t)\<rparr>"
  have "\<forall>(k', v') \<in> set selected. map_find (tk_pending ?t) k' = Some v'"
    using Cons.prems by (force simp: e)
  with Cons.IH [of ?t] Cons.prems show ?case
    by (simp add: e answers_def Let_def split_beta)
qed (simp add: answers_def)

lemma filtered_pending:
  assumes "map_ok m"
  shows "distinct (map fst (filter p m))" "\<forall>(k, v) \<in> set (filter p m). map_find m k = Some v"
proof -
  have "distinct (map fst m)" using smap.keys_distinct [OF assms] by (simp add: map_keys_def)
  then show "distinct (map fst (filter p m))" by (rule distinct_map_filter)
  show "\<forall>(k, v) \<in> set (filter p m). map_find m k = Some v"
    using map_entry_iff [OF assms] by auto
qed

lemma answer_selected:
  assumes "tracker_ok t"
  shows "answer_all status (map fst (filter p (tk_pending t))) t =
    (answers status (filter p (tk_pending t)),
     t\<lparr>tk_pending := filter (\<lambda>e. \<not> p e) (tk_pending t)\<rparr>)"
proof -
  have ok: "map_ok (tk_pending t)" using assms by (simp add: tracker_ok_def)
  have "filter (\<lambda>e. fst e \<notin> set (map fst (filter p (tk_pending t)))) (tk_pending t) =
      filter (\<lambda>e. \<not> p e) (tk_pending t)"
  proof (rule filter_cong [OF refl])
    fix e
    assume e: "e \<in> set (tk_pending t)"
    have "e' = e" if "e' \<in> set (tk_pending t)" "fst e' = fst e" for e'
      using that e map_entry_iff [OF ok] by (metis option.inject prod.collapse)
    with e show "(fst e \<notin> set (map fst (filter p (tk_pending t)))) = (\<not> p e)" by force
  qed
  then show ?thesis
    using answer_all_calls [OF filtered_pending [OF ok]]
    by (simp add: prod_eq_iff answer_all_tracker erase_all_eq_filter)
qed

lemma expire_eq:
  assumes "tracker_ok t"
  shows "expire nowUsec t =
    (let due = filter (\<lambda>(_, pending). pe_deadlineUsec pending \<le> nowUsec) (tk_pending t)
     in (length due, answers RS_Timeout due,
         t\<lparr>tk_pending := filter (\<lambda>(_, pending). nowUsec < pe_deadlineUsec pending) (tk_pending t)\<rparr>))"
  unfolding expire_def answer_selected [OF assms] Let_def
  by (simp add: case_prod_unfold not_le)

lemma cancel_eq:
  assumes "tracker_ok t"
  shows "cancelByChannel channelId channelType status t =
    (let mine = filter (\<lambda>(_, pending). pk_channelId (pe_request pending) = channelId \<and>
           pk_channelType (pe_request pending) = channelType) (tk_pending t)
     in (length mine, answers status mine,
         t\<lparr>tk_pending := filter (\<lambda>(_, pending). pk_channelId (pe_request pending) \<noteq> channelId \<or>
           pk_channelType (pe_request pending) \<noteq> channelType) (tk_pending t)\<rparr>))"
  unfolding cancelByChannel_def answer_selected [OF assms] Let_def
  by (simp add: case_prod_unfold)

lemma nextMessageId_nonzero: "fst (nextMessageId t) \<noteq> 0"
  by (simp add: nextMessageId_def Let_def)

section \<open>Runs of the tracker\<close>

text \<open>The handler calls an operation makes, and the requests it accepts.\<close>

fun tracker_calls :: "'h tracker_op \<Rightarrow> 'h tracker \<Rightarrow> ('h \<times> packet_envelope) list" where
  "tracker_calls (Complete response) t = fst (snd (complete response t))"
| "tracker_calls (CancelByChannel channelId channelType status) t =
     fst (snd (cancelByChannel channelId channelType status t))"
| "tracker_calls (Expire nowUsec) t = fst (snd (expire nowUsec t))"
| "tracker_calls _ t = []"

definition final_answers :: "message_id \<Rightarrow> 'h tracker_op \<Rightarrow> 'h tracker \<Rightarrow> nat" where
  "final_answers messageId op t = length (filter (\<lambda>(_, packet).
     isTerminalResponse (pk_messageKind packet) \<and> pk_responseTo packet = messageId)
     (tracker_calls op t))"

fun accepts :: "message_id \<Rightarrow> 'h tracker_op \<Rightarrow> 'h tracker \<Rightarrow> nat" where
  "accepts messageId (Track request handler) t =
     (if tr_tracked (fst (track request handler t)) \<and> pk_messageId request = messageId then 1 else 0)"
| "accepts messageId _ t = 0"

definition open_requests :: "message_id \<Rightarrow> 'h tracker \<Rightarrow> nat" where
  "open_requests messageId t = (if hasPending t messageId then 1 else 0)"

lemma answers_for:
  assumes "\<forall>(k, v) \<in> set selected. pending_ok k v"
  shows "length (filter (\<lambda>(_, packet). isTerminalResponse (pk_messageKind packet) \<and>
      pk_responseTo packet = messageId) (answers status selected)) =
    length (filter (\<lambda>e. fst e = messageId) selected)"
  using assms
  by (induction selected)
    (auto simp: answers_def call_handler_def makeSyntheticResponse_def Let_def pending_ok_def
      isTerminalResponse_def)

lemma keyed_split:
  assumes "map_ok m"
  shows "length (filter (\<lambda>e. fst e = k) (filter p m)) +
      (if map_find (filter (\<lambda>e. \<not> p e) m) k = None then 0 else 1) =
    (if map_find m k = None then 0 else 1)"
  using assms
proof (induction m)
  case (Cons e m)
  have ok: "map_ok m" and less: "\<forall>k' \<in> set (map fst m). fst e < k'"
    using Cons.prems by (auto simp: map_ok_def)
  show ?case
  proof (cases "fst e = k")
    case True
    have "filter (\<lambda>e. fst e = k) (filter p m) = []"
      using less True by (auto simp: filter_empty_conv)
    moreover have "map_find (filter (\<lambda>e. \<not> p e) m) k = None"
      using less True by (auto simp: map_of_eq_None_iff)
    ultimately show ?thesis using True by (cases e) auto
  next
    case False
    with Cons.IH [OF ok] show ?thesis by (cases e) (auto split: if_splits)
  qed
qed simp

text \<open>One batch of answers accounts for exactly the requests it removes.\<close>

lemma batch_account:
  assumes "tracker_ok t"
  shows "length (filter (\<lambda>(_, packet). isTerminalResponse (pk_messageKind packet) \<and>
      pk_responseTo packet = messageId) (answers status (filter p (tk_pending t)))) +
    open_requests messageId (t\<lparr>tk_pending := filter (\<lambda>e. \<not> p e) (tk_pending t)\<rparr>) =
    open_requests messageId t"
proof -
  have ok: "map_ok (tk_pending t)" using assms by (simp add: tracker_ok_def)
  have "\<forall>(k, v) \<in> set (filter p (tk_pending t)). pending_ok k v"
    using assms map_entry_iff [OF ok] by (auto simp: tracker_ok_def)
  from answers_for [OF this] keyed_split [OF ok, of messageId p] show ?thesis
    by (auto simp: open_requests_def hasPending_def split: if_splits)
qed

lemma tracker_step_account:
  assumes "tracker_ok t"
  shows "final_answers messageId op t + open_requests messageId (tracker_step op t) =
    open_requests messageId t + accepts messageId op t"
proof (cases op)
  case NextId
  then show ?thesis
    by (simp add: final_answers_def nextMessageId_def open_requests_def hasPending_def Let_def)
next
  case (Track request handler)
  show ?thesis
  proof (cases "trackable request handler t")
    case True
    then have "map_find (tk_pending t) (pk_messageId request) = None"
      by (simp add: trackable_def hasPending_def)
    with track_accepted [OF True] Track show ?thesis
      by (simp add: final_answers_def open_requests_def hasPending_def track_ok_def)
  next
    case False
    then show ?thesis
      using Track by (auto simp: final_answers_def track_error_def elim!: track_refused)
  qed
next
  case (Complete response)
  have handled: "\<exists>h. pe_handler pending = Some h"
    if "map_find (tk_pending t) (pk_responseTo response) = Some pending" for pending
    using assms that by (auto simp: tracker_ok_def pending_ok_def)
  show ?thesis
    using Complete handled
    by (auto simp: final_answers_def complete_def open_requests_def hasPending_def call_handler_def
        split: option.splits)
next
  case (CancelByChannel channelId channelType status)
  then show ?thesis
    using batch_account [OF assms, of messageId status "\<lambda>(_, pending).
        pk_channelId (pe_request pending) = channelId \<and> pk_channelType (pe_request pending) = channelType"]
    by (simp add: final_answers_def cancel_eq [OF assms] Let_def case_prod_unfold)
next
  case (Expire nowUsec)
  then show ?thesis
    using batch_account [OF assms, of messageId RS_Timeout
        "\<lambda>(_, pending). pe_deadlineUsec pending \<le> nowUsec"]
    by (simp add: final_answers_def expire_eq [OF assms] Let_def case_prod_unfold not_le)
qed

lemma tracker_run_account:
  assumes "tracker_ok t"
  shows "run_total (final_answers messageId) tracker_step ops t +
      open_requests messageId (fold tracker_step ops t) =
    open_requests messageId t + run_total (accepts messageId) tracker_step ops t"
  by (rule tracker.run_account [OF tracker_step_account assms])

section \<open>Counting the pending requests\<close>

lemma length_erased:
  assumes "map_ok m" and "map_find m k = Some v"
  shows "Suc (length (map_erase k m)) = length m"
proof -
  have "length (filter (\<lambda>e. fst e = k) m) = 1"
    using keyed_split [OF assms(1), of k "\<lambda>_. True"] assms(2) by simp
  moreover have "length (filter (\<lambda>e. fst e = k) m) + length (filter (\<lambda>e. fst e \<noteq> k) m) = length m"
    by (rule sum_length_filter_compl)
  moreover have "map_erase k m = filter (\<lambda>e. fst e \<noteq> k) m"
    using erase_all_eq_filter [of "[k]" m] by simp
  ultimately show ?thesis by simp
qed

lemma length_answers:
  "\<forall>(k, v) \<in> set selected. pending_ok k v \<Longrightarrow> length (answers status selected) = length selected"
  by (induction selected) (auto simp: answers_def call_handler_def pending_ok_def)

text \<open>Each request that stops being pending was answered by exactly one call.\<close>

lemma complete_count:
  assumes "tracker_ok t" and "isTerminalResponse (pk_messageKind response)"
  shows "length (fst (snd (complete response t))) + pendingCount (snd (snd (complete response t))) =
    pendingCount t"
  using assms length_erased [of "tk_pending t" "pk_responseTo response"]
  by (fastforce simp: complete_def pendingCount_def call_handler_def tracker_ok_def pending_ok_def
      split: option.split)

lemma expire_count:
  assumes "tracker_ok t"
  shows "length (fst (snd (expire nowUsec t))) + pendingCount (snd (snd (expire nowUsec t))) =
    pendingCount t"
proof -
  let ?due = "filter (\<lambda>(_, pending). pe_deadlineUsec pending \<le> nowUsec) (tk_pending t)"
  have "map_ok (tk_pending t)" using assms by (simp add: tracker_ok_def)
  then have "\<forall>(k, v) \<in> set ?due. pending_ok k v"
    using assms map_entry_iff by (fastforce simp: tracker_ok_def)
  from length_answers [OF this] show ?thesis
    using sum_length_filter_compl [of "\<lambda>(_, pending). pe_deadlineUsec pending \<le> nowUsec" "tk_pending t"]
    by (simp add: expire_eq [OF assms] pendingCount_def Let_def case_prod_unfold not_le)
qed

lemma track_count:
  "pendingCount (snd (track request handler t)) =
     pendingCount t + (if tr_tracked (fst (track request handler t)) then 1 else 0)"
proof (cases "trackable request handler t")
  case True
  then have "map_find (tk_pending t) (pk_messageId request) = None"
    by (simp add: trackable_def hasPending_def)
  then show ?thesis
    by (simp add: track_accepted [OF True] pendingCount_def length_map_put_absent track_ok_def)
next
  case False
  then show ?thesis by (rule track_refused) (simp add: track_error_def)
qed

section \<open>Message ids\<close>

fun issued :: "nat \<Rightarrow> 'h tracker \<Rightarrow> message_id list" where
  "issued 0 t = []"
| "issued (Suc n) t = fst (nextMessageId t) # issued n (snd (nextMessageId t))"

text \<open>The id a tracker is about to issue, and how it moves on: \<open>2 ^ 64 - 1\<close> is followed by 1.\<close>

definition current_id :: "'h tracker \<Rightarrow> nat" where
  "current_id t = unat (fst (nextMessageId t))"

lemma unat_top: "unat (- 1 :: u64) = 2 ^ 64 - 1"
  by (simp add: unsigned_minus_1_eq_mask mask_eq_exp_minus_1)

lemma unat_u64: "unat (w :: u64) < 2 ^ 64"
proof -
  have "unat w < 2 ^ LENGTH(64)" by (rule unsigned_less)
  then show ?thesis by simp
qed

lemma current_id_range: "0 < current_id t" "current_id t \<le> 2 ^ 64 - 1"
  using nextMessageId_nonzero [of t] unat_u64 [of "fst (nextMessageId t)"]
  by (auto simp: current_id_def unat_gt_0)

lemma current_id_next:
  "current_id (snd (nextMessageId t)) = current_id t mod (2 ^ 64 - 1) + 1"
proof -
  obtain w where w: "fst (nextMessageId t) = w" by simp
  have succ: "fst (nextMessageId (snd (nextMessageId t))) = (if w + 1 = 0 then 1 else w + 1)"
    using w by (auto simp: nextMessageId_def Let_def)
  show ?thesis
  proof (cases "w + 1 = 0")
    case True
    then have "unat w = 2 ^ 64 - 1" by (metis unat_top add_eq_0_iff2)
    with True w succ show ?thesis by (simp add: current_id_def)
  next
    case False
    then have "unat (w + 1) = Suc (unat w)" by (simp add: unatSuc add.commute)
    moreover have "unat w \<noteq> 2 ^ 64 - 1"
      using False by (metis add.left_inverse unat_top word_unat_eq_iff)
    moreover have "unat w < 2 ^ 64" using unat_u64 [of w] by simp
    ultimately show ?thesis using False w succ by (simp add: current_id_def)
  qed
qed

lemma issued_ids:
  "map unat (issued n t) = map (\<lambda>k. (current_id t - 1 + k) mod (2 ^ 64 - 1) + 1) [0..<n]"
proof (induction n arbitrary: t)
  case (Suc n)
  obtain c where c: "current_id t = Suc c" "c < 2 ^ 64 - 1"
    using current_id_range [of t] by (cases "current_id t") auto
  have "map unat (issued n (snd (nextMessageId t))) =
      map (\<lambda>k. (Suc c mod (2 ^ 64 - 1) + k) mod (2 ^ 64 - 1) + 1) [0..<n]"
    unfolding Suc.IH current_id_next c by simp
  also have "\<dots> = map (\<lambda>k. (c + k) mod (2 ^ 64 - 1) + 1) [Suc 0..<Suc n]"
    by (simp add: map_Suc_upt [symmetric] mod_add_left_eq del: upt_Suc)
  finally have rest: "map unat (issued n (snd (nextMessageId t))) = \<dots>" .
  have "[0..<Suc n] = 0 # [Suc 0..<Suc n]" by (rule upt_conv_Cons) simp
  moreover have "unat (fst (nextMessageId t)) = c mod (2 ^ 64 - 1) + 1"
    using c by (simp add: current_id_def)
  ultimately show ?case using rest c by (simp del: upt_Suc)
qed simp

lemma shifted_mod_inject:
  assumes "(a + j) mod m = (a + k) mod m" and "j < m" "k < m"
  shows "j = (k :: nat)"
proof -
  from assms(1) have "j mod m = k mod m" by (simp add: nat_mod_eq_iff)
  then show ?thesis using assms by simp
qed

section \<open>Properties\<close>

text \<open>
  C6. No request is lost and none is answered twice: over any run of operations on a new
  tracker and for every message id, the final answers given for that id (a terminal response
  that arrived, or the error made for a cancelled or expired request), plus one if a request with
  that id is still pending, are exactly as many as the requests accepted with that id.
\<close>

theorem every_request_is_answered_once:
  "run_total (final_answers messageId) tracker_step ops (new_tracker n) +
     (if hasPending (fold tracker_step ops (new_tracker n)) messageId then 1 else 0) =
   run_total (accepts messageId) tracker_step ops (new_tracker n)"
  using tracker_run_account [OF new_tracker_ok, of messageId ops n]
  by (simp add: open_requests_def hasPending_def new_tracker_def)

text \<open>
  In every state operations can lead to, a pending request is stored under its own non-zero
  message id, is of a kind that awaits an answer, has a correlation id, a timeout and a handler,
  and its deadline is the one computed from its timestamp and timeout.
\<close>

theorem pending_requests_are_well_formed:
  assumes "map_find (tk_pending (fold tracker_step ops (new_tracker n))) messageId = Some pending"
  shows "messageId \<noteq> 0 \<and> pk_messageId (pe_request pending) = messageId \<and>
    pk_correlationId (pe_request pending) \<noteq> 0 \<and> pk_timeoutMs (pe_request pending) \<noteq> 0 \<and>
    isTrackableRequest (pk_messageKind (pe_request pending)) \<and> pe_handler pending \<noteq> None \<and>
    pe_deadlineUsec pending = request_deadline (pe_request pending)"
proof -
  have "tracker_ok (fold tracker_step ops (new_tracker n))" by (rule tracker.run_keeps) simp
  with assms show ?thesis by (auto simp: tracker_ok_def pending_ok_def)
qed

definition tracked_request :: packet_envelope where
  "tracked_request = default_packet\<lparr>pk_messageId := 4, pk_correlationId := 4, pk_timeoutMs := 3,
     pk_monotonicTimestampUsec := 100, pk_messageKind := MK_Request\<rparr>"

lemma tracked_pending:
  "map_find (tk_pending (fold tracker_step [Track tracked_request (Some ())] (new_tracker n))) 4 =
     Some \<lparr>pe_request = tracked_request, pe_handler = Some (),
           pe_deadlineUsec = request_deadline tracked_request\<rparr>"
proof -
  have "trackable tracked_request (Some ()) (new_tracker n)"
    by (simp add: trackable_def tracked_request_def isTrackableRequest_def hasPending_def new_tracker_def)
  moreover have "pk_messageId tracked_request = 4" by (simp add: tracked_request_def)
  ultimately show ?thesis by (simp add: track_accepted)
qed

theorem pending_requests_are_well_formed_witness:
  "pk_timeoutMs tracked_request \<noteq> 0 \<and> isTrackableRequest (pk_messageKind tracked_request)"
  using pending_requests_are_well_formed [OF tracked_pending] by simp

text \<open>
  Expiry is exact: in every state operations can lead to, \<open>expire\<close> answers each pending
  request whose deadline has been reached with one \<open>Timeout\<close> error naming that request, in the
  order of the message ids, reports how many there were, removes them, and keeps the others.
\<close>

theorem expiry_is_exact:
  fixes ops :: "'h tracker_op list" and n :: message_id and nowUsec :: u64
  defines "t \<equiv> fold tracker_step ops (new_tracker n)"
  defines "due \<equiv> filter (\<lambda>(_, pending). pe_deadlineUsec pending \<le> nowUsec) (tk_pending t)"
  shows "fst (expire nowUsec t) = length due \<and>
    map (\<lambda>(h, packet). (Some h, pk_responseTo packet, pk_responseStatus packet, pk_messageKind packet))
        (fst (snd (expire nowUsec t))) =
      map (\<lambda>(messageId, pending). (pe_handler pending, messageId, RS_Timeout, MK_Error)) due \<and>
    tk_pending (snd (snd (expire nowUsec t))) =
      filter (\<lambda>(_, pending). \<not> pe_deadlineUsec pending \<le> nowUsec) (tk_pending t)"
proof -
  have ok: "tracker_ok t" unfolding t_def by (rule tracker.run_keeps) simp
  have wf: "pk_messageId (pe_request pending) = messageId \<and> (\<exists>h. pe_handler pending = Some h)"
    if "(messageId, pending) \<in> set due" for messageId pending
  proof -
    have "map_find (tk_pending t) messageId = Some pending"
      using that ok map_entry_iff [of "tk_pending t" messageId pending]
      by (auto simp: due_def tracker_ok_def)
    then show ?thesis using ok by (auto simp: tracker_ok_def pending_ok_def)
  qed
  have "map (\<lambda>(h, packet). (Some h, pk_responseTo packet, pk_responseStatus packet, pk_messageKind packet))
        (answers RS_Timeout selected) =
      map (\<lambda>(messageId, pending). (pe_handler pending, messageId, RS_Timeout, MK_Error)) selected"
    if "set selected \<subseteq> set due" for selected
    using that
  proof (induction selected)
    case (Cons e selected)
    obtain messageId pending where e: "e = (messageId, pending)" by (cases e)
    with wf [of messageId pending] Cons show ?case
      by (auto simp: answers_def call_handler_def makeSyntheticResponse_def Let_def)
  qed (simp add: answers_def)
  then show ?thesis
    using expire_eq [OF ok, of nowUsec] by (simp add: due_def [symmetric] Let_def not_le)
qed

text \<open>
  Message ids are never 0 and none is issued twice before all \<open>2 ^ 64 - 1\<close> of them have been
  issued, whatever the first id, the wrap-around of the 64-bit counter included.
\<close>

theorem message_ids_are_fresh:
  assumes "n \<le> 2 ^ 64 - 1"
  shows "distinct (issued n t) \<and> 0 \<notin> set (issued n t)"
proof
  let ?id = "\<lambda>k. (current_id t - 1 + k) mod (2 ^ 64 - 1) + 1 :: nat"
  have "inj_on ?id {0..<n}"
    using assms by (auto intro!: inj_onI dest!: shifted_mod_inject)
  then have "distinct (map unat (issued n t))"
    unfolding issued_ids by (simp add: distinct_map)
  then show "distinct (issued n t)" by (simp add: distinct_map)
  have "0 \<notin> set (map unat (issued n t))" unfolding issued_ids by auto
  then show "0 \<notin> set (issued n t)" by (metis image_eqI list.set_map unat_0)
qed

theorem message_ids_are_fresh_witness:
  "distinct (issued 3 (new_tracker (- 1) :: unit tracker)) \<and>
   0 \<notin> set (issued 3 (new_tracker (- 1) :: unit tracker))"
  by (rule message_ids_are_fresh) simp

end
