(* ===== verification/Module_Runtime.thy ===== *)
theory Module_Runtime
  imports Session
begin

text \<open>
  \<open>ModuleRuntime\<close> of \<open>include/fusiondesk/core/module/module.h\<close>: what a module is attached with,
  the session's context and pointers to the session's network, channels and diagnostics. The
  pointers are flags here (null or not); what they point to is the session's world, in which
  the network manager owns the router and the registry. A pointer that is set while the world has
  no network does not arise, because a session creates its module host only with a network.
\<close>

record module_runtime =
  rt_session :: session_context
  rt_network :: bool
  rt_networkManager :: bool
  rt_channels :: bool
  rt_diagnostics :: bool

definition default_runtime :: module_runtime where
  "default_runtime = \<lparr>rt_session = default_context, rt_network = False, rt_networkManager = False,
     rt_channels = False, rt_diagnostics = False\<rparr>"

definition runtime_event ::
    "module_runtime \<Rightarrow> channel_key \<Rightarrow> string \<Rightarrow> string \<Rightarrow> string \<Rightarrow> diagnostic_event" where
  "runtime_event rt channel moduleId code message = default_event\<lparr>
     ev_sessionId := cx_sessionId (rt_session rt), ev_traceId := cx_traceId (rt_session rt),
     ev_moduleId := moduleId, ev_channel := channel, ev_severity := DS_Info, ev_code := code,
     ev_message := message, ev_policyVersion := cx_policyVersion (rt_session rt)\<rparr>"

definition runtime_publish ::
    "module_runtime \<Rightarrow> channel_key \<Rightarrow> string \<Rightarrow> string \<Rightarrow> string \<Rightarrow> ('c, 's, 'w) session_world \<Rightarrow>
     ('c, 's, 'w) session_world" where
  "runtime_publish rt channel moduleId code message x =
    (if \<not> rt_diagnostics rt then x
     else case sw_sink x of
       None \<Rightarrow> x
     | Some sink \<Rightarrow>
         x\<lparr>sw_sink := Some (sink_publish (runtime_event rt channel moduleId code message) sink)\<rparr>)"

definition no_network :: send_result where
  "no_network = \<lparr>sr_status = SS_Failed, sr_message = ''network runtime is missing''\<rparr>"

text \<open>\<open>runtime.network->send(packet)\<close>: the router sends on the channel of the packet's key.\<close>

definition runtime_send ::
    "('c, 'w) channel_interface \<Rightarrow> packet_envelope \<Rightarrow> ('c, 's, 'w) session_world \<Rightarrow>
     send_result \<times> ('c, 's, 'w) session_world" where
  "runtime_send iface packet x =
    (case sw_network x of
       None \<Rightarrow> (no_network, x)
     | Some m \<Rightarrow>
         let (result, w) = send iface packet (nm_router m) (sw_rest x)
         in (result, x\<lparr>sw_rest := w\<rparr>))"

text \<open>An effect on the part of the world the session does not own (a device, a renderer).\<close>

definition on_rest :: "('w \<Rightarrow> 'a \<times> 'w) \<Rightarrow> ('c, 's, 'w) session_world \<Rightarrow> 'a \<times> ('c, 's, 'w) session_world" where
  "on_rest f x = (let (a, w) = f (sw_rest x) in (a, x\<lparr>sw_rest := w\<rparr>))"

text \<open>\<open>std::to_string\<close> of an \<open>int\<close>, as the diagnostics of the modules print their counters.\<close>

definition to_string :: "int \<Rightarrow> string" where
  "to_string n = (if n < 0 then ''-'' @ decimal (nat (- n)) else decimal (nat n))"

lemma runtime_publish_world [simp]:
  "sw_network (runtime_publish rt channel moduleId code message x) = sw_network x"
  "sw_rest (runtime_publish rt channel moduleId code message x) = sw_rest x"
  by (simp_all add: runtime_publish_def split: option.split)

lemma on_rest_parts [simp]:
  "fst (on_rest f x) = fst (f (sw_rest x))"
  "sw_network (snd (on_rest f x)) = sw_network x" "sw_sink (snd (on_rest f x)) = sw_sink x"
  "sw_rest (snd (on_rest f x)) = snd (f (sw_rest x))"
  by (simp_all add: on_rest_def split_beta)

lemma runtime_send_network [simp]: "sw_network (snd (runtime_send iface packet x)) = sw_network x"
  by (simp add: runtime_send_def split_beta Let_def split: option.split)

text \<open>A packet that was sent was given to an open channel of its key, and to nothing else.\<close>

lemma runtime_send_Sent:
  assumes "sr_status (fst (runtime_send iface packet x)) = SS_Sent"
  obtains m channel where "sw_network x = Some m"
    and "map_find (ro_channels (nm_router m)) (packet_key packet) = Some channel"
    and "ch_isOpen iface channel (sw_rest x)"
    and "runtime_send iface packet x =
      (fst (ch_send iface channel packet (sw_rest x)),
       x\<lparr>sw_rest := snd (ch_send iface channel packet (sw_rest x))\<rparr>)"
  using assms
  by (auto simp: runtime_send_def no_network_def send_def packet_key_def split_beta Let_def
      split: option.splits if_splits)

end
