(* ===== verification/Payload_Fields.thy ===== *)
theory Payload_Fields
  imports Byte_IO "HOL-Library.Monad_Syntax"
begin

text \<open>
  The helpers the payload codecs of the modules start with (\<open>appendU16\<close>, \<open>appendU32\<close>,
  \<open>appendI32\<close>, \<open>appendU64\<close> and \<open>readU16\<close>, \<open>readU32\<close>, \<open>readI32\<close>, \<open>readU64\<close> in the anonymous
  namespaces of \<open>input_payload_codec.cpp\<close>, \<open>display_control_codec.cpp\<close>, \<open>display_frame_codec.cpp\<close>
  and \<open>display_encoded_video_payload.cpp\<close>, the same text in each): a value is appended to the
  output, or read at an offset that a successful read moves on. A chain of reads joined by
  \<open>||\<close> in the code, which stops at the first one that fails, is a chain of binds here.
\<close>

section \<open>Writing\<close>

definition appendU16 :: "u16 \<Rightarrow> byte_buffer \<Rightarrow> byte_buffer" where
  "appendU16 v output = output @ [ucast (drop_bit 8 v AND 0xff)] @ [ucast (v AND 0xff)]"

definition appendU32 :: "u32 \<Rightarrow> byte_buffer \<Rightarrow> byte_buffer" where
  "appendU32 v output = output @ [ucast (drop_bit 24 v AND 0xff)] @ [ucast (drop_bit 16 v AND 0xff)] @
     [ucast (drop_bit 8 v AND 0xff)] @ [ucast (v AND 0xff)]"

definition appendI32 :: "i32 \<Rightarrow> byte_buffer \<Rightarrow> byte_buffer" where
  "appendI32 v = appendU32 (ucast v)"

definition appendU64 :: "u64 \<Rightarrow> byte_buffer \<Rightarrow> byte_buffer" where
  "appendU64 v output =
     fold (\<lambda>i out. out @ [ucast (drop_bit (56 - 8 * i) v AND 0xff)]) [0..<8] output"

section \<open>Reading\<close>

definition nextU16 :: "byte_buffer \<Rightarrow> nat \<Rightarrow> (u16 \<times> nat) option" where
  "nextU16 input offset =
    (if offset + 2 > length input then None
     else Some (push_bit 8 (ucast (input ! offset)) OR ucast (input ! (offset + 1)), offset + 2))"

definition nextU32 :: "byte_buffer \<Rightarrow> nat \<Rightarrow> (u32 \<times> nat) option" where
  "nextU32 input offset =
    (if offset + 4 > length input then None
     else Some (push_bit 24 (ucast (input ! offset)) OR push_bit 16 (ucast (input ! (offset + 1))) OR
                push_bit 8 (ucast (input ! (offset + 2))) OR ucast (input ! (offset + 3)),
                offset + 4))"

definition nextI32 :: "byte_buffer \<Rightarrow> nat \<Rightarrow> (i32 \<times> nat) option" where
  "nextI32 input offset = do { (raw, offset) \<leftarrow> nextU32 input offset; Some (ucast raw, offset) }"

definition nextU64 :: "byte_buffer \<Rightarrow> nat \<Rightarrow> (u64 \<times> nat) option" where
  "nextU64 input offset =
    (if offset + 8 > length input then None
     else Some (fold (\<lambda>i value. push_bit 8 value OR ucast (input ! (offset + i))) [0..<8] 0,
                offset + 8))"

section \<open>They are the fields of the wire\<close>

named_theorems payload_fields \<open>appending and reading the fields of a payload\<close>

lemma appendU16_eq [payload_fields]: "appendU16 v output = output @ be16 v"
  by (simp add: appendU16_def be16_def)

lemma appendU32_eq [payload_fields]: "appendU32 v output = output @ be32 v"
  by (simp add: appendU32_def be32_def)

lemma appendI32_eq [payload_fields]: "appendI32 v output = output @ be32 (ucast v)"
  by (simp add: appendI32_def appendU32_eq)

lemma fold_append: "fold (\<lambda>i out. out @ [f i]) xs bs = bs @ map f xs"
  by (induction xs arbitrary: bs) simp_all

lemma appendU64_eq [payload_fields]: "appendU64 v output = output @ be64 v"
proof -
  have "map (\<lambda>i. ucast (drop_bit (56 - 8 * i) v AND 0xff)) [0..<8] = be64 v"
    unfolding be64_def by (rule map_cong) (auto simp: algebra_simps diff_mult_distrib)
  then show ?thesis by (simp only: appendU64_def fold_append)
qed

lemma nextU16_eq [payload_fields]:
  "nextU16 input offset = map_option (\<lambda>v. (v, offset + 2)) (read_at 2 of16 input offset)"
  unfolding readU16At_eq [symmetric] by (simp add: nextU16_def readU16At_def)

lemma nextU32_eq [payload_fields]:
  "nextU32 input offset = map_option (\<lambda>v. (v, offset + 4)) (read_at 4 of32 input offset)"
  unfolding readU32At_eq [symmetric] by (simp add: nextU32_def readU32At_def)

lemma nextI32_eq [payload_fields]:
  "nextI32 input offset = map_option (\<lambda>v. (ucast v, offset + 4)) (read_at 4 of32 input offset)"
  by (cases "read_at 4 of32 input offset") (simp_all add: nextI32_def nextU32_eq)

lemma nextU64_eq [payload_fields]:
  "nextU64 input offset = map_option (\<lambda>v. (v, offset + 8)) (read_at 8 of64 input offset)"
  unfolding readU64At_eq [symmetric] by (simp add: nextU64_def readU64At_def)

lemmas read_fields_here [payload_fields] = f16.read_here f32.read_here f64.read_here

lemma signed_back [simp]: "(ucast (ucast v :: u32) :: i32) = v" "(ucast (ucast w :: i32) :: u32) = w"
  by simp_all

text \<open>A buffer that is long enough begins with a field.\<close>

lemma starts_with_field:
  "2 \<le> length bs \<Longrightarrow> \<exists>v rest. bs = be16 v @ rest"
  "4 \<le> length bs \<Longrightarrow> \<exists>v rest. bs = be32 v @ rest"
  "8 \<le> length bs \<Longrightarrow> \<exists>v rest. bs = be64 v @ rest"
proof -
  show "2 \<le> length bs \<Longrightarrow> \<exists>v rest. bs = be16 v @ rest"
    using be16_of16 [of "take 2 bs"] by (metis append_take_drop_id length_take min_absorb2)
  show "4 \<le> length bs \<Longrightarrow> \<exists>v rest. bs = be32 v @ rest"
    using be32_of32 [of "take 4 bs"] by (metis append_take_drop_id length_take min_absorb2)
  show "8 \<le> length bs \<Longrightarrow> \<exists>v rest. bs = be64 v @ rest"
    using be64_of64 [of "take 8 bs"] by (metis append_take_drop_id length_take min_absorb2)
qed

text \<open>A successful read says how the input goes on from its offset.\<close>

lemma next_field_drops:
  "nextU16 input offset = Some (v16, offset') \<Longrightarrow>
     offset' = offset + 2 \<and> drop offset input = be16 v16 @ drop offset' input"
  "nextU32 input offset = Some (v32, offset') \<Longrightarrow>
     offset' = offset + 4 \<and> drop offset input = be32 v32 @ drop offset' input"
  "nextU64 input offset = Some (v64, offset') \<Longrightarrow>
     offset' = offset + 8 \<and> drop offset input = be64 v64 @ drop offset' input"
proof -
  have split: "drop offset input = enc v @ drop (offset + width) input"
    if "byte_field width enc dec" "read_at width dec input offset = Some v" for width enc dec v
  proof -
    from that(2) have fit: "offset + width \<le> length input"
      by (simp add: read_at_def split: if_splits)
    have "drop offset input = drop offset (take offset input @ enc v @ drop (offset + width) input)"
      using byte_field.read_Some_splits [OF that] by simp
    then show ?thesis using fit by simp
  qed
  show "nextU16 input offset = Some (v16, offset') \<Longrightarrow>
     offset' = offset + 2 \<and> drop offset input = be16 v16 @ drop offset' input"
    using split [OF f16.byte_field_axioms] by (auto simp: nextU16_eq)
  show "nextU32 input offset = Some (v32, offset') \<Longrightarrow>
     offset' = offset + 4 \<and> drop offset input = be32 v32 @ drop offset' input"
    using split [OF f32.byte_field_axioms] by (auto simp: nextU32_eq)
  show "nextU64 input offset = Some (v64, offset') \<Longrightarrow>
     offset' = offset + 8 \<and> drop offset input = be64 v64 @ drop offset' input"
    using split [OF f64.byte_field_axioms] by (auto simp: nextU64_eq)
qed

end
