(* ===== verification/Input_Codec.thy ===== *)
theory Input_Codec
  imports Payload_Fields
begin

unbundle bit_operations_syntax

text \<open>
  \<open>src/modules/input/input_payload_codec.cpp\<close>: mouse and keyboard events as the payload of an
  input packet. Enums are words, since the decoder casts whatever arrives. A failed decode is
  \<open>Inl\<close> its error text: the code's callers read no other field of a result that is not ok.
\<close>

section \<open>Events\<close>

type_synonym input_kind = u16
abbreviation (input) IK_Mouse :: input_kind where "IK_Mouse \<equiv> 1"
abbreviation (input) IK_Keyboard :: input_kind where "IK_Keyboard \<equiv> 2"

type_synonym mouse_action = u16
type_synonym mouse_button = u16
type_synonym keyboard_action = u16
type_synonym coordinate_space = u16

record modifier_state =
  mo_shift :: bool
  mo_control :: bool
  mo_alt :: bool
  mo_meta :: bool

record mouse_event =
  me_sequence :: u64
  me_monotonicTimestampUsec :: u64
  me_action :: mouse_action
  me_button :: mouse_button
  me_coordinateSpace :: coordinate_space
  me_modifiers :: modifier_state
  me_x :: i32
  me_y :: i32
  me_wheelDeltaX :: i32
  me_wheelDeltaY :: i32

record keyboard_event =
  ke_sequence :: u64
  ke_monotonicTimestampUsec :: u64
  ke_action :: keyboard_action
  ke_modifiers :: modifier_state
  ke_nativeScanCode :: u32
  ke_virtualKey :: u32
  ke_unicodeCodepoint :: u32

datatype input_event = MouseInput mouse_event | KeyboardInput keyboard_event

section \<open>Encoding\<close>

abbreviation (input) InputMagic :: u32 where "InputMagic \<equiv> 0x4644494e"
abbreviation (input) InputVersion :: u16 where "InputVersion \<equiv> 1"
abbreviation (input) ModifierShift :: u32 where "ModifierShift \<equiv> 1"
abbreviation (input) ModifierControl :: u32 where "ModifierControl \<equiv> 2"
abbreviation (input) ModifierAlt :: u32 where "ModifierAlt \<equiv> 4"
abbreviation (input) ModifierMeta :: u32 where "ModifierMeta \<equiv> 8"

definition encodeModifiers :: "modifier_state \<Rightarrow> u32" where
  "encodeModifiers modifiers =
    (let flags = 0;
         flags = (if mo_shift modifiers then flags OR ModifierShift else flags);
         flags = (if mo_control modifiers then flags OR ModifierControl else flags);
         flags = (if mo_alt modifiers then flags OR ModifierAlt else flags);
         flags = (if mo_meta modifiers then flags OR ModifierMeta else flags)
     in flags)"

definition decodeModifiers :: "u32 \<Rightarrow> modifier_state" where
  "decodeModifiers flags = \<lparr>
     mo_shift = (flags AND ModifierShift \<noteq> 0), mo_control = (flags AND ModifierControl \<noteq> 0),
     mo_alt = (flags AND ModifierAlt \<noteq> 0), mo_meta = (flags AND ModifierMeta \<noteq> 0)\<rparr>"

definition encodeHeader :: "input_kind \<Rightarrow> u64 \<Rightarrow> u64 \<Rightarrow> u32 \<Rightarrow> byte_buffer" where
  "encodeHeader kind sequence timestampUsec modifiers =
    (let output = [];
         output = appendU32 InputMagic output;
         output = appendU16 InputVersion output;
         output = appendU16 kind output;
         output = appendU64 sequence output;
         output = appendU64 timestampUsec output
     in appendU32 modifiers output)"

definition encodeMouseInputPayload :: "mouse_event \<Rightarrow> byte_buffer" where
  "encodeMouseInputPayload event =
    (let output = encodeHeader IK_Mouse (me_sequence event) (me_monotonicTimestampUsec event)
           (encodeModifiers (me_modifiers event));
         output = appendU16 (me_action event) output;
         output = appendU16 (me_button event) output;
         output = appendU16 (me_coordinateSpace event) output;
         output = appendU16 0 output;
         output = appendI32 (me_x event) output;
         output = appendI32 (me_y event) output;
         output = appendI32 (me_wheelDeltaX event) output
     in appendI32 (me_wheelDeltaY event) output)"

definition encodeKeyboardInputPayload :: "keyboard_event \<Rightarrow> byte_buffer" where
  "encodeKeyboardInputPayload event =
    (let output = encodeHeader IK_Keyboard (ke_sequence event) (ke_monotonicTimestampUsec event)
           (encodeModifiers (ke_modifiers event));
         output = appendU16 (ke_action event) output;
         output = appendU16 0 output;
         output = appendU32 (ke_nativeScanCode event) output;
         output = appendU32 (ke_virtualKey event) output
     in appendU32 (ke_unicodeCodepoint event) output)"

section \<open>Decoding\<close>

record input_header =
  ih_magic :: u32
  ih_version :: u16
  ih_kind :: u16
  ih_sequence :: u64
  ih_timestampUsec :: u64
  ih_modifierFlags :: u32

definition readHeader :: "byte_buffer \<Rightarrow> (input_header \<times> nat) option" where
  "readHeader payload = do {
     (magic, offset) \<leftarrow> nextU32 payload 0;
     (version, offset) \<leftarrow> nextU16 payload offset;
     (kind, offset) \<leftarrow> nextU16 payload offset;
     (sequence, offset) \<leftarrow> nextU64 payload offset;
     (timestampUsec, offset) \<leftarrow> nextU64 payload offset;
     (modifierFlags, offset) \<leftarrow> nextU32 payload offset;
     Some (\<lparr>ih_magic = magic, ih_version = version, ih_kind = kind, ih_sequence = sequence,
       ih_timestampUsec = timestampUsec, ih_modifierFlags = modifierFlags\<rparr>, offset) }"

definition readMouseBody :: "input_header \<Rightarrow> byte_buffer \<Rightarrow> nat \<Rightarrow> mouse_event option" where
  "readMouseBody header payload offset = do {
     (action, offset) \<leftarrow> nextU16 payload offset;
     (button, offset) \<leftarrow> nextU16 payload offset;
     (coordinateSpace, offset) \<leftarrow> nextU16 payload offset;
     (reserved, offset) \<leftarrow> nextU16 payload offset;
     (x, offset) \<leftarrow> nextI32 payload offset;
     (y, offset) \<leftarrow> nextI32 payload offset;
     (wheelDeltaX, offset) \<leftarrow> nextI32 payload offset;
     (wheelDeltaY, offset) \<leftarrow> nextI32 payload offset;
     Some \<lparr>me_sequence = ih_sequence header, me_monotonicTimestampUsec = ih_timestampUsec header,
       me_action = action, me_button = button, me_coordinateSpace = coordinateSpace,
       me_modifiers = decodeModifiers (ih_modifierFlags header), me_x = x, me_y = y,
       me_wheelDeltaX = wheelDeltaX, me_wheelDeltaY = wheelDeltaY\<rparr> }"

definition readKeyboardBody :: "input_header \<Rightarrow> byte_buffer \<Rightarrow> nat \<Rightarrow> keyboard_event option" where
  "readKeyboardBody header payload offset = do {
     (action, offset) \<leftarrow> nextU16 payload offset;
     (reserved, offset) \<leftarrow> nextU16 payload offset;
     (nativeScanCode, offset) \<leftarrow> nextU32 payload offset;
     (virtualKey, offset) \<leftarrow> nextU32 payload offset;
     (unicodeCodepoint, offset) \<leftarrow> nextU32 payload offset;
     Some \<lparr>ke_sequence = ih_sequence header, ke_monotonicTimestampUsec = ih_timestampUsec header,
       ke_action = action, ke_modifiers = decodeModifiers (ih_modifierFlags header),
       ke_nativeScanCode = nativeScanCode, ke_virtualKey = virtualKey,
       ke_unicodeCodepoint = unicodeCodepoint\<rparr> }"

definition decodeInputPayload :: "byte_buffer \<Rightarrow> string + input_event" where
  "decodeInputPayload payload =
    (case readHeader payload of
       None \<Rightarrow> Inl ''input payload header is truncated''
     | Some (header, offset) \<Rightarrow>
         if ih_magic header \<noteq> InputMagic then Inl ''input payload magic is invalid''
         else if ih_version header \<noteq> InputVersion then Inl ''input payload version is unsupported''
         else if ih_kind header = IK_Mouse then
           (case readMouseBody header payload offset of
              None \<Rightarrow> Inl ''mouse input payload body is truncated''
            | Some event \<Rightarrow> Inr (MouseInput event))
         else if ih_kind header = IK_Keyboard then
           (case readKeyboardBody header payload offset of
              None \<Rightarrow> Inl ''keyboard input payload body is truncated''
            | Some event \<Rightarrow> Inr (KeyboardInput event))
         else Inl ''input payload kind is unsupported'')"

section \<open>Lemmas\<close>

lemma decode_encode_modifiers [simp]: "decodeModifiers (encodeModifiers modifiers) = modifiers"
  by (cases modifiers) (simp add: decodeModifiers_def encodeModifiers_def Let_def)

definition header_bytes :: "input_kind \<Rightarrow> u64 \<Rightarrow> u64 \<Rightarrow> u32 \<Rightarrow> byte_buffer" where
  "header_bytes kind sequence timestampUsec modifiers =
     be32 InputMagic @ be16 InputVersion @ be16 kind @ be64 sequence @ be64 timestampUsec @
     be32 modifiers"

lemma length_header_bytes [simp]: "length (header_bytes kind sequence timestampUsec modifiers) = 28"
  by (simp add: header_bytes_def)

lemma encodeHeader_eq: "encodeHeader kind sequence timestampUsec modifiers =
    header_bytes kind sequence timestampUsec modifiers"
  by (simp add: encodeHeader_def header_bytes_def payload_fields Let_def)

lemma encodeMouse_eq:
  "encodeMouseInputPayload event =
     header_bytes IK_Mouse (me_sequence event) (me_monotonicTimestampUsec event)
       (encodeModifiers (me_modifiers event)) @
     be16 (me_action event) @ be16 (me_button event) @ be16 (me_coordinateSpace event) @ be16 0 @
     be32 (me_x event) @ be32 (me_y event) @ be32 (me_wheelDeltaX event) @ be32 (me_wheelDeltaY event)"
  by (simp add: encodeMouseInputPayload_def encodeHeader_eq payload_fields Let_def)

lemma encodeKeyboard_eq:
  "encodeKeyboardInputPayload event =
     header_bytes IK_Keyboard (ke_sequence event) (ke_monotonicTimestampUsec event)
       (encodeModifiers (ke_modifiers event)) @
     be16 (ke_action event) @ be16 0 @ be32 (ke_nativeScanCode event) @ be32 (ke_virtualKey event) @
     be32 (ke_unicodeCodepoint event)"
  by (simp add: encodeKeyboardInputPayload_def encodeHeader_eq payload_fields Let_def)

lemma readHeader_fields:
  "readHeader (be32 magic @ be16 version @ be16 kind @ be64 sequence @ be64 timestampUsec @
     be32 modifiers @ body) =
   Some (\<lparr>ih_magic = magic, ih_version = version, ih_kind = kind, ih_sequence = sequence,
     ih_timestampUsec = timestampUsec, ih_modifierFlags = modifiers\<rparr>, 28)"
  by (simp add: readHeader_def payload_fields wire_layout)

lemma readHeader_bytes [simp]:
  "readHeader (header_bytes kind sequence timestampUsec modifiers @ body) =
   Some (\<lparr>ih_magic = InputMagic, ih_version = InputVersion, ih_kind = kind, ih_sequence = sequence,
     ih_timestampUsec = timestampUsec, ih_modifierFlags = modifiers\<rparr>, 28)"
  by (simp add: header_bytes_def readHeader_fields)

lemma readMouseBody_here:
  "length before = offset \<Longrightarrow>
   readMouseBody header (before @ be16 action @ be16 button @ be16 space @ be16 reserved @ be32 x @
     be32 y @ be32 dx @ be32 dy @ rest) offset =
   Some \<lparr>me_sequence = ih_sequence header, me_monotonicTimestampUsec = ih_timestampUsec header,
       me_action = action, me_button = button, me_coordinateSpace = space,
       me_modifiers = decodeModifiers (ih_modifierFlags header), me_x = x, me_y = y,
       me_wheelDeltaX = dx, me_wheelDeltaY = dy\<rparr>"
  by (simp add: readMouseBody_def payload_fields wire_layout)

lemma readKeyboardBody_here:
  "length before = offset \<Longrightarrow>
   readKeyboardBody header (before @ be16 action @ be16 reserved @ be32 scan @ be32 key @
     be32 codepoint @ rest) offset =
   Some \<lparr>ke_sequence = ih_sequence header, ke_monotonicTimestampUsec = ih_timestampUsec header,
       ke_action = action, ke_modifiers = decodeModifiers (ih_modifierFlags header),
       ke_nativeScanCode = scan, ke_virtualKey = key, ke_unicodeCodepoint = codepoint\<rparr>"
  by (simp add: readKeyboardBody_def payload_fields wire_layout)

lemma readHeader_short: "length payload < 28 \<Longrightarrow> readHeader payload = None"
  by (auto simp: readHeader_def payload_fields read_at_def)

lemma readMouseBody_short: "length payload < offset + 24 \<Longrightarrow> readMouseBody header payload offset = None"
  by (auto simp: readMouseBody_def payload_fields read_at_def)

lemma readKeyboardBody_short:
  "length payload < offset + 16 \<Longrightarrow> readKeyboardBody header payload offset = None"
  by (auto simp: readKeyboardBody_def payload_fields read_at_def)

definition encode_input :: "input_event \<Rightarrow> byte_buffer" where
  "encode_input event = (case event of
     MouseInput e \<Rightarrow> encodeMouseInputPayload e | KeyboardInput e \<Rightarrow> encodeKeyboardInputPayload e)"

lemma decode_encoded_input: "decodeInputPayload (encode_input event @ rest) = Inr event"
proof (cases event)
  case (MouseInput e)
  have "readMouseBody header (encode_input event @ rest) 28 =
      Some \<lparr>me_sequence = ih_sequence header, me_monotonicTimestampUsec = ih_timestampUsec header,
       me_action = me_action e, me_button = me_button e, me_coordinateSpace = me_coordinateSpace e,
       me_modifiers = decodeModifiers (ih_modifierFlags header), me_x = me_x e, me_y = me_y e,
       me_wheelDeltaX = me_wheelDeltaX e, me_wheelDeltaY = me_wheelDeltaY e\<rparr>" for header
    using readMouseBody_here [of "header_bytes IK_Mouse (me_sequence e) (me_monotonicTimestampUsec e)
        (encodeModifiers (me_modifiers e))" 28]
    by (simp add: MouseInput encode_input_def encodeMouse_eq)
  moreover have "readHeader (encode_input event @ rest) = Some (\<lparr>ih_magic = InputMagic,
      ih_version = InputVersion, ih_kind = IK_Mouse, ih_sequence = me_sequence e,
      ih_timestampUsec = me_monotonicTimestampUsec e,
      ih_modifierFlags = encodeModifiers (me_modifiers e)\<rparr>, 28)"
    by (simp add: MouseInput encode_input_def encodeMouse_eq)
  ultimately show ?thesis by (simp add: decodeInputPayload_def MouseInput)
next
  case (KeyboardInput e)
  have "readKeyboardBody header (encode_input event @ rest) 28 =
      Some \<lparr>ke_sequence = ih_sequence header, ke_monotonicTimestampUsec = ih_timestampUsec header,
       ke_action = ke_action e, ke_modifiers = decodeModifiers (ih_modifierFlags header),
       ke_nativeScanCode = ke_nativeScanCode e, ke_virtualKey = ke_virtualKey e,
       ke_unicodeCodepoint = ke_unicodeCodepoint e\<rparr>" for header
    using readKeyboardBody_here [of "header_bytes IK_Keyboard (ke_sequence e)
        (ke_monotonicTimestampUsec e) (encodeModifiers (ke_modifiers e))" 28]
    by (simp add: KeyboardInput encode_input_def encodeKeyboard_eq)
  moreover have "readHeader (encode_input event @ rest) = Some (\<lparr>ih_magic = InputMagic,
      ih_version = InputVersion, ih_kind = IK_Keyboard, ih_sequence = ke_sequence e,
      ih_timestampUsec = ke_monotonicTimestampUsec e,
      ih_modifierFlags = encodeModifiers (ke_modifiers e)\<rparr>, 28)"
    by (simp add: KeyboardInput encode_input_def encodeKeyboard_eq)
  ultimately show ?thesis by (simp add: decodeInputPayload_def KeyboardInput)
qed

lemma length_encode_input:
  "length (encode_input event) = (case event of MouseInput _ \<Rightarrow> 52 | KeyboardInput _ \<Rightarrow> 44)"
  by (simp add: encode_input_def encodeMouse_eq encodeKeyboard_eq split: input_event.split)

lemma decode_truncated_input:
  assumes "n < length (encode_input event)"
  shows "\<exists>error. decodeInputPayload (take n (encode_input event)) = Inl error"
proof (cases "n < 28")
  case True
  then show ?thesis by (simp add: decodeInputPayload_def readHeader_short)
next
  case False
  let ?p = "take n (encode_input event)"
  have header: "\<exists>h. readHeader ?p = Some (h, 28) \<and>
      ih_kind h = (case event of MouseInput _ \<Rightarrow> IK_Mouse | KeyboardInput _ \<Rightarrow> IK_Keyboard)"
    using False
    by (cases event) (auto simp: encode_input_def encodeMouse_eq encodeKeyboard_eq take_append)
  have short: "length ?p < (case event of MouseInput _ \<Rightarrow> 28 + 24 | KeyboardInput _ \<Rightarrow> 28 + 16)"
    using assms by (cases event) (simp_all add: length_encode_input)
  obtain h where h: "readHeader ?p = Some (h, 28)"
      "ih_kind h = (case event of MouseInput _ \<Rightarrow> IK_Mouse | KeyboardInput _ \<Rightarrow> IK_Keyboard)"
    using header by blast
  show ?thesis
    using h short readMouseBody_short [of ?p 28 h] readKeyboardBody_short [of ?p 28 h]
    by (cases event) (simp_all add: decodeInputPayload_def)
qed

section \<open>Properties\<close>

text \<open>
  Input events survive the wire: a mouse or keyboard event is decoded from its encoding, with
  or without bytes after it, to the same event in every field, the negative coordinates and all
  sixteen combinations of modifiers included; and no proper prefix of an encoding is accepted.
\<close>

theorem input_payload_round_trip:
  "decodeInputPayload (encode_input event @ rest) = Inr event \<and>
   list_all (\<lambda>n. isl (decodeInputPayload (take n (encode_input event))))
     [0..<length (encode_input event)]"
  using decode_encoded_input decode_truncated_input by (auto simp: list_all_iff isl_def)

end
