(* ===== verification/Input_Modules.thy ===== *)
theory Input_Modules
  imports Module_Runtime Module_Composer Packet_Codec Input_Codec
begin

unbundle bit_operations_syntax

text \<open>
  \<open>src/modules/input/input_modules.cpp\<close> and \<open>input_factory.cpp\<close>: the module that sends mouse or
  keyboard events from the client and the one that injects them on the agent. The capture and the
  injector are devices behind interfaces that act on the rest of the world. Counters of type
  \<open>int\<close> are integers here: the model covers runs of fewer than \<open>2 ^ 31\<close> events.
\<close>

section \<open>Devices\<close>

record 'w input_capture =
  cap_open :: "'w \<Rightarrow> bool \<times> 'w"
  cap_close :: "'w \<Rightarrow> 'w"

record 'w input_injector =
  inj_mouse :: "mouse_event \<Rightarrow> 'w \<Rightarrow> bool \<times> 'w"
  inj_keyboard :: "keyboard_event \<Rightarrow> 'w \<Rightarrow> bool \<times> 'w"

section \<open>Helpers\<close>

definition inputChannelKey :: channel_key where
  "inputChannelKey = ChannelKey CID_SmallData CT_Standard"

fun module_stateName :: "module_state \<Rightarrow> string" where
  "module_stateName MS_Created = ''created''"
| "module_stateName MS_Attached = ''attached''"
| "module_stateName MS_Starting = ''starting''"
| "module_stateName MS_Running = ''running''"
| "module_stateName MS_Stopping = ''stopping''"
| "module_stateName MS_Stopped = ''stopped''"
| "module_stateName MS_Detached = ''detached''"
| "module_stateName MS_Failed = ''failed''"

definition input_publish ::
    "module_runtime \<Rightarrow> string \<Rightarrow> string \<Rightarrow> string \<Rightarrow> ('c, 's, 'w) session_world \<Rightarrow> ('c, 's, 'w) session_world" where
  "input_publish rt = runtime_publish rt inputChannelKey"

definition makeInputPacket :: "module_runtime \<Rightarrow> packet_type \<Rightarrow> packet_envelope" where
  "makeInputPacket rt packetType = default_packet\<lparr>
     pk_sessionId := cx_sessionId (rt_session rt), pk_traceId := cx_traceId (rt_session rt),
     pk_channelId := key_channelId inputChannelKey, pk_channelType := key_channelType inputChannelKey,
     pk_packetType := packetType, pk_messageKind := MK_Event, pk_priority := PP_Interactive,
     pk_flags := PacketFlagNoResponseRequired OR PacketFlagCoalescable\<rparr>"

section \<open>InputClientModule\<close>

record 'w input_client =
  ic_manifest :: module_manifest
  ic_runtime :: module_runtime
  ic_state :: module_state
  ic_kind :: input_kind
  ic_capture :: "'w input_capture option"
  ic_eventsSent :: int
  ic_sendFailures :: int
  ic_captureOpenFailures :: int

definition new_input_client ::
    "module_manifest \<Rightarrow> input_kind \<Rightarrow> 'w input_capture option \<Rightarrow> 'w input_client" where
  "new_input_client manifest kind capture = \<lparr>ic_manifest = manifest, ic_runtime = default_runtime,
     ic_state = MS_Created, ic_kind = kind, ic_capture = capture, ic_eventsSent = 0,
     ic_sendFailures = 0, ic_captureOpenFailures = 0\<rparr>"

definition client_attach :: "module_runtime \<Rightarrow> 'w input_client \<Rightarrow> bool \<times> 'w input_client" where
  "client_attach rt c =
    (mf_moduleId (ic_manifest c) \<noteq> [], c\<lparr>ic_runtime := rt, ic_state := MS_Attached\<rparr>)"

definition client_start ::
    "'w input_client \<Rightarrow> ('c, 's, 'w) session_world \<Rightarrow>
     bool \<times> 'w input_client \<times> ('c, 's, 'w) session_world" where
  "client_start c x =
    (if \<not> rt_network (ic_runtime c) then (False, c\<lparr>ic_state := MS_Failed\<rparr>, x)
     else
       let (opened, x) = (case ic_capture c of
             None \<Rightarrow> (True, x) | Some capture \<Rightarrow> on_rest (cap_open capture) x)
       in if \<not> opened then
            (False, c\<lparr>ic_captureOpenFailures := ic_captureOpenFailures c + 1, ic_state := MS_Failed\<rparr>, x)
          else
            (True, c\<lparr>ic_state := MS_Running\<rparr>,
             input_publish (ic_runtime c) (mf_moduleId (ic_manifest c)) ''input.client_started''
               ''input sender started'' x))"

definition client_stop ::
    "'w input_client \<Rightarrow> ('c, 's, 'w) session_world \<Rightarrow> 'w input_client \<times> ('c, 's, 'w) session_world" where
  "client_stop c x =
    (let x = (case ic_capture c of
           None \<Rightarrow> x | Some capture \<Rightarrow> x\<lparr>sw_rest := cap_close capture (sw_rest x)\<rparr>)
     in (c\<lparr>ic_state := MS_Stopped\<rparr>,
         input_publish (ic_runtime c) (mf_moduleId (ic_manifest c)) ''input.client_stopped''
           ''input sender stopped'' x))"

definition client_detach :: "'w input_client \<Rightarrow> 'w input_client" where
  "client_detach c = c\<lparr>ic_state := MS_Detached\<rparr>"

definition client_diagnostics :: "'w input_client \<Rightarrow> string" where
  "client_diagnostics c = ''input.client id='' @ mf_moduleId (ic_manifest c) @ '' state='' @
     module_stateName (ic_state c) @ '' sent='' @ to_string (ic_eventsSent c) @
     '' sendFailures='' @ to_string (ic_sendFailures c)"

definition sendPayload ::
    "('c, 'w) channel_interface \<Rightarrow> packet_type \<Rightarrow> u64 \<Rightarrow> u64 \<Rightarrow> byte_buffer \<Rightarrow> 'w input_client \<Rightarrow>
     ('c, 's, 'w) session_world \<Rightarrow> bool \<times> 'w input_client \<times> ('c, 's, 'w) session_world" where
  "sendPayload iface packetType sequence timestampUsec payload c x =
    (let failed = c\<lparr>ic_sendFailures := ic_sendFailures c + 1\<rparr> in
     if ic_state c \<noteq> MS_Running \<or> \<not> rt_network (ic_runtime c) \<or> payload = [] then (False, failed, x)
     else
       let packet = (makeInputPacket (ic_runtime c) packetType)\<lparr>pk_sequence := sequence,
             pk_monotonicTimestampUsec := timestampUsec, pk_payload := payload\<rparr>;
           (result, x) = runtime_send iface packet x
       in if sr_status result \<noteq> SS_Sent then (False, failed, x)
          else (True, c\<lparr>ic_eventsSent := ic_eventsSent c + 1\<rparr>,
                input_publish (ic_runtime c) (mf_moduleId (ic_manifest c)) ''input.event_sent''
                  ''input event sent'' x))"

definition sendMouseEvent ::
    "('c, 'w) channel_interface \<Rightarrow> mouse_event \<Rightarrow> 'w input_client \<Rightarrow> ('c, 's, 'w) session_world \<Rightarrow>
     bool \<times> 'w input_client \<times> ('c, 's, 'w) session_world" where
  "sendMouseEvent iface event c x =
    (if ic_kind c \<noteq> IK_Mouse then (False, c, x)
     else sendPayload iface PT_Mouse (me_sequence event) (me_monotonicTimestampUsec event)
            (encodeMouseInputPayload event) c x)"

definition sendKeyboardEvent ::
    "('c, 'w) channel_interface \<Rightarrow> keyboard_event \<Rightarrow> 'w input_client \<Rightarrow> ('c, 's, 'w) session_world \<Rightarrow>
     bool \<times> 'w input_client \<times> ('c, 's, 'w) session_world" where
  "sendKeyboardEvent iface event c x =
    (if ic_kind c \<noteq> IK_Keyboard then (False, c, x)
     else sendPayload iface PT_Keyboard (ke_sequence event) (ke_monotonicTimestampUsec event)
            (encodeKeyboardInputPayload event) c x)"

record input_client_snapshot =
  ics_moduleId :: string
  ics_state :: module_state
  ics_captureAttached :: bool
  ics_eventsSent :: int
  ics_sendFailures :: int
  ics_captureOpenFailures :: int

definition client_snapshot :: "'w input_client \<Rightarrow> input_client_snapshot" where
  "client_snapshot c = \<lparr>ics_moduleId = mf_moduleId (ic_manifest c), ics_state = ic_state c,
     ics_captureAttached = (ic_capture c \<noteq> None), ics_eventsSent = ic_eventsSent c,
     ics_sendFailures = ic_sendFailures c, ics_captureOpenFailures = ic_captureOpenFailures c\<rparr>"

section \<open>InputAgentModule\<close>

record 'w input_agent =
  ia_manifest :: module_manifest
  ia_runtime :: module_runtime
  ia_state :: module_state
  ia_kind :: input_kind
  ia_injector :: "'w input_injector option"
  ia_eventsReceived :: int
  ia_eventsInjected :: int
  ia_decodeFailures :: int
  ia_injectionFailures :: int

definition new_input_agent ::
    "module_manifest \<Rightarrow> input_kind \<Rightarrow> 'w input_injector option \<Rightarrow> 'w input_agent" where
  "new_input_agent manifest kind injector = \<lparr>ia_manifest = manifest, ia_runtime = default_runtime,
     ia_state = MS_Created, ia_kind = kind, ia_injector = injector, ia_eventsReceived = 0,
     ia_eventsInjected = 0, ia_decodeFailures = 0, ia_injectionFailures = 0\<rparr>"

definition agent_attach :: "module_runtime \<Rightarrow> 'w input_agent \<Rightarrow> bool \<times> 'w input_agent" where
  "agent_attach rt a =
    (mf_moduleId (ia_manifest a) \<noteq> [], a\<lparr>ia_runtime := rt, ia_state := MS_Attached\<rparr>)"

definition agent_publish ::
    "string \<Rightarrow> string \<Rightarrow> 'w input_agent \<Rightarrow> ('c, 's, 'w) session_world \<Rightarrow> ('c, 's, 'w) session_world" where
  "agent_publish code message a =
     input_publish (ia_runtime a) (mf_moduleId (ia_manifest a)) code message"

definition agent_start ::
    "'w input_agent \<Rightarrow> ('c, 's, 'w) session_world \<Rightarrow> bool \<times> 'w input_agent \<times> ('c, 's, 'w) session_world" where
  "agent_start a x = (True, a\<lparr>ia_state := MS_Running\<rparr>,
     agent_publish ''input.agent_started'' ''input injector contract started'' a x)"

definition agent_stop ::
    "'w input_agent \<Rightarrow> ('c, 's, 'w) session_world \<Rightarrow> 'w input_agent \<times> ('c, 's, 'w) session_world" where
  "agent_stop a x = (a\<lparr>ia_state := MS_Stopped\<rparr>,
     agent_publish ''input.agent_stopped'' ''input injector contract stopped'' a x)"

definition agent_detach :: "'w input_agent \<Rightarrow> 'w input_agent" where
  "agent_detach a = a\<lparr>ia_state := MS_Detached\<rparr>"

text \<open>The two injection functions differ in the event, the injector's method and the messages.\<close>

definition inject_event ::
    "(input_event \<Rightarrow> 'e option) \<Rightarrow> ('w input_injector \<Rightarrow> 'e \<Rightarrow> 'w \<Rightarrow> bool \<times> 'w) \<Rightarrow> string \<Rightarrow> string \<Rightarrow>
     packet_envelope \<Rightarrow> 'w input_agent \<Rightarrow> ('c, 's, 'w) session_world \<Rightarrow>
     bool \<times> 'w input_agent \<times> ('c, 's, 'w) session_world" where
  "inject_event select inject failedMessage injectedMessage packet a x =
    (let a = a\<lparr>ia_eventsReceived := ia_eventsReceived a + 1\<rparr> in
     case (case decodeInputPayload (pk_payload packet) of Inl _ \<Rightarrow> None | Inr event \<Rightarrow> select event) of
       None \<Rightarrow> (False, a\<lparr>ia_decodeFailures := ia_decodeFailures a + 1\<rparr>, x)
     | Some event \<Rightarrow>
         let (injected, x) = (case ia_injector a of
               None \<Rightarrow> (False, x) | Some injector \<Rightarrow> on_rest (inject injector event) x)
         in if \<not> injected then
              (False, a\<lparr>ia_injectionFailures := ia_injectionFailures a + 1\<rparr>,
               agent_publish ''input.inject_failed'' failedMessage a x)
            else
              (True, a\<lparr>ia_eventsInjected := ia_eventsInjected a + 1\<rparr>,
               agent_publish ''input.event_injected'' injectedMessage a x))"

definition injectMouse ::
    "packet_envelope \<Rightarrow> 'w input_agent \<Rightarrow> ('c, 's, 'w) session_world \<Rightarrow>
     bool \<times> 'w input_agent \<times> ('c, 's, 'w) session_world" where
  "injectMouse = inject_event
     (\<lambda>event. case event of MouseInput e \<Rightarrow> Some e | KeyboardInput _ \<Rightarrow> None) inj_mouse
     ''mouse injection failed or missing'' ''mouse event injected''"

definition injectKeyboard ::
    "packet_envelope \<Rightarrow> 'w input_agent \<Rightarrow> ('c, 's, 'w) session_world \<Rightarrow>
     bool \<times> 'w input_agent \<times> ('c, 's, 'w) session_world" where
  "injectKeyboard = inject_event
     (\<lambda>event. case event of KeyboardInput e \<Rightarrow> Some e | MouseInput _ \<Rightarrow> None) inj_keyboard
     ''keyboard injection failed or missing'' ''keyboard event injected''"

definition agent_handlePacket ::
    "packet_envelope \<Rightarrow> 'w input_agent \<Rightarrow> ('c, 's, 'w) session_world \<Rightarrow>
     'w input_agent \<times> ('c, 's, 'w) session_world" where
  "agent_handlePacket packet a x =
    (if ia_state a \<noteq> MS_Running then (a, x)
     else if ia_kind a = IK_Mouse \<and> pk_packetType packet = PT_Mouse then snd (injectMouse packet a x)
     else if ia_kind a = IK_Keyboard \<and> pk_packetType packet = PT_Keyboard then
       snd (injectKeyboard packet a x)
     else (a, x))"

definition agent_diagnostics :: "'w input_agent \<Rightarrow> string" where
  "agent_diagnostics a = ''input.agent id='' @ mf_moduleId (ia_manifest a) @ '' state='' @
     module_stateName (ia_state a) @ '' received='' @ to_string (ia_eventsReceived a) @
     '' injected='' @ to_string (ia_eventsInjected a) @
     '' decodeFailures='' @ to_string (ia_decodeFailures a) @
     '' injectionFailures='' @ to_string (ia_injectionFailures a)"

record input_agent_snapshot =
  ias_moduleId :: string
  ias_state :: module_state
  ias_eventsReceived :: int
  ias_eventsInjected :: int
  ias_decodeFailures :: int
  ias_injectionFailures :: int

definition agent_snapshot :: "'w input_agent \<Rightarrow> input_agent_snapshot" where
  "agent_snapshot a = \<lparr>ias_moduleId = mf_moduleId (ia_manifest a), ias_state = ia_state a,
     ias_eventsReceived = ia_eventsReceived a, ias_eventsInjected = ia_eventsInjected a,
     ias_decodeFailures = ia_decodeFailures a, ias_injectionFailures = ia_injectionFailures a\<rparr>"

section \<open>The factories\<close>

abbreviation (input) inputRunModes :: u32 where
  "inputRunModes \<equiv> ModuleRunModeInProcess OR ModuleRunModeHosted"

definition smallDataBinding :: "packet_type list \<Rightarrow> packet_type list \<Rightarrow> channel_binding" where
  "smallDataBinding consumes produces = \<lparr>cb_name = ''small_data'', cb_channelId = CID_SmallData,
     cb_channelType = CT_Standard, cb_required = True, cb_shared = True, cb_consumes = consumes,
     cb_produces = produces\<rparr>"

definition input_makeManifest :: "input_kind \<Rightarrow> session_role \<Rightarrow> module_manifest" where
  "input_makeManifest kind role =
    (let mouse = (kind = IK_Mouse);
         client = (role = SR_Client);
         baseModuleId = (if mouse then ''input.mouse'' else ''input.keyboard'');
         peer = \<lparr>pc_peerModuleId = baseModuleId @ (if client then ''.agent'' else ''.client''),
           pc_minPeerVersion = \<lparr>mv_major = 1, mv_minor = 0, mv_patch = 0\<rparr>,
           pc_maxPeerVersion = \<lparr>mv_major = 1, mv_minor = 99, mv_patch = 99\<rparr>,
           pc_compatibilityMode = ''v1-family''\<rparr>;
         packetType = (if mouse then PT_Mouse else PT_Keyboard)
     in default_manifest\<lparr>
       mf_moduleId := baseModuleId @ (if client then ''.client'' else ''.agent''),
       mf_displayName := (if mouse then ''Mouse'' else ''Keyboard'') @
         (if client then '' input sender'' else '' input injector''),
       mf_sku := (if mouse then ''fusiondesk.module.input.mouse''
         else ''fusiondesk.module.input.keyboard''),
       mf_version := \<lparr>mv_major = 1, mv_minor = 0, mv_patch = 0\<rparr>,
       mf_feature := (if mouse then Feature_Mouse else Feature_Keyboard),
       mf_roleFlags := (if client then ModuleRoleClient else ModuleRoleAgent),
       mf_runModeFlags := inputRunModes,
       mf_standaloneSaleUnit := True,
       mf_disableAtRuntime := True,
       mf_supportedPlatforms := [''windows'', ''linux'', ''macos'', ''android''],
       mf_compatiblePeers := [peer],
       mf_channels := [if client then smallDataBinding [] [packetType]
         else smallDataBinding [packetType] []]\<rparr>)"

definition input_roleSupported :: "session_role \<Rightarrow> bool" where
  "input_roleSupported role \<longleftrightarrow> role = SR_Client \<or> role = SR_Agent"

definition isRequestForKind :: "string \<Rightarrow> input_kind \<Rightarrow> session_role \<Rightarrow> bool" where
  "isRequestForKind requestedModuleId kind role \<longleftrightarrow>
    (if kind = IK_Mouse then
       requestedModuleId = ''input.mouse'' \<or>
       role = SR_Client \<and> requestedModuleId = ''input.mouse.client'' \<or>
       role = SR_Agent \<and> requestedModuleId = ''input.mouse.agent''
     else
       requestedModuleId = ''input.keyboard'' \<or>
       role = SR_Client \<and> requestedModuleId = ''input.keyboard.client'' \<or>
       role = SR_Agent \<and> requestedModuleId = ''input.keyboard.agent'')"

datatype 'w input_module = InputClient "'w input_client" | InputAgent "'w input_agent"

definition input_create ::
    "input_kind \<Rightarrow> 'w input_capture option \<Rightarrow> 'w input_injector option \<Rightarrow> create_options \<Rightarrow>
     'w input_module option" where
  "input_create kind capture injector options =
    (if \<not> input_roleSupported (cr_role options) then None
     else let roleManifest = input_makeManifest kind (cr_role options) in
       if cr_role options = SR_Client then Some (InputClient (new_input_client roleManifest kind capture))
       else Some (InputAgent (new_input_agent roleManifest kind injector)))"

definition inputModuleFactory ::
    "input_kind \<Rightarrow> 'w input_capture option \<Rightarrow> 'w input_injector option \<Rightarrow>
     'w input_module module_factory" where
  "inputModuleFactory kind capture injector = \<lparr>
     fa_supports = (\<lambda>requestedModuleId options. input_roleSupported (cr_role options) \<and>
       isRequestForKind requestedModuleId kind (cr_role options)),
     fa_manifest = (\<lambda>options. if \<not> input_roleSupported (cr_role options) then default_manifest
       else input_makeManifest kind (cr_role options)),
     fa_create = input_create kind capture injector\<rparr>"

definition defaultInputModuleManifests :: "module_manifest list" where
  "defaultInputModuleManifests =
     [input_makeManifest IK_Mouse SR_Client, input_makeManifest IK_Mouse SR_Agent,
      input_makeManifest IK_Keyboard SR_Client, input_makeManifest IK_Keyboard SR_Agent]"

definition makeDefaultInputModuleFactories ::
    "'w input_capture option \<Rightarrow> 'w input_injector option \<Rightarrow> 'w input_module composer" where
  "makeDefaultInputModuleFactories capture injector =
     [Some (inputModuleFactory IK_Mouse capture injector),
      Some (inputModuleFactory IK_Keyboard capture injector)]"

section \<open>Handling a packet\<close>

text \<open>The event a packet carries for an agent of a kind, and the injector's method for it.\<close>

definition event_kind :: "input_event \<Rightarrow> input_kind" where
  "event_kind event = (case event of MouseInput _ \<Rightarrow> IK_Mouse | KeyboardInput _ \<Rightarrow> IK_Keyboard)"

definition kind_packetType :: "input_kind \<Rightarrow> packet_type" where
  "kind_packetType kind = (if kind = IK_Mouse then PT_Mouse else PT_Keyboard)"

definition carried_event :: "input_kind \<Rightarrow> packet_envelope \<Rightarrow> input_event option" where
  "carried_event kind packet =
    (case decodeInputPayload (pk_payload packet) of
       Inl _ \<Rightarrow> None
     | Inr event \<Rightarrow> if event_kind event = kind then Some event else None)"

definition inject :: "'w input_injector \<Rightarrow> input_event \<Rightarrow> 'w \<Rightarrow> bool \<times> 'w" where
  "inject injector event = (case event of
     MouseInput e \<Rightarrow> inj_mouse injector e | KeyboardInput e \<Rightarrow> inj_keyboard injector e)"

definition addressed_to :: "'w input_agent \<Rightarrow> packet_envelope \<Rightarrow> bool" where
  "addressed_to a packet \<longleftrightarrow> ia_state a = MS_Running \<and> ia_kind a \<in> {IK_Mouse, IK_Keyboard} \<and>
     pk_packetType packet = kind_packetType (ia_kind a)"

lemma handlePacket_ignored: "\<not> addressed_to a packet \<Longrightarrow> agent_handlePacket packet a x = (a, x)"
  by (auto simp: agent_handlePacket_def addressed_to_def kind_packetType_def split: if_splits)

lemma handlePacket_addressed:
  assumes "addressed_to a packet"
  obtains failed injected where "agent_handlePacket packet a x =
    (case carried_event (ia_kind a) packet of
       None \<Rightarrow> (a\<lparr>ia_eventsReceived := ia_eventsReceived a + 1,
         ia_decodeFailures := ia_decodeFailures a + 1\<rparr>, x)
     | Some event \<Rightarrow>
         let (success, y) = (case ia_injector a of
               None \<Rightarrow> (False, x) | Some injector \<Rightarrow> on_rest (inject injector event) x)
         in if \<not> success then
              (a\<lparr>ia_eventsReceived := ia_eventsReceived a + 1,
                 ia_injectionFailures := ia_injectionFailures a + 1\<rparr>, failed y)
            else
              (a\<lparr>ia_eventsReceived := ia_eventsReceived a + 1,
                 ia_eventsInjected := ia_eventsInjected a + 1\<rparr>, injected y))"
    and "\<And>y. sw_rest (failed y) = sw_rest y" and "\<And>y. sw_rest (injected y) = sw_rest y"
proof -
  have rest: "sw_rest (input_publish rt i c m y) = sw_rest y" for rt i c m and y :: "('d, 'e, 'a) session_world"
    by (simp add: input_publish_def)
  from assms consider
      (mouse) "ia_state a = MS_Running" "ia_kind a = IK_Mouse" "pk_packetType packet = PT_Mouse"
    | (keyboard) "ia_state a = MS_Running" "ia_kind a = IK_Keyboard" "pk_packetType packet = PT_Keyboard"
    by (auto simp: addressed_to_def kind_packetType_def)
  then show thesis
  proof cases
    case mouse
    show thesis
      by (rule that [of
            "input_publish (ia_runtime a) (mf_moduleId (ia_manifest a)) ''input.inject_failed''
               ''mouse injection failed or missing''"
            "input_publish (ia_runtime a) (mf_moduleId (ia_manifest a)) ''input.event_injected''
               ''mouse event injected''"])
        (use mouse in \<open>simp_all add: agent_handlePacket_def injectMouse_def inject_event_def
          carried_event_def event_kind_def inject_def agent_publish_def rest Let_def split_beta
          split: sum.split input_event.split option.split\<close>)
  next
    case keyboard
    show thesis
      by (rule that [of
            "input_publish (ia_runtime a) (mf_moduleId (ia_manifest a)) ''input.inject_failed''
               ''keyboard injection failed or missing''"
            "input_publish (ia_runtime a) (mf_moduleId (ia_manifest a)) ''input.event_injected''
               ''keyboard event injected''"])
        (use keyboard in \<open>simp_all add: agent_handlePacket_def injectKeyboard_def inject_event_def
          carried_event_def event_kind_def inject_def agent_publish_def rest Let_def split_beta
          split: sum.split input_event.split option.split\<close>)
  qed
qed

lemma handlePacket_undecodable:
  "addressed_to a packet \<Longrightarrow> carried_event (ia_kind a) packet = None \<Longrightarrow>
   agent_handlePacket packet a x = (a\<lparr>ia_eventsReceived := ia_eventsReceived a + 1,
     ia_decodeFailures := ia_decodeFailures a + 1\<rparr>, x)"
  by (erule handlePacket_addressed [of a packet x]) simp

lemma handlePacket_carried:
  assumes "addressed_to a packet" and "carried_event (ia_kind a) packet = Some event"
    and "ia_injector a = Some injector"
  shows "fst (agent_handlePacket packet a x) =
      (if fst (inject injector event (sw_rest x))
       then a\<lparr>ia_eventsReceived := ia_eventsReceived a + 1, ia_eventsInjected := ia_eventsInjected a + 1\<rparr>
       else a\<lparr>ia_eventsReceived := ia_eventsReceived a + 1,
         ia_injectionFailures := ia_injectionFailures a + 1\<rparr>) \<and>
    sw_rest (snd (agent_handlePacket packet a x)) = snd (inject injector event (sw_rest x))"
  by (rule handlePacket_addressed [OF assms(1), of x]) (simp add: assms(2,3) split_beta)

lemma handlePacket_no_injector:
  assumes "addressed_to a packet" and "carried_event (ia_kind a) packet = Some event"
    and "ia_injector a = None"
  shows "fst (agent_handlePacket packet a x) = a\<lparr>ia_eventsReceived := ia_eventsReceived a + 1,
      ia_injectionFailures := ia_injectionFailures a + 1\<rparr> \<and>
    sw_rest (snd (agent_handlePacket packet a x)) = sw_rest x"
  by (rule handlePacket_addressed [OF assms(1), of x]) (simp add: assms(2,3))

section \<open>Runs of an agent\<close>

datatype agent_operation =
  AttachAgent module_runtime | StartAgent | StopAgent | DetachAgent | HandleInput packet_envelope

definition agent_step ::
    "agent_operation \<Rightarrow> 'w input_agent \<times> ('c, 's, 'w) session_world \<Rightarrow>
     'w input_agent \<times> ('c, 's, 'w) session_world" where
  "agent_step operation ax = (let (a, x) = ax in
     case operation of
       AttachAgent rt \<Rightarrow> (snd (agent_attach rt a), x)
     | StartAgent \<Rightarrow> snd (agent_start a x)
     | StopAgent \<Rightarrow> agent_stop a x
     | DetachAgent \<Rightarrow> (agent_detach a, x)
     | HandleInput packet \<Rightarrow> agent_handlePacket packet a x)"

definition agent_accounts :: "'w input_agent \<Rightarrow> bool" where
  "agent_accounts a \<longleftrightarrow> 0 \<le> ia_eventsInjected a \<and> 0 \<le> ia_decodeFailures a \<and>
     0 \<le> ia_injectionFailures a \<and>
     ia_eventsReceived a = ia_eventsInjected a + ia_decodeFailures a + ia_injectionFailures a"

definition input_taken ::
    "agent_operation \<Rightarrow> 'w input_agent \<times> ('c, 's, 'w) session_world \<Rightarrow> nat" where
  "input_taken operation ax = (case operation of
     HandleInput packet \<Rightarrow> if addressed_to (fst ax) packet then 1 else 0 | _ \<Rightarrow> 0)"

lemma handlePacket_cases:
  obtains (ignored) "\<not> addressed_to a packet" "agent_handlePacket packet a x = (a, x)"
  | (undecodable) "addressed_to a packet" "fst (agent_handlePacket packet a x) =
      a\<lparr>ia_eventsReceived := ia_eventsReceived a + 1, ia_decodeFailures := ia_decodeFailures a + 1\<rparr>"
  | (failed) "addressed_to a packet" "fst (agent_handlePacket packet a x) =
      a\<lparr>ia_eventsReceived := ia_eventsReceived a + 1, ia_injectionFailures := ia_injectionFailures a + 1\<rparr>"
  | (injected) "addressed_to a packet" "fst (agent_handlePacket packet a x) =
      a\<lparr>ia_eventsReceived := ia_eventsReceived a + 1, ia_eventsInjected := ia_eventsInjected a + 1\<rparr>"
proof (cases "addressed_to a packet")
  case False
  then show ?thesis using ignored handlePacket_ignored by blast
next
  case True
  show ?thesis
  proof (cases "carried_event (ia_kind a) packet")
    case None
    then show ?thesis using undecodable [OF True] handlePacket_undecodable [OF True None, of x] by simp
  next
    case (Some event)
    show ?thesis
    proof (cases "ia_injector a")
      case None
      then show ?thesis using failed True handlePacket_no_injector [OF True Some None] by blast
    next
      case injector: (Some injector)
      then show ?thesis
        using failed injected True handlePacket_carried [OF True Some injector, of x]
        by (cases "fst (inject injector event (sw_rest x))") simp_all
    qed
  qed
qed

lemma agent_step_accounts: "agent_accounts (fst ax) \<Longrightarrow> agent_accounts (fst (agent_step operation ax))"
proof (cases operation)
  case (HandleInput packet)
  assume "agent_accounts (fst ax)"
  then show ?thesis
    by (cases rule: handlePacket_cases [of "fst ax" packet "snd ax"])
      (simp_all add: HandleInput agent_step_def agent_accounts_def split_beta)
qed (simp_all add: agent_step_def agent_accounts_def agent_attach_def agent_start_def agent_stop_def
    agent_detach_def split_beta)

interpretation input_agent: kept_by_steps agent_step "\<lambda>ax. agent_accounts (fst ax)"
  by unfold_locales (rule agent_step_accounts)

lemma agent_step_takes:
  assumes "agent_accounts (fst ax)"
  shows "0 + nat (ia_eventsReceived (fst (agent_step operation ax))) =
    nat (ia_eventsReceived (fst ax)) + input_taken operation ax"
proof (cases operation)
  case (HandleInput packet)
  from assms have "0 \<le> ia_eventsReceived (fst ax)" by (simp add: agent_accounts_def)
  then show ?thesis
    by (cases rule: handlePacket_cases [of "fst ax" packet "snd ax"])
      (simp_all add: HandleInput agent_step_def input_taken_def split_beta nat_add_distrib)
qed (simp_all add: agent_step_def input_taken_def agent_attach_def agent_start_def agent_stop_def
    agent_detach_def split_beta)

lemma agent_run_takes:
  assumes "agent_accounts (fst ax)"
  shows "nat (ia_eventsReceived (fst (fold agent_step operations ax))) =
    nat (ia_eventsReceived (fst ax)) + run_total input_taken agent_step operations ax"
proof -
  have zero: "run_total (\<lambda>_ _. 0) agent_step operations ax = 0"
    by (induction operations arbitrary: ax) simp_all
  show ?thesis
    using input_agent.run_account [where given = "\<lambda>_ _. 0" and taken = input_taken and ops = operations
        and held = "\<lambda>ax. nat (ia_eventsReceived (fst ax))", OF agent_step_takes assms] zero
    by simp
qed

text \<open>The events a sequence of packets carries for an agent of a kind.\<close>

definition carried_events :: "input_kind \<Rightarrow> packet_envelope list \<Rightarrow> input_event list" where
  "carried_events kind packets = List.map_filter (\<lambda>packet.
     if pk_packetType packet = kind_packetType kind then carried_event kind packet else None) packets"

fun handle_all ::
    "packet_envelope list \<Rightarrow> 'w input_agent \<Rightarrow> ('c, 's, 'w) session_world \<Rightarrow>
     'w input_agent \<times> ('c, 's, 'w) session_world" where
  "handle_all [] a x = (a, x)"
| "handle_all (packet # packets) a x =
    (let (a, x) = agent_handlePacket packet a x in handle_all packets a x)"

lemma handlePacket_keeps:
  "ia_state (fst (agent_handlePacket packet a x)) = ia_state a"
  "ia_kind (fst (agent_handlePacket packet a x)) = ia_kind a"
  "ia_injector (fst (agent_handlePacket packet a x)) = ia_injector a"
  by (cases rule: handlePacket_cases [of a packet x]; simp)+

lemma handle_all_injects:
  assumes "ia_state a = MS_Running" and "ia_kind a \<in> {IK_Mouse, IK_Keyboard}"
    and "ia_injector a = Some injector"
  shows "sw_rest (snd (handle_all packets a x)) =
    fold (\<lambda>event w. snd (inject injector event w)) (carried_events (ia_kind a) packets) (sw_rest x)"
  using assms
proof (induction packets arbitrary: a x)
  case (Cons packet packets)
  let ?r = "agent_handlePacket packet a x"
  have addressed: "addressed_to a packet \<longleftrightarrow> pk_packetType packet = kind_packetType (ia_kind a)"
    using Cons.prems by (simp add: addressed_to_def)
  have step: "sw_rest (snd ?r) = fold (\<lambda>event w. snd (inject injector event w))
      (carried_events (ia_kind a) [packet]) (sw_rest x)"
  proof (cases "addressed_to a packet")
    case False
    then show ?thesis
      using addressed by (simp add: handlePacket_ignored carried_events_def List.map_filter_simps)
  next
    case True
    then show ?thesis
      using addressed handlePacket_carried [OF True _ Cons.prems(3), of _ x]
        handlePacket_undecodable [OF True, of x]
      by (cases "carried_event (ia_kind a) packet")
        (simp_all add: carried_events_def List.map_filter_simps)
  qed
  have "carried_events (ia_kind a) (packet # packets) =
      carried_events (ia_kind a) [packet] @ carried_events (ia_kind a) packets"
    by (simp add: carried_events_def List.map_filter_simps split: option.split)
  then show ?case
    using Cons.IH [of "fst ?r" "snd ?r"] Cons.prems step
    by (simp add: split_beta handlePacket_keeps)
qed (simp add: carried_events_def List.map_filter_simps)

section \<open>Sending an event\<close>

definition send_input ::
    "('c, 'w) channel_interface \<Rightarrow> input_event \<Rightarrow> 'w input_client \<Rightarrow> ('c, 's, 'w) session_world \<Rightarrow>
     bool \<times> 'w input_client \<times> ('c, 's, 'w) session_world" where
  "send_input iface event = (case event of
     MouseInput e \<Rightarrow> sendMouseEvent iface e | KeyboardInput e \<Rightarrow> sendKeyboardEvent iface e)"

definition input_packet :: "module_runtime \<Rightarrow> input_event \<Rightarrow> packet_envelope" where
  "input_packet rt event = (makeInputPacket rt (kind_packetType (event_kind event)))\<lparr>
     pk_sequence := (case event of MouseInput e \<Rightarrow> me_sequence e | KeyboardInput e \<Rightarrow> ke_sequence e),
     pk_monotonicTimestampUsec := (case event of
        MouseInput e \<Rightarrow> me_monotonicTimestampUsec e | KeyboardInput e \<Rightarrow> ke_monotonicTimestampUsec e),
     pk_payload := encode_input event\<rparr>"

lemma input_packet_rules:
  "cx_sessionId (rt_session rt) \<noteq> 0 \<Longrightarrow> packet_rules default_validation_options (input_packet rt event)"
  by (cases event)
    (simp_all add: packet_rules_def default_validation_fields input_packet_def makeInputPacket_def
      default_packet_def packet_fields_known_def inputChannelKey_def awaits_response_def hasFlag_def
      isKnownChannelId_def isKnownChannelType_def isKnownPacketType_def isKnownMessageKind_def
      isKnownPriority_def isKnownStatus_def isRequestLike_def isResponseLike_def isStreamMessage_def
      length_encode_input kind_packetType_def event_kind_def)

lemma input_packet_parts [simp]:
  "packet_key (input_packet rt event) = inputChannelKey"
  "pk_packetType (input_packet rt event) = kind_packetType (event_kind event)"
  "pk_payload (input_packet rt event) = encode_input event"
  by (simp_all add: input_packet_def makeInputPacket_def packet_key_def inputChannelKey_def)

lemma carried_event_input_packet [simp]:
  "carried_event (event_kind event) (input_packet rt event) = Some event"
  using decode_encoded_input [of event "[]"] by (simp add: carried_event_def)

lemma input_packet_on_the_wire:
  assumes "cx_sessionId (rt_session rt) \<noteq> 0"
  shows "decode default_codec_options (encode (input_packet rt event)) =
    \<lparr>dr_status = PD_Ok, dr_packet = input_packet rt event, dr_message = []\<rparr>"
proof (rule decode_encode)
  have "decode_validation_options default_codec_options = default_validation_options"
    by (simp add: decode_validation_options_def default_codec_options_def
        default_validation_options_def)
  then show "packet_rules (decode_validation_options default_codec_options) (input_packet rt event)"
    using input_packet_rules [OF assms] by simp
qed (simp add: length_encode_input split: input_event.split)

lemma send_input_sent:
  assumes "fst (send_input iface event c x)"
  shows "sr_status (fst (runtime_send iface (input_packet (ic_runtime c) event) x)) = SS_Sent"
  using assms
  by (cases event)
    (auto simp: send_input_def sendMouseEvent_def sendKeyboardEvent_def sendPayload_def input_packet_def
      kind_packetType_def event_kind_def encode_input_def Let_def split_beta split: if_splits)

section \<open>Properties\<close>

text \<open>
  C14. Input crosses the whole stack: when the client module reports a mouse or keyboard event as
  sent, the packet was accepted by the open channel bound to the small-data key; the packet codec
  decodes its encoding to the same packet; and any running agent module of the event's kind that
  is given this packet calls its injector with exactly the event, every field as it was sent.
\<close>

theorem input_reaches_the_injector:
  assumes "fst (send_input iface event c x)" and "cx_sessionId (rt_session (ic_runtime c)) \<noteq> 0"
    and "ia_state a = MS_Running" and "ia_kind a = event_kind event"
    and "ia_injector a = Some injector"
  shows "\<exists>m channel packet. sw_network x = Some m \<and>
    map_find (ro_channels (nm_router m)) inputChannelKey = Some channel \<and>
    ch_isOpen iface channel (sw_rest x) \<and>
    sr_status (fst (ch_send iface channel packet (sw_rest x))) = SS_Sent \<and>
    decode default_codec_options (encode packet) =
      \<lparr>dr_status = PD_Ok, dr_packet = packet, dr_message = []\<rparr> \<and>
    sw_rest (snd (agent_handlePacket packet a y)) = snd (inject injector event (sw_rest y))"
proof -
  let ?packet = "input_packet (ic_runtime c) event"
  have sent: "sr_status (fst (runtime_send iface ?packet x)) = SS_Sent"
    by (rule send_input_sent [OF assms(1)])
  have kind: "event_kind event \<in> {IK_Mouse, IK_Keyboard}" by (cases event) (simp_all add: event_kind_def)
  have "addressed_to a ?packet" using assms(3,4) kind by (simp add: addressed_to_def)
  then have "sw_rest (snd (agent_handlePacket ?packet a y)) = snd (inject injector event (sw_rest y))"
    using handlePacket_carried [of a ?packet event injector y] assms(4,5) by simp
  with runtime_send_Sent [OF sent] sent input_packet_on_the_wire [OF assms(2), of event] show ?thesis
    by (metis fst_conv input_packet_parts(1))
qed

text \<open>
  The injecting side is a map over the packets: however long a sequence of packets of any
  types a running agent is given, the rest of the world afterwards is what calling the injector on
  the events carried by the packets of its own type, in order, makes of it; packets of other
  types, undecodable ones and those that carry an event of the other kind have no effect.
\<close>

theorem injected_in_order:
  assumes "ia_state a = MS_Running" and "ia_kind a \<in> {IK_Mouse, IK_Keyboard}"
    and "ia_injector a = Some injector"
  shows "sw_rest (snd (handle_all packets a x)) =
    fold (\<lambda>event w. snd (inject injector event w)) (carried_events (ia_kind a) packets) (sw_rest x)"
  by (rule handle_all_injects [OF assms])

text \<open>
  The agent's books balance: over every sequence of attach, start, stop, detach and packets,
  from a new agent, the packets counted as received are those handed to the running module with its
  own packet type, and each of them is counted exactly once as injected, as undecodable or as a
  failed injection.
\<close>

theorem input_agent_accounts:
  "ia_eventsReceived (fst (fold agent_step operations (new_input_agent manifest kind injector, x))) =
     int (run_total input_taken agent_step operations (new_input_agent manifest kind injector, x)) \<and>
   agent_accounts (fst (fold agent_step operations (new_input_agent manifest kind injector, x)))"
proof -
  let ?ax = "(new_input_agent manifest kind injector, x)"
  have new: "agent_accounts (fst ?ax)" "ia_eventsReceived (fst ?ax) = 0"
    by (simp_all add: agent_accounts_def new_input_agent_def)
  have kept: "agent_accounts (fst (fold agent_step operations ?ax))"
    by (rule input_agent.run_keeps [of ?ax, OF new(1)])
  then have "0 \<le> ia_eventsReceived (fst (fold agent_step operations ?ax))"
    by (simp add: agent_accounts_def)
  then show ?thesis
    using kept agent_run_takes [of ?ax operations, OF new(1)] new(2) by simp
qed

text \<open>A log of injected events, a running mouse agent and client, and the event they exchange.\<close>

definition log_injector :: "(input_event list) input_injector" where
  "log_injector = \<lparr>inj_mouse = (\<lambda>e w. (True, w @ [MouseInput e])),
     inj_keyboard = (\<lambda>e w. (True, w @ [KeyboardInput e]))\<rparr>"

definition log_channels :: "(unit, input_event list) channel_interface" where
  "log_channels = \<lparr>ch_id = (\<lambda>_ _. CID_SmallData), ch_type = (\<lambda>_ _. CT_Standard),
     ch_isOpen = (\<lambda>_ _. True), ch_send = (\<lambda>_ _ w. (send_sent, w))\<rparr>"

definition sample_click :: input_event where
  "sample_click = MouseInput \<lparr>me_sequence = 7, me_monotonicTimestampUsec = 99, me_action = 2,
     me_button = 1, me_coordinateSpace = 1, me_modifiers = decodeModifiers 3, me_x = - 5, me_y = 10,
     me_wheelDeltaX = 0, me_wheelDeltaY = - 1\<rparr>"

definition sample_input_agent :: "(input_event list) input_agent" where
  "sample_input_agent =
     (new_input_agent (input_makeManifest IK_Mouse SR_Agent) IK_Mouse (Some log_injector))\<lparr>
       ia_state := MS_Running\<rparr>"

definition sample_input_client :: "(input_event list) input_client" where
  "sample_input_client = (new_input_client (input_makeManifest IK_Mouse SR_Client) IK_Mouse None)\<lparr>
     ic_state := MS_Running, ic_runtime := default_runtime\<lparr>
       rt_session := default_context\<lparr>cx_sessionId := 1\<rparr>, rt_network := True\<rparr>\<rparr>"

definition sample_input_world :: "(unit, unit, input_event list) session_world" where
  "sample_input_world = \<lparr>sw_network = Some ((new_manager heartbeat_negotiated)\<lparr>
     nm_router := new_router\<lparr>
       ro_channels := [(inputChannelKey, ())]\<rparr>\<rparr>), sw_sink = None, sw_rest = []\<rparr>"

lemma be16_not_empty [simp]: "be16 v \<noteq> []"
  using f16.length_enc [of v] by (cases "be16 v") simp_all

lemma sample_click_sent: "fst (send_input log_channels sample_click sample_input_client sample_input_world)"
  by (simp add: send_input_def sample_click_def sendMouseEvent_def sendPayload_def sample_input_client_def
      new_input_client_def sample_input_world_def runtime_send_def send_def log_channels_def
      makeInputPacket_def inputChannelKey_def packet_key_def encodeMouse_eq header_bytes_def
      send_sent_def Let_def)

lemma sample_input_facts:
  "cx_sessionId (rt_session (ic_runtime sample_input_client)) \<noteq> 0"
  "ia_state sample_input_agent = MS_Running" "ia_kind sample_input_agent = event_kind sample_click"
  "ia_injector sample_input_agent = Some log_injector"
  "snd (inject log_injector sample_click (sw_rest sample_input_world)) = [sample_click]"
  by (simp_all add: sample_input_client_def sample_input_agent_def new_input_agent_def sample_click_def
      event_kind_def inject_def log_injector_def sample_input_world_def)

theorem input_reaches_the_injector_witness:
  "\<exists>packet. dr_packet (decode default_codec_options (encode packet)) = packet \<and>
     sw_rest (snd (agent_handlePacket packet sample_input_agent sample_input_world)) = [sample_click]"
  using input_reaches_the_injector [OF sample_click_sent sample_input_facts(1-4), of sample_input_world]
  unfolding sample_input_facts(5) by (metis packet_decode_result.select_convs(2))

theorem injected_in_order_witness:
  "sw_rest (snd (handle_all [input_packet default_runtime sample_click, default_packet,
       input_packet default_runtime sample_click] sample_input_agent sample_input_world)) =
   [sample_click, sample_click]"
proof -
  have kind: "event_kind sample_click = IK_Mouse" by (simp add: sample_click_def event_kind_def)
  have carried: "carried_event IK_Mouse (input_packet default_runtime sample_click) = Some sample_click"
    using carried_event_input_packet [of sample_click default_runtime] kind by simp
  have "carried_events IK_Mouse [input_packet default_runtime sample_click, default_packet,
      input_packet default_runtime sample_click] = [sample_click, sample_click]"
    by (simp add: carried_events_def List.map_filter_simps kind carried kind_packetType_def
        default_packet_def)
  then show ?thesis
    using injected_in_order [of sample_input_agent log_injector "[input_packet default_runtime sample_click,
        default_packet, input_packet default_runtime sample_click]" sample_input_world]
    by (simp add: sample_input_agent_def new_input_agent_def inject_def log_injector_def
        sample_input_world_def sample_click_def)
qed

text \<open>
  The two modules of a kind fit together: each manifest names the other as a compatible peer, and
  the agent consumes, on the same channel, exactly the packet type the client produces.
\<close>

theorem input_manifests_fit:
  "cc_compatible (checkModuleCompatibility (input_makeManifest kind SR_Client)
     (mf_moduleId (input_makeManifest kind SR_Agent)) (mf_version (input_makeManifest kind SR_Agent))) \<and>
   cc_compatible (checkModuleCompatibility (input_makeManifest kind SR_Agent)
     (mf_moduleId (input_makeManifest kind SR_Client)) (mf_version (input_makeManifest kind SR_Client))) \<and>
   map cb_produces (mf_channels (input_makeManifest kind SR_Client)) =
     map cb_consumes (mf_channels (input_makeManifest kind SR_Agent)) \<and>
   map (\<lambda>b. ChannelKey (cb_channelId b) (cb_channelType b)) (mf_channels (input_makeManifest kind SR_Agent)) =
     [inputChannelKey]"
  by (simp add: input_makeManifest_def Let_def default_manifest_def smallDataBinding_def
      inputChannelKey_def checkModuleCompatibility_def moduleVersionInRange_def compareModuleVersion_def)

end
