(* ===== verification/Display_Codecs.thy ===== *)
theory Display_Codecs
  imports Payload_Fields
begin

unbundle bit_operations_syntax

text \<open>
  \<open>display_types.h\<close> and the three payload codecs of \<open>src/modules/display\<close>: display control
  (\<open>display_control_codec.cpp\<close>), raw frames (\<open>display_frame_codec.cpp\<close>) and encoded video
  (\<open>display_encoded_video_payload.cpp\<close>). Enums are words, because the decoders cast what arrives;
  a failed decode is \<open>Inl\<close> its error text. \<open>std::size_t\<close> is taken to have 64 bits.
\<close>

section \<open>Frames\<close>

type_synonym pixel_format = u16
abbreviation (input) PF_Unknown :: pixel_format where "PF_Unknown \<equiv> 0"
abbreviation (input) PF_Bgra32 :: pixel_format where "PF_Bgra32 \<equiv> 1"
abbreviation (input) PF_Rgba32 :: pixel_format where "PF_Rgba32 \<equiv> 2"
abbreviation (input) PF_Rgb24 :: pixel_format where "PF_Rgb24 \<equiv> 3"
abbreviation (input) PF_Gray8 :: pixel_format where "PF_Gray8 \<equiv> 4"

type_synonym video_codec = u16
abbreviation (input) VC_H264 :: video_codec where "VC_H264 \<equiv> 2"
abbreviation (input) VC_H265 :: video_codec where "VC_H265 \<equiv> 3"
abbreviation (input) VC_Av1 :: video_codec where "VC_Av1 \<equiv> 4"

type_synonym bitstream_format = u16
abbreviation (input) BF_AnnexB :: bitstream_format where "BF_AnnexB \<equiv> 1"
abbreviation (input) BF_Avcc :: bitstream_format where "BF_Avcc \<equiv> 2"

type_synonym display_decode_status = u16
abbreviation (input) DDS_Ok :: display_decode_status where "DDS_Ok \<equiv> 0"
abbreviation (input) DDS_NeedsMoreInput :: display_decode_status where "DDS_NeedsMoreInput \<equiv> 1"
abbreviation (input) DDS_Failed :: display_decode_status where "DDS_Failed \<equiv> 2"

record captured_frame =
  cf_frameId :: u64
  cf_sourceId :: u32
  cf_keyFrame :: bool
  cf_width :: u32
  cf_height :: u32
  cf_strideBytes :: u32
  cf_pixelFormat :: pixel_format
  cf_monotonicTimestampUsec :: u64
  cf_pixels :: byte_buffer

record encoded_frame =
  ef_frameId :: u64
  ef_keyFrame :: bool
  ef_width :: u32
  ef_height :: u32
  ef_strideBytes :: u32
  ef_pixelFormat :: pixel_format
  ef_monotonicTimestampUsec :: u64
  ef_payload :: byte_buffer

record decoded_frame =
  df_decodeStatus :: display_decode_status
  df_frameId :: u64
  df_keyFrame :: bool
  df_width :: u32
  df_height :: u32
  df_strideBytes :: u32
  df_pixelFormat :: pixel_format
  df_monotonicTimestampUsec :: u64
  df_pixels :: byte_buffer

definition default_encoded_frame :: encoded_frame where
  "default_encoded_frame = \<lparr>ef_frameId = 0, ef_keyFrame = False, ef_width = 0, ef_height = 0,
     ef_strideBytes = 0, ef_pixelFormat = PF_Unknown, ef_monotonicTimestampUsec = 0, ef_payload = []\<rparr>"

definition default_decoded_frame :: decoded_frame where
  "default_decoded_frame = \<lparr>df_decodeStatus = DDS_Ok, df_frameId = 0, df_keyFrame = False,
     df_width = 0, df_height = 0, df_strideBytes = 0, df_pixelFormat = PF_Unknown,
     df_monotonicTimestampUsec = 0, df_pixels = []\<rparr>"

section \<open>Display control\<close>

type_synonym control_operation = u16
abbreviation (input) CO_Unknown :: control_operation where "CO_Unknown \<equiv> 0"
abbreviation (input) CO_RequestKeyframe :: control_operation where "CO_RequestKeyframe \<equiv> 1"
abbreviation (input) CO_KeyframeScheduled :: control_operation where "CO_KeyframeScheduled \<equiv> 2"

type_synonym keyframe_reason = u16
abbreviation (input) KR_Unknown :: keyframe_reason where "KR_Unknown \<equiv> 0"
abbreviation (input) KR_FirstFrameTimeout :: keyframe_reason where "KR_FirstFrameTimeout \<equiv> 1"
abbreviation (input) KR_DecoderReset :: keyframe_reason where "KR_DecoderReset \<equiv> 2"
abbreviation (input) KR_FrameGap :: keyframe_reason where "KR_FrameGap \<equiv> 3"
abbreviation (input) KR_Reconnect :: keyframe_reason where "KR_Reconnect \<equiv> 4"
abbreviation (input) KR_Manual :: keyframe_reason where "KR_Manual \<equiv> 5"

record control_payload =
  cp_operation :: control_operation
  cp_reason :: keyframe_reason
  cp_frameId :: u64

abbreviation (input) DisplayControlMagic :: u32 where "DisplayControlMagic \<equiv> 0x46445343"
abbreviation (input) DisplayControlVersion :: u16 where "DisplayControlVersion \<equiv> 1"
abbreviation (input) DisplayControlPayloadSize :: nat where "DisplayControlPayloadSize \<equiv> 20"

definition supportedOperation :: "control_operation \<Rightarrow> bool" where
  "supportedOperation operation \<longleftrightarrow>
     operation = CO_RequestKeyframe \<or> operation = CO_KeyframeScheduled"

definition supportedReason :: "keyframe_reason \<Rightarrow> bool" where
  "supportedReason reason \<longleftrightarrow> reason = KR_Unknown \<or> reason = KR_FirstFrameTimeout \<or>
     reason = KR_DecoderReset \<or> reason = KR_FrameGap \<or> reason = KR_Reconnect \<or> reason = KR_Manual"

definition encodeDisplayControlPayload :: "control_payload \<Rightarrow> byte_buffer" where
  "encodeDisplayControlPayload payload =
    (let output = [];
         output = appendU32 DisplayControlMagic output;
         output = appendU16 DisplayControlVersion output;
         output = appendU16 (cp_operation payload) output;
         output = appendU16 (cp_reason payload) output;
         output = appendU16 0 output
     in appendU64 (cp_frameId payload) output)"

record control_fields =
  cl_magic :: u32
  cl_version :: u16
  cl_operation :: u16
  cl_reason :: u16
  cl_reserved :: u16
  cl_frameId :: u64

definition readControlFields :: "byte_buffer \<Rightarrow> control_fields option" where
  "readControlFields payload = do {
     (magic, offset) \<leftarrow> nextU32 payload 0;
     (version, offset) \<leftarrow> nextU16 payload offset;
     (operation, offset) \<leftarrow> nextU16 payload offset;
     (reason, offset) \<leftarrow> nextU16 payload offset;
     (reserved, offset) \<leftarrow> nextU16 payload offset;
     (frameId, offset) \<leftarrow> nextU64 payload offset;
     Some \<lparr>cl_magic = magic, cl_version = version, cl_operation = operation, cl_reason = reason,
       cl_reserved = reserved, cl_frameId = frameId\<rparr> }"

definition decodeDisplayControlPayload :: "byte_buffer \<Rightarrow> string + control_payload" where
  "decodeDisplayControlPayload payload =
    (if length payload \<noteq> DisplayControlPayloadSize then
       Inl ''display control payload size is invalid''
     else case readControlFields payload of
       None \<Rightarrow> Inl ''display control payload is truncated''
     | Some f \<Rightarrow>
         if cl_magic f \<noteq> DisplayControlMagic then Inl ''display control magic is invalid''
         else if cl_version f \<noteq> DisplayControlVersion then
           Inl ''display control version is unsupported''
         else if cl_reserved f \<noteq> 0 then Inl ''display control reserved field is not zero''
         else if \<not> supportedOperation (cl_operation f) then
           Inl ''display control operation is unsupported''
         else if \<not> supportedReason (cl_reason f) then
           Inl ''display control keyframe reason is unsupported''
         else Inr \<lparr>cp_operation = cl_operation f, cp_reason = cl_reason f, cp_frameId = cl_frameId f\<rparr>)"

section \<open>Raw frames\<close>

abbreviation (input) RawFrameMagic :: u32 where "RawFrameMagic \<equiv> 0x46445246"
abbreviation (input) RawFrameVersion :: u16 where "RawFrameVersion \<equiv> 1"
abbreviation (input) RawFrameHeaderSize :: u16 where "RawFrameHeaderSize \<equiv> 40"
abbreviation (input) RawFrameFlagKeyFrame :: u16 where "RawFrameFlagKeyFrame \<equiv> 1"

definition bytesPerPixel :: "pixel_format \<Rightarrow> u32" where
  "bytesPerPixel format =
    (if format = PF_Bgra32 \<or> format = PF_Rgba32 then 4
     else if format = PF_Rgb24 then 3 else if format = PF_Gray8 then 1 else 0)"

text \<open>The error, or \<open>None\<close> for a valid geometry.\<close>

definition validateRawFrameGeometry ::
    "u32 \<Rightarrow> u32 \<Rightarrow> u32 \<Rightarrow> pixel_format \<Rightarrow> nat \<Rightarrow> string option" where
  "validateRawFrameGeometry width height strideBytes pixelFormat pixelBytes =
    (let bpp = bytesPerPixel pixelFormat in
     if width = 0 \<or> height = 0 then Some ''raw frame width and height are required''
     else if bpp = 0 then Some ''raw frame pixel format is unsupported''
     else
       let minimumStride = (ucast width :: u64) * ucast bpp in
       if (ucast strideBytes :: u64) < minimumStride then
         Some ''raw frame stride is smaller than width * bytesPerPixel''
       else
         let requiredBytes = (ucast strideBytes :: u64) * ucast height in
         if requiredBytes > 0xffffffffffffffff \<or> unat requiredBytes > pixelBytes then
           Some ''raw frame payload is shorter than stride * height''
         else None)"

definition encodeRawFramePayload :: "captured_frame \<Rightarrow> byte_buffer" where
  "encodeRawFramePayload frame =
    (if validateRawFrameGeometry (cf_width frame) (cf_height frame) (cf_strideBytes frame)
          (cf_pixelFormat frame) (length (cf_pixels frame)) \<noteq> None then []
     else
       let output = [];
           output = appendU32 RawFrameMagic output;
           output = appendU16 RawFrameVersion output;
           output = appendU16 RawFrameHeaderSize output;
           output = appendU64 (cf_frameId frame) output;
           output = appendU64 (cf_monotonicTimestampUsec frame) output;
           output = appendU32 (cf_width frame) output;
           output = appendU32 (cf_height frame) output;
           output = appendU32 (cf_strideBytes frame) output;
           output = appendU16 (cf_pixelFormat frame) output;
           output = appendU16 (if cf_keyFrame frame then RawFrameFlagKeyFrame else 0) output
       in output @ cf_pixels frame)"

record raw_start =
  rf_magic :: u32
  rf_version :: u16
  rf_headerSize :: u16

definition readRawStart :: "byte_buffer \<Rightarrow> (raw_start \<times> nat) option" where
  "readRawStart payload = do {
     (magic, offset) \<leftarrow> nextU32 payload 0;
     (version, offset) \<leftarrow> nextU16 payload offset;
     (headerSize, offset) \<leftarrow> nextU16 payload offset;
     Some (\<lparr>rf_magic = magic, rf_version = version, rf_headerSize = headerSize\<rparr>, offset) }"

text \<open>The second chain of reads fills the frame in; \<open>flags\<close> is used after it.\<close>

definition readRawMetadata :: "byte_buffer \<Rightarrow> nat \<Rightarrow> decoded_frame option" where
  "readRawMetadata payload offset = do {
     (frameId, offset) \<leftarrow> nextU64 payload offset;
     (timestampUsec, offset) \<leftarrow> nextU64 payload offset;
     (width, offset) \<leftarrow> nextU32 payload offset;
     (height, offset) \<leftarrow> nextU32 payload offset;
     (strideBytes, offset) \<leftarrow> nextU32 payload offset;
     (pixelFormatValue, offset) \<leftarrow> nextU16 payload offset;
     (flags, offset) \<leftarrow> nextU16 payload offset;
     Some (default_decoded_frame\<lparr>df_frameId := frameId, df_monotonicTimestampUsec := timestampUsec,
       df_width := width, df_height := height, df_strideBytes := strideBytes,
       df_pixelFormat := pixelFormatValue, df_keyFrame := (flags AND RawFrameFlagKeyFrame \<noteq> 0)\<rparr>) }"

definition decodeRawFramePayload :: "byte_buffer \<Rightarrow> string + decoded_frame" where
  "decodeRawFramePayload payload =
    (if length payload < unat RawFrameHeaderSize then Inl ''raw frame payload is smaller than header''
     else case readRawStart payload of
       None \<Rightarrow> Inl ''raw frame header is truncated''
     | Some (start, offset) \<Rightarrow>
         if rf_magic start \<noteq> RawFrameMagic then Inl ''raw frame magic is invalid''
         else if rf_version start \<noteq> RawFrameVersion then Inl ''raw frame version is unsupported''
         else if rf_headerSize start \<noteq> RawFrameHeaderSize \<or>
                 unat (rf_headerSize start) > length payload then
           Inl ''raw frame header size is invalid''
         else case readRawMetadata payload offset of
           None \<Rightarrow> Inl ''raw frame metadata is truncated''
         | Some frame \<Rightarrow>
             let pixelOffset = unat (rf_headerSize start);
                 pixelBytes = length payload - pixelOffset
             in case validateRawFrameGeometry (df_width frame) (df_height frame)
                   (df_strideBytes frame) (df_pixelFormat frame) pixelBytes of
                  Some error \<Rightarrow> Inl error
                | None \<Rightarrow> Inr (frame\<lparr>df_pixels := drop pixelOffset payload\<rparr>))"

text \<open>\<open>RawFrameEncoder::encode\<close> and \<open>RawFrameDecoder::decode\<close>.\<close>

definition raw_encode :: "captured_frame \<Rightarrow> encoded_frame" where
  "raw_encode frame = \<lparr>ef_frameId = cf_frameId frame, ef_keyFrame = cf_keyFrame frame,
     ef_width = cf_width frame, ef_height = cf_height frame, ef_strideBytes = cf_strideBytes frame,
     ef_pixelFormat = cf_pixelFormat frame,
     ef_monotonicTimestampUsec = cf_monotonicTimestampUsec frame,
     ef_payload = encodeRawFramePayload frame\<rparr>"

definition raw_decode :: "encoded_frame \<Rightarrow> decoded_frame" where
  "raw_decode frame = (case decodeRawFramePayload (ef_payload frame) of
     Inr decoded \<Rightarrow> decoded | Inl _ \<Rightarrow> default_decoded_frame)"

section \<open>Lemmas\<close>

lemma encodeControl_eq:
  "encodeDisplayControlPayload p = be32 DisplayControlMagic @ be16 DisplayControlVersion @
     be16 (cp_operation p) @ be16 (cp_reason p) @ be16 0 @ be64 (cp_frameId p)"
  by (simp add: encodeDisplayControlPayload_def payload_fields Let_def)

lemma readControlFields_fields:
  "readControlFields (be32 magic @ be16 version @ be16 operation @ be16 reason @ be16 reserved @
     be64 frameId @ rest) =
   Some \<lparr>cl_magic = magic, cl_version = version, cl_operation = operation, cl_reason = reason,
     cl_reserved = reserved, cl_frameId = frameId\<rparr>"
  by (simp add: readControlFields_def payload_fields wire_layout)

lemma readControlFields_whole [simp]:
  "readControlFields (be32 magic @ be16 version @ be16 operation @ be16 reason @ be16 reserved @
     be64 frameId) =
   Some \<lparr>cl_magic = magic, cl_version = version, cl_operation = operation, cl_reason = reason,
     cl_reserved = reserved, cl_frameId = frameId\<rparr>"
  using readControlFields_fields [where rest = "[]"] by simp

lemma twenty_bytes:
  assumes "length payload = 20"
  obtains magic version operation reason reserved frameId where
    "payload = be32 magic @ be16 version @ be16 operation @ be16 reason @ be16 reserved @ be64 frameId"
proof -
  obtain magic r1 where 1: "payload = be32 magic @ r1"
    using starts_with_field(2) [of payload] assms by auto
  moreover obtain version r2 where 2: "r1 = be16 version @ r2"
    using starts_with_field(1) [of r1] assms 1 by auto
  moreover obtain operation r3 where 3: "r2 = be16 operation @ r3"
    using starts_with_field(1) [of r2] assms 1 2 by auto
  moreover obtain reason r4 where 4: "r3 = be16 reason @ r4"
    using starts_with_field(1) [of r3] assms 1 2 3 by auto
  moreover obtain reserved r5 where 5: "r4 = be16 reserved @ r5"
    using starts_with_field(1) [of r4] assms 1 2 3 4 by auto
  moreover obtain frameId r6 where 6: "r5 = be64 frameId @ r6"
    using starts_with_field(3) [of r5] assms 1 2 3 4 5 by auto
  moreover have "r6 = []" using assms 1 2 3 4 5 6 by simp
  ultimately show thesis using that by simp
qed

lemma length_encodeControl [simp]: "length (encodeDisplayControlPayload p) = 20"
  by (simp add: encodeControl_eq)

lemma decode_encode_control:
  "supportedOperation (cp_operation p) \<Longrightarrow> supportedReason (cp_reason p) \<Longrightarrow>
   decodeDisplayControlPayload (encodeDisplayControlPayload p) = Inr p"
  by (simp add: decodeDisplayControlPayload_def) (simp add: encodeControl_eq)

lemma decodeControl_Inr:
  assumes "decodeDisplayControlPayload payload = Inr p"
  shows "payload = encodeDisplayControlPayload p \<and> supportedOperation (cp_operation p) \<and>
    supportedReason (cp_reason p)"
proof -
  from assms have "length payload = 20"
    by (auto simp: decodeDisplayControlPayload_def split: if_splits)
  then obtain magic version operation reason reserved frameId where
    "payload = be32 magic @ be16 version @ be16 operation @ be16 reason @ be16 reserved @ be64 frameId"
    by (rule twenty_bytes)
  with assms show ?thesis
    by (auto simp: decodeDisplayControlPayload_def encodeControl_eq split: if_splits)
qed

section \<open>Geometry\<close>

lemma unat_u32_less: "unat (a :: u32) < 4294967296"
proof -
  have "unat a < 2 ^ LENGTH(32)" by (rule unsigned_less)
  then show ?thesis by simp
qed

lemma unat_ucast64: "unat (ucast (a :: u32) :: u64) = unat a"
  using unat_u32_less [of a] by (simp add: unsigned_ucast_eq take_bit_nat_eq_self_iff)

lemma u64_at_most: "(v :: u64) \<le> 0xffffffffffffffff"
proof -
  have "unat v < 2 ^ LENGTH(64)" by (rule unsigned_less)
  then show ?thesis by (simp add: word_le_nat_alt)
qed

lemma product_fits: "unat ((ucast (a :: u32) :: u64) * ucast (b :: u32)) = unat a * unat b"
proof -
  have "unat a * unat b < 2 ^ 64"
    using mult_strict_mono [of "unat a" "2 ^ 32" "unat b" "2 ^ 32"] unat_u32_less [of a] unat_u32_less [of b]
    by simp
  then show ?thesis
    by (simp add: unat_word_ariths(2) unat_ucast64)
qed

text \<open>The geometry the code computes with 64-bit words, over the natural numbers.\<close>

definition frame_fits :: "u32 \<Rightarrow> u32 \<Rightarrow> u32 \<Rightarrow> pixel_format \<Rightarrow> nat \<Rightarrow> bool" where
  "frame_fits width height strideBytes pixelFormat pixelBytes \<longleftrightarrow>
     width \<noteq> 0 \<and> height \<noteq> 0 \<and> bytesPerPixel pixelFormat \<noteq> 0 \<and>
     unat width * unat (bytesPerPixel pixelFormat) \<le> unat strideBytes \<and>
     unat strideBytes * unat height \<le> pixelBytes"

lemma validateRawFrameGeometry_iff:
  "validateRawFrameGeometry width height strideBytes pixelFormat pixelBytes = None \<longleftrightarrow>
   frame_fits width height strideBytes pixelFormat pixelBytes"
proof -
  have "(ucast strideBytes :: u64) < ucast width * ucast (bytesPerPixel pixelFormat) \<longleftrightarrow>
      unat strideBytes < unat width * unat (bytesPerPixel pixelFormat)"
    by (simp add: word_less_nat_alt product_fits unat_ucast64)
  moreover have "\<not> requiredBytes > 0xffffffffffffffff" for requiredBytes :: u64
    using u64_at_most [of requiredBytes] by (simp add: not_less)
  ultimately show ?thesis
    by (auto simp: validateRawFrameGeometry_def frame_fits_def Let_def product_fits)
qed

lemma frame_fits_pixel:
  assumes "frame_fits width height strideBytes pixelFormat pixelBytes"
    and "row < unat height" and "column < unat width" and "b < unat (bytesPerPixel pixelFormat)"
  shows "row * unat strideBytes + column * unat (bytesPerPixel pixelFormat) + b < pixelBytes"
proof -
  let ?bpp = "unat (bytesPerPixel pixelFormat)"
  from assms(3) have "Suc column * ?bpp \<le> unat width * ?bpp"
    by (intro mult_le_mono1) simp
  then have "column * ?bpp + b < unat strideBytes"
    using assms(1,4) by (simp add: frame_fits_def)
  then have "row * unat strideBytes + column * ?bpp + b < Suc row * unat strideBytes" by simp
  also have "\<dots> \<le> unat height * unat strideBytes" using assms(2) by (intro mult_le_mono1) simp
  also have "\<dots> \<le> pixelBytes" using assms(1) by (simp add: frame_fits_def mult.commute)
  finally show ?thesis .
qed

section \<open>Raw frames on the wire\<close>

definition captured_fits :: "captured_frame \<Rightarrow> bool" where
  "captured_fits f \<longleftrightarrow> frame_fits (cf_width f) (cf_height f) (cf_strideBytes f) (cf_pixelFormat f)
     (length (cf_pixels f))"

definition raw_header :: "u64 \<Rightarrow> u64 \<Rightarrow> u32 \<Rightarrow> u32 \<Rightarrow> u32 \<Rightarrow> u16 \<Rightarrow> u16 \<Rightarrow> byte_buffer" where
  "raw_header frameId timestampUsec width height strideBytes pixelFormat flags =
     be32 RawFrameMagic @ be16 RawFrameVersion @ be16 RawFrameHeaderSize @ be64 frameId @
     be64 timestampUsec @ be32 width @ be32 height @ be32 strideBytes @ be16 pixelFormat @ be16 flags"

lemma length_raw_header [simp]:
  "length (raw_header frameId timestampUsec width height strideBytes pixelFormat flags) = 40"
  by (simp add: raw_header_def)

lemma encodeRawFrame_eq:
  "encodeRawFramePayload f = (if captured_fits f then
     raw_header (cf_frameId f) (cf_monotonicTimestampUsec f) (cf_width f) (cf_height f)
       (cf_strideBytes f) (cf_pixelFormat f) (if cf_keyFrame f then RawFrameFlagKeyFrame else 0) @
     cf_pixels f else [])"
  by (simp add: encodeRawFramePayload_def captured_fits_def raw_header_def payload_fields Let_def
      flip: validateRawFrameGeometry_iff)

lemma readRawStart_header [simp]:
  "readRawStart (raw_header frameId timestampUsec width height strideBytes pixelFormat flags @ pixels) =
   Some (\<lparr>rf_magic = RawFrameMagic, rf_version = RawFrameVersion,
     rf_headerSize = RawFrameHeaderSize\<rparr>, 8)"
  by (simp add: readRawStart_def raw_header_def payload_fields wire_layout)

lemma readRawMetadata_header [simp]:
  "readRawMetadata (raw_header frameId timestampUsec width height strideBytes pixelFormat flags @ pixels) 8 =
   Some (default_decoded_frame\<lparr>df_frameId := frameId, df_monotonicTimestampUsec := timestampUsec,
     df_width := width, df_height := height, df_strideBytes := strideBytes,
     df_pixelFormat := pixelFormat, df_keyFrame := (flags AND RawFrameFlagKeyFrame \<noteq> 0)\<rparr>)"
  by (simp add: readRawMetadata_def raw_header_def payload_fields wire_layout)

lemma decodeRawFrame_header:
  "decodeRawFramePayload (raw_header frameId timestampUsec width height strideBytes pixelFormat flags @ pixels) =
   (case validateRawFrameGeometry width height strideBytes pixelFormat (length pixels) of
      Some error \<Rightarrow> Inl error
    | None \<Rightarrow> Inr \<lparr>df_decodeStatus = DDS_Ok, df_frameId = frameId,
        df_keyFrame = (flags AND RawFrameFlagKeyFrame \<noteq> 0), df_width = width, df_height = height,
        df_strideBytes = strideBytes, df_pixelFormat = pixelFormat,
        df_monotonicTimestampUsec = timestampUsec, df_pixels = pixels\<rparr>)"
  by (simp add: decodeRawFramePayload_def default_decoded_frame_def Let_def split: option.split)

definition raw_payload_parts :: "byte_buffer \<Rightarrow> decoded_frame \<Rightarrow> u16 \<Rightarrow> bool" where
  "raw_payload_parts payload f flags \<longleftrightarrow> payload =
     raw_header (df_frameId f) (df_monotonicTimestampUsec f) (df_width f) (df_height f)
       (df_strideBytes f) (df_pixelFormat f) flags @ df_pixels f"

lemma decodeRaw_Inr:
  assumes "decodeRawFramePayload payload = Inr f"
  obtains flags where "raw_payload_parts payload f flags"
    and "df_keyFrame f = (flags AND RawFrameFlagKeyFrame \<noteq> 0)" and "df_decodeStatus f = DDS_Ok"
    and "frame_fits (df_width f) (df_height f) (df_strideBytes f) (df_pixelFormat f)
      (length (df_pixels f))"
proof -
  from assms obtain start offset frame where
      start: "readRawStart payload = Some (start, offset)" and metadata: "readRawMetadata payload offset = Some frame"
    and known: "rf_magic start = RawFrameMagic" "rf_version start = RawFrameVersion"
      "rf_headerSize start = RawFrameHeaderSize"
    and valid: "validateRawFrameGeometry (df_width frame) (df_height frame) (df_strideBytes frame)
      (df_pixelFormat frame) (length payload - 40) = None"
    and f: "f = frame\<lparr>df_pixels := drop 40 payload\<rparr>"
    by (auto simp: decodeRawFramePayload_def Let_def split: if_splits option.splits)
  from start have 1: "offset = 8 \<and> payload = be32 (rf_magic start) @ be16 (rf_version start) @
      be16 (rf_headerSize start) @ drop 8 payload"
    by (auto simp: readRawStart_def split: Option.bind_splits dest!: next_field_drops)
  with metadata have "readRawMetadata payload 8 = Some frame" by simp
  then obtain flags where 2: "drop 8 payload = be64 (df_frameId frame) @
      be64 (df_monotonicTimestampUsec frame) @ be32 (df_width frame) @ be32 (df_height frame) @
      be32 (df_strideBytes frame) @ be16 (df_pixelFormat frame) @ be16 flags @ drop 40 payload"
    "df_keyFrame frame = (flags AND RawFrameFlagKeyFrame \<noteq> 0)" "df_decodeStatus frame = DDS_Ok"
    by (auto simp: readRawMetadata_def default_decoded_frame_def split: Option.bind_splits
        dest!: next_field_drops)
  have "raw_payload_parts payload f flags"
    using 1 2 known f by (simp add: raw_payload_parts_def raw_header_def)
  then show thesis using that valid 2 f by (simp add: validateRawFrameGeometry_iff)
qed

section \<open>Properties\<close>

text \<open>
  C34. The display control codec is exact: a payload is accepted exactly if it is the encoding of
  the decoded message, and that message has a supported operation and reason. So every supported
  message survives the wire, and no two payloads mean the same message.
\<close>

theorem control_codec_is_exact:
  "decodeDisplayControlPayload payload = Inr p \<longleftrightarrow>
   payload = encodeDisplayControlPayload p \<and> supportedOperation (cp_operation p) \<and>
   supportedReason (cp_reason p)"
  using decodeControl_Inr decode_encode_control by blast

text \<open>
  A captured frame survives the raw-frame codec: if its pixels cover its geometry, decoding
  its encoding gives the frame in every field; otherwise the encoder produces no payload, and the
  decoder makes of that the default frame, with frame id 0.
\<close>

theorem raw_frame_round_trip:
  "raw_decode (raw_encode f) =
    (if captured_fits f then \<lparr>df_decodeStatus = DDS_Ok, df_frameId = cf_frameId f,
       df_keyFrame = cf_keyFrame f, df_width = cf_width f, df_height = cf_height f,
       df_strideBytes = cf_strideBytes f, df_pixelFormat = cf_pixelFormat f,
       df_monotonicTimestampUsec = cf_monotonicTimestampUsec f, df_pixels = cf_pixels f\<rparr>
     else default_decoded_frame) \<and>
   (ef_payload (raw_encode f) = [] \<longleftrightarrow> \<not> captured_fits f)"
proof -
  have "validateRawFrameGeometry (cf_width f) (cf_height f) (cf_strideBytes f) (cf_pixelFormat f)
      (length (cf_pixels f)) = None" if "captured_fits f"
    using that by (simp add: captured_fits_def validateRawFrameGeometry_iff)
  moreover have "raw_header a b c d e g h @ pixels \<noteq> []" for a b c d e g h pixels
    using length_raw_header [of a b c d e g h] by (metis append_is_Nil_conv list.size(3) zero_neq_numeral)
  ultimately show ?thesis
    by (simp add: raw_decode_def raw_encode_def encodeRawFrame_eq decodeRawFrame_header)
      (simp add: decodeRawFramePayload_def)
qed

text \<open>
  C32. What the raw-frame decoder accepts is safe to draw: the payload is exactly a header with the
  frame's fields followed by its pixels, and every byte of every pixel that width, height, stride
  and format address lies inside those pixels, whatever the 32-bit values in the header are.
\<close>

theorem raw_frame_is_safe_to_draw:
  assumes "decodeRawFramePayload payload = Inr f"
  shows "(\<exists>flags. raw_payload_parts payload f flags) \<and>
    (\<forall>row column b. row < unat (df_height f) \<longrightarrow> column < unat (df_width f) \<longrightarrow>
       b < unat (bytesPerPixel (df_pixelFormat f)) \<longrightarrow>
       row * unat (df_strideBytes f) + column * unat (bytesPerPixel (df_pixelFormat f)) + b
         < length (df_pixels f))"
  using decodeRaw_Inr [OF assms] frame_fits_pixel by metis

theorem raw_frame_is_safe_to_draw_witness:
  "\<exists>f. decodeRawFramePayload (raw_header 1 2 2 1 3 PF_Gray8 1 @ [5, 6, 7]) = Inr f \<and>
     unat (df_height f) = 1 \<and> 1 * unat (bytesPerPixel (df_pixelFormat f)) < length (df_pixels f)"
proof -
  let ?payload = "raw_header 1 2 2 1 3 PF_Gray8 1 @ [5, 6, 7]"
  have "validateRawFrameGeometry 2 1 3 PF_Gray8 (Suc (Suc (Suc 0))) = None"
    by (simp add: validateRawFrameGeometry_iff frame_fits_def bytesPerPixel_def)
  then have "\<exists>f. decodeRawFramePayload ?payload = Inr f \<and> df_height f = 1 \<and> df_width f = 2 \<and>
      df_pixelFormat f = PF_Gray8"
    by (simp add: decodeRawFrame_header)
  then obtain f where f: "decodeRawFramePayload ?payload = Inr f" "df_height f = 1" "df_width f = 2"
      "df_pixelFormat f = PF_Gray8" by blast
  then show ?thesis
    using raw_frame_is_safe_to_draw [OF f(1), THEN conjunct2, rule_format, of 0 1 0]
    by (simp add: bytesPerPixel_def)
qed

end
