(* ===== verification/Video_Payload.thy ===== *)
theory Video_Payload
  imports Display_Codecs
begin

unbundle bit_operations_syntax

text \<open>
  \<open>src/modules/display/display_encoded_video_payload.cpp\<close>: the payload of an encoded video
  packet, a 64-byte header followed by the codec's sequence header and the bitstream.
\<close>

section \<open>The payload\<close>

record video_payload =
  vp_codec :: video_codec
  vp_bitstreamFormat :: bitstream_format
  vp_frame :: encoded_frame
  vp_codedWidth :: u32
  vp_codedHeight :: u32
  vp_visibleWidth :: u32
  vp_visibleHeight :: u32
  vp_sequenceHeader :: byte_buffer
  vp_bitstream :: byte_buffer

abbreviation (input) EncodedVideoMagic :: u32 where "EncodedVideoMagic \<equiv> 0x46445346"
abbreviation (input) EncodedVideoVersion :: u16 where "EncodedVideoVersion \<equiv> 1"
abbreviation (input) EncodedVideoHeaderSize :: u16 where "EncodedVideoHeaderSize \<equiv> 64"
abbreviation (input) EncodedVideoFlagKeyFrame :: u16 where "EncodedVideoFlagKeyFrame \<equiv> 1"

definition isKnownCodec :: "video_codec \<Rightarrow> bool" where
  "isKnownCodec codec \<longleftrightarrow> codec = VC_H264 \<or> codec = VC_H265 \<or> codec = VC_Av1"

definition isKnownBitstreamFormat :: "bitstream_format \<Rightarrow> bool" where
  "isKnownBitstreamFormat format \<longleftrightarrow> format = BF_AnnexB \<or> format = BF_Avcc"

definition normalizedPayload :: "video_payload \<Rightarrow> video_payload" where
  "normalizedPayload payload = payload\<lparr>
     vp_codedWidth := (if vp_codedWidth payload = 0 then ef_width (vp_frame payload)
       else vp_codedWidth payload),
     vp_codedHeight := (if vp_codedHeight payload = 0 then ef_height (vp_frame payload)
       else vp_codedHeight payload),
     vp_visibleWidth := (if vp_visibleWidth payload = 0 then ef_width (vp_frame payload)
       else vp_visibleWidth payload),
     vp_visibleHeight := (if vp_visibleHeight payload = 0 then ef_height (vp_frame payload)
       else vp_visibleHeight payload)\<rparr>"

text \<open>The error, or \<open>None\<close> for valid metadata.\<close>

definition validateMetadata :: "video_payload \<Rightarrow> string option" where
  "validateMetadata payload =
    (if \<not> isKnownCodec (vp_codec payload) then Some ''encoded video codec is unsupported''
     else if \<not> isKnownBitstreamFormat (vp_bitstreamFormat payload) then
       Some ''encoded video bitstream format is unsupported''
     else if vp_codedWidth payload = 0 \<or> vp_codedHeight payload = 0 \<or>
             vp_visibleWidth payload = 0 \<or> vp_visibleHeight payload = 0 then
       Some ''encoded video coded and visible dimensions are required''
     else if ef_width (vp_frame payload) = 0 \<or> ef_height (vp_frame payload) = 0 \<or>
             ef_width (vp_frame payload) \<noteq> vp_visibleWidth payload \<or>
             ef_height (vp_frame payload) \<noteq> vp_visibleHeight payload then
       Some ''encoded video frame dimensions must match visible dimensions''
     else if ef_strideBytes (vp_frame payload) = 0 then
       Some ''encoded video decoded stride is required''
     else if ef_pixelFormat (vp_frame payload) = PF_Unknown then
       Some ''encoded video decoded pixel format is required''
     else if vp_bitstream payload = [] then Some ''encoded video bitstream is required''
     else if length (vp_sequenceHeader payload) > 0xffffffff \<or>
             length (vp_bitstream payload) > 0xffffffff then
       Some ''encoded video payload section is too large''
     else None)"

section \<open>Encoding\<close>

definition encodeDisplayEncodedVideoPayload :: "video_payload \<Rightarrow> byte_buffer" where
  "encodeDisplayEncodedVideoPayload payload =
    (let normalized = normalizedPayload payload; frame = vp_frame normalized in
     if validateMetadata normalized \<noteq> None then []
     else
       let output = [];
           output = appendU32 EncodedVideoMagic output;
           output = appendU16 EncodedVideoVersion output;
           output = appendU16 EncodedVideoHeaderSize output;
           output = appendU16 (vp_codec normalized) output;
           output = appendU16 (vp_bitstreamFormat normalized) output;
           output = appendU16 (ef_pixelFormat frame) output;
           output = appendU16 (if ef_keyFrame frame then EncodedVideoFlagKeyFrame else 0) output;
           output = appendU64 (ef_frameId frame) output;
           output = appendU64 (ef_monotonicTimestampUsec frame) output;
           output = appendU32 (vp_codedWidth normalized) output;
           output = appendU32 (vp_codedHeight normalized) output;
           output = appendU32 (vp_visibleWidth normalized) output;
           output = appendU32 (vp_visibleHeight normalized) output;
           output = appendU32 (ef_strideBytes frame) output;
           output = appendU32 (of_nat (length (vp_sequenceHeader normalized))) output;
           output = appendU32 (of_nat (length (vp_bitstream normalized))) output;
           output = appendU32 0 output
       in output @ vp_sequenceHeader normalized @ vp_bitstream normalized)"

section \<open>Decoding\<close>

record video_header =
  vh_magic :: u32
  vh_version :: u16
  vh_headerSize :: u16
  vh_codecValue :: u16
  vh_bitstreamFormatValue :: u16
  vh_pixelFormatValue :: u16
  vh_flags :: u16
  vh_frameId :: u64
  vh_monotonicTimestampUsec :: u64
  vh_codedWidth :: u32
  vh_codedHeight :: u32
  vh_visibleWidth :: u32
  vh_visibleHeight :: u32
  vh_strideBytes :: u32
  vh_sequenceHeaderBytes :: u32
  vh_bitstreamBytes :: u32
  vh_reserved32 :: u32

definition readVideoHeader :: "byte_buffer \<Rightarrow> video_header option" where
  "readVideoHeader payload = do {
     (magic, offset) \<leftarrow> nextU32 payload 0;
     (version, offset) \<leftarrow> nextU16 payload offset;
     (headerSize, offset) \<leftarrow> nextU16 payload offset;
     (codecValue, offset) \<leftarrow> nextU16 payload offset;
     (bitstreamFormatValue, offset) \<leftarrow> nextU16 payload offset;
     (pixelFormatValue, offset) \<leftarrow> nextU16 payload offset;
     (flags, offset) \<leftarrow> nextU16 payload offset;
     (frameId, offset) \<leftarrow> nextU64 payload offset;
     (timestampUsec, offset) \<leftarrow> nextU64 payload offset;
     (codedWidth, offset) \<leftarrow> nextU32 payload offset;
     (codedHeight, offset) \<leftarrow> nextU32 payload offset;
     (visibleWidth, offset) \<leftarrow> nextU32 payload offset;
     (visibleHeight, offset) \<leftarrow> nextU32 payload offset;
     (strideBytes, offset) \<leftarrow> nextU32 payload offset;
     (sequenceHeaderBytes, offset) \<leftarrow> nextU32 payload offset;
     (bitstreamBytes, offset) \<leftarrow> nextU32 payload offset;
     (reserved32, offset) \<leftarrow> nextU32 payload offset;
     Some \<lparr>vh_magic = magic, vh_version = version, vh_headerSize = headerSize,
       vh_codecValue = codecValue, vh_bitstreamFormatValue = bitstreamFormatValue,
       vh_pixelFormatValue = pixelFormatValue, vh_flags = flags, vh_frameId = frameId,
       vh_monotonicTimestampUsec = timestampUsec, vh_codedWidth = codedWidth,
       vh_codedHeight = codedHeight, vh_visibleWidth = visibleWidth,
       vh_visibleHeight = visibleHeight, vh_strideBytes = strideBytes,
       vh_sequenceHeaderBytes = sequenceHeaderBytes, vh_bitstreamBytes = bitstreamBytes,
       vh_reserved32 = reserved32\<rparr> }"

text \<open>The fields and the two sections, before they are validated.\<close>

definition metadata_of :: "video_header \<Rightarrow> byte_buffer \<Rightarrow> video_payload" where
  "metadata_of h payload =
    (let bodyStart = unat (vh_headerSize h);
         bitstreamStart = bodyStart + unat (vh_sequenceHeaderBytes h)
     in \<lparr>vp_codec = vh_codecValue h, vp_bitstreamFormat = vh_bitstreamFormatValue h,
       vp_frame = default_encoded_frame\<lparr>ef_frameId := vh_frameId h,
         ef_monotonicTimestampUsec := vh_monotonicTimestampUsec h,
         ef_strideBytes := vh_strideBytes h, ef_pixelFormat := vh_pixelFormatValue h,
         ef_keyFrame := (vh_flags h AND EncodedVideoFlagKeyFrame \<noteq> 0),
         ef_width := vh_visibleWidth h, ef_height := vh_visibleHeight h\<rparr>,
       vp_codedWidth = vh_codedWidth h, vp_codedHeight = vh_codedHeight h,
       vp_visibleWidth = vh_visibleWidth h, vp_visibleHeight = vh_visibleHeight h,
       vp_sequenceHeader = take (unat (vh_sequenceHeaderBytes h)) (drop bodyStart payload),
       vp_bitstream = drop bitstreamStart payload\<rparr>)"

definition decodeDisplayEncodedVideoPayload :: "byte_buffer \<Rightarrow> string + video_payload" where
  "decodeDisplayEncodedVideoPayload payload =
    (if length payload < unat EncodedVideoHeaderSize then
       Inl ''encoded video payload is smaller than header''
     else case readVideoHeader payload of
       None \<Rightarrow> Inl ''encoded video header is truncated''
     | Some h \<Rightarrow>
         if vh_magic h \<noteq> EncodedVideoMagic then Inl ''encoded video magic is invalid''
         else if vh_version h \<noteq> EncodedVideoVersion then
           Inl ''encoded video version is unsupported''
         else if vh_headerSize h \<noteq> EncodedVideoHeaderSize \<or>
                 unat (vh_headerSize h) > length payload then
           Inl ''encoded video header size is invalid''
         else if vh_reserved32 h \<noteq> 0 then
           Inl ''encoded video reserved fields must be zero''
         else
           let expectedSize = (ucast (vh_headerSize h) :: u64) + ucast (vh_sequenceHeaderBytes h) +
                 ucast (vh_bitstreamBytes h)
           in if unat expectedSize \<noteq> length payload then
                Inl ''encoded video payload section sizes are invalid''
              else
                let metadata = metadata_of h payload in
                case validateMetadata metadata of
                  Some error \<Rightarrow> Inl error
                | None \<Rightarrow> Inr (metadata\<lparr>vp_frame :=
                    (vp_frame metadata)\<lparr>ef_payload := vp_bitstream metadata\<rparr>\<rparr>))"

section \<open>Lemmas\<close>

definition video_header_bytes :: "video_payload \<Rightarrow> u16 \<Rightarrow> u32 \<Rightarrow> u32 \<Rightarrow> byte_buffer" where
  "video_header_bytes p flags sequenceHeaderBytes bitstreamBytes =
     be32 EncodedVideoMagic @ be16 EncodedVideoVersion @ be16 EncodedVideoHeaderSize @
     be16 (vp_codec p) @ be16 (vp_bitstreamFormat p) @ be16 (ef_pixelFormat (vp_frame p)) @
     be16 flags @ be64 (ef_frameId (vp_frame p)) @ be64 (ef_monotonicTimestampUsec (vp_frame p)) @
     be32 (vp_codedWidth p) @ be32 (vp_codedHeight p) @ be32 (vp_visibleWidth p) @
     be32 (vp_visibleHeight p) @ be32 (ef_strideBytes (vp_frame p)) @ be32 sequenceHeaderBytes @
     be32 bitstreamBytes @ be32 0"

lemma length_video_header_bytes [simp]: "length (video_header_bytes p flags n m) = 64"
  by (simp add: video_header_bytes_def)

lemma encodeVideo_eq:
  "encodeDisplayEncodedVideoPayload p = (let q = normalizedPayload p in
     if validateMetadata q = None then
       video_header_bytes q (if ef_keyFrame (vp_frame q) then EncodedVideoFlagKeyFrame else 0)
         (of_nat (length (vp_sequenceHeader q))) (of_nat (length (vp_bitstream q))) @
       vp_sequenceHeader q @ vp_bitstream q
     else [])"
  by (simp add: encodeDisplayEncodedVideoPayload_def video_header_bytes_def payload_fields Let_def)

definition header_of :: "video_payload \<Rightarrow> u16 \<Rightarrow> u32 \<Rightarrow> u32 \<Rightarrow> video_header" where
  "header_of p flags sequenceHeaderBytes bitstreamBytes = \<lparr>vh_magic = EncodedVideoMagic,
     vh_version = EncodedVideoVersion, vh_headerSize = EncodedVideoHeaderSize,
     vh_codecValue = vp_codec p, vh_bitstreamFormatValue = vp_bitstreamFormat p,
     vh_pixelFormatValue = ef_pixelFormat (vp_frame p), vh_flags = flags,
     vh_frameId = ef_frameId (vp_frame p),
     vh_monotonicTimestampUsec = ef_monotonicTimestampUsec (vp_frame p),
     vh_codedWidth = vp_codedWidth p, vh_codedHeight = vp_codedHeight p,
     vh_visibleWidth = vp_visibleWidth p, vh_visibleHeight = vp_visibleHeight p,
     vh_strideBytes = ef_strideBytes (vp_frame p), vh_sequenceHeaderBytes = sequenceHeaderBytes,
     vh_bitstreamBytes = bitstreamBytes, vh_reserved32 = 0\<rparr>"

lemma readVideoHeader_bytes [simp]:
  "readVideoHeader (video_header_bytes p flags n m @ body) = Some (header_of p flags n m)"
  by (simp add: readVideoHeader_def video_header_bytes_def header_of_def payload_fields wire_layout)

lemma expected_size: "unat ((64 :: u64) + ucast (a :: u32) + ucast (b :: u32)) = 64 + unat a + unat b"
  using unat_u32_less [of a] unat_u32_less [of b]
  by (simp add: unat_word_ariths(1) unat_ucast64)

lemma unat_length: "length xs < 2 ^ 32 \<Longrightarrow> unat (of_nat (length xs) :: u32) = length xs"
  by (simp add: unsigned_of_nat take_bit_nat_eq_self_iff)

lemma validateMetadata_valid:
  assumes "validateMetadata p = None"
  shows "ef_width (vp_frame p) = vp_visibleWidth p" "ef_height (vp_frame p) = vp_visibleHeight p"
    "length (vp_sequenceHeader p) < 2 ^ 32" "length (vp_bitstream p) < 2 ^ 32"
    "vp_bitstream p \<noteq> []" "vp_codedWidth p \<noteq> 0" "vp_codedHeight p \<noteq> 0"
    "vp_visibleWidth p \<noteq> 0" "vp_visibleHeight p \<noteq> 0"
  using assms by (auto simp: validateMetadata_def split: if_splits)

lemma validateMetadata_cong:
  "vp_codec q = vp_codec p \<Longrightarrow> vp_bitstreamFormat q = vp_bitstreamFormat p \<Longrightarrow>
   vp_codedWidth q = vp_codedWidth p \<Longrightarrow> vp_codedHeight q = vp_codedHeight p \<Longrightarrow>
   vp_visibleWidth q = vp_visibleWidth p \<Longrightarrow> vp_visibleHeight q = vp_visibleHeight p \<Longrightarrow>
   vp_sequenceHeader q = vp_sequenceHeader p \<Longrightarrow> vp_bitstream q = vp_bitstream p \<Longrightarrow>
   ef_width (vp_frame q) = ef_width (vp_frame p) \<Longrightarrow> ef_height (vp_frame q) = ef_height (vp_frame p) \<Longrightarrow>
   ef_strideBytes (vp_frame q) = ef_strideBytes (vp_frame p) \<Longrightarrow>
   ef_pixelFormat (vp_frame q) = ef_pixelFormat (vp_frame p) \<Longrightarrow>
   validateMetadata q = validateMetadata p"
  by (simp add: validateMetadata_def)

text \<open>Decoding a header with its two sections, as long as the announced sizes are theirs.\<close>

lemma decodeVideo_read:
  assumes "readVideoHeader payload = Some h" and "vh_magic h = EncodedVideoMagic"
    and "vh_version h = EncodedVideoVersion" and "vh_headerSize h = EncodedVideoHeaderSize"
    and "vh_reserved32 h = 0"
    and "length payload = 64 + unat (vh_sequenceHeaderBytes h) + unat (vh_bitstreamBytes h)"
  shows "decodeDisplayEncodedVideoPayload payload =
    (case validateMetadata (metadata_of h payload) of
       Some error \<Rightarrow> Inl error
     | None \<Rightarrow> Inr ((metadata_of h payload)\<lparr>vp_frame :=
         (vp_frame (metadata_of h payload))\<lparr>ef_payload := vp_bitstream (metadata_of h payload)\<rparr>\<rparr>))"
  by (simp add: decodeDisplayEncodedVideoPayload_def assms expected_size Let_def)

lemma decodeVideo_sections:
  assumes "unat n = length (vp_sequenceHeader p)" and "unat m = length (vp_bitstream p)"
    and "ef_width (vp_frame p) = vp_visibleWidth p" "ef_height (vp_frame p) = vp_visibleHeight p"
    and "ef_keyFrame (vp_frame p) = (flags AND EncodedVideoFlagKeyFrame \<noteq> 0)"
  shows "decodeDisplayEncodedVideoPayload
      (video_header_bytes p flags n m @ vp_sequenceHeader p @ vp_bitstream p) =
    (case validateMetadata p of
       Some error \<Rightarrow> Inl error
     | None \<Rightarrow> Inr (p\<lparr>vp_frame := (vp_frame p)\<lparr>ef_payload := vp_bitstream p\<rparr>\<rparr>))"
proof -
  let ?payload = "video_header_bytes p flags n m @ vp_sequenceHeader p @ vp_bitstream p"
  let ?q = "metadata_of (header_of p flags n m) ?payload"
  have q: "?q = p\<lparr>vp_frame := default_encoded_frame\<lparr>ef_frameId := ef_frameId (vp_frame p),
      ef_monotonicTimestampUsec := ef_monotonicTimestampUsec (vp_frame p),
      ef_strideBytes := ef_strideBytes (vp_frame p), ef_pixelFormat := ef_pixelFormat (vp_frame p),
      ef_keyFrame := (flags AND EncodedVideoFlagKeyFrame \<noteq> 0), ef_width := vp_visibleWidth p,
      ef_height := vp_visibleHeight p\<rparr>\<rparr>"
    by (simp add: metadata_of_def header_of_def assms(1) Let_def)
  have "validateMetadata ?q = validateMetadata p"
    by (rule validateMetadata_cong) (simp_all add: q assms(3,4))
  moreover have "?q\<lparr>vp_frame := (vp_frame ?q)\<lparr>ef_payload := vp_bitstream ?q\<rparr>\<rparr> =
      p\<lparr>vp_frame := (vp_frame p)\<lparr>ef_payload := vp_bitstream p\<rparr>\<rparr>"
    unfolding q using assms(3-5) by (simp add: default_encoded_frame_def)
  moreover have "decodeDisplayEncodedVideoPayload ?payload = (case validateMetadata ?q of
      Some error \<Rightarrow> Inl error
    | None \<Rightarrow> Inr (?q\<lparr>vp_frame := (vp_frame ?q)\<lparr>ef_payload := vp_bitstream ?q\<rparr>\<rparr>))"
    by (rule decodeVideo_read) (simp_all, simp_all add: header_of_def assms(1,2))
  ultimately show ?thesis by (simp only:)
qed

lemma decodeVideo_empty:
  "decodeDisplayEncodedVideoPayload [] = Inl ''encoded video payload is smaller than header''"
  unfolding decodeDisplayEncodedVideoPayload_def by (subst if_P) simp_all

lemma readVideoHeader_Some:
  assumes "readVideoHeader payload = Some h"
  shows "payload = be32 (vh_magic h) @ be16 (vh_version h) @ be16 (vh_headerSize h) @
      be16 (vh_codecValue h) @ be16 (vh_bitstreamFormatValue h) @ be16 (vh_pixelFormatValue h) @
      be16 (vh_flags h) @ be64 (vh_frameId h) @ be64 (vh_monotonicTimestampUsec h) @
      be32 (vh_codedWidth h) @ be32 (vh_codedHeight h) @ be32 (vh_visibleWidth h) @
      be32 (vh_visibleHeight h) @ be32 (vh_strideBytes h) @ be32 (vh_sequenceHeaderBytes h) @
      be32 (vh_bitstreamBytes h) @ be32 (vh_reserved32 h) @ drop 64 payload"
proof -
  from assms obtain a b c d e f g i j k l m n ob p q r where reads:
      "nextU32 payload 0 = Some (a, 4)" "nextU16 payload 4 = Some (b, 6)"
      "nextU16 payload 6 = Some (c, 8)" "nextU16 payload 8 = Some (d, 10)"
      "nextU16 payload 10 = Some (e, 12)" "nextU16 payload 12 = Some (f, 14)"
      "nextU16 payload 14 = Some (g, 16)" "nextU64 payload 16 = Some (i, 24)"
      "nextU64 payload 24 = Some (j, 32)" "nextU32 payload 32 = Some (k, 36)"
      "nextU32 payload 36 = Some (l, 40)" "nextU32 payload 40 = Some (m, 44)"
      "nextU32 payload 44 = Some (n, 48)" "nextU32 payload 48 = Some (ob, 52)"
      "nextU32 payload 52 = Some (p, 56)" "nextU32 payload 56 = Some (q, 60)"
      "nextU32 payload 60 = Some (r, 64)"
    and h: "h = \<lparr>vh_magic = a, vh_version = b, vh_headerSize = c, vh_codecValue = d,
      vh_bitstreamFormatValue = e, vh_pixelFormatValue = f, vh_flags = g, vh_frameId = i,
      vh_monotonicTimestampUsec = j, vh_codedWidth = k, vh_codedHeight = l, vh_visibleWidth = m,
      vh_visibleHeight = n, vh_strideBytes = ob, vh_sequenceHeaderBytes = p, vh_bitstreamBytes = q,
      vh_reserved32 = r\<rparr>"
    by (auto simp: readVideoHeader_def bind_eq_Some_conv payload_fields)
  note drops = reads(2-7) [THEN next_field_drops(1), THEN conjunct2]
    reads(8,9) [THEN next_field_drops(3), THEN conjunct2]
    reads(10-17) [THEN next_field_drops(2), THEN conjunct2]
  have "payload = be32 a @ drop 4 payload" using next_field_drops(2) [OF reads(1)] by simp
  also have "\<dots> = be32 a @ be16 b @ be16 c @ be16 d @ be16 e @ be16 f @ be16 g @ be64 i @ be64 j @
      be32 k @ be32 l @ be32 m @ be32 n @ be32 ob @ be32 p @ be32 q @ be32 r @ drop 64 payload"
    by (simp only: drops)
  finally show ?thesis by (simp add: h)
qed

text \<open>And conversely: an accepted payload is a header with its two sections.\<close>

lemma decodeVideo_Inr:
  assumes "decodeDisplayEncodedVideoPayload payload = Inr p"
  obtains flags where "payload = video_header_bytes p flags (of_nat (length (vp_sequenceHeader p)))
      (of_nat (length (vp_bitstream p))) @ vp_sequenceHeader p @ vp_bitstream p"
    and "ef_keyFrame (vp_frame p) = (flags AND EncodedVideoFlagKeyFrame \<noteq> 0)"
    and "ef_payload (vp_frame p) = vp_bitstream p" and "validateMetadata p = None"
proof -
  from assms obtain h where h: "readVideoHeader payload = Some h"
    and known: "vh_magic h = EncodedVideoMagic" "vh_version h = EncodedVideoVersion"
      "vh_headerSize h = EncodedVideoHeaderSize" "vh_reserved32 h = 0"
    and size: "length payload = 64 + unat (vh_sequenceHeaderBytes h) + unat (vh_bitstreamBytes h)"
    and valid: "validateMetadata (metadata_of h payload) = None"
    and p: "p = (metadata_of h payload)\<lparr>vp_frame :=
      (vp_frame (metadata_of h payload))\<lparr>ef_payload := vp_bitstream (metadata_of h payload)\<rparr>\<rparr>"
    by (auto simp: decodeDisplayEncodedVideoPayload_def Let_def expected_size
        split: if_split_asm option.split_asm)
  have fields: "vp_codec p = vh_codecValue h" "vp_bitstreamFormat p = vh_bitstreamFormatValue h"
      "vp_codedWidth p = vh_codedWidth h" "vp_codedHeight p = vh_codedHeight h"
      "vp_visibleWidth p = vh_visibleWidth h" "vp_visibleHeight p = vh_visibleHeight h"
      "ef_frameId (vp_frame p) = vh_frameId h" "ef_strideBytes (vp_frame p) = vh_strideBytes h"
      "ef_monotonicTimestampUsec (vp_frame p) = vh_monotonicTimestampUsec h"
      "ef_pixelFormat (vp_frame p) = vh_pixelFormatValue h"
      "ef_keyFrame (vp_frame p) = (vh_flags h AND EncodedVideoFlagKeyFrame \<noteq> 0)"
      "ef_payload (vp_frame p) = vp_bitstream p"
      "vp_sequenceHeader p = take (unat (vh_sequenceHeaderBytes h)) (drop 64 payload)"
      "vp_bitstream p = drop (64 + unat (vh_sequenceHeaderBytes h)) payload"
    by (simp_all add: p metadata_of_def known(3) Let_def)
  have sections: "drop 64 payload = vp_sequenceHeader p @ vp_bitstream p"
    using append_take_drop_id [of "unat (vh_sequenceHeaderBytes h)" "drop 64 payload"]
    by (simp add: fields add.commute)
  have "payload = video_header_bytes p (vh_flags h) (vh_sequenceHeaderBytes h) (vh_bitstreamBytes h) @
      vp_sequenceHeader p @ vp_bitstream p"
    using readVideoHeader_Some [OF h] sections known
    by (simp add: video_header_bytes_def fields(1-10))
  moreover have "vh_sequenceHeaderBytes h = of_nat (length (vp_sequenceHeader p))"
      "vh_bitstreamBytes h = of_nat (length (vp_bitstream p))"
    using size by (simp_all add: fields(13,14))
  moreover have "validateMetadata p = None"
    using valid validateMetadata_cong [of p "metadata_of h payload"] by (simp add: p)
  ultimately show thesis using that fields(11,12) by simp
qed

text \<open>The flags stand in two bytes of their own, and only their lowest bit matters.\<close>

lemma video_header_flags:
  "video_header_bytes p flags n m @ body =
     take 14 (video_header_bytes p flags' n m @ body) @ be16 flags @
     drop 16 (video_header_bytes p flags' n m @ body)"
  by (simp add: video_header_bytes_def)

lemma normalized_valid: "validateMetadata p = None \<Longrightarrow> normalizedPayload p = p"
  using validateMetadata_valid [of p] by (simp add: normalizedPayload_def)

lemma video_header_keyFrame [simp]:
  "video_header_bytes (p\<lparr>vp_frame := (vp_frame p)\<lparr>ef_keyFrame := k\<rparr>\<rparr>) flags n m =
     video_header_bytes p flags n m"
  by (simp add: video_header_bytes_def)

lemma decodeVideo_flags:
  assumes "validateMetadata p = None" and "ef_payload (vp_frame p) = vp_bitstream p"
  shows "decodeDisplayEncodedVideoPayload (video_header_bytes p flags
      (of_nat (length (vp_sequenceHeader p))) (of_nat (length (vp_bitstream p))) @
      vp_sequenceHeader p @ vp_bitstream p) =
    Inr (p\<lparr>vp_frame := (vp_frame p)\<lparr>ef_keyFrame := (flags AND EncodedVideoFlagKeyFrame \<noteq> 0)\<rparr>\<rparr>)"
proof -
  let ?q = "p\<lparr>vp_frame := (vp_frame p)\<lparr>ef_keyFrame := (flags AND EncodedVideoFlagKeyFrame \<noteq> 0)\<rparr>\<rparr>"
  have valid: "validateMetadata ?q = None"
    using validateMetadata_cong [of ?q p] assms(1) by simp
  have "?q\<lparr>vp_frame := (vp_frame ?q)\<lparr>ef_payload := vp_bitstream ?q\<rparr>\<rparr> = ?q"
    using assms(2) by (cases p) (simp add: encoded_frame.splits)
  then show ?thesis
    using decodeVideo_sections [of "of_nat (length (vp_sequenceHeader p))" ?q
        "of_nat (length (vp_bitstream p))" flags] validateMetadata_valid [OF valid] valid
    by (simp add: unat_length)
qed

section \<open>Properties\<close>

text \<open>
  Encoded video survives the wire: a payload that the encoder does not refuse is decoded to
  itself with its zero dimensions replaced by the frame's, and with the bitstream as the frame's
  data; what the encoder refuses (unknown codec, no bitstream, dimensions that do not match, a
  section of \<open>2 ^ 32\<close> bytes or more) it turns into an empty payload, which the decoder refuses.
\<close>

theorem video_payload_round_trip:
  "decodeDisplayEncodedVideoPayload (encodeDisplayEncodedVideoPayload p) =
    (let q = normalizedPayload p in
     if validateMetadata q = None
     then Inr (q\<lparr>vp_frame := (vp_frame q)\<lparr>ef_payload := vp_bitstream q\<rparr>\<rparr>)
     else Inl ''encoded video payload is smaller than header'')"
proof (cases "validateMetadata (normalizedPayload p) = None")
  case False
  then have "encodeDisplayEncodedVideoPayload p = []" by (simp only: encodeVideo_eq Let_def if_False)
  then show ?thesis using False by (simp only: decodeVideo_empty Let_def if_False)
next
  case True
  let ?q = "normalizedPayload p"
  from validateMetadata_valid [OF True] have
      "unat (of_nat (length (vp_sequenceHeader ?q)) :: u32) = length (vp_sequenceHeader ?q)"
      "unat (of_nat (length (vp_bitstream ?q)) :: u32) = length (vp_bitstream ?q)"
    by (simp_all add: unat_length)
  then show ?thesis
    using decodeVideo_sections [of _ ?q _ "if ef_keyFrame (vp_frame ?q) then EncodedVideoFlagKeyFrame else 0"]
      validateMetadata_valid [OF True] True
    by (simp add: encodeVideo_eq Let_def)
qed


definition sample_video :: video_payload where
  "sample_video = \<lparr>vp_codec = VC_H264, vp_bitstreamFormat = BF_AnnexB,
     vp_frame = default_encoded_frame\<lparr>ef_frameId := 4, ef_keyFrame := True, ef_width := 2,
       ef_height := 2, ef_strideBytes := 8, ef_pixelFormat := PF_Bgra32, ef_payload := [3]\<rparr>,
     vp_codedWidth = 2, vp_codedHeight = 2, vp_visibleWidth = 2, vp_visibleHeight = 2,
     vp_sequenceHeader = [7], vp_bitstream = [3]\<rparr>"


end
