(* ===== verification/Display_Link.thy ===== *)
theory Display_Link
  imports Module_Runtime Module_Composer Display_Codecs Request_Tracker
begin

unbundle bit_operations_syntax

text \<open>
  What the two display modules of \<open>src/modules/display/display_modules.cpp\<close> share: the packets they
  make, how they send them, and the types their devices and snapshots use. Counters of type
  \<open>int\<close> are integers (runs of fewer than \<open>2 ^ 31\<close> events); byte totals are 64-bit words that wrap.
\<close>

section \<open>Types of the devices\<close>

record codec_info =
  ci_selected :: bool
  ci_adapterId :: string
  ci_codec :: string
  ci_backend :: string
  ci_fallback :: bool
  ci_hardwareAccelerated :: bool
  ci_zeroCopy :: bool
  ci_lowLatency :: bool
  ci_deltaFrames :: bool
  ci_selectionMode :: string
  ci_fallbackReason :: string
  ci_messages :: "string list"

definition default_codec_info :: codec_info where
  "default_codec_info = \<lparr>ci_selected = False, ci_adapterId = [], ci_codec = [], ci_backend = [],
     ci_fallback = False, ci_hardwareAccelerated = False, ci_zeroCopy = False, ci_lowLatency = True,
     ci_deltaFrames = False, ci_selectionMode = [], ci_fallbackReason = [], ci_messages = []\<rparr>"

definition rawFrameCodecInfo :: codec_info where
  "rawFrameCodecInfo = default_codec_info\<lparr>ci_selected := True, ci_adapterId := ''raw_frame'',
     ci_codec := ''raw_bgra'', ci_backend := ''raw_frame'', ci_fallback := True,
     ci_hardwareAccelerated := False, ci_zeroCopy := False, ci_lowLatency := True,
     ci_deltaFrames := False, ci_selectionMode := ''fallback''\<rparr>"

text \<open>The info a snapshot shows: what the module was configured with, else what the codec says.\<close>

definition effective_codec :: "codec_info \<Rightarrow> codec_info option \<Rightarrow> codec_info" where
  "effective_codec configured reported =
    (if ci_selected configured \<or> ci_adapterId configured \<noteq> [] then configured
     else case reported of None \<Rightarrow> default_codec_info | Some info \<Rightarrow> info)"

datatype scale_mode = SM_Source | SM_Stretch | SM_Fit

datatype capture_source_type =
  CS_Unknown | CS_Monitor | CS_Window | CS_VirtualDisplay | CS_MobileProjection

datatype capture_status_code = CC_Ok | CC_Unknown | CC_NotOpen | CC_AccessDenied |
  CC_PermissionRevoked | CC_ProtectedContent | CC_SourceNotFound | CC_SourceHotplug |
  CC_GeometryOrFormatChanged | CC_DeviceLost | CC_SessionModeUnsupported | CC_FrameTimeout |
  CC_InvalidFrame | CC_SystemCallFailed | CC_Unsupported

record capture_status =
  cs_code :: capture_status_code
  cs_nativeCode :: int
  cs_recoverable :: bool
  cs_statusMessage :: string

definition default_capture_status :: capture_status where
  "default_capture_status = \<lparr>cs_code = CC_Ok, cs_nativeCode = 0, cs_recoverable = True,
     cs_statusMessage = []\<rparr>"

record capture_options =
  op_sourceId :: u32
  op_sourceType :: capture_source_type
  op_nativeSourceHandle :: u64
  op_targetWidth :: u32
  op_targetHeight :: u32
  op_preferredPixelFormat :: pixel_format
  op_scaleMode :: scale_mode
  op_includeCursor :: bool

text \<open>
  The devices, as records of their virtual methods; the clock \<open>monotonicNowUsec\<close> and the channels
  are the environment of a module.
\<close>

record 'w display_capture =
  dc_open :: "capture_options \<Rightarrow> 'w \<Rightarrow> bool \<times> 'w"
  dc_close :: "'w \<Rightarrow> 'w"
  dc_captureNextFrame :: "bool \<Rightarrow> 'w \<Rightarrow> captured_frame \<times> 'w"
  dc_backendId :: "'w \<Rightarrow> string"
  dc_lastStatus :: "'w \<Rightarrow> capture_status"
  dc_captureErrors :: "'w \<Rightarrow> int"

record 'w video_encoder =
  ve_encode :: "captured_frame \<Rightarrow> 'w \<Rightarrow> encoded_frame \<times> 'w"
  ve_codecRuntimeInfo :: "'w \<Rightarrow> codec_info"

record 'w video_decoder =
  vd_decode :: "encoded_frame \<Rightarrow> 'w \<Rightarrow> decoded_frame \<times> 'w"
  vd_codecRuntimeInfo :: "'w \<Rightarrow> codec_info"

record 'w display_renderer =
  vr_render :: "decoded_frame \<Rightarrow> 'w \<Rightarrow> bool \<times> 'w"

record ('c, 'w) display_env =
  de_channels :: "('c, 'w) channel_interface"
  de_now :: "'w \<Rightarrow> u64 \<times> 'w"

section \<open>Packets\<close>

definition screenChannelKey :: channel_key where
  "screenChannelKey = ChannelKey CID_DesktopScreen CT_Video"

definition displayControlChannelKey :: channel_key where
  "displayControlChannelKey = ChannelKey CID_SmallData CT_Standard"

definition makeDisplayPacket :: "module_runtime \<Rightarrow> packet_type \<Rightarrow> message_kind \<Rightarrow> packet_envelope" where
  "makeDisplayPacket rt packetType messageKind =
    (let channel = (if packetType = PT_PayloadAck then displayControlChannelKey else screenChannelKey)
     in default_packet\<lparr>pk_sessionId := cx_sessionId (rt_session rt),
       pk_traceId := cx_traceId (rt_session rt), pk_channelId := key_channelId channel,
       pk_channelType := key_channelType channel, pk_packetType := packetType,
       pk_messageKind := messageKind\<rparr>)"

fun sendStatusToResponseStatus :: "send_status \<Rightarrow> response_status" where
  "sendStatusToResponseStatus SS_Sent = RS_Ok"
| "sendStatusToResponseStatus SS_ChannelClosed = RS_ChannelUnavailable"
| "sendStatusToResponseStatus SS_ChannelNotFound = RS_ChannelUnavailable"
| "sendStatusToResponseStatus SS_BackPressure = RS_BackPressure"
| "sendStatusToResponseStatus SS_Failed = RS_Failed"

section \<open>Sending\<close>

text \<open>
  \<open>sendPacket\<close>: through the manager's queue where there is a manager, else directly to the router.
\<close>

definition display_send ::
    "('c, 'w) channel_interface \<Rightarrow> module_runtime \<Rightarrow> packet_envelope \<Rightarrow> ('c, 's, 'w) session_world \<Rightarrow>
     send_result \<times> ('c, 's, 'w) session_world" where
  "display_send iface rt packet x =
    (if rt_networkManager rt then
       (case sw_network x of
          None \<Rightarrow> (no_network, x)
        | Some m \<Rightarrow>
            let (queued, m) = manager_enqueue packet m in
            if er_status queued \<noteq> EQ_Queued then
              (\<lparr>sr_status = (if er_status queued = EQ_Dropped \<or>
                    pr_level (er_pressure queued) = PL_Congested then SS_BackPressure else SS_Failed),
                sr_message = er_message queued\<rparr>, x\<lparr>sw_network := Some m\<rparr>)
            else
              let (result, m, w) = flushPacket iface packet m (sw_rest x)
              in (result, x\<lparr>sw_network := Some m, sw_rest := w\<rparr>))
     else if rt_network rt then runtime_send iface packet x
     else (\<lparr>sr_status = SS_Failed, sr_message = ''network runtime is missing''\<rparr>, x))"

definition hasEncodedPayload :: "encoded_frame \<Rightarrow> bool" where
  "hasEncodedPayload frame \<longleftrightarrow> ef_payload frame \<noteq> []"

definition hasCapturedFrameShape :: "captured_frame \<Rightarrow> bool" where
  "hasCapturedFrameShape frame \<longleftrightarrow> cf_width frame \<noteq> 0 \<and> cf_height frame \<noteq> 0 \<and>
     cf_strideBytes frame \<noteq> 0 \<and> cf_pixelFormat frame \<noteq> PF_Unknown"

definition display_publish ::
    "module_runtime \<Rightarrow> string \<Rightarrow> string \<Rightarrow> string \<Rightarrow> ('c, 's, 'w) session_world \<Rightarrow> ('c, 's, 'w) session_world" where
  "display_publish rt = runtime_publish rt screenChannelKey"

definition affectsDisplayChannel :: "reconnect_options \<Rightarrow> bool" where
  "affectsDisplayChannel options \<longleftrightarrow> ro_affectedChannels options = [] \<or>
     list_ex (\<lambda>key. key = screenChannelKey \<or> key = displayControlChannelKey)
       (ro_affectedChannels options)"

section \<open>Lemmas\<close>

lemma display_publish_world [simp]:
  "sw_network (display_publish rt moduleId code message x) = sw_network x"
  "sw_rest (display_publish rt moduleId code message x) = sw_rest x"
  by (simp_all add: display_publish_def)

lemma makeDisplayPacket_fields [simp]:
  "pk_messageId (makeDisplayPacket rt packetType kind) = 0"
  "pk_packetType (makeDisplayPacket rt packetType kind) = packetType"
  "pk_messageKind (makeDisplayPacket rt packetType kind) = kind"
  "pk_sessionId (makeDisplayPacket rt packetType kind) = cx_sessionId (rt_session rt)"
  "packet_key (makeDisplayPacket rt packetType kind) =
     (if packetType = PT_PayloadAck then displayControlChannelKey else screenChannelKey)"
  by (simp_all add: makeDisplayPacket_def default_packet_def packet_key_def Let_def)

text \<open>A packet that a module with a manager reports as sent was admitted by the registry.\<close>

lemma display_send_admitted:
  assumes "sr_status (fst (display_send iface rt packet x)) = SS_Sent" and "rt_networkManager rt"
  obtains m where "sw_network x = Some m" and "packet_admitted (nm_registry m) packet"
    and "er_status (fst (manager_enqueue packet m)) = EQ_Queued"
proof -
  from assms obtain m where m: "sw_network x = Some m"
    and queued: "er_status (fst (manager_enqueue packet m)) = EQ_Queued"
    by (auto simp: display_send_def no_network_def split_beta Let_def split: option.splits if_splits)
  show thesis using that [OF m _ queued] manager_enqueue_queued(1) [OF queued] by blast
qed

end
