(* ===== verification/Display_Agent.thy ===== *)
theory Display_Agent
  imports Display_Link Module_Catalog Message_Lifecycle
begin

unbundle bit_operations_syntax

text \<open>
  \<open>DisplayAgentModule\<close> of \<open>src/modules/display/display_modules.cpp\<close>: captures, encodes and sends
  frames, and answers key frame requests. The methods follow the code's order; where the code
  publishes a diagnostic event the world is changed by it.
\<close>

section \<open>State\<close>

record 'w display_agent =
  da_manifest :: module_manifest
  da_runtime :: module_runtime
  da_state :: module_state
  da_capture :: "'w display_capture option"
  da_encoder :: "'w video_encoder option"
  da_captureOptions :: capture_options
  da_encoderCodec :: codec_info
  da_captureOpened :: bool
  da_nextMessageId :: message_id
  da_capturedFrames :: int
  da_encodedFrames :: int
  da_sentFrames :: int
  da_capturedPixelBytes :: u64
  da_encodedPayloadBytes :: u64
  da_sentPayloadBytes :: u64
  da_lastCapturedPixelBytes :: u64
  da_lastEncodedPayloadBytes :: u64
  da_lastSentPayloadBytes :: u64
  da_droppedFrames :: int
  da_captureOpenFailures :: int
  da_encodeFailures :: int
  da_sendFailures :: int
  da_invalidControlRequests :: int
  da_keyframeRequests :: int
  da_responsesSent :: int
  da_captureGeometryOrFormatChanges :: int
  da_reconnectPauses :: int
  da_reconnectResumes :: int
  da_lastSentFrameShapeValid :: bool
  da_lastSentSourceId :: u32
  da_lastSentFrameWidth :: u32
  da_lastSentFrameHeight :: u32
  da_lastSentFrameStrideBytes :: u32
  da_lastSentFramePixelFormat :: pixel_format

definition new_display_agent ::
    "'w display_capture option \<Rightarrow> 'w video_encoder option \<Rightarrow> capture_options \<Rightarrow> codec_info \<Rightarrow>
     'w display_agent" where
  "new_display_agent capture encoder captureOptions encoderCodec = \<lparr>
     da_manifest = catalog_displayScreenAgent, da_runtime = default_runtime, da_state = MS_Created,
     da_capture = capture, da_encoder = encoder, da_captureOptions = captureOptions,
     da_encoderCodec = encoderCodec, da_captureOpened = False, da_nextMessageId = 1000,
     da_capturedFrames = 0, da_encodedFrames = 0, da_sentFrames = 0, da_capturedPixelBytes = 0,
     da_encodedPayloadBytes = 0, da_sentPayloadBytes = 0, da_lastCapturedPixelBytes = 0,
     da_lastEncodedPayloadBytes = 0, da_lastSentPayloadBytes = 0, da_droppedFrames = 0,
     da_captureOpenFailures = 0, da_encodeFailures = 0, da_sendFailures = 0,
     da_invalidControlRequests = 0, da_keyframeRequests = 0, da_responsesSent = 0,
     da_captureGeometryOrFormatChanges = 0, da_reconnectPauses = 0, da_reconnectResumes = 0,
     da_lastSentFrameShapeValid = False, da_lastSentSourceId = 0, da_lastSentFrameWidth = 0,
     da_lastSentFrameHeight = 0, da_lastSentFrameStrideBytes = 0,
     da_lastSentFramePixelFormat = PF_Unknown\<rparr>"

definition dagent_attach :: "module_runtime \<Rightarrow> 'w display_agent \<Rightarrow> bool \<times> 'w display_agent" where
  "dagent_attach rt a = (da_capture a \<noteq> None \<and> da_encoder a \<noteq> None,
     a\<lparr>da_runtime := rt, da_state := MS_Attached\<rparr>)"

definition dagent_publish ::
    "string \<Rightarrow> string \<Rightarrow> 'w display_agent \<Rightarrow> ('c, 's, 'w) session_world \<Rightarrow> ('c, 's, 'w) session_world" where
  "dagent_publish code message a =
     display_publish (da_runtime a) (mf_moduleId (da_manifest a)) code message"

definition no_link :: "module_runtime \<Rightarrow> bool" where
  "no_link rt \<longleftrightarrow> \<not> rt_network rt \<and> \<not> rt_networkManager rt"

section \<open>Sending frames\<close>

definition shouldDropFrame :: "bool \<Rightarrow> 'w display_agent \<Rightarrow> ('c, 's, 'w) session_world \<Rightarrow> bool" where
  "shouldDropFrame keyFrame a x =
    (if keyFrame \<or> \<not> rt_channels (da_runtime a) then False
     else case sw_network x of
       None \<Rightarrow> False
     | Some m \<Rightarrow>
         let level = pr_level (cs_pressure (registry_snapshot (nm_registry m) screenChannelKey))
         in level = PL_Congested \<or> level = PL_Draining)"

definition frameShapeChanged :: "captured_frame \<Rightarrow> 'w display_agent \<Rightarrow> bool" where
  "frameShapeChanged frame a =
    (if \<not> da_lastSentFrameShapeValid a \<or> \<not> hasCapturedFrameShape frame then False
     else cf_sourceId frame \<noteq> da_lastSentSourceId a \<or> cf_width frame \<noteq> da_lastSentFrameWidth a \<or>
       cf_height frame \<noteq> da_lastSentFrameHeight a \<or>
       cf_strideBytes frame \<noteq> da_lastSentFrameStrideBytes a \<or>
       cf_pixelFormat frame \<noteq> da_lastSentFramePixelFormat a)"

definition recordSentFrameShape :: "encoded_frame \<Rightarrow> u32 \<Rightarrow> 'w display_agent \<Rightarrow> 'w display_agent" where
  "recordSentFrameShape frame sourceId a =
    (if ef_width frame = 0 \<or> ef_height frame = 0 \<or> ef_strideBytes frame = 0 \<or>
        ef_pixelFormat frame = PF_Unknown then a
     else a\<lparr>da_lastSentFrameShapeValid := True, da_lastSentSourceId := sourceId,
       da_lastSentFrameWidth := ef_width frame, da_lastSentFrameHeight := ef_height frame,
       da_lastSentFrameStrideBytes := ef_strideBytes frame,
       da_lastSentFramePixelFormat := ef_pixelFormat frame\<rparr>)"

definition video_packet :: "module_runtime \<Rightarrow> encoded_frame \<Rightarrow> packet_envelope" where
  "video_packet rt encoded = (makeDisplayPacket rt PT_Video MK_Event)\<lparr>
     pk_priority := PP_Realtime, pk_sequence := ef_frameId encoded,
     pk_monotonicTimestampUsec := ef_monotonicTimestampUsec encoded,
     pk_flags := (if ef_keyFrame encoded then PacketFlagNoResponseRequired OR PacketFlagKeyFrame
       else PacketFlagNoResponseRequired),
     pk_payload := ef_payload encoded\<rparr>"

text \<open>The part of \<open>sendFrame\<close> after the frame has been encoded.\<close>

definition sendEncoded ::
    "('c, 'w) display_env \<Rightarrow> encoded_frame \<Rightarrow> u32 \<Rightarrow> 'w display_agent \<Rightarrow> ('c, 's, 'w) session_world \<Rightarrow>
     bool \<times> 'w display_agent \<times> ('c, 's, 'w) session_world" where
  "sendEncoded env encoded sourceId a x =
    (if \<not> hasEncodedPayload encoded then
       (False, a\<lparr>da_encodeFailures := da_encodeFailures a + 1\<rparr>,
        dagent_publish ''display.frame_encode_failed'' ''display frame encode failed'' a x)
     else
       let size = of_nat (length (ef_payload encoded));
           a = a\<lparr>da_encodedFrames := da_encodedFrames a + 1, da_lastEncodedPayloadBytes := size,
             da_encodedPayloadBytes := da_encodedPayloadBytes a + size\<rparr>;
           (result, x) = display_send (de_channels env) (da_runtime a)
             (video_packet (da_runtime a) encoded) x
       in if sr_status result \<noteq> SS_Sent then
            (False, a\<lparr>da_sendFailures := da_sendFailures a + 1\<rparr>, x)
          else
            let x = dagent_publish
                  (if da_sentFrames a = 0 then ''display.first_frame_sent''
                   else if ef_keyFrame encoded then ''display.keyframe_sent''
                   else ''display.frame_sent'')
                  (if ef_keyFrame encoded then ''keyframe sent'' else ''frame sent'') a x;
                a = a\<lparr>da_sentFrames := da_sentFrames a + 1,
                  da_lastSentPayloadBytes := da_lastEncodedPayloadBytes a,
                  da_sentPayloadBytes := da_sentPayloadBytes a + da_lastEncodedPayloadBytes a\<rparr>
            in (True, recordSentFrameShape encoded sourceId a, x))"

definition sendFrame ::
    "('c, 'w) display_env \<Rightarrow> bool \<Rightarrow> 'w display_agent \<Rightarrow> ('c, 's, 'w) session_world \<Rightarrow>
     bool \<times> 'w display_agent \<times> ('c, 's, 'w) session_world" where
  "sendFrame env keyFrame a x =
    (if no_link (da_runtime a) then (False, a, x)
     else case (da_capture a, da_encoder a) of
       (Some capture, Some encoder) \<Rightarrow>
         if shouldDropFrame keyFrame a x then
           (False, a\<lparr>da_droppedFrames := da_droppedFrames a + 1\<rparr>,
            dagent_publish ''display.frame_dropped'' ''delta frame dropped under pressure'' a x)
         else
           let (captured, x) = on_rest (dc_captureNextFrame capture keyFrame) x;
               changed = (\<not> keyFrame \<and> frameShapeChanged captured a);
               captured = (if changed then captured\<lparr>cf_keyFrame := True\<rparr> else captured);
               x = (if changed then dagent_publish ''display.capture_geometry_or_format_changed''
                      ''display capture geometry or pixel format changed'' a x else x);
               size = of_nat (length (cf_pixels captured));
               a = a\<lparr>da_captureGeometryOrFormatChanges :=
                     (if changed then da_captureGeometryOrFormatChanges a + 1
                      else da_captureGeometryOrFormatChanges a),
                   da_capturedFrames := da_capturedFrames a + 1, da_lastCapturedPixelBytes := size,
                   da_capturedPixelBytes := da_capturedPixelBytes a + size\<rparr>;
               (encoded, x) = on_rest (ve_encode encoder captured) x
           in sendEncoded env encoded (cf_sourceId captured) a x
     | _ \<Rightarrow> (False, a, x))"

definition sendKeyFrame ::
    "('c, 'w) display_env \<Rightarrow> 'w display_agent \<Rightarrow> ('c, 's, 'w) session_world \<Rightarrow>
     bool \<times> 'w display_agent \<times> ('c, 's, 'w) session_world" where
  "sendKeyFrame env = sendFrame env True"

definition sendDeltaFrame ::
    "('c, 'w) display_env \<Rightarrow> 'w display_agent \<Rightarrow> ('c, 's, 'w) session_world \<Rightarrow>
     bool \<times> 'w display_agent \<times> ('c, 's, 'w) session_world" where
  "sendDeltaFrame env = sendFrame env False"

section \<open>Life cycle\<close>

definition close_capture ::
    "'w display_agent \<Rightarrow> ('c, 's, 'w) session_world \<Rightarrow> 'w display_agent \<times> ('c, 's, 'w) session_world" where
  "close_capture a x =
    (case da_capture a of
       Some capture \<Rightarrow>
         if da_captureOpened a then
           (a\<lparr>da_captureOpened := False\<rparr>, x\<lparr>sw_rest := dc_close capture (sw_rest x)\<rparr>)
         else (a, x)
     | None \<Rightarrow> (a, x))"

definition dagent_start ::
    "('c, 'w) display_env \<Rightarrow> 'w display_agent \<Rightarrow> ('c, 's, 'w) session_world \<Rightarrow>
     bool \<times> 'w display_agent \<times> ('c, 's, 'w) session_world" where
  "dagent_start env a x =
    (case (da_capture a, da_encoder a) of
       (Some capture, Some encoder) \<Rightarrow>
         if no_link (da_runtime a) then (False, a, x)
         else
           let a = a\<lparr>da_state := MS_Starting\<rparr>;
               (opened, x) = on_rest (dc_open capture (da_captureOptions a)) x
           in if \<not> opened then
                let a = a\<lparr>da_captureOpenFailures := da_captureOpenFailures a + 1,
                      da_state := MS_Failed\<rparr>
                in (False, a, dagent_publish ''display.capture_open_failed''
                      ''display capture open failed'' a x)
              else
                let a = a\<lparr>da_captureOpened := True, da_state := MS_Running\<rparr>;
                    (sent, a, x) = sendKeyFrame env a x
                in if sent then (True, a, x)
                   else (False, a\<lparr>da_captureOpened := False, da_state := MS_Failed\<rparr>,
                         x\<lparr>sw_rest := dc_close capture (sw_rest x)\<rparr>)
     | _ \<Rightarrow> (False, a, x))"

definition dagent_stop ::
    "'w display_agent \<Rightarrow> ('c, 's, 'w) session_world \<Rightarrow> 'w display_agent \<times> ('c, 's, 'w) session_world" where
  "dagent_stop a x = (let (a, x) = close_capture a x in (a\<lparr>da_state := MS_Stopped\<rparr>, x))"

definition dagent_detach ::
    "'w display_agent \<Rightarrow> ('c, 's, 'w) session_world \<Rightarrow> 'w display_agent \<times> ('c, 's, 'w) session_world" where
  "dagent_detach a x = (let (a, x) = close_capture a x in (a\<lparr>da_state := MS_Detached\<rparr>, x))"

definition dagent_pause ::
    "'w display_agent \<Rightarrow> ('c, 's, 'w) session_world \<Rightarrow> 'w display_agent \<times> ('c, 's, 'w) session_world" where
  "dagent_pause a x = (a\<lparr>da_reconnectPauses := da_reconnectPauses a + 1\<rparr>,
     dagent_publish ''display.reconnect_paused'' ''display sender paused for reconnect'' a x)"

definition dagent_resume ::
    "('c, 'w) display_env \<Rightarrow> reconnect_options \<Rightarrow> 'w display_agent \<Rightarrow> ('c, 's, 'w) session_world \<Rightarrow>
     'w display_agent \<times> ('c, 's, 'w) session_world" where
  "dagent_resume env options a x =
    (let a = a\<lparr>da_reconnectResumes := da_reconnectResumes a + 1\<rparr>;
         x = dagent_publish ''display.reconnect_resumed'' ''display sender resumed after reconnect'' a x
     in if da_state a = MS_Running \<and> ro_requestFreshState options \<and> affectsDisplayChannel options then
          let (sent, a, x) = sendKeyFrame env a x
          in if sent then snd (sendDeltaFrame env a x) else (a, x)
        else (a, x))"

text \<open>The part of \<open>reopenCapture\<close> and \<open>replaceCapture\<close> from opening the capture on.\<close>

definition open_again ::
    "('c, 'w) display_env \<Rightarrow> 'w display_capture \<Rightarrow> bool \<Rightarrow> string \<times> string \<Rightarrow> string \<times> string \<Rightarrow>
     'w display_agent \<Rightarrow> ('c, 's, 'w) session_world \<Rightarrow>
     bool \<times> 'w display_agent \<times> ('c, 's, 'w) session_world" where
  "open_again env capture sendFreshKeyFrame failed opened a x =
    (let (success, x) = on_rest (dc_open capture (da_captureOptions a)) x in
     if \<not> success then
       (False, a\<lparr>da_captureOpenFailures := da_captureOpenFailures a + 1\<rparr>,
        dagent_publish (fst failed) (snd failed) a x)
     else
       let a = a\<lparr>da_captureOpened := True\<rparr>;
           x = dagent_publish (fst opened) (snd opened) a x
       in if \<not> sendFreshKeyFrame then (True, a, x) else sendKeyFrame env a x)"

definition reopenCapture ::
    "('c, 'w) display_env \<Rightarrow> bool \<Rightarrow> 'w display_agent \<Rightarrow> ('c, 's, 'w) session_world \<Rightarrow>
     bool \<times> 'w display_agent \<times> ('c, 's, 'w) session_world" where
  "reopenCapture env sendFreshKeyFrame a x =
    (case da_capture a of
       None \<Rightarrow> (False, a, x)
     | Some capture \<Rightarrow>
         if no_link (da_runtime a) \<or> da_encoder a = None \<or> da_state a \<noteq> MS_Running then (False, a, x)
         else
           let (a, x) = close_capture a x
           in open_again env capture sendFreshKeyFrame
                (''display.capture_reopen_failed'', ''display capture reopen failed'')
                (''display.capture_reopened'', ''display capture reopened'') a x)"

definition replaceCapture ::
    "('c, 'w) display_env \<Rightarrow> 'w display_capture option \<Rightarrow> bool \<Rightarrow> 'w display_agent \<Rightarrow>
     ('c, 's, 'w) session_world \<Rightarrow> bool \<times> 'w display_agent \<times> ('c, 's, 'w) session_world" where
  "replaceCapture env capture sendFreshKeyFrame a x =
    (case capture of
       None \<Rightarrow> (False, a, x)
     | Some replacement \<Rightarrow>
         if no_link (da_runtime a) \<or> da_encoder a = None \<or> da_state a \<noteq> MS_Running then (False, a, x)
         else
           let (a, x) = close_capture a x;
               a = a\<lparr>da_capture := Some replacement\<rparr>
           in open_again env replacement sendFreshKeyFrame
                (''display.capture_switch_failed'', ''display capture switch failed'')
                (''display.capture_switched'', ''display capture switched'') a x)"

section \<open>Answering requests\<close>

definition display_response ::
    "module_runtime \<Rightarrow> message_id \<Rightarrow> packet_envelope \<Rightarrow> response_status \<Rightarrow> message_kind \<Rightarrow> byte_buffer \<Rightarrow>
     packet_envelope" where
  "display_response rt messageId request status kind payload = (makeDisplayPacket rt PT_PayloadAck kind)\<lparr>
     pk_priority := PP_Interactive, pk_messageId := messageId,
     pk_correlationId := (if pk_correlationId request \<noteq> 0 then pk_correlationId request
       else pk_messageId request),
     pk_responseTo := pk_messageId request, pk_timeoutMs := pk_timeoutMs request,
     pk_responseStatus := status, pk_payload := payload\<rparr>"

definition sendResponse ::
    "('c, 'w) display_env \<Rightarrow> packet_envelope \<Rightarrow> response_status \<Rightarrow> message_kind \<Rightarrow> byte_buffer \<Rightarrow>
     'w display_agent \<Rightarrow> ('c, 's, 'w) session_world \<Rightarrow>
     bool \<times> 'w display_agent \<times> ('c, 's, 'w) session_world" where
  "sendResponse env request status kind payload a x =
    (let response = display_response (da_runtime a) (da_nextMessageId a) request status kind payload;
         a = a\<lparr>da_nextMessageId := da_nextMessageId a + 1\<rparr>;
         (result, x) = display_send (de_channels env) (da_runtime a) response x
     in if sr_status result \<noteq> SS_Sent then (False, a\<lparr>da_sendFailures := da_sendFailures a + 1\<rparr>, x)
        else
          (True, a\<lparr>da_responsesSent := da_responsesSent a + 1\<rparr>,
           dagent_publish
             (if status = RS_Ok then ''display.keyframe_response_sent''
              else ''display.keyframe_response_failed'')
             (if status = RS_Ok then ''keyframe response sent'' else ''keyframe response failed'') a x))"

definition scheduled_payload :: "keyframe_reason \<Rightarrow> byte_buffer" where
  "scheduled_payload reason = encodeDisplayControlPayload
     \<lparr>cp_operation = CO_KeyframeScheduled, cp_reason = reason, cp_frameId = 0\<rparr>"

definition dagent_handlePacket ::
    "('c, 'w) display_env \<Rightarrow> packet_envelope \<Rightarrow> 'w display_agent \<Rightarrow> ('c, 's, 'w) session_world \<Rightarrow>
     'w display_agent \<times> ('c, 's, 'w) session_world" where
  "dagent_handlePacket env packet a x =
    (if pk_packetType packet \<noteq> PT_PayloadAck \<or> pk_messageKind packet \<noteq> MK_Request then (a, x)
     else
       let decoded = decodeDisplayControlPayload (pk_payload packet) in
       if (case decoded of Inl _ \<Rightarrow> True | Inr p \<Rightarrow> cp_operation p \<noteq> CO_RequestKeyframe) then
         let a = a\<lparr>da_invalidControlRequests := da_invalidControlRequests a + 1\<rparr>;
             x = dagent_publish ''display.control_request_invalid'' ''display control request invalid'' a x
         in snd (sendResponse env packet (if isl decoded then RS_ProtocolError else RS_Unsupported)
                   MK_Error [] a x)
       else
         let a = a\<lparr>da_keyframeRequests := da_keyframeRequests a + 1\<rparr>;
             x = dagent_publish ''display.keyframe_requested'' ''keyframe requested'' a x;
             (sent, a, x) = sendKeyFrame env a x
         in snd (sendResponse env packet (if sent then RS_Ok else RS_Failed)
                   (if sent then MK_Response else MK_Error)
                   (scheduled_payload (cp_reason (projr decoded))) a x))"

section \<open>Diagnostics\<close>

definition dagent_diagnostics :: "'w display_agent \<Rightarrow> 'w \<Rightarrow> string" where
  "dagent_diagnostics a w = ''display.agent captured='' @ to_string (da_capturedFrames a) @
     '' encoded='' @ to_string (da_encodedFrames a) @
     '' sent='' @ to_string (da_sentFrames a) @
     '' capturedPixelBytes='' @ decimal (unat (da_capturedPixelBytes a)) @
     '' encodedPayloadBytes='' @ decimal (unat (da_encodedPayloadBytes a)) @
     '' sentPayloadBytes='' @ decimal (unat (da_sentPayloadBytes a)) @
     '' lastSentPayloadBytes='' @ decimal (unat (da_lastSentPayloadBytes a)) @
     '' dropped='' @ to_string (da_droppedFrames a) @
     '' captureOpenFailures='' @ to_string (da_captureOpenFailures a) @
     '' captureErrors='' @ to_string (case da_capture a of None \<Rightarrow> 0
        | Some capture \<Rightarrow> dc_captureErrors capture w) @
     '' encodeFailures='' @ to_string (da_encodeFailures a) @
     '' sendFailures='' @ to_string (da_sendFailures a) @
     '' invalidControlRequests='' @ to_string (da_invalidControlRequests a) @
     '' keyframeRequests='' @ to_string (da_keyframeRequests a) @
     '' reconnectPauses='' @ to_string (da_reconnectPauses a) @
     '' reconnectResumes='' @ to_string (da_reconnectResumes a) @
     '' captureGeometryOrFormatChanges='' @ to_string (da_captureGeometryOrFormatChanges a)"

record display_agent_snapshot =
  das_state :: module_state
  das_sourceId :: u32
  das_targetWidth :: u32
  das_targetHeight :: u32
  das_scaleMode :: scale_mode
  das_includeCursor :: bool
  das_capturedFrames :: int
  das_encodedFrames :: int
  das_sentFrames :: int
  das_capturedPixelBytes :: u64
  das_encodedPayloadBytes :: u64
  das_sentPayloadBytes :: u64
  das_lastCapturedPixelBytes :: u64
  das_lastEncodedPayloadBytes :: u64
  das_lastSentPayloadBytes :: u64
  das_droppedFrames :: int
  das_captureOpenFailures :: int
  das_captureErrors :: int
  das_encodeFailures :: int
  das_sendFailures :: int
  das_invalidControlRequests :: int
  das_keyframeRequests :: int
  das_responsesSent :: int
  das_captureGeometryOrFormatChanges :: int
  das_reconnectPauses :: int
  das_reconnectResumes :: int
  das_captureBackendId :: string
  das_lastCaptureStatus :: capture_status
  das_encoderCodec :: codec_info

definition dagent_snapshot :: "'w display_agent \<Rightarrow> 'w \<Rightarrow> display_agent_snapshot" where
  "dagent_snapshot a w =
    (let status = (case da_capture a of None \<Rightarrow> default_capture_status
           | Some capture \<Rightarrow> dc_lastStatus capture w);
         status = (if \<not> da_captureOpened a \<and> cs_code status = CC_Ok then
             status\<lparr>cs_code := CC_NotOpen, cs_recoverable := True,
               cs_statusMessage := ''display capture is not open''\<rparr> else status)
     in \<lparr>das_state = da_state a, das_sourceId = op_sourceId (da_captureOptions a),
       das_targetWidth = op_targetWidth (da_captureOptions a),
       das_targetHeight = op_targetHeight (da_captureOptions a),
       das_scaleMode = op_scaleMode (da_captureOptions a),
       das_includeCursor = op_includeCursor (da_captureOptions a),
       das_capturedFrames = da_capturedFrames a, das_encodedFrames = da_encodedFrames a,
       das_sentFrames = da_sentFrames a, das_capturedPixelBytes = da_capturedPixelBytes a,
       das_encodedPayloadBytes = da_encodedPayloadBytes a,
       das_sentPayloadBytes = da_sentPayloadBytes a,
       das_lastCapturedPixelBytes = da_lastCapturedPixelBytes a,
       das_lastEncodedPayloadBytes = da_lastEncodedPayloadBytes a,
       das_lastSentPayloadBytes = da_lastSentPayloadBytes a, das_droppedFrames = da_droppedFrames a,
       das_captureOpenFailures = da_captureOpenFailures a,
       das_captureErrors = (case da_capture a of None \<Rightarrow> 0
         | Some capture \<Rightarrow> dc_captureErrors capture w),
       das_encodeFailures = da_encodeFailures a, das_sendFailures = da_sendFailures a,
       das_invalidControlRequests = da_invalidControlRequests a,
       das_keyframeRequests = da_keyframeRequests a, das_responsesSent = da_responsesSent a,
       das_captureGeometryOrFormatChanges = da_captureGeometryOrFormatChanges a,
       das_reconnectPauses = da_reconnectPauses a, das_reconnectResumes = da_reconnectResumes a,
       das_captureBackendId = (case da_capture a of None \<Rightarrow> []
         | Some capture \<Rightarrow> dc_backendId capture w),
       das_lastCaptureStatus = status,
       das_encoderCodec = effective_codec (da_encoderCodec a)
         (map_option (\<lambda>encoder. ve_codecRuntimeInfo encoder w) (da_encoder a))\<rparr>)"

section \<open>What the agent counts\<close>

text \<open>
  Each captured frame was encoded or failed to be; each encoded frame and each request's response
  was sent or failed to be; and response ids are consecutive, one for each control request.
\<close>

definition dagent_accounts :: "'w display_agent \<Rightarrow> bool" where
  "dagent_accounts a \<longleftrightarrow> da_capturedFrames a = da_encodedFrames a + da_encodeFailures a \<and>
     da_encodedFrames a + da_keyframeRequests a + da_invalidControlRequests a =
       da_sentFrames a + da_responsesSent a + da_sendFailures a \<and>
     da_nextMessageId a = 1000 + of_int (da_keyframeRequests a + da_invalidControlRequests a) \<and>
     0 \<le> da_sentFrames a \<and> 0 \<le> da_responsesSent a \<and> 0 \<le> da_sendFailures a \<and>
     0 \<le> da_encodeFailures a \<and> 0 \<le> da_keyframeRequests a \<and> 0 \<le> da_invalidControlRequests a"

text \<open>The same with one request counted that has not been answered yet.\<close>

definition response_due :: "'w display_agent \<Rightarrow> bool" where
  "response_due a \<longleftrightarrow> da_capturedFrames a = da_encodedFrames a + da_encodeFailures a \<and>
     da_encodedFrames a + da_keyframeRequests a + da_invalidControlRequests a =
       da_sentFrames a + da_responsesSent a + da_sendFailures a + 1 \<and>
     da_nextMessageId a = 1000 + of_int (da_keyframeRequests a + da_invalidControlRequests a - 1) \<and>
     0 \<le> da_sentFrames a \<and> 0 \<le> da_responsesSent a \<and> 0 \<le> da_sendFailures a \<and>
     0 \<le> da_encodeFailures a \<and> 0 \<le> da_keyframeRequests a \<and> 0 \<le> da_invalidControlRequests a"

lemma recordSentFrameShape_counts [simp]:
  "da_capturedFrames (recordSentFrameShape f i a) = da_capturedFrames a"
  "da_encodedFrames (recordSentFrameShape f i a) = da_encodedFrames a"
  "da_encodeFailures (recordSentFrameShape f i a) = da_encodeFailures a"
  "da_keyframeRequests (recordSentFrameShape f i a) = da_keyframeRequests a"
  "da_invalidControlRequests (recordSentFrameShape f i a) = da_invalidControlRequests a"
  "da_sentFrames (recordSentFrameShape f i a) = da_sentFrames a"
  "da_responsesSent (recordSentFrameShape f i a) = da_responsesSent a"
  "da_sendFailures (recordSentFrameShape f i a) = da_sendFailures a"
  "da_nextMessageId (recordSentFrameShape f i a) = da_nextMessageId a"
  "da_runtime (recordSentFrameShape f i a) = da_runtime a"
  by (simp_all add: recordSentFrameShape_def)

text \<open>
  What sending a frame does to the counters, and that it touches neither the requests nor the
  next message id.
\<close>

definition frame_sent_or_counted :: "'w display_agent \<Rightarrow> 'w display_agent \<Rightarrow> bool" where
  "frame_sent_or_counted a a' \<longleftrightarrow>
     da_keyframeRequests a' = da_keyframeRequests a \<and> da_nextMessageId a' = da_nextMessageId a \<and>
     da_invalidControlRequests a' = da_invalidControlRequests a \<and>
     da_responsesSent a' = da_responsesSent a \<and> da_runtime a' = da_runtime a \<and>
     da_sentFrames a \<le> da_sentFrames a' \<and> da_sendFailures a \<le> da_sendFailures a' \<and>
     da_encodeFailures a \<le> da_encodeFailures a' \<and>
     da_capturedFrames a' - da_capturedFrames a =
       (da_encodedFrames a' - da_encodedFrames a) + (da_encodeFailures a' - da_encodeFailures a) \<and>
     da_encodedFrames a' - da_encodedFrames a =
       (da_sentFrames a' - da_sentFrames a) + (da_sendFailures a' - da_sendFailures a)"

lemma frame_counted_refl: "frame_sent_or_counted a a"
  by (simp add: frame_sent_or_counted_def)

lemma frame_counted_trans:
  "frame_sent_or_counted a b \<Longrightarrow> frame_sent_or_counted b c \<Longrightarrow> frame_sent_or_counted a c"
  by (simp add: frame_sent_or_counted_def)

lemma frame_counted_accounts: "frame_sent_or_counted a a' \<Longrightarrow> dagent_accounts a \<Longrightarrow> dagent_accounts a'"
  by (simp add: frame_sent_or_counted_def dagent_accounts_def)

lemma sendEncoded_counts:
  "frame_sent_or_counted (a\<lparr>da_capturedFrames := da_capturedFrames a - 1\<rparr>)
     (fst (snd (sendEncoded env encoded sourceId a x)))"
  by (simp add: sendEncoded_def frame_sent_or_counted_def Let_def split_beta)

lemma sendFrame_counts: "frame_sent_or_counted a (fst (snd (sendFrame env keyFrame a x)))"
proof (cases "no_link (da_runtime a) \<or> da_capture a = None \<or> da_encoder a = None \<or>
    shouldDropFrame keyFrame a x")
  case True
  then show ?thesis
    by (auto simp: sendFrame_def frame_sent_or_counted_def split: option.splits)
next
  case False
  then obtain capture encoder where devices: "da_capture a = Some capture" "da_encoder a = Some encoder"
    by auto
  obtain d encoded i y where result: "sendFrame env keyFrame a x = sendEncoded env encoded i d y"
    and d: "frame_sent_or_counted a (d\<lparr>da_capturedFrames := da_capturedFrames d - 1\<rparr>)"
    using False by (simp add: sendFrame_def devices Let_def split_beta frame_sent_or_counted_def)
  show ?thesis unfolding result by (rule frame_counted_trans [OF d sendEncoded_counts])
qed

lemma sendKeyFrame_counts: "frame_sent_or_counted a (fst (snd (sendKeyFrame env a x)))"
  by (simp add: sendKeyFrame_def sendFrame_counts)

lemma sendDeltaFrame_counts: "frame_sent_or_counted a (fst (snd (sendDeltaFrame env a x)))"
  by (simp add: sendDeltaFrame_def sendFrame_counts)

lemma close_capture_counts: "frame_sent_or_counted a (fst (close_capture a x))"
  by (simp add: close_capture_def frame_sent_or_counted_def split: option.split)

lemma open_again_counts:
  "frame_sent_or_counted a (fst (snd (open_again env capture fresh failed opened a x)))"
proof -
  have "frame_sent_or_counted a (a\<lparr>da_captureOpened := True\<rparr>)"
    "frame_sent_or_counted a (a\<lparr>da_captureOpenFailures := da_captureOpenFailures a + 1\<rparr>)"
    by (simp_all add: frame_sent_or_counted_def)
  then show ?thesis
    by (auto simp: open_again_def Let_def split_beta intro: frame_counted_trans sendKeyFrame_counts)
qed

lemma frame_counted_due: "frame_sent_or_counted a a' \<Longrightarrow> response_due a \<Longrightarrow> response_due a'"
  by (simp add: frame_sent_or_counted_def response_due_def)

lemma sendResponse_settles:
  assumes "response_due a"
  shows "dagent_accounts (fst (snd (sendResponse env request status kind payload a x))) \<and>
    da_keyframeRequests (fst (snd (sendResponse env request status kind payload a x))) =
      da_keyframeRequests a \<and>
    da_invalidControlRequests (fst (snd (sendResponse env request status kind payload a x))) =
      da_invalidControlRequests a"
  using assms by (simp add: sendResponse_def response_due_def dagent_accounts_def Let_def split_beta)

section \<open>Runs of an agent\<close>

datatype 'w dagent_op = DAgentAttach module_runtime | DAgentStart | DAgentStop | DAgentDetach
  | DAgentPause | DAgentResume reconnect_options | DAgentPacket packet_envelope | DAgentDelta
  | DAgentReopen bool | DAgentReplace "'w display_capture option" bool

definition dagent_step ::
    "('c, 'w) display_env \<Rightarrow> 'w dagent_op \<Rightarrow> 'w display_agent \<times> ('c, 's, 'w) session_world \<Rightarrow>
     'w display_agent \<times> ('c, 's, 'w) session_world" where
  "dagent_step env operation ax = (let (a, x) = ax in
     case operation of
       DAgentAttach rt \<Rightarrow> (snd (dagent_attach rt a), x)
     | DAgentStart \<Rightarrow> snd (dagent_start env a x)
     | DAgentStop \<Rightarrow> dagent_stop a x
     | DAgentDetach \<Rightarrow> dagent_detach a x
     | DAgentPause \<Rightarrow> dagent_pause a x
     | DAgentResume options \<Rightarrow> dagent_resume env options a x
     | DAgentPacket packet \<Rightarrow> dagent_handlePacket env packet a x
     | DAgentDelta \<Rightarrow> snd (sendDeltaFrame env a x)
     | DAgentReopen fresh \<Rightarrow> snd (reopenCapture env fresh a x)
     | DAgentReplace capture fresh \<Rightarrow> snd (replaceCapture env capture fresh a x))"

definition is_control_request :: "packet_envelope \<Rightarrow> bool" where
  "is_control_request packet \<longleftrightarrow> pk_packetType packet = PT_PayloadAck \<and> pk_messageKind packet = MK_Request"

definition control_requests :: "'w dagent_op list \<Rightarrow> packet_envelope list" where
  "control_requests operations = List.map_filter (\<lambda>operation. case operation of
     DAgentPacket packet \<Rightarrow> if is_control_request packet then Some packet else None | _ \<Rightarrow> None) operations"

definition control_count :: "'w display_agent \<Rightarrow> int" where
  "control_count a = da_keyframeRequests a + da_invalidControlRequests a"

lemma handlePacket_counts:
  fixes a :: "'w display_agent" and x :: "('c, 's, 'w) session_world"
  assumes "dagent_accounts a"
  shows "dagent_accounts (fst (dagent_handlePacket env packet a x)) \<and>
    control_count (fst (dagent_handlePacket env packet a x)) =
      control_count a + (if is_control_request packet then 1 else 0)"
proof (cases "is_control_request packet")
  case False
  then show ?thesis using assms by (simp add: dagent_handlePacket_def is_control_request_def)
next
  case request: True
  let ?decoded = "decodeDisplayControlPayload (pk_payload packet)"
  let ?invalid = "case ?decoded of Inl _ \<Rightarrow> True | Inr p \<Rightarrow> cp_operation p \<noteq> CO_RequestKeyframe"
  obtain d status kind payload and y :: "('c, 's, 'w) session_world" where
      result: "fst (dagent_handlePacket env packet a x) =
        fst (snd (sendResponse env packet status kind payload d y))"
    and d: "response_due d" "control_count d = control_count a + 1"
  proof (cases ?invalid)
    case True
    let ?a = "a\<lparr>da_invalidControlRequests := da_invalidControlRequests a + 1\<rparr>"
    have "response_due ?a" "control_count ?a = control_count a + 1"
      using assms by (simp_all add: response_due_def dagent_accounts_def control_count_def)
    moreover have "fst (dagent_handlePacket env packet a x) = fst (snd (sendResponse env packet
        (if isl ?decoded then RS_ProtocolError else RS_Unsupported) MK_Error [] ?a
        (dagent_publish ''display.control_request_invalid'' ''display control request invalid'' ?a x)))"
      using request True by (simp add: dagent_handlePacket_def is_control_request_def Let_def)
    ultimately show thesis using that by blast
  next
    case False
    let ?a = "a\<lparr>da_keyframeRequests := da_keyframeRequests a + 1\<rparr>"
    let ?x = "dagent_publish ''display.keyframe_requested'' ''keyframe requested'' ?a x"
    let ?sent = "sendKeyFrame env ?a ?x"
    have due: "response_due ?a" "control_count ?a = control_count a + 1"
      using assms by (simp_all add: response_due_def dagent_accounts_def control_count_def)
    have "response_due (fst (snd ?sent))"
      by (rule frame_counted_due [OF sendKeyFrame_counts due(1)])
    moreover have "control_count (fst (snd ?sent)) = control_count a + 1"
      using sendKeyFrame_counts [of ?a env ?x] due(2)
      by (simp add: frame_sent_or_counted_def control_count_def)
    moreover have "fst (dagent_handlePacket env packet a x) = fst (snd (sendResponse env packet
        (if fst ?sent then RS_Ok else RS_Failed) (if fst ?sent then MK_Response else MK_Error)
        (scheduled_payload (cp_reason (projr ?decoded))) (fst (snd ?sent)) (snd (snd ?sent))))"
      using request False by (simp add: dagent_handlePacket_def is_control_request_def Let_def split_beta)
    ultimately show thesis using that by blast
  qed
  show ?thesis
    using sendResponse_settles [OF d(1), of env packet status kind payload y] d(2) request
    unfolding result by (simp add: control_count_def)
qed

lemma frame_counted_control: "frame_sent_or_counted a a' \<Longrightarrow> control_count a' = control_count a"
  by (simp add: frame_sent_or_counted_def control_count_def)

lemma reopenCapture_counts: "frame_sent_or_counted a (fst (snd (reopenCapture env fresh a x)))"
  by (auto simp: reopenCapture_def split_beta split: option.split
      intro: frame_counted_refl frame_counted_trans [OF close_capture_counts open_again_counts])

lemma replaceCapture_counts: "frame_sent_or_counted a (fst (snd (replaceCapture env capture fresh a x)))"
proof -
  have "frame_sent_or_counted a ((fst (close_capture a x))\<lparr>da_capture := Some replacement\<rparr>)" for replacement
    using close_capture_counts [of a x] by (simp add: frame_sent_or_counted_def)
  from frame_counted_trans [OF this open_again_counts] show ?thesis
    by (auto simp: replaceCapture_def split_beta split: option.split intro: frame_counted_refl)
qed

lemma dagent_start_counts:
  fixes a :: "'w display_agent" and x :: "('c, 's, 'w) session_world"
  shows "frame_sent_or_counted a (fst (snd (dagent_start env a x)))"
proof -
  have "frame_sent_or_counted b (b\<lparr>da_captureOpened := opened, da_state := st\<rparr>)"
    "frame_sent_or_counted b (b\<lparr>da_captureOpenFailures := n, da_state := st\<rparr>)"
    for st opened n and b :: "'w display_agent"
    by (simp_all add: frame_sent_or_counted_def)
  note changes = this
  have tried: "frame_sent_or_counted a (fst (snd (sendKeyFrame env
      (a\<lparr>da_captureOpened := True, da_state := MS_Running\<rparr>) y)))" for y :: "('c, 's, 'w) session_world"
    by (rule frame_counted_trans [OF changes(1) sendKeyFrame_counts])
  show ?thesis
    using tried frame_counted_trans [OF tried changes(1)] changes(2)
    by (auto simp: dagent_start_def split_beta Let_def split: option.split intro: frame_counted_refl)
qed

lemma dagent_resume_counts: "frame_sent_or_counted a (fst (dagent_resume env options a x))"
proof -
  have changed: "frame_sent_or_counted a (a\<lparr>da_reconnectResumes := n\<rparr>)" for n
    by (simp add: frame_sent_or_counted_def)
  then show ?thesis
    by (auto simp: dagent_resume_def split_beta Let_def
        intro: frame_counted_trans [OF _ sendDeltaFrame_counts] frame_counted_trans [OF _ sendKeyFrame_counts])
qed

lemma dagent_step_counts:
  assumes "dagent_accounts (fst ax)"
  shows "dagent_accounts (fst (dagent_step env operation ax)) \<and>
    control_count (fst (dagent_step env operation ax)) =
      control_count (fst ax) + int (length (control_requests [operation]))"
proof (cases operation)
  case (DAgentPacket packet)
  then show ?thesis
    using handlePacket_counts [OF assms, of env packet "snd ax"]
    by (simp add: dagent_step_def control_requests_def List.map_filter_simps split_beta)
next
  case (DAgentAttach rt)
  then show ?thesis using assms
    by (simp add: dagent_step_def control_requests_def List.map_filter_simps split_beta dagent_attach_def
        dagent_accounts_def control_count_def)
next
  case (DAgentStop)
  have "frame_sent_or_counted (fst ax) (fst (dagent_step env operation ax))"
    using close_capture_counts [of "fst ax" "snd ax"]
    by (simp add: DAgentStop dagent_step_def dagent_stop_def split_beta frame_sent_or_counted_def)
  then show ?thesis
    using assms frame_counted_accounts frame_counted_control
    by (auto simp: DAgentStop control_requests_def List.map_filter_simps)
next
  case (DAgentDetach)
  have "frame_sent_or_counted (fst ax) (fst (dagent_step env operation ax))"
    using close_capture_counts [of "fst ax" "snd ax"]
    by (simp add: DAgentDetach dagent_step_def dagent_detach_def split_beta frame_sent_or_counted_def)
  then show ?thesis
    using assms frame_counted_accounts frame_counted_control
    by (auto simp: DAgentDetach control_requests_def List.map_filter_simps)
next
  case DAgentPause
  then show ?thesis using assms
    by (simp add: dagent_step_def control_requests_def List.map_filter_simps split_beta dagent_pause_def
        dagent_accounts_def control_count_def)
qed (use assms in \<open>auto simp: dagent_step_def control_requests_def List.map_filter_simps split_beta
  intro: frame_counted_accounts frame_counted_control dagent_start_counts
  dagent_resume_counts sendDeltaFrame_counts reopenCapture_counts replaceCapture_counts\<close>)

lemma dagent_step_accounts:
  "dagent_accounts (fst ax) \<Longrightarrow> dagent_accounts (fst (dagent_step env operation ax))"
  using dagent_step_counts [of ax env operation] by simp

interpretation display_agent: kept_by_steps "dagent_step env" "\<lambda>ax. dagent_accounts (fst ax)" for env
  by unfold_locales (rule dagent_step_accounts)

lemma control_requests_Cons:
  "control_requests (operation # operations) = control_requests [operation] @ control_requests operations"
  by (simp add: control_requests_def List.map_filter_def)

lemma dagent_run_requests:
  assumes "dagent_accounts (fst ax)"
  shows "control_count (fst (fold (dagent_step env) operations ax)) =
    control_count (fst ax) + int (length (control_requests operations))"
  using assms
proof (induction operations arbitrary: ax)
  case (Cons operation operations)
  show ?case
    using Cons.IH [OF dagent_step_accounts [OF Cons.prems, of env operation]]
      dagent_step_counts [OF Cons.prems, of env operation]
    by (simp add: control_requests_Cons [of operation operations])
qed (simp add: control_requests_def)

section \<open>Properties\<close>

text \<open>
  C13. The display agent accounts for every frame and answers every control request: after any
  sequence of calls and packets, whatever the capture, the encoder and the network do, each captured
  frame was encoded or counted as an encoding failure; the encoded frames and the control requests
  together are exactly the frames sent, the responses sent and the sends that failed; and the control
  requests counted, valid or not, are those that arrived, one message id being used for each.
\<close>

theorem display_agent_accounts:
  "dagent_accounts (fst (fold (dagent_step env) operations
      (new_display_agent capture encoder captureOptions encoderCodec, x))) \<and>
   control_count (fst (fold (dagent_step env) operations
      (new_display_agent capture encoder captureOptions encoderCodec, x))) =
     int (length (control_requests operations))"
proof -
  let ?ax = "(new_display_agent capture encoder captureOptions encoderCodec, x)"
  have start: "dagent_accounts (fst ?ax)" "control_count (fst ?ax) = 0"
    by (simp_all add: new_display_agent_def dagent_accounts_def control_count_def)
  show ?thesis
    using display_agent.run_keeps [of ?ax, OF start(1)] dagent_run_requests [OF start(1)] start(2) by simp
qed

end
