(* ===== verification/Display_Client.thy ===== *)
theory Display_Client
  imports Display_Link Module_Catalog Message_Lifecycle
begin

unbundle bit_operations_syntax

text \<open>
  \<open>DisplayClientModule\<close> of \<open>src/modules/display/display_modules.cpp\<close>: decodes and renders the frames
  it receives and asks for key frames. The handler it registers with its request tracker is
  \<open>handleKeyframeResponse\<close> (one closure, the value \<open>()\<close> of the tracker's handler type): the
  tracker's calls are run in order.
\<close>

section \<open>State\<close>

record 'w display_client =
  dl_manifest :: module_manifest
  dl_runtime :: module_runtime
  dl_state :: module_state
  dl_decoder :: "'w video_decoder option"
  dl_renderer :: "'w display_renderer option"
  dl_decoderCodec :: codec_info
  dl_tracker :: "unit tracker"
  dl_lastKeyframeRequestId :: message_id
  dl_lastRenderedFrameId :: u64
  dl_receivedFrames :: int
  dl_decodedFrames :: int
  dl_renderedFrames :: int
  dl_receivedPayloadBytes :: u64
  dl_decodedPixelBytes :: u64
  dl_renderedPixelBytes :: u64
  dl_lastReceivedPayloadBytes :: u64
  dl_lastDecodedPixelBytes :: u64
  dl_lastRenderedPixelBytes :: u64
  dl_droppedFrames :: int
  dl_frameGaps :: int
  dl_decodeErrors :: int
  dl_renderErrors :: int
  dl_keyframeResponses :: int
  dl_keyframeRequestFailures :: int
  dl_keyframeRequestTimeouts :: int
  dl_decoderRecoveries :: int
  dl_decoderPendingFrames :: int
  dl_delayedDecodedFrames :: int
  dl_decoderHasPendingInput :: bool
  dl_reconnectRenderedFramesBaseline :: int
  dl_reconnectPauses :: int
  dl_reconnectResumes :: int

definition new_display_client ::
    "'w video_decoder option \<Rightarrow> 'w display_renderer option \<Rightarrow> codec_info \<Rightarrow> 'w display_client" where
  "new_display_client decoder renderer decoderCodec = \<lparr>
     dl_manifest = catalog_displayScreenClient, dl_runtime = default_runtime, dl_state = MS_Created,
     dl_decoder = decoder, dl_renderer = renderer, dl_decoderCodec = decoderCodec,
     dl_tracker = new_tracker 1, dl_lastKeyframeRequestId = 0, dl_lastRenderedFrameId = 0,
     dl_receivedFrames = 0, dl_decodedFrames = 0, dl_renderedFrames = 0,
     dl_receivedPayloadBytes = 0, dl_decodedPixelBytes = 0, dl_renderedPixelBytes = 0,
     dl_lastReceivedPayloadBytes = 0, dl_lastDecodedPixelBytes = 0, dl_lastRenderedPixelBytes = 0,
     dl_droppedFrames = 0, dl_frameGaps = 0, dl_decodeErrors = 0, dl_renderErrors = 0,
     dl_keyframeResponses = 0, dl_keyframeRequestFailures = 0, dl_keyframeRequestTimeouts = 0,
     dl_decoderRecoveries = 0, dl_decoderPendingFrames = 0, dl_delayedDecodedFrames = 0,
     dl_decoderHasPendingInput = False, dl_reconnectRenderedFramesBaseline = 0,
     dl_reconnectPauses = 0, dl_reconnectResumes = 0\<rparr>"

definition dclient_publish ::
    "string \<Rightarrow> string \<Rightarrow> 'w display_client \<Rightarrow> ('c, 's, 'w) session_world \<Rightarrow> ('c, 's, 'w) session_world" where
  "dclient_publish code message c =
     display_publish (dl_runtime c) (mf_moduleId (dl_manifest c)) code message"

definition client_unlinked :: "'w display_client \<Rightarrow> bool" where
  "client_unlinked c \<longleftrightarrow> \<not> rt_network (dl_runtime c) \<and> \<not> rt_networkManager (dl_runtime c)"

section \<open>Life cycle\<close>

definition dclient_attach :: "module_runtime \<Rightarrow> 'w display_client \<Rightarrow> bool \<times> 'w display_client" where
  "dclient_attach rt c = (dl_decoder c \<noteq> None \<and> dl_renderer c \<noteq> None,
     c\<lparr>dl_runtime := rt, dl_state := MS_Attached\<rparr>)"

definition dclient_start :: "'w display_client \<Rightarrow> bool \<times> 'w display_client" where
  "dclient_start c =
    (if client_unlinked c \<or> dl_decoder c = None \<or> dl_renderer c = None then (False, c)
     else (True, c\<lparr>dl_state := MS_Running\<rparr>))"

definition dclient_stop :: "'w display_client \<Rightarrow> 'w display_client" where
  "dclient_stop c = c\<lparr>dl_state := MS_Stopped\<rparr>"

definition dclient_detach :: "'w display_client \<Rightarrow> 'w display_client" where
  "dclient_detach c = c\<lparr>dl_state := MS_Detached\<rparr>"

definition dclient_pause ::
    "'w display_client \<Rightarrow> ('c, 's, 'w) session_world \<Rightarrow> 'w display_client \<times> ('c, 's, 'w) session_world" where
  "dclient_pause c x = (c\<lparr>dl_reconnectPauses := dl_reconnectPauses c + 1\<rparr>,
     dclient_publish ''display.reconnect_paused'' ''display renderer paused for reconnect'' c x)"

section \<open>Key frame requests\<close>

definition handleKeyframeResponse ::
    "packet_envelope \<Rightarrow> 'w display_client \<Rightarrow> ('c, 's, 'w) session_world \<Rightarrow>
     'w display_client \<times> ('c, 's, 'w) session_world" where
  "handleKeyframeResponse packet c x =
    (if pk_messageKind packet \<noteq> MK_Response \<or> pk_responseStatus packet \<noteq> RS_Ok then
       (c\<lparr>dl_keyframeRequestFailures := dl_keyframeRequestFailures c + 1\<rparr>,
        dclient_publish ''display.keyframe_response_failed'' ''keyframe response failed'' c x)
     else
       let decoded = decodeDisplayControlPayload (pk_payload packet) in
       if (case decoded of Inl _ \<Rightarrow> True | Inr p \<Rightarrow> cp_operation p \<noteq> CO_KeyframeScheduled) then
         (c\<lparr>dl_keyframeRequestFailures := dl_keyframeRequestFailures c + 1\<rparr>,
          dclient_publish ''display.keyframe_response_invalid'' ''keyframe response invalid'' c x)
       else
         (c\<lparr>dl_keyframeResponses := dl_keyframeResponses c + 1\<rparr>,
          dclient_publish ''display.keyframe_response_received'' ''keyframe response received'' c x))"

fun run_handlers ::
    "(unit \<times> packet_envelope) list \<Rightarrow> 'w display_client \<Rightarrow> ('c, 's, 'w) session_world \<Rightarrow>
     'w display_client \<times> ('c, 's, 'w) session_world" where
  "run_handlers [] c x = (c, x)"
| "run_handlers ((_, packet) # calls) c x =
    (let (c, x) = handleKeyframeResponse packet c x in run_handlers calls c x)"

text \<open>\<open>keyframeRequestsTracker_.complete\<close>, with the handler's effect on the module.\<close>

definition complete_request ::
    "packet_envelope \<Rightarrow> 'w display_client \<Rightarrow> ('c, 's, 'w) session_world \<Rightarrow>
     'w display_client \<times> ('c, 's, 'w) session_world" where
  "complete_request packet c x =
    (let (_, calls, t) = complete packet (dl_tracker c) in run_handlers calls (c\<lparr>dl_tracker := t\<rparr>) x)"

definition keyframe_request ::
    "module_runtime \<Rightarrow> message_id \<Rightarrow> u64 \<Rightarrow> keyframe_reason \<Rightarrow> packet_envelope" where
  "keyframe_request rt messageId now reason = (makeDisplayPacket rt PT_PayloadAck MK_Request)\<lparr>
     pk_priority := PP_Interactive, pk_messageId := messageId, pk_correlationId := messageId,
     pk_timeoutMs := 1000, pk_flags := PacketFlagResponseRequired,
     pk_monotonicTimestampUsec := now,
     pk_payload := encodeDisplayControlPayload
       \<lparr>cp_operation = CO_RequestKeyframe, cp_reason = reason, cp_frameId = 0\<rparr>\<rparr>"

definition requestKeyFrame ::
    "('c, 'w) display_env \<Rightarrow> keyframe_reason \<Rightarrow> 'w display_client \<Rightarrow> ('c, 's, 'w) session_world \<Rightarrow>
     bool \<times> 'w display_client \<times> ('c, 's, 'w) session_world" where
  "requestKeyFrame env reason c x =
    (if client_unlinked c then (False, c, x)
     else
       let (messageId, t) = nextMessageId (dl_tracker c);
           (now, x) = on_rest (de_now env) x;
           request = keyframe_request (dl_runtime c) messageId now reason;
           (tracked, t) = track request (Some ()) t;
           c = c\<lparr>dl_lastKeyframeRequestId := messageId, dl_tracker := t\<rparr>
       in if \<not> tr_tracked tracked then
            (False, c\<lparr>dl_keyframeRequestFailures := dl_keyframeRequestFailures c + 1\<rparr>, x)
          else
            let (sent, x) = display_send (de_channels env) (dl_runtime c) request x in
            if sr_status sent = SS_Sent then (True, c, x)
            else
              let failed = request\<lparr>pk_messageKind := MK_Error,
                    pk_responseStatus := sendStatusToResponseStatus (sr_status sent),
                    pk_responseTo := pk_messageId request\<rparr>
              in (False, complete_request failed c x))"

definition expireKeyframeRequests ::
    "u64 \<Rightarrow> 'w display_client \<Rightarrow> ('c, 's, 'w) session_world \<Rightarrow>
     nat \<times> 'w display_client \<times> ('c, 's, 'w) session_world" where
  "expireKeyframeRequests nowUsec c x =
    (let (expired, calls, t) = expire nowUsec (dl_tracker c);
         (c, x) = run_handlers calls (c\<lparr>dl_tracker := t\<rparr>) x
     in (expired, c\<lparr>dl_keyframeRequestTimeouts := dl_keyframeRequestTimeouts c + int expired\<rparr>, x))"

definition requestRecoveryKeyFrame ::
    "('c, 'w) display_env \<Rightarrow> keyframe_reason \<Rightarrow> 'w display_client \<Rightarrow> ('c, 's, 'w) session_world \<Rightarrow>
     'w display_client \<times> ('c, 's, 'w) session_world" where
  "requestRecoveryKeyFrame env reason c x = snd (requestKeyFrame env reason c x)"

definition dclient_resume ::
    "('c, 'w) display_env \<Rightarrow> reconnect_options \<Rightarrow> 'w display_client \<Rightarrow> ('c, 's, 'w) session_world \<Rightarrow>
     'w display_client \<times> ('c, 's, 'w) session_world" where
  "dclient_resume env options c x =
    (let c = c\<lparr>dl_reconnectResumes := dl_reconnectResumes c + 1,
           dl_reconnectRenderedFramesBaseline := dl_renderedFrames c\<rparr>;
         x = dclient_publish ''display.reconnect_resumed'' ''display renderer resumed after reconnect'' c x
     in if dl_state c = MS_Running \<and> ro_requestFreshState options \<and> affectsDisplayChannel options
        then snd (requestKeyFrame env KR_Reconnect c x) else (c, x))"

section \<open>Rendering\<close>

text \<open>The end of \<open>renderVideo\<close>: a decoded frame that is due is counted and rendered.\<close>

definition present_frame ::
    "('c, 'w) display_env \<Rightarrow> encoded_frame \<Rightarrow> decoded_frame \<Rightarrow> 'w display_renderer \<Rightarrow>
     'w display_client \<Rightarrow> ('c, 's, 'w) session_world \<Rightarrow>
     bool \<times> 'w display_client \<times> ('c, 's, 'w) session_world" where
  "present_frame env encoded decoded renderer c x =
    (let size = of_nat (length (df_pixels decoded));
         c = c\<lparr>dl_delayedDecodedFrames := (if df_frameId decoded \<noteq> ef_frameId encoded
               then dl_delayedDecodedFrames c + 1 else dl_delayedDecodedFrames c),
             dl_decoderHasPendingInput := (df_frameId decoded < ef_frameId encoded),
             dl_decodedFrames := dl_decodedFrames c + 1, dl_lastDecodedPixelBytes := size,
             dl_decodedPixelBytes := dl_decodedPixelBytes c + size\<rparr>;
         (rendered, x) = on_rest (vr_render renderer decoded) x
     in if \<not> rendered then
          (False, requestRecoveryKeyFrame env KR_DecoderReset
             (c\<lparr>dl_renderErrors := dl_renderErrors c + 1,
                dl_decoderRecoveries := dl_decoderRecoveries c + 1\<rparr>) x)
        else
          let c = c\<lparr>dl_lastRenderedPixelBytes := size,
                dl_renderedPixelBytes := dl_renderedPixelBytes c + size\<rparr>;
              x = dclient_publish
                (if dl_renderedFrames c = 0 then ''display.first_frame_rendered''
                 else if df_keyFrame decoded then ''display.keyframe_rendered''
                 else ''display.frame_rendered'')
                (if df_keyFrame decoded then ''keyframe rendered'' else ''frame rendered'') c x
          in (True, c\<lparr>dl_renderedFrames := dl_renderedFrames c + 1,
                dl_lastRenderedFrameId := df_frameId decoded\<rparr>, x))"

text \<open>The middle of \<open>renderVideo\<close>: what becomes of the decoder's answer.\<close>

definition judge_decoded ::
    "('c, 'w) display_env \<Rightarrow> encoded_frame \<Rightarrow> decoded_frame \<Rightarrow> 'w display_renderer \<Rightarrow>
     'w display_client \<Rightarrow> ('c, 's, 'w) session_world \<Rightarrow>
     bool \<times> 'w display_client \<times> ('c, 's, 'w) session_world" where
  "judge_decoded env encoded decoded renderer c x =
    (if df_decodeStatus decoded = DDS_NeedsMoreInput then
       (True, c\<lparr>dl_decoderPendingFrames := dl_decoderPendingFrames c + 1,
          dl_decoderHasPendingInput := True\<rparr>,
        dclient_publish ''display.decoder_needs_more_input''
          ''display decoder is waiting for more input'' c x)
     else if df_decodeStatus decoded \<noteq> DDS_Ok \<or> df_frameId decoded = 0 \<or>
             df_frameId decoded > ef_frameId encoded then
       (False, requestRecoveryKeyFrame env KR_DecoderReset
          (c\<lparr>dl_decoderHasPendingInput := False, dl_decodeErrors := dl_decodeErrors c + 1,
             dl_droppedFrames := dl_droppedFrames c + 1,
             dl_decoderRecoveries := dl_decoderRecoveries c + 1\<rparr>)
          (dclient_publish ''display.frame_decode_failed'' ''display frame decode failed'' c x))
     else if df_frameId decoded \<le> dl_lastRenderedFrameId c then
       (False, c\<lparr>dl_droppedFrames := dl_droppedFrames c + 1\<rparr>,
        dclient_publish ''display.frame_stale_dropped'' ''stale decoded display frame dropped'' c x)
     else if dl_renderedFrames c > 0 \<and> df_frameId decoded > dl_lastRenderedFrameId c + 1 \<and>
             \<not> df_keyFrame decoded then
       (False, requestRecoveryKeyFrame env KR_FrameGap
          (c\<lparr>dl_droppedFrames := dl_droppedFrames c + 1, dl_frameGaps := dl_frameGaps c + 1,
             dl_decoderRecoveries := dl_decoderRecoveries c + 1\<rparr>)
          (dclient_publish ''display.frame_gap_detected'' ''display frame gap detected'' c x))
     else present_frame env encoded decoded renderer c x)"

definition received_frame :: "packet_envelope \<Rightarrow> encoded_frame" where
  "received_frame packet = default_encoded_frame\<lparr>ef_frameId := pk_sequence packet,
     ef_keyFrame := (pk_flags packet AND PacketFlagKeyFrame \<noteq> 0), ef_payload := pk_payload packet\<rparr>"

text \<open>
  A client without a decoder or renderer does not start, so it is not given packets; the model
  leaves it as it is (the code would dereference the null pointer).
\<close>

definition renderVideo ::
    "('c, 'w) display_env \<Rightarrow> packet_envelope \<Rightarrow> 'w display_client \<Rightarrow> ('c, 's, 'w) session_world \<Rightarrow>
     bool \<times> 'w display_client \<times> ('c, 's, 'w) session_world" where
  "renderVideo env packet c x =
    (if pk_messageKind packet \<noteq> MK_Event then (False, c, x)
     else
       let encoded = received_frame packet;
           size = of_nat (length (pk_payload packet));
           c = c\<lparr>dl_receivedFrames := dl_receivedFrames c + 1, dl_lastReceivedPayloadBytes := size,
             dl_receivedPayloadBytes := dl_receivedPayloadBytes c + size\<rparr>
       in if dl_renderedFrames c = 0 \<and> \<not> dl_decoderHasPendingInput c \<and> \<not> ef_keyFrame encoded then
            (False, requestRecoveryKeyFrame env KR_FirstFrameTimeout
               (c\<lparr>dl_droppedFrames := dl_droppedFrames c + 1,
                  dl_decoderRecoveries := dl_decoderRecoveries c + 1\<rparr>)
               (dclient_publish ''display.first_frame_missing''
                 ''first display frame is not a keyframe'' c x))
          else if dl_renderedFrames c > 0 \<and> ef_frameId encoded \<le> dl_lastRenderedFrameId c then
            (False, c\<lparr>dl_droppedFrames := dl_droppedFrames c + 1\<rparr>,
             dclient_publish ''display.frame_stale_dropped'' ''stale display frame dropped'' c x)
          else case (dl_decoder c, dl_renderer c) of
            (Some decoder, Some renderer) \<Rightarrow>
              let (decoded, x) = on_rest (vd_decode decoder encoded) x
              in judge_decoded env encoded decoded renderer c x
          | _ \<Rightarrow> (False, c, x))"

definition dclient_handlePacket ::
    "('c, 'w) display_env \<Rightarrow> packet_envelope \<Rightarrow> 'w display_client \<Rightarrow> ('c, 's, 'w) session_world \<Rightarrow>
     'w display_client \<times> ('c, 's, 'w) session_world" where
  "dclient_handlePacket env packet c x =
    (if pk_packetType packet = PT_Video then snd (renderVideo env packet c x)
     else if pk_packetType packet = PT_PayloadAck \<and>
             (pk_messageKind packet = MK_Response \<or> pk_messageKind packet = MK_Error) then
       complete_request packet c x
     else (c, x))"

section \<open>Diagnostics\<close>

definition dclient_diagnostics :: "'w display_client \<Rightarrow> string" where
  "dclient_diagnostics c = ''display.client received='' @ to_string (dl_receivedFrames c) @
     '' decoded='' @ to_string (dl_decodedFrames c) @
     '' rendered='' @ to_string (dl_renderedFrames c) @
     '' receivedPayloadBytes='' @ decimal (unat (dl_receivedPayloadBytes c)) @
     '' decodedPixelBytes='' @ decimal (unat (dl_decodedPixelBytes c)) @
     '' renderedPixelBytes='' @ decimal (unat (dl_renderedPixelBytes c)) @
     '' lastReceivedPayloadBytes='' @ decimal (unat (dl_lastReceivedPayloadBytes c)) @
     '' dropped='' @ to_string (dl_droppedFrames c) @
     '' frameGaps='' @ to_string (dl_frameGaps c) @
     '' decodeErrors='' @ to_string (dl_decodeErrors c) @
     '' renderErrors='' @ to_string (dl_renderErrors c) @
     '' keyframeResponses='' @ to_string (dl_keyframeResponses c) @
     '' keyframeRequestFailures='' @ to_string (dl_keyframeRequestFailures c) @
     '' keyframeRequestTimeouts='' @ to_string (dl_keyframeRequestTimeouts c) @
     '' decoderRecoveries='' @ to_string (dl_decoderRecoveries c) @
     '' decoderPendingFrames='' @ to_string (dl_decoderPendingFrames c) @
     '' delayedDecodedFrames='' @ to_string (dl_delayedDecodedFrames c) @
     '' lastRenderedFrameId='' @ decimal (unat (dl_lastRenderedFrameId c)) @
     '' reconnectPauses='' @ to_string (dl_reconnectPauses c) @
     '' reconnectResumes='' @ to_string (dl_reconnectResumes c)"

record display_client_snapshot =
  dls_state :: module_state
  dls_receivedFrames :: int
  dls_decodedFrames :: int
  dls_renderedFrames :: int
  dls_receivedPayloadBytes :: u64
  dls_decodedPixelBytes :: u64
  dls_renderedPixelBytes :: u64
  dls_lastReceivedPayloadBytes :: u64
  dls_lastDecodedPixelBytes :: u64
  dls_lastRenderedPixelBytes :: u64
  dls_droppedFrames :: int
  dls_frameGaps :: int
  dls_decodeErrors :: int
  dls_renderErrors :: int
  dls_keyframeResponses :: int
  dls_keyframeRequestFailures :: int
  dls_keyframeRequestTimeouts :: int
  dls_decoderRecoveries :: int
  dls_decoderPendingFrames :: int
  dls_delayedDecodedFrames :: int
  dls_pendingKeyframeRequests :: nat
  dls_lastKeyframeRequestId :: message_id
  dls_lastRenderedFrameId :: u64
  dls_reconnectRenderedFramesBaseline :: int
  dls_reconnectPauses :: int
  dls_reconnectResumes :: int
  dls_decoderCodec :: codec_info

definition dclient_snapshot :: "'w display_client \<Rightarrow> 'w \<Rightarrow> display_client_snapshot" where
  "dclient_snapshot c w = \<lparr>
     dls_state = dl_state c,
     dls_receivedFrames = dl_receivedFrames c,
     dls_decodedFrames = dl_decodedFrames c,
     dls_renderedFrames = dl_renderedFrames c,
     dls_receivedPayloadBytes = dl_receivedPayloadBytes c,
     dls_decodedPixelBytes = dl_decodedPixelBytes c,
     dls_renderedPixelBytes = dl_renderedPixelBytes c,
     dls_lastReceivedPayloadBytes = dl_lastReceivedPayloadBytes c,
     dls_lastDecodedPixelBytes = dl_lastDecodedPixelBytes c,
     dls_lastRenderedPixelBytes = dl_lastRenderedPixelBytes c,
     dls_droppedFrames = dl_droppedFrames c,
     dls_frameGaps = dl_frameGaps c,
     dls_decodeErrors = dl_decodeErrors c,
     dls_renderErrors = dl_renderErrors c,
     dls_keyframeResponses = dl_keyframeResponses c,
     dls_keyframeRequestFailures = dl_keyframeRequestFailures c,
     dls_keyframeRequestTimeouts = dl_keyframeRequestTimeouts c,
     dls_decoderRecoveries = dl_decoderRecoveries c,
     dls_decoderPendingFrames = dl_decoderPendingFrames c,
     dls_delayedDecodedFrames = dl_delayedDecodedFrames c,
     dls_pendingKeyframeRequests = pendingCount (dl_tracker c),
     dls_lastKeyframeRequestId = dl_lastKeyframeRequestId c,
     dls_lastRenderedFrameId = dl_lastRenderedFrameId c,
     dls_reconnectRenderedFramesBaseline = dl_reconnectRenderedFramesBaseline c,
     dls_reconnectPauses = dl_reconnectPauses c, dls_reconnectResumes = dl_reconnectResumes c,
     dls_decoderCodec = effective_codec (dl_decoderCodec c)
       (map_option (\<lambda>decoder. vd_codecRuntimeInfo decoder w) (dl_decoder c))\<rparr>"

section \<open>What a key frame request changes\<close>

text \<open>
  Everything a request or a response changes in the client: the tracker and the three fields that
  report on requests.
\<close>

definition request_fields ::
    "message_id \<Rightarrow> unit tracker \<Rightarrow> int \<Rightarrow> int \<Rightarrow> 'w display_client \<Rightarrow> 'w display_client" where
  "request_fields i t r f c = c\<lparr>dl_lastKeyframeRequestId := i, dl_tracker := t,
     dl_keyframeResponses := r, dl_keyframeRequestFailures := f\<rparr>"

lemma request_fields_simps [simp]:
  "dl_lastKeyframeRequestId (request_fields i t r f c) = i"
  "dl_tracker (request_fields i t r f c) = t"
  "dl_keyframeResponses (request_fields i t r f c) = r"
  "dl_keyframeRequestFailures (request_fields i t r f c) = f"
  "dl_manifest (request_fields i t r f c) = dl_manifest c"
  "dl_runtime (request_fields i t r f c) = dl_runtime c"
  "dl_state (request_fields i t r f c) = dl_state c"
  "dl_decoder (request_fields i t r f c) = dl_decoder c"
  "dl_renderer (request_fields i t r f c) = dl_renderer c"
  "dl_lastRenderedFrameId (request_fields i t r f c) = dl_lastRenderedFrameId c"
  "dl_receivedFrames (request_fields i t r f c) = dl_receivedFrames c"
  "dl_decodedFrames (request_fields i t r f c) = dl_decodedFrames c"
  "dl_renderedFrames (request_fields i t r f c) = dl_renderedFrames c"
  "dl_droppedFrames (request_fields i t r f c) = dl_droppedFrames c"
  "dl_renderErrors (request_fields i t r f c) = dl_renderErrors c"
  "dl_decoderRecoveries (request_fields i t r f c) = dl_decoderRecoveries c"
  "dl_decoderPendingFrames (request_fields i t r f c) = dl_decoderPendingFrames c"
  "request_fields j u q g (request_fields i t r f c) = request_fields j u q g c"
  by (simp_all add: request_fields_def)

definition settled_requests :: "'w display_client \<Rightarrow> int" where
  "settled_requests c = dl_keyframeResponses c + dl_keyframeRequestFailures c"

definition request_outcome ::
    "int \<Rightarrow> 'w display_client \<Rightarrow> 'w display_client \<Rightarrow> bool" where
  "request_outcome requests c c' \<longleftrightarrow>
     (\<exists>i t r f. c' = request_fields i t r f c \<and> tracker_ok t \<and> dl_keyframeResponses c \<le> r \<and>
        dl_keyframeRequestFailures c \<le> f \<and>
        r + f + int (pendingCount t) =
          settled_requests c + int (pendingCount (dl_tracker c)) + requests)"

lemma request_outcomeI:
  assumes "c' = request_fields i t r f c" and "tracker_ok t" and "dl_keyframeResponses c \<le> r"
    and "dl_keyframeRequestFailures c \<le> f"
    and "r + f + int (pendingCount t) =
      settled_requests c + int (pendingCount (dl_tracker c)) + requests"
  shows "request_outcome requests c c'"
  using assms unfolding request_outcome_def by blast

lemma handleKeyframeResponse_changes:
  "fst (handleKeyframeResponse packet c x) =
     c\<lparr>dl_keyframeRequestFailures := dl_keyframeRequestFailures c + 1\<rparr> \<or>
   fst (handleKeyframeResponse packet c x) =
     c\<lparr>dl_keyframeResponses := dl_keyframeResponses c + 1\<rparr>"
  by (simp add: handleKeyframeResponse_def Let_def)

lemma run_handlers_changes:
  "\<exists>r f. fst (run_handlers calls c x) =
       c\<lparr>dl_keyframeResponses := r, dl_keyframeRequestFailures := f\<rparr> \<and>
     dl_keyframeResponses c \<le> r \<and> dl_keyframeRequestFailures c \<le> f \<and>
     r + f = settled_requests c + int (length calls)"
proof (induction calls c x rule: run_handlers.induct)
  case (1 c x)
  have "fst (run_handlers [] c x) = c\<lparr>dl_keyframeResponses := dl_keyframeResponses c,
      dl_keyframeRequestFailures := dl_keyframeRequestFailures c\<rparr>" by simp
  then show ?case by (intro exI) (auto simp: settled_requests_def)
next
  case (2 u packet calls c x)
  let ?c = "fst (handleKeyframeResponse packet c x)" and ?x = "snd (handleKeyframeResponse packet c x)"
  obtain r f where rf: "fst (run_handlers calls ?c ?x) =
      ?c\<lparr>dl_keyframeResponses := r, dl_keyframeRequestFailures := f\<rparr>"
      "dl_keyframeResponses ?c \<le> r" "dl_keyframeRequestFailures ?c \<le> f"
      "r + f = settled_requests ?c + int (length calls)"
    using "2.IH" [OF refl prod.collapse] by auto
  have "fst (run_handlers ((u, packet) # calls) c x) =
      c\<lparr>dl_keyframeResponses := r, dl_keyframeRequestFailures := f\<rparr>"
    using rf(1) handleKeyframeResponse_changes [of packet c x] by (auto simp: split_beta)
  then show ?case
    using rf(2-4) handleKeyframeResponse_changes [of packet c x]
    by (intro exI [of _ r] exI [of _ f]) (auto simp: settled_requests_def)
qed

lemma complete_request_outcome:
  assumes "tracker_ok (dl_tracker c)" and "isTerminalResponse (pk_messageKind packet)"
  shows "request_outcome 0 c (fst (complete_request packet c x))"
proof -
  let ?result = "complete packet (dl_tracker c)"
  let ?calls = "fst (snd ?result)" and ?t = "snd (snd ?result)"
  obtain r f where rf: "fst (run_handlers ?calls (c\<lparr>dl_tracker := ?t\<rparr>) x) =
      c\<lparr>dl_tracker := ?t, dl_keyframeResponses := r, dl_keyframeRequestFailures := f\<rparr>"
      "dl_keyframeResponses c \<le> r" "dl_keyframeRequestFailures c \<le> f"
      "r + f = settled_requests c + int (length ?calls)"
    using run_handlers_changes [of ?calls "c\<lparr>dl_tracker := ?t\<rparr>" x] by (auto simp: settled_requests_def)
  have "fst (complete_request packet c x) = request_fields (dl_lastKeyframeRequestId c) ?t r f c"
    using rf(1) by (simp add: complete_request_def split_beta request_fields_def)
  then show ?thesis
    by (rule request_outcomeI)
      (use rf(2-4) complete_count [OF assms] complete_ok [OF assms(1), of packet] in \<open>simp_all\<close>)
qed

lemma requestKeyFrame_outcome:
  assumes ok: "tracker_ok (dl_tracker c)"
  shows "request_outcome (if client_unlinked c then 0 else 1) c
    (fst (snd (requestKeyFrame env reason c x)))"
proof (cases "client_unlinked c")
  case True
  have "c = request_fields (dl_lastKeyframeRequestId c) (dl_tracker c) (dl_keyframeResponses c)
      (dl_keyframeRequestFailures c) c" by (simp add: request_fields_def)
  then have "request_outcome 0 c c"
    by (rule request_outcomeI) (simp_all add: ok settled_requests_def)
  then show ?thesis using True by (simp add: requestKeyFrame_def)
next
  case False
  let ?id = "fst (nextMessageId (dl_tracker c))" and ?t = "snd (nextMessageId (dl_tracker c))"
  let ?now = "fst (on_rest (de_now env) x)" and ?x = "snd (on_rest (de_now env) x)"
  let ?request = "keyframe_request (dl_runtime c) ?id ?now reason"
  let ?tracked = "track ?request (Some ()) ?t"
  let ?c = "c\<lparr>dl_lastKeyframeRequestId := ?id, dl_tracker := snd ?tracked\<rparr>"
  let ?sent = "display_send (de_channels env) (dl_runtime c) ?request ?x"
  let ?failed = "?request\<lparr>pk_messageKind := MK_Error,
      pk_responseStatus := sendStatusToResponseStatus (sr_status (fst ?sent)),
      pk_responseTo := pk_messageId ?request\<rparr>"
  have result: "fst (snd (requestKeyFrame env reason c x)) =
      (if \<not> tr_tracked (fst ?tracked) then
         ?c\<lparr>dl_keyframeRequestFailures := dl_keyframeRequestFailures c + 1\<rparr>
       else if sr_status (fst ?sent) = SS_Sent then ?c
       else fst (complete_request ?failed ?c (snd ?sent)))"
    using False by (simp add: requestKeyFrame_def split_beta Let_def)
  have pending: "pendingCount ?t = pendingCount (dl_tracker c)"
    by (simp add: nextMessageId_def pendingCount_def Let_def)
  have tracked_ok: "tracker_ok (snd ?tracked)" by (intro preserves ok)
  note count = track_count [of ?request "Some ()" ?t, unfolded pending]
  have changed: "?c\<lparr>dl_keyframeRequestFailures := f\<rparr> =
      request_fields ?id (snd ?tracked) (dl_keyframeResponses c) f c" for f
    by (simp add: request_fields_def)
  have sent: "?c = request_fields ?id (snd ?tracked) (dl_keyframeResponses c)
      (dl_keyframeRequestFailures c) c" by (simp add: request_fields_def)
  have later: "request_outcome 1 c c'" if "request_outcome 0 ?c c'" "tr_tracked (fst ?tracked)" for c'
  proof -
    from that(1) obtain i t r f where c': "c' = request_fields i t r f ?c" and t: "tracker_ok t"
      and rf: "dl_keyframeResponses ?c \<le> r" "dl_keyframeRequestFailures ?c \<le> f"
        "r + f + int (pendingCount t) = settled_requests ?c + int (pendingCount (dl_tracker ?c))"
      by (auto simp: request_outcome_def)
    have "c' = request_fields i t r f c" using c' unfolding sent by simp
    then show ?thesis
      by (rule request_outcomeI) (use t rf that(2) count in \<open>simp_all add: settled_requests_def\<close>)
  qed
  show ?thesis
  proof (cases "tr_tracked (fst ?tracked)")
    case untracked: False
    have "request_outcome 1 c (?c\<lparr>dl_keyframeRequestFailures := dl_keyframeRequestFailures c + 1\<rparr>)"
      by (rule request_outcomeI [OF changed])
        (use untracked count tracked_ok in \<open>simp_all add: settled_requests_def\<close>)
    then show ?thesis using untracked False by (simp add: result)
  next
    case tracked: True
    have "?c = request_fields ?id (snd ?tracked) (dl_keyframeResponses ?c)
        (dl_keyframeRequestFailures ?c) ?c" by (simp add: request_fields_def)
    then have "request_outcome 0 ?c ?c"
      by (rule request_outcomeI) (use tracked_ok in \<open>simp_all add: settled_requests_def\<close>)
    moreover have "request_outcome 0 ?c (fst (complete_request ?failed ?c (snd ?sent)))"
      by (rule complete_request_outcome) (use tracked_ok in \<open>simp_all add: isTerminalResponse_def\<close>)
    ultimately show ?thesis using tracked False later by (simp add: result)
  qed
qed

lemma requestRecovery_outcome:
  assumes "tracker_ok (dl_tracker c)"
  obtains i t r f where "fst (requestRecoveryKeyFrame env reason c x) = request_fields i t r f c"
    and "tracker_ok t" and "dl_keyframeResponses c \<le> r" and "dl_keyframeRequestFailures c \<le> f"
    and "r + f + int (pendingCount t) = settled_requests c + int (pendingCount (dl_tracker c)) +
      (if client_unlinked c then 0 else 1)"
  using requestKeyFrame_outcome [OF assms, of env reason x] that
  by (auto simp: requestRecoveryKeyFrame_def request_outcome_def)

section \<open>What a frame changes\<close>

text \<open>
  The balance of the frame counters, and the requests: those settled or pending are those made for
  recovery and those made otherwise.
\<close>

definition frames_balance :: "'w display_client \<Rightarrow> bool" where
  "frames_balance c \<longleftrightarrow>
     dl_receivedFrames c = dl_droppedFrames c + dl_decoderPendingFrames c + dl_decodedFrames c \<and>
     dl_decodedFrames c = dl_renderedFrames c + dl_renderErrors c \<and> 0 \<le> dl_renderedFrames c \<and>
     0 \<le> dl_renderErrors c \<and> 0 \<le> dl_droppedFrames c \<and> 0 \<le> dl_decoderPendingFrames c"

definition open_and_settled :: "'w display_client \<Rightarrow> int" where
  "open_and_settled c = settled_requests c + int (pendingCount (dl_tracker c))"

definition can_show :: "decoded_frame \<Rightarrow> 'w display_client \<Rightarrow> bool" where
  "can_show f c \<longleftrightarrow> df_decodeStatus f = DDS_Ok \<and> dl_lastRenderedFrameId c < df_frameId f \<and>
     (0 < dl_renderedFrames c \<longrightarrow> df_frameId f = dl_lastRenderedFrameId c + 1 \<or> df_keyFrame f)"

definition client_kept :: "'w display_client \<Rightarrow> 'w display_client \<Rightarrow> bool" where
  "client_kept c c' \<longleftrightarrow> dl_runtime c' = dl_runtime c \<and> dl_decoder c' = dl_decoder c \<and>
     dl_renderer c' = dl_renderer c"

text \<open>A step of the frame machinery: the counters balance, and at most one frame is shown.\<close>

definition frame_step :: "decoded_frame option \<Rightarrow> 'w display_client \<Rightarrow> 'w display_client \<Rightarrow> bool" where
  "frame_step shown c c' \<longleftrightarrow> client_kept c c' \<and> tracker_ok (dl_tracker c') \<and>
     dl_decoderRecoveries c \<le> dl_decoderRecoveries c' \<and>
     open_and_settled c' - open_and_settled c =
       (if client_unlinked c then 0 else dl_decoderRecoveries c' - dl_decoderRecoveries c) \<and>
     dl_keyframeResponses c \<le> dl_keyframeResponses c' \<and>
     dl_keyframeRequestFailures c \<le> dl_keyframeRequestFailures c' \<and>
     (case shown of
        None \<Rightarrow> dl_renderedFrames c' = dl_renderedFrames c \<and>
          dl_lastRenderedFrameId c' = dl_lastRenderedFrameId c
      | Some f \<Rightarrow> can_show f c \<and> dl_renderedFrames c' = dl_renderedFrames c + 1 \<and>
          dl_lastRenderedFrameId c' = df_frameId f)"

lemmas frame_step_defs = frame_step_def client_kept_def open_and_settled_def settled_requests_def
  client_unlinked_def frames_balance_def

text \<open>A branch that counts something and then asks for a key frame.\<close>

lemma recovery_step:
  assumes "tracker_ok (dl_tracker c)"
    and "client_kept c d" and "dl_tracker d = dl_tracker c"
    and "dl_keyframeResponses d = dl_keyframeResponses c"
    and "dl_keyframeRequestFailures d = dl_keyframeRequestFailures c"
    and "dl_decoderRecoveries d = dl_decoderRecoveries c + 1"
    and "dl_renderedFrames d = dl_renderedFrames c"
    and "dl_lastRenderedFrameId d = dl_lastRenderedFrameId c"
  shows "frame_step None c (fst (requestRecoveryKeyFrame env reason d x))"
    and "frames_balance (fst (requestRecoveryKeyFrame env reason d x)) = frames_balance d"
proof -
  have "tracker_ok (dl_tracker d)" using assms by simp
  then obtain i t r f where
      outcome: "fst (requestRecoveryKeyFrame env reason d x) = request_fields i t r f d" "tracker_ok t"
      "dl_keyframeResponses d \<le> r" "dl_keyframeRequestFailures d \<le> f"
      "r + f + int (pendingCount t) = settled_requests d + int (pendingCount (dl_tracker d)) +
        (if client_unlinked d then 0 else 1)"
    by (rule requestRecovery_outcome)
  show "frame_step None c (fst (requestRecoveryKeyFrame env reason d x))"
    unfolding outcome(1) using outcome(2-5) assms(2-8)
    by (simp add: frame_step_defs)
  show "frames_balance (fst (requestRecoveryKeyFrame env reason d x)) = frames_balance d"
    unfolding outcome(1) by (simp add: frames_balance_def)
qed

text \<open>One received frame is still to be accounted for.\<close>

definition frame_due :: "'w display_client \<Rightarrow> bool" where
  "frame_due c \<longleftrightarrow> frames_balance (c\<lparr>dl_receivedFrames := dl_receivedFrames c - 1\<rparr>)"

lemma frame_step_publish_free:
  assumes "tracker_ok (dl_tracker c)" and "client_kept c d" and "dl_tracker d = dl_tracker c"
    and "dl_keyframeResponses d = dl_keyframeResponses c"
    and "dl_keyframeRequestFailures d = dl_keyframeRequestFailures c"
    and "dl_decoderRecoveries d = dl_decoderRecoveries c"
    and "dl_renderedFrames d = dl_renderedFrames c"
    and "dl_lastRenderedFrameId d = dl_lastRenderedFrameId c"
  shows "frame_step None c d"
  using assms by (simp add: frame_step_defs)

lemma present_step:
  assumes ok: "tracker_ok (dl_tracker c)" and can: "can_show decoded c" and due: "frame_due c"
  shows "(frame_step None c (fst (snd (present_frame env encoded decoded renderer c x))) \<or>
      frame_step (Some decoded) c (fst (snd (present_frame env encoded decoded renderer c x)))) \<and>
    frames_balance (fst (snd (present_frame env encoded decoded renderer c x)))"
proof -
  let ?size = "of_nat (length (df_pixels decoded))"
  let ?c = "c\<lparr>dl_delayedDecodedFrames := (if df_frameId decoded \<noteq> ef_frameId encoded
               then dl_delayedDecodedFrames c + 1 else dl_delayedDecodedFrames c),
             dl_decoderHasPendingInput := (df_frameId decoded < ef_frameId encoded),
             dl_decodedFrames := dl_decodedFrames c + 1, dl_lastDecodedPixelBytes := ?size,
             dl_decodedPixelBytes := dl_decodedPixelBytes c + ?size\<rparr>"
  let ?x = "snd (on_rest (vr_render renderer decoded) x)"
  let ?failed = "?c\<lparr>dl_renderErrors := dl_renderErrors c + 1,
                dl_decoderRecoveries := dl_decoderRecoveries c + 1\<rparr>"
  let ?shown = "?c\<lparr>dl_lastRenderedPixelBytes := ?size,
                dl_renderedPixelBytes := dl_renderedPixelBytes c + ?size,
                dl_renderedFrames := dl_renderedFrames c + 1,
                dl_lastRenderedFrameId := df_frameId decoded\<rparr>"
  have result: "fst (snd (present_frame env encoded decoded renderer c x)) =
      (if fst (vr_render renderer decoded (sw_rest x)) then ?shown
       else fst (requestRecoveryKeyFrame env KR_DecoderReset ?failed ?x))"
    by (simp add: present_frame_def Let_def split_beta)
  have "frame_step None c (fst (requestRecoveryKeyFrame env KR_DecoderReset ?failed ?x))"
    by (rule recovery_step(1)) (simp_all add: ok client_kept_def)
  moreover have "frames_balance (fst (requestRecoveryKeyFrame env KR_DecoderReset ?failed ?x)) =
      frames_balance ?failed"
    by (rule recovery_step(2) [of c]) (simp_all add: ok client_kept_def)
  moreover have "frames_balance ?failed" "frames_balance ?shown"
    using due by (simp_all add: frame_due_def frames_balance_def)
  moreover have "frame_step (Some decoded) c ?shown"
    using ok can by (simp add: frame_step_defs)
  ultimately show ?thesis unfolding result by simp
qed

lemma judge_step:
  fixes c :: "'w display_client" and x :: "('c, 's, 'w) session_world"
  assumes ok: "tracker_ok (dl_tracker c)" and due: "frame_due c"
  shows "(frame_step None c (fst (snd (judge_decoded env encoded decoded renderer c x))) \<or>
      frame_step (Some decoded) c (fst (snd (judge_decoded env encoded decoded renderer c x)))) \<and>
    frames_balance (fst (snd (judge_decoded env encoded decoded renderer c x)))"
proof -
  let ?r = "fst (snd (judge_decoded env encoded decoded renderer c x))"
  let ?failed = "c\<lparr>dl_decoderHasPendingInput := False, dl_decodeErrors := dl_decodeErrors c + 1,
      dl_droppedFrames := dl_droppedFrames c + 1, dl_decoderRecoveries := dl_decoderRecoveries c + 1\<rparr>"
  let ?gap = "c\<lparr>dl_droppedFrames := dl_droppedFrames c + 1, dl_frameGaps := dl_frameGaps c + 1,
      dl_decoderRecoveries := dl_decoderRecoveries c + 1\<rparr>"
  consider (pending) "?r = c\<lparr>dl_decoderPendingFrames := dl_decoderPendingFrames c + 1,
        dl_decoderHasPendingInput := True\<rparr>"
    | (failed) y :: "('c, 's, 'w) session_world" where "?r = fst (requestRecoveryKeyFrame env KR_DecoderReset ?failed y)"
    | (stale) "?r = c\<lparr>dl_droppedFrames := dl_droppedFrames c + 1\<rparr>"
    | (gap) y :: "('c, 's, 'w) session_world" where "?r = fst (requestRecoveryKeyFrame env KR_FrameGap ?gap y)"
    | (due) "can_show decoded c" "?r = fst (snd (present_frame env encoded decoded renderer c x))"
  proof (cases "df_decodeStatus decoded = DDS_NeedsMoreInput")
    case True
    then show thesis using pending by (simp add: judge_decoded_def)
  next
    case more: False
    show thesis
    proof (cases "df_decodeStatus decoded \<noteq> DDS_Ok \<or> df_frameId decoded = 0 \<or>
        df_frameId decoded > ef_frameId encoded")
      case True
      show thesis
        by (rule failed [of "dclient_publish ''display.frame_decode_failed''
              ''display frame decode failed'' c x"])
          (use True more in \<open>auto simp: judge_decoded_def\<close>)
    next
      case good: False
      show thesis
      proof (cases "df_frameId decoded \<le> dl_lastRenderedFrameId c")
        case True
        then show thesis using more good stale by (simp add: judge_decoded_def)
      next
        case fresh: False
        show thesis
        proof (cases "dl_renderedFrames c > 0 \<and> df_frameId decoded > dl_lastRenderedFrameId c + 1 \<and>
            \<not> df_keyFrame decoded")
          case True
          show thesis
            by (rule gap [of "dclient_publish ''display.frame_gap_detected''
                  ''display frame gap detected'' c x"])
              (use True more good fresh in \<open>simp add: judge_decoded_def\<close>)
        next
          case False
          have "dl_lastRenderedFrameId c + 1 \<le> df_frameId decoded"
            using fresh by (simp add: not_le inc_le)
          then have "can_show decoded c"
            using False good fresh by (auto simp: can_show_def not_le)
          then show thesis
            by (rule due) (use more good fresh False in \<open>auto simp: judge_decoded_def\<close>)
        qed
      qed
    qed
  qed
  then show ?thesis
  proof cases
    case pending
    show ?thesis unfolding pending
      using due frame_step_publish_free [OF ok] by (simp add: frame_due_def frames_balance_def client_kept_def)
  next
    case (failed y)
    have "frame_step None c ?r" unfolding failed
      by (rule recovery_step(1)) (simp_all add: ok client_kept_def)
    moreover have "frames_balance ?r = frames_balance ?failed" unfolding failed
      by (rule recovery_step(2) [of c]) (simp_all add: ok client_kept_def)
    ultimately show ?thesis using due by (simp add: frame_due_def frames_balance_def)
  next
    case stale
    show ?thesis unfolding stale
      using due frame_step_publish_free [OF ok] by (simp add: frame_due_def frames_balance_def client_kept_def)
  next
    case (gap y)
    have "frame_step None c ?r" unfolding gap
      by (rule recovery_step(1)) (simp_all add: ok client_kept_def)
    moreover have "frames_balance ?r = frames_balance ?gap" unfolding gap
      by (rule recovery_step(2) [of c]) (simp_all add: ok client_kept_def)
    ultimately show ?thesis using due by (simp add: frame_due_def frames_balance_def)
  next
    case due': due
    show ?thesis unfolding due'(2) by (rule present_step [OF ok due'(1) due])
  qed
qed

text \<open>The frame a received packet puts on the screen, if it does.\<close>

definition shown_by ::
    "('c, 'w) display_env \<Rightarrow> packet_envelope \<Rightarrow> 'w display_client \<Rightarrow> ('c, 's, 'w) session_world \<Rightarrow>
     decoded_frame option" where
  "shown_by env packet c x =
    (case dl_decoder c of
       None \<Rightarrow> None
     | Some decoder \<Rightarrow>
         if dl_renderedFrames (fst (snd (renderVideo env packet c x))) = dl_renderedFrames c then None
         else Some (fst (vd_decode decoder (received_frame packet) (sw_rest x))))"

definition client_ready :: "'w display_client \<Rightarrow> bool" where
  "client_ready c \<longleftrightarrow> dl_decoder c \<noteq> None \<and> dl_renderer c \<noteq> None \<and> tracker_ok (dl_tracker c) \<and>
     frames_balance c"

lemma frame_step_rendered:
  "frame_step shown c c' \<Longrightarrow> shown = None \<longleftrightarrow> dl_renderedFrames c' = dl_renderedFrames c"
  by (auto simp: frame_step_def split: option.splits)

lemma frame_step_from:
  assumes "frame_step shown d c'" and "client_kept c d" and "dl_tracker d = dl_tracker c"
    and "dl_keyframeResponses d = dl_keyframeResponses c"
    and "dl_keyframeRequestFailures d = dl_keyframeRequestFailures c"
    and "dl_decoderRecoveries d = dl_decoderRecoveries c"
    and "dl_renderedFrames d = dl_renderedFrames c"
    and "dl_lastRenderedFrameId d = dl_lastRenderedFrameId c"
  shows "frame_step shown c c'"
  using assms by (simp add: frame_step_defs can_show_def split: option.splits)

lemma renderVideo_step:
  fixes c :: "'w display_client" and x :: "('c, 's, 'w) session_world"
  assumes ready: "client_ready c"
  shows "frame_step (shown_by env packet c x) c (fst (snd (renderVideo env packet c x))) \<and>
    frames_balance (fst (snd (renderVideo env packet c x)))"
proof -
  obtain decoder renderer where devices: "dl_decoder c = Some decoder" "dl_renderer c = Some renderer"
    using ready by (auto simp: client_ready_def)
  have ok: "tracker_ok (dl_tracker c)" and balance: "frames_balance c"
    using ready by (simp_all add: client_ready_def)
  let ?r = "fst (snd (renderVideo env packet c x))"
  let ?encoded = "received_frame packet" and ?size = "of_nat (length (pk_payload packet))"
  let ?d = "c\<lparr>dl_receivedFrames := dl_receivedFrames c + 1, dl_lastReceivedPayloadBytes := ?size,
      dl_receivedPayloadBytes := dl_receivedPayloadBytes c + ?size\<rparr>"
  let ?missing = "?d\<lparr>dl_droppedFrames := dl_droppedFrames c + 1,
      dl_decoderRecoveries := dl_decoderRecoveries c + 1\<rparr>"
  let ?stale = "?d\<lparr>dl_droppedFrames := dl_droppedFrames c + 1\<rparr>"
  let ?decoded = "fst (vd_decode decoder ?encoded (sw_rest x))"
  have due: "frame_due ?d" using balance by (simp add: frame_due_def frames_balance_def)
  have unseen: "frame_step None c c" using ok by (simp add: frame_step_defs)
  consider (other) "?r = c"
    | (missing) y :: "('c, 's, 'w) session_world"
      where "?r = fst (requestRecoveryKeyFrame env KR_FirstFrameTimeout ?missing y)"
    | (stale) "?r = ?stale"
    | (decoded) y :: "('c, 's, 'w) session_world"
      where "?r = fst (snd (judge_decoded env ?encoded ?decoded renderer ?d y))"
  proof (cases "pk_messageKind packet = MK_Event")
    case False
    then show thesis by (intro other) (simp add: renderVideo_def)
  next
    case event: True
    show thesis
    proof (cases "dl_renderedFrames c = 0 \<and> \<not> dl_decoderHasPendingInput c \<and> \<not> ef_keyFrame ?encoded")
      case True
      then show thesis
        by (intro missing [of "dclient_publish ''display.first_frame_missing''
             ''first display frame is not a keyframe'' ?d x"])
          (simp add: renderVideo_def event Let_def)
    next
      case first: False
      show thesis
      proof (cases "dl_renderedFrames c > 0 \<and> ef_frameId ?encoded \<le> dl_lastRenderedFrameId c")
        case True
        then show thesis by (intro stale) (simp add: renderVideo_def event Let_def)
      next
        case False
        then show thesis
          by (intro decoded [of "snd (on_rest (vd_decode decoder ?encoded) x)"])
            (use first in \<open>auto simp: renderVideo_def event devices Let_def split_beta\<close>)
      qed
    qed
  qed
  then have "\<exists>shown. frame_step shown c ?r \<and> (shown = None \<or> shown = Some ?decoded) \<and> frames_balance ?r"
  proof cases
    case other
    then show ?thesis using unseen balance by auto
  next
    case (missing y)
    have "frame_step None c ?r" unfolding missing
      by (rule recovery_step(1)) (simp_all add: ok client_kept_def)
    moreover have "frames_balance ?r = frames_balance ?missing" unfolding missing
      by (rule recovery_step(2) [of c]) (simp_all add: ok client_kept_def)
    ultimately show ?thesis using balance by (auto simp: frames_balance_def)
  next
    case stale
    have "frame_step None c ?r" unfolding stale
      by (rule frame_step_publish_free) (simp_all add: ok client_kept_def)
    then show ?thesis using balance stale by (auto simp: frames_balance_def)
  next
    case (decoded y)
    have "frames_balance ?r" "frame_step None ?d ?r \<or> frame_step (Some ?decoded) ?d ?r"
      unfolding decoded using judge_step [of ?d env ?encoded ?decoded renderer y] ok due by simp_all
    moreover have "frame_step shown ?d ?r \<Longrightarrow> frame_step shown c ?r" for shown
      by (erule frame_step_from) (simp_all add: client_kept_def)
    ultimately show ?thesis by blast
  qed
  then obtain shown where shown: "frame_step shown c ?r" "shown = None \<or> shown = Some ?decoded"
    "frames_balance ?r" by blast
  have "shown_by env packet c x = shown"
    using shown(2) frame_step_rendered [OF shown(1)] by (auto simp: shown_by_def devices)
  then show ?thesis using shown by simp
qed

section \<open>Runs of a client\<close>

datatype dclient_op = DClientAttach module_runtime | DClientStart | DClientStop | DClientDetach
  | DClientPause | DClientResume reconnect_options | DClientPacket packet_envelope
  | DClientRequest keyframe_reason | DClientExpire u64

definition dclient_step ::
    "('c, 'w) display_env \<Rightarrow> dclient_op \<Rightarrow> 'w display_client \<times> ('c, 's, 'w) session_world \<Rightarrow>
     'w display_client \<times> ('c, 's, 'w) session_world" where
  "dclient_step env operation cx = (let (c, x) = cx in
     case operation of
       DClientAttach rt \<Rightarrow> (snd (dclient_attach rt c), x)
     | DClientStart \<Rightarrow> (snd (dclient_start c), x)
     | DClientStop \<Rightarrow> (dclient_stop c, x)
     | DClientDetach \<Rightarrow> (dclient_detach c, x)
     | DClientPause \<Rightarrow> dclient_pause c x
     | DClientResume options \<Rightarrow> dclient_resume env options c x
     | DClientPacket packet \<Rightarrow> dclient_handlePacket env packet c x
     | DClientRequest reason \<Rightarrow> snd (requestKeyFrame env reason c x)
     | DClientExpire nowUsec \<Rightarrow> snd (expireKeyframeRequests nowUsec c x))"

text \<open>The key frame requests an operation makes, and the frame it shows.\<close>

definition requests_made ::
    "('c, 'w) display_env \<Rightarrow> dclient_op \<Rightarrow> 'w display_client \<times> ('c, 's, 'w) session_world \<Rightarrow> nat" where
  "requests_made env operation cx =
    (if client_unlinked (fst cx) then 0
     else case operation of
       DClientRequest _ \<Rightarrow> 1
     | DClientResume options \<Rightarrow>
         if dl_state (fst cx) = MS_Running \<and> ro_requestFreshState options \<and> affectsDisplayChannel options
         then 1 else 0
     | DClientPacket _ \<Rightarrow>
         nat (dl_decoderRecoveries (fst (dclient_step env operation cx)) - dl_decoderRecoveries (fst cx))
     | _ \<Rightarrow> 0)"

definition shown_frame ::
    "('c, 'w) display_env \<Rightarrow> dclient_op \<Rightarrow> 'w display_client \<times> ('c, 's, 'w) session_world \<Rightarrow>
     decoded_frame option" where
  "shown_frame env operation cx = (case operation of
     DClientPacket packet \<Rightarrow>
       if pk_packetType packet = PT_Video then shown_by env packet (fst cx) (snd cx) else None
   | _ \<Rightarrow> None)"

fun shown_frames ::
    "('c, 'w) display_env \<Rightarrow> dclient_op list \<Rightarrow> 'w display_client \<times> ('c, 's, 'w) session_world \<Rightarrow>
     decoded_frame list" where
  "shown_frames env [] cx = []"
| "shown_frames env (operation # operations) cx =
    (case shown_frame env operation cx of None \<Rightarrow> [] | Some f \<Rightarrow> [f]) @
    shown_frames env operations (dclient_step env operation cx)"

definition client_sound :: "'w display_client \<Rightarrow> bool" where
  "client_sound c \<longleftrightarrow> client_ready c \<and> 0 \<le> dl_keyframeResponses c \<and> 0 \<le> dl_keyframeRequestFailures c"

text \<open>What one operation does: frames, requests, and what it leaves alone.\<close>

definition client_effect ::
    "decoded_frame option \<Rightarrow> nat \<Rightarrow> 'w display_client \<Rightarrow> 'w display_client \<Rightarrow> bool" where
  "client_effect shown requests c c' \<longleftrightarrow> client_sound c' \<and>
     open_and_settled c' = open_and_settled c + int requests \<and>
     (case shown of
        None \<Rightarrow> dl_renderedFrames c' = dl_renderedFrames c \<and>
          dl_lastRenderedFrameId c' = dl_lastRenderedFrameId c
      | Some f \<Rightarrow> can_show f c \<and> dl_renderedFrames c' = dl_renderedFrames c + 1 \<and>
          dl_lastRenderedFrameId c' = df_frameId f)"

lemma outcome_effect:
  assumes "client_sound c" and "request_outcome (int requests) c c'"
  shows "client_effect None requests c c'"
proof -
  from assms(2) obtain i t r f where "c' = request_fields i t r f c" "tracker_ok t"
      "dl_keyframeResponses c \<le> r" "dl_keyframeRequestFailures c \<le> f"
      "r + f + int (pendingCount t) =
        settled_requests c + int (pendingCount (dl_tracker c)) + int requests"
    by (auto simp: request_outcome_def)
  then show ?thesis
    using assms(1)
    by (simp add: client_effect_def client_sound_def client_ready_def frames_balance_def
        open_and_settled_def settled_requests_def)
qed

lemma requestKeyFrame_effect:
  assumes "client_sound c"
  shows "client_effect None (if client_unlinked c then 0 else 1) c
    (fst (snd (requestKeyFrame env reason c x)))"
proof (rule outcome_effect [OF assms])
  have "tracker_ok (dl_tracker c)" using assms by (simp add: client_sound_def client_ready_def)
  then show "request_outcome (int (if client_unlinked c then 0 else 1)) c
      (fst (snd (requestKeyFrame env reason c x)))"
    using requestKeyFrame_outcome [of c env reason x] by (simp split: if_splits)
qed

lemma expire_effect:
  assumes "client_sound c"
  shows "client_effect None 0 c (fst (snd (expireKeyframeRequests nowUsec c x)))"
proof -
  have ok: "tracker_ok (dl_tracker c)" using assms by (simp add: client_sound_def client_ready_def)
  let ?calls = "fst (snd (expire nowUsec (dl_tracker c)))" and ?t = "snd (snd (expire nowUsec (dl_tracker c)))"
  obtain r f where "fst (run_handlers ?calls (c\<lparr>dl_tracker := ?t\<rparr>) x) =
      c\<lparr>dl_tracker := ?t, dl_keyframeResponses := r, dl_keyframeRequestFailures := f\<rparr>"
      "dl_keyframeResponses c \<le> r" "dl_keyframeRequestFailures c \<le> f"
      "r + f = settled_requests c + int (length ?calls)"
    using run_handlers_changes [of ?calls "c\<lparr>dl_tracker := ?t\<rparr>" x] by (auto simp: settled_requests_def)
  then show ?thesis
    using assms expire_count [OF ok, of nowUsec] expire_ok [OF ok, of nowUsec]
    by (simp add: expireKeyframeRequests_def split_beta client_effect_def client_sound_def
        client_ready_def frames_balance_def open_and_settled_def settled_requests_def)
qed

lemma handlePacket_effect:
  assumes sound: "client_sound c"
  shows "client_effect (shown_frame env (DClientPacket packet) (c, x))
    (requests_made env (DClientPacket packet) (c, x)) c (fst (dclient_handlePacket env packet c x))"
proof -
  have ready: "client_ready c" and ok: "tracker_ok (dl_tracker c)"
    using sound by (simp_all add: client_sound_def client_ready_def)
  have step: "dclient_step env (DClientPacket packet) (c, x) = dclient_handlePacket env packet c x"
    by (simp add: dclient_step_def)
  consider (video) "pk_packetType packet = PT_Video"
    | (answer) "pk_packetType packet \<noteq> PT_Video" "isTerminalResponse (pk_messageKind packet)"
        "dclient_handlePacket env packet c x = complete_request packet c x"
    | (other) "pk_packetType packet \<noteq> PT_Video" "dclient_handlePacket env packet c x = (c, x)"
    by (cases "pk_packetType packet = PT_Video"; cases "pk_packetType packet = PT_PayloadAck \<and>
          (pk_messageKind packet = MK_Response \<or> pk_messageKind packet = MK_Error)")
      (auto simp: dclient_handlePacket_def isTerminalResponse_def)
  then show ?thesis
  proof cases
    case video
    have "dclient_handlePacket env packet c x = snd (renderVideo env packet c x)"
      by (simp add: dclient_handlePacket_def video)
    then show ?thesis
      using renderVideo_step [OF ready, of env packet x] sound video
      by (auto simp: client_effect_def shown_frame_def requests_made_def step client_sound_def
          client_ready_def frame_step_def client_kept_def split: option.splits)
  next
    case answer
    have "request_outcome 0 c (fst (complete_request packet c x))"
      by (rule complete_request_outcome [OF ok answer(2)])
    then have outcome: "request_outcome (int 0) c (fst (dclient_handlePacket env packet c x))"
      by (simp add: answer(3))
    then have "dl_decoderRecoveries (fst (dclient_handlePacket env packet c x)) = dl_decoderRecoveries c"
      by (auto simp: request_outcome_def)
    then show ?thesis
      using outcome_effect [OF sound outcome] answer(1)
      by (simp add: shown_frame_def requests_made_def step)
  next
    case other
    then show ?thesis
      using sound by (simp add: client_effect_def shown_frame_def requests_made_def step)
  qed
qed

lemma dclient_step_effect:
  assumes sound: "client_sound (fst cx)"
  shows "client_effect (shown_frame env operation cx) (requests_made env operation cx) (fst cx)
    (fst (dclient_step env operation cx))"
proof (cases operation)
  case (DClientPacket packet)
  then show ?thesis
    using handlePacket_effect [OF sound, of env packet "snd cx"] by (simp add: dclient_step_def split_beta)
next
  case (DClientRequest reason)
  then show ?thesis
    using requestKeyFrame_effect [OF sound, of env reason "snd cx"]
    by (simp add: dclient_step_def shown_frame_def requests_made_def split_beta split: if_splits)
next
  case (DClientExpire nowUsec)
  then show ?thesis
    using expire_effect [OF sound, of nowUsec "snd cx"]
    by (simp add: dclient_step_def shown_frame_def requests_made_def split_beta)
next
  case (DClientResume options)
  let ?c = "(fst cx)\<lparr>dl_reconnectResumes := dl_reconnectResumes (fst cx) + 1,
      dl_reconnectRenderedFramesBaseline := dl_renderedFrames (fst cx)\<rparr>"
  have same: "client_effect shown requests (fst cx) c' = client_effect shown requests ?c c'" for shown requests c'
    by (simp add: client_effect_def open_and_settled_def settled_requests_def can_show_def split: option.splits)
  have sound': "client_sound ?c"
    using sound by (simp add: client_sound_def client_ready_def frames_balance_def)
  have linked: "client_unlinked ?c = client_unlinked (fst cx)" by (simp add: client_unlinked_def)
  have "client_effect None 0 ?c ?c" using sound' by (simp add: client_effect_def)
  then show ?thesis
    unfolding same using requestKeyFrame_effect [OF sound', of env KR_Reconnect] linked
    by (auto simp: DClientResume dclient_step_def dclient_resume_def shown_frame_def requests_made_def
        split_beta Let_def)
qed (use sound in \<open>simp_all add: dclient_step_def shown_frame_def requests_made_def client_effect_def
  dclient_attach_def dclient_start_def dclient_stop_def dclient_detach_def dclient_pause_def
  client_sound_def client_ready_def frames_balance_def open_and_settled_def settled_requests_def
  split_beta\<close>)

lemma dclient_step_sound: "client_sound (fst cx) \<Longrightarrow> client_sound (fst (dclient_step env operation cx))"
  using dclient_step_effect [of cx env operation] by (simp add: client_effect_def)

interpretation display_client: kept_by_steps "dclient_step env" "\<lambda>cx. client_sound (fst cx)" for env
  by unfold_locales (rule dclient_step_sound)

lemma dclient_run_requests:
  assumes "client_sound (fst cx)"
  shows "open_and_settled (fst (fold (dclient_step env) operations cx)) =
    open_and_settled (fst cx) + int (run_total (requests_made env) (dclient_step env) operations cx)"
  using assms
proof (induction operations arbitrary: cx)
  case (Cons operation operations)
  show ?case
    using Cons.IH [OF dclient_step_sound [OF Cons.prems, of env operation]]
      dclient_step_effect [OF Cons.prems, of env operation]
    by (simp add: client_effect_def)
qed simp

section \<open>The order of the frames\<close>

fun follows :: "bool \<Rightarrow> u64 \<Rightarrow> decoded_frame list \<Rightarrow> bool" where
  "follows started prev [] \<longleftrightarrow> True"
| "follows started prev (f # fs) \<longleftrightarrow> df_decodeStatus f = DDS_Ok \<and> prev < df_frameId f \<and>
     (started \<longrightarrow> df_frameId f = prev + 1 \<or> df_keyFrame f) \<and> follows True (df_frameId f) fs"

lemma shown_frames_follow:
  assumes "client_sound (fst cx)"
  shows "follows (0 < dl_renderedFrames (fst cx)) (dl_lastRenderedFrameId (fst cx))
      (shown_frames env operations cx) \<and>
    dl_renderedFrames (fst (fold (dclient_step env) operations cx)) =
      dl_renderedFrames (fst cx) + int (length (shown_frames env operations cx))"
  using assms
proof (induction operations arbitrary: cx)
  case (Cons operation operations)
  let ?cx = "dclient_step env operation cx"
  have effect: "client_effect (shown_frame env operation cx) (requests_made env operation cx) (fst cx) (fst ?cx)"
    by (rule dclient_step_effect [OF Cons.prems])
  have "0 \<le> dl_renderedFrames (fst cx)"
    using Cons.prems by (simp add: client_sound_def client_ready_def frames_balance_def)
  then show ?case
    using Cons.IH [of ?cx] effect
    by (auto simp: client_effect_def can_show_def split: option.splits)
qed simp

lemma follows_order:
  assumes "follows started prev fs"
  shows "sorted_wrt (<) (prev # map df_frameId fs)"
  using assms
proof (induction fs arbitrary: started prev)
  case (Cons f fs)
  then have "sorted_wrt (<) (df_frameId f # map df_frameId fs)" and "prev < df_frameId f" by auto
  then show ?case by (auto intro: less_trans)
qed simp

lemma follows_gaps:
  assumes "follows started prev fs"
  shows "successively (\<lambda>f g. df_frameId g = df_frameId f + 1 \<or> df_keyFrame g) fs \<and>
    list_all (\<lambda>f. df_decodeStatus f = DDS_Ok \<and> df_frameId f \<noteq> 0) fs"
  using assms
proof (induction fs arbitrary: started prev)
  case (Cons f fs)
  then show ?case by (cases fs) (auto simp: word_gt_0)
qed simp

lemma new_client_sound:
  "client_sound (new_display_client (Some decoder) (Some renderer) codec)"
  by (simp add: client_sound_def client_ready_def frames_balance_def new_display_client_def)

section \<open>Properties\<close>

text \<open>
  C11. The screen only moves forward: over every sequence of calls and packets, whatever the network,
  the decoder and the renderer do, the frames a display client successfully renders were decoded
  without error, their ids strictly increase, and wherever an id is skipped the frame that follows
  is a key frame; so no delta is ever applied across a gap or shown late. Their number is the
  counter the client reports.
\<close>

theorem frames_are_shown_in_order:
  "sorted_wrt (<) (map df_frameId
     (shown_frames env operations (new_display_client (Some decoder) (Some renderer) codec, x))) \<and>
   successively (\<lambda>f g. df_frameId g = df_frameId f + 1 \<or> df_keyFrame g)
     (shown_frames env operations (new_display_client (Some decoder) (Some renderer) codec, x)) \<and>
   list_all (\<lambda>f. df_decodeStatus f = DDS_Ok \<and> df_frameId f \<noteq> 0)
     (shown_frames env operations (new_display_client (Some decoder) (Some renderer) codec, x)) \<and>
   dl_renderedFrames (fst (fold (dclient_step env) operations
       (new_display_client (Some decoder) (Some renderer) codec, x))) =
     int (length (shown_frames env operations (new_display_client (Some decoder) (Some renderer) codec, x)))"
proof -
  let ?cx = "(new_display_client (Some decoder) (Some renderer) codec, x)"
  have "client_sound (fst ?cx)" by (simp add: new_client_sound)
  note shown = shown_frames_follow [OF this, of env operations]
  have "follows (0 < dl_renderedFrames (fst ?cx)) (dl_lastRenderedFrameId (fst ?cx))
      (shown_frames env operations ?cx)" using shown by blast
  from follows_order [OF this] follows_gaps [OF this] shown show ?thesis
    by (simp add: new_display_client_def)
qed

text \<open>
  C12. The client accounts for every frame and every request: after any sequence of calls and
  packets, each received frame was dropped, is held by the decoder or was decoded; each decoded one
  was rendered or failed to render; and the key frame requests made so far (by hand, on reconnect or
  to recover, whether they could be sent or not) are exactly those answered, those failed and those
  still pending.
\<close>

theorem display_client_accounts:
  "frames_balance (fst (fold (dclient_step env) operations
      (new_display_client (Some decoder) (Some renderer) codec, x))) \<and>
   open_and_settled (fst (fold (dclient_step env) operations
      (new_display_client (Some decoder) (Some renderer) codec, x))) =
     int (run_total (requests_made env) (dclient_step env) operations
       (new_display_client (Some decoder) (Some renderer) codec, x))"
proof -
  let ?cx = "(new_display_client (Some decoder) (Some renderer) codec, x)"
  have sound: "client_sound (fst ?cx)" by (simp add: new_client_sound)
  have "client_sound (fst (fold (dclient_step env) operations ?cx))"
    by (rule display_client.run_keeps [of ?cx, OF sound])
  moreover have "open_and_settled (fst ?cx) = 0"
    by (simp add: new_display_client_def open_and_settled_def settled_requests_def pendingCount_def
        new_tracker_def)
  ultimately show ?thesis
    using dclient_run_requests [OF sound, of env operations]
    by (simp add: client_sound_def client_ready_def)
qed

end
