(* ===== verification/Clipboard_Window.thy ===== *)
theory Clipboard_Window
  imports Channel_Registry
begin

text \<open>
  \<open>clipboard_large_data_scheduler.cpp\<close>: on which channel a clipboard response in bulk is sent, and
  the window that bounds the bytes in flight on the large-data channel. The schedule looks at the
  channel registry of \<open>Channel_Registry\<close>; the window is a record of four 64-bit counters, whose
  additions wrap.
\<close>

section \<open>The schedule\<close>

definition clipboardSmallDataChannelKey :: channel_key where
  "clipboardSmallDataChannelKey = ChannelKey CID_SmallData CT_Standard"

definition clipboardLargeDataChannelKey :: channel_key where
  "clipboardLargeDataChannelKey = ChannelKey CID_LargeData CT_Standard"

record schedule_options =
  lo_smallDataFallbackBytes :: u64
  lo_largeDataWindowBytes :: u64
  lo_largeDataInFlightBytes :: u64

definition default_schedule_options :: schedule_options where
  "default_schedule_options = \<lparr>lo_smallDataFallbackBytes = 1024 * 1024, lo_largeDataWindowBytes = 0,
     lo_largeDataInFlightBytes = 0\<rparr>"

record schedule_result =
  ls_status :: response_status
  ls_channel :: channel_key
  ls_usesLargeData :: bool
  ls_message :: string

definition pressureBlocksBulk :: "pressure_level \<Rightarrow> bool" where
  "pressureBlocksBulk level \<longleftrightarrow> level = PL_Congested \<or> level = PL_Closed \<or> level = PL_Failed"

definition windowBlocksBulk :: "u64 \<Rightarrow> schedule_options \<Rightarrow> bool" where
  "windowBlocksBulk payloadBytes options =
    (if lo_largeDataWindowBytes options = 0 then False
     else if lo_largeDataInFlightBytes options \<ge> lo_largeDataWindowBytes options then True
     else payloadBytes > lo_largeDataWindowBytes options - lo_largeDataInFlightBytes options)"

definition large_probe :: "packet_envelope \<Rightarrow> packet_envelope" where
  "large_probe packet = packet\<lparr>pk_channelId := key_channelId clipboardLargeDataChannelKey,
     pk_channelType := key_channelType clipboardLargeDataChannelKey\<rparr>"

text \<open>The registry is a pointer that may be null.\<close>

definition scheduleClipboardBulkResponse ::
    "'c channel_registry option \<Rightarrow> packet_envelope \<Rightarrow> u64 \<Rightarrow> schedule_options \<Rightarrow> schedule_result" where
  "scheduleClipboardBulkResponse channels packet payloadBytes options =
    (let result = \<lparr>ls_status = RS_Ok, ls_channel = clipboardSmallDataChannelKey,
           ls_usesLargeData = False, ls_message = []\<rparr>
     in if pk_packetType packet \<noteq> PT_Clipboard \<or> pk_priority packet \<noteq> PP_Bulk then result
     else case channels of
       None \<Rightarrow> result
     | Some reg \<Rightarrow>
         let validation = validatePacket reg (large_probe packet)
         in if rr_ok validation then
              let snapshot = registry_snapshot reg clipboardLargeDataChannelKey
              in if pressureBlocksBulk (pr_level (cs_pressure snapshot)) then
                   result\<lparr>ls_status := RS_BackPressure, ls_message :=
                     (if cs_message snapshot = [] then ''clipboard large_data channel is congested''
                      else cs_message snapshot)\<rparr>
                 else if windowBlocksBulk payloadBytes options then
                   result\<lparr>ls_status := RS_BackPressure,
                     ls_message := ''clipboard large_data window is full''\<rparr>
                 else result\<lparr>ls_channel := clipboardLargeDataChannelKey, ls_usesLargeData := True\<rparr>
            else
              let fallbackBytes = (if lo_smallDataFallbackBytes options = 0 then 1024 * 1024
                    else lo_smallDataFallbackBytes options)
              in if payloadBytes \<le> fallbackBytes then result
                 else result\<lparr>ls_status := rr_responseStatus validation, ls_message :=
                   (if rr_message validation = []
                    then ''clipboard large_data channel is unavailable for file content''
                    else rr_message validation)\<rparr>)"

definition applyClipboardLargeDataSchedule :: "schedule_result \<Rightarrow> packet_envelope \<Rightarrow> packet_envelope" where
  "applyClipboardLargeDataSchedule schedule packet = packet\<lparr>
     pk_channelId := key_channelId (ls_channel schedule),
     pk_channelType := key_channelType (ls_channel schedule)\<rparr>"

section \<open>The window\<close>

record data_window =
  dw_maxInFlightBytes :: u64
  dw_inFlightBytes :: u64
  dw_reservations :: u64
  dw_releasedBytes :: u64

record reserve_result =
  wr_status :: response_status
  wr_inFlightBytes :: u64
  wr_message :: string

definition new_window :: "u64 \<Rightarrow> data_window" where
  "new_window maxInFlightBytes = \<lparr>dw_maxInFlightBytes = maxInFlightBytes, dw_inFlightBytes = 0,
     dw_reservations = 0, dw_releasedBytes = 0\<rparr>"

definition setMaxInFlightBytes :: "u64 \<Rightarrow> data_window \<Rightarrow> data_window" where
  "setMaxInFlightBytes maxInFlightBytes w = w\<lparr>dw_maxInFlightBytes := maxInFlightBytes\<rparr>"

definition backPressureWindowResult :: "u64 \<Rightarrow> reserve_result" where
  "backPressureWindowResult inFlightBytes = \<lparr>wr_status = RS_BackPressure,
     wr_inFlightBytes = inFlightBytes, wr_message = ''clipboard large_data window is full''\<rparr>"

definition reserve :: "u64 \<Rightarrow> data_window \<Rightarrow> reserve_result \<times> data_window" where
  "reserve bytes w =
    (if dw_maxInFlightBytes w \<noteq> 0 \<and>
        (dw_inFlightBytes w \<ge> dw_maxInFlightBytes w \<or>
         bytes > dw_maxInFlightBytes w - dw_inFlightBytes w) then
       (backPressureWindowResult (dw_inFlightBytes w), w)
     else
       let w = w\<lparr>dw_inFlightBytes := dw_inFlightBytes w + bytes,
             dw_reservations := dw_reservations w + 1\<rparr>
       in (\<lparr>wr_status = RS_Ok, wr_inFlightBytes = dw_inFlightBytes w, wr_message = []\<rparr>, w))"

definition release :: "u64 \<Rightarrow> data_window \<Rightarrow> data_window" where
  "release bytes w =
    (let released = (if bytes > dw_inFlightBytes w then dw_inFlightBytes w else bytes)
     in w\<lparr>dw_inFlightBytes := dw_inFlightBytes w - released,
          dw_releasedBytes := dw_releasedBytes w + released\<rparr>)"

definition acknowledge :: "u64 \<Rightarrow> data_window \<Rightarrow> data_window" where
  "acknowledge bytes w = release bytes w"

definition window_snapshot :: "data_window \<Rightarrow> data_window" where
  "window_snapshot w = w"

section \<open>Runs of a window\<close>

datatype window_op = SetMax u64 | Reserve u64 | Release u64 | Acknowledge u64

definition window_step :: "window_op \<Rightarrow> data_window \<Rightarrow> data_window" where
  "window_step operation w = (case operation of
     SetMax bytes \<Rightarrow> setMaxInFlightBytes bytes w
   | Reserve bytes \<Rightarrow> snd (reserve bytes w)
   | Release bytes \<Rightarrow> release bytes w
   | Acknowledge bytes \<Rightarrow> acknowledge bytes w)"

text \<open>The bytes an operation is granted, and the limits a run sets.\<close>

definition granted :: "window_op \<Rightarrow> data_window \<Rightarrow> nat" where
  "granted operation w = (case operation of
     Reserve bytes \<Rightarrow> if wr_status (fst (reserve bytes w)) = RS_Ok then unat bytes else 0
   | _ \<Rightarrow> 0)"

definition limit_at_most :: "u64 \<Rightarrow> window_op \<Rightarrow> bool" where
  "limit_at_most bound operation \<longleftrightarrow> (case operation of
     SetMax bytes \<Rightarrow> bytes \<noteq> 0 \<and> bytes \<le> bound | _ \<Rightarrow> True)"

definition window_fits :: "u64 \<Rightarrow> data_window \<Rightarrow> bool" where
  "window_fits bound w \<longleftrightarrow>
     dw_maxInFlightBytes w \<noteq> 0 \<and> dw_maxInFlightBytes w \<le> bound \<and> dw_inFlightBytes w \<le> bound"

text \<open>With a limit a reservation is granted exactly if it fits under the limit as numbers.\<close>

lemma reserve_ok_iff:
  "wr_status (fst (reserve bytes w)) = RS_Ok \<longleftrightarrow> dw_maxInFlightBytes w = 0 \<or>
     dw_inFlightBytes w < dw_maxInFlightBytes w \<and>
     unat (dw_inFlightBytes w) + unat bytes \<le> unat (dw_maxInFlightBytes w)"
proof -
  have "bytes \<le> dw_maxInFlightBytes w - dw_inFlightBytes w \<longleftrightarrow>
      unat (dw_inFlightBytes w) + unat bytes \<le> unat (dw_maxInFlightBytes w)"
    if "dw_inFlightBytes w < dw_maxInFlightBytes w"
    using that by (auto simp: word_le_nat_alt word_less_nat_alt unat_sub)
  then show ?thesis
    by (cases "dw_inFlightBytes w < dw_maxInFlightBytes w")
      (simp_all add: reserve_def backPressureWindowResult_def Let_def not_le [symmetric])
qed

lemma reserve_effect:
  "dw_maxInFlightBytes (snd (reserve bytes w)) = dw_maxInFlightBytes w"
  "dw_releasedBytes (snd (reserve bytes w)) = dw_releasedBytes w"
  "dw_inFlightBytes (snd (reserve bytes w)) =
     (if wr_status (fst (reserve bytes w)) = RS_Ok then dw_inFlightBytes w + bytes
      else dw_inFlightBytes w)"
  by (simp_all add: reserve_def backPressureWindowResult_def Let_def)

lemma release_effect [simp]:
  "dw_maxInFlightBytes (release bytes w) = dw_maxInFlightBytes w"
  "dw_inFlightBytes (release bytes w) + dw_releasedBytes (release bytes w) =
     dw_inFlightBytes w + dw_releasedBytes w"
  by (simp_all add: release_def Let_def)

lemma release_at_most: "dw_inFlightBytes (release bytes w) \<le> dw_inFlightBytes w"
  by (auto simp: release_def Let_def not_less word_le_nat_alt unat_sub)

lemma window_step_accounts:
  "dw_inFlightBytes (window_step operation w) + dw_releasedBytes (window_step operation w) =
     dw_inFlightBytes w + dw_releasedBytes w + of_nat (granted operation w)"
  by (cases operation)
    (simp_all add: window_step_def granted_def setMaxInFlightBytes_def acknowledge_def reserve_effect)

lemma window_step_fits:
  assumes "window_fits bound w" and "limit_at_most bound operation"
  shows "window_fits bound (window_step operation w)"
proof (cases operation)
  case (Reserve bytes)
  have "dw_inFlightBytes w + bytes \<le> bound" if "wr_status (fst (reserve bytes w)) = RS_Ok"
  proof -
    have room: "unat (dw_inFlightBytes w) + unat bytes \<le> unat (dw_maxInFlightBytes w)"
      using that assms(1) by (simp add: reserve_ok_iff window_fits_def)
    then have "unat (dw_inFlightBytes w + bytes) = unat (dw_inFlightBytes w) + unat bytes"
      using unsigned_less [of "dw_maxInFlightBytes w", where 'a = nat]
      by (subst unat_add_lem [symmetric]) simp
    then show ?thesis using room assms(1) by (simp add: window_fits_def word_le_nat_alt)
  qed
  then show ?thesis
    using assms(1) by (simp add: Reserve window_step_def window_fits_def reserve_effect)
qed (use assms release_at_most [of _ w] in \<open>auto simp: window_step_def limit_at_most_def window_fits_def
  setMaxInFlightBytes_def acknowledge_def intro: order_trans\<close>)

lemma window_run_fits:
  assumes "window_fits bound w" and "list_all (limit_at_most bound) operations"
  shows "window_fits bound (fold window_step operations w)"
  using assms by (induction operations arbitrary: w) (auto intro: window_step_fits)

lemma window_run_accounts:
  "dw_inFlightBytes (fold window_step operations w) + dw_releasedBytes (fold window_step operations w) =
     dw_inFlightBytes w + dw_releasedBytes w + of_nat (run_total granted window_step operations w)"
  by (induction operations arbitrary: w) (simp_all add: window_step_accounts)

text \<open>
  The same account in unbounded numbers, which only a window that never wraps around can keep: the
  bytes an operation gives back are those it names, as far as there are any in flight.
\<close>

definition given_back :: "window_op \<Rightarrow> data_window \<Rightarrow> nat" where
  "given_back operation w = (case operation of
     Release bytes \<Rightarrow> min (unat bytes) (unat (dw_inFlightBytes w))
   | Acknowledge bytes \<Rightarrow> min (unat bytes) (unat (dw_inFlightBytes w))
   | _ \<Rightarrow> 0)"

lemma release_unat:
  "unat (dw_inFlightBytes (release bytes w)) + min (unat bytes) (unat (dw_inFlightBytes w)) =
     unat (dw_inFlightBytes w)"
  by (auto simp: release_def Let_def not_less word_le_nat_alt word_less_nat_alt unat_sub min_def)

lemma reserve_unat:
  assumes "dw_maxInFlightBytes w \<noteq> 0" and "wr_status (fst (reserve bytes w)) = RS_Ok"
  shows "unat (dw_inFlightBytes w + bytes) = unat (dw_inFlightBytes w) + unat bytes"
proof -
  have "unat (dw_inFlightBytes w) + unat bytes \<le> unat (dw_maxInFlightBytes w)"
    using assms by (simp add: reserve_ok_iff)
  then show ?thesis
    using unsigned_less [of "dw_maxInFlightBytes w", where 'a = nat]
    by (subst unat_add_lem [symmetric]) simp
qed

lemma window_step_balance:
  assumes "dw_maxInFlightBytes w \<noteq> 0"
  shows "unat (dw_inFlightBytes (window_step operation w)) + given_back operation w =
    unat (dw_inFlightBytes w) + granted operation w"
  by (cases operation)
    (simp_all add: window_step_def given_back_def granted_def setMaxInFlightBytes_def
      acknowledge_def reserve_effect release_unat reserve_unat assms)

lemma window_run_balance:
  assumes "window_fits bound w" and "list_all (limit_at_most bound) operations"
  shows "unat (dw_inFlightBytes (fold window_step operations w)) +
      run_total given_back window_step operations w =
    unat (dw_inFlightBytes w) + run_total granted window_step operations w"
  using assms
proof (induction operations arbitrary: w)
  case (Cons operation operations)
  have "dw_maxInFlightBytes w \<noteq> 0" using Cons.prems(1) by (simp add: window_fits_def)
  from window_step_balance [OF this, of operation]
    Cons.IH [OF window_step_fits [OF Cons.prems(1), of operation]] Cons.prems(2)
  show ?case by simp
qed simp

definition window_options :: "u64 \<Rightarrow> data_window \<Rightarrow> schedule_options" where
  "window_options fallback w = \<lparr>lo_smallDataFallbackBytes = fallback,
     lo_largeDataWindowBytes = dw_maxInFlightBytes w, lo_largeDataInFlightBytes = dw_inFlightBytes w\<rparr>"

lemma windowBlocksBulk_reserve:
  "windowBlocksBulk bytes (window_options fallback w) \<longleftrightarrow> wr_status (fst (reserve bytes w)) \<noteq> RS_Ok"
  by (simp add: windowBlocksBulk_def window_options_def reserve_def backPressureWindowResult_def Let_def)

lemma packet_key_probe [simp]: "packet_key (large_probe packet) = clipboardLargeDataChannelKey"
  by (simp add: packet_key_def large_probe_def clipboardLargeDataChannelKey_def)

section \<open>Properties\<close>

text \<open>
  C26. The window bounds the bytes in flight, and no counter wraps around: from a new window with a
  non-zero limit, over any run of reservations, releases, acknowledgements and changes of the limit
  that stay non-zero and at most \<open>bound\<close>, the bytes in flight are, as unbounded numbers, all bytes
  granted less all bytes given back, and at most \<open>bound\<close>; the counter of released bytes holds the
  bytes given back; and the next reservation is granted exactly if there is room for all of it
  under the limit then set, the sum again not wrapping.
\<close>

theorem window_bounds_the_bytes_in_flight:
  assumes "limit \<noteq> 0" and "limit \<le> bound" and "list_all (limit_at_most bound) operations"
    and "fold window_step operations (new_window limit) = w"
  shows "unat (dw_inFlightBytes w) + run_total given_back window_step operations (new_window limit) =
      run_total granted window_step operations (new_window limit) \<and>
    unat (dw_inFlightBytes w) \<le> unat bound \<and>
    dw_releasedBytes w = of_nat (run_total given_back window_step operations (new_window limit)) \<and>
    (wr_status (fst (reserve bytes w)) = RS_Ok \<longleftrightarrow>
       unat (dw_inFlightBytes w) < unat (dw_maxInFlightBytes w) \<and>
       unat (dw_inFlightBytes w) + unat bytes \<le> unat (dw_maxInFlightBytes w))"
proof -
  have fresh: "window_fits bound (new_window limit)" "dw_inFlightBytes (new_window limit) = 0"
    "dw_releasedBytes (new_window limit) = 0"
    using assms(1,2) by (simp_all add: window_fits_def new_window_def)
  note balance = window_run_balance [OF fresh(1) assms(3)]
  have fits: "window_fits bound w" using window_run_fits [OF fresh(1) assms(3)] assms(4) by simp
  have "dw_releasedBytes w = of_nat (run_total given_back window_step operations (new_window limit))"
  proof -
    have "(of_nat (unat (dw_inFlightBytes w) +
          run_total given_back window_step operations (new_window limit)) :: u64) =
        of_nat (run_total granted window_step operations (new_window limit))"
      using balance by (simp only: fresh assms(4)) simp
    then show ?thesis
      using window_run_accounts [of operations "new_window limit"]
      by (simp add: fresh assms(4)) (metis add_left_cancel)
  qed
  then show ?thesis
    using balance fits
    by (simp add: fresh assms(4) window_fits_def reserve_ok_iff word_le_nat_alt word_less_nat_alt)
qed

theorem window_bounds_the_bytes_in_flight_witness:
  "dw_inFlightBytes (fold window_step [Reserve 60, Reserve (- 1), Acknowledge 20, SetMax 90, Reserve 50]
     (new_window 100)) = 90 \<and>
   run_total granted window_step [Reserve 60, Reserve (- 1), Acknowledge 20, SetMax 90, Reserve 50]
     (new_window 100) = 110"
  using window_bounds_the_bytes_in_flight [of 100 100 "[Reserve 60, Reserve (- 1), Acknowledge 20,
      SetMax 90, Reserve 50]" _ 0, OF _ _ _ refl]
  by (simp add: limit_at_most_def window_step_def granted_def given_back_def reserve_def new_window_def
      setMaxInFlightBytes_def acknowledge_def release_def backPressureWindowResult_def Let_def)

text \<open>
  The schedule keeps what the window and the registry promise: given the limit and the bytes in
  flight of a window, a clipboard response goes to the large-data channel exactly if it is one in
  bulk, the registry admits it there, the channel is not congested, closed or failed, and the window
  would grant its bytes; the packet is then addressed to the large-data channel and admitted as
  addressed. In every other case it stays on the small-data channel, with a status other than Ok only
  if it is in bulk.
\<close>

theorem schedule_respects_window_and_registry:
  "let schedule = scheduleClipboardBulkResponse (Some reg) packet bytes (window_options fallback w);
       bulk = (pk_packetType packet = PT_Clipboard \<and> pk_priority packet = PP_Bulk) in
   (ls_usesLargeData schedule \<longleftrightarrow> bulk \<and> rr_ok (validatePacket reg (large_probe packet)) \<and>
      pr_level (cs_pressure (registry_snapshot reg clipboardLargeDataChannelKey)) \<notin>
        {PL_Congested, PL_Closed, PL_Failed} \<and>
      wr_status (fst (reserve bytes w)) = RS_Ok) \<and>
   (if ls_usesLargeData schedule
    then ls_status schedule = RS_Ok \<and> ls_channel schedule = clipboardLargeDataChannelKey \<and>
      rr_ok (validatePacket reg (applyClipboardLargeDataSchedule schedule packet))
    else ls_channel schedule = clipboardSmallDataChannelKey \<and> (bulk \<or> ls_status schedule = RS_Ok))"
  by (auto simp: scheduleClipboardBulkResponse_def windowBlocksBulk_reserve pressureBlocksBulk_def
      applyClipboardLargeDataSchedule_def large_probe_def Let_def)

end
