(* ===== verification/File_Transfer.thy ===== *)
theory File_Transfer
  imports Protocol_Types
begin

text \<open>
  \<open>clipboard_transfer.cpp\<close>: reading a remote file range by range, into a sink until its end
  (\<open>drainRemoteFileRange\<close>) or into one buffer (\<open>readRemoteFileRangeWindow\<close>). The remote reader and the
  sink are abstract classes (\<open>IClipboardRemoteFileReader\<close>, \<open>ITransferFileRangeSink\<close>), functions on a
  world here. Both loops are total: each further round moves the offset, or the rest, by at least one
  byte. A range's size is taken modulo \<open>2^64\<close>; a \<open>std::vector\<close> is never that long.
\<close>

section \<open>Requests and results\<close>

record file_range_request =
  fq_bundleId :: u64
  fq_offerId :: u64
  fq_ownerEpoch :: u64
  fq_sourceId :: u64
  fq_objectId :: u64
  fq_fileIndex :: u32
  fq_offset :: u64
  fq_requestedBytes :: u64

record file_range_result =
  fr_status :: response_status
  fr_bytes :: byte_buffer
  fr_endOfFile :: bool
  fr_message :: string

definition default_range_result :: file_range_result where
  "default_range_result = \<lparr>fr_status = RS_Failed, fr_bytes = [], fr_endOfFile = False, fr_message = []\<rparr>"

record drain_options =
  do_chunkBytes :: u64
  do_maxTotalBytes :: u64
  do_timeoutMs :: u32

record window_read_options =
  wo_chunkBytes :: u64
  wo_timeoutMs :: u32

definition DefaultTransferFileRangeChunkBytes :: u64 where
  "DefaultTransferFileRangeChunkBytes = 4 * 1024 * 1024"

definition default_drain_options :: drain_options where
  "default_drain_options = \<lparr>do_chunkBytes = DefaultTransferFileRangeChunkBytes,
     do_maxTotalBytes = 0, do_timeoutMs = 30000\<rparr>"

definition default_window_read_options :: window_read_options where
  "default_window_read_options = \<lparr>wo_chunkBytes = DefaultTransferFileRangeChunkBytes,
     wo_timeoutMs = 30000\<rparr>"

record drain_sink_result =
  sk_status :: response_status
  sk_message :: string

record drain_result =
  dn_status :: response_status
  dn_bytesWritten :: u64
  dn_chunksWritten :: u64
  dn_endOfFile :: bool
  dn_message :: string

definition default_drain_result :: drain_result where
  "default_drain_result = \<lparr>dn_status = RS_Failed, dn_bytesWritten = 0, dn_chunksWritten = 0,
     dn_endOfFile = False, dn_message = []\<rparr>"

type_synonym 'w file_reader = "file_range_request \<Rightarrow> u32 \<Rightarrow> 'w \<Rightarrow> file_range_result \<times> 'w"
type_synonym 'w range_sink =
  "file_range_request \<Rightarrow> byte_buffer \<Rightarrow> bool \<Rightarrow> 'w \<Rightarrow> drain_sink_result \<times> 'w"

section \<open>Draining a file into a sink\<close>

definition drain_failed :: "response_status \<Rightarrow> string \<Rightarrow> drain_result \<Rightarrow> drain_result" where
  "drain_failed status message result = result\<lparr>dn_status := status, dn_message := message\<rparr>"

definition or_default :: "string \<Rightarrow> string \<Rightarrow> string" where
  "or_default message text = (if message = [] then text else message)"

text \<open>
  One round of the loop: it ends with a result, or goes on from a new offset.
\<close>

definition drain_round ::
    "'w file_reader \<Rightarrow> file_range_request \<Rightarrow> 'w range_sink \<Rightarrow> drain_options \<Rightarrow> u64 \<Rightarrow> drain_result \<Rightarrow> 'w \<Rightarrow>
     (drain_result \<times> 'w) + (u64 \<times> drain_result \<times> 'w)" where
  "drain_round reader baseRequest sink options offset result w =
    (if do_maxTotalBytes options \<noteq> 0 \<and> dn_bytesWritten result \<ge> do_maxTotalBytes options then
       Inl (drain_failed RS_TooLarge ''clipboard file exceeds max drain bytes'' result, w)
     else
       let requestedBytes = (if do_maxTotalBytes options \<noteq> 0
             then min (do_chunkBytes options) (do_maxTotalBytes options - dn_bytesWritten result)
             else do_chunkBytes options)
       in if requestedBytes = 0 then
            Inl (drain_failed RS_TooLarge ''clipboard file exceeds max drain bytes'' result, w)
          else
            let rangeRequest = baseRequest\<lparr>fq_offset := offset, fq_requestedBytes := requestedBytes\<rparr>;
                (range, w) = reader rangeRequest (do_timeoutMs options) w
            in if fr_status range \<noteq> RS_Ok then
                 Inl (drain_failed (fr_status range)
                    (or_default (fr_message range) ''clipboard remote file range read failed'') result, w)
               else
                 let receivedBytes = of_nat (length (fr_bytes range))
                 in if receivedBytes > requestedBytes then
                      Inl (drain_failed RS_ProtocolError
                         ''clipboard remote file range exceeded requested bytes'' result, w)
                    else if receivedBytes = 0 \<and> \<not> fr_endOfFile range then
                      Inl (drain_failed RS_ProtocolError
                         ''clipboard remote file range made no progress'' result, w)
                    else if do_maxTotalBytes options \<noteq> 0 \<and>
                            receivedBytes = do_maxTotalBytes options - dn_bytesWritten result \<and>
                            \<not> fr_endOfFile range then
                      Inl (drain_failed RS_TooLarge ''clipboard file exceeds max drain bytes'' result, w)
                    else
                      let (write, w) = sink rangeRequest (fr_bytes range) (fr_endOfFile range) w
                      in if sk_status write \<noteq> RS_Ok then
                           Inl (drain_failed (sk_status write)
                              (or_default (sk_message write) ''clipboard file range sink rejected data'')
                              result, w)
                         else
                           let result = result\<lparr>
                                 dn_bytesWritten := dn_bytesWritten result + receivedBytes,
                                 dn_chunksWritten := dn_chunksWritten result + 1\<rparr>
                           in if fr_endOfFile range then
                                Inl (result\<lparr>dn_status := RS_Ok, dn_endOfFile := True\<rparr>, w)
                              else if offset > - 1 - receivedBytes then
                                Inl (drain_failed RS_ProtocolError
                                   ''clipboard remote file range offset overflow'' result, w)
                              else Inr (offset + receivedBytes, result, w))"

lemma offset_moves_on: "v \<noteq> 0 \<Longrightarrow> \<not> offset > - 1 - v \<Longrightarrow> unat (offset + v) = unat offset + unat v \<and> 0 < unat v"
  for offset v :: u64
proof -
  assume "v \<noteq> 0" and "\<not> offset > - 1 - v"
  have "unat (- 1 - v) = 2 ^ 64 - 1 - unat v"
    using unat_sub [of v "- 1"] by (simp add: unsigned_minus_1_eq_mask mask_eq_exp_minus_1)
  then have "unat offset \<le> 2 ^ 64 - 1 - unat v"
    using \<open>\<not> offset > - 1 - v\<close> by (simp add: not_less word_le_nat_alt)
  then have "unat offset + unat v < 2 ^ 64"
    using unsigned_less [of v, where 'a = nat] by simp
  then show ?thesis
    using \<open>v \<noteq> 0\<close> by (simp add: unat_add_lem [symmetric] unat_gt_0)
qed

lemma drain_round_moves:
  assumes "drain_round reader baseRequest sink options offset result w = Inr (offset', result', w')"
  shows "unat offset < unat offset'"
  using assms
  by (auto simp: drain_round_def Let_def split_beta split: if_splits dest!: offset_moves_on)

function drain_loop ::
    "'w file_reader \<Rightarrow> file_range_request \<Rightarrow> 'w range_sink \<Rightarrow> drain_options \<Rightarrow> u64 \<Rightarrow> drain_result \<Rightarrow> 'w \<Rightarrow>
     drain_result \<times> 'w" where
  "drain_loop reader baseRequest sink options offset result w =
    (case drain_round reader baseRequest sink options offset result w of
       Inl ended \<Rightarrow> ended
     | Inr (offset, result, w) \<Rightarrow> drain_loop reader baseRequest sink options offset result w)"
  by pat_completeness auto

termination drain_loop
proof (relation "measure (\<lambda>(_, _, _, _, offset, _, _). 2 ^ 64 - unat offset)", goal_cases)
  case (2 reader baseRequest sink options offset result w)
  then show ?case
    using unsigned_less [of offset, where 'a = nat] by (auto dest!: drain_round_moves)
qed simp

declare drain_loop.simps [simp del]

definition drainRemoteFileRange ::
    "'w file_reader \<Rightarrow> file_range_request \<Rightarrow> 'w range_sink \<Rightarrow> drain_options \<Rightarrow> 'w \<Rightarrow> drain_result \<times> 'w" where
  "drainRemoteFileRange reader baseRequest sink options w =
    (if do_chunkBytes options = 0 then
       (default_drain_result\<lparr>dn_status := RS_InvalidArgument,
          dn_message := ''clipboard file drain chunk size is zero''\<rparr>, w)
     else drain_loop reader baseRequest sink options (fq_offset baseRequest) default_drain_result w)"

section \<open>Reading a window of a file\<close>

definition window_failed :: "string \<Rightarrow> file_range_result \<Rightarrow> file_range_result" where
  "window_failed message result =
     result\<lparr>fr_status := RS_ProtocolError, fr_bytes := [], fr_message := message\<rparr>"

definition window_round ::
    "'w file_reader \<Rightarrow> file_range_request \<Rightarrow> window_read_options \<Rightarrow> u64 \<Rightarrow> u64 \<Rightarrow> file_range_result \<Rightarrow> 'w \<Rightarrow>
     (file_range_result \<times> 'w) + (u64 \<times> u64 \<times> file_range_result \<times> 'w)" where
  "window_round reader baseRequest options currentOffset remaining result w =
    (let wanted = min remaining (wo_chunkBytes options);
         request = baseRequest\<lparr>fq_offset := currentOffset, fq_requestedBytes := wanted\<rparr>;
         (range, w) = reader request (wo_timeoutMs options) w
     in if fr_status range \<noteq> RS_Ok then Inl (range, w)
        else
          let received = of_nat (length (fr_bytes range))
          in if received > wanted then
               Inl (window_failed ''clipboard remote file range exceeded requested window bytes'' result, w)
             else if received = 0 \<and> \<not> fr_endOfFile range then
               Inl (window_failed ''clipboard remote file window read made no progress'' result, w)
             else
               let result = result\<lparr>fr_bytes := fr_bytes result @ fr_bytes range\<rparr>
               in if fr_endOfFile range then Inl (result\<lparr>fr_endOfFile := True\<rparr>, w)
                  else if currentOffset > - 1 - received then
                    Inl (window_failed ''clipboard remote file window offset overflow'' result, w)
                  else Inr (currentOffset + received, remaining - received, result, w))"

lemma window_round_moves:
  assumes "window_round reader baseRequest options currentOffset remaining result w =
    Inr (offset', remaining', result', w')"
  shows "unat currentOffset < unat offset'"
  using assms
  by (auto simp: window_round_def Let_def split_beta split: if_splits dest!: offset_moves_on)

function window_loop ::
    "'w file_reader \<Rightarrow> file_range_request \<Rightarrow> window_read_options \<Rightarrow> u64 \<Rightarrow> u64 \<Rightarrow> file_range_result \<Rightarrow> 'w \<Rightarrow>
     file_range_result \<times> 'w" where
  "window_loop reader baseRequest options currentOffset remaining result w =
    (if remaining > 0 then
       (case window_round reader baseRequest options currentOffset remaining result w of
          Inl ended \<Rightarrow> ended
        | Inr (currentOffset, remaining, result, w) \<Rightarrow>
            window_loop reader baseRequest options currentOffset remaining result w)
     else (result, w))"
  by pat_completeness auto

termination window_loop
proof (relation "measure (\<lambda>(_, _, _, currentOffset, _, _, _). 2 ^ 64 - unat currentOffset)", goal_cases)
  case (2 reader baseRequest options currentOffset remaining result w)
  then show ?case
    using unsigned_less [of currentOffset, where 'a = nat] by (auto dest!: window_round_moves)
qed simp

declare window_loop.simps [simp del]

definition readRemoteFileRangeWindow ::
    "'w file_reader \<Rightarrow> file_range_request \<Rightarrow> u64 \<Rightarrow> u64 \<Rightarrow> window_read_options \<Rightarrow> 'w \<Rightarrow>
     file_range_result \<times> 'w" where
  "readRemoteFileRangeWindow reader baseRequest offset requestedBytes options w =
    (if requestedBytes = 0 then (default_range_result\<lparr>fr_status := RS_Ok\<rparr>, w)
     else if wo_chunkBytes options = 0 then
       (default_range_result\<lparr>fr_status := RS_InvalidArgument,
          fr_message := ''clipboard file window chunk size is zero''\<rparr>, w)
     else window_loop reader baseRequest options offset requestedBytes
            (default_range_result\<lparr>fr_status := RS_Ok\<rparr>) w)"

section \<open>The limits, for every reader and sink\<close>

definition within_limit :: "drain_options \<Rightarrow> drain_result \<Rightarrow> bool" where
  "within_limit options result \<longleftrightarrow>
     do_maxTotalBytes options = 0 \<or> dn_bytesWritten result \<le> do_maxTotalBytes options"

lemma sum_within:
  fixes written received limit :: u64
  assumes "received \<le> limit - written" and "written \<le> limit"
  shows "written + received \<le> limit" and "unat (written + received) = unat written + unat received"
proof -
  have room: "unat written + unat received \<le> unat limit"
    using assms by (simp add: word_le_nat_alt unat_sub)
  then have "unat written + unat received < 2 ^ 64"
    using unsigned_less [of limit, where 'a = nat] by simp
  then show sum: "unat (written + received) = unat written + unat received"
    by (simp add: unat_add_lem [symmetric])
  show "written + received \<le> limit" using room by (simp add: word_le_nat_alt sum)
qed

lemma sum_within_request:
  fixes written received requested limit :: u64
  assumes "\<not> requested < received" and "requested \<le> limit - written" and "written \<le> limit"
  shows "written + received \<le> limit"
  by (rule sum_within(1) [OF order_trans [OF _ assms(2)] assms(3)]) (use assms(1) in simp)

lemma drain_round_ends:
  assumes "drain_round reader baseRequest sink options offset result w = Inl (ended, w')"
    and "within_limit options result" and "\<not> dn_endOfFile result"
  shows "within_limit options ended" and "dn_status ended = RS_Ok \<longleftrightarrow> dn_endOfFile ended"
  using assms
  by (auto simp: drain_round_def drain_failed_def within_limit_def Let_def split_beta min_def
      split: if_splits intro: sum_within sum_within_request)

lemma drain_round_goes_on:
  assumes "drain_round reader baseRequest sink options offset result w = Inr (offset', result', w')"
    and "within_limit options result" and "\<not> dn_endOfFile result"
  shows "within_limit options result'" and "\<not> dn_endOfFile result'"
  using assms
  by (auto simp: drain_round_def drain_failed_def within_limit_def Let_def split_beta min_def
      split: if_splits intro: sum_within sum_within_request)

lemma drain_loop_within:
  assumes "within_limit options result" and "\<not> dn_endOfFile result"
  shows "within_limit options (fst (drain_loop reader baseRequest sink options offset result w)) \<and>
    (dn_status (fst (drain_loop reader baseRequest sink options offset result w)) = RS_Ok \<longleftrightarrow>
     dn_endOfFile (fst (drain_loop reader baseRequest sink options offset result w)))"
  using assms
proof (induction reader baseRequest sink options offset result w rule: drain_loop.induct)
  case (1 reader baseRequest sink options offset result w)
  show ?case
  proof (cases "drain_round reader baseRequest sink options offset result w")
    case (Inl ended)
    then show ?thesis
      using drain_round_ends [of reader baseRequest sink options offset result w "fst ended" "snd ended"]
        "1.prems" by (simp add: drain_loop.simps [of reader baseRequest sink options offset])
  next
    case (Inr state)
    obtain offset' result' w' where state: "state = (offset', result', w')" by (metis prod.exhaust)
    show ?thesis
      using "1.IH" [OF Inr state [symmetric] refl] drain_round_goes_on [OF Inr [unfolded state] "1.prems"]
      by (simp add: drain_loop.simps [of reader baseRequest sink options offset] Inr state)
  qed
qed

section \<open>What a faithful reader and sink give\<close>

text \<open>
  A reader that serves the bytes of a file answers each request (of at least one byte) with Ok and some of the bytes at its
  offset, at most as many as requested, none only at the end, and says that the file ends exactly when
  the range reaches its end. A sink that collects appends what it is given. \<open>content\<close> is what the
  sink has collected in a world.
\<close>

definition serves :: "'w file_reader \<Rightarrow> byte_buffer \<Rightarrow> ('w \<Rightarrow> byte_buffer) \<Rightarrow> bool" where
  "serves reader file content \<longleftrightarrow> (\<forall>request timeout w. fq_requestedBytes request \<noteq> 0 \<longrightarrow>
    (let (range, w') = reader request timeout w; rest = drop (unat (fq_offset request)) file in
     fr_status range = RS_Ok \<and> fr_bytes range = take (length (fr_bytes range)) rest \<and>
     length (fr_bytes range) \<le> unat (fq_requestedBytes request) \<and>
     (fr_endOfFile range \<longleftrightarrow> length (fr_bytes range) = length rest) \<and>
     (fr_bytes range \<noteq> [] \<or> fr_endOfFile range) \<and> content w' = content w))"

definition collects :: "'w range_sink \<Rightarrow> ('w \<Rightarrow> byte_buffer) \<Rightarrow> bool" where
  "collects sink content \<longleftrightarrow> (\<forall>request bytes endOfFile w.
     let (write, w') = sink request bytes endOfFile w in
     sk_status write = RS_Ok \<and> content w' = content w @ bytes)"

lemma serves_range:
  assumes "serves reader file content" and "reader request timeout w = (part, w')"
    and "fq_requestedBytes request \<noteq> 0" and "rest = drop (unat (fq_offset request)) file"
  shows "fr_status part = RS_Ok" and "fr_bytes part = take (length (fr_bytes part)) rest"
    and "length (fr_bytes part) \<le> length rest"
    and "length (fr_bytes part) \<le> unat (fq_requestedBytes request)"
    and "fr_endOfFile part \<longleftrightarrow> length (fr_bytes part) = length rest"
    and "0 < length (fr_bytes part) \<or> fr_endOfFile part" and "content w' = content w"
proof -
  have all: "fr_status part = RS_Ok \<and> fr_bytes part = take (length (fr_bytes part)) rest \<and>
      length (fr_bytes part) \<le> unat (fq_requestedBytes request) \<and>
      (fr_endOfFile part \<longleftrightarrow> length (fr_bytes part) = length rest) \<and>
      (fr_bytes part \<noteq> [] \<or> fr_endOfFile part) \<and> content w' = content w"
    using assms(1) [unfolded serves_def, rule_format, of request timeout w] assms(2-4) by (auto simp: Let_def)
  then show "fr_status part = RS_Ok" and bytes: "fr_bytes part = take (length (fr_bytes part)) rest"
    and "length (fr_bytes part) \<le> unat (fq_requestedBytes request)"
    and "fr_endOfFile part \<longleftrightarrow> length (fr_bytes part) = length rest"
    and "0 < length (fr_bytes part) \<or> fr_endOfFile part" and "content w' = content w" by auto
  show "length (fr_bytes part) \<le> length rest"
    using arg_cong [OF bytes, of length] by simp
qed

text \<open>One round against a faithful reader and sink.\<close>

lemma of_nat_u64: "k < 2 ^ 64 \<Longrightarrow> unat (of_nat k :: u64) = k"
  by (simp add: unat_of_nat)

lemma drain_round_faithful:
  assumes "limit = unat (do_maxTotalBytes options)" and "written = unat (dn_bytesWritten result)"
    and "rest = drop (unat offset) file"
    and "serves reader file content" and "collects sink content" and "do_chunkBytes options \<noteq> 0"
    and "length file < 2 ^ 64" and "limit = 0 \<or> written < limit"
  obtains (ended) w' ended where "drain_round reader baseRequest sink options offset result w = Inl (ended, w')"
      and "dn_status ended = RS_Ok" and "dn_bytesWritten ended = dn_bytesWritten result + of_nat (length rest)"
      and "content w' = content w @ rest" and "limit = 0 \<or> length rest \<le> limit - written"
  | (full) w' ended where "drain_round reader baseRequest sink options offset result w = Inl (ended, w')"
      and "dn_status ended = RS_TooLarge" and "dn_bytesWritten ended = dn_bytesWritten result"
      and "content w' = content w" and "0 < limit" and "limit - written < length rest"
  | (more) k w' result' where
      "drain_round reader baseRequest sink options offset result w = Inr (offset + of_nat k, result', w')"
      and "dn_bytesWritten result' = dn_bytesWritten result + of_nat k" and "0 < k" and "k < length rest"
      and "content w' = content w @ take k rest" and "limit = 0 \<or> k < limit - written"
      and "unat (offset + of_nat k) = unat offset + k"
proof -
  define requested where "requested = (if do_maxTotalBytes options \<noteq> 0
    then min (do_chunkBytes options) (do_maxTotalBytes options - dn_bytesWritten result)
    else do_chunkBytes options)"
  define request where "request = baseRequest\<lparr>fq_offset := offset, fq_requestedBytes := requested\<rparr>"
  obtain part w1 where read: "reader request (do_timeoutMs options) w = (part, w1)"
    by (metis prod.exhaust)
  obtain answer w2 where sunk: "sink request (fr_bytes part) (fr_endOfFile part) w1 = (answer, w2)"
    by (metis prod.exhaust)
  define k where "k = length (fr_bytes part)"
  have open_limit: "\<not> (do_maxTotalBytes options \<noteq> 0 \<and> dn_bytesWritten result \<ge> do_maxTotalBytes options)"
    using assms(1,2,8) by (auto simp: word_le_nat_alt unat_eq_zero)
  then have requested: "requested \<noteq> 0" "limit = 0 \<or> unat requested \<le> limit - written"
    using assms(1,2,6) by (auto simp: requested_def min_def word_le_nat_alt unat_sub unat_eq_zero)
  have "fq_requestedBytes request \<noteq> 0" "rest = drop (unat (fq_offset request)) file"
    using requested(1) by (simp_all add: request_def assms(3))
  note part = serves_range [OF assms(4) read this, folded k_def]
  have wrote: "sk_status answer = RS_Ok" "content w2 = content w @ take k rest"
    using assms(5) [unfolded collects_def, rule_format, of request "fr_bytes part" "fr_endOfFile part" w1]
      sunk part(2,7) by simp_all
  have size: "length rest < 2 ^ 64" using assms(3,7) by simp
  then have unat_k: "unat (of_nat k :: u64) = k" using part(3) by (simp add: of_nat_u64)
  have received: "\<not> requested < of_nat k" "\<not> (of_nat k = (0 :: u64) \<and> \<not> fr_endOfFile part)"
    using part(4-6) unat_k by (auto simp: word_less_nat_alt unat_eq_zero [symmetric] request_def)
  let ?result = "result\<lparr>dn_bytesWritten := dn_bytesWritten result + of_nat k,
    dn_chunksWritten := dn_chunksWritten result + 1\<rparr>"
  let ?full = "do_maxTotalBytes options \<noteq> 0 \<and>
    of_nat k = do_maxTotalBytes options - dn_bytesWritten result \<and> \<not> fr_endOfFile part"
  have round: "drain_round reader baseRequest sink options offset result w =
    (if ?full then Inl (drain_failed RS_TooLarge ''clipboard file exceeds max drain bytes'' result, w1)
     else if fr_endOfFile part then Inl (?result\<lparr>dn_status := RS_Ok, dn_endOfFile := True\<rparr>, w2)
     else if offset > - 1 - of_nat k then
       Inl (drain_failed RS_ProtocolError ''clipboard remote file range offset overflow'' ?result, w2)
     else Inr (offset + of_nat k, ?result, w2))"
    unfolding drain_round_def requested_def [symmetric] Let_def request_def [symmetric] read
      prod.case k_def [symmetric] sunk
    by (simp only: open_limit requested(1) received wrote(1) part(1) if_False not_True_eq_False simp_thms if_True)
  have room: "of_nat k = do_maxTotalBytes options - dn_bytesWritten result \<longleftrightarrow> k = limit - written"
    if "limit \<noteq> 0"
  proof -
    have "unat (do_maxTotalBytes options - dn_bytesWritten result) = limit - written"
      using that assms(1,2,8) by (simp add: unat_sub word_le_nat_alt)
    then show ?thesis by (simp add: word_unat_eq_iff unat_k)
  qed
  have range_at_most: "limit = 0 \<or> k \<le> limit - written"
    using part(4) requested(2) by (auto simp: request_def)
  show thesis
  proof (cases "fr_endOfFile part")
    case True
    then show thesis
      using ended [of _ w2] round wrote(2) part(4,5) requested(2) by (auto simp: request_def)
  next
    case False
    then have less: "k < length rest" "0 < k" using part(3,5,6) by auto
    show thesis
    proof (cases "limit \<noteq> 0 \<and> k = limit - written")
      case True
      then show thesis
        using full [of "drain_failed RS_TooLarge ''clipboard file exceeds max drain bytes'' result" w1]
          round room False less(1) part(7) assms(1)
        by (simp add: drain_failed_def unat_eq_zero unat_gt_0)
    next
      case no_limit: False
      have fits: "unat offset + k < 2 ^ 64" using less(1) assms(3,7) by simp
      then have sum: "unat (offset + of_nat k) = unat offset + k"
        using unat_k by (subst unat_add_lem [THEN iffD1]) simp_all
      have "\<not> offset > - 1 - of_nat k"
        using fits unat_k unat_sub [of "of_nat k" "- 1 :: u64"]
        by (simp add: not_less word_le_nat_alt unsigned_minus_1_eq_mask mask_eq_exp_minus_1)
      moreover have "\<not> ?full" using no_limit room assms(1) by (auto simp: unat_eq_zero)
      ultimately have "drain_round reader baseRequest sink options offset result w =
          Inr (offset + of_nat k, ?result, w2)"
        using round False by auto
      moreover have "limit = 0 \<or> k < limit - written"
        using no_limit range_at_most by auto
      ultimately show thesis
        using more [of k ?result w2] less sum wrote(2) by simp
    qed
  qed
qed

text \<open>A whole drain, by induction on the bytes that are left.\<close>

lemma drain_loop_faithful:
  assumes "serves reader file content" and "collects sink content" and "do_chunkBytes options \<noteq> 0"
    and "length file < 2 ^ 64"
    and "limit = unat (do_maxTotalBytes options)"
    and "drain_loop reader baseRequest sink options offset result w = (ended, w')"
    and "limit = 0 \<or> unat (dn_bytesWritten result) < limit"
  shows "\<exists>k. dn_bytesWritten ended = dn_bytesWritten result + of_nat k \<and>
    k \<le> length (drop (unat offset) file) \<and> content w' = content w @ take k (drop (unat offset) file) \<and>
    (if limit = 0 \<or> length (drop (unat offset) file) \<le> limit - unat (dn_bytesWritten result)
     then dn_status ended = RS_Ok \<and> k = length (drop (unat offset) file)
     else dn_status ended = RS_TooLarge)"
  using assms(6,7)
proof (induction "length (drop (unat offset) file)" arbitrary: offset result w rule: less_induct)
  case less
  show ?case
  proof (rule drain_round_faithful [OF assms(5) refl refl assms(1-4) less.prems(2),
        where baseRequest = baseRequest and offset = offset and w = w])
    fix v f
    assume "drain_round reader baseRequest sink options offset result w = Inl (f, v)"
      and "dn_status f = RS_Ok"
      and "dn_bytesWritten f = dn_bytesWritten result + of_nat (length (drop (unat offset) file))"
      and "content v = content w @ drop (unat offset) file"
      and "limit = 0 \<or> length (drop (unat offset) file) \<le> limit - unat (dn_bytesWritten result)"
    then show ?case
      using less.prems(1) by (simp add: drain_loop.simps [of reader baseRequest sink options offset])
  next
    fix v f
    assume "drain_round reader baseRequest sink options offset result w = Inl (f, v)"
      and "dn_status f = RS_TooLarge" and "dn_bytesWritten f = dn_bytesWritten result"
      and "content v = content w" and "0 < limit"
      and "limit - unat (dn_bytesWritten result) < length (drop (unat offset) file)"
    then show ?case
      using less.prems(1)
      by (intro exI [of _ 0]) (simp add: drain_loop.simps [of reader baseRequest sink options offset])
  next
    fix k v result'
    assume round: "drain_round reader baseRequest sink options offset result w =
        Inr (offset + of_nat k, result', v)"
      and written: "dn_bytesWritten result' = dn_bytesWritten result + of_nat k"
      and k: "0 < k" "k < length (drop (unat offset) file)"
      and content: "content v = content w @ take k (drop (unat offset) file)"
      and room: "limit = 0 \<or> k < limit - unat (dn_bytesWritten result)"
      and moved: "unat (offset + of_nat k) = unat offset + k"
    have next_loop: "drain_loop reader baseRequest sink options (offset + of_nat k) result' v = (ended, w')"
      using less.prems(1) round by (simp add: drain_loop.simps [of reader baseRequest sink options offset])
    have sum: "limit \<noteq> 0 \<Longrightarrow> unat (dn_bytesWritten result') = unat (dn_bytesWritten result) + k"
    proof -
      assume "limit \<noteq> 0"
      then have "unat (dn_bytesWritten result) + k < 2 ^ 64"
        using room assms(5) unsigned_less [of "do_maxTotalBytes options", where 'a = nat] by simp
      then show ?thesis by (simp add: written unat_word_ariths of_nat_u64)
    qed
    have open': "limit = 0 \<or> unat (dn_bytesWritten result') < limit" using room sum by auto
    have "\<exists>j. dn_bytesWritten ended = dn_bytesWritten result' + of_nat j \<and>
      j \<le> length (drop (unat (offset + of_nat k)) file) \<and>
      content w' = content v @ take j (drop (unat (offset + of_nat k)) file) \<and>
      (if limit = 0 \<or> length (drop (unat (offset + of_nat k)) file) \<le> limit - unat (dn_bytesWritten result')
       then dn_status ended = RS_Ok \<and> j = length (drop (unat (offset + of_nat k)) file)
       else dn_status ended = RS_TooLarge)"
      by (rule less.hyps [OF _ next_loop open']) (use k moved in simp)
    then obtain j where "dn_bytesWritten ended = dn_bytesWritten result' + of_nat j"
      "j \<le> length (drop (unat (offset + of_nat k)) file)"
      "content w' = content v @ take j (drop (unat (offset + of_nat k)) file)"
      "if limit = 0 \<or> length (drop (unat (offset + of_nat k)) file) \<le> limit - unat (dn_bytesWritten result')
       then dn_status ended = RS_Ok \<and> j = length (drop (unat (offset + of_nat k)) file)
       else dn_status ended = RS_TooLarge" by blast
    note ih = this
    have "content w' = content w @ take (k + j) (drop (unat offset) file)"
      using ih(3) take_add [of k j "drop (unat offset) file"]
      by (simp only: content moved drop_drop append_assoc add.commute [of "unat offset" k])
    moreover have "dn_bytesWritten ended = dn_bytesWritten result + of_nat (k + j)"
      using ih(1) by (simp add: written)
    moreover have "k + j \<le> length (drop (unat offset) file)" using ih(2) k(2) moved by simp
    moreover have "if limit = 0 \<or> length (drop (unat offset) file) \<le> limit - unat (dn_bytesWritten result)
        then dn_status ended = RS_Ok \<and> k + j = length (drop (unat offset) file)
        else dn_status ended = RS_TooLarge"
      using ih(4) k(2) room sum moved by (auto split: if_splits)
    ultimately show ?case by blast
  qed
qed

lemma window_round_faithful:
  assumes "serves reader file content" and "wo_chunkBytes options \<noteq> 0" and "length file < 2 ^ 64"
    and "remaining \<noteq> 0" and "rest = drop (unat currentOffset) file"
  obtains (ended) v where "window_round reader baseRequest options currentOffset remaining result w =
      Inl (result\<lparr>fr_bytes := fr_bytes result @ rest, fr_endOfFile := True\<rparr>, v)"
      and "length rest \<le> unat remaining"
  | (more) k v where "window_round reader baseRequest options currentOffset remaining result w =
      Inr (currentOffset + of_nat k, remaining - of_nat k,
        result\<lparr>fr_bytes := fr_bytes result @ take k rest\<rparr>, v)"
      and "0 < k" and "k < length rest" and "unat (currentOffset + of_nat k) = unat currentOffset + k"
      and "unat (remaining - of_nat k) = unat remaining - k" and "k \<le> unat remaining"
proof -
  define wanted where "wanted = min remaining (wo_chunkBytes options)"
  define request where "request = baseRequest\<lparr>fq_offset := currentOffset, fq_requestedBytes := wanted\<rparr>"
  obtain part v where read: "reader request (wo_timeoutMs options) w = (part, v)"
    by (metis prod.exhaust)
  define k where "k = length (fr_bytes part)"
  have "fq_requestedBytes request \<noteq> 0" "rest = drop (unat (fq_offset request)) file"
    using assms(2,4) by (auto simp: request_def assms(5) wanted_def min_def)
  note part = serves_range [OF assms(1) read this, folded k_def]
  have "length rest < 2 ^ 64" using assms(3,5) by simp
  then have unat_k: "unat (of_nat k :: u64) = k" using part(3) by (simp add: of_nat_u64)
  have asked: "k \<le> unat wanted" "k \<le> unat remaining"
    using part(4) by (auto simp: request_def wanted_def min_def word_le_nat_alt split: if_splits)
  have received: "\<not> wanted < of_nat k" "\<not> (of_nat k = (0 :: u64) \<and> \<not> fr_endOfFile part)"
    using asked part(5,6) unat_k by (auto simp: word_less_nat_alt unat_eq_zero [symmetric])
  let ?result = "result\<lparr>fr_bytes := fr_bytes result @ fr_bytes part\<rparr>"
  have round: "window_round reader baseRequest options currentOffset remaining result w =
    (if fr_endOfFile part then Inl (?result\<lparr>fr_endOfFile := True\<rparr>, v)
     else if currentOffset > - 1 - of_nat k then
       Inl (window_failed ''clipboard remote file window offset overflow'' ?result, v)
     else Inr (currentOffset + of_nat k, remaining - of_nat k, ?result, v))"
    unfolding window_round_def wanted_def [symmetric] Let_def request_def [symmetric] read
      prod.case k_def [symmetric]
    by (simp only: received part(1) if_False not_True_eq_False simp_thms if_True)
  show thesis
  proof (cases "fr_endOfFile part")
    case True
    then show thesis using ended [of v] round part(2,5) asked(2) by simp
  next
    case False
    then have less: "k < length rest" "0 < k" using part(3,5,6) by auto
    then have fits: "unat currentOffset + k < 2 ^ 64" using assms(3,5) by simp
    then have sum: "unat (currentOffset + of_nat k) = unat currentOffset + k"
      using unat_k by (subst unat_add_lem [THEN iffD1]) simp_all
    have "\<not> currentOffset > - 1 - of_nat k"
      using fits unat_k unat_sub [of "of_nat k" "- 1 :: u64"]
      by (simp add: not_less word_le_nat_alt unsigned_minus_1_eq_mask mask_eq_exp_minus_1)
    moreover have "unat (remaining - of_nat k) = unat remaining - k"
      using asked(2) unat_k by (simp add: unat_sub word_le_nat_alt)
    ultimately show thesis
      using more [of k v] round False less sum asked(2) part(2) by simp
  qed
qed

lemma window_loop_faithful:
  assumes "serves reader file content" and "wo_chunkBytes options \<noteq> 0" and "length file < 2 ^ 64"
  shows "fr_endOfFile result = False \<Longrightarrow> fst (window_loop reader baseRequest options currentOffset remaining result w) =
    result\<lparr>fr_bytes := fr_bytes result @ take (unat remaining) (drop (unat currentOffset) file),
      fr_endOfFile := remaining \<noteq> 0 \<and> length (drop (unat currentOffset) file) \<le> unat remaining\<rparr>"
proof (induction "length (drop (unat currentOffset) file)" arbitrary: currentOffset remaining result w
    rule: less_induct)
  case less
  show ?case
  proof (cases "remaining = 0")
    case True
    then show ?thesis using less.prems by (simp add: window_loop.simps [of _ _ _ _ 0])
  next
    case False
    then have positive: "remaining > 0" by (simp add: word_gt_0)
    show ?thesis
    proof (rule window_round_faithful [OF assms False refl, where baseRequest = baseRequest
          and currentOffset = currentOffset and result = result and w = w])
      fix v
      assume "window_round reader baseRequest options currentOffset remaining result w =
          Inl (result\<lparr>fr_bytes := fr_bytes result @ drop (unat currentOffset) file, fr_endOfFile := True\<rparr>, v)"
        and "length (drop (unat currentOffset) file) \<le> unat remaining"
      then show ?thesis
        using positive False by (simp add: window_loop.simps [of reader baseRequest options currentOffset])
    next
      fix k v
      assume round: "window_round reader baseRequest options currentOffset remaining result w =
          Inr (currentOffset + of_nat k, remaining - of_nat k,
            result\<lparr>fr_bytes := fr_bytes result @ take k (drop (unat currentOffset) file)\<rparr>, v)"
        and k: "0 < k" "k < length (drop (unat currentOffset) file)" "k \<le> unat remaining"
        and moved: "unat (currentOffset + of_nat k) = unat currentOffset + k"
          "unat (remaining - of_nat k) = unat remaining - k"
      let ?result = "result\<lparr>fr_bytes := fr_bytes result @ take k (drop (unat currentOffset) file)\<rparr>"
      have left: "remaining - of_nat k \<noteq> 0 \<longleftrightarrow> k < unat remaining"
        using k(3) moved(2) by (metis diff_is_0_eq le_antisym nat_less_le unat_eq_zero)
      have "fst (window_loop reader baseRequest options currentOffset remaining result w) =
          fst (window_loop reader baseRequest options (currentOffset + of_nat k) (remaining - of_nat k)
            ?result v)"
        using positive round by (simp add: window_loop.simps [of reader baseRequest options currentOffset])
      moreover have shorter: "length (drop (unat (currentOffset + of_nat k)) file) <
          length (drop (unat currentOffset) file)"
        using k(1,2) moved(1) by simp
      moreover have "take (unat remaining) (drop (unat currentOffset) file) =
          take k (drop (unat currentOffset) file) @
          take (unat remaining - k) (drop (unat currentOffset + k) file)"
        using take_add [of k "unat remaining - k" "drop (unat currentOffset) file"] k(3)
        by (simp add: add.commute)
      moreover have "(remaining - of_nat k \<noteq> 0 \<and>
            length (drop (unat currentOffset + k) file) \<le> unat remaining - k) \<longleftrightarrow>
          remaining \<noteq> 0 \<and> length (drop (unat currentOffset) file) \<le> unat remaining"
        using left k(2,3) False by auto
      ultimately show ?thesis
        using less.hyps [OF shorter, of ?result "remaining - of_nat k" v] less.prems
        by (simp add: moved del: length_drop)
    qed
  qed
qed

section \<open>Properties\<close>

text \<open>
  Draining always returns and never writes more than it may: for every reader and every sink, the
  bytes counted as written stay within the maximum (0 is no maximum), and the result is Ok exactly if
  the end of the file was reached.
\<close>

theorem drain_stays_within_the_maximum:
  "let result = fst (drainRemoteFileRange reader baseRequest sink options w) in
   (do_maxTotalBytes options = 0 \<or> dn_bytesWritten result \<le> do_maxTotalBytes options) \<and>
   (dn_status result = RS_Ok \<longleftrightarrow> dn_endOfFile result) \<and>
   (do_chunkBytes options = 0 \<longrightarrow> dn_status result = RS_InvalidArgument)"
  using drain_loop_within [of options default_drain_result reader baseRequest sink]
  by (auto simp: drainRemoteFileRange_def Let_def within_limit_def default_drain_result_def)

text \<open>
  C25. A drain copies the file: against a reader that serves the bytes of a file, in ranges as short as it
  likes, and a sink that collects them, draining from an offset with any chunk size gives the sink
  exactly the rest of the file and answers Ok if the rest fits the maximum; if it does not, the answer
  is TooLarge and the sink has got a prefix of the rest of at most that size.
\<close>

theorem drain_copies_the_file:
  assumes "serves reader file content" and "collects sink content" and "do_chunkBytes options \<noteq> 0"
    and "length file < 2 ^ 64" and "rest = drop (unat (fq_offset baseRequest)) file"
    and "drainRemoteFileRange reader baseRequest sink options w = (result, w')"
  shows "if do_maxTotalBytes options = 0 \<or> length rest \<le> unat (do_maxTotalBytes options)
    then dn_status result = RS_Ok \<and> content w' = content w @ rest \<and>
      unat (dn_bytesWritten result) = length rest
    else dn_status result = RS_TooLarge \<and>
      content w' = content w @ take (unat (dn_bytesWritten result)) rest \<and>
      dn_bytesWritten result \<le> do_maxTotalBytes options"
proof -
  let ?limit = "unat (do_maxTotalBytes options)"
  have loop: "drain_loop reader baseRequest sink options (fq_offset baseRequest) default_drain_result w =
      (result, w')"
    using assms(3,6) by (simp add: drainRemoteFileRange_def)
  have start: "?limit = 0 \<or> unat (dn_bytesWritten default_drain_result) < ?limit"
    by (auto simp: default_drain_result_def)
  obtain k where k: "dn_bytesWritten result = of_nat k" "k \<le> length rest"
      "content w' = content w @ take k rest"
      "if ?limit = 0 \<or> length rest \<le> ?limit then dn_status result = RS_Ok \<and> k = length rest
       else dn_status result = RS_TooLarge"
    using drain_loop_faithful [OF assms(1-4) refl loop start]
    by (auto simp: assms(5) default_drain_result_def)
  have "unat (dn_bytesWritten result) = k"
    using k(1,2) assms(4,5) by (simp add: of_nat_u64)
  moreover have "do_maxTotalBytes options = 0 \<or> dn_bytesWritten result \<le> do_maxTotalBytes options"
    using drain_loop_within [of options default_drain_result reader baseRequest sink
        "fq_offset baseRequest" w] loop
    by (simp add: within_limit_def default_drain_result_def)
  ultimately show ?thesis
    using k by (auto simp: unat_eq_zero split: if_splits)
qed

text \<open>A reader that serves at most three bytes a time of a file of seven, and a list as the sink.\<close>

definition sample_file :: byte_buffer where
  "sample_file = [70, 68, 67, 76, 1, 2, 3]"

definition sample_reader :: "byte_buffer file_reader" where
  "sample_reader request timeout w =
    (let rest = drop (unat (fq_offset request)) sample_file;
         bytes = take (min 3 (unat (fq_requestedBytes request))) rest
     in (\<lparr>fr_status = RS_Ok, fr_bytes = bytes, fr_endOfFile = (length bytes = length rest),
           fr_message = []\<rparr>, w))"

definition sample_sink :: "byte_buffer range_sink" where
  "sample_sink request bytes endOfFile w = (\<lparr>sk_status = RS_Ok, sk_message = []\<rparr>, w @ bytes)"

definition sample_range_request :: file_range_request where
  "sample_range_request = \<lparr>fq_bundleId = 1, fq_offerId = 2, fq_ownerEpoch = 1, fq_sourceId = 3,
     fq_objectId = 4, fq_fileIndex = 0, fq_offset = 2, fq_requestedBytes = 0\<rparr>"

lemma sample_transfer: "serves sample_reader sample_file id" "collects sample_sink id"
  by (auto simp: serves_def collects_def sample_reader_def sample_sink_def Let_def min_def unat_eq_zero)

theorem drain_copies_the_file_witness:
  "\<exists>result. drainRemoteFileRange sample_reader sample_range_request sample_sink default_drain_options [9] =
     (result, [9, 67, 76, 1, 2, 3]) \<and> dn_status result = RS_Ok \<and> unat (dn_bytesWritten result) = 5"
proof -
  obtain result w' where drained: "drainRemoteFileRange sample_reader sample_range_request sample_sink
      default_drain_options [9] = (result, w')"
    by (metis prod.exhaust)
  show ?thesis
    using drain_copies_the_file [OF sample_transfer _ _ refl drained] drained
    by (simp add: default_drain_options_def DefaultTransferFileRangeChunkBytes_def sample_file_def
        sample_range_request_def)
qed

text \<open>
  A window of a file is exactly its bytes: against a reader that serves a file, whatever the chunk
  size, reading \<open>n\<close> bytes at an offset gives Ok with those of the \<open>n\<close> bytes that exist, and says that
  the file ended exactly if the window is not empty and reaches the end.
\<close>

theorem window_read_is_exact:
  assumes "serves reader file content" and "wo_chunkBytes options \<noteq> 0" and "length file < 2 ^ 64"
  shows "fst (readRemoteFileRangeWindow reader baseRequest offset requestedBytes options w) =
    \<lparr>fr_status = RS_Ok, fr_bytes = take (unat requestedBytes) (drop (unat offset) file),
     fr_endOfFile = (requestedBytes \<noteq> 0 \<and> length file \<le> unat offset + unat requestedBytes),
     fr_message = []\<rparr>"
  using window_loop_faithful [OF assms, of "default_range_result\<lparr>fr_status := RS_Ok\<rparr>" baseRequest offset
      requestedBytes w] assms(2)
  by (simp add: readRemoteFileRangeWindow_def default_range_result_def le_diff_conv add.commute)

theorem window_read_is_exact_witness:
  "fst (readRemoteFileRangeWindow sample_reader sample_range_request 1 5
     \<lparr>wo_chunkBytes = 2, wo_timeoutMs = 0\<rparr> []) =
    \<lparr>fr_status = RS_Ok, fr_bytes = [68, 67, 76, 1, 2], fr_endOfFile = False, fr_message = []\<rparr>"
  using window_read_is_exact [OF sample_transfer(1), of "\<lparr>wo_chunkBytes = 2, wo_timeoutMs = 0\<rparr>"
      sample_range_request 1 5 "[]"]
  by (simp add: sample_file_def)

end
