(* ===== verification/Clipboard_Types.thy ===== *)
theory Clipboard_Types
  imports Protocol_Types
begin

text \<open>
  \<open>clipboard_types.h\<close>, \<open>clipboard_types.cpp\<close>: the formats a transfer offers, the sources that hold
  them, and the bundles of sources a peer offers. A source is an object behind the abstract class
  \<open>TransferSource\<close>: a reference of a type variable whose methods are the fields of
  \<open>source_interface\<close>, acting on a world. The two sources of this file are given as functions on their
  members. A \<open>std::string\<close> is a list of characters, which on the wire are bytes.
\<close>

section \<open>Formats and reads\<close>

type_synonym encoding_mode = u16

abbreviation (input) EM_CanonicalBytes :: encoding_mode where "EM_CanonicalBytes \<equiv> 1"
abbreviation (input) EM_NativePassthrough :: encoding_mode where "EM_NativePassthrough \<equiv> 2"
abbreviation (input) EM_Transcoded :: encoding_mode where "EM_Transcoded \<equiv> 3"

definition FdclFileListFormat :: string where
  "FdclFileListFormat = ''application/x-fdcl-file-list''"

record format_descriptor =
  fd_canonicalFormat :: string
  fd_nativeFormatName :: string
  fd_localFormatToken :: u32
  fd_formatId :: u64
  fd_itemIndex :: u32
  fd_estimatedBytes :: u64
  fd_canInline :: bool
  fd_canStream :: bool
  fd_preferredEncoding :: encoding_mode

record read_request =
  rq_bundleId :: u64
  rq_offerId :: u64
  rq_ownerEpoch :: u64
  rq_sourceId :: u64
  rq_itemIndex :: u32
  rq_formatId :: u64
  rq_localFormatToken :: u32
  rq_canonicalFormat :: string
  rq_acceptedMaxBytes :: u64
  rq_streamAccepted :: bool
  rq_requestedEncoding :: encoding_mode

definition default_read_request :: read_request where
  "default_read_request = \<lparr>rq_bundleId = 0, rq_offerId = 0, rq_ownerEpoch = 0, rq_sourceId = 0,
     rq_itemIndex = 0, rq_formatId = 0, rq_localFormatToken = 0, rq_canonicalFormat = [],
     rq_acceptedMaxBytes = 0, rq_streamAccepted = False, rq_requestedEncoding = EM_CanonicalBytes\<rparr>"

record read_result =
  rs_status :: response_status
  rs_canonicalFormat :: string
  rs_encoding :: encoding_mode
  rs_bytes :: byte_buffer
  rs_message :: string

definition read_failed :: "response_status \<Rightarrow> string \<Rightarrow> read_result" where
  "read_failed status message = \<lparr>rs_status = status, rs_canonicalFormat = [],
     rs_encoding = EM_CanonicalBytes, rs_bytes = [], rs_message = message\<rparr>"

text \<open>
  \<open>matchesFormat\<close> (and \<open>matchesFileDescriptor\<close> of \<open>clipboard_transfer_file_list.cpp\<close>, the same test):
  an empty format name, a zero id and a zero token match any descriptor; the item index must agree.
\<close>

definition matchesFormat :: "format_descriptor \<Rightarrow> read_request \<Rightarrow> bool" where
  "matchesFormat descriptor request =
    (if rq_canonicalFormat request \<noteq> [] \<and>
        fd_canonicalFormat descriptor \<noteq> rq_canonicalFormat request then False
     else if rq_formatId request \<noteq> 0 \<and> fd_formatId descriptor \<noteq> rq_formatId request then False
     else if rq_itemIndex request \<noteq> fd_itemIndex descriptor then False
     else rq_localFormatToken request = 0 \<or>
       fd_localFormatToken descriptor = rq_localFormatToken request)"

section \<open>Sources\<close>

record ('r, 'w) source_interface =
  ts_id :: "'r \<Rightarrow> u64"
  ts_formats :: "'r \<Rightarrow> 'w \<Rightarrow> format_descriptor list"
  ts_read :: "'r \<Rightarrow> read_request \<Rightarrow> 'w \<Rightarrow> read_result \<times> 'w"

record transfer_entry =
  te_descriptor :: format_descriptor
  te_bytes :: byte_buffer

record materialized_source =
  mt_sourceId :: u64
  mt_entries :: "transfer_entry list"

definition materialized_formats :: "materialized_source \<Rightarrow> format_descriptor list" where
  "materialized_formats s = map te_descriptor (mt_entries s)"

fun read_entries :: "transfer_entry list \<Rightarrow> read_request \<Rightarrow> read_result" where
  "read_entries [] request = read_failed RS_NotFound ''transfer format is not found''"
| "read_entries (entry # entries) request =
    (if \<not> matchesFormat (te_descriptor entry) request then read_entries entries request
     else if rq_acceptedMaxBytes request \<noteq> 0 \<and>
             of_nat (length (te_bytes entry)) > rq_acceptedMaxBytes request then
       read_failed RS_TooLarge ''transfer content exceeds accepted maximum''
     else \<lparr>rs_status = RS_Ok, rs_canonicalFormat = fd_canonicalFormat (te_descriptor entry),
       rs_encoding = fd_preferredEncoding (te_descriptor entry), rs_bytes = te_bytes entry,
       rs_message = []\<rparr>)"

definition materialized_read :: "materialized_source \<Rightarrow> read_request \<Rightarrow> read_result" where
  "materialized_read s request =
    (if rq_sourceId request \<noteq> 0 \<and> rq_sourceId request \<noteq> mt_sourceId s then
       read_failed RS_NotFound ''transfer source id is not found''
     else read_entries (mt_entries s) request)"

record remote_source =
  rm_sourceId :: u64
  rm_formats :: "format_descriptor list"

definition remote_read :: "remote_source \<Rightarrow> read_request \<Rightarrow> read_result" where
  "remote_read s request = read_failed RS_Unsupported ''remote FDCL source requires module-mediated read''"

section \<open>Strings on the wire\<close>

definition string_bytes :: "string \<Rightarrow> byte_buffer" where
  "string_bytes str = map of_char str"

definition bytes_string :: "byte_buffer \<Rightarrow> string" where
  "bytes_string bytes = map (\<lambda>b. char_of (unat b)) bytes"

lemma unat_of_char [simp]: "unat (of_char c :: u8) = of_char c"
  by (simp add: of_char_def)

lemma of_char_unat [simp]: "(of_char (char_of (unat (b :: u8))) :: u8) = b"
proof -
  have "unat b mod 256 = unat b" using unsigned_less [of b, where 'a = nat] by simp
  then show ?thesis by (subst of_nat_of_char [symmetric]) (simp add: of_char_of)
qed

lemma bytes_string_bytes [simp]: "bytes_string (string_bytes str) = str"
  by (induction str) (simp_all add: bytes_string_def string_bytes_def)

lemma string_bytes_string [simp]: "string_bytes (bytes_string bytes) = bytes"
  by (induction bytes) (simp_all add: bytes_string_def string_bytes_def)

lemma string_bytes_length [simp]:
  "length (string_bytes str) = length str" "length (bytes_string bytes) = length bytes"
  by (simp_all add: bytes_string_def string_bytes_def)

end
