(* ===== verification/Transfer_File_List.thy ===== *)
theory Transfer_File_List
  imports Clipboard_Types Payload_Fields
begin

text \<open>
  \<open>clipboard_transfer_file_list.cpp\<close>: the list of files of a clipboard offer. File names and
  relative paths come from the other peer and end up in local paths, so both the encoder and the
  decoder sanitise them; the fields of this payload are little-endian, and a read moves an offset on.
\<close>

section \<open>File names\<close>

definition name_separator :: "char \<Rightarrow> bool" where
  "name_separator ch \<longleftrightarrow> ch = CHR ''/'' \<or> ch = CHR 0x5C \<or> ch = CHR '':'' \<or> ch = CHR 0x00"

definition space_or_dot :: "char \<Rightarrow> bool" where
  "space_or_dot ch \<longleftrightarrow> ch = CHR '' '' \<or> ch = CHR ''.''"

text \<open>The loop over the leading characters stops at the first that is no space or dot.\<close>

fun replace_leading :: "string \<Rightarrow> string" where
  "replace_leading [] = []"
| "replace_leading (ch # rest) =
    (if space_or_dot ch then CHR ''_'' # replace_leading rest else ch # rest)"

definition sanitizeTransferFileDisplayName :: "string \<Rightarrow> string" where
  "sanitizeTransferFileDisplayName str =
    (let result = map (\<lambda>ch. if name_separator ch then CHR ''_'' else ch) str;
         result = rev (dropWhile space_or_dot (rev result));
         result = replace_leading result
     in if result = [] \<or> result = ''.'' \<or> result = ''..'' then ''unnamed'' else result)"

text \<open>The state of the loop over a path: what is done and the segment being read.\<close>

definition flushSegment :: "string \<times> string \<Rightarrow> string \<times> string" where
  "flushSegment state = (let (result, segment) = state in
     if segment = [] then (result, segment)
     else let safe = sanitizeTransferFileDisplayName segment
          in if safe = [] \<or> safe = ''unnamed'' then (result, [])
             else ((if result \<noteq> [] then result @ ''/'' else result) @ safe, []))"

definition path_char :: "char \<Rightarrow> string \<times> string \<Rightarrow> string \<times> string" where
  "path_char ch state =
    (if ch = CHR ''/'' \<or> ch = CHR 0x5C then flushSegment state
     else if ch = CHR '':'' \<or> ch = CHR 0x00 then (fst state, snd state @ ''_'')
     else (fst state, snd state @ [ch]))"

definition sanitizeTransferFileRelativePath :: "string \<Rightarrow> string" where
  "sanitizeTransferFileRelativePath str =
    (let (result, segment) = flushSegment (fold path_char str ([], []))
     in if result = [] then sanitizeTransferFileDisplayName str else result)"

section \<open>Little-endian fields\<close>

definition appendLe16 :: "u16 \<Rightarrow> byte_buffer \<Rightarrow> byte_buffer" where
  "appendLe16 v output = output @ [ucast (v AND 0xff)] @ [ucast (drop_bit 8 v AND 0xff)]"

definition appendLe32 :: "u32 \<Rightarrow> byte_buffer \<Rightarrow> byte_buffer" where
  "appendLe32 v output = fold (\<lambda>i out. out @ [ucast (drop_bit (i * 8) v AND 0xff)]) [0..<4] output"

definition appendLe64 :: "u64 \<Rightarrow> byte_buffer \<Rightarrow> byte_buffer" where
  "appendLe64 v output = fold (\<lambda>i out. out @ [ucast (drop_bit (i * 8) v AND 0xff)]) [0..<8] output"

definition takeU8 :: "byte_buffer \<Rightarrow> nat \<Rightarrow> (u8 \<times> nat) option" where
  "takeU8 bytes offset =
    (if offset + 1 > length bytes then None else Some (bytes ! offset, offset + 1))"

definition takeLe16 :: "byte_buffer \<Rightarrow> nat \<Rightarrow> (u16 \<times> nat) option" where
  "takeLe16 bytes offset =
    (if offset + 2 > length bytes then None
     else Some (ucast (bytes ! offset) OR push_bit 8 (ucast (bytes ! (offset + 1))), offset + 2))"

definition takeLe32 :: "byte_buffer \<Rightarrow> nat \<Rightarrow> (u32 \<times> nat) option" where
  "takeLe32 bytes offset =
    (if offset + 4 > length bytes then None
     else Some (fold (\<lambda>i v. v OR push_bit (i * 8) (ucast (bytes ! (offset + i)))) [0..<4] 0, offset + 4))"

definition takeLe64 :: "byte_buffer \<Rightarrow> nat \<Rightarrow> (u64 \<times> nat) option" where
  "takeLe64 bytes offset =
    (if offset + 8 > length bytes then None
     else Some (fold (\<lambda>i v. v OR push_bit (i * 8) (ucast (bytes ! (offset + i)))) [0..<8] 0, offset + 8))"

definition takeString :: "nat \<Rightarrow> byte_buffer \<Rightarrow> nat \<Rightarrow> (string \<times> nat) option" where
  "takeString maxBytes bytes offset =
    (case takeLe16 bytes offset of
       None \<Rightarrow> None
     | Some (len, offset) \<Rightarrow>
         if unat len > maxBytes \<or> offset + unat len > length bytes then None
         else Some (bytes_string (take (unat len) (drop offset bytes)), offset + unat len))"

section \<open>The list\<close>

record file_descriptor =
  tf_objectId :: u64
  tf_displayName :: string
  tf_relativePath :: string
  tf_sizeBytes :: u64
  tf_lastModifiedUnixUsec :: u64
  tf_directory :: bool

definition encoded_string :: "string \<Rightarrow> byte_buffer \<Rightarrow> byte_buffer" where
  "encoded_string str output =
    (let len = min (length str) 65535
     in appendLe16 (of_nat len) output @ string_bytes (take len str))"

definition encode_file :: "file_descriptor \<Rightarrow> byte_buffer \<Rightarrow> byte_buffer" where
  "encode_file file output =
    (let displayName = sanitizeTransferFileDisplayName (tf_displayName file);
         relativePath = sanitizeTransferFileRelativePath (tf_relativePath file);
         relativePath = (if relativePath = [] \<or> relativePath = ''unnamed'' then displayName
                         else relativePath);
         output = appendLe64 (tf_objectId file) output;
         output = appendLe64 (tf_sizeBytes file) output;
         output = appendLe64 (tf_lastModifiedUnixUsec file) output;
         output = output @ [if tf_directory file then 1 else 0];
         output = encoded_string displayName output
     in encoded_string relativePath output)"

definition file_list_magic :: byte_buffer where
  "file_list_magic = [0x46, 0x44, 0x46, 0x4C]"

definition encodeTransferFileList :: "file_descriptor list \<Rightarrow> byte_buffer" where
  "encodeTransferFileList files =
    (let output = appendLe16 1 file_list_magic;
         output = appendLe16 1 output;
         output = appendLe32 (of_nat (length files)) output
     in fold encode_file files output)"

record file_list_result =
  fl_ok :: bool
  fl_status :: response_status
  fl_files :: "file_descriptor list"
  fl_message :: string

definition file_list_failed :: "response_status \<Rightarrow> string \<Rightarrow> file_descriptor list \<Rightarrow> file_list_result" where
  "file_list_failed status message files =
     \<lparr>fl_ok = False, fl_status = status, fl_files = files, fl_message = message\<rparr>"

definition read_file_entry ::
    "byte_buffer \<Rightarrow> u16 \<Rightarrow> nat \<Rightarrow> nat \<Rightarrow> string + (file_descriptor \<times> nat)" where
  "read_file_entry bytes minor maxNameBytes offset =
    (case (do {
       (objectId, offset) \<leftarrow> takeLe64 bytes offset;
       (sizeBytes, offset) \<leftarrow> takeLe64 bytes offset;
       (lastModifiedUnixUsec, offset) \<leftarrow> takeLe64 bytes offset;
       (directory, offset) \<leftarrow> takeU8 bytes offset;
       (displayName, offset) \<leftarrow> takeString maxNameBytes bytes offset;
       Some (\<lparr>tf_objectId = objectId,
          tf_displayName = sanitizeTransferFileDisplayName displayName, tf_relativePath = [],
          tf_sizeBytes = sizeBytes, tf_lastModifiedUnixUsec = lastModifiedUnixUsec,
          tf_directory = (directory \<noteq> 0)\<rparr>, offset) }) of
       None \<Rightarrow> Inl ''FDCL file list entry is truncated''
     | Some (file, offset) \<Rightarrow>
         (case (if minor \<ge> 1
                then map_option (map_prod sanitizeTransferFileRelativePath id)
                       (takeString (maxNameBytes * 8) bytes offset)
                else Some ([], offset)) of
            None \<Rightarrow> Inl ''FDCL file list relative path is truncated''
          | Some (relativePath, offset) \<Rightarrow>
              Inr (file\<lparr>tf_relativePath :=
                (if relativePath = [] \<or> relativePath = ''unnamed'' then tf_displayName file
                 else relativePath)\<rparr>, offset)))"

fun read_file_entries ::
    "byte_buffer \<Rightarrow> u16 \<Rightarrow> nat \<Rightarrow> nat \<Rightarrow> nat \<Rightarrow> file_descriptor list \<Rightarrow> (string + nat) \<times> file_descriptor list" where
  "read_file_entries bytes minor maxNameBytes 0 offset files = (Inr offset, files)"
| "read_file_entries bytes minor maxNameBytes (Suc n) offset files =
    (case read_file_entry bytes minor maxNameBytes offset of
       Inl error \<Rightarrow> (Inl error, files)
     | Inr (file, offset) \<Rightarrow> read_file_entries bytes minor maxNameBytes n offset (files @ [file]))"

definition decodeTransferFileList :: "nat \<Rightarrow> nat \<Rightarrow> byte_buffer \<Rightarrow> file_list_result" where
  "decodeTransferFileList maxFiles maxNameBytes bytes =
    (if length bytes < 12 \<or> take 4 bytes \<noteq> file_list_magic then
       file_list_failed RS_ProtocolError ''FDCL file list magic is invalid'' []
     else case (do {
         (magic, offset) \<leftarrow> takeLe32 bytes 0;
         (major, offset) \<leftarrow> takeLe16 bytes offset;
         (minor, offset) \<leftarrow> takeLe16 bytes offset;
         (entryCount, offset) \<leftarrow> takeLe32 bytes offset;
         Some (major, minor, entryCount, offset) }) of
       None \<Rightarrow> file_list_failed RS_ProtocolError ''FDCL file list header is truncated'' []
     | Some (major, minor, entryCount, offset) \<Rightarrow>
         if major \<noteq> 1 \<or> minor > 1 then
           file_list_failed RS_Unsupported ''FDCL file list version is unsupported'' []
         else if unat entryCount > maxFiles then
           file_list_failed RS_TooLarge ''FDCL file list exceeds max file count'' []
         else
           (case read_file_entries bytes minor maxNameBytes (unat entryCount) offset [] of
              (Inl error, files) \<Rightarrow> file_list_failed RS_ProtocolError error files
            | (Inr offset, files) \<Rightarrow>
                if offset \<noteq> length bytes then
                  file_list_failed RS_ProtocolError ''FDCL file list has trailing bytes'' files
                else \<lparr>fl_ok = True, fl_status = RS_Ok, fl_files = files, fl_message = []\<rparr>))"

definition default_maxFiles :: nat where
  "default_maxFiles = 1024"

definition default_maxNameBytes :: nat where
  "default_maxNameBytes = 255"

section \<open>A source that offers a list of files\<close>

record file_group_source =
  fg_sourceId :: u64
  fg_descriptor :: format_descriptor
  fg_files :: "file_descriptor list"

definition new_file_group :: "u64 \<Rightarrow> format_descriptor \<Rightarrow> file_descriptor list \<Rightarrow> file_group_source" where
  "new_file_group sourceId descriptor files = \<lparr>fg_sourceId = sourceId,
     fg_descriptor = descriptor\<lparr>fd_canonicalFormat := FdclFileListFormat,
       fd_preferredEncoding := EM_CanonicalBytes, fd_canInline := True\<rparr>,
     fg_files = files\<rparr>"

definition file_group_read :: "file_group_source \<Rightarrow> read_request \<Rightarrow> read_result" where
  "file_group_read s request =
    (if rq_sourceId request \<noteq> 0 \<and> rq_sourceId request \<noteq> fg_sourceId s then
       read_failed RS_NotFound ''file group source id is not found''
     else if \<not> matchesFormat (fg_descriptor s) request then
       read_failed RS_NotFound ''file group descriptor format is not found''
     else
       let encoded = encodeTransferFileList (fg_files s)
       in if rq_acceptedMaxBytes request \<noteq> 0 \<and>
             of_nat (length encoded) > rq_acceptedMaxBytes request then
            read_failed RS_TooLarge ''file group descriptor exceeds accepted maximum''
          else \<lparr>rs_status = RS_Ok, rs_canonicalFormat = FdclFileListFormat,
            rs_encoding = EM_CanonicalBytes, rs_bytes = encoded, rs_message = []\<rparr>)"

definition file_group_interface :: "(file_group_source, 'w) source_interface" where
  "file_group_interface = \<lparr>ts_id = fg_sourceId, ts_formats = (\<lambda>s w. [fg_descriptor s]),
     ts_read = (\<lambda>s request w. (file_group_read s request, w))\<rparr>"

section \<open>Little-endian fields are read where they are written\<close>

definition le16 :: "u16 \<Rightarrow> byte_buffer" where "le16 v = rev (be16 v)"
definition le32 :: "u32 \<Rightarrow> byte_buffer" where "le32 v = rev (be32 v)"
definition le64 :: "u64 \<Rightarrow> byte_buffer" where "le64 v = rev (be64 v)"
definition of_le16 :: "byte_buffer \<Rightarrow> u16" where "of_le16 bs = of16 (rev bs)"
definition of_le32 :: "byte_buffer \<Rightarrow> u32" where "of_le32 bs = of32 (rev bs)"
definition of_le64 :: "byte_buffer \<Rightarrow> u64" where "of_le64 bs = of64 (rev bs)"

interpretation l16: byte_field 2 le16 of_le16
  by unfold_locales (simp_all add: le16_def of_le16_def of16_be16 be16_of16)

interpretation l32: byte_field 4 le32 of_le32
  by unfold_locales (simp_all add: le32_def of_le32_def of32_be32 be32_of32)

interpretation l64: byte_field 8 le64 of_le64
  by unfold_locales (simp_all add: le64_def of_le64_def of64_be64 be64_of64)

named_theorems le_fields \<open>little-endian fields\<close>

lemma appendLe16_eq [le_fields]: "appendLe16 v output = output @ le16 v"
  by (simp add: appendLe16_def le16_def be16_def)

lemma appendLe32_eq [le_fields]: "appendLe32 v output = output @ le32 v"
  by (simp add: appendLe32_def fold_append le32_def be32_def upt_rec)

lemma appendLe64_eq [le_fields]: "appendLe64 v output = output @ le64 v"
  by (simp add: appendLe64_def fold_append le64_def be64_def upt_rec)

lemma takeU8_eq [le_fields]:
  "takeU8 bytes offset = map_option (\<lambda>v. (v, offset + 1)) (read_at 1 (\<lambda>bs. bs ! 0) bytes offset)"
  by (simp add: takeU8_def read_at_def)

lemma takeLe16_eq [le_fields]:
  "takeLe16 bytes offset = map_option (\<lambda>v. (v, offset + 2)) (read_at 2 of_le16 bytes offset)"
  by (auto simp: takeLe16_def read_at_def of_le16_def of16_def rev_nth or.commute)

lemma takeLe32_eq [le_fields]:
  "takeLe32 bytes offset = map_option (\<lambda>v. (v, offset + 4)) (read_at 4 of_le32 bytes offset)"
  by (auto simp: takeLe32_def read_at_def of_le32_def of32_def rev_nth or.commute or.left_commute upt_rec
      eval_nat_numeral)

lemma upt_8: "[0..<8] = [0, 1, 2, 3, 4, 5, 6, 7]"
  by (simp add: upt_rec)

lemma takeLe64_eq [le_fields]:
  "takeLe64 bytes offset = map_option (\<lambda>v. (v, offset + 8)) (read_at 8 of_le64 bytes offset)"
  by (auto simp: takeLe64_def read_at_def of_le64_def of64_def upt_8 rev_nth push_bit_or
      or.assoc or.commute or.left_commute)

lemmas le_lengths [simp] = l16.length_enc l32.length_enc l64.length_enc

lemmas le_fields_here [le_fields] = l16.read_here l32.read_here l64.read_here

section \<open>Sanitised names and paths\<close>

text \<open>
  A safe name is one component of a path: it is not empty, has no slash, backslash, colon or zero
  byte, and neither starts nor ends with a space or a dot (so it is neither \<open>.\<close> nor \<open>..\<close>). A safe
  path is safe names separated by single slashes.
\<close>

definition safe_name :: "string \<Rightarrow> bool" where
  "safe_name str \<longleftrightarrow> str \<noteq> [] \<and> list_all (\<lambda>ch. \<not> name_separator ch) str \<and>
     \<not> space_or_dot (hd str) \<and> \<not> space_or_dot (List.last str)"

fun path_segments :: "string \<Rightarrow> string list" where
  "path_segments [] = [[]]"
| "path_segments (ch # rest) =
    (if ch = CHR ''/'' then [] # path_segments rest
     else (ch # hd (path_segments rest)) # tl (path_segments rest))"

definition safe_path :: "string \<Rightarrow> bool" where
  "safe_path str \<longleftrightarrow> list_all safe_name (path_segments str)"

lemma underscore [simp]: "\<not> name_separator CHR ''_''" "\<not> space_or_dot CHR ''_''"
  by (simp_all add: name_separator_def space_or_dot_def)

lemma replace_leading_set: "set (replace_leading str) \<subseteq> insert (CHR ''_'') (set str)"
  by (induction str) auto

lemma replace_leading_end:
  "\<not> space_or_dot z \<Longrightarrow> \<exists>ys. replace_leading (xs @ [z]) = ys @ [z] \<and> \<not> space_or_dot (hd (ys @ [z]))"
proof (induction xs)
  case (Cons x xs)
  then obtain ys where "replace_leading (xs @ [z]) = ys @ [z]" by auto
  then show ?case by (cases "space_or_dot x") (auto intro: exI [of _ "CHR ''_'' # ys"] exI [of _ "x # xs"])
qed simp

lemma replace_leading_fixed: "str = [] \<or> \<not> space_or_dot (hd str) \<Longrightarrow> replace_leading str = str"
  by (cases str) auto

lemma safe_unnamed [simp]: "safe_name ''unnamed''"
  by (simp add: safe_name_def name_separator_def space_or_dot_def)

lemma displayName_safe [simp]: "safe_name (sanitizeTransferFileDisplayName str)"
proof -
  define replaced where "replaced = map (\<lambda>ch. if name_separator ch then CHR ''_'' else ch) str"
  define trimmed where "trimmed = rev (dropWhile space_or_dot (rev replaced))"
  have "set trimmed \<subseteq> set replaced"
    using set_dropWhileD [of _ space_or_dot "rev replaced"] by (auto simp: trimmed_def)
  moreover have "\<not> name_separator ch" if "ch \<in> set replaced" for ch
    using that by (auto simp: replaced_def)
  ultimately have chars: "\<not> name_separator ch" if "ch \<in> set (replace_leading trimmed)" for ch
    using that replace_leading_set [of trimmed] underscore(1) by blast
  have named: "safe_name (replace_leading trimmed)" if "trimmed \<noteq> []"
  proof -
    have "\<not> space_or_dot (hd (dropWhile space_or_dot (rev replaced)))"
      using that hd_dropWhile [of space_or_dot "rev replaced"] by (simp add: trimmed_def)
    then have "\<not> space_or_dot (List.last trimmed)" using that by (simp add: trimmed_def last_rev)
    with that obtain ys z where "trimmed = ys @ [z]" "\<not> space_or_dot z"
      by (metis append_butlast_last_id)
    then obtain xs where "replace_leading trimmed = xs @ [z]" "\<not> space_or_dot (hd (xs @ [z]))"
      using replace_leading_end by blast
    then show ?thesis using chars \<open>\<not> space_or_dot z\<close> by (simp add: safe_name_def list_all_iff)
  qed
  show ?thesis
    using named
    by (cases "trimmed = []")
      (simp_all add: sanitizeTransferFileDisplayName_def Let_def replaced_def [symmetric]
        trimmed_def [symmetric])
qed

lemma safe_name_fixed: "safe_name str \<Longrightarrow> sanitizeTransferFileDisplayName str = str"
proof -
  assume safe: "safe_name str"
  then have "map (\<lambda>ch. if name_separator ch then CHR ''_'' else ch) str = str"
    by (auto simp: safe_name_def list_all_iff intro: map_idI)
  moreover have "dropWhile space_or_dot (rev str) = rev str"
    using safe by (cases "rev str") (auto simp: safe_name_def last_rev [symmetric] hd_rev)
  moreover have "str \<noteq> ''.''" "str \<noteq> ''..''"
    using safe by (auto simp: safe_name_def space_or_dot_def)
  ultimately show ?thesis
    using safe by (simp add: sanitizeTransferFileDisplayName_def safe_name_def replace_leading_fixed)
qed

fun join_path :: "string list \<Rightarrow> string" where
  "join_path [] = []"
| "join_path [s] = s"
| "join_path (s # t # ss) = s @ ''/'' @ join_path (t # ss)"

definition kept_segment :: "string \<Rightarrow> bool" where
  "kept_segment s \<longleftrightarrow> safe_name s \<and> s \<noteq> ''unnamed''"

lemma join_path_snoc:
  "join_path (segments @ [s]) = (if segments = [] then s else join_path segments @ ''/'' @ s)"
  by (induction segments rule: join_path.induct) auto

lemma join_path_Nil: "list_all kept_segment segments \<Longrightarrow> join_path segments = [] \<longleftrightarrow> segments = []"
  by (cases segments rule: join_path.cases) (auto simp: kept_segment_def safe_name_def)

lemma safe_name_no_slash: "safe_name s \<Longrightarrow> CHR ''/'' \<notin> set s"
  by (auto simp: safe_name_def list_all_iff name_separator_def)

lemma path_segments_name: "CHR ''/'' \<notin> set s \<Longrightarrow> path_segments s = [s]"
  by (induction s) auto

lemma path_segments_slash:
  "CHR ''/'' \<notin> set s \<Longrightarrow> path_segments (s @ CHR ''/'' # rest) = s # path_segments rest"
  by (induction s) auto

lemma path_segments_join:
  "list_all safe_name segments \<Longrightarrow> segments \<noteq> [] \<Longrightarrow> path_segments (join_path segments) = segments"
  by (induction segments rule: join_path.induct)
    (auto simp: path_segments_name path_segments_slash dest: safe_name_no_slash)

lemma safe_name_path: "safe_name s \<Longrightarrow> safe_path s"
  by (simp add: safe_path_def path_segments_name safe_name_no_slash)

lemma safe_joined: "list_all kept_segment segments \<Longrightarrow> segments \<noteq> [] \<Longrightarrow> safe_path (join_path segments)"
  using path_segments_join [of segments]
  by (auto simp: safe_path_def kept_segment_def list_all_iff)

text \<open>The loop over a path keeps its result a path of safe segments.\<close>

definition path_state_ok :: "string \<times> string \<Rightarrow> bool" where
  "path_state_ok state \<longleftrightarrow> (\<exists>segments. fst state = join_path segments \<and> list_all kept_segment segments)"

lemma flushSegment_ok: "path_state_ok state \<Longrightarrow> path_state_ok (flushSegment state)"
proof -
  assume "path_state_ok state"
  then obtain segments where result: "fst state = join_path segments" "list_all kept_segment segments"
    by (auto simp: path_state_ok_def)
  let ?safe = "sanitizeTransferFileDisplayName (snd state)"
  show ?thesis
  proof (cases "snd state = [] \<or> ?safe = [] \<or> ?safe = ''unnamed''")
    case True
    then have "fst (flushSegment state) = fst state"
      by (auto simp: flushSegment_def Let_def split_beta)
    then show ?thesis using \<open>path_state_ok state\<close> by (simp add: path_state_ok_def)
  next
    case False
    then have "fst (flushSegment state) = join_path (segments @ [?safe])"
      using result join_path_Nil [OF result(2)]
      by (auto simp: flushSegment_def Let_def split_beta join_path_snoc)
    moreover have "list_all kept_segment (segments @ [?safe])"
      using result(2) False by (simp add: kept_segment_def)
    ultimately show ?thesis unfolding path_state_ok_def by blast
  qed
qed

lemma path_char_ok: "path_state_ok state \<Longrightarrow> path_state_ok (path_char ch state)"
  using flushSegment_ok [of state] by (simp add: path_char_def path_state_ok_def)

lemma path_loop_ok: "path_state_ok state \<Longrightarrow> path_state_ok (fold path_char str state)"
  by (induction str arbitrary: state) (simp_all add: path_char_ok)

lemma relativePath_cases:
  obtains (joined) segments where "sanitizeTransferFileRelativePath str = join_path segments"
    and "list_all kept_segment segments" and "segments \<noteq> []"
  | (name) "sanitizeTransferFileRelativePath str = sanitizeTransferFileDisplayName str"
proof -
  let ?final = "flushSegment (fold path_char str ([], []))"
  have "path_state_ok ([], [])" by (auto simp: path_state_ok_def intro: exI [of _ "[]"])
  then have "path_state_ok ?final" by (intro flushSegment_ok path_loop_ok)
  then obtain segments where "fst ?final = join_path segments" "list_all kept_segment segments"
    by (auto simp: path_state_ok_def)
  then show thesis
    using joined [of segments] name join_path_Nil [of segments]
    by (cases "segments = []") (simp_all add: sanitizeTransferFileRelativePath_def split_beta)
qed

lemma relativePath_safe [simp]: "safe_path (sanitizeTransferFileRelativePath str)"
  by (cases rule: relativePath_cases [of str]) (simp_all add: safe_joined safe_name_path)

text \<open>What is sanitised is left alone when it is sanitised again.\<close>

lemma path_loop_name:
  "list_all (\<lambda>ch. \<not> name_separator ch) s \<Longrightarrow> fold path_char s (result, segment) = (result, segment @ s)"
  by (induction s arbitrary: segment) (simp_all add: path_char_def name_separator_def)

lemma kept_safe: "kept_segment s \<Longrightarrow> safe_name s"
  by (simp add: kept_segment_def)

lemma path_loop_kept:
  "safe_name s \<Longrightarrow> fold path_char s (result, []) = (result, s)"
  by (simp add: path_loop_name safe_name_def)

lemma flush_kept:
  assumes "kept_segment s" and "list_all kept_segment segments"
  shows "flushSegment (join_path segments, s) = (join_path (segments @ [s]), [])"
  using assms join_path_Nil [OF assms(2)]
  by (auto simp: flushSegment_def kept_segment_def safe_name_fixed join_path_snoc safe_name_def Let_def)

lemma path_loop_joined:
  assumes "list_all kept_segment segments" and "segments \<noteq> []" and "list_all kept_segment before"
  shows "flushSegment (fold path_char (join_path segments) (join_path before, [])) =
    (join_path (before @ segments), [])"
  using assms
proof (induction segments arbitrary: before rule: join_path.induct)
  case (2 s)
  then show ?case
    by (simp add: path_loop_kept kept_safe flush_kept)
next
  case (3 s t ss)
  have "fold path_char (s @ ''/'') (join_path before, []) = (join_path (before @ [s]), [])"
    using "3.prems"
    by (simp add: path_loop_kept path_char_def kept_safe flush_kept)
  then show ?case
    using "3.IH" [of "before @ [s]"] "3.prems" by simp
qed simp

lemma relativePath_joined:
  "list_all kept_segment segments \<Longrightarrow> segments \<noteq> [] \<Longrightarrow>
   sanitizeTransferFileRelativePath (join_path segments) = join_path segments"
  using path_loop_joined [of segments "[]"] join_path_Nil [of segments]
  by (simp add: sanitizeTransferFileRelativePath_def)

lemma relativePath_name: "safe_name s \<Longrightarrow> sanitizeTransferFileRelativePath s = s"
proof (cases "s = ''unnamed''")
  case True
  have "flushSegment ([], ''unnamed'') = ([], [])"
    by (simp add: flushSegment_def safe_name_fixed)
  moreover have "fold path_char s ([], []) = ([], s)"
    unfolding True by (rule path_loop_kept [OF safe_unnamed])
  ultimately show ?thesis
    by (simp add: True sanitizeTransferFileRelativePath_def safe_name_fixed)
next
  case False
  moreover assume "safe_name s"
  ultimately show ?thesis using relativePath_joined [of "[s]"] by (simp add: kept_segment_def)
qed

lemma relativePath_again:
  "sanitizeTransferFileRelativePath (sanitizeTransferFileRelativePath str) =
   sanitizeTransferFileRelativePath str"
  by (cases rule: relativePath_cases [of str]) (simp_all add: relativePath_joined relativePath_name)

section \<open>Encoding and decoding\<close>

definition sanitised :: "file_descriptor \<Rightarrow> file_descriptor" where
  "sanitised file =
    (let displayName = sanitizeTransferFileDisplayName (tf_displayName file);
         relativePath = sanitizeTransferFileRelativePath (tf_relativePath file)
     in file\<lparr>tf_displayName := displayName, tf_relativePath :=
          (if relativePath = [] \<or> relativePath = ''unnamed'' then displayName else relativePath)\<rparr>)"

definition wire_string :: "string \<Rightarrow> byte_buffer" where
  "wire_string str = le16 (of_nat (length str)) @ string_bytes str"

definition wire_file :: "file_descriptor \<Rightarrow> byte_buffer" where
  "wire_file file = le64 (tf_objectId file) @ le64 (tf_sizeBytes file) @
     le64 (tf_lastModifiedUnixUsec file) @ [if tf_directory file then 1 else 0] @
     wire_string (tf_displayName file) @ wire_string (tf_relativePath file)"

definition names_fit :: "nat \<Rightarrow> file_descriptor \<Rightarrow> bool" where
  "names_fit maxNameBytes file \<longleftrightarrow> length (tf_displayName (sanitised file)) \<le> maxNameBytes \<and>
     length (tf_relativePath (sanitised file)) \<le> maxNameBytes * 8"

lemma encode_file_eq:
  assumes "names_fit maxNameBytes file" and "maxNameBytes * 8 \<le> 65535"
  shows "encode_file file output = output @ wire_file (sanitised file)"
  using assms
  by (simp add: encode_file_def encoded_string_def wire_file_def wire_string_def sanitised_def names_fit_def
      Let_def le_fields)

lemma encode_files_eq:
  assumes "list_all (names_fit maxNameBytes) files" and "maxNameBytes * 8 \<le> 65535"
  shows "fold encode_file files buf = buf @ concat (map (\<lambda>file. wire_file (sanitised file)) files)"
  using assms by (induction files arbitrary: buf) (simp_all add: encode_file_eq [of maxNameBytes])

lemma takeString_wire:
  assumes "length str \<le> maxBytes" and "length str < 65536" and "length before = offset"
  shows "takeString maxBytes (before @ wire_string str @ rest) offset = Some (str, offset + 2 + length str)"
proof -
  have "unat (of_nat (length str) :: u16) = length str" using assms(2) by (simp add: unat_of_nat)
  then show ?thesis
    using assms by (simp add: takeString_def wire_string_def le_fields wire_layout)
qed

lemma sanitised_path:
  "sanitizeTransferFileRelativePath (tf_relativePath (sanitised file)) = tf_relativePath (sanitised file)"
  by (simp add: sanitised_def Let_def relativePath_again relativePath_name)

lemma sanitised_path_kept:
  "tf_relativePath (sanitised file) = [] \<or> tf_relativePath (sanitised file) = ''unnamed'' \<Longrightarrow>
   tf_displayName (sanitised file) = tf_relativePath (sanitised file)"
  by (auto simp: sanitised_def Let_def split: if_splits)

lemma read_file_entry_wire:
  assumes "names_fit maxNameBytes file" and "maxNameBytes * 8 \<le> 65535" and "length before = offset"
  shows "read_file_entry (before @ wire_file (sanitised file) @ rest) 1 maxNameBytes offset =
    Inr (sanitised file, offset + length (wire_file (sanitised file)))"
proof -
  let ?f = "sanitised file"
  let ?start = "before @ le64 (tf_objectId ?f) @ le64 (tf_sizeBytes ?f) @
    le64 (tf_lastModifiedUnixUsec ?f) @ [if tf_directory ?f then 1 else 0]"
  define bytes where "bytes = before @ wire_file ?f @ rest"
  have bytes: "bytes = ?start @ wire_string (tf_displayName ?f) @ wire_string (tf_relativePath ?f) @ rest"
    "bytes = (?start @ wire_string (tf_displayName ?f)) @ wire_string (tf_relativePath ?f) @ rest"
    by (simp_all add: bytes_def wire_file_def)
  have fixed: "takeLe64 bytes offset = Some (tf_objectId ?f, offset + 8)"
    "takeLe64 bytes (offset + 8) = Some (tf_sizeBytes ?f, offset + 16)"
    "takeLe64 bytes (offset + 16) = Some (tf_lastModifiedUnixUsec ?f, offset + 24)"
    "takeU8 bytes (offset + 24) = Some (if tf_directory ?f then 1 else 0, offset + 25)"
    using assms(3) by (simp_all add: bytes_def wire_file_def le_fields wire_layout)
  have lengths: "length (tf_displayName ?f) \<le> maxNameBytes"
    "length (tf_relativePath ?f) \<le> maxNameBytes * 8"
    using assms(1) by (simp_all add: names_fit_def)
  have name: "takeString maxNameBytes bytes (offset + 25) =
      Some (tf_displayName ?f, offset + 27 + length (tf_displayName ?f))"
    unfolding bytes(1) using lengths assms(2,3) by (subst takeString_wire) simp_all
  have path: "takeString (maxNameBytes * 8) bytes (offset + 27 + length (tf_displayName ?f)) =
      Some (tf_relativePath ?f, offset + 29 + length (tf_displayName ?f) + length (tf_relativePath ?f))"
    unfolding bytes(2) using lengths assms(2,3) by (subst takeString_wire) (simp_all add: wire_string_def)
  have "sanitizeTransferFileDisplayName (tf_displayName ?f) = tf_displayName ?f"
    by (simp add: sanitised_def Let_def safe_name_fixed)
  moreover have "tf_directory ?f = ((if tf_directory ?f then 1 else 0 :: u8) \<noteq> 0)" by simp
  ultimately show ?thesis
    unfolding bytes_def [symmetric]
    using sanitised_path_kept
    by (auto simp: read_file_entry_def fixed name path sanitised_path wire_file_def wire_string_def
        intro!: file_descriptor.equality)
qed

lemma read_file_entries_wire:
  assumes "list_all (names_fit maxNameBytes) files" and "maxNameBytes * 8 \<le> 65535"
    and "length before = offset"
  shows "read_file_entries (before @ concat (map (\<lambda>file. wire_file (sanitised file)) files)) 1 maxNameBytes
      (length files) offset done_files =
    (Inr (offset + length (concat (map (\<lambda>file. wire_file (sanitised file)) files))),
     done_files @ map sanitised files)"
  using assms
proof (induction files arbitrary: before offset done_files)
  case (Cons f fs)
  have "read_file_entry (before @ wire_file (sanitised f) @
        concat (map (\<lambda>file. wire_file (sanitised file)) fs)) 1 maxNameBytes offset =
      Inr (sanitised f, offset + length (wire_file (sanitised f)))"
    using Cons.prems by (intro read_file_entry_wire) simp_all
  then show ?case
    using Cons.IH [of "before @ wire_file (sanitised f)" "offset + length (wire_file (sanitised f))"
        "done_files @ [sanitised f]"] Cons.prems
    by (simp add: add.assoc)
qed simp

lemma encode_file_list_eq:
  assumes "list_all (names_fit maxNameBytes) files" and "maxNameBytes * 8 \<le> 65535"
  shows "encodeTransferFileList files = file_list_magic @ le16 1 @ le16 1 @ le32 (of_nat (length files)) @
    concat (map (\<lambda>file. wire_file (sanitised file)) files)"
  using encode_files_eq [OF assms] by (simp add: encodeTransferFileList_def Let_def le_fields)

lemma decode_file_list_header:
  "decodeTransferFileList maxFiles maxNameBytes
     (file_list_magic @ le16 1 @ le16 1 @ le32 entries @ body) =
   (if unat entries > maxFiles then
      file_list_failed RS_TooLarge ''FDCL file list exceeds max file count'' []
    else (case read_file_entries (file_list_magic @ le16 1 @ le16 1 @ le32 entries @ body) 1 maxNameBytes
        (unat entries) 12 [] of
       (Inl error, files) \<Rightarrow> file_list_failed RS_ProtocolError error files
     | (Inr offset, files) \<Rightarrow>
         if offset \<noteq> 12 + length body then
           file_list_failed RS_ProtocolError ''FDCL file list has trailing bytes'' files
         else \<lparr>fl_ok = True, fl_status = RS_Ok, fl_files = files, fl_message = []\<rparr>))"
proof -
  let ?bytes = "file_list_magic @ le16 1 @ le16 1 @ le32 entries @ body"
  have size: "length ?bytes = 12 + length body" "take 4 ?bytes = file_list_magic"
    by (simp_all add: file_list_magic_def)
  have header: "takeLe32 ?bytes 0 = Some (of_le32 file_list_magic, 4)"
    "takeLe16 ?bytes 4 = Some (1, 6)" "takeLe16 ?bytes 6 = Some (1, 8)"
    "takeLe32 ?bytes 8 = Some (entries, 12)"
    by (simp_all add: file_list_magic_def le_fields wire_layout) (simp add: read_at_def)
  show ?thesis
    unfolding decodeTransferFileList_def size header by (simp add: header)
qed

text \<open>Whatever the bytes, a decoded file has a safe name and a safe path.\<close>

definition safe_file :: "file_descriptor \<Rightarrow> bool" where
  "safe_file file \<longleftrightarrow> safe_name (tf_displayName file) \<and> safe_path (tf_relativePath file)"

lemma read_file_entry_safe: "read_file_entry bytes minor maxNameBytes offset = Inr (file, offset') \<Longrightarrow> safe_file file"
  by (auto simp: read_file_entry_def safe_file_def safe_name_path bind_eq_Some_conv
      split: option.splits if_splits prod.splits)

lemma read_file_entries_safe:
  "list_all safe_file files \<Longrightarrow>
   list_all safe_file (snd (read_file_entries bytes minor maxNameBytes n offset files)) \<and>
   length (snd (read_file_entries bytes minor maxNameBytes n offset files)) \<le> length files + n"
proof (induction n arbitrary: offset files)
  case (Suc n)
  show ?case
  proof (cases "read_file_entry bytes minor maxNameBytes offset")
    case (Inr r)
    obtain f offset' where "r = (f, offset')" by (metis prod.exhaust)
    then show ?thesis
      using Suc.IH [of "files @ [f]" offset'] Suc.prems Inr read_file_entry_safe [of bytes minor
          maxNameBytes offset f offset'] by simp
  qed (use Suc.prems in simp)
qed simp

lemma safe_path_shape:
  assumes "safe_path path"
  shows "path \<noteq> []" and "hd path \<noteq> CHR ''/''" and "''..'' \<notin> set (path_segments path)"
    and "''.'' \<notin> set (path_segments path)" and "[] \<notin> set (path_segments path)"
proof -
  show "path \<noteq> []" using assms by (auto simp: safe_path_def safe_name_def)
  then show "hd path \<noteq> CHR ''/''" using assms by (cases path) (auto simp: safe_path_def safe_name_def)
  show "''..'' \<notin> set (path_segments path)" "''.'' \<notin> set (path_segments path)"
    "[] \<notin> set (path_segments path)"
    using assms by (auto simp: safe_path_def list_all_iff safe_name_def space_or_dot_def)
qed

lemma sanitised_name:
  "sanitizeTransferFileDisplayName (tf_displayName (sanitised f)) = tf_displayName (sanitised f)"
  by (simp add: sanitised_def Let_def safe_name_fixed)

lemma sanitised_again: "sanitised (sanitised f) = sanitised f"
  by (subst sanitised_def, unfold Let_def sanitised_name sanitised_path)
    (use sanitised_path_kept in \<open>auto intro!: file_descriptor.equality\<close>)

lemma file_list_decoded:
  assumes "list_all (names_fit maxNameBytes) files" and "maxNameBytes * 8 \<le> 65535"
    and "length files \<le> maxFiles" and "length files < 2 ^ 32"
  shows "decodeTransferFileList maxFiles maxNameBytes (encodeTransferFileList files) =
      \<lparr>fl_ok = True, fl_status = RS_Ok, fl_files = map sanitised files, fl_message = []\<rparr>"
proof -
  have entries: "unat (of_nat (length files) :: u32) = length files"
    using assms(4) by (simp add: unat_of_nat)
  let ?head = "file_list_magic @ le16 1 @ le16 1 @ le32 (of_nat (length files))"
  have "length ?head = 12" by (simp add: file_list_magic_def)
  note read = read_file_entries_wire [OF assms(1,2) this, of "[]"]
  show ?thesis
    unfolding encode_file_list_eq [OF assms(1,2)] decode_file_list_header
    using assms(3) entries read by simp
qed

section \<open>Properties\<close>

text \<open>
  C22. No peer can make a file land outside the folder it is copied to: whatever the bytes and the limits,
  every file in the result of decoding a file list, accepted or not, has a name that is a single safe
  component, and a relative path that is not empty, does not start with a slash, and consists of safe
  components only, so none of them is empty, \<open>.\<close> or \<open>..\<close>, or has a backslash, a colon or a zero byte;
  and there are at most as many files as the limit.
\<close>

theorem decoded_names_are_safe:
  "list_all (\<lambda>f. safe_name (tf_displayName f) \<and> tf_relativePath f \<noteq> [] \<and>
     hd (tf_relativePath f) \<noteq> CHR ''/'' \<and> ''..'' \<notin> set (path_segments (tf_relativePath f)) \<and>
     list_all safe_name (path_segments (tf_relativePath f)))
     (fl_files (decodeTransferFileList maxFiles maxNameBytes bytes)) \<and>
   length (fl_files (decodeTransferFileList maxFiles maxNameBytes bytes)) \<le> maxFiles"
proof -
  have entries: "list_all safe_file (snd (read_file_entries bytes minor maxNameBytes n offset [])) \<and>
      length (snd (read_file_entries bytes minor maxNameBytes n offset [])) \<le> n" for minor n offset
    using read_file_entries_safe [of "[]" bytes minor maxNameBytes n offset] by simp
  have "list_all safe_file (fl_files (decodeTransferFileList maxFiles maxNameBytes bytes)) \<and>
      length (fl_files (decodeTransferFileList maxFiles maxNameBytes bytes)) \<le> maxFiles"
    using entries
    by (auto simp: decodeTransferFileList_def file_list_failed_def not_less
        split: option.splits prod.splits sum.splits if_splits
        dest: order_trans) (metis order_trans snd_conv)+
  then show ?thesis
    using safe_path_shape by (auto simp: list_all_iff safe_file_def safe_path_def)
qed

text \<open>
  C27. A file list survives the wire: if the sanitised names and paths fit the limits of the decoder,
  decoding what was encoded gives the same files in order with their names and paths sanitised, and
  sanitising them again, as the next peer does, changes nothing.
\<close>

theorem file_list_round_trip:
  assumes "list_all (names_fit maxNameBytes) files" and "maxNameBytes * 8 \<le> 65535"
    and "length files \<le> maxFiles" and "length files < 2 ^ 32"
  shows "decodeTransferFileList maxFiles maxNameBytes (encodeTransferFileList files) =
      \<lparr>fl_ok = True, fl_status = RS_Ok, fl_files = map sanitised files, fl_message = []\<rparr> \<and>
    map sanitised (map sanitised files) = map sanitised files"
  using file_list_decoded [OF assms] by (simp add: sanitised_again)

definition sample_files :: "file_descriptor list" where
  "sample_files = [\<lparr>tf_objectId = 1, tf_displayName = ''..'', tf_relativePath = ''../a:b//.c '',
       tf_sizeBytes = 10, tf_lastModifiedUnixUsec = 5, tf_directory = False\<rparr>,
     \<lparr>tf_objectId = 2, tf_displayName = ''d'', tf_relativePath = [], tf_sizeBytes = 0,
       tf_lastModifiedUnixUsec = 6, tf_directory = True\<rparr>]"

lemma sample_files_fit: "list_all (names_fit 255) sample_files"
  by (simp add: sample_files_def sanitised_def names_fit_def sanitizeTransferFileRelativePath_def
      sanitizeTransferFileDisplayName_def path_char_def flushSegment_def name_separator_def
      space_or_dot_def Let_def)

theorem file_list_round_trip_witness:
  "map tf_relativePath (fl_files (decodeTransferFileList 1024 255 (encodeTransferFileList sample_files))) =
     [''a_b/_c'', ''d'']"
proof -
  have paths: "map tf_relativePath (map sanitised sample_files) = [''a_b/_c'', ''d'']"
    by (simp add: sample_files_def sanitised_def sanitizeTransferFileRelativePath_def
        sanitizeTransferFileDisplayName_def path_char_def flushSegment_def name_separator_def
        space_or_dot_def Let_def)
  note fit = sample_files_fit
  show ?thesis
    using file_list_round_trip [OF fit, of 1024] paths by (simp add: sample_files_def)
qed

end
