(* ===== verification/Transfer_Registry.thy ===== *)
theory Transfer_Registry
  imports Transfer_File_List
begin

text \<open>
  \<open>clipboard_transfer_registry.cpp\<close>: the bundles of sources a peer offers, and the locks that keep a
  bundle alive while the other peer reads its files. An offer that is cleared or replaced while one
  of its objects is locked is retired: it can still be read, until the last lock goes. Sources stand
  behind the interface of \<open>Clipboard_Types\<close> and act on a world; their \<open>id()\<close> is constant.
\<close>

section \<open>Bundles, locks and the registry\<close>

record ('r, 'p) source_bundle =
  sb_bundleId :: u64
  sb_offerId :: u64
  sb_ownerEpoch :: u64
  sb_sequence :: u64
  sb_origin :: u16
  sb_side :: u16
  sb_originSessionId :: u64
  sb_policyVersion :: u64
  sb_createdMonotonicUsec :: u64
  sb_sources :: "'r option list"
  sb_presentation :: "'p option"

definition default_bundle :: "('r, 'p) source_bundle" where
  "default_bundle = \<lparr>sb_bundleId = 0, sb_offerId = 0, sb_ownerEpoch = 0, sb_sequence = 0, sb_origin = 1,
     sb_side = 1, sb_originSessionId = 0, sb_policyVersion = 0, sb_createdMonotonicUsec = 0,
     sb_sources = [], sb_presentation = None\<rparr>"

record lock_request =
  lk_bundleId :: u64
  lk_offerId :: u64
  lk_ownerEpoch :: u64
  lk_sourceId :: u64
  lk_objectId :: u64
  lk_fileIndex :: u32
  lk_lockId :: u64
  lk_leaseUsec :: u64

record lock_result =
  lr_status :: response_status
  lr_lockId :: u64
  lr_leaseUsec :: u64
  lr_message :: string

record ('r, 'p) registry_entry =
  re_bundle :: "('r, 'p) source_bundle"
  re_locks :: "lock_request list"
  re_retired :: bool

record ('r, 'p) source_registry =
  sr_entries :: "('r, 'p) registry_entry list"
  sr_nextLockId :: u64

definition new_source_registry :: "('r, 'p) source_registry" where
  "new_source_registry = \<lparr>sr_entries = [], sr_nextLockId = 1\<rparr>"

definition objectLockError :: "response_status \<Rightarrow> string \<Rightarrow> lock_result" where
  "objectLockError status message =
     \<lparr>lr_status = status, lr_lockId = 0, lr_leaseUsec = 0, lr_message = message\<rparr>"

abbreviation entry_offer :: "('r, 'p) registry_entry \<Rightarrow> u64" where
  "entry_offer entry \<equiv> sb_offerId (re_bundle entry)"

section \<open>Storing and finding\<close>

definition clearOffer :: "u64 \<Rightarrow> ('r, 'p) source_registry \<Rightarrow> bool \<times> ('r, 'p) source_registry" where
  "clearOffer offerId reg =
    (let entries = map (\<lambda>entry. if entry_offer entry = offerId then entry\<lparr>re_retired := True\<rparr> else entry)
           (sr_entries reg)
     in (list_ex (\<lambda>entry. entry_offer entry = offerId) (sr_entries reg),
         reg\<lparr>sr_entries := filter (\<lambda>entry. \<not> (re_retired entry \<and> re_locks entry = [])) entries\<rparr>))"

definition store :: "('r, 'p) source_bundle \<Rightarrow> ('r, 'p) source_registry \<Rightarrow>
    response_status \<times> ('r, 'p) source_registry" where
  "store bundle reg =
    (if sb_bundleId bundle = 0 \<or> sb_offerId bundle = 0 then (RS_InvalidArgument, reg)
     else
       let reg = snd (clearOffer (sb_offerId bundle) reg)
       in if list_ex (\<lambda>entry. entry_offer entry = sb_offerId bundle) (sr_entries reg) then (RS_Conflict, reg)
          else (RS_Ok, reg\<lparr>sr_entries := sr_entries reg @
                 [\<lparr>re_bundle = bundle, re_locks = [], re_retired = False\<rparr>]\<rparr>))"

definition findBundle :: "('r, 'p) source_registry \<Rightarrow> u64 \<Rightarrow> ('r, 'p) source_bundle option" where
  "findBundle reg offerId =
     map_option re_bundle (find (\<lambda>entry. entry_offer entry = offerId) (sr_entries reg))"

definition find_source :: "('r, 'w) source_interface \<Rightarrow> u64 \<Rightarrow> 'r option list \<Rightarrow> 'r option" where
  "find_source iface sourceId sources =
     find (\<lambda>source. ts_id iface source = sourceId) (List.map_filter id sources)"

record ('r, 'p) source_lookup =
  sl_status :: response_status
  sl_message :: string
  sl_bundle :: "('r, 'p) source_bundle"
  sl_source :: "'r option"

definition lookup_failed :: "response_status \<Rightarrow> string \<Rightarrow> ('r, 'p) source_lookup" where
  "lookup_failed status message =
     \<lparr>sl_status = status, sl_message = message, sl_bundle = default_bundle, sl_source = None\<rparr>"

definition lookupSource ::
    "('r, 'w) source_interface \<Rightarrow> read_request \<Rightarrow> ('r, 'p) source_registry \<Rightarrow> ('r, 'p) source_lookup" where
  "lookupSource iface request reg =
    (if rq_bundleId request = 0 \<or> rq_offerId request = 0 \<or> rq_ownerEpoch request = 0 then
       lookup_failed RS_InvalidArgument ''transfer lookup identity is invalid''
     else case findBundle reg (rq_offerId request) of
       None \<Rightarrow> lookup_failed RS_NotFound ''transfer offer is not found''
     | Some bundle \<Rightarrow>
         if sb_bundleId bundle \<noteq> rq_bundleId request \<or> sb_ownerEpoch bundle \<noteq> rq_ownerEpoch request then
           lookup_failed RS_Conflict ''transfer offer identity is stale''
         else case find_source iface (rq_sourceId request) (sb_sources bundle) of
           None \<Rightarrow> lookup_failed RS_NotFound ''transfer source is not found''
         | Some source \<Rightarrow>
             \<lparr>sl_status = RS_Ok, sl_message = [], sl_bundle = bundle, sl_source = Some source\<rparr>)"

definition clearAll :: "('r, 'p) source_registry \<Rightarrow> nat \<times> ('r, 'p) source_registry" where
  "clearAll reg = (length (sr_entries reg),
     reg\<lparr>sr_entries := filter (\<lambda>entry. re_locks entry \<noteq> [])
       (map (\<lambda>entry. entry\<lparr>re_retired := True\<rparr>) (sr_entries reg))\<rparr>)"

definition lockCount :: "('r, 'p) source_registry \<Rightarrow> nat" where
  "lockCount reg = sum_list (map (\<lambda>entry. length (re_locks entry)) (sr_entries reg))"

definition releaseAllLocks :: "('r, 'p) source_registry \<Rightarrow> nat \<times> ('r, 'p) source_registry" where
  "releaseAllLocks reg = (lockCount reg,
     reg\<lparr>sr_entries := filter (\<lambda>entry. \<not> re_retired entry)
       (map (\<lambda>entry. entry\<lparr>re_locks := []\<rparr>) (sr_entries reg))\<rparr>)"

definition registry_size :: "('r, 'p) source_registry \<Rightarrow> nat" where
  "registry_size reg = length (sr_entries reg)"

section \<open>Locking an object\<close>

text \<open>
  The loop over the formats returns at the first one that is a file list, so the check for a file
  list that was seen but not used never applies.
\<close>

definition lock_read :: "format_descriptor \<Rightarrow> lock_request \<Rightarrow> read_request" where
  "lock_read descriptor request = default_read_request\<lparr>rq_bundleId := lk_bundleId request,
     rq_offerId := lk_offerId request, rq_ownerEpoch := lk_ownerEpoch request,
     rq_sourceId := lk_sourceId request, rq_itemIndex := fd_itemIndex descriptor,
     rq_formatId := fd_formatId descriptor, rq_localFormatToken := fd_localFormatToken descriptor,
     rq_canonicalFormat := FdclFileListFormat, rq_acceptedMaxBytes := - 1,
     rq_requestedEncoding := EM_CanonicalBytes\<rparr>"

definition check_file_list :: "read_result \<Rightarrow> lock_request \<Rightarrow> lock_result" where
  "check_file_list fileListBytes request =
    (if rs_status fileListBytes \<noteq> RS_Ok then
       objectLockError (rs_status fileListBytes)
         (if rs_message fileListBytes = [] then ''transfer file list is not readable''
          else rs_message fileListBytes)
     else
       let decoded = decodeTransferFileList default_maxFiles default_maxNameBytes (rs_bytes fileListBytes)
       in if \<not> fl_ok decoded then objectLockError (fl_status decoded) (fl_message decoded)
          else if unat (lk_fileIndex request) \<ge> length (fl_files decoded) then
            objectLockError RS_NotFound ''transfer file index is not found''
          else if tf_objectId (fl_files decoded ! unat (lk_fileIndex request)) \<noteq> lk_objectId request then
            objectLockError RS_Conflict ''transfer file object identity is stale''
          else \<lparr>lr_status = RS_Ok, lr_lockId = 0, lr_leaseUsec = 0, lr_message = []\<rparr>)"

definition validateFileObjectForLock ::
    "('r, 'w) source_interface \<Rightarrow> 'r \<Rightarrow> lock_request \<Rightarrow> 'w \<Rightarrow> lock_result \<times> 'w" where
  "validateFileObjectForLock iface source request w =
    (case find (\<lambda>descriptor. fd_canonicalFormat descriptor = FdclFileListFormat) (ts_formats iface source w) of
       None \<Rightarrow> (objectLockError RS_NotFound ''transfer file-list format is not found'', w)
     | Some descriptor \<Rightarrow>
         if \<not> fd_canStream descriptor then
           (objectLockError RS_Unsupported ''transfer file object does not allow streaming'', w)
         else
           let (fileListBytes, w) = ts_read iface source (lock_read descriptor request) w
           in (check_file_list fileListBytes request, w))"

definition lock_identity_invalid :: "lock_request \<Rightarrow> bool" where
  "lock_identity_invalid request \<longleftrightarrow> lk_bundleId request = 0 \<or> lk_offerId request = 0 \<or>
     lk_ownerEpoch request = 0 \<or> lk_sourceId request = 0 \<or> lk_objectId request = 0"

text \<open>The first entry of the offer decides; \<open>nextLockId\<close> is threaded through.\<close>

definition lock_entry ::
    "('r, 'w) source_interface \<Rightarrow> lock_request \<Rightarrow> ('r, 'p) registry_entry \<Rightarrow> u64 \<Rightarrow> 'w \<Rightarrow>
     lock_result \<times> ('r, 'p) registry_entry \<times> u64 \<times> 'w" where
  "lock_entry iface request entry nextLockId w =
    (if re_retired entry then
       (objectLockError RS_Conflict ''transfer object lock offer is retired'', entry, nextLockId, w)
     else if sb_bundleId (re_bundle entry) \<noteq> lk_bundleId request \<or>
             sb_ownerEpoch (re_bundle entry) \<noteq> lk_ownerEpoch request then
       (objectLockError RS_Conflict ''transfer object lock offer is stale'', entry, nextLockId, w)
     else if list_ex (\<lambda>lock. lk_lockId request \<noteq> 0 \<and> lk_lockId lock = lk_lockId request) (re_locks entry) then
       (objectLockError RS_Conflict ''transfer object lock id is already active'', entry, nextLockId, w)
     else case find_source iface (lk_sourceId request) (sb_sources (re_bundle entry)) of
       None \<Rightarrow> (objectLockError RS_NotFound ''transfer object lock source is not found'',
                entry, nextLockId, w)
     | Some source \<Rightarrow>
         let (validation, w) = validateFileObjectForLock iface source request w
         in if lr_status validation \<noteq> RS_Ok then (validation, entry, nextLockId, w)
            else
              let nextLockId = (if lk_lockId request = 0 \<and> nextLockId = 0 then 1 else nextLockId);
                  lock = (if lk_lockId request = 0 then request\<lparr>lk_lockId := nextLockId\<rparr> else request);
                  nextLockId = (if lk_lockId request = 0 then nextLockId + 1 else nextLockId)
              in (validation\<lparr>lr_lockId := lk_lockId lock, lr_leaseUsec := lk_leaseUsec lock\<rparr>,
                  entry\<lparr>re_locks := re_locks entry @ [lock]\<rparr>, nextLockId, w))"

fun lock_entries ::
    "('r, 'w) source_interface \<Rightarrow> lock_request \<Rightarrow> ('r, 'p) registry_entry list \<Rightarrow> u64 \<Rightarrow> 'w \<Rightarrow>
     lock_result \<times> ('r, 'p) registry_entry list \<times> u64 \<times> 'w" where
  "lock_entries iface request [] nextLockId w =
    (objectLockError RS_NotFound ''transfer object lock offer is not found'', [], nextLockId, w)"
| "lock_entries iface request (entry # entries) nextLockId w =
    (if entry_offer entry \<noteq> lk_offerId request then
       let (result, entries, nextLockId, w) = lock_entries iface request entries nextLockId w
       in (result, entry # entries, nextLockId, w)
     else
       let (result, entry, nextLockId, w) = lock_entry iface request entry nextLockId w
       in (result, entry # entries, nextLockId, w))"

definition lockObject ::
    "('r, 'w) source_interface \<Rightarrow> lock_request \<Rightarrow> ('r, 'p) source_registry \<Rightarrow> 'w \<Rightarrow>
     lock_result \<times> ('r, 'p) source_registry \<times> 'w" where
  "lockObject iface request reg w =
    (if lock_identity_invalid request then
       (objectLockError RS_InvalidArgument ''transfer object lock identity is invalid'', reg, w)
     else
       let (result, entries, nextLockId, w) =
             lock_entries iface request (sr_entries reg) (sr_nextLockId reg) w
       in (result, reg\<lparr>sr_entries := entries, sr_nextLockId := nextLockId\<rparr>, w))"

section \<open>Unlocking\<close>

definition same_lock :: "lock_request \<Rightarrow> lock_request \<Rightarrow> bool" where
  "same_lock request active \<longleftrightarrow> lk_lockId active = lk_lockId request \<and>
     lk_sourceId active = lk_sourceId request \<and> lk_objectId active = lk_objectId request \<and>
     lk_fileIndex active = lk_fileIndex request"

text \<open>An entry that was retired goes with its last lock.\<close>

definition unlock_entry ::
    "lock_request \<Rightarrow> ('r, 'p) registry_entry \<Rightarrow> lock_result \<times> ('r, 'p) registry_entry list" where
  "unlock_entry request entry =
    (if sb_bundleId (re_bundle entry) \<noteq> lk_bundleId request \<or>
        sb_ownerEpoch (re_bundle entry) \<noteq> lk_ownerEpoch request then
       (objectLockError RS_Conflict ''transfer object unlock offer is stale'', [entry])
     else case find (same_lock request) (re_locks entry) of
       None \<Rightarrow> (objectLockError RS_NotFound ''transfer object lock is not found'', [entry])
     | Some lock \<Rightarrow>
         let entry = entry\<lparr>re_locks := erase_first (same_lock request) (re_locks entry)\<rparr>
         in (\<lparr>lr_status = RS_Ok, lr_lockId = lk_lockId lock, lr_leaseUsec = lk_leaseUsec lock,
               lr_message = []\<rparr>,
             if re_retired entry \<and> re_locks entry = [] then [] else [entry]))"

fun unlock_entries ::
    "lock_request \<Rightarrow> ('r, 'p) registry_entry list \<Rightarrow> lock_result \<times> ('r, 'p) registry_entry list" where
  "unlock_entries request [] =
    (objectLockError RS_NotFound ''transfer object lock offer is not found'', [])"
| "unlock_entries request (entry # entries) =
    (if entry_offer entry \<noteq> lk_offerId request then
       let (result, entries) = unlock_entries request entries in (result, entry # entries)
     else let (result, kept) = unlock_entry request entry in (result, kept @ entries))"

definition unlockObject ::
    "lock_request \<Rightarrow> ('r, 'p) source_registry \<Rightarrow> lock_result \<times> ('r, 'p) source_registry" where
  "unlockObject request reg =
    (if lock_identity_invalid request \<or> lk_lockId request = 0 then
       (objectLockError RS_InvalidArgument ''transfer object unlock identity is invalid'', reg)
     else
       let (result, entries) = unlock_entries request (sr_entries reg)
       in (result, reg\<lparr>sr_entries := entries\<rparr>))"

section \<open>Runs of a registry\<close>

datatype ('r, 'p) source_registry_op = StoreBundle "('r, 'p) source_bundle" | LockObject lock_request
  | UnlockObject lock_request | ClearOffer u64 | ClearAll | ReleaseAllLocks

definition source_registry_step ::
    "('r, 'w) source_interface \<Rightarrow> ('r, 'p) source_registry_op \<Rightarrow> ('r, 'p) source_registry \<times> 'w \<Rightarrow>
     ('r, 'p) source_registry \<times> 'w" where
  "source_registry_step iface operation rw = (let (reg, w) = rw in
     case operation of
       StoreBundle bundle \<Rightarrow> (snd (store bundle reg), w)
     | LockObject request \<Rightarrow> snd (lockObject iface request reg w)
     | UnlockObject request \<Rightarrow> (snd (unlockObject request reg), w)
     | ClearOffer offerId \<Rightarrow> (snd (clearOffer offerId reg), w)
     | ClearAll \<Rightarrow> (snd (clearAll reg), w)
     | ReleaseAllLocks \<Rightarrow> (snd (releaseAllLocks reg), w))"

text \<open>
  An entry is well formed if it is alive or holds a lock, and its locks are of its offer.
\<close>

definition lock_of_entry :: "('r, 'p) registry_entry \<Rightarrow> lock_request \<Rightarrow> bool" where
  "lock_of_entry entry lock \<longleftrightarrow> lk_offerId lock = entry_offer entry \<and>
     lk_bundleId lock = sb_bundleId (re_bundle entry) \<and>
     lk_ownerEpoch lock = sb_ownerEpoch (re_bundle entry) \<and> lk_lockId lock \<noteq> 0 \<and>
     \<not> lock_identity_invalid lock"

definition entry_sound :: "('r, 'p) registry_entry \<Rightarrow> bool" where
  "entry_sound entry \<longleftrightarrow> entry_offer entry \<noteq> 0 \<and> sb_bundleId (re_bundle entry) \<noteq> 0 \<and>
     (re_retired entry \<longrightarrow> re_locks entry \<noteq> []) \<and> list_all (lock_of_entry entry) (re_locks entry)"

definition source_registry_ok :: "('r, 'p) source_registry \<Rightarrow> bool" where
  "source_registry_ok reg \<longleftrightarrow> distinct (map (\<lambda>entry. entry_offer entry) (sr_entries reg)) \<and>
     list_all entry_sound (sr_entries reg)"

lemma entry_sound_retired [simp]:
  "lock_of_entry (entry\<lparr>re_retired := flag\<rparr>) lock = lock_of_entry entry lock"
  "lock_of_entry (entry\<lparr>re_locks := locks\<rparr>) lock = lock_of_entry entry lock"
  by (simp_all add: lock_of_entry_def)

lemma offers_distinct:
  assumes "distinct (map (\<lambda>entry. entry_offer entry) entries)" and "\<And>entry. entry_offer (f entry) = entry_offer entry"
  shows "distinct (map (\<lambda>entry. entry_offer entry) (filter p (map f entries)))"
  using assms by (induction entries) auto

lemma clearOffer_ok: "source_registry_ok reg \<Longrightarrow> source_registry_ok (snd (clearOffer offerId reg))"
  by (auto simp: source_registry_ok_def clearOffer_def Let_def list_all_iff entry_sound_def
      intro!: offers_distinct)

lemma clearAll_ok: "source_registry_ok reg \<Longrightarrow> source_registry_ok (snd (clearAll reg))"
  by (auto simp: source_registry_ok_def clearAll_def list_all_iff entry_sound_def intro!: offers_distinct)

lemma releaseAllLocks_ok: "source_registry_ok reg \<Longrightarrow> source_registry_ok (snd (releaseAllLocks reg))"
  by (auto simp: source_registry_ok_def releaseAllLocks_def list_all_iff entry_sound_def
      intro!: offers_distinct)

lemma store_ok: "source_registry_ok reg \<Longrightarrow> source_registry_ok (snd (store bundle reg))"
  using clearOffer_ok [of reg "sb_offerId bundle"]
  by (auto simp: store_def Let_def source_registry_ok_def entry_sound_def list_ex_iff)

text \<open>Locking appends one lock to the entry of the offer, or changes nothing but the world.\<close>

lemma check_file_list_refused:
  "lr_status (check_file_list bytes request) \<noteq> RS_Ok \<or>
     (rs_status bytes = RS_Ok \<and>
      fl_ok (decodeTransferFileList default_maxFiles default_maxNameBytes (rs_bytes bytes)))"
  by (auto simp: check_file_list_def objectLockError_def Let_def decodeTransferFileList_def
      file_list_failed_def split: option.splits prod.splits sum.splits if_splits)

definition locked_entry ::
    "lock_request \<Rightarrow> ('r, 'p) registry_entry \<Rightarrow> lock_request \<Rightarrow> ('r, 'p) registry_entry \<Rightarrow> bool" where
  "locked_entry request entry lock entry' \<longleftrightarrow> \<not> re_retired entry \<and>
     entry' = entry\<lparr>re_locks := re_locks entry @ [lock]\<rparr> \<and>
     sb_bundleId (re_bundle entry) = lk_bundleId request \<and>
     sb_ownerEpoch (re_bundle entry) = lk_ownerEpoch request \<and>
     lock = request\<lparr>lk_lockId := lk_lockId lock\<rparr> \<and>
     (lk_lockId request \<noteq> 0 \<longrightarrow> lk_lockId lock = lk_lockId request) \<and> lk_lockId lock \<noteq> 0"

lemma lock_entry_outcome:
  assumes "lock_entry iface request entry nextLockId w = (result, entry', nextLockId', w')"
  obtains (refused) "lr_status result \<noteq> RS_Ok" and "entry' = entry"
  | (granted) lock where "lr_status result = RS_Ok" and "lr_lockId result = lk_lockId lock"
      and "locked_entry request entry lock entry'"
      and "find_source iface (lk_sourceId request) (sb_sources (re_bundle entry)) \<noteq> None"
proof -
  define lockId where "lockId = (if lk_lockId request \<noteq> 0 then lk_lockId request
    else if nextLockId = 0 then 1 else nextLockId)"
  have "lockId \<noteq> 0" by (simp add: lockId_def)
  with granted [of "request\<lparr>lk_lockId := lockId\<rparr>"] refused assms show thesis
    by (auto simp: lock_entry_def objectLockError_def locked_entry_def lockId_def Let_def split_beta
        split: if_splits option.splits)
qed

lemma lock_entries_outcome:
  assumes "lock_entries iface request entries nextLockId w = (result, entries', nextLockId', w')"
  obtains (refused) "lr_status result \<noteq> RS_Ok" and "entries' = entries"
  | (granted) before entry after lock entry' where "lr_status result = RS_Ok"
      and "lr_lockId result = lk_lockId lock" and "entries = before @ entry # after"
      and "entries' = before @ entry' # after" and "entry_offer entry = lk_offerId request"
      and "locked_entry request entry lock entry'"
      and "find_source iface (lk_sourceId request) (sb_sources (re_bundle entry)) \<noteq> None"
  using assms
proof (induction entries arbitrary: entries' nextLockId' w' thesis)
  case Nil
  then show ?case by (auto simp: objectLockError_def)
next
  case (Cons entry entries)
  show ?case
  proof (cases "entry_offer entry = lk_offerId request")
    case True
    obtain entry' where step: "lock_entry iface request entry nextLockId w = (result, entry', nextLockId', w')"
        "entries' = entry' # entries"
      using Cons.prems(3) True by (auto split: prod.splits)
    show ?thesis
    proof (rule lock_entry_outcome [OF step(1)])
      show "lr_status result \<noteq> RS_Ok \<Longrightarrow> entry' = entry \<Longrightarrow> thesis"
        using Cons.prems(1) step(2) by simp
      show "\<And>lock. lr_status result = RS_Ok \<Longrightarrow> lr_lockId result = lk_lockId lock \<Longrightarrow>
          locked_entry request entry lock entry' \<Longrightarrow>
          find_source iface (lk_sourceId request) (sb_sources (re_bundle entry)) \<noteq> None \<Longrightarrow> thesis"
        using Cons.prems(2) [of _ "[]" entry entries entry'] step(2) True by simp
    qed
  next
    case False
    obtain rest where step: "lock_entries iface request entries nextLockId w = (result, rest, nextLockId', w')"
        "entries' = entry # rest"
      using Cons.prems(3) False by (auto split: prod.splits)
    show ?thesis
    proof (rule Cons.IH [OF _ _ step(1)])
      show "lr_status result \<noteq> RS_Ok \<Longrightarrow> rest = entries \<Longrightarrow> thesis"
        using Cons.prems(1) step(2) by simp
      show "\<And>before e after lock e'. lr_status result = RS_Ok \<Longrightarrow> lr_lockId result = lk_lockId lock \<Longrightarrow>
          entries = before @ e # after \<Longrightarrow> rest = before @ e' # after \<Longrightarrow>
          entry_offer e = lk_offerId request \<Longrightarrow> locked_entry request e lock e' \<Longrightarrow>
          find_source iface (lk_sourceId request) (sb_sources (re_bundle e)) \<noteq> None \<Longrightarrow> thesis"
        using Cons.prems(2) step(2) by (metis append_Cons)
    qed
  qed
qed

lemma lockObject_outcome:
  assumes "lockObject iface request reg w = (result, reg', w')"
  obtains (refused) "lr_status result \<noteq> RS_Ok" and "sr_entries reg' = sr_entries reg"
  | (granted) before entry after lock entry' where "lr_status result = RS_Ok"
      and "lr_lockId result = lk_lockId lock" and "sr_entries reg = before @ entry # after"
      and "sr_entries reg' = before @ entry' # after" and "entry_offer entry = lk_offerId request"
      and "locked_entry request entry lock entry'" and "\<not> lock_identity_invalid request"
      and "find_source iface (lk_sourceId request) (sb_sources (re_bundle entry)) \<noteq> None"
proof (cases "lock_identity_invalid request")
  case True
  then show thesis using assms refused by (auto simp: lockObject_def objectLockError_def)
next
  case False
  obtain entries nextLockId where step:
      "lock_entries iface request (sr_entries reg) (sr_nextLockId reg) w = (result, entries, nextLockId, w')"
      "sr_entries reg' = entries"
    using assms False by (auto simp: lockObject_def split: prod.splits)
  show thesis
    by (rule lock_entries_outcome [OF step(1)]) (use refused granted step(2) False in blast)+
qed

lemma locked_entry_sound:
  assumes "locked_entry request entry lock entry'" and "entry_sound entry"
    and "entry_offer entry = lk_offerId request" and "\<not> lock_identity_invalid request"
  shows "entry_sound entry'" and "lock_of_entry entry' lock" and "lock \<in> set (re_locks entry')"
proof -
  obtain i where "lock = request\<lparr>lk_lockId := i\<rparr>" "lk_lockId lock \<noteq> 0"
    using assms(1) unfolding locked_entry_def by blast
  then have lock: "lk_offerId lock = lk_offerId request" "lk_bundleId lock = lk_bundleId request"
    "lk_ownerEpoch lock = lk_ownerEpoch request" "lock_identity_invalid lock = lock_identity_invalid request"
    "lk_lockId lock \<noteq> 0"
    by (simp_all add: lock_identity_invalid_def)
  show "lock_of_entry entry' lock" "lock \<in> set (re_locks entry')" "entry_sound entry'"
    using assms lock by (auto simp: locked_entry_def entry_sound_def lock_of_entry_def list_all_iff)
qed

lemma lockObject_ok:
  assumes "source_registry_ok reg"
  shows "source_registry_ok (fst (snd (lockObject iface request reg w)))"
proof -
  obtain result reg' w' where step: "lockObject iface request reg w = (result, reg', w')"
    by (metis prod.exhaust)
  show ?thesis
  proof (rule lockObject_outcome [OF step])
    assume "sr_entries reg' = sr_entries reg"
    then show ?thesis using assms step by (simp add: source_registry_ok_def)
  next
    fix before entry after lock entry'
    assume split: "sr_entries reg = before @ entry # after" "sr_entries reg' = before @ entry' # after"
      and granted: "entry_offer entry = lk_offerId request" "locked_entry request entry lock entry'"
        "\<not> lock_identity_invalid request"
    have "entry_sound entry" using assms split(1) by (simp add: source_registry_ok_def)
    then have "entry_sound entry'" by (rule locked_entry_sound [OF granted(2) _ granted(1,3)])
    moreover have "entry_offer entry' = entry_offer entry" using granted(2) by (simp add: locked_entry_def)
    ultimately show ?thesis
      using assms step split by (simp add: source_registry_ok_def)
  qed
qed

text \<open>Unlocking takes one lock out of the entry of the offer, or changes nothing.\<close>

lemma unlock_entries_outcome:
  assumes "unlock_entries request entries = (result, entries')"
  obtains (refused) "lr_status result \<noteq> RS_Ok" and "entries' = entries"
  | (released) before entry after lock kept where "lr_status result = RS_Ok"
      and "lr_lockId result = lk_lockId lock" and "entries = before @ entry # after"
      and "entries' = before @ kept @ after" and "entry_offer entry = lk_offerId request"
      and "find (same_lock request) (re_locks entry) = Some lock"
      and "kept = (let entry = entry\<lparr>re_locks := erase_first (same_lock request) (re_locks entry)\<rparr>
        in if re_retired entry \<and> re_locks entry = [] then [] else [entry])"
  using assms
proof (induction entries arbitrary: entries' thesis)
  case Nil
  then show ?case by (auto simp: objectLockError_def)
next
  case (Cons entry entries)
  show ?case
  proof (cases "entry_offer entry = lk_offerId request")
    case True
    then show ?thesis
      using Cons.prems(1) Cons.prems(2) [of _ "[]" entry entries] Cons.prems(3)
      by (auto simp: unlock_entry_def objectLockError_def Let_def split: if_splits option.splits)
  next
    case False
    obtain rest where step: "unlock_entries request entries = (result, rest)" "entries' = entry # rest"
      using Cons.prems(3) False by (auto split: prod.splits)
    show ?thesis
      by (rule Cons.IH [OF _ _ step(1)])
        (use Cons.prems(1,2) step(2) in \<open>simp, metis append_Cons\<close>)
  qed
qed

lemma unlockObject_outcome:
  assumes "unlockObject request reg = (result, reg')"
  obtains (refused) "lr_status result \<noteq> RS_Ok" and "reg' = reg"
  | (released) before entry after lock kept where "lr_status result = RS_Ok"
      and "lr_lockId result = lk_lockId lock" and "sr_entries reg = before @ entry # after"
      and "sr_entries reg' = before @ kept @ after" and "entry_offer entry = lk_offerId request"
      and "find (same_lock request) (re_locks entry) = Some lock"
      and "kept = (let entry = entry\<lparr>re_locks := erase_first (same_lock request) (re_locks entry)\<rparr>
        in if re_retired entry \<and> re_locks entry = [] then [] else [entry])"
proof (cases "lock_identity_invalid request \<or> lk_lockId request = 0")
  case True
  then show thesis using assms refused by (auto simp: unlockObject_def objectLockError_def)
next
  case False
  obtain entries where step: "unlock_entries request (sr_entries reg) = (result, entries)"
      "reg' = reg\<lparr>sr_entries := entries\<rparr>"
    using assms False by (auto simp: unlockObject_def split: prod.splits)
  show thesis
    by (rule unlock_entries_outcome [OF step(1)]) (use refused released step(2) in auto)
qed

lemma erase_first_sound:
  "entry_sound entry \<Longrightarrow> \<not> (re_retired entry \<and> erase_first p (re_locks entry) = []) \<Longrightarrow>
   entry_sound (entry\<lparr>re_locks := erase_first p (re_locks entry)\<rparr>)"
  using set_erase_first_subset [of p "re_locks entry"]
  by (auto simp: entry_sound_def list_all_iff)

lemma unlockObject_ok:
  assumes "source_registry_ok reg"
  shows "source_registry_ok (snd (unlockObject request reg))"
proof -
  obtain result reg' where step: "unlockObject request reg = (result, reg')" by (metis prod.exhaust)
  show ?thesis
  proof (rule unlockObject_outcome [OF step])
    assume "reg' = reg"
    then show ?thesis using assms step by simp
  next
    fix before entry after lock kept
    assume split: "sr_entries reg = before @ entry # after" "sr_entries reg' = before @ kept @ after"
      and kept: "kept = (let entry = entry\<lparr>re_locks := erase_first (same_lock request) (re_locks entry)\<rparr>
        in if re_retired entry \<and> re_locks entry = [] then [] else [entry])"
    have sound: "entry_sound entry" using assms split(1) by (simp add: source_registry_ok_def)
    have "kept = [] \<or> (\<exists>e. kept = [e] \<and> entry_offer e = entry_offer entry \<and> entry_sound e)"
      using erase_first_sound [OF sound, of "same_lock request"] by (auto simp: kept Let_def)
    then show ?thesis using assms step split by (auto simp: source_registry_ok_def image_iff)
  qed
qed

lemma source_registry_step_ok:
  "source_registry_ok (fst rw) \<Longrightarrow> source_registry_ok (fst (source_registry_step iface operation rw))"
  by (cases operation)
    (simp_all add: source_registry_step_def split_beta store_ok lockObject_ok unlockObject_ok
      clearOffer_ok clearAll_ok releaseAllLocks_ok)

interpretation transfer_sources: kept_by_steps "source_registry_step iface" "\<lambda>rw. source_registry_ok (fst rw)"
  for iface
  by unfold_locales (rule source_registry_step_ok)

section \<open>Counting the locks\<close>

definition granted_locks ::
    "('r, 'w) source_interface \<Rightarrow> ('r, 'p) source_registry_op \<Rightarrow> ('r, 'p) source_registry \<times> 'w \<Rightarrow> nat" where
  "granted_locks iface operation rw = (case operation of
     LockObject request \<Rightarrow> (if lr_status (fst (lockObject iface request (fst rw) (snd rw))) = RS_Ok then 1 else 0)
   | _ \<Rightarrow> 0)"

definition released_locks :: "('r, 'p) source_registry_op \<Rightarrow> ('r, 'p) source_registry \<times> 'w \<Rightarrow> nat" where
  "released_locks operation rw = (case operation of
     UnlockObject request \<Rightarrow> (if lr_status (fst (unlockObject request (fst rw))) = RS_Ok then 1 else 0)
   | ReleaseAllLocks \<Rightarrow> fst (releaseAllLocks (fst rw))
   | _ \<Rightarrow> 0)"

lemma sum_filter_map:
  assumes "\<And>x. if p (f x) then h (f x) = h x else h x = (0 :: nat)"
  shows "sum_list (map h (filter p (map f xs))) = sum_list (map h xs)"
proof (induction xs)
  case (Cons x xs)
  then show ?case using assms [of x] by (simp split: if_splits)
qed simp

lemma sum_filter_map_0:
  assumes "\<And>x. h (f x) = (0 :: nat)"
  shows "sum_list (map h (filter p (map f xs))) = 0"
  by (induction xs) (simp_all add: assms)

lemma lockCount_clear [simp]:
  "lockCount (snd (clearOffer offerId reg)) = lockCount reg" "lockCount (snd (clearAll reg)) = lockCount reg"
proof -
  have "sr_entries (snd (clearOffer offerId reg)) = filter (\<lambda>entry. \<not> (re_retired entry \<and> re_locks entry = []))
      (map (\<lambda>entry. if entry_offer entry = offerId then entry\<lparr>re_retired := True\<rparr> else entry) (sr_entries reg))"
    by (simp add: clearOffer_def Let_def)
  then show "lockCount (snd (clearOffer offerId reg)) = lockCount reg"
    unfolding lockCount_def by (simp only:, intro sum_filter_map) simp
  have "sr_entries (snd (clearAll reg)) = filter (\<lambda>entry. re_locks entry \<noteq> [])
      (map (\<lambda>entry. entry\<lparr>re_retired := True\<rparr>) (sr_entries reg))"
    by (simp add: clearAll_def)
  then show "lockCount (snd (clearAll reg)) = lockCount reg"
    unfolding lockCount_def by (simp only:, intro sum_filter_map) simp
qed

lemma lockCount_release [simp]:
  "lockCount (snd (releaseAllLocks reg)) = 0" "fst (releaseAllLocks reg) = lockCount reg"
proof -
  have "sr_entries (snd (releaseAllLocks reg)) = filter (\<lambda>entry. \<not> re_retired entry)
      (map (\<lambda>entry. entry\<lparr>re_locks := []\<rparr>) (sr_entries reg))"
    by (simp add: releaseAllLocks_def)
  then show "lockCount (snd (releaseAllLocks reg)) = 0"
    unfolding lockCount_def by (simp only:, intro sum_filter_map_0) simp
  show "fst (releaseAllLocks reg) = lockCount reg"
    by (simp only: releaseAllLocks_def fst_conv)
qed

lemma lockCount_store [simp]: "lockCount (snd (store bundle reg)) = lockCount reg"
  using lockCount_clear(1) [of "sb_offerId bundle" reg] by (simp add: store_def Let_def lockCount_def)

lemma lockCount_lock:
  "lockCount (fst (snd (lockObject iface request reg w))) = lockCount reg +
     (if lr_status (fst (lockObject iface request reg w)) = RS_Ok then 1 else 0)"
proof -
  obtain result reg' w' where step: "lockObject iface request reg w = (result, reg', w')"
    by (metis prod.exhaust)
  show ?thesis
    by (rule lockObject_outcome [OF step]) (auto simp: step lockCount_def locked_entry_def)
qed

lemma length_erase_first: "find p xs = Some x \<Longrightarrow> Suc (length (erase_first p xs)) = length xs"
  using length_filter_erase_first [of p xs x "\<lambda>_. True"] by simp

lemma lockCount_unlock:
  "lockCount (snd (unlockObject request reg)) +
     (if lr_status (fst (unlockObject request reg)) = RS_Ok then 1 else 0) = lockCount reg"
proof -
  obtain result reg' where step: "unlockObject request reg = (result, reg')" by (metis prod.exhaust)
  show ?thesis
  proof (rule unlockObject_outcome [OF step])
    fix before entry after lock kept
    assume "lr_status result = RS_Ok" and "sr_entries reg = before @ entry # after"
      and "sr_entries reg' = before @ kept @ after"
      and found: "find (same_lock request) (re_locks entry) = Some lock"
      and "kept = (let entry = entry\<lparr>re_locks := erase_first (same_lock request) (re_locks entry)\<rparr>
        in if re_retired entry \<and> re_locks entry = [] then [] else [entry])"
    then show ?thesis
      using length_erase_first [OF found] by (auto simp: step lockCount_def Let_def split: if_splits)
  qed (simp add: step)
qed

lemma source_registry_step_locks:
  "released_locks operation rw + lockCount (fst (source_registry_step iface operation rw)) =
     lockCount (fst rw) + granted_locks iface operation rw"
  using lockCount_unlock [of _ "fst rw"]
  by (cases operation)
    (simp_all add: source_registry_step_def split_beta released_locks_def granted_locks_def
      lockCount_lock add.commute)

section \<open>A lock keeps its bundle\<close>

definition holds_lock :: "('r, 'p) source_bundle \<Rightarrow> lock_request \<Rightarrow> ('r, 'p) source_registry \<Rightarrow> bool" where
  "holds_lock bundle lock reg \<longleftrightarrow>
     list_ex (\<lambda>entry. re_bundle entry = bundle \<and> lock \<in> set (re_locks entry)) (sr_entries reg)"

text \<open>The operations that may take a lock away.\<close>

definition may_release :: "lock_request \<Rightarrow> ('r, 'p) source_registry_op \<Rightarrow> bool" where
  "may_release lock operation \<longleftrightarrow> (case operation of
     UnlockObject request \<Rightarrow> lk_offerId request = lk_offerId lock \<and> same_lock request lock
   | ReleaseAllLocks \<Rightarrow> True | _ \<Rightarrow> False)"

lemma erase_first_keeps: "x \<in> set xs \<Longrightarrow> \<not> p x \<Longrightarrow> x \<in> set (erase_first p xs)"
  by (induction xs) auto

lemma list_ex_filter_map:
  assumes "list_ex p xs" and "\<And>x. p x \<Longrightarrow> p (f x) \<and> q (f x)"
  shows "list_ex p (filter q (map f xs))"
  using assms by (induction xs) auto

lemma holds_lock_clear:
  assumes "holds_lock bundle lock reg"
  shows "holds_lock bundle lock (snd (clearOffer offerId reg))" and "holds_lock bundle lock (snd (clearAll reg))"
  using assms
  by (auto simp: holds_lock_def clearOffer_def clearAll_def Let_def intro!: list_ex_filter_map
      split: if_splits)

lemma holds_lock_store:
  assumes "holds_lock bundle lock reg"
  shows "holds_lock bundle lock (snd (store offered reg))"
  using holds_lock_clear(1) [OF assms, of "sb_offerId offered"] assms
  by (auto simp: store_def Let_def holds_lock_def)

lemma holds_lock_lock:
  assumes "holds_lock bundle lock reg"
  shows "holds_lock bundle lock (fst (snd (lockObject iface request reg w)))"
proof -
  obtain result reg' w' where step: "lockObject iface request reg w = (result, reg', w')"
    by (metis prod.exhaust)
  show ?thesis
    by (rule lockObject_outcome [OF step]) (use assms in \<open>auto simp: step holds_lock_def locked_entry_def\<close>)
qed

lemma holds_lock_unlock:
  assumes "holds_lock bundle lock reg" and "\<not> may_release lock (UnlockObject request :: ('r, 'p) source_registry_op)"
    and "source_registry_ok reg"
  shows "holds_lock bundle lock (snd (unlockObject request (reg :: ('r, 'p) source_registry)))"
proof -
  obtain result reg' where step: "unlockObject request reg = (result, reg')" by (metis prod.exhaust)
  obtain e where e: "e \<in> set (sr_entries reg)" "re_bundle e = bundle" "lock \<in> set (re_locks e)"
    using assms(1) by (auto simp: holds_lock_def list_ex_iff)
  then have offer: "entry_offer e = lk_offerId lock"
    using assms(3) by (auto simp: source_registry_ok_def list_all_iff entry_sound_def lock_of_entry_def)
  show ?thesis
  proof (rule unlockObject_outcome [OF step])
    assume "reg' = reg"
    then show ?thesis using assms(1) step by simp
  next
    fix before entry after found kept
    assume split: "sr_entries reg = before @ entry # after" "sr_entries reg' = before @ kept @ after"
      and asked: "entry_offer entry = lk_offerId request"
      and kept: "kept = (let entry = entry\<lparr>re_locks := erase_first (same_lock request) (re_locks entry)\<rparr>
        in if re_retired entry \<and> re_locks entry = [] then [] else [entry])"
    have "lock \<in> set (erase_first (same_lock request) (re_locks e))" if "e = entry"
    proof (rule erase_first_keeps [OF e(3)])
      show "\<not> same_lock request lock" using assms(2) that asked offer by (simp add: may_release_def)
    qed
    then show ?thesis
      using e split step by (cases "e = entry") (auto simp: holds_lock_def list_ex_iff kept Let_def)
  qed
qed

lemma holds_lock_step:
  assumes "holds_lock bundle lock (fst rw)" and "source_registry_ok (fst rw)" and "\<not> may_release lock operation"
  shows "holds_lock bundle lock (fst (source_registry_step iface operation rw))"
  using assms
  by (cases operation)
    (auto simp: source_registry_step_def split_beta may_release_def intro: holds_lock_store holds_lock_lock
      holds_lock_unlock holds_lock_clear)

lemma holds_lock_run:
  assumes "holds_lock bundle lock (fst rw)" and "source_registry_ok (fst rw)"
    and "list_all (\<lambda>operation. \<not> may_release lock operation) operations"
  shows "holds_lock bundle lock (fst (fold (source_registry_step iface) operations rw))"
  using assms
  by (induction operations arbitrary: rw) (simp_all add: holds_lock_step source_registry_step_ok)

lemma holds_lock_found:
  assumes "holds_lock bundle lock reg" and "source_registry_ok reg"
  shows "findBundle reg (lk_offerId lock) = Some bundle"
proof -
  obtain e where e: "e \<in> set (sr_entries reg)" "re_bundle e = bundle" "lock \<in> set (re_locks e)"
    using assms(1) by (auto simp: holds_lock_def list_ex_iff)
  then have "entry_offer e = lk_offerId lock"
    using assms(2) by (auto simp: source_registry_ok_def list_all_iff entry_sound_def lock_of_entry_def)
  moreover have "find (\<lambda>entry. entry_offer entry = entry_offer e) entries = Some e"
    if "distinct (map (\<lambda>entry. entry_offer entry) entries)" "e \<in> set entries" for entries
    using that by (induction entries) (auto simp: image_iff)
  ultimately show ?thesis
    using e assms(2) by (simp add: findBundle_def source_registry_ok_def)
qed

lemma find_first: "\<forall>x \<in> set xs. \<not> p x \<Longrightarrow> p y \<Longrightarrow> find p (xs @ y # ys) = Some y"
  by (induction xs) auto

section \<open>Properties\<close>

text \<open>
  The registry is well formed and its books balance: from an empty registry, over every sequence of
  operations and whatever the sources answer, no two entries are of the same offer, a retired entry
  always holds a lock, every lock is one of its entry's offer with a non-zero id; and the locks held
  are those granted less those released.
\<close>

theorem locks_are_accounted_for:
  fixes iface :: "('r, 'w) source_interface" and operations :: "('r, 'p) source_registry_op list"
  shows "source_registry_ok (fst (fold (source_registry_step iface) operations (new_source_registry, w))) \<and>
   run_total released_locks (source_registry_step iface) operations (new_source_registry, w) +
     lockCount (fst (fold (source_registry_step iface) operations (new_source_registry, w))) =
     run_total (granted_locks iface) (source_registry_step iface) operations (new_source_registry, w)"
proof -
  let ?rw = "(new_source_registry :: ('r, 'p) source_registry, w)"
  have ok: "source_registry_ok (fst ?rw)" and none: "lockCount (fst ?rw) = 0"
    by (simp_all add: new_source_registry_def source_registry_ok_def lockCount_def)
  show ?thesis
    using transfer_sources.run_keeps [of ?rw, OF ok] none
      transfer_sources.run_account [of released_locks "\<lambda>rw. lockCount (fst rw)" iface "granted_locks iface"
        ?rw operations, OF source_registry_step_locks ok]
    by simp
qed

text \<open>
  C23. A locked object stays readable: once an object has been locked, its bundle is found, and a read of
  the locked source is served with that source, after any sequence of offers stored, cleared or
  replaced, other locks and unlocks, until this lock is released or all locks are.
\<close>

theorem locked_source_stays:
  assumes "source_registry_ok reg" and "lockObject iface request reg w = (result, reg', w')"
    and "lr_status result = RS_Ok"
    and "list_all (\<lambda>operation. \<not> may_release (request\<lparr>lk_lockId := lr_lockId result\<rparr>) operation) operations"
    and "rq_bundleId read = lk_bundleId request" and "rq_offerId read = lk_offerId request"
    and "rq_ownerEpoch read = lk_ownerEpoch request" and "rq_sourceId read = lk_sourceId request"
  shows "\<exists>bundle. findBundle reg (lk_offerId request) = Some bundle \<and>
    lookupSource iface read (fst (fold (source_registry_step iface) operations (reg', w'))) =
      \<lparr>sl_status = RS_Ok, sl_message = [], sl_bundle = bundle,
        sl_source = find_source iface (lk_sourceId request) (sb_sources bundle)\<rparr> \<and>
    find_source iface (lk_sourceId request) (sb_sources bundle) \<noteq> None"
proof (rule lockObject_outcome [OF assms(2)])
  fix before entry after lock entry'
  assume id: "lr_lockId result = lk_lockId lock" and offer: "entry_offer entry = lk_offerId request"
    and split: "sr_entries reg = before @ entry # after" "sr_entries reg' = before @ entry' # after"
    and locked: "locked_entry request entry lock entry'" and valid: "\<not> lock_identity_invalid request"
    and source: "find_source iface (lk_sourceId request) (sb_sources (re_bundle entry)) \<noteq> None"
  let ?final = "fst (fold (source_registry_step iface) operations (reg', w'))"
  have lock: "lock = request\<lparr>lk_lockId := lr_lockId result\<rparr>" using locked id by (simp add: locked_entry_def)
  have ok: "source_registry_ok reg'"
    using lockObject_ok [OF assms(1), of iface request w] assms(2) by simp
  have "holds_lock (re_bundle entry) lock reg'"
    using locked split(2) by (simp add: holds_lock_def locked_entry_def)
  then have "holds_lock (re_bundle entry) lock ?final"
    using holds_lock_run [of _ lock "(reg', w')" operations iface] ok assms(4) by (simp add: lock)
  moreover have "source_registry_ok ?final"
    using transfer_sources.run_keeps [of "(reg', w')"] ok by simp
  ultimately have found: "findBundle ?final (lk_offerId request) = Some (re_bundle entry)"
    using holds_lock_found by (fastforce simp: lock)
  have "\<forall>e \<in> set before. entry_offer e \<noteq> lk_offerId request"
    using assms(1) split(1) offer by (auto simp: source_registry_ok_def image_iff)
  then have first: "findBundle reg (lk_offerId request) = Some (re_bundle entry)"
    using offer find_first [of before _ entry after] by (auto simp: findBundle_def split(1))
  have "sb_bundleId (re_bundle entry) = lk_bundleId request"
    "sb_ownerEpoch (re_bundle entry) = lk_ownerEpoch request"
    using locked by (simp_all add: locked_entry_def)
  then show ?thesis
    using found first valid source assms(5-8)
    by (intro exI [of _ "re_bundle entry"]) (auto simp: lookupSource_def lock_identity_invalid_def)
qed (use assms(3) in simp)

text \<open>
  A lock on a file of a file group is granted by looking at the group's own list, written and read
  back: a group that offers streams grants it exactly for an index of the list whose file has the
  object id asked for, and one that does not offer streams never does.
\<close>

theorem file_locks_name_a_listed_file:
  assumes "list_all (names_fit default_maxNameBytes) files" and "length files \<le> default_maxFiles"
    and "s = new_file_group sourceId descriptor files" and "lk_sourceId request = sourceId"
  shows "lr_status (fst (validateFileObjectForLock file_group_interface s request w)) = RS_Ok \<longleftrightarrow>
    fd_canStream descriptor \<and> unat (lk_fileIndex request) < length files \<and>
    tf_objectId (files ! unat (lk_fileIndex request)) = lk_objectId request"
proof -
  have read: "file_group_read s (lock_read (fg_descriptor s) request) =
      \<lparr>rs_status = RS_Ok, rs_canonicalFormat = FdclFileListFormat, rs_encoding = EM_CanonicalBytes,
       rs_bytes = encodeTransferFileList files, rs_message = []\<rparr>"
    by (simp add: file_group_read_def assms(3,4) new_file_group_def lock_read_def matchesFormat_def
        default_read_request_def Let_def not_less)
  have "decodeTransferFileList default_maxFiles default_maxNameBytes (encodeTransferFileList files) =
      \<lparr>fl_ok = True, fl_status = RS_Ok, fl_files = map sanitised files, fl_message = []\<rparr>"
    using file_list_decoded [OF assms(1) _ assms(2)] assms(2)
    by (simp add: default_maxNameBytes_def default_maxFiles_def)
  then have "lr_status (check_file_list (file_group_read s (lock_read (fg_descriptor s) request)) request) =
      RS_Ok \<longleftrightarrow> unat (lk_fileIndex request) < length files \<and>
        tf_objectId (files ! unat (lk_fileIndex request)) = lk_objectId request"
    by (auto simp: read check_file_list_def objectLockError_def sanitised_def Let_def)
  moreover have "fd_canonicalFormat (fg_descriptor s) = FdclFileListFormat"
    "fd_canStream (fg_descriptor s) = fd_canStream descriptor"
    by (simp_all add: assms(3) new_file_group_def)
  ultimately show ?thesis
    by (simp add: validateFileObjectForLock_def file_group_interface_def objectLockError_def split_beta Let_def)
qed

text \<open>A bundle with one file group, and a lock on its second file.\<close>

definition sample_descriptor :: format_descriptor where
  "sample_descriptor = \<lparr>fd_canonicalFormat = [], fd_nativeFormatName = [], fd_localFormatToken = 7,
     fd_formatId = 3, fd_itemIndex = 0, fd_estimatedBytes = 0, fd_canInline = False, fd_canStream = True,
     fd_preferredEncoding = EM_Transcoded\<rparr>"

definition sample_group :: file_group_source where
  "sample_group = new_file_group 5 sample_descriptor sample_files"

definition sample_bundle :: "(file_group_source, unit) source_bundle" where
  "sample_bundle = default_bundle\<lparr>sb_bundleId := 1, sb_offerId := 2, sb_ownerEpoch := 3,
     sb_sources := [None, Some sample_group]\<rparr>"

definition sample_lock :: "u64 \<Rightarrow> lock_request" where
  "sample_lock lockId = \<lparr>lk_bundleId = 1, lk_offerId = 2, lk_ownerEpoch = 3, lk_sourceId = 5,
     lk_objectId = 2, lk_fileIndex = 1, lk_lockId = lockId, lk_leaseUsec = 9\<rparr>"

theorem file_locks_name_a_listed_file_witness:
  "lr_status (fst (validateFileObjectForLock file_group_interface sample_group (sample_lock 0) ())) = RS_Ok"
  using file_locks_name_a_listed_file [of sample_files sample_group 5 sample_descriptor "sample_lock 0" "()"]
    sample_files_fit
  by (simp add: sample_group_def sample_lock_def sample_descriptor_def default_maxNameBytes_def
      default_maxFiles_def) (simp add: sample_files_def)

definition sample_sources :: "(file_group_source, unit) source_registry" where
  "sample_sources = snd (store sample_bundle new_source_registry)"

lemma sample_fields [simp]:
  "sb_bundleId sample_bundle = 1" "sb_offerId sample_bundle = 2" "sb_ownerEpoch sample_bundle = 3"
  "lk_bundleId (sample_lock n) = 1" "lk_offerId (sample_lock n) = 2" "lk_ownerEpoch (sample_lock n) = 3"
  "lk_sourceId (sample_lock n) = 5" "lk_objectId (sample_lock n) = 2" "lk_lockId (sample_lock n) = n"
  "lk_leaseUsec (sample_lock n) = 9" "(sample_lock n)\<lparr>lk_lockId := k\<rparr> = sample_lock k"
  by (simp_all add: sample_bundle_def sample_lock_def)

lemma sample_sources_eq:
  "sample_sources = \<lparr>sr_entries = [\<lparr>re_bundle = sample_bundle, re_locks = [], re_retired = False\<rparr>],
     sr_nextLockId = 1\<rparr>"
  by (simp add: sample_sources_def store_def clearOffer_def new_source_registry_def sample_bundle_def
      default_bundle_def)

lemma sample_source_found: "find_source file_group_interface 5 (sb_sources sample_bundle) = Some sample_group"
  by (simp add: find_source_def sample_bundle_def default_bundle_def file_group_interface_def
      sample_group_def new_file_group_def List.map_filter_simps)

lemma sample_lock_granted:
  "validateFileObjectForLock file_group_interface sample_group (sample_lock n) w =
     (\<lparr>lr_status = RS_Ok, lr_lockId = 0, lr_leaseUsec = 0, lr_message = []\<rparr>, w)"
proof -
  have "decodeTransferFileList default_maxFiles default_maxNameBytes (encodeTransferFileList sample_files) =
      \<lparr>fl_ok = True, fl_status = RS_Ok, fl_files = map sanitised sample_files, fl_message = []\<rparr>"
    using file_list_decoded [of default_maxNameBytes sample_files default_maxFiles] sample_files_fit
    by (simp add: default_maxNameBytes_def default_maxFiles_def) (simp add: sample_files_def)
  then show ?thesis
    by (simp add: validateFileObjectForLock_def file_group_interface_def sample_group_def new_file_group_def
        sample_descriptor_def file_group_read_def lock_read_def default_read_request_def matchesFormat_def
        sample_lock_def check_file_list_def Let_def not_less)
      (simp add: sample_files_def sanitised_def Let_def)
qed

lemma sample_lock_object:
  "lockObject file_group_interface (sample_lock n) \<lparr>sr_entries =
     [\<lparr>re_bundle = sample_bundle, re_locks = locks, re_retired = False\<rparr>], sr_nextLockId = 1\<rparr> w =
   (if n \<noteq> 0 \<and> list_ex (\<lambda>lock. lk_lockId lock = n) locks
    then (objectLockError RS_Conflict ''transfer object lock id is already active'', \<lparr>sr_entries =
      [\<lparr>re_bundle = sample_bundle, re_locks = locks, re_retired = False\<rparr>], sr_nextLockId = 1\<rparr>, w)
    else (\<lparr>lr_status = RS_Ok, lr_lockId = (if n = 0 then 1 else n), lr_leaseUsec = 9, lr_message = []\<rparr>,
      \<lparr>sr_entries = [\<lparr>re_bundle = sample_bundle,
         re_locks = locks @ [sample_lock (if n = 0 then 1 else n)], re_retired = False\<rparr>],
       sr_nextLockId = (if n = 0 then 2 else 1)\<rparr>, w))"
proof (cases "n \<noteq> 0 \<and> list_ex (\<lambda>lock. lk_lockId lock = n) locks")
  case True
  then show ?thesis by (simp add: lockObject_def lock_entry_def lock_identity_invalid_def list_ex_iff)
next
  case False
  then have "\<not> list_ex (\<lambda>lock. n \<noteq> 0 \<and> lk_lockId lock = n) locks" by (auto simp: list_ex_iff)
  then show ?thesis
    using False
    by (simp add: lockObject_def lock_entry_def lock_identity_invalid_def sample_source_found
        sample_lock_granted)
qed

theorem locked_source_stays_witness:
  "sl_source (lookupSource (file_group_interface :: (file_group_source, unit) source_interface) (lock_read sample_descriptor (sample_lock 0))
     (fst (fold (source_registry_step file_group_interface) [ClearOffer 2, StoreBundle sample_bundle, ClearAll]
       (snd (lockObject file_group_interface (sample_lock 0) sample_sources ()))))) = Some sample_group"
proof -
  have ok: "source_registry_ok sample_sources"
    using store_ok [of new_source_registry sample_bundle]
    by (simp add: sample_sources_def new_source_registry_def source_registry_ok_def)
  obtain result reg' w' where lock: "lockObject file_group_interface (sample_lock 0) sample_sources () =
      (result, reg', w')" and granted: "lr_status result = RS_Ok"
    using sample_lock_object [of 0 "[]" "()"] by (simp add: sample_sources_eq)
  show ?thesis
    using locked_source_stays [OF ok lock granted, of "[ClearOffer 2, StoreBundle sample_bundle, ClearAll]"
        "lock_read sample_descriptor (sample_lock 0)"] lock sample_source_found
    by (auto simp: may_release_def lock_read_def sample_sources_eq findBundle_def)
qed

text \<open>
  The ids a registry gives and those a peer chooses are not kept apart: after a peer has locked an
  object under the id 1, a lock that asks for a new id gets 1 too, and one bundle holds two locks of
  the same id, of which a single unlock request releases the first it finds.
\<close>

theorem lock_ids_can_collide:
  "let first = lockObject file_group_interface (sample_lock 1) sample_sources ();
       second = lockObject file_group_interface (sample_lock 0) (fst (snd first)) ()
   in lr_status (fst first) = RS_Ok \<and> lr_status (fst second) = RS_Ok \<and>
     lr_lockId (fst first) = lr_lockId (fst second) \<and> lockCount (fst (snd second)) = 2"
  by (simp add: sample_sources_eq sample_lock_object Let_def lockCount_def)

end
