(* ===== verification/Fdcl_Model.thy ===== *)
theory Fdcl_Model
  imports Transfer_Registry Std_Map
begin

text \<open>
  \<open>include/fusiondesk/modules/clipboard/protocol.h\<close>, the payload structs of the clipboard protocol,
  those of \<open>clipboard_types.h\<close> that they carry, and \<open>fdcl_model_conversion.cpp\<close>, which turns bundles of
  sources into the list of formats a peer is offered and back. A scale is a \<open>double\<close>; its arithmetic is
  a parameter of the codec, so the structs that carry one have a type variable for it.
\<close>

section \<open>Presentations and drags\<close>

record icon =
  ic_format :: string
  ic_width :: u32
  ic_height :: u32
  ic_bytes :: u64
  ic_sensitive :: bool

record 'd drag_image =
  di_format :: string
  di_width :: u32
  di_height :: u32
  di_scale :: 'd
  di_hotspotX :: i32
  di_hotspotY :: i32
  di_generatedPreview :: bool
  di_sensitive :: bool

record 'd presentation =
  pt_displayName :: string
  pt_itemCount :: u32
  pt_sourceKind :: u16
  pt_icons :: "icon list"
  pt_dragImage :: "'d drag_image option"
  pt_allowedActions :: u32
  pt_preferredAction :: u16
  pt_previewAllowedByPolicy :: bool

record 'd surface_coordinate =
  dp_coordinateSpace :: u16
  dp_x :: i32
  dp_y :: i32
  dp_surfaceWidth :: u32
  dp_surfaceHeight :: u32
  dp_scale :: 'd

record 'd drag_start =
  ds_dragSessionId :: u64
  ds_bundleId :: u64
  ds_offerId :: u64
  ds_ownerEpoch :: u64
  ds_allowedActions :: u32
  ds_preferredAction :: u16
  ds_start :: "'d surface_coordinate"

section \<open>The messages\<close>

type_synonym fdcl_operation = u16

abbreviation (input) FO_Unknown :: fdcl_operation where "FO_Unknown \<equiv> 0"
abbreviation (input) FO_Capabilities :: fdcl_operation where "FO_Capabilities \<equiv> 1"
abbreviation (input) FO_FormatList :: fdcl_operation where "FO_FormatList \<equiv> 2"
abbreviation (input) FO_ReadFormatRequest :: fdcl_operation where "FO_ReadFormatRequest \<equiv> 3"
abbreviation (input) FO_ReadFormatResponse :: fdcl_operation where "FO_ReadFormatResponse \<equiv> 4"
abbreviation (input) FO_Cancel :: fdcl_operation where "FO_Cancel \<equiv> 5"
abbreviation (input) FO_ErrorDetail :: fdcl_operation where "FO_ErrorDetail \<equiv> 6"
abbreviation (input) FO_FileRangeRequest :: fdcl_operation where "FO_FileRangeRequest \<equiv> 7"
abbreviation (input) FO_FileRangeResponse :: fdcl_operation where "FO_FileRangeResponse \<equiv> 8"
abbreviation (input) FO_DragStart :: fdcl_operation where "FO_DragStart \<equiv> 9"
abbreviation (input) FO_DragMove :: fdcl_operation where "FO_DragMove \<equiv> 10"
abbreviation (input) FO_DragDrop :: fdcl_operation where "FO_DragDrop \<equiv> 11"
abbreviation (input) FO_DragCancel :: fdcl_operation where "FO_DragCancel \<equiv> 12"
abbreviation (input) FO_LockObject :: fdcl_operation where "FO_LockObject \<equiv> 13"
abbreviation (input) FO_UnlockObject :: fdcl_operation where "FO_UnlockObject \<equiv> 14"

record fdcl_capabilities =
  fc_protocolMajor :: u16
  fc_protocolMinor :: u16
  fc_maxInlineBytes :: u64
  fc_maxStreamBytes :: u64
  fc_supportedActions :: u32
  fc_supportsStreams :: bool
  fc_supportsNativePassthrough :: bool
  fc_supportsPresentationMetadata :: bool
  fc_supportsDrag :: bool
  fc_canonicalFormats :: "string list"

record format_record =
  fm_sourceId :: u64
  fm_itemIndex :: u32
  fm_formatId :: u64
  fm_localFormatToken :: u32
  fm_estimatedBytes :: u64
  fm_canInline :: bool
  fm_canStream :: bool
  fm_preferredEncoding :: encoding_mode
  fm_canonicalFormat :: string
  fm_nativeFormatName :: string

record 'd format_list =
  fl_bundleId :: u64
  fl_offerId :: u64
  fl_ownerEpoch :: u64
  fl_sequence :: u64
  fl_origin :: u16
  fl_side :: u16
  fl_originSessionId :: u64
  fl_policyVersion :: u64
  fl_formats :: "format_record list"
  fl_presentation :: "'d presentation option"

record fdcl_read_request =
  rr_bundleId :: u64
  rr_offerId :: u64
  rr_ownerEpoch :: u64
  rr_sourceId :: u64
  rr_itemIndex :: u32
  rr_formatId :: u64
  rr_localFormatToken :: u32
  rr_acceptedMaxBytes :: u64
  rr_streamAccepted :: bool
  rr_requestedEncoding :: encoding_mode
  rr_canonicalFormat :: string

record fdcl_read_response =
  ra_bundleId :: u64
  ra_offerId :: u64
  ra_ownerEpoch :: u64
  ra_sourceId :: u64
  ra_itemIndex :: u32
  ra_formatId :: u64
  ra_encoding :: encoding_mode
  ra_canonicalFormat :: string
  ra_bytes :: byte_buffer

record fdcl_error_detail =
  ed_status :: response_status
  ed_message :: string

record fdcl_range_request =
  xq_bundleId :: u64
  xq_offerId :: u64
  xq_ownerEpoch :: u64
  xq_sourceId :: u64
  xq_objectId :: u64
  xq_fileIndex :: u32
  xq_offset :: u64
  xq_requestedBytes :: u64

record fdcl_range_response =
  xr_bundleId :: u64
  xr_offerId :: u64
  xr_ownerEpoch :: u64
  xr_sourceId :: u64
  xr_objectId :: u64
  xr_fileIndex :: u32
  xr_offset :: u64
  xr_endOfFile :: bool
  xr_bytes :: byte_buffer

record fdcl_object_lock =
  ol_bundleId :: u64
  ol_offerId :: u64
  ol_ownerEpoch :: u64
  ol_sourceId :: u64
  ol_objectId :: u64
  ol_fileIndex :: u32
  ol_lockId :: u64
  ol_leaseUsec :: u64

record 'd drag_point =
  dm_dragSessionId :: u64
  dm_point :: "'d surface_coordinate"
  dm_proposedAction :: u16

record fdcl_drag_cancel =
  dx_dragSessionId :: u64
  dx_reason :: u16

record fdcl_cancel =
  cn_correlationId :: u64
  cn_bundleId :: u64
  cn_offerId :: u64
  cn_ownerEpoch :: u64
  cn_sourceId :: u64
  cn_formatId :: u64
  cn_reason :: u16
  cn_message :: string

text \<open>
  \<open>FdclDecodeResult\<close> has a field for every message and says which one it holds; here it is the one
  that was decoded, or else an operation and an error.
\<close>

datatype 'd fdcl_message =
    Capabilities fdcl_capabilities | FormatList "'d format_list" | ReadFormatRequest fdcl_read_request
  | ReadFormatResponse fdcl_read_response | ErrorDetail fdcl_error_detail
  | FileRangeRequest fdcl_range_request | FileRangeResponse fdcl_range_response
  | LockObjectMessage fdcl_object_lock | UnlockObjectMessage fdcl_object_lock
  | DragStart "'d drag_start" | DragMove "'d drag_point" | DragDrop "'d drag_point"
  | DragCancel fdcl_drag_cancel | CancelMessage fdcl_cancel

section \<open>Bundles and format lists\<close>

abbreviation (input) TO_RemoteOffer :: u16 where "TO_RemoteOffer \<equiv> 4"
abbreviation (input) TS_Remote :: u16 where "TS_Remote \<equiv> 2"

definition record_of :: "u64 \<Rightarrow> format_descriptor \<Rightarrow> format_record" where
  "record_of sourceId descriptor = \<lparr>fm_sourceId = sourceId, fm_itemIndex = fd_itemIndex descriptor,
     fm_formatId = fd_formatId descriptor, fm_localFormatToken = fd_localFormatToken descriptor,
     fm_estimatedBytes = fd_estimatedBytes descriptor, fm_canInline = fd_canInline descriptor,
     fm_canStream = fd_canStream descriptor, fm_preferredEncoding = fd_preferredEncoding descriptor,
     fm_canonicalFormat = fd_canonicalFormat descriptor,
     fm_nativeFormatName = fd_nativeFormatName descriptor\<rparr>"

definition makeFormatListFromBundle ::
    "('r, 'w) source_interface \<Rightarrow> ('r, 'd presentation) source_bundle \<Rightarrow> 'w \<Rightarrow> 'd format_list" where
  "makeFormatListFromBundle iface bundle w = \<lparr>fl_bundleId = sb_bundleId bundle,
     fl_offerId = sb_offerId bundle, fl_ownerEpoch = sb_ownerEpoch bundle,
     fl_sequence = sb_sequence bundle, fl_origin = sb_origin bundle, fl_side = sb_side bundle,
     fl_originSessionId = sb_originSessionId bundle, fl_policyVersion = sb_policyVersion bundle,
     fl_formats = concat (map (\<lambda>source. case source of
        None \<Rightarrow> []
      | Some s \<Rightarrow> map (record_of (ts_id iface s)) (ts_formats iface s w)) (sb_sources bundle)),
     fl_presentation = sb_presentation bundle\<rparr>"

definition descriptor_of :: "format_record \<Rightarrow> format_descriptor" where
  "descriptor_of fmt = \<lparr>fd_canonicalFormat = fm_canonicalFormat fmt,
     fd_nativeFormatName = fm_nativeFormatName fmt, fd_localFormatToken = fm_localFormatToken fmt,
     fd_formatId = fm_formatId fmt, fd_itemIndex = fm_itemIndex fmt,
     fd_estimatedBytes = fm_estimatedBytes fmt, fd_canInline = fm_canInline fmt,
     fd_canStream = fm_canStream fmt, fd_preferredEncoding = fm_preferredEncoding fmt\<rparr>"

text \<open>\<open>bySource[record.sourceId].push_back(descriptor)\<close>, in a map ordered by the source ids.\<close>

definition group_by_source :: "format_record list \<Rightarrow> (u64, format_descriptor list) std_map" where
  "group_by_source formats = fold (\<lambda>fmt bySource.
     map_put (fm_sourceId fmt)
       ((case map_find bySource (fm_sourceId fmt) of None \<Rightarrow> [] | Some ds \<Rightarrow> ds) @ [descriptor_of fmt])
       bySource) formats []"

definition makeRemoteBundleFromFormatList ::
    "'d format_list \<Rightarrow> (remote_source, 'd presentation) source_bundle" where
  "makeRemoteBundleFromFormatList list = default_bundle\<lparr>sb_bundleId := fl_bundleId list,
     sb_offerId := fl_offerId list, sb_ownerEpoch := fl_ownerEpoch list,
     sb_sequence := fl_sequence list, sb_origin := TO_RemoteOffer, sb_side := TS_Remote,
     sb_originSessionId := fl_originSessionId list, sb_policyVersion := fl_policyVersion list,
     sb_presentation := fl_presentation list,
     sb_sources := map (\<lambda>(sourceId, ds). Some \<lparr>rm_sourceId = sourceId, rm_formats = ds\<rparr>)
       (group_by_source (fl_formats list))\<rparr>"

definition makeTransferReadRequest :: "fdcl_read_request \<Rightarrow> read_request" where
  "makeTransferReadRequest request = \<lparr>rq_bundleId = rr_bundleId request,
     rq_offerId = rr_offerId request, rq_ownerEpoch = rr_ownerEpoch request,
     rq_sourceId = rr_sourceId request, rq_itemIndex = rr_itemIndex request,
     rq_formatId = rr_formatId request, rq_localFormatToken = rr_localFormatToken request,
     rq_canonicalFormat = rr_canonicalFormat request,
     rq_acceptedMaxBytes = rr_acceptedMaxBytes request, rq_streamAccepted = rr_streamAccepted request,
     rq_requestedEncoding = rr_requestedEncoding request\<rparr>"

end
