(* ===== verification/Fdcl_Encoder.thy ===== *)
theory Fdcl_Encoder
  imports Fdcl_Model
begin

text \<open>
  \<open>fdcl_encoder.cpp\<close>: every message of the clipboard protocol as bytes, a header of 16 bytes and a
  body of big-endian fields. The arithmetic of a \<open>double\<close> is a parameter: whether a scale is positive (not \<open><= 0.0\<close>),
  the scale 1, the conversion of a scale to thousandths in 32 bits, and the one back.
\<close>

record 'd double_ops =
  db_positive :: "'d \<Rightarrow> bool"
  db_one :: 'd
  db_milli :: "'d \<Rightarrow> u32"
  db_of_milli :: "u32 \<Rightarrow> 'd"

definition FdclMagic :: u32 where "FdclMagic = 0x4644434c"
definition FdclMajor :: u16 where "FdclMajor = 1"
definition FdclMinor :: u16 where "FdclMinor = 0"
definition FdclHeaderSize :: nat where "FdclHeaderSize = 16"

definition appendScale :: "'d double_ops \<Rightarrow> 'd \<Rightarrow> byte_buffer \<Rightarrow> byte_buffer" where
  "appendScale ops v output =
    (let v = (if db_positive ops v then v else db_one ops) in appendU32 (db_milli ops v) output)"

definition appendBool :: "bool \<Rightarrow> byte_buffer \<Rightarrow> byte_buffer" where
  "appendBool v output = output @ [if v then 1 else 0]"

definition appendString :: "string \<Rightarrow> byte_buffer \<Rightarrow> byte_buffer" where
  "appendString v output = appendU16 (of_nat (length v)) output @ string_bytes v"

definition wrap :: "fdcl_operation \<Rightarrow> byte_buffer \<Rightarrow> byte_buffer" where
  "wrap operation body =
    (let output = appendU32 FdclMagic [];
         output = appendU16 FdclMajor output;
         output = appendU16 FdclMinor output;
         output = appendU16 operation output;
         output = appendU16 0 output;
         output = appendU32 (of_nat (length body)) output
     in output @ body)"

definition appendDragSurfaceCoordinate ::
    "'d double_ops \<Rightarrow> 'd surface_coordinate \<Rightarrow> byte_buffer \<Rightarrow> byte_buffer" where
  "appendDragSurfaceCoordinate ops point body =
    (let body = appendU16 (dp_coordinateSpace point) body;
         body = appendU16 0 body;
         body = appendI32 (dp_x point) body;
         body = appendI32 (dp_y point) body;
         body = appendU32 (dp_surfaceWidth point) body;
         body = appendU32 (dp_surfaceHeight point) body
     in appendScale ops (dp_scale point) body)"

definition appendCapabilities :: "fdcl_capabilities \<Rightarrow> byte_buffer \<Rightarrow> byte_buffer" where
  "appendCapabilities capabilities body =
    (let body = appendU16 (fc_protocolMajor capabilities) body;
         body = appendU16 (fc_protocolMinor capabilities) body;
         body = appendU64 (fc_maxInlineBytes capabilities) body;
         body = appendU64 (fc_maxStreamBytes capabilities) body;
         body = appendU32 (fc_supportedActions capabilities) body;
         body = appendBool (fc_supportsStreams capabilities) body;
         body = appendBool (fc_supportsNativePassthrough capabilities) body;
         body = appendBool (fc_supportsPresentationMetadata capabilities) body;
         body = appendBool (fc_supportsDrag capabilities) body;
         body = appendU32 (of_nat (length (fc_canonicalFormats capabilities))) body
     in fold appendString (fc_canonicalFormats capabilities) body)"

definition appendIcon :: "icon \<Rightarrow> byte_buffer \<Rightarrow> byte_buffer" where
  "appendIcon i body =
    (let body = appendString (ic_format i) body;
         body = appendU32 (ic_width i) body;
         body = appendU32 (ic_height i) body;
         body = appendU64 (ic_bytes i) body
     in appendBool (ic_sensitive i) body)"

definition appendDragImage :: "'d double_ops \<Rightarrow> 'd drag_image \<Rightarrow> byte_buffer \<Rightarrow> byte_buffer" where
  "appendDragImage ops img body =
    (let body = appendString (di_format img) body;
         body = appendU32 (di_width img) body;
         body = appendU32 (di_height img) body;
         body = appendScale ops (di_scale img) body;
         body = appendI32 (di_hotspotX img) body;
         body = appendI32 (di_hotspotY img) body;
         body = appendBool (di_generatedPreview img) body
     in appendBool (di_sensitive img) body)"

definition appendPresentation :: "'d double_ops \<Rightarrow> 'd presentation \<Rightarrow> byte_buffer \<Rightarrow> byte_buffer" where
  "appendPresentation ops p body =
    (let body = appendString (pt_displayName p) body;
         body = appendU32 (pt_itemCount p) body;
         body = appendU16 (pt_sourceKind p) body;
         body = appendU32 (pt_allowedActions p) body;
         body = appendU16 (pt_preferredAction p) body;
         body = appendBool (pt_previewAllowedByPolicy p) body;
         body = appendU16 (of_nat (length (pt_icons p))) body;
         body = fold appendIcon (pt_icons p) body;
         body = appendBool (pt_dragImage p \<noteq> None) body
     in case pt_dragImage p of None \<Rightarrow> body | Some img \<Rightarrow> appendDragImage ops img body)"

definition appendFormatRecord :: "format_record \<Rightarrow> byte_buffer \<Rightarrow> byte_buffer" where
  "appendFormatRecord fmt body =
    (let body = appendU64 (fm_sourceId fmt) body;
         body = appendU32 (fm_itemIndex fmt) body;
         body = appendU64 (fm_formatId fmt) body;
         body = appendU32 (fm_localFormatToken fmt) body;
         body = appendU64 (fm_estimatedBytes fmt) body;
         body = appendBool (fm_canInline fmt) body;
         body = appendBool (fm_canStream fmt) body;
         body = appendU16 (fm_preferredEncoding fmt) body;
         body = appendU16 0 body;
         body = appendString (fm_canonicalFormat fmt) body
     in appendString (fm_nativeFormatName fmt) body)"

definition encodeFdclCapabilities :: "fdcl_capabilities \<Rightarrow> byte_buffer" where
  "encodeFdclCapabilities payload = wrap FO_Capabilities (appendCapabilities payload [])"

definition encodeFdclFormatList :: "'d double_ops \<Rightarrow> 'd format_list \<Rightarrow> byte_buffer" where
  "encodeFdclFormatList ops payload =
    (let body = appendU64 (fl_bundleId payload) [];
         body = appendU64 (fl_offerId payload) body;
         body = appendU64 (fl_ownerEpoch payload) body;
         body = appendU64 (fl_sequence payload) body;
         body = appendU16 (fl_origin payload) body;
         body = appendU16 (fl_side payload) body;
         body = appendU64 (fl_originSessionId payload) body;
         body = appendU64 (fl_policyVersion payload) body;
         body = appendU32 (of_nat (length (fl_formats payload))) body;
         body = fold appendFormatRecord (fl_formats payload) body;
         body = (case fl_presentation payload of
           None \<Rightarrow> body | Some p \<Rightarrow> appendPresentation ops p (appendBool True body))
     in wrap FO_FormatList body)"

definition encodeFdclReadFormatRequest :: "fdcl_read_request \<Rightarrow> byte_buffer" where
  "encodeFdclReadFormatRequest payload =
    (let body = appendU64 (rr_bundleId payload) [];
         body = appendU64 (rr_offerId payload) body;
         body = appendU64 (rr_ownerEpoch payload) body;
         body = appendU64 (rr_sourceId payload) body;
         body = appendU32 (rr_itemIndex payload) body;
         body = appendU64 (rr_formatId payload) body;
         body = appendU32 (rr_localFormatToken payload) body;
         body = appendU64 (rr_acceptedMaxBytes payload) body;
         body = appendBool (rr_streamAccepted payload) body;
         body = appendU16 (rr_requestedEncoding payload) body;
         body = appendU16 0 body;
         body = appendString (rr_canonicalFormat payload) body
     in wrap FO_ReadFormatRequest body)"

definition encodeFdclReadFormatResponse :: "fdcl_read_response \<Rightarrow> byte_buffer" where
  "encodeFdclReadFormatResponse payload =
    (let body = appendU64 (ra_bundleId payload) [];
         body = appendU64 (ra_offerId payload) body;
         body = appendU64 (ra_ownerEpoch payload) body;
         body = appendU64 (ra_sourceId payload) body;
         body = appendU32 (ra_itemIndex payload) body;
         body = appendU64 (ra_formatId payload) body;
         body = appendU16 (ra_encoding payload) body;
         body = appendU16 0 body;
         body = appendString (ra_canonicalFormat payload) body;
         body = appendU32 (of_nat (length (ra_bytes payload))) body
     in wrap FO_ReadFormatResponse (body @ ra_bytes payload))"

definition encodeFdclErrorDetail :: "fdcl_error_detail \<Rightarrow> byte_buffer" where
  "encodeFdclErrorDetail payload =
    (let body = appendU16 (ed_status payload) [];
         body = appendString (ed_message payload) body
     in wrap FO_ErrorDetail body)"

definition encodeFdclFileRangeRequest :: "fdcl_range_request \<Rightarrow> byte_buffer" where
  "encodeFdclFileRangeRequest payload =
    (let body = appendU64 (xq_bundleId payload) [];
         body = appendU64 (xq_offerId payload) body;
         body = appendU64 (xq_ownerEpoch payload) body;
         body = appendU64 (xq_sourceId payload) body;
         body = appendU64 (xq_objectId payload) body;
         body = appendU32 (xq_fileIndex payload) body;
         body = appendU64 (xq_offset payload) body;
         body = appendU64 (xq_requestedBytes payload) body;
         body = appendU16 0 body
     in wrap FO_FileRangeRequest body)"

definition encodeFdclFileRangeResponse :: "fdcl_range_response \<Rightarrow> byte_buffer" where
  "encodeFdclFileRangeResponse payload =
    (let body = appendU64 (xr_bundleId payload) [];
         body = appendU64 (xr_offerId payload) body;
         body = appendU64 (xr_ownerEpoch payload) body;
         body = appendU64 (xr_sourceId payload) body;
         body = appendU64 (xr_objectId payload) body;
         body = appendU32 (xr_fileIndex payload) body;
         body = appendU64 (xr_offset payload) body;
         body = appendBool (xr_endOfFile payload) body;
         body = appendU16 0 body;
         body = appendU32 (of_nat (length (xr_bytes payload))) body
     in wrap FO_FileRangeResponse (body @ xr_bytes payload))"

definition encodeObjectLock :: "fdcl_operation \<Rightarrow> fdcl_object_lock \<Rightarrow> byte_buffer" where
  "encodeObjectLock operation payload =
    (let body = appendU64 (ol_bundleId payload) [];
         body = appendU64 (ol_offerId payload) body;
         body = appendU64 (ol_ownerEpoch payload) body;
         body = appendU64 (ol_sourceId payload) body;
         body = appendU64 (ol_objectId payload) body;
         body = appendU32 (ol_fileIndex payload) body;
         body = appendU64 (ol_lockId payload) body;
         body = appendU64 (ol_leaseUsec payload) body;
         body = appendU16 0 body
     in wrap operation body)"

definition encodeFdclLockObject :: "fdcl_object_lock \<Rightarrow> byte_buffer" where
  "encodeFdclLockObject payload = encodeObjectLock FO_LockObject payload"

definition encodeFdclUnlockObject :: "fdcl_object_lock \<Rightarrow> byte_buffer" where
  "encodeFdclUnlockObject payload = encodeObjectLock FO_UnlockObject payload"

definition encodeFdclDragStart :: "'d double_ops \<Rightarrow> 'd drag_start \<Rightarrow> byte_buffer" where
  "encodeFdclDragStart ops payload =
    (let body = appendU64 (ds_dragSessionId payload) [];
         body = appendU64 (ds_bundleId payload) body;
         body = appendU64 (ds_offerId payload) body;
         body = appendU64 (ds_ownerEpoch payload) body;
         body = appendU32 (ds_allowedActions payload) body;
         body = appendU16 (ds_preferredAction payload) body;
         body = appendU16 0 body;
         body = appendDragSurfaceCoordinate ops (ds_start payload) body
     in wrap FO_DragStart body)"

text \<open>\<open>encodeFdclDragMove\<close> and \<open>encodeFdclDragDrop\<close> differ in the operation only.\<close>

definition encodeDragPoint :: "'d double_ops \<Rightarrow> fdcl_operation \<Rightarrow> 'd drag_point \<Rightarrow> byte_buffer" where
  "encodeDragPoint ops operation payload =
    (let body = appendU64 (dm_dragSessionId payload) [];
         body = appendU16 (dm_proposedAction payload) body;
         body = appendU16 0 body;
         body = appendDragSurfaceCoordinate ops (dm_point payload) body
     in wrap operation body)"

definition encodeFdclDragMove :: "'d double_ops \<Rightarrow> 'd drag_point \<Rightarrow> byte_buffer" where
  "encodeFdclDragMove ops payload = encodeDragPoint ops FO_DragMove payload"

definition encodeFdclDragDrop :: "'d double_ops \<Rightarrow> 'd drag_point \<Rightarrow> byte_buffer" where
  "encodeFdclDragDrop ops payload = encodeDragPoint ops FO_DragDrop payload"

definition encodeFdclDragCancel :: "fdcl_drag_cancel \<Rightarrow> byte_buffer" where
  "encodeFdclDragCancel payload =
    (let body = appendU64 (dx_dragSessionId payload) [];
         body = appendU16 (dx_reason payload) body;
         body = appendU16 0 body
     in wrap FO_DragCancel body)"

definition encodeFdclCancel :: "fdcl_cancel \<Rightarrow> byte_buffer" where
  "encodeFdclCancel payload =
    (let body = appendU64 (cn_correlationId payload) [];
         body = appendU64 (cn_bundleId payload) body;
         body = appendU64 (cn_offerId payload) body;
         body = appendU64 (cn_ownerEpoch payload) body;
         body = appendU64 (cn_sourceId payload) body;
         body = appendU64 (cn_formatId payload) body;
         body = appendU16 (cn_reason payload) body;
         body = appendU16 0 body;
         body = appendString (cn_message payload) body
     in wrap FO_Cancel body)"

definition encode_fdcl :: "'d double_ops \<Rightarrow> 'd fdcl_message \<Rightarrow> byte_buffer" where
  "encode_fdcl ops message = (case message of
     Capabilities payload \<Rightarrow> encodeFdclCapabilities payload
   | FormatList payload \<Rightarrow> encodeFdclFormatList ops payload
   | ReadFormatRequest payload \<Rightarrow> encodeFdclReadFormatRequest payload
   | ReadFormatResponse payload \<Rightarrow> encodeFdclReadFormatResponse payload
   | ErrorDetail payload \<Rightarrow> encodeFdclErrorDetail payload
   | FileRangeRequest payload \<Rightarrow> encodeFdclFileRangeRequest payload
   | FileRangeResponse payload \<Rightarrow> encodeFdclFileRangeResponse payload
   | LockObjectMessage payload \<Rightarrow> encodeFdclLockObject payload
   | UnlockObjectMessage payload \<Rightarrow> encodeFdclUnlockObject payload
   | DragStart payload \<Rightarrow> encodeFdclDragStart ops payload
   | DragMove payload \<Rightarrow> encodeFdclDragMove ops payload
   | DragDrop payload \<Rightarrow> encodeFdclDragDrop ops payload
   | DragCancel payload \<Rightarrow> encodeFdclDragCancel payload
   | CancelMessage payload \<Rightarrow> encodeFdclCancel payload)"

end
