(* ===== verification/Fdcl_Decoder.thy ===== *)
theory Fdcl_Decoder
  imports Fdcl_Encoder
begin

text \<open>
  \<open>fdcl_codec.cpp\<close> and \<open>fdcl_codec_object_lock.cpp\<close>: decoding a message of the clipboard protocol. A
  chain of reads joined by \<open>||\<close>, which all report the same error, is a chain of binds; a chain in
  which a string is read has an error of its own, and the common one applies only if there is none
  (\<open>or_error\<close>). What a failed decoding leaves in the payload structs is not part of the result.
\<close>

section \<open>Fields\<close>

definition MaxStringBytes :: nat where "MaxStringBytes = 4096"
definition MaxFormatRecords :: nat where "MaxFormatRecords = 256"
definition MaxInlineBytes :: nat where "MaxInlineBytes = 1024 * 1024"
definition MaxFileRangeBytes :: nat where "MaxFileRangeBytes = 4 * 1024 * 1024"
definition MaxPresentationIcons :: nat where "MaxPresentationIcons = 16"

definition nextScale :: "'d double_ops \<Rightarrow> byte_buffer \<Rightarrow> nat \<Rightarrow> ('d \<times> nat) option" where
  "nextScale ops input offset = do {
     (scaleMilli, offset) \<leftarrow> nextU32 input offset;
     if scaleMilli = 0 then None else Some (db_of_milli ops scaleMilli, offset) }"

definition nextBool :: "byte_buffer \<Rightarrow> nat \<Rightarrow> (bool \<times> nat) option" where
  "nextBool input offset =
    (if offset + 1 > length input then None else Some (input ! offset \<noteq> 0, offset + 1))"

definition validEncodingMode :: "encoding_mode \<Rightarrow> bool" where
  "validEncodingMode mode \<longleftrightarrow> mode = EM_CanonicalBytes \<or> mode = EM_NativePassthrough \<or> mode = EM_Transcoded"

definition nextEncodingMode :: "byte_buffer \<Rightarrow> nat \<Rightarrow> (encoding_mode \<times> nat) option" where
  "nextEncodingMode input offset = do {
     (raw, offset) \<leftarrow> nextU16 input offset;
     if validEncodingMode raw then Some (raw, offset) else None }"

definition nextString :: "byte_buffer \<Rightarrow> nat \<Rightarrow> string + (string \<times> nat)" where
  "nextString input offset =
    (case nextU16 input offset of
       None \<Rightarrow> Inl ''string length is truncated''
     | Some (len, offset) \<Rightarrow>
         if unat len > MaxStringBytes then Inl ''string length exceeds limit''
         else if offset + unat len > length input then Inl ''string bytes are truncated''
         else Inr (bytes_string (take (unat len) (drop offset input)), offset + unat len))"

definition and_then :: "string + 'a \<Rightarrow> ('a \<Rightarrow> string + 'b) \<Rightarrow> string + 'b" where
  "and_then r f = (case r of Inl error \<Rightarrow> Inl error | Inr v \<Rightarrow> f v)"

definition field :: "'a option \<Rightarrow> string + 'a" where
  "field r = (case r of None \<Rightarrow> Inl [] | Some v \<Rightarrow> Inr v)"

definition or_error :: "string \<Rightarrow> string + 'a \<Rightarrow> string + 'a" where
  "or_error error r = (case r of Inl e \<Rightarrow> Inl (if e = [] then error else e) | Inr v \<Rightarrow> Inr v)"

definition validFormatName :: "string \<Rightarrow> bool" where
  "validFormatName v \<longleftrightarrow> v \<noteq> [] \<and> length v \<le> MaxStringBytes"

definition validSourceKind :: "u16 \<Rightarrow> bool" where
  "validSourceKind v \<longleftrightarrow> v = 0 \<or> v = 1 \<or> v = 2 \<or> v = 3 \<or> v = 4 \<or> v = 5"

definition validAction :: "u16 \<Rightarrow> bool" where
  "validAction v \<longleftrightarrow> v = 0 \<or> v = 1 \<or> v = 2 \<or> v = 3"

definition validDragCoordinateSpace :: "u16 \<Rightarrow> bool" where
  "validDragCoordinateSpace v \<longleftrightarrow> v = 1 \<or> v = 2 \<or> v = 3 \<or> v = 4"

definition validDragCancelReason :: "u16 \<Rightarrow> bool" where
  "validDragCancelReason v \<longleftrightarrow> v = 0 \<or> v = 1 \<or> v = 2 \<or> v = 3 \<or> v = 4 \<or> v = 5"

section \<open>Parts of bodies\<close>

definition readDragSurfaceCoordinate ::
    "'d double_ops \<Rightarrow> byte_buffer \<Rightarrow> nat \<Rightarrow> string + ('d surface_coordinate \<times> nat)" where
  "readDragSurfaceCoordinate ops body offset =
    (case (do {
       (coordinateSpace, offset) \<leftarrow> nextU16 body offset;
       (reserved, offset) \<leftarrow> nextU16 body offset;
       (x, offset) \<leftarrow> nextI32 body offset;
       (y, offset) \<leftarrow> nextI32 body offset;
       (surfaceWidth, offset) \<leftarrow> nextU32 body offset;
       (surfaceHeight, offset) \<leftarrow> nextU32 body offset;
       (scale, offset) \<leftarrow> nextScale ops body offset;
       Some (reserved, \<lparr>dp_coordinateSpace = coordinateSpace, dp_x = x, dp_y = y,
         dp_surfaceWidth = surfaceWidth, dp_surfaceHeight = surfaceHeight, dp_scale = scale\<rparr>, offset) }) of
       None \<Rightarrow> Inl ''drag coordinate is truncated''
     | Some (reserved, point, offset) \<Rightarrow>
         if reserved \<noteq> 0 then Inl ''drag coordinate reserved field is not zero''
         else if \<not> validDragCoordinateSpace (dp_coordinateSpace point) then
           Inl ''drag coordinate space is invalid''
         else Inr (point, offset))"

fun readCanonicalFormats :: "byte_buffer \<Rightarrow> nat \<Rightarrow> nat \<Rightarrow> string list \<Rightarrow> string + (string list \<times> nat)" where
  "readCanonicalFormats body 0 offset formats = Inr (formats, offset)"
| "readCanonicalFormats body (Suc n) offset formats =
    and_then (nextString body offset) (\<lambda>(canonical, offset).
      if \<not> validFormatName canonical then Inl ''capabilities canonical format is invalid''
      else readCanonicalFormats body n offset (formats @ [canonical]))"

definition readCapabilities :: "byte_buffer \<Rightarrow> nat \<Rightarrow> string + (fdcl_capabilities \<times> nat)" where
  "readCapabilities body offset =
    (case (do {
       (protocolMajor, offset) \<leftarrow> nextU16 body offset;
       (protocolMinor, offset) \<leftarrow> nextU16 body offset;
       (maxInlineBytes, offset) \<leftarrow> nextU64 body offset;
       (maxStreamBytes, offset) \<leftarrow> nextU64 body offset;
       (supportedActions, offset) \<leftarrow> nextU32 body offset;
       (supportsStreams, offset) \<leftarrow> nextBool body offset;
       (supportsNativePassthrough, offset) \<leftarrow> nextBool body offset;
       (supportsPresentationMetadata, offset) \<leftarrow> nextBool body offset;
       (supportsDrag, offset) \<leftarrow> nextBool body offset;
       (entries, offset) \<leftarrow> nextU32 body offset;
       Some (\<lparr>fc_protocolMajor = protocolMajor, fc_protocolMinor = protocolMinor,
         fc_maxInlineBytes = maxInlineBytes, fc_maxStreamBytes = maxStreamBytes,
         fc_supportedActions = supportedActions, fc_supportsStreams = supportsStreams,
         fc_supportsNativePassthrough = supportsNativePassthrough,
         fc_supportsPresentationMetadata = supportsPresentationMetadata,
         fc_supportsDrag = supportsDrag, fc_canonicalFormats = []\<rparr>, entries, offset) }) of
       None \<Rightarrow> Inl ''capabilities body is truncated''
     | Some (capabilities, entries, offset) \<Rightarrow>
         if fc_protocolMajor capabilities = 0 \<or> unat entries > MaxFormatRecords then
           Inl ''capabilities values are invalid''
         else and_then (readCanonicalFormats body (unat entries) offset []) (\<lambda>(formats, offset).
           Inr (capabilities\<lparr>fc_canonicalFormats := formats\<rparr>, offset)))"

definition readIcon :: "byte_buffer \<Rightarrow> nat \<Rightarrow> string + (icon \<times> nat)" where
  "readIcon body offset =
    and_then (or_error ''presentation icon is truncated''
      (and_then (nextString body offset) (\<lambda>(fmt, offset).
       field (do {
         (width, offset) \<leftarrow> nextU32 body offset;
         (height, offset) \<leftarrow> nextU32 body offset;
         (bytes, offset) \<leftarrow> nextU64 body offset;
         (sensitive, offset) \<leftarrow> nextBool body offset;
         Some (\<lparr>ic_format = fmt, ic_width = width, ic_height = height, ic_bytes = bytes,
           ic_sensitive = sensitive\<rparr>, offset) }))))
      (\<lambda>(i, offset). if \<not> validFormatName (ic_format i) then Inl ''presentation icon format is invalid''
         else Inr (i, offset))"

fun readIcons :: "byte_buffer \<Rightarrow> nat \<Rightarrow> nat \<Rightarrow> icon list \<Rightarrow> string + (icon list \<times> nat)" where
  "readIcons body 0 offset icons = Inr (icons, offset)"
| "readIcons body (Suc n) offset icons =
    and_then (readIcon body offset) (\<lambda>(i, offset). readIcons body n offset (icons @ [i]))"

definition readDragImage :: "'d double_ops \<Rightarrow> byte_buffer \<Rightarrow> nat \<Rightarrow> string + ('d drag_image \<times> nat)" where
  "readDragImage ops body offset =
    and_then (or_error ''presentation drag image is truncated''
      (and_then (nextString body offset) (\<lambda>(fmt, offset).
       field (do {
         (width, offset) \<leftarrow> nextU32 body offset;
         (height, offset) \<leftarrow> nextU32 body offset;
         (scale, offset) \<leftarrow> nextScale ops body offset;
         (hotspotX, offset) \<leftarrow> nextI32 body offset;
         (hotspotY, offset) \<leftarrow> nextI32 body offset;
         (generatedPreview, offset) \<leftarrow> nextBool body offset;
         (sensitive, offset) \<leftarrow> nextBool body offset;
         Some (\<lparr>di_format = fmt, di_width = width, di_height = height, di_scale = scale,
           di_hotspotX = hotspotX, di_hotspotY = hotspotY, di_generatedPreview = generatedPreview,
           di_sensitive = sensitive\<rparr>, offset) }))))
      (\<lambda>(img, offset).
         if \<not> validFormatName (di_format img) then Inl ''presentation drag image format is invalid''
         else Inr (img, offset))"

definition readPresentationHead ::
    "byte_buffer \<Rightarrow> nat \<Rightarrow> string + ('d presentation \<times> u16 \<times> nat)" where
  "readPresentationHead body offset =
    or_error ''presentation body is truncated''
      (and_then (nextString body offset) (\<lambda>(displayName, offset).
       field (do {
         (itemCount, offset) \<leftarrow> nextU32 body offset;
         (sourceKind, offset) \<leftarrow> nextU16 body offset;
         (allowedActions, offset) \<leftarrow> nextU32 body offset;
         (preferredAction, offset) \<leftarrow> nextU16 body offset;
         (previewAllowedByPolicy, offset) \<leftarrow> nextBool body offset;
         (iconCount, offset) \<leftarrow> nextU16 body offset;
         Some (\<lparr>pt_displayName = displayName, pt_itemCount = itemCount, pt_sourceKind = sourceKind,
           pt_icons = [], pt_dragImage = None, pt_allowedActions = allowedActions,
           pt_preferredAction = preferredAction,
           pt_previewAllowedByPolicy = previewAllowedByPolicy\<rparr>, iconCount, offset) })))"

definition readPresentation :: "'d double_ops \<Rightarrow> byte_buffer \<Rightarrow> nat \<Rightarrow> string + ('d presentation \<times> nat)" where
  "readPresentation ops body offset =
    and_then (readPresentationHead body offset)
      (\<lambda>(p, iconCount, offset).
         if \<not> validSourceKind (pt_sourceKind p) \<or> \<not> validAction (pt_preferredAction p) \<or>
            unat iconCount > MaxPresentationIcons then Inl ''presentation values are invalid''
         else and_then (readIcons body (unat iconCount) offset []) (\<lambda>(icons, offset).
           case nextBool body offset of
             None \<Rightarrow> Inl ''presentation drag image flag is truncated''
           | Some (hasDragImage, offset) \<Rightarrow>
               if hasDragImage then
                 and_then (readDragImage ops body offset) (\<lambda>(img, offset).
                   Inr (p\<lparr>pt_icons := icons, pt_dragImage := Some img\<rparr>, offset))
               else Inr (p\<lparr>pt_icons := icons\<rparr>, offset)))"

definition readFormatRecord :: "byte_buffer \<Rightarrow> nat \<Rightarrow> string + (format_record \<times> nat)" where
  "readFormatRecord body offset =
    (case (do {
       (sourceId, offset) \<leftarrow> nextU64 body offset;
       (itemIndex, offset) \<leftarrow> nextU32 body offset;
       (formatId, offset) \<leftarrow> nextU64 body offset;
       (localFormatToken, offset) \<leftarrow> nextU32 body offset;
       (estimatedBytes, offset) \<leftarrow> nextU64 body offset;
       (canInline, offset) \<leftarrow> nextBool body offset;
       (canStream, offset) \<leftarrow> nextBool body offset;
       (preferredEncoding, offset) \<leftarrow> nextEncodingMode body offset;
       (reserved, offset) \<leftarrow> nextU16 body offset;
       Some (reserved, \<lparr>fm_sourceId = sourceId, fm_itemIndex = itemIndex, fm_formatId = formatId,
         fm_localFormatToken = localFormatToken, fm_estimatedBytes = estimatedBytes,
         fm_canInline = canInline, fm_canStream = canStream, fm_preferredEncoding = preferredEncoding,
         fm_canonicalFormat = [], fm_nativeFormatName = []\<rparr>, offset) }) of
       None \<Rightarrow> Inl ''format record is truncated''
     | Some (reserved, fmt, offset) \<Rightarrow>
         if reserved \<noteq> 0 then Inl ''format record reserved field is not zero''
         else and_then (nextString body offset) (\<lambda>(canonicalFormat, offset).
           and_then (nextString body offset) (\<lambda>(nativeFormatName, offset).
             if \<not> validFormatName canonicalFormat then Inl ''canonical format is invalid''
             else if fm_sourceId fmt = 0 \<or> fm_formatId fmt = 0 then Inl ''format record identity is invalid''
             else Inr (fmt\<lparr>fm_canonicalFormat := canonicalFormat,
               fm_nativeFormatName := nativeFormatName\<rparr>, offset))))"

fun readFormatRecords ::
    "byte_buffer \<Rightarrow> nat \<Rightarrow> nat \<Rightarrow> format_record list \<Rightarrow> string + (format_record list \<times> nat)" where
  "readFormatRecords body 0 offset formats = Inr (formats, offset)"
| "readFormatRecords body (Suc n) offset formats =
    and_then (readFormatRecord body offset) (\<lambda>(fmt, offset).
      readFormatRecords body n offset (formats @ [fmt]))"

section \<open>Bodies\<close>

definition decodeFdclCapabilities :: "byte_buffer \<Rightarrow> string + fdcl_capabilities" where
  "decodeFdclCapabilities body =
    and_then (readCapabilities body 0) (\<lambda>(capabilities, offset).
      if offset \<noteq> length body then Inl ''capabilities body has trailing bytes''
      else Inr capabilities)"

definition readFormatListHead ::
    "byte_buffer \<Rightarrow> nat \<Rightarrow> ('d format_list \<times> u32 \<times> nat) option" where
  "readFormatListHead body offset = do {
       (bundleId, offset) \<leftarrow> nextU64 body offset;
       (offerId, offset) \<leftarrow> nextU64 body offset;
       (ownerEpoch, offset) \<leftarrow> nextU64 body offset;
       (sequence, offset) \<leftarrow> nextU64 body offset;
       (origin, offset) \<leftarrow> nextU16 body offset;
       (side, offset) \<leftarrow> nextU16 body offset;
       (originSessionId, offset) \<leftarrow> nextU64 body offset;
       (policyVersion, offset) \<leftarrow> nextU64 body offset;
       (entries, offset) \<leftarrow> nextU32 body offset;
       Some (\<lparr>fl_bundleId = bundleId, fl_offerId = offerId, fl_ownerEpoch = ownerEpoch,
         fl_sequence = sequence, fl_origin = origin, fl_side = side,
         fl_originSessionId = originSessionId, fl_policyVersion = policyVersion,
         fl_formats = [], fl_presentation = None\<rparr>, entries, offset) }"

definition readOptionalPresentation ::
    "'d double_ops \<Rightarrow> byte_buffer \<Rightarrow> nat \<Rightarrow> string + ('d presentation option \<times> nat)" where
  "readOptionalPresentation ops body offset =
    (if offset < length body then
       (case nextBool body offset of
          None \<Rightarrow> Inl ''format list presentation flag is truncated''
        | Some (hasPresentation, offset) \<Rightarrow>
            if hasPresentation then
              and_then (readPresentation ops body offset) (\<lambda>(p, offset). Inr (Some p, offset))
            else Inr (None, offset))
     else Inr (None, offset))"

definition decodeFormatList :: "'d double_ops \<Rightarrow> byte_buffer \<Rightarrow> string + 'd format_list" where
  "decodeFormatList ops body =
    (case readFormatListHead body 0 of
       None \<Rightarrow> Inl ''format list body is truncated''
     | Some (list, entries, offset) \<Rightarrow>
         if fl_bundleId list = 0 \<or> fl_offerId list = 0 then Inl ''format list identity is invalid''
         else if entries = 0 \<or> unat entries > MaxFormatRecords then
           Inl ''format list count is invalid''
         else and_then (readFormatRecords body (unat entries) offset []) (\<lambda>(formats, offset).
           and_then (readOptionalPresentation ops body offset) (\<lambda>(p, offset).
             if offset \<noteq> length body then Inl ''format list has trailing bytes''
             else Inr (list\<lparr>fl_formats := formats, fl_presentation := p\<rparr>))))"

definition decodeReadRequest :: "byte_buffer \<Rightarrow> string + fdcl_read_request" where
  "decodeReadRequest body =
    (case (do {
       (bundleId, offset) \<leftarrow> nextU64 body 0;
       (offerId, offset) \<leftarrow> nextU64 body offset;
       (ownerEpoch, offset) \<leftarrow> nextU64 body offset;
       (sourceId, offset) \<leftarrow> nextU64 body offset;
       (itemIndex, offset) \<leftarrow> nextU32 body offset;
       (formatId, offset) \<leftarrow> nextU64 body offset;
       (localFormatToken, offset) \<leftarrow> nextU32 body offset;
       (acceptedMaxBytes, offset) \<leftarrow> nextU64 body offset;
       (streamAccepted, offset) \<leftarrow> nextBool body offset;
       (requestedEncoding, offset) \<leftarrow> nextEncodingMode body offset;
       (reserved, offset) \<leftarrow> nextU16 body offset;
       Some (\<lparr>rr_bundleId = bundleId, rr_offerId = offerId, rr_ownerEpoch = ownerEpoch,
         rr_sourceId = sourceId, rr_itemIndex = itemIndex, rr_formatId = formatId,
         rr_localFormatToken = localFormatToken, rr_acceptedMaxBytes = acceptedMaxBytes,
         rr_streamAccepted = streamAccepted, rr_requestedEncoding = requestedEncoding,
         rr_canonicalFormat = []\<rparr>, reserved, offset) }) of
       None \<Rightarrow> Inl ''read request body is truncated''
     | Some (request, reserved, offset) \<Rightarrow>
         if reserved \<noteq> 0 then Inl ''read request reserved field is not zero''
         else and_then (nextString body offset) (\<lambda>(canonicalFormat, offset).
           if offset \<noteq> length body then Inl ''read request has trailing bytes''
           else if rr_bundleId request = 0 \<or> rr_offerId request = 0 \<or> rr_ownerEpoch request = 0 \<or>
             rr_sourceId request = 0 \<or> rr_formatId request = 0 \<or> \<not> validFormatName canonicalFormat then
             Inl ''read request identity is invalid''
           else Inr (request\<lparr>rr_canonicalFormat := canonicalFormat\<rparr>)))"

definition decodeReadResponse :: "byte_buffer \<Rightarrow> string + fdcl_read_response" where
  "decodeReadResponse body =
    (case (do {
       (bundleId, offset) \<leftarrow> nextU64 body 0;
       (offerId, offset) \<leftarrow> nextU64 body offset;
       (ownerEpoch, offset) \<leftarrow> nextU64 body offset;
       (sourceId, offset) \<leftarrow> nextU64 body offset;
       (itemIndex, offset) \<leftarrow> nextU32 body offset;
       (formatId, offset) \<leftarrow> nextU64 body offset;
       (encoding, offset) \<leftarrow> nextEncodingMode body offset;
       (reserved, offset) \<leftarrow> nextU16 body offset;
       Some (\<lparr>ra_bundleId = bundleId, ra_offerId = offerId, ra_ownerEpoch = ownerEpoch,
         ra_sourceId = sourceId, ra_itemIndex = itemIndex, ra_formatId = formatId,
         ra_encoding = encoding, ra_canonicalFormat = [], ra_bytes = []\<rparr>, reserved, offset) }) of
       None \<Rightarrow> Inl ''read response body is truncated''
     | Some (response, reserved, offset) \<Rightarrow>
         if reserved \<noteq> 0 then Inl ''read response reserved field is not zero''
         else and_then (nextString body offset) (\<lambda>(canonicalFormat, offset).
           case nextU32 body offset of
             None \<Rightarrow> Inl ''read response byte length is truncated''
           | Some (bytes, offset) \<Rightarrow>
               if unat bytes > MaxInlineBytes \<or> offset + unat bytes > length body then
                 Inl ''read response bytes are invalid''
               else if offset + unat bytes \<noteq> length body then Inl ''read response has trailing bytes''
               else if ra_bundleId response = 0 \<or> ra_offerId response = 0 \<or>
                 ra_ownerEpoch response = 0 \<or> ra_sourceId response = 0 \<or> ra_formatId response = 0 \<or>
                 \<not> validFormatName canonicalFormat then Inl ''read response identity is invalid''
               else Inr (response\<lparr>ra_canonicalFormat := canonicalFormat,
                 ra_bytes := take (unat bytes) (drop offset body)\<rparr>)))"

definition decodeFileRangeRequest :: "byte_buffer \<Rightarrow> string + fdcl_range_request" where
  "decodeFileRangeRequest body =
    (case (do {
       (bundleId, offset) \<leftarrow> nextU64 body 0;
       (offerId, offset) \<leftarrow> nextU64 body offset;
       (ownerEpoch, offset) \<leftarrow> nextU64 body offset;
       (sourceId, offset) \<leftarrow> nextU64 body offset;
       (objectId, offset) \<leftarrow> nextU64 body offset;
       (fileIndex, offset) \<leftarrow> nextU32 body offset;
       (rangeOffset, offset) \<leftarrow> nextU64 body offset;
       (requestedBytes, offset) \<leftarrow> nextU64 body offset;
       (reserved, offset) \<leftarrow> nextU16 body offset;
       Some (\<lparr>xq_bundleId = bundleId, xq_offerId = offerId, xq_ownerEpoch = ownerEpoch,
         xq_sourceId = sourceId, xq_objectId = objectId, xq_fileIndex = fileIndex,
         xq_offset = rangeOffset, xq_requestedBytes = requestedBytes\<rparr>, reserved, offset) }) of
       None \<Rightarrow> Inl ''file range request body is truncated''
     | Some (request, reserved, offset) \<Rightarrow>
         if reserved \<noteq> 0 then Inl ''file range request reserved field is not zero''
         else if offset \<noteq> length body then Inl ''file range request has trailing bytes''
         else if xq_bundleId request = 0 \<or> xq_offerId request = 0 \<or> xq_ownerEpoch request = 0 \<or>
           xq_sourceId request = 0 \<or> xq_objectId request = 0 \<or> xq_requestedBytes request = 0 \<or>
           unat (xq_requestedBytes request) > MaxFileRangeBytes then
           Inl ''file range request identity is invalid''
         else Inr request)"

definition decodeFileRangeResponse :: "byte_buffer \<Rightarrow> string + fdcl_range_response" where
  "decodeFileRangeResponse body =
    (case (do {
       (bundleId, offset) \<leftarrow> nextU64 body 0;
       (offerId, offset) \<leftarrow> nextU64 body offset;
       (ownerEpoch, offset) \<leftarrow> nextU64 body offset;
       (sourceId, offset) \<leftarrow> nextU64 body offset;
       (objectId, offset) \<leftarrow> nextU64 body offset;
       (fileIndex, offset) \<leftarrow> nextU32 body offset;
       (rangeOffset, offset) \<leftarrow> nextU64 body offset;
       (endOfFile, offset) \<leftarrow> nextBool body offset;
       (reserved, offset) \<leftarrow> nextU16 body offset;
       (bytes, offset) \<leftarrow> nextU32 body offset;
       Some (\<lparr>xr_bundleId = bundleId, xr_offerId = offerId, xr_ownerEpoch = ownerEpoch,
         xr_sourceId = sourceId, xr_objectId = objectId, xr_fileIndex = fileIndex,
         xr_offset = rangeOffset, xr_endOfFile = endOfFile, xr_bytes = []\<rparr>, reserved, bytes, offset) }) of
       None \<Rightarrow> Inl ''file range response body is truncated''
     | Some (response, reserved, bytes, offset) \<Rightarrow>
         if reserved \<noteq> 0 then Inl ''file range response reserved field is not zero''
         else if unat bytes > MaxFileRangeBytes \<or> offset + unat bytes > length body then
           Inl ''file range response bytes are invalid''
         else if offset + unat bytes \<noteq> length body then Inl ''file range response has trailing bytes''
         else if xr_bundleId response = 0 \<or> xr_offerId response = 0 \<or> xr_ownerEpoch response = 0 \<or>
           xr_sourceId response = 0 \<or> xr_objectId response = 0 then
           Inl ''file range response identity is invalid''
         else Inr (response\<lparr>xr_bytes := take (unat bytes) (drop offset body)\<rparr>))"

definition decodeFdclObjectLockBody ::
    "byte_buffer \<Rightarrow> fdcl_operation \<Rightarrow> string + fdcl_object_lock" where
  "decodeFdclObjectLockBody body operation =
    (case (do {
       (bundleId, offset) \<leftarrow> nextU64 body 0;
       (offerId, offset) \<leftarrow> nextU64 body offset;
       (ownerEpoch, offset) \<leftarrow> nextU64 body offset;
       (sourceId, offset) \<leftarrow> nextU64 body offset;
       (objectId, offset) \<leftarrow> nextU64 body offset;
       (fileIndex, offset) \<leftarrow> nextU32 body offset;
       (lockId, offset) \<leftarrow> nextU64 body offset;
       (leaseUsec, offset) \<leftarrow> nextU64 body offset;
       (reserved, offset) \<leftarrow> nextU16 body offset;
       Some (\<lparr>ol_bundleId = bundleId, ol_offerId = offerId, ol_ownerEpoch = ownerEpoch,
         ol_sourceId = sourceId, ol_objectId = objectId, ol_fileIndex = fileIndex,
         ol_lockId = lockId, ol_leaseUsec = leaseUsec\<rparr>, reserved, offset) }) of
       None \<Rightarrow> Inl ''object lock body is truncated''
     | Some (lock, reserved, offset) \<Rightarrow>
         if reserved \<noteq> 0 then Inl ''object lock reserved field is not zero''
         else if offset \<noteq> length body then Inl ''object lock body has trailing bytes''
         else if ol_bundleId lock = 0 \<or> ol_offerId lock = 0 \<or> ol_ownerEpoch lock = 0 \<or>
           ol_sourceId lock = 0 \<or> ol_objectId lock = 0 then Inl ''object lock identity is invalid''
         else if operation = FO_UnlockObject \<and> ol_lockId lock = 0 then
           Inl ''object unlock identity is invalid''
         else Inr lock)"

definition decodeDragStart :: "'d double_ops \<Rightarrow> byte_buffer \<Rightarrow> string + 'd drag_start" where
  "decodeDragStart ops body =
    (case (do {
       (dragSessionId, offset) \<leftarrow> nextU64 body 0;
       (bundleId, offset) \<leftarrow> nextU64 body offset;
       (offerId, offset) \<leftarrow> nextU64 body offset;
       (ownerEpoch, offset) \<leftarrow> nextU64 body offset;
       (allowedActions, offset) \<leftarrow> nextU32 body offset;
       (preferredAction, offset) \<leftarrow> nextU16 body offset;
       (reserved, offset) \<leftarrow> nextU16 body offset;
       Some (dragSessionId, bundleId, offerId, ownerEpoch, allowedActions, preferredAction, reserved,
         offset) }) of
       None \<Rightarrow> Inl ''drag start body is truncated''
     | Some (dragSessionId, bundleId, offerId, ownerEpoch, allowedActions, preferredAction, reserved,
         offset) \<Rightarrow>
         if reserved \<noteq> 0 then Inl ''drag start reserved field is not zero''
         else if \<not> validAction preferredAction then Inl ''drag start action is invalid''
         else and_then (readDragSurfaceCoordinate ops body offset) (\<lambda>(point, offset).
           if offset \<noteq> length body then Inl ''drag start has trailing bytes''
           else if dragSessionId = 0 \<or> bundleId = 0 \<or> offerId = 0 \<or> ownerEpoch = 0 then
             Inl ''drag start identity is invalid''
           else Inr \<lparr>ds_dragSessionId = dragSessionId, ds_bundleId = bundleId, ds_offerId = offerId,
             ds_ownerEpoch = ownerEpoch, ds_allowedActions = allowedActions,
             ds_preferredAction = preferredAction, ds_start = point\<rparr>))"

definition decodeDragPoint :: "'d double_ops \<Rightarrow> byte_buffer \<Rightarrow> string + 'd drag_point" where
  "decodeDragPoint ops body =
    (case (do {
       (dragSessionId, offset) \<leftarrow> nextU64 body 0;
       (proposedAction, offset) \<leftarrow> nextU16 body offset;
       (reserved, offset) \<leftarrow> nextU16 body offset;
       Some (dragSessionId, proposedAction, reserved, offset) }) of
       None \<Rightarrow> Inl ''drag point body is truncated''
     | Some (dragSessionId, proposedAction, reserved, offset) \<Rightarrow>
         if reserved \<noteq> 0 then Inl ''drag point reserved field is not zero''
         else if \<not> validAction proposedAction then Inl ''drag point action is invalid''
         else and_then (readDragSurfaceCoordinate ops body offset) (\<lambda>(point, offset).
           if offset \<noteq> length body then Inl ''drag point has trailing bytes''
           else if dragSessionId = 0 then Inl ''drag point identity is invalid''
           else Inr \<lparr>dm_dragSessionId = dragSessionId, dm_point = point,
             dm_proposedAction = proposedAction\<rparr>))"

definition decodeDragCancel :: "byte_buffer \<Rightarrow> string + fdcl_drag_cancel" where
  "decodeDragCancel body =
    (case (do {
       (dragSessionId, offset) \<leftarrow> nextU64 body 0;
       (reason, offset) \<leftarrow> nextU16 body offset;
       (reserved, offset) \<leftarrow> nextU16 body offset;
       Some (dragSessionId, reason, reserved, offset) }) of
       None \<Rightarrow> Inl ''drag cancel body is truncated''
     | Some (dragSessionId, reason, reserved, offset) \<Rightarrow>
         if reserved \<noteq> 0 then Inl ''drag cancel reserved field is not zero''
         else if \<not> validDragCancelReason reason then Inl ''drag cancel reason is invalid''
         else if offset \<noteq> length body then Inl ''drag cancel has trailing bytes''
         else if dragSessionId = 0 then Inl ''drag cancel identity is invalid''
         else Inr \<lparr>dx_dragSessionId = dragSessionId, dx_reason = reason\<rparr>)"

definition decodeErrorDetail :: "byte_buffer \<Rightarrow> string + fdcl_error_detail" where
  "decodeErrorDetail body =
    (case nextU16 body 0 of
       None \<Rightarrow> Inl ''error detail status is truncated''
     | Some (status, offset) \<Rightarrow>
         and_then (nextString body offset) (\<lambda>(msg, offset).
           if offset \<noteq> length body then Inl ''error detail has trailing bytes''
           else Inr \<lparr>ed_status = status, ed_message = msg\<rparr>))"

definition decodeCancel :: "byte_buffer \<Rightarrow> string + fdcl_cancel" where
  "decodeCancel body =
    (case (do {
       (correlationId, offset) \<leftarrow> nextU64 body 0;
       (bundleId, offset) \<leftarrow> nextU64 body offset;
       (offerId, offset) \<leftarrow> nextU64 body offset;
       (ownerEpoch, offset) \<leftarrow> nextU64 body offset;
       (sourceId, offset) \<leftarrow> nextU64 body offset;
       (formatId, offset) \<leftarrow> nextU64 body offset;
       (reason, offset) \<leftarrow> nextU16 body offset;
       (reserved, offset) \<leftarrow> nextU16 body offset;
       Some (\<lparr>cn_correlationId = correlationId, cn_bundleId = bundleId, cn_offerId = offerId,
         cn_ownerEpoch = ownerEpoch, cn_sourceId = sourceId, cn_formatId = formatId,
         cn_reason = reason, cn_message = []\<rparr>, reserved, offset) }) of
       None \<Rightarrow> Inl ''cancel body is truncated''
     | Some (cancel, reserved, offset) \<Rightarrow>
         if reserved \<noteq> 0 then Inl ''cancel reserved field is not zero''
         else and_then (nextString body offset) (\<lambda>(msg, offset).
           if offset \<noteq> length body then Inl ''cancel body has trailing bytes''
           else if cn_correlationId cancel = 0 \<or> cn_bundleId cancel = 0 \<or> cn_offerId cancel = 0 \<or>
             cn_ownerEpoch cancel = 0 then Inl ''cancel identity is invalid''
           else Inr (cancel\<lparr>cn_message := msg\<rparr>)))"

section \<open>Payloads\<close>

text \<open>The result of a body's decoder, whose \<open>operation\<close> field is set in any case.\<close>

definition decoded ::
    "fdcl_operation \<Rightarrow> ('a \<Rightarrow> 'd fdcl_message) \<Rightarrow> string + 'a \<Rightarrow>
     (fdcl_operation \<times> string) + 'd fdcl_message" where
  "decoded operation construct r =
    (case r of Inl error \<Rightarrow> Inl (operation, error) | Inr payload \<Rightarrow> Inr (construct payload))"

definition decode_body ::
    "'d double_ops \<Rightarrow> fdcl_operation \<Rightarrow> byte_buffer \<Rightarrow> (fdcl_operation \<times> string) + 'd fdcl_message" where
  "decode_body ops op body =
    (if op = FO_Capabilities then decoded op Capabilities (decodeFdclCapabilities body)
     else if op = FO_FormatList then decoded op FormatList (decodeFormatList ops body)
     else if op = FO_ReadFormatRequest then decoded op ReadFormatRequest (decodeReadRequest body)
     else if op = FO_ReadFormatResponse then decoded op ReadFormatResponse (decodeReadResponse body)
     else if op = FO_ErrorDetail then decoded op ErrorDetail (decodeErrorDetail body)
     else if op = FO_FileRangeRequest then decoded op FileRangeRequest (decodeFileRangeRequest body)
     else if op = FO_FileRangeResponse then decoded op FileRangeResponse (decodeFileRangeResponse body)
     else if op = FO_LockObject then decoded op LockObjectMessage (decodeFdclObjectLockBody body op)
     else if op = FO_UnlockObject then decoded op UnlockObjectMessage (decodeFdclObjectLockBody body op)
     else if op = FO_DragStart then decoded op DragStart (decodeDragStart ops body)
     else if op = FO_DragMove then decoded op DragMove (decodeDragPoint ops body)
     else if op = FO_DragDrop then decoded op DragDrop (decodeDragPoint ops body)
     else if op = FO_DragCancel then decoded op DragCancel (decodeDragCancel body)
     else if op = FO_Cancel then decoded op CancelMessage (decodeCancel body)
     else Inl (op, ''FDCL operation is unsupported''))"

definition decodeFdclPayload ::
    "'d double_ops \<Rightarrow> byte_buffer \<Rightarrow> (fdcl_operation \<times> string) + 'd fdcl_message" where
  "decodeFdclPayload ops payload =
    (if length payload < FdclHeaderSize then Inl (FO_Unknown, ''FDCL header is truncated'')
     else case (do {
       (magic, offset) \<leftarrow> nextU32 payload 0;
       (major, offset) \<leftarrow> nextU16 payload offset;
       (minor, offset) \<leftarrow> nextU16 payload offset;
       (operation, offset) \<leftarrow> nextU16 payload offset;
       (flags, offset) \<leftarrow> nextU16 payload offset;
       (len, offset) \<leftarrow> nextU32 payload offset;
       Some (magic, major, minor, operation, flags, len) }) of
       None \<Rightarrow> Inl (FO_Unknown, ''FDCL header is truncated'')
     | Some (magic, major, minor, operation, flags, len) \<Rightarrow>
         if magic \<noteq> FdclMagic then Inl (FO_Unknown, ''FDCL magic is invalid'')
         else if major \<noteq> FdclMajor \<or> minor \<noteq> FdclMinor then
           Inl (FO_Unknown, ''FDCL version is unsupported'')
         else if flags \<noteq> 0 then Inl (FO_Unknown, ''FDCL flags are unsupported'')
         else if length payload - FdclHeaderSize \<noteq> unat len then
           Inl (FO_Unknown, ''FDCL payload length is invalid'')
         else decode_body ops operation (drop FdclHeaderSize payload))"

end
