(* ===== verification/Fdcl_Roundtrip.thy ===== *)
theory Fdcl_Roundtrip
  imports Fdcl_Decoder
begin

text \<open>
  The clipboard protocol's codec: which messages the decoder accepts (\<open>fdcl_ok\<close>), that it accepts no
  other, and that it gives back every acceptable message from its encoding.
\<close>

section \<open>Reading a field behind a prefix\<close>

named_theorems fdcl_fields \<open>the fields of a clipboard message behind a prefix\<close>

declare payload_fields [fdcl_fields] wire_layout [fdcl_fields]

definition wire_text :: "string \<Rightarrow> byte_buffer" where
  "wire_text str = be16 (of_nat (length str)) @ string_bytes str"

definition wire_bool :: "bool \<Rightarrow> byte_buffer" where
  "wire_bool b = [if b then 1 else 0]"

lemma wire_lengths [simp]: "length (wire_text str) = 2 + length str" "length (wire_bool b) = 1"
  by (simp_all add: wire_text_def wire_bool_def)

lemma append_texts [fdcl_fields]:
  "appendString str output = output @ wire_text str" "appendBool b output = output @ wire_bool b"
  by (simp_all add: appendString_def appendBool_def wire_text_def wire_bool_def payload_fields)

definition bool_at :: "byte_buffer \<Rightarrow> nat \<Rightarrow> bool option" where
  "bool_at input offset = (if offset < length input then Some (input ! offset \<noteq> 0) else None)"

lemma nextBool_eq [fdcl_fields]:
  "nextBool input offset = map_option (\<lambda>v. (v, Suc offset)) (bool_at input offset)"
  by (auto simp: nextBool_def bool_at_def)

lemma bool_at_here [fdcl_fields]:
  "length before \<le> offset \<Longrightarrow> bool_at (before @ rest) offset = bool_at rest (offset - length before)"
  "bool_at (wire_bool b @ rest) 0 = Some b" "bool_at (wire_bool b) 0 = Some b"
  by (auto simp: bool_at_def wire_bool_def nth_append)

lemma read_alone [fdcl_fields]:
  "read_at 2 of16 (be16 a) 0 = Some a" "read_at 4 of32 (be32 b) 0 = Some b"
  "read_at 8 of64 (be64 c) 0 = Some c"
  using f16.read_here [of a "[]"] f32.read_here [of b "[]"] f64.read_here [of c "[]"] by simp_all

lemma nextEncodingMode_eq [fdcl_fields]:
  "nextEncodingMode input offset = (case nextU16 input offset of None \<Rightarrow> None
    | Some (raw, offset) \<Rightarrow> if validEncodingMode raw then Some (raw, offset) else None)"
  by (simp add: nextEncodingMode_def split: option.split)

lemma nextScale_eq [fdcl_fields]:
  "nextScale ops input offset = (case nextU32 input offset of None \<Rightarrow> None
    | Some (scaleMilli, offset) \<Rightarrow> if scaleMilli = 0 then None else Some (db_of_milli ops scaleMilli, offset))"
  by (simp add: nextScale_def split: option.split)

lemma and_then_simps [simp]:
  "and_then (Inl e) f = Inl e" "and_then (Inr v) f = f v" "field None = Inl []" "field (Some v) = Inr v"
  "or_error e (Inr v) = Inr v"
  by (simp_all add: and_then_def field_def or_error_def)

definition text_at :: "byte_buffer \<Rightarrow> nat \<Rightarrow> string + string" where
  "text_at input offset = map_sum id fst (nextString input offset)"

lemma nextString_eq [fdcl_fields]:
  "nextString input offset = (case text_at input offset of Inl error \<Rightarrow> Inl error
    | Inr str \<Rightarrow> Inr (str, offset + 2 + length str))"
  by (auto simp: text_at_def nextString_def nextU16_eq read_at_def split: option.split)

lemma text_at_here [fdcl_fields]:
  "length before \<le> offset \<Longrightarrow> text_at (before @ rest) offset = text_at rest (offset - length before)"
  "length str \<le> MaxStringBytes \<Longrightarrow> text_at (wire_text str @ rest) 0 = Inr str"
  "length str \<le> MaxStringBytes \<Longrightarrow> text_at (wire_text str) 0 = Inr str"
proof -
  show "text_at (before @ rest) offset = text_at rest (offset - length before)"
    if "length before \<le> offset"
  proof -
    from that obtain k where "offset = length before + k" using le_Suc_ex by blast
    then show ?thesis by (auto simp: text_at_def nextString_def nextU16_eq read_at_def)
  qed
  have here: "text_at (wire_text str @ rest) 0 = Inr str" if "length str \<le> MaxStringBytes" for rest
  proof -
    have "unat (of_nat (length str) :: u16) = length str"
      using that by (simp add: unat_of_nat MaxStringBytes_def)
    then show ?thesis
      using that by (simp add: text_at_def nextString_def wire_text_def fdcl_fields)
  qed
  then show "length str \<le> MaxStringBytes \<Longrightarrow> text_at (wire_text str @ rest) 0 = Inr str"
    and "length str \<le> MaxStringBytes \<Longrightarrow> text_at (wire_text str) 0 = Inr str"
    using here [of "[]"] by simp_all
qed

section \<open>The parts of bodies\<close>

definition icon_ok :: "icon \<Rightarrow> bool" where
  "icon_ok i \<longleftrightarrow> validFormatName (ic_format i)"

definition wire_icon :: "icon \<Rightarrow> byte_buffer" where
  "wire_icon i = wire_text (ic_format i) @ be32 (ic_width i) @ be32 (ic_height i) @ be64 (ic_bytes i) @
     wire_bool (ic_sensitive i)"

lemma appendIcon_eq: "appendIcon i body = body @ wire_icon i"
  by (simp add: appendIcon_def wire_icon_def fdcl_fields)

lemma readIcon_wire:
  assumes "icon_ok i"
  shows "readIcon (before @ wire_icon i @ rest) (length before) =
    Inr (i, length (before @ wire_icon i))"
  using assms by (simp add: readIcon_def wire_icon_def icon_ok_def validFormatName_def fdcl_fields)

lemma readIcons_wire:
  assumes "list_all icon_ok icons"
  shows "readIcons (before @ concat (map wire_icon icons) @ rest) (length icons) (length before) acc =
    Inr (acc @ icons, length (before @ concat (map wire_icon icons)))"
  using assms
proof (induction icons arbitrary: before acc)
  case (Cons i icons)
  from Cons.IH [of "before @ wire_icon i" "acc @ [i]"] Cons.prems show ?case
    using readIcon_wire [of i before "concat (map wire_icon icons) @ rest"] by simp
qed simp

definition scale_ok :: "'d double_ops \<Rightarrow> 'd \<Rightarrow> bool" where
  "scale_ok ops v \<longleftrightarrow> db_positive ops v \<and> db_milli ops v \<noteq> 0 \<and> db_of_milli ops (db_milli ops v) = v"

lemma appendScale_ok [fdcl_fields]:
  "scale_ok ops v \<Longrightarrow> appendScale ops v body = body @ be32 (db_milli ops v)"
  by (simp add: appendScale_def scale_ok_def payload_fields)

lemma nextScale_ok:
  assumes "scale_ok ops v" "read_at 4 of32 input offset = Some (db_milli ops v)"
  shows "nextScale ops input offset = Some (v, offset + 4)"
  using assms by (simp add: nextScale_eq nextU32_eq scale_ok_def)

definition drag_image_ok :: "'d drag_image \<Rightarrow> bool" where
  "drag_image_ok img \<longleftrightarrow> validFormatName (di_format img)"

definition wire_drag_image :: "'d double_ops \<Rightarrow> 'd drag_image \<Rightarrow> byte_buffer" where
  "wire_drag_image ops img = wire_text (di_format img) @ be32 (di_width img) @ be32 (di_height img) @
     be32 (db_milli ops (di_scale img)) @ be32 (ucast (di_hotspotX img)) @
     be32 (ucast (di_hotspotY img)) @ wire_bool (di_generatedPreview img) @ wire_bool (di_sensitive img)"

lemma appendDragImage_eq:
  "scale_ok ops (di_scale img) \<Longrightarrow> appendDragImage ops img body = body @ wire_drag_image ops img"
  by (simp add: appendDragImage_def wire_drag_image_def fdcl_fields)

lemma readDragImage_wire:
  assumes "drag_image_ok img" and "scale_ok ops (di_scale img)"
  shows "readDragImage ops (before @ wire_drag_image ops img @ rest) (length before) =
    Inr (img, length (before @ wire_drag_image ops img))"
  using assms
  by (simp add: readDragImage_def wire_drag_image_def drag_image_ok_def validFormatName_def scale_ok_def
      fdcl_fields)

definition presentation_ok :: "'d presentation \<Rightarrow> bool" where
  "presentation_ok p \<longleftrightarrow> length (pt_displayName p) \<le> MaxStringBytes \<and> validSourceKind (pt_sourceKind p) \<and>
     validAction (pt_preferredAction p) \<and> length (pt_icons p) \<le> MaxPresentationIcons \<and>
     list_all icon_ok (pt_icons p) \<and>
     (case pt_dragImage p of None \<Rightarrow> True | Some img \<Rightarrow> drag_image_ok img)"

definition presentation_scales :: "'d double_ops \<Rightarrow> 'd presentation \<Rightarrow> bool" where
  "presentation_scales ops p \<longleftrightarrow>
     (case pt_dragImage p of None \<Rightarrow> True | Some img \<Rightarrow> scale_ok ops (di_scale img))"

definition wire_presentation_head :: "'d presentation \<Rightarrow> byte_buffer" where
  "wire_presentation_head p = wire_text (pt_displayName p) @ be32 (pt_itemCount p) @
     be16 (pt_sourceKind p) @ be32 (pt_allowedActions p) @ be16 (pt_preferredAction p) @
     wire_bool (pt_previewAllowedByPolicy p) @ be16 (of_nat (length (pt_icons p)))"

definition wire_presentation :: "'d double_ops \<Rightarrow> 'd presentation \<Rightarrow> byte_buffer" where
  "wire_presentation ops p = wire_presentation_head p @ concat (map wire_icon (pt_icons p)) @
     wire_bool (pt_dragImage p \<noteq> None) @
     (case pt_dragImage p of None \<Rightarrow> [] | Some img \<Rightarrow> wire_drag_image ops img)"

lemma fold_wire:
  assumes "\<And>x body. put x body = body @ wire x"
  shows "fold put xs body = body @ concat (map wire xs)"
  using assms by (induction xs arbitrary: body) simp_all

lemma appendPresentation_eq:
  assumes "presentation_scales ops p"
  shows "appendPresentation ops p body = body @ wire_presentation ops p"
  using assms
  by (simp add: appendPresentation_def wire_presentation_def wire_presentation_head_def
      presentation_scales_def fdcl_fields Let_def fold_wire [OF appendIcon_eq] appendDragImage_eq
      split: option.splits)

lemma bool_at_there [fdcl_fields]: "bool_at (before @ wire_bool b @ rest) (length before) = Some b"
  by (simp add: fdcl_fields)

lemma readPresentationHead_wire:
  assumes "length (pt_displayName p) \<le> MaxStringBytes"
  shows "readPresentationHead (before @ wire_presentation_head p @ rest) (length before) =
    Inr (p\<lparr>pt_icons := [], pt_dragImage := None\<rparr>, of_nat (length (pt_icons p)),
      length before + length (wire_presentation_head p))"
  using assms by (simp add: readPresentationHead_def wire_presentation_head_def fdcl_fields)

lemma readPresentation_wire:
  assumes ok: "presentation_ok p" and scales: "presentation_scales ops p"
  shows "readPresentation ops (before @ wire_presentation ops p @ rest) (length before) =
    Inr (p, length (before @ wire_presentation ops p))"
proof -
  define icons where "icons = concat (map wire_icon (pt_icons p))"
  define img where "img = (case pt_dragImage p of None \<Rightarrow> [] | Some img \<Rightarrow> wire_drag_image ops img)"
  define tail where "tail = wire_bool (pt_dragImage p \<noteq> None) @ img @ rest"
  define input where "input = before @ wire_presentation_head p @ icons @ tail"
  have whole: "before @ wire_presentation ops p @ rest = input"
    by (simp add: input_def wire_presentation_def icons_def img_def tail_def)
  have few: "unat (of_nat (length (pt_icons p)) :: u16) = length (pt_icons p)"
    using ok by (simp add: presentation_ok_def MaxPresentationIcons_def unat_of_nat)
  define at where "at = length before + length (wire_presentation_head p)"
  have iconsread: "readIcons input (length (pt_icons p)) at [] = Inr (pt_icons p, at + length icons)"
    using readIcons_wire [of "pt_icons p" "before @ wire_presentation_head p" tail "[]"] ok
    by (simp add: input_def icons_def presentation_ok_def at_def)
  have flag: "nextBool input (at + length icons) = Some (pt_dragImage p \<noteq> None, Suc (at + length icons))"
    using bool_at_there [of "before @ wire_presentation_head p @ icons" "pt_dragImage p \<noteq> None" "img @ rest"]
    by (simp add: nextBool_eq input_def tail_def at_def ac_simps)
  have image: "readDragImage ops input (Suc (at + length icons)) =
      Inr (d, length (before @ wire_presentation ops p))" if "pt_dragImage p = Some d" for d
    using readDragImage_wire [of d ops "before @ wire_presentation_head p @ icons @ wire_bool True" rest]
      ok scales that
    by (simp add: input_def tail_def img_def at_def presentation_ok_def presentation_scales_def
        wire_presentation_def icons_def ac_simps)
  have head: "readPresentationHead input (length before) =
      Inr (p\<lparr>pt_icons := [], pt_dragImage := None\<rparr>, of_nat (length (pt_icons p)), at)"
    using readPresentationHead_wire [of p before "icons @ tail"] ok
    by (simp add: input_def at_def presentation_ok_def)
  have size: "length (before @ wire_presentation ops p) = Suc (at + length icons) + length img"
    by (simp add: wire_presentation_def at_def icons_def img_def)
  show ?thesis
  proof (cases "pt_dragImage p")
    case None
    then show ?thesis
      using ok unfolding whole size
      by (simp add: readPresentation_def head few iconsread flag presentation_ok_def img_def)
  next
    case (Some d)
    then show ?thesis
      using ok unfolding whole
      by (simp add: readPresentation_def head few iconsread flag presentation_ok_def image)
  qed
qed

definition coordinate_ok :: "'d surface_coordinate \<Rightarrow> bool" where
  "coordinate_ok point \<longleftrightarrow> validDragCoordinateSpace (dp_coordinateSpace point)"

definition wire_coordinate :: "'d double_ops \<Rightarrow> 'd surface_coordinate \<Rightarrow> byte_buffer" where
  "wire_coordinate ops point = be16 (dp_coordinateSpace point) @ be16 0 @ be32 (ucast (dp_x point)) @
     be32 (ucast (dp_y point)) @ be32 (dp_surfaceWidth point) @ be32 (dp_surfaceHeight point) @
     be32 (db_milli ops (dp_scale point))"

lemma appendDragSurfaceCoordinate_eq [fdcl_fields]:
  "scale_ok ops (dp_scale point) \<Longrightarrow>
   appendDragSurfaceCoordinate ops point body = body @ wire_coordinate ops point"
  by (simp add: appendDragSurfaceCoordinate_def wire_coordinate_def fdcl_fields)

definition record_ok :: "format_record \<Rightarrow> bool" where
  "record_ok fmt \<longleftrightarrow> fm_sourceId fmt \<noteq> 0 \<and> fm_formatId fmt \<noteq> 0 \<and>
     validEncodingMode (fm_preferredEncoding fmt) \<and> validFormatName (fm_canonicalFormat fmt) \<and>
     length (fm_nativeFormatName fmt) \<le> MaxStringBytes"

definition wire_record :: "format_record \<Rightarrow> byte_buffer" where
  "wire_record fmt = be64 (fm_sourceId fmt) @ be32 (fm_itemIndex fmt) @ be64 (fm_formatId fmt) @
     be32 (fm_localFormatToken fmt) @ be64 (fm_estimatedBytes fmt) @ wire_bool (fm_canInline fmt) @
     wire_bool (fm_canStream fmt) @ be16 (fm_preferredEncoding fmt) @ be16 0 @
     wire_text (fm_canonicalFormat fmt) @ wire_text (fm_nativeFormatName fmt)"

lemma appendFormatRecord_eq: "appendFormatRecord fmt body = body @ wire_record fmt"
  by (simp add: appendFormatRecord_def wire_record_def fdcl_fields)

lemma readFormatRecord_wire:
  assumes "record_ok fmt"
  shows "readFormatRecord (before @ wire_record fmt @ rest) (length before) =
    Inr (fmt, length (before @ wire_record fmt))"
  using assms
  by (simp add: readFormatRecord_def wire_record_def record_ok_def validFormatName_def fdcl_fields)

lemma readFormatRecords_wire:
  assumes "list_all record_ok formats"
  shows "readFormatRecords (before @ concat (map wire_record formats) @ rest) (length formats)
      (length before) acc = Inr (acc @ formats, length (before @ concat (map wire_record formats)))"
  using assms
proof (induction formats arbitrary: before acc)
  case (Cons fmt formats)
  from Cons.IH [of "before @ wire_record fmt" "acc @ [fmt]"] Cons.prems show ?case
    using readFormatRecord_wire [of fmt before "concat (map wire_record formats) @ rest"] by simp
qed simp

lemma readCanonicalFormats_wire:
  assumes "list_all validFormatName formats"
  shows "readCanonicalFormats (before @ concat (map wire_text formats) @ rest) (length formats)
      (length before) acc = Inr (acc @ formats, length (before @ concat (map wire_text formats)))"
  using assms
proof (induction formats arbitrary: before acc)
  case (Cons fmt formats)
  from Cons.IH [of "before @ wire_text fmt" "acc @ [fmt]"] Cons.prems show ?case
    by (simp add: fdcl_fields validFormatName_def)
qed simp

section \<open>The messages\<close>

definition identity_ok :: "u64 list \<Rightarrow> bool" where
  "identity_ok ids \<longleftrightarrow> list_all (\<lambda>i. i \<noteq> 0) ids"

fun fdcl_ok :: "'d fdcl_message \<Rightarrow> bool" where
  "fdcl_ok (Capabilities m) \<longleftrightarrow> fc_protocolMajor m \<noteq> 0 \<and>
     length (fc_canonicalFormats m) \<le> MaxFormatRecords \<and> list_all validFormatName (fc_canonicalFormats m)"
| "fdcl_ok (FormatList m) \<longleftrightarrow> identity_ok [fl_bundleId m, fl_offerId m] \<and> fl_formats m \<noteq> [] \<and>
     length (fl_formats m) \<le> MaxFormatRecords \<and> list_all record_ok (fl_formats m) \<and>
     (case fl_presentation m of None \<Rightarrow> True | Some p \<Rightarrow> presentation_ok p)"
| "fdcl_ok (ReadFormatRequest m) \<longleftrightarrow>
     identity_ok [rr_bundleId m, rr_offerId m, rr_ownerEpoch m, rr_sourceId m, rr_formatId m] \<and>
     validEncodingMode (rr_requestedEncoding m) \<and> validFormatName (rr_canonicalFormat m)"
| "fdcl_ok (ReadFormatResponse m) \<longleftrightarrow>
     identity_ok [ra_bundleId m, ra_offerId m, ra_ownerEpoch m, ra_sourceId m, ra_formatId m] \<and>
     validEncodingMode (ra_encoding m) \<and> validFormatName (ra_canonicalFormat m) \<and>
     length (ra_bytes m) \<le> MaxInlineBytes"
| "fdcl_ok (ErrorDetail m) \<longleftrightarrow> length (ed_message m) \<le> MaxStringBytes"
| "fdcl_ok (FileRangeRequest m) \<longleftrightarrow>
     identity_ok [xq_bundleId m, xq_offerId m, xq_ownerEpoch m, xq_sourceId m, xq_objectId m] \<and>
     xq_requestedBytes m \<noteq> 0 \<and> unat (xq_requestedBytes m) \<le> MaxFileRangeBytes"
| "fdcl_ok (FileRangeResponse m) \<longleftrightarrow>
     identity_ok [xr_bundleId m, xr_offerId m, xr_ownerEpoch m, xr_sourceId m, xr_objectId m] \<and>
     length (xr_bytes m) \<le> MaxFileRangeBytes"
| "fdcl_ok (LockObjectMessage m) \<longleftrightarrow>
     identity_ok [ol_bundleId m, ol_offerId m, ol_ownerEpoch m, ol_sourceId m, ol_objectId m]"
| "fdcl_ok (UnlockObjectMessage m) \<longleftrightarrow> identity_ok [ol_bundleId m, ol_offerId m, ol_ownerEpoch m,
     ol_sourceId m, ol_objectId m, ol_lockId m]"
| "fdcl_ok (DragStart m) \<longleftrightarrow>
     identity_ok [ds_dragSessionId m, ds_bundleId m, ds_offerId m, ds_ownerEpoch m] \<and>
     validAction (ds_preferredAction m) \<and> coordinate_ok (ds_start m)"
| "fdcl_ok (DragMove m) \<longleftrightarrow> dm_dragSessionId m \<noteq> 0 \<and> validAction (dm_proposedAction m) \<and>
     coordinate_ok (dm_point m)"
| "fdcl_ok (DragDrop m) \<longleftrightarrow> dm_dragSessionId m \<noteq> 0 \<and> validAction (dm_proposedAction m) \<and>
     coordinate_ok (dm_point m)"
| "fdcl_ok (DragCancel m) \<longleftrightarrow> dx_dragSessionId m \<noteq> 0 \<and> validDragCancelReason (dx_reason m)"
| "fdcl_ok (CancelMessage m) \<longleftrightarrow>
     identity_ok [cn_correlationId m, cn_bundleId m, cn_offerId m, cn_ownerEpoch m] \<and>
     length (cn_message m) \<le> MaxStringBytes"

text \<open>The scales a message carries survive the conversion to thousandths and back.\<close>

fun fdcl_scales :: "'d double_ops \<Rightarrow> 'd fdcl_message \<Rightarrow> bool" where
  "fdcl_scales ops (FormatList m) \<longleftrightarrow>
     (case fl_presentation m of None \<Rightarrow> True | Some p \<Rightarrow> presentation_scales ops p)"
| "fdcl_scales ops (DragStart m) \<longleftrightarrow> scale_ok ops (dp_scale (ds_start m))"
| "fdcl_scales ops (DragMove m) \<longleftrightarrow> scale_ok ops (dp_scale (dm_point m))"
| "fdcl_scales ops (DragDrop m) \<longleftrightarrow> scale_ok ops (dp_scale (dm_point m))"
| "fdcl_scales ops _ \<longleftrightarrow> True"

section \<open>Their bodies\<close>

fun operation_of :: "'d fdcl_message \<Rightarrow> fdcl_operation" where
  "operation_of (Capabilities m) = FO_Capabilities"
| "operation_of (FormatList m) = FO_FormatList"
| "operation_of (ReadFormatRequest m) = FO_ReadFormatRequest"
| "operation_of (ReadFormatResponse m) = FO_ReadFormatResponse"
| "operation_of (ErrorDetail m) = FO_ErrorDetail"
| "operation_of (FileRangeRequest m) = FO_FileRangeRequest"
| "operation_of (FileRangeResponse m) = FO_FileRangeResponse"
| "operation_of (LockObjectMessage m) = FO_LockObject"
| "operation_of (UnlockObjectMessage m) = FO_UnlockObject"
| "operation_of (DragStart m) = FO_DragStart"
| "operation_of (DragMove m) = FO_DragMove"
| "operation_of (DragDrop m) = FO_DragDrop"
| "operation_of (DragCancel m) = FO_DragCancel"
| "operation_of (CancelMessage m) = FO_Cancel"

definition wire_lock :: "fdcl_object_lock \<Rightarrow> byte_buffer" where
  "wire_lock m = be64 (ol_bundleId m) @ be64 (ol_offerId m) @ be64 (ol_ownerEpoch m) @
     be64 (ol_sourceId m) @ be64 (ol_objectId m) @ be32 (ol_fileIndex m) @ be64 (ol_lockId m) @
     be64 (ol_leaseUsec m) @ be16 0"

definition wire_point :: "'d double_ops \<Rightarrow> 'd drag_point \<Rightarrow> byte_buffer" where
  "wire_point ops m = be64 (dm_dragSessionId m) @ be16 (dm_proposedAction m) @ be16 0 @
     wire_coordinate ops (dm_point m)"

definition wire_capabilities_head :: "fdcl_capabilities \<Rightarrow> byte_buffer" where
  "wire_capabilities_head m = be16 (fc_protocolMajor m) @ be16 (fc_protocolMinor m) @
     be64 (fc_maxInlineBytes m) @ be64 (fc_maxStreamBytes m) @ be32 (fc_supportedActions m) @
     wire_bool (fc_supportsStreams m) @ wire_bool (fc_supportsNativePassthrough m) @
     wire_bool (fc_supportsPresentationMetadata m) @ wire_bool (fc_supportsDrag m) @
     be32 (of_nat (length (fc_canonicalFormats m)))"

definition wire_list_head :: "'d format_list \<Rightarrow> byte_buffer" where
  "wire_list_head m = be64 (fl_bundleId m) @ be64 (fl_offerId m) @ be64 (fl_ownerEpoch m) @
     be64 (fl_sequence m) @ be16 (fl_origin m) @ be16 (fl_side m) @ be64 (fl_originSessionId m) @
     be64 (fl_policyVersion m) @ be32 (of_nat (length (fl_formats m)))"

definition wire_optional :: "'d double_ops \<Rightarrow> 'd presentation option \<Rightarrow> byte_buffer" where
  "wire_optional ops p = (case p of None \<Rightarrow> [] | Some p \<Rightarrow> wire_bool True @ wire_presentation ops p)"

fun wire_body :: "'d double_ops \<Rightarrow> 'd fdcl_message \<Rightarrow> byte_buffer" where
  "wire_body ops (Capabilities m) =
     wire_capabilities_head m @ concat (map wire_text (fc_canonicalFormats m))"
| "wire_body ops (FormatList m) =
     wire_list_head m @ concat (map wire_record (fl_formats m)) @ wire_optional ops (fl_presentation m)"
| "wire_body ops (ReadFormatRequest m) = be64 (rr_bundleId m) @ be64 (rr_offerId m) @
     be64 (rr_ownerEpoch m) @ be64 (rr_sourceId m) @ be32 (rr_itemIndex m) @ be64 (rr_formatId m) @
     be32 (rr_localFormatToken m) @ be64 (rr_acceptedMaxBytes m) @ wire_bool (rr_streamAccepted m) @
     be16 (rr_requestedEncoding m) @ be16 0 @ wire_text (rr_canonicalFormat m)"
| "wire_body ops (ReadFormatResponse m) = be64 (ra_bundleId m) @ be64 (ra_offerId m) @
     be64 (ra_ownerEpoch m) @ be64 (ra_sourceId m) @ be32 (ra_itemIndex m) @ be64 (ra_formatId m) @
     be16 (ra_encoding m) @ be16 0 @ wire_text (ra_canonicalFormat m) @
     be32 (of_nat (length (ra_bytes m))) @ ra_bytes m"
| "wire_body ops (ErrorDetail m) = be16 (ed_status m) @ wire_text (ed_message m)"
| "wire_body ops (FileRangeRequest m) = be64 (xq_bundleId m) @ be64 (xq_offerId m) @
     be64 (xq_ownerEpoch m) @ be64 (xq_sourceId m) @ be64 (xq_objectId m) @ be32 (xq_fileIndex m) @
     be64 (xq_offset m) @ be64 (xq_requestedBytes m) @ be16 0"
| "wire_body ops (FileRangeResponse m) = be64 (xr_bundleId m) @ be64 (xr_offerId m) @
     be64 (xr_ownerEpoch m) @ be64 (xr_sourceId m) @ be64 (xr_objectId m) @ be32 (xr_fileIndex m) @
     be64 (xr_offset m) @ wire_bool (xr_endOfFile m) @ be16 0 @
     be32 (of_nat (length (xr_bytes m))) @ xr_bytes m"
| "wire_body ops (LockObjectMessage m) = wire_lock m"
| "wire_body ops (UnlockObjectMessage m) = wire_lock m"
| "wire_body ops (DragStart m) = be64 (ds_dragSessionId m) @ be64 (ds_bundleId m) @
     be64 (ds_offerId m) @ be64 (ds_ownerEpoch m) @ be32 (ds_allowedActions m) @
     be16 (ds_preferredAction m) @ be16 0 @ wire_coordinate ops (ds_start m)"
| "wire_body ops (DragMove m) = wire_point ops m"
| "wire_body ops (DragDrop m) = wire_point ops m"
| "wire_body ops (DragCancel m) = be64 (dx_dragSessionId m) @ be16 (dx_reason m) @ be16 0"
| "wire_body ops (CancelMessage m) = be64 (cn_correlationId m) @ be64 (cn_bundleId m) @
     be64 (cn_offerId m) @ be64 (cn_ownerEpoch m) @ be64 (cn_sourceId m) @ be64 (cn_formatId m) @
     be16 (cn_reason m) @ be16 0 @ wire_text (cn_message m)"

lemmas encoders =
  encodeFdclCapabilities_def encodeFdclReadFormatRequest_def
  encodeFdclReadFormatResponse_def encodeFdclErrorDetail_def encodeFdclFileRangeRequest_def
  encodeFdclFileRangeResponse_def encodeFdclLockObject_def encodeFdclUnlockObject_def
  encodeObjectLock_def encodeFdclDragStart_def encodeFdclDragMove_def encodeFdclDragDrop_def
  encodeDragPoint_def encodeFdclDragCancel_def encodeFdclCancel_def appendCapabilities_def

lemma encode_format_list_eq:
  assumes "fdcl_scales ops (FormatList m)"
  shows "encodeFdclFormatList ops m = wrap FO_FormatList (wire_body ops (FormatList m))"
  using assms
  by (simp add: encodeFdclFormatList_def wire_list_head_def wire_optional_def Let_def fdcl_fields
      fold_wire [OF appendFormatRecord_eq] appendPresentation_eq split: option.splits)

lemma encode_fdcl_eq:
  assumes "fdcl_scales ops message"
  shows "encode_fdcl ops message = wrap (operation_of message) (wire_body ops message)"
proof (cases "\<exists>m. message = FormatList m")
  case True
  then show ?thesis using assms encode_format_list_eq by (auto simp: encode_fdcl_def)
next
  case False
  then show ?thesis
    using assms
    by (cases message)
      (simp_all add: encode_fdcl_def encoders Let_def fdcl_fields wire_lock_def wire_point_def
        wire_capabilities_head_def fold_wire [OF append_texts(1)])
qed

lemma wrap_eq:
  "wrap operation body = be32 FdclMagic @ be16 FdclMajor @ be16 FdclMinor @ be16 operation @ be16 0 @
     be32 (of_nat (length body)) @ body"
  by (simp add: wrap_def Let_def payload_fields)

lemma decode_wrap:
  assumes "length body < 2 ^ 32"
  shows "decodeFdclPayload ops (wrap operation body) = decode_body ops operation body"
proof -
  have "unat (of_nat (length body) :: u32) = length body" using assms by (simp add: unat_of_nat)
  then show ?thesis
    by (simp add: decodeFdclPayload_def wrap_eq FdclHeaderSize_def fdcl_fields)
qed

section \<open>Decoding the bodies\<close>

lemma readFormatListHead_wire:
  "readFormatListHead (wire_list_head m @ rest) 0 =
   Some (m\<lparr>fl_formats := [], fl_presentation := None\<rparr>, of_nat (length (fl_formats m)),
     length (wire_list_head m))"
  by (simp add: readFormatListHead_def wire_list_head_def fdcl_fields)

lemma readOptionalPresentation_wire:
  assumes "case p of None \<Rightarrow> True | Some p \<Rightarrow> presentation_ok p \<and> presentation_scales ops p"
  shows "readOptionalPresentation ops (before @ wire_optional ops p) (length before) =
    Inr (p, length (before @ wire_optional ops p))"
proof (cases p)
  case None
  then show ?thesis by (simp add: readOptionalPresentation_def wire_optional_def)
next
  case (Some d)
  then show ?thesis
    using assms readPresentation_wire [of d ops "before @ wire_bool True" "[]"]
    by (simp add: readOptionalPresentation_def wire_optional_def fdcl_fields)
qed

lemma decodeFormatList_wire:
  assumes "fdcl_ok (FormatList m)" and "fdcl_scales ops (FormatList m)"
  shows "decodeFormatList ops (wire_body ops (FormatList m)) = Inr m"
proof -
  let ?head = "wire_list_head m" and ?formats = "concat (map wire_record (fl_formats m))"
  have few: "length (fl_formats m) \<le> 256" using assms(1) by (simp add: MaxFormatRecords_def)
  then have n: "unat (of_nat (length (fl_formats m)) :: u32) = length (fl_formats m)"
    by (simp add: unat_of_nat)
  have some: "(of_nat (length (fl_formats m)) :: u32) \<noteq> 0"
    using n assms(1) by (metis fdcl_ok.simps(2) length_0_conv unat_0)
  have "readFormatRecords (wire_body ops (FormatList m)) (length (fl_formats m)) (length ?head) [] =
      Inr (fl_formats m, length (?head @ ?formats))"
    using readFormatRecords_wire [of "fl_formats m" ?head "wire_optional ops (fl_presentation m)" "[]"]
      assms(1) by simp
  moreover have "readOptionalPresentation ops (wire_body ops (FormatList m)) (length (?head @ ?formats)) =
      Inr (fl_presentation m, length (wire_body ops (FormatList m)))"
    using readOptionalPresentation_wire [of ops "fl_presentation m" "?head @ ?formats"] assms
    by (simp split: option.splits)
  moreover have "readFormatListHead (wire_body ops (FormatList m)) 0 =
      Some (m\<lparr>fl_formats := [], fl_presentation := None\<rparr>, of_nat (length (fl_formats m)), length ?head)"
    by (simp add: readFormatListHead_wire)
  ultimately show ?thesis
    using assms(1) n few some unfolding decodeFormatList_def
    by (simp del: wire_body.simps add: identity_ok_def MaxFormatRecords_def)
qed

lemma decodeFdclCapabilities_wire:
  assumes "fdcl_ok (Capabilities m)"
  shows "decodeFdclCapabilities (wire_body ops (Capabilities m)) = Inr m"
proof -
  have few: "length (fc_canonicalFormats m) \<le> 256" using assms by (simp add: MaxFormatRecords_def)
  then have n: "unat (of_nat (length (fc_canonicalFormats m)) :: u32) = length (fc_canonicalFormats m)"
    by (simp add: unat_of_nat)
  define formats where "formats = concat (map wire_text (fc_canonicalFormats m))"
  have "readCanonicalFormats (wire_capabilities_head m @ formats) (length (fc_canonicalFormats m)) 32 [] =
      Inr (fc_canonicalFormats m, 32 + length formats)"
    using readCanonicalFormats_wire [of "fc_canonicalFormats m" "wire_capabilities_head m" "[]" "[]"]
      assms by (simp add: wire_capabilities_head_def formats_def)
  then show ?thesis
    using assms n few unfolding wire_body.simps formats_def [symmetric]
    by (simp add: decodeFdclCapabilities_def readCapabilities_def wire_capabilities_head_def fdcl_fields
        MaxFormatRecords_def)
qed

lemmas simple_decoders =
  decodeReadRequest_def decodeReadResponse_def decodeErrorDetail_def decodeFileRangeRequest_def
  decodeFileRangeResponse_def decodeFdclObjectLockBody_def decodeDragStart_def decodeDragPoint_def
  decodeDragCancel_def decodeCancel_def

lemma inline_length:
  "length bytes \<le> MaxInlineBytes \<Longrightarrow> unat (of_nat (length bytes) :: u32) = length bytes"
  "length bytes \<le> MaxFileRangeBytes \<Longrightarrow> unat (of_nat (length bytes) :: u32) = length bytes"
  by (simp_all add: MaxInlineBytes_def MaxFileRangeBytes_def unat_of_nat)

lemma decode_body_wire:
  assumes "fdcl_ok message" and "fdcl_scales ops message"
  shows "decode_body ops (operation_of message) (wire_body ops message) = Inr message"
proof (cases message)
  case (Capabilities m)
  then show ?thesis
    using assms decodeFdclCapabilities_wire [of m ops]
    by (simp del: wire_body.simps add: decode_body_def decoded_def)
next
  case (FormatList m)
  then show ?thesis
    using assms decodeFormatList_wire [of m ops]
    by (simp del: wire_body.simps add: decode_body_def decoded_def)
qed (use assms in \<open>simp_all add: decode_body_def decoded_def simple_decoders wire_lock_def wire_point_def
    identity_ok_def validFormatName_def inline_length readDragSurfaceCoordinate_def wire_coordinate_def
    coordinate_ok_def scale_ok_def fdcl_fields\<close>)

text \<open>No acceptable message is longer than the length field of the header can say.\<close>

lemma concat_length:
  "list_all (\<lambda>x. length (wire x) \<le> n) xs \<Longrightarrow> length (concat (map wire xs)) \<le> length xs * n"
  by (induction xs) auto

lemma wire_part_bounds:
  "icon_ok i \<Longrightarrow> length (wire_icon i) \<le> 5000"
  "drag_image_ok img \<Longrightarrow> length (wire_drag_image ops img) \<le> 5000"
  "record_ok fmt \<Longrightarrow> length (wire_record fmt) \<le> 9000"
  "validFormatName str \<Longrightarrow> length (wire_text str) \<le> 5000"
  by (auto simp: icon_ok_def drag_image_ok_def record_ok_def validFormatName_def wire_icon_def
      wire_drag_image_def wire_record_def MaxStringBytes_def)

lemma wire_presentation_bound:
  assumes "presentation_ok p"
  shows "length (wire_presentation ops p) \<le> 100000"
proof -
  have "list_all (\<lambda>i. length (wire_icon i) \<le> 5000) (pt_icons p)"
    using assms wire_part_bounds(1) by (auto simp: presentation_ok_def list_all_iff)
  then have "length (concat (map wire_icon (pt_icons p))) \<le> 16 * 5000"
    using concat_length [of wire_icon 5000 "pt_icons p"] assms
    by (simp add: presentation_ok_def MaxPresentationIcons_def)
  moreover have "length (wire_presentation_head p) \<le> 5000"
    using assms by (simp add: wire_presentation_head_def presentation_ok_def MaxStringBytes_def)
  moreover have "length (case pt_dragImage p of None \<Rightarrow> [] | Some img \<Rightarrow> wire_drag_image ops img) \<le> 5000"
    using assms by (auto simp: presentation_ok_def wire_part_bounds split: option.splits)
  ultimately show ?thesis by (simp add: wire_presentation_def)
qed

lemma wire_body_bound:
  assumes "fdcl_ok message"
  shows "length (wire_body ops message) < 2 ^ 32"
proof (cases message)
  case (Capabilities m)
  have "list_all (\<lambda>str. length (wire_text str) \<le> 5000) (fc_canonicalFormats m)"
    using assms wire_part_bounds(4) by (auto simp: Capabilities list_all_iff)
  then have "length (concat (map wire_text (fc_canonicalFormats m))) \<le> 256 * 5000"
    using concat_length [of wire_text 5000 "fc_canonicalFormats m"] assms
    by (simp add: Capabilities MaxFormatRecords_def)
  then show ?thesis by (simp add: Capabilities wire_capabilities_head_def)
next
  case (FormatList m)
  have "list_all (\<lambda>fmt. length (wire_record fmt) \<le> 9000) (fl_formats m)"
    using assms wire_part_bounds(3) by (auto simp: FormatList list_all_iff)
  then have "length (concat (map wire_record (fl_formats m))) \<le> 256 * 9000"
    using concat_length [of wire_record 9000 "fl_formats m"] assms
    by (simp add: FormatList MaxFormatRecords_def)
  moreover have "length (wire_optional ops (fl_presentation m)) \<le> 100001"
    using assms by (auto simp: FormatList wire_optional_def wire_presentation_bound split: option.splits)
  ultimately show ?thesis by (simp add: FormatList wire_list_head_def)
qed (use assms in \<open>simp_all add: validFormatName_def MaxStringBytes_def MaxInlineBytes_def
    MaxFileRangeBytes_def wire_lock_def wire_point_def wire_coordinate_def\<close>)

lemma fdcl_round_trip_aux:
  assumes "fdcl_ok message" and "fdcl_scales ops message"
  shows "decodeFdclPayload ops (encode_fdcl ops message) = Inr message"
  unfolding encode_fdcl_eq [OF assms(2)] decode_wrap [OF wire_body_bound [OF assms(1)]]
  using assms by (rule decode_body_wire)

section \<open>What the decoder accepts\<close>

lemma and_then_Inr: "and_then r f = Inr v \<Longrightarrow> \<exists>u. r = Inr u \<and> f u = Inr v"
  by (cases r) simp_all

lemma or_error_Inr: "or_error e r = Inr v \<longleftrightarrow> r = Inr v"
  by (cases r) (simp_all add: or_error_def)

lemma field_Inr: "field r = Inr v \<longleftrightarrow> r = Some v"
  by (cases r) simp_all

lemma nextString_bound: "nextString input offset = Inr (str, offset') \<Longrightarrow> length str \<le> MaxStringBytes"
  by (auto simp: nextString_def split: option.splits if_splits)

lemma readIcon_ok: "readIcon body offset = Inr (i, offset') \<Longrightarrow> icon_ok i"
  by (auto simp: readIcon_def icon_ok_def dest!: and_then_Inr split: if_splits)

lemma readIcons_ok:
  assumes "readIcons body n offset icons = Inr (icons', offset')" and "list_all icon_ok icons"
  shows "list_all icon_ok icons' \<and> length icons' = length icons + n"
  using assms
proof (induction body n offset icons rule: readIcons.induct)
  case (2 body n offset icons)
  from 2(2) obtain i off where "readIcon body offset = Inr (i, off)"
    "readIcons body n off (icons @ [i]) = Inr (icons', offset')"
    by (auto dest!: and_then_Inr)
  with 2(1) [of off i] 2(3) readIcon_ok show ?case by fastforce
qed simp

lemma readDragImage_ok: "readDragImage ops body offset = Inr (img, offset') \<Longrightarrow> drag_image_ok img"
  by (auto simp: readDragImage_def drag_image_ok_def dest!: and_then_Inr split: if_splits)

lemma readPresentation_ok:
  assumes "readPresentation ops body offset = Inr (p, offset')"
  shows "presentation_ok p"
proof -
  from assms obtain q n off where head: "readPresentationHead body offset = Inr (q, n, off)"
    and inrange: "validSourceKind (pt_sourceKind q)" "validAction (pt_preferredAction q)"
      "unat n \<le> MaxPresentationIcons"
    and rest: "and_then (readIcons body (unat n) off []) (\<lambda>(icons, offset).
           case nextBool body offset of
             None \<Rightarrow> Inl ''presentation drag image flag is truncated''
           | Some (hasDragImage, offset) \<Rightarrow>
               if hasDragImage then
                 and_then (readDragImage ops body offset) (\<lambda>(img, offset).
                   Inr (q\<lparr>pt_icons := icons, pt_dragImage := Some img\<rparr>, offset))
               else Inr (q\<lparr>pt_icons := icons\<rparr>, offset)) = Inr (p, offset')"
    by (auto simp: readPresentation_def dest!: and_then_Inr split: if_splits)
  from head have name: "length (pt_displayName q) \<le> MaxStringBytes" "pt_dragImage q = None"
    by (auto simp: readPresentationHead_def or_error_Inr field_Inr dest!: and_then_Inr nextString_bound
        split: bind_splits prod.splits)
  have icons: "list_all icon_ok icons \<and> length icons = unat n"
    if "readIcons body (unat n) off [] = Inr (icons, off')" for icons off'
    using readIcons_ok [OF that] by simp
  from rest name inrange show ?thesis
    by (auto simp: presentation_ok_def dest!: and_then_Inr icons readDragImage_ok
        split: option.splits if_splits)
qed

lemma readDragSurfaceCoordinate_ok:
  "readDragSurfaceCoordinate ops body offset = Inr (point, offset') \<Longrightarrow> coordinate_ok point"
  by (auto simp: readDragSurfaceCoordinate_def coordinate_ok_def split: option.splits if_splits)

lemma nextEncodingMode_valid: "nextEncodingMode input offset = Some (v, offset') \<Longrightarrow> validEncodingMode v"
  by (auto simp: nextEncodingMode_eq split: option.splits if_splits)

lemma readFormatRecord_ok: "readFormatRecord body offset = Inr (fmt, offset') \<Longrightarrow> record_ok fmt"
  by (auto simp: readFormatRecord_def record_ok_def
      dest!: and_then_Inr nextString_bound nextEncodingMode_valid
      split: option.splits if_splits bind_splits prod.splits)

lemma readFormatRecords_ok:
  assumes "readFormatRecords body n offset formats = Inr (formats', offset')" and "list_all record_ok formats"
  shows "list_all record_ok formats' \<and> length formats' = length formats + n"
  using assms
proof (induction body n offset formats rule: readFormatRecords.induct)
  case (2 body n offset formats)
  from 2(2) obtain fmt off where "readFormatRecord body offset = Inr (fmt, off)"
    "readFormatRecords body n off (formats @ [fmt]) = Inr (formats', offset')"
    by (auto dest!: and_then_Inr)
  with 2(1) [of off fmt] 2(3) readFormatRecord_ok show ?case by fastforce
qed simp

lemma readCanonicalFormats_ok:
  assumes "readCanonicalFormats body n offset formats = Inr (formats', offset')"
    and "list_all validFormatName formats"
  shows "list_all validFormatName formats' \<and> length formats' = length formats + n"
  using assms
proof (induction body n offset formats rule: readCanonicalFormats.induct)
  case (2 body n offset formats)
  from 2(2) obtain fmt off where "validFormatName fmt"
    "readCanonicalFormats body n off (formats @ [fmt]) = Inr (formats', offset')"
    by (auto dest!: and_then_Inr split: if_splits)
  with 2(1) [of fmt off] 2(3) show ?case by fastforce
qed simp

lemma repeated_from_empty:
  "readFormatRecords body n offset [] = Inr (formats, offset') \<Longrightarrow>
     list_all record_ok formats \<and> length formats = n"
  "readCanonicalFormats body n offset [] = Inr (names, offset') \<Longrightarrow>
     list_all validFormatName names \<and> length names = n"
  using readFormatRecords_ok [of body n offset "[]"] readCanonicalFormats_ok [of body n offset "[]"]
  by simp_all

lemma readOptionalPresentation_ok:
  "readOptionalPresentation ops body offset = Inr (p, offset') \<Longrightarrow>
   case p of None \<Rightarrow> True | Some q \<Rightarrow> presentation_ok q"
  by (auto simp: readOptionalPresentation_def dest!: and_then_Inr readPresentation_ok
      split: option.splits if_splits)

lemma decodeFormatList_ok: "decodeFormatList ops body = Inr m \<Longrightarrow> fdcl_ok (FormatList m)"
  by (auto simp: decodeFormatList_def identity_ok_def unat_eq_0
      dest!: and_then_Inr repeated_from_empty readOptionalPresentation_ok split: option.splits if_splits)

lemma decodeFdclCapabilities_ok: "decodeFdclCapabilities body = Inr m \<Longrightarrow> fdcl_ok (Capabilities m)"
  by (auto simp: decodeFdclCapabilities_def readCapabilities_def
      dest!: and_then_Inr repeated_from_empty split: option.splits if_splits)

lemma simple_decoders_ok:
  "decodeReadRequest body = Inr request \<Longrightarrow> fdcl_ok (ReadFormatRequest request)"
  "decodeReadResponse body = Inr response \<Longrightarrow> fdcl_ok (ReadFormatResponse response)"
  "decodeErrorDetail body = Inr detail \<Longrightarrow> fdcl_ok (ErrorDetail detail)"
  "decodeFileRangeRequest body = Inr wanted \<Longrightarrow> fdcl_ok (FileRangeRequest wanted)"
  "decodeFileRangeResponse body = Inr given \<Longrightarrow> fdcl_ok (FileRangeResponse given)"
  "decodeFdclObjectLockBody body FO_LockObject = Inr lock \<Longrightarrow> fdcl_ok (LockObjectMessage lock)"
  "decodeFdclObjectLockBody body FO_UnlockObject = Inr lock \<Longrightarrow> fdcl_ok (UnlockObjectMessage lock)"
  "decodeDragStart ops body = Inr start \<Longrightarrow> fdcl_ok (DragStart start)"
  "decodeDragPoint ops body = Inr point \<Longrightarrow> fdcl_ok (DragMove point) \<and> fdcl_ok (DragDrop point)"
  "decodeDragCancel body = Inr cancelled \<Longrightarrow> fdcl_ok (DragCancel cancelled)"
  "decodeCancel body = Inr cancel \<Longrightarrow> fdcl_ok (CancelMessage cancel)"
proof -
  show "decodeReadRequest body = Inr request \<Longrightarrow> fdcl_ok (ReadFormatRequest request)"
    by (auto simp: decodeReadRequest_def identity_ok_def dest!: and_then_Inr nextEncodingMode_valid
        split: option.splits if_splits bind_splits prod.splits)
  show "decodeReadResponse body = Inr response \<Longrightarrow> fdcl_ok (ReadFormatResponse response)"
    by (auto simp: decodeReadResponse_def identity_ok_def dest!: and_then_Inr nextEncodingMode_valid
        split: option.splits if_splits bind_splits prod.splits)
  show "decodeErrorDetail body = Inr detail \<Longrightarrow> fdcl_ok (ErrorDetail detail)"
    by (auto simp: decodeErrorDetail_def dest!: and_then_Inr nextString_bound
        split: option.splits if_splits)
  show "decodeFileRangeRequest body = Inr wanted \<Longrightarrow> fdcl_ok (FileRangeRequest wanted)"
    by (auto simp: decodeFileRangeRequest_def identity_ok_def split: option.splits if_splits)
  show "decodeFileRangeResponse body = Inr given \<Longrightarrow> fdcl_ok (FileRangeResponse given)"
    by (auto simp: decodeFileRangeResponse_def identity_ok_def split: option.splits if_splits)
  show "decodeFdclObjectLockBody body FO_LockObject = Inr lock \<Longrightarrow> fdcl_ok (LockObjectMessage lock)"
    and "decodeFdclObjectLockBody body FO_UnlockObject = Inr lock \<Longrightarrow> fdcl_ok (UnlockObjectMessage lock)"
    by (auto simp: decodeFdclObjectLockBody_def identity_ok_def split: option.splits if_splits)
  show "decodeDragStart ops body = Inr start \<Longrightarrow> fdcl_ok (DragStart start)"
    by (auto simp: decodeDragStart_def identity_ok_def
        dest!: and_then_Inr readDragSurfaceCoordinate_ok split: option.splits if_splits)
  show "decodeDragPoint ops body = Inr point \<Longrightarrow> fdcl_ok (DragMove point) \<and> fdcl_ok (DragDrop point)"
    by (auto simp: decodeDragPoint_def dest!: and_then_Inr readDragSurfaceCoordinate_ok
        split: option.splits if_splits)
  show "decodeDragCancel body = Inr cancelled \<Longrightarrow> fdcl_ok (DragCancel cancelled)"
    by (auto simp: decodeDragCancel_def split: option.splits if_splits)
  show "decodeCancel body = Inr cancel \<Longrightarrow> fdcl_ok (CancelMessage cancel)"
    by (auto simp: decodeCancel_def identity_ok_def dest!: and_then_Inr nextString_bound
        split: option.splits if_splits)
qed

lemma decoded_Inr: "decoded op construct r = Inr m \<longleftrightarrow> (\<exists>v. r = Inr v \<and> m = construct v)"
  by (cases r) (auto simp: decoded_def)

lemma decode_body_ok:
  "decode_body ops op body = Inr m \<Longrightarrow> fdcl_ok m \<and> operation_of m = op"
  by (simp only: decode_body_def decoded_Inr split: if_split_asm; (elim exE conjE)?)
    (simp_all only: operation_of.simps simple_decoders_ok decodeFdclCapabilities_ok decodeFormatList_ok
      simp_thms sum.distinct)

lemma decodeFdclPayload_Inr:
  assumes "decodeFdclPayload ops payload = Inr m"
  shows "fdcl_ok m \<and> 16 \<le> length payload \<and> nextU16 payload 8 = Some (operation_of m, 10) \<and>
    nextU32 payload 12 = Some (of_nat (length payload - 16), 16)"
proof -
  have long: "16 \<le> length payload"
    using assms by (auto simp: decodeFdclPayload_def FdclHeaderSize_def split: if_splits)
  have at: "nextU32 payload n = Some (v, n') \<Longrightarrow> n' = n + 4" "nextU16 payload n = Some (w, n') \<Longrightarrow> n' = n + 2"
    for v w n n' by (auto dest: next_field_drops)
  from assms long obtain op len where body: "decode_body ops op (drop 16 payload) = Inr m"
    and op: "nextU16 payload 8 = Some (op, 10)" and len: "nextU32 payload 12 = Some (len, 16)"
    and size: "length payload - 16 = unat len"
    by (auto simp: decodeFdclPayload_def FdclHeaderSize_def dest!: at split: option.splits if_splits bind_splits)
  from decode_body_ok [OF body] op len long size show ?thesis by (simp add: word_unat_eq_iff)
qed

section \<open>Bundles over the wire\<close>

text \<open>The formats that the sources with an id offer, in the order of the sources and their formats.\<close>

definition formats_of :: "('r \<Rightarrow> u64) \<Rightarrow> ('r \<Rightarrow> format_descriptor list) \<Rightarrow> 'r option list \<Rightarrow> u64 \<Rightarrow>
    format_descriptor list" where
  "formats_of id_of offered sources i =
     concat (map (\<lambda>source. case source of None \<Rightarrow> [] | Some s \<Rightarrow> if id_of s = i then offered s else [])
       sources)"

definition records_of :: "format_record list \<Rightarrow> u64 \<Rightarrow> format_descriptor list" where
  "records_of formats i = map descriptor_of (filter (\<lambda>fmt. fm_sourceId fmt = i) formats)"

lemma descriptor_record [simp]: "descriptor_of (record_of i d) = d" "fm_sourceId (record_of i d) = i"
  by (simp_all add: descriptor_of_def record_of_def)

lemma descriptor_record_comp [simp]: "descriptor_of \<circ> record_of i = id"
  by (rule ext) simp

lemma records_of_Nil [simp]: "records_of [] i = []"
  by (simp add: records_of_def)

lemma records_of_append: "records_of (xs @ ys) i = records_of xs i @ records_of ys i"
  by (simp add: records_of_def)

lemma records_of_source: "records_of (map (record_of s) ds) i = (if s = i then ds else [])"
  by (simp add: records_of_def filter_map comp_def)

lemma records_of_bundle:
  "records_of (fl_formats (makeFormatListFromBundle iface bundle w)) i =
   formats_of (ts_id iface) (\<lambda>s. ts_formats iface s w) (sb_sources bundle) i"
proof -
  have "records_of (concat (map (\<lambda>source. case source of None \<Rightarrow> []
        | Some s \<Rightarrow> map (record_of (ts_id iface s)) (ts_formats iface s w)) sources)) i =
      formats_of (ts_id iface) (\<lambda>s. ts_formats iface s w) sources i" for sources
    by (induction sources)
      (auto simp: formats_of_def records_of_append records_of_source split: option.splits)
  then show ?thesis by (simp add: makeFormatListFromBundle_def)
qed

lemma group_by_source_step:
  "group_by_source (formats @ [fmt]) = map_put (fm_sourceId fmt)
     ((case map_find (group_by_source formats) (fm_sourceId fmt) of None \<Rightarrow> [] | Some ds \<Rightarrow> ds) @
      [descriptor_of fmt]) (group_by_source formats)"
  by (simp add: group_by_source_def)

lemma group_by_source_ok: "map_ok (group_by_source formats)"
  by (induction formats rule: rev_induct)
    (simp_all add: group_by_source_step map_ok_put, simp add: group_by_source_def)

lemma group_by_source_find:
  "map_find (group_by_source formats) i = (if records_of formats i = [] then None else Some (records_of formats i))"
proof (induction formats rule: rev_induct)
  case Nil
  then show ?case by (simp add: group_by_source_def records_of_def)
next
  case (snoc fmt formats)
  then show ?case by (auto simp: group_by_source_step records_of_append records_of_def)
qed

lemma formats_of_assoc:
  "distinct (map fst xs) \<Longrightarrow>
   formats_of rm_sourceId rm_formats (map (\<lambda>(i, ds). Some \<lparr>rm_sourceId = i, rm_formats = ds\<rparr>) xs) i =
   (case map_of xs i of None \<Rightarrow> [] | Some ds \<Rightarrow> ds)"
proof (induction xs)
  case (Cons x xs)
  have "map_of xs i = None" if "fst x = i" using Cons.prems that by (auto simp: map_of_eq_None_iff)
  then show ?case using Cons by (auto simp: formats_of_def split: prod.splits)
qed (simp add: formats_of_def)

lemma remote_formats:
  "formats_of rm_sourceId rm_formats (sb_sources (makeRemoteBundleFromFormatList list)) i =
   records_of (fl_formats list) i"
proof -
  have "distinct (map fst (group_by_source (fl_formats list)))"
    using group_by_source_ok smap.keys_distinct by (auto simp: map_keys_def)
  then show ?thesis
    by (simp add: makeRemoteBundleFromFormatList_def formats_of_assoc group_by_source_find)
qed

section \<open>Properties\<close>

text \<open>
  C20. The decoder accepts exactly the acceptable messages. Whatever bytes arrive, a message it accepts is
  acceptable, has the operation the header names, and a body of the length the header gives; and every
  acceptable message, with scales that survive the conversion, is accepted from some bytes. Acceptable
  (\<open>fdcl_ok\<close>) means: its ids are not zero (but for the owner epoch and the origin's session of a format
  list, the lock id of a lock request, and the source and format of a cancelled request, which may be);
  encodings, drag actions, coordinate spaces, source kinds and the reason of a cancelled drag are known
  ones; format names, texts, lists and byte buffers are within their limits. Nothing else is checked: the
  origin and side of a format list, the reason of a cancelled request and the status of an error may be
  any number.
\<close>

theorem accepted_fdcl_messages_are_valid:
  assumes "fdcl_scales ops message"
  shows "((\<exists>bytes. decodeFdclPayload ops bytes = Inr message) \<longleftrightarrow> fdcl_ok message) \<and>
    (\<forall>bytes. case decodeFdclPayload ops bytes of
       Inl _ \<Rightarrow> True
     | Inr accepted \<Rightarrow> fdcl_ok accepted \<and> 16 \<le> length bytes \<and>
         nextU16 bytes 8 = Some (operation_of accepted, 10) \<and>
         nextU32 bytes 12 = Some (of_nat (length bytes - 16), 16))"
proof (intro conjI allI iffI)
  show "case decodeFdclPayload ops bytes of
       Inl _ \<Rightarrow> True
     | Inr accepted \<Rightarrow> fdcl_ok accepted \<and> 16 \<le> length bytes \<and>
         nextU16 bytes 8 = Some (operation_of accepted, 10) \<and>
         nextU32 bytes 12 = Some (of_nat (length bytes - 16), 16)" for bytes
    using decodeFdclPayload_Inr [of ops bytes] by (auto split: sum.split)
  show "fdcl_ok message" if "\<exists>bytes. decodeFdclPayload ops bytes = Inr message"
    using that decodeFdclPayload_Inr by blast
  show "\<exists>bytes. decodeFdclPayload ops bytes = Inr message" if "fdcl_ok message"
    using fdcl_round_trip_aux [OF that assms] by blast
qed

text \<open>
  C21. Every acceptable message, of all fourteen kinds, is given back by the decoder from its encoding, as
  long as its scales are positive and survive the conversion to thousandths.
\<close>

theorem fdcl_round_trip:
  assumes "fdcl_ok message" and "fdcl_scales ops message"
  shows "decodeFdclPayload ops (encode_fdcl ops message) = Inr message"
  using assms by (rule fdcl_round_trip_aux)

text \<open>
  C24. A bundle offered to the peer arrives with its sources and formats: for every source id, the remote
  sources the peer makes from the decoded list offer the formats of the local sources with that id, in
  their order, and the remote sources have distinct ids.
\<close>

theorem offered_formats_arrive:
  assumes "fdcl_ok (FormatList (makeFormatListFromBundle iface bundle w))"
    and "fdcl_scales ops (FormatList (makeFormatListFromBundle iface bundle w))"
  shows "case decodeFdclPayload ops (encodeFdclFormatList ops (makeFormatListFromBundle iface bundle w)) of
      Inr (FormatList list) \<Rightarrow>
        (let remote = makeRemoteBundleFromFormatList list
         in sb_offerId remote = sb_offerId bundle \<and> sb_presentation remote = sb_presentation bundle \<and>
           distinct (map (map_option rm_sourceId) (sb_sources remote)) \<and>
           (\<forall>i. formats_of rm_sourceId rm_formats (sb_sources remote) i =
              formats_of (ts_id iface) (\<lambda>s. ts_formats iface s w) (sb_sources bundle) i))
    | _ \<Rightarrow> False"
proof -
  let ?list = "makeFormatListFromBundle iface bundle w"
  have "decodeFdclPayload ops (encodeFdclFormatList ops ?list) = Inr (FormatList ?list)"
    using fdcl_round_trip_aux [OF assms] by (simp add: encode_fdcl_def)
  moreover have "distinct (map (map_option rm_sourceId) (sb_sources (makeRemoteBundleFromFormatList ?list)))"
  proof -
    have "map (map_option rm_sourceId) (sb_sources (makeRemoteBundleFromFormatList ?list)) =
        map Some (map_keys (group_by_source (fl_formats ?list)))"
      by (auto simp: makeRemoteBundleFromFormatList_def map_keys_def)
    then show ?thesis
      using smap.keys_distinct [OF group_by_source_ok] by (simp add: distinct_map)
  qed
  ultimately show ?thesis
    by (simp add: Let_def remote_formats records_of_bundle)
      (simp add: makeRemoteBundleFromFormatList_def makeFormatListFromBundle_def)
qed

text \<open>Scales in thousandths, and a bundle of one source with an image of its own.\<close>

definition milli_ops :: "u32 double_ops" where
  "milli_ops = \<lparr>db_positive = (\<lambda>v. 0 < v), db_one = 1000, db_milli = id, db_of_milli = id\<rparr>"

definition sample_presentation :: "u32 presentation" where
  "sample_presentation = \<lparr>pt_displayName = ''a.txt'', pt_itemCount = 1, pt_sourceKind = 3,
     pt_icons = [\<lparr>ic_format = ''image/png'', ic_width = 16, ic_height = 16, ic_bytes = 300,
       ic_sensitive = False\<rparr>],
     pt_dragImage = Some \<lparr>di_format = ''image/png'', di_width = 64, di_height = 32, di_scale = 1500,
       di_hotspotX = 3, di_hotspotY = -4, di_generatedPreview = True, di_sensitive = False\<rparr>,
     pt_allowedActions = 3, pt_preferredAction = 1, pt_previewAllowedByPolicy = True\<rparr>"

definition sample_source :: materialized_source where
  "sample_source = \<lparr>mt_sourceId = 5, mt_entries = [\<lparr>te_descriptor = \<lparr>fd_canonicalFormat = ''text/plain'',
     fd_nativeFormatName = ''CF_TEXT'', fd_localFormatToken = 1, fd_formatId = 9, fd_itemIndex = 0,
     fd_estimatedBytes = 3, fd_canInline = True, fd_canStream = False,
     fd_preferredEncoding = EM_CanonicalBytes\<rparr>, te_bytes = [97, 98, 99]\<rparr>]\<rparr>"

definition materialized_interface :: "(materialized_source, unit) source_interface" where
  "materialized_interface = \<lparr>ts_id = mt_sourceId, ts_formats = (\<lambda>s _. materialized_formats s),
     ts_read = (\<lambda>s request w. (materialized_read s request, w))\<rparr>"

definition offered_sample :: "(materialized_source, u32 presentation) source_bundle" where
  "offered_sample = default_bundle\<lparr>sb_bundleId := 1, sb_offerId := 2, sb_sources := [Some sample_source, None],
     sb_presentation := Some sample_presentation\<rparr>"

lemma sample_message_ok:
  "fdcl_ok (FormatList (makeFormatListFromBundle materialized_interface offered_sample ()))"
  "fdcl_scales milli_ops (FormatList (makeFormatListFromBundle materialized_interface offered_sample ()))"
  by (simp_all add: makeFormatListFromBundle_def materialized_interface_def offered_sample_def
      sample_source_def sample_presentation_def milli_ops_def default_bundle_def identity_ok_def
      MaxFormatRecords_def record_ok_def record_of_def validEncodingMode_def validFormatName_def
      MaxStringBytes_def presentation_ok_def validSourceKind_def validAction_def MaxPresentationIcons_def
      icon_ok_def drag_image_ok_def presentation_scales_def scale_ok_def materialized_formats_def)

text \<open>A format list with an id of zero is not accepted, whatever bytes carry it.\<close>

theorem accepted_fdcl_messages_are_valid_witness:
  "(\<exists>bytes. decodeFdclPayload milli_ops bytes =
      Inr (FormatList (makeFormatListFromBundle materialized_interface offered_sample ()))) \<and>
   \<not> (\<exists>bytes. decodeFdclPayload milli_ops bytes = Inr (FormatList
      ((makeFormatListFromBundle materialized_interface offered_sample ())\<lparr>fl_offerId := 0\<rparr>)))"
proof -
  let ?list = "makeFormatListFromBundle materialized_interface offered_sample ()"
  have "fdcl_scales milli_ops (FormatList (?list\<lparr>fl_offerId := 0\<rparr>))"
    using sample_message_ok(2) by simp
  moreover have "\<not> fdcl_ok (FormatList (?list\<lparr>fl_offerId := 0\<rparr>))" by (simp add: identity_ok_def)
  ultimately have "\<not> (\<exists>bytes. decodeFdclPayload milli_ops bytes = Inr (FormatList (?list\<lparr>fl_offerId := 0\<rparr>)))"
    using accepted_fdcl_messages_are_valid [of milli_ops "FormatList (?list\<lparr>fl_offerId := 0\<rparr>)"] by blast
  then show ?thesis
    using accepted_fdcl_messages_are_valid [OF sample_message_ok(2)] sample_message_ok(1) by blast
qed

theorem fdcl_round_trip_witness:
  "decodeFdclPayload milli_ops (encode_fdcl milli_ops
     (FormatList (makeFormatListFromBundle materialized_interface offered_sample ()))) =
   Inr (FormatList (makeFormatListFromBundle materialized_interface offered_sample ()))"
  by (rule fdcl_round_trip [OF sample_message_ok])

theorem offered_formats_arrive_witness:
  "case decodeFdclPayload milli_ops
      (encodeFdclFormatList milli_ops (makeFormatListFromBundle materialized_interface offered_sample ())) of
     Inr (FormatList list) \<Rightarrow>
       formats_of rm_sourceId rm_formats (sb_sources (makeRemoteBundleFromFormatList list)) 5 =
         [te_descriptor (hd (mt_entries sample_source))]
   | _ \<Rightarrow> False"
proof -
  have "formats_of (ts_id materialized_interface) (\<lambda>s. ts_formats materialized_interface s ())
      (sb_sources offered_sample) 5 = [te_descriptor (hd (mt_entries sample_source))]"
    by (simp add: formats_of_def materialized_interface_def offered_sample_def default_bundle_def
        sample_source_def materialized_formats_def)
  then show ?thesis
    using offered_formats_arrive [OF sample_message_ok]
    by (auto simp: Let_def split: sum.splits fdcl_message.splits)
qed

end
