(* ===== verification/Clipboard_Policy.thy ===== *)
theory Clipboard_Policy
  imports Fdcl_Decoder File_Transfer
begin

text \<open>
  \<open>clipboard_module_policy_internal.h\<close> and the helpers of \<open>clipboard_module_local_read.cpp\<close>: which
  formats, reads and file ranges the policy of a clipboard module allows, and the transcoding of what
  was read. The sources of a bundle are objects of the platform or the sources made from the peer's
  format list; a transcoder and the files of a source stand behind their abstract classes.
\<close>

section \<open>The policy\<close>

record clipboard_policy =
  po_allowAnnounce :: bool
  po_allowReceive :: bool
  po_allowSendContent :: bool
  po_allowWriteLocal :: bool
  po_allowPresentationMetadata :: bool
  po_allowPlainText :: bool
  po_allowHtml :: bool
  po_allowRtf :: bool
  po_allowImage :: bool
  po_allowFileList :: bool
  po_allowFileContents :: bool
  po_allowDrag :: bool
  po_allowCustomFormats :: bool
  po_maxInlineBytes :: u64
  po_maxFileRangeBytes :: u64
  po_maxFileCount :: u64
  po_maxSingleFileBytes :: u64

definition default_clipboard_policy :: clipboard_policy where
  "default_clipboard_policy = \<lparr>po_allowAnnounce = True, po_allowReceive = True,
     po_allowSendContent = True, po_allowWriteLocal = True, po_allowPresentationMetadata = True,
     po_allowPlainText = True, po_allowHtml = True, po_allowRtf = True, po_allowImage = True,
     po_allowFileList = True, po_allowFileContents = True, po_allowDrag = True,
     po_allowCustomFormats = False, po_maxInlineBytes = 1024 * 1024,
     po_maxFileRangeBytes = 4 * 1024 * 1024, po_maxFileCount = 1024,
     po_maxSingleFileBytes = 16 * 1024 * 1024 * 1024\<rparr>"

definition TextPlainUtf8Format :: string where
  "TextPlainUtf8Format = ''text/plain;charset=utf-8''"
definition TextHtmlFormat :: string where "TextHtmlFormat = ''text/html''"
definition TextRtfFormat :: string where "TextRtfFormat = ''text/rtf''"
definition ImagePngFormat :: string where "ImagePngFormat = ''image/png''"
definition ImageDibFormat :: string where "ImageDibFormat = ''image/x-dib''"

definition effectiveMaxFileRangeBytes :: "clipboard_policy \<Rightarrow> u64" where
  "effectiveMaxFileRangeBytes policy =
    (if po_maxFileRangeBytes policy = 0 then po_maxInlineBytes policy else po_maxFileRangeBytes policy)"

definition policyAllowsCanonicalFormat :: "clipboard_policy \<Rightarrow> string \<Rightarrow> bool" where
  "policyAllowsCanonicalFormat policy canonicalFormat =
    (if canonicalFormat = [] then po_allowCustomFormats policy
     else if canonicalFormat = TextPlainUtf8Format then po_allowPlainText policy
     else if canonicalFormat = TextHtmlFormat then po_allowHtml policy
     else if canonicalFormat = TextRtfFormat then po_allowRtf policy
     else if canonicalFormat = ImagePngFormat \<or> canonicalFormat = ImageDibFormat then po_allowImage policy
     else if canonicalFormat = FdclFileListFormat then po_allowFileList policy
     else po_allowCustomFormats policy)"

section \<open>Sources of either side\<close>

datatype 'r transfer_source = LocalSource 'r | RemoteSource remote_source

text \<open>The virtual methods of a source, given those of the platform's sources.\<close>

definition any_source ::
    "('r, 'w) source_interface \<Rightarrow> ('r transfer_source, 'w) source_interface" where
  "any_source iface = \<lparr>
     ts_id = (\<lambda>s. case s of LocalSource r \<Rightarrow> ts_id iface r | RemoteSource m \<Rightarrow> rm_sourceId m),
     ts_formats = (\<lambda>s w. case s of LocalSource r \<Rightarrow> ts_formats iface r w | RemoteSource m \<Rightarrow> rm_formats m),
     ts_read = (\<lambda>s request w. case s of LocalSource r \<Rightarrow> ts_read iface r request w
       | RemoteSource m \<Rightarrow> (remote_read m request, w))\<rparr>"

text \<open>The formats of the sources with an id (every source, for the id 0 where \<open>any\<close> allows it).\<close>

definition bundle_formats ::
    "('r, 'w) source_interface \<Rightarrow> ('r \<Rightarrow> bool) \<Rightarrow> ('r, 'p) source_bundle \<Rightarrow> 'w \<Rightarrow> format_descriptor list" where
  "bundle_formats iface wanted bundle w =
     concat (map (\<lambda>s. ts_formats iface s w) (filter wanted (List.map_filter id (sb_sources bundle))))"

definition requestedCanonicalFormat ::
    "('r, 'w) source_interface \<Rightarrow> ('r, 'p) source_bundle \<Rightarrow> fdcl_read_request \<Rightarrow> 'w \<Rightarrow> string" where
  "requestedCanonicalFormat iface bundle request w =
    (if rr_canonicalFormat request \<noteq> [] then rr_canonicalFormat request
     else case find (\<lambda>descriptor.
           \<not> (rr_formatId request \<noteq> 0 \<and> fd_formatId descriptor \<noteq> rr_formatId request) \<and>
           \<not> (rr_localFormatToken request \<noteq> 0 \<and>
              fd_localFormatToken descriptor \<noteq> rr_localFormatToken request) \<and>
           fd_itemIndex descriptor = rr_itemIndex request)
         (bundle_formats iface (\<lambda>s. \<not> (rr_sourceId request \<noteq> 0 \<and> ts_id iface s \<noteq> rr_sourceId request))
            bundle w) of
       None \<Rightarrow> [] | Some descriptor \<Rightarrow> fd_canonicalFormat descriptor)"

definition policyAllowsReadRequest ::
    "('r, 'w) source_interface \<Rightarrow> clipboard_policy \<Rightarrow> ('r, 'p) source_bundle \<Rightarrow> fdcl_read_request \<Rightarrow>
     'w \<Rightarrow> bool" where
  "policyAllowsReadRequest iface policy bundle request w =
    (let canonical = requestedCanonicalFormat iface bundle request w
     in canonical \<noteq> [] \<and> policyAllowsCanonicalFormat policy canonical)"

text \<open>
  \<open>validateFileRangeRequestAgainstBundle\<close> and \<open>validateObjectLockAgainstBundle\<close> differ in their
  texts only: the first file-list format of the sources with the id decides.
\<close>

definition validate_against_bundle ::
    "('r, 'w) source_interface \<Rightarrow> string \<times> string \<times> string \<times> string \<Rightarrow> ('r, 'p) source_bundle \<Rightarrow>
     u64 \<times> u64 \<times> u64 \<times> u64 \<Rightarrow> 'w \<Rightarrow> response_status \<times> string" where
  "validate_against_bundle iface texts bundle identity w =
    (let (stale, no_streaming, no_file_list, not_found) = texts;
         (bundleId, offerId, ownerEpoch, sourceId) = identity
     in if sb_bundleId bundle \<noteq> bundleId \<or> sb_offerId bundle \<noteq> offerId \<or>
           sb_ownerEpoch bundle \<noteq> ownerEpoch then (RS_Conflict, stale)
        else case find (\<lambda>descriptor. fd_canonicalFormat descriptor = FdclFileListFormat)
               (bundle_formats iface (\<lambda>s. ts_id iface s = sourceId) bundle w) of
          Some descriptor \<Rightarrow> if \<not> fd_canStream descriptor then (RS_Unsupported, no_streaming) else (RS_Ok, [])
        | None \<Rightarrow> (RS_NotFound,
            if list_ex (\<lambda>s. ts_id iface s = sourceId) (List.map_filter id (sb_sources bundle))
            then no_file_list else not_found))"

definition validateFileRangeRequestAgainstBundle ::
    "('r, 'w) source_interface \<Rightarrow> ('r, 'p) source_bundle \<Rightarrow> fdcl_range_request \<Rightarrow> 'w \<Rightarrow>
     response_status \<times> string" where
  "validateFileRangeRequestAgainstBundle iface bundle request w = validate_against_bundle iface
     (''clipboard file offer is stale'', ''clipboard file source does not allow streaming'',
      ''clipboard file source has no file-list format'', ''clipboard file source is not found'')
     bundle (xq_bundleId request, xq_offerId request, xq_ownerEpoch request, xq_sourceId request) w"

definition validateObjectLockAgainstBundle ::
    "('r, 'w) source_interface \<Rightarrow> ('r, 'p) source_bundle \<Rightarrow> fdcl_object_lock \<Rightarrow> 'w \<Rightarrow>
     response_status \<times> string" where
  "validateObjectLockAgainstBundle iface bundle request w = validate_against_bundle iface
     (''clipboard file object offer is stale'', ''clipboard file object does not allow streaming'',
      ''clipboard file object source has no file-list format'',
      ''clipboard file object source is not found'')
     bundle (ol_bundleId request, ol_offerId request, ol_ownerEpoch request, ol_sourceId request) w"

definition maxFileCountForDecode :: "clipboard_policy \<Rightarrow> nat" where
  "maxFileCountForDecode policy = unat (po_maxFileCount policy)"

definition validateFileListPolicy :: "clipboard_policy \<Rightarrow> byte_buffer \<Rightarrow> response_status \<times> string" where
  "validateFileListPolicy policy bytes =
    (if \<not> po_allowFileList policy then (RS_DeniedByPolicy, ''clipboard file list denied by policy'')
     else
       let decoded = decodeTransferFileList (maxFileCountForDecode policy) default_maxNameBytes bytes
       in if \<not> fl_ok decoded then (fl_status decoded, fl_message decoded)
          else if list_ex (\<lambda>file. \<not> tf_directory file \<and> po_maxSingleFileBytes policy \<noteq> 0 \<and>
                 tf_sizeBytes file > po_maxSingleFileBytes policy) (fl_files decoded) then
            (RS_TooLarge, ''clipboard file list exceeds max single file bytes'')
          else (RS_Ok, []))"

text \<open>A refused result keeps its format and encoding and loses its bytes.\<close>

definition refuse_read :: "response_status \<Rightarrow> string \<Rightarrow> read_result \<Rightarrow> read_result" where
  "refuse_read status message result = result\<lparr>rs_status := status, rs_bytes := [], rs_message := message\<rparr>"

definition enforceReadResultPolicy :: "clipboard_policy \<Rightarrow> read_result \<Rightarrow> read_result" where
  "enforceReadResultPolicy policy result =
    (if rs_status result \<noteq> RS_Ok then result
     else if \<not> policyAllowsCanonicalFormat policy (rs_canonicalFormat result) then
       refuse_read RS_DeniedByPolicy ''clipboard format denied by policy'' result
     else if length (rs_bytes result) > unat (po_maxInlineBytes policy) then
       refuse_read RS_TooLarge ''clipboard read exceeds policy max inline bytes'' result
     else if rs_canonicalFormat result = FdclFileListFormat then
       (let (status, message) = validateFileListPolicy policy (rs_bytes result)
        in if status \<noteq> RS_Ok then refuse_read status message result else result)
     else result)"

section \<open>Reading with transcoding\<close>

type_synonym platform_family = u16

abbreviation (input) TPF_Unknown :: platform_family where "TPF_Unknown \<equiv> 0"

record native_format =
  nf_platform :: platform_family
  nf_nativeFormatName :: string
  nf_localFormatToken :: u32

definition default_native_format :: native_format where
  "default_native_format =
     \<lparr>nf_platform = TPF_Unknown, nf_nativeFormatName = [], nf_localFormatToken = 0\<rparr>"

record transcode_request =
  tq_canonicalFormat :: string
  tq_sourceNative :: native_format
  tq_targetNative :: native_format
  tq_sourceEncoding :: encoding_mode
  tq_targetEncoding :: encoding_mode
  tq_bytes :: byte_buffer

record transcode_result =
  tc_status :: response_status
  tc_encoding :: encoding_mode
  tc_bytes :: byte_buffer
  tc_message :: string

record transcoder =
  canTranscode :: "transcode_request \<Rightarrow> bool"
  transcode :: "transcode_request \<Rightarrow> transcode_result"

definition findReadDescriptor ::
    "('r, 'w) source_interface \<Rightarrow> 'r \<Rightarrow> read_request \<Rightarrow> 'w \<Rightarrow> format_descriptor option" where
  "findReadDescriptor iface source request w =
     find (\<lambda>descriptor. matchesFormat descriptor request) (ts_formats iface source w)"

definition transcode_request_for ::
    "format_descriptor \<Rightarrow> read_request \<Rightarrow> read_result \<Rightarrow> transcode_request" where
  "transcode_request_for descriptor request result =
    (let sourceNative = default_native_format\<lparr>nf_nativeFormatName := fd_nativeFormatName descriptor,
           nf_localFormatToken := fd_localFormatToken descriptor\<rparr>
     in \<lparr>tq_canonicalFormat = (if rs_canonicalFormat result = [] then rq_canonicalFormat request
           else rs_canonicalFormat result),
         tq_sourceNative = sourceNative,
         tq_targetNative = (if rq_requestedEncoding request = EM_NativePassthrough then sourceNative
           else default_native_format),
         tq_sourceEncoding = rs_encoding result, tq_targetEncoding = rq_requestedEncoding request,
         tq_bytes = rs_bytes result\<rparr>)"

definition transcodeReadResultIfNeeded ::
    "transcoder option \<Rightarrow> format_descriptor \<Rightarrow> read_request \<Rightarrow> read_result \<Rightarrow> read_result" where
  "transcodeReadResultIfNeeded tc descriptor request result =
    (if rs_status result \<noteq> RS_Ok \<or> rs_encoding result = rq_requestedEncoding request then result
     else case tc of
       None \<Rightarrow> refuse_read RS_Unsupported ''clipboard format transcode is unavailable'' result
     | Some tc \<Rightarrow>
         let transcodeRequest = transcode_request_for descriptor request result
         in if \<not> canTranscode tc transcodeRequest then
              refuse_read RS_Unsupported ''clipboard format transcode is unsupported'' result
            else
              let transcoded = transcode tc transcodeRequest
              in if tc_status transcoded \<noteq> RS_Ok then
                   refuse_read (tc_status transcoded)
                     (or_default (tc_message transcoded) ''clipboard format transcode failed'') result
                 else result\<lparr>rs_status := RS_Ok, rs_encoding := tc_encoding transcoded,
                   rs_bytes := tc_bytes transcoded, rs_message := [],
                   rs_canonicalFormat := (if rs_canonicalFormat result = []
                     then tq_canonicalFormat transcodeRequest else rs_canonicalFormat result)\<rparr>)"

end
