(* ===== verification/Clipboard_Module.thy ===== *)
theory Clipboard_Module
  imports Clipboard_Policy Clipboard_Window Module_Runtime Module_Composer Request_Tracker
begin

unbundle bit_operations_syntax

text \<open>
  \<open>ClipboardModuleBase\<close> of \<open>clipboard_modules.cpp\<close>: its state, how it sends, its announcements and its
  life cycle. The registry is the one the constructor makes (\<open>InMemoryTransferSourceRegistry\<close>) and the
  large-data window the module's own. The endpoint, the drag sink, the transcoder and the platform's
  sources stand behind their abstract classes; the closures given to the request tracker are the
  values of \<open>clip_handler\<close>. Members of the snapshot that \<open>snapshot()\<close> overwrites are computed there only.
\<close>

section \<open>State\<close>

record ('r, 'd, 'w) clipboard_endpoint =
  ep_snapshot :: "'w \<Rightarrow> ('r transfer_source, 'd presentation) source_bundle \<times> 'w"
  ep_publishBundle :: "('r transfer_source, 'd presentation) source_bundle \<Rightarrow> 'w \<Rightarrow> response_status \<times> 'w"

record ('d, 'w) drag_sink =
  sk_dragStart :: "'d drag_start \<Rightarrow> 'w \<Rightarrow> response_status \<times> 'w"
  sk_dragMove :: "u64 \<Rightarrow> 'd surface_coordinate \<Rightarrow> u16 \<Rightarrow> 'w \<Rightarrow> response_status \<times> 'w"
  sk_dragDrop :: "u64 \<Rightarrow> 'd surface_coordinate \<Rightarrow> u16 \<Rightarrow> 'w \<Rightarrow> response_status \<times> 'w"
  sk_dragCancel :: "u64 \<Rightarrow> u16 \<Rightarrow> 'w \<Rightarrow> response_status \<times> 'w"

record ('c, 'r, 'd, 'w) clip_env =
  ce_channels :: "('c, 'w) channel_interface"
  ce_now :: "'w \<Rightarrow> u64 \<times> 'w"
  ce_doubles :: "'d double_ops"
  ce_sources :: "('r, 'w) source_interface"
  ce_files :: "'r \<Rightarrow> (file_range_request \<Rightarrow> 'w \<Rightarrow> file_range_result \<times> 'w) option"
  ce_transcoder :: transcoder
  ce_endpoint :: "('r, 'd, 'w) clipboard_endpoint option"
  ce_dragSink :: "('d, 'w) drag_sink option"

datatype clip_handler = ReadHandler | FileRangeHandler | ObjectLockHandler | ObjectUnlockHandler

record ('r, 'd) clip_snapshot =
  ck_formatListsSent :: int
  ck_formatListsReceived :: int
  ck_readRequestsSent :: int
  ck_readRequestsReceived :: int
  ck_inlineResponsesSent :: int
  ck_inlineResponsesReceived :: int
  ck_fileRangeRequestsSent :: int
  ck_fileRangeRequestsReceived :: int
  ck_fileRangeResponsesSent :: int
  ck_fileRangeResponsesReceived :: int
  ck_fileRangeSmallDataResponsesSent :: int
  ck_fileRangeLargeDataResponsesSent :: int
  ck_objectLockRequestsSent :: int
  ck_objectLockRequestsReceived :: int
  ck_objectLockResponsesSent :: int
  ck_objectLockResponsesReceived :: int
  ck_objectUnlockRequestsSent :: int
  ck_objectUnlockRequestsReceived :: int
  ck_objectUnlockResponsesSent :: int
  ck_objectUnlockResponsesReceived :: int
  ck_objectLocksReleased :: int
  ck_dragStartsSent :: int
  ck_dragStartsReceived :: int
  ck_dragMovesSent :: int
  ck_dragMovesReceived :: int
  ck_dragDropsSent :: int
  ck_dragDropsReceived :: int
  ck_dragCancelsSent :: int
  ck_dragCancelsReceived :: int
  ck_cancelsSent :: int
  ck_cancelsReceived :: int
  ck_cancelMisses :: int
  ck_dragNativePublicationFailures :: int
  ck_policyDenials :: int
  ck_tooLargeFailures :: int
  ck_staleOfferFailures :: int
  ck_decodeFailures :: int
  ck_loopSuppressions :: int
  ck_timeoutFailures :: int
  ck_backPressureFailures :: int
  ck_sendFailures :: int
  ck_largeDataAcksSent :: int
  ck_largeDataAcksReceived :: int
  ck_largeDataAckMisses :: int
  ck_inlineBytesSent :: u64
  ck_inlineBytesReceived :: u64
  ck_fileRangeBytesSent :: u64
  ck_fileRangeBytesReceived :: u64
  ck_activeLocalDragSessionId :: u64
  ck_activeRemoteDragSessionId :: u64
  ck_lastReadRequestMessageId :: message_id
  ck_lastReadResponseMessageId :: message_id
  ck_lastReadResponseCorrelationId :: message_id
  ck_lastReadResponseTo :: message_id
  ck_readResponseMisses :: int
  ck_lastReadResponseKind :: message_kind
  ck_lastReadResponseStatus :: response_status
  ck_lastReadResponsePayloadBytes :: nat
  ck_lastFileRangeResponseTo :: message_id
  ck_lastObjectLockResponseTo :: message_id
  ck_lastObjectUnlockResponseTo :: message_id
  ck_localBundle :: "('r transfer_source, 'd presentation) source_bundle"
  ck_remoteBundle :: "('r transfer_source, 'd presentation) source_bundle"
  ck_lastReadResult :: "read_result option"
  ck_lastFileRangeResult :: "file_range_result option"
  ck_lastObjectLockResult :: "lock_result option"
  ck_lastObjectUnlockResult :: "lock_result option"

definition new_clip_snapshot :: "('r, 'd) clip_snapshot" where
  "new_clip_snapshot = \<lparr>ck_formatListsSent = 0, ck_formatListsReceived = 0, ck_readRequestsSent = 0,
     ck_readRequestsReceived = 0, ck_inlineResponsesSent = 0, ck_inlineResponsesReceived = 0,
     ck_fileRangeRequestsSent = 0, ck_fileRangeRequestsReceived = 0, ck_fileRangeResponsesSent = 0,
     ck_fileRangeResponsesReceived = 0, ck_fileRangeSmallDataResponsesSent = 0,
     ck_fileRangeLargeDataResponsesSent = 0, ck_objectLockRequestsSent = 0,
     ck_objectLockRequestsReceived = 0, ck_objectLockResponsesSent = 0,
     ck_objectLockResponsesReceived = 0, ck_objectUnlockRequestsSent = 0,
     ck_objectUnlockRequestsReceived = 0, ck_objectUnlockResponsesSent = 0,
     ck_objectUnlockResponsesReceived = 0, ck_objectLocksReleased = 0, ck_dragStartsSent = 0,
     ck_dragStartsReceived = 0, ck_dragMovesSent = 0, ck_dragMovesReceived = 0, ck_dragDropsSent = 0,
     ck_dragDropsReceived = 0, ck_dragCancelsSent = 0, ck_dragCancelsReceived = 0, ck_cancelsSent = 0,
     ck_cancelsReceived = 0, ck_cancelMisses = 0, ck_dragNativePublicationFailures = 0,
     ck_policyDenials = 0, ck_tooLargeFailures = 0, ck_staleOfferFailures = 0, ck_decodeFailures = 0,
     ck_loopSuppressions = 0, ck_timeoutFailures = 0, ck_backPressureFailures = 0, ck_sendFailures = 0,
     ck_largeDataAcksSent = 0, ck_largeDataAcksReceived = 0, ck_largeDataAckMisses = 0,
     ck_inlineBytesSent = 0, ck_inlineBytesReceived = 0, ck_fileRangeBytesSent = 0,
     ck_fileRangeBytesReceived = 0, ck_activeLocalDragSessionId = 0, ck_activeRemoteDragSessionId = 0,
     ck_lastReadRequestMessageId = 0, ck_lastReadResponseMessageId = 0,
     ck_lastReadResponseCorrelationId = 0, ck_lastReadResponseTo = 0, ck_readResponseMisses = 0,
     ck_lastReadResponseKind = 0, ck_lastReadResponseStatus = 0, ck_lastReadResponsePayloadBytes = 0,
     ck_lastFileRangeResponseTo = 0, ck_lastObjectLockResponseTo = 0,
     ck_lastObjectUnlockResponseTo = 0, ck_localBundle = default_bundle,
     ck_remoteBundle = default_bundle, ck_lastReadResult = None, ck_lastFileRangeResult = None,
     ck_lastObjectLockResult = None, ck_lastObjectUnlockResult = None\<rparr>"

record ('r, 'd) clipboard_module =
  cm_manifest :: module_manifest
  cm_runtime :: module_runtime
  cm_state :: module_state
  cm_policy :: clipboard_policy
  cm_registry :: "('r transfer_source, 'd presentation) source_registry"
  cm_window :: "data_window option"
  cm_requests :: "clip_handler tracker"
  cm_reservations :: "(message_id, u64) std_map"
  cm_nextResponseMessageId :: message_id
  cm_snapshot :: "('r, 'd) clip_snapshot"

definition new_clipboard_module ::
    "module_manifest \<Rightarrow> clipboard_policy \<Rightarrow> data_window option \<Rightarrow> ('r, 'd) clipboard_module" where
  "new_clipboard_module manifest policy window = \<lparr>cm_manifest = manifest,
     cm_runtime = default_runtime, cm_state = MS_Created, cm_policy = policy,
     cm_registry = new_source_registry, cm_window = window, cm_requests = new_tracker 1,
     cm_reservations = [], cm_nextResponseMessageId = 100000, cm_snapshot = new_clip_snapshot\<rparr>"

text \<open>\<open>++snapshot_.counter\<close>, and other changes of the snapshot.\<close>

definition on_snapshot ::
    "(('r, 'd) clip_snapshot \<Rightarrow> ('r, 'd) clip_snapshot) \<Rightarrow> ('r, 'd) clipboard_module \<Rightarrow> ('r, 'd) clipboard_module" where
  "on_snapshot f c = c\<lparr>cm_snapshot := f (cm_snapshot c)\<rparr>"

abbreviation bump ::
    "((int \<Rightarrow> int) \<Rightarrow> ('r, 'd) clip_snapshot \<Rightarrow> ('r, 'd) clip_snapshot) \<Rightarrow>
     ('r, 'd) clipboard_module \<Rightarrow> ('r, 'd) clipboard_module" where
  "bump counter \<equiv> on_snapshot (counter (\<lambda>n. n + 1))"

type_synonym ('r, 'd, 'c, 's, 'w) clip_state =
  "('r, 'd) clipboard_module \<times> ('c, 's, 'w) session_world"

definition clip_publish ::
    "string \<Rightarrow> string \<Rightarrow> ('r, 'd) clipboard_module \<Rightarrow> ('c, 's, 'w) session_world \<Rightarrow> ('c, 's, 'w) session_world" where
  "clip_publish code message c =
     runtime_publish (cm_runtime c) clipboardSmallDataChannelKey (mf_moduleId (cm_manifest c)) code message"

definition affectsClipboardChannel :: "reconnect_options \<Rightarrow> bool" where
  "affectsClipboardChannel options \<longleftrightarrow> ro_affectedChannels options = [] \<or>
     list_ex (\<lambda>key. key = clipboardSmallDataChannelKey \<or> key = clipboardLargeDataChannelKey)
       (ro_affectedChannels options)"

definition filterFormatsByPolicy :: "clipboard_policy \<Rightarrow> 'd format_list \<Rightarrow> 'd format_list" where
  "filterFormatsByPolicy policy list =
    (let formats = filter (\<lambda>fmt. policyAllowsCanonicalFormat policy (fm_canonicalFormat fmt)) (fl_formats list)
     in list\<lparr>fl_formats := (if \<not> po_allowFileContents policy
          then map (\<lambda>fmt. if fm_canonicalFormat fmt = FdclFileListFormat
                 then fmt\<lparr>fm_canStream := False\<rparr> else fmt) formats
          else formats)\<rparr>)"

abbreviation (input) TO_Drag :: u16 where "TO_Drag \<equiv> 2"
abbreviation (input) TO_Drop :: u16 where "TO_Drop \<equiv> 3"

definition transferOriginRequiresDragPolicy :: "u16 \<Rightarrow> bool" where
  "transferOriginRequiresDragPolicy origin \<longleftrightarrow> origin = TO_Drag \<or> origin = TO_Drop"

definition isClipboardLargeDataPacket :: "packet_envelope \<Rightarrow> bool" where
  "isClipboardLargeDataPacket packet \<longleftrightarrow> pk_packetType packet = PT_Clipboard \<and>
     pk_channelId packet = key_channelId clipboardLargeDataChannelKey \<and>
     pk_channelType packet = key_channelType clipboardLargeDataChannelKey"

section \<open>Sending\<close>

definition clip_packet :: "('r, 'd) clipboard_module \<Rightarrow> message_kind \<Rightarrow> packet_envelope" where
  "clip_packet c kind = default_packet\<lparr>pk_sessionId := cx_sessionId (rt_session (cm_runtime c)),
     pk_traceId := cx_traceId (rt_session (cm_runtime c)),
     pk_channelId := key_channelId clipboardSmallDataChannelKey,
     pk_channelType := key_channelType clipboardSmallDataChannelKey,
     pk_packetType := PT_Clipboard, pk_messageKind := kind, pk_priority := PP_Normal\<rparr>"

definition clip_transmit ::
    "('c, 'w) channel_interface \<Rightarrow> module_runtime \<Rightarrow> packet_envelope \<Rightarrow> ('c, 's, 'w) session_world \<Rightarrow>
     bool \<times> ('c, 's, 'w) session_world" where
  "clip_transmit iface rt packet x =
    (if rt_networkManager rt then
       (case sw_network x of
          None \<Rightarrow> (False, x)
        | Some m \<Rightarrow>
            let (queued, m) = manager_enqueue packet m in
            if er_status queued \<noteq> EQ_Queued then (False, x\<lparr>sw_network := Some m\<rparr>)
            else
              let (result, m, w) = flushPacket iface packet m (sw_rest x)
              in (sr_status result = SS_Sent, x\<lparr>sw_network := Some m, sw_rest := w\<rparr>))
     else if rt_network rt then
       let (result, x) = runtime_send iface packet x in (sr_status result = SS_Sent, x)
     else (False, x))"

definition clip_send ::
    "('c, 'r, 'd, 'w) clip_env \<Rightarrow> packet_envelope \<Rightarrow> ('r, 'd) clipboard_module \<Rightarrow>
     ('c, 's, 'w) session_world \<Rightarrow> bool \<times> ('r, 'd, 'c, 's, 'w) clip_state" where
  "clip_send env packet c x =
    (let (sent, x) = clip_transmit (ce_channels env) (cm_runtime c) packet x
     in (sent, if sent then c else bump ck_sendFailures_update c, x))"

definition clock_or ::
    "('c, 'r, 'd, 'w) clip_env \<Rightarrow> u64 \<Rightarrow> ('c, 's, 'w) session_world \<Rightarrow> u64 \<times> ('c, 's, 'w) session_world" where
  "clock_or env nowUsec x = (if nowUsec = 0 then on_rest (ce_now env) x else (nowUsec, x))"

definition timeout_or_default :: "u32 \<Rightarrow> u32" where
  "timeout_or_default timeoutMs = (if timeoutMs = 0 then 1000 else timeoutMs)"

text \<open>The envelope of a response with the next response id, as the three senders make it.\<close>

definition response_envelope ::
    "message_kind \<Rightarrow> response_status \<Rightarrow> packet_envelope \<Rightarrow> ('r, 'd) clipboard_module \<Rightarrow>
     packet_envelope \<times> ('r, 'd) clipboard_module" where
  "response_envelope kind status request c =
    ((clip_packet c kind)\<lparr>pk_messageId := cm_nextResponseMessageId c,
       pk_correlationId := (if pk_correlationId request \<noteq> 0 then pk_correlationId request
         else pk_messageId request),
       pk_responseTo := pk_messageId request, pk_timeoutMs := pk_timeoutMs request,
       pk_responseStatus := status\<rparr>,
     c\<lparr>cm_nextResponseMessageId := cm_nextResponseMessageId c + 1\<rparr>)"

definition sendErrorResponse ::
    "('c, 'r, 'd, 'w) clip_env \<Rightarrow> packet_envelope \<Rightarrow> response_status \<Rightarrow> string \<Rightarrow>
     ('r, 'd) clipboard_module \<Rightarrow> ('c, 's, 'w) session_world \<Rightarrow> bool \<times> ('r, 'd, 'c, 's, 'w) clip_state" where
  "sendErrorResponse env request status message c x =
    (let (response, c) = response_envelope MK_Error status request c
     in clip_send env (response\<lparr>pk_payload :=
          encodeFdclErrorDetail \<lparr>ed_status = status, ed_message = message\<rparr>\<rparr>) c x)"

section \<open>Reservations of the large-data window\<close>

definition trackLargeDataReservation ::
    "packet_envelope \<Rightarrow> u64 \<Rightarrow> ('r, 'd) clipboard_module \<Rightarrow> ('r, 'd) clipboard_module" where
  "trackLargeDataReservation response bytes c =
    (if pk_messageId response = 0 \<or> bytes = 0 then c
     else c\<lparr>cm_reservations := map_put (pk_messageId response) bytes (cm_reservations c)\<rparr>)"

definition releaseLargeDataReservation ::
    "message_id \<Rightarrow> ('r, 'd) clipboard_module \<Rightarrow> bool \<times> ('r, 'd) clipboard_module" where
  "releaseLargeDataReservation responseMessageId c =
    (case map_find (cm_reservations c) responseMessageId of
       None \<Rightarrow> (False, c)
     | Some bytes \<Rightarrow> (True, c\<lparr>cm_window := map_option (release bytes) (cm_window c),
         cm_reservations := map_erase responseMessageId (cm_reservations c)\<rparr>))"

definition releaseAllLargeDataReservations :: "('r, 'd) clipboard_module \<Rightarrow> ('r, 'd) clipboard_module" where
  "releaseAllLargeDataReservations c = c\<lparr>
     cm_window := map_option (fold (\<lambda>item. release (snd item)) (cm_reservations c)) (cm_window c),
     cm_reservations := []\<rparr>"

definition sendLargeDataAck ::
    "('c, 'r, 'd, 'w) clip_env \<Rightarrow> packet_envelope \<Rightarrow> ('r, 'd) clipboard_module \<Rightarrow>
     ('c, 's, 'w) session_world \<Rightarrow> bool \<times> ('r, 'd, 'c, 's, 'w) clip_state" where
  "sendLargeDataAck env response c x =
    (if \<not> isClipboardLargeDataPacket response \<or> pk_messageId response = 0 then (False, c, x)
     else
       let (now, x) = on_rest (ce_now env) x;
           ack = (clip_packet c MK_Ack)\<lparr>pk_priority := PP_Interactive,
             pk_responseTo := pk_messageId response,
             pk_correlationId := (if pk_correlationId response \<noteq> 0 then pk_correlationId response
               else pk_messageId response),
             pk_responseStatus := RS_Ok, pk_timeoutMs := pk_timeoutMs response,
             pk_monotonicTimestampUsec := now\<rparr>;
           (sent, c, x) = clip_send env ack c x
       in (sent, if sent then bump ck_largeDataAcksSent_update c else c, x))"

definition handleLargeDataAck :: "packet_envelope \<Rightarrow> ('r, 'd) clipboard_module \<Rightarrow> ('r, 'd) clipboard_module" where
  "handleLargeDataAck ack c =
    (if pk_responseTo ack = 0 then bump ck_decodeFailures_update c
     else
       let (released, c) = releaseLargeDataReservation (pk_responseTo ack) c
       in if \<not> released then bump ck_largeDataAckMisses_update c
          else bump ck_largeDataAcksReceived_update c)"

section \<open>Announcing local bundles\<close>

definition announceLocalBundle ::
    "('c, 'r, 'd, 'w) clip_env \<Rightarrow> ('r transfer_source, 'd presentation) source_bundle \<Rightarrow>
     ('r, 'd) clipboard_module \<Rightarrow> ('c, 's, 'w) session_world \<Rightarrow> bool \<times> ('r, 'd, 'c, 's, 'w) clip_state" where
  "announceLocalBundle env bundle c x =
    (if cm_state c \<noteq> MS_Running then (False, c, x)
     else if \<not> po_allowAnnounce (cm_policy c) \<or>
         (transferOriginRequiresDragPolicy (sb_origin bundle) \<and> \<not> po_allowDrag (cm_policy c)) then
       (False, bump ck_policyDenials_update c, x)
     else
       let bundle = bundle\<lparr>sb_originSessionId := (if sb_originSessionId bundle = 0
               then cx_sessionId (rt_session (cm_runtime c)) else sb_originSessionId bundle),
             sb_presentation := (if po_allowPresentationMetadata (cm_policy c)
               then sb_presentation bundle else None)\<rparr>;
           list = makeFormatListFromBundle (any_source (ce_sources env)) bundle (sw_rest x)
       in if fl_formats list = [] then (False, bump ck_decodeFailures_update c, x)
          else let list = filterFormatsByPolicy (cm_policy c) list in
            if fl_formats list = [] then (False, bump ck_policyDenials_update c, x)
            else
              let (now, x) = on_rest (ce_now env) x;
                  packet = (clip_packet c MK_Event)\<lparr>pk_flags := PacketFlagNoResponseRequired,
                    pk_sequence := sb_sequence bundle, pk_monotonicTimestampUsec := now,
                    pk_payload := encodeFdclFormatList (ce_doubles env) list\<rparr>;
                  (stored, registry) = store bundle (cm_registry c);
                  c = c\<lparr>cm_registry := registry\<rparr>
              in if stored \<noteq> RS_Ok then (False, bump ck_decodeFailures_update c, x)
                 else
                   let (sent, c, x) = clip_send env packet c x in
                   if \<not> sent then
                     (False, c\<lparr>cm_registry := snd (clearOffer (sb_offerId bundle) (cm_registry c))\<rparr>, x)
                   else
                     let c = on_snapshot (\<lambda>s. s\<lparr>ck_localBundle := bundle, ck_activeLocalDragSessionId := 0,
                           ck_formatListsSent := ck_formatListsSent s + 1\<rparr>) c
                     in (True, c, clip_publish ''clipboard.format_list_sent''
                           ''clipboard format list sent'' c x))"

definition announceLocalSnapshot ::
    "('c, 'r, 'd, 'w) clip_env \<Rightarrow> ('r, 'd) clipboard_module \<Rightarrow> ('c, 's, 'w) session_world \<Rightarrow>
     bool \<times> ('r, 'd, 'c, 's, 'w) clip_state" where
  "announceLocalSnapshot env c x =
    (case ce_endpoint env of
       None \<Rightarrow> (False, c, x)
     | Some endpoint \<Rightarrow>
         let (bundle, x) = on_rest (ep_snapshot endpoint) x in announceLocalBundle env bundle c x)"

text \<open>The bundle a peer's list gives, with the sources made for it.\<close>

definition received_bundle ::
    "'d format_list \<Rightarrow> ('r transfer_source, 'd presentation) source_bundle" where
  "received_bundle list =
    (let bundle = makeRemoteBundleFromFormatList list
     in \<lparr>sb_bundleId = sb_bundleId bundle, sb_offerId = sb_offerId bundle,
         sb_ownerEpoch = sb_ownerEpoch bundle, sb_sequence = sb_sequence bundle,
         sb_origin = sb_origin bundle, sb_side = sb_side bundle,
         sb_originSessionId = sb_originSessionId bundle, sb_policyVersion = sb_policyVersion bundle,
         sb_createdMonotonicUsec = sb_createdMonotonicUsec bundle,
         sb_sources = map (map_option RemoteSource) (sb_sources bundle),
         sb_presentation = sb_presentation bundle\<rparr>)"

definition handleFormatList ::
    "('c, 'r, 'd, 'w) clip_env \<Rightarrow> 'd format_list \<Rightarrow> ('r, 'd) clipboard_module \<Rightarrow>
     ('c, 's, 'w) session_world \<Rightarrow> ('r, 'd, 'c, 's, 'w) clip_state" where
  "handleFormatList env list c x =
    (if \<not> po_allowReceive (cm_policy c) \<or> \<not> po_allowWriteLocal (cm_policy c) \<or>
        (transferOriginRequiresDragPolicy (fl_origin list) \<and> \<not> po_allowDrag (cm_policy c)) then
       (bump ck_policyDenials_update c, x)
     else if fl_originSessionId list = cx_sessionId (rt_session (cm_runtime c)) \<and>
             fl_originSessionId list \<noteq> 0 then
       (bump ck_loopSuppressions_update c, x)
     else
       let filteredList = filterFormatsByPolicy (cm_policy c) list in
       if fl_formats filteredList = [] then (bump ck_policyDenials_update c, x)
       else
         let bundle = received_bundle filteredList;
             bundle = bundle\<lparr>sb_presentation := (if po_allowPresentationMetadata (cm_policy c)
               then sb_presentation bundle else None)\<rparr>;
             (stored, registry) = store bundle (cm_registry c);
             c = c\<lparr>cm_registry := registry\<rparr>
         in if stored \<noteq> RS_Ok then (bump ck_decodeFailures_update c, x)
            else
              let c = on_snapshot (\<lambda>s. s\<lparr>ck_remoteBundle := bundle, ck_activeRemoteDragSessionId := 0\<rparr>) c;
                  (status, x) = (case ce_endpoint env of None \<Rightarrow> (RS_Ok, x)
                    | Some endpoint \<Rightarrow> on_rest (ep_publishBundle endpoint bundle) x)
              in if status \<noteq> RS_Ok then
                   (bump ck_policyDenials_update (on_snapshot (\<lambda>s. s\<lparr>ck_remoteBundle := default_bundle\<rparr>)
                      (c\<lparr>cm_registry := snd (clearOffer (sb_offerId bundle) (cm_registry c))\<rparr>)), x)
                 else
                   let c = bump ck_formatListsReceived_update c
                   in (c, clip_publish ''clipboard.format_list_received''
                         ''clipboard format list received'' c x))"

section \<open>Life cycle\<close>

definition clip_attach :: "module_runtime \<Rightarrow> ('r, 'd) clipboard_module \<Rightarrow> bool \<times> ('r, 'd) clipboard_module" where
  "clip_attach rt c = (mf_moduleId (cm_manifest c) \<noteq> [], c\<lparr>cm_runtime := rt, cm_state := MS_Attached\<rparr>)"

definition clip_start ::
    "('r, 'd) clipboard_module \<Rightarrow> ('c, 's, 'w) session_world \<Rightarrow> bool \<times> ('r, 'd, 'c, 's, 'w) clip_state" where
  "clip_start c x =
    (if \<not> rt_network (cm_runtime c) \<and> \<not> rt_networkManager (cm_runtime c) then
       (False, c\<lparr>cm_state := MS_Failed\<rparr>, x)
     else
       let c = c\<lparr>cm_state := MS_Running\<rparr>
       in (True, c, clip_publish ''clipboard.started'' ''clipboard module started'' c x))"

text \<open>What \<open>stop\<close>, \<open>detach\<close> and \<open>pauseForReconnect\<close> give up.\<close>

definition release_transfers :: "('r, 'd) clipboard_module \<Rightarrow> ('r, 'd) clipboard_module" where
  "release_transfers c =
    (let (released, registry) = releaseAllLocks (cm_registry c)
     in on_snapshot (\<lambda>s. s\<lparr>ck_objectLocksReleased := ck_objectLocksReleased s + int released\<rparr>)
          (c\<lparr>cm_registry := snd (clearAll registry)\<rparr>))"

definition end_drags :: "('r, 'd) clipboard_module \<Rightarrow> ('r, 'd) clipboard_module" where
  "end_drags = on_snapshot (\<lambda>s. s\<lparr>ck_activeLocalDragSessionId := 0, ck_activeRemoteDragSessionId := 0\<rparr>)"

definition clip_stop ::
    "('r, 'd) clipboard_module \<Rightarrow> ('c, 's, 'w) session_world \<Rightarrow> ('r, 'd, 'c, 's, 'w) clip_state" where
  "clip_stop c x =
    (let c = (end_drags (release_transfers (releaseAllLargeDataReservations c)))\<lparr>cm_state := MS_Stopped\<rparr>
     in (c, clip_publish ''clipboard.stopped'' ''clipboard module stopped'' c x))"

definition clip_detach :: "('r, 'd) clipboard_module \<Rightarrow> ('r, 'd) clipboard_module" where
  "clip_detach c =
    (end_drags (release_transfers (releaseAllLargeDataReservations c)))\<lparr>cm_state := MS_Detached\<rparr>"

definition clip_resume ::
    "('c, 'r, 'd, 'w) clip_env \<Rightarrow> reconnect_options \<Rightarrow> ('r, 'd) clipboard_module \<Rightarrow>
     ('c, 's, 'w) session_world \<Rightarrow> ('r, 'd, 'c, 's, 'w) clip_state" where
  "clip_resume env options c x =
    (let (c, x) = (if cm_state c = MS_Running \<and> ro_requestFreshState options \<and>
             affectsClipboardChannel options \<and> sb_offerId (ck_localBundle (cm_snapshot c)) \<noteq> 0
           then snd (announceLocalBundle env (ck_localBundle (cm_snapshot c)) c x) else (c, x))
     in (c, clip_publish ''clipboard.reconnect_resumed'' ''clipboard module resumed'' c x))"

end
