(* ===== verification/Clipboard_Reads.thy ===== *)
theory Clipboard_Reads
  imports Clipboard_Module
begin

text \<open>
  \<open>clipboard_module_remote_read.cpp\<close>, \<open>clipboard_module_local_read.cpp\<close> and
  \<open>clipboard_module_object_lock.cpp\<close>: reading formats, ranges of files and locking files, as the side
  that asks and as the side that answers.
\<close>

section \<open>Responses to the peer\<close>

definition sendReadResponse ::
    "('c, 'r, 'd, 'w) clip_env \<Rightarrow> packet_envelope \<Rightarrow> fdcl_read_request \<Rightarrow> read_result \<Rightarrow>
     ('r, 'd) clipboard_module \<Rightarrow> ('c, 's, 'w) session_world \<Rightarrow> bool \<times> ('r, 'd, 'c, 's, 'w) clip_state" where
  "sendReadResponse env request readRequest readResult c x =
    (if rs_status readResult \<noteq> RS_Ok then
       sendErrorResponse env request (rs_status readResult) (rs_message readResult) c x
     else
       let responsePayload = \<lparr>ra_bundleId = rr_bundleId readRequest, ra_offerId = rr_offerId readRequest,
             ra_ownerEpoch = rr_ownerEpoch readRequest, ra_sourceId = rr_sourceId readRequest,
             ra_itemIndex = rr_itemIndex readRequest, ra_formatId = rr_formatId readRequest,
             ra_encoding = rs_encoding readResult, ra_canonicalFormat = rs_canonicalFormat readResult,
             ra_bytes = rs_bytes readResult\<rparr>;
           (response, c) = response_envelope MK_Response RS_Ok request c;
           (sent, c, x) = clip_send env
             (response\<lparr>pk_payload := encodeFdclReadFormatResponse responsePayload\<rparr>) c x
       in if \<not> sent then (False, c, x)
          else (True, on_snapshot (\<lambda>s. s\<lparr>ck_inlineResponsesSent := ck_inlineResponsesSent s + 1,
            ck_inlineBytesSent := ck_inlineBytesSent s + of_nat (length (rs_bytes readResult))\<rparr>) c, x))"

text \<open>The registry \<open>runtime_.channels\<close> points to, and the options taken from the window.\<close>

definition runtime_channels ::
    "module_runtime \<Rightarrow> ('c, 's, 'w) session_world \<Rightarrow> 'c channel_registry option" where
  "runtime_channels rt x = (if rt_channels rt then map_option nm_registry (sw_network x) else None)"

definition schedule_options_for :: "('r, 'd) clipboard_module \<Rightarrow> schedule_options" where
  "schedule_options_for c = (case cm_window c of
     None \<Rightarrow> default_schedule_options\<lparr>lo_smallDataFallbackBytes := po_maxInlineBytes (cm_policy c)\<rparr>
   | Some window \<Rightarrow> default_schedule_options\<lparr>lo_smallDataFallbackBytes := po_maxInlineBytes (cm_policy c),
       lo_largeDataWindowBytes := dw_maxInFlightBytes window,
       lo_largeDataInFlightBytes := dw_inFlightBytes window\<rparr>)"

definition range_response_payload :: "fdcl_range_request \<Rightarrow> file_range_result \<Rightarrow> fdcl_range_response" where
  "range_response_payload rangeRequest rangeResult = \<lparr>xr_bundleId = xq_bundleId rangeRequest,
     xr_offerId = xq_offerId rangeRequest, xr_ownerEpoch = xq_ownerEpoch rangeRequest,
     xr_sourceId = xq_sourceId rangeRequest, xr_objectId = xq_objectId rangeRequest,
     xr_fileIndex = xq_fileIndex rangeRequest, xr_offset = xq_offset rangeRequest,
     xr_endOfFile = fr_endOfFile rangeResult, xr_bytes = fr_bytes rangeResult\<rparr>"

text \<open>The end of \<open>sendFileRangeResponse\<close>: a scheduled response is sent, and its reservation kept or
  given back.\<close>

definition send_scheduled ::
    "('c, 'r, 'd, 'w) clip_env \<Rightarrow> packet_envelope \<Rightarrow> bool \<Rightarrow> u64 \<Rightarrow> nat \<Rightarrow>
     ('r, 'd) clipboard_module \<Rightarrow> ('c, 's, 'w) session_world \<Rightarrow> bool \<times> ('r, 'd, 'c, 's, 'w) clip_state" where
  "send_scheduled env response reserved reservationBytes sentBytes c x =
    (let (sent, c, x) = clip_send env response c x
     in if \<not> sent then
          (False, if reserved then c\<lparr>cm_window := map_option (release reservationBytes) (cm_window c)\<rparr>
             else c, x)
        else
          let c = (if reserved then trackLargeDataReservation response reservationBytes c else c);
              c = on_snapshot (\<lambda>s. s\<lparr>ck_fileRangeResponsesSent := ck_fileRangeResponsesSent s + 1,
                ck_fileRangeBytesSent := ck_fileRangeBytesSent s + of_nat sentBytes\<rparr>) c
          in (True, if pk_channelId response = CID_LargeData
              then bump ck_fileRangeLargeDataResponsesSent_update c
              else bump ck_fileRangeSmallDataResponsesSent_update c, x))"

definition sendFileRangeResponse ::
    "('c, 'r, 'd, 'w) clip_env \<Rightarrow> packet_envelope \<Rightarrow> fdcl_range_request \<Rightarrow> file_range_result \<Rightarrow>
     ('r, 'd) clipboard_module \<Rightarrow> ('c, 's, 'w) session_world \<Rightarrow> bool \<times> ('r, 'd, 'c, 's, 'w) clip_state" where
  "sendFileRangeResponse env request rangeRequest rangeResult c x =
    (if fr_status rangeResult \<noteq> RS_Ok then
       sendErrorResponse env request (fr_status rangeResult) (fr_message rangeResult) c x
     else if length (fr_bytes rangeResult) > unat (effectiveMaxFileRangeBytes (cm_policy c)) then
       sendErrorResponse env request RS_TooLarge ''clipboard file range exceeds policy max bytes'' c x
     else
       let (response, c) = response_envelope MK_Response RS_Ok request c;
           response = response\<lparr>pk_priority := PP_Bulk,
             pk_payload := encodeFdclFileRangeResponse (range_response_payload rangeRequest rangeResult)\<rparr>;
           payloadBytes = of_nat (length (pk_payload response));
           schedule = scheduleClipboardBulkResponse (runtime_channels (cm_runtime c) x) response
             payloadBytes (schedule_options_for c)
       in if ls_status schedule \<noteq> RS_Ok then
            sendErrorResponse env request (ls_status schedule) (ls_message schedule)
              (if ls_status schedule = RS_BackPressure then bump ck_backPressureFailures_update c else c) x
          else
            let response = applyClipboardLargeDataSchedule schedule response in
            case (if ls_usesLargeData schedule then cm_window c else None) of
              None \<Rightarrow> send_scheduled env response False payloadBytes (length (fr_bytes rangeResult)) c x
            | Some window \<Rightarrow>
                let (reserved, window) = reserve payloadBytes window in
                if wr_status reserved \<noteq> RS_Ok then
                  sendErrorResponse env request (wr_status reserved) (wr_message reserved)
                    (bump ck_backPressureFailures_update c) x
                else send_scheduled env response True payloadBytes (length (fr_bytes rangeResult))
                  (c\<lparr>cm_window := Some window\<rparr>) x)"

section \<open>Reading for the peer\<close>

definition bounded_request :: "u64 \<Rightarrow> read_request \<Rightarrow> read_request" where
  "bounded_request maxInlineBytes request =
    (if rq_acceptedMaxBytes request = 0 \<or> rq_acceptedMaxBytes request > maxInlineBytes
     then request\<lparr>rq_acceptedMaxBytes := maxInlineBytes\<rparr> else request)"

definition stale_status :: "response_status \<Rightarrow> bool" where
  "stale_status status \<longleftrightarrow> status = RS_Conflict \<or> status = RS_NotFound"

definition bump_if ::
    "bool \<Rightarrow> ((int \<Rightarrow> int) \<Rightarrow> ('r, 'd) clip_snapshot \<Rightarrow> ('r, 'd) clip_snapshot) \<Rightarrow>
     ('r, 'd) clipboard_module \<Rightarrow> ('r, 'd) clipboard_module" where
  "bump_if condition counter c = (if condition then bump counter c else c)"

text \<open>What enforcing the policy on a result changed is counted.\<close>

definition enforce_and_count ::
    "read_result \<Rightarrow> ('r, 'd) clipboard_module \<Rightarrow> read_result \<times> ('r, 'd) clipboard_module" where
  "enforce_and_count result c =
    (let enforced = enforceReadResultPolicy (cm_policy c) result
     in (enforced,
         if rs_status result = rs_status enforced then c
         else if rs_status enforced = RS_DeniedByPolicy then bump ck_policyDenials_update c
         else if rs_status enforced = RS_TooLarge then bump ck_tooLargeFailures_update c
         else if rs_status enforced = RS_ProtocolError then bump ck_decodeFailures_update c
         else c))"

text \<open>The part of \<open>readLocal\<close> that reads the source and transcodes and bounds what it gave.\<close>

definition read_from_source ::
    "('c, 'r, 'd, 'w) clip_env \<Rightarrow> 'r transfer_source \<Rightarrow> format_descriptor \<Rightarrow> read_request \<Rightarrow>
     ('r, 'd) clipboard_module \<Rightarrow> ('c, 's, 'w) session_world \<Rightarrow>
     read_result \<times> ('r, 'd, 'c, 's, 'w) clip_state" where
  "read_from_source env source descriptor readRequest c x =
    (let (result, x) = on_rest (ts_read (any_source (ce_sources env)) source readRequest) x;
         c = bump_if (rs_status result = RS_TooLarge) ck_tooLargeFailures_update c;
         result = transcodeReadResultIfNeeded (Some (ce_transcoder env)) descriptor readRequest result;
         too_large = (rs_status result = RS_Ok \<and> rq_acceptedMaxBytes readRequest \<noteq> 0 \<and>
           length (rs_bytes result) > unat (rq_acceptedMaxBytes readRequest));
         result = (if too_large then refuse_read RS_TooLarge
           ''clipboard transcoded content exceeds accepted maximum'' result else result);
         c = bump_if too_large ck_tooLargeFailures_update c;
         (result, c) = enforce_and_count result c
     in (result, c, x))"

definition readLocal ::
    "('c, 'r, 'd, 'w) clip_env \<Rightarrow> fdcl_read_request \<Rightarrow> ('r, 'd) clipboard_module \<Rightarrow>
     ('c, 's, 'w) session_world \<Rightarrow> read_result \<times> ('r, 'd, 'c, 's, 'w) clip_state" where
  "readLocal env request c x =
    (let bundle = ck_localBundle (cm_snapshot c); iface = any_source (ce_sources env) in
     if sb_bundleId bundle \<noteq> rr_bundleId request \<or> sb_offerId bundle \<noteq> rr_offerId request \<or>
        sb_ownerEpoch bundle \<noteq> rr_ownerEpoch request then
       (read_failed RS_Conflict ''clipboard offer is stale'', bump ck_staleOfferFailures_update c, x)
     else if \<not> policyAllowsReadRequest iface (cm_policy c) bundle request (sw_rest x) then
       (read_failed RS_DeniedByPolicy ''clipboard format denied by policy'',
        bump ck_policyDenials_update c, x)
     else
       let readRequest = bounded_request (po_maxInlineBytes (cm_policy c)) (makeTransferReadRequest request);
           lookup = lookupSource iface readRequest (cm_registry c)
       in case (if sl_status lookup = RS_Ok then sl_source lookup else None) of
            None \<Rightarrow> (read_failed (sl_status lookup) (sl_message lookup),
              bump_if (stale_status (sl_status lookup))
                ck_staleOfferFailures_update c, x)
          | Some source \<Rightarrow>
              (case findReadDescriptor iface source readRequest (sw_rest x) of
                 None \<Rightarrow> (read_failed RS_NotFound ''clipboard format descriptor is not found'',
                   bump ck_staleOfferFailures_update c, x)
               | Some descriptor \<Rightarrow> read_from_source env source descriptor readRequest c x))"

definition file_provider ::
    "('c, 'r, 'd, 'w) clip_env \<Rightarrow> 'r transfer_source \<Rightarrow> (file_range_request \<Rightarrow> 'w \<Rightarrow> file_range_result \<times> 'w) option" where
  "file_provider env source = (case source of LocalSource r \<Rightarrow> ce_files env r | RemoteSource m \<Rightarrow> None)"

definition range_failed :: "response_status \<Rightarrow> string \<Rightarrow> file_range_result" where
  "range_failed status message = default_range_result\<lparr>fr_status := status, fr_message := message\<rparr>"

definition bounded_range :: "clipboard_policy \<Rightarrow> fdcl_range_request \<Rightarrow> file_range_request" where
  "bounded_range policy request = (let maxRangeBytes = effectiveMaxFileRangeBytes policy in
     \<lparr>fq_bundleId = xq_bundleId request, fq_offerId = xq_offerId request,
      fq_ownerEpoch = xq_ownerEpoch request, fq_sourceId = xq_sourceId request,
      fq_objectId = xq_objectId request, fq_fileIndex = xq_fileIndex request,
      fq_offset = xq_offset request,
      fq_requestedBytes = (if xq_requestedBytes request = 0 \<or> xq_requestedBytes request > maxRangeBytes
        then maxRangeBytes else xq_requestedBytes request)\<rparr>)"

text \<open>The bound on a range, as the reader and the asker check it.\<close>

definition bound_range ::
    "file_range_result \<Rightarrow> ('r, 'd) clipboard_module \<Rightarrow> file_range_result \<times> ('r, 'd) clipboard_module" where
  "bound_range result c =
    (if fr_status result = RS_Ok \<and>
        length (fr_bytes result) > unat (effectiveMaxFileRangeBytes (cm_policy c)) then
       (result\<lparr>fr_status := RS_TooLarge, fr_bytes := [],
          fr_message := ''clipboard file range exceeds policy max bytes''\<rparr>,
        bump ck_tooLargeFailures_update c)
     else (result, c))"

definition readLocalFileRange ::
    "('c, 'r, 'd, 'w) clip_env \<Rightarrow> fdcl_range_request \<Rightarrow> ('r, 'd) clipboard_module \<Rightarrow>
     ('c, 's, 'w) session_world \<Rightarrow> file_range_result \<times> ('r, 'd, 'c, 's, 'w) clip_state" where
  "readLocalFileRange env request c x =
    (let bundle = ck_localBundle (cm_snapshot c); iface = any_source (ce_sources env) in
     if sb_bundleId bundle \<noteq> xq_bundleId request \<or> sb_offerId bundle \<noteq> xq_offerId request \<or>
        sb_ownerEpoch bundle \<noteq> xq_ownerEpoch request then
       (range_failed RS_Conflict ''clipboard file offer is stale'', bump ck_staleOfferFailures_update c, x)
     else if \<not> po_allowFileContents (cm_policy c) then
       (range_failed RS_DeniedByPolicy ''clipboard file contents denied by policy'',
        bump ck_policyDenials_update c, x)
     else case validateFileRangeRequestAgainstBundle iface bundle request (sw_rest x) of
       (validation, message) \<Rightarrow>
         if validation \<noteq> RS_Ok then
           (range_failed validation message,
            bump_if (stale_status validation) ck_staleOfferFailures_update c, x)
         else case find_source iface (xq_sourceId request) (sb_sources bundle) of
           None \<Rightarrow> (range_failed RS_NotFound ''clipboard file source is not found'',
             bump ck_staleOfferFailures_update c, x)
         | Some source \<Rightarrow>
             (case file_provider env source of
                None \<Rightarrow> (range_failed RS_Unsupported ''clipboard source does not provide file contents'', c, x)
              | Some readFileRange \<Rightarrow>
                  let (result, x) = on_rest (readFileRange (bounded_range (cm_policy c) request)) x;
                      c = bump_if (fr_status result = RS_TooLarge) ck_tooLargeFailures_update c;
                      (result, c) = bound_range result c
                  in (result, c, x)))"

definition handleReadRequest ::
    "('c, 'r, 'd, 'w) clip_env \<Rightarrow> packet_envelope \<Rightarrow> fdcl_read_request \<Rightarrow> ('r, 'd) clipboard_module \<Rightarrow>
     ('c, 's, 'w) session_world \<Rightarrow> ('r, 'd, 'c, 's, 'w) clip_state" where
  "handleReadRequest env packet request c x =
    (let c = bump ck_readRequestsReceived_update c in
     if \<not> po_allowSendContent (cm_policy c) then
       snd (sendErrorResponse env packet RS_DeniedByPolicy ''clipboard send denied by policy''
              (bump ck_policyDenials_update c) x)
     else if \<not> policyAllowsReadRequest (any_source (ce_sources env)) (cm_policy c)
                 (ck_localBundle (cm_snapshot c)) request (sw_rest x) then
       snd (sendErrorResponse env packet RS_DeniedByPolicy ''clipboard format denied by policy''
              (bump ck_policyDenials_update c) x)
     else
       let (result, c, x) = readLocal env request c x
       in snd (sendReadResponse env packet request result c x))"

definition handleFileRangeRequest ::
    "('c, 'r, 'd, 'w) clip_env \<Rightarrow> packet_envelope \<Rightarrow> fdcl_range_request \<Rightarrow> ('r, 'd) clipboard_module \<Rightarrow>
     ('c, 's, 'w) session_world \<Rightarrow> ('r, 'd, 'c, 's, 'w) clip_state" where
  "handleFileRangeRequest env packet request c x =
    (let c = bump ck_fileRangeRequestsReceived_update c in
     if \<not> po_allowSendContent (cm_policy c) then
       snd (sendErrorResponse env packet RS_DeniedByPolicy ''clipboard file range send denied by policy''
              (bump ck_policyDenials_update c) x)
     else if \<not> po_allowFileContents (cm_policy c) then
       snd (sendErrorResponse env packet RS_DeniedByPolicy ''clipboard file contents denied by policy''
              (bump ck_policyDenials_update c) x)
     else
       let (result, c, x) = readLocalFileRange env request c x
       in snd (sendFileRangeResponse env packet request result c x))"

section \<open>Locking files for the peer\<close>

definition makeTransferObjectLockRequest :: "fdcl_object_lock \<Rightarrow> lock_request" where
  "makeTransferObjectLockRequest request = \<lparr>lk_bundleId = ol_bundleId request,
     lk_offerId = ol_offerId request, lk_ownerEpoch = ol_ownerEpoch request,
     lk_sourceId = ol_sourceId request, lk_objectId = ol_objectId request,
     lk_fileIndex = ol_fileIndex request, lk_lockId = ol_lockId request,
     lk_leaseUsec = ol_leaseUsec request\<rparr>"

definition lockLocalObject ::
    "('c, 'r, 'd, 'w) clip_env \<Rightarrow> fdcl_object_lock \<Rightarrow> ('r, 'd) clipboard_module \<Rightarrow>
     ('c, 's, 'w) session_world \<Rightarrow> lock_result \<times> ('r, 'd, 'c, 's, 'w) clip_state" where
  "lockLocalObject env request c x =
    (let (result, registry, w) = lockObject (any_source (ce_sources env))
           (makeTransferObjectLockRequest request) (cm_registry c) (sw_rest x)
     in (result, bump_if (stale_status (lr_status result)) ck_staleOfferFailures_update
           (c\<lparr>cm_registry := registry\<rparr>), x\<lparr>sw_rest := w\<rparr>))"

definition unlockLocalObject ::
    "fdcl_object_lock \<Rightarrow> ('r, 'd) clipboard_module \<Rightarrow> lock_result \<times> ('r, 'd) clipboard_module" where
  "unlockLocalObject request c =
    (let (result, registry) = unlockObject (makeTransferObjectLockRequest request) (cm_registry c)
     in (result, bump_if (stale_status (lr_status result)) ck_staleOfferFailures_update
           (c\<lparr>cm_registry := registry\<rparr>)))"

definition sendObjectLockResponse ::
    "('c, 'r, 'd, 'w) clip_env \<Rightarrow> packet_envelope \<Rightarrow> fdcl_operation \<Rightarrow> fdcl_object_lock \<Rightarrow> lock_result \<Rightarrow>
     ('r, 'd) clipboard_module \<Rightarrow> ('c, 's, 'w) session_world \<Rightarrow> bool \<times> ('r, 'd, 'c, 's, 'w) clip_state" where
  "sendObjectLockResponse env request operation lockRequest lockResult c x =
    (if lr_status lockResult \<noteq> RS_Ok then
       sendErrorResponse env request (lr_status lockResult) (lr_message lockResult) c x
     else
       let responsePayload = lockRequest\<lparr>ol_lockId := lr_lockId lockResult,
             ol_leaseUsec := lr_leaseUsec lockResult\<rparr>;
           (response, c) = response_envelope MK_Response RS_Ok request c;
           (sent, c, x) = clip_send env (response\<lparr>pk_payload :=
             (if operation = FO_UnlockObject then encodeFdclUnlockObject responsePayload
              else encodeFdclLockObject responsePayload)\<rparr>) c x
       in (sent, if \<not> sent then c
             else if operation = FO_UnlockObject then bump ck_objectUnlockResponsesSent_update c
             else bump ck_objectLockResponsesSent_update c, x))"

definition lock_denied :: "clipboard_policy \<Rightarrow> bool" where
  "lock_denied policy \<longleftrightarrow> \<not> po_allowSendContent policy \<or> \<not> po_allowFileContents policy"

definition handleObjectLockRequest ::
    "('c, 'r, 'd, 'w) clip_env \<Rightarrow> packet_envelope \<Rightarrow> fdcl_object_lock \<Rightarrow> ('r, 'd) clipboard_module \<Rightarrow>
     ('c, 's, 'w) session_world \<Rightarrow> ('r, 'd, 'c, 's, 'w) clip_state" where
  "handleObjectLockRequest env packet request c x =
    (let c = bump ck_objectLockRequestsReceived_update c in
     if lock_denied (cm_policy c) then
       snd (sendErrorResponse env packet RS_DeniedByPolicy ''clipboard object lock denied by policy''
              (bump ck_policyDenials_update c) x)
     else
       let (result, c, x) = lockLocalObject env request c x
       in snd (sendObjectLockResponse env packet FO_LockObject request result c x))"

definition handleObjectUnlockRequest ::
    "('c, 'r, 'd, 'w) clip_env \<Rightarrow> packet_envelope \<Rightarrow> fdcl_object_lock \<Rightarrow> ('r, 'd) clipboard_module \<Rightarrow>
     ('c, 's, 'w) session_world \<Rightarrow> ('r, 'd, 'c, 's, 'w) clip_state" where
  "handleObjectUnlockRequest env packet request c x =
    (let c = bump ck_objectUnlockRequestsReceived_update c in
     if lock_denied (cm_policy c) then
       snd (sendErrorResponse env packet RS_DeniedByPolicy ''clipboard object unlock denied by policy''
              (bump ck_policyDenials_update c) x)
     else
       let (result, c) = unlockLocalObject request c
       in snd (sendObjectLockResponse env packet FO_UnlockObject request result c x))"

section \<open>Answers to our requests\<close>

text \<open>
  What the three handlers make of a packet: the message it carries if it is a response, what an
  error says, or a packet of another kind. An error counts as what its status says.
\<close>

definition error_answer ::
    "'d double_ops \<Rightarrow> packet_envelope \<Rightarrow> response_status \<times> string" where
  "error_answer ops packet =
    (case decodeFdclPayload ops (pk_payload packet) of
       Inr (ErrorDetail detail) \<Rightarrow> (ed_status detail, ed_message detail)
     | Inr _ \<Rightarrow> (pk_responseStatus packet, [])
     | Inl (_, error) \<Rightarrow> (pk_responseStatus packet, error))"

definition count_error ::
    "bool \<Rightarrow> response_status \<Rightarrow> ('r, 'd) clipboard_module \<Rightarrow> ('r, 'd) clipboard_module" where
  "count_error countTooLarge status c =
    bump_if (stale_status status) ck_staleOfferFailures_update
      (bump_if (countTooLarge \<and> status = RS_TooLarge) ck_tooLargeFailures_update
        (bump_if (status = RS_Timeout) ck_timeoutFailures_update c))"

definition answered_well :: "packet_envelope \<Rightarrow> bool" where
  "answered_well packet \<longleftrightarrow> pk_messageKind packet = MK_Response \<and> pk_responseStatus packet = RS_Ok"

definition read_answer ::
    "'d double_ops \<Rightarrow> packet_envelope \<Rightarrow> ('r, 'd) clipboard_module \<Rightarrow> read_result \<times> ('r, 'd) clipboard_module" where
  "read_answer ops packet c =
    (if answered_well packet then
       (case decodeFdclPayload ops (pk_payload packet) of
          Inr (ReadFormatResponse m) \<Rightarrow>
            (\<lparr>rs_status = RS_Ok, rs_canonicalFormat = ra_canonicalFormat m,
               rs_encoding = ra_encoding m, rs_bytes = ra_bytes m, rs_message = []\<rparr>,
             on_snapshot (\<lambda>s. s\<lparr>ck_inlineResponsesReceived := ck_inlineResponsesReceived s + 1,
               ck_inlineBytesReceived := ck_inlineBytesReceived s + of_nat (length (ra_bytes m))\<rparr>) c)
        | Inr _ \<Rightarrow> (read_failed RS_ProtocolError ''clipboard read response invalid'',
            bump ck_decodeFailures_update c)
        | Inl (_, error) \<Rightarrow> (read_failed RS_ProtocolError
            (if error = [] then ''clipboard read response invalid'' else error),
            bump ck_decodeFailures_update c))
     else if pk_messageKind packet = MK_Error then
       (let (status, message) = error_answer ops packet
        in (read_failed status message, count_error True status c))
     else (read_failed RS_ProtocolError ''clipboard read completed with invalid message kind'',
       bump ck_decodeFailures_update c))"

definition handleTrackedReadResponse ::
    "'d double_ops \<Rightarrow> packet_envelope \<Rightarrow> ('r, 'd) clipboard_module \<Rightarrow> ('r, 'd) clipboard_module" where
  "handleTrackedReadResponse ops packet c =
    (let c = on_snapshot (\<lambda>s. s\<lparr>ck_lastReadResponseTo := pk_responseTo packet\<rparr>) c;
         (result, c) = read_answer ops packet c;
         (result, c) = enforce_and_count result c
     in on_snapshot (\<lambda>s. s\<lparr>ck_lastReadResult := Some result\<rparr>) c)"

definition range_answer ::
    "'d double_ops \<Rightarrow> packet_envelope \<Rightarrow> ('r, 'd) clipboard_module \<Rightarrow>
     file_range_result \<times> ('r, 'd) clipboard_module" where
  "range_answer ops packet c =
    (if answered_well packet then
       (case decodeFdclPayload ops (pk_payload packet) of
          Inr (FileRangeResponse m) \<Rightarrow>
            (default_range_result\<lparr>fr_status := RS_Ok, fr_bytes := xr_bytes m,
               fr_endOfFile := xr_endOfFile m\<rparr>,
             on_snapshot (\<lambda>s. s\<lparr>ck_fileRangeResponsesReceived := ck_fileRangeResponsesReceived s + 1,
               ck_fileRangeBytesReceived :=
                 ck_fileRangeBytesReceived s + of_nat (length (xr_bytes m))\<rparr>) c)
        | Inr _ \<Rightarrow> (range_failed RS_ProtocolError ''clipboard file range response invalid'',
            bump ck_decodeFailures_update c)
        | Inl (_, error) \<Rightarrow> (range_failed RS_ProtocolError
            (if error = [] then ''clipboard file range response invalid'' else error),
            bump ck_decodeFailures_update c))
     else if pk_messageKind packet = MK_Error then
       (let (status, message) = error_answer ops packet
        in (range_failed status message, count_error True status c))
     else (range_failed RS_ProtocolError ''clipboard file range completed with invalid message kind'',
       bump ck_decodeFailures_update c))"

definition handleTrackedFileRangeResponse ::
    "('c, 'r, 'd, 'w) clip_env \<Rightarrow> packet_envelope \<Rightarrow> ('r, 'd) clipboard_module \<Rightarrow>
     ('c, 's, 'w) session_world \<Rightarrow> ('r, 'd, 'c, 's, 'w) clip_state" where
  "handleTrackedFileRangeResponse env packet c x =
    (let c = on_snapshot (\<lambda>s. s\<lparr>ck_lastFileRangeResponseTo := pk_responseTo packet\<rparr>) c;
         (result, c) = range_answer (ce_doubles env) packet c;
         (result, c) = bound_range result c;
         (c, x) = (if isClipboardLargeDataPacket packet then snd (sendLargeDataAck env packet c x) else (c, x))
     in (on_snapshot (\<lambda>s. s\<lparr>ck_lastFileRangeResult := Some result\<rparr>) c, x))"

definition trackedObjectLockResult ::
    "'d double_ops \<Rightarrow> packet_envelope \<Rightarrow> fdcl_operation \<Rightarrow> ('r, 'd) clipboard_module \<Rightarrow>
     lock_result \<times> ('r, 'd) clipboard_module" where
  "trackedObjectLockResult ops packet expected c =
    (if answered_well packet then
       (case decodeFdclPayload ops (pk_payload packet) of
          Inr message \<Rightarrow>
            (case (if expected = FO_LockObject
                   then (case message of LockObjectMessage m \<Rightarrow> Some m | _ \<Rightarrow> None)
                   else (case message of UnlockObjectMessage m \<Rightarrow> Some m | _ \<Rightarrow> None)) of
               Some m \<Rightarrow> (\<lparr>lr_status = RS_Ok, lr_lockId = ol_lockId m, lr_leaseUsec = ol_leaseUsec m,
                 lr_message = []\<rparr>, c)
             | None \<Rightarrow> (objectLockError RS_ProtocolError ''clipboard object lock response invalid'',
                 bump ck_decodeFailures_update c))
        | Inl (_, error) \<Rightarrow> (objectLockError RS_ProtocolError
            (if error = [] then ''clipboard object lock response invalid'' else error),
            bump ck_decodeFailures_update c))
     else if pk_messageKind packet = MK_Error then
       (let (status, message) = error_answer ops packet
        in (objectLockError status message, count_error False status c))
     else (objectLockError RS_ProtocolError ''clipboard object lock completed with invalid message kind'',
       bump ck_decodeFailures_update c))"

definition handleTrackedObjectLockResponse ::
    "'d double_ops \<Rightarrow> packet_envelope \<Rightarrow> ('r, 'd) clipboard_module \<Rightarrow> ('r, 'd) clipboard_module" where
  "handleTrackedObjectLockResponse ops packet c =
    (let (result, c) = trackedObjectLockResult ops packet FO_LockObject
           (on_snapshot (\<lambda>s. s\<lparr>ck_lastObjectLockResponseTo := pk_responseTo packet\<rparr>) c)
     in on_snapshot (\<lambda>s. s\<lparr>ck_lastObjectLockResult := Some result\<rparr>)
          (bump_if (lr_status result = RS_Ok) ck_objectLockResponsesReceived_update c))"

definition handleTrackedObjectUnlockResponse ::
    "'d double_ops \<Rightarrow> packet_envelope \<Rightarrow> ('r, 'd) clipboard_module \<Rightarrow> ('r, 'd) clipboard_module" where
  "handleTrackedObjectUnlockResponse ops packet c =
    (let (result, c) = trackedObjectLockResult ops packet FO_UnlockObject
           (on_snapshot (\<lambda>s. s\<lparr>ck_lastObjectUnlockResponseTo := pk_responseTo packet\<rparr>) c)
     in on_snapshot (\<lambda>s. s\<lparr>ck_lastObjectUnlockResult := Some result\<rparr>)
          (bump_if (lr_status result = RS_Ok) ck_objectUnlockResponsesReceived_update c))"

text \<open>Running the closures the tracker calls, in order.\<close>

fun run_clip_handlers ::
    "('c, 'r, 'd, 'w) clip_env \<Rightarrow> (clip_handler \<times> packet_envelope) list \<Rightarrow>
     ('r, 'd) clipboard_module \<Rightarrow> ('c, 's, 'w) session_world \<Rightarrow> ('r, 'd, 'c, 's, 'w) clip_state" where
  "run_clip_handlers env [] c x = (c, x)"
| "run_clip_handlers env ((handler, packet) # calls) c x =
    (let (c, x) = (case handler of
           ReadHandler \<Rightarrow> (handleTrackedReadResponse (ce_doubles env) packet c, x)
         | FileRangeHandler \<Rightarrow> handleTrackedFileRangeResponse env packet c x
         | ObjectLockHandler \<Rightarrow> (handleTrackedObjectLockResponse (ce_doubles env) packet c, x)
         | ObjectUnlockHandler \<Rightarrow> (handleTrackedObjectUnlockResponse (ce_doubles env) packet c, x))
     in run_clip_handlers env calls c x)"

definition clip_complete ::
    "('c, 'r, 'd, 'w) clip_env \<Rightarrow> packet_envelope \<Rightarrow> ('r, 'd) clipboard_module \<Rightarrow>
     ('c, 's, 'w) session_world \<Rightarrow> bool \<times> ('r, 'd, 'c, 's, 'w) clip_state" where
  "clip_complete env packet c x =
    (let (completed, calls, t) = complete packet (cm_requests c)
     in (completed, run_clip_handlers env calls (c\<lparr>cm_requests := t\<rparr>) x))"

definition expirePendingReads ::
    "('c, 'r, 'd, 'w) clip_env \<Rightarrow> u64 \<Rightarrow> ('r, 'd) clipboard_module \<Rightarrow> ('c, 's, 'w) session_world \<Rightarrow>
     nat \<times> ('r, 'd, 'c, 's, 'w) clip_state" where
  "expirePendingReads env nowUsec c x =
    (let (expired, calls, t) = expire nowUsec (cm_requests c);
         (c, x) = run_clip_handlers env calls (c\<lparr>cm_requests := t\<rparr>) x
     in (expired, on_snapshot (\<lambda>s. s\<lparr>ck_timeoutFailures := ck_timeoutFailures s + int expired\<rparr>) c, x))"

definition handleReadResponse ::
    "('c, 'r, 'd, 'w) clip_env \<Rightarrow> packet_envelope \<Rightarrow> ('r, 'd) clipboard_module \<Rightarrow>
     ('c, 's, 'w) session_world \<Rightarrow> ('r, 'd, 'c, 's, 'w) clip_state" where
  "handleReadResponse env packet c x =
    (let c = on_snapshot (\<lambda>s. s\<lparr>ck_lastReadResponseMessageId := pk_messageId packet,
           ck_lastReadResponseCorrelationId := pk_correlationId packet,
           ck_lastReadResponseTo := pk_responseTo packet,
           ck_lastReadResponseKind := pk_messageKind packet,
           ck_lastReadResponseStatus := pk_responseStatus packet,
           ck_lastReadResponsePayloadBytes := length (pk_payload packet)\<rparr>) c;
         (completed, c, x) = clip_complete env packet c x
     in (if completed then c
         else bump ck_decodeFailures_update (bump ck_readResponseMisses_update c), x))"

section \<open>Our requests\<close>

record dispatch_result =
  cd_dispatched :: bool
  cd_status :: response_status
  cd_messageId :: message_id
  cd_message :: string

definition not_dispatched :: "response_status \<Rightarrow> string \<Rightarrow> dispatch_result" where
  "not_dispatched status message =
     \<lparr>cd_dispatched = False, cd_status = status, cd_messageId = 0, cd_message = message\<rparr>"

text \<open>
  The second half of the four \<open>requestRemote\<close> functions, the same text in each up to the handler, the
  counter of requests sent, the message for an unavailable channel, and that a read notes its id.
\<close>

definition dispatch_tracked ::
    "('c, 'r, 'd, 'w) clip_env \<Rightarrow> clip_handler \<Rightarrow>
     (message_id \<Rightarrow> ('r, 'd) clip_snapshot \<Rightarrow> ('r, 'd) clip_snapshot) \<Rightarrow>
     ((int \<Rightarrow> int) \<Rightarrow> ('r, 'd) clip_snapshot \<Rightarrow> ('r, 'd) clip_snapshot) \<Rightarrow> string \<Rightarrow> byte_buffer \<Rightarrow> u32 \<Rightarrow> u64 \<Rightarrow>
     ('r, 'd) clipboard_module \<Rightarrow> ('c, 's, 'w) session_world \<Rightarrow>
     dispatch_result \<times> ('r, 'd, 'c, 's, 'w) clip_state" where
  "dispatch_tracked env handler note_id counter unavailable payload timeoutMs nowUsec c x =
    (let (messageId, t) = nextMessageId (cm_requests c);
         (now, x) = clock_or env nowUsec x;
         packet = (clip_packet c MK_Request)\<lparr>pk_flags := PacketFlagResponseRequired,
           pk_messageId := messageId, pk_correlationId := messageId,
           pk_timeoutMs := timeout_or_default timeoutMs, pk_monotonicTimestampUsec := now,
           pk_payload := payload\<rparr>;
         (tracked, t) = track packet (Some handler) t;
         c = c\<lparr>cm_requests := t\<rparr>
     in if \<not> tr_tracked tracked then
          (not_dispatched (tr_status tracked) (tr_message tracked), bump ck_sendFailures_update c, x)
        else
          let (sent, c, x) = clip_send env packet (on_snapshot (note_id messageId) c) x in
          if sent then
            (\<lparr>cd_dispatched = True, cd_status = RS_Ok, cd_messageId = messageId, cd_message = []\<rparr>,
             bump counter c, x)
          else
            let failed = packet\<lparr>pk_messageKind := MK_Error, pk_responseStatus := RS_ChannelUnavailable,
                  pk_responseTo := messageId\<rparr>
            in (\<lparr>cd_dispatched = False, cd_status = RS_ChannelUnavailable, cd_messageId = messageId,
                  cd_message = unavailable\<rparr>, snd (clip_complete env failed c x)))"

definition requestRemoteFormatTracked ::
    "('c, 'r, 'd, 'w) clip_env \<Rightarrow> fdcl_read_request \<Rightarrow> u32 \<Rightarrow> u64 \<Rightarrow> ('r, 'd) clipboard_module \<Rightarrow>
     ('c, 's, 'w) session_world \<Rightarrow> dispatch_result \<times> ('r, 'd, 'c, 's, 'w) clip_state" where
  "requestRemoteFormatTracked env request timeoutMs nowUsec c x =
    (if cm_state c \<noteq> MS_Running then (not_dispatched RS_Failed [], c, x)
     else if \<not> po_allowReceive (cm_policy c) then
       (not_dispatched RS_DeniedByPolicy ''clipboard receive denied by policy'',
        bump ck_policyDenials_update c, x)
     else if \<not> policyAllowsReadRequest (any_source (ce_sources env)) (cm_policy c)
                 (ck_remoteBundle (cm_snapshot c)) request (sw_rest x) then
       (not_dispatched RS_DeniedByPolicy ''clipboard format denied by policy'',
        bump ck_policyDenials_update c, x)
     else dispatch_tracked env ReadHandler (\<lambda>messageId s. s\<lparr>ck_lastReadRequestMessageId := messageId\<rparr>)
       ck_readRequestsSent_update ''clipboard read request channel is unavailable''
       (encodeFdclReadFormatRequest request) timeoutMs nowUsec c x)"

definition requestRemoteFormat ::
    "('c, 'r, 'd, 'w) clip_env \<Rightarrow> fdcl_read_request \<Rightarrow> u32 \<Rightarrow> u64 \<Rightarrow> ('r, 'd) clipboard_module \<Rightarrow>
     ('c, 's, 'w) session_world \<Rightarrow> bool \<times> ('r, 'd, 'c, 's, 'w) clip_state" where
  "requestRemoteFormat env request timeoutMs nowUsec c x =
    (let (result, cx) = requestRemoteFormatTracked env request timeoutMs nowUsec c x
     in (cd_dispatched result, cx))"

definition requestRemoteFileRangeTracked ::
    "('c, 'r, 'd, 'w) clip_env \<Rightarrow> fdcl_range_request \<Rightarrow> u32 \<Rightarrow> u64 \<Rightarrow> ('r, 'd) clipboard_module \<Rightarrow>
     ('c, 's, 'w) session_world \<Rightarrow> dispatch_result \<times> ('r, 'd, 'c, 's, 'w) clip_state" where
  "requestRemoteFileRangeTracked env request timeoutMs nowUsec c x =
    (if cm_state c \<noteq> MS_Running then (not_dispatched RS_Failed [], c, x)
     else if \<not> po_allowReceive (cm_policy c) then
       (not_dispatched RS_DeniedByPolicy ''clipboard file range receive denied by policy'',
        bump ck_policyDenials_update c, x)
     else if \<not> po_allowFileContents (cm_policy c) then
       (not_dispatched RS_DeniedByPolicy ''clipboard file contents denied by policy'',
        bump ck_policyDenials_update c, x)
     else case validateFileRangeRequestAgainstBundle (any_source (ce_sources env))
            (ck_remoteBundle (cm_snapshot c)) request (sw_rest x) of
       (validation, message) \<Rightarrow>
         if validation \<noteq> RS_Ok then
           (not_dispatched validation message,
            bump_if (stale_status validation) ck_staleOfferFailures_update c, x)
         else
           let maxRangeBytes = effectiveMaxFileRangeBytes (cm_policy c);
               effectiveRequest = (if xq_requestedBytes request = 0 \<or> xq_requestedBytes request > maxRangeBytes
                 then request\<lparr>xq_requestedBytes := maxRangeBytes\<rparr> else request)
           in dispatch_tracked env FileRangeHandler (\<lambda>messageId s. s) ck_fileRangeRequestsSent_update
                ''clipboard file range request channel is unavailable''
                (encodeFdclFileRangeRequest effectiveRequest) timeoutMs nowUsec c x)"

definition requestRemoteObjectLockTracked ::
    "('c, 'r, 'd, 'w) clip_env \<Rightarrow> fdcl_object_lock \<Rightarrow> u32 \<Rightarrow> u64 \<Rightarrow> ('r, 'd) clipboard_module \<Rightarrow>
     ('c, 's, 'w) session_world \<Rightarrow> dispatch_result \<times> ('r, 'd, 'c, 's, 'w) clip_state" where
  "requestRemoteObjectLockTracked env request timeoutMs nowUsec c x =
    (if cm_state c \<noteq> MS_Running then (not_dispatched RS_Failed [], c, x)
     else if \<not> po_allowReceive (cm_policy c) \<or> \<not> po_allowFileContents (cm_policy c) then
       (not_dispatched RS_DeniedByPolicy ''clipboard file object lock denied by policy'',
        bump ck_policyDenials_update c, x)
     else case validateObjectLockAgainstBundle (any_source (ce_sources env))
            (ck_remoteBundle (cm_snapshot c)) request (sw_rest x) of
       (validation, message) \<Rightarrow>
         if validation \<noteq> RS_Ok then
           (not_dispatched validation message,
            bump_if (stale_status validation) ck_staleOfferFailures_update c, x)
         else dispatch_tracked env ObjectLockHandler (\<lambda>messageId s. s) ck_objectLockRequestsSent_update
           ''clipboard object lock request channel is unavailable''
           (encodeFdclLockObject request) timeoutMs nowUsec c x)"

definition requestRemoteObjectUnlockTracked ::
    "('c, 'r, 'd, 'w) clip_env \<Rightarrow> fdcl_object_lock \<Rightarrow> u32 \<Rightarrow> u64 \<Rightarrow> ('r, 'd) clipboard_module \<Rightarrow>
     ('c, 's, 'w) session_world \<Rightarrow> dispatch_result \<times> ('r, 'd, 'c, 's, 'w) clip_state" where
  "requestRemoteObjectUnlockTracked env request timeoutMs nowUsec c x =
    (if cm_state c \<noteq> MS_Running then (not_dispatched RS_Failed [], c, x)
     else if ol_lockId request = 0 then
       (not_dispatched RS_InvalidArgument ''clipboard object unlock lock id is invalid'', c, x)
     else if \<not> po_allowReceive (cm_policy c) \<or> \<not> po_allowFileContents (cm_policy c) then
       (not_dispatched RS_DeniedByPolicy ''clipboard file object unlock denied by policy'',
        bump ck_policyDenials_update c, x)
     else dispatch_tracked env ObjectUnlockHandler (\<lambda>messageId s. s) ck_objectUnlockRequestsSent_update
       ''clipboard object unlock request channel is unavailable''
       (encodeFdclUnlockObject request) timeoutMs nowUsec c x)"

section \<open>Cancelling\<close>

definition sendCancel ::
    "('c, 'r, 'd, 'w) clip_env \<Rightarrow> fdcl_cancel \<Rightarrow> u32 \<Rightarrow> u64 \<Rightarrow> ('r, 'd) clipboard_module \<Rightarrow>
     ('c, 's, 'w) session_world \<Rightarrow> bool \<times> ('r, 'd, 'c, 's, 'w) clip_state" where
  "sendCancel env cancel timeoutMs nowUsec c x =
    (if cm_state c \<noteq> MS_Running then (False, c, x)
     else if cn_correlationId cancel = 0 \<or> cn_bundleId cancel = 0 \<or> cn_offerId cancel = 0 \<or>
             cn_ownerEpoch cancel = 0 then (False, bump ck_decodeFailures_update c, x)
     else
       let packet = (clip_packet c MK_Cancel)\<lparr>pk_flags := PacketFlagNoResponseRequired,
             pk_messageId := cm_nextResponseMessageId c, pk_correlationId := cn_correlationId cancel,
             pk_responseTo := cn_correlationId cancel, pk_timeoutMs := timeout_or_default timeoutMs\<rparr>;
           c = c\<lparr>cm_nextResponseMessageId := cm_nextResponseMessageId c + 1\<rparr>;
           (now, x) = clock_or env nowUsec x;
           (sent, c, x) = clip_send env (packet\<lparr>pk_monotonicTimestampUsec := now,
             pk_payload := encodeFdclCancel cancel\<rparr>) c x
       in (sent, if sent then bump ck_cancelsSent_update c else c, x))"

definition handleCancel ::
    "('c, 'r, 'd, 'w) clip_env \<Rightarrow> fdcl_cancel \<Rightarrow> ('r, 'd) clipboard_module \<Rightarrow>
     ('c, 's, 'w) session_world \<Rightarrow> ('r, 'd, 'c, 's, 'w) clip_state" where
  "handleCancel env cancel c x =
    (let c = bump ck_cancelsReceived_update c;
         detail = \<lparr>ed_status = RS_Cancelled, ed_message = (if cn_message cancel = []
           then ''clipboard request cancelled'' else cn_message cancel)\<rparr>;
         cancelled = (clip_packet c MK_Error)\<lparr>pk_responseStatus := RS_Cancelled,
           pk_responseTo := cn_correlationId cancel, pk_correlationId := cn_correlationId cancel,
           pk_payload := encodeFdclErrorDetail detail\<rparr>;
         (completed, c, x) = clip_complete env cancelled c x
     in (if completed then c else bump ck_cancelMisses_update c, x))"

definition clip_pause ::
    "('c, 'r, 'd, 'w) clip_env \<Rightarrow> reconnect_options \<Rightarrow> ('r, 'd) clipboard_module \<Rightarrow>
     ('c, 's, 'w) session_world \<Rightarrow> ('r, 'd, 'c, 's, 'w) clip_state" where
  "clip_pause env options c x =
    (if \<not> affectsClipboardChannel options then (c, x)
     else
       let c = releaseAllLargeDataReservations c;
           (cancelled, calls, t) = cancelByChannel (key_channelId clipboardSmallDataChannelKey)
             (key_channelType clipboardSmallDataChannelKey) RS_ChannelUnavailable (cm_requests c);
           (c, x) = run_clip_handlers env calls (c\<lparr>cm_requests := t\<rparr>) x;
           c = end_drags (release_transfers c);
           c = on_snapshot (\<lambda>s. s\<lparr>ck_timeoutFailures := ck_timeoutFailures s + int cancelled\<rparr>) c
       in (c, clip_publish ''clipboard.reconnect_paused'' ''clipboard module paused'' c x))"

end
