(* ===== verification/Clipboard_Packets.thy ===== *)
theory Clipboard_Packets
  imports Clipboard_Reads
begin

text \<open>
  \<open>clipboard_module_drag.cpp\<close>, and of \<open>clipboard_modules.cpp\<close> the dispatch of incoming packets, the
  diagnostics and the snapshot.
\<close>

section \<open>Dragging to the peer\<close>

definition validTransferAction :: "u16 \<Rightarrow> bool" where
  "validTransferAction action \<longleftrightarrow> action = 1 \<or> action = 2 \<or> action = 3 \<or> action = 0"

definition dragStartMatchesBundle :: "('r, 'p) source_bundle \<Rightarrow> 'd drag_start \<Rightarrow> bool" where
  "dragStartMatchesBundle bundle start \<longleftrightarrow> ds_dragSessionId start \<noteq> 0 \<and>
     sb_bundleId bundle = ds_bundleId start \<and> sb_offerId bundle = ds_offerId start \<and>
     sb_ownerEpoch bundle = ds_ownerEpoch start"

definition sendDragEvent ::
    "('c, 'r, 'd, 'w) clip_env \<Rightarrow> byte_buffer \<Rightarrow> ('r, 'd) clipboard_module \<Rightarrow>
     ('c, 's, 'w) session_world \<Rightarrow> bool \<times> ('r, 'd, 'c, 's, 'w) clip_state" where
  "sendDragEvent env payload c x =
    (let (now, x) = on_rest (ce_now env) x
     in clip_send env ((clip_packet c MK_Event)\<lparr>pk_flags := PacketFlagNoResponseRequired,
          pk_monotonicTimestampUsec := now, pk_payload := payload\<rparr>) c x)"

definition drag_denied :: "('r, 'd) clipboard_module \<Rightarrow> bool" where
  "drag_denied c \<longleftrightarrow> \<not> po_allowAnnounce (cm_policy c) \<or> \<not> po_allowDrag (cm_policy c)"

definition sendRemoteDragStart ::
    "('c, 'r, 'd, 'w) clip_env \<Rightarrow> 'd drag_start \<Rightarrow> ('r, 'd) clipboard_module \<Rightarrow>
     ('c, 's, 'w) session_world \<Rightarrow> bool \<times> ('r, 'd, 'c, 's, 'w) clip_state" where
  "sendRemoteDragStart env start c x =
    (if cm_state c \<noteq> MS_Running then (False, c, x)
     else if drag_denied c then (False, bump ck_policyDenials_update c, x)
     else if \<not> dragStartMatchesBundle (ck_localBundle (cm_snapshot c)) start \<or>
             \<not> validTransferAction (ds_preferredAction start) then
       (False, bump ck_staleOfferFailures_update c, x)
     else
       let (sent, c, x) = sendDragEvent env (encodeFdclDragStart (ce_doubles env) start) c x
       in if sent then
            (True, on_snapshot (\<lambda>s. s\<lparr>ck_activeLocalDragSessionId := ds_dragSessionId start,
               ck_dragStartsSent := ck_dragStartsSent s + 1\<rparr>) c, x)
          else (False, c, x))"

definition sendRemoteDragMove ::
    "('c, 'r, 'd, 'w) clip_env \<Rightarrow> 'd drag_point \<Rightarrow> ('r, 'd) clipboard_module \<Rightarrow>
     ('c, 's, 'w) session_world \<Rightarrow> bool \<times> ('r, 'd, 'c, 's, 'w) clip_state" where
  "sendRemoteDragMove env move c x =
    (if cm_state c \<noteq> MS_Running then (False, c, x)
     else if drag_denied c then (False, bump ck_policyDenials_update c, x)
     else if dm_dragSessionId move = 0 \<or> \<not> validTransferAction (dm_proposedAction move) then (False, c, x)
     else if ck_activeLocalDragSessionId (cm_snapshot c) \<noteq> dm_dragSessionId move then
       (False, bump ck_staleOfferFailures_update c, x)
     else
       let (sent, c, x) = sendDragEvent env (encodeFdclDragMove (ce_doubles env) move) c x
       in if sent then (True, bump ck_dragMovesSent_update c, x) else (False, c, x))"

definition sendRemoteDragDrop ::
    "('c, 'r, 'd, 'w) clip_env \<Rightarrow> 'd drag_point \<Rightarrow> ('r, 'd) clipboard_module \<Rightarrow>
     ('c, 's, 'w) session_world \<Rightarrow> bool \<times> ('r, 'd, 'c, 's, 'w) clip_state" where
  "sendRemoteDragDrop env dropped c x =
    (if cm_state c \<noteq> MS_Running then (False, c, x)
     else if drag_denied c then (False, bump ck_policyDenials_update c, x)
     else if dm_dragSessionId dropped = 0 \<or> \<not> validTransferAction (dm_proposedAction dropped) then (False, c, x)
     else if ck_activeLocalDragSessionId (cm_snapshot c) \<noteq> dm_dragSessionId dropped then
       (False, bump ck_staleOfferFailures_update c, x)
     else
       let (sent, c, x) = sendDragEvent env (encodeFdclDragDrop (ce_doubles env) dropped) c x
       in if sent then (True, on_snapshot (\<lambda>s. s\<lparr>ck_activeLocalDragSessionId := 0,
            ck_dragDropsSent := ck_dragDropsSent s + 1\<rparr>) c, x)
          else (False, c, x))"

definition sendRemoteDragCancel ::
    "('c, 'r, 'd, 'w) clip_env \<Rightarrow> fdcl_drag_cancel \<Rightarrow> ('r, 'd) clipboard_module \<Rightarrow>
     ('c, 's, 'w) session_world \<Rightarrow> bool \<times> ('r, 'd, 'c, 's, 'w) clip_state" where
  "sendRemoteDragCancel env cancel c x =
    (if cm_state c \<noteq> MS_Running then (False, c, x)
     else if drag_denied c then (False, bump ck_policyDenials_update c, x)
     else if dx_dragSessionId cancel = 0 then (False, c, x)
     else if ck_activeLocalDragSessionId (cm_snapshot c) \<noteq> dx_dragSessionId cancel then
       (False, bump ck_staleOfferFailures_update c, x)
     else
       let (sent, c, x) = sendDragEvent env (encodeFdclDragCancel cancel) c x
       in if sent then (True, on_snapshot (\<lambda>s. s\<lparr>ck_activeLocalDragSessionId := 0,
            ck_dragCancelsSent := ck_dragCancelsSent s + 1\<rparr>) c, x)
          else (False, c, x))"

section \<open>Dragging from the peer\<close>

definition drop_denied :: "('r, 'd) clipboard_module \<Rightarrow> bool" where
  "drop_denied c \<longleftrightarrow> \<not> po_allowReceive (cm_policy c) \<or> \<not> po_allowDrag (cm_policy c) \<or>
     \<not> po_allowWriteLocal (cm_policy c)"

definition handleDragStart ::
    "('c, 'r, 'd, 'w) clip_env \<Rightarrow> 'd drag_start \<Rightarrow> ('r, 'd) clipboard_module \<Rightarrow>
     ('c, 's, 'w) session_world \<Rightarrow> ('r, 'd, 'c, 's, 'w) clip_state" where
  "handleDragStart env start c x =
    (let c = bump ck_dragStartsReceived_update c in
     if drop_denied c then (bump ck_policyDenials_update c, x)
     else if \<not> dragStartMatchesBundle (ck_remoteBundle (cm_snapshot c)) start then
       (bump ck_staleOfferFailures_update c, x)
     else case ce_dragSink env of
       None \<Rightarrow> (bump ck_dragNativePublicationFailures_update c, x)
     | Some sink \<Rightarrow>
         let (status, x) = on_rest (sk_dragStart sink start) x
         in if status \<noteq> RS_Ok then (bump ck_dragNativePublicationFailures_update c, x)
            else (on_snapshot (\<lambda>s. s\<lparr>ck_activeRemoteDragSessionId := ds_dragSessionId start\<rparr>) c, x))"

definition handleDragMove ::
    "('c, 'r, 'd, 'w) clip_env \<Rightarrow> 'd drag_point \<Rightarrow> ('r, 'd) clipboard_module \<Rightarrow>
     ('c, 's, 'w) session_world \<Rightarrow> ('r, 'd, 'c, 's, 'w) clip_state" where
  "handleDragMove env move c x =
    (let c = bump ck_dragMovesReceived_update c in
     if drop_denied c then (bump ck_policyDenials_update c, x)
     else if ck_activeRemoteDragSessionId (cm_snapshot c) \<noteq> dm_dragSessionId move then
       (bump ck_staleOfferFailures_update c, x)
     else case ce_dragSink env of
       None \<Rightarrow> (bump ck_dragNativePublicationFailures_update c, x)
     | Some sink \<Rightarrow>
         let (status, x) = on_rest (sk_dragMove sink (dm_dragSessionId move) (dm_point move)
               (dm_proposedAction move)) x
         in (bump_if (status \<noteq> RS_Ok) ck_dragNativePublicationFailures_update c, x))"

definition handleDragDrop ::
    "('c, 'r, 'd, 'w) clip_env \<Rightarrow> 'd drag_point \<Rightarrow> ('r, 'd) clipboard_module \<Rightarrow>
     ('c, 's, 'w) session_world \<Rightarrow> ('r, 'd, 'c, 's, 'w) clip_state" where
  "handleDragDrop env dropped c x =
    (let c = bump ck_dragDropsReceived_update c in
     if drop_denied c then (bump ck_policyDenials_update c, x)
     else if ck_activeRemoteDragSessionId (cm_snapshot c) \<noteq> dm_dragSessionId dropped then
       (bump ck_staleOfferFailures_update c, x)
     else case ce_dragSink env of
       None \<Rightarrow> (bump ck_dragNativePublicationFailures_update c, x)
     | Some sink \<Rightarrow>
         let (status, x) = on_rest (sk_dragDrop sink (dm_dragSessionId dropped) (dm_point dropped)
               (dm_proposedAction dropped)) x
         in if status \<noteq> RS_Ok then (bump ck_dragNativePublicationFailures_update c, x)
            else (on_snapshot (\<lambda>s. s\<lparr>ck_activeRemoteDragSessionId := 0\<rparr>) c, x))"

definition handleDragCancel ::
    "('c, 'r, 'd, 'w) clip_env \<Rightarrow> fdcl_drag_cancel \<Rightarrow> ('r, 'd) clipboard_module \<Rightarrow>
     ('c, 's, 'w) session_world \<Rightarrow> ('r, 'd, 'c, 's, 'w) clip_state" where
  "handleDragCancel env cancel c x =
    (let c = bump ck_dragCancelsReceived_update c in
     if \<not> po_allowDrag (cm_policy c) then (bump ck_policyDenials_update c, x)
     else if ck_activeRemoteDragSessionId (cm_snapshot c) \<noteq> dx_dragSessionId cancel then
       (bump ck_staleOfferFailures_update c, x)
     else case ce_dragSink env of
       None \<Rightarrow> (c, x)
     | Some sink \<Rightarrow>
         let (status, x) = on_rest (sk_dragCancel sink (dx_dragSessionId cancel) (dx_reason cancel)) x
         in if status \<noteq> RS_Ok then (bump ck_dragNativePublicationFailures_update c, x)
            else (on_snapshot (\<lambda>s. s\<lparr>ck_activeRemoteDragSessionId := 0\<rparr>) c, x))"

section \<open>Incoming packets\<close>

text \<open>The dispatch on the kind of the packet and the message in it.\<close>

definition handle_message ::
    "('c, 'r, 'd, 'w) clip_env \<Rightarrow> packet_envelope \<Rightarrow> 'd fdcl_message \<Rightarrow> ('r, 'd) clipboard_module \<Rightarrow>
     ('c, 's, 'w) session_world \<Rightarrow> ('r, 'd, 'c, 's, 'w) clip_state option" where
  "handle_message env packet message c x =
    (if pk_messageKind packet = MK_Event then
       (case message of
          FormatList m \<Rightarrow> Some (handleFormatList env m c x)
        | DragStart m \<Rightarrow> Some (handleDragStart env m c x)
        | DragMove m \<Rightarrow> Some (handleDragMove env m c x)
        | DragDrop m \<Rightarrow> Some (handleDragDrop env m c x)
        | DragCancel m \<Rightarrow> Some (handleDragCancel env m c x)
        | _ \<Rightarrow> None)
     else if pk_messageKind packet = MK_Cancel then
       (case message of CancelMessage m \<Rightarrow> Some (handleCancel env m c x) | _ \<Rightarrow> None)
     else if pk_messageKind packet = MK_Request then
       (case message of
          ReadFormatRequest m \<Rightarrow> Some (handleReadRequest env packet m c x)
        | FileRangeRequest m \<Rightarrow> Some (handleFileRangeRequest env packet m c x)
        | LockObjectMessage m \<Rightarrow> Some (handleObjectLockRequest env packet m c x)
        | UnlockObjectMessage m \<Rightarrow> Some (handleObjectUnlockRequest env packet m c x)
        | _ \<Rightarrow> None)
     else None)"

definition refuse_request ::
    "('c, 'r, 'd, 'w) clip_env \<Rightarrow> packet_envelope \<Rightarrow> response_status \<Rightarrow> string \<Rightarrow>
     ('r, 'd) clipboard_module \<Rightarrow> ('c, 's, 'w) session_world \<Rightarrow> ('r, 'd, 'c, 's, 'w) clip_state" where
  "refuse_request env packet status message c x =
    (let c = bump ck_decodeFailures_update c
     in if pk_messageKind packet = MK_Request then snd (sendErrorResponse env packet status message c x)
        else (c, x))"

definition clip_handlePacket ::
    "('c, 'r, 'd, 'w) clip_env \<Rightarrow> packet_envelope \<Rightarrow> ('r, 'd) clipboard_module \<Rightarrow>
     ('c, 's, 'w) session_world \<Rightarrow> ('r, 'd, 'c, 's, 'w) clip_state" where
  "clip_handlePacket env packet c x =
    (if cm_state c \<noteq> MS_Running \<or> pk_packetType packet \<noteq> PT_Clipboard then (c, x)
     else if pk_messageKind packet = MK_Ack then (handleLargeDataAck packet c, x)
     else if pk_messageKind packet = MK_Response \<or> pk_messageKind packet = MK_Error then
       handleReadResponse env packet c x
     else case decodeFdclPayload (ce_doubles env) (pk_payload packet) of
       Inl (_, error) \<Rightarrow> refuse_request env packet RS_ProtocolError error c x
     | Inr message \<Rightarrow>
         (case handle_message env packet message c x of
            Some cx \<Rightarrow> cx
          | None \<Rightarrow> refuse_request env packet RS_Unsupported ''FDCL operation is unsupported'' c x))"

section \<open>Snapshot and diagnostics\<close>

record ('r, 'd) clip_report =
  cr_moduleId :: string
  cr_state :: module_state
  cr_counters :: "('r, 'd) clip_snapshot"
  cr_pendingReads :: nat
  cr_pendingLargeDataResponses :: nat
  cr_largeDataWindowBytes :: u64
  cr_largeDataInFlightBytes :: u64

definition clip_report_of :: "('r, 'd) clipboard_module \<Rightarrow> ('r, 'd) clip_report" where
  "clip_report_of c = \<lparr>cr_moduleId = mf_moduleId (cm_manifest c), cr_state = cm_state c,
     cr_counters = cm_snapshot c, cr_pendingReads = length (tk_pending (cm_requests c)),
     cr_pendingLargeDataResponses = length (cm_reservations c),
     cr_largeDataWindowBytes = (case cm_window c of None \<Rightarrow> 0 | Some w \<Rightarrow> dw_maxInFlightBytes w),
     cr_largeDataInFlightBytes = (case cm_window c of None \<Rightarrow> 0 | Some w \<Rightarrow> dw_inFlightBytes w)\<rparr>"

definition clip_stateName :: "module_state \<Rightarrow> string" where
  "clip_stateName state = (case state of
     MS_Created \<Rightarrow> ''created'' | MS_Attached \<Rightarrow> ''attached'' | MS_Starting \<Rightarrow> ''starting''
   | MS_Running \<Rightarrow> ''running'' | MS_Stopping \<Rightarrow> ''stopping'' | MS_Stopped \<Rightarrow> ''stopped''
   | MS_Detached \<Rightarrow> ''detached'' | MS_Failed \<Rightarrow> ''failed'')"

definition clip_diagnostics :: "string \<Rightarrow> ('r, 'd) clipboard_module \<Rightarrow> string" where
  "clip_diagnostics roleName c = (let s = cm_snapshot c in
     ''clipboard.'' @ roleName @ '' id='' @ mf_moduleId (cm_manifest c) @
     '' state='' @ clip_stateName (cm_state c) @
     concat (map (\<lambda>(label, n). '' '' @ label @ ''='' @ to_string n)
       [(''formatListsSent'', ck_formatListsSent s),
        (''formatListsReceived'', ck_formatListsReceived s),
        (''readRequestsSent'', ck_readRequestsSent s),
        (''readRequestsReceived'', ck_readRequestsReceived s),
        (''inlineResponsesSent'', ck_inlineResponsesSent s),
        (''inlineResponsesReceived'', ck_inlineResponsesReceived s),
        (''inlineBytesSent'', int (unat (ck_inlineBytesSent s))),
        (''inlineBytesReceived'', int (unat (ck_inlineBytesReceived s))),
        (''fileRangeRequestsSent'', ck_fileRangeRequestsSent s),
        (''fileRangeRequestsReceived'', ck_fileRangeRequestsReceived s),
        (''fileRangeResponsesSent'', ck_fileRangeResponsesSent s),
        (''fileRangeResponsesReceived'', ck_fileRangeResponsesReceived s),
        (''fileRangeSmallDataResponsesSent'', ck_fileRangeSmallDataResponsesSent s),
        (''fileRangeLargeDataResponsesSent'', ck_fileRangeLargeDataResponsesSent s),
        (''objectLockRequestsSent'', ck_objectLockRequestsSent s),
        (''objectLockRequestsReceived'', ck_objectLockRequestsReceived s),
        (''objectLockResponsesSent'', ck_objectLockResponsesSent s),
        (''objectLockResponsesReceived'', ck_objectLockResponsesReceived s),
        (''objectUnlockRequestsSent'', ck_objectUnlockRequestsSent s),
        (''objectUnlockRequestsReceived'', ck_objectUnlockRequestsReceived s),
        (''objectUnlockResponsesSent'', ck_objectUnlockResponsesSent s),
        (''objectUnlockResponsesReceived'', ck_objectUnlockResponsesReceived s),
        (''objectLocksReleased'', ck_objectLocksReleased s),
        (''fileRangeBytesSent'', int (unat (ck_fileRangeBytesSent s))),
        (''fileRangeBytesReceived'', int (unat (ck_fileRangeBytesReceived s))),
        (''dragStartsSent'', ck_dragStartsSent s),
        (''dragStartsReceived'', ck_dragStartsReceived s),
        (''dragMovesReceived'', ck_dragMovesReceived s),
        (''dragDropsReceived'', ck_dragDropsReceived s),
        (''activeLocalDragSessionId'', int (unat (ck_activeLocalDragSessionId s))),
        (''activeRemoteDragSessionId'', int (unat (ck_activeRemoteDragSessionId s))),
        (''cancelsSent'', ck_cancelsSent s),
        (''cancelsReceived'', ck_cancelsReceived s),
        (''cancelMisses'', ck_cancelMisses s),
        (''policyDenials'', ck_policyDenials s),
        (''backPressureFailures'', ck_backPressureFailures s),
        (''largeDataAcksSent'', ck_largeDataAcksSent s),
        (''largeDataAcksReceived'', ck_largeDataAcksReceived s),
        (''largeDataAckMisses'', ck_largeDataAckMisses s),
        (''pendingLargeDataResponses'', int (length (cm_reservations c))),
        (''staleOfferFailures'', ck_staleOfferFailures s),
        (''timeoutFailures'', ck_timeoutFailures s),
        (''decodeFailures'', ck_decodeFailures s),
        (''readResponseMisses'', ck_readResponseMisses s),
        (''lastReadRequest'', int (unat (ck_lastReadRequestMessageId s))),
        (''lastReadResponse'', int (unat (ck_lastReadResponseMessageId s))),
        (''lastReadResponseTo'', int (unat (ck_lastReadResponseTo s))),
        (''lastReadStatus'', int (unat (ck_lastReadResponseStatus s)))]))"

end
