(* ===== verification/Clipboard_Accounts.thy ===== *)
theory Clipboard_Accounts
  imports Clipboard_Packets
begin

text \<open>
  What the operations of a clipboard module leave alone, and the invariants of its runs: the bytes in
  its window are those of the large responses the peer has not acknowledged, its open requests are on
  the small-data channel, and pausing or stopping leaves nothing held.
\<close>

section \<open>What the parts of an operation leave alone\<close>

lemma on_snapshot_keeps [simp]:
  "cm_manifest (on_snapshot f c) = cm_manifest c" "cm_runtime (on_snapshot f c) = cm_runtime c"
  "cm_state (on_snapshot f c) = cm_state c" "cm_policy (on_snapshot f c) = cm_policy c"
  "cm_registry (on_snapshot f c) = cm_registry c" "cm_window (on_snapshot f c) = cm_window c"
  "cm_requests (on_snapshot f c) = cm_requests c"
  "cm_reservations (on_snapshot f c) = cm_reservations c"
  "cm_nextResponseMessageId (on_snapshot f c) = cm_nextResponseMessageId c"
  "cm_snapshot (on_snapshot f c) = f (cm_snapshot c)"
  by (simp_all add: on_snapshot_def)

text \<open>
  The part of a module its accounts of the window rest on: the window, the reservations and the next
  response id. \<open>id_taken\<close> is that part after one more response id.
\<close>

type_synonym window_part = "data_window option \<times> (message_id, u64) std_map \<times> message_id"

definition window_part :: "('r, 'd) clipboard_module \<Rightarrow> window_part" where
  "window_part c = (cm_window c, cm_reservations c, cm_nextResponseMessageId c)"

definition id_taken :: "window_part \<Rightarrow> window_part" where
  "id_taken p = (fst p, fst (snd p), snd (snd p) + 1)"

lemma window_part_simps [simp]:
  "window_part (on_snapshot f c) = window_part c"
  "window_part (c\<lparr>cm_registry := reg\<rparr>) = window_part c"
  "window_part (c\<lparr>cm_requests := t\<rparr>) = window_part c"
  "window_part (c\<lparr>cm_state := st\<rparr>) = window_part c"
  "window_part (c\<lparr>cm_runtime := rt\<rparr>) = window_part c"
  "window_part (c\<lparr>cm_nextResponseMessageId := cm_nextResponseMessageId c + 1\<rparr>) = id_taken (window_part c)"
  by (simp_all add: window_part_def id_taken_def)

text \<open>The part the answers to our own requests rest on: the runtime and the requests that are open.\<close>

definition rest_part :: "('r, 'd) clipboard_module \<Rightarrow> module_runtime \<times> clip_handler tracker" where
  "rest_part c = (cm_runtime c, cm_requests c)"

lemma rest_part_simps [simp]:
  "rest_part (on_snapshot f c) = rest_part c"
  "rest_part (c\<lparr>cm_registry := reg\<rparr>) = rest_part c"
  "rest_part (c\<lparr>cm_state := st\<rparr>) = rest_part c"
  "rest_part (c\<lparr>cm_window := w\<rparr>) = rest_part c"
  "rest_part (c\<lparr>cm_reservations := m\<rparr>) = rest_part c"
  "rest_part (c\<lparr>cm_nextResponseMessageId := i\<rparr>) = rest_part c"
  by (simp_all add: rest_part_def)

lemma rest_part_iff: "rest_part c' = rest_part c \<longleftrightarrow> cm_runtime c' = cm_runtime c \<and> cm_requests c' = cm_requests c"
  by (simp add: rest_part_def)

lemma bump_if_keeps [simp]: "window_part (bump_if b f c) = window_part c"
  "rest_part (bump_if b f c) = rest_part c"
  "cm_policy (bump_if b f c) = cm_policy c" "cm_runtime (bump_if b f c) = cm_runtime c"
  "cm_requests (bump_if b f c) = cm_requests c" "cm_window (bump_if b f c) = cm_window c"
  "cm_registry (bump_if b f c) = cm_registry c"
  "ck_localBundle (cm_snapshot (bump_if b f c)) =
     (if b then ck_localBundle (f (\<lambda>n. n + 1) (cm_snapshot c)) else ck_localBundle (cm_snapshot c))"
  by (simp_all add: bump_if_def)

text \<open>The module and the state after an operation, as the two last components of its result.\<close>

abbreviation module_of :: "'a \<times> 'm \<times> 'x \<Rightarrow> 'm" where "module_of r \<equiv> fst (snd r)"
abbreviation world_of :: "'a \<times> 'm \<times> 'x \<Rightarrow> 'x" where "world_of r \<equiv> snd (snd r)"

lemma clip_send_window [simp]: "window_part (module_of (clip_send env packet c x)) = window_part c"
  by (simp add: clip_send_def split_beta Let_def)

lemma clip_send_rest [simp]: "rest_part (module_of (clip_send env packet c x)) = rest_part c"
  by (simp add: clip_send_def split_beta Let_def)

lemma response_envelope_window [simp]:
  "window_part (snd (response_envelope kind status request c)) = id_taken (window_part c)"
  by (simp add: response_envelope_def)

lemma response_envelope_rest [simp]:
  "rest_part (snd (response_envelope kind status request c)) = rest_part c"
  by (simp add: response_envelope_def)

lemma answer_window [simp]:
  "window_part (module_of (sendErrorResponse env request status m c x)) = id_taken (window_part c)"
  "window_part (module_of (sendReadResponse env request q result c x)) = id_taken (window_part c)"
  "window_part (module_of (sendObjectLockResponse env request op lk lock_result c x)) = id_taken (window_part c)"
  by (simp_all add: sendErrorResponse_def sendReadResponse_def sendObjectLockResponse_def split_beta Let_def)

lemma answer_rest [simp]:
  "rest_part (module_of (sendErrorResponse env request status m c x)) = rest_part c"
  "rest_part (module_of (sendReadResponse env request q result c x)) = rest_part c"
  "rest_part (module_of (sendObjectLockResponse env request op lk lock_result c x)) = rest_part c"
  by (simp_all add: sendErrorResponse_def sendReadResponse_def sendObjectLockResponse_def split_beta Let_def)

lemma sendLargeDataAck_window [simp]:
  "window_part (module_of (sendLargeDataAck env packet c x)) = window_part c"
  by (simp add: sendLargeDataAck_def split_beta Let_def)

lemma sendLargeDataAck_rest [simp]:
  "rest_part (module_of (sendLargeDataAck env packet c x)) = rest_part c"
  by (simp add: sendLargeDataAck_def split_beta Let_def)

lemma announceLocalBundle_window [simp]:
  "window_part (module_of (announceLocalBundle env bundle c x)) = window_part c"
  by (simp add: announceLocalBundle_def split_beta Let_def)

lemma announceLocalBundle_rest [simp]:
  "rest_part (module_of (announceLocalBundle env bundle c x)) = rest_part c"
  by (simp add: announceLocalBundle_def split_beta Let_def)

lemma announceLocalSnapshot_window [simp]:
  "window_part (module_of (announceLocalSnapshot env c x)) = window_part c"
  by (simp add: announceLocalSnapshot_def split_beta Let_def split: option.splits)

lemma announceLocalSnapshot_rest [simp]:
  "rest_part (module_of (announceLocalSnapshot env c x)) = rest_part c"
  by (simp add: announceLocalSnapshot_def split_beta Let_def split: option.splits)

lemma handleFormatList_window [simp]: "window_part (fst (handleFormatList env list c x)) = window_part c"
  by (simp add: handleFormatList_def split_beta Let_def)

lemma handleFormatList_rest [simp]: "rest_part (fst (handleFormatList env list c x)) = rest_part c"
  by (simp add: handleFormatList_def split_beta Let_def)

lemma release_transfers_window [simp]:
  "window_part (release_transfers c) = window_part c" "window_part (end_drags c) = window_part c"
  by (simp_all add: release_transfers_def end_drags_def split_beta Let_def)

lemma release_transfers_rest [simp]:
  "rest_part (release_transfers c) = rest_part c" "rest_part (end_drags c) = rest_part c"
  by (simp_all add: release_transfers_def end_drags_def split_beta Let_def)

lemma count_error_window [simp]: "window_part (count_error b status c) = window_part c"
  by (simp add: count_error_def)

lemma count_error_rest [simp]: "rest_part (count_error b status c) = rest_part c"
  by (simp add: count_error_def)

lemma enforce_and_count_window [simp]: "window_part (snd (enforce_and_count result c)) = window_part c"
  by (simp add: enforce_and_count_def Let_def)

lemma enforce_and_count_rest [simp]: "rest_part (snd (enforce_and_count result c)) = rest_part c"
  by (simp add: enforce_and_count_def Let_def)

lemma bound_range_window [simp]: "window_part (snd (bound_range result c)) = window_part c"
  by (simp add: bound_range_def)

lemma bound_range_rest [simp]: "rest_part (snd (bound_range result c)) = rest_part c"
  by (simp add: bound_range_def)

lemma readLocal_window [simp]:
  "window_part (module_of (readLocal env request c x)) = window_part c"
  "window_part (module_of (readLocalFileRange env wanted c x)) = window_part c"
  by (simp_all add: readLocal_def read_from_source_def enforce_and_count_def readLocalFileRange_def
      split_beta Let_def split: option.splits)

lemma readLocal_rest [simp]:
  "rest_part (module_of (readLocal env request c x)) = rest_part c"
  "rest_part (module_of (readLocalFileRange env wanted c x)) = rest_part c"
  by (simp_all add: readLocal_def read_from_source_def enforce_and_count_def readLocalFileRange_def
      split_beta Let_def split: option.splits)

lemma lock_window [simp]:
  "window_part (module_of (lockLocalObject env request c x)) = window_part c"
  "window_part (snd (unlockLocalObject request c)) = window_part c"
  by (simp_all add: lockLocalObject_def unlockLocalObject_def split_beta Let_def)

lemma lock_rest [simp]:
  "rest_part (module_of (lockLocalObject env request c x)) = rest_part c"
  "rest_part (snd (unlockLocalObject request c)) = rest_part c"
  by (simp_all add: lockLocalObject_def unlockLocalObject_def split_beta Let_def)

lemma request_window [simp]:
  "window_part (fst (handleReadRequest env packet request c x)) = id_taken (window_part c)"
  "window_part (fst (handleObjectLockRequest env packet lock c x)) = id_taken (window_part c)"
  "window_part (fst (handleObjectUnlockRequest env packet lock c x)) = id_taken (window_part c)"
  by (simp_all add: handleReadRequest_def handleObjectLockRequest_def handleObjectUnlockRequest_def
      split_beta Let_def)

lemma request_rest [simp]:
  "rest_part (fst (handleReadRequest env packet request c x)) = rest_part c"
  "rest_part (fst (handleObjectLockRequest env packet lock c x)) = rest_part c"
  "rest_part (fst (handleObjectUnlockRequest env packet lock c x)) = rest_part c"
  by (simp_all add: handleReadRequest_def handleObjectLockRequest_def handleObjectUnlockRequest_def
      split_beta Let_def)

lemma read_answer_window [simp]:
  "window_part (snd (read_answer ops packet c)) = window_part c"
  "window_part (snd (range_answer ops packet c)) = window_part c"
  "window_part (snd (trackedObjectLockResult ops packet op c)) = window_part c"
  by (simp_all add: read_answer_def range_answer_def trackedObjectLockResult_def split_beta Let_def
      split: sum.split fdcl_message.split option.split)

lemma read_answer_rest [simp]:
  "rest_part (snd (read_answer ops packet c)) = rest_part c"
  "rest_part (snd (range_answer ops packet c)) = rest_part c"
  "rest_part (snd (trackedObjectLockResult ops packet op c)) = rest_part c"
  by (simp_all add: read_answer_def range_answer_def trackedObjectLockResult_def split_beta Let_def
      split: sum.split fdcl_message.split option.split)

lemma tracked_window [simp]:
  "window_part (handleTrackedReadResponse ops packet c) = window_part c"
  "window_part (fst (handleTrackedFileRangeResponse env packet c x)) = window_part c"
  "window_part (handleTrackedObjectLockResponse ops packet c) = window_part c"
  "window_part (handleTrackedObjectUnlockResponse ops packet c) = window_part c"
  by (simp_all add: handleTrackedReadResponse_def handleTrackedFileRangeResponse_def
      handleTrackedObjectLockResponse_def handleTrackedObjectUnlockResponse_def split_beta Let_def)

lemma tracked_rest [simp]:
  "rest_part (handleTrackedReadResponse ops packet c) = rest_part c"
  "rest_part (fst (handleTrackedFileRangeResponse env packet c x)) = rest_part c"
  "rest_part (handleTrackedObjectLockResponse ops packet c) = rest_part c"
  "rest_part (handleTrackedObjectUnlockResponse ops packet c) = rest_part c"
  by (simp_all add: handleTrackedReadResponse_def handleTrackedFileRangeResponse_def
      handleTrackedObjectLockResponse_def handleTrackedObjectUnlockResponse_def split_beta Let_def)

lemma run_clip_handlers_window [simp]: "window_part (fst (run_clip_handlers env calls c x)) = window_part c"
  by (induction env calls c x rule: run_clip_handlers.induct)
    (simp_all add: split_beta Let_def split: clip_handler.splits)

lemma run_clip_handlers_rest [simp]: "rest_part (fst (run_clip_handlers env calls c x)) = rest_part c"
  by (induction env calls c x rule: run_clip_handlers.induct)
    (simp_all add: split_beta Let_def split: clip_handler.splits)

lemma clip_complete_window [simp]:
  "window_part (module_of (clip_complete env packet c x)) = window_part c"
  "window_part (module_of (expirePendingReads env now c x)) = window_part c"
  "window_part (fst (handleReadResponse env packet c x)) = window_part c"
  "window_part (fst (handleCancel env cancel c x)) = window_part c"
  by (simp_all add: clip_complete_def expirePendingReads_def handleReadResponse_def handleCancel_def
      split_beta Let_def)

lemma dispatch_window [simp]:
  "window_part (module_of (dispatch_tracked env handler note counter m payload timeout now c x)) = window_part c"
  by (simp add: dispatch_tracked_def split_beta Let_def)

lemma requests_window [simp]:
  "window_part (module_of (requestRemoteFormatTracked env q timeout now c x)) = window_part c"
  "window_part (module_of (requestRemoteFormat env q timeout now c x)) = window_part c"
  "window_part (module_of (requestRemoteFileRangeTracked env wanted timeout now c x)) = window_part c"
  "window_part (module_of (requestRemoteObjectLockTracked env lk timeout now c x)) = window_part c"
  "window_part (module_of (requestRemoteObjectUnlockTracked env lk timeout now c x)) = window_part c"
  by (simp_all add: requestRemoteFormatTracked_def requestRemoteFormat_def
      requestRemoteFileRangeTracked_def requestRemoteObjectLockTracked_def
      requestRemoteObjectUnlockTracked_def split_beta Let_def)

lemma sendCancel_window [simp]:
  "window_part (module_of (sendCancel env cancel timeout now c x)) =
     (if cm_state c \<noteq> MS_Running \<or> cn_correlationId cancel = 0 \<or> cn_bundleId cancel = 0 \<or>
         cn_offerId cancel = 0 \<or> cn_ownerEpoch cancel = 0 then window_part c else id_taken (window_part c))"
  by (simp add: sendCancel_def split_beta Let_def)

lemma sendCancel_rest [simp]:
  "rest_part (module_of (sendCancel env cancel timeout now c x)) = rest_part c"
  by (simp add: sendCancel_def split_beta Let_def)

lemma send_drag_window [simp]:
  "window_part (module_of (sendRemoteDragStart env begun c x)) = window_part c"
  "window_part (module_of (sendRemoteDragMove env point c x)) = window_part c"
  "window_part (module_of (sendRemoteDragDrop env point c x)) = window_part c"
  "window_part (module_of (sendRemoteDragCancel env gone c x)) = window_part c"
  by (simp_all add: sendRemoteDragStart_def sendRemoteDragMove_def sendRemoteDragDrop_def
      sendRemoteDragCancel_def sendDragEvent_def split_beta Let_def)

lemma send_drag_rest [simp]:
  "rest_part (module_of (sendRemoteDragStart env begun c x)) = rest_part c"
  "rest_part (module_of (sendRemoteDragMove env point c x)) = rest_part c"
  "rest_part (module_of (sendRemoteDragDrop env point c x)) = rest_part c"
  "rest_part (module_of (sendRemoteDragCancel env gone c x)) = rest_part c"
  by (simp_all add: sendRemoteDragStart_def sendRemoteDragMove_def sendRemoteDragDrop_def
      sendRemoteDragCancel_def sendDragEvent_def split_beta Let_def)

lemma handle_drag_window [simp]:
  "window_part (fst (handleDragStart env begun c x)) = window_part c"
  "window_part (fst (handleDragMove env point c x)) = window_part c"
  "window_part (fst (handleDragDrop env point c x)) = window_part c"
  "window_part (fst (handleDragCancel env gone c x)) = window_part c"
  by (simp_all add: handleDragStart_def handleDragMove_def handleDragDrop_def handleDragCancel_def
      split_beta Let_def split: option.split)

lemma handle_drag_rest [simp]:
  "rest_part (fst (handleDragStart env begun c x)) = rest_part c"
  "rest_part (fst (handleDragMove env point c x)) = rest_part c"
  "rest_part (fst (handleDragDrop env point c x)) = rest_part c"
  "rest_part (fst (handleDragCancel env gone c x)) = rest_part c"
  by (simp_all add: handleDragStart_def handleDragMove_def handleDragDrop_def handleDragCancel_def
      split_beta Let_def split: option.split)

section \<open>The window accounts for what is unacknowledged\<close>

text \<open>
  \<open>window_ok limit n p\<close>: at most than \<open>n\<close> response ids are taken, the reservations are of responses sent,
  and the bytes in flight are the sum of the reservations, at most \<open>limit\<close> (0 without a window).
\<close>

definition reserved_bytes :: "(message_id, u64) std_map \<Rightarrow> nat" where
  "reserved_bytes m = sum_list (map (\<lambda>(_, bytes). unat bytes) m)"

definition window_ok :: "u64 \<Rightarrow> nat \<Rightarrow> window_part \<Rightarrow> bool" where
  "window_ok limit n p \<longleftrightarrow> (case p of (window, reservations, nextId) \<Rightarrow>
     unat nextId \<le> n \<and> nextId \<noteq> 0 \<and> map_ok reservations \<and>
     list_all (\<lambda>(k, _). k < nextId) reservations \<and>
     (case window of
        None \<Rightarrow> limit = 0 \<and> reservations = []
      | Some w \<Rightarrow> limit \<noteq> 0 \<and> dw_maxInFlightBytes w = limit \<and> dw_inFlightBytes w \<le> limit \<and>
          unat (dw_inFlightBytes w) = reserved_bytes reservations))"

lemma window_ok_later: "window_ok limit n p \<Longrightarrow> n \<le> m \<Longrightarrow> window_ok limit m p"
  by (auto simp: window_ok_def split: prod.splits)

lemma next_id:
  fixes i :: u64
  assumes "unat i \<le> n" and "n < 2 ^ 64 - 1"
  shows "unat (i + 1) = unat i + 1"
  using assms by (subst unat_add_lem [THEN iffD1]) simp_all

lemma window_ok_id_taken:
  assumes "window_ok limit n p" and "n < 2 ^ 64 - 1"
  shows "window_ok limit (n + 1) (id_taken p)"
proof -
  obtain w m i where p: "p = (w, m, i)" by (cases p)
  have i: "unat (i + 1) = unat i + 1"
    using assms by (intro next_id [of _ n]) (auto simp: p window_ok_def)
  show ?thesis
    using assms(1) i
    by (auto simp: p id_taken_def window_ok_def list_all_iff word_less_nat_alt
        split: option.splits)
qed

lemma reserved_bytes_put:
  "map_find m k = None \<Longrightarrow> reserved_bytes (map_put k b m) = reserved_bytes m + unat b"
  by (induction k b m rule: map_put.induct) (auto simp: reserved_bytes_def split: if_splits)

lemma reserved_bytes_erase:
  assumes "map_ok m" and "map_find m k = Some b"
  shows "reserved_bytes m = reserved_bytes (map_erase k m) + unat b"
  using assms
proof (induction m)
  case (Cons e m)
  have ok: "map_ok m" and less: "\<forall>k' \<in> set (map fst m). fst e < k'"
    using Cons.prems by (auto simp: map_ok_def)
  show ?case
  proof (cases "fst e = k")
    case True
    then have "map_find m k = None" using less by (auto simp: map_of_eq_None_iff)
    then have "map_erase k m = m" by (rule map_erase_absent)
    with True Cons.prems(2) show ?thesis
      by (cases e) (simp add: reserved_bytes_def map_erase_def)
  next
    case False
    with Cons.prems(2) Cons.IH [OF ok] show ?thesis
      by (cases e) (simp add: reserved_bytes_def map_erase_def)
  qed
qed simp

lemma release_held:
  assumes "b \<le> dw_inFlightBytes w"
  shows "dw_inFlightBytes (release b w) = dw_inFlightBytes w - b"
  using assms by (simp add: release_def Let_def not_less [symmetric])

lemma window_ok_release:
  assumes "window_ok limit n (w, m, i)" and "map_find m k = Some b"
  shows "window_ok limit n (map_option (release b) w, map_erase k m, i)"
proof (cases w)
  case None
  with assms show ?thesis by (simp add: window_ok_def)
next
  case (Some v)
  have sum: "unat (dw_inFlightBytes v) = reserved_bytes (map_erase k m) + unat b"
    using assms reserved_bytes_erase [of m k b] by (simp add: window_ok_def Some)
  then have "b \<le> dw_inFlightBytes v" by (simp add: word_le_nat_alt)
  then have "dw_inFlightBytes (release b v) = dw_inFlightBytes v - b"
    and "unat (dw_inFlightBytes v - b) = reserved_bytes (map_erase k m)"
    using sum by (simp_all add: release_held unat_sub)
  moreover have "dw_inFlightBytes v - b \<le> dw_maxInFlightBytes v"
    using assms(1) \<open>b \<le> dw_inFlightBytes v\<close>
    by (auto simp: window_ok_def Some word_le_nat_alt unat_sub)
  moreover have "map_ok (map_erase k m)" "list_all (\<lambda>(k, _). k < i) (map_erase k m)"
    using assms(1) smap.ok_erase [of m k] by (auto simp: window_ok_def list_all_iff map_erase_def)
  ultimately show ?thesis
    using assms(1) by (simp add: window_ok_def Some)
qed

lemma fold_release:
  assumes "unat (dw_inFlightBytes w) = reserved_bytes m"
  shows "dw_inFlightBytes (fold (\<lambda>item. release (snd item)) m w) = 0 \<and>
    dw_maxInFlightBytes (fold (\<lambda>item. release (snd item)) m w) = dw_maxInFlightBytes w"
  using assms
proof (induction m arbitrary: w)
  case (Cons e m)
  have "snd e \<le> dw_inFlightBytes w"
    using Cons.prems by (cases e) (simp add: word_le_nat_alt reserved_bytes_def)
  moreover from this have "unat (dw_inFlightBytes w - snd e) = reserved_bytes m"
    using Cons.prems by (cases e) (simp add: unat_sub reserved_bytes_def)
  ultimately show ?case
    using Cons.IH [of "release (snd e) w"] by (simp add: release_held)
qed (simp add: reserved_bytes_def unat_eq_0)

lemma releaseAll_window:
  assumes "window_ok limit n (window_part c)"
  shows "window_ok limit n (window_part (releaseAllLargeDataReservations c))"
    "cm_reservations (releaseAllLargeDataReservations c) = []"
    "case cm_window (releaseAllLargeDataReservations c) of None \<Rightarrow> True | Some w \<Rightarrow> dw_inFlightBytes w = 0"
  using assms fold_release [of _ "cm_reservations c"]
  by (auto simp: releaseAllLargeDataReservations_def window_ok_def window_part_def reserved_bytes_def
      split: option.splits)

lemma handleLargeDataAck_window:
  "window_ok limit n (window_part c) \<Longrightarrow> window_ok limit n (window_part (handleLargeDataAck packet c))"
  using window_ok_release [of limit n "cm_window c" "cm_reservations c" "cm_nextResponseMessageId c"]
  by (auto simp: handleLargeDataAck_def releaseLargeDataReservation_def window_part_def
      split: option.splits)

text \<open>A large response takes a fresh id, reserves its bytes and, once sent, is noted.\<close>

lemma reserve_adds:
  assumes "dw_maxInFlightBytes w \<noteq> 0" and "wr_status (fst (reserve b w)) = RS_Ok"
  shows "dw_maxInFlightBytes (snd (reserve b w)) = dw_maxInFlightBytes w"
    "unat (dw_inFlightBytes (snd (reserve b w))) = unat (dw_inFlightBytes w) + unat b"
    "dw_inFlightBytes (snd (reserve b w)) \<le> dw_maxInFlightBytes w"
proof -
  have room: "unat (dw_inFlightBytes w) + unat b \<le> unat (dw_maxInFlightBytes w)"
    using assms by (simp add: reserve_ok_iff)
  then have "unat (dw_inFlightBytes w + b) = unat (dw_inFlightBytes w) + unat b"
    using unsigned_less [of "dw_maxInFlightBytes w", where 'a = nat]
    by (subst unat_add_lem [symmetric]) simp
  with room assms(2) show "dw_maxInFlightBytes (snd (reserve b w)) = dw_maxInFlightBytes w"
    "unat (dw_inFlightBytes (snd (reserve b w))) = unat (dw_inFlightBytes w) + unat b"
    "dw_inFlightBytes (snd (reserve b w)) \<le> dw_maxInFlightBytes w"
    by (simp_all add: reserve_effect word_le_nat_alt)
qed

lemma fresh_id:
  fixes i :: message_id
  assumes "list_all (\<lambda>(k, _). k < i) m"
  shows "map_find m i = None"
  using assms by (force simp: map_of_eq_None_iff list_all_iff)

lemma window_ok_reserved:
  assumes "window_ok limit n (Some w, m, i)" and "n < 2 ^ 64 - 1"
    and "wr_status (fst (reserve b w)) = RS_Ok"
  shows "window_ok limit (n + 1) (Some (snd (reserve b w)), map_put i b m, i + 1)"
proof -
  have i: "unat (i + 1) = unat i + 1"
    using assms(1,2) by (intro next_id [of _ n]) (auto simp: window_ok_def)
  have fresh: "map_find m i = None"
    using assms(1) by (intro fresh_id) (simp add: window_ok_def)
  have "list_all (\<lambda>(k, _). k < i + 1) (map_put i b m)"
  proof -
    have "set (map fst (map_put i b m)) = insert i (set (map fst m))" by (rule map_put_keys)
    then have "\<forall>k \<in> set (map fst (map_put i b m)). k < i + 1"
      using assms(1) i by (auto simp: window_ok_def list_all_iff word_less_nat_alt)
    then show ?thesis by (auto simp: list_all_iff)
  qed
  moreover have "map_ok (map_put i b m)" and "i + 1 \<noteq> 0"
    using assms(1) i by (auto simp: window_ok_def map_ok_put)
  ultimately show ?thesis
    using assms(1) i reserve_adds [OF _ assms(3)] reserved_bytes_put [OF fresh]
    by (simp add: window_ok_def)
qed

lemma give_back:
  assumes "dw_maxInFlightBytes w \<noteq> 0" and "wr_status (fst (reserve b w)) = RS_Ok"
  shows "dw_inFlightBytes (release b (snd (reserve b w))) = dw_inFlightBytes w"
proof -
  have "b \<le> dw_inFlightBytes (snd (reserve b w))"
    using reserve_adds [OF assms] by (simp add: word_le_nat_alt)
  then show ?thesis using assms(2) by (simp add: release_held reserve_effect)
qed

lemma window_ok_same_flight:
  assumes "window_ok limit n (Some w, m, i)" and "dw_inFlightBytes v = dw_inFlightBytes w"
    and "dw_maxInFlightBytes v = dw_maxInFlightBytes w"
  shows "window_ok limit n (Some v, m, i)"
  using assms by (simp add: window_ok_def)

lemma send_scheduled_window:
  assumes "window_ok limit n (window_part c)" and "n < 2 ^ 64 - 1" and "pk_messageId response = cm_nextResponseMessageId c"
  shows "window_ok limit (n + 1) (window_part (module_of (send_scheduled env response False b sent_bytes
    (c\<lparr>cm_nextResponseMessageId := cm_nextResponseMessageId c + 1\<rparr>) x)))"
  using window_ok_id_taken [OF assms(1,2)] by (simp add: send_scheduled_def split_beta Let_def)

lemma send_reserved_window:
  assumes "window_ok limit n (window_part c)" and "n < 2 ^ 64 - 1"
    and "pk_messageId response = cm_nextResponseMessageId c"
    and w: "cm_window c = Some w" and ok: "wr_status (fst (reserve b w)) = RS_Ok"
  shows "window_ok limit (n + 1) (window_part (module_of (send_scheduled env response True b sent_bytes
    (c\<lparr>cm_nextResponseMessageId := cm_nextResponseMessageId c + 1, cm_window := Some (snd (reserve b w))\<rparr>) x)))"
proof -
  let ?i = "cm_nextResponseMessageId c" and ?m = "cm_reservations c"
  let ?c = "c\<lparr>cm_nextResponseMessageId := ?i + 1, cm_window := Some (snd (reserve b w))\<rparr>"
  have part: "window_ok limit n (Some w, ?m, ?i)" using assms(1) w by (simp add: window_part_def)
  then have some: "dw_maxInFlightBytes w \<noteq> 0" and i: "?i \<noteq> 0" by (simp_all add: window_ok_def)
  have sent: "window_ok limit (n + 1) (Some (snd (reserve b w)), map_put ?i b ?m, ?i + 1)"
    by (rule window_ok_reserved [OF part assms(2) ok])
  have "window_ok limit (n + 1) (Some w, ?m, ?i + 1)"
    using window_ok_id_taken [OF part assms(2)] by (simp add: id_taken_def)
  then have empty: "window_ok limit (n + 1) (Some (release b (snd (reserve b w))), ?m, ?i + 1)"
    by (rule window_ok_same_flight) (simp_all add: give_back [OF some ok] reserve_effect)
  have zero: "b = 0 \<Longrightarrow> window_ok limit (n + 1) (Some (snd (reserve b w)), ?m, ?i + 1)"
    using \<open>window_ok limit (n + 1) (Some w, ?m, ?i + 1)\<close> by (rule window_ok_same_flight) (simp_all add: reserve_effect)
  have keep: "window_part (module_of (clip_send env response ?c x)) = (Some (snd (reserve b w)), ?m, ?i + 1)"
    by (simp add: window_part_def [of ?c])
  show ?thesis
    using keep sent empty zero assms(3) i
    by (auto simp: send_scheduled_def split_beta Let_def trackLargeDataReservation_def window_part_def)
qed

lemma window_ok_error:
  assumes "window_ok limit n (window_part c)" and "n < 2 ^ 64 - 1"
  shows "window_ok limit (n + 1) (window_part (module_of (sendErrorResponse env request status m c x)))"
  using window_ok_id_taken [OF assms] by simp

lemma response_envelope_id:
  "fst (response_envelope kind status request c) =
     (fst (response_envelope kind status request c))\<lparr>pk_messageId := cm_nextResponseMessageId c\<rparr>"
  "snd (response_envelope kind status request c) =
     c\<lparr>cm_nextResponseMessageId := cm_nextResponseMessageId c + 1\<rparr>"
  by (simp_all add: response_envelope_def)

lemma pk_messageId_response [simp]:
  "pk_messageId (fst (response_envelope kind status request c)) = cm_nextResponseMessageId c"
  "pk_messageId (applyClipboardLargeDataSchedule schedule packet) = pk_messageId packet"
  by (simp_all add: response_envelope_def applyClipboardLargeDataSchedule_def)

lemma sendFileRangeResponse_window:
  assumes ok: "window_ok limit n (window_part c)" and n: "n < 2 ^ 64 - 2"
  shows "window_ok limit (n + 2) (window_part (module_of (sendFileRangeResponse env request q result c x)))"
proof -
  let ?c = "c\<lparr>cm_nextResponseMessageId := cm_nextResponseMessageId c + 1\<rparr>"
  have one: "window_ok limit (n + 1) p \<Longrightarrow> window_ok limit (n + 2) p" for p
    by (erule window_ok_later) simp
  have taken: "window_ok limit (n + 1) (id_taken (window_part c))"
    using window_ok_id_taken [OF ok] n by simp
  have late: "window_ok limit (n + 2) (id_taken (id_taken (window_part c)))"
    using window_ok_id_taken [OF taken] n by simp
  have plain: "window_ok limit (n + 2) (window_part (module_of (send_scheduled env response False b k ?c x)))"
    if "pk_messageId response = cm_nextResponseMessageId c" for response b k
    by (rule one, rule send_scheduled_window [OF ok _ that]) (use n in simp)
  have kept: "window_ok limit (n + 2) (window_part (module_of (send_scheduled env response True b k
      (c\<lparr>cm_nextResponseMessageId := cm_nextResponseMessageId c + 1,
         cm_window := Some (snd (reserve b w))\<rparr>) x)))"
    if "pk_messageId response = cm_nextResponseMessageId c" "cm_window c = Some w"
      "wr_status (fst (reserve b w)) = RS_Ok" for response b k w
    by (rule one, rule send_reserved_window [OF ok _ that]) (use n in simp)
  show ?thesis
    unfolding sendFileRangeResponse_def Let_def split_beta response_envelope_id(2)
    by (simp add: one [OF taken] late plain kept split: option.split del: add_2_eq_Suc')
qed

lemma handleFileRangeRequest_window:
  assumes ok: "window_ok limit n (window_part c)" and n: "n < 2 ^ 64 - 2"
  shows "window_ok limit (n + 2) (window_part (fst (handleFileRangeRequest env packet request c x)))"
proof -
  have "window_ok limit (n + 2) (id_taken (window_part c))"
    using window_ok_id_taken [OF ok] n by (auto intro: window_ok_later)
  then show ?thesis
    using sendFileRangeResponse_window [OF _ n, of limit "module_of (readLocalFileRange env request
        (bump ck_fileRangeRequestsReceived_update c) x)" env packet request] ok
    by (auto simp: handleFileRangeRequest_def split_beta Let_def simp del: add_2_eq_Suc')
qed

lemma handle_message_window:
  assumes ok: "window_ok limit n (window_part c)" and n: "n < 2 ^ 64 - 2"
    and "handle_message env packet message c x = Some cx"
  shows "window_ok limit (n + 2) (window_part (fst cx))"
proof -
  have "window_ok limit (n + 2) (window_part c)" "window_ok limit (n + 2) (id_taken (window_part c))"
    using ok window_ok_id_taken [OF ok] n by (auto intro: window_ok_later)
  with assms(3) handleFileRangeRequest_window [OF ok n] show ?thesis
    by (auto simp: handle_message_def split: if_splits fdcl_message.splits)
qed

lemma clip_handlePacket_window:
  assumes ok: "window_ok limit n (window_part c)" and n: "n < 2 ^ 64 - 2"
  shows "window_ok limit (n + 2) (window_part (fst (clip_handlePacket env packet c x)))"
proof -
  have "window_ok limit (n + 2) (window_part c)" "window_ok limit (n + 2) (id_taken (window_part c))"
    using ok window_ok_id_taken [OF ok] n by (auto intro: window_ok_later)
  moreover from handleLargeDataAck_window [OF ok]
  have "window_ok limit (n + 2) (window_part (handleLargeDataAck packet c))" by (rule window_ok_later) simp
  ultimately show ?thesis
    using handle_message_window [OF ok n]
    by (auto simp: clip_handlePacket_def refuse_request_def Let_def split: sum.split option.split)
qed

section \<open>Runs of a module\<close>

datatype ('r, 'd) clip_op =
    Attach module_runtime
  | Start
  | Stop
  | Detach
  | Pause reconnect_options
  | Resume reconnect_options
  | Receive packet_envelope
  | AnnounceBundle "('r transfer_source, 'd presentation) source_bundle"
  | AnnounceSnapshot
  | RequestFormat fdcl_read_request u32 u64
  | RequestFileRange fdcl_range_request u32 u64
  | RequestLock fdcl_object_lock u32 u64
  | RequestUnlock fdcl_object_lock u32 u64
  | ExpireReads u64
  | SendCancel fdcl_cancel u32 u64
  | SendDragStart "'d drag_start"
  | SendDragMove "'d drag_point"
  | SendDragDrop "'d drag_point"
  | SendDragCancel fdcl_drag_cancel

fun clip_step ::
    "('c, 'r, 'd, 'w) clip_env \<Rightarrow> ('r, 'd) clip_op \<Rightarrow> ('r, 'd, 'c, 's, 'w) clip_state \<Rightarrow>
     ('r, 'd, 'c, 's, 'w) clip_state" where
  "clip_step env (Attach rt) (c, x) = (snd (clip_attach rt c), x)"
| "clip_step env Start (c, x) = snd (clip_start c x)"
| "clip_step env Stop (c, x) = clip_stop c x"
| "clip_step env Detach (c, x) = (clip_detach c, x)"
| "clip_step env (Pause options) (c, x) = clip_pause env options c x"
| "clip_step env (Resume options) (c, x) = clip_resume env options c x"
| "clip_step env (Receive packet) (c, x) = clip_handlePacket env packet c x"
| "clip_step env (AnnounceBundle bundle) (c, x) = snd (announceLocalBundle env bundle c x)"
| "clip_step env AnnounceSnapshot (c, x) = snd (announceLocalSnapshot env c x)"
| "clip_step env (RequestFormat request timeoutMs now) (c, x) =
     snd (requestRemoteFormatTracked env request timeoutMs now c x)"
| "clip_step env (RequestFileRange request timeoutMs now) (c, x) =
     snd (requestRemoteFileRangeTracked env request timeoutMs now c x)"
| "clip_step env (RequestLock request timeoutMs now) (c, x) =
     snd (requestRemoteObjectLockTracked env request timeoutMs now c x)"
| "clip_step env (RequestUnlock request timeoutMs now) (c, x) =
     snd (requestRemoteObjectUnlockTracked env request timeoutMs now c x)"
| "clip_step env (ExpireReads now) (c, x) = snd (expirePendingReads env now c x)"
| "clip_step env (SendCancel cancel timeoutMs now) (c, x) = snd (sendCancel env cancel timeoutMs now c x)"
| "clip_step env (SendDragStart start) (c, x) = snd (sendRemoteDragStart env start c x)"
| "clip_step env (SendDragMove point) (c, x) = snd (sendRemoteDragMove env point c x)"
| "clip_step env (SendDragDrop point) (c, x) = snd (sendRemoteDragDrop env point c x)"
| "clip_step env (SendDragCancel cancelled) (c, x) = snd (sendRemoteDragCancel env cancelled c x)"

lemma life_cycle_window [simp]:
  "window_part (snd (clip_attach rt c)) = window_part c"
  "window_part (module_of (clip_start c x)) = window_part c"
  "window_part (fst (clip_stop c x)) = window_part (releaseAllLargeDataReservations c)"
  "window_part (clip_detach c) = window_part (releaseAllLargeDataReservations c)"
  "window_part (fst (clip_resume env options c x)) = window_part c"
  "window_part (fst (clip_pause env options c x)) =
     window_part (if affectsClipboardChannel options then releaseAllLargeDataReservations c else c)"
  by (simp_all add: clip_attach_def clip_start_def clip_stop_def clip_detach_def clip_resume_def
      clip_pause_def split_beta Let_def)

lemma clip_step_window:
  assumes ok: "window_ok limit n (window_part c)" and n: "n < 2 ^ 64 - 2"
  shows "window_ok limit (n + 2) (window_part (fst (clip_step env operation (c, x))))"
proof -
  have later: "window_ok limit (n + 2) (window_part c)" "window_ok limit (n + 2) (id_taken (window_part c))"
      "window_ok limit (n + 2) (window_part (releaseAllLargeDataReservations c))"
    using ok releaseAll_window(1) [OF ok] window_ok_id_taken [OF ok] n by (auto intro: window_ok_later)
  show ?thesis
    using later clip_handlePacket_window [OF ok n]
    by (cases operation) (simp_all del: add_2_eq_Suc')
qed

lemma clip_run_window:
  assumes "window_ok limit n (window_part c)" and "n + 2 * length operations < 2 ^ 64"
  shows "window_ok limit (n + 2 * length operations) (window_part (fst (fold (clip_step env) operations (c, x))))"
  using assms
proof (induction operations arbitrary: n c x)
  case (Cons operation operations)
  obtain c' x' where step: "clip_step env operation (c, x) = (c', x')" by (cases "clip_step env operation (c, x)")
  have "window_ok limit (n + 2) (window_part c')"
    using clip_step_window [of limit n c env operation x] Cons.prems step by simp
  from Cons.IH [OF this] Cons.prems(2) step show ?case by (simp add: algebra_simps)
qed simp

lemma new_module_window:
  assumes "limit \<noteq> 0"
  shows "window_ok limit 100000 (window_part (new_clipboard_module manifest policy (Some (new_window limit))))"
  using assms
  by (simp add: window_ok_def window_part_def new_clipboard_module_def new_window_def reserved_bytes_def)

section \<open>Our requests are on the small-data channel\<close>

definition on_small_data :: "clip_handler pending_request \<Rightarrow> bool" where
  "on_small_data pending \<longleftrightarrow>
     pk_channelId (pe_request pending) = key_channelId clipboardSmallDataChannelKey \<and>
     pk_channelType (pe_request pending) = key_channelType clipboardSmallDataChannelKey"

definition requests_ok :: "clip_handler tracker \<Rightarrow> bool" where
  "requests_ok t \<longleftrightarrow> tracker_ok t \<and> list_all (\<lambda>e. on_small_data (snd e)) (tk_pending t)"

lemma requests_ok_subset:
  assumes "requests_ok t" and "tracker_ok t'" and "set (tk_pending t') \<subseteq> set (tk_pending t)"
  shows "requests_ok t'"
  using assms by (auto simp: requests_ok_def list_all_iff)

lemma requests_ok_shrinks:
  assumes "requests_ok t"
  shows "requests_ok (snd (snd (complete response t)))" "requests_ok (snd (snd (expire now t)))"
    "requests_ok (snd (snd (cancelByChannel channelId channelType status t)))"
    "requests_ok (snd (nextMessageId t))"
proof -
  have ok: "tracker_ok t" using assms by (simp add: requests_ok_def)
  note subset = requests_ok_subset [OF assms]
  show "requests_ok (snd (snd (complete response t)))"
    by (rule subset [OF complete_ok [OF ok]])
      (auto simp: complete_def map_erase_def split: option.split)
  show "requests_ok (snd (snd (expire now t)))"
    by (rule subset [OF expire_ok [OF ok]]) (auto simp: expire_eq [OF ok] Let_def)
  show "requests_ok (snd (snd (cancelByChannel channelId channelType status t)))"
    by (rule subset [OF cancel_ok [OF ok]]) (auto simp: cancel_eq [OF ok] Let_def)
  show "requests_ok (snd (nextMessageId t))"
    by (rule subset [OF nextMessageId_ok [OF ok]]) (simp add: nextMessageId_def Let_def)
qed

lemma set_map_put: "set (map_put k v m) \<subseteq> insert (k, v) (set m)"
  by (induction k v m rule: map_put.induct) auto

lemma requests_ok_track:
  assumes "requests_ok t" and "packet_key request = clipboardSmallDataChannelKey"
  shows "requests_ok (snd (track request handler t))"
proof -
  have "list_all (\<lambda>e. on_small_data (snd e)) (map_put k pending (tk_pending t))"
    if "on_small_data pending" for k pending
    using assms(1) that set_map_put [of k pending "tk_pending t"]
    by (auto simp: requests_ok_def list_all_iff)
  moreover have "pk_channelId request = key_channelId clipboardSmallDataChannelKey"
    "pk_channelType request = key_channelType clipboardSmallDataChannelKey"
    by (simp_all add: assms(2) [symmetric] packet_key_def)
  ultimately have "list_all (\<lambda>e. on_small_data (snd e)) (tk_pending (snd (track request handler t)))"
    using assms(1) by (simp add: track_def requests_ok_def on_small_data_def split: option.split)
  then show ?thesis using assms(1) by (simp add: requests_ok_def track_ok_inv)
qed

lemma rest_requests:
  "rest_part c' = rest_part c \<Longrightarrow> cm_requests c' = cm_requests c"
  "rest_part c' = rest_part c \<Longrightarrow> cm_runtime c' = cm_runtime c"
  by (simp_all add: rest_part_iff)

lemmas handlers_keep = run_clip_handlers_rest [THEN rest_requests(1)]
  run_clip_handlers_rest [THEN rest_requests(2)]

lemma complete_requests [simp]:
  "cm_requests (module_of (clip_complete env packet c x)) = snd (snd (complete packet (cm_requests c)))"
  "cm_runtime (module_of (clip_complete env packet c x)) = cm_runtime c"
  by (simp_all add: clip_complete_def split_beta Let_def handlers_keep)

lemma expire_requests [simp]:
  "cm_requests (module_of (expirePendingReads env now c x)) = snd (snd (expire now (cm_requests c)))"
  by (simp add: expirePendingReads_def split_beta Let_def handlers_keep)

lemma incoming_requests [simp]:
  "cm_requests (fst (handleReadResponse env packet c x)) = snd (snd (complete packet (cm_requests c)))"
  by (simp add: handleReadResponse_def split_beta Let_def)

lemma handleCancel_requests: "requests_ok (cm_requests c) \<Longrightarrow> requests_ok (cm_requests (fst (handleCancel env cancel c x)))"
  by (simp add: handleCancel_def split_beta Let_def requests_ok_shrinks(1))

lemma clip_packet_key [simp]: "packet_key (clip_packet c kind) = clipboardSmallDataChannelKey"
  by (simp add: clip_packet_def packet_key_def clipboardSmallDataChannelKey_def)

lemma clip_send_requests [simp]:
  "cm_requests (module_of (clip_send env packet c x)) = cm_requests c"
  by (rule rest_requests(1)) simp

lemma dispatch_requests:
  assumes "requests_ok (cm_requests c)"
  shows "requests_ok (cm_requests (module_of (dispatch_tracked env handler note counter m payload timeout now c x)))"
proof -
  have "requests_ok (snd (track packet handler' (snd (nextMessageId (cm_requests c)))))"
    if "packet_key packet = clipboardSmallDataChannelKey" for packet handler'
    by (rule requests_ok_track [OF requests_ok_shrinks(4) [OF assms] that])
  then show ?thesis
    using clip_packet_key [of c MK_Request]
    by (simp add: dispatch_tracked_def split_beta Let_def requests_ok_shrinks(1) packet_key_def)
qed

lemma send_requests:
  assumes "requests_ok (cm_requests c)"
  shows
    "requests_ok (cm_requests (module_of (requestRemoteFormatTracked env q timeout now c x)))"
    "requests_ok (cm_requests (module_of (requestRemoteFileRangeTracked env wanted timeout now c x)))"
    "requests_ok (cm_requests (module_of (requestRemoteObjectLockTracked env lk timeout now c x)))"
    "requests_ok (cm_requests (module_of (requestRemoteObjectUnlockTracked env lk timeout now c x)))"
  using assms
  by (simp_all add: requestRemoteFormatTracked_def requestRemoteFileRangeTracked_def
      requestRemoteObjectLockTracked_def requestRemoteObjectUnlockTracked_def dispatch_requests
      split_beta Let_def)

lemma send_scheduled_rest [simp]:
  "rest_part (module_of (send_scheduled env response reserved b k c x)) = rest_part c"
  by (simp add: send_scheduled_def trackLargeDataReservation_def split_beta Let_def)

lemma sendFileRangeResponse_rest [simp]:
  "rest_part (module_of (sendFileRangeResponse env request q result c x)) = rest_part c"
  by (simp add: sendFileRangeResponse_def response_envelope_id(2) split_beta Let_def split: option.split)

lemma reservations_rest [simp]:
  "rest_part (fst (handleFileRangeRequest env packet request c x)) = rest_part c"
  "rest_part (handleLargeDataAck packet c) = rest_part c"
  "rest_part (releaseAllLargeDataReservations c) = rest_part c"
  by (simp_all add: handleFileRangeRequest_def handleLargeDataAck_def releaseLargeDataReservation_def
      releaseAllLargeDataReservations_def split_beta Let_def split: option.split)

lemma handle_message_requests:
  assumes "requests_ok (cm_requests c)" and "handle_message env packet message c x = Some cx"
  shows "requests_ok (cm_requests (fst cx))"
proof -
  have same: "requests_ok (cm_requests c')" if "rest_part c' = rest_part c" for c'
    using that assms(1) by (simp add: rest_part_iff)
  show ?thesis
    using assms(2) same handleCancel_requests [OF assms(1)]
    by (auto simp: handle_message_def split: if_splits fdcl_message.splits)
qed

lemma handlePacket_requests:
  assumes "requests_ok (cm_requests c)"
  shows "requests_ok (cm_requests (fst (clip_handlePacket env packet c x)))"
proof -
  have same: "requests_ok (cm_requests c')" if "rest_part c' = rest_part c" for c'
    using that assms by (simp add: rest_part_iff)
  show ?thesis
    using assms same requests_ok_shrinks(1) [OF assms] handle_message_requests [OF assms]
    by (auto simp: clip_handlePacket_def refuse_request_def Let_def answer_rest(1) [THEN rest_requests(1)]
        reservations_rest(2) [THEN rest_requests(1)] split: sum.split option.split)
qed

lemma life_cycle_rest [simp]:
  "cm_requests (snd (clip_attach rt c)) = cm_requests c"
  "rest_part (module_of (clip_start c x)) = rest_part c"
  "rest_part (fst (clip_stop c x)) = rest_part c"
  "rest_part (clip_detach c) = rest_part c"
  "rest_part (fst (clip_resume env options c x)) = rest_part c"
  by (simp_all add: clip_attach_def clip_start_def clip_stop_def clip_detach_def clip_resume_def
      split_beta Let_def)

lemma clip_pause_requests:
  "cm_requests (fst (clip_pause env options c x)) =
     (if affectsClipboardChannel options then snd (snd (cancelByChannel
        (key_channelId clipboardSmallDataChannelKey) (key_channelType clipboardSmallDataChannelKey)
        RS_ChannelUnavailable (cm_requests c))) else cm_requests c)"
  by (simp add: clip_pause_def split_beta Let_def handlers_keep reservations_rest(3) [THEN rest_requests(1)]
      release_transfers_rest [THEN rest_requests(1)])

lemma clip_step_requests:
  assumes "requests_ok (cm_requests c)"
  shows "requests_ok (cm_requests (fst (clip_step env operation (c, x))))"
proof -
  have same: "requests_ok (cm_requests c')" if "rest_part c' = rest_part c" for c'
    using that assms by (simp add: rest_part_iff)
  show ?thesis
    using assms handlePacket_requests [OF assms] send_requests [OF assms] requests_ok_shrinks [OF assms]
    by (cases operation) (simp_all add: same clip_pause_requests)
qed

interpretation clip_requests: kept_by_steps "\<lambda>operation. clip_step env operation"
    "\<lambda>cx. requests_ok (cm_requests (fst cx))"
  by unfold_locales (metis clip_step_requests prod.collapse)

section \<open>What pausing and stopping leave\<close>

lemma release_transfers_empties [simp]:
  "sr_entries (cm_registry (release_transfers c)) = []"
  by (auto simp: release_transfers_def releaseAllLocks_def clearAll_def Let_def filter_empty_conv)

lemma end_drags_clears [simp]:
  "ck_activeLocalDragSessionId (cm_snapshot (end_drags c)) = 0"
  "ck_activeRemoteDragSessionId (cm_snapshot (end_drags c)) = 0"
  "cm_registry (end_drags c) = cm_registry c"
  by (simp_all add: end_drags_def)

text \<open>Nothing held for the peer: no offer, no lock, no reservation, no byte in flight, no drag.\<close>

definition holds_nothing :: "('r, 'd) clipboard_module \<Rightarrow> bool" where
  "holds_nothing c \<longleftrightarrow> sr_entries (cm_registry c) = [] \<and> lockCount (cm_registry c) = 0 \<and>
     cm_reservations c = [] \<and> (case cm_window c of None \<Rightarrow> True | Some w \<Rightarrow> dw_inFlightBytes w = 0) \<and>
     ck_activeLocalDragSessionId (cm_snapshot c) = 0 \<and> ck_activeRemoteDragSessionId (cm_snapshot c) = 0"

lemma holds_nothing_released:
  assumes "window_ok limit n (window_part c)"
    and "window_part c' = window_part (releaseAllLargeDataReservations c)"
  shows "holds_nothing (end_drags (release_transfers c'))"
proof -
  have "window_part (end_drags (release_transfers c')) = window_part (releaseAllLargeDataReservations c)"
    using assms(2) by simp
  with releaseAll_window(2,3) [OF assms(1)] show ?thesis
    by (simp add: holds_nothing_def lockCount_def window_part_def)
qed

lemma holds_nothing_state [simp]:
  "holds_nothing (c\<lparr>cm_state := st\<rparr>) = holds_nothing c"
  by (simp add: holds_nothing_def)

lemma stop_holds_nothing:
  assumes "window_ok limit n (window_part c)"
  shows "holds_nothing (fst (clip_stop c x))" "holds_nothing (clip_detach c)"
  using holds_nothing_released [OF assms refl]
  by (simp_all add: clip_stop_def clip_detach_def Let_def)

lemma holds_nothing_snapshot:
  "holds_nothing c \<Longrightarrow> holds_nothing (on_snapshot (\<lambda>s. s\<lparr>ck_timeoutFailures := f s\<rparr>) c)"
  by (simp add: holds_nothing_def)

lemma pause_holds_nothing:
  assumes "window_ok limit n (window_part c)" and "affectsClipboardChannel options"
  shows "holds_nothing (fst (clip_pause env options c x))"
  using assms(2)
  by (auto simp: clip_pause_def split_beta Let_def
      intro!: holds_nothing_snapshot holds_nothing_released [OF assms(1)])

lemma cancel_all:
  assumes "requests_ok t"
  shows "tk_pending (snd (snd (cancelByChannel (key_channelId clipboardSmallDataChannelKey)
     (key_channelType clipboardSmallDataChannelKey) status t))) = []"
  using assms
  by (auto simp: requests_ok_def cancel_eq Let_def filter_empty_conv list_all_iff on_small_data_def)

lemma pause_leaves_no_request:
  assumes "requests_ok (cm_requests c)" and "affectsClipboardChannel options"
  shows "tk_pending (cm_requests (fst (clip_pause env options c x))) = []"
  using cancel_all [OF assms(1)] assms(2) by (simp add: clip_pause_requests)

end
