(* ===== verification/Clipboard_Safety.thy ===== *)
theory Clipboard_Safety
  imports Clipboard_Accounts Fdcl_Roundtrip Module_Catalog
begin

text \<open>
  What a clipboard module promises to its peer and its owner: every request is answered once, a read
  gives no more than the offer, the policy and the asker allow, and arrives as it was read; and which
  of its own and of the peer's offers and requests an id can be taken for.
\<close>

section \<open>Every request is answered\<close>

text \<open>
  \<open>answers_request\<close>: the packet is an answer to the request, addressed and correlated to it, either a
  response with the status Ok or an error with another one.
\<close>

definition answers_request :: "packet_envelope \<Rightarrow> packet_envelope \<Rightarrow> bool" where
  "answers_request request response \<longleftrightarrow> pk_responseTo response = pk_messageId request \<and>
     pk_correlationId response =
       (if pk_correlationId request \<noteq> 0 then pk_correlationId request else pk_messageId request) \<and>
     pk_packetType response = PT_Clipboard \<and>
     (pk_messageKind response = MK_Response \<and> pk_responseStatus response = RS_Ok \<or>
      pk_messageKind response = MK_Error \<and> pk_responseStatus response \<noteq> RS_Ok)"

text \<open>
  What an operation may do to the rest of the world before it sends: nothing, or one call of a method
  of a source of the platform that reads contents, a format or a range of a file. In particular it may
  not send: the channels are not touched.
\<close>

definition at_most_one_read :: "('c, 'r, 'd, 'w) clip_env \<Rightarrow> 'w \<Rightarrow> 'w \<Rightarrow> bool" where
  "at_most_one_read env w w' \<longleftrightarrow> w' = w \<or>
     (\<exists>source request. w' = snd (ts_read (ce_sources env) source request w)) \<or>
     (\<exists>source readFileRange request. ce_files env source = Some readFileRange \<and>
        w' = snd (readFileRange request w))"

text \<open>The network and the sink are as they were, the rest as it was or after one read.\<close>

definition same_links ::
    "('c, 'r, 'd, 'w) clip_env \<Rightarrow> ('c, 's, 'w) session_world \<Rightarrow> ('c, 's, 'w) session_world \<Rightarrow> bool" where
  "same_links env x x' \<longleftrightarrow> sw_network x' = sw_network x \<and> sw_sink x' = sw_sink x \<and>
     at_most_one_read env (sw_rest x) (sw_rest x')"

text \<open>
  \<open>sends_one p\<close>: the world after an operation is the world before it, after at most one read of a
  source, with one packet given to the network, and that packet satisfies \<open>p\<close>. An earlier packet is
  excluded on both ways out: the manager, if there is one, is the one before the operation, and so are
  the channels behind \<open>sw_rest\<close>, up to that read.
\<close>

definition sends_one ::
    "('c, 'r, 'd, 'w) clip_env \<Rightarrow> module_runtime \<Rightarrow> (packet_envelope \<Rightarrow> bool) \<Rightarrow> ('c, 's, 'w) session_world \<Rightarrow>
     ('c, 's, 'w) session_world \<Rightarrow> bool" where
  "sends_one env rt p x x' \<longleftrightarrow> (\<exists>response before. p response \<and> same_links env x before \<and>
     x' = snd (clip_transmit (ce_channels env) rt response before))"

lemma no_read [simp]: "at_most_one_read env w w"
  by (simp add: at_most_one_read_def)

lemma same_links_refl [simp]: "same_links env x x"
  by (simp add: same_links_def)

lemma any_source_reads [simp]:
  "at_most_one_read env w (snd (ts_read (any_source (ce_sources env)) source request w))"
  by (cases source) (auto simp: any_source_def at_most_one_read_def)

lemma file_provider_reads:
  assumes "file_provider env source = Some readFileRange"
  shows "at_most_one_read env w (snd (readFileRange request w))"
proof (cases source)
  case (LocalSource r)
  then have "ce_files env r = Some readFileRange" using assms by (simp add: file_provider_def)
  then show ?thesis unfolding at_most_one_read_def by blast
qed (use assms in \<open>simp add: file_provider_def\<close>)

lemma lock_entry_reads [simp]:
  "at_most_one_read env w (snd (snd (snd (lock_entry (any_source (ce_sources env)) request entry n w))))"
  by (simp add: lock_entry_def validateFileObjectForLock_def split_beta Let_def split: option.split)

lemma lock_entries_reads [simp]:
  "at_most_one_read env w (snd (snd (snd (lock_entries (any_source (ce_sources env)) request entries n w))))"
  by (induction entries arbitrary: n) (simp_all add: split_beta Let_def)

lemma lockObject_reads [simp]:
  "at_most_one_read env w (snd (snd (lockObject (any_source (ce_sources env)) request reg w)))"
  by (simp add: lockObject_def split_beta Let_def)

lemma sends_one_clip_send:
  assumes "p response" and "same_links env x x'" and "cm_runtime c = rt"
  shows "sends_one env rt p x (world_of (clip_send env response c x'))"
  using assms by (auto simp: sends_one_def same_links_def clip_send_def split_beta Let_def)

lemma sends_error:
  assumes "\<And>response. answers_request request response \<Longrightarrow> pk_messageKind response = MK_Error \<Longrightarrow> p response"
    and "same_links env x x'" and "cm_runtime c = rt" and "status \<noteq> RS_Ok"
  shows "sends_one env rt p x (world_of (sendErrorResponse env request status m c x'))"
proof -
  let ?response = "(fst (response_envelope MK_Error status request c))\<lparr>pk_payload :=
      encodeFdclErrorDetail \<lparr>ed_status = status, ed_message = m\<rparr>\<rparr>"
  have "p ?response"
    by (rule assms(1)) (simp_all add: answers_request_def response_envelope_def clip_packet_def assms(4))
  then have "sends_one env rt p x (world_of (clip_send env ?response (snd (response_envelope MK_Error status request c)) x'))"
    by (rule sends_one_clip_send [OF _ assms(2)]) (simp add: response_envelope_def assms(3))
  then show ?thesis by (simp add: sendErrorResponse_def split_beta Let_def)
qed

text \<open>What a response to a read carries: the content of the current offer the request names, in the
  bounds of both sides.\<close>

definition read_payload_ok ::
    "('c, 'r, 'd, 'w) clip_env \<Rightarrow> fdcl_read_request \<Rightarrow> ('r, 'd) clipboard_module \<Rightarrow> fdcl_read_response \<Rightarrow> bool" where
  "read_payload_ok env request c m \<longleftrightarrow>
     (let bundle = ck_localBundle (cm_snapshot c) in
      ra_bundleId m = sb_bundleId bundle \<and> ra_offerId m = sb_offerId bundle \<and>
      ra_ownerEpoch m = sb_ownerEpoch bundle \<and> ra_sourceId m = rr_sourceId request \<and>
      ra_itemIndex m = rr_itemIndex request \<and> ra_formatId m = rr_formatId request \<and>
      po_allowSendContent (cm_policy c) \<and> policyAllowsCanonicalFormat (cm_policy c) (ra_canonicalFormat m) \<and>
      length (ra_bytes m) \<le> unat (po_maxInlineBytes (cm_policy c)) \<and>
      (rr_acceptedMaxBytes request = 0 \<or> length (ra_bytes m) \<le> unat (rr_acceptedMaxBytes request)))"

lemma enforced_within_policy:
  assumes "rs_status (enforceReadResultPolicy policy result) = RS_Ok"
  shows "enforceReadResultPolicy policy result = result" "rs_status result = RS_Ok"
    "policyAllowsCanonicalFormat policy (rs_canonicalFormat result)"
    "length (rs_bytes result) \<le> unat (po_maxInlineBytes policy)"
  using assms
  by (auto simp: enforceReadResultPolicy_def refuse_read_def Let_def split: if_splits prod.splits)

lemma lookup_Ok_source: "sl_status (lookupSource iface request reg) = RS_Ok \<Longrightarrow> sl_source (lookupSource iface request reg) \<noteq> None"
  by (auto simp: lookupSource_def lookup_failed_def split: option.splits if_splits)

definition bounded_read :: "read_request \<Rightarrow> read_result \<Rightarrow> read_result" where
  "bounded_read request result =
    (if rs_status result = RS_Ok \<and> rq_acceptedMaxBytes request \<noteq> 0 \<and>
        length (rs_bytes result) > unat (rq_acceptedMaxBytes request)
     then refuse_read RS_TooLarge ''clipboard transcoded content exceeds accepted maximum'' result else result)"

lemma read_from_source_result:
  "fst (read_from_source env source descriptor request c x) = enforceReadResultPolicy (cm_policy c)
     (bounded_read request (transcodeReadResultIfNeeded (Some (ce_transcoder env)) descriptor request
       (fst (ts_read (any_source (ce_sources env)) source request (sw_rest x)))))"
  by (simp add: read_from_source_def bounded_read_def enforce_and_count_def split_beta Let_def)

lemma read_from_source_Ok:
  assumes "rs_status (fst (read_from_source env source descriptor request c x)) = RS_Ok"
  shows "policyAllowsCanonicalFormat (cm_policy c)
      (rs_canonicalFormat (fst (read_from_source env source descriptor request c x)))"
    "length (rs_bytes (fst (read_from_source env source descriptor request c x))) \<le> unat (po_maxInlineBytes (cm_policy c))"
    "rq_acceptedMaxBytes request = 0 \<or> length (rs_bytes (fst (read_from_source env source descriptor request c x)))
       \<le> unat (rq_acceptedMaxBytes request)"
proof -
  let ?read = "fst (ts_read (any_source (ce_sources env)) source request (sw_rest x))"
  let ?given = "transcodeReadResultIfNeeded (Some (ce_transcoder env)) descriptor request ?read"
  let ?bounded = "bounded_read request ?given"
  note result = read_from_source_result [of env source descriptor request c x]
  note within = enforced_within_policy [OF assms [unfolded result]]
  have "rs_status ?bounded = RS_Ok" by (rule within(2))
  then have "?bounded = ?given" "rq_acceptedMaxBytes request = 0 \<or>
      length (rs_bytes ?given) \<le> unat (rq_acceptedMaxBytes request)"
    by (auto simp: bounded_read_def refuse_read_def split: if_splits)
  then show "policyAllowsCanonicalFormat (cm_policy c)
      (rs_canonicalFormat (fst (read_from_source env source descriptor request c x)))"
    "length (rs_bytes (fst (read_from_source env source descriptor request c x))) \<le> unat (po_maxInlineBytes (cm_policy c))"
    "rq_acceptedMaxBytes request = 0 \<or> length (rs_bytes (fst (read_from_source env source descriptor request c x)))
       \<le> unat (rq_acceptedMaxBytes request)"
    using within(3,4) unfolding result within(1) by simp_all
qed

lemma bounded_request_accepts:
  "rq_acceptedMaxBytes (bounded_request limit request) =
     (if rq_acceptedMaxBytes request = 0 \<or> rq_acceptedMaxBytes request > limit then limit
      else rq_acceptedMaxBytes request)"
  by (simp add: bounded_request_def)

lemma readLocal_Ok:
  assumes "rs_status (fst (readLocal env request c x)) = RS_Ok"
  shows "rr_bundleId request = sb_bundleId (ck_localBundle (cm_snapshot c))"
    "rr_offerId request = sb_offerId (ck_localBundle (cm_snapshot c))"
    "rr_ownerEpoch request = sb_ownerEpoch (ck_localBundle (cm_snapshot c))"
    "policyAllowsCanonicalFormat (cm_policy c) (rs_canonicalFormat (fst (readLocal env request c x)))"
    "length (rs_bytes (fst (readLocal env request c x))) \<le> unat (po_maxInlineBytes (cm_policy c))"
    "rr_acceptedMaxBytes request = 0 \<or>
     length (rs_bytes (fst (readLocal env request c x))) \<le> unat (rr_acceptedMaxBytes request)"
proof -
  let ?request = "bounded_request (po_maxInlineBytes (cm_policy c)) (makeTransferReadRequest request)"
  obtain source descriptor where read: "readLocal env request c x = read_from_source env source descriptor ?request c x"
    and "rr_bundleId request = sb_bundleId (ck_localBundle (cm_snapshot c))"
    "rr_offerId request = sb_offerId (ck_localBundle (cm_snapshot c))"
    "rr_ownerEpoch request = sb_ownerEpoch (ck_localBundle (cm_snapshot c))"
    using assms lookup_Ok_source [of "any_source (ce_sources env)" ?request "cm_registry c"]
    by (auto simp: readLocal_def read_failed_def Let_def split: if_splits option.splits)
  then show "rr_bundleId request = sb_bundleId (ck_localBundle (cm_snapshot c))"
    "rr_offerId request = sb_offerId (ck_localBundle (cm_snapshot c))"
    "rr_ownerEpoch request = sb_ownerEpoch (ck_localBundle (cm_snapshot c))" by simp_all
  note within = read_from_source_Ok [OF assms [unfolded read]]
  show "policyAllowsCanonicalFormat (cm_policy c) (rs_canonicalFormat (fst (readLocal env request c x)))"
    and short: "length (rs_bytes (fst (readLocal env request c x))) \<le> unat (po_maxInlineBytes (cm_policy c))"
    using within(1,2) by (simp_all add: read)
  have "rq_acceptedMaxBytes (makeTransferReadRequest request) = rr_acceptedMaxBytes request"
    by (simp add: makeTransferReadRequest_def)
  then show "rr_acceptedMaxBytes request = 0 \<or>
     length (rs_bytes (fst (readLocal env request c x))) \<le> unat (rr_acceptedMaxBytes request)"
    using within(3) short
    by (auto simp: read bounded_request_accepts word_less_nat_alt split: if_splits)
qed

lemma readLocal_frame [simp]:
  "cm_runtime (module_of (readLocal env request c x)) = cm_runtime c"
  "same_links env x (world_of (readLocal env request c x))"
proof -
  show "cm_runtime (module_of (readLocal env request c x)) = cm_runtime c"
    by (rule rest_requests(2)) simp
  show "same_links env x (world_of (readLocal env request c x))"
    by (simp add: readLocal_def read_from_source_def split_beta Let_def same_links_def split: option.split)
qed

text \<open>A response with the next id, sent with a payload.\<close>

lemma sends_response:
  assumes "\<And>response. answers_request request response \<Longrightarrow> pk_messageKind response = MK_Response \<Longrightarrow>
      pk_payload response = payload \<Longrightarrow> p response"
    and "same_links env x x'" and "cm_runtime c = rt"
  shows "sends_one env rt p x (world_of (clip_send env
    ((fst (response_envelope MK_Response RS_Ok request c))\<lparr>pk_payload := payload\<rparr>)
    (snd (response_envelope MK_Response RS_Ok request c)) x'))"
proof (rule sends_one_clip_send [OF _ assms(2)])
  show "p ((fst (response_envelope MK_Response RS_Ok request c))\<lparr>pk_payload := payload\<rparr>)"
    by (rule assms(1)) (simp_all add: answers_request_def response_envelope_def clip_packet_def)
qed (simp add: response_envelope_def assms(3))

definition is_read_answer ::
    "('c, 'r, 'd, 'w) clip_env \<Rightarrow> packet_envelope \<Rightarrow> fdcl_read_request \<Rightarrow> ('r, 'd) clipboard_module \<Rightarrow>
     packet_envelope \<Rightarrow> bool" where
  "is_read_answer env packet request c response \<longleftrightarrow> answers_request packet response \<and>
     (pk_messageKind response = MK_Error \<or>
      (\<exists>m. pk_payload response = encodeFdclReadFormatResponse m \<and> read_payload_ok env request c m))"

lemma sendReadResponse_sends:
  assumes "\<And>response. answers_request packet response \<Longrightarrow> pk_messageKind response = MK_Error \<Longrightarrow> p response"
    and "\<And>response. answers_request packet response \<Longrightarrow> pk_messageKind response = MK_Response \<Longrightarrow>
      rs_status result = RS_Ok \<Longrightarrow> pk_payload response = encodeFdclReadFormatResponse \<lparr>ra_bundleId = rr_bundleId request,
        ra_offerId = rr_offerId request, ra_ownerEpoch = rr_ownerEpoch request,
        ra_sourceId = rr_sourceId request, ra_itemIndex = rr_itemIndex request,
        ra_formatId = rr_formatId request, ra_encoding = rs_encoding result,
        ra_canonicalFormat = rs_canonicalFormat result, ra_bytes = rs_bytes result\<rparr> \<Longrightarrow> p response"
    and "same_links env x x'" and "cm_runtime c = rt"
  shows "sends_one env rt p x (world_of (sendReadResponse env packet request result c x'))"
proof (cases "rs_status result = RS_Ok")
  case True
  then show ?thesis
    using sends_response [OF assms(2) assms(3,4)] by (simp add: sendReadResponse_def split_beta Let_def)
next
  case False
  then show ?thesis
    using sends_error [OF assms(1) assms(3,4) False] by (simp add: sendReadResponse_def)
qed

lemma handleReadRequest_sends:
  "sends_one env (cm_runtime c) (is_read_answer env packet request c) x
     (snd (handleReadRequest env packet request c x))"
proof -
  let ?c = "bump ck_readRequestsReceived_update c"
  have error: "answers_request packet response \<Longrightarrow> pk_messageKind response = MK_Error \<Longrightarrow>
      is_read_answer env packet request c response" for response
    by (simp add: is_read_answer_def)
  have refused: "sends_one env (cm_runtime c) (is_read_answer env packet request c) x
      (world_of (sendErrorResponse env packet RS_DeniedByPolicy m (bump ck_policyDenials_update ?c) x))" for m
    by (rule sends_error [OF error]) simp_all
  have read: "sends_one env (cm_runtime c) (is_read_answer env packet request c) x
      (world_of (sendReadResponse env packet request (fst (readLocal env request ?c x))
        (module_of (readLocal env request ?c x)) (world_of (readLocal env request ?c x))))"
    if "po_allowSendContent (cm_policy c)"
    by (rule sendReadResponse_sends [OF error])
      (use readLocal_Ok [of env request ?c x] that in
       \<open>auto simp: is_read_answer_def read_payload_ok_def Let_def\<close>)
  show ?thesis
    using refused read by (simp add: handleReadRequest_def split_beta Let_def)
qed

text \<open>What a response to a range carries.\<close>

definition range_payload_ok :: "fdcl_range_request \<Rightarrow> ('r, 'd) clipboard_module \<Rightarrow> fdcl_range_response \<Rightarrow> bool" where
  "range_payload_ok request c m \<longleftrightarrow>
     (let bundle = ck_localBundle (cm_snapshot c) in
      xr_bundleId m = sb_bundleId bundle \<and> xr_offerId m = sb_offerId bundle \<and>
      xr_ownerEpoch m = sb_ownerEpoch bundle \<and> xr_sourceId m = xq_sourceId request \<and>
      xr_objectId m = xq_objectId request \<and> xr_fileIndex m = xq_fileIndex request \<and>
      xr_offset m = xq_offset request \<and>
      po_allowSendContent (cm_policy c) \<and> po_allowFileContents (cm_policy c) \<and>
      length (xr_bytes m) \<le> unat (effectiveMaxFileRangeBytes (cm_policy c)))"

definition is_range_answer ::
    "packet_envelope \<Rightarrow> fdcl_range_request \<Rightarrow> ('r, 'd) clipboard_module \<Rightarrow> packet_envelope \<Rightarrow> bool" where
  "is_range_answer packet request c response \<longleftrightarrow> answers_request packet response \<and>
     (pk_messageKind response = MK_Error \<or>
      (\<exists>m. pk_payload response = encodeFdclFileRangeResponse m \<and> range_payload_ok request c m))"

lemma send_scheduled_world [simp]:
  "world_of (send_scheduled env response reserved b k c x) = world_of (clip_send env response c x)"
  by (simp add: send_scheduled_def split_beta Let_def)

lemma sendFileRangeResponse_sends:
  assumes error: "\<And>response. answers_request packet response \<Longrightarrow> pk_messageKind response = MK_Error \<Longrightarrow> p response"
    and good: "\<And>response. answers_request packet response \<Longrightarrow> fr_status result = RS_Ok \<Longrightarrow>
      length (fr_bytes result) \<le> unat (effectiveMaxFileRangeBytes (cm_policy c)) \<Longrightarrow>
      pk_payload response = encodeFdclFileRangeResponse (range_response_payload request result) \<Longrightarrow> p response"
    and links: "same_links env x x'" and rt: "cm_runtime c = rt"
  shows "sends_one env rt p x (world_of (sendFileRangeResponse env packet request result c x'))"
proof (cases "fr_status result = RS_Ok \<and> length (fr_bytes result) \<le> unat (effectiveMaxFileRangeBytes (cm_policy c))")
  case False
  then show ?thesis
    by (auto simp: sendFileRangeResponse_def intro!: sends_error [OF error links rt])
next
  case True
  let ?e = "response_envelope MK_Response RS_Ok packet c"
  let ?r = "(fst ?e)\<lparr>pk_priority := PP_Bulk,
      pk_payload := encodeFdclFileRangeResponse (range_response_payload request result)\<rparr>"
  have answer: "p (applyClipboardLargeDataSchedule schedule ?r)" for schedule
    by (rule good)
      (use True in \<open>simp_all add: answers_request_def response_envelope_def clip_packet_def
        applyClipboardLargeDataSchedule_def\<close>)
  have sent: "sends_one env rt p x (world_of (clip_send env (applyClipboardLargeDataSchedule schedule ?r) c' x'))"
    if "cm_runtime c' = rt" for schedule c'
    by (rule sends_one_clip_send [where p = p, OF answer links that])
  have failed: "sends_one env rt p x (world_of (sendErrorResponse env packet status m c' x'))"
    if "status \<noteq> RS_Ok" "cm_runtime c' = rt" for status m c'
    by (rule sends_error [OF error links that(2,1)])
  have keeps: "cm_runtime (snd ?e) = rt" using rt by (simp add: response_envelope_def)
  show ?thesis
    using True
    by (simp add: sendFileRangeResponse_def split_beta Let_def sent failed keeps
        split: option.split)
qed

lemma readLocalFileRange_Ok:
  assumes "fr_status (fst (readLocalFileRange env request c x)) = RS_Ok"
  shows "xq_bundleId request = sb_bundleId (ck_localBundle (cm_snapshot c))"
    "xq_offerId request = sb_offerId (ck_localBundle (cm_snapshot c))"
    "xq_ownerEpoch request = sb_ownerEpoch (ck_localBundle (cm_snapshot c))"
    "po_allowFileContents (cm_policy c)"
  using assms
  by (auto simp: readLocalFileRange_def range_failed_def default_range_result_def Let_def split: if_splits)

lemma bump_if_policy [simp]: "cm_policy (bump_if b f c) = cm_policy c"
  by (simp add: bump_if_def)

lemma bound_range_keeps [simp]: "cm_policy (snd (bound_range result c)) = cm_policy c"
  by (simp add: bound_range_def)

lemma readLocalFileRange_frame [simp]:
  "cm_runtime (module_of (readLocalFileRange env request c x)) = cm_runtime c"
  "cm_policy (module_of (readLocalFileRange env request c x)) = cm_policy c"
  "same_links env x (world_of (readLocalFileRange env request c x))"
proof -
  show "cm_runtime (module_of (readLocalFileRange env request c x)) = cm_runtime c"
    by (rule rest_requests(2)) simp
  show "cm_policy (module_of (readLocalFileRange env request c x)) = cm_policy c"
    by (simp add: readLocalFileRange_def split_beta Let_def split: option.split)
  show "same_links env x (world_of (readLocalFileRange env request c x))"
    by (auto simp: readLocalFileRange_def split_beta Let_def same_links_def file_provider_reads
        split: option.split)
qed

lemma handleFileRangeRequest_sends:
  "sends_one env (cm_runtime c) (is_range_answer packet request c) x
     (snd (handleFileRangeRequest env packet request c x))"
proof -
  let ?c = "bump ck_fileRangeRequestsReceived_update c"
  have error: "answers_request packet response \<Longrightarrow> pk_messageKind response = MK_Error \<Longrightarrow>
      is_range_answer packet request c response" for response
    by (simp add: is_range_answer_def)
  have refused: "sends_one env (cm_runtime c) (is_range_answer packet request c) x
      (world_of (sendErrorResponse env packet RS_DeniedByPolicy m (bump ck_policyDenials_update ?c) x))" for m
    by (rule sends_error [OF error]) simp_all
  have read: "sends_one env (cm_runtime c) (is_range_answer packet request c) x
      (world_of (sendFileRangeResponse env packet request (fst (readLocalFileRange env request ?c x))
        (module_of (readLocalFileRange env request ?c x)) (world_of (readLocalFileRange env request ?c x))))"
    if "po_allowSendContent (cm_policy c)"
    by (rule sendFileRangeResponse_sends [OF error])
      (use readLocalFileRange_Ok [of env request ?c x] that in
       \<open>auto simp: is_range_answer_def range_payload_ok_def range_response_payload_def Let_def\<close>)
  show ?thesis
    using refused read by (simp add: handleFileRangeRequest_def split_beta Let_def)
qed

lemma sendObjectLockResponse_sends:
  assumes "same_links env x x'" and "cm_runtime c = rt"
  shows "sends_one env rt (answers_request packet) x
    (world_of (sendObjectLockResponse env packet operation request result c x'))"
proof (cases "lr_status result = RS_Ok")
  case True
  then show ?thesis
    using sends_response [where p = "answers_request packet", OF _ assms]
    by (simp add: sendObjectLockResponse_def split_beta Let_def)
next
  case False
  then show ?thesis
    using sends_error [where p = "answers_request packet", OF _ assms False]
    by (simp add: sendObjectLockResponse_def)
qed

lemma lock_frame [simp]:
  "cm_runtime (module_of (lockLocalObject env request c x)) = cm_runtime c"
  "cm_runtime (snd (unlockLocalObject request c)) = cm_runtime c"
  "same_links env x (world_of (lockLocalObject env request c x))"
proof -
  show "cm_runtime (module_of (lockLocalObject env request c x)) = cm_runtime c"
    "cm_runtime (snd (unlockLocalObject request c)) = cm_runtime c"
    by (rule rest_requests(2), simp)+
  show "same_links env x (world_of (lockLocalObject env request c x))"
    by (simp add: lockLocalObject_def split_beta Let_def same_links_def)
qed

lemma lock_requests_send:
  "sends_one env (cm_runtime c) (answers_request packet) x (snd (handleObjectLockRequest env packet request c x))"
  "sends_one env (cm_runtime c) (answers_request packet) x (snd (handleObjectUnlockRequest env packet request c x))"
proof -
  have refused: "sends_one env (cm_runtime c) (answers_request packet) x
      (world_of (sendErrorResponse env packet RS_DeniedByPolicy m c' x))" if "cm_runtime c' = cm_runtime c" for m c'
    by (rule sends_error [where p = "answers_request packet"]) (simp_all add: that)
  show "sends_one env (cm_runtime c) (answers_request packet) x (snd (handleObjectLockRequest env packet request c x))"
    by (simp add: handleObjectLockRequest_def split_beta Let_def refused sendObjectLockResponse_sends)
  show "sends_one env (cm_runtime c) (answers_request packet) x (snd (handleObjectUnlockRequest env packet request c x))"
    by (simp add: handleObjectUnlockRequest_def split_beta Let_def refused sendObjectLockResponse_sends)
qed

lemma sends_one_weaken:
  "sends_one env rt p x x' \<Longrightarrow> (\<And>response. p response \<Longrightarrow> r response) \<Longrightarrow> sends_one env rt r x x'"
  by (auto simp: sends_one_def)

lemma read_requests_send:
  "sends_one env (cm_runtime c) (answers_request packet) x (snd (handleReadRequest env packet request c x))"
  "sends_one env (cm_runtime c) (answers_request packet) x (snd (handleFileRangeRequest env packet wanted c x))"
  by (rule sends_one_weaken [OF handleReadRequest_sends], simp add: is_read_answer_def)
    (rule sends_one_weaken [OF handleFileRangeRequest_sends], simp add: is_range_answer_def)

lemma refuse_request_sends:
  assumes "pk_messageKind packet = MK_Request" and "status \<noteq> RS_Ok"
  shows "sends_one env (cm_runtime c) (answers_request packet) x (snd (refuse_request env packet status m c x))"
  using sends_error [where p = "answers_request packet" and c = "bump ck_decodeFailures_update c", OF _ same_links_refl refl assms(2)]
  by (simp add: refuse_request_def assms(1))

lemma handle_message_sends:
  assumes "pk_messageKind packet = MK_Request" and "handle_message env packet message c x = Some cx"
  shows "sends_one env (cm_runtime c) (answers_request packet) x (snd cx)"
  using assms(2) lock_requests_send read_requests_send
  by (auto simp: handle_message_def assms(1) split: fdcl_message.splits)

lemma handlePacket_sends:
  assumes "cm_state c = MS_Running" and "pk_packetType packet = PT_Clipboard" and "pk_messageKind packet = MK_Request"
  shows "sends_one env (cm_runtime c) (answers_request packet) x (snd (clip_handlePacket env packet c x))"
  using assms(1,2)
  by (auto simp: clip_handlePacket_def assms(3) refuse_request_sends [OF assms(3)]
      dest: handle_message_sends [OF assms(3)] split: sum.split option.split)

section \<open>A read from end to end\<close>

lemma decode_read_response:
  assumes "fdcl_ok (ReadFormatResponse m :: 'd fdcl_message)"
  shows "decodeFdclPayload (ops :: 'd double_ops) (encodeFdclReadFormatResponse m) = Inr (ReadFormatResponse m)"
  using fdcl_round_trip_aux [OF assms, of ops] by (simp add: encode_fdcl_def)

lemma tracked_read_response:
  assumes "answers_request packet response" and "pk_messageKind response = MK_Response"
    and "decodeFdclPayload ops (pk_payload response) = Inr (ReadFormatResponse m)"
    and "enforceReadResultPolicy (cm_policy c) \<lparr>rs_status = RS_Ok, rs_canonicalFormat = ra_canonicalFormat m,
       rs_encoding = ra_encoding m, rs_bytes = ra_bytes m, rs_message = []\<rparr> = result"
  shows "ck_lastReadResult (cm_snapshot (handleTrackedReadResponse ops response c)) = Some result"
  using assms
  by (simp add: handleTrackedReadResponse_def read_answer_def answered_well_def answers_request_def
      enforce_and_count_def Let_def)

lemma tracked_read_answered:
  "ck_lastReadResponseTo (cm_snapshot (handleTrackedReadResponse ops response (c :: ('r, 'd) clipboard_module))) = pk_responseTo response"
proof -
  have "ck_lastReadResponseTo (cm_snapshot (snd (read_answer ops response c))) = ck_lastReadResponseTo (cm_snapshot c)"
    for c :: "('r, 'd) clipboard_module"
    by (simp add: read_answer_def count_error_def bump_if_def split_beta Let_def
        split: sum.split fdcl_message.split)
  moreover have "ck_lastReadResponseTo (cm_snapshot (snd (enforce_and_count result c))) = ck_lastReadResponseTo (cm_snapshot c)"
    for result and c :: "('r, 'd) clipboard_module"
    by (simp add: enforce_and_count_def Let_def)
  ultimately show ?thesis by (simp add: handleTrackedReadResponse_def split_beta Let_def)
qed

lemma delivered_read:
  assumes "cm_state c = MS_Running" and "answers_request packet response"
    and "pk_messageKind response = MK_Response" and "pk_messageId packet \<noteq> 0"
    and "map_find (tk_pending (cm_requests c)) (pk_messageId packet) = Some pending"
    and "pe_handler pending = Some ReadHandler"
    and "decodeFdclPayload (ce_doubles env) (pk_payload response) = Inr (ReadFormatResponse m)"
    and "enforceReadResultPolicy (cm_policy c) \<lparr>rs_status = RS_Ok, rs_canonicalFormat = ra_canonicalFormat m,
       rs_encoding = ra_encoding m, rs_bytes = ra_bytes m, rs_message = []\<rparr> = result"
  shows "ck_lastReadResult (cm_snapshot (fst (clip_handlePacket env response c x))) = Some result"
    "ck_lastReadResponseTo (cm_snapshot (fst (clip_handlePacket env response c x))) = pk_messageId packet"
    "\<not> hasPending (cm_requests (fst (clip_handlePacket env response c x))) (pk_messageId packet)"
proof -
  have handled: "clip_handlePacket env response c x = handleReadResponse env response c x"
    using assms(1-3) by (simp add: clip_handlePacket_def answers_request_def)
  have "complete response (cm_requests c) = (True, [(ReadHandler, response)],
      (cm_requests c)\<lparr>tk_pending := map_erase (pk_messageId packet) (tk_pending (cm_requests c))\<rparr>)"
    using assms(2-6) by (simp add: complete_def answers_request_def call_handler_def isTerminalResponse_def)
  note steps = handled handleReadResponse_def clip_complete_def this
  show "ck_lastReadResult (cm_snapshot (fst (clip_handlePacket env response c x))) = Some result"
    using assms(8) by (simp add: steps Let_def tracked_read_response [OF assms(2,3,7)])
  show "ck_lastReadResponseTo (cm_snapshot (fst (clip_handlePacket env response c x))) = pk_messageId packet"
    using assms(2) by (simp add: steps Let_def tracked_read_answered answers_request_def)
  show "\<not> hasPending (cm_requests (fst (clip_handlePacket env response c x))) (pk_messageId packet)"
    unfolding handled by (simp add: \<open>complete response (cm_requests c) = _\<close> hasPending_def)
qed

lemma readLocal_bump [simp]:
  "fst (readLocal env request (bump ck_readRequestsReceived_update c) x) = fst (readLocal env request c x)"
  by (simp add: readLocal_def read_from_source_def enforce_and_count_def bump_if_def split_beta Let_def
      split: option.split)

definition read_response_of :: "fdcl_read_request \<Rightarrow> read_result \<Rightarrow> fdcl_read_response" where
  "read_response_of request result = \<lparr>ra_bundleId = rr_bundleId request,
     ra_offerId = rr_offerId request, ra_ownerEpoch = rr_ownerEpoch request,
     ra_sourceId = rr_sourceId request, ra_itemIndex = rr_itemIndex request,
     ra_formatId = rr_formatId request, ra_encoding = rs_encoding result,
     ra_canonicalFormat = rs_canonicalFormat result, ra_bytes = rs_bytes result\<rparr>"

text \<open>What the asker makes of a response.\<close>

definition received_result :: "clipboard_policy \<Rightarrow> fdcl_read_response \<Rightarrow> read_result" where
  "received_result policy m = enforceReadResultPolicy policy \<lparr>rs_status = RS_Ok,
     rs_canonicalFormat = ra_canonicalFormat m, rs_encoding = ra_encoding m, rs_bytes = ra_bytes m, rs_message = []\<rparr>"

section \<open>Whose requests and offers an id names\<close>

lemma answer_registry [simp]:
  "cm_registry (snd (read_answer ops packet c)) = cm_registry c"
  "cm_registry (snd (range_answer ops packet c)) = cm_registry c"
  "cm_registry (snd (trackedObjectLockResult ops packet operation c)) = cm_registry c"
  "cm_registry (snd (enforce_and_count result c)) = cm_registry c"
  "cm_registry (snd (bound_range given c)) = cm_registry c"
  "cm_registry (module_of (sendLargeDataAck env packet c x)) = cm_registry c"
  by (simp_all add: read_answer_def range_answer_def trackedObjectLockResult_def enforce_and_count_def
      bound_range_def count_error_def sendLargeDataAck_def clip_send_def split_beta Let_def
      split: sum.split fdcl_message.split option.split)

lemma tracked_registry [simp]:
  "cm_registry (handleTrackedReadResponse ops packet c) = cm_registry c"
  "cm_registry (fst (handleTrackedFileRangeResponse env packet c x)) = cm_registry c"
  "cm_registry (handleTrackedObjectLockResponse ops packet c) = cm_registry c"
  "cm_registry (handleTrackedObjectUnlockResponse ops packet c) = cm_registry c"
  by (simp_all add: handleTrackedReadResponse_def handleTrackedFileRangeResponse_def
      handleTrackedObjectLockResponse_def handleTrackedObjectUnlockResponse_def split_beta Let_def)

lemma run_clip_handlers_registry [simp]: "cm_registry (fst (run_clip_handlers env calls c x)) = cm_registry c"
  by (induction env calls c x rule: run_clip_handlers.induct)
    (simp_all add: split_beta Let_def split: clip_handler.splits)

lemma handleCancel_registry: "cm_registry (fst (handleCancel env cancel c x)) = cm_registry c"
  by (simp add: handleCancel_def clip_complete_def split_beta Let_def)

lemma handleCancel_completes:
  assumes "cn_correlationId cancel \<noteq> 0"
  shows "\<not> hasPending (cm_requests (fst (handleCancel env cancel c x))) (cn_correlationId cancel)"
  using assms
  by (simp add: handleCancel_def complete_def hasPending_def isTerminalResponse_def clip_packet_def
      split_beta Let_def split: option.split)

lemma handleCancel_read:
  assumes "cn_correlationId cancel \<noteq> 0"
    and "map_find (tk_pending (cm_requests c)) (cn_correlationId cancel) = Some pending"
    and "pe_handler pending = Some ReadHandler" and "length (cn_message cancel) \<le> MaxStringBytes"
  shows "map_option rs_status (ck_lastReadResult (cm_snapshot (fst (handleCancel env cancel c x)))) = Some RS_Cancelled"
proof -
  have "decodeFdclPayload (ce_doubles env) (encodeFdclErrorDetail detail) = Inr (ErrorDetail detail)"
    if "length (ed_message detail) \<le> MaxStringBytes" for detail
    using that fdcl_round_trip_aux [of "ErrorDetail detail" "ce_doubles env"] by (simp add: encode_fdcl_def)
  then show ?thesis
    using assms
    by (simp add: handleCancel_def clip_complete_def complete_def call_handler_def isTerminalResponse_def
        handleTrackedReadResponse_def read_answer_def answered_well_def error_answer_def
        enforce_and_count_def enforceReadResultPolicy_def read_failed_def clip_packet_def
        split_beta Let_def MaxStringBytes_def)
qed

lemma find_append_none: "find p xs = None \<Longrightarrow> find p (xs @ ys) = find p ys"
  by (induction xs) auto

lemma stored_bundle_found:
  assumes "fst (store bundle reg) = RS_Ok"
  shows "findBundle (snd (store bundle reg)) (sb_offerId bundle) = Some bundle"
proof -
  have "find (\<lambda>entry. entry_offer entry = sb_offerId bundle) (sr_entries (snd (clearOffer (sb_offerId bundle) reg))) = None"
    using assms by (auto simp: store_def Let_def find_None_iff list_ex_iff split: if_splits)
  then show ?thesis
    using assms by (auto simp: store_def Let_def findBundle_def find_append_none split: if_splits)
qed

lemma any_remote_read: "rs_status (fst (ts_read (any_source iface) (RemoteSource m) request w)) = RS_Unsupported"
  by (simp add: any_source_def remote_read_def read_failed_def)

lemma enforced_failure: "rs_status result \<noteq> RS_Ok \<Longrightarrow> rs_status (enforceReadResultPolicy policy result) = rs_status result"
  by (simp add: enforceReadResultPolicy_def)

lemma read_remote_source:
  "rs_status (fst (read_from_source env (RemoteSource m) descriptor request c x)) = RS_Unsupported"
  by (simp add: read_from_source_def any_remote_read transcodeReadResultIfNeeded_def enforce_and_count_def
      enforced_failure split_beta Let_def)

lemma find_source_member: "find_source iface i sources = Some source \<Longrightarrow> Some source \<in> set sources"
  by (auto simp: find_source_def List.map_filter_def dest!: find_Some_holds)

lemma accepted_list_displaces:
  fixes c :: "('r, 'd) clipboard_module"
  assumes offer: "fl_offerId list = sb_offerId (ck_localBundle (cm_snapshot c))"
    and accepted: "ck_formatListsReceived (cm_snapshot (fst (handleFormatList env list c x))) \<noteq>
      ck_formatListsReceived (cm_snapshot c)"
  shows "ck_localBundle (cm_snapshot (fst (handleFormatList env list c x))) = ck_localBundle (cm_snapshot c)"
    "\<exists>bundle. findBundle (cm_registry (fst (handleFormatList env list c x)))
        (sb_offerId (ck_localBundle (cm_snapshot c))) = Some bundle \<and>
      (\<forall>source. Some source \<in> set (sb_sources bundle) \<longrightarrow> (\<exists>m. source = RemoteSource m))"
proof -
  let ?arrived = "received_bundle (filterFormatsByPolicy (cm_policy c) list) ::
    ('r transfer_source, 'd presentation) source_bundle"
  let ?b = "?arrived\<lparr>sb_presentation := if po_allowPresentationMetadata (cm_policy c)
      then sb_presentation ?arrived else None\<rparr>"
  have id: "sb_offerId ?b = fl_offerId list"
    by (simp add: received_bundle_def makeRemoteBundleFromFormatList_def filterFormatsByPolicy_def Let_def)
  have stored: "fst (store ?b (cm_registry c)) = RS_Ok"
    and registry: "cm_registry (fst (handleFormatList env list c x)) = snd (store ?b (cm_registry c))"
    and same: "ck_localBundle (cm_snapshot (fst (handleFormatList env list c x))) = ck_localBundle (cm_snapshot c)"
    using accepted by (auto simp: handleFormatList_def Let_def split_beta split: if_splits option.splits)
  show "ck_localBundle (cm_snapshot (fst (handleFormatList env list c x))) = ck_localBundle (cm_snapshot c)"
    by (rule same)
  have "\<forall>source. Some source \<in> set (sb_sources ?b) \<longrightarrow> (\<exists>m. source = RemoteSource m)"
    by (auto simp: received_bundle_def Let_def eq_commute [of "Some _"])
  then show "\<exists>bundle. findBundle (cm_registry (fst (handleFormatList env list c x)))
        (sb_offerId (ck_localBundle (cm_snapshot c))) = Some bundle \<and>
      (\<forall>source. Some source \<in> set (sb_sources bundle) \<longrightarrow> (\<exists>m. source = RemoteSource m))"
    using stored_bundle_found [OF stored] unfolding registry id offer by (intro exI [of _ ?b] conjI)
qed

lemma remote_offer_unreadable:
  assumes "findBundle (cm_registry c) (sb_offerId (ck_localBundle (cm_snapshot c))) = Some bundle"
    and "\<And>source. Some source \<in> set (sb_sources bundle) \<Longrightarrow> \<exists>m. source = RemoteSource m"
  shows "rs_status (fst (readLocal env request c x)) \<noteq> RS_Ok"
proof
  assume ok: "rs_status (fst (readLocal env request c x)) = RS_Ok"
  let ?request = "bounded_request (po_maxInlineBytes (cm_policy c)) (makeTransferReadRequest request)"
  let ?lookup = "lookupSource (any_source (ce_sources env)) ?request (cm_registry c)"
  obtain source descriptor where found: "sl_status ?lookup = RS_Ok" "sl_source ?lookup = Some source"
    and read: "readLocal env request c x = read_from_source env source descriptor ?request c x"
    and offer: "sb_offerId (ck_localBundle (cm_snapshot c)) = rr_offerId request"
    using ok lookup_Ok_source [of "any_source (ce_sources env)" ?request "cm_registry c"]
    by (auto simp: readLocal_def read_failed_def Let_def split: if_splits option.splits)
  have "rq_offerId ?request = rr_offerId request"
    by (simp add: bounded_request_def makeTransferReadRequest_def)
  then have "Some source \<in> set (sb_sources bundle)"
    using found assms(1) offer
    by (auto simp: lookupSource_def lookup_failed_def split: if_splits option.splits dest: find_source_member)
  then obtain m where "source = RemoteSource m" using assms(2) by blast
  with ok read show False by (simp add: read_remote_source)
qed

lemma new_module_requests: "requests_ok (cm_requests (new_clipboard_module manifest policy window))"
  by (simp add: new_clipboard_module_def requests_ok_def new_tracker_def [of 1] tracker_ok_def)

section \<open>Properties\<close>

text \<open>
  C17. The window of a clipboard module holds exactly the bytes of the large responses that the peer
  has not acknowledged: from a new module whose window has a non-zero limit, over every run of fewer
  than \<open>2 ^ 62\<close> operations, packets and life-cycle calls, whatever the platform, the network and the
  peer answer, the bytes in flight are the sum of the reservations of sent responses, no two of which
  share an id, and never exceed the limit. So no reservation leaks on an error path and none is given
  back twice.
\<close>

theorem window_accounts_for_unacknowledged_responses:
  assumes "limit \<noteq> 0" and "length operations < 2 ^ 62"
  shows "let c = fst (fold (clip_step env) operations
        (new_clipboard_module manifest policy (Some (new_window limit)), x))
    in distinct (map fst (cm_reservations c)) \<and>
      (case cm_window c of
         None \<Rightarrow> False
       | Some w \<Rightarrow> dw_maxInFlightBytes w = limit \<and> dw_inFlightBytes w \<le> limit \<and>
           unat (dw_inFlightBytes w) = reserved_bytes (cm_reservations c))"
proof -
  let ?c = "fst (fold (clip_step env) operations
      (new_clipboard_module manifest policy (Some (new_window limit)), x))"
  have "window_ok limit (100000 + 2 * length operations) (window_part ?c)"
    by (rule clip_run_window [OF new_module_window [OF assms(1)]]) (use assms(2) in simp)
  then show ?thesis
    using assms(1) smap.keys_distinct [of "cm_reservations ?c"]
    by (auto simp: window_ok_def window_part_def map_keys_def Let_def split: option.splits)
qed


text \<open>
  C16. Every request of the peer is answered: whatever payload a clipboard request carries, a running
  module gives the network exactly one packet for it, after at most one read of a source and nothing
  else, and that packet is addressed and correlated to the request and is either a response with the
  status Ok or an error with another one; undecodable payloads and unsupported operations included.
\<close>

theorem every_clipboard_request_is_answered:
  assumes "cm_state c = MS_Running" and "pk_packetType packet = PT_Clipboard"
    and "pk_messageKind packet = MK_Request"
  shows "sends_one env (cm_runtime c) (answers_request packet) x (snd (clip_handlePacket env packet c x))"
  by (rule handlePacket_sends [OF assms])

text \<open>
  C18. What leaves through reads stays within the offer and the policy: whoever asks, and whatever
  the source returns, a read request gives the network exactly one packet, which is an error or carries
  the identity of the current offer, a format the policy allows, and no more bytes than the policy and
  the asker accept; and a range request gives it exactly one packet, which is an error or names the
  current offer and carries no more bytes than the policy allows for a range (the number of bytes the
  asker wanted is passed to the source, but what the source returns is not held to it). Both carry
  contents only if sending (and, for ranges, file contents) is allowed.
\<close>

theorem reads_stay_within_offer_and_policy:
  "sends_one env (cm_runtime c) (is_read_answer env packet request c) x
     (snd (handleReadRequest env packet request c x)) \<and>
   sends_one env (cm_runtime c) (is_range_answer packet wanted c) x
     (snd (handleFileRangeRequest env packet wanted c x))"
  using handleReadRequest_sends handleFileRangeRequest_sends by blast

text \<open>
  C15. A read crosses both modules: if the reader has an open read with the id of the request, and the
  giver, which may send the format, reads its source with success, then the one packet the giver
  sends, handled by the running reader, leaves there exactly the bytes, format and encoding that were
  read, enforced by the reader's policy, noted for that request, which is then no longer open.
\<close>

theorem remote_read_returns_what_was_read:
  assumes "cm_state reader = MS_Running" and "pk_messageId packet \<noteq> 0"
    and "map_find (tk_pending (cm_requests reader)) (pk_messageId packet) = Some pending"
    and "pe_handler pending = Some ReadHandler"
    and "po_allowSendContent (cm_policy giver)"
    and "policyAllowsReadRequest (any_source (ce_sources env)) (cm_policy giver)
      (ck_localBundle (cm_snapshot giver)) request (sw_rest x)"
    and "rs_status (fst (readLocal env request giver x)) = RS_Ok"
    and "fdcl_ok (ReadFormatResponse (read_response_of request (fst (readLocal env request giver x))) :: 'd fdcl_message)"
  shows "sends_one env (cm_runtime giver) (\<lambda>response.
      \<forall>y. let reader' = fst (clip_handlePacket (env' :: ('e, 'q, 'd, 'v) clip_env) response reader y)
        in ck_lastReadResult (cm_snapshot reader') = Some (received_result (cm_policy reader)
             (read_response_of request (fst (readLocal env request giver x)))) \<and>
           ck_lastReadResponseTo (cm_snapshot reader') = pk_messageId packet \<and>
           \<not> hasPending (cm_requests reader') (pk_messageId packet))
    x (snd (handleReadRequest env packet request giver x))"
proof -
  let ?g = "bump ck_readRequestsReceived_update giver"
  let ?result = "fst (readLocal env request giver x)"
  let ?m = "read_response_of request ?result"
  have payload: "decodeFdclPayload (ce_doubles env') (encodeFdclReadFormatResponse ?m) = Inr (ReadFormatResponse ?m)"
    by (rule decode_read_response [OF assms(8)])
  have "answers_request packet response \<and> pk_messageKind response = MK_Response \<and>
      pk_payload response = encodeFdclReadFormatResponse ?m \<Longrightarrow>
    \<forall>y. let reader' = fst (clip_handlePacket env' response reader y)
        in ck_lastReadResult (cm_snapshot reader') = Some (received_result (cm_policy reader) ?m) \<and>
           ck_lastReadResponseTo (cm_snapshot reader') = pk_messageId packet \<and>
           \<not> hasPending (cm_requests reader') (pk_messageId packet)" for response
    using payload
    by (simp add: Let_def received_result_def delivered_read [OF assms(1) _ _ assms(2-4) _ refl])
  moreover have "sends_one env (cm_runtime giver) (\<lambda>response. answers_request packet response \<and>
      pk_messageKind response = MK_Response \<and> pk_payload response = encodeFdclReadFormatResponse ?m) x
      (snd (handleReadRequest env packet request giver x))"
  proof -
    have "sends_one env (cm_runtime giver) (\<lambda>response. answers_request packet response \<and>
        pk_messageKind response = MK_Response \<and> pk_payload response = encodeFdclReadFormatResponse ?m) x
        (world_of (sendReadResponse env packet request ?result (module_of (readLocal env request ?g x))
          (world_of (readLocal env request ?g x))))"
      using sends_response [where c = "module_of (readLocal env request ?g x)" and x = x
          and x' = "world_of (readLocal env request ?g x)" and request = packet and env = env]
      by (simp add: sendReadResponse_def assms(7) read_response_of_def split_beta Let_def)
    then show ?thesis
      using assms(5,6) by (simp add: handleReadRequest_def split_beta Let_def)
  qed
  ultimately show ?thesis by (rule sends_one_weaken [rotated]) 
qed

text \<open>
  Offer ids are unique for one endpoint only (each counts its own from 1), but the registry keeps the
  offers of both sides by that id. So an accepted list of the peer whose offer id is that of our
  current offer displaces it: the module still names our bundle as the one it offers, and no read of
  it succeeds any more.
\<close>

theorem peer_offer_displaces_ours:
  fixes c :: "('r, 'd) clipboard_module"
  assumes "fl_offerId list = sb_offerId (ck_localBundle (cm_snapshot c))"
    and "ck_formatListsReceived (cm_snapshot (fst (handleFormatList env list c x))) \<noteq>
      ck_formatListsReceived (cm_snapshot c)"
  shows "let c' = fst (handleFormatList env list c x)
    in ck_localBundle (cm_snapshot c') = ck_localBundle (cm_snapshot c) \<and>
      rs_status (fst (readLocal env' request c' y)) \<noteq> RS_Ok"
proof -
  let ?c = "fst (handleFormatList env list c x)"
  have displaced: "ck_localBundle (cm_snapshot ?c) = ck_localBundle (cm_snapshot c)"
    by (rule accepted_list_displaces(1) [OF assms])
  with accepted_list_displaces(2) [OF assms] obtain b
    where "findBundle (cm_registry ?c) (sb_offerId (ck_localBundle (cm_snapshot ?c))) = Some b"
    and "\<And>source. Some source \<in> set (sb_sources b) \<Longrightarrow> \<exists>m. source = RemoteSource m"
    by auto
  then have "rs_status (fst (readLocal env' request ?c y)) \<noteq> RS_Ok" by (rule remote_offer_unreadable)
  with displaced show ?thesis by (simp add: Let_def)
qed

text \<open>
  A cancel releases no object lock and reaches the wrong requests: it leaves the registry as it was,
  and what it completes with the status Cancelled is the receiver's own open request of that id.
\<close>

theorem cancel_reaches_own_requests:
  assumes "cn_correlationId cancel \<noteq> 0"
    and "map_find (tk_pending (cm_requests c)) (cn_correlationId cancel) = Some pending"
    and "pe_handler pending = Some ReadHandler" and "length (cn_message cancel) \<le> MaxStringBytes"
  shows "let c' = fst (handleCancel env cancel c x)
    in cm_registry c' = cm_registry c \<and> \<not> hasPending (cm_requests c') (cn_correlationId cancel) \<and>
      map_option rs_status (ck_lastReadResult (cm_snapshot c')) = Some RS_Cancelled"
  using handleCancel_read [OF assms]
  by (simp only: Let_def handleCancel_registry handleCancel_completes [OF assms(1)] simp_thms)

section \<open>Samples\<close>

text \<open>Two modules over channels that log what they send, and a request between them.\<close>

definition wire_channels :: "(unit, packet_envelope list) channel_interface" where
  "wire_channels = \<lparr>ch_id = (\<lambda>_ _. CID_SmallData), ch_type = (\<lambda>_ _. CT_Standard),
     ch_isOpen = (\<lambda>_ _. True), ch_send = (\<lambda>_ packet w. (send_sent, w @ [packet]))\<rparr>"

definition sample_clip_env :: "(unit, materialized_source, u32, packet_envelope list) clip_env" where
  "sample_clip_env = \<lparr>ce_channels = wire_channels, ce_now = (\<lambda>w. (5000, w)), ce_doubles = milli_ops,
     ce_sources = \<lparr>ts_id = mt_sourceId, ts_formats = (\<lambda>s _. materialized_formats s),
       ts_read = (\<lambda>s request w. (materialized_read s request, w))\<rparr>,
     ce_files = (\<lambda>_. None), ce_transcoder = \<lparr>canTranscode = (\<lambda>_. False), transcode = (\<lambda>request.
       \<lparr>tc_status = RS_Unsupported, tc_encoding = tq_sourceEncoding request, tc_bytes = [], tc_message = []\<rparr>)\<rparr>,
     ce_endpoint = None, ce_dragSink = None\<rparr>"

definition sample_clip_runtime :: module_runtime where
  "sample_clip_runtime = default_runtime\<lparr>rt_session := default_context\<lparr>cx_sessionId := 1\<rparr>, rt_network := True\<rparr>"

definition sample_clip_policy :: clipboard_policy where
  "sample_clip_policy = default_clipboard_policy\<lparr>po_allowCustomFormats := True\<rparr>"

definition sample_clip_world :: "(unit, unit, packet_envelope list) session_world" where
  "sample_clip_world = \<lparr>sw_network = Some ((new_manager heartbeat_negotiated)\<lparr>
     nm_router := new_router\<lparr>ro_channels := [(clipboardSmallDataChannelKey, ())]\<rparr>\<rparr>),
     sw_sink = None, sw_rest = []\<rparr>"

definition offered_local :: "(materialized_source transfer_source, u32 presentation) source_bundle" where
  "offered_local = default_bundle\<lparr>sb_bundleId := 1, sb_offerId := 2, sb_ownerEpoch := 1,
     sb_sources := [Some (LocalSource sample_source)]\<rparr>"

definition sample_module :: "(materialized_source, u32) clipboard_module" where
  "sample_module = (new_clipboard_module catalog_clipboardRedirectClient sample_clip_policy None)\<lparr>
     cm_runtime := sample_clip_runtime, cm_state := MS_Running\<rparr>"

definition sample_giver :: "(materialized_source, u32) clipboard_module" where
  "sample_giver = sample_module\<lparr>cm_registry := snd (store offered_local new_source_registry),
     cm_snapshot := new_clip_snapshot\<lparr>ck_localBundle := offered_local\<rparr>\<rparr>"

definition sample_read :: fdcl_read_request where
  "sample_read = \<lparr>rr_bundleId = 1, rr_offerId = 2, rr_ownerEpoch = 1, rr_sourceId = 5, rr_itemIndex = 0,
     rr_formatId = 9, rr_localFormatToken = 0, rr_acceptedMaxBytes = 0,
     rr_streamAccepted = False, rr_requestedEncoding = EM_CanonicalBytes, rr_canonicalFormat = ''text/plain''\<rparr>"

definition sample_request :: packet_envelope where
  "sample_request = default_packet\<lparr>pk_messageId := 1, pk_correlationId := 1, pk_timeoutMs := 1000,
     pk_packetType := PT_Clipboard, pk_messageKind := MK_Request,
     pk_payload := encodeFdclReadFormatRequest sample_read\<rparr>"

definition sample_reader :: "(materialized_source, u32) clipboard_module" where
  "sample_reader = sample_module\<lparr>cm_requests := snd (track sample_request (Some ReadHandler) (new_tracker 2))\<rparr>"

lemma readLocal_found:
  assumes "sb_bundleId (ck_localBundle (cm_snapshot c)) = rr_bundleId request"
    and "sb_offerId (ck_localBundle (cm_snapshot c)) = rr_offerId request"
    and "sb_ownerEpoch (ck_localBundle (cm_snapshot c)) = rr_ownerEpoch request"
    and "policyAllowsReadRequest (any_source (ce_sources env)) (cm_policy c)
      (ck_localBundle (cm_snapshot c)) request (sw_rest x)"
    and "bounded_request (po_maxInlineBytes (cm_policy c)) (makeTransferReadRequest request) = bounded"
    and "lookupSource (any_source (ce_sources env)) bounded (cm_registry c) = found"
    and "sl_status found = RS_Ok" and "sl_source found = Some source"
    and "findReadDescriptor (any_source (ce_sources env)) source bounded (sw_rest x) = Some descriptor"
  shows "readLocal env request c x = read_from_source env source descriptor bounded c x"
  using assms by (simp add: readLocal_def Let_def)

definition sample_bounded :: read_request where
  "sample_bounded = \<lparr>rq_bundleId = 1, rq_offerId = 2, rq_ownerEpoch = 1, rq_sourceId = 5, rq_itemIndex = 0,
     rq_formatId = 9, rq_localFormatToken = 0, rq_canonicalFormat = ''text/plain'',
     rq_acceptedMaxBytes = 1048576, rq_streamAccepted = False, rq_requestedEncoding = EM_CanonicalBytes\<rparr>"

lemma sample_parts [simp]:
  "cm_policy sample_giver = sample_clip_policy"
  "ck_localBundle (cm_snapshot sample_giver) = offered_local"
  "sb_bundleId offered_local = 1" "sb_offerId offered_local = 2" "sb_ownerEpoch offered_local = 1"
  "sb_sources offered_local = [Some (LocalSource sample_source)]"
  "rr_bundleId sample_read = 1" "rr_offerId sample_read = 2" "rr_ownerEpoch sample_read = 1"
  "rr_canonicalFormat sample_read = ''text/plain''"
  "po_maxInlineBytes sample_clip_policy = 1048576" "po_allowCustomFormats sample_clip_policy = True"
  "po_allowSendContent sample_clip_policy = True"
  by (simp_all add: sample_giver_def sample_module_def new_clipboard_module_def offered_local_def
      sample_read_def sample_clip_policy_def default_clipboard_policy_def)

lemma sample_format [simp]: "policyAllowsCanonicalFormat sample_clip_policy ''text/plain''"
  by (simp add: policyAllowsCanonicalFormat_def TextPlainUtf8Format_def TextHtmlFormat_def TextRtfFormat_def
      ImagePngFormat_def ImageDibFormat_def FdclFileListFormat_def)

lemma sample_allowed:
  "policyAllowsReadRequest (any_source (ce_sources sample_clip_env)) sample_clip_policy offered_local
     sample_read w"
  by (simp add: policyAllowsReadRequest_def requestedCanonicalFormat_def)

lemma sample_bounded_eq:
  "bounded_request (po_maxInlineBytes sample_clip_policy) (makeTransferReadRequest sample_read) = sample_bounded"
  by (simp add: bounded_request_def makeTransferReadRequest_def sample_read_def sample_bounded_def)

lemma sample_registry: "cm_registry sample_giver = \<lparr>sr_entries = [\<lparr>re_bundle = offered_local, re_locks = [],
    re_retired = False\<rparr>], sr_nextLockId = 1\<rparr>"
  by (simp add: sample_giver_def store_def clearOffer_def new_source_registry_def)

lemma sample_found:
  "lookupSource (any_source (ce_sources sample_clip_env)) sample_bounded (cm_registry sample_giver) =
     \<lparr>sl_status = RS_Ok, sl_message = [], sl_bundle = offered_local, sl_source = Some (LocalSource sample_source)\<rparr>"
  unfolding sample_registry
  by (simp add: lookupSource_def sample_bounded_def findBundle_def find_source_def any_source_def
      sample_clip_env_def sample_source_def List.map_filter_simps)

lemma sample_descriptor:
  "findReadDescriptor (any_source (ce_sources sample_clip_env)) (LocalSource sample_source) sample_bounded w =
     Some (te_descriptor (hd (mt_entries sample_source)))"
  by (simp add: findReadDescriptor_def any_source_def sample_clip_env_def sample_source_def
      materialized_formats_def matchesFormat_def sample_bounded_def)

lemma sample_source_read:
  "fst (ts_read (any_source (ce_sources sample_clip_env)) (LocalSource sample_source) sample_bounded w) =
     \<lparr>rs_status = RS_Ok, rs_canonicalFormat = ''text/plain'', rs_encoding = EM_CanonicalBytes,
      rs_bytes = [97, 98, 99], rs_message = []\<rparr>"
  by (simp add: any_source_def sample_clip_env_def sample_source_def materialized_read_def
      matchesFormat_def sample_bounded_def)

lemma sample_enforced:
  "enforceReadResultPolicy sample_clip_policy \<lparr>rs_status = RS_Ok, rs_canonicalFormat = ''text/plain'',
     rs_encoding = EM_CanonicalBytes, rs_bytes = [97, 98, 99], rs_message = []\<rparr> =
   \<lparr>rs_status = RS_Ok, rs_canonicalFormat = ''text/plain'', rs_encoding = EM_CanonicalBytes,
     rs_bytes = [97, 98, 99], rs_message = []\<rparr>"
  by (simp add: enforceReadResultPolicy_def FdclFileListFormat_def)

lemma sample_result:
  "fst (readLocal sample_clip_env sample_read sample_giver sample_clip_world) =
     \<lparr>rs_status = RS_Ok, rs_canonicalFormat = ''text/plain'', rs_encoding = EM_CanonicalBytes,
      rs_bytes = [97, 98, 99], rs_message = []\<rparr>"
proof -
  have "readLocal sample_clip_env sample_read sample_giver sample_clip_world =
      read_from_source sample_clip_env (LocalSource sample_source) (te_descriptor (hd (mt_entries sample_source)))
        sample_bounded sample_giver sample_clip_world"
    by (rule readLocal_found [OF _ _ _ _ _ sample_found _ _ sample_descriptor])
      (simp_all add: sample_allowed sample_bounded_eq [simplified])
  then show ?thesis
    by (simp add: read_from_source_result transcodeReadResultIfNeeded_def sample_source_read
        sample_bounded_def [THEN arg_cong [of _ _ rq_requestedEncoding]])
      (simp add: bounded_read_def sample_bounded_def sample_enforced)
qed

lemma sample_response_ok:
  "fdcl_ok (ReadFormatResponse (read_response_of sample_read
     (fst (readLocal sample_clip_env sample_read sample_giver sample_clip_world))) :: u32 fdcl_message)"
  unfolding sample_result
  by (simp add: read_response_of_def sample_read_def identity_ok_def validEncodingMode_def
      validFormatName_def MaxInlineBytes_def MaxStringBytes_def)

lemma sample_reader_parts:
  "cm_state sample_reader = MS_Running" "pk_messageId sample_request \<noteq> 0"
  "map_find (tk_pending (cm_requests sample_reader)) (pk_messageId sample_request) =
     Some \<lparr>pe_request = sample_request, pe_handler = Some ReadHandler,
       pe_deadlineUsec = request_deadline sample_request\<rparr>"
proof -
  have "trackable sample_request (Some ReadHandler) (new_tracker 2)"
    by (simp add: trackable_def sample_request_def isTrackableRequest_def hasPending_def new_tracker_def)
  then show "map_find (tk_pending (cm_requests sample_reader)) (pk_messageId sample_request) =
     Some \<lparr>pe_request = sample_request, pe_handler = Some ReadHandler,
       pe_deadlineUsec = request_deadline sample_request\<rparr>"
    by (simp add: sample_reader_def track_accepted new_tracker_def)
qed (simp_all add: sample_reader_def sample_module_def sample_request_def)

theorem window_accounts_for_unacknowledged_responses_witness:
  "let c = fst (fold (clip_step sample_clip_env) [Attach sample_clip_runtime, Start, Receive sample_request, Stop]
        (new_clipboard_module catalog_clipboardRedirectClient sample_clip_policy (Some (new_window 100)),
         sample_clip_world))
   in distinct (map fst (cm_reservations c)) \<and>
      (case cm_window c of
         None \<Rightarrow> False
       | Some w \<Rightarrow> dw_maxInFlightBytes w = 100 \<and> dw_inFlightBytes w \<le> 100 \<and>
           unat (dw_inFlightBytes w) = reserved_bytes (cm_reservations c))"
  by (rule window_accounts_for_unacknowledged_responses) simp_all


theorem every_clipboard_request_is_answered_witness:
  "sends_one sample_clip_env (cm_runtime sample_giver) (answers_request sample_request) sample_clip_world
     (snd (clip_handlePacket sample_clip_env sample_request sample_giver sample_clip_world))"
  by (rule every_clipboard_request_is_answered)
    (simp_all add: sample_giver_def sample_module_def sample_request_def)

theorem remote_read_returns_what_was_read_witness:
  "sends_one sample_clip_env (cm_runtime sample_giver) (\<lambda>response.
     \<forall>y :: (unit, unit, packet_envelope list) session_world.
       ck_lastReadResult (cm_snapshot (fst (clip_handlePacket sample_clip_env response sample_reader y))) =
         Some \<lparr>rs_status = RS_Ok, rs_canonicalFormat = ''text/plain'', rs_encoding = EM_CanonicalBytes,
           rs_bytes = [97, 98, 99], rs_message = []\<rparr>)
     sample_clip_world (snd (handleReadRequest sample_clip_env sample_request sample_read sample_giver sample_clip_world))"
proof (rule sends_one_weaken)
  show "sends_one sample_clip_env (cm_runtime sample_giver) (\<lambda>response.
      \<forall>y :: (unit, unit, packet_envelope list) session_world.
        let reader' = fst (clip_handlePacket sample_clip_env response sample_reader y)
        in ck_lastReadResult (cm_snapshot reader') = Some (received_result (cm_policy sample_reader)
             (read_response_of sample_read
               (fst (readLocal sample_clip_env sample_read sample_giver sample_clip_world)))) \<and>
           ck_lastReadResponseTo (cm_snapshot reader') = pk_messageId sample_request \<and>
           \<not> hasPending (cm_requests reader') (pk_messageId sample_request))
    sample_clip_world (snd (handleReadRequest sample_clip_env sample_request sample_read sample_giver sample_clip_world))"
    by (rule remote_read_returns_what_was_read [OF sample_reader_parts _ _ _ _ sample_response_ok])
      (simp_all add: sample_result sample_allowed)
qed (simp add: Let_def sample_result received_result_def read_response_of_def sample_reader_def
    sample_module_def new_clipboard_module_def sample_enforced)

end
