(* ===== verification/Module_Factories.thy ===== *)
theory Module_Factories
  imports Input_Modules Display_Agent Display_Client Clipboard_Module Module_Catalog Module_Composer
begin

unbundle bit_operations_syntax

text \<open>
  \<open>display_factory.cpp\<close>, \<open>clipboard_factory.cpp\<close> and \<open>feature_module_factory.cpp\<close>: the factories
  the composer asks for modules, and the framework module that stands for a feature without a module of
  its own; and \<open>test_echo_factory.cpp\<close> and \<open>test_echo_modules.cpp\<close>, the pair of modules that checks a
  link by echoing a text.
\<close>

section \<open>Display and clipboard factories\<close>

record 'w display_dependencies =
  dd_capture :: "'w display_capture option"
  dd_encoder :: "'w video_encoder option"
  dd_captureOptions :: capture_options
  dd_encoderCodec :: codec_info
  dd_decoder :: "'w video_decoder option"
  dd_renderer :: "'w display_renderer option"
  dd_decoderCodec :: codec_info

datatype 'w display_module = DisplayAgent "'w display_agent" | DisplayClient "'w display_client"

definition isAgentRequest :: "string \<Rightarrow> create_options \<Rightarrow> bool" where
  "isAgentRequest requestedModuleId options \<longleftrightarrow> cr_role options = SR_Agent \<and>
     (requestedModuleId = ''display.screen'' \<or> requestedModuleId = ''display.screen.agent'')"

definition isClientRequest :: "string \<Rightarrow> create_options \<Rightarrow> bool" where
  "isClientRequest requestedModuleId options \<longleftrightarrow> cr_role options = SR_Client \<and>
     (requestedModuleId = ''display.screen'' \<or> requestedModuleId = ''display.screen.client'')"

definition display_factory_manifest :: "create_options \<Rightarrow> module_manifest" where
  "display_factory_manifest options =
    (if cr_role options = SR_Agent then catalog_displayScreenAgent
     else if cr_role options = SR_Client then catalog_displayScreenClient else default_manifest)"

definition display_create :: "'w display_dependencies \<Rightarrow> create_options \<Rightarrow> 'w display_module option" where
  "display_create deps options =
    (if cr_role options = SR_Agent then
       if dd_capture deps = None \<or> dd_encoder deps = None then None
       else Some (DisplayAgent (new_display_agent (dd_capture deps) (dd_encoder deps)
         (dd_captureOptions deps) (dd_encoderCodec deps)))
     else if cr_role options = SR_Client then
       if dd_decoder deps = None \<or> dd_renderer deps = None then None
       else Some (DisplayClient (new_display_client (dd_decoder deps) (dd_renderer deps)
         (dd_decoderCodec deps)))
     else None)"

definition displayModuleFactory :: "'w display_dependencies \<Rightarrow> 'w display_module module_factory" where
  "displayModuleFactory deps = \<lparr>
     fa_supports = (\<lambda>requestedModuleId options. isAgentRequest requestedModuleId options \<or>
       isClientRequest requestedModuleId options),
     fa_manifest = display_factory_manifest, fa_create = display_create deps\<rparr>"

definition clip_makeManifest :: "session_role \<Rightarrow> module_manifest" where
  "clip_makeManifest role =
    (if role = SR_Client then catalog_clipboardRedirectClient
     else if role = SR_Agent then catalog_clipboardRedirectAgent else default_manifest)"

definition clip_roleSupported :: "session_role \<Rightarrow> bool" where
  "clip_roleSupported role \<longleftrightarrow> role = SR_Client \<or> role = SR_Agent"

definition isRequestForRole :: "string \<Rightarrow> session_role \<Rightarrow> bool" where
  "isRequestForRole requestedModuleId role =
    (if requestedModuleId = ''clipboard.redirect'' then True
     else if role = SR_Client then requestedModuleId = ''clipboard.redirect.client''
     else if role = SR_Agent then requestedModuleId = ''clipboard.redirect.agent''
     else False)"

text \<open>Of the dependencies the module keeps the policy and the window in its state.\<close>

definition clipboardModuleFactory ::
    "clipboard_policy \<Rightarrow> data_window option \<Rightarrow> ('r, 'd) clipboard_module module_factory" where
  "clipboardModuleFactory policy window = \<lparr>
     fa_supports = (\<lambda>requestedModuleId options. clip_roleSupported (cr_role options) \<and>
       isRequestForRole requestedModuleId (cr_role options)),
     fa_manifest = (\<lambda>options. if \<not> clip_roleSupported (cr_role options) then default_manifest
       else clip_makeManifest (cr_role options)),
     fa_create = (\<lambda>options. if \<not> clip_roleSupported (cr_role options) then None
       else Some (new_clipboard_module (clip_makeManifest (cr_role options)) policy window))\<rparr>"

section \<open>Framework modules\<close>

record feature_module =
  fu_manifest :: module_manifest
  fu_runtime :: module_runtime
  fu_state :: module_state
  fu_starts :: int
  fu_stops :: int
  fu_packetsReceived :: int

definition new_feature_module :: "module_manifest \<Rightarrow> feature_module" where
  "new_feature_module manifest = \<lparr>fu_manifest = manifest, fu_runtime = default_runtime,
     fu_state = MS_Created, fu_starts = 0, fu_stops = 0, fu_packetsReceived = 0\<rparr>"

definition feature_publish ::
    "string \<Rightarrow> string \<Rightarrow> feature_module \<Rightarrow> ('c, 's, 'w) session_world \<Rightarrow> ('c, 's, 'w) session_world" where
  "feature_publish code message u =
     runtime_publish (fu_runtime u) (ChannelKey 0 CT_Standard) (mf_moduleId (fu_manifest u)) code message"

definition feature_attach :: "module_runtime \<Rightarrow> feature_module \<Rightarrow> bool \<times> feature_module" where
  "feature_attach rt u =
     (mf_moduleId (fu_manifest u) \<noteq> [], u\<lparr>fu_runtime := rt, fu_state := MS_Attached\<rparr>)"

definition feature_start ::
    "feature_module \<Rightarrow> ('c, 's, 'w) session_world \<Rightarrow> bool \<times> feature_module \<times> ('c, 's, 'w) session_world" where
  "feature_start u x =
    (if fu_state u \<noteq> MS_Attached \<and> fu_state u \<noteq> MS_Stopped then (False, u\<lparr>fu_state := MS_Failed\<rparr>, x)
     else let u = u\<lparr>fu_state := MS_Running, fu_starts := fu_starts u + 1\<rparr>
       in (True, u, feature_publish ''feature.module_started''
            (mf_moduleId (fu_manifest u) @ '' framework module started'') u x))"

definition feature_stop ::
    "feature_module \<Rightarrow> ('c, 's, 'w) session_world \<Rightarrow> feature_module \<times> ('c, 's, 'w) session_world" where
  "feature_stop u x =
    (let u = u\<lparr>fu_state := MS_Stopped, fu_stops := fu_stops u + 1\<rparr>
     in (u, feature_publish ''feature.module_stopped''
          (mf_moduleId (fu_manifest u) @ '' framework module stopped'') u x))"

definition feature_detach :: "feature_module \<Rightarrow> feature_module" where
  "feature_detach u = u\<lparr>fu_state := MS_Detached\<rparr>"

definition feature_handlePacket :: "packet_envelope \<Rightarrow> feature_module \<Rightarrow> feature_module" where
  "feature_handlePacket packet u =
    (if fu_state u = MS_Running then u\<lparr>fu_packetsReceived := fu_packetsReceived u + 1\<rparr> else u)"

definition feature_diagnostics :: "feature_module \<Rightarrow> string" where
  "feature_diagnostics u = ''feature.module id='' @ mf_moduleId (fu_manifest u) @
     '' state='' @ module_stateName (fu_state u) @ '' starts='' @ to_string (fu_starts u) @
     '' stops='' @ to_string (fu_stops u) @ '' packets='' @ to_string (fu_packetsReceived u)"

text \<open>\<open>supportsRole\<close> and \<open>roleFlag\<close> are those of the module host; a platform may be empty here.\<close>

definition feature_supportsPlatform :: "module_manifest \<Rightarrow> string \<Rightarrow> bool" where
  "feature_supportsPlatform manifest platform =
    (if platform = [] \<or> mf_supportedPlatforms manifest = [] then True
     else platform \<in> set (mf_supportedPlatforms manifest))"

definition featureModuleFactory :: "module_manifest \<Rightarrow> feature_module module_factory" where
  "featureModuleFactory manifest = \<lparr>
     fa_supports = (\<lambda>requestedModuleId options. requestedModuleId = mf_moduleId manifest \<and>
       supportsRole manifest (cr_role options) \<and> feature_supportsPlatform manifest (cr_localPlatform options)),
     fa_manifest = (\<lambda>options. if \<not> supportsRole manifest (cr_role options) \<or>
         \<not> feature_supportsPlatform manifest (cr_localPlatform options) then default_manifest else manifest),
     fa_create = (\<lambda>options. if \<not> supportsRole manifest (cr_role options) \<or>
         \<not> feature_supportsPlatform manifest (cr_localPlatform options) then None
       else Some (new_feature_module manifest))\<rparr>"

definition defaultFeatureModuleManifests :: "module_manifest list" where
  "defaultFeatureModuleManifests = [catalog_desktopAudio, catalog_microphone, catalog_filesystem,
     catalog_printer, catalog_keyboard, catalog_mouse, catalog_touch, catalog_gamepad, catalog_camera]"

definition makeDefaultFeatureModuleFactories :: "feature_module composer" where
  "makeDefaultFeatureModuleFactories =
     map (\<lambda>manifest. Some (featureModuleFactory manifest)) defaultFeatureModuleManifests"

section \<open>The test echo modules\<close>

abbreviation (input) kPingPrefix :: string where "kPingPrefix \<equiv> ''FDET/1 PING ''"
abbreviation (input) kPongPrefix :: string where "kPongPrefix \<equiv> ''FDET/1 PONG ''"
abbreviation (input) kErrorPrefix :: string where "kErrorPrefix \<equiv> ''FDET/1 ERROR ''"

definition echoChannelKey :: channel_key where
  "echoChannelKey = ChannelKey CID_UserAuthMain CT_Control"

definition controlBinding :: channel_binding where
  "controlBinding = \<lparr>cb_name = ''control'', cb_channelId = CID_UserAuthMain, cb_channelType = CT_Control,
     cb_required = True, cb_shared = True, cb_consumes = [PT_Exchange], cb_produces = [PT_Exchange]\<rparr>"

definition echo_peerCompatibility :: "string \<Rightarrow> peer_compatibility" where
  "echo_peerCompatibility peerModuleId = \<lparr>pc_peerModuleId = peerModuleId,
     pc_minPeerVersion = \<lparr>mv_major = 1, mv_minor = 0, mv_patch = 0\<rparr>,
     pc_maxPeerVersion = \<lparr>mv_major = 1, mv_minor = 99, mv_patch = 99\<rparr>, pc_compatibilityMode = ''echo-v1''\<rparr>"

definition echo_makeManifest :: "session_role \<Rightarrow> module_manifest" where
  "echo_makeManifest role = (let client = (role = SR_Client) in default_manifest\<lparr>
     mf_moduleId := (if client then ''test.echo.client'' else ''test.echo.agent''),
     mf_displayName := (if client then ''Test Echo Client'' else ''Test Echo Agent''),
     mf_sku := ''fusiondesk.module.test.echo'',
     mf_version := \<lparr>mv_major = 1, mv_minor = 0, mv_patch = 0\<rparr>,
     mf_feature := 0,
     mf_roleFlags := (if client then ModuleRoleClient else ModuleRoleAgent),
     mf_runModeFlags := ModuleRunModeInProcess OR ModuleRunModeHosted,
     mf_standaloneSaleUnit := False,
     mf_disableAtRuntime := True,
     mf_supportedPlatforms := [''windows'', ''linux'', ''macos'', ''android''],
     mf_compatiblePeers := [echo_peerCompatibility
       (if client then ''test.echo.agent'' else ''test.echo.client'')],
     mf_channels := [controlBinding]\<rparr>)"

definition matchesRequestedId :: "string \<Rightarrow> session_role \<Rightarrow> bool" where
  "matchesRequestedId requestedModuleId role =
    (if requestedModuleId = ''test.echo'' then True
     else if role = SR_Client then requestedModuleId = ''test.echo.client''
     else if role = SR_Agent then requestedModuleId = ''test.echo.agent''
     else False)"

record echo_module =
  ec_manifest :: module_manifest
  ec_runtime :: module_runtime
  ec_state :: module_state
  ec_nextMessageId :: message_id
  ec_pingsSent :: int
  ec_requestsReceived :: int
  ec_responsesSent :: int
  ec_responsesReceived :: int
  ec_errorsSent :: int
  ec_errorsReceived :: int
  ec_decodeFailures :: int
  ec_sendFailures :: int
  ec_lastMessageId :: message_id
  ec_lastResponseTo :: message_id
  ec_lastPayload :: string
  ec_peerCompatibilityMode :: string

definition new_echo_module :: "module_manifest \<Rightarrow> echo_module" where
  "new_echo_module manifest = \<lparr>ec_manifest = manifest, ec_runtime = default_runtime,
     ec_state = MS_Created, ec_nextMessageId = 1, ec_pingsSent = 0, ec_requestsReceived = 0,
     ec_responsesSent = 0, ec_responsesReceived = 0, ec_errorsSent = 0, ec_errorsReceived = 0,
     ec_decodeFailures = 0, ec_sendFailures = 0, ec_lastMessageId = 0, ec_lastResponseTo = 0,
     ec_lastPayload = [], ec_peerCompatibilityMode = []\<rparr>"

definition echoModuleFactory :: "echo_module module_factory" where
  "echoModuleFactory = \<lparr>
     fa_supports = (\<lambda>requestedModuleId options. clip_roleSupported (cr_role options) \<and>
       matchesRequestedId requestedModuleId (cr_role options)),
     fa_manifest = (\<lambda>options. if \<not> clip_roleSupported (cr_role options) then default_manifest
       else echo_makeManifest (cr_role options)),
     fa_create = (\<lambda>options. if \<not> clip_roleSupported (cr_role options) then None
       else Some (new_echo_module (echo_makeManifest (cr_role options))))\<rparr>"

definition startsWith :: "string \<Rightarrow> string \<Rightarrow> bool" where
  "startsWith str prefix \<longleftrightarrow> length str \<ge> length prefix \<and> take (length prefix) str = prefix"

definition afterPrefix :: "string \<Rightarrow> string \<Rightarrow> string" where
  "afterPrefix str prefix = (if \<not> startsWith str prefix then [] else drop (length prefix) str)"

definition makeEchoPacket :: "module_runtime \<Rightarrow> message_kind \<Rightarrow> packet_envelope" where
  "makeEchoPacket rt kind = default_packet\<lparr>pk_sessionId := cx_sessionId (rt_session rt),
     pk_traceId := cx_traceId (rt_session rt), pk_channelId := key_channelId echoChannelKey,
     pk_channelType := key_channelType echoChannelKey, pk_packetType := PT_Exchange,
     pk_messageKind := kind, pk_priority := PP_Interactive\<rparr>"

definition echo_publish ::
    "string \<Rightarrow> string \<Rightarrow> echo_module \<Rightarrow> ('c, 's, 'w) session_world \<Rightarrow> ('c, 's, 'w) session_world" where
  "echo_publish code message e =
     runtime_publish (ec_runtime e) echoChannelKey (mf_moduleId (ec_manifest e)) code message"

definition echo_attach :: "module_runtime \<Rightarrow> echo_module \<Rightarrow> bool \<times> echo_module" where
  "echo_attach rt e =
     (mf_moduleId (ec_manifest e) \<noteq> [], e\<lparr>ec_runtime := rt, ec_state := MS_Attached\<rparr>)"

definition echo_start ::
    "start_options \<Rightarrow> echo_module \<Rightarrow> ('c, 's, 'w) session_world \<Rightarrow>
     bool \<times> echo_module \<times> ('c, 's, 'w) session_world" where
  "echo_start options e x =
    (if \<not> rt_network (ec_runtime e) then (False, e\<lparr>ec_state := MS_Failed\<rparr>, x)
     else
       let e = (case find pv_compatible (op_peerVersions options) of
             None \<Rightarrow> e | Some peer \<Rightarrow> e\<lparr>ec_peerCompatibilityMode := pv_compatibilityMode peer\<rparr>);
           e = e\<lparr>ec_state := MS_Running\<rparr>
       in (True, e, echo_publish ''test.echo.started'' ''test echo module started'' e x))"

definition echo_stop ::
    "echo_module \<Rightarrow> ('c, 's, 'w) session_world \<Rightarrow> echo_module \<times> ('c, 's, 'w) session_world" where
  "echo_stop e x = (let e = e\<lparr>ec_state := MS_Stopped\<rparr>
     in (e, echo_publish ''test.echo.stopped'' ''test echo module stopped'' e x))"

definition echo_detach :: "echo_module \<Rightarrow> echo_module" where
  "echo_detach e = e\<lparr>ec_state := MS_Detached\<rparr>"

definition sendPing ::
    "('c, 'w) channel_interface \<Rightarrow> string \<Rightarrow> u32 \<Rightarrow> echo_module \<Rightarrow> ('c, 's, 'w) session_world \<Rightarrow>
     message_id \<times> echo_module \<times> ('c, 's, 'w) session_world" where
  "sendPing iface str timeoutMs e x =
    (if ec_state e \<noteq> MS_Running \<or> \<not> rt_network (ec_runtime e) then (0, e, x)
     else
       let messageId = ec_nextMessageId e;
           packet = (makeEchoPacket (ec_runtime e) MK_Request)\<lparr>pk_messageId := messageId,
             pk_correlationId := messageId, pk_timeoutMs := timeoutMs,
             pk_flags := PacketFlagResponseRequired, pk_payload := string_bytes (kPingPrefix @ str)\<rparr>;
           e = e\<lparr>ec_nextMessageId := messageId + 1\<rparr>;
           (result, x) = runtime_send iface packet x
       in if sr_status result \<noteq> SS_Sent then (0, e\<lparr>ec_sendFailures := ec_sendFailures e + 1\<rparr>, x)
          else
            let e = e\<lparr>ec_pingsSent := ec_pingsSent e + 1, ec_lastMessageId := messageId, ec_lastPayload := str\<rparr>
            in (messageId, e, echo_publish ''test.echo.ping_sent'' ''test echo ping sent'' e x))"

definition echo_answer ::
    "message_kind \<Rightarrow> response_status \<Rightarrow> string \<Rightarrow> packet_envelope \<Rightarrow> echo_module \<Rightarrow>
     packet_envelope \<times> echo_module" where
  "echo_answer kind status str request e =
    ((makeEchoPacket (ec_runtime e) kind)\<lparr>pk_messageId := ec_nextMessageId e,
       pk_correlationId := (if pk_correlationId request \<noteq> 0 then pk_correlationId request
         else pk_messageId request),
       pk_responseTo := pk_messageId request, pk_timeoutMs := pk_timeoutMs request,
       pk_responseStatus := status, pk_payload := string_bytes str\<rparr>,
     e\<lparr>ec_nextMessageId := ec_nextMessageId e + 1\<rparr>)"

definition echo_sendResponse ::
    "('c, 'w) channel_interface \<Rightarrow> packet_envelope \<Rightarrow> string \<Rightarrow> echo_module \<Rightarrow> ('c, 's, 'w) session_world \<Rightarrow>
     bool \<times> echo_module \<times> ('c, 's, 'w) session_world" where
  "echo_sendResponse iface request str e x =
    (let (response, e) = echo_answer MK_Response RS_Ok (kPongPrefix @ str) request e;
         (result, x) = runtime_send iface response x
     in if sr_status result \<noteq> SS_Sent then (False, e\<lparr>ec_sendFailures := ec_sendFailures e + 1\<rparr>, x)
        else
          let e = e\<lparr>ec_responsesSent := ec_responsesSent e + 1, ec_lastMessageId := pk_messageId response,
                ec_lastResponseTo := pk_messageId request\<rparr>
          in (True, e, echo_publish ''test.echo.response_sent'' ''test echo response sent'' e x))"

definition echo_sendError ::
    "('c, 'w) channel_interface \<Rightarrow> packet_envelope \<Rightarrow> response_status \<Rightarrow> string \<Rightarrow> echo_module \<Rightarrow>
     ('c, 's, 'w) session_world \<Rightarrow> bool \<times> echo_module \<times> ('c, 's, 'w) session_world" where
  "echo_sendError iface request status str e x =
    (let (response, e) = echo_answer MK_Error status (kErrorPrefix @ str) request e;
         (result, x) = (if rt_network (ec_runtime e) then runtime_send iface response x
           else (\<lparr>sr_status = SS_Failed, sr_message = ''network is missing''\<rparr>, x))
     in if sr_status result \<noteq> SS_Sent then (False, e\<lparr>ec_sendFailures := ec_sendFailures e + 1\<rparr>, x)
        else (True, e\<lparr>ec_errorsSent := ec_errorsSent e + 1, ec_lastMessageId := pk_messageId response,
          ec_lastResponseTo := pk_messageId request\<rparr>, x))"

definition echo_handlePacket ::
    "('c, 'w) channel_interface \<Rightarrow> packet_envelope \<Rightarrow> echo_module \<Rightarrow> ('c, 's, 'w) session_world \<Rightarrow>
     echo_module \<times> ('c, 's, 'w) session_world" where
  "echo_handlePacket iface packet e x =
    (if ec_state e \<noteq> MS_Running \<or> pk_packetType packet \<noteq> PT_Exchange then (e, x)
     else
       let payload = bytes_string (pk_payload packet);
           e = e\<lparr>ec_lastPayload := payload\<rparr>
       in if pk_messageKind packet = MK_Request then
            if \<not> startsWith payload ''FDET/1 '' then (e, x)
            else if \<not> startsWith payload kPingPrefix then
              snd (echo_sendError iface packet RS_ProtocolError ''malformed echo request''
                (e\<lparr>ec_decodeFailures := ec_decodeFailures e + 1\<rparr>) x)
            else
              snd (echo_sendResponse iface packet (afterPrefix payload kPingPrefix)
                (e\<lparr>ec_requestsReceived := ec_requestsReceived e + 1\<rparr>) x)
          else if pk_messageKind packet = MK_Response then
            if \<not> startsWith payload ''FDET/1 '' then (e, x)
            else if pk_responseStatus packet = RS_Ok \<and> startsWith payload kPongPrefix then
              (e\<lparr>ec_responsesReceived := ec_responsesReceived e + 1,
                 ec_lastResponseTo := pk_responseTo packet\<rparr>, x)
            else (e\<lparr>ec_decodeFailures := ec_decodeFailures e + 1\<rparr>, x)
          else if pk_messageKind packet = MK_Error then
            if \<not> startsWith payload kErrorPrefix then (e, x)
            else (e\<lparr>ec_errorsReceived := ec_errorsReceived e + 1,
              ec_lastResponseTo := pk_responseTo packet\<rparr>, x)
          else (e, x))"

definition echo_diagnostics :: "echo_module \<Rightarrow> string" where
  "echo_diagnostics e = ''test.echo id='' @ mf_moduleId (ec_manifest e) @
     '' state='' @ module_stateName (ec_state e) @
     concat (map (\<lambda>(label, n). '' '' @ label @ ''='' @ to_string n)
       [(''pingsSent'', ec_pingsSent e), (''requestsReceived'', ec_requestsReceived e),
        (''responsesSent'', ec_responsesSent e), (''responsesReceived'', ec_responsesReceived e),
        (''errorsSent'', ec_errorsSent e), (''errorsReceived'', ec_errorsReceived e),
        (''decodeFailures'', ec_decodeFailures e), (''sendFailures'', ec_sendFailures e)])"

section \<open>What is created and what is echoed\<close>

text \<open>
  A factory announces the manifest of what it creates: whatever the options, a module the display,
  clipboard, feature or echo factory creates is new and has the manifest the factory gives for these
  options, and the factory creates nothing where it has no manifest to give.
\<close>

definition announces ::
    "('m \<Rightarrow> module_manifest) \<Rightarrow> ('m \<Rightarrow> module_state) \<Rightarrow> 'm module_factory \<Rightarrow> create_options \<Rightarrow> bool" where
  "announces manifest_of state_of factory options \<longleftrightarrow>
     (case fa_create factory options of
        None \<Rightarrow> True
      | Some m \<Rightarrow> manifest_of m = fa_manifest factory options \<and> state_of m = MS_Created)"

definition display_manifest_of :: "'w display_module \<Rightarrow> module_manifest" where
  "display_manifest_of m = (case m of DisplayAgent a \<Rightarrow> da_manifest a | DisplayClient c \<Rightarrow> dl_manifest c)"

definition display_state_of :: "'w display_module \<Rightarrow> module_state" where
  "display_state_of m = (case m of DisplayAgent a \<Rightarrow> da_state a | DisplayClient c \<Rightarrow> dl_state c)"

theorem factories_create_what_they_announce:
  "announces display_manifest_of display_state_of (displayModuleFactory deps) options \<and>
   announces cm_manifest cm_state (clipboardModuleFactory policy window) options \<and>
   announces fu_manifest fu_state (featureModuleFactory manifest) options \<and>
   announces ec_manifest ec_state echoModuleFactory options"
  by (simp add: announces_def displayModuleFactory_def display_create_def display_factory_manifest_def
      display_manifest_of_def display_state_of_def new_display_agent_def new_display_client_def
      clipboardModuleFactory_def new_clipboard_module_def featureModuleFactory_def new_feature_module_def
      echoModuleFactory_def new_echo_module_def)

lemma startsWith_append [simp]: "startsWith (prefix @ str) prefix"
  by (simp add: startsWith_def)

lemma afterPrefix_append [simp]: "afterPrefix (prefix @ str) prefix = str"
  by (simp add: afterPrefix_def)

lemma starts_protocol [simp]:
  "startsWith (CHR ''F'' # CHR ''D'' # CHR ''E'' # CHR ''T'' # CHR ''/'' # CHR ''1'' # CHR '' '' # str) ''FDET/1 ''"
  by (simp add: startsWith_def)

definition ping_packet :: "string \<Rightarrow> u32 \<Rightarrow> echo_module \<Rightarrow> packet_envelope" where
  "ping_packet str timeoutMs e = (makeEchoPacket (ec_runtime e) MK_Request)\<lparr>pk_messageId := ec_nextMessageId e,
     pk_correlationId := ec_nextMessageId e, pk_timeoutMs := timeoutMs,
     pk_flags := PacketFlagResponseRequired, pk_payload := string_bytes (kPingPrefix @ str)\<rparr>"

text \<open>
  A ping is echoed: a running module answers the ping another one sends with the one response that
  carries the same text; and the pinger, still running, counts that response, for the id of its ping.
\<close>

theorem a_ping_is_echoed:
  assumes "ec_state e = MS_Running" and "ec_state responder = MS_Running"
  shows "let ping = ping_packet str timeoutMs e;
       noted = responder\<lparr>ec_lastPayload := kPingPrefix @ str,
         ec_requestsReceived := ec_requestsReceived responder + 1\<rparr>;
       response = fst (echo_answer MK_Response RS_Ok (kPongPrefix @ str) ping noted);
       e' = fst (echo_handlePacket iface response e x)
     in echo_handlePacket iface' ping responder y = snd (echo_sendResponse iface' ping str noted y) \<and>
       ec_responsesReceived e' = ec_responsesReceived e + 1 \<and>
       ec_lastResponseTo e' = ec_nextMessageId e \<and> ec_lastPayload e' = kPongPrefix @ str"
proof -
  have ping: "echo_handlePacket iface' (ping_packet str timeoutMs e) responder y =
      snd (echo_sendResponse iface' (ping_packet str timeoutMs e) str
        (responder\<lparr>ec_lastPayload := kPingPrefix @ str, ec_requestsReceived := ec_requestsReceived responder + 1\<rparr>) y)"
    using assms(2) startsWith_append [of kPingPrefix str] afterPrefix_append [of kPingPrefix str]
    by (simp add: echo_handlePacket_def ping_packet_def makeEchoPacket_def Let_def)
  show ?thesis
    using assms(1) ping startsWith_append [of kPongPrefix str]
    by (simp add: Let_def echo_handlePacket_def echo_answer_def ping_packet_def makeEchoPacket_def)
qed

end
