(* ===== verification/Text_Conversion.thy ===== *)
theory Text_Conversion
  imports Clipboard_Policy
begin

unbundle bit_operations_syntax

text \<open>
  The text conversions of \<open>clipboard_transfer_transcoder.cpp\<close>: UTF-8 and UTF-16, the line ends of
  Windows and of the other platforms, and what a text is after a trip through a native clipboard.
  A position in a C++ string is here the rest of the bytes from that position on.
\<close>

section \<open>Line ends\<close>

text \<open>The code has these on chars; they are stated for any width, for texts as bytes and as code points.\<close>

fun normalizeCrlfToLf :: "'a::len word list \<Rightarrow> 'a word list" where
  "normalizeCrlfToLf [] = []"
| "normalizeCrlfToLf [b] = [b]"
| "normalizeCrlfToLf (b # c # bs) =
    (if b = 13 \<and> c = 10 then 10 # normalizeCrlfToLf bs else b # normalizeCrlfToLf (c # bs))"

fun normalizeLfToCrlf :: "'a::len word list \<Rightarrow> 'a word list" where
  "normalizeLfToCrlf [] = []"
| "normalizeLfToCrlf [b] = (if b = 13 \<or> b = 10 then [13, 10] else [b])"
| "normalizeLfToCrlf (b # c # bs) =
    (if b = 13 then 13 # 10 # (if c = 10 then normalizeLfToCrlf bs else normalizeLfToCrlf (c # bs))
     else if b = 10 then 13 # 10 # normalizeLfToCrlf (c # bs)
     else b # normalizeLfToCrlf (c # bs))"

section \<open>UTF-8\<close>

definition appendUtf8CodePoint :: "byte_buffer \<Rightarrow> u32 \<Rightarrow> byte_buffer" where
  "appendUtf8CodePoint str codePoint =
    str @ (if codePoint \<le> 0x7F then [ucast codePoint]
      else if codePoint \<le> 0x7FF then
        [ucast (0xC0 OR drop_bit 6 codePoint), ucast (0x80 OR (codePoint AND 0x3F))]
      else if codePoint \<le> 0xFFFF then
        [ucast (0xE0 OR drop_bit 12 codePoint), ucast (0x80 OR (drop_bit 6 codePoint AND 0x3F)),
         ucast (0x80 OR (codePoint AND 0x3F))]
      else
        [ucast (0xF0 OR drop_bit 18 codePoint), ucast (0x80 OR (drop_bit 12 codePoint AND 0x3F)),
         ucast (0x80 OR (drop_bit 6 codePoint AND 0x3F)), ucast (0x80 OR (codePoint AND 0x3F))])"

text \<open>What a first byte says: its bits of the code point, the bytes to follow, the least code point.\<close>

definition utf8_lead :: "u8 \<Rightarrow> (u32 \<times> nat \<times> u32) option" where
  "utf8_lead first =
    (if first AND 0xE0 = 0xC0 then Some (ucast (first AND 0x1F), 1, 0x80)
     else if first AND 0xF0 = 0xE0 then Some (ucast (first AND 0x0F), 2, 0x800)
     else if first AND 0xF8 = 0xF0 then Some (ucast (first AND 0x07), 3, 0x10000)
     else None)"

fun nextUtf8CodePoint :: "byte_buffer \<Rightarrow> u32 \<times> byte_buffer" where
  "nextUtf8CodePoint [] = (0, [])"
| "nextUtf8CodePoint (first # rest) =
    (if first < 0x80 then (ucast first, rest)
     else case utf8_lead first of
       None \<Rightarrow> (0xFFFD, rest)
     | Some (codePoint, needed, minValue) \<Rightarrow>
         if needed \<ge> length (first # rest) then (0xFFFD, rest)
         else if list_ex (\<lambda>b. b AND 0xC0 \<noteq> 0x80) (take needed rest) then (0xFFFD, rest)
         else
           let codePoint = foldl (\<lambda>cp b. push_bit 6 cp OR ucast (b AND 0x3F)) codePoint (take needed rest)
           in (if codePoint < minValue \<or> codePoint > 0x10FFFF \<or> (codePoint \<ge> 0xD800 \<and> codePoint \<le> 0xDFFF)
               then 0xFFFD else codePoint, drop needed rest))"

section \<open>UTF-16\<close>

definition appendUtf16LeUnit :: "byte_buffer \<Rightarrow> u16 \<Rightarrow> byte_buffer" where
  "appendUtf16LeUnit str unit = str @ [ucast (unit AND 0xFF), ucast (drop_bit 8 unit AND 0xFF)]"

definition append_utf16 :: "byte_buffer \<Rightarrow> u32 \<Rightarrow> byte_buffer" where
  "append_utf16 str codePoint =
    (if codePoint \<le> 0xFFFF then appendUtf16LeUnit str (ucast codePoint)
     else let scalar = codePoint - 0x10000
       in appendUtf16LeUnit (appendUtf16LeUnit str (ucast (0xD800 + drop_bit 10 scalar)))
            (ucast (0xDC00 + (scalar AND 0x3FF))))"

lemma nextUtf8CodePoint_shorter:
  "bytes \<noteq> [] \<Longrightarrow> length (snd (nextUtf8CodePoint bytes)) < length bytes"
  by (cases bytes) (auto simp: Let_def split: option.splits)

function utf16_loop :: "byte_buffer \<Rightarrow> byte_buffer \<Rightarrow> byte_buffer" where
  "utf16_loop result normalized =
    (if normalized = [] then result
     else let (codePoint, normalized') = nextUtf8CodePoint normalized
       in utf16_loop (append_utf16 result codePoint) normalized')"
  by auto
termination
  by (relation "measure (\<lambda>(result, normalized). length normalized)")
    (simp_all, metis nextUtf8CodePoint_shorter snd_conv)

declare utf16_loop.simps [simp del]

definition utf16LeFromUtf8Text :: "byte_buffer \<Rightarrow> byte_buffer" where
  "utf16LeFromUtf8Text bytes = appendUtf16LeUnit (utf16_loop [] (normalizeLfToCrlf bytes)) 0"

definition le_unit :: "u8 \<Rightarrow> u8 \<Rightarrow> u16" where
  "le_unit lo hi = ucast lo OR push_bit 8 (ucast hi)"

text \<open>A unit that is not 0, with what follows it: the code point they give, and what is left.\<close>

definition utf16_code :: "u16 \<Rightarrow> byte_buffer \<Rightarrow> u32 \<times> byte_buffer" where
  "utf16_code unit rest =
    (if unit \<ge> 0xD800 \<and> unit \<le> 0xDBFF \<and> length rest \<ge> 2 then
       let low = le_unit (rest ! 0) (rest ! 1)
       in if low \<ge> 0xDC00 \<and> low \<le> 0xDFFF then
            (0x10000 + (push_bit 10 (ucast unit - 0xD800) OR (ucast low - 0xDC00)), drop 2 rest)
          else (0xFFFD, rest)
     else if unit \<ge> 0xDC00 \<and> unit \<le> 0xDFFF then (0xFFFD, rest)
     else (ucast unit, rest))"

lemma utf16_code_shorter: "length (snd (utf16_code unit rest)) \<le> length rest"
  by (simp add: utf16_code_def Let_def)

function utf8_loop :: "byte_buffer \<Rightarrow> byte_buffer \<Rightarrow> byte_buffer" where
  "utf8_loop value [] = value"
| "utf8_loop value [b] = value"
| "utf8_loop value (lo # hi # rest) =
    (let unit = le_unit lo hi in
     if unit = 0 then value
     else let (codePoint, rest') = utf16_code unit rest
       in utf8_loop (appendUtf8CodePoint value codePoint) rest')"
  by pat_completeness auto
termination
  by (relation "measure (\<lambda>(result, bytes). length bytes)")
    (simp_all, metis utf16_code_shorter snd_conv le_imp_less_Suc less_SucI)

declare utf8_loop.simps(3) [simp del]

definition utf8FromUtf16LeText :: "byte_buffer \<Rightarrow> byte_buffer" where
  "utf8FromUtf16LeText bytes = normalizeCrlfToLf (utf8_loop [] bytes)"

section \<open>Texts as code points\<close>

definition scalar :: "u32 \<Rightarrow> bool" where
  "scalar cp \<longleftrightarrow> cp \<le> 0x10FFFF \<and> \<not> (cp \<ge> 0xD800 \<and> cp \<le> 0xDFFF)"

abbreviation (input) utf8_code :: "u32 \<Rightarrow> byte_buffer" where
  "utf8_code \<equiv> appendUtf8CodePoint []"

abbreviation (input) utf16_units :: "u32 \<Rightarrow> byte_buffer" where
  "utf16_units \<equiv> append_utf16 []"

definition utf8_of :: "u32 list \<Rightarrow> byte_buffer" where
  "utf8_of cps = concat (map utf8_code cps)"

definition utf16_of :: "u32 list \<Rightarrow> byte_buffer" where
  "utf16_of cps = concat (map utf16_units cps)"

lemma utf8_of_simps [simp]:
  "utf8_of [] = []" "utf8_of (cp # cps) = utf8_code cp @ utf8_of cps"
  "utf8_of (cps @ cps') = utf8_of cps @ utf8_of cps'"
  by (simp_all add: utf8_of_def)

lemma utf16_of_simps [simp]:
  "utf16_of [] = []" "utf16_of (cp # cps) = utf16_units cp @ utf16_of cps"
  by (simp_all add: utf16_of_def)

lemma utf8_append: "appendUtf8CodePoint str cp = str @ utf8_code cp"
  by (simp add: appendUtf8CodePoint_def)

lemma utf16_append: "append_utf16 str cp = str @ utf16_units cp"
  by (simp add: append_utf16_def appendUtf16LeUnit_def Let_def)

text \<open>The code points the decoder reads from any bytes.\<close>

function utf8_codes :: "byte_buffer \<Rightarrow> u32 list" where
  "utf8_codes bytes = (if bytes = [] then []
     else fst (nextUtf8CodePoint bytes) # utf8_codes (snd (nextUtf8CodePoint bytes)))"
  by auto
termination
  by (relation "measure length") (simp_all add: nextUtf8CodePoint_shorter)

declare utf8_codes.simps [simp del]

lemma utf16_loop_codes: "utf16_loop result bytes = result @ utf16_of (utf8_codes bytes)"
proof (induction bytes arbitrary: result rule: length_induct)
  case (1 bytes)
  show ?case
  proof (cases "bytes = []")
    case True
    then show ?thesis by (simp add: utf16_loop.simps utf8_codes.simps)
  next
    case False
    obtain cp rest where rest: "nextUtf8CodePoint bytes = (cp, rest)" by (cases "nextUtf8CodePoint bytes")
    then have "length rest < length bytes" using nextUtf8CodePoint_shorter [OF False] by simp
    with 1 have "utf16_loop (append_utf16 result cp) rest = append_utf16 result cp @ utf16_of (utf8_codes rest)"
      by blast
    then show ?thesis
      using False rest
      by (subst utf16_loop.simps, subst utf8_codes.simps) (simp add: utf16_append [of result])
  qed
qed

lemma next_scalar: "bytes \<noteq> [] \<Longrightarrow> scalar (fst (nextUtf8CodePoint bytes))"
proof (cases bytes)
  case (Cons first rest)
  have "scalar (ucast first)" if "first < 0x80"
  proof -
    have "unat first < 0x80" using that by (simp add: word_less_nat_alt)
    then show ?thesis by (simp add: scalar_def word_le_nat_alt unsigned_ucast_eq take_bit_nat_eq_self)
  qed
  then show ?thesis
    by (auto simp: Cons Let_def scalar_def split: option.splits)
qed simp

lemma utf8_codes_scalar: "list_all scalar (utf8_codes bytes)"
proof (induction bytes rule: length_induct)
  case (1 bytes)
  then show ?case
    by (subst utf8_codes.simps) (simp add: next_scalar nextUtf8CodePoint_shorter)
qed

section \<open>Bits of the bytes\<close>

lemma small_bits: "cp < 2 ^ k \<Longrightarrow> bit (cp :: 'a::len word) n \<Longrightarrow> n < k"
  by (metis bit_take_bit_iff less_mask_eq take_bit_eq_mask and.idem)

lemma header_masks:
  "(0xC0 :: 32 word) = push_bit 6 (mask 2)" "(0xE0 :: 32 word) = push_bit 5 (mask 3)"
  "(0xF0 :: 32 word) = push_bit 4 (mask 4)" "(0x80 :: 32 word) = push_bit 6 (mask 2) AND NOT (mask 7)"
  "(0x3F :: 32 word) = mask 6"
  "(0xC0 :: 8 word) = push_bit 6 (mask 2)" "(0xE0 :: 8 word) = push_bit 5 (mask 3)"
  "(0xF0 :: 8 word) = push_bit 4 (mask 4)" "(0xF8 :: 8 word) = push_bit 3 (mask 5)"
  "(0x80 :: 8 word) = push_bit 6 (mask 2) AND NOT (mask 7)" "(0x3F :: 8 word) = mask 6"
  "(0x1F :: 8 word) = mask 5" "(0x0F :: 8 word) = mask 4" "(0x07 :: 8 word) = mask 3"
  by (simp_all add: mask_eq_exp_minus_1 push_bit_eq_mult)

lemma lead_bits:
  fixes x :: u32
  shows "(ucast (0xC0 OR take_bit 5 x) :: u8) AND 0xE0 = 0xC0"
    "ucast ((ucast (0xC0 OR take_bit 5 x) :: u8) AND 0x1F) = take_bit 5 x"
    "(ucast (0xE0 OR take_bit 4 x) :: u8) AND 0xF0 = 0xE0"
    "ucast ((ucast (0xE0 OR take_bit 4 x) :: u8) AND 0x0F) = take_bit 4 x"
    "(ucast (0xF0 OR take_bit 3 x) :: u8) AND 0xF8 = 0xF0"
    "ucast ((ucast (0xF0 OR take_bit 3 x) :: u8) AND 0x07) = take_bit 3 x"
    "(ucast (0x80 OR (x AND 0x3F)) :: u8) AND 0xC0 = 0x80"
    "ucast ((ucast (0x80 OR (x AND 0x3F)) :: u8) AND 0x3F) = x AND 0x3F"
  unfolding header_masks by (rule bit_word_eqI; auto simp: bit_simps)+

lemma header_bits:
  fixes b :: u8
  shows "b AND 0xF0 = 0xE0 \<Longrightarrow> b AND 0xE0 \<noteq> 0xC0" "b AND 0xF8 = 0xF0 \<Longrightarrow> b AND 0xE0 \<noteq> 0xC0"
    "b AND 0xF8 = 0xF0 \<Longrightarrow> b AND 0xF0 \<noteq> 0xE0"
    "b AND 0xE0 = 0xC0 \<Longrightarrow> \<not> b < 0x80" "b AND 0xF0 = 0xE0 \<Longrightarrow> \<not> b < 0x80"
    "b AND 0xF8 = 0xF0 \<Longrightarrow> \<not> b < 0x80" "b AND 0xC0 = 0x80 \<Longrightarrow> \<not> b < 0x80"
proof -
  have high: "\<not> b < 0x80" if "bit b 7"
    using small_bits [of b 7 7] that by auto
  have bits: "bit b n = bit (h :: u8) n" if "b AND m = h" "bit m n" for m h n
    using that by (auto simp: bit_and_iff)
  show "b AND 0xF0 = 0xE0 \<Longrightarrow> b AND 0xE0 \<noteq> 0xC0"
    using bits [of "0xF0" "0xE0" 5] bits [of "0xE0" "0xC0" 5] by (auto simp: bit_numeral_word_iff)
  show "b AND 0xF8 = 0xF0 \<Longrightarrow> b AND 0xE0 \<noteq> 0xC0"
    using bits [of "0xF8" "0xF0" 5] bits [of "0xE0" "0xC0" 5] by (auto simp: bit_numeral_word_iff)
  show "b AND 0xF8 = 0xF0 \<Longrightarrow> b AND 0xF0 \<noteq> 0xE0"
    using bits [of "0xF8" "0xF0" 4] bits [of "0xF0" "0xE0" 4] by (auto simp: bit_numeral_word_iff)
  show "b AND 0xE0 = 0xC0 \<Longrightarrow> \<not> b < 0x80"
    using bits [of "0xE0" "0xC0" 7] high by (auto simp: bit_numeral_word_iff)
  show "b AND 0xF0 = 0xE0 \<Longrightarrow> \<not> b < 0x80"
    using bits [of "0xF0" "0xE0" 7] high by (auto simp: bit_numeral_word_iff)
  show "b AND 0xF8 = 0xF0 \<Longrightarrow> \<not> b < 0x80"
    using bits [of "0xF8" "0xF0" 7] high by (auto simp: bit_numeral_word_iff)
  show "b AND 0xC0 = 0x80 \<Longrightarrow> \<not> b < 0x80"
    using bits [of "0xC0" "0x80" 7] high by (auto simp: bit_numeral_word_iff)
qed

lemma six_bits: "push_bit 6 (drop_bit 6 x) OR (x AND 0x3F) = (x :: u32)"
  unfolding header_masks by (rule bit_word_eqI) (auto simp: bit_simps)

lemma drop_small:
  "(cp :: u32) < 2 ^ (m + k) \<Longrightarrow> drop_bit m cp = take_bit k (drop_bit m cp)"
  by (rule bit_word_eqI) (auto simp: bit_simps dest!: small_bits [of cp "m + k"])

lemma next_multibyte:
  assumes "\<not> b < 0x80" and "utf8_lead b = Some (x, length bs, m)"
    and "list_all (\<lambda>b. b AND 0xC0 = 0x80) bs"
    and "foldl (\<lambda>cp b. push_bit 6 cp OR ucast (b AND 0x3F)) x bs = cp"
    and "\<not> cp < m" and "scalar cp"
  shows "nextUtf8CodePoint (b # bs @ rest) = (cp, rest)"
  using assms by (auto simp: scalar_def Let_def list_ex_iff list_all_iff)

lemma next_utf8_code: "scalar cp \<Longrightarrow> nextUtf8CodePoint (utf8_code cp @ rest) = (cp, rest)"
proof -
  assume scalar: "scalar cp"
  let ?b = "\<lambda>x. ucast (0x80 OR (x AND 0x3F)) :: u8"
  consider (one) "cp \<le> 0x7F" | (two) "\<not> cp \<le> 0x7F" "cp \<le> 0x7FF"
    | (three) "\<not> cp \<le> 0x7FF" "cp \<le> 0xFFFF" | (four) "\<not> cp \<le> 0xFFFF" "cp \<le> 0x10FFFF"
    using scalar by (auto simp: scalar_def)
  then show ?thesis
  proof cases
    case one
    then have small: "unat cp < 0x80" by (simp add: word_le_nat_alt)
    then have "(ucast cp :: u8) < 0x80"
      by (simp add: word_less_nat_alt unsigned_ucast_eq unsigned_take_bit_eq take_bit_nat_eq_self)
    moreover have "ucast (ucast cp :: u8) = cp"
      by (rule word_unat_eq_iff [THEN iffD2])
        (use small in \<open>simp add: unsigned_ucast_eq unsigned_take_bit_eq take_bit_nat_eq_self\<close>)
    ultimately show ?thesis using one by (simp add: appendUtf8CodePoint_def)
  next
    case two
    then have small: "cp < 2 ^ (6 + 5)" and least: "\<not> cp < 0x80"
      by (simp_all add: word_le_nat_alt word_less_nat_alt)
    have lead: "drop_bit 6 cp = take_bit 5 (drop_bit 6 cp)" by (rule drop_small [OF small])
    let ?h = "ucast (0xC0 OR drop_bit 6 cp) :: u8"
    have b: "?h AND 0xE0 = 0xC0" "ucast (?h AND 0x1F) = drop_bit 6 cp"
      using lead_bits(1,2) [of "drop_bit 6 cp"] lead by metis+
    have "nextUtf8CodePoint (?h # [?b cp] @ rest) = (cp, rest)"
      by (rule next_multibyte [where x = "drop_bit 6 cp"])
        (use b least scalar in \<open>simp_all add: header_bits utf8_lead_def lead_bits six_bits\<close>)
    then show ?thesis using two by (simp add: appendUtf8CodePoint_def)
  next
    case three
    then have small: "cp < 2 ^ (12 + 4)" and least: "\<not> cp < 0x800" "\<not> cp \<le> 0x7F"
      by (simp_all add: word_le_nat_alt word_less_nat_alt)
    have lead: "drop_bit 12 cp = take_bit 4 (drop_bit 12 cp)" by (rule drop_small [OF small])
    let ?h = "ucast (0xE0 OR drop_bit 12 cp) :: u8"
    have b: "?h AND 0xF0 = 0xE0" "ucast (?h AND 0x0F) = drop_bit 12 cp"
      using lead_bits(3,4) [of "drop_bit 12 cp"] lead by metis+
    have "foldl (\<lambda>cp b. push_bit 6 cp OR ucast (b AND 0x3F)) (drop_bit 12 cp) [?b (drop_bit 6 cp), ?b cp] =
        push_bit 6 (push_bit 6 (drop_bit 6 (drop_bit 6 cp)) OR (drop_bit 6 cp AND 0x3F)) OR (cp AND 0x3F)"
      by (simp only: foldl.simps lead_bits) simp
    then have "nextUtf8CodePoint (?h # [?b (drop_bit 6 cp), ?b cp] @ rest) = (cp, rest)"
      by (intro next_multibyte [where x = "drop_bit 12 cp"])
        (use b least scalar in \<open>simp_all add: header_bits utf8_lead_def lead_bits(7) six_bits
          del: drop_bit_drop_bit foldl.simps\<close>)
    then show ?thesis using three least by (simp add: appendUtf8CodePoint_def)
  next
    case four
    then have small: "cp < 2 ^ (18 + 3)" and least: "\<not> cp < 0x10000" "\<not> cp \<le> 0x7F" "\<not> cp \<le> 0x7FF"
      by (simp_all add: word_le_nat_alt word_less_nat_alt)
    have lead: "drop_bit 18 cp = take_bit 3 (drop_bit 18 cp)" by (rule drop_small [OF small])
    let ?h = "ucast (0xF0 OR drop_bit 18 cp) :: u8"
    have b: "?h AND 0xF8 = 0xF0" "ucast (?h AND 0x07) = drop_bit 18 cp"
      using lead_bits(5,6) [of "drop_bit 18 cp"] lead by metis+
    have "foldl (\<lambda>cp b. push_bit 6 cp OR ucast (b AND 0x3F)) (drop_bit 18 cp)
          [?b (drop_bit 12 cp), ?b (drop_bit 6 cp), ?b cp] =
        push_bit 6 (push_bit 6 (push_bit 6 (drop_bit 6 (drop_bit 6 (drop_bit 6 cp))) OR
          (drop_bit 6 (drop_bit 6 cp) AND 0x3F)) OR (drop_bit 6 cp AND 0x3F)) OR (cp AND 0x3F)"
      by (simp only: foldl.simps lead_bits) simp
    then have "nextUtf8CodePoint (?h # [?b (drop_bit 12 cp), ?b (drop_bit 6 cp), ?b cp] @ rest) = (cp, rest)"
      by (intro next_multibyte [where x = "drop_bit 18 cp"])
        (use b least scalar in \<open>simp_all add: header_bits utf8_lead_def lead_bits(7) six_bits
          del: drop_bit_drop_bit foldl.simps\<close>)
    then show ?thesis using four least by (simp add: appendUtf8CodePoint_def)
  qed
qed

lemma le_unit_units: "le_unit (ucast (unit AND 0xFF)) (ucast (drop_bit 8 unit AND 0xFF)) = unit"
proof -
  have m: "(0xFF :: 16 word) = mask 8" by (simp add: mask_eq_exp_minus_1)
  show ?thesis
    unfolding le_unit_def m by (rule bit_word_eqI) (auto simp: bit_simps)
qed

lemma ucast_back: "x < 0x10000 \<Longrightarrow> ucast (ucast x :: u16) = (x :: u32)"
  by (rule word_unat_eq_iff [THEN iffD2])
    (simp add: unsigned_ucast_eq unsigned_take_bit_eq take_bit_nat_eq_self word_less_nat_alt)

lemma utf8_loop_units:
  "utf8_loop str (appendUtf16LeUnit [] unit @ rest) =
    (if unit = 0 then str
     else utf8_loop (appendUtf8CodePoint str (fst (utf16_code unit rest))) (snd (utf16_code unit rest)))"
  using le_unit_units [of unit]
  by (simp only: appendUtf16LeUnit_def append.simps utf8_loop.simps(3) Let_def split_beta)

lemma ten_bits:
  fixes x :: u32
  shows "push_bit 10 (drop_bit 10 x) OR (x AND 0x3FF) = x"
proof -
  have m: "(0x3FF :: 32 word) = mask 10" by (simp add: mask_eq_exp_minus_1)
  show ?thesis unfolding m by (rule bit_word_eqI) (auto simp: bit_simps)
qed

lemma utf8_loop_plane_0:
  assumes "scalar cp" and "cp \<le> 0xFFFF"
  shows "utf8_loop str (utf16_units cp @ rest) =
    (if cp = 0 then str else utf8_loop (appendUtf8CodePoint str cp) rest)"
proof -
  let ?unit = "ucast cp :: u16"
  have again: "ucast ?unit = cp"
    by (rule ucast_back) (use assms(2) in \<open>simp add: word_less_nat_alt word_le_nat_alt\<close>)
  have n: "unat ?unit = unat cp"
    using assms(2) by (simp add: unsigned_ucast_eq unsigned_take_bit_eq take_bit_nat_eq_self word_le_nat_alt)
  have "utf16_code ?unit rest = (cp, rest)"
    using assms(1) by (auto simp: utf16_code_def again scalar_def word_le_nat_alt n)
  moreover have "?unit = 0 \<longleftrightarrow> cp = 0"
    by (metis again ucast_0)
  ultimately show ?thesis
    using assms(2) by (simp add: append_utf16_def utf8_loop_units)
qed

lemma surrogate_parts:
  fixes h l :: u32
  assumes "h < 0x400" and "l < 0x400"
  shows "utf16_code (ucast (0xD800 + h)) (appendUtf16LeUnit [] (ucast (0xDC00 + l)) @ rest) =
      (0x10000 + (push_bit 10 h OR l), rest)"
    "(ucast (0xD800 + h) :: u16) \<noteq> 0"
proof -
  have high: "unat (0xD800 + h) = 0xD800 + unat h" and low: "unat (0xDC00 + l) = 0xDC00 + unat l"
    using assms by (simp_all add: unat_word_ariths word_less_nat_alt)
  have hi: "unat (ucast (0xD800 + h) :: u16) = 0xD800 + unat h"
    and lo: "unat (ucast (0xDC00 + l) :: u16) = 0xDC00 + unat l"
    using assms high low
    by (simp_all add: unsigned_ucast_eq unsigned_take_bit_eq take_bit_nat_eq_self word_less_nat_alt)
  have again: "ucast (ucast (0xD800 + h) :: u16) = 0xD800 + h" "ucast (ucast (0xDC00 + l) :: u16) = 0xDC00 + l"
    using assms by (auto intro!: ucast_back simp: word_less_nat_alt high low)
  let ?low = "ucast (0xDC00 + l) :: u16"
  define t where "t = appendUtf16LeUnit [] ?low @ rest"
  have t: "le_unit (t ! 0) (t ! 1) = ?low" "drop 2 t = rest" "length t \<ge> 2"
    using le_unit_units [of ?low] by (simp_all only: t_def appendUtf16LeUnit_def append.simps nth_Cons_0 nth_Cons_Suc One_nat_def) simp_all
  show "utf16_code (ucast (0xD800 + h)) (appendUtf16LeUnit [] ?low @ rest) =
      (0x10000 + (push_bit 10 h OR l), rest)"
    unfolding t_def [symmetric] using assms t
    by (simp only: utf16_code_def again Let_def word_le_nat_alt word_less_nat_alt hi lo) simp
  show "(ucast (0xD800 + h) :: u16) \<noteq> 0"
    using hi by (metis add_is_0 unat_0 zero_neq_numeral)
qed

lemma utf8_loop_high_planes:
  assumes "scalar cp" and "\<not> cp \<le> 0xFFFF"
  shows "utf8_loop str (utf16_units cp @ rest) = utf8_loop (appendUtf8CodePoint str cp) rest"
proof -
  let ?s = "cp - 0x10000"
  have s: "unat ?s < 0x100000"
    using assms by (auto simp: scalar_def word_le_nat_alt unat_sub)
  have high: "drop_bit 10 ?s < 0x400"
    using s by (simp add: word_less_nat_alt drop_bit_eq_div unat_div less_mult_imp_div_less)
  have low: "?s AND 0x3FF < 0x400"
    by (rule le_less_trans [OF word_and_le1]) simp
  have "0x10000 + (push_bit 10 (drop_bit 10 ?s) OR (?s AND 0x3FF)) = cp"
    by (simp add: ten_bits)
  then have "utf16_code (ucast (0xD800 + drop_bit 10 ?s))
      (appendUtf16LeUnit [] (ucast (0xDC00 + (?s AND 0x3FF))) @ rest) = (cp, rest)"
    using surrogate_parts(1) [OF high low] by simp
  moreover have "utf16_units cp @ rest = appendUtf16LeUnit [] (ucast (0xD800 + drop_bit 10 ?s)) @
      appendUtf16LeUnit [] (ucast (0xDC00 + (?s AND 0x3FF))) @ rest"
    using assms(2) by (simp add: append_utf16_def appendUtf16LeUnit_def Let_def)
  ultimately show ?thesis
    using surrogate_parts(2) [OF high low] by (simp add: utf8_loop_units)
qed

lemma utf8_loop_codes:
  "list_all scalar cps \<Longrightarrow> utf8_loop str (utf16_of cps @ [0, 0]) = str @ utf8_of (takeWhile (\<lambda>cp. cp \<noteq> 0) cps)"
proof (induction cps arbitrary: str)
  case Nil
  then show ?case by (simp add: utf8_loop.simps(3) le_unit_def)
next
  case (Cons cp cps)
  then show ?case
    by (cases "cp \<le> 0xFFFF")
      (auto simp: utf8_loop_plane_0 utf8_loop_high_planes utf8_append [of str])
qed

lemma utf8_codes_utf8: "list_all scalar cps \<Longrightarrow> utf8_codes (utf8_of cps) = cps"
proof (induction cps)
  case Nil
  then show ?case by (simp add: utf8_codes.simps)
next
  case (Cons cp cps)
  have "utf8_code cp \<noteq> []" by (simp add: appendUtf8CodePoint_def)
  with Cons show ?case
    by (subst utf8_codes.simps) (simp add: next_utf8_code)
qed

section \<open>Line ends of texts\<close>

lemma crlf_other: "b \<noteq> 13 \<Longrightarrow> b \<noteq> 10 \<Longrightarrow> normalizeLfToCrlf (b # bs) = b # normalizeLfToCrlf bs"
  by (cases bs) simp_all

lemma crlf_lf: "normalizeLfToCrlf (10 # bs) = 13 # 10 # normalizeLfToCrlf (bs :: 'a::len word list)"
  if "(10 :: 'a word) \<noteq> 13"
  using that by (cases bs) simp_all

lemma crlf_cr: "normalizeLfToCrlf (13 # bs) =
    13 # 10 # normalizeLfToCrlf (if take 1 bs = [10] then drop 1 bs else bs)"
  by (cases bs) simp_all

lemma lf_other: "b \<noteq> 13 \<Longrightarrow> normalizeCrlfToLf (b # bs) = b # normalizeCrlfToLf bs"
  by (cases bs) simp_all

lemma lf_cr: "normalizeCrlfToLf (13 # bs) =
    (if take 1 bs = [10] then 10 # normalizeCrlfToLf (drop 1 bs) else 13 # normalizeCrlfToLf bs)"
  by (cases bs) simp_all

lemma crlf_others: "list_all (\<lambda>b. b \<noteq> 13 \<and> b \<noteq> 10) bs \<Longrightarrow> normalizeLfToCrlf (bs @ rest) = bs @ normalizeLfToCrlf rest"
  by (induction bs) (simp_all add: crlf_other)

lemma lf_others: "list_all (\<lambda>b. b \<noteq> 13 \<and> b \<noteq> 10) bs \<Longrightarrow> normalizeCrlfToLf (bs @ rest) = bs @ normalizeCrlfToLf rest"
  by (induction bs) (simp_all add: lf_other)

lemma ascii_code: "cp \<le> 0x7F \<Longrightarrow> utf8_code cp = [ucast cp]"
  by (simp add: appendUtf8CodePoint_def)

lemma high_bytes:
  fixes x :: u32
  shows "bit (ucast (0x80 OR x) :: u8) 7" "bit (ucast (0xC0 OR x) :: u8) 7"
    "bit (ucast (0xE0 OR x) :: u8) 7" "bit (ucast (0xF0 OR x) :: u8) 7"
  by (simp_all add: bit_simps bit_numeral_word_iff)

lemma not_line_end: "bit (b :: u8) 7 \<Longrightarrow> b \<noteq> 13 \<and> b \<noteq> 10"
  by (auto simp: bit_numeral_word_iff)

lemma utf8_code_not_Nil [simp]: "utf8_code cp \<noteq> []"
  by (simp add: appendUtf8CodePoint_def)

lemma multibyte_code:
  "\<not> cp \<le> 0x7F \<Longrightarrow> list_all (\<lambda>b. b \<noteq> 13 \<and> b \<noteq> 10) (utf8_code cp)"
  by (simp add: appendUtf8CodePoint_def high_bytes not_line_end)

lemma ascii_byte: "cp \<le> 0x7F \<Longrightarrow> (ucast (cp :: u32) :: u8) = 13 \<longleftrightarrow> cp = 13"
  "cp \<le> 0x7F \<Longrightarrow> (ucast (cp :: u32) :: u8) = 10 \<longleftrightarrow> cp = 10"
  by (simp_all add: word_unat_eq_iff [of "ucast cp"] word_unat_eq_iff [of cp] unsigned_ucast_eq
      unsigned_take_bit_eq take_bit_nat_eq_self word_le_nat_alt)

text \<open>The first byte of a text is a line feed exactly if its first code point is.\<close>

lemma starts_with_lf: "take 1 (utf8_of cps) = [10] \<longleftrightarrow> take 1 cps = [10]"
proof (cases cps)
  case (Cons cp rest)
  show ?thesis
  proof (cases "cp \<le> 0x7F")
    case True
    then show ?thesis by (simp add: Cons ascii_code ascii_byte)
  next
    case False
    then obtain b bs where "utf8_code cp = b # bs" "b \<noteq> 10"
      using multibyte_code [OF False] by (cases "utf8_code cp") auto
    then show ?thesis using False by (auto simp: Cons)
  qed
qed simp

lemma drop_lf: "take 1 cps = [10] \<Longrightarrow> drop 1 (utf8_of cps) = utf8_of (drop 1 cps)"
  by (cases cps) (auto simp: ascii_code)

lemma crlf_text: "normalizeLfToCrlf (utf8_of cps) = utf8_of (normalizeLfToCrlf cps)"
proof (induction cps rule: length_induct)
  case (1 cps)
  show ?case
  proof (cases cps)
    case (Cons cp rest)
    with 1 have IH: "normalizeLfToCrlf (utf8_of rest) = utf8_of (normalizeLfToCrlf rest)"
      "normalizeLfToCrlf (utf8_of (drop 1 rest)) = utf8_of (normalizeLfToCrlf (drop 1 rest))"
      by simp_all
    consider (cr) "cp = 13" | (lf) "cp = 10" | (ascii) "cp \<noteq> 13" "cp \<noteq> 10" "cp \<le> 0x7F" | (high) "\<not> cp \<le> 0x7F"
      by blast
    then show ?thesis
    proof cases
      case cr
      then show ?thesis
        using IH by (auto simp: Cons ascii_code crlf_cr starts_with_lf [simplified] drop_lf [simplified])
    next
      case lf
      then show ?thesis using IH by (simp add: Cons ascii_code crlf_lf)
    next
      case ascii
      then show ?thesis using IH by (simp add: Cons ascii_code ascii_byte crlf_other)
    next
      case high
      then have "cp \<noteq> 13" "cp \<noteq> 10" by auto
      then show ?thesis using IH by (simp add: Cons crlf_others [OF multibyte_code [OF high]] crlf_other)
    qed
  qed simp
qed

lemma lf_text: "normalizeCrlfToLf (utf8_of cps) = utf8_of (normalizeCrlfToLf cps)"
proof (induction cps rule: length_induct)
  case (1 cps)
  show ?case
  proof (cases cps)
    case (Cons cp rest)
    with 1 have IH: "normalizeCrlfToLf (utf8_of rest) = utf8_of (normalizeCrlfToLf rest)"
      "normalizeCrlfToLf (utf8_of (drop 1 rest)) = utf8_of (normalizeCrlfToLf (drop 1 rest))"
      by simp_all
    consider (cr) "cp = 13" | (ascii) "cp \<noteq> 13" "cp \<le> 0x7F" | (high) "\<not> cp \<le> 0x7F"
      by blast
    then show ?thesis
    proof cases
      case cr
      then show ?thesis
        using IH by (auto simp: Cons ascii_code lf_cr starts_with_lf [simplified] drop_lf [simplified])
    next
      case ascii
      then show ?thesis using IH by (simp add: Cons ascii_code ascii_byte lf_other)
    next
      case high
      then have "cp \<noteq> 13" by auto
      then show ?thesis using IH by (simp add: Cons lf_others [OF multibyte_code [OF high]] lf_other)
    qed
  qed simp
qed

text \<open>Line ends as the other platforms have them: what is left of a text that went to Windows and back.\<close>

fun unix_lines :: "u32 list \<Rightarrow> u32 list" where
  "unix_lines [] = []"
| "unix_lines [cp] = (if cp = 13 then [10] else [cp])"
| "unix_lines (cp # cp' # cps) =
    (if cp = 13 then 10 # (if cp' = 10 then unix_lines cps else unix_lines (cp' # cps))
     else cp # unix_lines (cp' # cps))"

lemma lf_of_crlf: "normalizeCrlfToLf (normalizeLfToCrlf cps) = unix_lines cps"
  by (induction cps rule: unix_lines.induct) (auto simp: lf_cr lf_other)

lemma unix_lines_same: "13 \<notin> set cps \<Longrightarrow> unix_lines cps = cps"
  by (induction cps rule: unix_lines.induct) auto

lemma crlf_all: "list_all P cps \<Longrightarrow> P 13 \<Longrightarrow> P 10 \<Longrightarrow> list_all P (normalizeLfToCrlf cps)"
  by (induction cps rule: normalizeLfToCrlf.induct) auto

lemma lf_all: "list_all P cps \<Longrightarrow> P 10 \<Longrightarrow> list_all P (normalizeCrlfToLf cps)"
  by (induction cps rule: normalizeCrlfToLf.induct) auto

section \<open>From any UTF-16 text\<close>

definition well_formed_utf8 :: "byte_buffer \<Rightarrow> bool" where
  "well_formed_utf8 bytes \<longleftrightarrow> (\<exists>cps. list_all scalar cps \<and> bytes = utf8_of cps)"

lemma small_unit: "unat (le_unit b 0) < 0x100"
proof -
  have "unat b < 2 ^ LENGTH(8)" by (rule unsigned_less)
  then show ?thesis
    by (simp add: le_unit_def unsigned_ucast_eq unsigned_take_bit_eq take_bit_nat_eq_self)
qed

lemma not_low: "\<not> le_unit b 0 \<ge> 0xDC00"
  using small_unit [of b] by (simp add: word_le_nat_alt)

lemma ucast_unit: "unat (ucast (u :: u16) :: u32) = unat u"
proof -
  have "unat u < 2 ^ LENGTH(16)" by (rule unsigned_less)
  then show ?thesis by (simp add: unsigned_ucast_eq unsigned_take_bit_eq take_bit_nat_eq_self)
qed

lemma plane_bits:
  fixes h l :: u32
  assumes "unat h < 0x400" and "unat l < 0x400"
  shows "unat (push_bit 10 h OR l) = unat h * 0x400 + unat l"
proof -
  have "push_bit 10 h OR l = push_bit 10 h + l"
  proof (rule disjunctive_add [symmetric])
    fix n
    have "l < 2 ^ 10" using assms by (simp add: word_less_nat_alt)
    from small_bits [OF this, of n] show "\<not> bit (push_bit 10 h) n \<or> \<not> bit l n"
      by (auto simp: bit_simps)
  qed
  then show ?thesis
    using assms by (simp add: push_bit_eq_mult unat_word_ariths)
qed

lemma pair_scalar:
  fixes u low :: u16
  assumes "u \<ge> 0xD800" and "u \<le> 0xDBFF" and "low \<ge> 0xDC00" and "low \<le> 0xDFFF"
  shows "scalar (0x10000 + (push_bit 10 (ucast u - 0xD800) OR (ucast low - 0xDC00)))"
proof -
  have h: "unat (ucast u - 0xD800 :: u32) < 0x400" and l: "unat (ucast low - 0xDC00 :: u32) < 0x400"
    using assms by (simp_all add: unat_sub word_le_nat_alt ucast_unit)
  define x where "x = (push_bit 10 (ucast u - 0xD800) OR (ucast low - 0xDC00) :: u32)"
  have "unat x < 0x100000" using h l plane_bits [OF h l] by (simp add: x_def)
  then have "unat (0x10000 + x) = 0x10000 + unat x" by (simp add: unat_word_ariths)
  then show ?thesis
    using \<open>unat x < 0x100000\<close> by (simp add: scalar_def word_le_nat_alt flip: x_def)
qed

text \<open>In a text that ends with a zero unit a unit never lacks the one that follows it.\<close>

lemma utf16_code_step:
  "\<exists>rest'. utf16_code u (rest @ [0, 0]) = (fst (utf16_code u (rest @ [0, 0])), rest' @ [0, 0]) \<and>
    length rest' \<le> length rest \<and> scalar (fst (utf16_code u (rest @ [0, 0])))"
proof -
  let ?t = "rest @ [0, 0]" let ?low = "le_unit (?t ! 0) (?t ! 1)"
  consider (pair) "u \<ge> 0xD800" "u \<le> 0xDBFF" "?low \<ge> 0xDC00" "?low \<le> 0xDFFF"
    | (single) "\<not> (u \<ge> 0xD800 \<and> u \<le> 0xDBFF \<and> ?low \<ge> 0xDC00 \<and> ?low \<le> 0xDFFF)"
    by blast
  then show ?thesis
  proof cases
    case pair
    then have "length rest \<ge> 2"
      using not_low by (cases rest; cases "tl rest") auto
    then have "drop 2 ?t = drop 2 rest @ [0, 0]" by simp
    then show ?thesis
      using pair pair_scalar [OF pair] by (auto simp: utf16_code_def Let_def)
  next
    case single
    then have "utf16_code u ?t = (if u \<ge> 0xD800 \<and> u \<le> 0xDFFF then 0xFFFD else ucast u, ?t)"
      by (simp add: utf16_code_def Let_def word_le_nat_alt) linarith
    moreover have "scalar (ucast u)" if "\<not> (u \<ge> 0xD800 \<and> u \<le> 0xDFFF)"
    proof -
      have "unat u < 2 ^ LENGTH(16)" by (rule unsigned_less)
      then show ?thesis using that by (simp add: scalar_def word_le_nat_alt ucast_unit)
    qed
    ultimately show ?thesis by (auto simp: scalar_def)
  qed
qed

lemma utf8_loop_scalar: "\<exists>cps. list_all scalar cps \<and> utf8_loop str (bytes @ [0, 0]) = str @ utf8_of cps"
proof (induction bytes arbitrary: str rule: length_induct)
  case (1 bytes)
  have stop: "\<exists>cps. list_all scalar cps \<and> str = str @ utf8_of cps"
    by (rule exI [of _ "[]"]) simp
  consider (none) "bytes = []" | (one) b where "bytes = [b]" | (more) lo hi rest where "bytes = lo # hi # rest"
    by (metis list.exhaust)
  then show ?case
  proof cases
    case none
    then show ?thesis using stop by (simp add: utf8_loop.simps(3) le_unit_def)
  next
    case (one b)
    have "scalar (fst (utf16_code (le_unit b 0) [0]))"
      using small_unit [of b] by (simp add: utf16_code_def scalar_def word_le_nat_alt ucast_unit)
    moreover have "snd (utf16_code (le_unit b 0) [0]) = [0]"
      by (simp add: utf16_code_def)
    ultimately show ?thesis
      using one stop
      by (auto simp: utf8_loop.simps(3) Let_def split_beta utf8_append [of str]
          intro!: exI [of _ "[fst (utf16_code (le_unit b 0) [0])]"])
  next
    case (more lo hi rest)
    let ?u = "le_unit lo hi" let ?cp = "fst (utf16_code ?u (rest @ [0, 0]))"
    obtain rest' where step: "utf16_code ?u (rest @ [0, 0]) = (?cp, rest' @ [0, 0])"
      "length rest' \<le> length rest" "scalar ?cp"
      using utf16_code_step by blast
    then have "length rest' < length bytes" by (simp add: more)
    with 1 obtain cps where "list_all scalar cps"
      "utf8_loop (appendUtf8CodePoint str ?cp) (rest' @ [0, 0]) = appendUtf8CodePoint str ?cp @ utf8_of cps"
      by blast
    with step have "list_all scalar (?cp # cps)"
      "?u \<noteq> 0 \<Longrightarrow> utf8_loop str (bytes @ [0, 0]) = str @ utf8_of (?cp # cps)"
      using snd_conv [of ?cp "rest' @ [0, 0]"]
      by (simp_all add: more utf8_loop.simps(3) Let_def split_beta utf8_append [of str] flip: step(1))
    moreover have "utf8_loop str (bytes @ [0, 0]) = str" if "?u = 0"
      using that by (simp add: more utf8_loop.simps(3))
    ultimately show ?thesis using stop by metis
  qed
qed

section \<open>A text that goes to UTF-16 and back\<close>

text \<open>For any bytes, malformed ones included: what comes back is a text, up to the first zero.\<close>

lemma utf16_and_back:
  "utf8FromUtf16LeText (utf16LeFromUtf8Text bytes) =
    utf8_of (normalizeCrlfToLf (takeWhile (\<lambda>cp. cp \<noteq> 0) (utf8_codes (normalizeLfToCrlf bytes))))"
proof -
  have "utf16LeFromUtf8Text bytes = utf16_of (utf8_codes (normalizeLfToCrlf bytes)) @ [0, 0]"
    by (simp add: utf16LeFromUtf8Text_def utf16_loop_codes appendUtf16LeUnit_def)
  then show ?thesis
    by (simp add: utf8FromUtf16LeText_def utf8_loop_codes utf8_codes_scalar lf_text)
qed

lemma text_and_back:
  assumes "list_all (\<lambda>cp. scalar cp \<and> cp \<noteq> 0) cps"
  shows "utf8FromUtf16LeText (utf16LeFromUtf8Text (utf8_of cps)) = utf8_of (unix_lines cps)"
proof -
  have all: "list_all (\<lambda>cp. scalar cp \<and> cp \<noteq> 0) (normalizeLfToCrlf cps)"
    by (rule crlf_all [OF assms]) (simp_all add: scalar_def)
  then have "utf8_codes (normalizeLfToCrlf (utf8_of cps)) = normalizeLfToCrlf cps"
    by (simp add: crlf_text utf8_codes_utf8 list_all_iff)
  moreover have "takeWhile (\<lambda>cp. cp \<noteq> 0) (normalizeLfToCrlf cps) = normalizeLfToCrlf cps"
    using all by (auto simp: takeWhile_eq_all_conv list_all_iff)
  ultimately show ?thesis by (simp only: utf16_and_back lf_of_crlf)
qed

lemma converted_is_utf8: "well_formed_utf8 (utf8FromUtf16LeText (bytes @ [0, 0]))"
proof -
  obtain cps where "list_all scalar cps" "utf8_loop [] (bytes @ [0, 0]) = utf8_of cps"
    using utf8_loop_scalar [of "[]" bytes] by auto
  then show ?thesis
    by (auto simp: well_formed_utf8_def utf8FromUtf16LeText_def lf_text scalar_def
        intro!: exI [of _ "normalizeCrlfToLf cps"] lf_all)
qed

text \<open>
  Without the zero unit at the end this fails: a high surrogate that is the last unit is written as
  if it were a code point, and what comes out is not UTF-8.
\<close>

theorem lone_surrogate_is_not_utf8:
  "utf8FromUtf16LeText [0x00, 0xD8] = [0xED, 0xA0, 0x80] \<and> \<not> well_formed_utf8 [0xED, 0xA0, 0x80]"
proof
  show "utf8FromUtf16LeText [0x00, 0xD8] = [0xED, 0xA0, 0x80]"
    by code_simp
  have "utf8_codes [0xED, 0xA0, 0x80] \<noteq> [] \<and> hd (utf8_codes [0xED, 0xA0, 0x80]) = 0xFFFD"
    by code_simp
  moreover have "hd [0xED, 0xA0, 0x80 :: u8] \<noteq> hd (utf8_code 0xFFFD)"
    by code_simp
  ultimately show "\<not> well_formed_utf8 [0xED, 0xA0, 0x80]"
    unfolding well_formed_utf8_def
    by (metis utf8_codes_utf8 list.collapse utf8_of_simps(2) hd_append2 utf8_code_not_Nil)
qed

end
