(* ===== verification/Transfer_Formats.thy ===== *)
theory Transfer_Formats
  imports Clipboard_Policy
begin

text \<open>
  \<open>clipboard_transfer_format.cpp\<close>: the names the platforms have for the canonical formats, in both
  directions, and the transcoder that changes nothing.
\<close>

section \<open>Names\<close>

text \<open>\<open>std::tolower\<close> on every char, in the C locale.\<close>

definition lower_char :: "char \<Rightarrow> char" where
  "lower_char c = (let n = of_char c :: nat in if 65 \<le> n \<and> n \<le> 90 then char_of (n + 32) else c)"

definition lowered :: "string \<Rightarrow> string" where
  "lowered str = map lower_char str"

abbreviation (input) TPF_Windows :: platform_family where "TPF_Windows \<equiv> 1"
abbreviation (input) TPF_Linux :: platform_family where "TPF_Linux \<equiv> 2"
abbreviation (input) TPF_MacOS :: platform_family where "TPF_MacOS \<equiv> 3"
abbreviation (input) TPF_Android :: platform_family where "TPF_Android \<equiv> 4"
abbreviation (input) TPF_Ios :: platform_family where "TPF_Ios \<equiv> 5"
abbreviation (input) TPF_Qt :: platform_family where "TPF_Qt \<equiv> 6"
abbreviation (input) TPF_Wayland :: platform_family where "TPF_Wayland \<equiv> 7"
abbreviation (input) TPF_Gtk :: platform_family where "TPF_Gtk \<equiv> 8"

type_synonym format_class = u16

abbreviation (input) TFC_Unknown :: format_class where "TFC_Unknown \<equiv> 0"
abbreviation (input) TFC_PlainText :: format_class where "TFC_PlainText \<equiv> 1"
abbreviation (input) TFC_Html :: format_class where "TFC_Html \<equiv> 2"
abbreviation (input) TFC_Rtf :: format_class where "TFC_Rtf \<equiv> 3"
abbreviation (input) TFC_Image :: format_class where "TFC_Image \<equiv> 4"
abbreviation (input) TFC_FileList :: format_class where "TFC_FileList \<equiv> 5"
abbreviation (input) TFC_OwnerMarker :: format_class where "TFC_OwnerMarker \<equiv> 6"
abbreviation (input) TFC_Custom :: format_class where "TFC_Custom \<equiv> 7"

type_synonym format_scope = u16

abbreviation (input) TFS_Unknown :: format_scope where "TFS_Unknown \<equiv> 0"
abbreviation (input) TFS_CrossOs :: format_scope where "TFS_CrossOs \<equiv> 1"
abbreviation (input) TFS_SamePlatform :: format_scope where "TFS_SamePlatform \<equiv> 2"
abbreviation (input) TFS_Internal :: format_scope where "TFS_Internal \<equiv> 3"

definition FdclOwnerMarkerFormat :: string where
  "FdclOwnerMarkerFormat = ''application/x-fdcl-owner-marker''"

definition classForCanonical :: "string \<Rightarrow> format_class" where
  "classForCanonical canonical = (let str = lowered canonical in
     if str = TextPlainUtf8Format then TFC_PlainText
     else if str = TextHtmlFormat then TFC_Html
     else if str = TextRtfFormat then TFC_Rtf
     else if str = ImagePngFormat \<or> str = ImageDibFormat then TFC_Image
     else if str = FdclFileListFormat then TFC_FileList
     else if str = FdclOwnerMarkerFormat then TFC_OwnerMarker
     else if str \<noteq> [] then TFC_Custom else TFC_Unknown)"

section \<open>From a native name\<close>

definition windows_names :: "(string \<times> string) list" where
  "windows_names = [(''cf_unicodetext'', TextPlainUtf8Format), (''html format'', TextHtmlFormat),
     (''rich text format'', TextRtfFormat), (''png'', ImagePngFormat), (''cf_dib'', ImageDibFormat),
     (''cf_dibv5'', ImageDibFormat), (''filegroupdescriptorw'', FdclFileListFormat),
     (''filecontents'', FdclFileListFormat), (''cf_hdrop'', FdclFileListFormat)]"

definition linux_names :: "(string \<times> string) list" where
  "linux_names = [(''utf8_string'', TextPlainUtf8Format), (''text/plain'', TextPlainUtf8Format),
     (''text/plain;charset=utf-8'', TextPlainUtf8Format), (''text/plain;charset=utf8'', TextPlainUtf8Format),
     (''text/html'', TextHtmlFormat), (''text/rtf'', TextRtfFormat), (''application/rtf'', TextRtfFormat),
     (''image/png'', ImagePngFormat), (''text/uri-list'', FdclFileListFormat),
     (''x-special/gnome-copied-files'', FdclFileListFormat),
     (''x-special/mate-copied-files'', FdclFileListFormat), (''text/x-moz-url'', FdclFileListFormat)]"

definition mac_names :: "(string \<times> string) list" where
  "mac_names = [(''public.utf8-plain-text'', TextPlainUtf8Format),
     (''public.utf16-plain-text'', TextPlainUtf8Format), (''public.html'', TextHtmlFormat),
     (''public.rtf'', TextRtfFormat), (''public.png'', ImagePngFormat), (''public.file-url'', FdclFileListFormat)]"

definition android_names :: "(string \<times> string) list" where
  "android_names = [(''text/plain'', TextPlainUtf8Format), (''text/html'', TextHtmlFormat),
     (''image/png'', ImagePngFormat), (''text/uri-list'', FdclFileListFormat)]"

definition is_linux_like :: "platform_family \<Rightarrow> bool" where
  "is_linux_like platform \<longleftrightarrow> platform = TPF_Linux \<or> platform = TPF_Qt \<or> platform = TPF_Wayland \<or>
     platform = TPF_Gtk"

definition is_mac_like :: "platform_family \<Rightarrow> bool" where
  "is_mac_like platform \<longleftrightarrow> platform = TPF_MacOS \<or> platform = TPF_Ios"

definition canonicalForNative :: "platform_family \<Rightarrow> string \<Rightarrow> string" where
  "canonicalForNative platform nativeName =
    (let str = lowered nativeName;
         names = (if platform = TPF_Windows then windows_names
           else if is_linux_like platform then linux_names
           else if is_mac_like platform then mac_names
           else if platform = TPF_Android then android_names else [])
     in if str = [] then [] else case map_of names str of Some canonical \<Rightarrow> canonical | None \<Rightarrow> [])"

record mapping_request =
  mq_native :: native_format
  mq_formatId :: u64
  mq_itemIndex :: u32
  mq_estimatedBytes :: u64
  mq_canInline :: bool
  mq_canStream :: bool

record mapping_result =
  mp_mapped :: bool
  mp_descriptor :: format_descriptor
  mp_formatClass :: format_class
  mp_reason :: string

definition default_descriptor :: format_descriptor where
  "default_descriptor = \<lparr>fd_canonicalFormat = [], fd_nativeFormatName = [], fd_localFormatToken = 0,
     fd_formatId = 0, fd_itemIndex = 0, fd_estimatedBytes = 0, fd_canInline = True, fd_canStream = False,
     fd_preferredEncoding = EM_CanonicalBytes\<rparr>"

definition mapNativeToCanonical :: "mapping_request \<Rightarrow> mapping_result" where
  "mapNativeToCanonical request =
    (let native = mq_native request;
         canonical = canonicalForNative (nf_platform native) (nf_nativeFormatName native)
     in if canonical = [] then
          \<lparr>mp_mapped = False, mp_descriptor = default_descriptor, mp_formatClass = TFC_Unknown,
            mp_reason = ''native clipboard format is not mapped''\<rparr>
        else
          \<lparr>mp_mapped = True,
            mp_descriptor = \<lparr>fd_canonicalFormat = canonical,
              fd_nativeFormatName = nf_nativeFormatName native,
              fd_localFormatToken = nf_localFormatToken native, fd_formatId = mq_formatId request,
              fd_itemIndex = mq_itemIndex request, fd_estimatedBytes = mq_estimatedBytes request,
              fd_canInline = mq_canInline request, fd_canStream = mq_canStream request,
              fd_preferredEncoding = EM_NativePassthrough\<rparr>,
            mp_formatClass = classForCanonical canonical, mp_reason = []\<rparr>)"

section \<open>To native names\<close>

record native_candidate =
  nc_native :: native_format
  nc_encoding :: encoding_mode
  nc_priority :: int

definition candidate :: "platform_family \<Rightarrow> string \<Rightarrow> encoding_mode \<Rightarrow> int \<Rightarrow> native_candidate" where
  "candidate platform nativeName encoding priority =
    \<lparr>nc_native = default_native_format\<lparr>nf_platform := platform, nf_nativeFormatName := nativeName\<rparr>,
     nc_encoding = encoding, nc_priority = priority\<rparr>"

definition windows_candidates :: "string \<Rightarrow> (string \<times> encoding_mode \<times> int) list" where
  "windows_candidates canonical =
    (if canonical = TextPlainUtf8Format then [(''CF_UNICODETEXT'', EM_Transcoded, 100)]
     else if canonical = TextHtmlFormat then [(''HTML Format'', EM_Transcoded, 100)]
     else if canonical = TextRtfFormat then [(''Rich Text Format'', EM_NativePassthrough, 100)]
     else if canonical = ImagePngFormat then
       [(''PNG'', EM_NativePassthrough, 100), (''CF_DIBV5'', EM_Transcoded, 90), (''CF_DIB'', EM_Transcoded, 80)]
     else if canonical = ImageDibFormat then
       [(''CF_DIBV5'', EM_NativePassthrough, 100), (''CF_DIB'', EM_NativePassthrough, 90)]
     else if canonical = FdclFileListFormat then
       [(''FileGroupDescriptorW'', EM_Transcoded, 100), (''FileContents'', EM_Transcoded, 90)]
     else [])"

definition linux_candidates :: "string \<Rightarrow> (string \<times> encoding_mode \<times> int) list" where
  "linux_candidates canonical =
    (if canonical = TextPlainUtf8Format then
       [(''text/plain;charset=utf-8'', EM_CanonicalBytes, 100), (''UTF8_STRING'', EM_CanonicalBytes, 90)]
     else if canonical = TextHtmlFormat then [(''text/html'', EM_CanonicalBytes, 100)]
     else if canonical = TextRtfFormat then [(''text/rtf'', EM_NativePassthrough, 100)]
     else if canonical = ImagePngFormat then [(''image/png'', EM_CanonicalBytes, 100)]
     else if canonical = FdclFileListFormat then
       [(''text/uri-list'', EM_Transcoded, 100), (''x-special/gnome-copied-files'', EM_Transcoded, 95),
        (''x-special/mate-copied-files'', EM_Transcoded, 90), (''text/x-moz-url'', EM_Transcoded, 80)]
     else [])"

definition mac_candidates :: "string \<Rightarrow> (string \<times> encoding_mode \<times> int) list" where
  "mac_candidates canonical =
    (if canonical = TextPlainUtf8Format then [(''public.utf8-plain-text'', EM_CanonicalBytes, 100)]
     else if canonical = TextHtmlFormat then [(''public.html'', EM_CanonicalBytes, 100)]
     else if canonical = TextRtfFormat then [(''public.rtf'', EM_NativePassthrough, 100)]
     else if canonical = ImagePngFormat then [(''public.png'', EM_CanonicalBytes, 100)]
     else if canonical = FdclFileListFormat then [(''public.file-url'', EM_Transcoded, 100)]
     else [])"

definition android_candidates :: "string \<Rightarrow> (string \<times> encoding_mode \<times> int) list" where
  "android_candidates canonical =
    (if canonical = TextPlainUtf8Format then [(''text/plain'', EM_CanonicalBytes, 100)]
     else if canonical = TextHtmlFormat then [(''text/html'', EM_CanonicalBytes, 100)]
     else if canonical = ImagePngFormat then [(''image/png'', EM_CanonicalBytes, 100)]
     else if canonical = FdclFileListFormat then [(''text/uri-list'', EM_Transcoded, 100)]
     else [])"

definition nativeCandidates :: "string \<Rightarrow> platform_family \<Rightarrow> native_candidate list" where
  "nativeCandidates canonicalFormat targetPlatform =
    (let canonical = lowered canonicalFormat in
     map (\<lambda>(nativeName, encoding, priority). candidate targetPlatform nativeName encoding priority)
       (if targetPlatform = TPF_Windows then windows_candidates canonical
        else if is_linux_like targetPlatform then linux_candidates canonical
        else if is_mac_like targetPlatform then mac_candidates canonical
        else if targetPlatform = TPF_Android then android_candidates canonical else []))"

definition formatClass :: "string \<Rightarrow> format_class" where
  "formatClass canonicalFormat = classForCanonical canonicalFormat"

section \<open>The canonical formats\<close>

record canonical_spec =
  cf_canonicalFormat :: string
  cf_formatClass :: format_class
  cf_scope :: format_scope
  cf_canonicalEncoding :: encoding_mode
  cf_userVisible :: bool

definition defaultCanonicalTransferFormats :: "canonical_spec list" where
  "defaultCanonicalTransferFormats =
    map (\<lambda>(canonical, formatClass, scope, encoding, visible). \<lparr>cf_canonicalFormat = canonical,
        cf_formatClass = formatClass, cf_scope = scope, cf_canonicalEncoding = encoding, cf_userVisible = visible\<rparr>)
      [(TextPlainUtf8Format, TFC_PlainText, TFS_CrossOs, EM_CanonicalBytes, True),
       (TextHtmlFormat, TFC_Html, TFS_CrossOs, EM_CanonicalBytes, True),
       (TextRtfFormat, TFC_Rtf, TFS_CrossOs, EM_CanonicalBytes, True),
       (ImagePngFormat, TFC_Image, TFS_CrossOs, EM_CanonicalBytes, True),
       (FdclFileListFormat, TFC_FileList, TFS_CrossOs, EM_CanonicalBytes, True),
       (ImageDibFormat, TFC_Image, TFS_SamePlatform, EM_NativePassthrough, True),
       (FdclOwnerMarkerFormat, TFC_OwnerMarker, TFS_Internal, EM_CanonicalBytes, False)]"

definition canonicalTransferFormatSpec :: "string \<Rightarrow> canonical_spec option" where
  "canonicalTransferFormatSpec canonicalFormat =
    find (\<lambda>spec. lowered (cf_canonicalFormat spec) = lowered canonicalFormat) defaultCanonicalTransferFormats"

definition isKnownCanonicalTransferFormat :: "string \<Rightarrow> bool" where
  "isKnownCanonicalTransferFormat canonicalFormat \<longleftrightarrow> canonicalTransferFormatSpec canonicalFormat \<noteq> None"

definition isCrossOsCanonicalTransferFormat :: "string \<Rightarrow> bool" where
  "isCrossOsCanonicalTransferFormat canonicalFormat =
    (case canonicalTransferFormatSpec canonicalFormat of
       None \<Rightarrow> False | Some spec \<Rightarrow> cf_scope spec = TFS_CrossOs)"

section \<open>The transcoder that changes nothing\<close>

definition same_native_name :: "native_format \<Rightarrow> native_format \<Rightarrow> bool" where
  "same_native_name l r \<longleftrightarrow> nf_platform l = nf_platform r \<and>
     lowered (nf_nativeFormatName l) = lowered (nf_nativeFormatName r)"

definition identity_canTranscode :: "transcode_request \<Rightarrow> bool" where
  "identity_canTranscode request =
    (if tq_canonicalFormat request = [] then False
     else if tq_sourceEncoding request = EM_NativePassthrough \<and>
         tq_targetEncoding request = EM_NativePassthrough then
       same_native_name (tq_sourceNative request) (tq_targetNative request)
     else tq_sourceEncoding request = tq_targetEncoding request)"

definition transcode_ok :: "encoding_mode \<Rightarrow> byte_buffer \<Rightarrow> transcode_result" where
  "transcode_ok encoding bytes =
    \<lparr>tc_status = RS_Ok, tc_encoding = encoding, tc_bytes = bytes, tc_message = []\<rparr>"

definition unsupportedResult :: "string \<Rightarrow> transcode_result" where
  "unsupportedResult message = \<lparr>tc_status = RS_Unsupported, tc_encoding = EM_CanonicalBytes,
     tc_bytes = [], tc_message = message\<rparr>"

definition identity_transcode :: "transcode_request \<Rightarrow> transcode_result" where
  "identity_transcode request =
    (if \<not> identity_canTranscode request then
       unsupportedResult ''identity transcoder cannot convert requested format''
     else transcode_ok (tq_targetEncoding request) (tq_bytes request))"

definition identity_transcoder :: transcoder where
  "identity_transcoder = \<lparr>canTranscode = identity_canTranscode, transcode = identity_transcode\<rparr>"

end
