(* ===== verification/Transfer_Transcoder.thy ===== *)
theory Transfer_Transcoder
  imports Text_Conversion Transfer_Formats
begin

unbundle bit_operations_syntax

text \<open>
  \<open>clipboard_transfer_transcoder.cpp\<close>: the transcoder between the canonical formats and the native
  ones, with the header of Windows' HTML format; its text conversions are in \<open>Text_Conversion\<close>.
\<close>

section \<open>Native formats\<close>

definition sameName :: "string \<Rightarrow> string \<Rightarrow> bool" where
  "sameName l r \<longleftrightarrow> lowered l = lowered r"

definition nativeNameIs :: "native_format \<Rightarrow> string \<Rightarrow> bool" where
  "nativeNameIs native expected = sameName (nf_nativeFormatName native) expected"

definition sameNativeFormat :: "native_format \<Rightarrow> native_format \<Rightarrow> bool" where
  "sameNativeFormat l r =
    (if nf_nativeFormatName l = [] \<and> nf_nativeFormatName r = [] \<and> nf_localFormatToken l = 0 \<and>
        nf_localFormatToken r = 0 then False
     else if (nf_nativeFormatName l \<noteq> [] \<or> nf_nativeFormatName r \<noteq> []) \<and>
        \<not> sameName (nf_nativeFormatName l) (nf_nativeFormatName r) then False
     else if (nf_localFormatToken l \<noteq> 0 \<or> nf_localFormatToken r \<noteq> 0) \<and>
        nf_localFormatToken l \<noteq> nf_localFormatToken r then False
     else nf_platform l = TPF_Unknown \<or> nf_platform r = TPF_Unknown \<or> nf_platform l = nf_platform r)"

definition isWindowsUnicodeText :: "native_format \<Rightarrow> bool" where
  "isWindowsUnicodeText native \<longleftrightarrow> nativeNameIs native ''CF_UNICODETEXT'' \<or>
     (nf_platform native = TPF_Unknown \<or> nf_platform native = TPF_Windows) \<and> nf_localFormatToken native = 13"

definition isUtf8TextNative :: "native_format \<Rightarrow> bool" where
  "isUtf8TextNative native \<longleftrightarrow> list_ex (nativeNameIs native)
     [''UTF8_STRING'', ''text/plain'', ''text/plain;charset=utf-8'', ''text/plain;charset=utf8'',
      ''public.utf8-plain-text'']"

definition isUtf16TextNative :: "native_format \<Rightarrow> bool" where
  "isUtf16TextNative native \<longleftrightarrow>
     isWindowsUnicodeText native \<or> nativeNameIs native ''public.utf16-plain-text''"

definition isHtmlNative :: "native_format \<Rightarrow> bool" where
  "isHtmlNative native \<longleftrightarrow> list_ex (nativeNameIs native) [''HTML Format'', ''text/html'', ''public.html'']"

definition isRtfNative :: "native_format \<Rightarrow> bool" where
  "isRtfNative native \<longleftrightarrow>
     list_ex (nativeNameIs native) [''Rich Text Format'', ''text/rtf'', ''application/rtf'', ''public.rtf'']"

definition isPngNative :: "native_format \<Rightarrow> bool" where
  "isPngNative native \<longleftrightarrow> list_ex (nativeNameIs native) [''PNG'', ''image/png'', ''public.png'']"

definition isDibNative :: "native_format \<Rightarrow> bool" where
  "isDibNative native \<longleftrightarrow> list_ex (nativeNameIs native) [''CF_DIB'', ''CF_DIBV5'']"

section \<open>Windows HTML\<close>

text \<open>\<open>std::string::find\<close>: where a string first occurs.\<close>

fun find_string :: "string \<Rightarrow> string \<Rightarrow> nat option" where
  "find_string name [] = (if name = [] then Some 0 else None)"
| "find_string name (c # str) =
    (if take (length name) (c # str) = name then Some 0 else map_option Suc (find_string name str))"

definition is_digit :: "char \<Rightarrow> bool" where
  "is_digit c \<longleftrightarrow> 48 \<le> (of_char c :: nat) \<and> of_char c \<le> (57 :: nat)"

definition decimalField :: "string \<Rightarrow> string \<Rightarrow> u64 \<Rightarrow> u64" where
  "decimalField str name fallback =
    (case find_string name str of
       None \<Rightarrow> fallback
     | Some pos \<Rightarrow>
         let digits = takeWhile is_digit (dropWhile (\<lambda>c. c = CHR '' '') (drop (pos + length name) str))
         in if digits = [] then fallback
            else foldl (\<lambda>n c. n * 10 + of_nat (of_char c - 48)) 0 digits)"

abbreviation (input) startMarker :: string where "startMarker \<equiv> ''<!--StartFragment-->''"
abbreviation (input) endMarker :: string where "endMarker \<equiv> ''<!--EndFragment-->''"
abbreviation (input) crlf :: string where "crlf \<equiv> [CHR 13, CHR 10]"

text \<open>\<open>snprintf\<close> with \<open>%010zu\<close> into a buffer of eleven chars.\<close>

definition ten_digits :: "nat \<Rightarrow> string" where
  "ten_digits n = (let digits = decimal n in take 10 (replicate (10 - length digits) CHR ''0'' @ digits))"

definition patchField :: "string \<Rightarrow> nat \<Rightarrow> string \<Rightarrow> string" where
  "patchField name n header =
    (case find_string name header of
       None \<Rightarrow> header
     | Some pos \<Rightarrow> take (pos + length name) header @ ten_digits n @ drop (pos + length name + 10) header)"

definition html_header :: string where
  "html_header = ''Version:1.0'' @ crlf @ ''StartHTML:0000000000'' @ crlf @ ''EndHTML:0000000000'' @ crlf @
     ''StartFragment:0000000000'' @ crlf @ ''EndFragment:0000000000'' @ crlf"

definition find_or_npos :: "string \<Rightarrow> string \<Rightarrow> nat" where
  "find_or_npos name str = (case find_string name str of Some pos \<Rightarrow> pos | None \<Rightarrow> 2 ^ 64 - 1)"

definition windowsHtmlFromCanonicalHtml :: "byte_buffer \<Rightarrow> byte_buffer" where
  "windowsHtmlFromCanonicalHtml canonicalHtml =
    (let html = ''<html><body>'' @ startMarker @ bytes_string canonicalHtml @ endMarker @ ''</body></html>'';
         startHtml = length html_header;
         startFragment = startHtml + find_or_npos startMarker html + length startMarker;
         endFragment = startHtml + find_or_npos endMarker html;
         endHtml = startHtml + length html
     in string_bytes (patchField ''EndFragment:'' endFragment (patchField ''StartFragment:'' startFragment
          (patchField ''EndHTML:'' endHtml (patchField ''StartHTML:'' startHtml html_header))) @ html))"

definition substr :: "nat \<Rightarrow> nat \<Rightarrow> string \<Rightarrow> string" where
  "substr pos n str = take n (drop pos str)"

definition html_by_markers :: "string \<Rightarrow> byte_buffer option" where
  "html_by_markers str =
    (case (find_string startMarker str, find_string endMarker str) of
       (Some startMarkerPos, Some endMarkerPos) \<Rightarrow>
         if startMarkerPos + length startMarker \<le> endMarkerPos then
           let fragmentStart = startMarkerPos + length startMarker
           in Some (string_bytes (substr fragmentStart (endMarkerPos - fragmentStart) str))
         else None
     | _ \<Rightarrow> None)"

definition html_by_fields :: "string \<Rightarrow> byte_buffer option" where
  "html_by_fields str =
    (if find_string ''StartFragment:'' str \<noteq> None \<and> find_string ''EndFragment:'' str \<noteq> None then
       let start = unat (decimalField str ''StartFragment:'' 0);
           stop = unat (decimalField str ''EndFragment:'' (of_nat (length str)))
       in if start < stop \<and> stop \<le> length str then Some (string_bytes (substr start (stop - start) str))
          else None
     else None)"

definition canonicalHtmlFromWindowsHtml :: "byte_buffer \<Rightarrow> byte_buffer" where
  "canonicalHtmlFromWindowsHtml windowsHtml =
    (let str = bytes_string windowsHtml in
     if str = [] then []
     else case html_by_fields str of
       Some fragment \<Rightarrow> fragment
     | None \<Rightarrow> (case html_by_markers str of Some fragment \<Rightarrow> fragment | None \<Rightarrow> windowsHtml))"

section \<open>Transcoding\<close>

definition isCanonicalLike :: "encoding_mode \<Rightarrow> bool" where
  "isCanonicalLike encoding \<longleftrightarrow> encoding = EM_CanonicalBytes \<or> encoding = EM_Transcoded"

text \<open>The natives of a canonical format, for the source and for the target of a request.\<close>

definition native_of :: "string \<Rightarrow> native_format \<Rightarrow> bool" where
  "native_of canonicalFormat native =
    (if canonicalFormat = TextPlainUtf8Format then isUtf8TextNative native \<or> isUtf16TextNative native
     else if canonicalFormat = TextHtmlFormat then isHtmlNative native
     else if canonicalFormat = TextRtfFormat then isRtfNative native
     else if canonicalFormat = ImagePngFormat then isPngNative native
     else if canonicalFormat = ImageDibFormat then isDibNative native
     else False)"

definition canSourceNativeToCanonical :: "transcode_request \<Rightarrow> bool" where
  "canSourceNativeToCanonical request = native_of (tq_canonicalFormat request) (tq_sourceNative request)"

definition canCanonicalToTargetNative :: "transcode_request \<Rightarrow> bool" where
  "canCanonicalToTargetNative request = native_of (tq_canonicalFormat request) (tq_targetNative request)"

definition sourceNativeToCanonical :: "transcode_request \<Rightarrow> transcode_result" where
  "sourceNativeToCanonical request =
    (if \<not> canSourceNativeToCanonical request then
       unsupportedResult ''source native clipboard format is unsupported''
     else transcode_ok EM_CanonicalBytes
       (if tq_canonicalFormat request = TextPlainUtf8Format then
          if isUtf16TextNative (tq_sourceNative request) then utf8FromUtf16LeText (tq_bytes request)
          else tq_bytes request
        else if tq_canonicalFormat request = TextHtmlFormat then
          if nativeNameIs (tq_sourceNative request) ''HTML Format''
          then canonicalHtmlFromWindowsHtml (tq_bytes request) else tq_bytes request
        else tq_bytes request))"

definition canonicalToTargetNative :: "transcode_request \<Rightarrow> byte_buffer \<Rightarrow> transcode_result" where
  "canonicalToTargetNative request canonicalBytes =
    (if \<not> canCanonicalToTargetNative request then
       unsupportedResult ''target native clipboard format is unsupported''
     else transcode_ok EM_NativePassthrough
       (if tq_canonicalFormat request = TextPlainUtf8Format then
          if isUtf16TextNative (tq_targetNative request) then utf16LeFromUtf8Text canonicalBytes
          else canonicalBytes
        else if tq_canonicalFormat request = TextHtmlFormat then
          if nativeNameIs (tq_targetNative request) ''HTML Format''
          then windowsHtmlFromCanonicalHtml canonicalBytes else canonicalBytes
        else canonicalBytes))"

definition default_canTranscode :: "transcode_request \<Rightarrow> bool" where
  "default_canTranscode request =
    (let source = tq_sourceEncoding request; target = tq_targetEncoding request in
     if tq_canonicalFormat request = [] then False
     else if source = EM_NativePassthrough \<and> target = EM_NativePassthrough then
       if sameNativeFormat (tq_sourceNative request) (tq_targetNative request) then True
       else canSourceNativeToCanonical request \<and> canCanonicalToTargetNative request
     else if source = target then True
     else if target = EM_CanonicalBytes then
       isCanonicalLike source \<or> source = EM_NativePassthrough \<and> canSourceNativeToCanonical request
     else if target = EM_NativePassthrough then
       isCanonicalLike source \<and> canCanonicalToTargetNative request \<or>
       source = EM_NativePassthrough \<and> canSourceNativeToCanonical request \<and> canCanonicalToTargetNative request
     else False)"

definition default_transcode :: "transcode_request \<Rightarrow> transcode_result" where
  "default_transcode request =
    (let source = tq_sourceEncoding request; target = tq_targetEncoding request in
     if tq_canonicalFormat request = [] then unsupportedResult ''clipboard canonical format is empty''
     else if source = EM_NativePassthrough \<and> target = EM_NativePassthrough \<and>
         sameNativeFormat (tq_sourceNative request) (tq_targetNative request) then
       transcode_ok EM_NativePassthrough (tq_bytes request)
     else if source = target \<and> source \<noteq> EM_NativePassthrough then transcode_ok target (tq_bytes request)
     else if target = EM_CanonicalBytes \<and> isCanonicalLike source then
       transcode_ok EM_CanonicalBytes (tq_bytes request)
     else if target = EM_CanonicalBytes \<and> source = EM_NativePassthrough then sourceNativeToCanonical request
     else if target = EM_NativePassthrough \<and> isCanonicalLike source then
       canonicalToTargetNative request (tq_bytes request)
     else if target = EM_NativePassthrough \<and> source = EM_NativePassthrough then
       let canonical = sourceNativeToCanonical request
       in if tc_status canonical \<noteq> RS_Ok then canonical
          else canonicalToTargetNative request (tc_bytes canonical)
     else unsupportedResult ''clipboard transcode path is unsupported'')"

definition default_transcoder :: transcoder where
  "default_transcoder = \<lparr>canTranscode = default_canTranscode, transcode = default_transcode\<rparr>"

section \<open>What the transcoder promises\<close>

text \<open>
  The transcoder keeps its word: \<open>canTranscode\<close> says yes exactly if \<open>transcode\<close> succeeds, a success has
  the encoding that was asked for, and a failure has the status Unsupported and no bytes.
\<close>

theorem transcoder_keeps_its_word:
  "if canTranscode default_transcoder request
   then tc_status (transcode default_transcoder request) = RS_Ok \<and>
     tc_encoding (transcode default_transcoder request) = tq_targetEncoding request
   else tc_status (transcode default_transcoder request) = RS_Unsupported \<and>
     tc_bytes (transcode default_transcoder request) = []"
  by (auto simp: default_transcoder_def default_canTranscode_def default_transcode_def Let_def
      sourceNativeToCanonical_def canonicalToTargetNative_def transcode_ok_def unsupportedResult_def
      isCanonicalLike_def)

section \<open>Windows HTML and back\<close>

definition digit_value :: "u64 \<Rightarrow> char \<Rightarrow> u64" where
  "digit_value n c = n * 10 + of_nat (of_char c - 48)"

lemma decimal_digits: "list_all is_digit (decimal n)"
proof (induction n rule: decimal.induct)
  case (1 n)
  then show ?case
    by (subst decimal.simps) (auto simp: is_digit_def list_all_iff)
qed

lemma decimal_value: "foldl digit_value m (decimal n) = m * 10 ^ length (decimal n) + of_nat n"
proof (induction n arbitrary: m rule: decimal.induct)
  case (1 n)
  show ?case
  proof (cases "n < 10")
    case True
    then show ?thesis by (subst (1 2) decimal.simps) (simp add: digit_value_def)
  next
    case False
    have "(of_nat n :: u64) = of_nat (n div 10) * 10 + of_nat (n mod 10)"
      by (metis div_mult_mod_eq of_nat_add of_nat_mult of_nat_numeral)
    then show ?thesis
      using False
      by (subst (1 2) decimal.simps) (simp add: 1 [OF False] digit_value_def algebra_simps)
  qed
qed

lemma decimal_length: "n < 10 ^ k \<Longrightarrow> 0 < k \<Longrightarrow> length (decimal n) \<le> k"
proof (induction n arbitrary: k rule: decimal.induct)
  case (1 n)
  show ?case
  proof (cases "n < 10")
    case True
    then show ?thesis using 1(3) by (subst decimal.simps) simp
  next
    case False
    then have "k \<noteq> 1" using 1(2) by auto
    with 1(3) obtain k' where k: "k = Suc k'" "0 < k'"
      by (cases k) auto
    then have "n div 10 < 10 ^ k'" using 1(2) by (simp add: less_mult_imp_div_less)
    then show ?thesis
      using False 1(1) [OF False _ k(2)] by (subst decimal.simps) (simp add: k)
  qed
qed

lemma ten_digits:
  assumes "n < 10 ^ 10"
  shows "length (ten_digits n) = 10" "list_all is_digit (ten_digits n)"
    "foldl digit_value 0 (ten_digits n) = of_nat n"
proof -
  have "length (decimal n) \<le> 10" by (rule decimal_length [OF assms]) simp
  then have ten: "ten_digits n = replicate (10 - length (decimal n)) CHR ''0'' @ decimal n"
    by (simp add: ten_digits_def Let_def)
  show "length (ten_digits n) = 10" using \<open>length (decimal n) \<le> 10\<close> by (simp add: ten)
  show "list_all is_digit (ten_digits n)"
    by (simp add: ten decimal_digits list_all_length [of _ "replicate _ _"]) (simp add: is_digit_def)
  have "foldl digit_value 0 (replicate k CHR ''0'') = 0" for k
    by (induction k) (simp_all add: digit_value_def)
  then show "foldl digit_value 0 (ten_digits n) = of_nat n"
    by (simp add: ten decimal_value)
qed

text \<open>Where the end marker is, if the fragment does not hold it: its one \<open><\<close> is its first char.\<close>

lemma find_end_marker:
  "find_string endMarker frag = None \<Longrightarrow> find_string endMarker (frag @ endMarker @ str) = Some (length frag)"
proof (induction frag)
  case Nil
  then show ?case by simp
next
  case (Cons c frag)
  have "take (length endMarker) ((c # frag) @ endMarker @ str) \<noteq> endMarker"
  proof (cases "length endMarker \<le> length (c # frag)")
    case True
    then have "take (length endMarker) ((c # frag) @ endMarker @ str) = take (length endMarker) (c # frag)"
      by (simp add: take_append)
    then show ?thesis using Cons.prems by (auto split: if_splits)
  next
    case False
    let ?k = "length (c # frag)"
    have inner: "\<forall>k \<in> {1..<18}. endMarker ! k \<noteq> CHR ''<''" by code_simp
    have "endMarker ! ?k \<noteq> CHR ''<''"
      using False by (intro inner [THEN bspec]) simp
    moreover have "take (length endMarker) ((c # frag) @ endMarker @ str) ! ?k = CHR ''<''"
      using False by (simp only: nth_take not_le nth_append_length_plus [of "c # frag" _ 0, simplified]) simp
    ultimately show ?thesis by metis
  qed
  moreover have "find_string endMarker frag = None"
    using Cons.prems by (auto split: if_splits)
  ultimately show ?case using Cons.IH by simp
qed

lemma digit_not_letter: "is_digit c \<Longrightarrow> c \<noteq> CHR ''S'' \<and> c \<noteq> CHR ''E'' \<and> c \<noteq> CHR ''<'' \<and> c \<noteq> CHR '' ''"
  by (auto simp: is_digit_def)

lemma ten_list:
  assumes "length d = 10"
  obtains d0 d1 d2 d3 d4 d5 d6 d7 d8 d9 where "d = [d0, d1, d2, d3, d4, d5, d6, d7, d8, d9]"
  using assms by (auto simp: numeral_eq_Suc length_Suc_conv)

lemma patched:
  assumes "find_string name (pre @ name @ old @ post) = Some (length pre)" and "length old = 10"
  shows "patchField name n (pre @ name @ old @ post) = pre @ name @ ten_digits n @ post"
  using assms by (simp add: patchField_def)

abbreviation (input) header_start :: string where
  "header_start \<equiv> ''Version:1.0'' @ crlf @ ''StartHTML:0000000105'' @ crlf"

abbreviation (input) header_fragment :: "string \<Rightarrow> string" where
  "header_fragment d \<equiv> header_start @ ''EndHTML:'' @ d @ crlf"

abbreviation (input) zeros :: string where "zeros \<equiv> ''0000000000''"

lemma find_fields:
  assumes "length d = 10" "list_all is_digit d" "length f = 10" "list_all is_digit f"
  shows "find_string ''StartFragment:'' (header_fragment d @ ''StartFragment:'' @ str) =
      Some (length (header_fragment d))"
    "find_string ''EndFragment:'' (header_fragment d @ ''StartFragment:'' @ f @ crlf @ ''EndFragment:'' @ str) =
      Some (length (header_fragment d @ ''StartFragment:'' @ f @ crlf))"
proof -
  from assms(1) obtain d0 d1 d2 d3 d4 d5 d6 d7 d8 d9 where d: "d = [d0, d1, d2, d3, d4, d5, d6, d7, d8, d9]"
    by (rule ten_list)
  from assms(3) obtain f0 f1 f2 f3 f4 f5 f6 f7 f8 f9 where f: "f = [f0, f1, f2, f3, f4, f5, f6, f7, f8, f9]"
    by (rule ten_list)
  show "find_string ''StartFragment:'' (header_fragment d @ ''StartFragment:'' @ str) =
      Some (length (header_fragment d))"
    using assms(2) by (simp add: d digit_not_letter)
  show "find_string ''EndFragment:'' (header_fragment d @ ''StartFragment:'' @ f @ crlf @ ''EndFragment:'' @ str) =
      Some (length (header_fragment d @ ''StartFragment:'' @ f @ crlf))"
    using assms(2,4) by (simp add: d f digit_not_letter)
qed

lemma small_fields: "ten_digits 105 = ''0000000105''" "ten_digits 137 = ''0000000137''"
  by code_simp+

text \<open>The header with its fields filled in.\<close>

definition filled_header :: "nat \<Rightarrow> nat \<Rightarrow> string" where
  "filled_header m n = header_fragment (ten_digits m) @ ''StartFragment:'' @ ''0000000137'' @ crlf @
     ''EndFragment:'' @ ten_digits n @ crlf"

lemma fill_header:
  assumes "m < 10 ^ 10"
  shows "patchField ''EndFragment:'' n (patchField ''StartFragment:'' 137 (patchField ''EndHTML:'' m
      (patchField ''StartHTML:'' 105 html_header))) = filled_header m n"
proof -
  let ?d = "ten_digits m" let ?f = "''0000000137''"
  note d = ten_digits(1,2) [OF assms]
  have f: "length ?f = 10" "list_all is_digit ?f" by (simp_all add: is_digit_def)
  have z: "length zeros = 10" "list_all is_digit zeros" by (simp_all add: is_digit_def)
  have "patchField ''StartHTML:'' 105 (''Version:1.0'' @ crlf @ ''StartHTML:'' @ zeros @ crlf @ ''EndHTML:'' @ zeros @
        crlf @ ''StartFragment:'' @ zeros @ crlf @ ''EndFragment:'' @ zeros @ crlf) =
      (''Version:1.0'' @ crlf) @ ''StartHTML:'' @ ten_digits 105 @ crlf @ ''EndHTML:'' @ zeros @
        crlf @ ''StartFragment:'' @ zeros @ crlf @ ''EndFragment:'' @ zeros @ crlf"
    using patched [of "''StartHTML:''" "''Version:1.0'' @ crlf" zeros] by simp
  then have 1: "patchField ''StartHTML:'' 105 html_header = header_start @ ''EndHTML:'' @ zeros @
        crlf @ ''StartFragment:'' @ zeros @ crlf @ ''EndFragment:'' @ zeros @ crlf"
    by (simp add: html_header_def small_fields)
  have 2: "patchField ''EndHTML:'' m (header_start @ ''EndHTML:'' @ zeros @
        crlf @ ''StartFragment:'' @ zeros @ crlf @ ''EndFragment:'' @ zeros @ crlf) =
      header_fragment ?d @ ''StartFragment:'' @ zeros @ crlf @ ''EndFragment:'' @ zeros @ crlf"
    using patched [of "''EndHTML:''" header_start zeros] by simp
  have 3: "patchField ''StartFragment:'' 137
        (header_fragment ?d @ ''StartFragment:'' @ zeros @ crlf @ ''EndFragment:'' @ zeros @ crlf) =
      header_fragment ?d @ ''StartFragment:'' @ ?f @ crlf @ ''EndFragment:'' @ zeros @ crlf"
    using patched [OF find_fields(1) [OF d f] z(1), where n = 137] by (simp only: small_fields)
  have 4: "patchField ''EndFragment:'' n
        (header_fragment ?d @ ''StartFragment:'' @ ?f @ crlf @ ''EndFragment:'' @ zeros @ crlf) = filled_header m n"
    using patched [of "''EndFragment:''" "header_fragment ?d @ ''StartFragment:'' @ ?f @ crlf" zeros crlf n]
      find_fields(2) [OF d f, of "zeros @ crlf"] z(1)
    by (simp only: filled_header_def append.assoc)
  show ?thesis by (simp only: 1 2 3 4)
qed

lemma read_field:
  assumes "find_string name str = Some pos" and "drop (pos + length name) str = ds @ CHR 13 # rest"
    and "list_all is_digit ds" and "ds \<noteq> []"
  shows "decimalField str name fallback = foldl digit_value 0 ds"
proof -
  from assms(3,4) obtain c cs where ds: "ds = c # cs" "c \<noteq> CHR '' ''"
    by (cases ds) (auto dest: digit_not_letter)
  have "takeWhile is_digit (ds @ CHR 13 # rest) = ds"
    using assms(3) by (induction ds) (simp_all add: is_digit_def)
  moreover have "dropWhile (\<lambda>c. c = CHR '' '') (ds @ CHR 13 # rest) = ds @ CHR 13 # rest"
    by (simp add: ds)
  ultimately have "decimalField str name fallback = foldl (\<lambda>n c. n * 10 + of_nat (of_char c - 48)) 0 ds"
    using assms by (simp add: decimalField_def)
  also have "\<dots> = foldl digit_value 0 ds"
    by (rule foldl_cong) (simp_all add: digit_value_def)
  finally show ?thesis .
qed

abbreviation (input) html_start :: string where
  "html_start \<equiv> ''<html><body>'' @ startMarker"

lemma find_in_html:
  "find_string startMarker (html_start @ str) = Some 12"
  "find_string endMarker (html_start @ str) = map_option ((+) 32) (find_string endMarker str)"
proof -
  show "find_string startMarker (html_start @ str) = Some 12" by simp
  show "find_string endMarker (html_start @ str) = map_option ((+) 32) (find_string endMarker str)"
    by (cases "find_string endMarker str") simp_all
qed

lemma header_parts:
  assumes "m < 10 ^ 10" and "n < 10 ^ 10"
  shows "length (filled_header m n) = 105"
    "find_string ''StartFragment:'' (filled_header m n @ str) = Some 55"
    "find_string ''EndFragment:'' (filled_header m n @ str) = Some 81"
    "drop 69 (filled_header m n @ str) = ''0000000137'' @ CHR 13 # drop 80 (filled_header m n @ str)"
    "drop 93 (filled_header m n @ str) = ten_digits n @ CHR 13 # drop 104 (filled_header m n @ str)"
    "find_string startMarker (filled_header m n @ str) = map_option ((+) 105) (find_string startMarker str)"
    "find_string endMarker (filled_header m n @ str) = map_option ((+) 105) (find_string endMarker str)"
proof -
  note d = ten_digits(1,2) [OF assms(1)] and e = ten_digits(1,2) [OF assms(2)]
  have f: "length ''0000000137'' = 10" "list_all is_digit ''0000000137''" by (simp_all add: is_digit_def)
  show "length (filled_header m n) = 105" using d e by (simp add: filled_header_def)
  show "find_string ''StartFragment:'' (filled_header m n @ str) = Some 55"
    using find_fields(1) [OF d f, of "''0000000137'' @ crlf @ ''EndFragment:'' @ ten_digits n @ crlf @ str"] d
    by (simp only: filled_header_def append.assoc) simp
  show "find_string ''EndFragment:'' (filled_header m n @ str) = Some 81"
    using find_fields(2) [OF d f, of "ten_digits n @ crlf @ str"] d
    by (simp only: filled_header_def append.assoc) simp
  show "drop 69 (filled_header m n @ str) = ''0000000137'' @ CHR 13 # drop 80 (filled_header m n @ str)"
    using d e by (simp add: filled_header_def)
  show "drop 93 (filled_header m n @ str) = ten_digits n @ CHR 13 # drop 104 (filled_header m n @ str)"
    using d e by (simp add: filled_header_def)
  have skip: "find_string name (xs @ str) = map_option ((+) (length xs)) (find_string name str)"
    if "CHR ''<'' # name' = name" "CHR ''<'' \<notin> set xs" for name name' xs
  proof -
    have "find_string (CHR ''<'' # name') (xs @ str) = map_option ((+) (length xs)) (find_string (CHR ''<'' # name') str)"
      using that(2)
    proof (induction xs)
      case Nil
      then show ?case by (cases "find_string (CHR ''<'' # name') str") simp_all
    next
      case (Cons x xs)
      then show ?case by (cases "find_string (CHR ''<'' # name') str") auto
    qed
    then show ?thesis using that(1) by simp
  qed
  have no: "CHR ''<'' \<notin> set (filled_header m n)"
    using d(2) e(2) by (auto simp: filled_header_def list_all_iff dest: digit_not_letter)
  show "find_string startMarker (filled_header m n @ str) = map_option ((+) 105) (find_string startMarker str)"
    "find_string endMarker (filled_header m n @ str) = map_option ((+) 105) (find_string endMarker str)"
    using skip [OF _ no] \<open>length (filled_header m n) = 105\<close> by simp_all
qed

text \<open>What comes back is the fragment up to the first end marker, its own or the one put after it.\<close>

lemma html_and_back_to:
  assumes "find_string endMarker (bytes_string fragment @ endMarker @ ''</body></html>'') = Some k"
    and "k \<le> length fragment" and "length fragment < 10 ^ 9"
  shows "canonicalHtmlFromWindowsHtml (windowsHtmlFromCanonicalHtml fragment) = take k fragment"
proof -
  let ?f = "bytes_string fragment" let ?n = "length fragment"
  define html where "html = ''<html><body>'' @ startMarker @ ?f @ endMarker @ ''</body></html>''"
  have markers: "find_string startMarker html = Some 12" "find_string endMarker html = Some (32 + k)"
    using find_in_html(1) find_in_html(2) [of "?f @ endMarker @ ''</body></html>''"] assms(1)
    by (simp_all only: html_def append.assoc) simp_all
  have html_length: "length html = ?n + 64" by (simp add: html_def)
  let ?m = "105 + length html"
  have bounds: "?m < 10 ^ 10" "137 + k < 10 ^ 10" using assms(2,3) by (simp_all add: html_length)
  let ?h = "filled_header ?m (137 + k)"
  have windows: "windowsHtmlFromCanonicalHtml fragment = string_bytes (?h @ html)"
  proof -
    have "length html_header = 105" by (simp add: html_header_def)
    then have "length html_header + find_or_npos startMarker html + length startMarker = 137"
      "length html_header + find_or_npos endMarker html = 137 + k"
      "length html_header + length html = ?m"
      using markers by (simp_all add: find_or_npos_def)
    then show ?thesis
      using fill_header [OF bounds(1), of "137 + k"] \<open>length html_header = 105\<close>
      by (simp only: windowsHtmlFromCanonicalHtml_def Let_def html_def [symmetric])
  qed
  let ?s = "?h @ html"
  note header_length = header_parts(1) [OF bounds]
  note parts = header_parts(2-7) [OF bounds, of html]
  have start: "decimalField ?s ''StartFragment:'' 0 = 137"
  proof -
    have "decimalField ?s ''StartFragment:'' 0 = foldl digit_value 0 ''0000000137''"
      by (rule read_field [OF parts(1)]) (use parts(3) in \<open>simp_all add: is_digit_def\<close>)
    also have "\<dots> = 137" by (simp add: digit_value_def)
    finally show ?thesis .
  qed
  have stop: "unat (decimalField ?s ''EndFragment:'' fallback) = 137 + k" for fallback
  proof -
    note e = ten_digits [OF bounds(2)]
    have "decimalField ?s ''EndFragment:'' fallback = of_nat (137 + k)"
      using read_field [OF parts(2), of "ten_digits (137 + k)"] parts(4) e by fastforce
    moreover have "137 + k < 2 ^ 64" using assms(2,3) by simp
    ultimately show ?thesis by (simp only: unat_of_nat) (simp add: take_bit_nat_eq_self)
  qed
  have body: "drop 137 ?s = ?f @ endMarker @ ''</body></html>''"
    using header_length by (simp add: html_def)
  have total: "length ?s = 169 + ?n" using header_length by (simp add: html_length)
  have some: "?s \<noteq> []" using header_length by auto
  have "canonicalHtmlFromWindowsHtml (string_bytes ?s) = string_bytes (take k ?f)"
  proof (cases "k = 0")
    case False
    then have "html_by_fields ?s = Some (string_bytes (substr 137 k ?s))"
      using parts(1,2) stop total assms(2) by (simp add: html_by_fields_def start Let_def)
    moreover have "substr 137 k ?s = take k ?f" by (simp only: substr_def body) (simp add: assms(2))
    ultimately show ?thesis
      using some by (auto simp: canonicalHtmlFromWindowsHtml_def Let_def)
  next
    case True
    then have "html_by_fields ?s = None"
      using start stop by (simp add: html_by_fields_def Let_def)
    moreover have "html_by_markers ?s = Some (string_bytes [])"
      using parts(5,6) markers by (simp add: html_by_markers_def True Let_def substr_def)
    ultimately show ?thesis
      using some by (auto simp: canonicalHtmlFromWindowsHtml_def Let_def True)
  qed
  moreover have "string_bytes (take k ?f) = take k fragment"
  proof -
    have "string_bytes (take k ?f) = take k (string_bytes ?f)" by (simp only: string_bytes_def take_map)
    then show ?thesis by simp
  qed
  ultimately show ?thesis by (simp add: windows)
qed

lemma html_and_back:
  assumes "find_string endMarker (bytes_string fragment) = None" and "length fragment < 10 ^ 9"
  shows "canonicalHtmlFromWindowsHtml (windowsHtmlFromCanonicalHtml fragment) = fragment"
  using html_and_back_to [OF find_end_marker [OF assms(1)]] assms(2) by simp

text \<open>The marker of the end may be in the fragment itself: then what comes back is cut there.\<close>

theorem marker_cuts_the_fragment:
  assumes "find_string endMarker (bytes_string start) = None"
    and "length (start @ string_bytes endMarker @ rest) < 10 ^ 9"
  shows "canonicalHtmlFromWindowsHtml (windowsHtmlFromCanonicalHtml (start @ string_bytes endMarker @ rest)) = start"
proof -
  have "bytes_string (start @ string_bytes endMarker @ rest) = bytes_string start @ endMarker @ bytes_string rest"
    using bytes_string_bytes [of endMarker] by (simp add: bytes_string_def)
  then show ?thesis
    using html_and_back_to [of "start @ string_bytes endMarker @ rest" "length start"] assms
      find_end_marker [OF assms(1)] by simp
qed

section \<open>Content that goes to a native clipboard and back\<close>

definition to_native :: "string \<Rightarrow> native_format \<Rightarrow> byte_buffer \<Rightarrow> transcode_request" where
  "to_native canonical native bytes = \<lparr>tq_canonicalFormat = canonical, tq_sourceNative = default_native_format,
     tq_targetNative = native, tq_sourceEncoding = EM_CanonicalBytes,
     tq_targetEncoding = EM_NativePassthrough, tq_bytes = bytes\<rparr>"

definition from_native :: "string \<Rightarrow> native_format \<Rightarrow> byte_buffer \<Rightarrow> transcode_request" where
  "from_native canonical native bytes = \<lparr>tq_canonicalFormat = canonical, tq_sourceNative = native,
     tq_targetNative = default_native_format, tq_sourceEncoding = EM_NativePassthrough,
     tq_targetEncoding = EM_CanonicalBytes, tq_bytes = bytes\<rparr>"

text \<open>The bytes that are returned, if both steps succeed.\<close>

definition through_native :: "string \<Rightarrow> native_format \<Rightarrow> byte_buffer \<Rightarrow> byte_buffer option" where
  "through_native canonical native bytes =
    (let native_result = transcode default_transcoder (to_native canonical native bytes);
         result = transcode default_transcoder (from_native canonical native (tc_bytes native_result))
     in if tc_status native_result = RS_Ok \<and> tc_status result = RS_Ok then Some (tc_bytes result) else None)"

lemma format_names:
  "TextPlainUtf8Format \<noteq> []" "TextHtmlFormat \<noteq> []" "TextRtfFormat \<noteq> []" "ImagePngFormat \<noteq> []"
  "ImageDibFormat \<noteq> []" "TextHtmlFormat \<noteq> TextPlainUtf8Format"
  by (simp_all add: TextPlainUtf8Format_def TextHtmlFormat_def TextRtfFormat_def ImagePngFormat_def
      ImageDibFormat_def)

lemma native_of_named: "native_of canonical native \<Longrightarrow> canonical \<noteq> []"
  by (auto simp: native_of_def format_names split: if_splits)

lemma through_native_steps:
  assumes "native_of canonical native"
  shows "through_native canonical native bytes =
    Some (tc_bytes (sourceNativeToCanonical (from_native canonical native
      (tc_bytes (canonicalToTargetNative (to_native canonical native bytes) bytes)))))"
  using native_of_named [OF assms] assms
  by (simp add: through_native_def default_transcoder_def default_transcode_def isCanonicalLike_def
      to_native_def from_native_def sourceNativeToCanonical_def canonicalToTargetNative_def
      canSourceNativeToCanonical_def canCanonicalToTargetNative_def transcode_ok_def)

text \<open>
  Content survives the native clipboard: written to any native format that the transcoder knows for its
  canonical format and read back, both steps succeed and the bytes are what they were; for text in
  UTF-16 that is well formed, without zeros and carriage returns, and for the HTML format of Windows if
  the fragment does not hold the marker of its own end.
\<close>

definition survives :: "string \<Rightarrow> native_format \<Rightarrow> byte_buffer \<Rightarrow> bool" where
  "survives canonical native bytes \<longleftrightarrow>
    (if canonical = TextPlainUtf8Format \<and> isUtf16TextNative native then
       utf8_of (utf8_codes bytes) = bytes \<and>
       list_all (\<lambda>cp. cp \<noteq> 0 \<and> cp \<noteq> 13) (utf8_codes bytes)
     else if canonical = TextHtmlFormat \<and> nativeNameIs native ''HTML Format'' then
       find_string endMarker (bytes_string bytes) = None \<and> length bytes < 10 ^ 9
     else True)"

theorem content_survives_the_native_clipboard:
  assumes "native_of canonical native" and "survives canonical native bytes"
  shows "through_native canonical native bytes = Some bytes"
proof (cases "canonical = TextPlainUtf8Format \<and> isUtf16TextNative native")
  case True
  then have codes: "utf8_of (utf8_codes bytes) = bytes"
    "list_all (\<lambda>cp. scalar cp \<and> cp \<noteq> 0) (utf8_codes bytes)" "13 \<notin> set (utf8_codes bytes)"
    using assms(2) utf8_codes_scalar [of bytes] by (auto simp: survives_def list_all_iff)
  have "utf8FromUtf16LeText (utf16LeFromUtf8Text bytes) = bytes"
    using text_and_back [OF codes(2)] unix_lines_same [OF codes(3)] codes(1) by simp
  then show ?thesis
    using True assms(1)
    by (simp add: through_native_steps sourceNativeToCanonical_def canonicalToTargetNative_def
        canSourceNativeToCanonical_def canCanonicalToTargetNative_def to_native_def from_native_def
        transcode_ok_def)
next
  case False
  show ?thesis
  proof (cases "canonical = TextHtmlFormat \<and> nativeNameIs native ''HTML Format''")
    case True
    then have "canonicalHtmlFromWindowsHtml (windowsHtmlFromCanonicalHtml bytes) = bytes"
      using assms(2) False by (intro html_and_back) (auto simp: survives_def)
    then show ?thesis
      using True assms(1)
      by (simp add: through_native_steps sourceNativeToCanonical_def canonicalToTargetNative_def
          canSourceNativeToCanonical_def canCanonicalToTargetNative_def to_native_def from_native_def
          transcode_ok_def format_names)
  next
    case other: False
    with False assms(1) show ?thesis
      by (auto simp: through_native_steps sourceNativeToCanonical_def canonicalToTargetNative_def
          canSourceNativeToCanonical_def canCanonicalToTargetNative_def to_native_def from_native_def
          transcode_ok_def)
  qed
qed

definition windows_text :: native_format where
  "windows_text = default_native_format\<lparr>nf_platform := TPF_Windows, nf_nativeFormatName := ''CF_UNICODETEXT''\<rparr>"

text \<open>A text with a line feed, an e with an accent, a euro sign and a clef, of one to four bytes.\<close>

theorem content_survives_the_native_clipboard_witness:
  "through_native TextPlainUtf8Format windows_text
    [0x61, 0x0A, 0xC3, 0xA9, 0xE2, 0x82, 0xAC, 0xF0, 0x9D, 0x84, 0x9E] =
   Some [0x61, 0x0A, 0xC3, 0xA9, 0xE2, 0x82, 0xAC, 0xF0, 0x9D, 0x84, 0x9E]"
proof (rule content_survives_the_native_clipboard)
  show "native_of TextPlainUtf8Format windows_text" by code_simp
  show "survives TextPlainUtf8Format windows_text
      [0x61, 0x0A, 0xC3, 0xA9, 0xE2, 0x82, 0xAC, 0xF0, 0x9D, 0x84, 0x9E]" by code_simp
qed

text \<open>
  What a text is after UTF-16: any text of code points without zeros comes back from a UTF-16 native
  format with its line ends made line feeds; and whatever a native clipboard holds, if it is ended by a
  zero unit the text read from it is well-formed UTF-8.
\<close>

theorem utf16_text_is_normalised:
  assumes "isUtf16TextNative native" and "list_all (\<lambda>cp. scalar cp \<and> cp \<noteq> 0) cps"
  shows "through_native TextPlainUtf8Format native (utf8_of cps) = Some (utf8_of (unix_lines cps)) \<and>
    well_formed_utf8 (tc_bytes (transcode default_transcoder
      (from_native TextPlainUtf8Format native (bytes @ [0, 0]))))"
proof -
  have native: "native_of TextPlainUtf8Format native" using assms(1) by (simp add: native_of_def)
  have "through_native TextPlainUtf8Format native (utf8_of cps) = Some (utf8_of (unix_lines cps))"
    using native assms text_and_back [OF assms(2)]
    by (simp add: through_native_steps sourceNativeToCanonical_def canonicalToTargetNative_def
        canSourceNativeToCanonical_def canCanonicalToTargetNative_def to_native_def from_native_def
        transcode_ok_def)
  moreover have "tc_bytes (transcode default_transcoder
      (from_native TextPlainUtf8Format native (bytes @ [0, 0]))) = utf8FromUtf16LeText (bytes @ [0, 0])"
    using native assms(1)
    by (simp add: default_transcoder_def default_transcode_def from_native_def isCanonicalLike_def
        sourceNativeToCanonical_def canSourceNativeToCanonical_def transcode_ok_def format_names)
  ultimately show ?thesis using converted_is_utf8 by simp
qed

theorem utf16_text_is_normalised_witness:
  "through_native TextPlainUtf8Format windows_text (utf8_of [0x61, 0x0D, 0x20AC]) =
    Some (utf8_of [0x61, 0x0A, 0x20AC])"
proof -
  have "isUtf16TextNative windows_text" by code_simp
  moreover have "list_all (\<lambda>cp. scalar cp \<and> cp \<noteq> 0) [0x61, 0x0D, 0x20AC]" by (simp add: scalar_def)
  ultimately show ?thesis
    using utf16_text_is_normalised [of windows_text "[0x61, 0x0D, 0x20AC]" "[]"] by simp
qed

section \<open>Candidates\<close>

lemma lowered_names:
  "lowered ''CF_UNICODETEXT'' = ''cf_unicodetext''" "lowered ''HTML Format'' = ''html format''"
  "lowered ''Rich Text Format'' = ''rich text format''" "lowered ''PNG'' = ''png''"
  "lowered ''CF_DIBV5'' = ''cf_dibv5''" "lowered ''CF_DIB'' = ''cf_dib''"
  "lowered ''FileGroupDescriptorW'' = ''filegroupdescriptorw''" "lowered ''FileContents'' = ''filecontents''"
  "lowered ''text/plain;charset=utf-8'' = ''text/plain;charset=utf-8''"
  "lowered ''text/plain'' = ''text/plain''" "lowered ''text/plain;charset=utf8'' = ''text/plain;charset=utf8''"
  "lowered ''UTF8_STRING'' = ''utf8_string''" "lowered ''text/html'' = ''text/html''"
  "lowered ''text/rtf'' = ''text/rtf''" "lowered ''image/png'' = ''image/png''"
  "lowered ''text/uri-list'' = ''text/uri-list''"
  "lowered ''x-special/gnome-copied-files'' = ''x-special/gnome-copied-files''"
  "lowered ''x-special/mate-copied-files'' = ''x-special/mate-copied-files''"
  "lowered ''text/x-moz-url'' = ''text/x-moz-url''"
  "lowered ''public.utf8-plain-text'' = ''public.utf8-plain-text''" "lowered ''public.html'' = ''public.html''"
  "lowered ''public.rtf'' = ''public.rtf''" "lowered ''public.png'' = ''public.png''"
  "lowered ''public.file-url'' = ''public.file-url''"
  by code_simp+

text \<open>
  What the candidates for a format are good for: each is a native format of the target platform, in
  falling priority, that the mapper maps back to the canonical format, and, file lists apart, one that
  the transcoder knows for it; the exception are the bitmaps offered for PNG on Windows, which are
  mapped to another format and which the transcoder cannot make.
\<close>

definition usable_candidate :: "platform_family \<Rightarrow> string \<Rightarrow> native_candidate \<Rightarrow> bool" where
  "usable_candidate platform canonical c \<longleftrightarrow> nf_platform (nc_native c) = platform \<and>
     (let back = canonicalForNative platform (nf_nativeFormatName (nc_native c)) in
      if canonical = ImagePngFormat \<and> back = ImageDibFormat then \<not> native_of canonical (nc_native c)
      else back = canonical \<and> (canonical = FdclFileListFormat \<or> native_of canonical (nc_native c)))"

theorem candidates_are_usable:
  "list_all (usable_candidate platform (lowered canonical)) (nativeCandidates canonical platform) \<and>
   sorted_wrt (>) (map nc_priority (nativeCandidates canonical platform))"
proof -
  note names = TextPlainUtf8Format_def TextHtmlFormat_def TextRtfFormat_def ImagePngFormat_def
    ImageDibFormat_def FdclFileListFormat_def lowered_names
  note natives = native_of_def isUtf8TextNative_def isUtf16TextNative_def isWindowsUnicodeText_def
    isHtmlNative_def isRtfNative_def isPngNative_def isDibNative_def nativeNameIs_def sameName_def
    default_native_format_def
  show ?thesis
    by (auto simp: nativeCandidates_def candidate_def usable_candidate_def canonicalForNative_def Let_def
        windows_candidates_def linux_candidates_def mac_candidates_def android_candidates_def
        windows_names_def linux_names_def mac_names_def android_names_def is_linux_like_def is_mac_like_def
        names natives)
qed

end
