(* ===== verification/Spec2Isabelle.thy ===== *)
theory Spec2Isabelle
  imports Capability_Exchange Session_Manager Module_Composer Module_Catalog Request_Tracker
    Input_Modules Video_Payload Display_Agent Display_Client Clipboard_Window File_Transfer
    Fdcl_Roundtrip Clipboard_Safety Module_Factories Transfer_Transcoder
begin

text \<open>
  This is a model of the core of FusionDesk, a remote desktop, and of its input, display, clipboard,
  feature and test modules: everything under \<open>src/core\<close> and \<open>include/fusiondesk/core\<close>, and the codecs,
  stores, modules and factories under \<open>src/modules\<close>, translated
  definition by definition from the C++ code, with theorems about the packets on the wire, the
  channels they travel on, the requests they answer, the modules that handle them, and the sessions
  that own all of this.

  \<^bold>\<open>The program and its parts.\<close> Two peers exchange \<^emph>\<open>packets\<close>: a fixed header of 100 bytes with two
  checksums, and a payload. After a capability exchange each peer knows which channel types,
  packet types and message kinds it may use and which limits hold. A \<^emph>\<open>session\<close> owns one
  \<^emph>\<open>network manager\<close>, which owns a \<^emph>\<open>channel registry\<close> (which channels exist, are bound and are
  ready), a \<^emph>\<open>priority scheduler\<close> (packets waiting to be sent), a \<^emph>\<open>socket group\<close> and a
  \<^emph>\<open>router\<close> (which handler gets an incoming packet). A session that starts is authorised by a
  \<^emph>\<open>policy engine\<close> and creates a \<^emph>\<open>module host\<close>, which attaches \<^emph>\<open>modules\<close>, starts those whose
  conditions hold, registers their packet types with the router through the \<^emph>\<open>module ingress\<close>, and
  stops them. A \<^emph>\<open>composer\<close> makes the modules of a suite in the order of their dependencies out of
  the manifests of the \<^emph>\<open>catalogue\<close>. The \<^emph>\<open>session manager\<close> creates and closes sessions. Of the
  modules, the \<^emph>\<open>input\<close> client sends mouse and keyboard events that the input agent hands to an
  injector; the \<^emph>\<open>display\<close> agent captures, encodes and sends frames and answers requests for key
  frames, and the display client decodes and renders them and asks for a key frame when the stream
  has a gap. The \<^emph>\<open>clipboard\<close> offers a \<^emph>\<open>bundle\<close> of \<^emph>\<open>sources\<close> to the peer as a list of formats; the peer
  reads a format, or locks a file of a source and drains its bytes range by range; large ranges travel
  on their own channel, within a \<^emph>\<open>window\<close> of bytes the peer has not acknowledged.

  \<^bold>\<open>Theories.\<close>
  \<^item> \<open>Prelude\<close>, \<open>Std_Map\<close>: bytes and words, \<open>first_failure\<close> (a chain of early returns), lists
    updated at an offset; \<open>std::map\<close> as a list sorted by key with the laws of its operations in
    a locale; and \<open>kept_by_steps\<close>, the locale of an invariant kept by a run of operations.
  \<^item> \<open>Byte_IO\<close>, \<open>Protocol_Types\<close>: \<open>byte_io.h\<close>, \<open>protocol_types.h\<close>, \<open>packet_envelope.h\<close>,
    \<open>feature_flags.h\<close>. C++ enums of a fixed width are words of that width, since a cast from the
    wire can give any value.
  \<^item> \<open>Packet_Codec\<close>, \<open>Protocol_Validator\<close>, \<open>Message_Lifecycle\<close>: \<open>packet_codec.cpp\<close>,
    \<open>protocol_validator.cpp\<close>, \<open>message_lifecycle.h\<close>.
  \<^item> \<open>Capability_Negotiation\<close> (the payload), \<open>Capability_Negotiator\<close> (the decision),
    \<open>Capability_Exchange\<close> (the packets): \<open>capability_negotiation.cpp\<close>, \<open>capability_exchange.cpp\<close>.
  \<^item> \<open>Channel\<close>, \<open>Channel_Registry\<close>, \<open>Channel_Defaults\<close>, \<open>Priority_Scheduler\<close>, \<open>Request_Tracker\<close>,
    \<open>Network_Router\<close>, \<open>Network_Manager\<close>: the files of the same names under \<open>src/core/network\<close>.
  \<^item> \<open>Session_Context\<close>, \<open>Policy_Engine\<close>, \<open>Module_Manifest\<close>, \<open>Module_Catalog\<close>, \<open>Module_Ingress\<close>,
    \<open>Module_Host\<close>, \<open>Module_Composer\<close> (\<open>module_factory.cpp\<close>), \<open>Session\<close>, \<open>Session_Manager\<close>: the files
    of these names under \<open>src/core\<close>.
  \<^item> \<open>Module_Runtime\<close> (\<open>ModuleRuntime\<close>: what a module is attached with) and \<open>Payload_Fields\<close> (big-endian
    fields at an offset, with the laws of a field codec in a locale) are shared by the modules.
  \<^item> \<open>Input_Codec\<close>, \<open>Input_Modules\<close>: \<open>input_payload_codec.cpp\<close>, \<open>input_modules.cpp\<close>,
    \<open>input_factory.cpp\<close>.
  \<^item> \<open>Display_Codecs\<close> (\<open>display_control_codec.cpp\<close>, \<open>display_frame_codec.cpp\<close>), \<open>Video_Payload\<close>
    (\<open>display_encoded_video_payload.cpp\<close>), and the parts of \<open>display_modules.cpp\<close>: \<open>Display_Link\<close> (the
    helpers both modules share), \<open>Display_Agent\<close> (\<open>DisplayAgentModule\<close>), \<open>Display_Client\<close>
    (\<open>DisplayClientModule\<close>).
  \<^item> \<open>Clipboard_Types\<close>, \<open>Clipboard_Window\<close> (\<open>clipboard_large_data_scheduler.cpp\<close>), \<open>File_Transfer\<close>
    (\<open>clipboard_transfer.cpp\<close>), \<open>Transfer_File_List\<close>, \<open>Transfer_Registry\<close> (the files
    \<open>clipboard_transfer_file_list.cpp\<close>, \<open>clipboard_transfer_registry.cpp\<close>), and the clipboard protocol:
    \<open>Fdcl_Model\<close> (\<open>protocol.h\<close>, \<open>fdcl_model_conversion.cpp\<close>), \<open>Fdcl_Encoder\<close>, \<open>Fdcl_Decoder\<close>
    (\<open>fdcl_codec.cpp\<close>, \<open>fdcl_codec_object_lock.cpp\<close>), and \<open>Fdcl_Roundtrip\<close>, what the two do together.
  \<^item> The clipboard's module object: \<open>Clipboard_Policy\<close> (\<open>clipboard_module_policy_internal.h\<close> and the
    transcoding step of a read), \<open>Clipboard_Module\<close> (state, life cycle, sending, announcing and
    receiving offers, of \<open>clipboard_modules.cpp\<close>), \<open>Clipboard_Reads\<close> (the requests of both sides:
    \<open>clipboard_module_local_read.cpp\<close>, \<open>clipboard_module_remote_read.cpp\<close>,
    \<open>clipboard_module_object_lock.cpp\<close>), \<open>Clipboard_Packets\<close> (\<open>clipboard_module_drag.cpp\<close>, the packet
    dispatch and the diagnostics); \<open>Clipboard_Accounts\<close> and \<open>Clipboard_Safety\<close> hold what is proved of it.
  \<^item> \<open>Transfer_Formats\<close> (\<open>clipboard_transfer_format.cpp\<close>: the native names of the canonical formats),
    \<open>Text_Conversion\<close> and \<open>Transfer_Transcoder\<close> (\<open>clipboard_transfer_transcoder.cpp\<close>: UTF-8 and UTF-16,
    line ends, the HTML format of Windows, and the default transcoder, which is one provider of the
    interface \<open>transcoder\<close> that the clipboard module calls).
  \<^item> \<open>Module_Factories\<close>: \<open>display_factory.cpp\<close>, \<open>clipboard_factory.cpp\<close>, \<open>feature_module_factory.cpp\<close>,
    \<open>test_echo_factory.cpp\<close> and \<open>test_echo_modules.cpp\<close>.

  \<^bold>\<open>How code becomes definitions.\<close> A class is a record of its members, and a method a function
  from the record (and the arguments) to its result and the new record. An early return is a
  branch; a chain of checks with early returns is a list of conditions and refusals of which the
  first that applies decides. Integers are words of the width of the code. Objects the code knows
  only through an abstract class (channels, transport sockets, modules, policy engines) are
  references of a type variable, and their virtual methods a record of functions that act on a
  \<^emph>\<open>world\<close> the client does not see into; theorems hold for every such record. Where a virtual
  method can reach back into the caller, the world contains the caller's state: a session's
  modules act on a world with the session's network in it. Callbacks of the request tracker are
  recorded as the list of answers each was given.

  \<^bold>\<open>Locales.\<close> \<open>kept_by_steps\<close> (an invariant and the operations that keep it), the laws of an ordered
  map, \<open>policy_engine\<close> (what a host and a session rely on), and \<open>subscription_router\<close> (what the
  ingress relies on) are interfaces; each is interpreted on the model's own definitions, in the
  theory of the component that provides it, and the properties use the interpreted facts.

  \<^bold>\<open>What the lemmas show.\<close> Codecs: round trips in both directions, exactness of what is accepted,
  and detection of every corrupted byte, by the linearity and invertibility of the CRC step.
  Validator and negotiator: verdicts characterised as iff. Registry, scheduler, tracker, router,
  manager: invariants over arbitrary runs, conservation of packets and requests, and refinement
  of an abstract map of subscriptions. Host and composer: reports, all-or-nothing start with roll
  back, dependency order. Session: the state machine as an inductive relation, what each
  operation does to the state, over whole runs what a session starts, grants, keeps and logs, and
  which modules its host then starts. Input and display modules: what each payload
  decoder accepts is exactly what the encoder gives, but for unused flag bits of video; over every run of calls and packets the
  counters of a module balance, no delta frame is shown across a gap, and an injected event is the
  event that was sent. Clipboard: every message survives the wire and nothing else is accepted, names
  of files from a peer are safe whatever it sends, a locked source stays until its lock is released,
  and a file drained in any ranges is the file. Clipboard module: over every run the window in flight is
  exactly what the peer has not acknowledged, each request of the peer is answered by one packet within
  the offer and the policy, what one side reads is what the other receives, and pausing leaves nothing
  open. Transcoder: its two methods agree, and content written to a native clipboard is read back as it
  was, under stated conditions. Some theorems show what the code does not prevent: a peer's offer
  replacing ours in the registry, a cancel ending a request of its receiver, a fragment of HTML cut at
  the marker of its own end, and a text that ends in half a surrogate pair giving ill-formed UTF-8. This theory adds the properties that cross
  components, from what a caller requests to which module may run.

  \<^bold>\<open>Termination and bounds.\<close> All definitions are total. The depth-first visit of the composer takes
  fuel, one more than the number of manifests; \<open>visit_total\<close> shows that this is enough for every
  list of manifests, cycles included, because each nested call marks one more manifest. The loops that
  drain a file range by range end because the offset grows with every round and the round before it
  would wrap is an error. Counters
  (\<open>nextMessageId\<close>, subscription tokens, session ids) are 64-bit words that wrap; theorems about
  fresh ids state how many may be issued. The statistics counters of the modules, which the code only
  increments and prints, are integers here: they would have to count \<open>2^64\<close> frames to differ.

  \<^bold>\<open>Not modelled.\<close> Locks and threads: each operation is atomic, as the code's mutexes make it, except
  that the re-entrancy of a handler into the component that calls it is outside the model of the
  request tracker. Memory: objects live as long as they are referenced, so a dangling pointer is
  not a value. Screen capture, encoders, decoders, renderers, input capture and injection are
  interfaces the modules call: theorems hold for every behaviour of them. So are the clipboard of the
  platform, its sources, the transcoder and the drag sink; the clipboard's drag coordinates are not
  part of this model, nor is the runtime (\<open>src/runtime\<close>). Floating
  point is not modelled: the scales of clipboard messages are a type variable with the four operations
  on them as a parameter, and a round trip assumes of a scale that it survives them; the adapters, the
  platform code and the applications drive Qt and operating-system objects whose behaviour is not
  in the repository. Strings of messages are modelled literally, since reports carry them.
\<close>

section \<open>From a request to a running module\<close>

definition licensed_for :: "session_context \<Rightarrow> feature_set" where
  "licensed_for ctx =
     (if cx_licensedFeatures ctx = 0 then cx_requestedFeatures ctx else cx_licensedFeatures ctx)"

definition enabled_for :: "session_context \<Rightarrow> feature_set" where
  "enabled_for ctx = (if cx_policyFeatures ctx = 0 then licensed_for ctx else cx_policyFeatures ctx)"

lemma normalizeContext_features:
  "cx_licensedFeatures (fst (normalizeContext ctx role n)) = licensed_for ctx"
  "cx_policyFeatures (fst (normalizeContext ctx role n)) = enabled_for ctx"
  by (simp_all add: normalizeContext_def Let_def split_beta features_empty_def licensed_for_def
      enabled_for_def)

lemma created_session:
  assumes "createSession options role sm w = (sessionId, sm', w')"
  obtains entry where "map_find (sm_sessions sm') sessionId = Some entry"
    and "se_state (sy_session entry) = ST_Created"
    and "se_context (sy_session entry) =
      fst (normalizeContext (sc_context options) role (sm_nextSessionId sm))"
    and "se_policy (sy_session entry) = Some (static_policy_interface
      \<lparr>st_licensedFeatures = licensed_for (sc_context options),
       st_policyFeatures = enabled_for (sc_context options)\<rparr>)"
    and "sy_network entry \<noteq> None"
  using createSession_sessions(3) [OF assms]
  by (auto simp: createPolicyEngine_def normalizeContext_features setPolicyFeatures_def
      new_static_policy_def)

lemma startable_authorised:
  assumes "module_startable (session_host_env env (Some (static_policy_interface p))) opts h x m"
  shows "feature_has (st_licensedFeatures p) (mf_feature (mi_manifest (sv_modules env) m x)) \<and>
    feature_has (st_policyFeatures p) (mf_feature (mi_manifest (sv_modules env) m x))"
  using assms
  by (simp add: module_startable_def Let_def policy_decision_for_def session_host_env_def
      static_policy_interface_def authorizeModule_allowed)

text \<open>The modules a session may run: of a feature licensed and enabled, and allowed if requested.\<close>

definition authorised_module :: "session_context \<Rightarrow> 'm session \<Rightarrow> module_manifest \<Rightarrow> bool" where
  "authorised_module ctx s manifest \<longleftrightarrow>
     feature_has (licensed_for ctx) (mf_feature manifest) \<and>
     feature_has (enabled_for ctx) (mf_feature manifest) \<and>
     (feature_has (cx_requestedFeatures ctx) (mf_feature manifest) \<longrightarrow>
        feature_has (cx_allowedFeatures (se_context s)) (mf_feature manifest))"

lemma logged_session_manifest [simp]:
  "mi_manifest (he_modules (logged (session_host_env env policy))) m x = mi_manifest (sv_modules env) m (fst x)"
  by (simp add: logged_def logged_modules_def session_host_env_def)

text \<open>
  C28. What a session grants and what its host then starts: a session made by the manager starts, and
  its allowed features are exactly the requested ones that are licensed and enabled by policy, where
  an empty licence stands for the requested features and an empty policy for the licence. Whatever
  modules are then attached to its host, in whatever world, a batch start calls \<open>start\<close> only on
  attached modules whose feature is licensed and enabled, even those that fail to start or are rolled
  back, and reports no other as started; if their feature was requested, it is allowed in the session.
\<close>

theorem sessions_grant_what_is_authorised:
  assumes "createSession options role sm w = (sessionId, sm', w')"
    and "map_find (sm_sessions sm') sessionId = Some entry"
    and "session_start (sy_session entry, entry_world sm' entry w') = (ok, s, x)"
    and "startAllowedModules (logged (session_host_env env (se_policy s))) opts h (y, []) =
      (reports, h', y')"
  shows "ok \<and> se_state s = ST_Running \<and> se_host s = Some (new_host (se_context s)) \<and>
    cx_allowedFeatures (se_context s) = cx_requestedFeatures (sc_context options) AND
      licensed_for (sc_context options) AND enabled_for (sc_context options) \<and>
    (\<forall>m. Started m \<in> set (snd y') \<longrightarrow> m \<in> set (ordered_modules h) \<and>
       authorised_module (sc_context options) s (mi_manifest (sv_modules env) m y)) \<and>
    list_all2 (\<lambda>m report. mr_moduleId report = mf_moduleId (mi_manifest (sv_modules env) m y) \<and>
       (mr_started report \<longrightarrow>
          authorised_module (sc_context options) s (mi_manifest (sv_modules env) m y)))
      (ordered_modules h) reports"
proof -
  from created_session [OF assms(1)] assms(2) have made: "se_state (sy_session entry) = ST_Created"
    "se_context (sy_session entry) =
      fst (normalizeContext (sc_context options) role (sm_nextSessionId sm))"
    "se_policy (sy_session entry) = Some (static_policy_interface
      \<lparr>st_licensedFeatures = licensed_for (sc_context options),
       st_policyFeatures = enabled_for (sc_context options)\<rparr>)"
    and net: "sy_network entry \<noteq> None"
    by (metis option.inject)+
  have start: "ok \<and> se_state s = ST_Running \<and> se_policy s = se_policy (sy_session entry) \<and>
      se_host s = Some (new_host (se_context s)) \<and> cx_allowedFeatures (se_context s) =
        authorized_features (se_policy (sy_session entry)) (se_context (sy_session entry))"
    using assms(3) session_start_result [OF made(1), of "entry_world sm' entry w'"] net
    by (auto simp: entry_world_def)
  have allowed: "cx_allowedFeatures (se_context s) = cx_requestedFeatures (sc_context options) AND
      licensed_for (sc_context options) AND enabled_for (sc_context options)"
    using start by (simp add: made authorized_features_def static_policy_interface_def
        authorizeFeatures_def normalizeContext_fields)
  have policy: "se_policy s = Some (static_policy_interface
      \<lparr>st_licensedFeatures = licensed_for (sc_context options),
       st_policyFeatures = enabled_for (sc_context options)\<rparr>)"
    using start made(3) by simp
  have authorised: "authorised_module (sc_context options) s (mi_manifest (sv_modules env) m y)"
    if "module_startable (session_host_env env (se_policy s)) opts h y m" for m
    using startable_authorised [OF that [unfolded policy]]
    by (simp add: authorised_module_def allowed feature_has_and)
  have "m \<in> set (ordered_modules h) \<and>
      authorised_module (sc_context options) s (mi_manifest (sv_modules env) m y)"
    if "Started m \<in> set (snd y')" for m
    using only_startable_modules_start [OF assms(4) that] authorised by blast
  moreover have "list_all2 (\<lambda>m report. mr_moduleId report = mf_moduleId (mi_manifest (sv_modules env) m y) \<and>
      (mr_started report \<longrightarrow> authorised_module (sc_context options) s (mi_manifest (sv_modules env) m y)))
    (ordered_modules h) reports"
    using startAllowedModules_reports [of "logged (session_host_env env (se_policy s))" "(y, [])" opts h]
    unfolding assms(4) fst_conv
    by (rule list_all2_mono) (auto simp: logged_module_startable authorised)
  ultimately show ?thesis using start allowed by blast
qed

text \<open>
  A session that asked for the features 1 and 4 with a licence for 1 and 2, whose host then has a
  module of feature 1 and one of feature 4.
\<close>

definition feature_module :: "string \<Rightarrow> feature_set \<Rightarrow> module_manifest" where
  "feature_module moduleId feature = default_manifest\<lparr>mf_moduleId := moduleId, mf_feature := feature\<rparr>"

definition two_modules :: "module_manifest module_host" where
  "two_modules = (new_host default_context)\<lparr>
     mh_modules := [(''a'', feature_module ''a'' 1), (''b'', feature_module ''b'' 4)],
     mh_order := [''a'', ''b'']\<rparr>"

definition licence_options :: session_create_options where
  "licence_options = \<lparr>sc_context = default_context\<lparr>cx_requestedFeatures := 5, cx_licensedFeatures := 3\<rparr>,
     sc_minimumChannels = []\<rparr>"

definition licence_create ::
    "session_id \<times> (module_manifest, unit, unit) session_manager \<times> unit" where
  "licence_create = createSession licence_options SR_Client new_session_manager ()"

theorem sessions_grant_what_is_authorised_witness:
  "\<exists>entry s x reports h' y'.
     map_find (sm_sessions (fst (snd licence_create))) (fst licence_create) = Some entry \<and>
     session_start (sy_session entry, entry_world (fst (snd licence_create)) entry ()) = (True, s, x) \<and>
     cx_allowedFeatures (se_context s) = 1 \<and>
     startAllowedModules (logged (session_host_env sample_session_env (se_policy s)))
       (default_start_options\<lparr>op_allowPartialStart := True\<rparr>) two_modules (x, []) = (reports, h', y') \<and>
     Started (feature_module ''b'' 4) \<notin> set (snd y') \<and>
     map mr_moduleId reports = [''a'', ''b''] \<and>
     \<not> mr_started (reports ! 1)"
proof -
  obtain sessionId sm' where create: "licence_create = (sessionId, sm', ())"
    by (metis prod.exhaust old.unit.exhaust)
  note made = create [unfolded licence_create_def]
  obtain entry where entry: "map_find (sm_sessions sm') sessionId = Some entry"
    using created_session [OF made] by metis
  obtain ok s x where start: "session_start (sy_session entry, entry_world sm' entry ()) = (ok, s, x)"
    by (metis prod.exhaust)
  obtain reports h' y' where batch:
    "startAllowedModules (logged (session_host_env sample_session_env (se_policy s)))
       (default_start_options\<lparr>op_allowPartialStart := True\<rparr>) two_modules (x, []) = (reports, h', y')"
    by (metis prod.exhaust)
  note facts = sessions_grant_what_is_authorised [OF made entry start batch]
  have started: "session_start (sy_session entry, entry_world sm' entry ()) = (True, s, x)"
    using facts start by simp
  have modules: "ordered_modules two_modules = [feature_module ''a'' 1, feature_module ''b'' 4]"
    by (simp add: ordered_modules_def two_modules_def List.map_filter_def)
  have refused: "\<not> authorised_module (sc_context licence_options) s (feature_module ''b'' 4)"
    by (simp add: authorised_module_def feature_module_def default_manifest_def licensed_for_def
        licence_options_def default_context_def feature_has_def)
  have "cx_allowedFeatures (se_context s) = 1"
    using facts by (simp add: licensed_for_def enabled_for_def licence_options_def default_context_def)
  moreover have "Started (feature_module ''b'' 4) \<notin> set (snd y')"
    using facts refused by (auto simp: sample_session_env_def calm_modules_def)
  moreover have "map mr_moduleId reports = [''a'', ''b''] \<and>
      \<not> mr_started (reports ! 1)"
    using facts refused
    by (auto simp: modules sample_session_env_def calm_modules_def list_all2_Cons1 feature_module_def)
  ultimately show ?thesis
    unfolding create fst_conv snd_conv using entry batch started
    by (elim conjE, intro exI conjI) assumption+
qed

text \<open>
  One module blocks the suite: in a batch start without partial start, on any host that has
  the catalogue's \<open>peripheral.usb\<close> module among its modules but no module \<open>peripheral.bridge\<close>
  (which no suite of the catalogue provides), no module at all is started, and neither the host
  nor the modules are touched.
\<close>

theorem usb_without_bridge_blocks_the_batch:
  assumes "m \<in> set (ordered_modules h)" and "mi_manifest (he_modules env) m w = catalog_peripheralUsb"
    and "host_module h ''peripheral.bridge'' = None" and "\<not> op_allowPartialStart options"
  shows "\<exists>reports. startAllowedModules env options h w = (reports, h, w) \<and>
    list_all (\<lambda>report. \<not> mr_started report \<and> \<not> dc_allowed (mr_decision report)) reports"
proof -
  have "\<not> module_startable env options h w m"
    using assms(2,3) by (simp add: module_startable_def Let_def catalog_peripheralUsb_def makeBase_def
        host_module_def)
  then have "list_ex (\<lambda>c. \<not> candidate_allowed c) (map (preflight env options h w) (ordered_modules h))"
    using assms(1) by (auto simp: list_ex_iff preflight_allowed_iff)
  then show ?thesis
    using assms(4)
    by (simp add: startAllowedModules_def Let_def list_all_iff markSkippedByBatch_def)
qed

definition usb_host :: "module_manifest module_host" where
  "usb_host = (new_host default_context)\<lparr>
     mh_modules := [(''peripheral.usb'', catalog_peripheralUsb)], mh_order := [''peripheral.usb'']\<rparr>"

theorem usb_without_bridge_blocks_the_batch_witness:
  "\<exists>reports. startAllowedModules calm_env default_start_options usb_host () = (reports, usb_host, ()) \<and>
    list_all (\<lambda>report. \<not> mr_started report \<and> \<not> dc_allowed (mr_decision report)) reports"
  by (rule usb_without_bridge_blocks_the_batch [of catalog_peripheralUsb])
    (simp_all add: usb_host_def ordered_modules_def List.map_filter_def calm_env_def calm_modules_def
      host_module_def default_start_options_def new_host_def)

end
